(* ===== verification/Northwind_Prelude.thy ===== *)
theory Northwind_Prelude
  imports Main "HOL-Library.List_Lexorder" "HOL-Library.Char_ord" "HOL-Library.Product_Lexorder"
begin

text \<open>
  Shared vocabulary of the development: results with errors as values, ordered guard
  lists (a sequence of Python statements \<open>if c: raise e\<close>), instants and
  timezone-awareness of Python datetimes, the insertion-ordered deduplication
  \<open>list(dict.fromkeys(xs))\<close>, decimal rendering of integers in f-strings, insertion-ordered
  dictionaries, and the generic locales for machines that keep an invariant and for
  machines whose states only grow along a preorder.
\<close>

named_theorems validity \<open>definitions of model validators\<close>
named_theorems operation \<open>definitions of state-changing operations\<close>

section \<open>Results and ordered guards\<close>

fun guarded :: "(bool \<times> 'e) list \<Rightarrow> 'e + 'a \<Rightarrow> 'e + 'a" where
  "guarded [] k = k"
| "guarded ((c, e) # gs) k = (if c then Inl e else guarded gs k)"

definition bind_result :: "'e + 'a \<Rightarrow> ('a \<Rightarrow> 'e + 'b) \<Rightarrow> 'e + 'b" where
  "bind_result r f = (case r of Inl e \<Rightarrow> Inl e | Inr x \<Rightarrow> f x)"

definition map_error :: "('e \<Rightarrow> 'f) \<Rightarrow> 'e + 'a \<Rightarrow> 'f + 'a" where
  "map_error h r = (case r of Inl e \<Rightarrow> Inl (h e) | Inr x \<Rightarrow> Inr x)"

definition passes :: "(bool \<times> 'e) list \<Rightarrow> bool" where
  "passes gs \<longleftrightarrow> list_all (\<lambda>g. \<not> fst g) gs"

lemma passes_simps [simp]:
  "passes []"
  "passes ((c, e) # gs) \<longleftrightarrow> \<not> c \<and> passes gs"
  "passes (xs @ ys) \<longleftrightarrow> passes xs \<and> passes ys"
  by (simp_all add: passes_def)

lemma guarded_append: "guarded (xs @ ys) k = guarded xs (guarded ys k)"
  by (induction xs k rule: guarded.induct) auto

lemma guarded_passes: "passes gs \<Longrightarrow> guarded gs k = k"
  by (induction gs k rule: guarded.induct) auto

lemma guarded_Inr_iff: "guarded gs k = Inr x \<longleftrightarrow> passes gs \<and> k = Inr x"
  by (induction gs k rule: guarded.induct) auto

lemma guarded_Inl_in: "guarded gs k = Inl e \<Longrightarrow> (True, e) \<in> set gs \<or> k = Inl e"
  by (induction gs k rule: guarded.induct) (auto split: if_splits)

lemma guarded_not_passes: "\<not> passes gs \<Longrightarrow> \<exists>e. guarded gs k = Inl e \<and> (True, e) \<in> set gs"
  by (induction gs k rule: guarded.induct) auto

lemma bind_result_simps [simp]:
  "bind_result (Inl e) f = Inl e"
  "bind_result (Inr x) f = f x"
  by (simp_all add: bind_result_def)

lemma bind_result_Inr_iff: "bind_result r f = Inr y \<longleftrightarrow> (\<exists>x. r = Inr x \<and> f x = Inr y)"
  by (cases r) auto

lemma map_error_simps [simp]:
  "map_error h (Inl e) = Inl (h e)"
  "map_error h (Inr x) = Inr x"
  by (simp_all add: map_error_def)

lemma map_error_Inr_iff [simp]: "map_error h r = Inr x \<longleftrightarrow> r = Inr x"
  by (cases r) auto

fun opt_all :: "('a \<Rightarrow> bool) \<Rightarrow> 'a option \<Rightarrow> bool" where
  "opt_all P None = True"
| "opt_all P (Some x) = P x"

lemma opt_all_iff: "opt_all P x \<longleftrightarrow> (\<forall>y. x = Some y \<longrightarrow> P y)"
  by (cases x) auto

section \<open>Datetimes\<close>

text \<open>
  A timezone-aware Python datetime is its UTC instant in microseconds; a naive one is its
  wall-clock reading. Aware and naive values are never equal, and ordering them raises
  \<open>TypeError\<close> (\<open>incomparable\<close>). Adding a \<open>timedelta\<close> keeps the awareness.
\<close>

datatype datetime = Naive (instant: int) | Aware (instant: int)

abbreviation is_naive :: "datetime \<Rightarrow> bool" where
  "is_naive d \<equiv> is_Naive d"

definition incomparable :: "datetime \<Rightarrow> datetime \<Rightarrow> bool" where
  "incomparable a b \<longleftrightarrow> is_Naive a \<noteq> is_Naive b"

definition dt_before :: "datetime \<Rightarrow> datetime \<Rightarrow> bool" where
  "dt_before a b \<longleftrightarrow> instant a < instant b"

definition dt_add :: "datetime \<Rightarrow> int \<Rightarrow> datetime" where
  "dt_add d us = (case d of Naive t \<Rightarrow> Naive (t + us) | Aware t \<Rightarrow> Aware (t + us))"

definition dt_max :: "datetime \<Rightarrow> datetime \<Rightarrow> datetime" where
  "dt_max a b = (if dt_before a b then b else a)"

lemma dt_simps [simp]:
  "incomparable (Aware s) (Aware t) \<longleftrightarrow> False"
  "incomparable (Naive s) (Naive t) \<longleftrightarrow> False"
  "incomparable (Aware s) (Naive t) \<longleftrightarrow> True"
  "incomparable (Naive s) (Aware t) \<longleftrightarrow> True"
  "dt_before (Aware s) (Aware t) \<longleftrightarrow> s < t"
  "dt_add (Aware s) us = Aware (s + us)"
  "dt_add (Naive s) us = Naive (s + us)"
  "is_Naive (dt_add d us) \<longleftrightarrow> is_Naive d"
  by (cases d; simp add: incomparable_def dt_before_def dt_add_def)+

lemma incomparable_refl [simp]: "\<not> incomparable d d"
  by (simp add: incomparable_def)

lemma dt_before_irrefl [simp]: "\<not> dt_before d d"
  by (simp add: dt_before_def)

lemma dt_before_trans: "dt_before a b \<Longrightarrow> \<not> dt_before c b \<Longrightarrow> dt_before a c"
  by (simp add: dt_before_def)

lemma aware_cases: "\<not> is_Naive d \<Longrightarrow> (\<And>t. d = Aware t \<Longrightarrow> P) \<Longrightarrow> P"
  by (cases d) auto

section \<open>Insertion-ordered deduplication\<close>

primrec uniq_from :: "'a list \<Rightarrow> 'a list \<Rightarrow> 'a list" where
  "uniq_from seen [] = []"
| "uniq_from seen (x # xs) =
     (if x \<in> set seen then uniq_from seen xs else x # uniq_from (x # seen) xs)"

definition fromkeys :: "'a list \<Rightarrow> 'a list" where
  "fromkeys xs = uniq_from [] xs"

lemma set_uniq_from: "set (uniq_from seen xs) = set xs - set seen"
  by (induction xs arbitrary: seen) auto

lemma distinct_uniq_from: "distinct (uniq_from seen xs)"
  by (induction xs arbitrary: seen) (auto simp: set_uniq_from)

lemma length_uniq_from: "length (uniq_from seen xs) \<le> length xs"
  by (induction xs arbitrary: seen) (auto simp: le_SucI)

lemma uniq_from_distinct: "distinct xs \<Longrightarrow> set xs \<inter> set seen = {} \<Longrightarrow> uniq_from seen xs = xs"
  by (induction xs arbitrary: seen) auto

lemma uniq_from_append_seen:
  "set ys \<subseteq> set seen \<union> set xs \<Longrightarrow> uniq_from seen (xs @ ys) = uniq_from seen xs"
proof (induction xs arbitrary: seen)
  case Nil
  then show ?case by (induction ys) auto
next
  case (Cons x xs)
  have "set ys \<subseteq> set (x # seen) \<union> set xs" using Cons.prems by auto
  moreover have "x \<in> set seen \<Longrightarrow> set ys \<subseteq> set seen \<union> set xs" using Cons.prems by auto
  ultimately show ?case using Cons.IH by simp
qed

lemma set_fromkeys [simp]: "set (fromkeys xs) = set xs"
  by (simp add: fromkeys_def set_uniq_from)

lemma distinct_fromkeys [simp]: "distinct (fromkeys xs)"
  by (simp add: fromkeys_def distinct_uniq_from)

lemma length_fromkeys: "length (fromkeys xs) \<le> length xs"
  by (simp add: fromkeys_def length_uniq_from)

lemma fromkeys_id: "distinct xs \<Longrightarrow> fromkeys xs = xs"
  by (simp add: fromkeys_def uniq_from_distinct)

lemma fromkeys_append_subset: "set ys \<subseteq> set xs \<Longrightarrow> fromkeys (xs @ ys) = fromkeys xs"
  by (simp add: fromkeys_def uniq_from_append_seen)

lemma fromkeys_eq_Nil [simp]: "fromkeys xs = [] \<longleftrightarrow> xs = []"
  by (cases xs) (simp_all add: fromkeys_def)

lemma distinct_singleton: "distinct xs \<Longrightarrow> set xs = {x} \<Longrightarrow> xs = [x]"
  by (cases xs; cases "tl xs") auto

section \<open>Text\<close>

fun decimal_nat :: "nat \<Rightarrow> string" where
  "decimal_nat n =
     (if n < 10 then [char_of (48 + n)] else decimal_nat (n div 10) @ [char_of (48 + n mod 10)])"

declare decimal_nat.simps [simp del]

definition decimal :: "int \<Rightarrow> string" where
  "decimal i = (if i < 0 then ''-'' @ decimal_nat (nat (- i)) else decimal_nat (nat i))"

definition join :: "string \<Rightarrow> string list \<Rightarrow> string" where
  "join sep xs = (case xs of [] \<Rightarrow> [] | y # ys \<Rightarrow> y @ concat (map (\<lambda>s. sep @ s) ys))"

definition bounded_text :: "nat \<Rightarrow> nat \<Rightarrow> string \<Rightarrow> bool" where
  "bounded_text lo hi s \<longleftrightarrow> lo \<le> length s \<and> length s \<le> hi"

definition sorted_union :: "string list \<Rightarrow> string list \<Rightarrow> string list" where
  "sorted_union xs ys = sort (remdups (xs @ ys))"

lemma set_sorted_union [simp]: "set (sorted_union xs ys) = set xs \<union> set ys"
  by (simp add: sorted_union_def)

lemma distinct_sorted_union [simp]: "distinct (sorted_union xs ys)"
  by (simp add: sorted_union_def)

fun decimal_value :: "string \<Rightarrow> nat" where
  "decimal_value s = foldl (\<lambda>v c. 10 * v + (of_char c - 48)) 0 s"

declare decimal_value.simps [simp del]

lemma decimal_value_snoc: "decimal_value (s @ [c]) = 10 * decimal_value s + (of_char c - 48)"
  by (simp add: decimal_value.simps)

lemma decimal_value_nat: "decimal_value (decimal_nat n) = n"
proof (induction n rule: decimal_nat.induct)
  case (1 n)
  have digit: "of_char (char_of (48 + d) :: char) - (48::nat) = d" if "d < 10" for d :: nat
    using that by simp
  show ?case
  proof (cases "n < 10")
    case True
    then show ?thesis using digit [of n]
      by (simp add: decimal_nat.simps [of n] decimal_value.simps)
  next
    case False
    have "decimal_value (decimal_nat n) = 10 * (n div 10) + n mod 10"
      using False 1 digit [of "n mod 10"]
      by (simp add: decimal_nat.simps [of n] decimal_value_snoc del: of_char_of)
    then show ?thesis by simp
  qed
qed

lemma decimal_nat_inject: "decimal_nat m = decimal_nat n \<Longrightarrow> m = n"
  by (metis decimal_value_nat)

lemma decimal_inject_nonneg: "0 \<le> i \<Longrightarrow> 0 \<le> j \<Longrightarrow> decimal i = decimal j \<Longrightarrow> i = j"
  by (auto simp: decimal_def dest: decimal_nat_inject)

section \<open>Insertion-ordered dictionaries\<close>

text \<open>
  A Python dict iterates in insertion order and an assignment to an existing key keeps
  the key's position. Stores that are iterated by the code are association lists.
\<close>

primrec dict_put :: "'k \<Rightarrow> 'v \<Rightarrow> ('k \<times> 'v) list \<Rightarrow> ('k \<times> 'v) list" where
  "dict_put k v [] = [(k, v)]"
| "dict_put k v (p # ps) = (if fst p = k then (k, v) # ps else p # dict_put k v ps)"

abbreviation dict_get :: "('k \<times> 'v) list \<Rightarrow> 'k \<Rightarrow> 'v option" where
  "dict_get d k \<equiv> map_of d k"

abbreviation dict_values :: "('k \<times> 'v) list \<Rightarrow> 'v list" where
  "dict_values d \<equiv> map snd d"

lemma dict_get_put [simp]: "dict_get (dict_put k v d) = (dict_get d)(k \<mapsto> v)"
  by (induction d) (auto simp: fun_eq_iff)

lemma dict_keys_put: "set (map fst (dict_put k v d)) = insert k (set (map fst d))"
  by (induction d) auto

lemma dict_put_distinct: "distinct (map fst d) \<Longrightarrow> distinct (map fst (dict_put k v d))"
proof (induction d)
  case (Cons p d)
  then show ?case using dict_keys_put [of k v d] by (auto simp: image_iff)
qed simp

lemma dict_values_put_subset: "set (dict_values (dict_put k v d)) \<subseteq> insert v (set (dict_values d))"
  by (induction d) auto

lemma dict_value_iff:
  "distinct (map fst d) \<Longrightarrow> v \<in> set (dict_values d) \<longleftrightarrow> (\<exists>k. dict_get d k = Some v)"
  by (force simp: map_of_eq_Some_iff)

lemma dict_put_values_iff:
  assumes "distinct (map fst d)"
  shows "x \<in> set (dict_values (dict_put k v d)) \<longleftrightarrow>
    x = v \<or> (\<exists>k'. k' \<noteq> k \<and> dict_get d k' = Some x)"
  using dict_value_iff [OF dict_put_distinct [OF assms, of k v], of x] by auto

section \<open>Machines that keep an invariant\<close>

text \<open>
  The contract several stores share. An operation that raises leaves the store unchanged;
  an operation that returns keeps the store's invariant, provided its arguments are ones a
  caller may pass in that state (\<open>allowed\<close>). \<open>commit\<close> is the visible effect of one call, \<open>run\<close>
  that of a sequence of calls, \<open>admissible\<close> says that each call of a sequence is allowed
  where it happens.
\<close>

definition commit :: "('s \<Rightarrow> 'op \<Rightarrow> 'e + 's) \<Rightarrow> 's \<Rightarrow> 'op \<Rightarrow> 's" where
  "commit exec s c = (case exec s c of Inl _ \<Rightarrow> s | Inr s' \<Rightarrow> s')"

primrec run :: "('s \<Rightarrow> 'op \<Rightarrow> 'e + 's) \<Rightarrow> 's \<Rightarrow> 'op list \<Rightarrow> 's" where
  "run exec s [] = s"
| "run exec s (c # cs) = run exec (commit exec s c) cs"

primrec admissible ::
  "('s \<Rightarrow> 'op \<Rightarrow> bool) \<Rightarrow> ('s \<Rightarrow> 'op \<Rightarrow> 'e + 's) \<Rightarrow> 's \<Rightarrow> 'op list \<Rightarrow> bool" where
  "admissible allowed exec s [] = True"
| "admissible allowed exec s (c # cs) =
     (allowed s c \<and> admissible allowed exec (commit exec s c) cs)"

lemma commit_cases:
  "(exec s c = Inr (commit exec s c) \<Longrightarrow> P) \<Longrightarrow> (commit exec s c = s \<Longrightarrow> P) \<Longrightarrow> P"
  by (cases "exec s c") (auto simp: commit_def)

lemma run_append: "run exec s (xs @ ys) = run exec (run exec s xs) ys"
  by (induction xs arbitrary: s) auto

locale invariant_machine =
  fixes exec :: "'s \<Rightarrow> 'op \<Rightarrow> 'e + 's"
    and allowed :: "'s \<Rightarrow> 'op \<Rightarrow> bool"
    and inv :: "'s \<Rightarrow> bool"
  assumes exec_inv: "inv s \<Longrightarrow> allowed s c \<Longrightarrow> exec s c = Inr s' \<Longrightarrow> inv s'"
begin

lemma commit_inv: "inv s \<Longrightarrow> allowed s c \<Longrightarrow> inv (commit exec s c)"
  by (rule commit_cases [of exec s c]) (auto intro: exec_inv)

lemma run_inv: "inv s \<Longrightarrow> admissible allowed exec s cs \<Longrightarrow> inv (run exec s cs)"
  by (induction cs arbitrary: s) (auto intro: commit_inv)

end

locale growing_machine = invariant_machine +
  fixes grows :: "'a \<Rightarrow> 'a \<Rightarrow> bool"
  assumes grows_refl: "grows s s"
    and grows_trans: "grows s t \<Longrightarrow> grows t u \<Longrightarrow> grows s u"
    and exec_grows: "inv s \<Longrightarrow> allowed s c \<Longrightarrow> exec s c = Inr s' \<Longrightarrow> grows s s'"
begin

lemma commit_grows: "inv s \<Longrightarrow> allowed s c \<Longrightarrow> grows s (commit exec s c)"
  by (rule commit_cases [of exec s c]) (auto intro: exec_grows grows_refl)

lemma run_grows: "inv s \<Longrightarrow> admissible allowed exec s cs \<Longrightarrow> grows s (run exec s cs)"
proof (induction cs arbitrary: s)
  case (Cons c cs)
  then show ?case
    using grows_trans [OF commit_grows Cons.IH [OF commit_inv]] by simp
qed (simp add: grows_refl)

end

end
