(* ===== verification/Recovery_Registry.thy ===== *)
theory Recovery_Registry
  imports Northwind_Prelude
begin

text \<open>
  The immutable Recovery Policy Registry, \<open>backend/domain/recovery_policy_registry.py\<close>:
  normalised triggers, published rules with their contract validator, the matcher, the
  classifier (exactly one rule or a typed failure) and the registry lookups. String-literal
  types of the source are datatypes whose constructors carry the literal's name; frozensets
  are sets; optional fields are options.
\<close>

section \<open>Coordinates and literal types\<close>

definition INCOMPLETE_CLAIM_FOLLOW_UP_POLICY_ID :: string where
  "INCOMPLETE_CLAIM_FOLLOW_UP_POLICY_ID = ''incomplete_claim_follow_up''"
definition INCOMPLETE_CLAIM_FOLLOW_UP_POLICY_VERSION :: int where
  "INCOMPLETE_CLAIM_FOLLOW_UP_POLICY_VERSION = 1"
definition INCOMPLETE_CLAIM_FOLLOW_UP_MAX_AUTO_ATTEMPTS :: int where
  "INCOMPLETE_CLAIM_FOLLOW_UP_MAX_AUTO_ATTEMPTS = 3"

text \<open>Durations are in microseconds, the resolution of \<open>timedelta\<close>.\<close>

definition INCOMPLETE_CLAIM_FOLLOW_UP_RETRY_INTERVAL :: int where
  "INCOMPLETE_CLAIM_FOLLOW_UP_RETRY_INTERVAL = 24 * 3600 * 1000000"
definition INCOMPLETE_CLAIM_FOLLOW_UP_RECOVERY_DEADLINE :: int where
  "INCOMPLETE_CLAIM_FOLLOW_UP_RECOVERY_DEADLINE = 7 * 24 * 3600 * 1000000"

datatype recovery_source =
    Source_model | Source_tool | Source_retrieval | Source_repository
  | Source_external | Source_human | Source_timer | Source_retention

datatype delivery_state =
    Delivery_not_applicable | Delivery_not_submitted | Delivery_submitted | Delivery_unknown

datatype retry_mode =
    Retry_none | Retry_claimant_initiated | Retry_bounded_auto | Retry_same_operation
  | Retry_reconcile_before_retry | Retry_reload_authoritative | Retry_staff_authorised
  | Retry_scheduled_policy

datatype continuation =
    Runtime_continue | Runtime_wait_for_user | Runtime_wait_for_external
  | Runtime_pause_for_review | Runtime_fail_safe

datatype decision_code =
    Code_continue_with_limitation | Code_fail_safe | Code_retry_same_operation
  | Code_reconcile_existing_operation | Code_reload_authoritative_state | Code_pause_for_review
  | Code_execute_follow_up | Code_block_follow_up | Code_expire_recovery | Code_retention_eligible
  | Code_retention_hold | Code_retention_reconcile | Code_deny_access

datatype recovery_authority =
    Auth_message | Auth_session | Auth_claim | Auth_external_task | Auth_work_item
  | Auth_handoff | Auth_follow_up | Auth_audit | Auth_retention_operation

datatype recovery_action =
    Act_message_preserve_checkpoint | Act_claim_preserve_revision | Act_claim_reload
  | Act_external_retry_same_operation | Act_external_reconcile | Act_work_item_ensure
  | Act_handoff_ensure | Act_follow_up_execute | Act_follow_up_block | Act_claim_expire
  | Act_audit_append | Act_retention_execute | Act_retention_reconcile | Act_access_deny

datatype work_item_kind =
    Kind_question | Kind_confirmation | Kind_evidence | Kind_professional_review
  | Kind_external | Kind_system

datatype responsibility = Resp_claimant | Resp_staff | Resp_system | Resp_external

datatype claim_effect =
    Effect_revision_unchanged_no_unapproved_write | Effect_existing_authority_only
  | Effect_reload_authoritative_state | Effect_terminal_transition_via_existing_contract

section \<open>Triggers\<close>

record recovery_trigger =
  tg_source :: recovery_source
  tg_outcome_code :: string
  tg_delivery_state :: "delivery_state option"
  tg_delivery_certain :: "bool option"
  tg_retryable :: "bool option"
  tg_blocking :: "bool option"
  tg_side_effect_may_have_happened :: bool

text \<open>The trigger a caller builds by giving only the source and the outcome code.\<close>

definition plain_trigger :: "recovery_source \<Rightarrow> string \<Rightarrow> recovery_trigger" where
  "plain_trigger src code = \<lparr>tg_source = src, tg_outcome_code = code, tg_delivery_state = None,
     tg_delivery_certain = None, tg_retryable = None, tg_blocking = None,
     tg_side_effect_may_have_happened = False\<rparr>"

datatype registry_error =
    TriggerFieldConstraint
  | CertainDeliveryRequiresSubmitted
  | UncertainDeliveryRequiresNotSubmitted
  | RuleFieldConstraint
  | RuleNeedsOutcomeCode
  | RuleNeedsDeliveryState
  | ReconciliationNeedsReconcileMode
  | ReconcileModeNeedsReconciliation
  | AutomaticLimitNeedsAutomaticMode
  | NoRetryCarriesLimit
  | OperationIdentityNeedsExternalTask
  | UnknownRecoveryTrigger
  | AmbiguousRecoveryTrigger

definition validate_delivery_coordinates :: "recovery_trigger \<Rightarrow> registry_error + recovery_trigger" where
  "validate_delivery_coordinates t =
     guarded
       [(\<not> bounded_text 1 120 (tg_outcome_code t), TriggerFieldConstraint),
        (tg_delivery_state t \<noteq> None \<and> tg_delivery_certain t = Some True
           \<and> tg_delivery_state t \<noteq> Some Delivery_submitted, CertainDeliveryRequiresSubmitted),
        (tg_delivery_state t \<noteq> None \<and> tg_delivery_certain t = Some False
           \<and> tg_delivery_state t \<noteq> Some Delivery_not_submitted,
         UncertainDeliveryRequiresNotSubmitted)]
       (Inr t)"

definition resolved_delivery_state :: "recovery_trigger \<Rightarrow> delivery_state" where
  "resolved_delivery_state t =
     (if tg_source t = Source_external \<and> tg_side_effect_may_have_happened t
      then Delivery_unknown
      else case tg_delivery_state t of
        Some d \<Rightarrow> d
      | None \<Rightarrow>
          if tg_source t = Source_external \<and> tg_delivery_certain t = Some True
          then Delivery_submitted
          else if tg_source t = Source_external \<and> tg_delivery_certain t = Some False
          then Delivery_not_submitted
          else if tg_delivery_certain t = Some True then Delivery_submitted
          else Delivery_not_applicable)"

section \<open>Rules and their contract\<close>

record recovery_rule =
  rr_policy_id :: string
  rr_rule_id :: string
  rr_version :: string
  rr_trigger_source :: recovery_source
  rr_outcome_codes :: "string set"
  rr_delivery_states :: "delivery_state set"
  rr_retryable :: "bool option"
  rr_blocking :: "bool option"
  rr_preservation :: string
  rr_claim_effect :: claim_effect
  rr_decision_code :: decision_code
  rr_continuation :: continuation
  rr_retry_mode :: retry_mode
  rr_max_auto_retry :: int
  rr_responsibility :: responsibility
  rr_requires_reconciliation :: bool
  rr_requires_operation_identity :: bool
  rr_work_item_kind :: "work_item_kind option"
  rr_blocks_action :: "string option"
  rr_authoritative_records :: "recovery_authority set"
  rr_required_actions :: "recovery_action list"
  rr_claimant_projection :: string
  rr_staff_projection :: "string option"
  rr_resume_triggers :: "string set"
  rr_resume_entrypoint :: string
  rr_audit_event_type :: string
  rr_retry_interval_seconds :: "int option"
  rr_deadline_seconds :: "int option"
  rr_permitted_events :: "string set"
  rr_handoff_required :: bool

text \<open>
  The declared defaults of the optional fields. The remaining fields are mandatory in the
  source; every rule below sets them, so their values here are never read.
\<close>

definition rule_defaults :: recovery_rule where
  "rule_defaults = \<lparr>
     rr_policy_id = [], rr_rule_id = [], rr_version = [], rr_trigger_source = Source_model,
     rr_outcome_codes = {}, rr_delivery_states = {Delivery_not_applicable},
     rr_retryable = None, rr_blocking = None, rr_preservation = [],
     rr_claim_effect = Effect_existing_authority_only, rr_decision_code = Code_fail_safe,
     rr_continuation = Runtime_fail_safe, rr_retry_mode = Retry_none, rr_max_auto_retry = 0,
     rr_responsibility = Resp_system, rr_requires_reconciliation = False,
     rr_requires_operation_identity = False, rr_work_item_kind = None, rr_blocks_action = None,
     rr_authoritative_records = {}, rr_required_actions = [], rr_claimant_projection = [],
     rr_staff_projection = None, rr_resume_triggers = {}, rr_resume_entrypoint = [],
     rr_audit_event_type = [], rr_retry_interval_seconds = None, rr_deadline_seconds = None,
     rr_permitted_events = {}, rr_handoff_required = False\<rparr>"

definition policy_coordinates :: "(string \<times> string) list" where
  "policy_coordinates =
    [(''claimant_turn.model_timeout'', ''recovery.model_timeout''),
     (''claimant_turn.model_invalid_response'', ''recovery.model_malformed_response''),
     (''runtime.revision_conflict'', ''recovery.revision_conflict''),
     (''external.not_submitted_retryable'', ''recovery.external_not_submitted_retryable''),
     (''external.submitted_unknown'', ''recovery.external_submitted_unknown''),
     (''external.terminal_failure'', ''recovery.external_terminal_failure''),
     (''runtime.high_impact_review_required'', ''recovery.high_impact_review_required''),
     (''incomplete_claim_follow_up.due'', ''incomplete_claim_follow_up''),
     (''incomplete_claim_follow_up.contact_withdrawal'', ''recovery.contact_withdrawal''),
     (''incomplete_claim_follow_up.attempt_exhaustion'', ''recovery.attempt_exhaustion''),
     (''incomplete_claim_follow_up.recovery_expiry'', ''recovery.incomplete_claim_expiry''),
     (''runtime.tool_unavailable.blocking'', ''recovery.tool_unavailable''),
     (''runtime.retrieval_unavailable.blocking'', ''recovery.retrieval_unavailable'')]"

definition rule_policy_id :: "recovery_rule \<Rightarrow> string" where
  "rule_policy_id r =
     (if rr_policy_id r = [] then
        (case map_of policy_coordinates (rr_rule_id r) of Some p \<Rightarrow> p | None \<Rightarrow> rr_rule_id r)
      else rr_policy_id r)"

definition rule_permitted_events :: "recovery_rule \<Rightarrow> string set" where
  "rule_permitted_events r =
     (if rr_permitted_events r = {} then
        (if rr_resume_triggers r = {} then rr_outcome_codes r else rr_resume_triggers r)
      else rr_permitted_events r)"

definition normalise_rule :: "recovery_rule \<Rightarrow> recovery_rule" where
  "normalise_rule r =
     r\<lparr>rr_policy_id := rule_policy_id r, rr_permitted_events := rule_permitted_events r\<rparr>"

definition rule_fields_ok :: "recovery_rule \<Rightarrow> bool" where
  "rule_fields_ok r \<longleftrightarrow>
     length (rr_policy_id r) \<le> 120 \<and> bounded_text 1 120 (rr_rule_id r)
     \<and> bounded_text 1 30 (rr_version r) \<and> bounded_text 1 240 (rr_preservation r)
     \<and> 0 \<le> rr_max_auto_retry r \<and> rr_max_auto_retry r \<le> 3
     \<and> opt_all (\<lambda>s. length s \<le> 120) (rr_blocks_action r)
     \<and> bounded_text 1 500 (rr_claimant_projection r)
     \<and> opt_all (\<lambda>s. length s \<le> 500) (rr_staff_projection r)
     \<and> bounded_text 1 120 (rr_resume_entrypoint r)
     \<and> opt_all (\<lambda>n. 1 \<le> n) (rr_retry_interval_seconds r)
     \<and> opt_all (\<lambda>n. 1 \<le> n) (rr_deadline_seconds r)"

definition rule_contract :: "recovery_rule \<Rightarrow> (bool \<times> registry_error) list" where
  "rule_contract r =
     [(\<not> rule_fields_ok r, RuleFieldConstraint),
      (rr_outcome_codes r = {}, RuleNeedsOutcomeCode),
      (rr_delivery_states r = {}, RuleNeedsDeliveryState),
      (rr_requires_reconciliation r \<and> rr_retry_mode r \<noteq> Retry_reconcile_before_retry,
       ReconciliationNeedsReconcileMode),
      (rr_retry_mode r = Retry_reconcile_before_retry \<and> \<not> rr_requires_reconciliation r,
       ReconcileModeNeedsReconciliation),
      (0 < rr_max_auto_retry r \<and> rr_retry_mode r \<noteq> Retry_bounded_auto
         \<and> rr_retry_mode r \<noteq> Retry_scheduled_policy, AutomaticLimitNeedsAutomaticMode),
      (rr_retry_mode r = Retry_none \<and> rr_max_auto_retry r \<noteq> 0, NoRetryCarriesLimit),
      (rr_requires_operation_identity r \<and> Auth_external_task \<notin> rr_authoritative_records r,
       OperationIdentityNeedsExternalTask)]"

definition validate_policy_contract :: "recovery_rule \<Rightarrow> registry_error + recovery_rule" where
  "validate_policy_contract r = guarded (rule_contract r) (Inr (normalise_rule r))"

definition rule_matches :: "recovery_rule \<Rightarrow> recovery_trigger \<Rightarrow> bool" where
  "rule_matches r t \<longleftrightarrow>
     tg_source t = rr_trigger_source r
     \<and> tg_outcome_code t \<in> rr_outcome_codes r
     \<and> resolved_delivery_state t \<in> rr_delivery_states r
     \<and> (rr_retryable r = None \<or> tg_retryable t = rr_retryable r)
     \<and> (rr_blocking r = None \<or> tg_blocking t = rr_blocking r)"

section \<open>Retention rules are built from shared metadata\<close>

record rule_metadata =
  md_work_item_kind :: "work_item_kind option"
  md_staff_projection :: "string option"
  md_audit_event_type :: "string option"

text \<open>
  The retry modes and the policy identifiers are the keys the builder's two dictionaries
  accept: the two renamed modes or a literal passed through, and the four retention policies.
\<close>

datatype retention_mode = Staff_decision | Reconcile_before_continue | Literal_mode retry_mode

datatype retention_policy =
    Policy_eligible | Policy_hold | Policy_reconciliation_required | Policy_old_session_denied

fun retention_retry_mode :: "retention_mode \<Rightarrow> retry_mode" where
  "retention_retry_mode Staff_decision = Retry_staff_authorised"
| "retention_retry_mode Reconcile_before_continue = Retry_reconcile_before_retry"
| "retention_retry_mode (Literal_mode m) = m"

fun retention_policy_id :: "retention_policy \<Rightarrow> string" where
  "retention_policy_id Policy_eligible = ''retention.eligible''"
| "retention_policy_id Policy_hold = ''retention.hold''"
| "retention_policy_id Policy_reconciliation_required = ''retention.reconciliation_required''"
| "retention_policy_id Policy_old_session_denied = ''retention.old_session_denied''"

fun retention_decision :: "retention_policy \<Rightarrow> decision_code" where
  "retention_decision Policy_eligible = Code_retention_eligible"
| "retention_decision Policy_hold = Code_retention_hold"
| "retention_decision Policy_reconciliation_required = Code_retention_reconcile"
| "retention_decision Policy_old_session_denied = Code_deny_access"

definition retention_rule ::
  "retention_policy \<Rightarrow> recovery_source \<Rightarrow> string set \<Rightarrow> string \<Rightarrow> continuation \<Rightarrow> retention_mode
   \<Rightarrow> responsibility \<Rightarrow> string \<Rightarrow> string set \<Rightarrow> string \<Rightarrow> rule_metadata \<Rightarrow> recovery_rule" where
  "retention_rule policy source codes preservation cont mode resp claimant permitted entry md =
     normalise_rule (rule_defaults\<lparr>
       rr_policy_id := retention_policy_id policy,
       rr_rule_id := retention_policy_id policy, rr_version := ''v1'',
       rr_trigger_source := source, rr_outcome_codes := codes, rr_preservation := preservation,
       rr_continuation := cont, rr_retry_mode := retention_retry_mode mode,
       rr_responsibility := resp, rr_claimant_projection := claimant,
       rr_permitted_events := permitted, rr_resume_entrypoint := entry,
       rr_decision_code := retention_decision policy,
       rr_claim_effect := Effect_existing_authority_only,
       rr_requires_reconciliation :=
         (retention_retry_mode mode = Retry_reconcile_before_retry),
       rr_authoritative_records :=
         {Auth_claim, Auth_session, Auth_retention_operation, Auth_audit},
       rr_required_actions := [Act_audit_append],
       rr_work_item_kind := md_work_item_kind md,
       rr_staff_projection := md_staff_projection md,
       rr_audit_event_type :=
         (case md_audit_event_type md of Some a \<Rightarrow> a | None \<Rightarrow> ''action.completed'')\<rparr>)"

section \<open>The published rules\<close>

definition LEGACY_CLAIMANT_TURN_MODEL_FAILURE_RULE_claimant :: string where
  "LEGACY_CLAIMANT_TURN_MODEL_FAILURE_RULE_claimant =
     ''Sorry, something tripped me up on my side. Your message is saved, so please '' @
     ''send it again.''"

definition LEGACY_CLAIMANT_TURN_MODEL_FAILURE_RULE :: recovery_rule where
  "LEGACY_CLAIMANT_TURN_MODEL_FAILURE_RULE = normalise_rule (rule_defaults\<lparr>
       rr_rule_id := ''claimant_turn.model_dependency_failure'', rr_version := ''v1'',
       rr_trigger_source := Source_model,
       rr_outcome_codes := {''legacy_model_dependency_failure''},
       rr_preservation := ''inbound_message_and_checkpoint'',
       rr_claim_effect := Effect_revision_unchanged_no_unapproved_write,
       rr_decision_code := Code_fail_safe, rr_continuation := Runtime_fail_safe,
       rr_retry_mode := Retry_claimant_initiated, rr_responsibility := Resp_claimant,
       rr_authoritative_records := {Auth_message, Auth_claim, Auth_audit},
       rr_required_actions := [Act_message_preserve_checkpoint, Act_claim_preserve_revision, Act_audit_append],
       rr_claimant_projection := LEGACY_CLAIMANT_TURN_MODEL_FAILURE_RULE_claimant,
       rr_resume_triggers := {''claimant_reply'', ''explicit_retry_request''},
       rr_resume_entrypoint := ''submit_message'',
       rr_audit_event_type := ''AGENT_TURN_RECOVERY''\<rparr>)"

definition MODEL_TIMEOUT_RULE_claimant :: string where
  "MODEL_TIMEOUT_RULE_claimant =
     ''Sorry, that took me too long. Your message is saved; send it again and I'll '' @
     ''pick it up.''"

definition MODEL_TIMEOUT_RULE_staff :: string where
  "MODEL_TIMEOUT_RULE_staff =
     ''The model timed out before an approved Claim mutation was committed.''"

definition MODEL_TIMEOUT_RULE :: recovery_rule where
  "MODEL_TIMEOUT_RULE = normalise_rule (rule_defaults\<lparr>
       rr_rule_id := ''claimant_turn.model_timeout'', rr_version := ''v1'',
       rr_trigger_source := Source_model, rr_outcome_codes := {''timeout''},
       rr_preservation := ''inbound_message_and_checkpoint'',
       rr_claim_effect := Effect_revision_unchanged_no_unapproved_write,
       rr_decision_code := Code_fail_safe, rr_continuation := Runtime_fail_safe,
       rr_retry_mode := Retry_claimant_initiated, rr_responsibility := Resp_claimant,
       rr_authoritative_records := {Auth_message, Auth_claim, Auth_audit},
       rr_required_actions := [Act_message_preserve_checkpoint, Act_claim_preserve_revision, Act_audit_append],
       rr_claimant_projection := MODEL_TIMEOUT_RULE_claimant,
       rr_staff_projection := Some MODEL_TIMEOUT_RULE_staff,
       rr_resume_triggers := {''claimant_reply'', ''explicit_retry_request''},
       rr_resume_entrypoint := ''submit_message'',
       rr_audit_event_type := ''AGENT_TURN_RECOVERY''\<rparr>)"

definition MODEL_INVALID_RESPONSE_RULE_claimant :: string where
  "MODEL_INVALID_RESPONSE_RULE_claimant =
     ''I couldn't put together a proper answer that time. Your message is saved, '' @
     ''so please try sending it again.''"

definition MODEL_INVALID_RESPONSE_RULE_staff :: string where
  "MODEL_INVALID_RESPONSE_RULE_staff =
     ''The model result was incomplete, refused or malformed and no proposed fact '' @
     ''was accepted.''"

definition MODEL_INVALID_RESPONSE_RULE :: recovery_rule where
  "MODEL_INVALID_RESPONSE_RULE = normalise_rule (rule_defaults\<lparr>
       rr_rule_id := ''claimant_turn.model_invalid_response'', rr_version := ''v1'',
       rr_trigger_source := Source_model,
       rr_outcome_codes := {''malformed_response'', ''incomplete_response'', ''refused_response''},
       rr_preservation := ''inbound_message_and_checkpoint'',
       rr_claim_effect := Effect_revision_unchanged_no_unapproved_write,
       rr_decision_code := Code_fail_safe, rr_continuation := Runtime_fail_safe,
       rr_retry_mode := Retry_claimant_initiated, rr_responsibility := Resp_claimant,
       rr_authoritative_records := {Auth_message, Auth_claim, Auth_audit},
       rr_required_actions := [Act_message_preserve_checkpoint, Act_claim_preserve_revision, Act_audit_append],
       rr_claimant_projection := MODEL_INVALID_RESPONSE_RULE_claimant,
       rr_staff_projection := Some MODEL_INVALID_RESPONSE_RULE_staff,
       rr_resume_triggers := {''claimant_reply'', ''explicit_retry_request''},
       rr_resume_entrypoint := ''submit_message'',
       rr_audit_event_type := ''AGENT_TURN_RECOVERY''\<rparr>)"

definition MODEL_RATE_LIMIT_RULE_claimant :: string where
  "MODEL_RATE_LIMIT_RULE_claimant =
     ''A lot of people are reporting right now, so I'm a little behind. Your '' @
     ''message is saved; try again in a moment.''"

definition MODEL_RATE_LIMIT_RULE_staff :: string where
  "MODEL_RATE_LIMIT_RULE_staff =
     ''The model provider rate-limited this turn before Claim mutation.''"

definition MODEL_RATE_LIMIT_RULE :: recovery_rule where
  "MODEL_RATE_LIMIT_RULE = normalise_rule (rule_defaults\<lparr>
       rr_rule_id := ''claimant_turn.model_rate_limited'', rr_version := ''v1'',
       rr_trigger_source := Source_model, rr_outcome_codes := {''rate_limit''},
       rr_preservation := ''inbound_message_and_checkpoint'',
       rr_claim_effect := Effect_revision_unchanged_no_unapproved_write,
       rr_decision_code := Code_fail_safe, rr_continuation := Runtime_fail_safe,
       rr_retry_mode := Retry_claimant_initiated, rr_responsibility := Resp_claimant,
       rr_authoritative_records := {Auth_message, Auth_claim, Auth_audit},
       rr_required_actions := [Act_message_preserve_checkpoint, Act_claim_preserve_revision, Act_audit_append],
       rr_claimant_projection := MODEL_RATE_LIMIT_RULE_claimant,
       rr_staff_projection := Some MODEL_RATE_LIMIT_RULE_staff,
       rr_resume_triggers := {''claimant_reply'', ''explicit_retry_request''},
       rr_resume_entrypoint := ''submit_message'',
       rr_audit_event_type := ''AGENT_TURN_RECOVERY''\<rparr>)"

definition MODEL_PROVIDER_RETRYABLE_RULE_claimant :: string where
  "MODEL_PROVIDER_RETRYABLE_RULE_claimant =
     ''I lost my connection for a moment. Your message is saved, so please send it '' @
     ''again.''"

definition MODEL_PROVIDER_RETRYABLE_RULE_staff :: string where
  "MODEL_PROVIDER_RETRYABLE_RULE_staff =
     ''A retryable model-provider failure occurred before Claim mutation.''"

definition MODEL_PROVIDER_RETRYABLE_RULE :: recovery_rule where
  "MODEL_PROVIDER_RETRYABLE_RULE = normalise_rule (rule_defaults\<lparr>
       rr_rule_id := ''claimant_turn.model_provider_retryable'', rr_version := ''v1'',
       rr_trigger_source := Source_model, rr_outcome_codes := {''provider''},
       rr_retryable := Some True, rr_preservation := ''inbound_message_and_checkpoint'',
       rr_claim_effect := Effect_revision_unchanged_no_unapproved_write,
       rr_decision_code := Code_fail_safe, rr_continuation := Runtime_fail_safe,
       rr_retry_mode := Retry_claimant_initiated, rr_responsibility := Resp_claimant,
       rr_authoritative_records := {Auth_message, Auth_claim, Auth_audit},
       rr_required_actions := [Act_message_preserve_checkpoint, Act_claim_preserve_revision, Act_audit_append],
       rr_claimant_projection := MODEL_PROVIDER_RETRYABLE_RULE_claimant,
       rr_staff_projection := Some MODEL_PROVIDER_RETRYABLE_RULE_staff,
       rr_resume_triggers := {''claimant_reply'', ''explicit_retry_request''},
       rr_resume_entrypoint := ''submit_message'',
       rr_audit_event_type := ''AGENT_TURN_RECOVERY''\<rparr>)"

definition MODEL_TERMINAL_DEPENDENCY_RULE_claimant :: string where
  "MODEL_TERMINAL_DEPENDENCY_RULE_claimant =
     ''I can't carry on with this step right now. Your message is saved; please '' @
     ''come back to it a little later.''"

definition MODEL_TERMINAL_DEPENDENCY_RULE_staff :: string where
  "MODEL_TERMINAL_DEPENDENCY_RULE_staff =
     ''The model dependency cannot safely continue without system remediation.''"

definition MODEL_TERMINAL_DEPENDENCY_RULE :: recovery_rule where
  "MODEL_TERMINAL_DEPENDENCY_RULE = normalise_rule (rule_defaults\<lparr>
       rr_rule_id := ''claimant_turn.model_dependency_terminal'', rr_version := ''v1'',
       rr_trigger_source := Source_model,
       rr_outcome_codes := {''authentication'', ''unsupported_capability'', ''evidence_unavailable'', ''configuration''},
       rr_preservation := ''inbound_message_and_checkpoint'',
       rr_claim_effect := Effect_revision_unchanged_no_unapproved_write,
       rr_decision_code := Code_fail_safe, rr_continuation := Runtime_fail_safe,
       rr_retry_mode := Retry_none, rr_responsibility := Resp_system,
       rr_blocks_action := Some ''runtime.continue'',
       rr_authoritative_records := {Auth_message, Auth_claim, Auth_audit},
       rr_required_actions := [Act_message_preserve_checkpoint, Act_claim_preserve_revision, Act_audit_append],
       rr_claimant_projection := MODEL_TERMINAL_DEPENDENCY_RULE_claimant,
       rr_staff_projection := Some MODEL_TERMINAL_DEPENDENCY_RULE_staff,
       rr_resume_entrypoint := ''submit_message'',
       rr_audit_event_type := ''AGENT_TURN_RECOVERY''\<rparr>)"

definition MODEL_PROVIDER_TERMINAL_RULE_claimant :: string where
  "MODEL_PROVIDER_TERMINAL_RULE_claimant =
     ''My assistant service is down at the moment. Your message is saved; please '' @
     ''come back to it a little later.''"

definition MODEL_PROVIDER_TERMINAL_RULE_staff :: string where
  "MODEL_PROVIDER_TERMINAL_RULE_staff =
     ''The provider returned a non-retryable model failure.''"

definition MODEL_PROVIDER_TERMINAL_RULE :: recovery_rule where
  "MODEL_PROVIDER_TERMINAL_RULE = normalise_rule (rule_defaults\<lparr>
       rr_rule_id := ''claimant_turn.model_provider_terminal'', rr_version := ''v1'',
       rr_trigger_source := Source_model, rr_outcome_codes := {''provider''},
       rr_retryable := Some False, rr_preservation := ''inbound_message_and_checkpoint'',
       rr_claim_effect := Effect_revision_unchanged_no_unapproved_write,
       rr_decision_code := Code_fail_safe, rr_continuation := Runtime_fail_safe,
       rr_retry_mode := Retry_none, rr_responsibility := Resp_system,
       rr_blocks_action := Some ''runtime.continue'',
       rr_authoritative_records := {Auth_message, Auth_claim, Auth_audit},
       rr_required_actions := [Act_message_preserve_checkpoint, Act_claim_preserve_revision, Act_audit_append],
       rr_claimant_projection := MODEL_PROVIDER_TERMINAL_RULE_claimant,
       rr_staff_projection := Some MODEL_PROVIDER_TERMINAL_RULE_staff,
       rr_resume_entrypoint := ''submit_message'',
       rr_audit_event_type := ''AGENT_TURN_RECOVERY''\<rparr>)"

definition TOOL_UNAVAILABLE_NON_BLOCKING_RULE_claimant :: string where
  "TOOL_UNAVAILABLE_NON_BLOCKING_RULE_claimant =
     ''One of my helper tools isn't available right now, so I'll carry on without '' @
     ''it.''"

definition TOOL_UNAVAILABLE_NON_BLOCKING_RULE_staff :: string where
  "TOOL_UNAVAILABLE_NON_BLOCKING_RULE_staff =
     ''A non-blocking tool dependency is unavailable.''"

definition TOOL_UNAVAILABLE_NON_BLOCKING_RULE :: recovery_rule where
  "TOOL_UNAVAILABLE_NON_BLOCKING_RULE = normalise_rule (rule_defaults\<lparr>
       rr_rule_id := ''runtime.tool_unavailable.non_blocking'', rr_version := ''v1'',
       rr_trigger_source := Source_tool, rr_outcome_codes := {''unavailable''},
       rr_blocking := Some False, rr_preservation := ''authoritative_records_only'',
       rr_claim_effect := Effect_existing_authority_only,
       rr_decision_code := Code_continue_with_limitation, rr_continuation := Runtime_continue,
       rr_retry_mode := Retry_none, rr_responsibility := Resp_system,
       rr_authoritative_records := {Auth_claim, Auth_audit},
       rr_required_actions := [Act_claim_preserve_revision, Act_audit_append],
       rr_claimant_projection := TOOL_UNAVAILABLE_NON_BLOCKING_RULE_claimant,
       rr_staff_projection := Some TOOL_UNAVAILABLE_NON_BLOCKING_RULE_staff,
       rr_resume_entrypoint := ''reload_authoritative_state'',
       rr_audit_event_type := ''action.failed''\<rparr>)"

definition TOOL_UNAVAILABLE_BLOCKING_RULE_claimant :: string where
  "TOOL_UNAVAILABLE_BLOCKING_RULE_claimant =
     ''A tool I need for this step isn't available right now. Your details are '' @
     ''saved; please try again a little later.''"

definition TOOL_UNAVAILABLE_BLOCKING_RULE_staff :: string where
  "TOOL_UNAVAILABLE_BLOCKING_RULE_staff =
     ''A blocking tool dependency requires recovery before continuation.''"

definition TOOL_UNAVAILABLE_BLOCKING_RULE :: recovery_rule where
  "TOOL_UNAVAILABLE_BLOCKING_RULE = normalise_rule (rule_defaults\<lparr>
       rr_rule_id := ''runtime.tool_unavailable.blocking'', rr_version := ''v1'',
       rr_trigger_source := Source_tool, rr_outcome_codes := {''unavailable''},
       rr_blocking := Some True, rr_preservation := ''authoritative_records_only'',
       rr_claim_effect := Effect_existing_authority_only, rr_decision_code := Code_fail_safe,
       rr_continuation := Runtime_fail_safe, rr_retry_mode := Retry_staff_authorised,
       rr_responsibility := Resp_system, rr_work_item_kind := Some Kind_system,
       rr_blocks_action := Some ''runtime.continue'',
       rr_authoritative_records := {Auth_claim, Auth_work_item, Auth_audit},
       rr_required_actions := [Act_claim_preserve_revision, Act_work_item_ensure, Act_audit_append],
       rr_claimant_projection := TOOL_UNAVAILABLE_BLOCKING_RULE_claimant,
       rr_staff_projection := Some TOOL_UNAVAILABLE_BLOCKING_RULE_staff,
       rr_resume_triggers := {''system_recovered'', ''staff_retry''},
       rr_resume_entrypoint := ''reload_authoritative_state'',
       rr_audit_event_type := ''action.failed''\<rparr>)"

definition RETRIEVAL_UNAVAILABLE_NON_BLOCKING_RULE_claimant :: string where
  "RETRIEVAL_UNAVAILABLE_NON_BLOCKING_RULE_claimant =
     ''I can't look up some background information right now, so I'll carry on '' @
     ''with what you've told me.''"

definition RETRIEVAL_UNAVAILABLE_NON_BLOCKING_RULE_staff :: string where
  "RETRIEVAL_UNAVAILABLE_NON_BLOCKING_RULE_staff =
     ''A non-blocking retrieval dependency is unavailable.''"

definition RETRIEVAL_UNAVAILABLE_NON_BLOCKING_RULE :: recovery_rule where
  "RETRIEVAL_UNAVAILABLE_NON_BLOCKING_RULE = normalise_rule (rule_defaults\<lparr>
       rr_rule_id := ''runtime.retrieval_unavailable.non_blocking'', rr_version := ''v1'',
       rr_trigger_source := Source_retrieval, rr_outcome_codes := {''unavailable''},
       rr_blocking := Some False, rr_preservation := ''authoritative_records_only'',
       rr_claim_effect := Effect_existing_authority_only,
       rr_decision_code := Code_continue_with_limitation, rr_continuation := Runtime_continue,
       rr_retry_mode := Retry_none, rr_responsibility := Resp_system,
       rr_authoritative_records := {Auth_claim, Auth_audit},
       rr_required_actions := [Act_claim_preserve_revision, Act_audit_append],
       rr_claimant_projection := RETRIEVAL_UNAVAILABLE_NON_BLOCKING_RULE_claimant,
       rr_staff_projection := Some RETRIEVAL_UNAVAILABLE_NON_BLOCKING_RULE_staff,
       rr_resume_entrypoint := ''reload_authoritative_state'',
       rr_audit_event_type := ''action.failed''\<rparr>)"

definition RETRIEVAL_UNAVAILABLE_BLOCKING_RULE_claimant :: string where
  "RETRIEVAL_UNAVAILABLE_BLOCKING_RULE_claimant =
     ''I can't look up the information this step needs right now. Your details are '' @
     ''saved; please try again a little later.''"

definition RETRIEVAL_UNAVAILABLE_BLOCKING_RULE_staff :: string where
  "RETRIEVAL_UNAVAILABLE_BLOCKING_RULE_staff =
     ''A blocking retrieval dependency requires recovery before continuation.''"

definition RETRIEVAL_UNAVAILABLE_BLOCKING_RULE :: recovery_rule where
  "RETRIEVAL_UNAVAILABLE_BLOCKING_RULE = normalise_rule (rule_defaults\<lparr>
       rr_rule_id := ''runtime.retrieval_unavailable.blocking'', rr_version := ''v1'',
       rr_trigger_source := Source_retrieval, rr_outcome_codes := {''unavailable''},
       rr_blocking := Some True, rr_preservation := ''authoritative_records_only'',
       rr_claim_effect := Effect_existing_authority_only, rr_decision_code := Code_fail_safe,
       rr_continuation := Runtime_fail_safe, rr_retry_mode := Retry_staff_authorised,
       rr_responsibility := Resp_system, rr_work_item_kind := Some Kind_system,
       rr_blocks_action := Some ''runtime.continue'',
       rr_authoritative_records := {Auth_claim, Auth_work_item, Auth_audit},
       rr_required_actions := [Act_claim_preserve_revision, Act_work_item_ensure, Act_audit_append],
       rr_claimant_projection := RETRIEVAL_UNAVAILABLE_BLOCKING_RULE_claimant,
       rr_staff_projection := Some RETRIEVAL_UNAVAILABLE_BLOCKING_RULE_staff,
       rr_resume_triggers := {''system_recovered'', ''staff_retry''},
       rr_resume_entrypoint := ''reload_authoritative_state'',
       rr_audit_event_type := ''action.failed''\<rparr>)"

definition REVISION_CONFLICT_RULE_claimant :: string where
  "REVISION_CONFLICT_RULE_claimant =
     ''Your claim was updated somewhere else while I was working. Refresh to see '' @
     ''the latest version, then carry on.''"

definition REVISION_CONFLICT_RULE_staff :: string where
  "REVISION_CONFLICT_RULE_staff =
     ''Discard the stale proposal and recompute from the current authoritative '' @
     ''revision.''"

definition REVISION_CONFLICT_RULE :: recovery_rule where
  "REVISION_CONFLICT_RULE = normalise_rule (rule_defaults\<lparr>
       rr_rule_id := ''runtime.revision_conflict'', rr_version := ''v1'',
       rr_trigger_source := Source_repository, rr_outcome_codes := {''revision_conflict''},
       rr_preservation := ''authoritative_records_only'',
       rr_claim_effect := Effect_reload_authoritative_state,
       rr_decision_code := Code_reload_authoritative_state,
       rr_continuation := Runtime_fail_safe, rr_retry_mode := Retry_reload_authoritative,
       rr_responsibility := Resp_system,
       rr_authoritative_records := {Auth_claim, Auth_session, Auth_audit},
       rr_required_actions := [Act_claim_reload, Act_audit_append],
       rr_claimant_projection := REVISION_CONFLICT_RULE_claimant,
       rr_staff_projection := Some REVISION_CONFLICT_RULE_staff,
       rr_resume_triggers := {''authoritative_state_reloaded''},
       rr_resume_entrypoint := ''reload_authoritative_state'',
       rr_audit_event_type := ''action.failed''\<rparr>)"

definition EXTERNAL_NOT_SUBMITTED_RETRYABLE_RULE_claimant :: string where
  "EXTERNAL_NOT_SUBMITTED_RETRYABLE_RULE_claimant =
     ''That request didn't go through and nothing was sent. You can safely try it '' @
     ''again.''"

definition EXTERNAL_NOT_SUBMITTED_RETRYABLE_RULE_staff :: string where
  "EXTERNAL_NOT_SUBMITTED_RETRYABLE_RULE_staff =
     ''Retry is permitted only under the existing external operation identity.''"

definition EXTERNAL_NOT_SUBMITTED_RETRYABLE_RULE :: recovery_rule where
  "EXTERNAL_NOT_SUBMITTED_RETRYABLE_RULE = normalise_rule (rule_defaults\<lparr>
       rr_rule_id := ''external.not_submitted_retryable'', rr_version := ''v1'',
       rr_trigger_source := Source_external, rr_outcome_codes := {''retryable_failure''},
       rr_delivery_states := {Delivery_not_submitted},
       rr_preservation := ''external_operation_and_delivery_evidence'',
       rr_claim_effect := Effect_existing_authority_only,
       rr_decision_code := Code_retry_same_operation, rr_continuation := Runtime_wait_for_user,
       rr_retry_mode := Retry_same_operation, rr_responsibility := Resp_claimant,
       rr_requires_operation_identity := True,
       rr_authoritative_records := {Auth_claim, Auth_external_task, Auth_audit},
       rr_required_actions := [Act_external_retry_same_operation, Act_audit_append],
       rr_claimant_projection := EXTERNAL_NOT_SUBMITTED_RETRYABLE_RULE_claimant,
       rr_staff_projection := Some EXTERNAL_NOT_SUBMITTED_RETRYABLE_RULE_staff,
       rr_resume_triggers := {''claimant_retry'', ''staff_retry''},
       rr_resume_entrypoint := ''external_retry'', rr_audit_event_type := ''action.failed''\<rparr>)"

definition EXTERNAL_SUBMITTED_UNKNOWN_RULE_claimant :: string where
  "EXTERNAL_SUBMITTED_UNKNOWN_RULE_claimant =
     ''That request may already have reached the service. We're checking before '' @
     ''sending anything again, so nothing is doubled up.''"

definition EXTERNAL_SUBMITTED_UNKNOWN_RULE_staff :: string where
  "EXTERNAL_SUBMITTED_UNKNOWN_RULE_staff =
     ''Reconcile the existing external operation. Blind resubmission is prohibited.''"

definition EXTERNAL_SUBMITTED_UNKNOWN_RULE :: recovery_rule where
  "EXTERNAL_SUBMITTED_UNKNOWN_RULE = normalise_rule (rule_defaults\<lparr>
       rr_rule_id := ''external.submitted_unknown'', rr_version := ''v1'',
       rr_trigger_source := Source_external, rr_outcome_codes := {''unknown_outcome''},
       rr_delivery_states := {Delivery_submitted, Delivery_unknown},
       rr_preservation := ''external_operation_and_delivery_evidence'',
       rr_claim_effect := Effect_existing_authority_only,
       rr_decision_code := Code_reconcile_existing_operation,
       rr_continuation := Runtime_wait_for_external,
       rr_retry_mode := Retry_reconcile_before_retry, rr_responsibility := Resp_staff,
       rr_requires_reconciliation := True, rr_requires_operation_identity := True,
       rr_work_item_kind := Some Kind_external, rr_blocks_action := Some ''external.retry'',
       rr_authoritative_records := {Auth_claim, Auth_external_task, Auth_work_item, Auth_audit},
       rr_required_actions := [Act_external_reconcile, Act_work_item_ensure, Act_audit_append],
       rr_claimant_projection := EXTERNAL_SUBMITTED_UNKNOWN_RULE_claimant,
       rr_staff_projection := Some EXTERNAL_SUBMITTED_UNKNOWN_RULE_staff,
       rr_resume_triggers := {''provider_result'', ''provider_reconciled'', ''staff_reconciled'', ''scheduled_reconciliation'', ''staff_action''},
       rr_resume_entrypoint := ''external_reconcile'',
       rr_audit_event_type := ''action.unknown_outcome''\<rparr>)"

definition EXTERNAL_TERMINAL_FAILURE_RULE_claimant :: string where
  "EXTERNAL_TERMINAL_FAILURE_RULE_claimant =
     ''The service couldn't complete that request. Someone from the claims team '' @
     ''will look at what to do next.''"

definition EXTERNAL_TERMINAL_FAILURE_RULE_staff :: string where
  "EXTERNAL_TERMINAL_FAILURE_RULE_staff =
     ''The external operation ended terminally and requires authorised review.''"

definition EXTERNAL_TERMINAL_FAILURE_RULE :: recovery_rule where
  "EXTERNAL_TERMINAL_FAILURE_RULE = normalise_rule (rule_defaults\<lparr>
       rr_rule_id := ''external.terminal_failure'', rr_version := ''v1'',
       rr_trigger_source := Source_external, rr_outcome_codes := {''terminal_failure''},
       rr_delivery_states := {Delivery_not_submitted, Delivery_submitted, Delivery_unknown},
       rr_preservation := ''external_operation_and_delivery_evidence'',
       rr_claim_effect := Effect_existing_authority_only,
       rr_decision_code := Code_pause_for_review, rr_continuation := Runtime_pause_for_review,
       rr_retry_mode := Retry_staff_authorised, rr_responsibility := Resp_staff,
       rr_requires_operation_identity := True, rr_work_item_kind := Some Kind_external,
       rr_blocks_action := Some ''external.retry'',
       rr_authoritative_records := {Auth_claim, Auth_external_task, Auth_work_item, Auth_audit},
       rr_required_actions := [Act_work_item_ensure, Act_audit_append],
       rr_claimant_projection := EXTERNAL_TERMINAL_FAILURE_RULE_claimant,
       rr_staff_projection := Some EXTERNAL_TERMINAL_FAILURE_RULE_staff,
       rr_resume_triggers := {''staff_decision''}, rr_resume_entrypoint := ''staff_review'',
       rr_audit_event_type := ''action.failed''\<rparr>)"

definition HIGH_IMPACT_REVIEW_RULE_claimant :: string where
  "HIGH_IMPACT_REVIEW_RULE_claimant =
     ''This step needs a member of the claims team to check it before it goes '' @
     ''ahead.''"

definition HIGH_IMPACT_REVIEW_RULE_staff :: string where
  "HIGH_IMPACT_REVIEW_RULE_staff =
     ''Review the proposed high-impact action and its supporting evidence.''"

definition HIGH_IMPACT_REVIEW_RULE :: recovery_rule where
  "HIGH_IMPACT_REVIEW_RULE = normalise_rule (rule_defaults\<lparr>
       rr_rule_id := ''runtime.high_impact_review_required'', rr_version := ''v1'',
       rr_trigger_source := Source_human,
       rr_outcome_codes := {''high_impact_review_required''},
       rr_preservation := ''review_request_and_evidence'',
       rr_claim_effect := Effect_existing_authority_only,
       rr_decision_code := Code_pause_for_review, rr_continuation := Runtime_pause_for_review,
       rr_retry_mode := Retry_staff_authorised, rr_responsibility := Resp_staff,
       rr_blocks_action := Some ''high_impact_action'',
       rr_authoritative_records := {Auth_claim, Auth_handoff, Auth_audit},
       rr_required_actions := [Act_handoff_ensure, Act_audit_append],
       rr_claimant_projection := HIGH_IMPACT_REVIEW_RULE_claimant,
       rr_staff_projection := Some HIGH_IMPACT_REVIEW_RULE_staff,
       rr_resume_triggers := {''staff_approved'', ''staff_rejected''},
       rr_resume_entrypoint := ''staff_review'', rr_audit_event_type := ''action.prepared''\<rparr>)"

definition P17_FOLLOW_UP_DUE_RULE_claimant :: string where
  "P17_FOLLOW_UP_DUE_RULE_claimant =
     ''Your claim is still saved. You can pick up where you left off whenever '' @
     ''you're ready.''"

definition P17_FOLLOW_UP_DUE_RULE_staff :: string where
  "P17_FOLLOW_UP_DUE_RULE_staff =
     ''The published P17 follow-up obligation is due.''"

definition P17_FOLLOW_UP_DUE_RULE :: recovery_rule where
  "P17_FOLLOW_UP_DUE_RULE = normalise_rule (rule_defaults\<lparr>
       rr_rule_id := ''incomplete_claim_follow_up.due'', rr_version := ''v1'',
       rr_trigger_source := Source_timer, rr_outcome_codes := {''follow_up_due''},
       rr_preservation := ''follow_up_obligation_and_operation_history'',
       rr_claim_effect := Effect_existing_authority_only,
       rr_decision_code := Code_execute_follow_up, rr_continuation := Runtime_wait_for_user,
       rr_retry_mode := Retry_scheduled_policy, rr_max_auto_retry := 3,
       rr_retry_interval_seconds := Some 86400, rr_deadline_seconds := Some 604800,
       rr_permitted_events := {''follow_up_due'', ''follow_up_committed_no_response'', ''claimant_resume'', ''contact_withdrawn'', ''recovery_deadline''},
       rr_responsibility := Resp_system,
       rr_authoritative_records := {Auth_claim, Auth_session, Auth_follow_up, Auth_audit},
       rr_required_actions := [Act_follow_up_execute, Act_audit_append],
       rr_claimant_projection := P17_FOLLOW_UP_DUE_RULE_claimant,
       rr_staff_projection := Some P17_FOLLOW_UP_DUE_RULE_staff,
       rr_resume_triggers := {''claimant_resumed'', ''next_policy_due''},
       rr_resume_entrypoint := ''follow_up_worker'', rr_audit_event_type := ''action.completed''\<rparr>)"

definition P17_CONTACT_WITHDRAWAL_RULE_claimant :: string where
  "P17_CONTACT_WITHDRAWAL_RULE_claimant =
     ''We won't send you any more reminders about this claim.''"

definition P17_CONTACT_WITHDRAWAL_RULE_staff :: string where
  "P17_CONTACT_WITHDRAWAL_RULE_staff =
     ''The recovery obligation remains open but automatic contact is blocked.''"

definition P17_CONTACT_WITHDRAWAL_RULE :: recovery_rule where
  "P17_CONTACT_WITHDRAWAL_RULE = normalise_rule (rule_defaults\<lparr>
       rr_rule_id := ''incomplete_claim_follow_up.contact_withdrawal'', rr_version := ''v1'',
       rr_trigger_source := Source_human,
       rr_outcome_codes := {''contact_authority_withdrawn'', ''contact_withdrawn''},
       rr_preservation := ''follow_up_obligation_and_operation_history'',
       rr_claim_effect := Effect_existing_authority_only,
       rr_decision_code := Code_block_follow_up, rr_continuation := Runtime_fail_safe,
       rr_retry_mode := Retry_none, rr_responsibility := Resp_claimant,
       rr_authoritative_records := {Auth_claim, Auth_session, Auth_follow_up, Auth_audit},
       rr_required_actions := [Act_follow_up_block, Act_audit_append],
       rr_claimant_projection := P17_CONTACT_WITHDRAWAL_RULE_claimant,
       rr_staff_projection := Some P17_CONTACT_WITHDRAWAL_RULE_staff,
       rr_resume_entrypoint := ''start_session'', rr_audit_event_type := ''permission.rejected''\<rparr>)"

definition P17_ATTEMPT_EXHAUSTION_RULE_claimant :: string where
  "P17_ATTEMPT_EXHAUSTION_RULE_claimant =
     ''We've stopped sending reminders, but your claim is still saved and you can '' @
     ''come back to it.''"

definition P17_ATTEMPT_EXHAUSTION_RULE_staff :: string where
  "P17_ATTEMPT_EXHAUSTION_RULE_staff =
     ''Automatic contact attempts are exhausted; the Claim is not abandoned.''"

definition P17_ATTEMPT_EXHAUSTION_RULE :: recovery_rule where
  "P17_ATTEMPT_EXHAUSTION_RULE = normalise_rule (rule_defaults\<lparr>
       rr_rule_id := ''incomplete_claim_follow_up.attempt_exhaustion'', rr_version := ''v1'',
       rr_trigger_source := Source_timer, rr_outcome_codes := {''attempt_limit_reached''},
       rr_preservation := ''follow_up_obligation_and_operation_history'',
       rr_claim_effect := Effect_existing_authority_only,
       rr_decision_code := Code_block_follow_up, rr_continuation := Runtime_fail_safe,
       rr_retry_mode := Retry_none, rr_responsibility := Resp_claimant,
       rr_authoritative_records := {Auth_claim, Auth_session, Auth_follow_up, Auth_audit},
       rr_required_actions := [Act_follow_up_block, Act_audit_append],
       rr_claimant_projection := P17_ATTEMPT_EXHAUSTION_RULE_claimant,
       rr_staff_projection := Some P17_ATTEMPT_EXHAUSTION_RULE_staff,
       rr_resume_triggers := {''claimant_resumed'', ''staff_abandoned''},
       rr_resume_entrypoint := ''start_session'', rr_audit_event_type := ''action.completed''\<rparr>)"

definition P17_RECOVERY_EXPIRY_RULE_claimant :: string where
  "P17_RECOVERY_EXPIRY_RULE_claimant =
     ''This unfinished claim has expired. Please start a new report if you still '' @
     ''need to claim.''"

definition P17_RECOVERY_EXPIRY_RULE_staff :: string where
  "P17_RECOVERY_EXPIRY_RULE_staff =
     ''Recovery expiry must use the existing terminal-disposition contract.''"

definition P17_RECOVERY_EXPIRY_RULE :: recovery_rule where
  "P17_RECOVERY_EXPIRY_RULE = normalise_rule (rule_defaults\<lparr>
       rr_rule_id := ''incomplete_claim_follow_up.recovery_expiry'', rr_version := ''v1'',
       rr_trigger_source := Source_timer, rr_outcome_codes := {''recovery_expired''},
       rr_preservation := ''follow_up_obligation_and_operation_history'',
       rr_claim_effect := Effect_terminal_transition_via_existing_contract,
       rr_decision_code := Code_expire_recovery, rr_continuation := Runtime_fail_safe,
       rr_retry_mode := Retry_none, rr_responsibility := Resp_system,
       rr_authoritative_records := {Auth_claim, Auth_session, Auth_follow_up, Auth_audit},
       rr_required_actions := [Act_claim_expire, Act_audit_append],
       rr_claimant_projection := P17_RECOVERY_EXPIRY_RULE_claimant,
       rr_staff_projection := Some P17_RECOVERY_EXPIRY_RULE_staff,
       rr_resume_triggers := {''claim_reopened''}, rr_resume_entrypoint := ''claim.reopen'',
       rr_audit_event_type := ''action.completed''\<rparr>)"

definition RETENTION_ELIGIBLE_RULE_claimant :: string where
  "RETENTION_ELIGIBLE_RULE_claimant =
     ''This earlier claim can no longer be opened from this link.''"

definition RETENTION_ELIGIBLE_RULE_staff :: string where
  "RETENTION_ELIGIBLE_RULE_staff =
     ''Retention is eligible only from the authoritative expiry/terminal source.''"

definition RETENTION_ELIGIBLE_RULE :: recovery_rule where
  "RETENTION_ELIGIBLE_RULE = retention_rule
     Policy_eligible
     Source_retention
     {''eligible''}
     ''source_expiry_terminal_ref_policy_coordinate_claim_revision_and_hold_evidence''
     Runtime_fail_safe
     (Literal_mode Retry_none)
     Resp_system
     RETENTION_ELIGIBLE_RULE_claimant
     {''retention_execute'', ''retention_hold''}
     ''retention_worker''
     \<lparr>md_work_item_kind = Some Kind_system, md_staff_projection = Some RETENTION_ELIGIBLE_RULE_staff,
        md_audit_event_type = Some ''RETENTION_ELIGIBLE''\<rparr>"

definition RETENTION_HOLD_RULE_claimant :: string where
  "RETENTION_HOLD_RULE_claimant =
     ''This claim can't be opened from this link right now.''"

definition RETENTION_HOLD_RULE_staff :: string where
  "RETENTION_HOLD_RULE_staff =
     ''A source-linked retention hold blocks destructive cleanup.''"

definition RETENTION_HOLD_RULE :: recovery_rule where
  "RETENTION_HOLD_RULE = retention_rule
     Policy_hold
     Source_retention
     {''hold''}
     ''retention_hold_authority_reason_source_and_release_condition''
     Runtime_fail_safe
     Staff_decision
     Resp_staff
     RETENTION_HOLD_RULE_claimant
     {''retention_hold_released''}
     ''retention_worker''
     \<lparr>md_work_item_kind = Some Kind_system, md_staff_projection = Some RETENTION_HOLD_RULE_staff,
        md_audit_event_type = Some ''RETENTION_HELD''\<rparr>"

definition RETENTION_FAILURE_RULE_claimant :: string where
  "RETENTION_FAILURE_RULE_claimant =
     ''We're finishing some record keeping on this claim, so it can't be opened '' @
     ''from this link yet.''"

definition RETENTION_FAILURE_RULE_staff :: string where
  "RETENTION_FAILURE_RULE_staff =
     ''Retention is incomplete; reconcile and retry only unfinished steps.''"

definition RETENTION_FAILURE_RULE :: recovery_rule where
  "RETENTION_FAILURE_RULE = retention_rule
     Policy_reconciliation_required
     Source_retention
     {''failed'', ''unknown''}
     ''retention_operation_targets_completed_steps_failed_steps_and_diagnostics''
     Runtime_fail_safe
     Reconcile_before_continue
     Resp_system
     RETENTION_FAILURE_RULE_claimant
     {''scheduled_reconciliation'', ''staff_action''}
     ''retention_reconcile''
     \<lparr>md_work_item_kind = Some Kind_system, md_staff_projection = Some RETENTION_FAILURE_RULE_staff,
        md_audit_event_type = Some ''RETENTION_RECONCILIATION_REQUIRED''\<rparr>"

definition OLD_SESSION_DENIED_RULE_claimant :: string where
  "OLD_SESSION_DENIED_RULE_claimant =
     ''This link has expired. Please sign in to see your claims.''"

definition OLD_SESSION_DENIED_RULE_staff :: string where
  "OLD_SESSION_DENIED_RULE_staff =
     ''Retention access closure denied the stale session or recovery credential.''"

definition OLD_SESSION_DENIED_RULE :: recovery_rule where
  "OLD_SESSION_DENIED_RULE = retention_rule
     Policy_old_session_denied
     Source_retention
     {''old_session_denied''}
     ''retention_access_closure_tombstone_and_minimum_audit_evidence''
     Runtime_fail_safe
     (Literal_mode Retry_none)
     Resp_system
     OLD_SESSION_DENIED_RULE_claimant
     {''access_denied''}
     ''none''
     \<lparr>md_work_item_kind = None, md_staff_projection = Some OLD_SESSION_DENIED_RULE_staff,
        md_audit_event_type = Some ''RETENTION_ACCESS_DENIED''\<rparr>"

definition PUBLISHED_RULES :: "recovery_rule list" where
  "PUBLISHED_RULES =
     [LEGACY_CLAIMANT_TURN_MODEL_FAILURE_RULE,
      MODEL_TIMEOUT_RULE,
      MODEL_INVALID_RESPONSE_RULE,
      MODEL_RATE_LIMIT_RULE,
      MODEL_PROVIDER_RETRYABLE_RULE,
      MODEL_TERMINAL_DEPENDENCY_RULE,
      MODEL_PROVIDER_TERMINAL_RULE,
      TOOL_UNAVAILABLE_NON_BLOCKING_RULE,
      TOOL_UNAVAILABLE_BLOCKING_RULE,
      RETRIEVAL_UNAVAILABLE_NON_BLOCKING_RULE,
      RETRIEVAL_UNAVAILABLE_BLOCKING_RULE,
      REVISION_CONFLICT_RULE,
      EXTERNAL_NOT_SUBMITTED_RETRYABLE_RULE,
      EXTERNAL_SUBMITTED_UNKNOWN_RULE,
      EXTERNAL_TERMINAL_FAILURE_RULE,
      HIGH_IMPACT_REVIEW_RULE,
      P17_FOLLOW_UP_DUE_RULE,
      P17_CONTACT_WITHDRAWAL_RULE,
      P17_ATTEMPT_EXHAUSTION_RULE,
      P17_RECOVERY_EXPIRY_RULE,
      RETENTION_ELIGIBLE_RULE,
      RETENTION_HOLD_RULE,
      RETENTION_FAILURE_RULE,
      OLD_SESSION_DENIED_RULE]"

text \<open>
  The dictionary \<open>RECOVERY_RULES\<close> is keyed by rule identifier and iterates in publication
  order; the module refuses to load when two published rules share an identifier.
\<close>

definition rule_ids_unique :: bool where
  "rule_ids_unique \<longleftrightarrow> distinct (map rr_rule_id PUBLISHED_RULES)"

definition RECOVERY_RULES :: "recovery_rule list" where
  "RECOVERY_RULES = PUBLISHED_RULES"

definition recovery_rule_by_id :: "string \<Rightarrow> recovery_rule option" where
  "recovery_rule_by_id i = find (\<lambda>r. rr_rule_id r = i) RECOVERY_RULES"

definition exactly_one :: "recovery_rule list \<Rightarrow> registry_error + recovery_rule" where
  "exactly_one rs = (case rs of [] \<Rightarrow> Inl UnknownRecoveryTrigger | [r] \<Rightarrow> Inr r
     | _ \<Rightarrow> Inl AmbiguousRecoveryTrigger)"

definition recovery_policy :: "string \<Rightarrow> string \<Rightarrow> registry_error + recovery_rule" where
  "recovery_policy policy_id version =
     (case filter (\<lambda>r. rr_policy_id r = policy_id \<and> rr_version r = version) RECOVERY_RULES of
        [r] \<Rightarrow> Inr r | _ \<Rightarrow> Inl UnknownRecoveryTrigger)"

definition classify_recovery :: "recovery_trigger \<Rightarrow> registry_error + recovery_rule" where
  "classify_recovery t = exactly_one (filter (\<lambda>r. rule_matches r t) RECOVERY_RULES)"

definition retry_decision :: "recovery_rule \<Rightarrow> string \<Rightarrow> bool" where
  "retry_decision r trigger \<longleftrightarrow> rr_retry_mode r \<noteq> Retry_none \<and> trigger \<in> rr_resume_triggers r"

record claimant_turn_recovery =
  ct_rule_id :: string
  ct_claimant_projection :: string
  ct_resume_triggers :: "string list"

definition claimant_recovery_projection :: "string option \<Rightarrow> claimant_turn_recovery option" where
  "claimant_recovery_projection rule_id =
     (case recovery_rule_by_id (case rule_id of None \<Rightarrow> [] | Some i \<Rightarrow> i) of
        None \<Rightarrow> None
      | Some r \<Rightarrow>
          if rr_trigger_source r \<noteq> Source_model \<or> rr_continuation r \<noteq> Runtime_fail_safe
             \<or> rr_resume_entrypoint r \<noteq> ''submit_message''
          then None
          else Some \<lparr>ct_rule_id = rr_rule_id r, ct_claimant_projection = rr_claimant_projection r,
                     ct_resume_triggers = sorted_list_of_set (rr_resume_triggers r)\<rparr>)"

section \<open>The registry is well formed\<close>

lemma published_contract: "list_all (\<lambda>r. passes (rule_contract r)) PUBLISHED_RULES"
  by code_simp

lemma published_normalised:
  "list_all (\<lambda>r. rr_policy_id r \<noteq> [] \<and> rr_permitted_events r \<noteq> {}) PUBLISHED_RULES"
  by code_simp

lemma normalise_rule_idem: "normalise_rule (normalise_rule r) = normalise_rule r"
  by (simp add: normalise_rule_def rule_policy_id_def rule_permitted_events_def split: option.split)

lemma normalise_rule_fixed:
  "rr_policy_id r \<noteq> [] \<Longrightarrow> rr_permitted_events r \<noteq> {} \<Longrightarrow> normalise_rule r = r"
  by (simp add: normalise_rule_def rule_policy_id_def rule_permitted_events_def)

lemma published_ids_distinct: "distinct (map rr_rule_id PUBLISHED_RULES)"
  by code_simp

lemma published_policies_distinct:
  "distinct (map (\<lambda>r. (rr_policy_id r, rr_version r)) PUBLISHED_RULES)"
  by code_simp

lemma published_valid:
  assumes "r \<in> set RECOVERY_RULES"
  shows "validate_policy_contract r = Inr r"
proof -
  have "passes (rule_contract r)" "rr_policy_id r \<noteq> []" "rr_permitted_events r \<noteq> {}"
    using assms published_contract published_normalised
    by (auto simp: list_all_iff RECOVERY_RULES_def)
  then show ?thesis
    by (simp add: validate_policy_contract_def guarded_passes normalise_rule_fixed)
qed

text \<open>
  Two rules overlap when some trigger could satisfy both matchers. The criterion is
  executable, and it bounds the matcher: rules that do not overlap never match together.
\<close>

definition rules_overlap :: "recovery_rule \<Rightarrow> recovery_rule \<Rightarrow> bool" where
  "rules_overlap r q \<longleftrightarrow> rr_trigger_source r = rr_trigger_source q
     \<and> rr_outcome_codes r \<inter> rr_outcome_codes q \<noteq> {}
     \<and> rr_delivery_states r \<inter> rr_delivery_states q \<noteq> {}
     \<and> (rr_retryable r = None \<or> rr_retryable q = None \<or> rr_retryable r = rr_retryable q)
     \<and> (rr_blocking r = None \<or> rr_blocking q = None \<or> rr_blocking r = rr_blocking q)"

primrec pairwise_apart :: "recovery_rule list \<Rightarrow> bool" where
  "pairwise_apart [] = True"
| "pairwise_apart (r # rs) = (list_all (\<lambda>q. \<not> rules_overlap r q) rs \<and> pairwise_apart rs)"

lemma matches_overlap: "rule_matches r t \<Longrightarrow> rule_matches q t \<Longrightarrow> rules_overlap r q"
  by (auto simp: rule_matches_def rules_overlap_def)

lemma pairwise_apart_filter:
  "pairwise_apart rs \<Longrightarrow> length (filter (\<lambda>r. rule_matches r t) rs) \<le> 1"
proof (induction rs)
  case (Cons r rs)
  have "rule_matches r t \<Longrightarrow> filter (\<lambda>q. rule_matches q t) rs = []"
    using Cons.prems matches_overlap by (auto simp: filter_empty_conv list_all_iff)
  then show ?case using Cons by auto
qed simp

lemma published_apart: "pairwise_apart PUBLISHED_RULES"
  by code_simp

lemma classify_filter_le_1: "length (filter (\<lambda>r. rule_matches r t) RECOVERY_RULES) \<le> 1"
  unfolding RECOVERY_RULES_def by (rule pairwise_apart_filter [OF published_apart])

lemma exactly_one_cases:
  "length rs \<le> 1 \<Longrightarrow> exactly_one rs = (case rs of [] \<Rightarrow> Inl UnknownRecoveryTrigger | r # _ \<Rightarrow> Inr r)"
  by (auto simp: exactly_one_def split: list.split)

lemma filter_le_1_eq: "length (filter P xs) \<le> 1 \<Longrightarrow> x \<in> set xs \<Longrightarrow> P x \<Longrightarrow> filter P xs = [x]"
proof -
  assume le: "length (filter P xs) \<le> 1" and "x \<in> set xs" "P x"
  then have "x \<in> set (filter P xs)" by simp
  with le show ?thesis by (cases "filter P xs") (auto simp: le_Suc_eq)
qed

lemma classify_Inr_iff:
  "classify_recovery t = Inr r \<longleftrightarrow> r \<in> set RECOVERY_RULES \<and> rule_matches r t"
proof
  assume "classify_recovery t = Inr r"
  then have "filter (\<lambda>r. rule_matches r t) RECOVERY_RULES = [r]"
    by (auto simp: classify_recovery_def exactly_one_def split: list.splits)
  then have "r \<in> set (filter (\<lambda>r. rule_matches r t) RECOVERY_RULES)" by simp
  then show "r \<in> set RECOVERY_RULES \<and> rule_matches r t" by simp
next
  assume "r \<in> set RECOVERY_RULES \<and> rule_matches r t"
  then show "classify_recovery t = Inr r"
    using filter_le_1_eq [OF classify_filter_le_1]
    by (auto simp: classify_recovery_def exactly_one_def)
qed

lemma classify_Inl_iff:
  "classify_recovery t = Inl e \<longleftrightarrow>
     e = UnknownRecoveryTrigger \<and> (\<forall>r\<in>set RECOVERY_RULES. \<not> rule_matches r t)"
  using classify_filter_le_1 [of t]
  by (auto simp: classify_recovery_def exactly_one_cases filter_empty_conv split: list.splits)
    (metis filter_empty_conv list.distinct(1))+

lemma recovery_policy_published:
  assumes "r \<in> set RECOVERY_RULES"
  shows "recovery_policy (rr_policy_id r) (rr_version r) = Inr r"
proof -
  have inj: "inj_on (\<lambda>r. (rr_policy_id r, rr_version r)) (set RECOVERY_RULES)"
    and dist: "distinct RECOVERY_RULES"
    using published_policies_distinct by (auto simp: RECOVERY_RULES_def distinct_map)
  let ?P = "\<lambda>q. rr_policy_id q = rr_policy_id r \<and> rr_version q = rr_version r"
  have "set (filter ?P RECOVERY_RULES) = {r}"
    using assms inj by (auto simp: inj_on_def)
  then have "filter ?P RECOVERY_RULES = [r]"
    using dist by (intro distinct_singleton) auto
  then show ?thesis by (simp add: recovery_policy_def)
qed

section \<open>The rules the recovery subsystems rely on\<close>

text \<open>
  The triggers that the follow-up, retention and dependency code sends, each classified.
\<close>

lemma published_members:
  "REVISION_CONFLICT_RULE \<in> set RECOVERY_RULES"
  "EXTERNAL_SUBMITTED_UNKNOWN_RULE \<in> set RECOVERY_RULES"
  "EXTERNAL_TERMINAL_FAILURE_RULE \<in> set RECOVERY_RULES"
  "HIGH_IMPACT_REVIEW_RULE \<in> set RECOVERY_RULES"
  "TOOL_UNAVAILABLE_BLOCKING_RULE \<in> set RECOVERY_RULES"
  "TOOL_UNAVAILABLE_NON_BLOCKING_RULE \<in> set RECOVERY_RULES"
  "RETRIEVAL_UNAVAILABLE_BLOCKING_RULE \<in> set RECOVERY_RULES"
  "RETRIEVAL_UNAVAILABLE_NON_BLOCKING_RULE \<in> set RECOVERY_RULES"
  "P17_FOLLOW_UP_DUE_RULE \<in> set RECOVERY_RULES"
  "P17_CONTACT_WITHDRAWAL_RULE \<in> set RECOVERY_RULES"
  "P17_ATTEMPT_EXHAUSTION_RULE \<in> set RECOVERY_RULES"
  "P17_RECOVERY_EXPIRY_RULE \<in> set RECOVERY_RULES"
  "RETENTION_ELIGIBLE_RULE \<in> set RECOVERY_RULES"
  "RETENTION_HOLD_RULE \<in> set RECOVERY_RULES"
  "RETENTION_FAILURE_RULE \<in> set RECOVERY_RULES"
  "OLD_SESSION_DENIED_RULE \<in> set RECOVERY_RULES"
  by (simp_all add: RECOVERY_RULES_def PUBLISHED_RULES_def)

lemma plain_trigger_sel [simp]:
  "tg_source (plain_trigger s c) = s" "tg_outcome_code (plain_trigger s c) = c"
  by (simp_all add: plain_trigger_def)

lemma owned_matches:
  "rule_matches P17_FOLLOW_UP_DUE_RULE (plain_trigger Source_timer ''follow_up_due'')"
  "rule_matches P17_ATTEMPT_EXHAUSTION_RULE (plain_trigger Source_timer ''attempt_limit_reached'')"
  "rule_matches P17_CONTACT_WITHDRAWAL_RULE (plain_trigger Source_human ''contact_authority_withdrawn'')"
  "rule_matches P17_RECOVERY_EXPIRY_RULE (plain_trigger Source_timer ''recovery_expired'')"
  "rule_matches RETENTION_ELIGIBLE_RULE (plain_trigger Source_retention ''eligible'')"
  "rule_matches RETENTION_HOLD_RULE (plain_trigger Source_retention ''hold'')"
  "rule_matches RETENTION_FAILURE_RULE (plain_trigger Source_retention ''unknown'')"
  "rule_matches OLD_SESSION_DENIED_RULE (plain_trigger Source_retention ''old_session_denied'')"
  "rule_matches REVISION_CONFLICT_RULE (plain_trigger Source_repository ''revision_conflict'')"
  "rule_matches HIGH_IMPACT_REVIEW_RULE (plain_trigger Source_human ''high_impact_review_required'')"
  by code_simp+

lemmas owned_classified =
  owned_matches(1) [THEN conjI [OF published_members(9), THEN classify_Inr_iff [THEN iffD2]]]
  owned_matches(2) [THEN conjI [OF published_members(11), THEN classify_Inr_iff [THEN iffD2]]]
  owned_matches(3) [THEN conjI [OF published_members(10), THEN classify_Inr_iff [THEN iffD2]]]
  owned_matches(4) [THEN conjI [OF published_members(12), THEN classify_Inr_iff [THEN iffD2]]]
  owned_matches(5) [THEN conjI [OF published_members(13), THEN classify_Inr_iff [THEN iffD2]]]
  owned_matches(6) [THEN conjI [OF published_members(14), THEN classify_Inr_iff [THEN iffD2]]]
  owned_matches(7) [THEN conjI [OF published_members(15), THEN classify_Inr_iff [THEN iffD2]]]
  owned_matches(8) [THEN conjI [OF published_members(16), THEN classify_Inr_iff [THEN iffD2]]]
  owned_matches(9) [THEN conjI [OF published_members(1), THEN classify_Inr_iff [THEN iffD2]]]
  owned_matches(10) [THEN conjI [OF published_members(4), THEN classify_Inr_iff [THEN iffD2]]]

text \<open>
  \<open>stateless_rule r d\<close>: the fields the reducer reads for a rule that needs no operation
  identity and no message checkpoint.
\<close>

definition stateless_rule :: "recovery_rule \<Rightarrow> decision_code \<Rightarrow> bool" where
  "stateless_rule r d \<longleftrightarrow> rr_decision_code r = d \<and> \<not> rr_requires_operation_identity r
     \<and> rr_preservation r \<noteq> ''inbound_message_and_checkpoint''
     \<and> rr_rule_id r \<noteq> ''runtime.revision_conflict''"

lemma owned_stateless:
  "stateless_rule P17_FOLLOW_UP_DUE_RULE Code_execute_follow_up"
  "stateless_rule P17_ATTEMPT_EXHAUSTION_RULE Code_block_follow_up"
  "stateless_rule P17_CONTACT_WITHDRAWAL_RULE Code_block_follow_up"
  "stateless_rule P17_RECOVERY_EXPIRY_RULE Code_expire_recovery"
  "stateless_rule RETENTION_ELIGIBLE_RULE Code_retention_eligible"
  "stateless_rule RETENTION_HOLD_RULE Code_retention_hold"
  "stateless_rule RETENTION_FAILURE_RULE Code_retention_reconcile"
  "stateless_rule OLD_SESSION_DENIED_RULE Code_deny_access"
  by code_simp+

lemma owned_reconciliation:
  "\<not> rr_requires_reconciliation P17_FOLLOW_UP_DUE_RULE"
  "\<not> rr_requires_reconciliation P17_ATTEMPT_EXHAUSTION_RULE"
  "\<not> rr_requires_reconciliation P17_CONTACT_WITHDRAWAL_RULE"
  "\<not> rr_requires_reconciliation P17_RECOVERY_EXPIRY_RULE"
  "\<not> rr_requires_reconciliation RETENTION_ELIGIBLE_RULE"
  "\<not> rr_requires_reconciliation RETENTION_HOLD_RULE"
  "rr_requires_reconciliation RETENTION_FAILURE_RULE"
  "\<not> rr_requires_reconciliation OLD_SESSION_DENIED_RULE"
  by code_simp+

lemma due_rule_limit: "rr_max_auto_retry P17_FOLLOW_UP_DUE_RULE = 3"
  by code_simp

section \<open>Safety of the published policies\<close>

lemma external_side_effect_rules:
  "list_all (\<lambda>r. rr_trigger_source r = Source_external \<and> Delivery_unknown \<in> rr_delivery_states r \<longrightarrow>
     rr_retry_mode r \<in> {Retry_reconcile_before_retry, Retry_staff_authorised}
     \<and> rr_requires_operation_identity r \<and> rr_max_auto_retry r = 0
     \<and> Act_external_retry_same_operation \<notin> set (rr_required_actions r)
     \<and> rr_blocks_action r = Some ''external.retry'') PUBLISHED_RULES"
  by code_simp

lemma automatic_contact_rules:
  "list_all (\<lambda>r. rr_max_auto_retry r \<noteq> 0 \<longrightarrow> rr_rule_id r = ''incomplete_claim_follow_up.due'')
     PUBLISHED_RULES"
  by code_simp

end
