(* ===== verification/Stable_Ids.thy ===== *)
theory Stable_Ids
  imports Northwind_Prelude "HOL-Library.Word"
begin

text \<open>
  Replay-stable identities, \<open>backend/domain/ids.py\<close>. The digest is SHA-256 (Python's
  \<open>hashlib.sha256\<close>) over the UTF-8 bytes of the material; a \<open>string\<close> of the model is that
  byte sequence. Its hexadecimal rendering is cut to the requested length.
\<close>

unbundle bit_operations_syntax

section \<open>SHA-256\<close>

type_synonym w32 = "32 word"

text \<open>
  The tables of the algorithm are the first 32 bits of the fractional parts of the cube
  roots of the first 64 primes and of the square roots of the first eight. They are computed:
  \<open>integer_root k n b r\<close> tries the bits below \<open>b\<close> from the highest.
\<close>

primrec integer_root :: "nat \<Rightarrow> int \<Rightarrow> nat \<Rightarrow> int \<Rightarrow> int" where
  "integer_root k n 0 r = r"
| "integer_root k n (Suc b) r =
     integer_root k n b (if (r + 2 ^ b) ^ k \<le> n then r + 2 ^ b else r)"

definition small_primes :: "int list" where
  "small_primes = filter (\<lambda>n. list_all (\<lambda>d. n mod d \<noteq> 0) [2..n - 1]) [2..311]"

definition root_fraction :: "nat \<Rightarrow> int \<Rightarrow> w32" where
  "root_fraction k p = of_int (integer_root k (p * 2 ^ (32 * k)) 37 0)"

definition sha_k :: "w32 list" where
  "sha_k = map (root_fraction 3) small_primes"

definition sha_h0 :: "w32 list" where
  "sha_h0 = map (root_fraction 2) [2, 3, 5, 7, 11, 13, 17, 19]"

definition rotr :: "nat \<Rightarrow> w32 \<Rightarrow> w32" where
  "rotr n w = drop_bit n w OR push_bit (32 - n) w"

definition big_sigma0 :: "w32 \<Rightarrow> w32" where
  "big_sigma0 x = rotr 2 x XOR rotr 13 x XOR rotr 22 x"
definition big_sigma1 :: "w32 \<Rightarrow> w32" where
  "big_sigma1 x = rotr 6 x XOR rotr 11 x XOR rotr 25 x"
definition small_sigma0 :: "w32 \<Rightarrow> w32" where
  "small_sigma0 x = rotr 7 x XOR rotr 18 x XOR drop_bit 3 x"
definition small_sigma1 :: "w32 \<Rightarrow> w32" where
  "small_sigma1 x = rotr 17 x XOR rotr 19 x XOR drop_bit 10 x"

definition sha_ch :: "w32 \<Rightarrow> w32 \<Rightarrow> w32 \<Rightarrow> w32" where
  "sha_ch x y z = (x AND y) XOR (NOT x AND z)"
definition sha_maj :: "w32 \<Rightarrow> w32 \<Rightarrow> w32 \<Rightarrow> w32" where
  "sha_maj x y z = (x AND y) XOR (x AND z) XOR (y AND z)"

text \<open>
  The message schedule is kept reversed: its head is the newest word, so word \<open>t\<close> reads
  the words 2, 7, 15 and 16 positions back.
\<close>

primrec sha_schedule :: "nat \<Rightarrow> w32 list \<Rightarrow> w32 list" where
  "sha_schedule 0 ws = ws"
| "sha_schedule (Suc n) ws =
     sha_schedule n
       ((small_sigma1 (ws ! 1) + ws ! 6 + small_sigma0 (ws ! 14) + ws ! 15) # ws)"

type_synonym sha_regs = "w32 \<times> w32 \<times> w32 \<times> w32 \<times> w32 \<times> w32 \<times> w32 \<times> w32"

fun sha_round :: "sha_regs \<Rightarrow> w32 \<times> w32 \<Rightarrow> sha_regs" where
  "sha_round (a, b, c, d, e, f, g, h) (k, w) =
     (let t1 = h + big_sigma1 e + sha_ch e f g + k + w;
          t2 = big_sigma0 a + sha_maj a b c
      in (t1 + t2, a, b, c, d + t1, e, f, g))"

fun regs_of :: "w32 list \<Rightarrow> sha_regs" where
  "regs_of xs = (xs ! 0, xs ! 1, xs ! 2, xs ! 3, xs ! 4, xs ! 5, xs ! 6, xs ! 7)"

fun list_of_regs :: "sha_regs \<Rightarrow> w32 list" where
  "list_of_regs (a, b, c, d, e, f, g, h) = [a, b, c, d, e, f, g, h]"

definition sha_block :: "w32 list \<Rightarrow> w32 list \<Rightarrow> w32 list" where
  "sha_block hs block =
     (let ws = rev (sha_schedule 48 (rev block));
          out = foldl sha_round (regs_of hs) (zip sha_k ws)
      in map2 (+) hs (list_of_regs out))"

fun be_word :: "int list \<Rightarrow> w32" where
  "be_word bs = of_int (foldl (\<lambda>v b. 256 * v + b) 0 bs)"

fun chunks :: "nat \<Rightarrow> 'a list \<Rightarrow> 'a list list" where
  "chunks n xs = (if n = 0 \<or> xs = [] then [] else take n xs # chunks n (drop n xs))"

declare chunks.simps [simp del]

definition sha_pad :: "int list \<Rightarrow> int list" where
  "sha_pad bs =
     (let n = length bs; zeros = (119 - n mod 64) mod 64; bits = 8 * int n
      in bs @ [128] @ replicate zeros 0 @ map (\<lambda>i. (bits div 256 ^ i) mod 256) (rev [0..<8]))"

definition sha256_words :: "int list \<Rightarrow> w32 list" where
  "sha256_words bs =
     foldl (\<lambda>hs block. sha_block hs (map be_word (chunks 4 block))) sha_h0 (chunks 64 (sha_pad bs))"

definition hex_digit :: "int \<Rightarrow> char" where
  "hex_digit d = ''0123456789abcdef'' ! nat d"

definition hex_word :: "w32 \<Rightarrow> string" where
  "hex_word w = map (\<lambda>i. hex_digit (uint w div 16 ^ i mod 16)) (rev [0..<8])"

definition sha256_hexdigest :: "string \<Rightarrow> string" where
  "sha256_hexdigest s = concat (map hex_word (sha256_words (map of_char s)))"

lemma length_list_of_regs: "length (list_of_regs r) = 8"
  by (cases r rule: list_of_regs.cases) simp

lemma length_sha_block: "length hs = 8 \<Longrightarrow> length (sha_block hs b) = 8"
  by (simp add: sha_block_def Let_def length_list_of_regs)

lemma length_foldl_sha_block:
  "length hs = 8 \<Longrightarrow> length (foldl (\<lambda>hs b. sha_block hs (f b)) hs bss) = 8"
  by (induction bss arbitrary: hs) (auto simp: length_sha_block)

lemma length_sha256_words: "length (sha256_words bs) = 8"
  unfolding sha256_words_def by (rule length_foldl_sha_block) (simp add: sha_h0_def)

lemma length_hexdigest: "length (sha256_hexdigest s) = 64"
proof -
  have "length (concat (map hex_word ws)) = 8 * length ws" for ws
    by (induction ws) (simp_all add: hex_word_def)
  then show ?thesis by (simp add: sha256_hexdigest_def length_sha256_words)
qed

lemma length_sha_pad: "64 dvd length (sha_pad bs)"
proof -
  define q r where "q = length bs div 64" and "r = length bs mod 64"
  have n: "length bs = 64 * q + r" and r: "r < 64" by (simp_all add: q_def r_def)
  have z: "(119 - r) mod 64 = (if r \<le> 55 then 55 - r else 119 - r)"
    using r by (auto simp: mod_if)
  have "length (sha_pad bs) = length bs + 9 + (119 - r) mod 64"
    by (simp add: sha_pad_def Let_def r_def)
  also have "\<dots> = 64 * (q + (if r \<le> 55 then 1 else 2))"
    using r by (auto simp: z n)
  finally show ?thesis by simp
qed

section \<open>Identities of \<open>ids.py\<close>\<close>

datatype id_error = DigestLengthOutOfRange

definition stable_digest :: "string \<Rightarrow> nat \<Rightarrow> id_error + string" where
  "stable_digest material len =
     guarded [(\<not> (16 \<le> len \<and> len \<le> 64), DigestLengthOutOfRange)]
       (Inr (take len (sha256_hexdigest material)))"

text \<open>The two callers pass the constant lengths 24 and 32, for which the digest is defined.\<close>

definition stable_operation_id :: "string \<Rightarrow> string \<Rightarrow> string" where
  "stable_operation_id prefix identity =
     prefix @ ''_'' @ (case stable_digest identity 24 of Inl _ \<Rightarrow> [] | Inr d \<Rightarrow> d)"

definition stable_record_id :: "string \<Rightarrow> string \<Rightarrow> string" where
  "stable_record_id prefix material =
     prefix @ ''_'' @ (case stable_digest material 32 of Inl _ \<Rightarrow> [] | Inr d \<Rightarrow> d)"

lemma stable_digest_Inr:
  "16 \<le> n \<Longrightarrow> n \<le> 64 \<Longrightarrow>
     stable_digest m n = Inr (take n (sha256_hexdigest m))"
  by (simp add: stable_digest_def)

lemma length_stable_operation_id: "length (stable_operation_id p i) = length p + 25"
  by (simp add: stable_operation_id_def stable_digest_def length_hexdigest)

lemma length_stable_record_id: "length (stable_record_id p i) = length p + 33"
  by (simp add: stable_record_id_def stable_digest_def length_hexdigest)

lemma hex_digit_range:
  assumes "0 \<le> d" "d < 16"
  shows "hex_digit d \<in> set ''0123456789abcdef''"
  unfolding hex_digit_def by (rule nth_mem) (use assms in simp)

lemma set_hexdigest: "set (sha256_hexdigest s) \<subseteq> set ''0123456789abcdef''"
proof -
  have "set (hex_word w) \<subseteq> set ''0123456789abcdef''" for w
    unfolding hex_word_def using hex_digit_range
    by (smt (verit) image_subset_iff list.set_map pos_mod_bound pos_mod_sign)
  then show ?thesis by (auto simp only: sha256_hexdigest_def set_concat set_map)
qed

end
