(* ===== verification/Recovery_Reducer.thy ===== *)
theory Recovery_Reducer
  imports Recovery_Registry Stable_Ids
begin

text \<open>
  The pure recovery decision boundary, \<open>backend/domain/recovery.py\<close>, with the lifecycle
  snapshot, event and transition models of \<open>recovery_policy_registry.py\<close>, and the adapters of
  \<open>backend/services/recovery_decisions.py\<close> that feed it. A reducer returns a plan; every
  raise of the source is an error value. The locale \<open>policy_boundary\<close> states what the
  subsystems that own follow-ups and retention rely on.
\<close>

section \<open>Events, snapshots and plans\<close>

record normalized_event =
  ev_event_id :: string
  ev_trigger :: recovery_trigger
  ev_expected_claim_revision :: "int option"
  ev_operation_id :: "string option"
  ev_source_refs :: "string list"

record authoritative_snapshot =
  as_claim_id :: string
  as_claim_revision :: int
  as_accepted_state_preserved :: bool
  as_operation_id :: "string option"
  as_terminal :: bool
  as_source_refs :: "string list"

record recovery_plan =
  tr_event_id :: string
  tr_rule_id :: string
  tr_policy_version :: string
  tr_decision_code :: decision_code
  tr_continuation :: continuation
  tr_retry_mode :: retry_mode
  tr_responsibility :: responsibility
  tr_max_auto_retry :: int
  tr_requires_reconciliation :: bool
  tr_requires_operation_identity :: bool
  tr_work_item_kind :: "work_item_kind option"
  tr_blocks_action :: "string option"
  tr_claim_effect :: claim_effect
  tr_expected_claim_revision :: int
  tr_operation_id :: "string option"
  tr_authoritative_records :: "recovery_authority set"
  tr_required_actions :: "recovery_action list"
  tr_claimant_projection :: string
  tr_staff_projection :: "string option"
  tr_resume_triggers :: "string set"
  tr_resume_entrypoint :: string
  tr_audit_event_type :: string
  tr_source_refs :: "string list"
  tr_decided_at :: datetime

datatype reducer_error =
    Registry registry_error
  | EventFieldConstraint
  | SnapshotFieldConstraint
  | NaiveDecisionTime
  | PolicyMismatch
  | ConflictNeedsExpectedRevision
  | ConflictNotStale
  | StaleRecoveryEvent
  | CheckpointNotDurable
  | OperationIdentityRequired
  | ReconciliationIdentityRequired
  | LifecycleNaiveTime
  | LifecyclePolicyDiffers
  | LifecycleEventNotPermitted
  | LifecycleDueTooEarly
  | LifecycleUnsupportedEvent
  | LifecycleFieldConstraint
  | LifecycleDatetimeTypeError
  | WorkItemKindMissing
  | WorkItemFieldConstraint

definition normalized_event_ok :: "normalized_event \<Rightarrow> bool" where
  [validity]: "normalized_event_ok e \<longleftrightarrow>
     bounded_text 1 160 (ev_event_id e)
     \<and> opt_all (\<lambda>r. 1 \<le> r) (ev_expected_claim_revision e)
     \<and> opt_all (bounded_text 1 160) (ev_operation_id e)
     \<and> length (ev_source_refs e) \<le> 100"

definition authoritative_snapshot_ok :: "authoritative_snapshot \<Rightarrow> bool" where
  [validity]: "authoritative_snapshot_ok s \<longleftrightarrow>
     bounded_text 1 120 (as_claim_id s)
     \<and> 1 \<le> as_claim_revision s
     \<and> opt_all (bounded_text 1 160) (as_operation_id s)
     \<and> length (as_source_refs s) \<le> 100"

definition new_event :: "normalized_event \<Rightarrow> reducer_error + normalized_event" where
  "new_event e = guarded [(\<not> normalized_event_ok e, EventFieldConstraint)] (Inr e)"

definition new_snapshot :: "authoritative_snapshot \<Rightarrow> reducer_error + authoritative_snapshot" where
  "new_snapshot s = guarded [(\<not> authoritative_snapshot_ok s, SnapshotFieldConstraint)] (Inr s)"

section \<open>The event reducer\<close>

definition coalesce :: "'a option \<Rightarrow> 'a option \<Rightarrow> 'a option" where
  "coalesce a b = (case a of None \<Rightarrow> b | Some x \<Rightarrow> Some x)"

definition policy_reference :: "recovery_rule \<Rightarrow> string" where
  "policy_reference r = ''recovery-policy:'' @ rr_rule_id r @ ''@'' @ rr_version r"

definition reduction_guards ::
  "recovery_rule \<Rightarrow> normalized_event \<Rightarrow> authoritative_snapshot \<Rightarrow> (bool \<times> reducer_error) list" where
  "reduction_guards p e s =
    (let conflict = rr_rule_id p = ''runtime.revision_conflict'';
         expected = ev_expected_claim_revision e;
         operation = coalesce (ev_operation_id e) (as_operation_id s)
     in [(conflict \<and> expected = None, ConflictNeedsExpectedRevision),
         (conflict \<and> expected = Some (as_claim_revision s), ConflictNotStale),
         (\<not> conflict \<and> expected \<noteq> None \<and> expected \<noteq> Some (as_claim_revision s), StaleRecoveryEvent),
         (rr_preservation p = ''inbound_message_and_checkpoint''
            \<and> \<not> as_accepted_state_preserved s, CheckpointNotDurable),
         (rr_requires_operation_identity p \<and> operation = None, OperationIdentityRequired),
         (rr_requires_reconciliation p \<and> operation = None, ReconciliationIdentityRequired)])"

definition recovery_transition ::
  "recovery_rule \<Rightarrow> normalized_event \<Rightarrow> authoritative_snapshot \<Rightarrow> datetime \<Rightarrow> recovery_plan" where
  "recovery_transition p e s now = \<lparr>
     tr_event_id = ev_event_id e,
     tr_rule_id = rr_rule_id p,
     tr_policy_version = rr_version p,
     tr_decision_code = rr_decision_code p,
     tr_continuation = rr_continuation p,
     tr_retry_mode = rr_retry_mode p,
     tr_responsibility = rr_responsibility p,
     tr_max_auto_retry = rr_max_auto_retry p,
     tr_requires_reconciliation = rr_requires_reconciliation p,
     tr_requires_operation_identity = rr_requires_operation_identity p,
     tr_work_item_kind = rr_work_item_kind p,
     tr_blocks_action = rr_blocks_action p,
     tr_claim_effect = rr_claim_effect p,
     tr_expected_claim_revision = as_claim_revision s,
     tr_operation_id = coalesce (ev_operation_id e) (as_operation_id s),
     tr_authoritative_records = rr_authoritative_records p,
     tr_required_actions = rr_required_actions p,
     tr_claimant_projection = rr_claimant_projection p,
     tr_staff_projection = rr_staff_projection p,
     tr_resume_triggers = rr_resume_triggers p,
     tr_resume_entrypoint = rr_resume_entrypoint p,
     tr_audit_event_type = rr_audit_event_type p,
     tr_source_refs = fromkeys (as_source_refs s @ ev_source_refs e @ [policy_reference p]),
     tr_decided_at = now\<rparr>"

definition reduce_recovery ::
  "recovery_rule \<Rightarrow> normalized_event \<Rightarrow> authoritative_snapshot \<Rightarrow> datetime
     \<Rightarrow> reducer_error + recovery_plan" where
  "reduce_recovery p e s now =
     guarded [(is_naive now, NaiveDecisionTime)]
       (bind_result (map_error Registry (classify_recovery (ev_trigger e))) (\<lambda>published.
          guarded ((published \<noteq> p, PolicyMismatch) # reduction_guards p e s)
            (Inr (recovery_transition p e s now))))"

text \<open>
  The call shape all routed facts share: classify the trigger, construct the event, construct
  the snapshot, reduce.
\<close>

definition reduce_routed ::
  "recovery_trigger \<Rightarrow> normalized_event \<Rightarrow> authoritative_snapshot \<Rightarrow> datetime
     \<Rightarrow> reducer_error + recovery_plan" where
  "reduce_routed t e s now =
     bind_result (map_error Registry (classify_recovery t)) (\<lambda>policy.
       bind_result (new_event e) (\<lambda>e'.
         bind_result (new_snapshot s) (\<lambda>s'. reduce_recovery policy e' s' now)))"

definition reduce_owned_recovery ::
  "recovery_trigger \<Rightarrow> string \<Rightarrow> int \<Rightarrow> string \<Rightarrow> datetime \<Rightarrow> string list \<Rightarrow> string option
     \<Rightarrow> reducer_error + recovery_plan" where
  "reduce_owned_recovery t claim_id claim_revision event_id now refs operation_id =
     reduce_routed t
       \<lparr>ev_event_id = event_id, ev_trigger = t, ev_expected_claim_revision = Some claim_revision,
        ev_operation_id = operation_id, ev_source_refs = refs\<rparr>
       \<lparr>as_claim_id = claim_id, as_claim_revision = claim_revision,
        as_accepted_state_preserved = True, as_operation_id = operation_id, as_terminal = False,
        as_source_refs = refs\<rparr>
       now"

section \<open>The lifecycle reducer\<close>

datatype recovery_decision =
    Decide_wait | Decide_retry | Decide_reconcile | Decide_review | Decide_reload | Decide_resume
  | Decide_execute_follow_up | Decide_block_follow_up | Decide_expire | Decide_retain
  | Decide_deny | Decide_no_op

datatype snapshot_status = Snap_pending | Snap_blocked | Snap_resolved

datatype blocked_code =
    Why_contact_not_authorised | Why_attempt_limit_reached | Why_policy_binding_invalid
  | Why_source_state_inconsistent

datatype resolution_code =
    Res_claimant_resumed | Res_recovery_expired | Res_staff_abandoned | Res_authorised_closure

datatype operation_action =
    Op_none | Op_reserve_and_commit | Op_retry_same | Op_reconcile_same | Op_cancel_pending

datatype external_operation_state =
    Ext_not_submitted | Ext_submitted_unknown | Ext_terminal_failure | Ext_verified

record recovery_snapshot =
  rs_claim_revision :: int
  rs_follow_up_status :: "snapshot_status option"
  rs_follow_up_attempt_count :: int
  rs_contact_authorised :: "bool option"
  rs_due_at :: "datetime option"
  rs_deadline_at :: "datetime option"
  rs_terminal :: bool
  rs_external_operation_state :: "external_operation_state option"
  rs_retention_hold :: bool
  rs_access_closed :: bool
  rs_source_refs :: "string list"

record recovery_event =
  re_code :: string
  re_expected_claim_revision :: "int option"
  re_source_refs :: "string list"

record lifecycle_transition =
  lt_policy_id :: string
  lt_policy_version :: string
  lt_decision :: recovery_decision
  lt_runtime_directive :: continuation
  lt_preserve_claim_revision :: int
  lt_responsibility :: responsibility
  lt_work_item_kind :: "work_item_kind option"
  lt_blocks_action :: "string option"
  lt_next_follow_up_status :: "snapshot_status option"
  lt_blocked_reason :: "blocked_code option"
  lt_resolution_code :: "resolution_code option"
  lt_attempt_count_delta :: int
  lt_next_due_at :: "datetime option"
  lt_operation_action :: operation_action
  lt_claimant_projection :: string
  lt_staff_projection :: "string option"
  lt_audit_event_type :: string
  lt_source_refs :: "string list"

definition recovery_snapshot_ok :: "recovery_snapshot \<Rightarrow> bool" where
  [validity]: "recovery_snapshot_ok s \<longleftrightarrow> 1 \<le> rs_claim_revision s
     \<and> 0 \<le> rs_follow_up_attempt_count s \<and> length (rs_source_refs s) \<le> 100"

definition recovery_event_ok :: "recovery_event \<Rightarrow> bool" where
  [validity]: "recovery_event_ok e \<longleftrightarrow> bounded_text 1 120 (re_code e)
     \<and> opt_all (\<lambda>r. 1 \<le> r) (re_expected_claim_revision e) \<and> length (re_source_refs e) \<le> 100"

definition lifecycle_transition_ok :: "lifecycle_transition \<Rightarrow> bool" where
  [validity]: "lifecycle_transition_ok t \<longleftrightarrow> 1 \<le> lt_preserve_claim_revision t
     \<and> lt_attempt_count_delta t \<in> {0, 1} \<and> length (lt_source_refs t) \<le> 100"

text \<open>
  \<open>_base_transition\<close>: the payload of the rule and the snapshot, the keyword updates of the
  caller, then the model validation.
\<close>

definition base_payload ::
  "recovery_rule \<Rightarrow> recovery_snapshot \<Rightarrow> recovery_decision \<Rightarrow> string list \<Rightarrow> lifecycle_transition" where
  "base_payload r s d refs = \<lparr>
     lt_policy_id = rr_policy_id r, lt_policy_version = rr_version r, lt_decision = d,
     lt_runtime_directive = rr_continuation r, lt_preserve_claim_revision = rs_claim_revision s,
     lt_responsibility = rr_responsibility r, lt_work_item_kind = rr_work_item_kind r,
     lt_blocks_action = rr_blocks_action r, lt_next_follow_up_status = None,
     lt_blocked_reason = None, lt_resolution_code = None, lt_attempt_count_delta = 0,
     lt_next_due_at = None, lt_operation_action = Op_none,
     lt_claimant_projection = rr_claimant_projection r, lt_staff_projection = rr_staff_projection r,
     lt_audit_event_type = rr_audit_event_type r, lt_source_refs = refs\<rparr>"

definition base_transition ::
  "recovery_rule \<Rightarrow> recovery_snapshot \<Rightarrow> recovery_decision \<Rightarrow> string list
     \<Rightarrow> (lifecycle_transition \<Rightarrow> lifecycle_transition) \<Rightarrow> reducer_error + lifecycle_transition" where
  "base_transition r s d refs updates =
     (let t = updates (base_payload r s d refs)
      in guarded [(\<not> lifecycle_transition_ok t, LifecycleFieldConstraint)] (Inr t))"

definition block_follow_up ::
  "recovery_rule \<Rightarrow> recovery_snapshot \<Rightarrow> string list \<Rightarrow> blocked_code \<Rightarrow> int
     \<Rightarrow> reducer_error + lifecycle_transition" where
  "block_follow_up r s refs why delta =
     base_transition r s Decide_block_follow_up refs
       (\<lambda>t. t\<lparr>lt_next_follow_up_status := Some Snap_blocked, lt_blocked_reason := Some why,
              lt_attempt_count_delta := delta\<rparr>)"

definition reduce_follow_up_due_event ::
  "recovery_rule \<Rightarrow> recovery_snapshot \<Rightarrow> datetime \<Rightarrow> string list
     \<Rightarrow> reducer_error + lifecycle_transition" where
  "reduce_follow_up_due_event r s now refs =
     (case rs_due_at s of
        None \<Rightarrow> block_follow_up r s refs Why_source_state_inconsistent 0
      | Some due \<Rightarrow>
          if rs_follow_up_status s \<noteq> Some Snap_pending
          then block_follow_up r s refs Why_source_state_inconsistent 0
          else guarded
            [(incomparable now due, LifecycleDatetimeTypeError),
             (dt_before now due, LifecycleDueTooEarly)]
            (base_transition r s Decide_execute_follow_up refs
               (\<lambda>t. t\<lparr>lt_next_follow_up_status := Some Snap_pending,
                      lt_operation_action := Op_reserve_and_commit\<rparr>)))"

definition reduce_no_response_event ::
  "recovery_rule \<Rightarrow> recovery_snapshot \<Rightarrow> datetime \<Rightarrow> string list
     \<Rightarrow> reducer_error + lifecycle_transition" where
  "reduce_no_response_event r s deadline refs =
     (if rs_follow_up_attempt_count s + 1 \<ge> rr_max_auto_retry r
      then block_follow_up r s refs Why_attempt_limit_reached 1
      else case (rs_due_at s, rr_retry_interval_seconds r) of
        (Some due, Some interval) \<Rightarrow>
          (let next_due = dt_add due (interval * 1000000)
           in guarded [(incomparable next_due deadline, LifecycleDatetimeTypeError)]
                (if \<not> dt_before next_due deadline
                 then block_follow_up r s refs Why_attempt_limit_reached 1
                 else base_transition r s Decide_retry refs
                   (\<lambda>t. t\<lparr>lt_next_follow_up_status := Some Snap_pending,
                          lt_attempt_count_delta := 1, lt_next_due_at := Some next_due\<rparr>)))
      | _ \<Rightarrow> block_follow_up r s refs Why_source_state_inconsistent 1)"

definition reduce_incomplete_claim ::
  "recovery_rule \<Rightarrow> recovery_event \<Rightarrow> recovery_snapshot \<Rightarrow> datetime \<Rightarrow> string list
     \<Rightarrow> reducer_error + lifecycle_transition" where
  "reduce_incomplete_claim r e s now refs =
     (if rs_follow_up_status s = Some Snap_resolved then base_transition r s Decide_no_op refs id
      else case rs_deadline_at s of
        None \<Rightarrow> block_follow_up r s refs Why_policy_binding_invalid 0
      | Some deadline \<Rightarrow>
          guarded [(incomparable now deadline, LifecycleDatetimeTypeError)]
            (if \<not> dt_before now deadline then
               base_transition r s Decide_expire refs
                 (\<lambda>t. t\<lparr>lt_next_follow_up_status := Some Snap_resolved,
                        lt_resolution_code := Some Res_recovery_expired,
                        lt_operation_action := Op_cancel_pending\<rparr>)
             else if re_code e = ''claimant_resume'' then
               base_transition r s Decide_resume refs
                 (\<lambda>t. t\<lparr>lt_next_follow_up_status := Some Snap_resolved,
                        lt_resolution_code := Some Res_claimant_resumed,
                        lt_operation_action := Op_cancel_pending\<rparr>)
             else if re_code e = ''contact_withdrawn'' \<or> rs_contact_authorised s = Some False then
               block_follow_up r s refs Why_contact_not_authorised 0
             else if rs_follow_up_attempt_count s \<ge> rr_max_auto_retry r then
               block_follow_up r s refs Why_attempt_limit_reached 0
             else if re_code e = ''follow_up_due'' then reduce_follow_up_due_event r s now refs
             else if re_code e = ''follow_up_committed_no_response'' then
               reduce_no_response_event r s deadline refs
             else Inl LifecycleUnsupportedEvent))"

definition lifecycle_guards ::
  "recovery_rule \<Rightarrow> recovery_event \<Rightarrow> datetime \<Rightarrow> (bool \<times> reducer_error) list" where
  "lifecycle_guards p e now =
    [(is_naive now, LifecycleNaiveTime),
     (recovery_policy (rr_policy_id p) (rr_version p) = Inl UnknownRecoveryTrigger,
      Registry UnknownRecoveryTrigger),
     (recovery_policy (rr_policy_id p) (rr_version p) \<noteq> Inr p, LifecyclePolicyDiffers),
     (re_code e \<notin> rr_permitted_events p, LifecycleEventNotPermitted)]"

text \<open>The policies other than the incomplete-claim follow-up, in the order of the tests.\<close>

definition reduce_other_policy ::
  "recovery_rule \<Rightarrow> recovery_snapshot \<Rightarrow> string list \<Rightarrow> reducer_error + lifecycle_transition" where
  "reduce_other_policy p s refs =
     (if rr_requires_reconciliation p then
        base_transition p s Decide_reconcile refs
          (\<lambda>t. t\<lparr>lt_operation_action :=
             (if rr_trigger_source p = Source_external then Op_reconcile_same else Op_none)\<rparr>)
      else if rr_policy_id p = rr_policy_id REVISION_CONFLICT_RULE then
        base_transition p s Decide_reload refs id
      else if rr_retry_mode p = Retry_same_operation then
        base_transition p s Decide_retry refs (\<lambda>t. t\<lparr>lt_operation_action := Op_retry_same\<rparr>)
      else if rr_retry_mode p = Retry_staff_authorised then
        base_transition p s Decide_review refs id
      else if rr_policy_id p = rr_policy_id RETENTION_ELIGIBLE_RULE then
        (if rs_retention_hold s then base_transition RETENTION_HOLD_RULE s Decide_wait refs id
         else base_transition p s Decide_retain refs id)
      else if rr_retry_mode p \<in> {Retry_claimant_initiated, Retry_bounded_auto, Retry_scheduled_policy}
      then base_transition p s Decide_retry refs id
      else base_transition p s Decide_wait refs id)"

definition reduce_lifecycle_recovery ::
  "recovery_rule \<Rightarrow> recovery_snapshot \<Rightarrow> recovery_event \<Rightarrow> recovery_snapshot \<Rightarrow> datetime
     \<Rightarrow> reducer_error + lifecycle_transition" where
  "reduce_lifecycle_recovery p state e s now =
     guarded (lifecycle_guards p e now)
       (let refs = fromkeys (rs_source_refs state @ rs_source_refs s @ re_source_refs e) in
        if rs_access_closed s then base_transition OLD_SESSION_DENIED_RULE s Decide_deny refs id
        else if re_expected_claim_revision e \<noteq> None
                \<and> re_expected_claim_revision e \<noteq> Some (rs_claim_revision s) then
          base_transition REVISION_CONFLICT_RULE s Decide_reload refs id
        else if rs_claim_revision state \<noteq> rs_claim_revision s then
          base_transition REVISION_CONFLICT_RULE s Decide_reload refs id
        else if rr_policy_id p = rr_policy_id P17_FOLLOW_UP_DUE_RULE then
          reduce_incomplete_claim p e s now refs
        else reduce_other_policy p s refs)"

section \<open>Adapters of subsystem facts\<close>

definition claim_revision_ref :: "string \<Rightarrow> int \<Rightarrow> string" where
  "claim_revision_ref claim_id revision = ''claim:'' @ claim_id @ '':revision:'' @ decimal revision"

definition adapter_event ::
  "string \<Rightarrow> recovery_trigger \<Rightarrow> int \<Rightarrow> string option \<Rightarrow> string list \<Rightarrow> normalized_event" where
  "adapter_event event_id t expected operation_id refs = \<lparr>ev_event_id = event_id, ev_trigger = t,
     ev_expected_claim_revision = Some expected, ev_operation_id = operation_id,
     ev_source_refs = refs\<rparr>"

definition adapter_snapshot ::
  "string \<Rightarrow> int \<Rightarrow> string option \<Rightarrow> authoritative_snapshot" where
  "adapter_snapshot claim_id revision operation_id = \<lparr>as_claim_id = claim_id,
     as_claim_revision = revision, as_accepted_state_preserved = True,
     as_operation_id = operation_id, as_terminal = False,
     as_source_refs = [claim_revision_ref claim_id revision]\<rparr>"

definition reduce_revision_conflict_recovery ::
  "string \<Rightarrow> int \<Rightarrow> int \<Rightarrow> string \<Rightarrow> string list \<Rightarrow> datetime \<Rightarrow> reducer_error + recovery_plan" where
  "reduce_revision_conflict_recovery claim_id expected current event_id refs now =
     (let t = plain_trigger Source_repository ''revision_conflict''
      in reduce_routed t (adapter_event event_id t expected None refs)
           (adapter_snapshot claim_id current None) now)"

definition reduce_external_unknown_recovery ::
  "string \<Rightarrow> int \<Rightarrow> string \<Rightarrow> delivery_state \<Rightarrow> string \<Rightarrow> string list \<Rightarrow> datetime
     \<Rightarrow> reducer_error + recovery_plan" where
  "reduce_external_unknown_recovery claim_id revision operation_id delivery event_id refs now =
     (let t = (plain_trigger Source_external ''unknown_outcome'')\<lparr>tg_delivery_state := Some delivery\<rparr>
      in reduce_routed t (adapter_event event_id t revision (Some operation_id) refs)
           (adapter_snapshot claim_id revision (Some operation_id)) now)"

definition reduce_dependency_unavailable_recovery ::
  "recovery_source \<Rightarrow> bool \<Rightarrow> string \<Rightarrow> int \<Rightarrow> string \<Rightarrow> string list \<Rightarrow> datetime
     \<Rightarrow> reducer_error + recovery_plan" where
  "reduce_dependency_unavailable_recovery src blocking claim_id revision event_id refs now =
     (let t = (plain_trigger src ''unavailable'')\<lparr>tg_blocking := Some blocking\<rparr>
      in reduce_routed t (adapter_event event_id t revision None refs)
           (adapter_snapshot claim_id revision None) now)"

definition reduce_high_impact_review_recovery ::
  "string \<Rightarrow> int \<Rightarrow> string \<Rightarrow> string list \<Rightarrow> datetime \<Rightarrow> reducer_error + recovery_plan" where
  "reduce_high_impact_review_recovery claim_id revision event_id refs now =
     (let t = plain_trigger Source_human ''high_impact_review_required''
      in reduce_routed t (adapter_event event_id t revision None refs)
           (adapter_snapshot claim_id revision None) now)"

definition reduce_external_terminal_recovery ::
  "string \<Rightarrow> int \<Rightarrow> string \<Rightarrow> string \<Rightarrow> string list \<Rightarrow> datetime \<Rightarrow> reducer_error + recovery_plan" where
  "reduce_external_terminal_recovery claim_id revision operation_id event_id refs now =
     (let t = (plain_trigger Source_external ''terminal_failure'')
                \<lparr>tg_delivery_state := Some Delivery_submitted\<rparr>
      in reduce_routed t (adapter_event event_id t revision (Some operation_id) refs)
           (adapter_snapshot claim_id revision (Some operation_id)) now)"

datatype work_item_status = Item_open | Item_in_progress | Item_completed | Item_cancelled | Item_unavailable

record work_item =
  wi_work_item_id :: string
  wi_claim_id :: string
  wi_turn_id :: string
  wi_kind :: work_item_kind
  wi_subject_ref :: string
  wi_owner :: responsibility
  wi_status :: work_item_status
  wi_blocks_action :: "string option"
  wi_source_refs :: "string list"
  wi_created_at :: datetime
  wi_updated_at :: datetime
  wi_completed_at :: "datetime option"

definition work_item_ok :: "work_item \<Rightarrow> bool" where
  [validity]: "work_item_ok w \<longleftrightarrow> bounded_text 1 120 (wi_work_item_id w)
     \<and> bounded_text 1 120 (wi_claim_id w) \<and> bounded_text 1 120 (wi_turn_id w)
     \<and> bounded_text 1 200 (wi_subject_ref w) \<and> opt_all (bounded_text 0 120) (wi_blocks_action w)
     \<and> length (wi_source_refs w) \<le> 100"

definition recovery_obligation_digest :: "recovery_plan \<Rightarrow> string \<Rightarrow> string \<Rightarrow> id_error + string" where
  "recovery_obligation_digest t claim_id subject_ref =
     stable_digest (join ''|'' [claim_id,
       case tr_operation_id t of Some i \<Rightarrow> i | None \<Rightarrow> tr_event_id t,
       tr_rule_id t, subject_ref]) 24"

definition build_recovery_work_item ::
  "recovery_plan \<Rightarrow> string \<Rightarrow> string \<Rightarrow> datetime \<Rightarrow> work_item_status
     \<Rightarrow> reducer_error + work_item option" where
  "build_recovery_work_item t claim_id subject_ref now status =
     (if Act_work_item_ensure \<notin> set (tr_required_actions t) then Inr None
      else case tr_work_item_kind t of
        None \<Rightarrow> Inl WorkItemKindMissing
      | Some kind \<Rightarrow>
          (case recovery_obligation_digest t claim_id subject_ref of
             Inl _ \<Rightarrow> Inl WorkItemFieldConstraint
           | Inr digest \<Rightarrow>
               (let completed = status \<in> {Item_completed, Item_cancelled};
                    w = \<lparr>wi_work_item_id = ''wki_recovery_'' @ digest, wi_claim_id = claim_id,
                         wi_turn_id = ''recovery_'' @ digest, wi_kind = kind,
                         wi_subject_ref = subject_ref, wi_owner = tr_responsibility t,
                         wi_status = status,
                         wi_blocks_action = (if completed then None else tr_blocks_action t),
                         wi_source_refs = tr_source_refs t, wi_created_at = now,
                         wi_updated_at = now,
                         wi_completed_at = (if completed then Some now else None)\<rparr>
                in guarded [(\<not> work_item_ok w, WorkItemFieldConstraint)] (Inr (Some w)))))"

section \<open>The event reducer's behaviour\<close>

lemma coalesce_None_iff [simp]: "coalesce a b = None \<longleftrightarrow> a = None \<and> b = None"
  by (cases a) (auto simp: coalesce_def)

lemma coalesce_same [simp]: "coalesce a a = a"
  by (cases a) (auto simp: coalesce_def)

lemma new_event_Inr_iff: "new_event e = Inr e' \<longleftrightarrow> normalized_event_ok e \<and> e' = e"
  by (auto simp: new_event_def)

lemma new_snapshot_Inr_iff: "new_snapshot s = Inr s' \<longleftrightarrow> authoritative_snapshot_ok s \<and> s' = s"
  by (auto simp: new_snapshot_def)

lemma reduce_recovery_Inr_iff:
  "reduce_recovery p e s now = Inr t \<longleftrightarrow>
     \<not> is_Naive now \<and> classify_recovery (ev_trigger e) = Inr p
     \<and> passes (reduction_guards p e s) \<and> t = recovery_transition p e s now"
  by (auto simp: reduce_recovery_def guarded_Inr_iff bind_result_Inr_iff)

lemma reduce_routed_Inr_iff:
  "ev_trigger e = t \<Longrightarrow> reduce_routed t e s now = Inr plan \<longleftrightarrow>
     (\<exists>p. classify_recovery t = Inr p \<and> normalized_event_ok e \<and> authoritative_snapshot_ok s
        \<and> \<not> is_Naive now \<and> passes (reduction_guards p e s)
        \<and> plan = recovery_transition p e s now)"
  by (auto simp: reduce_routed_def bind_result_Inr_iff new_event_Inr_iff new_snapshot_Inr_iff
      reduce_recovery_Inr_iff)

text \<open>\<open>owned_coordinates\<close>: the field constraints of a routed call.\<close>

definition owned_coordinates ::
  "string \<Rightarrow> int \<Rightarrow> string \<Rightarrow> datetime \<Rightarrow> string list \<Rightarrow> string option \<Rightarrow> bool" where
  "owned_coordinates claim_id revision event_id now refs operation_id \<longleftrightarrow>
     bounded_text 1 120 claim_id \<and> 1 \<le> revision \<and> bounded_text 1 160 event_id
     \<and> \<not> is_Naive now \<and> length refs \<le> 100 \<and> opt_all (bounded_text 1 160) operation_id"

lemma reduce_owned_Inr_iff:
  "reduce_owned_recovery t claim_id revision event_id now refs operation_id = Inr plan \<longleftrightarrow>
     owned_coordinates claim_id revision event_id now refs operation_id
     \<and> (\<exists>p. classify_recovery t = Inr p \<and> rr_rule_id p \<noteq> ''runtime.revision_conflict''
          \<and> (rr_requires_operation_identity p \<or> rr_requires_reconciliation p
               \<longrightarrow> operation_id \<noteq> None)
          \<and> plan = recovery_transition p
              \<lparr>ev_event_id = event_id, ev_trigger = t, ev_expected_claim_revision = Some revision,
               ev_operation_id = operation_id, ev_source_refs = refs\<rparr>
              \<lparr>as_claim_id = claim_id, as_claim_revision = revision,
               as_accepted_state_preserved = True, as_operation_id = operation_id,
               as_terminal = False, as_source_refs = refs\<rparr> now)"
  by (auto simp: reduce_owned_recovery_def reduce_routed_Inr_iff reduction_guards_def
      owned_coordinates_def validity Let_def)

lemma owned_decision:
  assumes "classify_recovery t = Inr r" and "stateless_rule r d"
    and "rr_requires_reconciliation r \<longrightarrow> operation_id \<noteq> None"
    and "owned_coordinates claim_id revision event_id now refs operation_id"
  shows "\<exists>plan. reduce_owned_recovery t claim_id revision event_id now refs operation_id = Inr plan
     \<and> tr_decision_code plan = d \<and> tr_max_auto_retry plan = rr_max_auto_retry r
     \<and> tr_expected_claim_revision plan = revision"
  using assms by (auto simp: reduce_owned_Inr_iff stateless_rule_def recovery_transition_def)

lemma owned_revision_conflict_rejected:
  "\<exists>e. reduce_owned_recovery (plain_trigger Source_repository ''revision_conflict'')
     claim_id revision event_id now refs operation_id = Inl e"
proof (cases "reduce_owned_recovery (plain_trigger Source_repository ''revision_conflict'')
     claim_id revision event_id now refs operation_id")
  case (Inr plan)
  have "rr_rule_id REVISION_CONFLICT_RULE = ''runtime.revision_conflict''" by code_simp
  with Inr show ?thesis by (auto simp: reduce_owned_Inr_iff owned_classified(9))
qed auto

section \<open>The contract of the policy boundary\<close>

text \<open>
  What the owners of follow-ups and retention rely on: a fact they own, given with valid
  coordinates, is decided with the code the owner expects. \<open>decide_as\<close> is the shape of
  the client code: consult the boundary and stop when the decision is another one.
\<close>

definition decide_as ::
  "(recovery_trigger \<Rightarrow> string \<Rightarrow> int \<Rightarrow> string \<Rightarrow> datetime \<Rightarrow> string list \<Rightarrow> string option
      \<Rightarrow> reducer_error + recovery_plan)
    \<Rightarrow> (reducer_error \<Rightarrow> 'e) \<Rightarrow> recovery_trigger \<Rightarrow> string \<Rightarrow> int \<Rightarrow> string \<Rightarrow> datetime
    \<Rightarrow> string list \<Rightarrow> string option \<Rightarrow> (recovery_plan \<Rightarrow> bool) \<Rightarrow> 'e \<Rightarrow> 'e + 'a \<Rightarrow> 'e + 'a" where
  "decide_as decide lift t claim_id revision event_id now refs operation_id expected e k =
     bind_result (map_error lift (decide t claim_id revision event_id now refs operation_id))
       (\<lambda>plan. guarded [(\<not> expected plan, e)] k)"

locale policy_boundary =
  fixes decide :: "recovery_trigger \<Rightarrow> string \<Rightarrow> int \<Rightarrow> string \<Rightarrow> datetime \<Rightarrow> string list
      \<Rightarrow> string option \<Rightarrow> reducer_error + recovery_plan"
    and promises :: "recovery_trigger \<Rightarrow> decision_code \<Rightarrow> int \<Rightarrow> bool"
    and needs_operation :: "recovery_trigger \<Rightarrow> bool"
  assumes decided: "promises t d limit \<Longrightarrow> (needs_operation t \<longrightarrow> operation_id \<noteq> None)
      \<Longrightarrow> owned_coordinates claim_id revision event_id now refs operation_id
      \<Longrightarrow> \<exists>plan. decide t claim_id revision event_id now refs operation_id = Inr plan
            \<and> tr_decision_code plan = d \<and> tr_max_auto_retry plan = limit"
    and checked: "decide t claim_id revision event_id now refs operation_id = Inr plan
      \<Longrightarrow> owned_coordinates claim_id revision event_id now refs operation_id"
begin

lemma decide_as_ok:
  assumes "promises t d limit" "needs_operation t \<longrightarrow> operation_id \<noteq> None"
    and "owned_coordinates claim_id revision event_id now refs operation_id"
    and "\<And>plan. tr_decision_code plan = d \<Longrightarrow> tr_max_auto_retry plan = limit \<Longrightarrow> expected plan"
  shows "decide_as decide lift t claim_id revision event_id now refs operation_id expected e k = k"
  using decided [OF assms(1-3)] assms(4) by (auto simp: decide_as_def)

lemma decide_as_Inr_iff:
  assumes "promises t d limit" "needs_operation t \<longrightarrow> operation_id \<noteq> None"
    and "\<And>plan. tr_decision_code plan = d \<Longrightarrow> tr_max_auto_retry plan = limit \<Longrightarrow> expected plan"
  shows "decide_as decide lift t claim_id revision event_id now refs operation_id expected e k
           = Inr x
     \<longleftrightarrow> owned_coordinates claim_id revision event_id now refs operation_id \<and> k = Inr x"
proof (cases "owned_coordinates claim_id revision event_id now refs operation_id")
  case True
  have "decide_as decide lift t claim_id revision event_id now refs operation_id expected e k = k"
    by (rule decide_as_ok [OF assms(1,2) True]) (rule assms(3))
  then show ?thesis using True by simp
next
  case False
  then show ?thesis
    using checked by (auto simp: decide_as_def bind_result_Inr_iff)
qed

end

definition owned_promises :: "recovery_trigger \<Rightarrow> decision_code \<Rightarrow> int \<Rightarrow> bool" where
  "owned_promises t d limit \<longleftrightarrow> (\<exists>r. classify_recovery t = Inr r \<and> stateless_rule r d
     \<and> rr_max_auto_retry r = limit)"

definition owned_needs_operation :: "recovery_trigger \<Rightarrow> bool" where
  "owned_needs_operation t \<longleftrightarrow>
     (\<exists>r. classify_recovery t = Inr r \<and> rr_requires_reconciliation r)"

interpretation owned: policy_boundary reduce_owned_recovery owned_promises owned_needs_operation
proof
  fix t d limit operation_id claim_id revision event_id now refs
  assume "owned_promises t d limit"
    and "owned_needs_operation t \<longrightarrow> operation_id \<noteq> None"
    and "owned_coordinates claim_id revision event_id now refs operation_id"
  then show "\<exists>plan. reduce_owned_recovery t claim_id revision event_id now refs operation_id
      = Inr plan \<and> tr_decision_code plan = d \<and> tr_max_auto_retry plan = limit"
    unfolding owned_promises_def owned_needs_operation_def using owned_decision by metis
qed (simp add: reduce_owned_Inr_iff)

lemma owned_limits:
  "rr_max_auto_retry P17_ATTEMPT_EXHAUSTION_RULE = 0"
  "rr_max_auto_retry P17_CONTACT_WITHDRAWAL_RULE = 0"
  "rr_max_auto_retry P17_RECOVERY_EXPIRY_RULE = 0"
  "rr_max_auto_retry RETENTION_ELIGIBLE_RULE = 0"
  "rr_max_auto_retry RETENTION_HOLD_RULE = 0"
  "rr_max_auto_retry RETENTION_FAILURE_RULE = 0"
  "rr_max_auto_retry OLD_SESSION_DENIED_RULE = 0"
  by code_simp+

lemma owned_promised:
  "owned_promises (plain_trigger Source_timer ''follow_up_due'') Code_execute_follow_up 3"
  "owned_promises (plain_trigger Source_timer ''attempt_limit_reached'') Code_block_follow_up 0"
  "owned_promises (plain_trigger Source_human ''contact_authority_withdrawn'') Code_block_follow_up 0"
  "owned_promises (plain_trigger Source_timer ''recovery_expired'') Code_expire_recovery 0"
  "owned_promises (plain_trigger Source_retention ''eligible'') Code_retention_eligible 0"
  "owned_promises (plain_trigger Source_retention ''hold'') Code_retention_hold 0"
  "owned_promises (plain_trigger Source_retention ''unknown'') Code_retention_reconcile 0"
  "owned_promises (plain_trigger Source_retention ''old_session_denied'') Code_deny_access 0"
  by (simp_all add: owned_promises_def owned_classified owned_stateless due_rule_limit owned_limits)

lemma owned_operation_free:
  "\<not> owned_needs_operation (plain_trigger Source_timer ''follow_up_due'')"
  "\<not> owned_needs_operation (plain_trigger Source_timer ''attempt_limit_reached'')"
  "\<not> owned_needs_operation (plain_trigger Source_human ''contact_authority_withdrawn'')"
  "\<not> owned_needs_operation (plain_trigger Source_timer ''recovery_expired'')"
  "\<not> owned_needs_operation (plain_trigger Source_retention ''eligible'')"
  "\<not> owned_needs_operation (plain_trigger Source_retention ''hold'')"
  "\<not> owned_needs_operation (plain_trigger Source_retention ''old_session_denied'')"
  by (simp_all add: owned_needs_operation_def owned_classified owned_reconciliation)

section \<open>Adapters\<close>

lemma adapter_matches:
  "d \<in> {Delivery_submitted, Delivery_unknown} \<Longrightarrow> rule_matches EXTERNAL_SUBMITTED_UNKNOWN_RULE
     ((plain_trigger Source_external ''unknown_outcome'')\<lparr>tg_delivery_state := Some d\<rparr>)"
  "rule_matches EXTERNAL_TERMINAL_FAILURE_RULE
     ((plain_trigger Source_external ''terminal_failure'')\<lparr>tg_delivery_state := Some Delivery_submitted\<rparr>)"
  "rule_matches TOOL_UNAVAILABLE_BLOCKING_RULE
     ((plain_trigger Source_tool ''unavailable'')\<lparr>tg_blocking := Some True\<rparr>)"
  "rule_matches TOOL_UNAVAILABLE_NON_BLOCKING_RULE
     ((plain_trigger Source_tool ''unavailable'')\<lparr>tg_blocking := Some False\<rparr>)"
  "rule_matches RETRIEVAL_UNAVAILABLE_BLOCKING_RULE
     ((plain_trigger Source_retrieval ''unavailable'')\<lparr>tg_blocking := Some True\<rparr>)"
  "rule_matches RETRIEVAL_UNAVAILABLE_NON_BLOCKING_RULE
     ((plain_trigger Source_retrieval ''unavailable'')\<lparr>tg_blocking := Some False\<rparr>)"
proof -
  have "rule_matches EXTERNAL_SUBMITTED_UNKNOWN_RULE
     ((plain_trigger Source_external ''unknown_outcome'')\<lparr>tg_delivery_state := Some Delivery_submitted\<rparr>)"
    "rule_matches EXTERNAL_SUBMITTED_UNKNOWN_RULE
     ((plain_trigger Source_external ''unknown_outcome'')\<lparr>tg_delivery_state := Some Delivery_unknown\<rparr>)"
    by code_simp+
  then show "d \<in> {Delivery_submitted, Delivery_unknown} \<Longrightarrow> rule_matches EXTERNAL_SUBMITTED_UNKNOWN_RULE
     ((plain_trigger Source_external ''unknown_outcome'')\<lparr>tg_delivery_state := Some d\<rparr>)"
    by auto
qed code_simp+

lemma published_classified:
  "r \<in> set RECOVERY_RULES \<Longrightarrow> rule_matches r t \<Longrightarrow> classify_recovery t = Inr r"
  by (simp add: classify_Inr_iff)

lemmas adapter_classified =
  published_classified [OF published_members(2) adapter_matches(1)]
  published_classified [OF published_members(3) adapter_matches(2)]
  published_classified [OF published_members(5) adapter_matches(3)]
  published_classified [OF published_members(6) adapter_matches(4)]
  published_classified [OF published_members(7) adapter_matches(5)]
  published_classified [OF published_members(8) adapter_matches(6)]

lemma adapter_rules:
  "rr_decision_code EXTERNAL_SUBMITTED_UNKNOWN_RULE = Code_reconcile_existing_operation"
  "rr_retry_mode EXTERNAL_SUBMITTED_UNKNOWN_RULE = Retry_reconcile_before_retry"
  "rr_rule_id EXTERNAL_SUBMITTED_UNKNOWN_RULE = ''external.submitted_unknown''"
  "rr_preservation EXTERNAL_SUBMITTED_UNKNOWN_RULE \<noteq> ''inbound_message_and_checkpoint''"
  "rr_max_auto_retry EXTERNAL_SUBMITTED_UNKNOWN_RULE = 0"
  "rr_decision_code REVISION_CONFLICT_RULE = Code_reload_authoritative_state"
  "rr_rule_id REVISION_CONFLICT_RULE = ''runtime.revision_conflict''"
  "\<not> rr_requires_operation_identity REVISION_CONFLICT_RULE"
  "\<not> rr_requires_reconciliation REVISION_CONFLICT_RULE"
  by code_simp+

lemma external_unknown_reconciles:
  assumes "d \<in> {Delivery_submitted, Delivery_unknown}"
    and "bounded_text 1 120 claim_id" "1 \<le> revision" "bounded_text 1 160 operation_id"
    and "bounded_text 1 160 event_id" "length refs \<le> 100" "\<not> is_Naive now"
  shows "\<exists>plan. reduce_external_unknown_recovery claim_id revision operation_id d event_id refs now
      = Inr plan
    \<and> tr_decision_code plan = Code_reconcile_existing_operation
    \<and> tr_retry_mode plan = Retry_reconcile_before_retry
    \<and> tr_max_auto_retry plan = 0
    \<and> tr_operation_id plan = Some operation_id"
  unfolding reduce_external_unknown_recovery_def Let_def
  by (subst reduce_routed_Inr_iff)
    (use assms in \<open>auto simp: adapter_classified(1) adapter_event_def adapter_snapshot_def
      reduction_guards_def adapter_rules recovery_transition_def validity\<close>)

lemma revision_conflict_reloads:
  assumes "bounded_text 1 120 claim_id" "1 \<le> current" "1 \<le> expected"
    and "bounded_text 1 160 event_id" "length refs \<le> 100" "\<not> is_Naive now"
  shows "expected \<noteq> current \<Longrightarrow> \<exists>plan.
      reduce_revision_conflict_recovery claim_id expected current event_id refs now = Inr plan
      \<and> tr_decision_code plan = Code_reload_authoritative_state
      \<and> tr_expected_claim_revision plan = current"
    and "expected = current \<Longrightarrow>
      reduce_revision_conflict_recovery claim_id expected current event_id refs now
        = Inl ConflictNotStale"
proof -
  note facts = adapter_event_def adapter_snapshot_def reduction_guards_def adapter_rules
    recovery_transition_def reduce_revision_conflict_recovery_def Let_def
  have rule_neq: "rr_preservation REVISION_CONFLICT_RULE \<noteq> ''inbound_message_and_checkpoint''"
    by code_simp
  show "\<exists>plan. reduce_revision_conflict_recovery claim_id expected current event_id refs now = Inr plan
      \<and> tr_decision_code plan = Code_reload_authoritative_state
      \<and> tr_expected_claim_revision plan = current" if "expected \<noteq> current"
    unfolding reduce_revision_conflict_recovery_def Let_def
    by (subst reduce_routed_Inr_iff)
      (use assms that rule_neq in \<open>auto simp: facts owned_classified(9) validity\<close>)
  show "reduce_revision_conflict_recovery claim_id expected current event_id refs now
      = Inl ConflictNotStale" if "expected = current"
    using assms that
    by (simp add: facts owned_classified(9) validity reduce_routed_def reduce_recovery_def
        new_event_def new_snapshot_def)
qed

section \<open>Work items\<close>

lemma ensured_work_items_have_kinds:
  "list_all (\<lambda>r. Act_work_item_ensure \<in> set (rr_required_actions r) \<longrightarrow> rr_work_item_kind r \<noteq> None)
     PUBLISHED_RULES"
  by code_simp

lemma reduced_plan_rule:
  "reduce_recovery p e s now = Inr plan \<Longrightarrow> p \<in> set RECOVERY_RULES
     \<and> tr_required_actions plan = rr_required_actions p
     \<and> tr_work_item_kind plan = rr_work_item_kind p"
  by (auto simp: reduce_recovery_Inr_iff classify_Inr_iff recovery_transition_def)

lemma work_item_kind_present:
  assumes "reduce_recovery p e s now = Inr plan"
  shows "build_recovery_work_item plan claim_id subject_ref at status \<noteq> Inl WorkItemKindMissing"
proof -
  have "Act_work_item_ensure \<in> set (tr_required_actions plan) \<Longrightarrow> tr_work_item_kind plan \<noteq> None"
    using reduced_plan_rule [OF assms] ensured_work_items_have_kinds
    by (auto simp: list_all_iff RECOVERY_RULES_def)
  then show ?thesis
    by (auto simp: build_recovery_work_item_def Let_def split: option.split sum.split)
qed

lemma work_item_shape:
  assumes "build_recovery_work_item plan claim_id subject_ref at status = Inr (Some w)"
  shows "work_item_ok w" "wi_claim_id w = claim_id" "wi_owner w = tr_responsibility plan"
    "wi_status w = status"
    "wi_blocks_action w = (if status \<in> {Item_completed, Item_cancelled} then None
       else tr_blocks_action plan)"
    "wi_completed_at w \<noteq> None \<longleftrightarrow> status \<in> {Item_completed, Item_cancelled}"
  using assms unfolding build_recovery_work_item_def
  by (auto simp: Let_def split: if_splits option.splits sum.splits)

lemma work_item_identity:
  assumes "build_recovery_work_item plan claim_id subject_ref at status = Inr (Some w)"
    and "build_recovery_work_item plan' claim_id subject_ref at' status' = Inr (Some w')"
    and "tr_operation_id plan = Some i" "tr_operation_id plan' = Some i"
    and "tr_rule_id plan = tr_rule_id plan'"
  shows "wi_work_item_id w = wi_work_item_id w'"
  using assms unfolding build_recovery_work_item_def recovery_obligation_digest_def
  by (auto simp: Let_def split: if_splits option.splits sum.splits)

section \<open>The lifecycle reducer's behaviour\<close>

lemma base_transition_Inr_iff:
  "base_transition r s d refs u = Inr t \<longleftrightarrow>
     lifecycle_transition_ok (u (base_payload r s d refs)) \<and> t = u (base_payload r s d refs)"
  by (auto simp: base_transition_def Let_def)

lemma block_follow_up_Inr_iff:
  "block_follow_up r s refs why delta = Inr t \<longleftrightarrow>
     1 \<le> rs_claim_revision s \<and> delta \<in> {0, 1} \<and> length refs \<le> 100
     \<and> t = (base_payload r s Decide_block_follow_up refs)
         \<lparr>lt_next_follow_up_status := Some Snap_blocked, lt_blocked_reason := Some why,
          lt_attempt_count_delta := delta\<rparr>"
  by (auto simp: block_follow_up_def base_transition_Inr_iff validity base_payload_def)

lemma base_payload_sel [simp]:
  "lt_decision (base_payload r s d refs) = d"
  "lt_attempt_count_delta (base_payload r s d refs) = 0"
  "lt_next_follow_up_status (base_payload r s d refs) = None"
  "lt_preserve_claim_revision (base_payload r s d refs) = rs_claim_revision s"
  "lt_source_refs (base_payload r s d refs) = refs"
  "lt_operation_action (base_payload r s d refs) = Op_none"
  by (simp_all add: base_payload_def)

lemma due_rule_fields:
  "rr_retry_interval_seconds P17_FOLLOW_UP_DUE_RULE = Some 86400"
  "rr_permitted_events P17_FOLLOW_UP_DUE_RULE = {''follow_up_due'',
     ''follow_up_committed_no_response'', ''claimant_resume'', ''contact_withdrawn'',
     ''recovery_deadline''}"
  by code_simp+

lemma due_rule_published:
  "recovery_policy (rr_policy_id P17_FOLLOW_UP_DUE_RULE) (rr_version P17_FOLLOW_UP_DUE_RULE)
     = Inr P17_FOLLOW_UP_DUE_RULE"
  by (rule recovery_policy_published [OF published_members(9)])

lemmas incomplete_defs = reduce_incomplete_claim_def reduce_follow_up_due_event_def
  reduce_no_response_event_def

lemma incomplete_expires:
  assumes "reduce_incomplete_claim r e s now refs = Inr t" "rs_deadline_at s = Some deadline"
    and "rs_follow_up_status s \<noteq> Some Snap_resolved"
  shows "lt_decision t = Decide_expire \<longleftrightarrow> \<not> dt_before now deadline"
  using assms unfolding incomplete_defs
  by (auto simp: guarded_Inr_iff base_transition_Inr_iff block_follow_up_Inr_iff Let_def
      split: if_splits option.splits)

lemma incomplete_executes:
  assumes "reduce_incomplete_claim r e s now refs = Inr t" "lt_decision t = Decide_execute_follow_up"
  obtains due deadline where "rs_due_at s = Some due" "rs_deadline_at s = Some deadline"
    "\<not> dt_before now due" "dt_before now deadline" "re_code e = ''follow_up_due''"
    "rs_follow_up_status s = Some Snap_pending" "rs_contact_authorised s \<noteq> Some False"
    "rs_follow_up_attempt_count s < rr_max_auto_retry r"
  using assms unfolding incomplete_defs
  by (auto simp: guarded_Inr_iff base_transition_Inr_iff block_follow_up_Inr_iff Let_def
      split: if_splits option.splits)

lemma incomplete_attempts:
  assumes "reduce_incomplete_claim r e s now refs = Inr t" "0 < lt_attempt_count_delta t"
  shows "re_code e = ''follow_up_committed_no_response''
    \<and> rs_follow_up_attempt_count s + lt_attempt_count_delta t \<le> rr_max_auto_retry r
    \<and> (rs_follow_up_attempt_count s + lt_attempt_count_delta t = rr_max_auto_retry r
         \<longrightarrow> lt_next_follow_up_status t = Some Snap_blocked)"
  using assms unfolding incomplete_defs
  by (auto simp: guarded_Inr_iff base_transition_Inr_iff block_follow_up_Inr_iff Let_def
      split: if_splits option.splits)

lemma lifecycle_Inr_guards:
  assumes "reduce_lifecycle_recovery p state e s now = Inr t"
  shows "\<not> is_Naive now" "p \<in> set RECOVERY_RULES" "re_code e \<in> rr_permitted_events p"
proof -
  have g: "passes (lifecycle_guards p e now)"
    using assms by (simp add: reduce_lifecycle_recovery_def guarded_Inr_iff)
  then show "\<not> is_Naive now" "re_code e \<in> rr_permitted_events p"
    by (simp_all add: lifecycle_guards_def)
  have "recovery_policy (rr_policy_id p) (rr_version p) = Inr p"
    using g by (simp add: lifecycle_guards_def)
  then have "filter (\<lambda>r. rr_policy_id r = rr_policy_id p \<and> rr_version r = rr_version p)
      RECOVERY_RULES = [p]"
    by (auto simp: recovery_policy_def split: list.splits)
  then have "p \<in> set (filter (\<lambda>r. rr_policy_id r = rr_policy_id p \<and> rr_version r = rr_version p)
      RECOVERY_RULES)" by simp
  then show "p \<in> set RECOVERY_RULES" by simp
qed

lemma other_policy_decision:
  "reduce_other_policy p s refs = Inr t \<Longrightarrow>
     lt_decision t \<notin> {Decide_deny, Decide_execute_follow_up, Decide_expire, Decide_resume}
     \<and> lt_attempt_count_delta t = 0"
  unfolding reduce_other_policy_def
  by (auto simp: base_transition_Inr_iff split: if_splits)

lemma lifecycle_denies:
  assumes "reduce_lifecycle_recovery p state e s now = Inr t"
  shows "lt_decision t = Decide_deny \<longleftrightarrow> rs_access_closed s"
  using assms unfolding reduce_lifecycle_recovery_def incomplete_defs Let_def
  by (auto simp: guarded_Inr_iff base_transition_Inr_iff block_follow_up_Inr_iff
      dest: other_policy_decision split: if_splits option.splits)

lemma lifecycle_executes:
  assumes "reduce_lifecycle_recovery p state e s now = Inr t"
    and "lt_decision t = Decide_execute_follow_up"
  shows "reduce_incomplete_claim p e s now
      (fromkeys (rs_source_refs state @ rs_source_refs s @ re_source_refs e)) = Inr t"
    "\<not> rs_access_closed s" "rs_claim_revision state = rs_claim_revision s"
    "rr_policy_id p = rr_policy_id P17_FOLLOW_UP_DUE_RULE"
  using assms unfolding reduce_lifecycle_recovery_def Let_def
  by (auto simp: guarded_Inr_iff base_transition_Inr_iff dest: other_policy_decision
      split: if_splits)

lemma policy_id_due_unique:
  "list_all (\<lambda>r. rr_policy_id r = rr_policy_id P17_FOLLOW_UP_DUE_RULE
     \<longrightarrow> rr_rule_id r = rr_rule_id P17_FOLLOW_UP_DUE_RULE) PUBLISHED_RULES"
  by code_simp

lemma due_policy_unique:
  assumes "p \<in> set RECOVERY_RULES" "rr_policy_id p = rr_policy_id P17_FOLLOW_UP_DUE_RULE"
  shows "p = P17_FOLLOW_UP_DUE_RULE"
proof -
  have "rr_rule_id p = rr_rule_id P17_FOLLOW_UP_DUE_RULE"
    using assms policy_id_due_unique by (simp add: list_all_iff RECOVERY_RULES_def)
  then show ?thesis
    using assms(1) published_members(9) published_ids_distinct
    by (auto simp: RECOVERY_RULES_def distinct_map inj_on_def)
qed

text \<open>
  Contact is planned only for the published due rule, on an open pending follow-up whose
  due time has come and whose deadline has not, with contact not withdrawn, fewer than three
  attempts made, an unchanged Claim revision and open access.
\<close>

lemma lifecycle_contact_conditions:
  assumes "reduce_lifecycle_recovery p state e s now = Inr t"
    and "lt_decision t = Decide_execute_follow_up"
  shows "\<exists>due deadline. rs_due_at s = Some due \<and> rs_deadline_at s = Some deadline
    \<and> \<not> dt_before now due \<and> dt_before now deadline
    \<and> rs_follow_up_status s = Some Snap_pending \<and> rs_contact_authorised s \<noteq> Some False
    \<and> rs_follow_up_attempt_count s < 3 \<and> \<not> rs_access_closed s
    \<and> rs_claim_revision state = rs_claim_revision s"
proof -
  note ex = lifecycle_executes [OF assms]
  have "p = P17_FOLLOW_UP_DUE_RULE"
    by (rule due_policy_unique [OF lifecycle_Inr_guards(2) [OF assms(1)] ex(4)])
  then have "rr_max_auto_retry p = 3" by (simp add: due_rule_limit)
  with incomplete_executes [OF ex(1) assms(2)] ex(2,3) show ?thesis by metis
qed

lemma lifecycle_attempts_bounded:
  assumes "reduce_lifecycle_recovery p state e s now = Inr t" "rs_follow_up_attempt_count s \<le> 3"
  shows "rs_follow_up_attempt_count s + lt_attempt_count_delta t \<le> 3"
proof (cases "0 < lt_attempt_count_delta t")
  case True
  have inc: "reduce_incomplete_claim p e s now
      (fromkeys (rs_source_refs state @ rs_source_refs s @ re_source_refs e)) = Inr t"
    and pol: "rr_policy_id p = rr_policy_id P17_FOLLOW_UP_DUE_RULE"
    using assms(1) True unfolding reduce_lifecycle_recovery_def Let_def
    by (auto simp: guarded_Inr_iff base_transition_Inr_iff dest: other_policy_decision
        split: if_splits)
  have "p = P17_FOLLOW_UP_DUE_RULE"
    by (rule due_policy_unique [OF lifecycle_Inr_guards(2) [OF assms(1)] pol])
  then show ?thesis using incomplete_attempts [OF inc True] by (simp add: due_rule_limit)
qed (use assms(2) in simp)

text \<open>
  The plan merges three reference lists, each of at most 100 entries, into a field of at
  most 100: when the merged list is longer, every decision of the reducer is lost to the
  field validation.
\<close>

lemma lifecycle_refs_overflow:
  assumes "passes (lifecycle_guards p e now)"
    and "100 < length (fromkeys (rs_source_refs state @ rs_source_refs s @ re_source_refs e))"
    and "rs_access_closed s"
  shows "reduce_lifecycle_recovery p state e s now = Inl LifecycleFieldConstraint"
  using assms by (simp add: reduce_lifecycle_recovery_def guarded_passes base_transition_def validity)

end
