(* ===== verification/Follow_Up_Model.thy ===== *)
theory Follow_Up_Model
  imports Northwind_Prelude Stable_Ids
begin

text \<open>
  The records of \<open>backend/domain/models.py\<close> that incomplete-claim recovery reads and writes:
  terminal dispositions, the Claim, the Session with its recovery checkpoint, the Follow-up
  obligation and its operations, with the legacy normalisation, the validators, the
  copy-with-update methods and the operation lifecycle check.

  Of the Claim and the Session only the fields that recovery reads or writes are present;
  the code copies the others unchanged.
\<close>

section \<open>Enumerations\<close>

datatype session_status = Session_active | Session_paused | Session_closed

datatype workflow_state =
    Workflow_collecting | Workflow_ready_for_next | Workflow_awaiting_evidence
  | Workflow_professional_review | Workflow_created

datatype follow_up_status = FU_pending | FU_blocked | FU_resolved

datatype follow_up_reason =
    CONTACT_NOT_AUTHORISED | ATTEMPT_LIMIT_REACHED | POLICY_BINDING_INVALID
  | SOURCE_STATE_INCONSISTENT | CLAIMANT_RESUMED | RECOVERY_EXPIRED | STAFF_ABANDONED
  | AUTHORISED_CLOSURE

datatype follow_up_resolution =
    Resolved_claimant_resumed | Resolved_recovery_expired | Resolved_staff_abandoned
  | Resolved_authorised_closure

text \<open>\<open>SCHEDULED\<close> is an alias of \<open>RESERVED\<close>; result aliases are likewise one value.\<close>

datatype operation_status = Op_reserved | Op_committed | Op_settled | Op_cancelled

datatype operation_result =
    IN_APP_COMMITTED | NO_RESPONSE | STALE_REVISION | DEADLINE_REACHED | AUTHORITY_LOST
  | FOLLOW_UP_ALREADY_RESOLVED | SUPERSEDED_BY_RESUME

datatype contact_permission = AUTHORISED | NOT_AUTHORISED

datatype actor_type = Actor_claimant | Actor_agent | Actor_staff | Actor_system

datatype terminal_value = Terminal_completed | Terminal_abandoned | Terminal_closed

datatype terminal_reason =
    Reason_claim_created | Reason_abandonment_policy_applied | Reason_recovery_expired
  | Reason_authorised_staff_abandonment | Reason_authorised_closure

datatype responsible_party = Party_claimant | Party_claims_professional | Party_external | Party_system

datatype preferred_channel = Channel_in_app | Channel_email | Channel_phone | Channel_sms

text \<open>\<open>ClaimCreationStatus\<close>: only whether the external Claim was created matters here.\<close>

datatype creation_status = Creation_created | Creation_other

section \<open>Errors of the validators\<close>

datatype model_error =
    FieldConstraint
  | DatetimeTypeError
  | ConflictingReasonAuthorities
  | NotAResolutionCode
  | UpdatedBeforeCreated
  | DuplicateSourceRefs
  | BlockedWithResolution
  | ResolvedWithBlockedReason
  | NaiveDeadline
  | PartialBindingNotBlocked
  | PendingNeedsAuthorisedSchedule
  | PendingCarriesReason
  | PendingDueAfterDeadline
  | UntypedBlockClaimsChannel
  | BlockedNeedsBlockedReason
  | UnauthorisedClaimsChannel
  | AttemptLimitShape
  | ResolvedKeepsOperation
  | ResolvedNeedsResolution
  | ResolvedKeepsDue
  | ResolvedNeedsResolutionReason
  | ConflictingResultAuthorities
  | NaiveOperationTimestamp
  | CommitBeforeSchedule
  | SettlementWithoutCommit
  | CancelledBeforeSchedule
  | ScheduledCarriesEvidence
  | CommittedEvidenceShape
  | CommittedResultShape
  | SettledEvidenceShape
  | CancelledEvidenceShape
  | ImmutableIdentityChanged
  | IllegalOperationTransition
  | CommitEvidenceRewritten
  | TerminalReasonMismatch
  | NaiveTerminalTime
  | TerminalRevisionAhead
  | TerminalTimeAhead
  | CompletedNeedsExternalClaim
  | ExternalClaimBlocksAbandonment

section \<open>Terminal dispositions and the Claim\<close>

record actor_reference =
  actor_type :: actor_type
  actor_id :: string

record terminal_disposition =
  td_value :: terminal_value
  td_reason_code :: terminal_reason
  td_source_refs :: "string list"
  td_recorded_by :: actor_reference
  td_recorded_at :: datetime
  td_recorded_revision :: int

definition allowed_terminal_reasons :: "terminal_value \<Rightarrow> terminal_reason set" where
  "allowed_terminal_reasons v = (case v of
     Terminal_completed \<Rightarrow> {Reason_claim_created}
   | Terminal_abandoned \<Rightarrow> {Reason_abandonment_policy_applied, Reason_recovery_expired,
       Reason_authorised_staff_abandonment}
   | Terminal_closed \<Rightarrow> {Reason_authorised_closure})"

definition validate_terminal_reason :: "terminal_disposition \<Rightarrow> model_error + terminal_disposition" where
  "validate_terminal_reason t = guarded
     [(\<not> (1 \<le> length (td_source_refs t) \<and> length (td_source_refs t) \<le> 20
          \<and> 1 \<le> td_recorded_revision t), FieldConstraint),
      (td_reason_code t \<notin> allowed_terminal_reasons (td_value t), TerminalReasonMismatch),
      (\<not> distinct (td_source_refs t), DuplicateSourceRefs),
      (is_naive (td_recorded_at t), NaiveTerminalTime)]
     (Inr t)"

record customer_next_step =
  ns_status :: string
  ns_summary :: string
  ns_responsible_party :: responsible_party
  ns_expected_by :: "datetime option"
  ns_can_resume :: bool
  ns_required_items :: "string list"

text \<open>The consent of a claimant to one external service.\<close>

datatype consent_status = Consent_granted | Consent_declined | Consent_withdrawn

record external_consent =
  ec_consent_ref :: string
  ec_service_identity :: string
  ec_requested_action :: string
  ec_permitted_fields :: "string list"
  ec_registry_version :: string
  ec_offer_ref :: "string option"
  ec_disclosure_manifest :: "string list"
  ec_disclosure_fingerprint :: "string option"
  ec_evidence_ids :: "string list"
  ec_status :: consent_status
  ec_granted_by :: actor_reference
  ec_granted_at :: datetime
  ec_withdrawn_at :: "datetime option"

datatype authority_outcome = Outcome_authorised | Outcome_blocked | Outcome_review_required

text \<open>
  \<open>wc_content\<close> and \<open>se_content\<close> stand for the intake content of a Claim and the conversation
  state of a Session, which recovery carries unchanged and compares as a whole.
\<close>

record working_claim =
  wc_claim_id :: string
  wc_customer_id :: string
  wc_revision :: int
  wc_active_session_id :: "string option"
  wc_claim_decision_id :: "string option"
  wc_workflow_state :: workflow_state
  wc_content :: string
  wc_external_claim :: "creation_status option"
  wc_external_service_consents :: "external_consent list"
  wc_terminal_disposition :: "terminal_disposition option"
  wc_customer_next_step :: customer_next_step
  wc_created_at :: datetime
  wc_updated_at :: datetime

text \<open>The terminal part of the Claim validator.\<close>

definition validate_claim_terminal :: "working_claim \<Rightarrow> model_error + working_claim" where
  "validate_claim_terminal c =
     (case wc_terminal_disposition c of
        None \<Rightarrow> Inr c
      | Some t \<Rightarrow>
          (let created = wc_external_claim c = Some Creation_created in
           guarded
             [(wc_revision c < td_recorded_revision t, TerminalRevisionAhead),
              (incomparable (td_recorded_at t) (wc_updated_at c), DatetimeTypeError),
              (dt_before (wc_updated_at c) (td_recorded_at t), TerminalTimeAhead),
              (td_value t = Terminal_completed \<and> \<not> created, CompletedNeedsExternalClaim),
              (td_value t \<noteq> Terminal_completed \<and> created, ExternalClaimBlocksAbandonment)]
             (Inr c)))"

section \<open>Sessions\<close>

record recovery_context =
  rc_interrupted_at :: datetime
  rc_last_meaningful_activity_at :: datetime
  rc_last_meaningful_activity_source_ref :: string
  rc_resume_point :: string

record session =
  se_session_id :: string
  se_claim_id :: string
  se_customer_id :: string
  se_status :: session_status
  se_recovery_context :: "recovery_context option"
  se_context_revision :: int
  se_post_session_follow_up_required :: bool
  se_content :: string
  se_started_at :: datetime
  se_last_active_at :: datetime
  se_closed_at :: "datetime option"

section \<open>Follow-up records\<close>

record follow_up =
  fu_follow_up_id :: string
  fu_claim_id :: string
  fu_source_session_id :: string
  fu_purpose :: string
  fu_policy_id :: "string option"
  fu_policy_version :: "int option"
  fu_deadline_at :: "datetime option"
  fu_responsible_party :: responsible_party
  fu_source_refs :: "string list"
  fu_contact_permission :: contact_permission
  fu_attempt_count :: int
  fu_active_operation_id :: "string option"
  fu_channel :: "preferred_channel option"
  fu_outcome :: "string option"
  fu_blocked_reason :: "follow_up_reason option"
  fu_resolution_code :: "follow_up_resolution option"
  fu_status :: follow_up_status
  fu_due_at :: "datetime option"
  fu_created_at :: datetime
  fu_updated_at :: datetime

definition resolution_reason :: "follow_up_resolution \<Rightarrow> follow_up_reason" where
  "resolution_reason r = (case r of
     Resolved_claimant_resumed \<Rightarrow> CLAIMANT_RESUMED
   | Resolved_recovery_expired \<Rightarrow> RECOVERY_EXPIRED
   | Resolved_staff_abandoned \<Rightarrow> STAFF_ABANDONED
   | Resolved_authorised_closure \<Rightarrow> AUTHORISED_CLOSURE)"

text \<open>\<open>FollowUpResolutionCode(reason)\<close>, which raises for the blocking reasons.\<close>

definition reason_resolution :: "follow_up_reason \<Rightarrow> follow_up_resolution option" where
  "reason_resolution r = (case r of
     CLAIMANT_RESUMED \<Rightarrow> Some Resolved_claimant_resumed
   | RECOVERY_EXPIRED \<Rightarrow> Some Resolved_recovery_expired
   | STAFF_ABANDONED \<Rightarrow> Some Resolved_staff_abandoned
   | AUTHORISED_CLOSURE \<Rightarrow> Some Resolved_authorised_closure
   | _ \<Rightarrow> None)"

definition resolution_of_text :: "string \<Rightarrow> follow_up_resolution option" where
  "resolution_of_text s = map_of
     [(''claimant_resumed'', Resolved_claimant_resumed),
      (''recovery_expired'', Resolved_recovery_expired),
      (''staff_abandoned'', Resolved_staff_abandoned),
      (''authorised_closure'', Resolved_authorised_closure)] s"

definition fu_reason_code :: "follow_up \<Rightarrow> follow_up_reason option" where
  "fu_reason_code f = (case fu_resolution_code f of
     Some r \<Rightarrow> Some (resolution_reason r) | None \<Rightarrow> fu_blocked_reason f)"

definition blocked_reasons :: "follow_up_reason set" where
  "blocked_reasons = {CONTACT_NOT_AUTHORISED, ATTEMPT_LIMIT_REACHED, POLICY_BINDING_INVALID,
     SOURCE_STATE_INCONSISTENT}"

definition resolution_reasons :: "follow_up_reason set" where
  "resolution_reasons = {CLAIMANT_RESUMED, RECOVERY_EXPIRED, STAFF_ABANDONED, AUTHORISED_CLOSURE}"

definition hex_text :: "nat \<Rightarrow> string \<Rightarrow> bool" where
  "hex_text n s \<longleftrightarrow> length s = n \<and> list_all (\<lambda>c. c \<in> set ''0123456789abcdef'') s"

definition operation_id_pattern :: "string \<Rightarrow> bool" where
  "operation_id_pattern s \<longleftrightarrow>
     take 4 s = ''fop_'' \<and> hex_text 20 (drop 4 s) \<or> take 4 s = ''fuo_'' \<and> hex_text 24 (drop 4 s)"

definition follow_up_fields_ok :: "follow_up \<Rightarrow> bool" where
  [validity]: "follow_up_fields_ok f \<longleftrightarrow>
     bounded_text 1 100 (fu_purpose f)
     \<and> opt_all (bounded_text 1 120) (fu_policy_id f)
     \<and> opt_all (\<lambda>v. 1 \<le> v) (fu_policy_version f)
     \<and> length (fu_source_refs f) \<le> 20
     \<and> 0 \<le> fu_attempt_count f
     \<and> opt_all operation_id_pattern (fu_active_operation_id f)
     \<and> opt_all (bounded_text 0 1000) (fu_outcome f)"

definition default_source_refs :: "follow_up \<Rightarrow> follow_up" where
  "default_source_refs f = (if fu_source_refs f = []
     then f\<lparr>fu_source_refs := [''session:'' @ fu_source_session_id f]\<rparr> else f)"

definition partial_binding :: "follow_up \<Rightarrow> bool" where
  "partial_binding f \<longleftrightarrow> fu_deadline_at f \<noteq> None
     \<and> (fu_policy_id f = None \<or> fu_policy_version f = None)"

definition pending_guards :: "follow_up \<Rightarrow> (bool \<times> model_error) list" where
  "pending_guards f =
    [(fu_contact_permission f \<noteq> AUTHORISED \<or> fu_channel f = None \<or> fu_due_at f = None,
      PendingNeedsAuthorisedSchedule),
     (fu_reason_code f \<noteq> None, PendingCarriesReason)] @
    (case (fu_deadline_at f, fu_due_at f) of
       (Some deadline, Some due) \<Rightarrow>
         [(incomparable due deadline, DatetimeTypeError),
          (\<not> dt_before due deadline, PendingDueAfterDeadline)]
     | _ \<Rightarrow> [])"

definition blocked_guards :: "follow_up \<Rightarrow> (bool \<times> model_error) list" where
  "blocked_guards f = (case fu_reason_code f of
     None \<Rightarrow>
       [(fu_contact_permission f \<noteq> NOT_AUTHORISED \<or> fu_channel f \<noteq> None, UntypedBlockClaimsChannel)]
   | Some r \<Rightarrow>
       if r \<notin> blocked_reasons then [(True, BlockedNeedsBlockedReason)]
       else if r = CONTACT_NOT_AUTHORISED then
         [(fu_contact_permission f \<noteq> NOT_AUTHORISED \<or> fu_channel f \<noteq> None, UnauthorisedClaimsChannel)]
       else if r = ATTEMPT_LIMIT_REACHED then
         [(fu_contact_permission f \<noteq> AUTHORISED \<or> fu_channel f = None \<or> fu_due_at f \<noteq> None,
           AttemptLimitShape)]
       else [])"

definition resolved_guards :: "follow_up \<Rightarrow> (bool \<times> model_error) list" where
  "resolved_guards f =
    [(fu_active_operation_id f \<noteq> None, ResolvedKeepsOperation),
     (fu_resolution_code f = None, ResolvedNeedsResolution),
     (fu_due_at f \<noteq> None, ResolvedKeepsDue),
     (\<not> opt_all (\<lambda>r. r \<in> resolution_reasons) (fu_reason_code f), ResolvedNeedsResolutionReason)]"

definition follow_up_guards :: "follow_up \<Rightarrow> (bool \<times> model_error) list" where
  "follow_up_guards f =
    [(incomparable (fu_updated_at f) (fu_created_at f), DatetimeTypeError),
     (dt_before (fu_updated_at f) (fu_created_at f), UpdatedBeforeCreated),
     (\<not> distinct (fu_source_refs f), DuplicateSourceRefs),
     (fu_status f = FU_blocked \<and> fu_resolution_code f \<noteq> None, BlockedWithResolution),
     (fu_status f = FU_resolved \<and> fu_blocked_reason f \<noteq> None, ResolvedWithBlockedReason),
     (\<not> opt_all (\<lambda>d. \<not> is_naive d) (fu_deadline_at f), NaiveDeadline),
     (partial_binding f \<and> fu_status f \<noteq> FU_resolved
        \<and> \<not> (fu_status f = FU_blocked \<and> fu_reason_code f = Some POLICY_BINDING_INVALID),
      PartialBindingNotBlocked)] @
    (case fu_status f of FU_pending \<Rightarrow> pending_guards f | FU_blocked \<Rightarrow> blocked_guards f
     | FU_resolved \<Rightarrow> resolved_guards f)"

definition validate_recovery_follow_up :: "follow_up \<Rightarrow> model_error + follow_up" where
  "validate_recovery_follow_up f =
     guarded ((\<not> follow_up_fields_ok f, FieldConstraint) # follow_up_guards f)
       (Inr (default_source_refs f))"

text \<open>
  The keyword form of a stored or submitted Follow-up: the status may be missing, the policy
  version may be the legacy text \<open>v1\<close>, and a single legacy \<open>reason_code\<close> may stand for
  both reason fields.
\<close>

datatype policy_version_input = Legacy_v1 | Version int

record raw_follow_up =
  raw_record :: follow_up
  raw_status :: "follow_up_status option"
  raw_policy_version :: "policy_version_input option"
  raw_reason_code :: "follow_up_reason option"

definition numeric_version :: "policy_version_input option \<Rightarrow> int option" where
  "numeric_version v = map_option (\<lambda>p. case p of Legacy_v1 \<Rightarrow> 1 | Version i \<Rightarrow> i) v"

text \<open>Where the legacy reason goes: the resolution of a resolved record, else the block.\<close>

definition route_reason ::
  "follow_up_status option \<Rightarrow> follow_up_reason option \<Rightarrow> follow_up \<Rightarrow> model_error + follow_up" where
  "route_reason status reason f = (case reason of
     None \<Rightarrow> Inr f
   | Some r \<Rightarrow>
       if status = Some FU_resolved then
         guarded [(fu_resolution_code f \<noteq> None
                     \<and> map_option resolution_reason (fu_resolution_code f) \<noteq> Some r,
                   ConflictingReasonAuthorities),
                  (reason_resolution r = None, NotAResolutionCode)]
           (Inr (f\<lparr>fu_resolution_code := reason_resolution r\<rparr>))
       else
         guarded [(fu_blocked_reason f \<noteq> None \<and> fu_blocked_reason f \<noteq> Some r,
                   ConflictingReasonAuthorities)]
           (Inr (f\<lparr>fu_blocked_reason := Some r\<rparr>)))"

definition infer_resolution :: "follow_up_status option \<Rightarrow> follow_up \<Rightarrow> follow_up" where
  "infer_resolution status f =
     (if status = Some FU_resolved \<and> fu_resolution_code f = None
      then f\<lparr>fu_resolution_code := Option.bind (fu_outcome f) resolution_of_text\<rparr> else f)"

definition close_partial_binding :: "follow_up_status option \<Rightarrow> follow_up \<Rightarrow> follow_up" where
  "close_partial_binding status f =
     (if partial_binding f \<and> status \<noteq> Some FU_resolved
      then f\<lparr>fu_status := FU_blocked, fu_blocked_reason := Some POLICY_BINDING_INVALID,
             fu_active_operation_id := None\<rparr>
      else f\<lparr>fu_status := (case status of None \<Rightarrow> FU_blocked | Some s \<Rightarrow> s)\<rparr>)"

definition normalise_legacy_coordinates :: "raw_follow_up \<Rightarrow> model_error + follow_up" where
  "normalise_legacy_coordinates r =
     bind_result
       (route_reason (raw_status r) (raw_reason_code r)
          ((raw_record r)\<lparr>fu_policy_version := numeric_version (raw_policy_version r)\<rparr>))
       (\<lambda>f. Inr (close_partial_binding (raw_status r) (infer_resolution (raw_status r) f)))"

definition new_follow_up :: "raw_follow_up \<Rightarrow> model_error + follow_up" where
  "new_follow_up r = bind_result (normalise_legacy_coordinates r) validate_recovery_follow_up"

text \<open>A stored record as it is read back.\<close>

definition dump_follow_up :: "follow_up \<Rightarrow> raw_follow_up" where
  "dump_follow_up f = \<lparr>raw_record = f, raw_status = Some (fu_status f),
     raw_policy_version = map_option Version (fu_policy_version f), raw_reason_code = None\<rparr>"

text \<open>\<open>model_copy\<close> with a \<open>status\<close> and a \<open>reason_code\<close> in the update.\<close>

definition copy_with_reason ::
  "follow_up_status \<Rightarrow> follow_up_reason option \<Rightarrow> follow_up \<Rightarrow> follow_up" where
  "copy_with_reason status reason f =
     (if status = FU_resolved
      then f\<lparr>fu_status := status, fu_blocked_reason := None,
             fu_resolution_code := Option.bind reason reason_resolution\<rparr>
      else f\<lparr>fu_status := status, fu_resolution_code := None, fu_blocked_reason := reason\<rparr>)"

section \<open>Follow-up operations\<close>

record operation =
  op_operation_id :: string
  op_follow_up_id :: string
  op_claim_id :: string
  op_sequence :: int
  op_policy_id :: string
  op_policy_version :: int
  op_based_on_claim_revision :: int
  op_scheduled_at :: datetime
  op_status :: operation_status
  op_result_code :: "operation_result option"
  op_created_at :: datetime
  op_updated_at :: datetime
  op_committed_at :: "datetime option"
  op_settled_at :: "datetime option"
  op_cancelled_at :: "datetime option"
  op_source_refs :: "string list"

definition operation_fields_ok :: "operation \<Rightarrow> bool" where
  [validity]: "operation_fields_ok p \<longleftrightarrow>
     bounded_text 1 120 (op_operation_id p) \<and> bounded_text 1 120 (op_follow_up_id p)
     \<and> bounded_text 1 120 (op_claim_id p) \<and> 1 \<le> op_sequence p
     \<and> bounded_text 1 120 (op_policy_id p) \<and> 1 \<le> op_policy_version p
     \<and> 1 \<le> op_based_on_claim_revision p \<and> length (op_source_refs p) \<le> 20"

definition opt_before :: "datetime option \<Rightarrow> datetime option \<Rightarrow> bool" where
  "opt_before a b = (case (a, b) of (Some x, Some y) \<Rightarrow> dt_before x y | _ \<Rightarrow> False)"

definition operation_status_guards :: "operation \<Rightarrow> (bool \<times> model_error) list" where
  "operation_status_guards p = (case op_status p of
     Op_reserved \<Rightarrow>
       [(op_result_code p \<noteq> None \<or> op_committed_at p \<noteq> None \<or> op_settled_at p \<noteq> None
           \<or> op_cancelled_at p \<noteq> None, ScheduledCarriesEvidence)]
   | Op_committed \<Rightarrow>
       [(op_committed_at p = None \<or> op_settled_at p \<noteq> None \<or> op_cancelled_at p \<noteq> None,
         CommittedEvidenceShape),
        (op_result_code p \<notin> {None, Some IN_APP_COMMITTED}, CommittedResultShape)]
   | Op_settled \<Rightarrow>
       [(op_committed_at p = None \<or> op_settled_at p = None \<or> op_cancelled_at p \<noteq> None
           \<or> op_result_code p = None, SettledEvidenceShape)]
   | Op_cancelled \<Rightarrow>
       [(op_committed_at p \<noteq> None \<or> op_settled_at p \<noteq> None \<or> op_cancelled_at p = None
           \<or> op_result_code p \<notin> {Some SUPERSEDED_BY_RESUME, Some DEADLINE_REACHED,
                Some AUTHORITY_LOST, Some STALE_REVISION}, CancelledEvidenceShape)])"

definition operation_guards :: "operation \<Rightarrow> (bool \<times> model_error) list" where
  "operation_guards p =
    [(incomparable (op_updated_at p) (op_created_at p), DatetimeTypeError),
     (dt_before (op_updated_at p) (op_created_at p), UpdatedBeforeCreated),
     (is_naive (op_scheduled_at p) \<or> \<not> opt_all (\<lambda>d. \<not> is_naive d) (op_committed_at p)
        \<or> \<not> opt_all (\<lambda>d. \<not> is_naive d) (op_settled_at p)
        \<or> \<not> opt_all (\<lambda>d. \<not> is_naive d) (op_cancelled_at p), NaiveOperationTimestamp),
     (\<not> distinct (op_source_refs p), DuplicateSourceRefs),
     (opt_before (op_committed_at p) (Some (op_scheduled_at p)), CommitBeforeSchedule),
     (op_settled_at p \<noteq> None \<and> (op_committed_at p = None
        \<or> opt_before (op_settled_at p) (op_committed_at p)), SettlementWithoutCommit),
     (opt_before (op_cancelled_at p) (Some (op_scheduled_at p)), CancelledBeforeSchedule)]
    @ operation_status_guards p"

definition validate_follow_up_operation :: "operation \<Rightarrow> model_error + operation" where
  "validate_follow_up_operation p =
     guarded ((\<not> operation_fields_ok p, FieldConstraint) # operation_guards p)
       (Inr (if op_source_refs p = []
             then p\<lparr>op_source_refs := [''follow-up:'' @ op_follow_up_id p]\<rparr> else p))"

record operation_update =
  up_status :: "operation_status option"
  up_result :: "operation_result option"
  up_committed_at :: "datetime option"
  up_settled_at :: "datetime option"
  up_cancelled_at :: "datetime option"

definition no_update :: operation_update where
  "no_update = \<lparr>up_status = None, up_result = None, up_committed_at = None, up_settled_at = None,
     up_cancelled_at = None\<rparr>"

definition keep :: "'a option \<Rightarrow> 'a option \<Rightarrow> 'a option" where
  "keep new old = (case new of None \<Rightarrow> old | Some _ \<Rightarrow> new)"

text \<open>
  \<open>FollowUpOperation.model_copy\<close>: the update time follows the settlement, cancellation or
  commit time of the update. The keys the callers give are never \<open>None\<close>.
\<close>

definition copy_operation :: "operation_update \<Rightarrow> operation \<Rightarrow> operation" where
  "copy_operation u p = p\<lparr>
     op_status := (case up_status u of None \<Rightarrow> op_status p | Some s \<Rightarrow> s),
     op_result_code := keep (up_result u) (op_result_code p),
     op_committed_at := keep (up_committed_at u) (op_committed_at p),
     op_settled_at := keep (up_settled_at u) (op_settled_at p),
     op_cancelled_at := keep (up_cancelled_at u) (op_cancelled_at p),
     op_updated_at := (case keep (up_settled_at u) (keep (up_cancelled_at u) (up_committed_at u)) of
        None \<Rightarrow> op_updated_at p | Some t \<Rightarrow> t)\<rparr>"

definition allowed_operation_steps :: "operation_status \<Rightarrow> operation_status set" where
  "allowed_operation_steps s = (case s of
     Op_reserved \<Rightarrow> {Op_committed, Op_cancelled}
   | Op_committed \<Rightarrow> {Op_settled} | Op_settled \<Rightarrow> {} | Op_cancelled \<Rightarrow> {})"

definition same_execution_identity :: "operation \<Rightarrow> operation \<Rightarrow> bool" where
  "same_execution_identity p q \<longleftrightarrow>
     op_operation_id p = op_operation_id q \<and> op_follow_up_id p = op_follow_up_id q
     \<and> op_claim_id p = op_claim_id q \<and> op_sequence p = op_sequence q
     \<and> op_policy_id p = op_policy_id q \<and> op_policy_version p = op_policy_version q
     \<and> op_based_on_claim_revision p = op_based_on_claim_revision q
     \<and> op_scheduled_at p = op_scheduled_at q \<and> op_source_refs p = op_source_refs q"

definition assert_follow_up_operation_transition ::
  "operation \<Rightarrow> operation \<Rightarrow> model_error + unit" where
  "assert_follow_up_operation_transition p q = guarded
     [(\<not> same_execution_identity p q, ImmutableIdentityChanged),
      (op_status q \<notin> allowed_operation_steps (op_status p), IllegalOperationTransition),
      (op_committed_at p \<noteq> None \<and> op_committed_at q \<noteq> op_committed_at p, CommitEvidenceRewritten)]
     (Inr ())"

text \<open>The keyword form of a stored operation, with its legacy spellings.\<close>

datatype operation_status_input = Legacy_scheduled | Status operation_status

record raw_operation =
  ro_record :: operation
  ro_status :: "operation_status_input option"
  ro_policy_version :: policy_version_input
  ro_result :: "string option"
  ro_result_code :: "string option"
  ro_created_at :: "datetime option"
  ro_updated_at :: "datetime option"

definition operation_result_text :: "operation_result \<Rightarrow> string" where
  "operation_result_text r = (case r of
     IN_APP_COMMITTED \<Rightarrow> ''in_app_committed'' | NO_RESPONSE \<Rightarrow> ''no_response''
   | STALE_REVISION \<Rightarrow> ''stale_revision'' | DEADLINE_REACHED \<Rightarrow> ''deadline_reached''
   | AUTHORITY_LOST \<Rightarrow> ''authority_lost''
   | FOLLOW_UP_ALREADY_RESOLVED \<Rightarrow> ''follow_up_already_resolved''
   | SUPERSEDED_BY_RESUME \<Rightarrow> ''superseded_by_resume'')"

definition operation_result_of_text :: "string \<Rightarrow> operation_result option" where
  "operation_result_of_text s = map_of
     (map (\<lambda>r. (operation_result_text r, r))
        [IN_APP_COMMITTED, NO_RESPONSE, STALE_REVISION, DEADLINE_REACHED, AUTHORITY_LOST,
         FOLLOW_UP_ALREADY_RESOLVED, SUPERSEDED_BY_RESUME]) s"

definition operation_result_alias :: "string \<Rightarrow> string" where
  "operation_result_alias s =
     (case map_of [(''delivered_in_app'', ''in_app_committed''),
                   (''expired_before_execution'', ''deadline_reached''),
                   (''authority_withdrawn'', ''authority_lost'')] s of
        None \<Rightarrow> s | Some t \<Rightarrow> t)"

definition legacy_result_code :: "raw_operation \<Rightarrow> model_error + string option" where
  "legacy_result_code r = (case ro_result r of
     None \<Rightarrow> Inr (ro_result_code r)
   | Some t \<Rightarrow>
       guarded [(ro_result_code r \<noteq> None \<and> ro_result_code r \<noteq> Some (operation_result_alias t),
                 ConflictingResultAuthorities)]
         (Inr (Some (operation_result_alias t))))"

definition default_updated_at :: "operation \<Rightarrow> datetime" where
  "default_updated_at p =
     (case keep (op_settled_at p) (keep (op_cancelled_at p) (op_committed_at p)) of
        None \<Rightarrow> op_scheduled_at p | Some t \<Rightarrow> t)"

definition normalise_legacy_operation :: "raw_operation \<Rightarrow> model_error + operation" where
  "normalise_legacy_operation r = bind_result (legacy_result_code r) (\<lambda>code.
     let p = ro_record r;
         q = p\<lparr>op_policy_version := the (numeric_version (Some (ro_policy_version r))),
               op_status := (case ro_status r of Some (Status s) \<Rightarrow> s | _ \<Rightarrow> Op_reserved),
               op_created_at := (case ro_created_at r of None \<Rightarrow> op_scheduled_at p | Some t \<Rightarrow> t),
               op_updated_at := (case ro_updated_at r of None \<Rightarrow> default_updated_at p | Some t \<Rightarrow> t)\<rparr>
     in case code of
          None \<Rightarrow> Inr (q\<lparr>op_result_code := None\<rparr>)
        | Some t \<Rightarrow>
            guarded [(operation_result_of_text t = None, FieldConstraint)]
              (Inr (q\<lparr>op_result_code := operation_result_of_text t\<rparr>)))"

definition new_operation :: "raw_operation \<Rightarrow> model_error + operation" where
  "new_operation r = bind_result (normalise_legacy_operation r) validate_follow_up_operation"

definition dump_operation :: "operation \<Rightarrow> raw_operation" where
  "dump_operation p = \<lparr>ro_record = p, ro_status = Some (Status (op_status p)),
     ro_policy_version = Version (op_policy_version p), ro_result = None,
     ro_result_code = map_option operation_result_text (op_result_code p),
     ro_created_at = Some (op_created_at p), ro_updated_at = Some (op_updated_at p)\<rparr>"

section \<open>Validity and round trips\<close>

definition follow_up_valid :: "follow_up \<Rightarrow> bool" where
  "follow_up_valid f \<longleftrightarrow> validate_recovery_follow_up f = Inr f"

definition operation_valid :: "operation \<Rightarrow> bool" where
  "operation_valid p \<longleftrightarrow> validate_follow_up_operation p = Inr p"

definition terminal_valid :: "terminal_disposition \<Rightarrow> bool" where
  "terminal_valid t \<longleftrightarrow> validate_terminal_reason t = Inr t"

lemma default_source_refs_eq [simp]: "default_source_refs f = f \<longleftrightarrow> fu_source_refs f \<noteq> []"
proof (cases "fu_source_refs f = []")
  case True
  then have "fu_source_refs (default_source_refs f) \<noteq> fu_source_refs f"
    by (simp add: default_source_refs_def)
  then show ?thesis using True by auto
qed (simp add: default_source_refs_def)

lemma validate_recovery_Inr_iff:
  "validate_recovery_follow_up f = Inr g \<longleftrightarrow>
     follow_up_fields_ok f \<and> passes (follow_up_guards f) \<and> g = default_source_refs f"
  by (auto simp: validate_recovery_follow_up_def guarded_Inr_iff)

lemma follow_up_valid_iff:
  "follow_up_valid f \<longleftrightarrow>
     follow_up_fields_ok f \<and> passes (follow_up_guards f) \<and> fu_source_refs f \<noteq> []"
  using default_source_refs_eq [of f]
  by (auto simp: follow_up_valid_def validate_recovery_Inr_iff eq_commute [of f])

lemma operation_valid_iff:
  "operation_valid p \<longleftrightarrow>
     operation_fields_ok p \<and> passes (operation_guards p) \<and> op_source_refs p \<noteq> []"
proof -
  have "p\<lparr>op_source_refs := [''follow-up:'' @ op_follow_up_id p]\<rparr> = p \<Longrightarrow> op_source_refs p \<noteq> []"
    by (metis list.distinct(1) operation.select_convs(16) operation.surjective operation.update_convs(16))
  then show ?thesis
    by (auto simp: operation_valid_def validate_follow_up_operation_def guarded_Inr_iff
        split: if_splits)
qed

lemma resolution_round_trip [simp]: "reason_resolution (resolution_reason r) = Some r"
  by (cases r) (simp_all add: reason_resolution_def resolution_reason_def)

lemma resolution_reason_in [simp]: "resolution_reason r \<in> resolution_reasons"
  by (cases r) (simp_all add: resolution_reason_def resolution_reasons_def)

lemma default_source_refs_sel [simp]:
  "fu_status (default_source_refs f) = fu_status f"
  "fu_resolution_code (default_source_refs f) = fu_resolution_code f"
  "fu_blocked_reason (default_source_refs f) = fu_blocked_reason f"
  "fu_policy_version (default_source_refs f) = fu_policy_version f"
  "fu_active_operation_id (default_source_refs f) = fu_active_operation_id f"
  "partial_binding (default_source_refs f) = partial_binding f"
  by (simp_all add: default_source_refs_def partial_binding_def)

lemma default_source_refs_valid:
  assumes "follow_up_fields_ok f" "passes (follow_up_guards f)"
  shows "follow_up_valid (default_source_refs f)"
  using assms unfolding follow_up_valid_iff
  by (auto simp: default_source_refs_def follow_up_guards_def validity pending_guards_def
      blocked_guards_def resolved_guards_def partial_binding_def fu_reason_code_def
      split: follow_up_status.splits option.splits)

lemma new_follow_up_valid: "new_follow_up r = Inr f \<Longrightarrow> follow_up_valid f"
  by (auto simp: new_follow_up_def bind_result_Inr_iff validate_recovery_Inr_iff
      intro: default_source_refs_valid)

lemma close_partial_closed:
  "partial_binding (close_partial_binding s f) \<Longrightarrow> fu_status (close_partial_binding s f) \<noteq> FU_resolved
   \<Longrightarrow> fu_status (close_partial_binding s f) = FU_blocked
     \<and> fu_blocked_reason (close_partial_binding s f) = Some POLICY_BINDING_INVALID
     \<and> fu_active_operation_id (close_partial_binding s f) = None"
  by (auto simp: close_partial_binding_def partial_binding_def split: if_splits option.splits)

lemma dump_follow_up_normal:
  assumes "fu_status f = FU_resolved \<longrightarrow> fu_resolution_code f \<noteq> None"
    and "partial_binding f \<and> fu_status f \<noteq> FU_resolved \<longrightarrow> fu_status f = FU_blocked
      \<and> fu_blocked_reason f = Some POLICY_BINDING_INVALID \<and> fu_active_operation_id f = None"
  shows "normalise_legacy_coordinates (dump_follow_up f) = Inr f"
proof -
  have v: "f\<lparr>fu_policy_version := numeric_version (map_option Version (fu_policy_version f))\<rparr> = f"
    by (cases "fu_policy_version f") (simp_all add: numeric_version_def)
  have i: "infer_resolution (Some (fu_status f)) f = f"
    using assms(1) by (auto simp: infer_resolution_def)
  have "f\<lparr>fu_status := FU_blocked, fu_blocked_reason := Some POLICY_BINDING_INVALID,
      fu_active_operation_id := None\<rparr> = f" if "partial_binding f" "fu_status f \<noteq> FU_resolved"
    using that assms(2) by (cases f) simp
  then have c: "close_partial_binding (Some (fu_status f)) f = f"
    by (simp add: close_partial_binding_def)
  show ?thesis
    by (simp add: normalise_legacy_coordinates_def dump_follow_up_def route_reason_def v i c)
qed

lemma resolved_valid_resolution:
  "follow_up_valid f \<Longrightarrow> fu_status f = FU_resolved \<Longrightarrow> fu_resolution_code f \<noteq> None"
  by (simp add: follow_up_valid_iff follow_up_guards_def resolved_guards_def)

lemma new_follow_up_round_trip:
  assumes "new_follow_up r = Inr f"
  shows "new_follow_up (dump_follow_up f) = Inr f"
proof -
  have valid: "follow_up_valid f" by (rule new_follow_up_valid [OF assms])
  obtain g where g: "normalise_legacy_coordinates r = Inr g" and "f = default_source_refs g"
    using assms by (auto simp: new_follow_up_def bind_result_Inr_iff validate_recovery_Inr_iff)
  moreover obtain h where "g = close_partial_binding (raw_status r) h"
    using g by (auto simp: normalise_legacy_coordinates_def bind_result_Inr_iff)
  ultimately have "partial_binding f \<and> fu_status f \<noteq> FU_resolved \<longrightarrow> fu_status f = FU_blocked
      \<and> fu_blocked_reason f = Some POLICY_BINDING_INVALID \<and> fu_active_operation_id f = None"
    using close_partial_closed by auto
  then have "normalise_legacy_coordinates (dump_follow_up f) = Inr f"
    using resolved_valid_resolution [OF valid] by (intro dump_follow_up_normal) auto
  then show ?thesis using valid by (simp add: new_follow_up_def follow_up_valid_def)
qed

lemma operation_result_round_trip [simp]:
  "operation_result_of_text (operation_result_text r) = Some r"
  by (cases r) (simp_all add: operation_result_of_text_def operation_result_text_def)

lemma operation_round_trip:
  assumes "operation_valid p"
  shows "new_operation (dump_operation p) = Inr p"
proof -
  have "normalise_legacy_operation (dump_operation p) = Inr p"
    by (cases "op_result_code p")
      (simp_all add: normalise_legacy_operation_def legacy_result_code_def dump_operation_def
        numeric_version_def Let_def)
  then show ?thesis using assms by (simp add: new_operation_def operation_valid_def)
qed

section \<open>Operation lifecycle\<close>

lemma assert_transition_iff:
  "assert_follow_up_operation_transition p q = Inr u \<longleftrightarrow>
     same_execution_identity p q \<and> op_status q \<in> allowed_operation_steps (op_status p)
     \<and> (op_committed_at p \<noteq> None \<longrightarrow> op_committed_at q = op_committed_at p)"
  by (auto simp: assert_follow_up_operation_transition_def)

lemma copy_operation_identity [simp]: "same_execution_identity p (copy_operation u p)"
  by (simp add: same_execution_identity_def copy_operation_def)

lemma copy_operation_sel [simp]:
  "op_status (copy_operation u p) = (case up_status u of None \<Rightarrow> op_status p | Some s \<Rightarrow> s)"
  "op_committed_at (copy_operation u p) = keep (up_committed_at u) (op_committed_at p)"
  "op_settled_at (copy_operation u p) = keep (up_settled_at u) (op_settled_at p)"
  "op_cancelled_at (copy_operation u p) = keep (up_cancelled_at u) (op_cancelled_at p)"
  "op_result_code (copy_operation u p) = keep (up_result u) (op_result_code p)"
  "op_operation_id (copy_operation u p) = op_operation_id p"
  "op_follow_up_id (copy_operation u p) = op_follow_up_id p"
  "op_claim_id (copy_operation u p) = op_claim_id p"
  "op_sequence (copy_operation u p) = op_sequence p"
  "op_policy_id (copy_operation u p) = op_policy_id p"
  "op_policy_version (copy_operation u p) = op_policy_version p"
  "op_based_on_claim_revision (copy_operation u p) = op_based_on_claim_revision p"
  "op_scheduled_at (copy_operation u p) = op_scheduled_at p"
  "op_created_at (copy_operation u p) = op_created_at p"
  "op_source_refs (copy_operation u p) = op_source_refs p"
  by (simp_all add: copy_operation_def)

lemma keep_simps [simp]: "keep None x = x" "keep (Some y) x = Some y"
  by (simp_all add: keep_def)

lemma operation_id_pattern_stable: "operation_id_pattern (stable_operation_id ''fuo'' s)"
proof -
  have "set (take 24 (sha256_hexdigest s)) \<subseteq> set ''0123456789abcdef''"
    using set_hexdigest [of s] set_take_subset [of 24 "sha256_hexdigest s"] by blast
  then have "list_all (\<lambda>c. c \<in> set ''0123456789abcdef'') (take 24 (sha256_hexdigest s))"
    unfolding list_all_iff by blast
  then show ?thesis
    by (simp add: operation_id_pattern_def hex_text_def stable_operation_id_def stable_digest_Inr
        length_hexdigest)
qed

text \<open>
  The lifecycle of one operation as a step relation: each accepted update is one step, and
  no operation takes more than two.
\<close>

inductive operation_steps :: "nat \<Rightarrow> operation \<Rightarrow> operation \<Rightarrow> bool" where
  stay: "operation_steps 0 p p"
| step: "operation_steps n p q \<Longrightarrow> assert_follow_up_operation_transition q r = Inr u
    \<Longrightarrow> operation_steps (Suc n) p r"

definition lifecycle_rank :: "operation \<Rightarrow> nat" where
  "lifecycle_rank p = (case op_status p of Op_reserved \<Rightarrow> 0 | Op_committed \<Rightarrow> 1 | _ \<Rightarrow> 2)"

lemma operation_steps_rank:
  "operation_steps n p q \<Longrightarrow> n + lifecycle_rank p \<le> lifecycle_rank q"
proof (induction rule: operation_steps.induct)
  case (step n p q r u)
  then show ?case
    by (auto simp: assert_transition_iff allowed_operation_steps_def lifecycle_rank_def
        split: operation_status.splits)
qed simp

lemma operation_steps_bounded: "operation_steps n p q \<Longrightarrow> n \<le> 2"
  using operation_steps_rank [of n p q]
  by (auto simp: lifecycle_rank_def split: operation_status.splits)

lemma operation_steps_evidence:
  assumes "operation_steps n p q"
  shows "same_execution_identity p q
    \<and> (op_committed_at p \<noteq> None \<longrightarrow> op_committed_at q = op_committed_at p)
    \<and> (op_status p \<in> {Op_settled, Op_cancelled} \<longrightarrow> n = 0 \<and> q = p)"
  using assms
proof (induction rule: operation_steps.induct)
  case (step n p q r u)
  then show ?case
    by (auto simp: assert_transition_iff same_execution_identity_def allowed_operation_steps_def)
qed (simp add: same_execution_identity_def)

end
