(* ===== verification/Follow_Up_Execution.thy ===== *)
theory Follow_Up_Execution
  imports Recovery_Reducer Follow_Up_Model
begin

text \<open>
  The pure execution rules of incomplete-claim follow-up,
  \<open>backend/domain/follow_up_execution.py\<close>: the due attempt, the withdrawal of contact, the
  expiry of the recovery window and the abandonment by staff. Each reducer takes the
  authoritative Claim, Session, Follow-up and operation history and an explicit time, and
  returns the records to commit or the reason of the refusal.
\<close>

section \<open>Refusals\<close>

datatype execution_error =
    ExecutionTimeNaive
  | NotStaffActor
  | ClaimOwnershipInconsistent
  | ClaimTerminal
  | ActiveSession
  | SourceSessionNotCheckpoint
  | NoRecoveryContext
  | FollowUpNotPending
  | FollowUpNotOpen
  | ChannelNotAuthorised
  | MissingSchedule
  | NotBoundToPolicy
  | DatetimeMismatch
  | NotDueYet
  | ExpiryHasPrecedence
  | DeadlineNotReached
  | ContactAlreadyWithdrawn
  | SequenceInconsistent
  | HistoryMismatch
  | ReservedNeedsReconciliation
  | AttemptAggregateDisagrees
  | AttemptLimitExhausted
  | CadenceMismatch
  | SeveralOutstanding
  | OutstandingEvidenceInconsistent
  | SeveralOpenOperations
  | NextAttemptAfterExpiry
  | PolicyForbids
  | Invalid_record model_error
  | Reduction reducer_error

section \<open>Shared checks\<close>

definition ordered_operations :: "operation list \<Rightarrow> operation list" where
  "ordered_operations ops = sort_key (\<lambda>p. (op_sequence p, op_operation_id p)) ops"

definition follow_up_operation_id :: "follow_up \<Rightarrow> int \<Rightarrow> string" where
  "follow_up_operation_id f sequence = stable_operation_id ''fuo''
     (join '':'' [fu_follow_up_id f,
        case fu_policy_id f of None \<Rightarrow> ''None'' | Some p \<Rightarrow> p,
        case fu_policy_version f of None \<Rightarrow> ''None'' | Some v \<Rightarrow> decimal v,
        decimal sequence])"

definition countable_attempts :: "operation list \<Rightarrow> int" where
  "countable_attempts ops = int (length (filter (\<lambda>p. op_committed_at p \<noteq> None) ops))"

definition is_checkpoint :: "working_claim \<Rightarrow> session \<Rightarrow> follow_up \<Rightarrow> bool" where
  "is_checkpoint c s f \<longleftrightarrow> se_claim_id s = wc_claim_id c \<and> se_customer_id s = wc_customer_id c
     \<and> se_session_id s = fu_source_session_id f \<and> se_status s = Session_paused"

definition recovery_deadline_of :: "recovery_context \<Rightarrow> datetime" where
  "recovery_deadline_of rc = dt_add (rc_interrupted_at rc) INCOMPLETE_CLAIM_FOLLOW_UP_RECOVERY_DEADLINE"

definition attempt_due_at :: "recovery_context \<Rightarrow> int \<Rightarrow> datetime" where
  "attempt_due_at rc n = dt_add (rc_interrupted_at rc) (INCOMPLETE_CLAIM_FOLLOW_UP_RETRY_INTERVAL * n)"

definition bound_to_policy :: "recovery_context \<Rightarrow> follow_up \<Rightarrow> bool" where
  "bound_to_policy rc f \<longleftrightarrow> fu_policy_id f = Some INCOMPLETE_CLAIM_FOLLOW_UP_POLICY_ID
     \<and> fu_policy_version f = Some INCOMPLETE_CLAIM_FOLLOW_UP_POLICY_VERSION
     \<and> fu_deadline_at f = Some (recovery_deadline_of rc)"

definition belongs :: "working_claim \<Rightarrow> follow_up \<Rightarrow> operation \<Rightarrow> bool" where
  "belongs c f p \<longleftrightarrow> op_follow_up_id p = fu_follow_up_id f \<and> op_claim_id p = wc_claim_id c
     \<and> Some (op_policy_id p) = fu_policy_id f \<and> Some (op_policy_version p) = fu_policy_version f"

definition history_guards ::
  "working_claim \<Rightarrow> follow_up \<Rightarrow> operation list \<Rightarrow> (bool \<times> execution_error) list" where
  "history_guards c f ops =
    [(\<not> distinct (map op_sequence ops), SequenceInconsistent),
     (\<not> list_all (belongs c f) ops, HistoryMismatch)]"

definition is_open_operation :: "operation \<Rightarrow> bool" where
  "is_open_operation p \<longleftrightarrow> op_status p \<in> {Op_reserved, Op_committed}"

text \<open>
  The open operation of the three closing reducers: a reserved one is cancelled, a committed
  one is settled, with the results the caller names; two open operations are refused.
\<close>

definition close_operation ::
  "operation_result \<Rightarrow> operation_result \<Rightarrow> datetime \<Rightarrow> operation \<Rightarrow> operation" where
  "close_operation cancelled settled now p =
     (if op_status p = Op_reserved
      then copy_operation (no_update\<lparr>up_status := Some Op_cancelled, up_result := Some cancelled,
             up_cancelled_at := Some now\<rparr>) p
      else copy_operation (no_update\<lparr>up_status := Some Op_settled, up_result := Some settled,
             up_settled_at := Some now\<rparr>) p)"

definition reconcile_open_operation ::
  "operation_result \<Rightarrow> operation_result \<Rightarrow> datetime \<Rightarrow> operation list
     \<Rightarrow> execution_error + operation option" where
  "reconcile_open_operation cancelled settled now ops =
     (case filter is_open_operation ops of
        [] \<Rightarrow> Inr None
      | [p] \<Rightarrow>
          bind_result (map_error Invalid_record
              (assert_follow_up_operation_transition p (close_operation cancelled settled now p)))
            (\<lambda>_. Inr (Some (close_operation cancelled settled now p)))
      | _ \<Rightarrow> Inl SeveralOpenOperations)"

section \<open>The due attempt\<close>

record due_transition =
  dt_follow_up :: follow_up
  dt_operation :: operation
  dt_settled_previous :: "operation option"

definition due_snapshot_guards ::
  "working_claim \<Rightarrow> session \<Rightarrow> follow_up \<Rightarrow> datetime \<Rightarrow> (bool \<times> execution_error) list" where
  "due_snapshot_guards c s f now =
    [(is_naive now, ExecutionTimeNaive),
     (wc_claim_id c \<noteq> fu_claim_id f, ClaimOwnershipInconsistent),
     (wc_terminal_disposition c \<noteq> None, ClaimTerminal),
     (wc_active_session_id c \<noteq> None, ActiveSession),
     (\<not> is_checkpoint c s f, SourceSessionNotCheckpoint),
     (se_recovery_context s = None, NoRecoveryContext),
     (fu_status f \<noteq> FU_pending, FollowUpNotPending),
     (fu_contact_permission f \<noteq> AUTHORISED \<or> fu_channel f \<noteq> Some Channel_in_app,
      ChannelNotAuthorised),
     (fu_due_at f = None \<or> fu_deadline_at f = None, MissingSchedule)]"

definition due_time_guards ::
  "recovery_context \<Rightarrow> follow_up \<Rightarrow> datetime \<Rightarrow> datetime \<Rightarrow> datetime
     \<Rightarrow> (bool \<times> execution_error) list" where
  "due_time_guards rc f due deadline now =
    [(\<not> bound_to_policy rc f, NotBoundToPolicy),
     (incomparable now due, DatetimeMismatch),
     (dt_before now due, NotDueYet),
     (incomparable now deadline, DatetimeMismatch),
     (\<not> dt_before now deadline, ExpiryHasPrecedence)]"

definition due_history_guards ::
  "working_claim \<Rightarrow> follow_up \<Rightarrow> operation list \<Rightarrow> (bool \<times> execution_error) list" where
  "due_history_guards c f ops = history_guards c f ops @
    [(list_ex (\<lambda>p. op_status p = Op_reserved) ops, ReservedNeedsReconciliation),
     (fu_attempt_count f \<noteq> countable_attempts ops, AttemptAggregateDisagrees)]"

definition max_sequence :: "operation list \<Rightarrow> int" where
  "max_sequence ops = (if ops = [] then 0 else Max (set (map op_sequence ops)))"

definition settle_unanswered :: "datetime \<Rightarrow> operation \<Rightarrow> operation" where
  "settle_unanswered now p = copy_operation (no_update\<lparr>up_status := Some Op_settled,
     up_result := Some NO_RESPONSE, up_settled_at := Some now\<rparr>) p"

definition settle_outstanding ::
  "datetime \<Rightarrow> operation list \<Rightarrow> execution_error + operation option" where
  "settle_outstanding now ops =
     (case filter (\<lambda>p. op_status p = Op_committed) ops of
        [] \<Rightarrow> Inr None
      | [p] \<Rightarrow>
          guarded [(op_sequence p \<noteq> max_sequence ops \<or> op_committed_at p = None
                      \<or> op_result_code p \<noteq> Some IN_APP_COMMITTED, OutstandingEvidenceInconsistent)]
            (bind_result (map_error Invalid_record
                (assert_follow_up_operation_transition p (settle_unanswered now p)))
              (\<lambda>_. Inr (Some (settle_unanswered now p))))
      | _ \<Rightarrow> Inl SeveralOutstanding)"

definition scheduled_operation ::
  "working_claim \<Rightarrow> session \<Rightarrow> follow_up \<Rightarrow> datetime \<Rightarrow> int \<Rightarrow> datetime \<Rightarrow> operation" where
  "scheduled_operation c s f due sequence now = \<lparr>
     op_operation_id = follow_up_operation_id f sequence,
     op_follow_up_id = fu_follow_up_id f,
     op_claim_id = wc_claim_id c,
     op_sequence = sequence,
     op_policy_id = the (fu_policy_id f),
     op_policy_version = the (fu_policy_version f),
     op_based_on_claim_revision = wc_revision c,
     op_scheduled_at = due,
     op_status = Op_reserved,
     op_result_code = None,
     op_created_at = now,
     op_updated_at = now,
     op_committed_at = None,
     op_settled_at = None,
     op_cancelled_at = None,
     op_source_refs = [''follow-up:'' @ fu_follow_up_id f,
       claim_revision_ref (wc_claim_id c) (wc_revision c),
       ''session:'' @ se_session_id s]\<rparr>"

definition committed_operation :: "datetime \<Rightarrow> operation \<Rightarrow> operation" where
  "committed_operation now p = copy_operation (no_update\<lparr>up_status := Some Op_committed,
     up_result := Some IN_APP_COMMITTED, up_committed_at := Some now\<rparr>) p"

definition commit_attempt ::
  "working_claim \<Rightarrow> session \<Rightarrow> follow_up \<Rightarrow> datetime \<Rightarrow> int \<Rightarrow> datetime
     \<Rightarrow> execution_error + operation" where
  "commit_attempt c s f due sequence now =
     bind_result (map_error Invalid_record
         (validate_follow_up_operation (scheduled_operation c s f due sequence now)))
       (\<lambda>scheduled.
         bind_result (map_error Invalid_record
             (assert_follow_up_operation_transition scheduled (committed_operation now scheduled)))
           (\<lambda>_. Inr (committed_operation now scheduled)))"

definition exhausted_follow_up :: "follow_up \<Rightarrow> int \<Rightarrow> string \<Rightarrow> datetime \<Rightarrow> follow_up" where
  "exhausted_follow_up f attempts operation_id now =
     (copy_with_reason FU_blocked (Some ATTEMPT_LIMIT_REACHED) f)
       \<lparr>fu_attempt_count := attempts, fu_active_operation_id := Some operation_id,
        fu_due_at := None, fu_updated_at := now\<rparr>"

definition rescheduled_follow_up ::
  "follow_up \<Rightarrow> int \<Rightarrow> string \<Rightarrow> datetime \<Rightarrow> datetime \<Rightarrow> follow_up" where
  "rescheduled_follow_up f attempts operation_id next_due now =
     (copy_with_reason FU_pending None f)
       \<lparr>fu_attempt_count := attempts, fu_active_operation_id := Some operation_id,
        fu_due_at := Some next_due, fu_updated_at := now\<rparr>"

definition follow_up_after_attempt ::
  "working_claim \<Rightarrow> recovery_context \<Rightarrow> follow_up \<Rightarrow> datetime \<Rightarrow> int \<Rightarrow> int \<Rightarrow> string \<Rightarrow> datetime
     \<Rightarrow> execution_error + follow_up" where
  "follow_up_after_attempt c rc f deadline limit attempts operation_id now =
     (if limit \<le> attempts then
        decide_as reduce_owned_recovery Reduction
          (plain_trigger Source_timer ''attempt_limit_reached'') (wc_claim_id c) (wc_revision c)
          (fu_follow_up_id f) now (fu_source_refs f) None
          (\<lambda>plan. tr_decision_code plan = Code_block_follow_up) PolicyForbids
          (Inr (exhausted_follow_up f attempts operation_id now))
      else
        guarded [(incomparable (attempt_due_at rc attempts) deadline, DatetimeMismatch),
                 (\<not> dt_before (attempt_due_at rc attempts) deadline, NextAttemptAfterExpiry)]
          (Inr (rescheduled_follow_up f attempts operation_id (attempt_due_at rc attempts) now)))"

text \<open>The part of the reducer after the history checks, with the published limit known.\<close>

definition execute_attempt ::
  "working_claim \<Rightarrow> session \<Rightarrow> recovery_context \<Rightarrow> follow_up \<Rightarrow> operation list \<Rightarrow> datetime
     \<Rightarrow> datetime \<Rightarrow> int \<Rightarrow> datetime \<Rightarrow> execution_error + due_transition" where
  "execute_attempt c s rc f ordered due deadline limit now =
     guarded
       [(limit \<le> countable_attempts ordered, AttemptLimitExhausted),
        (due \<noteq> attempt_due_at rc (countable_attempts ordered), CadenceMismatch)]
       (bind_result (settle_outstanding now ordered) (\<lambda>settled.
          bind_result (commit_attempt c s f due (max_sequence ordered + 1) now) (\<lambda>committed.
            bind_result (follow_up_after_attempt c rc f deadline limit
                (countable_attempts ordered + 1) (op_operation_id committed) now)
              (\<lambda>updated. Inr \<lparr>dt_follow_up = updated, dt_operation = committed,
                 dt_settled_previous = settled\<rparr>))))"

definition reduce_due_follow_up ::
  "working_claim \<Rightarrow> session \<Rightarrow> follow_up \<Rightarrow> operation list \<Rightarrow> datetime
     \<Rightarrow> execution_error + due_transition" where
  "reduce_due_follow_up c s f ops now =
     (let rc = the (se_recovery_context s); due = the (fu_due_at f);
          deadline = the (fu_deadline_at f); ordered = ordered_operations ops
      in guarded (due_snapshot_guards c s f now)
           (guarded (due_time_guards rc f due deadline now)
             (guarded (due_history_guards c f ordered)
               (bind_result (map_error Reduction
                   (reduce_owned_recovery (plain_trigger Source_timer ''follow_up_due'')
                      (wc_claim_id c) (wc_revision c) (fu_follow_up_id f) now
                      (fu_source_refs f) None))
                 (\<lambda>plan. execute_attempt c s rc f ordered due deadline
                    (tr_max_auto_retry plan) now)))))"

section \<open>Withdrawal of contact\<close>

record withdrawal_transition =
  wt_follow_up :: follow_up
  wt_reconciled :: "operation option"

definition closing_history_guards ::
  "working_claim \<Rightarrow> follow_up \<Rightarrow> operation list \<Rightarrow> (bool \<times> execution_error) list" where
  "closing_history_guards c f ops = history_guards c f ops @
    [(fu_attempt_count f \<noteq> countable_attempts ops, AttemptAggregateDisagrees)]"

definition withdrawal_guards ::
  "working_claim \<Rightarrow> session \<Rightarrow> follow_up \<Rightarrow> datetime \<Rightarrow> (bool \<times> execution_error) list" where
  "withdrawal_guards c s f now =
    (let rc = the (se_recovery_context s); deadline = the (fu_deadline_at f) in
    [(is_naive now, ExecutionTimeNaive),
     (wc_claim_id c \<noteq> fu_claim_id f, ClaimOwnershipInconsistent),
     (wc_terminal_disposition c \<noteq> None, ClaimTerminal),
     (fu_status f \<notin> {FU_pending, FU_blocked}, FollowUpNotOpen),
     (\<not> is_checkpoint c s f \<or> se_recovery_context s = None, SourceSessionNotCheckpoint),
     (\<not> bound_to_policy rc f, NotBoundToPolicy),
     (incomparable now deadline, DatetimeMismatch),
     (\<not> dt_before now deadline, ExpiryHasPrecedence),
     (fu_contact_permission f = NOT_AUTHORISED, ContactAlreadyWithdrawn)])"

definition withdrawn_follow_up :: "follow_up \<Rightarrow> datetime \<Rightarrow> follow_up" where
  "withdrawn_follow_up f now = (copy_with_reason FU_blocked (Some CONTACT_NOT_AUTHORISED) f)
     \<lparr>fu_contact_permission := NOT_AUTHORISED, fu_channel := None,
      fu_active_operation_id := None, fu_due_at := None, fu_updated_at := now\<rparr>"

definition reduce_follow_up_contact_withdrawal ::
  "working_claim \<Rightarrow> session \<Rightarrow> follow_up \<Rightarrow> operation list \<Rightarrow> datetime
     \<Rightarrow> execution_error + withdrawal_transition" where
  "reduce_follow_up_contact_withdrawal c s f ops now =
     (let ordered = ordered_operations ops in
      guarded (withdrawal_guards c s f now)
        (guarded (closing_history_guards c f ordered)
          (bind_result (reconcile_open_operation AUTHORITY_LOST AUTHORITY_LOST now ordered)
            (\<lambda>reconciled.
              decide_as reduce_owned_recovery Reduction
                (plain_trigger Source_human ''contact_authority_withdrawn'') (wc_claim_id c)
                (wc_revision c) (fu_follow_up_id f) now (fu_source_refs f) None
                (\<lambda>plan. tr_decision_code plan = Code_block_follow_up) PolicyForbids
                (Inr \<lparr>wt_follow_up = withdrawn_follow_up f now, wt_reconciled = reconciled\<rparr>)))))"

section \<open>Expiry and staff abandonment\<close>

record terminal_transition =
  tt_claim :: working_claim
  tt_follow_up :: follow_up
  tt_reconciled :: "operation option"

text \<open>The checks the two terminal reducers share, up to the comparison with the deadline.\<close>

definition terminal_guards ::
  "working_claim \<Rightarrow> session \<Rightarrow> follow_up \<Rightarrow> (bool \<times> execution_error) list" where
  "terminal_guards c s f =
    [(wc_claim_id c \<noteq> fu_claim_id f, ClaimOwnershipInconsistent),
     (wc_terminal_disposition c \<noteq> None, ClaimTerminal),
     (wc_active_session_id c \<noteq> None, ActiveSession),
     (fu_status f \<notin> {FU_pending, FU_blocked}, FollowUpNotOpen),
     (\<not> is_checkpoint c s f \<or> se_recovery_context s = None, SourceSessionNotCheckpoint),
     (\<not> bound_to_policy (the (se_recovery_context s)) f, NotBoundToPolicy)]"

definition resolved_follow_up ::
  "follow_up_reason \<Rightarrow> string \<Rightarrow> follow_up \<Rightarrow> datetime \<Rightarrow> follow_up" where
  "resolved_follow_up reason outcome f now = (copy_with_reason FU_resolved (Some reason) f)
     \<lparr>fu_active_operation_id := None, fu_outcome := Some outcome, fu_due_at := None,
      fu_updated_at := now\<rparr>"

definition terminal_source_refs :: "follow_up \<Rightarrow> string list" where
  "terminal_source_refs f = fromkeys (fu_source_refs f @ [''follow-up:'' @ fu_follow_up_id f])"

definition abandoned_disposition ::
  "terminal_reason \<Rightarrow> actor_reference \<Rightarrow> working_claim \<Rightarrow> follow_up \<Rightarrow> datetime
     \<Rightarrow> terminal_disposition" where
  "abandoned_disposition reason actor c f now = \<lparr>td_value = Terminal_abandoned,
     td_reason_code = reason, td_source_refs = terminal_source_refs f, td_recorded_by = actor,
     td_recorded_at = now, td_recorded_revision = wc_revision c + 1\<rparr>"

definition expired_next_step :: customer_next_step where
  "expired_next_step = \<lparr>ns_status = ''abandoned'',
     ns_summary = ''The recovery window for this incomplete Claim has expired.'',
     ns_responsible_party = Party_system, ns_expected_by = None, ns_can_resume = False,
     ns_required_items = []\<rparr>"

definition expiry_actor :: actor_reference where
  "expiry_actor = \<lparr>actor_type = Actor_system, actor_id = ''p17-recovery-expiry''\<rparr>"

definition expired_claim :: "working_claim \<Rightarrow> terminal_disposition \<Rightarrow> datetime \<Rightarrow> working_claim" where
  "expired_claim c t now = c\<lparr>wc_terminal_disposition := Some t,
     wc_customer_next_step := expired_next_step, wc_revision := wc_revision c + 1,
     wc_updated_at := now\<rparr>"

definition reduce_expired_follow_up ::
  "working_claim \<Rightarrow> session \<Rightarrow> follow_up \<Rightarrow> operation list \<Rightarrow> datetime
     \<Rightarrow> execution_error + terminal_transition" where
  "reduce_expired_follow_up c s f ops now =
     (let ordered = ordered_operations ops; deadline = the (fu_deadline_at f) in
      guarded ((is_naive now, ExecutionTimeNaive) # terminal_guards c s f @
        [(incomparable now deadline, DatetimeMismatch),
         (dt_before now deadline, DeadlineNotReached)] @ closing_history_guards c f ordered)
        (bind_result (reconcile_open_operation DEADLINE_REACHED NO_RESPONSE now ordered)
          (\<lambda>reconciled.
            bind_result (map_error Invalid_record (validate_terminal_reason
                (abandoned_disposition Reason_recovery_expired expiry_actor c f now)))
              (\<lambda>terminal.
                decide_as reduce_owned_recovery Reduction
                  (plain_trigger Source_timer ''recovery_expired'') (wc_claim_id c)
                  (wc_revision c) (fu_follow_up_id f) now (fu_source_refs f) None
                  (\<lambda>plan. tr_decision_code plan = Code_expire_recovery) PolicyForbids
                  (Inr \<lparr>tt_claim = expired_claim c terminal now,
                     tt_follow_up = resolved_follow_up RECOVERY_EXPIRED ''recovery_expired'' f now,
                     tt_reconciled = reconciled\<rparr>)))))"

definition abandoned_claim :: "working_claim \<Rightarrow> terminal_disposition \<Rightarrow> datetime \<Rightarrow> working_claim" where
  "abandoned_claim c t now = c\<lparr>wc_terminal_disposition := Some t,
     wc_revision := wc_revision c + 1, wc_updated_at := now\<rparr>"

definition reduce_follow_up_staff_abandonment ::
  "working_claim \<Rightarrow> session \<Rightarrow> follow_up \<Rightarrow> operation list \<Rightarrow> datetime \<Rightarrow> actor_reference
     \<Rightarrow> execution_error + terminal_transition" where
  "reduce_follow_up_staff_abandonment c s f ops now recorded_by =
     (let ordered = ordered_operations ops; deadline = the (fu_deadline_at f) in
      guarded ([(is_naive now, ExecutionTimeNaive),
          (actor_type recorded_by \<noteq> Actor_staff, NotStaffActor)] @ terminal_guards c s f @
        [(incomparable now deadline, DatetimeMismatch),
         (\<not> dt_before now deadline, ExpiryHasPrecedence)] @ closing_history_guards c f ordered)
        (bind_result (reconcile_open_operation AUTHORITY_LOST AUTHORITY_LOST now ordered)
          (\<lambda>reconciled.
            bind_result (map_error Invalid_record (validate_terminal_reason
                (abandoned_disposition Reason_authorised_staff_abandonment recorded_by c f now)))
              (\<lambda>terminal. Inr \<lparr>tt_claim = abandoned_claim c terminal now,
                 tt_follow_up = resolved_follow_up STAFF_ABANDONED ''staff_abandoned'' f now,
                 tt_reconciled = reconciled\<rparr>))))"

section \<open>Shared facts\<close>

lemma ordered_facts [simp]:
  "set (ordered_operations ops) = set ops"
  "ordered_operations ops = [] \<longleftrightarrow> ops = []"
  "length (filter P (ordered_operations ops)) = length (filter P ops)"
  by (simp_all add: ordered_operations_def filter_sort flip: length_0_conv)

lemma ordered_distinct [simp]: "distinct (map g (ordered_operations ops)) \<longleftrightarrow> distinct (map g ops)"
  by (simp add: distinct_map ordered_operations_def)

lemma ordered_list_all [simp]: "list_all P (ordered_operations ops) \<longleftrightarrow> list_all P ops"
  by (simp add: list_all_iff)

lemma ordered_list_ex [simp]: "list_ex P (ordered_operations ops) \<longleftrightarrow> list_ex P ops"
  by (simp add: list_ex_iff)

lemma countable_ordered [simp]: "countable_attempts (ordered_operations ops) = countable_attempts ops"
  by (simp add: countable_attempts_def)

lemma max_sequence_ordered [simp]: "max_sequence (ordered_operations ops) = max_sequence ops"
  by (simp add: max_sequence_def)

lemma countable_nonneg [simp]: "0 \<le> countable_attempts ops"
  by (simp add: countable_attempts_def)

lemma history_guards_ordered [simp]:
  "passes (history_guards c f (ordered_operations ops)) \<longleftrightarrow> passes (history_guards c f ops)"
  "passes (closing_history_guards c f (ordered_operations ops)) \<longleftrightarrow> passes (closing_history_guards c f ops)"
  "passes (due_history_guards c f (ordered_operations ops)) \<longleftrightarrow> passes (due_history_guards c f ops)"
  by (simp_all add: history_guards_def closing_history_guards_def due_history_guards_def)

lemma max_sequence_ge: "p \<in> set ops \<Longrightarrow> op_sequence p \<le> max_sequence ops"
  by (auto simp: max_sequence_def intro: Max_ge)

lemma copy_with_reason_sel [simp]:
  "fu_status (copy_with_reason st r f) = st"
  "fu_follow_up_id (copy_with_reason st r f) = fu_follow_up_id f"
  "fu_claim_id (copy_with_reason st r f) = fu_claim_id f"
  "fu_source_session_id (copy_with_reason st r f) = fu_source_session_id f"
  "fu_purpose (copy_with_reason st r f) = fu_purpose f"
  "fu_policy_id (copy_with_reason st r f) = fu_policy_id f"
  "fu_policy_version (copy_with_reason st r f) = fu_policy_version f"
  "fu_deadline_at (copy_with_reason st r f) = fu_deadline_at f"
  "fu_source_refs (copy_with_reason st r f) = fu_source_refs f"
  "fu_contact_permission (copy_with_reason st r f) = fu_contact_permission f"
  "fu_attempt_count (copy_with_reason st r f) = fu_attempt_count f"
  "fu_channel (copy_with_reason st r f) = fu_channel f"
  "fu_outcome (copy_with_reason st r f) = fu_outcome f"
  "fu_created_at (copy_with_reason st r f) = fu_created_at f"
  by (simp_all add: copy_with_reason_def)

text \<open>
  The limits behind the cadence: three attempts a day apart end well before the deadline
  a week after the interruption.
\<close>

lemma policy_constants:
  "INCOMPLETE_CLAIM_FOLLOW_UP_RETRY_INTERVAL = 86400000000"
  "INCOMPLETE_CLAIM_FOLLOW_UP_RECOVERY_DEADLINE = 604800000000"
  "INCOMPLETE_CLAIM_FOLLOW_UP_POLICY_VERSION = 1"
  by (simp_all add: INCOMPLETE_CLAIM_FOLLOW_UP_RETRY_INTERVAL_def
      INCOMPLETE_CLAIM_FOLLOW_UP_RECOVERY_DEADLINE_def INCOMPLETE_CLAIM_FOLLOW_UP_POLICY_VERSION_def)

lemma attempt_due_instant:
  "instant (attempt_due_at rc n) = instant (rc_interrupted_at rc) + 86400000000 * n"
  "is_Naive (attempt_due_at rc n) = is_Naive (rc_interrupted_at rc)"
  "instant (recovery_deadline_of rc) = instant (rc_interrupted_at rc) + 604800000000"
  "is_Naive (recovery_deadline_of rc) = is_Naive (rc_interrupted_at rc)"
  by (cases "rc_interrupted_at rc"; simp add: attempt_due_at_def recovery_deadline_of_def
      policy_constants)+

lemma attempt_before_deadline:
  "n < 7 \<Longrightarrow> dt_before (attempt_due_at rc n) (recovery_deadline_of rc)"
  "\<not> incomparable (attempt_due_at rc n) (recovery_deadline_of rc)"
  by (simp_all add: dt_before_def incomparable_def attempt_due_instant)

section \<open>The due attempt\<close>

definition recovery_coordinates :: "working_claim \<Rightarrow> follow_up \<Rightarrow> datetime \<Rightarrow> bool" where
  "recovery_coordinates c f now \<longleftrightarrow> owned_coordinates (wc_claim_id c) (wc_revision c)
     (fu_follow_up_id f) now (fu_source_refs f) None"

lemma due_policy:
  "bind_result (map_error Reduction
      (reduce_owned_recovery (plain_trigger Source_timer ''follow_up_due'')
         (wc_claim_id c) (wc_revision c) (fu_follow_up_id f) now (fu_source_refs f) None))
    (\<lambda>plan. k (tr_max_auto_retry plan)) = Inr t
   \<longleftrightarrow> recovery_coordinates c f now \<and> k 3 = Inr t"
proof (cases "recovery_coordinates c f now")
  case True
  then obtain plan where "reduce_owned_recovery (plain_trigger Source_timer ''follow_up_due'')
       (wc_claim_id c) (wc_revision c) (fu_follow_up_id f) now (fu_source_refs f) None = Inr plan"
    "tr_max_auto_retry plan = 3"
    using owned.decided [OF owned_promised(1)] owned_operation_free(1)
    unfolding recovery_coordinates_def by metis
  with True show ?thesis by simp
next
  case False
  then show ?thesis
    using owned.checked unfolding recovery_coordinates_def by (fastforce simp: bind_result_Inr_iff)
qed

lemma exhaustion_policy:
  "decide_as reduce_owned_recovery Reduction
     (plain_trigger Source_timer ''attempt_limit_reached'') (wc_claim_id c) (wc_revision c)
     (fu_follow_up_id f) now (fu_source_refs f) None
     (\<lambda>plan. tr_decision_code plan = Code_block_follow_up) e k = Inr x
   \<longleftrightarrow> recovery_coordinates c f now \<and> k = Inr x"
  unfolding recovery_coordinates_def
  by (rule owned.decide_as_Inr_iff [OF owned_promised(2)]) (simp_all add: owned_operation_free)

lemma withdrawal_policy:
  "decide_as reduce_owned_recovery Reduction
     (plain_trigger Source_human ''contact_authority_withdrawn'') (wc_claim_id c) (wc_revision c)
     (fu_follow_up_id f) now (fu_source_refs f) None
     (\<lambda>plan. tr_decision_code plan = Code_block_follow_up) e k = Inr x
   \<longleftrightarrow> recovery_coordinates c f now \<and> k = Inr x"
  unfolding recovery_coordinates_def
  by (rule owned.decide_as_Inr_iff [OF owned_promised(3)]) (simp_all add: owned_operation_free)

lemma expiry_policy:
  "decide_as reduce_owned_recovery Reduction
     (plain_trigger Source_timer ''recovery_expired'') (wc_claim_id c) (wc_revision c)
     (fu_follow_up_id f) now (fu_source_refs f) None
     (\<lambda>plan. tr_decision_code plan = Code_expire_recovery) e k = Inr x
   \<longleftrightarrow> recovery_coordinates c f now \<and> k = Inr x"
  unfolding recovery_coordinates_def
  by (rule owned.decide_as_Inr_iff [OF owned_promised(4)]) (simp_all add: owned_operation_free)

lemma settle_unanswered_ok:
  "op_status p = Op_committed \<Longrightarrow>
     assert_follow_up_operation_transition p (settle_unanswered now p) = Inr ()"
  by (simp add: assert_transition_iff settle_unanswered_def no_update_def allowed_operation_steps_def)

lemma committed_operation_ok:
  "op_status p = Op_reserved \<Longrightarrow> op_committed_at p = None \<Longrightarrow>
     assert_follow_up_operation_transition p (committed_operation now p) = Inr ()"
  by (simp add: assert_transition_iff committed_operation_def no_update_def allowed_operation_steps_def)

lemma close_operation_ok:
  "is_open_operation p \<Longrightarrow>
     assert_follow_up_operation_transition p (close_operation a b now p) = Inr ()"
  by (auto simp: assert_transition_iff close_operation_def no_update_def allowed_operation_steps_def
      is_open_operation_def)

lemma filter_single_in: "filter P xs = [x] \<Longrightarrow> x \<in> set xs \<and> P x"
  by (metis (mono_tags, lifting) list.set_intros(1) mem_Collect_eq set_filter)

lemma settle_outstanding_Inr_iff:
  "settle_outstanding now ops = Inr st \<longleftrightarrow>
     (filter (\<lambda>p. op_status p = Op_committed) ops = [] \<and> st = None)
     \<or> (\<exists>p. filter (\<lambda>p. op_status p = Op_committed) ops = [p] \<and> op_sequence p = max_sequence ops
          \<and> op_committed_at p \<noteq> None \<and> op_result_code p = Some IN_APP_COMMITTED
          \<and> st = Some (settle_unanswered now p))"
proof (cases "filter (\<lambda>p. op_status p = Op_committed) ops")
  case Nil
  then show ?thesis by (auto simp: settle_outstanding_def)
next
  case (Cons p ps)
  show ?thesis
  proof (cases ps)
    case Nil
    then have "op_status p = Op_committed" using Cons filter_single_in by fastforce
    then have "assert_follow_up_operation_transition p (settle_unanswered now p) = Inr ()"
      by (rule settle_unanswered_ok)
    then show ?thesis using Cons Nil by (auto simp: settle_outstanding_def)
  qed (simp add: settle_outstanding_def Cons)
qed

lemma commit_attempt_Inr_iff:
  "commit_attempt c s f due n now = Inr p \<longleftrightarrow>
     operation_valid (scheduled_operation c s f due n now)
     \<and> p = committed_operation now (scheduled_operation c s f due n now)"
proof -
  let ?p = "scheduled_operation c s f due n now"
  have v: "validate_follow_up_operation ?p = Inr q \<longleftrightarrow> operation_valid ?p \<and> q = ?p" for q
    unfolding operation_valid_def by (auto simp: validate_follow_up_operation_def
        scheduled_operation_def guarded_Inr_iff)
  have ok: "assert_follow_up_operation_transition ?p (committed_operation now ?p) = Inr ()"
    by (rule committed_operation_ok) (simp_all add: scheduled_operation_def)
  show ?thesis
    by (auto simp: commit_attempt_def bind_result_Inr_iff v ok)
qed

lemma follow_up_after_attempt_Inr_iff:
  "bound_to_policy rc f \<Longrightarrow> n < 7 \<Longrightarrow> recovery_coordinates c f now \<Longrightarrow>
   follow_up_after_attempt c rc f (recovery_deadline_of rc) limit n i now = Inr g \<longleftrightarrow>
     g = (if limit \<le> n then exhausted_follow_up f n i now
          else rescheduled_follow_up f n i (attempt_due_at rc n) now)"
  by (auto simp: follow_up_after_attempt_def exhaustion_policy attempt_before_deadline)

text \<open>
  The abstract contract of the due attempt: when it is permitted and what it yields.
\<close>

definition outstanding_ok :: "operation list \<Rightarrow> bool" where
  "outstanding_ok ops \<longleftrightarrow> list_all (\<lambda>p. op_status p = Op_committed \<longrightarrow>
     op_sequence p = max_sequence ops \<and> op_committed_at p \<noteq> None
     \<and> op_result_code p = Some IN_APP_COMMITTED) ops"

definition attempt_history :: "working_claim \<Rightarrow> follow_up \<Rightarrow> operation list \<Rightarrow> bool" where
  "attempt_history c f ops \<longleftrightarrow> distinct (map op_sequence ops) \<and> list_all (belongs c f) ops
     \<and> list_all (\<lambda>p. op_status p \<noteq> Op_reserved) ops \<and> outstanding_ok ops
     \<and> list_all (\<lambda>p. 1 \<le> op_sequence p) ops
     \<and> fu_attempt_count f = countable_attempts ops"

definition open_obligation :: "working_claim \<Rightarrow> session \<Rightarrow> recovery_context \<Rightarrow> follow_up \<Rightarrow> bool" where
  "open_obligation c s rc f \<longleftrightarrow> wc_claim_id c = fu_claim_id f \<and> wc_terminal_disposition c = None
     \<and> wc_active_session_id c = None \<and> is_checkpoint c s f \<and> se_recovery_context s = Some rc
     \<and> bound_to_policy rc f"

definition contact_scheduled :: "recovery_context \<Rightarrow> follow_up \<Rightarrow> bool" where
  "contact_scheduled rc f \<longleftrightarrow> fu_status f = FU_pending \<and> fu_contact_permission f = AUTHORISED
     \<and> fu_channel f = Some Channel_in_app \<and> fu_attempt_count f < 3
     \<and> fu_due_at f = Some (attempt_due_at rc (fu_attempt_count f))"

definition within_limits :: "working_claim \<Rightarrow> follow_up \<Rightarrow> bool" where
  "within_limits c f \<longleftrightarrow> bounded_text 1 120 (wc_claim_id c) \<and> 1 \<le> wc_revision c
     \<and> bounded_text 1 120 (fu_follow_up_id f) \<and> length (fu_source_refs f) \<le> 20"

definition outstanding_settled :: "datetime \<Rightarrow> operation list \<Rightarrow> operation option" where
  "outstanding_settled now ops = (case filter (\<lambda>p. op_status p = Op_committed) ops of
     [] \<Rightarrow> None | p # _ \<Rightarrow> Some (settle_unanswered now p))"

definition due_outcome ::
  "working_claim \<Rightarrow> session \<Rightarrow> recovery_context \<Rightarrow> follow_up \<Rightarrow> operation list \<Rightarrow> datetime
     \<Rightarrow> due_transition" where
  "due_outcome c s rc f ops now =
     (let n = fu_attempt_count f;
          p = committed_operation now
                (scheduled_operation c s f (attempt_due_at rc n) (max_sequence ops + 1) now)
      in \<lparr>dt_follow_up = (if n = 2 then exhausted_follow_up f 3 (op_operation_id p) now
            else rescheduled_follow_up f (n + 1) (op_operation_id p) (attempt_due_at rc (n + 1)) now),
          dt_operation = p, dt_settled_previous = outstanding_settled now ops\<rparr>)"

lemma distinct_map_filter_eq:
  "distinct (map g xs) \<Longrightarrow> x \<in> set xs \<Longrightarrow> y \<in> set xs \<Longrightarrow> g x = g y \<Longrightarrow> x = y"
  by (auto simp: distinct_map inj_on_def)

lemma outstanding_unique:
  assumes "distinct (map op_sequence ops)" "outstanding_ok ops"
  shows "length (filter (\<lambda>p. op_status p = Op_committed) ops) \<le> 1"
proof -
  let ?fs = "filter (\<lambda>p. op_status p = Op_committed) ops"
  have eq: "x = y" if "x \<in> set ?fs" "y \<in> set ?fs" for x y
  proof (rule distinct_map_filter_eq [OF assms(1)])
    show "x \<in> set ops" "y \<in> set ops" using that by simp_all
    show "op_sequence x = op_sequence y"
      using that assms(2) by (simp add: outstanding_ok_def list_all_iff)
  qed
  have "distinct ?fs" using assms(1) by (simp add: distinct_map)
  then have "length ?fs = card (set ?fs)" by (simp add: distinct_card del: set_filter)
  also have "\<dots> \<le> 1" using eq card_le_Suc0_iff_eq [of "set ?fs"] by (simp del: set_filter)
  finally show ?thesis .
qed

lemma filter_ordered_le_1:
  assumes "length (filter P ops) \<le> 1"
  shows "filter P (ordered_operations ops) = filter P ops"
proof -
  consider "filter P ops = []" | p where "filter P ops = [p]"
    using assms by (cases "filter P ops") auto
  then show ?thesis by cases (simp_all add: ordered_operations_def filter_sort)
qed

lemma settle_outstanding_spec:
  assumes "distinct (map op_sequence ops)"
  shows "settle_outstanding now (ordered_operations ops) = Inr st \<longleftrightarrow>
    outstanding_ok ops \<and> st = outstanding_settled now ops"
proof (cases "outstanding_ok ops")
  case True
  note le = outstanding_unique [OF assms True]
  note fs = filter_ordered_le_1 [OF le]
  consider "filter (\<lambda>p. op_status p = Op_committed) ops = []"
    | p where "filter (\<lambda>p. op_status p = Op_committed) ops = [p]"
    using le by (cases "filter (\<lambda>p. op_status p = Op_committed) ops") auto
  then show ?thesis
  proof cases
    case 2
    then have "p \<in> set ops" "op_status p = Op_committed" using filter_single_in by fastforce+
    with 2 True show ?thesis
      by (auto simp: settle_outstanding_Inr_iff fs outstanding_settled_def outstanding_ok_def
          list_all_iff)
  qed (use True in \<open>auto simp: settle_outstanding_Inr_iff fs outstanding_settled_def\<close>)
next
  case False
  then obtain p where p: "p \<in> set ops" "op_status p = Op_committed"
      "\<not> (op_sequence p = max_sequence ops \<and> op_committed_at p \<noteq> None
          \<and> op_result_code p = Some IN_APP_COMMITTED)"
    by (auto simp: outstanding_ok_def list_all_iff)
  then have "p \<in> set (filter (\<lambda>p. op_status p = Op_committed) (ordered_operations ops))" by simp
  then show ?thesis using p False
    by (auto simp: settle_outstanding_Inr_iff simp del: set_filter)
qed

lemma scheduled_valid_iff:
  assumes "bound_to_policy rc f"
  shows "operation_valid (scheduled_operation c s f due n now) \<longleftrightarrow>
     bounded_text 1 120 (fu_follow_up_id f) \<and> bounded_text 1 120 (wc_claim_id c) \<and> 1 \<le> n
     \<and> 1 \<le> wc_revision c \<and> \<not> is_Naive due"
proof -
  have "length INCOMPLETE_CLAIM_FOLLOW_UP_POLICY_ID = 26"
    by (simp add: INCOMPLETE_CLAIM_FOLLOW_UP_POLICY_ID_def)
  then show ?thesis
    using assms
    by (auto simp: operation_valid_iff validity scheduled_operation_def operation_guards_def
        operation_status_guards_def bound_to_policy_def bounded_text_def opt_before_def
        follow_up_operation_id_def length_stable_operation_id policy_constants
        claim_revision_ref_def)
qed

lemma max_sequence_nonneg: "list_all (\<lambda>p. 1 \<le> op_sequence p) ops \<Longrightarrow> 0 \<le> max_sequence ops"
proof (cases ops)
  case (Cons p ps)
  assume "list_all (\<lambda>p. 1 \<le> op_sequence p) ops"
  then show ?thesis using Cons max_sequence_ge [of p ops] by simp
qed (simp add: max_sequence_def)

lemma recovery_coordinates_limits:
  "within_limits c f \<Longrightarrow> recovery_coordinates c f now \<longleftrightarrow> \<not> is_Naive now"
  by (auto simp: recovery_coordinates_def owned_coordinates_def within_limits_def bounded_text_def)

lemma execute_attempt_Inr_iff:
  assumes "within_limits c f" "list_all (\<lambda>p. 1 \<le> op_sequence p) ops" "bound_to_policy rc f"
    and "distinct (map op_sequence ops)" "recovery_coordinates c f now"
    and "fu_attempt_count f = countable_attempts ops"
  shows "execute_attempt c s rc f (ordered_operations ops) due (recovery_deadline_of rc) 3 now = Inr t
    \<longleftrightarrow> fu_attempt_count f < 3 \<and> due = attempt_due_at rc (fu_attempt_count f) \<and> outstanding_ok ops
      \<and> \<not> is_Naive (rc_interrupted_at rc) \<and> t = due_outcome c s rc f ops now"
proof -
  have "0 \<le> max_sequence ops" by (rule max_sequence_nonneg [OF assms(2)])
  then show ?thesis
    using assms
    by (auto simp: execute_attempt_def bind_result_Inr_iff settle_outstanding_spec within_limits_def
        commit_attempt_Inr_iff scheduled_valid_iff follow_up_after_attempt_Inr_iff
        attempt_due_instant due_outcome_def Let_def)
qed

lemma reduce_due_guards:
  "reduce_due_follow_up c s f ops now = Inr t \<longleftrightarrow>
     passes (due_snapshot_guards c s f now)
     \<and> passes (due_time_guards (the (se_recovery_context s)) f (the (fu_due_at f))
         (the (fu_deadline_at f)) now)
     \<and> passes (due_history_guards c f ops) \<and> recovery_coordinates c f now
     \<and> execute_attempt c s (the (se_recovery_context s)) f (ordered_operations ops)
         (the (fu_due_at f)) (the (fu_deadline_at f)) 3 now = Inr t"
  using due_policy [where c = c and f = f and now = now and t = t and k = "\<lambda>limit.
      execute_attempt c s (the (se_recovery_context s)) f (ordered_operations ops)
        (the (fu_due_at f)) (the (fu_deadline_at f)) limit now"]
  by (simp add: reduce_due_follow_up_def Let_def guarded_Inr_iff)

text \<open>The reducer implements its contract on every snapshot within the field limits.\<close>

lemma reduce_due_Inr_iff:
  assumes "within_limits c f" "list_all (\<lambda>p. 1 \<le> op_sequence p) ops"
  shows "reduce_due_follow_up c s f ops now = Inr t \<longleftrightarrow>
    \<not> is_Naive now \<and> (\<exists>rc. open_obligation c s rc f \<and> contact_scheduled rc f
       \<and> attempt_history c f ops \<and> \<not> is_Naive (rc_interrupted_at rc)
       \<and> \<not> dt_before now (attempt_due_at rc (fu_attempt_count f))
       \<and> dt_before now (recovery_deadline_of rc) \<and> t = due_outcome c s rc f ops now)"
    (is "?L \<longleftrightarrow> ?R")
proof (cases "\<exists>rc due. se_recovery_context s = Some rc \<and> fu_due_at f = Some due
    \<and> bound_to_policy rc f")
  case False
  then show ?thesis
    by (auto simp: reduce_due_guards due_snapshot_guards_def due_time_guards_def
        open_obligation_def contact_scheduled_def)
next
  case True
  then obtain rc due where rc: "se_recovery_context s = Some rc" and due: "fu_due_at f = Some due"
    and bound: "bound_to_policy rc f" by blast
  then have deadline: "fu_deadline_at f = Some (recovery_deadline_of rc)"
    by (simp add: bound_to_policy_def)
  show ?thesis
  proof (cases "passes (due_history_guards c f ops) \<and> recovery_coordinates c f now")
    case False
    then show ?thesis using recovery_coordinates_limits [OF assms(1)]
      by (auto simp: reduce_due_guards attempt_history_def due_history_guards_def
          history_guards_def list_ex_iff list_all_iff)
  next
    case True
    then have h: "distinct (map op_sequence ops)" "recovery_coordinates c f now"
      "fu_attempt_count f = countable_attempts ops" "list_all (belongs c f) ops"
      "list_all (\<lambda>p. op_status p \<noteq> Op_reserved) ops"
      by (simp_all add: due_history_guards_def history_guards_def list_ex_iff list_all_iff)
    show ?thesis
      unfolding reduce_due_guards
      by (simp add: rc due deadline execute_attempt_Inr_iff [OF assms bound h(1-3)])
        (use True bound h recovery_coordinates_limits [OF assms(1), of now] in
          \<open>auto simp: due_snapshot_guards_def due_time_guards_def open_obligation_def rc due
             deadline contact_scheduled_def attempt_history_def assms(2) incomparable_def
             attempt_due_instant\<close>)
  qed
qed

section \<open>Withdrawal, expiry and abandonment\<close>

definition closing_history :: "working_claim \<Rightarrow> follow_up \<Rightarrow> operation list \<Rightarrow> bool" where
  "closing_history c f ops \<longleftrightarrow> distinct (map op_sequence ops) \<and> list_all (belongs c f) ops
     \<and> fu_attempt_count f = countable_attempts ops \<and> length (filter is_open_operation ops) \<le> 1"

definition closed_open ::
  "operation_result \<Rightarrow> operation_result \<Rightarrow> datetime \<Rightarrow> operation list \<Rightarrow> operation option" where
  "closed_open a b now ops = (case filter is_open_operation ops of
     [] \<Rightarrow> None | p # _ \<Rightarrow> Some (close_operation a b now p))"

lemma reconcile_open_Inr_iff:
  "reconcile_open_operation a b now (ordered_operations ops) = Inr r \<longleftrightarrow>
     length (filter is_open_operation ops) \<le> 1 \<and> r = closed_open a b now ops"
proof (cases "length (filter is_open_operation ops) \<le> 1")
  case True
  note fs = filter_ordered_le_1 [OF True]
  consider "filter is_open_operation ops = []" | p where "filter is_open_operation ops = [p]"
    using True by (cases "filter is_open_operation ops") auto
  then show ?thesis
  proof cases
    case 2
    then have "is_open_operation p" using filter_single_in by fastforce
    with 2 show ?thesis
      by (auto simp: reconcile_open_operation_def fs closed_open_def close_operation_ok)
  qed (auto simp: reconcile_open_operation_def fs closed_open_def)
next
  case False
  then have "\<not> length (filter is_open_operation (ordered_operations ops)) \<le> 1" by simp
  with False show ?thesis
    by (auto simp: reconcile_open_operation_def simp del: ordered_facts split: list.splits)
qed

lemma reduce_withdrawal_Inr_iff:
  assumes "within_limits c f"
  shows "reduce_follow_up_contact_withdrawal c s f ops now = Inr t \<longleftrightarrow>
    \<not> is_Naive now \<and> (\<exists>rc. wc_claim_id c = fu_claim_id f \<and> wc_terminal_disposition c = None
      \<and> fu_status f \<noteq> FU_resolved \<and> is_checkpoint c s f \<and> se_recovery_context s = Some rc
      \<and> bound_to_policy rc f \<and> \<not> is_Naive (rc_interrupted_at rc)
      \<and> dt_before now (recovery_deadline_of rc) \<and> fu_contact_permission f = AUTHORISED
      \<and> closing_history c f ops
      \<and> t = \<lparr>wt_follow_up = withdrawn_follow_up f now,
             wt_reconciled = closed_open AUTHORITY_LOST AUTHORITY_LOST now ops\<rparr>)"
proof -
  have st: "fu_status f \<notin> {FU_pending, FU_blocked} \<longleftrightarrow> fu_status f = FU_resolved"
    by (cases "fu_status f") auto
  have perm: "fu_contact_permission f \<noteq> NOT_AUTHORISED \<longleftrightarrow> fu_contact_permission f = AUTHORISED"
    by (cases "fu_contact_permission f") auto
  have unfolded: "reduce_follow_up_contact_withdrawal c s f ops now = Inr t \<longleftrightarrow>
      passes (withdrawal_guards c s f now) \<and> passes (closing_history_guards c f ops)
      \<and> length (filter is_open_operation ops) \<le> 1 \<and> recovery_coordinates c f now
      \<and> t = \<lparr>wt_follow_up = withdrawn_follow_up f now,
             wt_reconciled = closed_open AUTHORITY_LOST AUTHORITY_LOST now ops\<rparr>"
    by (auto simp: reduce_follow_up_contact_withdrawal_def Let_def guarded_Inr_iff
        bind_result_Inr_iff reconcile_open_Inr_iff withdrawal_policy)
  show ?thesis
    unfolding unfolded recovery_coordinates_limits [OF assms] withdrawal_guards_def Let_def st
    by (auto simp: closing_history_guards_def history_guards_def closing_history_def perm
        bound_to_policy_def incomparable_def attempt_due_instant)
qed

lemma terminal_refs_facts:
  "terminal_source_refs f \<noteq> []" "distinct (terminal_source_refs f)"
  "length (terminal_source_refs f) \<le> Suc (length (fu_source_refs f))"
  using length_fromkeys [of "fu_source_refs f @ [''follow-up:'' @ fu_follow_up_id f]"]
  by (auto simp: terminal_source_refs_def)

lemma validate_abandoned_iff:
  assumes "reason \<in> allowed_terminal_reasons Terminal_abandoned" "1 \<le> wc_revision c"
  shows "validate_terminal_reason (abandoned_disposition reason actor c f now) = Inr t \<longleftrightarrow>
     length (terminal_source_refs f) \<le> 20 \<and> \<not> is_Naive now
     \<and> t = abandoned_disposition reason actor c f now"
  using assms terminal_refs_facts [of f]
  by (auto simp: validate_terminal_reason_def abandoned_disposition_def Suc_le_eq)

lemma abandoned_reasons [simp]:
  "Reason_recovery_expired \<in> allowed_terminal_reasons Terminal_abandoned"
  "Reason_authorised_staff_abandonment \<in> allowed_terminal_reasons Terminal_abandoned"
  by (simp_all add: allowed_terminal_reasons_def)

lemma terminal_guards_iff:
  "passes (terminal_guards c s f) \<longleftrightarrow>
     (\<exists>rc. open_obligation c s rc f \<and> fu_status f \<noteq> FU_resolved)"
  by (cases "fu_status f") (auto simp: terminal_guards_def open_obligation_def)

lemma closing_history_iff:
  "passes (closing_history_guards c f ops) \<and> length (filter is_open_operation ops) \<le> 1
     \<longleftrightarrow> closing_history c f ops"
  by (auto simp: closing_history_guards_def history_guards_def closing_history_def)

lemma open_obligation_deadline:
  "open_obligation c s rc f \<Longrightarrow> fu_deadline_at f = Some (recovery_deadline_of rc)"
  by (simp add: open_obligation_def bound_to_policy_def)

lemma incomparable_deadline:
  "incomparable now (recovery_deadline_of rc) \<longleftrightarrow> is_Naive now \<noteq> is_Naive (rc_interrupted_at rc)"
  by (simp add: incomparable_def attempt_due_instant)

lemma reduce_expired_Inr_iff:
  assumes "within_limits c f"
  shows "reduce_expired_follow_up c s f ops now = Inr t \<longleftrightarrow>
    \<not> is_Naive now \<and> (\<exists>rc. open_obligation c s rc f \<and> fu_status f \<noteq> FU_resolved
      \<and> \<not> is_Naive (rc_interrupted_at rc) \<and> \<not> dt_before now (recovery_deadline_of rc)
      \<and> closing_history c f ops \<and> length (terminal_source_refs f) \<le> 20
      \<and> t = \<lparr>tt_claim = expired_claim c
               (abandoned_disposition Reason_recovery_expired expiry_actor c f now) now,
             tt_follow_up = resolved_follow_up RECOVERY_EXPIRED ''recovery_expired'' f now,
             tt_reconciled = closed_open DEADLINE_REACHED NO_RESPONSE now ops\<rparr>)"
proof -
  have "reduce_expired_follow_up c s f ops now = Inr t \<longleftrightarrow>
      \<not> is_Naive now \<and> passes (terminal_guards c s f)
      \<and> \<not> incomparable now (the (fu_deadline_at f)) \<and> \<not> dt_before now (the (fu_deadline_at f))
      \<and> closing_history c f ops \<and> length (terminal_source_refs f) \<le> 20
      \<and> t = \<lparr>tt_claim = expired_claim c
               (abandoned_disposition Reason_recovery_expired expiry_actor c f now) now,
             tt_follow_up = resolved_follow_up RECOVERY_EXPIRED ''recovery_expired'' f now,
             tt_reconciled = closed_open DEADLINE_REACHED NO_RESPONSE now ops\<rparr>"
    unfolding closing_history_iff [symmetric] reduce_expired_follow_up_def Let_def
    using assms recovery_coordinates_limits [OF assms, of now]
    by (auto simp: guarded_append guarded_Inr_iff bind_result_Inr_iff reconcile_open_Inr_iff
        expiry_policy validate_abandoned_iff within_limits_def)
  then show ?thesis
    unfolding terminal_guards_iff
    by (auto simp: open_obligation_deadline incomparable_deadline)
qed

lemma reduce_staff_Inr_iff:
  assumes "within_limits c f"
  shows "reduce_follow_up_staff_abandonment c s f ops now actor = Inr t \<longleftrightarrow>
    \<not> is_Naive now \<and> actor_type actor = Actor_staff
    \<and> (\<exists>rc. open_obligation c s rc f \<and> fu_status f \<noteq> FU_resolved
      \<and> \<not> is_Naive (rc_interrupted_at rc) \<and> dt_before now (recovery_deadline_of rc)
      \<and> closing_history c f ops \<and> length (terminal_source_refs f) \<le> 20
      \<and> t = \<lparr>tt_claim = abandoned_claim c
               (abandoned_disposition Reason_authorised_staff_abandonment actor c f now) now,
             tt_follow_up = resolved_follow_up STAFF_ABANDONED ''staff_abandoned'' f now,
             tt_reconciled = closed_open AUTHORITY_LOST AUTHORITY_LOST now ops\<rparr>)"
proof -
  have "reduce_follow_up_staff_abandonment c s f ops now actor = Inr t \<longleftrightarrow>
      \<not> is_Naive now \<and> actor_type actor = Actor_staff \<and> passes (terminal_guards c s f)
      \<and> \<not> incomparable now (the (fu_deadline_at f)) \<and> dt_before now (the (fu_deadline_at f))
      \<and> closing_history c f ops \<and> length (terminal_source_refs f) \<le> 20
      \<and> t = \<lparr>tt_claim = abandoned_claim c
               (abandoned_disposition Reason_authorised_staff_abandonment actor c f now) now,
             tt_follow_up = resolved_follow_up STAFF_ABANDONED ''staff_abandoned'' f now,
             tt_reconciled = closed_open AUTHORITY_LOST AUTHORITY_LOST now ops\<rparr>"
    unfolding closing_history_iff [symmetric] reduce_follow_up_staff_abandonment_def Let_def
    using assms
    by (auto simp: guarded_append guarded_Inr_iff bind_result_Inr_iff reconcile_open_Inr_iff
        validate_abandoned_iff within_limits_def)
  then show ?thesis
    unfolding terminal_guards_iff
    by (auto simp: open_obligation_deadline incomparable_deadline)
qed

section \<open>Results are valid records\<close>

definition not_after :: "datetime \<Rightarrow> datetime \<Rightarrow> bool" where
  "not_after a b \<longleftrightarrow> \<not> incomparable b a \<and> \<not> dt_before b a"

lemma committed_operation_valid:
  assumes "operation_valid (scheduled_operation c s f due n now)" "\<not> is_Naive now"
    and "\<not> dt_before now due"
  shows "operation_valid (committed_operation now (scheduled_operation c s f due n now))"
  using assms
  by (auto simp: operation_valid_iff validity operation_guards_def operation_status_guards_def
      committed_operation_def no_update_def scheduled_operation_def copy_operation_def opt_before_def)

lemma settle_unanswered_valid:
  assumes "operation_valid p" "op_status p = Op_committed" "op_committed_at p = Some t"
    and "not_after t now" "not_after (op_created_at p) now" "\<not> is_Naive now"
  shows "operation_valid (settle_unanswered now p)"
  using assms
  by (auto simp: operation_valid_iff validity operation_guards_def operation_status_guards_def
      settle_unanswered_def no_update_def copy_operation_def opt_before_def not_after_def)

lemma close_operation_valid:
  assumes "operation_valid p" "is_open_operation p" "\<not> is_Naive now"
    and "opt_all (\<lambda>t. not_after t now) (op_committed_at p)" "not_after (op_created_at p) now"
    and "not_after (op_scheduled_at p) now"
    and "a \<in> {SUPERSEDED_BY_RESUME, DEADLINE_REACHED, AUTHORITY_LOST, STALE_REVISION}"
  shows "operation_valid (close_operation a b now p)"
  using assms
  by (auto simp: operation_valid_iff validity operation_guards_def operation_status_guards_def
      close_operation_def no_update_def copy_operation_def opt_before_def not_after_def
      is_open_operation_def opt_all_iff)

lemma pending_bound_facts:
  assumes "follow_up_valid f" "bound_to_policy rc f"
  shows "follow_up_fields_ok f" "distinct (fu_source_refs f)" "fu_source_refs f \<noteq> []"
    "fu_deadline_at f = Some (recovery_deadline_of rc)" "\<not> is_Naive (rc_interrupted_at rc)"
    "\<not> partial_binding f"
  using assms
  by (auto simp: follow_up_valid_iff follow_up_guards_def bound_to_policy_def partial_binding_def
      attempt_due_instant)

lemma rescheduled_valid:
  assumes "follow_up_valid f" "bound_to_policy rc f" "fu_contact_permission f = AUTHORISED"
    and "fu_channel f \<noteq> None" "0 \<le> n" "n < 7" "operation_id_pattern i"
    and "not_after (fu_created_at f) now"
  shows "follow_up_valid (rescheduled_follow_up f n i (attempt_due_at rc n) now)"
  using assms pending_bound_facts [OF assms(1,2)] attempt_before_deadline(1) [of n rc]
    attempt_before_deadline(2) [of rc n]
  by (auto simp: follow_up_valid_iff follow_up_guards_def pending_guards_def validity
      rescheduled_follow_up_def copy_with_reason_def fu_reason_code_def partial_binding_def
      not_after_def attempt_due_instant)

lemma exhausted_valid:
  assumes "follow_up_valid f" "bound_to_policy rc f" "fu_contact_permission f = AUTHORISED"
    and "fu_channel f \<noteq> None" "0 \<le> n" "operation_id_pattern i"
    and "not_after (fu_created_at f) now"
  shows "follow_up_valid (exhausted_follow_up f n i now)"
  using assms pending_bound_facts [OF assms(1,2)]
  by (auto simp: follow_up_valid_iff follow_up_guards_def blocked_guards_def validity
      exhausted_follow_up_def copy_with_reason_def fu_reason_code_def partial_binding_def
      not_after_def attempt_due_instant blocked_reasons_def)

lemma withdrawn_valid:
  assumes "follow_up_valid f" "bound_to_policy rc f" "not_after (fu_created_at f) now"
  shows "follow_up_valid (withdrawn_follow_up f now)"
  using assms pending_bound_facts [OF assms(1,2)]
  by (auto simp: follow_up_valid_iff follow_up_guards_def blocked_guards_def validity
      withdrawn_follow_up_def copy_with_reason_def fu_reason_code_def partial_binding_def
      not_after_def attempt_due_instant blocked_reasons_def)

lemma resolved_valid:
  assumes "follow_up_valid f" "bound_to_policy rc f" "not_after (fu_created_at f) now"
    and "reason \<in> resolution_reasons" "length outcome \<le> 1000"
  shows "follow_up_valid (resolved_follow_up reason outcome f now)"
proof -
  have "\<exists>r. reason_resolution reason = Some r"
    using assms(4) by (auto simp: resolution_reasons_def reason_resolution_def)
  then show ?thesis
    using assms pending_bound_facts [OF assms(1,2)]
    by (auto simp: follow_up_valid_iff follow_up_guards_def resolved_guards_def validity
        resolved_follow_up_def copy_with_reason_def fu_reason_code_def partial_binding_def
        not_after_def attempt_due_instant bounded_text_def)
qed

lemma due_outcome_valid:
  assumes "within_limits c f" "list_all operation_valid ops"
    and "reduce_due_follow_up c s f ops now = Inr t"
    and "follow_up_valid f" "not_after (fu_created_at f) now"
  shows "follow_up_valid (dt_follow_up t)" "operation_valid (dt_operation t)"
proof -
  have seq: "list_all (\<lambda>p. 1 \<le> op_sequence p) ops"
    using assms(2) by (auto simp: list_all_iff operation_valid_iff validity)
  obtain rc where rc: "open_obligation c s rc f" "contact_scheduled rc f" "attempt_history c f ops"
      "\<not> is_Naive (rc_interrupted_at rc)" "\<not> is_Naive now"
      "\<not> dt_before now (attempt_due_at rc (fu_attempt_count f))" "t = due_outcome c s rc f ops now"
    using assms(3) unfolding reduce_due_Inr_iff [OF assms(1) seq] by blast
  have bound: "bound_to_policy rc f" using rc(1) by (simp add: open_obligation_def)
  have n: "0 \<le> fu_attempt_count f" using rc(3) by (simp add: attempt_history_def)
  have sched: "operation_valid (scheduled_operation c s f (attempt_due_at rc (fu_attempt_count f))
      (max_sequence ops + 1) now)"
    using scheduled_valid_iff [OF bound] assms(1) max_sequence_nonneg [OF seq] rc(4)
    by (simp add: within_limits_def attempt_due_instant)
  show "operation_valid (dt_operation t)"
    using committed_operation_valid [OF sched rc(5,6)] by (simp add: rc(7) due_outcome_def Let_def)
  have pat: "operation_id_pattern (follow_up_operation_id f k)" for k
    by (simp add: follow_up_operation_id_def operation_id_pattern_stable)
  show "follow_up_valid (dt_follow_up t)"
    using rc(2) n assms(4,5) bound pat
    by (auto simp: rc(7) due_outcome_def Let_def contact_scheduled_def committed_operation_def
        scheduled_operation_def intro: rescheduled_valid exhausted_valid)
qed

lemma expired_claim_valid:
  assumes "wc_external_claim c \<noteq> Some Creation_created"
  shows "validate_claim_terminal (expired_claim c (abandoned_disposition r a c f now) now)
     = Inr (expired_claim c (abandoned_disposition r a c f now) now)"
    and "validate_claim_terminal (abandoned_claim c (abandoned_disposition r a c f now) now)
     = Inr (abandoned_claim c (abandoned_disposition r a c f now) now)"
  using assms
  by (simp_all add: validate_claim_terminal_def expired_claim_def abandoned_claim_def
      abandoned_disposition_def)

section \<open>Exclusion and progress\<close>

lemma due_and_expiry_apart:
  assumes "within_limits c f" "list_all (\<lambda>p. 1 \<le> op_sequence p) ops"
    and "reduce_due_follow_up c s f ops now = Inr t" "reduce_expired_follow_up c s f ops' later = Inr u"
  shows "dt_before now later"
proof -
  obtain rc where "open_obligation c s rc f" "dt_before now (recovery_deadline_of rc)"
    using assms(3) unfolding reduce_due_Inr_iff [OF assms(1,2)] by blast
  moreover obtain rc' where "open_obligation c s rc' f" "\<not> dt_before later (recovery_deadline_of rc')"
    using assms(4) unfolding reduce_expired_Inr_iff [OF assms(1)] by blast
  ultimately show ?thesis
    by (auto simp: open_obligation_def intro: dt_before_trans)
qed

lemma attempt_closing_history:
  assumes "attempt_history c f ops" shows "closing_history c f ops"
proof -
  have "filter is_open_operation ops = filter (\<lambda>p. op_status p = Op_committed) ops"
    using assms by (intro filter_cong) (auto simp: attempt_history_def list_all_iff is_open_operation_def)
  then show ?thesis
    using assms outstanding_unique by (auto simp: attempt_history_def closing_history_def)
qed

text \<open>
  A scheduled obligation makes progress: from its due time to its deadline the attempt is
  executed, and from its deadline on it expires unless it has too many references.
\<close>

lemma obligation_progress:
  assumes "within_limits c f" "list_all (\<lambda>p. 1 \<le> op_sequence p) ops"
    and "open_obligation c s rc f" "contact_scheduled rc f" "attempt_history c f ops"
    and "\<not> is_Naive now" "\<not> is_Naive (rc_interrupted_at rc)"
    and "\<not> dt_before now (attempt_due_at rc (fu_attempt_count f))"
  shows "dt_before now (recovery_deadline_of rc) \<Longrightarrow>
      reduce_due_follow_up c s f ops now = Inr (due_outcome c s rc f ops now)"
    and "\<not> dt_before now (recovery_deadline_of rc) \<Longrightarrow>
      (\<exists>t. reduce_expired_follow_up c s f ops now = Inr t) \<longleftrightarrow> length (terminal_source_refs f) \<le> 20"
proof -
  show "reduce_due_follow_up c s f ops now = Inr (due_outcome c s rc f ops now)"
    if "dt_before now (recovery_deadline_of rc)"
    unfolding reduce_due_Inr_iff [OF assms(1,2)] using that assms by blast
  have "fu_status f \<noteq> FU_resolved" using assms(4) by (simp add: contact_scheduled_def)
  then show "(\<exists>t. reduce_expired_follow_up c s f ops now = Inr t) \<longleftrightarrow> length (terminal_source_refs f) \<le> 20"
    if "\<not> dt_before now (recovery_deadline_of rc)"
    unfolding reduce_expired_Inr_iff [OF assms(1)]
    using that assms attempt_closing_history by blast
qed

lemma unexpirable_follow_up:
  assumes "within_limits c f" "length (fu_source_refs f) = 20" "distinct (fu_source_refs f)"
    and "''follow-up:'' @ fu_follow_up_id f \<notin> set (fu_source_refs f)"
  shows "\<exists>e. reduce_expired_follow_up c s f ops now = Inl e"
    and "\<exists>e. reduce_follow_up_staff_abandonment c s f ops now actor = Inl e"
proof -
  have "length (terminal_source_refs f) = 21"
    using assms by (simp add: terminal_source_refs_def fromkeys_id)
  then have "reduce_expired_follow_up c s f ops now \<noteq> Inr t"
    "reduce_follow_up_staff_abandonment c s f ops now actor \<noteq> Inr t" for t
    unfolding reduce_expired_Inr_iff [OF assms(1)] reduce_staff_Inr_iff [OF assms(1)] by auto
  then show "\<exists>e. reduce_expired_follow_up c s f ops now = Inl e"
    "\<exists>e. reduce_follow_up_staff_abandonment c s f ops now actor = Inl e"
    by (metis sum.exhaust)+
qed

section \<open>The attempt history is an invariant\<close>

lemma countable_card:
  "distinct (map op_sequence ops) \<Longrightarrow>
     countable_attempts ops = int (card {p \<in> set ops. op_committed_at p \<noteq> None})"
  using distinct_card [of "filter (\<lambda>p. op_committed_at p \<noteq> None) ops"]
  by (simp add: countable_attempts_def distinct_map)

lemma outstanding_settled_cases:
  assumes "distinct (map op_sequence ops)" "outstanding_ok ops"
  shows "(outstanding_settled now ops = None \<and> (\<forall>p\<in>set ops. op_status p \<noteq> Op_committed))
    \<or> (\<exists>p\<in>set ops. op_status p = Op_committed \<and> op_committed_at p \<noteq> None
         \<and> op_sequence p = max_sequence ops
         \<and> outstanding_settled now ops = Some (settle_unanswered now p)
         \<and> (\<forall>q\<in>set ops. op_status q = Op_committed \<longrightarrow> q = p))"
proof (cases "filter (\<lambda>p. op_status p = Op_committed) ops")
  case Nil
  then show ?thesis by (auto simp: outstanding_settled_def filter_empty_conv)
next
  case (Cons p ps)
  then have "filter (\<lambda>p. op_status p = Op_committed) ops = [p]"
    using outstanding_unique [OF assms] by simp
  then have "set (filter (\<lambda>p. op_status p = Op_committed) ops) = {p}" by simp
  then have p: "p \<in> set ops" "op_status p = Op_committed"
    and unique: "\<forall>q\<in>set ops. op_status q = Op_committed \<longrightarrow> q = p" by auto
  moreover have "op_committed_at p \<noteq> None" "op_sequence p = max_sequence ops"
    using assms(2) p by (simp_all add: outstanding_ok_def list_all_iff)
  moreover have "outstanding_settled now ops = Some (settle_unanswered now p)"
    using Cons by (simp add: outstanding_settled_def)
  ultimately show ?thesis by blast
qed

text \<open>The stored operations after an attempt: the settled one replaced, the new one added.\<close>

definition operations_after :: "due_transition \<Rightarrow> operation list \<Rightarrow> operation set" where
  "operations_after t ops = insert (dt_operation t) (case dt_settled_previous t of
     None \<Rightarrow> set ops
   | Some q \<Rightarrow> insert q {p \<in> set ops. op_sequence p \<noteq> op_sequence q})"

lemma due_outcome_sel:
  "op_sequence (dt_operation (due_outcome c s rc f ops now)) = max_sequence ops + 1"
  "op_status (dt_operation (due_outcome c s rc f ops now)) = Op_committed"
  "op_committed_at (dt_operation (due_outcome c s rc f ops now)) = Some now"
  "op_result_code (dt_operation (due_outcome c s rc f ops now)) = Some IN_APP_COMMITTED"
  "dt_settled_previous (due_outcome c s rc f ops now) = outstanding_settled now ops"
  "fu_attempt_count (dt_follow_up (due_outcome c s rc f ops now)) =
     (if fu_attempt_count f = 2 then 3 else fu_attempt_count f + 1)"
  "fu_follow_up_id (dt_follow_up (due_outcome c s rc f ops now)) = fu_follow_up_id f"
  "fu_claim_id (dt_follow_up (due_outcome c s rc f ops now)) = fu_claim_id f"
  "fu_source_session_id (dt_follow_up (due_outcome c s rc f ops now)) = fu_source_session_id f"
  "fu_policy_id (dt_follow_up (due_outcome c s rc f ops now)) = fu_policy_id f"
  "fu_policy_version (dt_follow_up (due_outcome c s rc f ops now)) = fu_policy_version f"
  "fu_deadline_at (dt_follow_up (due_outcome c s rc f ops now)) = fu_deadline_at f"
  "fu_source_refs (dt_follow_up (due_outcome c s rc f ops now)) = fu_source_refs f"
  "fu_updated_at (dt_follow_up (due_outcome c s rc f ops now)) = now"
  by (simp_all add: due_outcome_def Let_def committed_operation_def scheduled_operation_def
      no_update_def exhausted_follow_up_def rescheduled_follow_up_def)

lemma settle_unanswered_sel [simp]:
  "op_sequence (settle_unanswered now p) = op_sequence p"
  "op_status (settle_unanswered now p) = Op_settled"
  "op_committed_at (settle_unanswered now p) = op_committed_at p"
  "op_operation_id (settle_unanswered now p) = op_operation_id p"
  "belongs c f (settle_unanswered now p) = belongs c f p"
  by (simp_all add: settle_unanswered_def no_update_def belongs_def)

lemma belongs_due_outcome:
  "belongs c (dt_follow_up (due_outcome c s rc f ops now)) = belongs c f"
  by (simp add: fun_eq_iff belongs_def due_outcome_sel)

lemma belongs_new:
  "bound_to_policy rc f \<Longrightarrow> belongs c f (dt_operation (due_outcome c s rc f ops now))"
  by (simp add: belongs_def due_outcome_def Let_def committed_operation_def scheduled_operation_def
      bound_to_policy_def)

lemma operations_after_cases:
  assumes "distinct (map op_sequence ops)" "outstanding_ok ops"
    and "dt_settled_previous t = outstanding_settled now ops" "p \<in> operations_after t ops"
  shows "p = dt_operation t \<or> (p \<in> set ops \<and> op_status p \<noteq> Op_committed)
    \<or> (\<exists>q\<in>set ops. p = settle_unanswered now q)"
  using outstanding_settled_cases [OF assms(1,2), of now]
proof (elim disjE conjE bexE)
  assume "outstanding_settled now ops = None" "\<forall>p\<in>set ops. op_status p \<noteq> Op_committed"
  then show ?thesis using assms(3,4) by (auto simp: operations_after_def)
next
  fix q assume q: "q \<in> set ops" "outstanding_settled now ops = Some (settle_unanswered now q)"
    "\<forall>r\<in>set ops. op_status r = Op_committed \<longrightarrow> r = q"
  then have "p = dt_operation t \<or> p = settle_unanswered now q
      \<or> (p \<in> set ops \<and> op_sequence p \<noteq> op_sequence q)"
    using assms(3,4) by (auto simp: operations_after_def)
  then show ?thesis using q(1,3) by blast
qed

lemma operations_after_facts:
  assumes "attempt_history c f ops" "bound_to_policy rc f"
    and "t = due_outcome c s rc f ops now"
  shows "p \<in> operations_after t ops \<Longrightarrow> belongs c f p \<and> op_status p \<noteq> Op_reserved
      \<and> 1 \<le> op_sequence p \<and> op_sequence p \<le> max_sequence ops + 1
      \<and> (op_status p = Op_committed \<longrightarrow> p = dt_operation t)"
    and "card {p \<in> operations_after t ops. op_committed_at p \<noteq> None}
      = Suc (card {p \<in> set ops. op_committed_at p \<noteq> None})"
proof -
  let ?C = "{p \<in> set ops. op_committed_at p \<noteq> None}"
  have h: "distinct (map op_sequence ops)" "outstanding_ok ops"
    and all: "\<forall>p\<in>set ops. belongs c f p \<and> op_status p \<noteq> Op_reserved \<and> 1 \<le> op_sequence p"
    using assms(1) by (auto simp: attempt_history_def list_all_iff)
  have ge: "0 \<le> max_sequence ops" using assms(1) max_sequence_nonneg by (simp add: attempt_history_def)
  have new: "dt_operation t \<notin> set ops" "op_sequence (dt_operation t) = max_sequence ops + 1"
    using max_sequence_ge [of "dt_operation t" ops] by (auto simp: assms(3) due_outcome_sel)
  have le: "op_sequence p \<le> max_sequence ops + 1" if "p \<in> set ops" for p
    using max_sequence_ge [OF that] by simp
  note newb = belongs_new [OF assms(2), of c s ops now, folded assms(3)]
  show "p \<in> operations_after t ops \<Longrightarrow> belongs c f p \<and> op_status p \<noteq> Op_reserved
      \<and> 1 \<le> op_sequence p \<and> op_sequence p \<le> max_sequence ops + 1
      \<and> (op_status p = Op_committed \<longrightarrow> p = dt_operation t)"
  proof -
    assume "p \<in> operations_after t ops"
    moreover have "dt_settled_previous t = outstanding_settled now ops"
      by (simp add: assms(3) due_outcome_sel)
    ultimately consider "p = dt_operation t" | "p \<in> set ops" "op_status p \<noteq> Op_committed"
      | q where "q \<in> set ops" "p = settle_unanswered now q"
      using operations_after_cases [OF h] by blast
    then show ?thesis
    proof cases
      case 1
      have "op_status p = Op_committed" by (simp add: 1 assms(3) due_outcome_sel)
      then show ?thesis using 1 newb new(2) ge by simp
    next
      case 2
      then show ?thesis using all le by blast
    next
      case 3
      then show ?thesis using all le by simp
    qed
  qed
  show "card {p \<in> operations_after t ops. op_committed_at p \<noteq> None} = Suc (card ?C)"
    using outstanding_settled_cases [OF h, of now]
  proof (elim disjE conjE bexE)
    assume "outstanding_settled now ops = None"
    then have "{p \<in> operations_after t ops. op_committed_at p \<noteq> None} = insert (dt_operation t) ?C"
      by (auto simp: operations_after_def assms(3) due_outcome_sel)
    then show ?thesis using new(1) by simp
  next
    fix q assume q: "q \<in> set ops" "op_committed_at q \<noteq> None" "op_sequence q = max_sequence ops"
      "outstanding_settled now ops = Some (settle_unanswered now q)"
    have other: "{p \<in> ?C. op_sequence p \<noteq> op_sequence q} = ?C - {q}"
      using q(1) distinct_map_filter_eq [OF h(1)] by auto
    define D where "D = {p \<in> ?C. op_sequence p \<noteq> op_sequence q}"
    have "{p \<in> operations_after t ops. op_committed_at p \<noteq> None}
        = insert (dt_operation t) (insert (settle_unanswered now q) D)"
      using q by (auto simp: operations_after_def assms(3) due_outcome_sel D_def)
    moreover have "settle_unanswered now q \<notin> D" "finite D" by (simp_all add: D_def)
    moreover have "dt_operation t \<notin> insert (settle_unanswered now q) D"
      using new q(3) by (auto simp: D_def)
    ultimately have "card {p \<in> operations_after t ops. op_committed_at p \<noteq> None} = Suc (Suc (card D))"
      by simp
    moreover have "D = ?C - {q}" using other by (simp add: D_def)
    ultimately have "card {p \<in> operations_after t ops. op_committed_at p \<noteq> None}
        = Suc (Suc (card (?C - {q})))" by simp
    moreover have "Suc (card (?C - {q})) = card ?C"
      by (rule card_Suc_Diff1) (use q(1,2) in simp_all)
    ultimately show ?thesis by simp
  qed
qed

lemma attempt_history_step:
  assumes "attempt_history c f ops" "bound_to_policy rc f" "fu_attempt_count f < 3"
    and "t = due_outcome c s rc f ops now"
    and "set ops' = operations_after t ops" "distinct (map op_sequence ops')"
  shows "attempt_history c (dt_follow_up t) ops'"
proof -
  note facts = operations_after_facts [OF assms(1,2,4)]
  have in': "dt_operation t \<in> set ops'" by (simp add: assms(5) operations_after_def)
  have max: "max_sequence ops' = max_sequence ops + 1"
  proof (rule antisym)
    have "op_sequence p \<le> max_sequence ops + 1" if "p \<in> set ops'" for p
      using facts(1) that assms(5) by blast
    then show "max_sequence ops' \<le> max_sequence ops + 1"
      using in' by (auto simp: max_sequence_def)
    show "max_sequence ops + 1 \<le> max_sequence ops'"
      using max_sequence_ge [OF in'] by (simp add: assms(4) due_outcome_sel)
  qed
  have "countable_attempts ops' = countable_attempts ops + 1"
    using facts(2) assms(1) by (simp add: countable_card attempt_history_def assms(5,6))
  moreover have "fu_attempt_count (dt_follow_up t) = fu_attempt_count f + 1"
    by (simp add: assms(4) due_outcome_sel)
  moreover have "outstanding_ok ops'"
  proof -
    have "p = dt_operation t" if "p \<in> set ops'" "op_status p = Op_committed" for p
      using facts(1) that assms(5) by blast
    moreover have "op_sequence (dt_operation t) = max_sequence ops + 1"
      "op_committed_at (dt_operation t) \<noteq> None" "op_result_code (dt_operation t) = Some IN_APP_COMMITTED"
      by (simp_all add: assms(4) due_outcome_sel)
    ultimately show ?thesis unfolding outstanding_ok_def list_all_iff max by metis
  qed
  moreover have "list_all (belongs c (dt_follow_up t)) ops'"
    "list_all (\<lambda>p. op_status p \<noteq> Op_reserved) ops'" "list_all (\<lambda>p. 1 \<le> op_sequence p) ops'"
    using facts(1) assms(5) by (simp_all add: list_all_iff assms(4) belongs_due_outcome)
  ultimately show ?thesis
    using assms(1,6) by (simp add: attempt_history_def)
qed

end
