(* ===== verification/Retention_Model.thy ===== *)
theory Retention_Model
  imports Northwind_Prelude
begin

text \<open>
  The retention records of \<open>backend/domain/models.py\<close>: holds, frozen cleanup targets,
  delete authorizations, step evidence and the retention operation with its validator, and
  the derivation of each target's current status from its latest attempt.
\<close>

section \<open>Enumerations and records\<close>

datatype classification = Class_delete | Class_anonymise | Class_retain | Class_tombstone

datatype retention_status =
  Ret_reserved | Ret_held | Ret_reconciliation_required | Ret_completed

datatype target_kind = Target_object_bytes | Target_mongo_record | Target_tombstone

datatype step_status = Step_pending | Step_satisfied | Step_failed | Step_unknown

datatype deletion_outcome =
  Outcome_deleted | Outcome_already_absent | Outcome_failed | Outcome_unknown

datatype hold_reason =
  Hold_legal | Hold_dispute | Hold_investigation | Hold_authorised_staff_review

record retention_hold =
  rh_hold_id :: string
  rh_claim_id :: string
  rh_reason :: hold_reason
  rh_authority_ref :: string
  rh_source_refs :: "string list"
  rh_applied_at :: datetime
  rh_released_at :: "datetime option"

record cleanup_target =
  ta_target_id :: string
  ta_kind :: target_kind
  ta_record_type :: string
  ta_record_id :: string
  ta_classification :: classification
  ta_storage_key :: "string option"
  ta_source_refs :: "string list"

record delete_authorization =
  da_authorization_id :: string
  da_target_id :: string
  da_attempt :: int
  da_authorized_at :: datetime

record step_evidence =
  sv_evidence_id :: string
  sv_target_id :: string
  sv_attempt :: int
  sv_status :: step_status
  sv_object_outcome :: "deletion_outcome option"
  sv_authorization_id :: "string option"
  sv_diagnostic_code :: "string option"
  sv_source_refs :: "string list"
  sv_recorded_at :: datetime

record retention_operation =
  rt_operation_id :: string
  rt_claim_id :: string
  rt_source_terminal_ref :: string
  rt_source_claim_revision :: int
  rt_policy_id :: string
  rt_policy_version :: int
  rt_revision :: int
  rt_status :: retention_status
  rt_access_closed_at :: datetime
  rt_targets_frozen_at :: "datetime option"
  rt_targets :: "cleanup_target list"
  rt_delete_authorizations :: "delete_authorization list"
  rt_active_delete_authorization_id :: "string option"
  rt_step_evidence :: "step_evidence list"
  rt_hold_refs :: "string list"
  rt_diagnostic_code :: "string option"
  rt_source_refs :: "string list"
  rt_created_at :: datetime
  rt_updated_at :: datetime
  rt_completed_at :: "datetime option"

section \<open>Errors of the validators\<close>

datatype retention_model_error =
    RetentionFieldConstraint
  | HoldAppliedNaive
  | HoldReleasedNaive
  | HoldReleasedBeforeApplied
  | HoldRefsNotUnique
  | TargetRefsNotUnique
  | ObjectTargetNotDelete
  | ObjectTargetWithoutKey
  | KeyOnOtherTarget
  | TombstoneTargetClass
  | AuthorizationTimeNaive
  | EvidenceTimeNaive
  | EvidenceRefsNotUnique
  | OutcomeStatusDisagree
  | FailureWithoutDiagnostic
  | OperationTimeNaive
  | OperationUpdatedBeforeCreated
  | ClosureBeforeCreation
  | FreezeTimeNaive
  | FrozenBeforeCreation
  | OperationRefsNotUnique
  | OperationHoldRefsNotUnique
  | TargetIdsNotUnique
  | AuthorizationIdsNotUnique
  | AuthorizationUnknownTarget
  | AuthorizationNotObjectBytes
  | AttemptAuthorizedTwice
  | ActiveAuthorizationUnknown
  | EvidenceUnknownTarget
  | EvidenceIdsNotUnique
  | EvidenceUnknownAuthorization
  | EvidenceAuthorizationDisagree
  | AttemptEvidencedTwice
  | CompletedUnsatisfied
  | CompletedWithoutTime
  | CompletionTimeOnOpen
  | CompletionTimeNaive
  | CompletedBeforeCreation
  | ReconciliationWithoutFailure
  | FailureReportedCompleted

section \<open>Validators of the parts\<close>

definition validate_hold :: "retention_hold \<Rightarrow> retention_model_error + retention_hold" where
  "validate_hold h = guarded
    ([(\<not> (bounded_text 1 160 (rh_hold_id h) \<and> bounded_text 1 160 (rh_claim_id h)
          \<and> bounded_text 1 240 (rh_authority_ref h)
          \<and> 1 \<le> length (rh_source_refs h) \<and> length (rh_source_refs h) \<le> 30),
       RetentionFieldConstraint),
      (is_naive (rh_applied_at h), HoldAppliedNaive)] @
     (case rh_released_at h of None \<Rightarrow> []
      | Some r \<Rightarrow> [(is_naive r, HoldReleasedNaive),
                   (dt_before r (rh_applied_at h), HoldReleasedBeforeApplied)]) @
     [(\<not> distinct (rh_source_refs h), HoldRefsNotUnique)])
    (Inr h)"

definition hold_active :: "retention_hold \<Rightarrow> bool" where
  "hold_active h \<longleftrightarrow> rh_released_at h = None"

definition validate_target :: "cleanup_target \<Rightarrow> retention_model_error + cleanup_target" where
  "validate_target t = guarded
     [(\<not> (bounded_text 1 200 (ta_target_id t) \<and> bounded_text 1 120 (ta_record_type t)
          \<and> bounded_text 1 240 (ta_record_id t) \<and> opt_all (bounded_text 0 1000) (ta_storage_key t)
          \<and> length (ta_source_refs t) \<le> 30), RetentionFieldConstraint),
      (\<not> distinct (ta_source_refs t), TargetRefsNotUnique),
      (ta_kind t = Target_object_bytes \<and> ta_classification t \<noteq> Class_delete, ObjectTargetNotDelete),
      (ta_kind t = Target_object_bytes \<and> ta_storage_key t = None, ObjectTargetWithoutKey),
      (ta_kind t \<noteq> Target_object_bytes \<and> ta_storage_key t \<noteq> None, KeyOnOtherTarget),
      (ta_kind t = Target_tombstone \<and> ta_classification t \<noteq> Class_tombstone, TombstoneTargetClass)]
     (Inr t)"

definition validate_authorization ::
  "delete_authorization \<Rightarrow> retention_model_error + delete_authorization" where
  "validate_authorization a = guarded
     [(\<not> (bounded_text 1 200 (da_authorization_id a) \<and> bounded_text 1 200 (da_target_id a)
          \<and> 1 \<le> da_attempt a), RetentionFieldConstraint),
      (is_naive (da_authorized_at a), AuthorizationTimeNaive)]
     (Inr a)"

definition outcome_status :: "deletion_outcome \<Rightarrow> step_status" where
  "outcome_status o' = (case o' of
     Outcome_deleted \<Rightarrow> Step_satisfied | Outcome_already_absent \<Rightarrow> Step_satisfied
   | Outcome_failed \<Rightarrow> Step_failed | Outcome_unknown \<Rightarrow> Step_unknown)"

definition validate_step_evidence :: "step_evidence \<Rightarrow> retention_model_error + step_evidence" where
  "validate_step_evidence e = guarded
     [(\<not> (bounded_text 1 200 (sv_evidence_id e) \<and> bounded_text 1 200 (sv_target_id e)
          \<and> 1 \<le> sv_attempt e \<and> opt_all (bounded_text 1 200) (sv_authorization_id e)
          \<and> opt_all (bounded_text 1 160) (sv_diagnostic_code e)
          \<and> length (sv_source_refs e) \<le> 30), RetentionFieldConstraint),
      (is_naive (sv_recorded_at e), EvidenceTimeNaive),
      (\<not> distinct (sv_source_refs e), EvidenceRefsNotUnique),
      (\<not> opt_all (\<lambda>o'. sv_status e = outcome_status o') (sv_object_outcome e), OutcomeStatusDisagree),
      (sv_status e \<in> {Step_failed, Step_unknown} \<and> sv_diagnostic_code e = None,
       FailureWithoutDiagnostic)]
     (Inr e)"

section \<open>Current status of the targets\<close>

text \<open>
  The loop over the evidence keeps two dictionaries, the current status and the latest
  attempt of each target.
\<close>

definition initial_statuses :: "cleanup_target list \<Rightarrow> 'v \<Rightarrow> (string \<times> 'v) list" where
  "initial_statuses ts v = foldl (\<lambda>d t. dict_put (ta_target_id t) v d) [] ts"

fun status_step ::
  "(string \<times> step_status) list \<times> (string \<times> int) list \<Rightarrow> step_evidence
     \<Rightarrow> (string \<times> step_status) list \<times> (string \<times> int) list" where
  "status_step (current, latest) e =
     (case (dict_get current (sv_target_id e), dict_get latest (sv_target_id e)) of
        (Some _, Some n) \<Rightarrow>
          if n < sv_attempt e
          then (dict_put (sv_target_id e) (sv_status e) current,
                dict_put (sv_target_id e) (sv_attempt e) latest)
          else (current, latest)
      | _ \<Rightarrow> (current, latest))"

definition retention_target_statuses ::
  "cleanup_target list \<Rightarrow> step_evidence list \<Rightarrow> (string \<times> step_status) list" where
  "retention_target_statuses ts es =
     fst (foldl status_step (initial_statuses ts Step_pending, initial_statuses ts 0) es)"

definition any_failed :: "(string \<times> step_status) list \<Rightarrow> bool" where
  "any_failed d \<longleftrightarrow> list_ex (\<lambda>s. s \<in> {Step_failed, Step_unknown}) (dict_values d)"

definition all_values_satisfied :: "(string \<times> step_status) list \<Rightarrow> bool" where
  "all_values_satisfied d \<longleftrightarrow> list_all (\<lambda>s. s = Step_satisfied) (dict_values d)"

section \<open>Validator of the operation\<close>

fun check_authorizations ::
  "cleanup_target list \<Rightarrow> string list \<Rightarrow> (string \<times> int) list \<Rightarrow> delete_authorization list
     \<Rightarrow> retention_model_error + unit" where
  "check_authorizations ts ids keys [] = Inr ()"
| "check_authorizations ts ids keys (a # as) = guarded
     [(da_authorization_id a \<in> set ids, AuthorizationIdsNotUnique),
      (da_target_id a \<notin> set (map ta_target_id ts), AuthorizationUnknownTarget),
      (\<not> list_all (\<lambda>t. ta_target_id t = da_target_id a \<longrightarrow> ta_kind t = Target_object_bytes) ts,
       AuthorizationNotObjectBytes),
      ((da_target_id a, da_attempt a) \<in> set keys, AttemptAuthorizedTwice)]
     (check_authorizations ts (da_authorization_id a # ids)
        ((da_target_id a, da_attempt a) # keys) as)"

definition evidence_authorization_guards ::
  "delete_authorization list \<Rightarrow> step_evidence \<Rightarrow> (bool \<times> retention_model_error) list" where
  "evidence_authorization_guards as e = (case sv_authorization_id e of
     None \<Rightarrow> []
   | Some i \<Rightarrow>
       (case find (\<lambda>a. da_authorization_id a = i) as of
          None \<Rightarrow> [(True, EvidenceUnknownAuthorization)]
        | Some a \<Rightarrow> [(da_target_id a \<noteq> sv_target_id e \<or> da_attempt a \<noteq> sv_attempt e,
                     EvidenceAuthorizationDisagree)]))"

fun check_evidence ::
  "cleanup_target list \<Rightarrow> delete_authorization list \<Rightarrow> string list \<Rightarrow> (string \<times> int) list
     \<Rightarrow> step_evidence list \<Rightarrow> retention_model_error + unit" where
  "check_evidence ts as ids keys [] = Inr ()"
| "check_evidence ts as ids keys (e # es) = guarded
     ([(sv_target_id e \<notin> set (map ta_target_id ts), EvidenceUnknownTarget),
       (sv_evidence_id e \<in> set ids, EvidenceIdsNotUnique)] @
      evidence_authorization_guards as e @
      [((sv_target_id e, sv_attempt e) \<in> set keys, AttemptEvidencedTwice)])
     (check_evidence ts as (sv_evidence_id e # ids) ((sv_target_id e, sv_attempt e) # keys) es)"

definition retention_fields_ok :: "retention_operation \<Rightarrow> bool" where
  [validity]: "retention_fields_ok p \<longleftrightarrow>
     bounded_text 1 200 (rt_operation_id p) \<and> bounded_text 1 160 (rt_claim_id p)
     \<and> bounded_text 1 240 (rt_source_terminal_ref p) \<and> 1 \<le> rt_source_claim_revision p
     \<and> bounded_text 1 120 (rt_policy_id p) \<and> 1 \<le> rt_policy_version p \<and> 1 \<le> rt_revision p
     \<and> length (rt_targets p) \<le> 500 \<and> length (rt_delete_authorizations p) \<le> 2000
     \<and> opt_all (bounded_text 1 200) (rt_active_delete_authorization_id p)
     \<and> length (rt_step_evidence p) \<le> 2000 \<and> length (rt_hold_refs p) \<le> 50
     \<and> opt_all (bounded_text 1 160) (rt_diagnostic_code p)
     \<and> 1 \<le> length (rt_source_refs p) \<and> length (rt_source_refs p) \<le> 50"

definition retention_time_guards :: "retention_operation \<Rightarrow> (bool \<times> retention_model_error) list" where
  "retention_time_guards p =
    [(is_naive (rt_access_closed_at p) \<or> is_naive (rt_created_at p) \<or> is_naive (rt_updated_at p),
      OperationTimeNaive),
     (dt_before (rt_updated_at p) (rt_created_at p), OperationUpdatedBeforeCreated),
     (dt_before (rt_access_closed_at p) (rt_created_at p), ClosureBeforeCreation)] @
    (case rt_targets_frozen_at p of None \<Rightarrow> []
     | Some f \<Rightarrow> [(is_naive f, FreezeTimeNaive), (dt_before f (rt_created_at p), FrozenBeforeCreation)]) @
    [(\<not> distinct (rt_source_refs p), OperationRefsNotUnique),
     (\<not> distinct (rt_hold_refs p), OperationHoldRefsNotUnique),
     (\<not> distinct (map ta_target_id (rt_targets p)), TargetIdsNotUnique)]"

definition all_satisfied :: "retention_operation \<Rightarrow> bool" where
  "all_satisfied p \<longleftrightarrow> rt_targets p \<noteq> [] \<and> rt_targets_frozen_at p \<noteq> None
     \<and> all_values_satisfied (retention_target_statuses (rt_targets p) (rt_step_evidence p))"

definition needs_reconciliation :: "retention_operation \<Rightarrow> bool" where
  "needs_reconciliation p \<longleftrightarrow>
     any_failed (retention_target_statuses (rt_targets p) (rt_step_evidence p))"

definition retention_status_guards :: "retention_operation \<Rightarrow> (bool \<times> retention_model_error) list" where
  "retention_status_guards p =
    [(rt_status p = Ret_completed \<and> \<not> all_satisfied p, CompletedUnsatisfied),
     (rt_status p = Ret_completed \<and> rt_completed_at p = None, CompletedWithoutTime),
     (rt_status p \<noteq> Ret_completed \<and> rt_completed_at p \<noteq> None, CompletionTimeOnOpen)] @
    (case rt_completed_at p of None \<Rightarrow> []
     | Some t \<Rightarrow> [(is_naive t, CompletionTimeNaive),
                  (dt_before t (rt_created_at p), CompletedBeforeCreation)]) @
    [(rt_status p = Ret_reconciliation_required \<and> \<not> needs_reconciliation p,
      ReconciliationWithoutFailure),
     (needs_reconciliation p \<and> rt_status p = Ret_completed, FailureReportedCompleted)]"

definition validate_operation :: "retention_operation \<Rightarrow> retention_model_error + retention_operation" where
  "validate_operation p =
     guarded ((\<not> retention_fields_ok p, RetentionFieldConstraint) # retention_time_guards p)
       (bind_result (check_authorizations (rt_targets p) [] [] (rt_delete_authorizations p)) (\<lambda>_.
         guarded
           [(\<not> opt_all (\<lambda>i. i \<in> set (map da_authorization_id (rt_delete_authorizations p)))
               (rt_active_delete_authorization_id p), ActiveAuthorizationUnknown)]
           (bind_result (check_evidence (rt_targets p) (rt_delete_authorizations p) [] []
               (rt_step_evidence p)) (\<lambda>_.
             guarded (retention_status_guards p) (Inr p)))))"

section \<open>The latest attempt decides\<close>

definition latest_step :: "string \<Rightarrow> int \<times> step_status \<Rightarrow> step_evidence \<Rightarrow> int \<times> step_status" where
  "latest_step tid p e =
     (if sv_target_id e = tid \<and> fst p < sv_attempt e then (sv_attempt e, sv_status e) else p)"

definition latest :: "step_evidence list \<Rightarrow> string \<Rightarrow> int \<times> step_status" where
  "latest es tid = foldl (latest_step tid) (0, Step_pending) es"

lemma latest_Nil [simp]: "latest [] tid = (0, Step_pending)"
  by (simp add: latest_def)

lemma latest_snoc: "latest (es @ [e]) tid = latest_step tid (latest es tid) e"
  by (simp add: latest_def)

lemma initial_statuses_get:
  "dict_get (initial_statuses ts v) tid = (if tid \<in> ta_target_id ` set ts then Some v else None)"
proof -
  have "dict_get (foldl (\<lambda>d t. dict_put (ta_target_id t) v d) d ts) tid
      = (if tid \<in> ta_target_id ` set ts then Some v else dict_get d tid)" for d
    by (induction ts arbitrary: d) auto
  then show ?thesis by (simp add: initial_statuses_def)
qed

lemma initial_statuses_distinct: "distinct (map fst (initial_statuses ts v))"
proof -
  have "distinct (map fst d) \<Longrightarrow>
      distinct (map fst (foldl (\<lambda>d t. dict_put (ta_target_id t) v d) d ts))" for d
    by (induction ts arbitrary: d) (auto intro: dict_put_distinct)
  then show ?thesis by (simp add: initial_statuses_def)
qed

definition tracks ::
  "string set \<Rightarrow> step_evidence list \<Rightarrow> (string \<times> step_status) list \<times> (string \<times> int) list \<Rightarrow> bool" where
  "tracks ids es st \<longleftrightarrow> distinct (map fst (fst st))
     \<and> (\<forall>tid. dict_get (fst st) tid = (if tid \<in> ids then Some (snd (latest es tid)) else None)
          \<and> dict_get (snd st) tid = (if tid \<in> ids then Some (fst (latest es tid)) else None))"

lemma status_step_tracks:
  assumes "tracks ids es st"
  shows "tracks ids (es @ [e]) (status_step st e)"
proof (cases st)
  case (Pair current latest_d)
  have get: "dict_get current tid = (if tid \<in> ids then Some (snd (latest es tid)) else None)"
    "dict_get latest_d tid = (if tid \<in> ids then Some (fst (latest es tid)) else None)" for tid
    using assms Pair by (simp_all add: tracks_def)
  have d: "distinct (map fst current)" using assms Pair by (simp add: tracks_def)
  consider "sv_target_id e \<notin> ids" | "sv_target_id e \<in> ids" "\<not> fst (latest es (sv_target_id e)) < sv_attempt e"
    | "sv_target_id e \<in> ids" "fst (latest es (sv_target_id e)) < sv_attempt e" by blast
  then show ?thesis
  proof cases
    case 1
    then show ?thesis using d by (auto simp: Pair get tracks_def latest_snoc latest_step_def)
  next
    case 2
    then show ?thesis using d by (auto simp: Pair get tracks_def latest_snoc latest_step_def)
  next
    case 3
    then show ?thesis using dict_put_distinct [OF d]
      by (auto simp: Pair get tracks_def latest_snoc latest_step_def)
  qed
qed

lemma statuses_track:
  "tracks (ta_target_id ` set ts) es
     (foldl status_step (initial_statuses ts Step_pending, initial_statuses ts 0) es)"
proof (induction es rule: rev_induct)
  case Nil
  show ?case by (simp add: tracks_def initial_statuses_get initial_statuses_distinct)
next
  case (snoc e es)
  show ?case using status_step_tracks [OF snoc.IH] by simp
qed

lemma statuses_get:
  "dict_get (retention_target_statuses ts es) tid =
     (if tid \<in> ta_target_id ` set ts then Some (snd (latest es tid)) else None)"
  using statuses_track [of ts es] by (simp add: tracks_def retention_target_statuses_def)

lemma statuses_values:
  "set (dict_values (retention_target_statuses ts es)) = (\<lambda>t. snd (latest es (ta_target_id t))) ` set ts"
proof -
  have "distinct (map fst (retention_target_statuses ts es))"
    using statuses_track [of ts es] by (simp add: tracks_def retention_target_statuses_def)
  then have "v \<in> set (dict_values (retention_target_statuses ts es)) \<longleftrightarrow>
      (\<exists>tid\<in>ta_target_id ` set ts. v = snd (latest es tid))" for v
    by (auto simp: dict_value_iff statuses_get simp del: set_map split: if_splits)
  then show ?thesis by (auto simp del: set_map)
qed

lemma needs_reconciliation_iff:
  "needs_reconciliation p \<longleftrightarrow>
     (\<exists>t\<in>set (rt_targets p).
        snd (latest (rt_step_evidence p) (ta_target_id t)) \<in> {Step_failed, Step_unknown})"
  unfolding needs_reconciliation_def any_failed_def list_ex_iff statuses_values by auto

lemma all_satisfied_iff:
  "all_satisfied p \<longleftrightarrow> rt_targets p \<noteq> [] \<and> rt_targets_frozen_at p \<noteq> None
     \<and> (\<forall>t\<in>set (rt_targets p). snd (latest (rt_step_evidence p) (ta_target_id t)) = Step_satisfied)"
  unfolding all_satisfied_def all_values_satisfied_def list_all_iff statuses_values by auto

lemma all_satisfied_no_failure: "all_satisfied p \<Longrightarrow> \<not> needs_reconciliation p"
  by (auto simp: all_satisfied_iff needs_reconciliation_iff)

text \<open>The status of a target is that of an actual attempt, the highest one.\<close>

lemma latest_attempt:
  assumes "snd (latest es tid) \<noteq> Step_pending"
  shows "\<exists>e\<in>set es. sv_target_id e = tid \<and> sv_status e = snd (latest es tid)
     \<and> sv_attempt e = fst (latest es tid)"
  using assms by (induction es rule: rev_induct) (auto simp: latest_snoc latest_step_def split: if_splits)

lemma latest_max:
  "e \<in> set es \<Longrightarrow> sv_target_id e = tid \<Longrightarrow> sv_attempt e \<le> fst (latest es tid)"
proof (induction es rule: rev_induct)
  case (snoc x es)
  then show ?case by (fastforce simp: latest_snoc latest_step_def)
qed simp

section \<open>Characterisation of validity\<close>

definition retention_valid :: "retention_operation \<Rightarrow> bool" where
  "retention_valid p \<longleftrightarrow> validate_operation p = Inr p"

lemma check_authorizations_Inr_iff:
  "check_authorizations ts ids keys as = Inr u \<longleftrightarrow>
     distinct (map da_authorization_id as) \<and> set (map da_authorization_id as) \<inter> set ids = {}
     \<and> distinct (map (\<lambda>a. (da_target_id a, da_attempt a)) as)
     \<and> set (map (\<lambda>a. (da_target_id a, da_attempt a)) as) \<inter> set keys = {}
     \<and> (\<forall>a\<in>set as. da_target_id a \<in> ta_target_id ` set ts
          \<and> (\<forall>t\<in>set ts. ta_target_id t = da_target_id a \<longrightarrow> ta_kind t = Target_object_bytes))"
  by (induction ts ids keys as rule: check_authorizations.induct)
    (auto simp: list_all_iff)

definition evidence_authorized :: "delete_authorization list \<Rightarrow> step_evidence \<Rightarrow> bool" where
  "evidence_authorized as e \<longleftrightarrow> passes (evidence_authorization_guards as e)"

lemma check_evidence_Inr_iff:
  "check_evidence ts as ids keys es = Inr u \<longleftrightarrow>
     distinct (map sv_evidence_id es) \<and> set (map sv_evidence_id es) \<inter> set ids = {}
     \<and> distinct (map (\<lambda>e. (sv_target_id e, sv_attempt e)) es)
     \<and> set (map (\<lambda>e. (sv_target_id e, sv_attempt e)) es) \<inter> set keys = {}
     \<and> (\<forall>e\<in>set es. sv_target_id e \<in> ta_target_id ` set ts \<and> evidence_authorized as e)"
proof (induction ts as ids keys es rule: check_evidence.induct)
  case (2 ts as ids keys e es)
  show ?case
    unfolding check_evidence.simps guarded_Inr_iff 2 by (auto simp: evidence_authorized_def)
qed simp

definition retention_structure :: "retention_operation \<Rightarrow> bool" where
  "retention_structure p \<longleftrightarrow> retention_fields_ok p \<and> passes (retention_time_guards p)
     \<and> check_authorizations (rt_targets p) [] [] (rt_delete_authorizations p) = Inr ()
     \<and> opt_all (\<lambda>i. i \<in> set (map da_authorization_id (rt_delete_authorizations p)))
         (rt_active_delete_authorization_id p)
     \<and> check_evidence (rt_targets p) (rt_delete_authorizations p) [] [] (rt_step_evidence p) = Inr ()"

lemma validate_operation_Inr_iff:
  "validate_operation p = Inr q \<longleftrightarrow>
     retention_structure p \<and> passes (retention_status_guards p) \<and> q = p"
  unfolding validate_operation_def retention_structure_def
  by (auto simp: guarded_Inr_iff bind_result_Inr_iff)

lemma retention_valid_iff:
  "retention_valid p \<longleftrightarrow> retention_structure p \<and> passes (retention_status_guards p)"
  by (simp add: retention_valid_def validate_operation_Inr_iff)

lemma retention_valid_status:
  assumes "retention_valid p"
  shows "rt_status p = Ret_completed \<Longrightarrow> all_satisfied p"
    and "rt_status p = Ret_completed \<longleftrightarrow> rt_completed_at p \<noteq> None"
    and "rt_status p = Ret_reconciliation_required \<Longrightarrow> needs_reconciliation p"
  using assms by (auto simp: retention_valid_iff retention_status_guards_def)

lemma completed_evidence:
  assumes "retention_valid p" "rt_status p = Ret_completed" "t \<in> set (rt_targets p)"
  shows "\<exists>e\<in>set (rt_step_evidence p). sv_target_id e = ta_target_id t
     \<and> sv_status e = Step_satisfied
     \<and> (\<forall>e'\<in>set (rt_step_evidence p). sv_target_id e' = ta_target_id t
          \<longrightarrow> sv_attempt e' \<le> sv_attempt e)"
proof -
  have sat: "snd (latest (rt_step_evidence p) (ta_target_id t)) = Step_satisfied"
    using retention_valid_status(1) [OF assms(1,2)] assms(3) by (simp add: all_satisfied_iff)
  then obtain e where e: "e \<in> set (rt_step_evidence p)" "sv_target_id e = ta_target_id t"
    "sv_status e = Step_satisfied" "sv_attempt e = fst (latest (rt_step_evidence p) (ta_target_id t))"
    using latest_attempt [of "rt_step_evidence p" "ta_target_id t"] by auto
  then show ?thesis using latest_max by metis
qed

end
