(* ===== verification/Retention_Domain.thy ===== *)
theory Retention_Domain
  imports Recovery_Reducer Follow_Up_Model Retention_Model
begin

text \<open>
  The retention execution contracts of \<open>backend/domain/retention.py\<close>: the derivation of the
  next status, the access closure, the append-only transition checks of operations and
  holds, the eligibility of a terminal Claim, the storage classification, tombstones, and
  the identities and successor states of cleanup steps.
\<close>

section \<open>Policy coordinates and refusals\<close>

definition INCOMPLETE_CLAIM_RETENTION_POLICY_ID :: string where
  "INCOMPLETE_CLAIM_RETENTION_POLICY_ID = ''incomplete_claim_retention''"
definition INCOMPLETE_CLAIM_RETENTION_POLICY_VERSION :: int where
  "INCOMPLETE_CLAIM_RETENTION_POLICY_VERSION = 1"

datatype eligibility_reason =
    CLAIM_NOT_FOUND | TERMINAL_REQUIRED | TERMINAL_NOT_ELIGIBLE | SOURCE_REVISION_MISMATCH
  | SOURCE_TERMINAL_MISMATCH | RETENTION_POLICY_MISMATCH | INVALID_OPERATION_SHAPE
  | RECOVERY_OPERATION_OPEN | EXTERNAL_OUTCOME_UNKNOWN | STAFF_RESPONSIBILITY_OPEN

datatype retention_error =
    Ineligible eligibility_reason
  | PolicyForbidsHold
  | PolicyForbidsReconciliation
  | ImmutableCoordinatesChanged
  | CompletedImmutable
  | RevisionNotNext
  | FrozenTargetsChanged
  | TargetsBeforeFreeze
  | EvidenceNotAppendOnly
  | HoldRefsNotAppendOnly
  | AuthorizationsNotAppendOnly
  | ActiveNotNewlyAppended
  | AuthorizationSettlesStep
  | ActiveAuthorizationReplaced
  | ClearedWithoutEvidence
  | HoldCoordinatesChanged
  | ReleasedHoldImmutable
  | HoldNotReleased
  | NotACleanupTarget
  | TombstoneClassification
  | TombstoneTimeNaive
  | TombstoneRefsNotUnique
  | TombstoneFieldConstraint
  | StepErrorWithoutTarget
  | StepErrorDiagnosticUnbounded
  | Invalid_retention retention_model_error
  | Policy reducer_error

section \<open>Classification of records\<close>

definition RETENTION_CLASSIFICATION_BASELINE :: "(string \<times> classification list) list" where
  "RETENTION_CLASSIFICATION_BASELINE =
    [(''WorkingClaim'', [Class_anonymise, Class_tombstone]),
     (''SessionRecord'', [Class_anonymise, Class_tombstone]),
     (''MessageRecord'', [Class_delete, Class_anonymise]),
     (''FollowUpRecord'', [Class_anonymise, Class_tombstone]),
     (''FollowUpOperation'', [Class_retain]),
     (''RuntimeWorkItemRecord'', [Class_anonymise, Class_retain]),
     (''HandoffRecord'', [Class_anonymise, Class_retain]),
     (''EvidenceObjectBytes'', [Class_delete]),
     (''EvidenceRecord'', [Class_anonymise, Class_tombstone]),
     (''ExternalTaskRecord'', [Class_anonymise, Class_retain]),
     (''IdempotencyRecord'', [Class_anonymise, Class_retain]),
     (''AuditEventEnvelope'', [Class_anonymise, Class_retain]),
     (''RetentionOperation'', [Class_retain])]"

definition RETENTION_STORAGE_TARGETS :: "(string \<times> string \<times> classification) list" where
  "RETENTION_STORAGE_TARGETS =
    [(''claim'', ''WorkingClaim'', Class_anonymise),
     (''session'', ''SessionRecord'', Class_anonymise),
     (''message'', ''MessageRecord'', Class_delete),
     (''follow_up'', ''FollowUpRecord'', Class_anonymise),
     (''follow_up_operation'', ''FollowUpOperation'', Class_retain),
     (''runtime_work_item'', ''RuntimeWorkItemRecord'', Class_retain),
     (''handoff'', ''HandoffRecord'', Class_anonymise),
     (''evidence'', ''EvidenceRecord'', Class_anonymise),
     (''evidence_claim_link'', ''EvidenceClaimLink'', Class_anonymise),
     (''external_task'', ''ExternalTaskRecord'', Class_anonymise),
     (''external_task_request'', ''ExternalTaskRequest'', Class_anonymise),
     (''external_task_attempt'', ''ExternalTaskAttempt'', Class_retain),
     (''external_task_result'', ''ExternalTaskResult'', Class_anonymise),
     (''external_task_evidence_link'', ''ExternalTaskEvidenceLink'', Class_retain),
     (''idempotency'', ''IdempotencyRecord'', Class_anonymise),
     (''audit_event'', ''AuditEventEnvelope'', Class_retain),
     (''retention_hold'', ''RetentionHoldRecord'', Class_retain)]"

definition RETENTION_TARGET_STORAGE_TYPE :: "(string \<times> string) list" where
  "RETENTION_TARGET_STORAGE_TYPE =
     foldl (\<lambda>d (storage, logical, _). dict_put logical storage d) [] RETENTION_STORAGE_TARGETS"

definition RETENTION_TOMBSTONE_AUTHORITY_FIELDS :: "(string \<times> string list) list" where
  "RETENTION_TOMBSTONE_AUTHORITY_FIELDS =
    [(''WorkingClaim'', [''revision'']),
     (''SessionRecord'', [''status'', ''context_revision'']),
     (''FollowUpRecord'', [''policy_id'', ''policy_version'', ''status'', ''reason_code'',
        ''attempt_count'']),
     (''HandoffRecord'', [''type'', ''status'', ''priority'', ''applied_rule'']),
     (''EvidenceRecord'', [''kind'', ''status'', ''file_status'', ''source'', ''material_version'']),
     (''EvidenceClaimLink'', [''state'']),
     (''ExternalTaskRecord'', [''service_identity'', ''requested_action'', ''integration_source'',
        ''status'', ''delivery'', ''failure_code'']),
     (''ExternalTaskRequest'', [''task_id'', ''operation_id'', ''status'']),
     (''ExternalTaskResult'', [''task_id'', ''verification''])]"

section \<open>Status and access\<close>

text \<open>The consultation of the published policy with the operation's own coordinates.\<close>

definition consult_policy ::
  "string \<Rightarrow> retention_operation \<Rightarrow> decision_code \<Rightarrow> retention_error
     \<Rightarrow> retention_error + 'a \<Rightarrow> retention_error + 'a" where
  "consult_policy outcome p expected e k =
     decide_as reduce_owned_recovery Policy (plain_trigger Source_retention outcome)
       (rt_claim_id p) (rt_source_claim_revision p) (rt_operation_id p) (rt_updated_at p)
       (rt_source_refs p) (Some (rt_operation_id p))
       (\<lambda>plan. tr_decision_code plan = expected) e k"

definition retention_next_status ::
  "retention_operation \<Rightarrow> bool \<Rightarrow> retention_error + retention_status" where
  "retention_next_status p active_hold =
     (if rt_status p = Ret_completed then Inr Ret_completed
      else if active_hold then
        consult_policy ''hold'' p Code_retention_hold PolicyForbidsHold (Inr Ret_held)
      else if needs_reconciliation p then
        consult_policy ''unknown'' p Code_retention_reconcile PolicyForbidsReconciliation
          (Inr Ret_reconciliation_required)
      else if rt_targets_frozen_at p \<noteq> None \<and> rt_targets p \<noteq> []
           \<and> all_values_satisfied (retention_target_statuses (rt_targets p) (rt_step_evidence p))
      then Inr Ret_completed
      else Inr Ret_reserved)"

definition retention_access_closed :: "retention_operation option \<Rightarrow> retention_error + bool" where
  "retention_access_closed po = (case po of
     None \<Rightarrow> Inr False
   | Some p \<Rightarrow>
       bind_result (map_error Policy
         (reduce_owned_recovery (plain_trigger Source_retention ''old_session_denied'')
            (rt_claim_id p) (rt_source_claim_revision p) (rt_operation_id p) (rt_updated_at p)
            (rt_source_refs p) (Some (rt_operation_id p))))
         (\<lambda>plan. Inr (tr_decision_code plan = Code_deny_access)))"

section \<open>Append-only transitions\<close>

definition same_coordinates :: "retention_operation \<Rightarrow> retention_operation \<Rightarrow> bool" where
  "same_coordinates p q \<longleftrightarrow>
     rt_operation_id p = rt_operation_id q \<and> rt_claim_id p = rt_claim_id q
     \<and> rt_source_terminal_ref p = rt_source_terminal_ref q
     \<and> rt_source_claim_revision p = rt_source_claim_revision q
     \<and> rt_policy_id p = rt_policy_id q \<and> rt_policy_version p = rt_policy_version q
     \<and> rt_access_closed_at p = rt_access_closed_at q \<and> rt_source_refs p = rt_source_refs q
     \<and> rt_created_at p = rt_created_at q"

definition extends_list :: "'a list \<Rightarrow> 'a list \<Rightarrow> bool" where
  "extends_list xs ys \<longleftrightarrow> length xs \<le> length ys \<and> take (length xs) ys = xs"

definition active_authorization_guards ::
  "retention_operation \<Rightarrow> retention_operation \<Rightarrow> (bool \<times> retention_error) list" where
  "active_authorization_guards p q =
    (let fresh = drop (length (rt_delete_authorizations p)) (rt_delete_authorizations q) in
     case (rt_active_delete_authorization_id p, rt_active_delete_authorization_id q) of
       (None, Some i) \<Rightarrow>
         [(map da_authorization_id fresh \<noteq> [i], ActiveNotNewlyAppended),
          (rt_step_evidence q \<noteq> rt_step_evidence p, AuthorizationSettlesStep)]
     | (Some i, Some j) \<Rightarrow> [(j \<noteq> i, ActiveAuthorizationReplaced)]
     | (Some i, None) \<Rightarrow>
         [(\<not> list_ex (\<lambda>e. sv_authorization_id e = Some i)
             (drop (length (rt_step_evidence p)) (rt_step_evidence q)), ClearedWithoutEvidence)]
     | (None, None) \<Rightarrow> [])"

definition validate_retention_operation_transition ::
  "retention_operation \<Rightarrow> retention_operation \<Rightarrow> retention_error + unit" where
  "validate_retention_operation_transition p q = guarded
    ([(\<not> same_coordinates p q, ImmutableCoordinatesChanged),
      (rt_status p = Ret_completed, CompletedImmutable),
      (rt_revision q \<noteq> rt_revision p + 1, RevisionNotNext),
      (rt_targets_frozen_at p \<noteq> None \<and> (rt_targets_frozen_at q \<noteq> rt_targets_frozen_at p
         \<or> rt_targets q \<noteq> rt_targets p), FrozenTargetsChanged),
      (rt_targets_frozen_at p = None \<and> rt_targets_frozen_at q = None \<and> rt_targets q \<noteq> [],
       TargetsBeforeFreeze),
      (\<not> extends_list (rt_step_evidence p) (rt_step_evidence q), EvidenceNotAppendOnly),
      (\<not> set (rt_hold_refs p) \<subseteq> set (rt_hold_refs q), HoldRefsNotAppendOnly),
      (\<not> extends_list (rt_delete_authorizations p) (rt_delete_authorizations q),
       AuthorizationsNotAppendOnly)]
     @ active_authorization_guards p q)
    (Inr ())"

definition validate_retention_hold_transition ::
  "retention_hold \<Rightarrow> retention_hold \<Rightarrow> retention_error + unit" where
  "validate_retention_hold_transition h k =
     (if h = k then Inr ()
      else guarded
        [(rh_hold_id h \<noteq> rh_hold_id k \<or> rh_claim_id h \<noteq> rh_claim_id k \<or> rh_reason h \<noteq> rh_reason k
            \<or> rh_authority_ref h \<noteq> rh_authority_ref k \<or> rh_source_refs h \<noteq> rh_source_refs k
            \<or> rh_applied_at h \<noteq> rh_applied_at k, HoldCoordinatesChanged),
         (rh_released_at h \<noteq> None, ReleasedHoldImmutable),
         (rh_released_at k = None, HoldNotReleased)]
        (Inr ()))"

section \<open>Eligibility\<close>

definition retention_terminal_source_ref :: "string \<Rightarrow> int \<Rightarrow> string" where
  "retention_terminal_source_ref claim_id revision =
     ''claim-terminal:'' @ claim_id @ '':revision:'' @ decimal revision"

definition RETENTION_ELIGIBLE_TERMINAL_REASONS :: "terminal_reason set" where
  "RETENTION_ELIGIBLE_TERMINAL_REASONS = {Reason_recovery_expired,
     Reason_authorised_staff_abandonment, Reason_authorised_closure}"

definition RETENTION_ELIGIBLE_TERMINAL_VALUES :: "terminal_value set" where
  "RETENTION_ELIGIBLE_TERMINAL_VALUES = {Terminal_abandoned, Terminal_closed}"

definition source_authority_guards ::
  "working_claim \<Rightarrow> terminal_disposition \<Rightarrow> retention_operation \<Rightarrow> (bool \<times> retention_error) list" where
  "source_authority_guards c t p =
    (let ref = retention_terminal_source_ref (wc_claim_id c) (td_recorded_revision t) in
    [(td_reason_code t \<notin> RETENTION_ELIGIBLE_TERMINAL_REASONS
        \<or> td_value t \<notin> RETENTION_ELIGIBLE_TERMINAL_VALUES, Ineligible TERMINAL_NOT_ELIGIBLE),
     (rt_source_claim_revision p \<noteq> wc_revision c \<or> td_recorded_revision t \<noteq> wc_revision c,
      Ineligible SOURCE_REVISION_MISMATCH),
     (rt_source_terminal_ref p \<noteq> ref \<or> ref \<notin> set (rt_source_refs p)
        \<or> \<not> set (td_source_refs t) \<subseteq> set (rt_source_refs p), Ineligible SOURCE_TERMINAL_MISMATCH),
     (rt_policy_id p \<noteq> INCOMPLETE_CLAIM_RETENTION_POLICY_ID
        \<or> rt_policy_version p \<noteq> INCOMPLETE_CLAIM_RETENTION_POLICY_VERSION,
      Ineligible RETENTION_POLICY_MISMATCH)])"

definition validate_retention_source_authority ::
  "working_claim \<Rightarrow> retention_operation \<Rightarrow> retention_error + unit" where
  "validate_retention_source_authority c p =
     guarded [(wc_claim_id c \<noteq> rt_claim_id p, Ineligible SOURCE_TERMINAL_MISMATCH)]
       (case wc_terminal_disposition c of
          None \<Rightarrow> Inl (Ineligible TERMINAL_REQUIRED)
        | Some t \<Rightarrow>
            guarded (source_authority_guards c t p)
              (decide_as reduce_owned_recovery Policy (plain_trigger Source_retention ''eligible'')
                 (wc_claim_id c) (wc_revision c) (rt_operation_id p) (rt_updated_at p)
                 (rt_source_refs p) (Some (rt_operation_id p))
                 (\<lambda>plan. tr_decision_code plan = Code_retention_eligible)
                 (Ineligible RETENTION_POLICY_MISMATCH) (Inr ())))"

definition initial_retention_shape :: "retention_operation \<Rightarrow> bool" where
  "initial_retention_shape p \<longleftrightarrow> rt_revision p = 1 \<and> rt_status p = Ret_reserved
     \<and> rt_targets_frozen_at p = None \<and> rt_targets p = [] \<and> rt_step_evidence p = []
     \<and> rt_completed_at p = None"

definition validate_retention_eligibility_source ::
  "working_claim \<Rightarrow> retention_operation \<Rightarrow> retention_error + unit" where
  "validate_retention_eligibility_source c p =
     bind_result (validate_retention_source_authority c p) (\<lambda>_.
       guarded [(\<not> initial_retention_shape p, Ineligible INVALID_OPERATION_SHAPE)] (Inr ()))"

section \<open>Cleanup targets and tombstones\<close>

definition target_kind_text :: "target_kind \<Rightarrow> string" where
  "target_kind_text k = (case k of Target_object_bytes \<Rightarrow> ''object_bytes''
     | Target_mongo_record \<Rightarrow> ''mongo_record'' | Target_tombstone \<Rightarrow> ''tombstone'')"

definition classification_text :: "classification \<Rightarrow> string" where
  "classification_text c = (case c of Class_delete \<Rightarrow> ''delete'' | Class_anonymise \<Rightarrow> ''anonymise''
     | Class_retain \<Rightarrow> ''retain'' | Class_tombstone \<Rightarrow> ''tombstone'')"

definition retention_record_identity :: "string \<Rightarrow> string list \<Rightarrow> string" where
  "retention_record_identity prefix parts = stable_record_id prefix (join ''|'' (prefix # parts))"

definition build_retention_cleanup_target ::
  "retention_operation \<Rightarrow> string \<Rightarrow> string \<Rightarrow> classification \<Rightarrow> target_kind \<Rightarrow> string option
     \<Rightarrow> string list \<Rightarrow> retention_error + cleanup_target" where
  "build_retention_cleanup_target p record_type record_id cls kind key refs =
     map_error Invalid_retention (validate_target
       \<lparr>ta_target_id = stable_record_id ''rtg'' (join ''|'' [rt_operation_id p,
          target_kind_text kind, record_type, record_id, classification_text cls]),
        ta_kind = kind, ta_record_type = record_type, ta_record_id = record_id,
        ta_classification = cls, ta_storage_key = key,
        ta_source_refs = fromkeys (rt_source_terminal_ref p # refs)\<rparr>)"

datatype payload_value =
    Text_value string | Int_value int | Bool_value bool | None_value | Structured_value

record record_tombstone =
  rb_tombstone_id :: string
  rb_operation_id :: string
  rb_target_id :: string
  rb_claim_id :: string
  rb_source_record_type :: string
  rb_source_record_id :: string
  rb_classification :: classification
  rb_authority :: "(string \<times> payload_value) list"
  rb_source_refs :: "string list"
  rb_created_at :: datetime

definition validate_tombstone :: "record_tombstone \<Rightarrow> retention_error + record_tombstone" where
  "validate_tombstone t = guarded
     [(\<not> (bounded_text 1 200 (rb_tombstone_id t) \<and> bounded_text 1 200 (rb_operation_id t)
          \<and> bounded_text 1 200 (rb_target_id t) \<and> bounded_text 1 160 (rb_claim_id t)
          \<and> bounded_text 1 120 (rb_source_record_type t)
          \<and> bounded_text 1 240 (rb_source_record_id t) \<and> length (rb_authority t) \<le> 30
          \<and> length (rb_source_refs t) \<le> 30), TombstoneFieldConstraint),
      (rb_classification t \<notin> {Class_anonymise, Class_tombstone}, TombstoneClassification),
      (is_naive (rb_created_at t), TombstoneTimeNaive),
      (\<not> distinct (rb_source_refs t), TombstoneRefsNotUnique)]
     (Inr t)"

definition payload_get :: "(string \<times> payload_value) list \<Rightarrow> string \<Rightarrow> payload_value" where
  "payload_get payload k = (case dict_get payload k of None \<Rightarrow> None_value | Some v \<Rightarrow> v)"

definition retention_tombstone_authority ::
  "string \<Rightarrow> (string \<times> payload_value) list \<Rightarrow> (string \<times> payload_value) list" where
  "retention_tombstone_authority record_type payload =
     foldl (\<lambda>d k. if payload_get payload k = Structured_value then d
                  else dict_put k (payload_get payload k) d) []
       (case dict_get RETENTION_TOMBSTONE_AUTHORITY_FIELDS record_type of None \<Rightarrow> [] | Some ks \<Rightarrow> ks)"

definition retention_tombstone_id :: "string \<Rightarrow> retention_error + string" where
  "retention_tombstone_id target_id =
     guarded [(take 4 target_id \<noteq> ''rtg_'', NotACleanupTarget)] (Inr (''rts_'' @ drop 4 target_id))"

section \<open>Steps\<close>

definition retention_next_attempt :: "retention_operation \<Rightarrow> string \<Rightarrow> int" where
  "retention_next_attempt p target_id =
     (let attempts = map sv_attempt (filter (\<lambda>e. sv_target_id e = target_id) (rt_step_evidence p))
      in (if attempts = [] then 0 else Max (set attempts)) + 1)"

definition retention_step_evidence_id :: "string \<Rightarrow> string \<Rightarrow> int \<Rightarrow> string" where
  "retention_step_evidence_id operation_id target_id attempt =
     stable_record_id ''rse'' (join ''|'' [operation_id, target_id, decimal attempt])"

definition retention_delete_authorization_id :: "string \<Rightarrow> string \<Rightarrow> int \<Rightarrow> string" where
  "retention_delete_authorization_id operation_id target_id attempt =
     stable_record_id ''rda''
       (join ''|'' [operation_id, target_id, decimal attempt, ''delete-authorization''])"

definition status_after_step :: "retention_operation \<Rightarrow> step_evidence \<Rightarrow> retention_status" where
  "status_after_step p e =
     (if sv_status e \<in> {Step_failed, Step_unknown} then Ret_reconciliation_required
      else if rt_targets_frozen_at p \<noteq> None \<and> rt_targets p \<noteq> []
           \<and> all_values_satisfied (retention_target_statuses (rt_targets p) (rt_step_evidence p @ [e]))
      then Ret_completed
      else Ret_reserved)"

definition after_step :: "retention_operation \<Rightarrow> step_evidence \<Rightarrow> datetime \<Rightarrow> retention_operation" where
  "after_step p e now = p\<lparr>rt_revision := rt_revision p + 1, rt_status := status_after_step p e,
     rt_step_evidence := rt_step_evidence p @ [e], rt_updated_at := now,
     rt_completed_at := (if status_after_step p e = Ret_completed then Some now else None)\<rparr>"

definition retention_candidate_after_step ::
  "retention_operation \<Rightarrow> step_evidence \<Rightarrow> datetime \<Rightarrow> retention_error + retention_operation" where
  "retention_candidate_after_step p e now =
     map_error Invalid_retention (validate_operation (after_step p e now))"

record database_step_error =
  de_target_id :: string
  de_commit_unknown :: bool
  de_diagnostic_code :: string

definition new_database_step_error ::
  "string \<Rightarrow> bool \<Rightarrow> string \<Rightarrow> retention_error + database_step_error" where
  "new_database_step_error target_id commit_unknown code = guarded
     [(target_id = [], StepErrorWithoutTarget),
      (code = [] \<or> 160 < length code, StepErrorDiagnosticUnbounded)]
     (Inr \<lparr>de_target_id = target_id, de_commit_unknown = commit_unknown,
        de_diagnostic_code = code\<rparr>)"

section \<open>Policy consultation\<close>

definition retention_coordinates :: "retention_operation \<Rightarrow> bool" where
  "retention_coordinates p \<longleftrightarrow> owned_coordinates (rt_claim_id p) (rt_source_claim_revision p)
     (rt_operation_id p) (rt_updated_at p) (rt_source_refs p) (Some (rt_operation_id p))"

text \<open>
  The model admits longer identifiers than the recovery event does; within the shorter limits
  a valid operation always has acceptable coordinates.
\<close>

lemma retention_valid_coordinates:
  "retention_valid p \<Longrightarrow> retention_coordinates p \<longleftrightarrow>
     length (rt_claim_id p) \<le> 120 \<and> length (rt_operation_id p) \<le> 160"
  by (auto simp: retention_valid_iff retention_structure_def retention_coordinates_def
      owned_coordinates_def validity bounded_text_def retention_time_guards_def)

lemma consult_ok:
  assumes "retention_coordinates p"
  shows "consult_policy ''hold'' p Code_retention_hold e k = k"
    and "consult_policy ''unknown'' p Code_retention_reconcile e k = k"
proof -
  note coords = assms [unfolded retention_coordinates_def]
  show "consult_policy ''hold'' p Code_retention_hold e k = k"
    unfolding consult_policy_def
    by (rule owned.decide_as_ok [OF owned_promised(6) _ coords]) simp_all
  show "consult_policy ''unknown'' p Code_retention_reconcile e k = k"
    unfolding consult_policy_def
    by (rule owned.decide_as_ok [OF owned_promised(7) _ coords]) simp_all
qed

lemma next_status_spec:
  assumes "retention_coordinates p"
  shows "retention_next_status p hold = Inr
     (if rt_status p = Ret_completed then Ret_completed
      else if hold then Ret_held
      else if needs_reconciliation p then Ret_reconciliation_required
      else if all_satisfied p then Ret_completed else Ret_reserved)"
  using consult_ok [OF assms]
  by (auto simp: retention_next_status_def all_satisfied_def)

lemma access_closed_spec:
  assumes "retention_coordinates p"
  shows "retention_access_closed (Some p) = Inr True"
proof -
  obtain plan where "reduce_owned_recovery (plain_trigger Source_retention ''old_session_denied'')
      (rt_claim_id p) (rt_source_claim_revision p) (rt_operation_id p) (rt_updated_at p)
      (rt_source_refs p) (Some (rt_operation_id p)) = Inr plan"
    "tr_decision_code plan = Code_deny_access"
    using owned.decided [OF owned_promised(8) _ assms [unfolded retention_coordinates_def]] by auto
  then show ?thesis by (simp add: retention_access_closed_def)
qed

lemma access_closed_limits:
  assumes "retention_valid p"
  shows "if length (rt_claim_id p) \<le> 120 \<and> length (rt_operation_id p) \<le> 160
     then retention_access_closed (Some p) = Inr True
     else \<exists>e. retention_access_closed (Some p) = Inl e"
proof (cases "retention_coordinates p")
  case True
  then show ?thesis using access_closed_spec retention_valid_coordinates [OF assms] by simp
next
  case False
  then have "\<nexists>plan. reduce_owned_recovery (plain_trigger Source_retention ''old_session_denied'')
      (rt_claim_id p) (rt_source_claim_revision p) (rt_operation_id p) (rt_updated_at p)
      (rt_source_refs p) (Some (rt_operation_id p)) = Inr plan"
    by (simp add: reduce_owned_Inr_iff retention_coordinates_def)
  then obtain e where "reduce_owned_recovery (plain_trigger Source_retention ''old_session_denied'')
      (rt_claim_id p) (rt_source_claim_revision p) (rt_operation_id p) (rt_updated_at p)
      (rt_source_refs p) (Some (rt_operation_id p)) = Inl e"
    by (metis Inr_not_Inl sum.exhaust)
  then show ?thesis using False retention_valid_coordinates [OF assms]
    by (simp add: retention_access_closed_def)
qed

section \<open>Transitions only extend\<close>

lemma extends_list_iff: "extends_list xs ys \<longleftrightarrow> (\<exists>zs. ys = xs @ zs)"
  by (metis append_eq_conv_conj append_take_drop_id extends_list_def length_append le_add1)

lemma extends_list_refl [simp]: "extends_list xs xs"
  by (simp add: extends_list_def)

lemma extends_list_append [simp]: "extends_list xs (xs @ ys)"
  by (auto simp: extends_list_iff)

lemma extends_list_trans: "extends_list xs ys \<Longrightarrow> extends_list ys zs \<Longrightarrow> extends_list xs zs"
  by (auto simp: extends_list_iff)

text \<open>The fence of an irreversible deletion: an authorization in force stays in force until
  evidence that names it is appended.\<close>

definition fence_kept :: "retention_operation \<Rightarrow> retention_operation \<Rightarrow> bool" where
  "fence_kept p q \<longleftrightarrow> opt_all (\<lambda>i. rt_active_delete_authorization_id q = Some i
     \<or> list_ex (\<lambda>e. sv_authorization_id e = Some i)
         (drop (length (rt_step_evidence p)) (rt_step_evidence q))) (rt_active_delete_authorization_id p)"

definition retention_extends :: "retention_operation \<Rightarrow> retention_operation \<Rightarrow> bool" where
  "retention_extends p q \<longleftrightarrow> p = q \<or>
     same_coordinates p q \<and> rt_status p \<noteq> Ret_completed \<and> rt_revision p < rt_revision q
     \<and> (rt_targets_frozen_at p \<noteq> None \<longrightarrow>
          rt_targets_frozen_at q = rt_targets_frozen_at p \<and> rt_targets q = rt_targets p)
     \<and> extends_list (rt_step_evidence p) (rt_step_evidence q)
     \<and> set (rt_hold_refs p) \<subseteq> set (rt_hold_refs q)
     \<and> extends_list (rt_delete_authorizations p) (rt_delete_authorizations q) \<and> fence_kept p q"

lemma same_coordinates_refl [simp]: "same_coordinates p p"
  by (simp add: same_coordinates_def)

lemma same_coordinates_trans: "same_coordinates p q \<Longrightarrow> same_coordinates q r \<Longrightarrow> same_coordinates p r"
  by (simp add: same_coordinates_def)

lemma retention_extends_refl [simp]: "retention_extends p p"
  by (simp add: retention_extends_def)

lemma fence_kept_trans:
  assumes "fence_kept p q" "fence_kept q r" "extends_list (rt_step_evidence p) (rt_step_evidence q)"
    and "extends_list (rt_step_evidence q) (rt_step_evidence r)"
  shows "fence_kept p r"
proof -
  obtain xs ys where "rt_step_evidence q = rt_step_evidence p @ xs" "rt_step_evidence r = rt_step_evidence p @ xs @ ys"
    using assms(3,4) by (auto simp: extends_list_iff)
  then show ?thesis
    using assms(1,2) by (cases "rt_active_delete_authorization_id p") (auto simp: fence_kept_def)
qed

lemma retention_extends_trans:
  assumes "retention_extends p q" "retention_extends q r" shows "retention_extends p r"
proof (cases "p = q \<or> q = r")
  case False
  then have "same_coordinates p r" "extends_list (rt_step_evidence p) (rt_step_evidence r)"
    "extends_list (rt_delete_authorizations p) (rt_delete_authorizations r)" "fence_kept p r"
    using assms unfolding retention_extends_def
    by (meson same_coordinates_trans extends_list_trans fence_kept_trans)+
  then show ?thesis using assms False unfolding retention_extends_def by auto
qed (use assms in auto)

lemma transition_Inr_iff:
  "validate_retention_operation_transition p q = Inr u \<longleftrightarrow>
     same_coordinates p q \<and> rt_status p \<noteq> Ret_completed \<and> rt_revision q = rt_revision p + 1
     \<and> (rt_targets_frozen_at p \<noteq> None \<longrightarrow>
          rt_targets_frozen_at q = rt_targets_frozen_at p \<and> rt_targets q = rt_targets p)
     \<and> (rt_targets_frozen_at p = None \<and> rt_targets_frozen_at q = None \<longrightarrow> rt_targets q = [])
     \<and> extends_list (rt_step_evidence p) (rt_step_evidence q)
     \<and> set (rt_hold_refs p) \<subseteq> set (rt_hold_refs q)
     \<and> extends_list (rt_delete_authorizations p) (rt_delete_authorizations q)
     \<and> passes (active_authorization_guards p q)"
proof -
  have "validate_retention_operation_transition p q = Inr u \<longleftrightarrow>
      passes ([(\<not> same_coordinates p q, ImmutableCoordinatesChanged),
      (rt_status p = Ret_completed, CompletedImmutable),
      (rt_revision q \<noteq> rt_revision p + 1, RevisionNotNext),
      (rt_targets_frozen_at p \<noteq> None \<and> (rt_targets_frozen_at q \<noteq> rt_targets_frozen_at p
         \<or> rt_targets q \<noteq> rt_targets p), FrozenTargetsChanged),
      (rt_targets_frozen_at p = None \<and> rt_targets_frozen_at q = None \<and> rt_targets q \<noteq> [],
       TargetsBeforeFreeze),
      (\<not> extends_list (rt_step_evidence p) (rt_step_evidence q), EvidenceNotAppendOnly),
      (\<not> set (rt_hold_refs p) \<subseteq> set (rt_hold_refs q), HoldRefsNotAppendOnly),
      (\<not> extends_list (rt_delete_authorizations p) (rt_delete_authorizations q),
       AuthorizationsNotAppendOnly)] @ active_authorization_guards p q)"
    unfolding validate_retention_operation_transition_def guarded_Inr_iff by simp
  then show ?thesis by auto
qed

lemma transition_fence:
  assumes "validate_retention_operation_transition p q = Inr u"
    and "rt_active_delete_authorization_id p = Some i"
  shows "rt_active_delete_authorization_id q = Some i
    \<or> (rt_active_delete_authorization_id q = None
        \<and> (\<exists>e\<in>set (drop (length (rt_step_evidence p)) (rt_step_evidence q)).
              sv_authorization_id e = Some i))"
  using assms
  by (auto simp: transition_Inr_iff active_authorization_guards_def Let_def list_ex_iff
      split: option.splits)

lemma transition_extends:
  "validate_retention_operation_transition p q = Inr u \<Longrightarrow> retention_extends p q"
  using transition_fence [of p q u]
  by (cases "rt_active_delete_authorization_id p")
    (auto simp: transition_Inr_iff retention_extends_def fence_kept_def list_ex_iff)

lemma transition_new_fence:
  assumes "validate_retention_operation_transition p q = Inr u"
    and "rt_active_delete_authorization_id p = None" "rt_active_delete_authorization_id q = Some i"
  shows "rt_step_evidence q = rt_step_evidence p
    \<and> (\<exists>a. rt_delete_authorizations q = rt_delete_authorizations p @ [a]
           \<and> da_authorization_id a = i)"
proof -
  have "map da_authorization_id
        (drop (length (rt_delete_authorizations p)) (rt_delete_authorizations q)) = [i]"
    and "rt_step_evidence q = rt_step_evidence p"
    and "extends_list (rt_delete_authorizations p) (rt_delete_authorizations q)"
    using assms by (simp_all add: transition_Inr_iff active_authorization_guards_def Let_def)
  then show ?thesis by (auto simp: extends_list_iff map_eq_Cons_conv)
qed

lemma hold_transition_Inr_iff:
  "validate_retention_hold_transition h k = Inr u \<longleftrightarrow>
     h = k \<or> (rh_released_at h = None \<and> rh_released_at k \<noteq> None
              \<and> k = h\<lparr>rh_released_at := rh_released_at k\<rparr>)"
  by (cases h; cases k; cases "rh_released_at h"; cases "rh_released_at k")
    (auto simp: validate_retention_hold_transition_def)

section \<open>Steps\<close>

lemma next_attempt_fresh:
  "e \<in> set (rt_step_evidence p) \<Longrightarrow> sv_target_id e = tid \<Longrightarrow> sv_attempt e < retention_next_attempt p tid"
proof -
  assume e: "e \<in> set (rt_step_evidence p)" "sv_target_id e = tid"
  let ?as = "map sv_attempt (filter (\<lambda>e. sv_target_id e = tid) (rt_step_evidence p))"
  have "sv_attempt e \<in> set ?as" using e by auto
  moreover from this have "?as \<noteq> []" by (metis empty_iff empty_set)
  ultimately show ?thesis
    unfolding retention_next_attempt_def Let_def by (simp del: set_map map_is_Nil_conv)
qed

lemma latest_after_next:
  assumes "sv_target_id e = tid" "sv_attempt e = retention_next_attempt p tid"
    "1 \<le> retention_next_attempt p tid"
  shows "latest (rt_step_evidence p @ [e]) tid = (sv_attempt e, sv_status e)"
proof -
  have "fst (latest (rt_step_evidence p) tid) < sv_attempt e"
  proof (cases "snd (latest (rt_step_evidence p) tid) = Step_pending
      \<and> fst (latest (rt_step_evidence p) tid) = 0")
    case True
    then show ?thesis using assms by simp
  next
    case False
    have "latest es tid = (0, Step_pending) \<or>
        (\<exists>x\<in>set es. sv_target_id x = tid \<and> sv_attempt x = fst (latest es tid))" for es
      by (induction es rule: rev_induct) (auto simp: latest_snoc latest_step_def)
    then obtain x where "x \<in> set (rt_step_evidence p)" "sv_target_id x = tid"
        "sv_attempt x = fst (latest (rt_step_evidence p) tid)"
      using False by (metis fst_conv snd_conv)
    then show ?thesis using next_attempt_fresh assms(2) by metis
  qed
  then show ?thesis using assms(1) by (simp add: latest_snoc latest_step_def)
qed

lemma after_step_sel [simp]:
  "rt_targets (after_step p e now) = rt_targets p"
  "rt_targets_frozen_at (after_step p e now) = rt_targets_frozen_at p"
  "rt_delete_authorizations (after_step p e now) = rt_delete_authorizations p"
  "rt_active_delete_authorization_id (after_step p e now) = rt_active_delete_authorization_id p"
  "rt_step_evidence (after_step p e now) = rt_step_evidence p @ [e]"
  "rt_hold_refs (after_step p e now) = rt_hold_refs p"
  "rt_revision (after_step p e now) = rt_revision p + 1"
  "rt_status (after_step p e now) = status_after_step p e"
  "rt_operation_id (after_step p e now) = rt_operation_id p"
  "rt_claim_id (after_step p e now) = rt_claim_id p"
  "rt_updated_at (after_step p e now) = now"
  "rt_created_at (after_step p e now) = rt_created_at p"
  "rt_access_closed_at (after_step p e now) = rt_access_closed_at p"
  "rt_source_refs (after_step p e now) = rt_source_refs p"
  "rt_completed_at (after_step p e now) =
     (if status_after_step p e = Ret_completed then Some now else None)"
  "same_coordinates p (after_step p e now)"
  by (simp_all add: after_step_def same_coordinates_def)

lemma candidate_Inr_iff:
  "retention_candidate_after_step p e now = Inr q \<longleftrightarrow>
     retention_valid (after_step p e now) \<and> q = after_step p e now"
  by (auto simp: retention_candidate_after_step_def validate_operation_Inr_iff retention_valid_iff)

lemma candidate_transition:
  assumes "retention_candidate_after_step p e now = Inr q" "rt_status p \<noteq> Ret_completed"
    and "rt_targets_frozen_at p \<noteq> None"
  shows "validate_retention_operation_transition p q = Inr ()"
proof -
  have q: "q = after_step p e now" using assms(1) by (simp add: candidate_Inr_iff)
  have "passes (active_authorization_guards p q)"
    by (cases "rt_active_delete_authorization_id p") (simp_all add: q active_authorization_guards_def)
  then show ?thesis using assms(2,3) by (auto simp: transition_Inr_iff q)
qed

lemma candidate_completed:
  assumes "retention_candidate_after_step p e now = Inr q"
  shows "rt_status q = Ret_completed \<longleftrightarrow> all_satisfied q \<and> sv_status e \<notin> {Step_failed, Step_unknown}"
  using assms by (auto simp: candidate_Inr_iff status_after_step_def all_satisfied_def)

text \<open>A step that can be accepted: a fresh attempt on a frozen target of a valid operation.\<close>

lemma after_step_structure:
  assumes "retention_valid p" "validate_step_evidence e = Inr e"
    and "sv_target_id e \<in> ta_target_id ` set (rt_targets p)"
    and "sv_attempt e = retention_next_attempt p (sv_target_id e)"
    and "sv_evidence_id e \<notin> sv_evidence_id ` set (rt_step_evidence p)"
    and "evidence_authorized (rt_delete_authorizations p) e"
    and "length (rt_step_evidence p) < 2000" "\<not> is_Naive now" "\<not> dt_before now (rt_created_at p)"
  shows "retention_structure (after_step p e now)"
proof -
  have struct: "retention_structure p" using assms(1) by (simp add: retention_valid_iff)
  have ev: "check_evidence (rt_targets p) (rt_delete_authorizations p) [] []
      (rt_step_evidence p) = Inr ()"
    using struct by (simp add: retention_structure_def)
  have "(sv_target_id e, sv_attempt e) \<notin> (\<lambda>e. (sv_target_id e, sv_attempt e)) ` set (rt_step_evidence p)"
    using next_attempt_fresh [of _ p "sv_target_id e"] assms(4) by fastforce
  then have "check_evidence (rt_targets p) (rt_delete_authorizations p) [] []
      (rt_step_evidence p @ [e]) = Inr ()"
    using ev assms(3,5,6) by (auto simp: check_evidence_Inr_iff)
  moreover have "retention_fields_ok (after_step p e now)"
    using struct assms(7) by (simp add: retention_structure_def validity after_step_def)
  moreover have "passes (retention_time_guards (after_step p e now))"
    using struct assms(8,9)
    by (auto simp: retention_structure_def retention_time_guards_def split: option.splits)
  ultimately show ?thesis using struct by (simp add: retention_structure_def)
qed

lemma after_step_valid:
  assumes "retention_valid p" "validate_step_evidence e = Inr e"
    and "sv_target_id e \<in> ta_target_id ` set (rt_targets p)"
    and "sv_attempt e = retention_next_attempt p (sv_target_id e)"
    and "sv_evidence_id e \<notin> sv_evidence_id ` set (rt_step_evidence p)"
    and "evidence_authorized (rt_delete_authorizations p) e"
    and "length (rt_step_evidence p) < 2000" "\<not> is_Naive now" "\<not> dt_before now (rt_created_at p)"
  shows "retention_candidate_after_step p e now = Inr (after_step p e now)"
proof -
  have pos: "1 \<le> sv_attempt e"
    using assms(2) unfolding validate_step_evidence_def guarded_Inr_iff by simp
  have last: "snd (latest (rt_step_evidence p @ [e]) (sv_target_id e)) = sv_status e"
    using latest_after_next [OF refl assms(4)] pos assms(4) by simp
  obtain t where t: "t \<in> set (rt_targets p)" "ta_target_id t = sv_target_id e" using assms(3) by auto
  have fail: "needs_reconciliation (after_step p e now)" if "sv_status e \<in> {Step_failed, Step_unknown}"
    unfolding needs_reconciliation_iff using t last that by (auto intro!: bexI [of _ t])
  have "passes (retention_status_guards (after_step p e now))"
    using fail all_satisfied_no_failure [of "after_step p e now"] assms(8,9)
    by (auto simp: retention_status_guards_def status_after_step_def all_satisfied_def)
  then show ?thesis
    using after_step_structure [OF assms] by (simp add: candidate_Inr_iff retention_valid_iff)
qed

text \<open>
  The successor state of a satisfied step and the derived status disagree when another
  target's latest attempt failed: the step leaves the operation reserved, the derivation
  demands reconciliation.
\<close>

lemma step_status_divergence:
  assumes "sv_status e = Step_satisfied" "t \<in> set (rt_targets p)" "ta_target_id t \<noteq> sv_target_id e"
    and "snd (latest (rt_step_evidence p) (ta_target_id t)) \<in> {Step_failed, Step_unknown}"
    and "retention_coordinates (after_step p e now)"
  shows "rt_status (after_step p e now) = Ret_reserved"
    and "retention_next_status (after_step p e now) False = Inr Ret_reconciliation_required"
proof -
  have "snd (latest (rt_step_evidence (after_step p e now)) (ta_target_id t)) \<in> {Step_failed, Step_unknown}"
    using assms(3,4) by (auto simp: latest_snoc latest_step_def)
  then have fail: "needs_reconciliation (after_step p e now)"
    unfolding needs_reconciliation_iff using assms(2) by auto
  then have "\<not> all_satisfied (after_step p e now)" using all_satisfied_no_failure by blast
  then show st: "rt_status (after_step p e now) = Ret_reserved"
    using assms(1) by (auto simp: status_after_step_def all_satisfied_def)
  show "retention_next_status (after_step p e now) False = Inr Ret_reconciliation_required"
    using next_status_spec [OF assms(5), of False] fail st by simp
qed

section \<open>Classification tables and tombstones\<close>

lemma storage_types_distinct: "distinct (map fst RETENTION_STORAGE_TARGETS)"
  "distinct (map (\<lambda>(_, logical, _). logical) RETENTION_STORAGE_TARGETS)"
  by code_simp+

lemma storage_type_inverse:
  "list_all (\<lambda>(storage, logical, _). dict_get RETENTION_TARGET_STORAGE_TYPE logical = Some storage)
     RETENTION_STORAGE_TARGETS"
  by code_simp

lemma storage_within_baseline:
  "list_all (\<lambda>(storage, logical, cls).
       case dict_get RETENTION_CLASSIFICATION_BASELINE logical of
         None \<Rightarrow> True | Some allowed \<Rightarrow> cls \<in> set allowed) RETENTION_STORAGE_TARGETS"
  by code_simp

lemma cleanup_target_Inr:
  assumes "build_retention_cleanup_target p rtype rid cls kind key refs = Inr t"
  shows "ta_kind t = kind" "ta_classification t = cls" "ta_record_type t = rtype"
    "ta_record_id t = rid" "take 4 (ta_target_id t) = ''rtg_''" "length (ta_target_id t) = 36"
    "rt_source_terminal_ref p \<in> set (ta_source_refs t)"
proof -
  have "u = t'" if "validate_target t' = Inr u" for t' u
    using that unfolding validate_target_def guarded_Inr_iff by simp
  then have "t = \<lparr>ta_target_id = stable_record_id ''rtg'' (join ''|'' [rt_operation_id p,
      target_kind_text kind, rtype, rid, classification_text cls]),
      ta_kind = kind, ta_record_type = rtype, ta_record_id = rid, ta_classification = cls,
      ta_storage_key = key, ta_source_refs = fromkeys (rt_source_terminal_ref p # refs)\<rparr>"
    using assms unfolding build_retention_cleanup_target_def map_error_Inr_iff by blast
  then show "ta_kind t = kind" "ta_classification t = cls" "ta_record_type t = rtype"
    "ta_record_id t = rid" "take 4 (ta_target_id t) = ''rtg_''" "length (ta_target_id t) = 36"
    "rt_source_terminal_ref p \<in> set (ta_source_refs t)"
    by (simp_all add: length_stable_record_id) (simp add: stable_record_id_def)
qed

lemma tombstone_id_Inr_iff:
  "retention_tombstone_id tid = Inr i \<longleftrightarrow> take 4 tid = ''rtg_'' \<and> i = ''rts_'' @ drop 4 tid"
  by (auto simp: retention_tombstone_id_def)

lemma tombstone_id_inject:
  assumes "retention_tombstone_id s = Inr i" "retention_tombstone_id t = Inr i"
  shows "s = t"
proof -
  have "take 4 s = take 4 t" "drop 4 s = drop 4 t" using assms by (auto simp: tombstone_id_Inr_iff)
  then show ?thesis by (metis append_take_drop_id)
qed

lemma tombstone_authority_facts:
  assumes "(k, v) \<in> set (retention_tombstone_authority rtype payload)"
  shows "v \<noteq> Structured_value
    \<and> (\<exists>ks. dict_get RETENTION_TOMBSTONE_AUTHORITY_FIELDS rtype = Some ks \<and> k \<in> set ks)"
proof -
  let ?step = "\<lambda>d k. if payload_get payload k = Structured_value then d
      else dict_put k (payload_get payload k) d"
  have put: "set (dict_put k v d) \<subseteq> insert (k, v) (set d)" for k :: string and v :: payload_value and d
    by (induction d) auto
  have loop: "x \<in> set (foldl ?step d ks) \<Longrightarrow>
      x \<in> set d \<or> fst x \<in> set ks \<and> snd x \<noteq> Structured_value" for x d ks
  proof (induction ks arbitrary: d)
    case (Cons k ks)
    then have "x \<in> set (foldl ?step (?step d k) ks)" by simp
    then have "x \<in> set (?step d k) \<or> fst x \<in> set ks \<and> snd x \<noteq> Structured_value"
      by (rule Cons.IH)
    moreover have "x \<in> set (?step d k) \<Longrightarrow> x \<in> set d \<or>
        x = (k, payload_get payload k) \<and> payload_get payload k \<noteq> Structured_value"
      using put [of k "payload_get payload k" d] by (auto split: if_splits)
    ultimately show ?case by auto
  qed simp
  show ?thesis
  proof (cases "dict_get RETENTION_TOMBSTONE_AUTHORITY_FIELDS rtype")
    case None
    then show ?thesis using assms by (simp add: retention_tombstone_authority_def)
  next
    case (Some ks)
    then show ?thesis using assms loop [of "(k, v)" "[]" ks]
      by (simp add: retention_tombstone_authority_def)
  qed
qed

end
