(* ===== verification/Evidence_Model.thy ===== *)
theory Evidence_Model
  imports Follow_Up_Model "HOL-Library.Multiset"
begin

text \<open>
  Evidence records (\<open>backend/domain/evidence.py\<close>, \<open>backend/domain/models.py\<close>): the business
  condition of a material and the state of its file, references to other records and to claim
  fields, the append-only history of replaced generations, the shared lifecycle stages, and the
  two roll-ups of a claim's evidence. The lemmas show which shapes are registered, that a history
  only grows and keeps every replaced generation along any sequence of writes, that the counts of
  the summary cover every record, and that the roll-ups do not depend on the order of the records.
\<close>

section \<open>Records\<close>

datatype evidence_status =
    Evidence_missing | Evidence_pending | Evidence_received | Evidence_unofficial
  | Evidence_invalid | Evidence_unavailable | Evidence_superseded | Evidence_expired

datatype evidence_relation =
    Relation_conflicts_with | Relation_superseded_by | Relation_unavailability_established_by

datatype relation_state = Relation_unresolved | Relation_resolved

datatype evidence_file_status =
    File_not_available | File_awaiting_upload | File_uploading | File_uploaded
  | File_processing | File_ready | File_failed

datatype evidence_source = Origin_claimant | Origin_staff | Origin_external_system

datatype history_state = History_available | History_removed

datatype wait_type = Wait_claimant | Wait_external_agency | Wait_internal

datatype evidence_state =
    State_not_started | State_received | State_unofficial | State_invalid | State_pending
  | State_unavailable | State_in_conflict

record evidence_reference =
  er_relation :: evidence_relation
  er_evidence_id :: "string option"
  er_field_code :: "string option"
  er_state :: relation_state
  er_reason :: string
  er_raised_at :: datetime
  er_resolved_at :: "datetime option"

text \<open>
  \<open>provenance\<close> may hold any JSON value under a key; a value that is not text is its rendering.
  The proposed fields of an archived generation are renderings too.
\<close>

datatype provenance_value = Provenance_text string | Provenance_other string

type_synonym provenance = "(string \<times> provenance_value) list"

record material_version =
  mv_version :: int
  mv_status :: evidence_status
  mv_file_status :: evidence_file_status
  mv_original_filename :: "string option"
  mv_media_type :: "string option"
  mv_size_bytes :: "int option"
  mv_references :: "evidence_reference list"
  mv_provenance :: provenance
  mv_proposed_fields :: "(string \<times> string) list"
  mv_wait_type :: "wait_type option"
  mv_responsible_party :: "responsible_party option"
  mv_expected_by :: "datetime option"
  mv_expected_timing :: "string option"
  mv_context_summary :: "string option"
  mv_archived_at :: datetime
  mv_reason :: string

record evidence_record =
  ed_evidence_id :: string
  ed_claim_id :: string
  ed_kind :: string
  ed_status :: evidence_status
  ed_file_status :: evidence_file_status
  ed_original_filename :: "string option"
  ed_media_type :: "string option"
  ed_size_bytes :: "int option"
  ed_source :: evidence_source
  ed_history_state :: history_state
  ed_history_removed_at :: "datetime option"
  ed_references :: "evidence_reference list"
  ed_material_version :: int
  ed_material_history :: "material_version list"
  ed_related_fields :: "string list"
  ed_needed_for :: "string list"
  ed_provenance :: provenance
  ed_claimant_note :: "string option"
  ed_wait_type :: "wait_type option"
  ed_responsible_party :: "responsible_party option"
  ed_expected_by :: "datetime option"
  ed_expected_timing :: "string option"
  ed_context_summary :: "string option"
  ed_created_at :: datetime
  ed_updated_at :: datetime

definition ed_storage_key :: "evidence_record \<Rightarrow> provenance_value option" where
  "ed_storage_key e = dict_get (ed_provenance e) ''storage_key''"

datatype claim_link_state = Link_active | Link_detached

record evidence_link =
  el_link_id :: string
  el_evidence_id :: string
  el_source_claim_id :: string
  el_target_claim_id :: string
  el_customer_id :: string
  el_state :: claim_link_state
  el_created_at :: datetime
  el_updated_at :: datetime
  el_detached_at :: "datetime option"

fun link_state_text :: "claim_link_state \<Rightarrow> string" where
  "link_state_text Link_active = ''active''"
| "link_state_text Link_detached = ''detached''"

text \<open>Two dictionaries are equal when they hold the same items, in whatever order.\<close>

definition same_items :: "('k \<times> 'v) list \<Rightarrow> ('k \<times> 'v) list \<Rightarrow> bool" where
  "same_items p q \<longleftrightarrow> set p = set q"

fun evidence_status_text :: "evidence_status \<Rightarrow> string" where
  "evidence_status_text Evidence_missing = ''missing''"
| "evidence_status_text Evidence_pending = ''pending''"
| "evidence_status_text Evidence_received = ''received''"
| "evidence_status_text Evidence_unofficial = ''unofficial''"
| "evidence_status_text Evidence_invalid = ''invalid''"
| "evidence_status_text Evidence_unavailable = ''unavailable''"
| "evidence_status_text Evidence_superseded = ''superseded''"
| "evidence_status_text Evidence_expired = ''expired''"

fun file_status_text :: "evidence_file_status \<Rightarrow> string" where
  "file_status_text File_not_available = ''not_available''"
| "file_status_text File_awaiting_upload = ''awaiting_upload''"
| "file_status_text File_uploading = ''uploading''"
| "file_status_text File_uploaded = ''uploaded''"
| "file_status_text File_processing = ''processing''"
| "file_status_text File_ready = ''ready''"
| "file_status_text File_failed = ''failed''"

fun evidence_source_text :: "evidence_source \<Rightarrow> string" where
  "evidence_source_text Origin_claimant = ''claimant''"
| "evidence_source_text Origin_staff = ''staff''"
| "evidence_source_text Origin_external_system = ''external_system''"

datatype evidence_error =
    EvidenceFieldConstraint
  | ReferenceNamesNotOne
  | ReferenceNeedsEvidence
  | ReferenceResolutionTime
  | ReferenceResolvedEarly
  | HistoryRemovalTime
  | HistoryNotEveryVersion
  | HistoryArchivedLate
  | LinkSameClaim
  | LinkDetachmentTime
  | LinkUpdatedEarly
  | LinkDetachmentNotLatest
  | EvidenceDatetimeTypeError
  | UnregisteredKind string
  | DuplicateRelatedFields
  | UnregisteredRelatedFields
  | DuplicateNeeds
  | UnregisteredNeeds
  | UnregisteredShape string
  | UpdatedBeforeCreated
  | UnregisteredReferenceField string
  | ReferencesItself
  | HistoryShortened
  | HistoryRewritten
  | VersionBackwards
  | EntryNeedsVersion
  | VersionSkipped
  | ExactlyOneEntry
  | GenerationNotPreserved

text \<open>A comparison \<open>a < b\<close> of two datetimes that raises when they cannot be ordered.\<close>

definition before_guard :: "datetime \<Rightarrow> datetime \<Rightarrow> 'e \<Rightarrow> 'e \<Rightarrow> (bool \<times> 'e) list" where
  "before_guard a b type_error e = [(incomparable a b, type_error), (dt_before a b, e)]"

definition validate_reference :: "evidence_reference \<Rightarrow> evidence_error + unit" where
  [validity]: "validate_reference r = guarded
     ([(\<not> (opt_all (bounded_text 1 100) (er_evidence_id r)
          \<and> opt_all (bounded_text 1 100) (er_field_code r) \<and> bounded_text 1 1000 (er_reason r)),
        EvidenceFieldConstraint),
       ((er_evidence_id r = None) = (er_field_code r = None), ReferenceNamesNotOne),
       (er_relation r \<noteq> Relation_conflicts_with \<and> er_field_code r \<noteq> None, ReferenceNeedsEvidence),
       ((er_state r = Relation_resolved) \<noteq> (er_resolved_at r \<noteq> None), ReferenceResolutionTime)]
      @ (case er_resolved_at r of None \<Rightarrow> []
         | Some t \<Rightarrow> before_guard t (er_raised_at r) EvidenceDatetimeTypeError ReferenceResolvedEarly))
     (Inr ())"

definition version_numbers :: "int \<Rightarrow> int list" where
  "version_numbers n = [1..n - 1]"

definition material_version_ok :: "material_version \<Rightarrow> bool" where
  [validity]: "material_version_ok v \<longleftrightarrow> 1 \<le> mv_version v \<and> opt_all (\<lambda>n. 0 \<le> n) (mv_size_bytes v)
     \<and> length (mv_references v) \<le> 50 \<and> list_all (\<lambda>r. validate_reference r = Inr ()) (mv_references v)
     \<and> opt_all (bounded_text 0 200) (mv_expected_timing v)
     \<and> opt_all (bounded_text 0 1000) (mv_context_summary v) \<and> mv_reason v = ''claimant_replacement''"

definition evidence_fields_ok :: "evidence_record \<Rightarrow> bool" where
  [validity]: "evidence_fields_ok e \<longleftrightarrow> opt_all (\<lambda>n. 0 \<le> n) (ed_size_bytes e)
     \<and> length (ed_references e) \<le> 50 \<and> list_all (\<lambda>r. validate_reference r = Inr ()) (ed_references e)
     \<and> 1 \<le> ed_material_version e \<and> list_all material_version_ok (ed_material_history e)
     \<and> opt_all (bounded_text 0 200) (ed_expected_timing e)
     \<and> opt_all (bounded_text 0 1000) (ed_context_summary e)"

definition validate_material_history :: "evidence_record \<Rightarrow> evidence_error + unit" where
  [validity]: "validate_material_history e = guarded
     ([(\<not> evidence_fields_ok e, EvidenceFieldConstraint),
       ((ed_history_state e = History_removed) \<noteq> (ed_history_removed_at e \<noteq> None),
        HistoryRemovalTime),
       (map mv_version (ed_material_history e) \<noteq> version_numbers (ed_material_version e),
        HistoryNotEveryVersion)]
      @ concat (map (\<lambda>v. before_guard (ed_updated_at e) (mv_archived_at v)
          EvidenceDatetimeTypeError HistoryArchivedLate) (ed_material_history e)))
     (Inr ())"

definition validate_link_state :: "evidence_link \<Rightarrow> evidence_error + unit" where
  [validity]: "validate_link_state l = guarded
     ([(el_source_claim_id l = el_target_claim_id l, LinkSameClaim),
       ((el_state l = Link_detached) \<noteq> (el_detached_at l \<noteq> None), LinkDetachmentTime)]
      @ before_guard (el_updated_at l) (el_created_at l) EvidenceDatetimeTypeError LinkUpdatedEarly
      @ [(\<not> opt_all (\<lambda>d. d = el_updated_at l) (el_detached_at l), LinkDetachmentNotLatest)])
     (Inr ())"

section \<open>Vocabulary and stages\<close>

definition REGISTERED_FIELD_CODES :: "string set" where
  "REGISTERED_FIELD_CODES = {
     ''policy.policy_number'', ''claimant.client_number'', ''claimant.role'',
     ''claimant.contact_preference'', ''claimant.relationship_to_policyholder'',
     ''policyholder.identity_ref'', ''policyholder.name'', ''claim.product_family'',
     ''incident.type'', ''incident.occurred_at'', ''incident.location'',
     ''incident.description'', ''incident.injury_or_danger'', ''incident.cause'',
     ''incident.liability_position'', ''loss.estimated_amount'',
     ''claim.cover_disagreement'', ''loss.description'', ''parties.other_parties'',
     ''authorities.police_report_reference'', ''authorities.emergency_services_notified'',
     ''vehicle.registration'', ''vehicle.damage_description'', ''vehicle.drivable'',
     ''vehicle.use'', ''vehicle.towing_required'', ''vehicle.towing_location'',
     ''driver.identity_ref'', ''driver.name'', ''driver.phone'', ''driver.email'',
     ''driver.relationship_to_policyholder'', ''driver.owner_permission'',
     ''driver.licence_number'', ''driver.licence_status'', ''other_party.insurer_name'',
     ''other_party.policy_number'', ''other_party.claim_reference'', ''witness.present'',
     ''witness.name'', ''witness.phone'', ''witness.email'', ''police.status'',
     ''property.address'', ''property.occupancy_relationship'', ''property.occupancy'',
     ''property.affected_areas'', ''property.ongoing_risk'', ''property.habitable'',
     ''injury.persons_affected'', ''injury.severity_reported'',
     ''injury.medical_attention'', ''incident.discovered_at'', ''theft.entry_context'',
     ''contents.police_reference''}"

definition REGISTERED_EVIDENCE_KINDS :: "string set" where
  "REGISTERED_EVIDENCE_KINDS = {
     ''agency_incident_record'', ''assessment_report'', ''claim_history'',
     ''claimant_attachment'', ''claimant_statement'', ''document'', ''external_assessment'',
     ''incident_photo'', ''incident_report'', ''internal_policy_history'', ''item_photo'',
     ''other_document'', ''policy'', ''police_report'', ''proof_of_ownership'', ''receipt'',
     ''repair_quote''}"

definition UNSPECIFIED_EVIDENCE_KINDS :: "string set" where
  "UNSPECIFIED_EVIDENCE_KINDS = {''other_document'', ''other''}"

definition REGISTERED_EVIDENCE_NEEDS :: "string set" where
  "REGISTERED_EVIDENCE_NEEDS = {
     ''current_action'', ''later_action'', ''liability_review'', ''professional_review'',
     ''repair_authorisation''}"

definition PENDING_FILE_STATES :: "evidence_file_status set" where
  "PENDING_FILE_STATES = {File_awaiting_upload, File_uploading, File_uploaded, File_processing}"

definition NO_ARTEFACT_STATUSES :: "evidence_status set" where
  "NO_ARTEFACT_STATUSES = {Evidence_missing, Evidence_unavailable}"

definition SETTLED_FILE_STATES :: "evidence_file_status set" where
  "SETTLED_FILE_STATES = {File_ready, File_failed}"

definition evidence_kind :: "evidence_record \<Rightarrow> (string \<times> string) list option \<Rightarrow> string" where
  "evidence_kind e interpreted =
     (if ed_kind e \<in> UNSPECIFIED_EVIDENCE_KINDS then
        (case interpreted of None \<Rightarrow> ed_kind e
         | Some read_kinds \<Rightarrow> (case dict_get read_kinds (ed_evidence_id e) of
             None \<Rightarrow> ed_kind e
           | Some k \<Rightarrow> if k \<noteq> [] \<and> k \<in> REGISTERED_EVIDENCE_KINDS then k else ed_kind e))
      else ed_kind e)"

definition validate_evidence_vocabulary ::
  "string \<Rightarrow> string list \<Rightarrow> string list \<Rightarrow> evidence_error + unit" where
  "validate_evidence_vocabulary kind related_fields needed_for = guarded
     [(kind \<notin> REGISTERED_EVIDENCE_KINDS, UnregisteredKind kind),
      (\<not> distinct related_fields, DuplicateRelatedFields),
      (\<not> set related_fields \<subseteq> REGISTERED_FIELD_CODES, UnregisteredRelatedFields),
      (\<not> distinct needed_for, DuplicateNeeds),
      (\<not> set needed_for \<subseteq> REGISTERED_EVIDENCE_NEEDS, UnregisteredNeeds)]
     (Inr ())"

definition unresolved_conflicts :: "evidence_reference list \<Rightarrow> string list" where
  "unresolved_conflicts rs = map (\<lambda>r. case er_evidence_id r of
       None \<Rightarrow> ''field:'' @ (case er_field_code r of None \<Rightarrow> ''None'' | Some f \<Rightarrow> f)
     | Some i \<Rightarrow> if i = [] then ''field:'' @ (case er_field_code r of None \<Rightarrow> ''None'' | Some f \<Rightarrow> f)
         else i)
     (filter (\<lambda>r. er_relation r = Relation_conflicts_with \<and> er_state r = Relation_unresolved) rs)"

definition is_in_conflict :: "evidence_reference list \<Rightarrow> bool" where
  "is_in_conflict rs \<longleftrightarrow> unresolved_conflicts rs \<noteq> []"

datatype evidence_stage =
    Evidence_stage_pending | Evidence_stage_unofficial | Evidence_stage_incomplete
  | Evidence_stage_not_yet_generated | Evidence_stage_received

definition lifecycle_stage_for :: "evidence_record \<Rightarrow> evidence_error + evidence_stage" where
  "lifecycle_stage_for e = (case (ed_status e, ed_file_status e) of
     (Evidence_unofficial, _) \<Rightarrow> Inr Evidence_stage_unofficial
   | (Evidence_pending, f) \<Rightarrow>
       if f = File_not_available then Inr Evidence_stage_not_yet_generated
       else if f \<in> PENDING_FILE_STATES then Inr Evidence_stage_pending
       else Inl (UnregisteredShape (ed_evidence_id e))
   | (Evidence_received, f) \<Rightarrow>
       if f = File_ready then Inr Evidence_stage_received
       else if f = File_processing then Inr Evidence_stage_pending
       else if f = File_failed then Inr Evidence_stage_incomplete
       else Inl (UnregisteredShape (ed_evidence_id e))
   | (Evidence_invalid, _) \<Rightarrow> Inr Evidence_stage_incomplete
   | _ \<Rightarrow> Inl (UnregisteredShape (ed_evidence_id e)))"

definition is_registered_evidence_shape :: "evidence_record \<Rightarrow> bool" where
  "is_registered_evidence_shape e =
     (if is_in_conflict (ed_references e)
        \<and> \<not> (ed_status e = Evidence_received \<and> ed_file_status e = File_ready) then False
      else if ed_status e \<in> NO_ARTEFACT_STATUSES then ed_file_status e = File_not_available
      else if ed_status e \<in> {Evidence_superseded, Evidence_expired, Evidence_invalid}
        then ed_file_status e \<in> SETTLED_FILE_STATES
      else (case lifecycle_stage_for e of Inl _ \<Rightarrow> False | Inr _ \<Rightarrow> True))"

definition reference_guards :: "evidence_record \<Rightarrow> evidence_reference \<Rightarrow> (bool \<times> evidence_error) list"
  where
  "reference_guards e r =
     [(\<not> opt_all (\<lambda>f. f \<in> REGISTERED_FIELD_CODES) (er_field_code r),
       UnregisteredReferenceField (case er_field_code r of None \<Rightarrow> [] | Some f \<Rightarrow> f)),
      (er_evidence_id r = Some (ed_evidence_id e), ReferencesItself)]"

definition validate_evidence_record :: "evidence_record \<Rightarrow> evidence_error + unit" where
  "validate_evidence_record e =
     bind_result
       (validate_evidence_vocabulary (ed_kind e) (ed_related_fields e) (ed_needed_for e))
       (\<lambda>_. guarded
         ([(\<not> is_registered_evidence_shape e, UnregisteredShape (ed_evidence_id e))]
          @ before_guard (ed_updated_at e) (ed_created_at e)
              EvidenceDatetimeTypeError UpdatedBeforeCreated
          @ concat (map (reference_guards e) (ed_references e)))
         (Inr ()))"

section \<open>The history of a material\<close>

definition preserves_generation :: "evidence_record \<Rightarrow> material_version \<Rightarrow> bool" where
  "preserves_generation e v \<longleftrightarrow>
     mv_version v = ed_material_version e \<and> mv_status v = ed_status e
     \<and> mv_file_status v = ed_file_status e \<and> mv_original_filename v = ed_original_filename e
     \<and> mv_media_type v = ed_media_type e \<and> mv_size_bytes v = ed_size_bytes e
     \<and> mv_references v = ed_references e \<and> same_items (mv_provenance v) (ed_provenance e)
     \<and> mv_wait_type v = ed_wait_type e \<and> mv_responsible_party v = ed_responsible_party e
     \<and> mv_expected_by v = ed_expected_by e \<and> mv_expected_timing v = ed_expected_timing e
     \<and> mv_context_summary v = ed_context_summary e"

text \<open>
  Archived generations are compared as \<open>material_version\<close> records, whose dictionaries are compared
  item by item.
\<close>

definition same_generation :: "material_version \<Rightarrow> material_version \<Rightarrow> bool" where
  "same_generation v w \<longleftrightarrow> same_items (mv_provenance v) (mv_provenance w)
     \<and> same_items (mv_proposed_fields v) (mv_proposed_fields w)
     \<and> v\<lparr>mv_provenance := [], mv_proposed_fields := []\<rparr> = w\<lparr>mv_provenance := [], mv_proposed_fields := []\<rparr>"

definition assert_material_history_is_append_only ::
  "evidence_record option \<Rightarrow> evidence_record \<Rightarrow> evidence_error + unit" where
  "assert_material_history_is_append_only previous incoming = (case previous of
     None \<Rightarrow> Inr ()
   | Some p \<Rightarrow>
       (let old = ed_material_history p; new = ed_material_history incoming in guarded
        [(length new < length old, HistoryShortened),
         (\<not> list_all2 same_generation (take (length old) new) old, HistoryRewritten),
         (ed_material_version incoming < ed_material_version p, VersionBackwards)]
        (if ed_material_version incoming = ed_material_version p then guarded
           [(\<not> list_all2 same_generation new old, EntryNeedsVersion)] (Inr ())
         else guarded
           [(ed_material_version incoming \<noteq> ed_material_version p + 1, VersionSkipped),
            (length new \<noteq> length old + 1, ExactlyOneEntry),
            (\<not> preserves_generation p (last new), GenerationNotPreserved)]
           (Inr ()))))"

section \<open>Roll-ups of a claim's evidence\<close>

record evidence_summary =
  sm_received :: int
  sm_pending :: int
  sm_needs_attention :: int

definition counts_pending :: "evidence_record \<Rightarrow> bool" where
  "counts_pending e \<longleftrightarrow> ed_status e = Evidence_pending \<or> ed_file_status e \<in> PENDING_FILE_STATES"

definition counts_received :: "evidence_record \<Rightarrow> bool" where
  "counts_received e \<longleftrightarrow> ed_status e = Evidence_received \<and> ed_file_status e = File_ready
     \<and> \<not> is_in_conflict (ed_references e)"

fun count_evidence :: "evidence_record list \<Rightarrow> evidence_summary \<Rightarrow> evidence_summary" where
  "count_evidence [] s = s"
| "count_evidence (e # es) s = count_evidence es
     (if counts_pending e then s\<lparr>sm_pending := sm_pending s + 1\<rparr>
      else if counts_received e then s\<lparr>sm_received := sm_received s + 1\<rparr>
      else s\<lparr>sm_needs_attention := sm_needs_attention s + 1\<rparr>)"

definition evidence_summary_for :: "evidence_record list \<Rightarrow> evidence_summary" where
  "evidence_summary_for es = count_evidence es \<lparr>sm_received = 0, sm_pending = 0, sm_needs_attention = 0\<rparr>"

definition evidence_state_for :: "evidence_record list \<Rightarrow> evidence_state" where
  "evidence_state_for es =
     (let statuses = set (map ed_status es) in
      if list_ex (\<lambda>e. is_in_conflict (ed_references e)) es then State_in_conflict
      else if Evidence_invalid \<in> statuses then State_invalid
      else if list_ex (\<lambda>e. ed_file_status e = File_failed) es then State_invalid
      else if Evidence_unofficial \<in> statuses then State_unofficial
      else if Evidence_unavailable \<in> statuses then State_unavailable
      else if Evidence_pending \<in> statuses \<or> Evidence_missing \<in> statuses then State_pending
      else if list_ex (\<lambda>e. ed_file_status e \<in> PENDING_FILE_STATES) es then State_pending
      else if es \<noteq> [] \<and> statuses \<subseteq> {Evidence_received, Evidence_superseded, Evidence_expired}
        then State_received
      else State_not_started)"

section \<open>Shapes\<close>

lemma is_in_conflict_iff: "is_in_conflict rs \<longleftrightarrow>
   (\<exists>r \<in> set rs. er_relation r = Relation_conflicts_with \<and> er_state r = Relation_unresolved)"
  by (auto simp: is_in_conflict_def unresolved_conflicts_def filter_empty_conv)

lemma registered_in_conflict:
  "is_registered_evidence_shape e \<Longrightarrow> is_in_conflict (ed_references e)
     \<Longrightarrow> ed_status e = Evidence_received \<and> ed_file_status e = File_ready"
  by (auto simp: is_registered_evidence_shape_def split: if_splits)

text \<open>The conditions a record reaches later have no entry stage; every other registered one has.\<close>

lemma registered_stage:
  assumes "is_registered_evidence_shape e"
  shows "(\<exists>g. lifecycle_stage_for e = Inr g)
    \<longleftrightarrow> ed_status e \<notin> {Evidence_missing, Evidence_unavailable, Evidence_superseded, Evidence_expired}"
  using assms
  by (cases "ed_status e")
    (auto simp: is_registered_evidence_shape_def lifecycle_stage_for_def NO_ARTEFACT_STATUSES_def
      split: if_splits sum.splits)

lemma registered_arrived:
  assumes "is_registered_evidence_shape e"
  shows "ed_status e \<in> {Evidence_superseded, Evidence_expired} \<Longrightarrow> ed_file_status e \<in> {File_ready, File_failed}"
    "ed_status e = Evidence_received \<Longrightarrow> ed_file_status e \<in> {File_ready, File_processing, File_failed}"
  using assms
  by (auto simp: is_registered_evidence_shape_def lifecycle_stage_for_def NO_ARTEFACT_STATUSES_def
      SETTLED_FILE_STATES_def split: if_splits sum.splits)

section \<open>Histories along a sequence of writes\<close>

lemma same_generation_refl [simp]: "same_generation v v"
  by (simp add: same_generation_def same_items_def)

lemma same_generation_trans: "same_generation u v \<Longrightarrow> same_generation v w \<Longrightarrow> same_generation u w"
  by (simp add: same_generation_def same_items_def)

lemma preserves_same_generation:
  assumes "preserves_generation e v" "same_generation w v"
  shows "preserves_generation e w"
  using assms
  by (cases v, cases w) (auto simp: preserves_generation_def same_generation_def same_items_def)

text \<open>One accepted write: the incoming record is valid and its history extends the stored one.\<close>

definition evidence_write :: "evidence_record \<Rightarrow> evidence_record \<Rightarrow> bool" where
  "evidence_write previous incoming \<longleftrightarrow>
     validate_material_history previous = Inr () \<and> validate_material_history incoming = Inr ()
     \<and> assert_material_history_is_append_only (Some previous) incoming = Inr ()"

definition history_extends :: "evidence_record \<Rightarrow> evidence_record \<Rightarrow> bool" where
  "history_extends p q \<longleftrightarrow> length (ed_material_history p) \<le> length (ed_material_history q)
     \<and> list_all2 same_generation
         (take (length (ed_material_history p)) (ed_material_history q)) (ed_material_history p)"

lemma valid_history_length:
  assumes "validate_material_history e = Inr ()"
  shows "int (length (ed_material_history e)) = ed_material_version e - 1"
proof -
  have "map mv_version (ed_material_history e) = [1..ed_material_version e - 1]"
    and pos: "1 \<le> ed_material_version e"
    using assms
    by (auto simp: validate_material_history_def version_numbers_def guarded_append
        evidence_fields_ok_def split: if_splits)
  then have "length (ed_material_history e) = length [1..ed_material_version e - 1]"
    by (metis length_map)
  then show ?thesis using pos by simp
qed

lemma evidence_write_cases:
  assumes "evidence_write p q"
  shows "history_extends p q \<and>
    (ed_material_version q = ed_material_version p
     \<or> ed_material_version q = ed_material_version p + 1
       \<and> preserves_generation p
           (ed_material_history q ! nat (ed_material_version p - 1)))"
proof -
  have accepted: "assert_material_history_is_append_only (Some p) q = Inr ()"
    and valid: "validate_material_history p = Inr ()" "validate_material_history q = Inr ()"
    using assms by (simp_all add: evidence_write_def)
  have extends: "history_extends p q"
    using accepted
    by (auto simp: assert_material_history_is_append_only_def history_extends_def Let_def
        split: if_splits)
  have "ed_material_version q = ed_material_version p + 1 \<and> preserves_generation p (last (ed_material_history q))"
    if "ed_material_version q \<noteq> ed_material_version p"
    using accepted that
    by (auto simp: assert_material_history_is_append_only_def Let_def split: if_splits)
  moreover have "last (ed_material_history q) = ed_material_history q ! nat (ed_material_version p - 1)"
    if "ed_material_version q = ed_material_version p + 1"
  proof -
    have pos: "1 \<le> ed_material_version p"
      using valid(1) by (auto simp: validate_material_history_def evidence_fields_ok_def split: if_splits)
    then have "length (ed_material_history q) = Suc (nat (ed_material_version p - 1))"
      using valid_history_length [OF valid(2)] that by simp
    then show ?thesis by (metis last_conv_nth length_0_conv nat.distinct(1) diff_Suc_1)
  qed
  ultimately show ?thesis using extends by auto
qed

lemma history_extends_refl [simp]: "history_extends e e"
  by (simp add: history_extends_def list.rel_refl)

lemma history_extends_nth:
  "history_extends p q \<Longrightarrow> i < length (ed_material_history p)
     \<Longrightarrow> same_generation (ed_material_history q ! i) (ed_material_history p ! i)"
  by (auto simp: history_extends_def list_all2_conv_all_nth)

lemma history_extends_trans:
  assumes "history_extends p q" "history_extends q r"
  shows "history_extends p r"
proof -
  have lengths: "length (ed_material_history p) \<le> length (ed_material_history q)"
    "length (ed_material_history q) \<le> length (ed_material_history r)"
    using assms by (simp_all add: history_extends_def)
  have "same_generation (ed_material_history r ! i) (ed_material_history p ! i)"
    if "i < length (ed_material_history p)" for i
    using that lengths history_extends_nth [OF assms(1)] history_extends_nth [OF assms(2)]
    by (meson order_less_le_trans same_generation_trans)
  then show ?thesis using lengths by (simp add: history_extends_def list_all2_conv_all_nth)
qed

lemma evidence_history_chain:
  assumes "successively evidence_write (e # es)"
  shows "history_extends e (last (e # es)) \<and> ed_material_version e \<le> ed_material_version (last (e # es))"
  using assms
proof (induction es arbitrary: e)
  case (Cons f es)
  have step: "evidence_write e f" and rest: "successively evidence_write (f # es)"
    using Cons.prems by simp_all
  show ?case
    using Cons.IH [OF rest] evidence_write_cases [OF step] by (auto intro: history_extends_trans)
qed simp

text \<open>
  Every generation that was replaced along a sequence of writes is in the final history: the entry
  of its version preserves the last record written with that version.
\<close>

lemma evidence_history_complete:
  assumes "successively evidence_write (e # es)"
    and "ed_material_version e \<le> n" "n < ed_material_version (last (e # es))"
    and "validate_material_history e = Inr ()"
  shows "\<exists>d \<in> set (e # es). ed_material_version d = n
    \<and> preserves_generation d (ed_material_history (last (e # es)) ! nat (n - 1))"
  using assms
proof (induction es arbitrary: e)
  case Nil
  then show ?case by simp
next
  case (Cons f es)
  have step: "evidence_write e f" and rest: "successively evidence_write (f # es)"
    using Cons.prems(1) by simp_all
  have valid: "validate_material_history f = Inr ()" using step by (simp add: evidence_write_def)
  have last: "last (e # f # es) = last (f # es)" by simp
  show ?case
  proof (cases "ed_material_version f \<le> n")
    case True
    then show ?thesis using Cons.IH [OF rest True _ valid] Cons.prems(3) by auto
  next
    case False
    then have n: "n = ed_material_version e" "ed_material_version f = n + 1"
      using evidence_write_cases [OF step] Cons.prems(2) by linarith+
    then have kept: "preserves_generation e (ed_material_history f ! nat (n - 1))"
      using evidence_write_cases [OF step] by auto
    have "1 \<le> n"
      using Cons.prems(4) n by (auto simp: validate_material_history_def evidence_fields_ok_def split: if_splits)
    then have "nat (n - 1) < length (ed_material_history f)"
      using valid_history_length [OF valid] n by simp
    then have "same_generation (ed_material_history (last (f # es)) ! nat (n - 1))
        (ed_material_history f ! nat (n - 1))"
      using evidence_history_chain [OF rest] history_extends_nth by blast
    then show ?thesis using preserves_same_generation [OF kept] n last by auto
  qed
qed

section \<open>Roll-ups\<close>

lemma count_evidence_counts:
  "sm_pending (count_evidence es s) = sm_pending s + int (length (filter counts_pending es))"
  "sm_received (count_evidence es s) =
     sm_received s + int (length (filter (\<lambda>e. \<not> counts_pending e \<and> counts_received e) es))"
  "sm_needs_attention (count_evidence es s) =
     sm_needs_attention s + int (length (filter (\<lambda>e. \<not> counts_pending e \<and> \<not> counts_received e) es))"
  by (induction es s rule: count_evidence.induct) auto

lemma three_way_split:
  "length (filter P xs) + length (filter (\<lambda>x. \<not> P x \<and> Q x) xs)
     + length (filter (\<lambda>x. \<not> P x \<and> \<not> Q x) xs) = length xs"
  by (induction xs) auto

lemma evidence_summary_total:
  "sm_received (evidence_summary_for es) + sm_pending (evidence_summary_for es)
     + sm_needs_attention (evidence_summary_for es) = int (length es)"
  unfolding three_way_split [of counts_pending es counts_received, symmetric]
  by (simp add: evidence_summary_for_def count_evidence_counts)

lemma length_filter_mset: "mset xs = mset ys \<Longrightarrow> length (filter P xs) = length (filter P ys)"
  by (metis mset_filter size_mset)

lemma evidence_summary_order:
  "mset es = mset es' \<Longrightarrow> evidence_summary_for es = evidence_summary_for es'"
  by (rule evidence_summary.equality)
    (auto simp: evidence_summary_for_def count_evidence_counts dest: length_filter_mset)

lemma evidence_state_order: "set es = set es' \<Longrightarrow> evidence_state_for es = evidence_state_for es'"
proof -
  assume same: "set es = set es'"
  have nil: "es = [] \<longleftrightarrow> es' = []" using same by (metis set_empty)
  show ?thesis by (simp only: evidence_state_for_def list_ex_iff set_map same nil)
qed

lemma evidence_state_not_started: "evidence_state_for es = State_not_started \<longleftrightarrow> es = []"
proof
  assume state: "evidence_state_for es = State_not_started"
  then have "\<not> {Evidence_invalid, Evidence_unofficial, Evidence_unavailable, Evidence_pending,
      Evidence_missing} \<inter> set (map ed_status es) \<noteq> {}"
    by (auto simp: evidence_state_for_def Let_def split: if_splits)
  moreover have "s \<in> {Evidence_received, Evidence_superseded, Evidence_expired}
      \<or> s \<in> {Evidence_invalid, Evidence_unofficial, Evidence_unavailable, Evidence_pending,
      Evidence_missing}" for s
    by (cases s) simp_all
  ultimately have "set (map ed_status es) \<subseteq> {Evidence_received, Evidence_superseded, Evidence_expired}"
    by blast
  then show "es = []" using state by (auto simp: evidence_state_for_def Let_def split: if_splits)
qed (simp add: evidence_state_for_def)

lemma evidence_state_received:
  assumes "\<forall>e \<in> set es. is_registered_evidence_shape e"
  shows "evidence_state_for es = State_received \<longleftrightarrow> es \<noteq> [] \<and>
    (\<forall>e \<in> set es. ed_status e \<in> {Evidence_received, Evidence_superseded, Evidence_expired}
       \<and> ed_file_status e = File_ready \<and> \<not> is_in_conflict (ed_references e))"
proof
  assume state: "evidence_state_for es = State_received"
  have "ed_file_status e = File_ready" if "e \<in> set es" for e
  proof -
    have shape: "is_registered_evidence_shape e" using assms that by blast
    have status: "ed_status e \<in> {Evidence_received, Evidence_superseded, Evidence_expired}"
      and settled: "ed_file_status e \<noteq> File_failed" "ed_file_status e \<notin> PENDING_FILE_STATES"
      using state that by (auto simp: evidence_state_for_def Let_def list_ex_iff split: if_splits)
    show ?thesis
      using registered_arrived [OF shape] status settled by (auto simp: PENDING_FILE_STATES_def)
  qed
  then show "es \<noteq> [] \<and> (\<forall>e \<in> set es. ed_status e \<in> {Evidence_received, Evidence_superseded, Evidence_expired}
       \<and> ed_file_status e = File_ready \<and> \<not> is_in_conflict (ed_references e))"
    using state by (auto simp: evidence_state_for_def Let_def list_ex_iff split: if_splits)
next
  assume right: "es \<noteq> [] \<and> (\<forall>e \<in> set es. ed_status e \<in> {Evidence_received, Evidence_superseded, Evidence_expired}
       \<and> ed_file_status e = File_ready \<and> \<not> is_in_conflict (ed_references e))"
  then have "set (map ed_status es) \<subseteq> {Evidence_received, Evidence_superseded, Evidence_expired}" by auto
  then show "evidence_state_for es = State_received"
    using right by (auto simp: evidence_state_for_def Let_def list_ex_iff PENDING_FILE_STATES_def)
qed

end
