(* ===== verification/Message_Order.thy ===== *)
theory Message_Order
  imports Evidence_Model
begin

text \<open>
  Messages and their causal order, from \<open>backend/domain/message.py\<close>: the topological order
  of replies, the acyclicity check of the reply graph, and the validation of one message
  against its persisted context. Message times are of one kind, all aware or all naive:
  Python raises \<open>TypeError\<close> when it compares a mixture. The heap of the source is the list of
  available messages, popped at its least key.
\<close>

section \<open>Records\<close>

datatype visibility = Claimant_visible | Shared | Internal_only

record message =
  ms_message_id :: string
  ms_claim_id :: string
  ms_session_id :: string
  ms_client_message_id :: "string option"
  ms_actor :: actor_type
  ms_visibility :: visibility
  ms_content :: "(string \<times> string) list"
  ms_evidence_refs :: "string list"
  ms_in_reply_to :: "string option"
  ms_recovery_rule_id :: "string option"
  ms_created_at :: datetime

datatype message_error =
    ReplyGraphCyclic
  | MessageUnknown
  | MessageAssociationMismatch
  | MessageContentEmpty
  | MessageVisibilityInconsistent
  | ClientIdNotClaimant
  | MessageEvidenceDuplicated
  | MessageEvidenceUnresolved
  | MessageEvidenceForeign
  | MessageRepliesToItself
  | MessageReplyForeign
  | DuplicateClientMessage

section \<open>The causal order\<close>

definition message_order_key :: "message \<Rightarrow> int \<times> string" where
  "message_order_key m = (instant (ms_created_at m), ms_message_id m)"

definition message_ids :: "message list \<Rightarrow> string list" where
  "message_ids messages = map ms_message_id messages"

definition replies :: "message list \<Rightarrow> string \<Rightarrow> message list" where
  "replies messages i = filter (\<lambda>m. ms_in_reply_to m = Some i) messages"

definition waits :: "message list \<Rightarrow> message \<Rightarrow> bool" where
  "waits messages m \<longleftrightarrow> (case ms_in_reply_to m of None \<Rightarrow> False
     | Some i \<Rightarrow> i \<in> set (message_ids messages))"

definition increment :: "(string \<times> int) list \<Rightarrow> string \<Rightarrow> int \<Rightarrow> (string \<times> int) list" where
  "increment degrees i d = (case dict_get degrees i of None \<Rightarrow> degrees
     | Some n \<Rightarrow> dict_put i (n + d) degrees)"

definition indegrees :: "message list \<Rightarrow> (string \<times> int) list" where
  "indegrees messages =
     foldl (\<lambda>degrees m. if waits messages m then increment degrees (ms_message_id m) 1 else degrees)
       (foldl (\<lambda>degrees m. dict_put (ms_message_id m) 0 degrees) [] messages) messages"

fun release ::
  "(string \<times> int) list \<times> message list \<Rightarrow> message \<Rightarrow> (string \<times> int) list \<times> message list" where
  "release (degrees, available) reply =
     (case dict_get degrees (ms_message_id reply) of
        None \<Rightarrow> (degrees, available)
      | Some n \<Rightarrow> (dict_put (ms_message_id reply) (n - 1) degrees,
                  if n - 1 = 0 then available @ [reply] else available))"

definition outstanding :: "(string \<times> int) list \<Rightarrow> nat" where
  "outstanding degrees = sum_list (map (\<lambda>p. nat (snd p)) degrees)"

lemma outstanding_put:
  "dict_get degrees i = Some n \<Longrightarrow>
     outstanding (dict_put i k degrees) + nat n = outstanding degrees + nat k"
  by (induction degrees) (auto simp: outstanding_def split: if_splits)

lemma release_measure:
  "outstanding (fst (release st r)) + length (snd (release st r))
     \<le> outstanding (fst st) + length (snd st)"
proof (cases "dict_get (fst st) (ms_message_id r)")
  case None
  then show ?thesis by (cases st) simp
next
  case (Some n)
  then show ?thesis
    using outstanding_put [OF Some, of "n - 1"] by (cases st; cases "0 < n") auto
qed

lemma releases_measure:
  "outstanding (fst (foldl release st rs)) + length (snd (foldl release st rs))
     \<le> outstanding (fst st) + length (snd st)"
proof (induction rs arbitrary: st)
  case (Cons r rs)
  then show ?case using order_trans [OF Cons.IH release_measure] by simp
qed simp

lemma earliest_in: "xs \<noteq> [] \<Longrightarrow> arg_min_list f xs \<in> set xs"
  by (rule arg_min_list_in)

function drain ::
  "message list \<Rightarrow> (string \<times> int) list \<times> message list \<Rightarrow> message list \<Rightarrow> message list" where
  "drain messages st ordered =
     (if snd st = [] then ordered
      else let m = arg_min_list message_order_key (snd st)
           in drain messages
                (foldl release (fst st, remove1 m (snd st)) (replies messages (ms_message_id m)))
                (ordered @ [m]))"
  by pat_completeness auto

termination
proof (relation "measure (\<lambda>(_, st, _). outstanding (fst st) + length (snd st))", goal_cases)
  case (2 messages st ordered m)
  have "length (remove1 m (snd st)) < length (snd st)"
    using 2 earliest_in [of "snd st" message_order_key] by (simp add: length_remove1)
  then show ?case
    using releases_measure [of "(fst st, remove1 m (snd st))" "replies messages (ms_message_id m)"]
    by simp
qed simp

declare drain.simps [simp del]

definition order_messages :: "message list \<Rightarrow> message list" where
  "order_messages messages =
     (let degrees = indegrees messages;
          available = filter (\<lambda>m. dict_get degrees (ms_message_id m) = Some 0) messages;
          ordered = drain messages (degrees, available) []
      in ordered @ sort_key message_order_key
           (filter (\<lambda>m. ms_message_id m \<notin> set (message_ids ordered)) messages))"

section \<open>Acyclicity of the reply graph\<close>

datatype mark = In_progress | Done

definition by_id :: "message list \<Rightarrow> (string \<times> message) list" where
  "by_id messages = foldl (\<lambda>d m. dict_put (ms_message_id m) m d) [] messages"

function visit ::
  "(string \<times> message) list \<Rightarrow> string \<Rightarrow> (string \<times> mark) list \<Rightarrow> message_error + (string \<times> mark) list"
where
  "visit ms i state =
     (case dict_get state i of
        Some In_progress \<Rightarrow> Inl ReplyGraphCyclic
      | Some Done \<Rightarrow> Inr state
      | None \<Rightarrow>
          (case dict_get ms i of
             None \<Rightarrow> Inl MessageUnknown
           | Some m \<Rightarrow>
               (case ms_in_reply_to m of
                  None \<Rightarrow> Inr (dict_put i Done (dict_put i In_progress state))
                | Some r \<Rightarrow>
                    if dict_get ms r = None
                    then Inr (dict_put i Done (dict_put i In_progress state))
                    else bind_result (visit ms r (dict_put i In_progress state))
                           (\<lambda>state'. Inr (dict_put i Done state')))))"
  by pat_completeness auto

termination
proof (relation "measure (\<lambda>(ms, i, state). card (fst ` set ms - fst ` set state))", goal_cases)
  case (2 ms i state m r)
  have "i \<in> fst ` set ms" "i \<notin> fst ` set state"
    using 2 by (auto simp: map_of_eq_None_iff dest: map_of_SomeD) (force dest: map_of_SomeD)
  then have "fst ` set ms - insert i (fst ` set state) \<subset> fst ` set ms - fst ` set state" by blast
  then show ?case
    using dict_keys_put [of i In_progress state] by (simp add: psubset_card_mono)
qed simp

declare visit.simps [simp del]

primrec visit_all ::
  "(string \<times> message) list \<Rightarrow> message list \<Rightarrow> (string \<times> mark) list
     \<Rightarrow> message_error + (string \<times> mark) list" where
  "visit_all ms [] state = Inr state"
| "visit_all ms (m # messages) state =
     bind_result (visit ms (ms_message_id m) state) (visit_all ms messages)"

definition validate_message_graph :: "message list \<Rightarrow> message_error + unit" where
  "validate_message_graph messages =
     bind_result (visit_all (by_id messages) messages []) (\<lambda>_. Inr ())"

section \<open>One message in its context\<close>

definition ACTOR_VISIBILITY :: "actor_type \<Rightarrow> visibility set" where
  "ACTOR_VISIBILITY a = (case a of
     Actor_claimant \<Rightarrow> {Claimant_visible, Shared}
   | Actor_agent \<Rightarrow> {Claimant_visible, Shared}
   | Actor_staff \<Rightarrow> {Claimant_visible, Shared, Internal_only}
   | Actor_system \<Rightarrow> {Claimant_visible, Shared, Internal_only})"

definition validate_message_record ::
  "message \<Rightarrow> session \<Rightarrow> evidence_record list \<Rightarrow> message option \<Rightarrow> message option
     \<Rightarrow> message_error + unit" where
  "validate_message_record m s evidence reply duplicate = guarded
     [(se_session_id s \<noteq> ms_session_id m \<or> se_claim_id s \<noteq> ms_claim_id m,
       MessageAssociationMismatch),
      (ms_content m = [], MessageContentEmpty),
      (ms_visibility m \<notin> ACTOR_VISIBILITY (ms_actor m), MessageVisibilityInconsistent),
      (ms_actor m \<noteq> Actor_claimant \<and> ms_client_message_id m \<noteq> None, ClientIdNotClaimant),
      (\<not> distinct (ms_evidence_refs m), MessageEvidenceDuplicated),
      (set (ms_evidence_refs m) \<noteq> set (map ed_evidence_id evidence), MessageEvidenceUnresolved),
      (list_ex (\<lambda>e. ed_claim_id e \<noteq> ms_claim_id m) evidence, MessageEvidenceForeign),
      (ms_in_reply_to m = Some (ms_message_id m), MessageRepliesToItself),
      (ms_in_reply_to m \<noteq> None
         \<and> (case reply of None \<Rightarrow> True
            | Some r \<Rightarrow> ms_claim_id r \<noteq> ms_claim_id m \<or> ms_session_id r \<noteq> ms_session_id m),
       MessageReplyForeign),
      (\<not> opt_all (\<lambda>d. ms_message_id d = ms_message_id m) duplicate, DuplicateClientMessage)]
     (Inr ())"

section \<open>The order is a causal permutation\<close>

definition order_state ::
  "message list \<Rightarrow> (string \<times> int) list \<times> message list \<Rightarrow> message list \<Rightarrow> bool" where
  "order_state messages st ordered \<longleftrightarrow>
     distinct (ordered @ snd st) \<and> set (ordered @ snd st) \<subseteq> set messages
     \<and> (\<forall>m\<in>set messages. dict_get (fst st) (ms_message_id m) = Some
          (if waits messages m \<and> the (ms_in_reply_to m) \<notin> set (message_ids ordered) then 1 else 0))
     \<and> (\<forall>m\<in>set messages. m \<in> set ordered \<union> set (snd st) \<longleftrightarrow>
          (waits messages m \<longrightarrow> the (ms_in_reply_to m) \<in> set (message_ids ordered)))"

definition causal :: "message list \<Rightarrow> message list \<Rightarrow> bool" where
  "causal messages xs \<longleftrightarrow> (\<forall>ys m zs. xs = ys @ m # zs \<and> waits messages m
     \<longrightarrow> the (ms_in_reply_to m) \<in> set (message_ids ys))"

lemma causal_snoc:
  "causal messages xs \<Longrightarrow> (waits messages m \<Longrightarrow> the (ms_in_reply_to m) \<in> set (message_ids xs))
     \<Longrightarrow> causal messages (xs @ [m])"
  by (auto simp: causal_def append_eq_append_conv2 Cons_eq_append_conv append_eq_Cons_conv)

lemma message_id_eq:
  "distinct (message_ids messages) \<Longrightarrow> m \<in> set messages \<Longrightarrow> m' \<in> set messages
     \<Longrightarrow> ms_message_id m = ms_message_id m' \<Longrightarrow> m = m'"
  by (auto simp: message_ids_def distinct_map inj_on_def)

lemma message_id_in_iff:
  "distinct (message_ids messages) \<Longrightarrow> m \<in> set messages \<Longrightarrow> set xs \<subseteq> set messages
     \<Longrightarrow> ms_message_id m \<in> set (message_ids xs) \<longleftrightarrow> m \<in> set xs"
  unfolding message_ids_def [of xs] set_map by (blast dest: message_id_eq)

lemma initial_degrees:
  "m \<in> set messages \<Longrightarrow>
     dict_get (foldl (\<lambda>d m. dict_put (ms_message_id m) 0 d) d messages) (ms_message_id m) = Some (0::int)"
proof (induction messages arbitrary: d)
  case (Cons x xs)
  have keep: "dict_get d i = Some 0 \<Longrightarrow>
      dict_get (foldl (\<lambda>d m. dict_put (ms_message_id m) 0 d) d xs) i = Some (0::int)" for d i
    by (induction xs arbitrary: d) auto
  show ?case using Cons keep by auto
qed simp

lemma counted_degrees:
  assumes "distinct (message_ids xs)" "\<forall>m\<in>set xs. dict_get d (ms_message_id m) \<noteq> None"
  shows "dict_get (foldl (\<lambda>d m. if P m then increment d (ms_message_id m) 1 else d) d xs) i =
    map_option (\<lambda>n. n + (if \<exists>m\<in>set xs. ms_message_id m = i \<and> P m then 1 else 0)) (dict_get d i)"
  using assms
proof (induction xs arbitrary: d)
  case (Cons x xs)
  let ?d = "if P x then increment d (ms_message_id x) 1 else d"
  have new: "\<forall>m\<in>set xs. dict_get ?d (ms_message_id m) \<noteq> None"
    using Cons.prems(2) by (auto simp: increment_def split: option.splits)
  have "dict_get (foldl (\<lambda>d m. if P m then increment d (ms_message_id m) 1 else d) d (x # xs)) i =
      map_option (\<lambda>n. n + (if \<exists>m\<in>set xs. ms_message_id m = i \<and> P m then 1 else 0)) (dict_get ?d i)"
    using Cons.IH [OF _ new] Cons.prems(1) by (simp add: message_ids_def)
  moreover have "i = ms_message_id x \<Longrightarrow> \<not> (\<exists>m\<in>set xs. ms_message_id m = i \<and> P m)"
    using Cons.prems(1) by (auto simp: message_ids_def image_iff)
  ultimately show ?case
    using Cons.prems(2) by (auto simp: increment_def option.map_comp split: option.splits)
qed (simp add: option.map_ident)

lemma indegrees_get:
  assumes "distinct (message_ids messages)" "m \<in> set messages"
  shows "dict_get (indegrees messages) (ms_message_id m) = Some (if waits messages m then 1 else 0)"
proof -
  have "(\<exists>m'\<in>set messages. ms_message_id m' = ms_message_id m \<and> waits messages m')
      \<longleftrightarrow> waits messages m"
    using assms message_id_eq by blast
  then show ?thesis
    unfolding indegrees_def
    by (subst counted_degrees) (simp_all add: assms initial_degrees)
qed

lemma releases_all:
  assumes "distinct (message_ids rs)" "\<forall>r\<in>set rs. dict_get d (ms_message_id r) = Some 1"
  shows "snd (foldl release (d, av) rs) = av @ rs
    \<and> (\<forall>i. dict_get (fst (foldl release (d, av) rs)) i =
          (if i \<in> set (message_ids rs) then Some 0 else dict_get d i))"
  using assms
proof (induction rs arbitrary: d av)
  case (Cons r rs)
  let ?d = "dict_put (ms_message_id r) 0 d"
  have "release (d, av) r = (?d, av @ [r])" using Cons.prems by simp
  moreover have "distinct (message_ids rs)"
      "\<forall>r'\<in>set rs. dict_get ?d (ms_message_id r') = Some 1"
    using Cons.prems by (auto simp: message_ids_def image_iff)
  ultimately show ?case
    using Cons.IH [of ?d "av @ [r]"] by (auto simp: message_ids_def simp del: release.simps)
qed (simp add: message_ids_def)

lemma order_state_initial:
  assumes "distinct (message_ids messages)"
  shows "order_state messages (indegrees messages,
     filter (\<lambda>m. dict_get (indegrees messages) (ms_message_id m) = Some 0) messages) []"
  using assms
  by (auto simp: order_state_def indegrees_get message_ids_def distinct_map)

lemma order_state_step:
  assumes ids: "distinct (message_ids messages)" and inv: "order_state messages st ordered"
    and m: "m \<in> set (snd st)"
  shows "order_state messages
     (foldl release (fst st, remove1 m (snd st)) (replies messages (ms_message_id m))) (ordered @ [m])"
proof -
  let ?rs = "replies messages (ms_message_id m)"
  have mem: "m \<in> set messages" "m \<notin> set ordered" "distinct (snd st)" "distinct ordered"
    "set ordered \<subseteq> set messages" "set (snd st) \<subseteq> set messages" "set ordered \<inter> set (snd st) = {}"
    using inv m by (auto simp: order_state_def)
  have fresh: "ms_message_id m \<notin> set (message_ids ordered)"
    using message_id_in_iff [OF ids mem(1,5)] mem(2) by blast
  have deg: "dict_get (fst st) (ms_message_id x) = Some
      (if waits messages x \<and> the (ms_in_reply_to x) \<notin> set (message_ids ordered) then 1 else 0)"
    and front: "x \<in> set ordered \<union> set (snd st) \<longleftrightarrow>
      (waits messages x \<longrightarrow> the (ms_in_reply_to x) \<in> set (message_ids ordered))"
    if "x \<in> set messages" for x
    using inv that by (auto simp: order_state_def)
  have rs: "set ?rs = {x \<in> set messages. ms_in_reply_to x = Some (ms_message_id m)}"
    by (auto simp: replies_def)
  have waiting: "waits messages x" if "x \<in> set ?rs" for x
    using that mem(1) by (auto simp: rs waits_def message_ids_def)
  have rs_ids: "distinct (message_ids ?rs)" "distinct ?rs"
    using ids by (auto simp: message_ids_def replies_def distinct_map intro: inj_on_subset)
  have ones: "\<forall>r\<in>set ?rs. dict_get (fst st) (ms_message_id r) = Some 1"
    using deg waiting fresh by (auto simp: rs)
  have new: "set ?rs \<inter> (set ordered \<union> set (snd st)) = {}"
    using front waiting fresh by (fastforce simp: rs)
  have in_rs: "ms_message_id x \<in> set (message_ids ?rs) \<longleftrightarrow> x \<in> set ?rs" if "x \<in> set messages" for x
    by (rule message_id_in_iff [OF ids that]) (auto simp: rs)
  note released = releases_all [OF rs_ids(1) ones, of "remove1 m (snd st)", THEN conjunct1]
    releases_all [OF rs_ids(1) ones, of "remove1 m (snd st)", THEN conjunct2, rule_format]
  have "distinct ((ordered @ [m]) @ snd (foldl release (fst st, remove1 m (snd st)) ?rs))"
    using released(1) mem m new rs_ids(2) by (auto simp: set_remove1_eq)
  moreover have "set ((ordered @ [m]) @ snd (foldl release (fst st, remove1 m (snd st)) ?rs))
      \<subseteq> set messages"
    using released(1) mem m by (auto simp: rs set_remove1_eq)
  moreover have "\<forall>x\<in>set messages.
      dict_get (fst (foldl release (fst st, remove1 m (snd st)) ?rs)) (ms_message_id x) = Some
      (if waits messages x \<and> the (ms_in_reply_to x) \<notin> set (message_ids (ordered @ [m])) then 1 else 0)"
    using released(2) deg in_rs by (auto simp: rs message_ids_def waits_def split: option.splits)
  moreover have "x \<in> set (ordered @ [m]) \<union> set (snd (foldl release (fst st, remove1 m (snd st)) ?rs)) \<longleftrightarrow>
      (waits messages x \<longrightarrow> the (ms_in_reply_to x) \<in> set (message_ids (ordered @ [m])))"
    if x: "x \<in> set messages" for x
  proof -
    have "x \<in> set (ordered @ [m]) \<union> set (snd (foldl release (fst st, remove1 m (snd st)) ?rs))
        \<longleftrightarrow> x \<in> set ordered \<union> set (snd st) \<or> x \<in> set ?rs"
      using released(1) m mem(3) by (auto simp: set_remove1_eq)
    then show ?thesis
      using front [OF x] waiting [of x] x
      by (cases "ms_in_reply_to x") (auto simp: rs message_ids_def waits_def)
  qed
  ultimately show ?thesis by (simp add: order_state_def)
qed

lemma drain_invariant:
  assumes "distinct (message_ids messages)" "order_state messages st ordered" "causal messages ordered"
  shows "\<exists>degrees. order_state messages (degrees, []) (drain messages st ordered)
     \<and> causal messages (drain messages st ordered)"
  using assms
proof (induction messages st ordered rule: drain.induct)
  case (1 messages st ordered)
  show ?case
  proof (cases "snd st = []")
    case True
    then show ?thesis using 1 by (cases st) (auto simp: drain.simps)
  next
    case False
    let ?m = "arg_min_list message_order_key (snd st)"
    have m: "?m \<in> set (snd st)" using False by (rule earliest_in)
    then have "waits messages ?m \<Longrightarrow> the (ms_in_reply_to ?m) \<in> set (message_ids ordered)"
      using 1(3) by (auto simp: order_state_def)
    then show ?thesis
      using 1(1) [OF False refl 1(2) order_state_step [OF 1(2,3) m] causal_snoc [OF 1(4)]] False
      by (simp add: drain.simps [of messages st ordered] Let_def)
  qed
qed


lemma ordered_part:
  fixes messages
  defines "ordered \<equiv> drain messages (indegrees messages,
     filter (\<lambda>m. dict_get (indegrees messages) (ms_message_id m) = Some 0) messages) []"
  assumes ids: "distinct (message_ids messages)"
  shows "distinct ordered" "set ordered \<subseteq> set messages" "causal messages ordered"
    "m \<in> set messages \<Longrightarrow> m \<in> set ordered \<longleftrightarrow>
       (waits messages m \<longrightarrow> the (ms_in_reply_to m) \<in> set (message_ids ordered))"
    "order_messages messages = ordered @ sort_key message_order_key
       (filter (\<lambda>m. m \<notin> set ordered) messages)"
proof -
  obtain degrees where "order_state messages (degrees, []) ordered" "causal messages ordered"
    unfolding ordered_def
    using drain_invariant [OF ids order_state_initial [OF ids]] by (auto simp: causal_def)
  then show *: "distinct ordered" "set ordered \<subseteq> set messages" "causal messages ordered"
    "m \<in> set messages \<Longrightarrow> m \<in> set ordered \<longleftrightarrow>
       (waits messages m \<longrightarrow> the (ms_in_reply_to m) \<in> set (message_ids ordered))"
    by (auto simp: order_state_def)
  have "filter (\<lambda>m. ms_message_id m \<notin> set (message_ids ordered)) messages
      = filter (\<lambda>m. m \<notin> set ordered) messages"
    using message_id_in_iff [OF ids _ *(2)] by (intro filter_cong) auto
  then show "order_messages messages = ordered @ sort_key message_order_key
      (filter (\<lambda>m. m \<notin> set ordered) messages)"
    by (simp add: order_messages_def ordered_def [symmetric] Let_def)
qed

lemma order_messages_permutation:
  assumes "distinct (message_ids messages)"
  shows "mset (order_messages messages) = mset messages"
proof -
  have "distinct messages" using assms by (simp add: message_ids_def distinct_map)
  then show ?thesis
    using ordered_part(1,2,5) [OF assms]
    by (subst set_eq_iff_mset_eq_distinct [symmetric]) (auto simp: distinct_filter)
qed

definition reply_edges :: "message list \<Rightarrow> (string \<times> string) set" where
  "reply_edges messages = {(ms_message_id m, i) |m i.
     m \<in> set messages \<and> ms_in_reply_to m = Some i \<and> i \<in> set (message_ids messages)}"

lemma finite_reply_edges: "finite (reply_edges messages)"
proof (rule finite_subset)
  show "reply_edges messages \<subseteq> set (message_ids messages) \<times> set (message_ids messages)"
    by (auto simp: reply_edges_def message_ids_def)
qed simp

lemma acyclic_all_ordered:
  assumes ids: "distinct (message_ids messages)" and ac: "acyclic (reply_edges messages)"
  shows "causal messages (order_messages messages)"
proof -
  let ?ordered = "drain messages (indegrees messages,
     filter (\<lambda>m. dict_get (indegrees messages) (ms_message_id m) = Some 0) messages) []"
  have wf: "wf ((reply_edges messages)\<inverse>)"
    by (rule finite_acyclic_wf_converse [OF finite_reply_edges ac])
  have "m \<in> set ?ordered" if "m \<in> set messages" for m
    using that
  proof (induction "ms_message_id m" arbitrary: m rule: wf_induct_rule [OF wf])
    case (1 m)
    show ?case
    proof (cases "waits messages m")
      case True
      then obtain p where p: "ms_in_reply_to m = Some (ms_message_id p)" "p \<in> set messages"
        by (auto simp: waits_def message_ids_def split: option.splits)
      then have "(ms_message_id p, ms_message_id m) \<in> (reply_edges messages)\<inverse>"
        using 1(2) by (auto simp: reply_edges_def message_ids_def)
      then have "p \<in> set ?ordered" using 1(1) p(2) by blast
      then show ?thesis
        using ordered_part(4) [OF ids 1(2)] p(1) by (auto simp: message_ids_def)
    qed (use ordered_part(4) [OF ids 1(2)] in blast)
  qed
  then have "order_messages messages = ?ordered"
    using ordered_part(5) [OF ids] by (simp add: filter_False)
  then show ?thesis using ordered_part(3) [OF ids] by simp
qed

section \<open>The order depends on the messages only\<close>

lemma earliest_cong:
  assumes "set xs = set ys" "xs \<noteq> []" "inj_on f (set xs)"
  shows "arg_min_list f xs = arg_min_list f ys"
proof -
  have "ys \<noteq> []" using assms by auto
  then have "f (arg_min_list f xs) = f (arg_min_list f ys)"
    using assms by (simp add: f_arg_min_list_f)
  then show ?thesis
    using assms earliest_in [of xs f] earliest_in [OF \<open>ys \<noteq> []\<close>, of f] by (auto dest: inj_onD)
qed

lemma available_set:
  assumes "order_state messages st ordered"
  shows "set (snd st) = {m \<in> set messages. waits messages m \<longrightarrow>
     the (ms_in_reply_to m) \<in> set (message_ids ordered)} - set ordered"
proof -
  have "m \<in> set (snd st) \<longleftrightarrow> m \<in> set messages \<and> m \<in> set ordered \<union> set (snd st) \<and> m \<notin> set ordered" for m
    using assms by (auto simp: order_state_def)
  then show ?thesis using assms by (auto simp: order_state_def simp del: Un_iff)
qed

lemma drain_cong:
  assumes "distinct (message_ids messages)" "distinct (message_ids messages')"
    and "set messages = set messages'"
    and "order_state messages st ordered" "order_state messages' st' ordered"
  shows "drain messages st ordered = drain messages' st' ordered"
  using assms
proof (induction messages st ordered arbitrary: st' rule: drain.induct)
  case (1 messages st ordered)
  have same: "waits messages m \<longleftrightarrow> waits messages' m" for m
    using 1(4) by (auto simp: waits_def message_ids_def split: option.splits)
  have front: "set (snd st) = set (snd st')"
    using available_set [OF 1(5)] available_set [OF 1(6)] 1(4) same by simp
  have "inj_on message_order_key (set (snd st))"
    using 1(2,5) by (auto simp: message_order_key_def order_state_def inj_on_def dest: message_id_eq)
  then have m: "snd st \<noteq> [] \<Longrightarrow>
      arg_min_list message_order_key (snd st) = arg_min_list message_order_key (snd st')"
    using earliest_cong [OF front] by simp
  show ?case
  proof (cases "snd st = []")
    case False
    let ?m = "arg_min_list message_order_key (snd st)"
    have in1: "?m \<in> set (snd st)" using False by (rule earliest_in)
    have in2: "?m \<in> set (snd st')" using in1 front by simp
    then have "snd st' \<noteq> []" by auto
    then show ?thesis
      using 1(1) [OF False refl 1(2-4) order_state_step [OF 1(2,5) in1] order_state_step [OF 1(3,6) in2]]
        False front m
      by (simp add: drain.simps [of messages st ordered] drain.simps [of messages' st' ordered] Let_def)
  qed (use front in \<open>simp add: drain.simps\<close>)
qed

lemma order_messages_canonical:
  assumes "distinct (message_ids messages)" "mset messages = mset messages'"
  shows "order_messages messages = order_messages messages'"
proof -
  have ids: "distinct (message_ids messages')"
    using assms mset_map [of ms_message_id] unfolding message_ids_def by (metis mset_eq_imp_distinct_iff)
  have set: "set messages = set messages'" using assms(2) by (rule mset_eq_setD)
  have "inj_on message_order_key (set messages)"
    using assms(1) by (auto simp: message_order_key_def inj_on_def dest: message_id_eq)
  then have "sort_key message_order_key (filter P messages)
      = sort_key message_order_key (filter P messages')" for P
    using assms(2) by (intro sort_key_eq_sort_key) (auto intro: inj_on_subset)
  then show ?thesis
    using ordered_part(5) [OF assms(1)] ordered_part(5) [OF ids]
      drain_cong [OF assms(1) ids set order_state_initial [OF assms(1)] order_state_initial [OF ids]]
    by simp
qed


section \<open>The graph check decides acyclicity\<close>

definition next_reply :: "(string \<times> message) list \<Rightarrow> string \<Rightarrow> string option" where
  "next_reply ms i = (case dict_get ms i of None \<Rightarrow> None
     | Some m \<Rightarrow> (case ms_in_reply_to m of None \<Rightarrow> None
         | Some r \<Rightarrow> if dict_get ms r = None then None else Some r))"

definition next_edges :: "(string \<times> message) list \<Rightarrow> (string \<times> string) set" where
  "next_edges ms = {(i, r). next_reply ms i = Some r}"

text \<open>A node is grounded when following its replies ends.\<close>

inductive grounded :: "(string \<times> message) list \<Rightarrow> string \<Rightarrow> bool" for ms where
  stop: "next_reply ms i = None \<Longrightarrow> grounded ms i"
| step: "next_reply ms i = Some r \<Longrightarrow> grounded ms r \<Longrightarrow> grounded ms i"

lemma visit_cases:
  "visit ms i state =
     (case dict_get state i of
        Some In_progress \<Rightarrow> Inl ReplyGraphCyclic
      | Some Done \<Rightarrow> Inr state
      | None \<Rightarrow> if dict_get ms i = None then Inl MessageUnknown
          else (case next_reply ms i of
             None \<Rightarrow> Inr (dict_put i Done (dict_put i In_progress state))
           | Some r \<Rightarrow> bind_result (visit ms r (dict_put i In_progress state))
                        (\<lambda>state'. Inr (dict_put i Done state'))))"
  by (subst visit.simps) (auto simp: next_reply_def split: option.splits mark.splits)

lemma next_reply_known: "next_reply ms i = Some r \<Longrightarrow> dict_get ms i \<noteq> None \<and> dict_get ms r \<noteq> None"
  by (auto simp: next_reply_def split: option.splits if_splits)

lemma visit_induct [consumes 0, case_names visit]:
  assumes "\<And>i state. (\<And>r. next_reply ms i = Some r \<Longrightarrow> dict_get state i = None \<Longrightarrow>
      P r (dict_put i In_progress state)) \<Longrightarrow> P i state"
  shows "P i state"
  using assms
proof (induction ms i state rule: visit.induct)
  case (1 ms i state)
  show ?case
  proof (rule 1(2))
    fix r assume r: "next_reply ms i = Some r" "dict_get state i = None"
    then obtain m where "dict_get ms i = Some m" "ms_in_reply_to m = Some r" "dict_get ms r \<noteq> None"
      by (auto simp: next_reply_def split: option.splits if_splits)
    then show "P r (dict_put i In_progress state)" using 1(1) [OF r(2)] 1(2) by blast
  qed
qed

lemma visit_sound:
  assumes "visit ms i state = Inr state'" "\<forall>j. dict_get state j = Some Done \<longrightarrow> grounded ms j"
  shows "(\<forall>j. dict_get state' j = Some Done \<longrightarrow> grounded ms j) \<and> dict_get state' i = Some Done"
  using assms
proof (induction i state arbitrary: state' rule: visit_induct [of ms])
  case (visit i state)
  show ?case
  proof (cases "dict_get state i")
    case None
    show ?thesis
    proof (cases "next_reply ms i")
      case stop: None
      then show ?thesis
        using visit.prems None by (auto simp: visit_cases [of ms i state] intro: grounded.stop split: if_splits)
    next
      case nxt: (Some r)
      then obtain s where s: "visit ms r (dict_put i In_progress state) = Inr s"
        "state' = dict_put i Done s"
        using visit.prems(1) None
        by (auto simp: visit_cases [of ms i state] bind_result_Inr_iff split: if_splits)
      have "\<forall>j. dict_get (dict_put i In_progress state) j = Some Done \<longrightarrow> grounded ms j"
        using visit.prems(2) by simp
      from visit.IH [OF nxt None s(1) this] show ?thesis using s(2) grounded.step [OF nxt] by auto
    qed
  next
    case (Some k)
    then show ?thesis using visit.prems by (cases k) (auto simp: visit_cases [of ms i state])
  qed
qed

lemma grounded_acyclic: "grounded ms i \<Longrightarrow> (i, i) \<notin> (next_edges ms)\<^sup>+"
proof -
  have reach: "grounded ms j \<Longrightarrow> (j, k) \<in> (next_edges ms)\<^sup>+ \<Longrightarrow> (k, k) \<notin> (next_edges ms)\<^sup>+" for j k
  proof (induction arbitrary: k rule: grounded.induct)
    case (stop i)
    then show ?case by (auto simp: next_edges_def elim: converse_tranclE)
  next
    case (step i r)
    have "(i, k) \<in> next_edges ms \<or> (\<exists>y. (i, y) \<in> next_edges ms \<and> (y, k) \<in> (next_edges ms)\<^sup>+)"
      using step.prems by (metis converse_tranclE)
    then have "k = r \<or> (r, k) \<in> (next_edges ms)\<^sup>+" using step.hyps(1) by (auto simp: next_edges_def)
    then show ?case using step.IH by blast
  qed
  then show "grounded ms i \<Longrightarrow> (i, i) \<notin> (next_edges ms)\<^sup>+" by blast
qed

lemma visit_complete:
  assumes "grounded ms i" "dict_get ms i \<noteq> None"
    and "\<forall>j. dict_get state j = Some In_progress \<longrightarrow> (j, i) \<in> (next_edges ms)\<^sup>+"
  shows "\<exists>state'. visit ms i state = Inr state'
    \<and> (\<forall>j. j \<noteq> i \<longrightarrow> (dict_get state' j = Some In_progress \<longleftrightarrow> dict_get state j = Some In_progress))
    \<and> dict_get state' i = Some Done"
  using assms
proof (induction i arbitrary: state rule: grounded.induct)
  case (stop i)
  have "dict_get state i \<noteq> Some In_progress"
    using grounded_acyclic [OF grounded.stop [OF stop(1)]] stop.prems(2) by blast
  then show ?case using stop.prems(1)
    by (cases "dict_get state i"; cases "the (dict_get state i)")
      (auto simp: visit_cases [of ms i state] stop(1))
next
  case (step i r)
  have not_mine: "dict_get state i \<noteq> Some In_progress"
    using grounded_acyclic [OF grounded.step [OF step(1,2)]] step.prems(2) by blast
  show ?case
  proof (cases "dict_get state i")
    case None
    have edge: "(i, r) \<in> next_edges ms" using step(1) by (simp add: next_edges_def)
    have "\<forall>j. dict_get (dict_put i In_progress state) j = Some In_progress
        \<longrightarrow> (j, r) \<in> (next_edges ms)\<^sup>+"
      using step.prems(2) edge by (auto intro: trancl_into_trancl)
    then obtain s where s: "visit ms r (dict_put i In_progress state) = Inr s"
      "\<forall>j. j \<noteq> r \<longrightarrow> (dict_get s j = Some In_progress
         \<longleftrightarrow> dict_get (dict_put i In_progress state) j = Some In_progress)"
      "dict_get s r = Some Done"
      using step.IH [of "dict_put i In_progress state"] next_reply_known [OF step(1)] by blast
    have "dict_get state r \<noteq> Some In_progress"
    proof
      assume "dict_get state r = Some In_progress"
      then have "(r, r) \<in> (next_edges ms)\<^sup>+" using step.prems(2) edge by (auto intro: trancl_into_trancl)
      then show False using grounded_acyclic [OF step(2)] by blast
    qed
    then have "dict_get s j = Some In_progress \<longleftrightarrow> dict_get state j = Some In_progress"
      if "j \<noteq> i" for j
      using s(2,3) that by (cases "j = r") auto
    then show ?thesis
      using s(1) step.prems(1) by (auto simp: visit_cases [of ms i state] None step(1))
  next
    case (Some k)
    then show ?thesis using not_mine by (cases k) (auto simp: visit_cases [of ms i state])
  qed
qed

lemma visit_all_sound:
  assumes "visit_all ms xs state = Inr state'" "\<forall>j. dict_get state j = Some Done \<longrightarrow> grounded ms j"
  shows "\<forall>m\<in>set xs. grounded ms (ms_message_id m)"
  using assms
proof (induction xs arbitrary: state)
  case (Cons m xs)
  then obtain s where s: "visit ms (ms_message_id m) state = Inr s" "visit_all ms xs s = Inr state'"
    by (auto simp: bind_result_Inr_iff)
  show ?case using visit_sound [OF s(1) Cons.prems(2)] Cons.IH [OF s(2)] by auto
qed simp

lemma visit_all_complete:
  assumes "\<forall>m\<in>set xs. grounded ms (ms_message_id m) \<and> dict_get ms (ms_message_id m) \<noteq> None"
    and "\<forall>j. dict_get state j \<noteq> Some In_progress"
  shows "\<exists>state'. visit_all ms xs state = Inr state'"
  using assms
proof (induction xs arbitrary: state)
  case (Cons m xs)
  obtain s where s: "visit ms (ms_message_id m) state = Inr s"
    "\<forall>j. j \<noteq> ms_message_id m \<longrightarrow> (dict_get s j = Some In_progress \<longleftrightarrow> dict_get state j = Some In_progress)"
    "dict_get s (ms_message_id m) = Some Done"
    using visit_complete [of ms "ms_message_id m" state] Cons.prems by auto
  then have "\<forall>j. dict_get s j \<noteq> Some In_progress" using Cons.prems(2) by (metis mark.distinct(1) option.inject)
  then show ?case using Cons.IH [of s] Cons.prems(1) s(1) by auto
qed simp

lemma by_id_get: "dict_get (by_id messages) i = map_of (rev (map (\<lambda>m. (ms_message_id m, m)) messages)) i"
proof -
  have "dict_get (foldl (\<lambda>d m. dict_put (ms_message_id m) m d) d messages) i =
      map_of (rev (map (\<lambda>m. (ms_message_id m, m)) messages) @ d) i" for d
    by (induction messages arbitrary: d) (auto simp: map_add_def fun_eq_iff split: option.splits)
  then show ?thesis by (simp add: by_id_def)
qed

lemma by_id_known: "dict_get (by_id messages) i \<noteq> None \<longleftrightarrow> i \<in> set (message_ids messages)"
  by (auto simp: by_id_get map_of_eq_None_iff message_ids_def image_iff)

lemma grounded_iff_acyclic:
  "(\<forall>m\<in>set messages. grounded (by_id messages) (ms_message_id m))
     \<longleftrightarrow> acyclic (next_edges (by_id messages))"
proof
  assume all: "\<forall>m\<in>set messages. grounded (by_id messages) (ms_message_id m)"
  show "acyclic (next_edges (by_id messages))"
  proof (rule acyclicI, rule allI, rule notI)
    fix i assume cyc: "(i, i) \<in> (next_edges (by_id messages))\<^sup>+"
    then obtain r where "next_reply (by_id messages) i = Some r"
      by (auto simp: next_edges_def elim: converse_tranclE)
    then have "i \<in> set (message_ids messages)" using next_reply_known by_id_known by blast
    then show False using all cyc grounded_acyclic by (auto simp: message_ids_def)
  qed
next
  assume ac: "acyclic (next_edges (by_id messages))"
  have "next_edges (by_id messages) \<subseteq> set (message_ids messages) \<times> set (message_ids messages)"
    using next_reply_known [of "by_id messages"] by_id_known by (auto simp: next_edges_def)
  then have "finite (next_edges (by_id messages))" by (rule finite_subset) simp
  then have wf: "wf ((next_edges (by_id messages))\<inverse>)" using ac by (rule finite_acyclic_wf_converse)
  have "grounded (by_id messages) i" for i
  proof (induction i rule: wf_induct_rule [OF wf])
    case (1 i)
    then show ?case
      by (cases "next_reply (by_id messages) i")
        (auto simp: next_edges_def intro: grounded.intros)
  qed
  then show "\<forall>m\<in>set messages. grounded (by_id messages) (ms_message_id m)" by blast
qed

lemma message_graph_valid_iff:
  "validate_message_graph messages = Inr () \<longleftrightarrow> acyclic (next_edges (by_id messages))"
proof -
  have "\<forall>m\<in>set messages. dict_get (by_id messages) (ms_message_id m) \<noteq> None"
    unfolding by_id_known by (simp add: message_ids_def)
  then show ?thesis
    using visit_all_sound [of "by_id messages" messages "[]"]
      visit_all_complete [of messages "by_id messages" "[]"]
    unfolding grounded_iff_acyclic [symmetric] validate_message_graph_def
    by (auto simp: bind_result_Inr_iff)
qed

lemma next_edges_distinct:
  assumes "distinct (message_ids messages)"
  shows "next_edges (by_id messages) = reply_edges messages"
proof -
  have get: "dict_get (by_id messages) i = Some m \<longleftrightarrow> m \<in> set messages \<and> ms_message_id m = i" for i m
    unfolding by_id_get using assms
    by (subst map_of_eq_Some_iff) (auto simp: rev_map [symmetric] comp_def message_ids_def)
  have "next_reply (by_id messages) i = Some r \<longleftrightarrow>
      (\<exists>m\<in>set messages. ms_message_id m = i \<and> ms_in_reply_to m = Some r \<and> r \<in> set (message_ids messages))"
    for i r
  proof (cases "dict_get (by_id messages) i")
    case None
    then show ?thesis using get [of i] by (auto simp: next_reply_def)
  next
    case (Some m)
    then have pick: "(\<exists>m\<in>set messages. ms_message_id m = i \<and> ms_in_reply_to m = Some r
        \<and> r \<in> set (message_ids messages)) \<longleftrightarrow>
        ms_in_reply_to m = Some r \<and> r \<in> set (message_ids messages)"
      by (metis get option.inject)
    show ?thesis
      unfolding pick unfolding by_id_known [symmetric]
      by (cases "ms_in_reply_to m") (auto simp: next_reply_def Some)
  qed
  then show ?thesis by (auto simp: next_edges_def reply_edges_def)
qed

lemma validated_order_causal:
  assumes "distinct (message_ids messages)" "validate_message_graph messages = Inr ()"
  shows "causal messages (order_messages messages)"
  using acyclic_all_ordered [OF assms(1)] assms(2)
  by (simp add: message_graph_valid_iff next_edges_distinct [OF assms(1)])

end
