(* ===== verification/Audit_Events.thy ===== *)
theory Audit_Events
  imports Follow_Up_Model
begin

text \<open>
  The audit event contract (\<open>backend/domain/audit.py\<close>): the vocabularies, the envelope and
  its validation. An event is built by \<open>new_audit_event\<close>, which fails like the constructor of
  the model.
\<close>

section \<open>Vocabularies\<close>

datatype audit_event_type =
    CONSENT_GRANTED | CONSENT_DECLINED | CONSENT_WITHDRAWN | PERMISSION_AUTHORISED
  | PERMISSION_REJECTED | ACTION_PREPARED | ACTION_COMPLETED | ACTION_FAILED
  | ACTION_UNKNOWN_OUTCOME | ACCESS_DENIED | AGENT_TURN_RECOVERY | INCOMPLETE_CLAIM_RECOVERY
  | INCOMPLETE_CLAIM_RECOVERY_EXPIRED | RETENTION_ELIGIBLE | RETENTION_RECONCILIATION_REQUIRED
  | RETENTION_ACCESS_DENIED

datatype audit_outcome = Audit_succeeded | Audit_rejected | Audit_failed | Audit_unknown

datatype audit_subject_type =
    Subject_claim | Subject_customer | Subject_asset | Subject_policy | Subject_identity
  | Subject_payment_destination | Subject_external_request | Subject_configuration | Subject_access

datatype audit_visibility =
    Audit_claimant_visible | Audit_shared | Audit_internal_only | Audit_administration_only
  | Audit_only

datatype audit_permission_outcome = Permission_authorised | Permission_rejected | Permission_review_required

section \<open>The envelope\<close>

record audit_subject =
  as_subject_type :: audit_subject_type
  as_subject_id :: string
  as_claim_id :: "string option"

record audit_actor = actor_reference +
  aa_auth_source :: string

record audit_permission =
  ap_required_permission :: string
  ap_outcome :: audit_permission_outcome

record audit_event =
  au_event_id :: string
  au_event_type :: audit_event_type
  au_outcome :: audit_outcome
  au_subject :: audit_subject
  au_actor :: audit_actor
  au_reason :: string
  au_source_refs :: "string list"
  au_permission :: "audit_permission option"
  au_consent_ref :: "string option"
  au_consent_state :: "string option"
  au_visibility :: audit_visibility
  au_correlation_id :: "string option"
  au_idempotency_key :: "string option"
  au_claim_revision :: "int option"
  au_created_at :: datetime

abbreviation au_claim_id :: "audit_event \<Rightarrow> string option" where
  "au_claim_id e \<equiv> as_claim_id (au_subject e)"

definition event_id_char :: "char \<Rightarrow> bool" where
  "event_id_char c \<longleftrightarrow> c \<in> set ''abcdefghijklmnopqrstuvwxyzABCDEFGHIJKLMNOPQRSTUVWXYZ0123456789_-''"

definition event_id_pattern :: "string \<Rightarrow> bool" where
  "event_id_pattern i \<longleftrightarrow> take 4 i = ''aud_'' \<and> bounded_text 1 96 (drop 4 i)
     \<and> list_all event_id_char (drop 4 i)"

section \<open>Validation\<close>

datatype audit_error =
    AuditFieldConstraint
  | ClaimSubjectRepeated
  | PermissionRequired
  | ConsentRequired
  | ClaimRevisionRequired

definition audit_subject_guards :: "audit_subject \<Rightarrow> (bool \<times> audit_error) list" where
  "audit_subject_guards b =
    [(\<not> bounded_text 1 200 (as_subject_id b) \<or> \<not> opt_all (bounded_text 1 100) (as_claim_id b),
      AuditFieldConstraint),
     (as_subject_type b = Subject_claim \<and> as_claim_id b \<noteq> Some (as_subject_id b), ClaimSubjectRepeated)]"

definition audit_field_ok :: "audit_event \<Rightarrow> bool" where
  "audit_field_ok e \<longleftrightarrow> event_id_pattern (au_event_id e) \<and> bounded_text 1 1000 (au_reason e)
     \<and> length (au_source_refs e) \<le> 100 \<and> opt_all (bounded_text 1 100) (au_consent_ref e)
     \<and> opt_all (bounded_text 1 50) (au_consent_state e)
     \<and> opt_all (bounded_text 1 100) (au_correlation_id e)
     \<and> opt_all (bounded_text 1 200) (au_idempotency_key e) \<and> opt_all (\<lambda>r. 1 \<le> r) (au_claim_revision e)"

definition audit_requirement_guards :: "audit_event \<Rightarrow> (bool \<times> audit_error) list" where
  "audit_requirement_guards e =
    [(au_event_type e \<in> {PERMISSION_AUTHORISED, PERMISSION_REJECTED} \<and> au_permission e = None,
      PermissionRequired),
     (au_event_type e \<in> {CONSENT_GRANTED, CONSENT_DECLINED, CONSENT_WITHDRAWN}
        \<and> (au_consent_ref e = None \<or> au_consent_state e = None), ConsentRequired),
     (as_subject_type (au_subject e) = Subject_claim \<and> au_claim_revision e = None,
      ClaimRevisionRequired)]"

definition new_audit_event :: "audit_event \<Rightarrow> audit_error + audit_event" where
  "new_audit_event e = guarded
     (audit_subject_guards (au_subject e)
      @ [(\<not> bounded_text 1 100 (aa_auth_source (au_actor e)), AuditFieldConstraint),
         (\<not> opt_all (\<lambda>p. bounded_text 1 150 (ap_required_permission p)) (au_permission e),
          AuditFieldConstraint),
         (\<not> audit_field_ok e, AuditFieldConstraint)]
      @ audit_requirement_guards e)
     (Inr e)"

section \<open>Derived identities\<close>

lemma hexdigest_event_chars: "list_all event_id_char (take n (sha256_hexdigest m))"
proof -
  have "set (take n (sha256_hexdigest m)) \<subseteq> set ''0123456789abcdef''"
    using set_take_subset set_hexdigest by (rule subset_trans)
  moreover have "list_all event_id_char ''0123456789abcdef''" by (simp add: event_id_char_def)
  ultimately show ?thesis unfolding list_all_iff by blast
qed

lemma derived_event_id:
  assumes "list_all event_id_char p" "length p \<le> 32" "16 \<le> n" "n \<le> 64"
  shows "event_id_pattern (''aud_'' @ p @ take n (sha256_hexdigest m))"
  using assms hexdigest_event_chars [of n m]
  by (simp add: event_id_pattern_def bounded_text_def length_hexdigest)

end
