(* ===== verification/Python_Text.thy ===== *)
theory Python_Text
  imports Northwind_Prelude
begin

text \<open>
  The string methods of the Python standard library that several components call, on ASCII text:
  \<open>strip\<close>, \<open>lower\<close> (which on ASCII text is \<open>casefold\<close>), \<open>split\<close> without arguments, \<open>startswith\<close>,
  \<open>endswith\<close> and \<open>replace\<close> of one character by nothing.
\<close>

definition is_space :: "char \<Rightarrow> bool" where
  "is_space c \<longleftrightarrow> (let n = of_char c :: nat in 9 \<le> n \<and> n \<le> 13 \<or> 28 \<le> n \<and> n \<le> 32)"

definition blank :: "string \<Rightarrow> bool" where
  "blank s \<longleftrightarrow> list_all is_space s"

definition py_strip :: "string \<Rightarrow> string" where
  "py_strip s = rev (dropWhile is_space (rev (dropWhile is_space s)))"

definition lower_char :: "char \<Rightarrow> char" where
  "lower_char c = (let n = of_char c :: nat in if 65 \<le> n \<and> n \<le> 90 then char_of (n + 32) else c)"

definition py_lower :: "string \<Rightarrow> string" where
  "py_lower s = map lower_char s"

function py_split :: "string \<Rightarrow> string list" where
  "py_split s = (case dropWhile is_space s of [] \<Rightarrow> []
     | t \<Rightarrow> takeWhile (\<lambda>c. \<not> is_space c) t # py_split (dropWhile (\<lambda>c. \<not> is_space c) t))"
  by pat_completeness auto
termination
proof (relation "measure length")
  fix s t c r
  assume t: "dropWhile is_space s = c # r"
  then have "\<not> is_space c" using hd_dropWhile [of is_space s] by simp
  moreover have "length (c # r) \<le> length s" using length_dropWhile_le [of is_space s] t by simp
  moreover have "length (dropWhile (\<lambda>c. \<not> is_space c) r) \<le> length r" by (rule length_dropWhile_le)
  ultimately show "(dropWhile (\<lambda>c. \<not> is_space c) (c # r), s) \<in> measure length" by simp
qed simp

declare py_split.simps [simp del]

definition starts_with :: "string \<Rightarrow> string \<Rightarrow> bool" where
  "starts_with p s \<longleftrightarrow> take (length p) s = p"

definition ends_with :: "string \<Rightarrow> string \<Rightarrow> bool" where
  "ends_with p s \<longleftrightarrow> length p \<le> length s \<and> drop (length s - length p) s = p"

definition without_char :: "char \<Rightarrow> string \<Rightarrow> string" where
  "without_char c s = filter (\<lambda>d. d \<noteq> c) s"

lemma py_strip_Nil_iff: "py_strip s = [] \<longleftrightarrow> blank s"
proof
  assume "py_strip s = []"
  then have "list_all is_space (dropWhile is_space s)"
    by (auto simp: py_strip_def dropWhile_eq_Nil_conv list_all_iff)
  then have "dropWhile is_space s = []"
    by (metis dropWhile_eq_Nil_conv dropWhile_idem list_all_iff)
  then show "blank s" by (auto simp: blank_def list_all_iff dropWhile_eq_Nil_conv)
qed (auto simp: blank_def py_strip_def list_all_iff dropWhile_eq_Nil_conv dest: set_dropWhileD)

end
