(* ===== verification/External_Registry.thy ===== *)
theory External_Registry
  imports Python_Text
begin

text \<open>
  The registry of external services (\<open>backend/domain/external_service_registry.py\<close>): the
  lifecycle vocabulary with its stages, legal next statuses and wordings, the eight registered
  services, the checks a persisted task and its moves must pass, and the projection shown to the
  agent and to staff. A status argument of the Python functions is an enumeration member or its
  value; here it is the value, a string, and \<open>lifecycle_status_of\<close> is the conversion that may
  fail. The lemmas show that the tables are consistent, that a persisted operation moves at most
  three times and never leaves a settled status, that only simulated services can hold an external
  task, and what a projection may state.
\<close>

section \<open>Vocabulary\<close>

definition REGISTRY_VERSION :: string where
  "REGISTRY_VERSION = ''external-service-lifecycle.v1''"

datatype lifecycle_status =
    Lc_consent_required | Lc_authorised | Lc_prepared | Lc_submitting | Lc_accepted | Lc_queued
  | Lc_assigned | Lc_retryable_failure | Lc_terminal_failure | Lc_unknown_outcome
  | Lc_result_received | Lc_result_verified | Lc_written_back

datatype lifecycle_stage = Stage_preparation | Stage_operation | Stage_result

datatype capability_provenance =
    Capability_configured | Capability_simulated | Capability_manual | Capability_unavailable

datatype result_verification =
    Result_unverified | Result_consistent | Result_inconsistent | Result_review_required

datatype presentation =
    Present_info_link | Present_action_button | Present_consent_request | Present_tracked_task
  | Present_agent_assisted | Present_status_update

fun verification_value :: "result_verification \<Rightarrow> string" where
  "verification_value Result_unverified = ''unverified''"
| "verification_value Result_consistent = ''consistent''"
| "verification_value Result_inconsistent = ''inconsistent''"
| "verification_value Result_review_required = ''review_required''"

definition lifecycle_statuses :: "lifecycle_status list" where
  "lifecycle_statuses = [Lc_consent_required, Lc_authorised, Lc_prepared, Lc_submitting,
     Lc_accepted, Lc_queued, Lc_assigned, Lc_retryable_failure, Lc_terminal_failure,
     Lc_unknown_outcome, Lc_result_received, Lc_result_verified, Lc_written_back]"

lemma set_lifecycle_statuses [simp]: "set lifecycle_statuses = UNIV"
proof -
  have "s \<in> set lifecycle_statuses" for s
    by (cases s) (simp_all add: lifecycle_statuses_def)
  then show ?thesis by auto
qed

section \<open>Lifecycle definitions\<close>

text \<open>The columns of \<open>_DEFINITIONS\<close>, \<open>_STATE_INVARIANTS\<close> and \<open>_TRANSITION_PRECONDITIONS\<close>.\<close>

fun lifecycle_value :: "lifecycle_status \<Rightarrow> string" where
  "lifecycle_value Lc_consent_required = ''consent_required''"
| "lifecycle_value Lc_authorised = ''authorised''"
| "lifecycle_value Lc_prepared = ''prepared''"
| "lifecycle_value Lc_submitting = ''submitting''"
| "lifecycle_value Lc_accepted = ''accepted''"
| "lifecycle_value Lc_queued = ''queued''"
| "lifecycle_value Lc_assigned = ''assigned''"
| "lifecycle_value Lc_retryable_failure = ''retryable_failure''"
| "lifecycle_value Lc_terminal_failure = ''terminal_failure''"
| "lifecycle_value Lc_unknown_outcome = ''unknown_outcome''"
| "lifecycle_value Lc_result_received = ''result_received''"
| "lifecycle_value Lc_result_verified = ''result_verified''"
| "lifecycle_value Lc_written_back = ''written_back''"

fun stage_of :: "lifecycle_status \<Rightarrow> lifecycle_stage" where
  "stage_of Lc_consent_required = Stage_preparation"
| "stage_of Lc_authorised = Stage_preparation"
| "stage_of Lc_prepared = Stage_preparation"
| "stage_of Lc_submitting = Stage_operation"
| "stage_of Lc_accepted = Stage_operation"
| "stage_of Lc_queued = Stage_operation"
| "stage_of Lc_assigned = Stage_operation"
| "stage_of Lc_retryable_failure = Stage_operation"
| "stage_of Lc_terminal_failure = Stage_operation"
| "stage_of Lc_unknown_outcome = Stage_operation"
| "stage_of Lc_result_received = Stage_result"
| "stage_of Lc_result_verified = Stage_result"
| "stage_of Lc_written_back = Stage_result"

fun claimant_meaning :: "lifecycle_status \<Rightarrow> string" where
  "claimant_meaning Lc_consent_required = ''Your permission is needed before sharing.''"
| "claimant_meaning Lc_authorised = ''Permission and Northwind authority are recorded.''"
| "claimant_meaning Lc_prepared = ''The request is ready but not sent.''"
| "claimant_meaning Lc_submitting = ''The request is being sent.''"
| "claimant_meaning Lc_accepted = ''The service acknowledged the request; completion is not confirmed.''"
| "claimant_meaning Lc_queued = ''The request is waiting with the service.''"
| "claimant_meaning Lc_assigned = ''A service participant has been assigned; work is not complete.''"
| "claimant_meaning Lc_retryable_failure = ''The request did not complete and may be retried.''"
| "claimant_meaning Lc_terminal_failure = ''The request needs professional review.''"
| "claimant_meaning Lc_unknown_outcome = ''We cannot confirm whether the request reached the service.''"
| "claimant_meaning Lc_result_received = ''A result was received but is not verified.''"
| "claimant_meaning Lc_result_verified = ''The result was checked against the Claim.''"
| "claimant_meaning Lc_written_back = ''The authorised result was recorded in the Claim or Evidence boundary.''"

fun staff_meaning :: "lifecycle_status \<Rightarrow> string" where
  "staff_meaning Lc_consent_required = ''Obtain and verify task-specific consent.''"
| "staff_meaning Lc_authorised = ''Review the authorised disclosure.''"
| "staff_meaning Lc_prepared = ''Confirm disclosure and submit once.''"
| "staff_meaning Lc_submitting = ''Observe delivery evidence.''"
| "staff_meaning Lc_accepted = ''Track the provider response.''"
| "staff_meaning Lc_queued = ''Monitor the queue.''"
| "staff_meaning Lc_assigned = ''Monitor assignment and result.''"
| "staff_meaning Lc_retryable_failure = ''The claimant may retry the same operation; no staff action is required.''"
| "staff_meaning Lc_terminal_failure = ''Review before any new request.''"
| "staff_meaning Lc_unknown_outcome = ''Reconcile by operation or provider reference before retry.''"
| "staff_meaning Lc_result_received = ''Check result against the current Claim and evidence.''"
| "staff_meaning Lc_result_verified = ''Use only through an authorised Claim decision.''"
| "staff_meaning Lc_written_back = ''Review the recorded provenance and revision.''"

fun agent_meaning :: "lifecycle_status \<Rightarrow> string" where
  "agent_meaning Lc_consent_required = ''Do not submit until consent is granted.''"
| "agent_meaning Lc_authorised = ''Prepare only the authorised fields.''"
| "agent_meaning Lc_prepared = ''May propose submission; cannot bypass consent.''"
| "agent_meaning Lc_submitting = ''Wait for the operation result.''"
| "agent_meaning Lc_accepted = ''Do not treat acknowledgement as completion.''"
| "agent_meaning Lc_queued = ''Report pending progress only.''"
| "agent_meaning Lc_assigned = ''Do not infer a verified result.''"
| "agent_meaning Lc_retryable_failure = ''Retry only when the contract permits.''"
| "agent_meaning Lc_terminal_failure = ''Do not retry automatically.''"
| "agent_meaning Lc_unknown_outcome = ''Reconcile before proposing another side effect.''"
| "agent_meaning Lc_result_received = ''Keep result advisory until verification.''"
| "agent_meaning Lc_result_verified = ''Do not promote facts without Claim decision.''"
| "agent_meaning Lc_written_back = ''Use the authoritative projection.''"

fun terminal_status :: "lifecycle_status \<Rightarrow> bool" where
  "terminal_status Lc_terminal_failure = True"
| "terminal_status Lc_written_back = True"
| "terminal_status _ = False"

fun allowed_next :: "lifecycle_status \<Rightarrow> lifecycle_status list" where
  "allowed_next Lc_consent_required = [Lc_authorised]"
| "allowed_next Lc_authorised = [Lc_prepared]"
| "allowed_next Lc_prepared = [Lc_submitting]"
| "allowed_next Lc_submitting = [Lc_accepted, Lc_queued, Lc_retryable_failure, Lc_unknown_outcome]"
| "allowed_next Lc_accepted = [Lc_queued, Lc_assigned, Lc_result_received]"
| "allowed_next Lc_queued = [Lc_assigned, Lc_result_received, Lc_unknown_outcome]"
| "allowed_next Lc_assigned = [Lc_result_received]"
| "allowed_next Lc_retryable_failure = [Lc_submitting]"
| "allowed_next Lc_terminal_failure = []"
| "allowed_next Lc_unknown_outcome = [Lc_accepted, Lc_terminal_failure]"
| "allowed_next Lc_result_received = [Lc_result_verified]"
| "allowed_next Lc_result_verified = [Lc_written_back]"
| "allowed_next Lc_written_back = []"

fun recovery_wording :: "lifecycle_status \<Rightarrow> string" where
  "recovery_wording Lc_consent_required = ''Request consent; no external side effect.''"
| "recovery_wording Lc_authorised = ''Prepare the disclosed payload.''"
| "recovery_wording Lc_prepared = ''Submit with the existing operation identity.''"
| "recovery_wording Lc_submitting = ''Use idempotency and delivery evidence.''"
| "recovery_wording Lc_accepted = ''Await provider result.''"
| "recovery_wording Lc_queued = ''Track by operation identity.''"
| "recovery_wording Lc_assigned = ''Await result evidence.''"
| "recovery_wording Lc_retryable_failure = ''Retry the same operation identity.''"
| "recovery_wording Lc_terminal_failure = ''Review required; no automatic retry.''"
| "recovery_wording Lc_unknown_outcome = ''Reconcile before retry.''"
| "recovery_wording Lc_result_received = ''Verify against Claim revision.''"
| "recovery_wording Lc_result_verified = ''Apply an explicit Claim decision.''"
| "recovery_wording Lc_written_back = ''No operation retry; amend through Claim rules.''"

fun claim_state_effect :: "lifecycle_status \<Rightarrow> string" where
  "claim_state_effect Lc_consent_required = ''No Claim State change.''"
| "claim_state_effect Lc_authorised = ''No Claim State change.''"
| "claim_state_effect Lc_prepared = ''No Claim State change.''"
| "claim_state_effect Lc_submitting = ''Claim remains unchanged.''"
| "claim_state_effect Lc_accepted = ''No automatic Claim State change.''"
| "claim_state_effect Lc_queued = ''No automatic Claim State change.''"
| "claim_state_effect Lc_assigned = ''No automatic Claim State change.''"
| "claim_state_effect Lc_retryable_failure = ''No Claim State change.''"
| "claim_state_effect Lc_terminal_failure = ''Record failure; do not mutate Claim facts.''"
| "claim_state_effect Lc_unknown_outcome = ''Claim remains unchanged.''"
| "claim_state_effect Lc_result_received = ''No Claim State change.''"
| "claim_state_effect Lc_result_verified = ''Still not Claim State by itself.''"
| "claim_state_effect Lc_written_back = ''Explicit, revision-checked write-back only.''"

fun status_requires_reconciliation :: "lifecycle_status \<Rightarrow> bool" where
  "status_requires_reconciliation Lc_unknown_outcome = True"
| "status_requires_reconciliation _ = False"

fun state_invariants :: "lifecycle_status \<Rightarrow> string list" where
  "state_invariants Lc_consent_required = [''claim_scope'', ''consent_pending'']"
| "state_invariants Lc_authorised = [''claim_scope'', ''consent_ref'', ''authorised_revision'']"
| "state_invariants Lc_prepared = [''claim_scope'', ''request_id'', ''authorisation'', ''disclosed_fields'', ''prepared_at'']"
| "state_invariants Lc_submitting = [''claim_scope'', ''operation_id'', ''idempotency_key'', ''authorisation'', ''dispatch_reserved_at'']"
| "state_invariants Lc_accepted = [''claim_scope'', ''delivery'', ''delivery_evidence'']"
| "state_invariants Lc_queued = [''claim_scope'', ''delivery_evidence'', ''operation_id'']"
| "state_invariants Lc_assigned = [''claim_scope'', ''delivery_evidence'', ''provider_reference'']"
| "state_invariants Lc_retryable_failure = [''claim_scope'', ''failure_code'', ''delivery'']"
| "state_invariants Lc_terminal_failure = [''claim_scope'', ''failure_code'', ''delivery'']"
| "state_invariants Lc_unknown_outcome = [''claim_scope'', ''failure_code'', ''delivery'']"
| "state_invariants Lc_result_received = [''claim_scope'', ''source'', ''received_at'', ''evidence_ids'']"
| "state_invariants Lc_result_verified = [''claim_scope'', ''verification'', ''verified_at'', ''verified_against_revision'']"
| "state_invariants Lc_written_back = [''claim_scope'', ''authorised_decision'', ''resulting_revision'', ''provenance_refs'']"

fun transition_preconditions :: "lifecycle_status \<Rightarrow> string list" where
  "transition_preconditions Lc_consent_required = [''consent_ref'', ''granted_at'']"
| "transition_preconditions Lc_authorised = [''disclosed_fields'', ''purpose'', ''prepared_at'']"
| "transition_preconditions Lc_prepared = [''operation_id'', ''idempotency_key'', ''dispatch_reserved_at'']"
| "transition_preconditions Lc_submitting = [''sent_at'', ''delivery_evidence'']"
| "transition_preconditions Lc_accepted = [''source'', ''received_at'']"
| "transition_preconditions Lc_queued = [''provider_reference'']"
| "transition_preconditions Lc_assigned = [''source'', ''received_at'']"
| "transition_preconditions Lc_retryable_failure = [''operation_id'', ''retry_same_operation'']"
| "transition_preconditions Lc_terminal_failure = []"
| "transition_preconditions Lc_unknown_outcome = [''reconciliation_evidence'']"
| "transition_preconditions Lc_result_received = [''verified_at'', ''verified_against_revision'']"
| "transition_preconditions Lc_result_verified = [''authorised_decision'', ''resulting_revision'']"
| "transition_preconditions Lc_written_back = []"

lemmas lifecycle_wordings = claimant_meaning.simps staff_meaning.simps agent_meaning.simps
  recovery_wording.simps claim_state_effect.simps state_invariants.simps
  transition_preconditions.simps

declare lifecycle_wordings [simp del]

record lifecycle_row =
  ld_status :: lifecycle_status
  ld_stage :: lifecycle_stage
  ld_claimant_meaning :: string
  ld_staff_meaning :: string
  ld_agent_meaning :: string
  ld_terminal :: bool
  ld_allowed_next :: "lifecycle_status list"
  ld_recovery :: string
  ld_claim_state_effect :: string
  ld_state_invariants :: "string list"
  ld_transition_preconditions :: "string list"
  ld_requires_reconciliation :: bool
  ld_implies_completion :: bool

definition lifecycle_entry :: "lifecycle_status \<Rightarrow> lifecycle_row" where
  "lifecycle_entry s = \<lparr>ld_status = s, ld_stage = stage_of s,
     ld_claimant_meaning = claimant_meaning s, ld_staff_meaning = staff_meaning s,
     ld_agent_meaning = agent_meaning s, ld_terminal = terminal_status s,
     ld_allowed_next = allowed_next s, ld_recovery = recovery_wording s,
     ld_claim_state_effect = claim_state_effect s, ld_state_invariants = state_invariants s,
     ld_transition_preconditions = transition_preconditions s,
     ld_requires_reconciliation = status_requires_reconciliation s,
     ld_implies_completion = False\<rparr>"

definition lifecycle_registry :: "lifecycle_row list" where
  "lifecycle_registry = map lifecycle_entry lifecycle_statuses"

datatype definition_error =
    UnknownMustReconcile | UnknownCannotComplete | AcknowledgedCannotComplete | TerminalHasNext

definition validate_safety_invariants :: "lifecycle_row \<Rightarrow> definition_error + unit" where
  "validate_safety_invariants d = guarded
     [(ld_status d = Lc_unknown_outcome \<and> \<not> ld_requires_reconciliation d, UnknownMustReconcile),
      (ld_status d = Lc_unknown_outcome \<and> ld_implies_completion d, UnknownCannotComplete),
      (ld_status d \<in> {Lc_accepted, Lc_assigned} \<and> ld_implies_completion d,
       AcknowledgedCannotComplete),
      (ld_terminal d \<and> ld_allowed_next d \<noteq> [], TerminalHasNext)]
     (Inr ())"

definition lifecycle_status_of :: "string \<Rightarrow> lifecycle_status option" where
  "lifecycle_status_of v = find (\<lambda>s. lifecycle_value s = v) lifecycle_statuses"

lemma lifecycle_status_of_value [simp]: "lifecycle_status_of (lifecycle_value s) = Some s"
  by (cases s) (simp_all add: lifecycle_status_of_def lifecycle_statuses_def)

lemma lifecycle_status_of_Some_iff: "lifecycle_status_of v = Some s \<longleftrightarrow> lifecycle_value s = v"
  by (auto simp: lifecycle_status_of_def find_Some_iff dest: nth_mem)
    (metis lifecycle_status_of_def lifecycle_status_of_value find_Some_iff)

section \<open>Registered services\<close>

record service_entry =
  svc_service_identity :: string
  svc_catalogue_reference :: "string option"
  svc_provenance :: capability_provenance
  svc_access_form :: string
  svc_presentation :: presentation
  svc_uses_external_task :: bool
  svc_projectable_statuses :: "lifecycle_status list"
  svc_transient_statuses :: "lifecycle_status list"
  svc_limitation :: string
  svc_service_name :: string
  svc_provider_name :: string
  svc_purpose :: string
  svc_requested_action :: string
  svc_product_families :: "string list"
  svc_required_fields :: "string list"
  svc_disclosure_fields :: "string list"
  svc_official_url :: "string option"
  svc_official_phone :: "string option"
  svc_adapter_kind :: string
  svc_result_semantics :: string

definition default_projectable :: "lifecycle_status list" where
  "default_projectable = [Lc_prepared, Lc_accepted, Lc_queued, Lc_assigned,
     Lc_retryable_failure, Lc_terminal_failure, Lc_unknown_outcome]"

definition assessor_entry :: service_entry where
  "assessor_entry = \<lparr>
     svc_service_identity = ''vehicle_damage_assessment_routing'',
     svc_catalogue_reference = Some ''P3-ASSESSOR'',
     svc_provenance = Capability_simulated,
     svc_access_form = ''controlled assessor simulation'',
     svc_presentation = Present_consent_request,
     svc_uses_external_task = True,
     svc_projectable_statuses = [Lc_consent_required, Lc_authorised, Lc_prepared, Lc_accepted, Lc_queued, Lc_assigned, Lc_retryable_failure, Lc_terminal_failure, Lc_unknown_outcome],
     svc_transient_statuses = [Lc_submitting],
     svc_limitation = ''Assignment confirms service ownership, not completion of the assessment.'',
     svc_service_name = ''Vehicle damage assessment'',
     svc_provider_name = ''Approved assessor adapter'',
     svc_purpose = ''Request an external assessment of vehicle damage and repairability.'',
     svc_requested_action = ''vehicle_damage_assessment'',
     svc_product_families = [''motor''],
     svc_required_fields = [''incident.location''],
     svc_disclosure_fields = [''claim_id'', ''external_claim_id'', ''authorisation_ref'', ''claimant_consent_ref'', ''requested_action'', ''location.region''],
     svc_official_url = None,
     svc_official_phone = None,
     svc_adapter_kind = ''assessor_task_adapter'',
     svc_result_semantics = ''Assessment result is external evidence and requires verification.''\<rparr>"

definition recovery_entry :: service_entry where
  "recovery_entry = \<lparr>
     svc_service_identity = ''vehicle_recovery_request'',
     svc_catalogue_reference = Some ''P3-RECOVERY'',
     svc_provenance = Capability_simulated,
     svc_access_form = ''controlled recovery request'',
     svc_presentation = Present_consent_request,
     svc_uses_external_task = True,
     svc_projectable_statuses = default_projectable,
     svc_transient_statuses = [],
     svc_limitation = ''Acceptance records a request, not completed vehicle recovery.'',
     svc_service_name = ''Vehicle recovery'',
     svc_provider_name = ''Registered recovery adapter'',
     svc_purpose = ''Arrange recovery when the vehicle is unsafe or not drivable.'',
     svc_requested_action = ''request_vehicle_recovery'',
     svc_product_families = [''motor''],
     svc_required_fields = [''vehicle.drivable'', ''incident.location''],
     svc_disclosure_fields = [''vehicle.drivable'', ''incident.location'', ''incident.description''],
     svc_official_url = None,
     svc_official_phone = None,
     svc_adapter_kind = ''recovery_request_adapter'',
     svc_result_semantics = ''Provider acknowledgement, assignment and completion are distinct results.''\<rparr>"

definition repairer_booking_entry :: service_entry where
  "repairer_booking_entry = \<lparr>
     svc_service_identity = ''vehicle_repairer_booking'',
     svc_catalogue_reference = Some ''P3-REPAIR'',
     svc_provenance = Capability_simulated,
     svc_access_form = ''repair booking request'',
     svc_presentation = Present_consent_request,
     svc_uses_external_task = True,
     svc_projectable_statuses = default_projectable,
     svc_transient_statuses = [],
     svc_limitation = ''A booking is not confirmed until a provider result is received and verified.'',
     svc_service_name = ''Vehicle repair booking'',
     svc_provider_name = ''Registered repairer adapter'',
     svc_purpose = ''Send an authorised repair request with the minimum necessary claim context.'',
     svc_requested_action = ''book_vehicle_repair'',
     svc_product_families = [''motor''],
     svc_required_fields = [''vehicle.damage_description'', ''incident.location''],
     svc_disclosure_fields = [''vehicle.damage_description'', ''incident.location''],
     svc_official_url = None,
     svc_official_phone = None,
     svc_adapter_kind = ''repair_request_adapter'',
     svc_result_semantics = ''Repairer response may be accepted, queued, assigned or unavailable.''\<rparr>"

definition home_repair_entry :: service_entry where
  "home_repair_entry = \<lparr>
     svc_service_identity = ''home_emergency_repair_request'',
     svc_catalogue_reference = Some ''P3-HOME-REPAIR'',
     svc_provenance = Capability_simulated,
     svc_access_form = ''controlled emergency repair request'',
     svc_presentation = Present_consent_request,
     svc_uses_external_task = True,
     svc_projectable_statuses = default_projectable,
     svc_transient_statuses = [],
     svc_limitation = ''Urgency and property access must be confirmed before dispatch.'',
     svc_service_name = ''Home emergency repair'',
     svc_provider_name = ''Registered home-services adapter'',
     svc_purpose = ''Request emergency mitigation for insured home damage.'',
     svc_requested_action = ''request_emergency_home_repair'',
     svc_product_families = [''home''],
     svc_required_fields = [''property.address'', ''loss.description'', ''property.ongoing_risk''],
     svc_disclosure_fields = [''property.address'', ''loss.description'', ''property.ongoing_risk''],
     svc_official_url = None,
     svc_official_phone = None,
     svc_adapter_kind = ''home_repair_request_adapter'',
     svc_result_semantics = ''Provider result records whether mitigation was accepted, assigned or completed.''\<rparr>"

definition contents_entry :: service_entry where
  "contents_entry = \<lparr>
     svc_service_identity = ''contents_specialist_assessment'',
     svc_catalogue_reference = Some ''P3-CONTENTS-ASSESSOR'',
     svc_provenance = Capability_simulated,
     svc_access_form = ''contents assessment request'',
     svc_presentation = Present_consent_request,
     svc_uses_external_task = True,
     svc_projectable_statuses = default_projectable,
     svc_transient_statuses = [],
     svc_limitation = ''A specialist opinion remains evidence until the Claim decision path verifies it.'',
     svc_service_name = ''Contents specialist assessment'',
     svc_provider_name = ''Registered contents assessor adapter'',
     svc_purpose = ''Request specialist assessment for high-value or complex contents loss.'',
     svc_requested_action = ''request_contents_assessment'',
     svc_product_families = [''contents''],
     svc_required_fields = [''contents.items'', ''incident.location''],
     svc_disclosure_fields = [''contents.items'', ''incident.location''],
     svc_official_url = None,
     svc_official_phone = None,
     svc_adapter_kind = ''contents_assessment_adapter'',
     svc_result_semantics = ''The result identifies assessed items and recommendations, not automatic entitlement.''\<rparr>"

definition repairer_link_entry :: service_entry where
  "repairer_link_entry = \<lparr>
     svc_service_identity = ''repairer_information_or_link'',
     svc_catalogue_reference = Some ''P3-REPAIRER'',
     svc_provenance = Capability_manual,
     svc_access_form = ''claimant-provided link or staff-mediated request'',
     svc_presentation = Present_info_link,
     svc_uses_external_task = False,
     svc_projectable_statuses = [],
     svc_transient_statuses = [],
     svc_limitation = ''Manual path; no synthetic ExternalTask is created for an official link.'',
     svc_service_name = ''Repairer information'',
     svc_provider_name = ''Registered repairer directory'',
     svc_purpose = ''Help the claimant find an appropriate repairer.'',
     svc_requested_action = ''open_repairer_information'',
     svc_product_families = [''motor''],
     svc_required_fields = [],
     svc_disclosure_fields = [],
     svc_official_url = Some ''https://www.aa.co.nz/cars/repair-and-maintenance/'',
     svc_official_phone = None,
     svc_adapter_kind = ''official_link'',
     svc_result_semantics = ''The claimant follows the official link; Northwind does not claim a booking.''\<rparr>"

definition police_105_entry :: service_entry where
  "police_105_entry = \<lparr>
     svc_service_identity = ''police_105_reporting_guidance'',
     svc_catalogue_reference = Some ''P3-NZP-REPORT'',
     svc_provenance = Capability_manual,
     svc_access_form = ''official 105 link or phone guidance'',
     svc_presentation = Present_info_link,
     svc_uses_external_task = False,
     svc_projectable_statuses = [],
     svc_transient_statuses = [],
     svc_limitation = ''Manual guidance path; Northwind does not submit or read Police status.'',
     svc_service_name = ''Police 105 reporting'',
     svc_provider_name = ''New Zealand Police'',
     svc_purpose = ''Provide the official non-emergency reporting channel.'',
     svc_requested_action = ''open_police_105_guidance'',
     svc_product_families = [''motor'', ''home'', ''contents''],
     svc_required_fields = [],
     svc_disclosure_fields = [],
     svc_official_url = Some ''https://105.police.govt.nz/'',
     svc_official_phone = Some ''105'',
     svc_adapter_kind = ''official_link_or_phone'',
     svc_result_semantics = ''The Police website or phone service owns the report and its status.''\<rparr>"

definition police_tcr_entry :: service_entry where
  "police_tcr_entry = \<lparr>
     svc_service_identity = ''police_traffic_crash_report_guidance'',
     svc_catalogue_reference = Some ''P3-NZP-TCR'',
     svc_provenance = Capability_manual,
     svc_access_form = ''official TCR request guidance or staff-mediated path'',
     svc_presentation = Present_info_link,
     svc_uses_external_task = False,
     svc_projectable_statuses = [],
     svc_transient_statuses = [],
     svc_limitation = ''Guidance/manual path; Northwind does not claim Police submission.'',
     svc_service_name = ''Traffic crash reporting guidance'',
     svc_provider_name = ''New Zealand Police'',
     svc_purpose = ''Provide the official traffic crash reporting guidance.'',
     svc_requested_action = ''open_traffic_crash_guidance'',
     svc_product_families = [''motor''],
     svc_required_fields = [],
     svc_disclosure_fields = [],
     svc_official_url = Some ''https://www.police.govt.nz/advice/driving-and-road-safety/traffic-crash-reporting'',
     svc_official_phone = Some ''105'',
     svc_adapter_kind = ''official_link_or_phone'',
     svc_result_semantics = ''Police owns the report; Northwind records only the claimant-provided reference.''\<rparr>"

definition registry_entries :: "service_entry list" where
  "registry_entries = [assessor_entry, recovery_entry, repairer_booking_entry, home_repair_entry,
     contents_entry, repairer_link_entry, police_105_entry, police_tcr_entry]"

datatype entry_error = NoProjectableStatuses | ManualDeclaresStatuses | ProjectableAndTransient

text \<open>
  The validator also fills in a missing service name, provider name, purpose and result wording;
  every registered entry states all four (\<open>registry_entry_texts\<close> below), so it changes none of
  them.
\<close>

definition validate_task_boundary :: "service_entry \<Rightarrow> entry_error + unit" where
  "validate_task_boundary e = guarded
     [(svc_uses_external_task e \<and> svc_projectable_statuses e = [], NoProjectableStatuses),
      (\<not> svc_uses_external_task e \<and> svc_projectable_statuses e @ svc_transient_statuses e \<noteq> [],
       ManualDeclaresStatuses),
      (set (svc_projectable_statuses e) \<inter> set (svc_transient_statuses e) \<noteq> {},
       ProjectableAndTransient)]
     (Inr ())"

datatype service_registry_error =
    UnknownLifecycleStatus string
  | NoEnumMember string
  | TransitionRefused lifecycle_status lifecycle_status
  | NoRegistryEntry string
  | UnknownOperationStatus string
  | NotOperationStatus lifecycle_status
  | NoServiceProgress string
  | ProgressRefused lifecycle_status lifecycle_status
  | NotProjectable lifecycle_status string
  | ProvenanceContradicts string
  | NotRegisteredForTasks string
  | ManualPathTask string
  | NotPersistedStatus lifecycle_status string
  | NoOperationProjection lifecycle_status
  | NotResultStage lifecycle_status
  | ResultNotLegal lifecycle_status lifecycle_status
  | VerificationWithoutResult
  | ResultWithoutVerification
  | ReceivedNeedsUnverified
  | VerifiedNeedsChecked
  | NoResultProjection lifecycle_status

definition find_service :: "string \<Rightarrow> service_entry option" where
  "find_service i = find (\<lambda>e. svc_service_identity e = i) registry_entries"

definition service_registry_entry :: "string \<Rightarrow> service_registry_error + service_entry" where
  "service_registry_entry i = (case find_service i of
     None \<Rightarrow> Inl (NoRegistryEntry i) | Some e \<Rightarrow> Inr e)"

definition service_action_presentation :: "string \<Rightarrow> string \<Rightarrow> service_registry_error + presentation" where
  "service_action_presentation i status = bind_result (service_registry_entry i) (\<lambda>e. Inr (
     if status = ''consent_required'' then Present_consent_request
     else if status \<in> {''consent_declined'', ''consent_withdrawn'', ''terminal_failure'',
                       ''awaiting_reconciliation''} then Present_status_update
     else if \<not> svc_uses_external_task e then Present_info_link
     else if status \<in> {''ready_to_request'', ''retryable_failure''} then Present_action_button
     else if status = ''pending_input'' then Present_agent_assisted
     else Present_tracked_task))"

record capability_row =
  cr_registry_version :: string
  cr_service_identity :: string
  cr_catalogue_reference :: "string option"
  cr_service_name :: string
  cr_provider_name :: string
  cr_product_families :: "string list"
  cr_purpose :: string
  cr_requested_action :: string
  cr_access_form :: string
  cr_adapter_kind :: string
  cr_uses_external_task :: bool
  cr_required_fields :: "string list"
  cr_disclosure_fields :: "string list"
  cr_official_url :: "string option"
  cr_official_phone :: "string option"
  cr_result_semantics :: string
  cr_limitation :: string

definition capability_row_of :: "service_entry \<Rightarrow> capability_row" where
  "capability_row_of e = \<lparr>cr_registry_version = REGISTRY_VERSION,
     cr_service_identity = svc_service_identity e, cr_catalogue_reference = svc_catalogue_reference e,
     cr_service_name = svc_service_name e, cr_provider_name = svc_provider_name e,
     cr_product_families = svc_product_families e, cr_purpose = svc_purpose e,
     cr_requested_action = svc_requested_action e, cr_access_form = svc_access_form e,
     cr_adapter_kind = svc_adapter_kind e, cr_uses_external_task = svc_uses_external_task e,
     cr_required_fields = svc_required_fields e, cr_disclosure_fields = svc_disclosure_fields e,
     cr_official_url = svc_official_url e, cr_official_phone = svc_official_phone e,
     cr_result_semantics = svc_result_semantics e, cr_limitation = svc_limitation e\<rparr>"

definition product_family_key :: "string option \<Rightarrow> string option" where
  "product_family_key family = map_option (\<lambda>f. py_lower (py_strip f)) family"

definition in_catalogue :: "string option \<Rightarrow> service_entry \<Rightarrow> bool" where
  "in_catalogue family e = (case family of
     Some f \<Rightarrow> f \<in> set (svc_product_families e)
   | None \<Rightarrow> {''motor'', ''home'', ''contents''} \<subseteq> set (svc_product_families e)
       \<and> \<not> svc_uses_external_task e)"

definition capability_catalogue :: "string option \<Rightarrow> capability_row list" where
  "capability_catalogue family =
     map capability_row_of (filter (in_catalogue (product_family_key family)) registry_entries)"

section \<open>Lifecycle checks\<close>

definition lifecycle_definition :: "string \<Rightarrow> service_registry_error + lifecycle_row" where
  "lifecycle_definition status = (case lifecycle_status_of status of
     None \<Rightarrow> Inl (UnknownLifecycleStatus status)
   | Some s \<Rightarrow> (case find (\<lambda>d. ld_status d = s) lifecycle_registry of
       None \<Rightarrow> Inl (UnknownLifecycleStatus status) | Some d \<Rightarrow> Inr d))"

definition status_member :: "string \<Rightarrow> service_registry_error + lifecycle_status" where
  "status_member v = (case lifecycle_status_of v of None \<Rightarrow> Inl (NoEnumMember v) | Some s \<Rightarrow> Inr s)"

definition assert_lifecycle_transition :: "string \<Rightarrow> string \<Rightarrow> service_registry_error + unit" where
  "assert_lifecycle_transition current proposed =
     bind_result (lifecycle_definition current) (\<lambda>d.
     bind_result (status_member proposed) (\<lambda>p.
       guarded [(p \<notin> set (ld_allowed_next d) \<and> p \<noteq> ld_status d,
                 TransitionRefused (ld_status d) p)] (Inr ())))"

definition OPERATION_STATUS_IDS :: "lifecycle_status set" where
  "OPERATION_STATUS_IDS = {Lc_prepared, Lc_accepted, Lc_retryable_failure, Lc_terminal_failure,
     Lc_unknown_outcome}"

definition assert_operation_status_registered :: "string \<Rightarrow> service_registry_error + unit" where
  "assert_operation_status_registered status = (case lifecycle_status_of status of
     None \<Rightarrow> Inl (UnknownOperationStatus status)
   | Some s \<Rightarrow> guarded [(s \<notin> OPERATION_STATUS_IDS, NotOperationStatus s)] (Inr ()))"

definition assert_persisted_operation_transition :: "string \<Rightarrow> string \<Rightarrow> service_registry_error + unit"
  where
  "assert_persisted_operation_transition current proposed =
     bind_result (assert_operation_status_registered current) (\<lambda>_.
     bind_result (assert_operation_status_registered proposed) (\<lambda>_.
     bind_result (status_member current) (\<lambda>c.
     bind_result (status_member proposed) (\<lambda>p.
       if c = p then Inr ()
       else if c = Lc_prepared then guarded
         [(p \<notin> {Lc_accepted, Lc_retryable_failure, Lc_unknown_outcome, Lc_terminal_failure},
           TransitionRefused c p)]
         (if p \<noteq> Lc_terminal_failure
          then assert_lifecycle_transition (lifecycle_value Lc_submitting) (lifecycle_value p)
          else Inr ())
       else if c = Lc_retryable_failure then guarded
         [(p \<notin> {Lc_accepted, Lc_retryable_failure, Lc_unknown_outcome}, TransitionRefused c p)]
         (assert_lifecycle_transition (lifecycle_value Lc_submitting) (lifecycle_value p))
       else assert_lifecycle_transition (lifecycle_value c) (lifecycle_value p)))))"

definition project_operation_status ::
  "string \<Rightarrow> string \<Rightarrow> string option \<Rightarrow> string option \<Rightarrow> string option
     \<Rightarrow> service_registry_error + lifecycle_status" where
  "project_operation_status i operation_status provider_reference progress_status
       progress_reference =
     bind_result (service_registry_entry i) (\<lambda>e.
     bind_result (lifecycle_definition operation_status) (\<lambda>d.
       let operation = ld_status d in
       case progress_status of
         None \<Rightarrow> Inr operation
       | Some ps \<Rightarrow>
           if i \<noteq> ''vehicle_damage_assessment_routing'' then Inl (NoServiceProgress i)
           else bind_result (lifecycle_definition ps) (\<lambda>pd.
             let progress = ld_status pd in
             if operation \<noteq> Lc_accepted \<or> progress \<notin> {Lc_queued, Lc_assigned}
             then Inl (ProgressRefused operation progress)
             else if provider_reference \<in> {None, Some []} \<or> progress_reference \<in> {None, Some []}
               \<or> provider_reference \<noteq> progress_reference
             then Inr operation
             else guarded [(progress \<notin> set (svc_projectable_statuses e), NotProjectable progress i)]
               (bind_result
                 (assert_lifecycle_transition (lifecycle_value operation) (lifecycle_value progress))
                 (\<lambda>_. Inr progress)))))"

definition permitted_request_provenance :: "capability_provenance \<Rightarrow> string set" where
  "permitted_request_provenance p = (case p of
     Capability_simulated \<Rightarrow> {''simulated''}
   | Capability_configured \<Rightarrow> {''configured'', ''live_attempted''}
   | _ \<Rightarrow> {})"

definition assert_projection_provenance :: "string \<Rightarrow> string \<Rightarrow> service_registry_error + unit" where
  "assert_projection_provenance i request_provenance =
     bind_result (service_registry_entry i) (\<lambda>e.
       guarded [(request_provenance \<notin> permitted_request_provenance (svc_provenance e),
                 ProvenanceContradicts i)] (Inr ()))"

definition assert_registry_compatible :: "string \<Rightarrow> string \<Rightarrow> string \<Rightarrow> service_registry_error + unit" where
  "assert_registry_compatible i operation_status request_provenance =
     (case find_service i of
        None \<Rightarrow> Inl (NotRegisteredForTasks i)
      | Some e \<Rightarrow> bind_result (lifecycle_definition operation_status) (\<lambda>d.
          let status = ld_status d in guarded
          [(\<not> svc_uses_external_task e, ManualPathTask i),
           (status \<notin> set (svc_projectable_statuses e) \<or> status \<notin> OPERATION_STATUS_IDS,
            NotPersistedStatus status i)]
          (assert_projection_provenance i request_provenance)))"

section \<open>Projection\<close>

record projection_row =
  pm_label :: string
  pm_detail :: string
  pm_verification_state :: string
  pm_pending_owner :: string
  pm_next_action :: string
  pm_needs_attention :: bool

fun projection_metadata_of :: "lifecycle_status \<Rightarrow> projection_row option" where
  "projection_metadata_of Lc_consent_required = Some
     \<lparr>pm_label = ''Permission needed'',
       pm_detail = ''Claimant permission is required before any information is shared.'',
       pm_verification_state = ''not_started'', pm_pending_owner = ''claimant'',
       pm_next_action = ''Review and grant the task-specific permission before submission.'',
       pm_needs_attention = False\<rparr>"
| "projection_metadata_of Lc_authorised = Some
     \<lparr>pm_label = ''Ready to request'',
       pm_detail = ''Permission and Northwind authority are recorded; the request is not sent.'',
       pm_verification_state = ''not_started'', pm_pending_owner = ''claimant'',
       pm_next_action = ''Submit the authorised assessment request when ready.'',
       pm_needs_attention = False\<rparr>"
| "projection_metadata_of Lc_prepared = Some
     \<lparr>pm_label = ''Pending'',
       pm_detail = ''The request is prepared and has not been submitted.'',
       pm_verification_state = ''not_started'', pm_pending_owner = ''claims_professional'',
       pm_next_action = ''Review the projected disclosure, authority, and consent before submission.'',
       pm_needs_attention = False\<rparr>"
| "projection_metadata_of Lc_accepted = Some
     \<lparr>pm_label = ''Completion not confirmed'',
       pm_detail = ''The service acknowledged the request; no completed result is recorded.'',
       pm_verification_state = ''pending_verification'', pm_pending_owner = ''external_party'',
       pm_next_action = ''Track the provider result and verify it before reconciling Claim State.'',
       pm_needs_attention = False\<rparr>"
| "projection_metadata_of Lc_queued = Some
     \<lparr>pm_label = ''Awaiting service assignment'',
       pm_detail = ''The request is queued with the service; no completed result is recorded.'',
       pm_verification_state = ''pending_verification'', pm_pending_owner = ''external_party'',
       pm_next_action = ''Track the queued operation by its operation identity.'',
       pm_needs_attention = False\<rparr>"
| "projection_metadata_of Lc_assigned = Some
     \<lparr>pm_label = ''Assessor assigned'',
       pm_detail = ''An assessor is assigned; the assessment itself is not complete.'',
       pm_verification_state = ''pending_verification'', pm_pending_owner = ''external_party'',
       pm_next_action = ''Await the assessor result and verify it against the Claim.'',
       pm_needs_attention = False\<rparr>"
| "projection_metadata_of Lc_retryable_failure = Some
     \<lparr>pm_label = ''Failed'',
       pm_detail = ''The request failed before a verified result; the claimant may retry the same operation.'',
       pm_verification_state = ''failed_unverified'', pm_pending_owner = ''claimant'',
       pm_next_action = ''The claimant may retry with the same operation identity; no staff action is required.'',
       pm_needs_attention = False\<rparr>"
| "projection_metadata_of Lc_terminal_failure = Some
     \<lparr>pm_label = ''Failed'',
       pm_detail = ''The request failed and requires staff review.'',
       pm_verification_state = ''review_required'', pm_pending_owner = ''claims_professional'',
       pm_next_action = ''Review the failure before another request is attempted.'',
       pm_needs_attention = True\<rparr>"
| "projection_metadata_of Lc_unknown_outcome = Some
     \<lparr>pm_label = ''Outcome not confirmed'',
       pm_detail = ''Submission may have occurred; the result remains unknown.'',
       pm_verification_state = ''reconciliation_required'', pm_pending_owner = ''claims_professional'',
       pm_next_action = ''Reconcile by operation or provider reference before any retry.'',
       pm_needs_attention = True\<rparr>"
| "projection_metadata_of _ = None"

definition result_projection_metadata ::
  "lifecycle_status \<Rightarrow> result_verification \<Rightarrow> projection_row option" where
  "result_projection_metadata r v =
    (if r = Lc_result_received \<and> v = Result_unverified then Some
     \<lparr>pm_label = ''Result awaiting verification'',
       pm_detail = ''A provider result is recorded but has not been checked against the Claim.'',
       pm_verification_state = ''unverified'', pm_pending_owner = ''claims_professional'',
       pm_next_action = ''Verify the returned result against its evidence and the current Claim.'',
       pm_needs_attention = True\<rparr>
     else if r = Lc_result_verified \<and> v = Result_consistent then Some
     \<lparr>pm_label = ''Result checked'',
       pm_detail = ''The returned result was checked as consistent evidence; it is not Claim State.'',
       pm_verification_state = ''consistent'', pm_pending_owner = ''claims_professional'',
       pm_next_action = ''Use the checked result only through an authorised Claim decision.'',
       pm_needs_attention = False\<rparr>
     else if r = Lc_result_verified \<and> v = Result_inconsistent then Some
     \<lparr>pm_label = ''Result conflicts with Claim'',
       pm_detail = ''The returned result was checked and conflicts with the Claim.'',
       pm_verification_state = ''inconsistent'', pm_pending_owner = ''claims_professional'',
       pm_next_action = ''Review the conflicting result and cited evidence before continuing.'',
       pm_needs_attention = True\<rparr>
     else if r = Lc_result_verified \<and> v = Result_review_required then Some
     \<lparr>pm_label = ''Result requires review'',
       pm_detail = ''The returned result needs professional review before it can be used.'',
       pm_verification_state = ''review_required'', pm_pending_owner = ''claims_professional'',
       pm_next_action = ''Review the result, evidence, and checked Claim revision.'',
       pm_needs_attention = True\<rparr>
     else None)"

declare projection_metadata_of.simps [simp del]

definition projection_metadata :: "lifecycle_status \<Rightarrow> service_registry_error + projection_row" where
  "projection_metadata s = (case projection_metadata_of s of
     None \<Rightarrow> Inl (NoOperationProjection s) | Some x \<Rightarrow> Inr x)"

fun legal_result_statuses :: "lifecycle_status \<Rightarrow> lifecycle_status set" where
  "legal_result_statuses Lc_accepted = {Lc_result_received, Lc_result_verified}"
| "legal_result_statuses Lc_queued = {Lc_result_received, Lc_result_verified}"
| "legal_result_statuses Lc_assigned = {Lc_result_received, Lc_result_verified}"
| "legal_result_statuses Lc_unknown_outcome = {Lc_result_received, Lc_result_verified}"
| "legal_result_statuses _ = {}"

record lifecycle_projection =
  lp_registry_version :: string
  lp_service_identity :: string
  lp_catalogue_reference :: "string option"
  lp_provenance :: capability_provenance
  lp_access_form :: string
  lp_limitation :: string
  lp_service_name :: string
  lp_provider_name :: string
  lp_purpose :: string
  lp_requested_action :: string
  lp_product_families :: "string list"
  lp_disclosure_fields :: "string list"
  lp_official_url :: "string option"
  lp_official_phone :: "string option"
  lp_uses_external_task :: bool
  lp_operation_status :: lifecycle_status
  lp_result_status :: "lifecycle_status option"
  lp_result_verification :: "result_verification option"
  lp_status_label :: string
  lp_status_detail :: string
  lp_verification_state :: string
  lp_claimant_meaning :: string
  lp_agent_meaning :: string
  lp_state_invariants :: "string list"
  lp_transition_preconditions :: "string list"
  lp_pending_owner :: string
  lp_next_action :: string
  lp_needs_attention :: bool
  lp_requires_reconciliation :: bool
  lp_allowed_next :: "lifecycle_status list"

text \<open>
  The projection of an entry, given the status it shows, the result beside it, the metadata and
  the definition the wording is taken from, and the invariants that hold.
\<close>

definition projection_of ::
  "service_entry \<Rightarrow> lifecycle_status \<Rightarrow> (lifecycle_status \<times> result_verification) option
     \<Rightarrow> projection_row \<Rightarrow> lifecycle_row \<Rightarrow> string list \<Rightarrow> bool \<Rightarrow> lifecycle_projection" where
  "projection_of e operation result md d invariants reconcile = \<lparr>
     lp_registry_version = REGISTRY_VERSION, lp_service_identity = svc_service_identity e,
     lp_catalogue_reference = svc_catalogue_reference e, lp_provenance = svc_provenance e,
     lp_access_form = svc_access_form e, lp_limitation = svc_limitation e,
     lp_service_name = svc_service_name e, lp_provider_name = svc_provider_name e,
     lp_purpose = svc_purpose e, lp_requested_action = svc_requested_action e,
     lp_product_families = svc_product_families e, lp_disclosure_fields = svc_disclosure_fields e,
     lp_official_url = svc_official_url e, lp_official_phone = svc_official_phone e,
     lp_uses_external_task = svc_uses_external_task e, lp_operation_status = operation,
     lp_result_status = map_option fst result, lp_result_verification = map_option snd result,
     lp_status_label = pm_label md, lp_status_detail = pm_detail md,
     lp_verification_state = pm_verification_state md,
     lp_claimant_meaning = ld_claimant_meaning d, lp_agent_meaning = ld_agent_meaning d,
     lp_state_invariants = invariants,
     lp_transition_preconditions = ld_transition_preconditions d,
     lp_pending_owner = pm_pending_owner md, lp_next_action = pm_next_action md,
     lp_needs_attention = pm_needs_attention md, lp_requires_reconciliation = reconcile,
     lp_allowed_next = ld_allowed_next d\<rparr>"

definition capability_context ::
  "string option \<Rightarrow> service_registry_error + lifecycle_projection list" where
  "capability_context family =
     bind_result (lifecycle_definition (lifecycle_value Lc_consent_required)) (\<lambda>d.
     bind_result (projection_metadata Lc_consent_required) (\<lambda>md.
       Inr (map (\<lambda>e. projection_of e Lc_consent_required None md d (ld_state_invariants d) False)
         (filter (\<lambda>e. opt_all (\<lambda>f. f \<in> set (svc_product_families e)) (product_family_key family))
           registry_entries))))"

definition result_guards ::
  "lifecycle_status \<Rightarrow> lifecycle_status option \<Rightarrow> result_verification option
     \<Rightarrow> (bool \<times> service_registry_error) list" where
  "result_guards operation result verification =
     (case result of
        None \<Rightarrow> [(verification \<noteq> None, VerificationWithoutResult)]
      | Some r \<Rightarrow>
          [(stage_of r \<noteq> Stage_result, NotResultStage r),
           (r \<notin> legal_result_statuses operation, ResultNotLegal operation r),
           (verification = None, ResultWithoutVerification),
           (r = Lc_result_received \<and> verification \<noteq> Some Result_unverified, ReceivedNeedsUnverified),
           (r = Lc_result_verified \<and> verification \<notin> {Some Result_consistent,
              Some Result_inconsistent, Some Result_review_required}, VerifiedNeedsChecked)])"

definition effective_projection ::
  "service_entry \<Rightarrow> lifecycle_row \<Rightarrow> projection_row \<Rightarrow> lifecycle_status option
     \<Rightarrow> result_verification option \<Rightarrow> service_registry_error + lifecycle_projection" where
  "effective_projection e d md result verification = (case (result, verification) of
     (Some r, Some v) \<Rightarrow>
       bind_result (lifecycle_definition (lifecycle_value r)) (\<lambda>rd.
         case result_projection_metadata r v of
           None \<Rightarrow> Inl (NoResultProjection r)
         | Some rm \<Rightarrow>
             (let reconcile = ld_requires_reconciliation d in
              Inr (projection_of e (ld_status d) (Some (r, v))
                (if reconcile then md else rm) (if reconcile then d else rd)
                (fromkeys (ld_state_invariants d @ ld_state_invariants rd)) reconcile)))
   | _ \<Rightarrow> Inr (projection_of e (ld_status d) None md d (fromkeys (ld_state_invariants d))
            (ld_requires_reconciliation d)))"

definition build_lifecycle_projection ::
  "string \<Rightarrow> string \<Rightarrow> lifecycle_status option \<Rightarrow> result_verification option \<Rightarrow> string option
     \<Rightarrow> string option \<Rightarrow> string option \<Rightarrow> service_registry_error + lifecycle_projection" where
  "build_lifecycle_projection i operation_status result verification provider_reference
       progress_status progress_reference =
     bind_result (service_registry_entry i) (\<lambda>e.
     bind_result (project_operation_status i operation_status provider_reference progress_status
         progress_reference) (\<lambda>projected.
     bind_result (lifecycle_definition (lifecycle_value projected)) (\<lambda>d.
     guarded [(\<not> svc_uses_external_task e \<or> ld_status d \<notin> set (svc_projectable_statuses e),
               NotProjectable (ld_status d) i)]
     (bind_result (projection_metadata (ld_status d)) (\<lambda>md.
     guarded (result_guards (ld_status d) result verification)
     (effective_projection e d md result verification))))))"

section \<open>The tables\<close>

lemma lifecycle_entry_simps [simp]:
  "ld_status (lifecycle_entry s) = s"
  "ld_stage (lifecycle_entry s) = stage_of s"
  "ld_terminal (lifecycle_entry s) = terminal_status s"
  "ld_allowed_next (lifecycle_entry s) = allowed_next s"
  "ld_requires_reconciliation (lifecycle_entry s) = status_requires_reconciliation s"
  "ld_implies_completion (lifecycle_entry s) = False"
  "ld_state_invariants (lifecycle_entry s) = state_invariants s"
  by (simp_all add: lifecycle_entry_def)

lemma find_lifecycle_entry [simp]:
  "find (\<lambda>d. ld_status d = s) lifecycle_registry = Some (lifecycle_entry s)"
  by (cases s) (simp_all add: lifecycle_registry_def lifecycle_statuses_def)

lemma lifecycle_definition_value [simp]:
  "lifecycle_definition (lifecycle_value s) = Inr (lifecycle_entry s)"
  by (simp add: lifecycle_definition_def)

lemma status_member_value [simp]: "status_member (lifecycle_value s) = Inr s"
  by (simp add: status_member_def)

lemma terminal_status_iff: "terminal_status s \<longleftrightarrow> allowed_next s = []"
  by (cases s) simp_all

lemma requires_reconciliation_iff: "status_requires_reconciliation s \<longleftrightarrow> s = Lc_unknown_outcome"
  by (cases s) simp_all

lemma assert_lifecycle_transition_value:
  "assert_lifecycle_transition (lifecycle_value c) (lifecycle_value p) =
     (if p \<in> set (allowed_next c) \<or> p = c then Inr () else Inl (TransitionRefused c p))"
  by (simp add: assert_lifecycle_transition_def)

lemmas service_entry_defs = assessor_entry_def recovery_entry_def repairer_booking_entry_def
  home_repair_entry_def contents_entry_def repairer_link_entry_def police_105_entry_def
  police_tcr_entry_def

lemma projectable_task_statuses: "OPERATION_STATUS_IDS \<subseteq> set default_projectable"
  by (auto simp: OPERATION_STATUS_IDS_def default_projectable_def)

lemma registry_entries_valid: "\<forall>e \<in> set registry_entries. validate_task_boundary e = Inr ()"
  by (simp add: registry_entries_def service_entry_defs validate_task_boundary_def default_projectable_def)

lemma registry_entry_texts:
  "\<forall>e \<in> set registry_entries. svc_service_name e \<noteq> [] \<and> svc_provider_name e \<noteq> []
     \<and> svc_purpose e \<noteq> [] \<and> svc_result_semantics e \<noteq> []"
  by (simp add: registry_entries_def service_entry_defs)

lemma registry_identities_distinct: "distinct (map svc_service_identity registry_entries)"
  by (simp add: registry_entries_def service_entry_defs)

lemma find_service_Some_iff:
  "find_service i = Some e \<longleftrightarrow> e \<in> set registry_entries \<and> svc_service_identity e = i"
proof
  assume "find_service i = Some e"
  then show "e \<in> set registry_entries \<and> svc_service_identity e = i"
    by (auto simp: find_service_def find_Some_iff)
next
  assume e: "e \<in> set registry_entries \<and> svc_service_identity e = i"
  then obtain e' where e': "find_service i = Some e'"
    by (cases "find_service i") (auto simp: find_service_def find_None_iff)
  then have "e' \<in> set registry_entries \<and> svc_service_identity e' = i"
    by (auto simp: find_service_def find_Some_iff)
  then have "e' = e"
    using e registry_identities_distinct by (auto simp: distinct_map dest: inj_onD)
  then show "find_service i = Some e" using e' by simp
qed

text \<open>Only simulated services hold external tasks; manual paths hold none.\<close>

lemma task_services_simulated:
  "e \<in> set registry_entries \<Longrightarrow> svc_uses_external_task e \<longleftrightarrow> svc_provenance e = Capability_simulated"
  by (auto simp: registry_entries_def service_entry_defs)

lemma task_services_project_operations:
  "e \<in> set registry_entries \<Longrightarrow> svc_uses_external_task e
     \<Longrightarrow> OPERATION_STATUS_IDS \<subseteq> set (svc_projectable_statuses e)"
  by (auto simp: registry_entries_def service_entry_defs OPERATION_STATUS_IDS_def
      default_projectable_def)

section \<open>Persisted moves\<close>

text \<open>
  A persisted task skips the transient \<open>submitting\<close> stage: a persisted move is a step of the
  lifecycle table, two steps of it through \<open>submitting\<close>, or the rejection of a prepared request.
\<close>

definition persisted_move :: "lifecycle_status \<Rightarrow> lifecycle_status \<Rightarrow> bool" where
  "persisted_move c p \<longleftrightarrow> c \<in> OPERATION_STATUS_IDS \<and> p \<in> OPERATION_STATUS_IDS \<and>
     (c = p \<or> p \<in> set (allowed_next c)
      \<or> Lc_submitting \<in> set (allowed_next c) \<and> p \<in> set (allowed_next Lc_submitting)
      \<or> c = Lc_prepared \<and> p = Lc_terminal_failure)"

fun operation_rank :: "lifecycle_status \<Rightarrow> nat" where
  "operation_rank Lc_prepared = 0"
| "operation_rank Lc_retryable_failure = 1"
| "operation_rank Lc_unknown_outcome = 2"
| "operation_rank _ = 3"

lemma operation_status_cases:
  assumes "s \<in> OPERATION_STATUS_IDS"
  obtains "s = Lc_prepared" | "s = Lc_accepted" | "s = Lc_retryable_failure"
    | "s = Lc_terminal_failure" | "s = Lc_unknown_outcome"
  using assms by (auto simp: OPERATION_STATUS_IDS_def)

lemma assert_operation_status_registered_value:
  "assert_operation_status_registered (lifecycle_value s) =
     (if s \<in> OPERATION_STATUS_IDS then Inr () else Inl (NotOperationStatus s))"
  by (simp add: assert_operation_status_registered_def)

lemma assert_persisted_operation_transition_value:
  "assert_persisted_operation_transition (lifecycle_value c) (lifecycle_value p) = Inr () \<longleftrightarrow>
     persisted_move c p"
proof (cases "c \<in> OPERATION_STATUS_IDS \<and> p \<in> OPERATION_STATUS_IDS")
  case False
  then show ?thesis
    by (auto simp: assert_persisted_operation_transition_def persisted_move_def
        assert_operation_status_registered_value)
next
  case True
  then show ?thesis
    unfolding assert_persisted_operation_transition_def persisted_move_def
      assert_operation_status_registered_value assert_lifecycle_transition_value status_member_value
    by (elim conjE operation_status_cases [of c] operation_status_cases [of p])
      (simp_all add: assert_lifecycle_transition_value)
qed

lemma assert_persisted_unregistered:
  "lifecycle_status_of c = None \<or> lifecycle_status_of p = None
     \<Longrightarrow> assert_persisted_operation_transition c p \<noteq> Inr ()"
  by (auto simp: assert_persisted_operation_transition_def assert_operation_status_registered_def
      bind_result_Inr_iff split: option.splits)

lemma persisted_move_rank: "persisted_move c p \<Longrightarrow> c = p \<or> operation_rank c < operation_rank p"
  by (auto simp: persisted_move_def OPERATION_STATUS_IDS_def)

lemma persisted_move_settled:
  "persisted_move c p \<Longrightarrow> c \<in> {Lc_accepted, Lc_terminal_failure} \<Longrightarrow> p = c"
  by (auto simp: persisted_move_def OPERATION_STATUS_IDS_def)

lemma persisted_move_prepared: "persisted_move c Lc_prepared \<Longrightarrow> c = Lc_prepared"
  by (auto simp: persisted_move_def OPERATION_STATUS_IDS_def)

lemma operation_rank_le: "operation_rank s \<le> 3"
  by (cases s) simp_all

text \<open>A history of persisted statuses changes at most three times.\<close>

lemma persisted_history_length:
  "successively persisted_move (c # cs)
     \<Longrightarrow> length (remdups_adj (c # cs)) + operation_rank c \<le> 4"
proof (induction cs arbitrary: c)
  case Nil
  then show ?case using operation_rank_le [of c] by simp
next
  case (Cons p cs)
  have step: "persisted_move c p" and rest: "successively persisted_move (p # cs)"
    using Cons.prems by simp_all
  show ?case
    using Cons.IH [OF rest] persisted_move_rank [OF step] by (auto split: if_splits)
qed

section \<open>Compatibility and projection\<close>

lemma assert_registry_compatible_iff:
  "assert_registry_compatible i (lifecycle_value s) v = Inr () \<longleftrightarrow>
     (\<exists>e. find_service i = Some e \<and> svc_uses_external_task e)
       \<and> s \<in> OPERATION_STATUS_IDS \<and> v = ''simulated''"
proof (cases "find_service i")
  case None
  then show ?thesis by (simp add: assert_registry_compatible_def)
next
  case (Some e)
  then have e: "e \<in> set registry_entries" by (simp add: find_service_Some_iff)
  show ?thesis
    using Some task_services_project_operations [OF e] task_services_simulated [OF e]
    by (auto simp: assert_registry_compatible_def assert_projection_provenance_def
        service_registry_entry_def permitted_request_provenance_def guarded_Inr_iff)
qed

lemma projection_of_simps [simp]:
  "lp_service_identity (projection_of e s r md d ivs b) = svc_service_identity e"
  "lp_uses_external_task (projection_of e s r md d ivs b) = svc_uses_external_task e"
  "lp_operation_status (projection_of e s r md d ivs b) = s"
  "lp_result_status (projection_of e s r md d ivs b) = map_option fst r"
  "lp_result_verification (projection_of e s r md d ivs b) = map_option snd r"
  "lp_requires_reconciliation (projection_of e s r md d ivs b) = b"
  "lp_state_invariants (projection_of e s r md d ivs b) = ivs"
  "lp_allowed_next (projection_of e s r md d ivs b) = ld_allowed_next d"
  "lp_verification_state (projection_of e s r md d ivs b) = pm_verification_state md"
  "lp_pending_owner (projection_of e s r md d ivs b) = pm_pending_owner md"
  "lp_needs_attention (projection_of e s r md d ivs b) = pm_needs_attention md"
  by (simp_all add: projection_of_def)

text \<open>What a projection that was built may state.\<close>

definition sound_projection :: "lifecycle_projection \<Rightarrow> bool" where
  "sound_projection p \<longleftrightarrow> lp_uses_external_task p
     \<and> (lp_requires_reconciliation p \<longleftrightarrow> lp_operation_status p = Lc_unknown_outcome)
     \<and> (lp_result_status p \<noteq> None \<longleftrightarrow> lp_result_verification p \<noteq> None)
     \<and> (lp_result_status p \<noteq> None \<longrightarrow>
          lp_operation_status p \<in> {Lc_accepted, Lc_queued, Lc_assigned, Lc_unknown_outcome})
     \<and> (lp_result_status p = Some Lc_result_received
          \<longleftrightarrow> lp_result_verification p = Some Result_unverified)
     \<and> lp_result_status p \<in> {None, Some Lc_result_received, Some Lc_result_verified}
     \<and> (lp_requires_reconciliation p \<longrightarrow> lp_verification_state p = ''reconciliation_required'')
     \<and> (lp_result_verification p \<noteq> None \<and> \<not> lp_requires_reconciliation p \<longrightarrow>
          Some (lp_verification_state p) = map_option verification_value (lp_result_verification p))
     \<and> distinct (lp_state_invariants p)
     \<and> set (lp_state_invariants p) = set (state_invariants (lp_operation_status p))
          \<union> (case lp_result_status p of None \<Rightarrow> {} | Some r \<Rightarrow> set (state_invariants r))"

lemma legal_result_iff: "r \<in> legal_result_statuses s \<longleftrightarrow>
   s \<in> {Lc_accepted, Lc_queued, Lc_assigned, Lc_unknown_outcome}
     \<and> r \<in> {Lc_result_received, Lc_result_verified}"
  by (cases s) simp_all

lemma projection_metadata_reconciliation:
  "projection_metadata Lc_unknown_outcome = Inr md
     \<Longrightarrow> pm_verification_state md = ''reconciliation_required''"
  by (auto simp: projection_metadata_def projection_metadata_of.simps)

lemma result_metadata_state:
  "result_projection_metadata r v = Some md \<Longrightarrow> pm_verification_state md = verification_value v"
  by (auto simp: result_projection_metadata_def split: if_splits)

lemma build_lifecycle_projection_sound:
  assumes "build_lifecycle_projection i operation_status result verification provider progress
    progress_reference = Inr p"
  shows "sound_projection p \<and> lp_service_identity p = i"
proof -
  obtain e projected md where e: "service_registry_entry i = Inr e"
    and uses: "svc_uses_external_task e"
    and md: "projection_metadata projected = Inr md"
    and guards: "passes (result_guards projected result verification)"
    and p: "effective_projection e (lifecycle_entry projected) md result verification = Inr p"
    using assms
    by (auto simp: build_lifecycle_projection_def bind_result_Inr_iff guarded_Inr_iff
        simp del: guarded.simps)
  have identity: "svc_service_identity e = i"
    using e by (auto simp: service_registry_entry_def find_service_Some_iff split: option.splits)
  show ?thesis
  proof (cases result)
    case None
    then show ?thesis
      using p guards uses identity md projection_metadata_reconciliation [of md]
      by (auto simp: sound_projection_def effective_projection_def result_guards_def
          requires_reconciliation_iff)
  next
    case (Some r)
    then obtain v where v: "verification = Some v" using guards by (auto simp: result_guards_def)
    then obtain rm where rm: "result_projection_metadata r v = Some rm"
      using p Some by (auto simp: effective_projection_def split: option.splits)
    have r: "projected \<in> {Lc_accepted, Lc_queued, Lc_assigned, Lc_unknown_outcome}"
      "r = Lc_result_received \<and> v = Result_unverified
        \<or> r = Lc_result_verified \<and> v \<noteq> Result_unverified"
      using guards Some v by (auto simp: result_guards_def legal_result_iff)
    have p': "p = projection_of e projected (Some (r, v))
        (if projected = Lc_unknown_outcome then md else rm)
        (if projected = Lc_unknown_outcome then lifecycle_entry projected else lifecycle_entry r)
        (fromkeys (state_invariants projected @ state_invariants r))
        (projected = Lc_unknown_outcome)"
      using p Some v rm
      by (simp add: effective_projection_def requires_reconciliation_iff Let_def)
    have state: "projected = Lc_unknown_outcome
        \<longrightarrow> pm_verification_state md = ''reconciliation_required''"
      using md projection_metadata_reconciliation by blast
    show ?thesis
      using r uses identity state result_metadata_state [OF rm]
      unfolding p' sound_projection_def by (elim disjE conjE) simp_all
  qed
qed

end
