(* ===== verification/External_Tasks.thy ===== *)
theory External_Tasks
  imports Recovery_Registry External_Registry Evidence_Model
begin

text \<open>
  The rules of external tasks (\<open>backend/domain/external_services.py\<close>): the classification of a
  provider failure through the recovery registry, the records of a task, its request, its attempts,
  its result and the links to evidence with their validators, and the checks a write or a move of
  each must pass. The theory \<open>External_Task_Facts\<close> holds their properties.
\<close>

section \<open>Vocabulary\<close>

datatype integration_source = Integration_fixture | Integration_configured_service

datatype external_provenance = Request_simulated | Request_configured | Request_live_attempted

datatype task_delivery = Not_submitted | Submitted

datatype failure_code =
    Failure_timeout | Failure_unavailable | Failure_access_denied | Failure_malformed
  | Failure_partial | Failure_conflicting

datatype task_status =
    Task_prepared | Task_accepted | Task_retryable_failure | Task_terminal_failure
  | Task_unknown_outcome

datatype task_recovery =
    Recover_retry_same_operation | Recover_reconcile_before_retry | Recover_review_required

fun task_lifecycle :: "task_status \<Rightarrow> lifecycle_status" where
  "task_lifecycle Task_prepared = Lc_prepared"
| "task_lifecycle Task_accepted = Lc_accepted"
| "task_lifecycle Task_retryable_failure = Lc_retryable_failure"
| "task_lifecycle Task_terminal_failure = Lc_terminal_failure"
| "task_lifecycle Task_unknown_outcome = Lc_unknown_outcome"

definition task_status_value :: "task_status \<Rightarrow> string" where
  "task_status_value s = lifecycle_value (task_lifecycle s)"

fun task_delivery_value :: "task_delivery \<Rightarrow> string" where
  "task_delivery_value Not_submitted = ''not_submitted''"
| "task_delivery_value Submitted = ''submitted''"

fun failure_code_value :: "failure_code \<Rightarrow> string" where
  "failure_code_value Failure_timeout = ''timeout''"
| "failure_code_value Failure_unavailable = ''unavailable''"
| "failure_code_value Failure_access_denied = ''access_denied''"
| "failure_code_value Failure_malformed = ''malformed''"
| "failure_code_value Failure_partial = ''partial''"
| "failure_code_value Failure_conflicting = ''conflicting''"

fun integration_source_value :: "integration_source \<Rightarrow> string" where
  "integration_source_value Integration_fixture = ''fixture''"
| "integration_source_value Integration_configured_service = ''configured_service''"

fun request_provenance_value :: "external_provenance \<Rightarrow> string" where
  "request_provenance_value Request_simulated = ''simulated''"
| "request_provenance_value Request_configured = ''configured''"
| "request_provenance_value Request_live_attempted = ''live_attempted''"

datatype external_error =
    ExternalFieldConstraint
  | ExternalDatetimeTypeError
  | RecoveryPolicy registry_error
  | ServiceRegistry service_registry_error
  | ClassificationDisagrees
  | TaskUpdatedBeforeCreated
  | SubmittedWithoutEvidence
  | EvidenceWithoutSubmission
  | ReferenceWithoutSubmission
  | PreparedWithFailure
  | PreparedSubmitted
  | AcceptedWithFailure
  | AcceptedNotSubmitted
  | FailureCodeMissing task_status
  | FailureStatusDisagrees task_status task_status
  | UntraceableEvidence string
  | LinkClaimMismatch string
  | ConflictingOrigin string
  | AuthoritiesNotSeparate
  | DisclosedFieldsRepeated
  | DisclosedFieldBlank
  | PurposeBlank
  | SentWithoutOperation
  | ReservedWithoutOperation
  | OperationBeforeReservation
  | SentBeforePrepared
  | ReservedBeforePrepared
  | RequestTaskMismatch string
  | UnauthorisedDisclosure string
  | SummaryBlank
  | ResultEvidenceRepeated
  | ResultEvidenceBlank
  | UnverifiedWithTime
  | VerifiedWithoutTime
  | VerifiedBeforeReceived
  | UnverifiedWithRevision
  | VerifiedWithoutRevision
  | TaskCannotHaveResult task_status
  | UnsettledResult
  | StaleVerification
  | AttemptPrepared
  | DuplicateExternalRequest
  | RetryNotPermitted
  | ResultAlreadyVerified
  | CrossClaimEvidence string
  | UnboundEvidenceSnapshot string
  | VerificationPrecedesState
  | TaskIdentityChanged
  | TaskTransitionNotPermitted
  | TaskHasNotFailed
  | ResultAdvanceNotPermitted

section \<open>Failure classification\<close>

record failure_classification =
  fc_operation_status :: task_status
  fc_recovery :: task_recovery
  fc_retryable :: bool
  fc_recovery_policy_id :: "string option"
  fc_recovery_policy_version :: "string option"

fun recovery_contract :: "task_recovery \<Rightarrow> task_status \<times> bool" where
  "recovery_contract Recover_retry_same_operation = (Task_retryable_failure, True)"
| "recovery_contract Recover_reconcile_before_retry = (Task_unknown_outcome, False)"
| "recovery_contract Recover_review_required = (Task_terminal_failure, False)"

definition validate_recovery_contract ::
  "failure_classification \<Rightarrow> external_error + failure_classification" where
  "validate_recovery_contract c = guarded
     [((fc_operation_status c, fc_retryable c) \<noteq> recovery_contract (fc_recovery c),
       ClassificationDisagrees)] (Inr c)"

definition plain_classification :: "task_status \<Rightarrow> task_recovery \<Rightarrow> bool \<Rightarrow> failure_classification" where
  "plain_classification status recovery retryable = \<lparr>fc_operation_status = status, fc_recovery = recovery,
     fc_retryable = retryable, fc_recovery_policy_id = None, fc_recovery_policy_version = None\<rparr>"

definition REVIEW_REQUIRED_CODES :: "failure_code set" where
  "REVIEW_REQUIRED_CODES = {Failure_access_denied, Failure_malformed, Failure_conflicting}"

definition UNKNOWN_AFTER_SUBMISSION_CODES :: "failure_code set" where
  "UNKNOWN_AFTER_SUBMISSION_CODES = {Failure_timeout}"

text \<open>The classification and the recovery trigger a failure gives.\<close>

definition failure_handling ::
  "failure_code \<Rightarrow> task_delivery \<Rightarrow> failure_classification \<times> recovery_trigger" where
  "failure_handling failure_code delivery =
     (if failure_code \<in> REVIEW_REQUIRED_CODES then
        (plain_classification Task_terminal_failure Recover_review_required False,
         (plain_trigger Source_external ''terminal_failure'')
           \<lparr>tg_delivery_certain := Some (delivery = Submitted)\<rparr>)
      else if failure_code = Failure_partial
        \<or> delivery = Submitted \<and> failure_code \<in> UNKNOWN_AFTER_SUBMISSION_CODES then
        (plain_classification Task_unknown_outcome Recover_reconcile_before_retry False,
         (plain_trigger Source_external ''unknown_outcome'')
           \<lparr>tg_delivery_certain := Some True, tg_side_effect_may_have_happened := True\<rparr>)
      else
        (plain_classification Task_retryable_failure Recover_retry_same_operation True,
         (plain_trigger Source_external ''retryable_failure'')
           \<lparr>tg_delivery_certain := Some False\<rparr>))"

definition classify_external_task_failure ::
  "failure_code \<Rightarrow> task_delivery \<Rightarrow> external_error + failure_classification" where
  "classify_external_task_failure failure_code delivery =
     (let (c, trigger) = failure_handling failure_code delivery in
      bind_result (validate_recovery_contract c) (\<lambda>c.
      bind_result (map_error RecoveryPolicy (validate_delivery_coordinates trigger)) (\<lambda>t.
      bind_result (map_error RecoveryPolicy (classify_recovery t)) (\<lambda>policy.
        Inr (c\<lparr>fc_recovery_policy_id := Some (rr_policy_id policy),
               fc_recovery_policy_version := Some (rr_version policy)\<rparr>)))))"

section \<open>Tasks\<close>

record external_task =
  xt_task_id :: string
  xt_claim_id :: string
  xt_service_identity :: string
  xt_requested_action :: string
  xt_integration_source :: integration_source
  xt_status :: task_status
  xt_delivery :: task_delivery
  xt_delivery_evidence :: "string option"
  xt_failure_code :: "failure_code option"
  xt_provider_reference :: "string option"
  xt_created_at :: datetime
  xt_updated_at :: datetime

definition request_provenance :: "external_task \<Rightarrow> external_provenance" where
  "request_provenance t =
     (if xt_integration_source t \<noteq> Integration_configured_service then Request_simulated
      else if xt_delivery t = Submitted then Request_live_attempted
      else Request_configured)"

definition ASSESSOR_SERVICE_IDENTITY :: string where
  "ASSESSOR_SERVICE_IDENTITY = ''vehicle_damage_assessment_routing''"

definition catalogue_reference :: "external_task \<Rightarrow> string option" where
  "catalogue_reference t =
     dict_get [(ASSESSOR_SERVICE_IDENTITY, ''P3-ASSESSOR'')] (xt_service_identity t)"

definition failure_matches :: "failure_code option \<Rightarrow> task_delivery \<Rightarrow> task_status \<Rightarrow> external_error + unit"
  where
  "failure_matches code delivery status = (case code of
     None \<Rightarrow> Inl (FailureCodeMissing status)
   | Some c \<Rightarrow> bind_result (classify_external_task_failure c delivery) (\<lambda>expected.
       guarded [(fc_operation_status expected \<noteq> status,
                 FailureStatusDisagrees (fc_operation_status expected) status)] (Inr ())))"

definition task_fields_ok :: "external_task \<Rightarrow> bool" where
  [validity]: "task_fields_ok t \<longleftrightarrow> bounded_text 1 100 (xt_task_id t) \<and> bounded_text 1 100 (xt_claim_id t)
     \<and> bounded_text 1 100 (xt_service_identity t) \<and> bounded_text 1 100 (xt_requested_action t)
     \<and> opt_all (bounded_text 1 200) (xt_delivery_evidence t)
     \<and> opt_all (bounded_text 1 200) (xt_provider_reference t)"

definition validate_task_state :: "external_task \<Rightarrow> external_error + unit" where
  [validity]: "validate_task_state t =
     guarded [(\<not> task_fields_ok t, ExternalFieldConstraint)]
     (bind_result (map_error ServiceRegistry
         (assert_operation_status_registered (task_status_value (xt_status t)))) (\<lambda>_.
      guarded
       (before_guard (xt_updated_at t) (xt_created_at t) ExternalDatetimeTypeError
          TaskUpdatedBeforeCreated
        @ [(xt_delivery t = Submitted \<and> xt_delivery_evidence t = None, SubmittedWithoutEvidence),
           (xt_delivery t \<noteq> Submitted \<and> xt_delivery_evidence t \<noteq> None, EvidenceWithoutSubmission),
           (xt_provider_reference t \<noteq> None \<and> xt_delivery t = Not_submitted,
            ReferenceWithoutSubmission)])
       (if xt_status t = Task_prepared then guarded
          [(xt_failure_code t \<noteq> None, PreparedWithFailure),
           (xt_delivery t \<noteq> Not_submitted, PreparedSubmitted)] (Inr ())
        else if xt_status t = Task_accepted then guarded
          [(xt_failure_code t \<noteq> None, AcceptedWithFailure),
           (xt_delivery t \<noteq> Submitted, AcceptedNotSubmitted)] (Inr ())
        else failure_matches (xt_failure_code t) (xt_delivery t) (xt_status t))))"

definition assert_external_task_registry_compatible :: "external_task \<Rightarrow> external_error + unit" where
  "assert_external_task_registry_compatible t = map_error ServiceRegistry
     (assert_registry_compatible (xt_service_identity t) (task_status_value (xt_status t))
        (request_provenance_value (request_provenance t)))"

section \<open>Evidence links\<close>

record external_link =
  xl_task_id :: string
  xl_evidence_id :: string
  xl_claim_id :: string
  xl_linked_at :: datetime

definition link_fields_ok :: "external_link \<Rightarrow> bool" where
  [validity]: "link_fields_ok l \<longleftrightarrow> bounded_text 1 100 (xl_task_id l)
     \<and> bounded_text 1 100 (xl_evidence_id l) \<and> bounded_text 1 100 (xl_claim_id l)"

record evidence_view =
  vw_task :: external_task
  vw_evidence_ids :: "string list"

definition external_task_for_evidence ::
  "evidence_record \<Rightarrow> external_link list \<Rightarrow> external_error + string option" where
  "external_task_for_evidence e links =
     (if ed_source e \<noteq> Origin_external_system then Inr None
      else
        (let mine = filter (\<lambda>l. xl_evidence_id l = ed_evidence_id e) links;
             origins = fromkeys (map xl_task_id (filter (\<lambda>l. xl_claim_id l = ed_claim_id e) mine));
             mismatched = find (\<lambda>l. xl_claim_id l \<noteq> ed_claim_id e) mine
         in if 1 < length origins then Inl (ConflictingOrigin (ed_evidence_id e))
            else case origins of
              i # _ \<Rightarrow> Inr (Some i)
            | [] \<Rightarrow> (case mismatched of
                Some l \<Rightarrow> Inl (LinkClaimMismatch (xl_claim_id l))
              | None \<Rightarrow> Inl (UntraceableEvidence (ed_evidence_id e)))))"

text \<open>
  The loop over the links: the evidence grouped by task and the task each claim's evidence was
  first attributed to.
\<close>

fun group_links ::
  "(string \<times> string) list \<Rightarrow> external_link list \<Rightarrow> (string \<times> string list) list
     \<Rightarrow> ((string \<times> string) \<times> string) list \<Rightarrow> external_error + (string \<times> string list) list" where
  "group_links claims [] grouped origins = Inr grouped"
| "group_links claims (l # ls) grouped origins =
     (case (dict_get grouped (xl_task_id l), dict_get claims (xl_task_id l)) of
        (Some ids, Some claim_id) \<Rightarrow>
          if claim_id \<noteq> xl_claim_id l then Inl (LinkClaimMismatch (xl_claim_id l))
          else (case dict_get origins (xl_claim_id l, xl_evidence_id l) of
            None \<Rightarrow> group_links claims ls
              (dict_put (xl_task_id l) (ids @ [xl_evidence_id l]) grouped)
              (dict_put (xl_claim_id l, xl_evidence_id l) (xl_task_id l) origins)
          | Some held \<Rightarrow>
              if held \<noteq> xl_task_id l then Inl (ConflictingOrigin (xl_evidence_id l))
              else group_links claims ls grouped origins)
      | _ \<Rightarrow> group_links claims ls grouped origins)"

definition map_external_task_evidence ::
  "external_task list \<Rightarrow> external_link list \<Rightarrow> external_error + evidence_view list" where
  "map_external_task_evidence tasks links =
     (let grouped = foldl (\<lambda>d t. dict_put (xt_task_id t) [] d) [] tasks;
          claims = foldl (\<lambda>d t. dict_put (xt_task_id t) (xt_claim_id t) d) [] tasks
      in bind_result (group_links claims links grouped []) (\<lambda>g.
           Inr (map (\<lambda>t. \<lparr>vw_task = t,
             vw_evidence_ids = (case dict_get g (xt_task_id t) of None \<Rightarrow> [] | Some ids \<Rightarrow> ids)\<rparr>)
             tasks)))"

section \<open>Requests\<close>

record authorisation =
  az_northwind_authority_ref :: string
  az_claimant_consent_ref :: string
  az_authorised_revision :: int

record external_request =
  xq_request_id :: string
  xq_task_id :: string
  xq_claim_id :: string
  xq_service_identity :: string
  xq_requested_action :: string
  xq_purpose :: string
  xq_disclosed_fields :: "string list"
  xq_authorisation :: authorisation
  xq_prepared_at :: datetime
  xq_sent_at :: "datetime option"
  xq_operation_id :: "string option"
  xq_dispatch_reserved_at :: "datetime option"

definition request_fields_ok :: "external_request \<Rightarrow> bool" where
  [validity]: "request_fields_ok q \<longleftrightarrow> bounded_text 1 100 (xq_request_id q)
     \<and> bounded_text 1 100 (xq_task_id q) \<and> bounded_text 1 100 (xq_claim_id q)
     \<and> bounded_text 1 100 (xq_service_identity q) \<and> bounded_text 1 100 (xq_requested_action q)
     \<and> bounded_text 1 300 (xq_purpose q)
     \<and> 1 \<le> length (xq_disclosed_fields q) \<and> length (xq_disclosed_fields q) \<le> 20
     \<and> bounded_text 1 100 (az_northwind_authority_ref (xq_authorisation q))
     \<and> bounded_text 1 100 (az_claimant_consent_ref (xq_authorisation q))
     \<and> 1 \<le> az_authorised_revision (xq_authorisation q)
     \<and> opt_all (bounded_text 1 100) (xq_operation_id q)"

definition validate_separate_authorities :: "authorisation \<Rightarrow> external_error + unit" where
  "validate_separate_authorities a = guarded
     [(az_northwind_authority_ref a = az_claimant_consent_ref a, AuthoritiesNotSeparate)] (Inr ())"

definition optional_before ::
  "datetime option \<Rightarrow> datetime \<Rightarrow> external_error \<Rightarrow> (bool \<times> external_error) list" where
  "optional_before a b e = (case a of None \<Rightarrow> []
     | Some t \<Rightarrow> before_guard t b ExternalDatetimeTypeError e)"

definition validate_request_state :: "external_request \<Rightarrow> external_error + unit" where
  [validity]: "validate_request_state q =
     guarded [(\<not> request_fields_ok q, ExternalFieldConstraint)]
     (bind_result (validate_separate_authorities (xq_authorisation q)) (\<lambda>_. guarded
      ([(\<not> distinct (xq_disclosed_fields q), DisclosedFieldsRepeated),
        (list_ex blank (xq_disclosed_fields q), DisclosedFieldBlank),
        (blank (xq_purpose q), PurposeBlank),
        (xq_sent_at q \<noteq> None \<and> xq_operation_id q = None, SentWithoutOperation),
        (xq_dispatch_reserved_at q \<noteq> None \<and> xq_operation_id q = None, ReservedWithoutOperation),
        (xq_operation_id q \<noteq> None \<and> xq_sent_at q = None \<and> xq_dispatch_reserved_at q = None,
         OperationBeforeReservation)]
       @ optional_before (xq_sent_at q) (xq_prepared_at q) SentBeforePrepared
       @ optional_before (xq_dispatch_reserved_at q) (xq_prepared_at q) ReservedBeforePrepared)
      (Inr ())))"

definition assert_request_matches_task :: "external_request \<Rightarrow> external_task \<Rightarrow> external_error + unit" where
  "assert_request_matches_task q t = guarded
     [(xq_task_id q \<noteq> xt_task_id t, RequestTaskMismatch ''task''),
      (xq_claim_id q \<noteq> xt_claim_id t, RequestTaskMismatch ''claim''),
      (xq_service_identity q \<noteq> xt_service_identity t, RequestTaskMismatch ''service''),
      (xq_requested_action q \<noteq> xt_requested_action t, RequestTaskMismatch ''action'')]
     (Inr ())"

definition external_task_requires_reconciliation ::
  "external_task \<Rightarrow> external_request option \<Rightarrow> external_error + bool" where
  "external_task_requires_reconciliation t request =
     (if xt_status t = Task_unknown_outcome then Inr True
      else case request of
        None \<Rightarrow> Inr False
      | Some q \<Rightarrow>
          if xt_status t \<noteq> Task_prepared \<or> xq_dispatch_reserved_at q = None \<or> xq_sent_at q \<noteq> None
            \<or> xq_operation_id q = None
          then Inr False
          else bind_result (assert_request_matches_task q t) (\<lambda>_. Inr True))"

definition assert_disclosure_within_consent ::
  "external_request \<Rightarrow> external_consent \<Rightarrow> string \<Rightarrow> external_error + unit" where
  "assert_disclosure_within_consent q c claim_customer_id = guarded
     [(ec_consent_ref c \<noteq> az_claimant_consent_ref (xq_authorisation q),
       UnauthorisedDisclosure ''consent reference''),
      (ec_status c \<noteq> Consent_granted, UnauthorisedDisclosure ''consent status''),
      (actor_type (ec_granted_by c) \<noteq> Actor_claimant, UnauthorisedDisclosure ''grantor''),
      (actor_id (ec_granted_by c) \<noteq> claim_customer_id, UnauthorisedDisclosure ''customer''),
      (ec_service_identity c \<noteq> xq_service_identity q, UnauthorisedDisclosure ''service''),
      (ec_requested_action c \<noteq> xq_requested_action q, UnauthorisedDisclosure ''action''),
      (\<not> set (xq_disclosed_fields q) \<subseteq> set (ec_permitted_fields c),
       UnauthorisedDisclosure ''fields'')]
     (Inr ())"

section \<open>Results\<close>

record retrieval_source =
  rs_system :: string
  rs_reference :: string
  rs_retrieved_at :: datetime

record external_result =
  xr_result_id :: string
  xr_task_id :: string
  xr_claim_id :: string
  xr_source :: retrieval_source
  xr_summary :: string
  xr_verification :: result_verification
  xr_verified_at :: "datetime option"
  xr_verified_against_revision :: "int option"
  xr_evidence_ids :: "string list"
  xr_received_at :: datetime

definition result_fields_ok :: "external_result \<Rightarrow> bool" where
  [validity]: "result_fields_ok r \<longleftrightarrow> bounded_text 1 100 (xr_result_id r) \<and> bounded_text 1 100 (xr_task_id r)
     \<and> bounded_text 1 100 (xr_claim_id r) \<and> bounded_text 1 100 (rs_system (xr_source r))
     \<and> bounded_text 1 200 (rs_reference (xr_source r)) \<and> bounded_text 1 500 (xr_summary r)
     \<and> opt_all (\<lambda>n. 1 \<le> n) (xr_verified_against_revision r) \<and> length (xr_evidence_ids r) \<le> 50"

definition validate_result_state :: "external_result \<Rightarrow> external_error + unit" where
  [validity]: "validate_result_state r =
     (let unverified = xr_verification r = Result_unverified in guarded
      ([(\<not> result_fields_ok r, ExternalFieldConstraint),
        (blank (xr_summary r), SummaryBlank),
        (\<not> distinct (xr_evidence_ids r), ResultEvidenceRepeated),
        (list_ex blank (xr_evidence_ids r), ResultEvidenceBlank),
        (unverified \<and> xr_verified_at r \<noteq> None, UnverifiedWithTime),
        (\<not> unverified \<and> xr_verified_at r = None, VerifiedWithoutTime)]
       @ optional_before (xr_verified_at r) (xr_received_at r) VerifiedBeforeReceived
       @ [(unverified \<and> xr_verified_against_revision r \<noteq> None, UnverifiedWithRevision),
          (\<not> unverified \<and> xr_verified_against_revision r = None, VerifiedWithoutRevision)])
      (Inr ()))"

definition RESULT_BEARING_TASK_STATES :: "task_status set" where
  "RESULT_BEARING_TASK_STATES = {Task_accepted, Task_unknown_outcome}"

definition assert_result_matches_task :: "external_result \<Rightarrow> external_task \<Rightarrow> external_error + unit" where
  "assert_result_matches_task r t = guarded
     [(xr_task_id r \<noteq> xt_task_id t, RequestTaskMismatch ''task''),
      (xr_claim_id r \<noteq> xt_claim_id t, RequestTaskMismatch ''claim''),
      (xt_status t \<notin> RESULT_BEARING_TASK_STATES, TaskCannotHaveResult (xt_status t))]
     (Inr ())"

definition result_link_guards ::
  "external_result \<Rightarrow> external_link list \<Rightarrow> string \<Rightarrow> (bool \<times> external_error) list" where
  "result_link_guards r links evidence_id =
     (let matching = filter (\<lambda>l. xl_evidence_id l = evidence_id) links;
          claims = set (map xl_claim_id matching); tasks = set (map xl_task_id matching)
      in [(matching = [], UntraceableEvidence evidence_id),
          (claims \<noteq> {xr_claim_id r}, LinkClaimMismatch evidence_id),
          (1 < card tasks, ConflictingOrigin evidence_id),
          (tasks \<noteq> {xr_task_id r}, ConflictingOrigin evidence_id)])"

definition assert_result_evidence_is_linked ::
  "external_result \<Rightarrow> external_link list \<Rightarrow> external_error + unit" where
  "assert_result_evidence_is_linked r links =
     guarded (concat (map (result_link_guards r links) (xr_evidence_ids r))) (Inr ())"

definition assert_result_may_settle_fact :: "external_result \<Rightarrow> int \<Rightarrow> external_error + unit" where
  "assert_result_may_settle_fact r claim_revision = guarded
     [(xr_verification r \<noteq> Result_consistent, UnsettledResult),
      (xr_verified_against_revision r \<noteq> Some claim_revision, StaleVerification)]
     (Inr ())"

section \<open>Attempts\<close>

record external_attempt =
  xa_attempt_id :: string
  xa_task_id :: string
  xa_claim_id :: string
  xa_operation_id :: string
  xa_attempt_number :: int
  xa_claim_revision :: int
  xa_started_at :: datetime
  xa_outcome :: task_status
  xa_failure_code :: "failure_code option"
  xa_delivery :: task_delivery
  xa_delivery_evidence :: "string option"

definition attempt_fields_ok :: "external_attempt \<Rightarrow> bool" where
  [validity]: "attempt_fields_ok a \<longleftrightarrow> bounded_text 1 100 (xa_attempt_id a) \<and> bounded_text 1 100 (xa_task_id a)
     \<and> bounded_text 1 100 (xa_claim_id a) \<and> bounded_text 1 100 (xa_operation_id a)
     \<and> 1 \<le> xa_attempt_number a \<and> 1 \<le> xa_claim_revision a
     \<and> opt_all (bounded_text 1 200) (xa_delivery_evidence a)"

definition validate_attempt_state :: "external_attempt \<Rightarrow> external_error + unit" where
  [validity]: "validate_attempt_state a = guarded
     [(\<not> attempt_fields_ok a, ExternalFieldConstraint),
      (xa_delivery a = Submitted \<and> xa_delivery_evidence a = None, SubmittedWithoutEvidence),
      (xa_delivery a \<noteq> Submitted \<and> xa_delivery_evidence a \<noteq> None, EvidenceWithoutSubmission),
      (xa_outcome a = Task_prepared, AttemptPrepared)]
     (if xa_outcome a = Task_accepted then guarded
        [(xa_failure_code a \<noteq> None, AcceptedWithFailure),
         (xa_delivery a \<noteq> Submitted, AcceptedNotSubmitted)] (Inr ())
      else failure_matches (xa_failure_code a) (xa_delivery a) (xa_outcome a))"

definition attempt_guards ::
  "external_request \<Rightarrow> external_attempt \<Rightarrow> (bool \<times> external_error) list" where
  "attempt_guards q a =
     [(xa_task_id a \<noteq> xq_task_id q, RequestTaskMismatch ''task''),
      (xa_claim_id a \<noteq> xq_claim_id q, RequestTaskMismatch ''claim''),
      (Some (xa_operation_id a) \<noteq> xq_operation_id q, DuplicateExternalRequest)]"

text \<open>\<open>max(attempts, key=...)\<close>: the first of the attempts with the largest number.\<close>

fun latest_attempt :: "external_attempt \<Rightarrow> external_attempt list \<Rightarrow> external_attempt" where
  "latest_attempt a [] = a"
| "latest_attempt a (b # bs) =
     latest_attempt (if xa_attempt_number a < xa_attempt_number b then b else a) bs"

definition assert_retry_is_permitted ::
  "external_request \<Rightarrow> external_attempt list \<Rightarrow> external_error + unit" where
  "assert_retry_is_permitted q attempts = guarded
     ([(xq_operation_id q = None, DuplicateExternalRequest)]
      @ concat (map (attempt_guards q) attempts)
      @ [(attempts = [], RetryNotPermitted),
         (\<not> distinct (map xa_attempt_number attempts), RetryNotPermitted)])
     (let latest = latest_attempt (hd attempts) (tl attempts) in
      if xa_outcome latest = Task_accepted then Inl RetryNotPermitted
      else case xa_failure_code latest of
        None \<Rightarrow> Inl RetryNotPermitted
      | Some c \<Rightarrow> bind_result (classify_external_task_failure c (xa_delivery latest)) (\<lambda>k.
          guarded [(fc_recovery k \<noteq> Recover_retry_same_operation, RetryNotPermitted)] (Inr ())))"

section \<open>Verification of a result\<close>

definition snapshot_guards :: "working_claim \<Rightarrow> evidence_record \<Rightarrow> (bool \<times> external_error) list" where
  "snapshot_guards c e =
     (ed_claim_id e \<noteq> wc_claim_id c, CrossClaimEvidence (ed_evidence_id e))
     # before_guard (wc_updated_at c) (ed_updated_at e) ExternalDatetimeTypeError
         (UnboundEvidenceSnapshot (ed_evidence_id e))"

definition assert_evidence_belongs_to_snapshot ::
  "working_claim \<Rightarrow> evidence_record list \<Rightarrow> external_error + unit" where
  "assert_evidence_belongs_to_snapshot c evidence =
     guarded (concat (map (snapshot_guards c) evidence)) (Inr ())"

fun latest_of :: "datetime \<Rightarrow> datetime list \<Rightarrow> external_error + datetime" where
  "latest_of latest [] = Inr latest"
| "latest_of latest (d # ds) = guarded [(incomparable d latest, ExternalDatetimeTypeError)]
     (latest_of (if dt_before latest d then d else latest) ds)"

definition latest_state_read ::
  "external_result \<Rightarrow> external_task \<Rightarrow> external_link list \<Rightarrow> working_claim
     \<Rightarrow> external_error + datetime" where
  "latest_state_read r t links c = latest_of (xr_received_at r)
     ([xt_updated_at t, wc_updated_at c]
      @ map xl_linked_at (filter (\<lambda>l. xl_evidence_id l \<in> set (xr_evidence_ids r)) links))"

definition names_conflicting_material :: "external_result \<Rightarrow> evidence_record list \<Rightarrow> bool" where
  "names_conflicting_material r evidence \<longleftrightarrow>
     list_ex (\<lambda>e. ed_evidence_id e \<in> set (xr_evidence_ids r) \<and> is_in_conflict (ed_references e))
       evidence"

definition decide_result_verification ::
  "external_result \<Rightarrow> external_task \<Rightarrow> evidence_record list \<Rightarrow> result_verification" where
  "decide_result_verification r t evidence =
     (if xt_status t = Task_unknown_outcome then Result_review_required
      else if names_conflicting_material r evidence then Result_inconsistent
      else Result_review_required)"

definition verify_external_task_result ::
  "external_result \<Rightarrow> external_task \<Rightarrow> external_link list \<Rightarrow> working_claim \<Rightarrow> evidence_record list
     \<Rightarrow> datetime \<Rightarrow> external_error + external_result" where
  "verify_external_task_result r t links c evidence checked_at =
     guarded
      [(xr_verification r \<noteq> Result_unverified, ResultAlreadyVerified),
       (xr_claim_id r \<noteq> wc_claim_id c, LinkClaimMismatch (xr_claim_id r))]
      (bind_result (assert_result_matches_task r t) (\<lambda>_.
       bind_result (assert_result_evidence_is_linked r links) (\<lambda>_.
       bind_result (assert_evidence_belongs_to_snapshot c evidence) (\<lambda>_.
       bind_result (latest_state_read r t links c) (\<lambda>latest.
       guarded (before_guard checked_at latest ExternalDatetimeTypeError VerificationPrecedesState)
       (let r' = r\<lparr>xr_verification := decide_result_verification r t evidence,
                   xr_verified_at := Some checked_at,
                   xr_verified_against_revision := Some (wc_revision c)\<rparr>
        in bind_result (validate_result_state r') (\<lambda>_. Inr r')))))))"

section \<open>Moves of a task and of a result\<close>

definition SETTLED_TASK_STATES :: "task_status set" where
  "SETTLED_TASK_STATES = {Task_accepted, Task_terminal_failure}"

definition same_task :: "external_task \<Rightarrow> external_task \<Rightarrow> bool" where
  "same_task current proposed \<longleftrightarrow>
     xt_task_id current = xt_task_id proposed \<and> xt_claim_id current = xt_claim_id proposed
     \<and> xt_service_identity current = xt_service_identity proposed
     \<and> xt_requested_action current = xt_requested_action proposed
     \<and> xt_integration_source current = xt_integration_source proposed
     \<and> xt_created_at current = xt_created_at proposed"

definition reconciliation_guards ::
  "external_task \<Rightarrow> external_task \<Rightarrow> (bool \<times> external_error) list" where
  "reconciliation_guards current proposed =
     (if xt_status current = Task_unknown_outcome then
        [(xt_status proposed = Task_retryable_failure, TaskTransitionNotPermitted),
         (xt_status proposed = Task_accepted \<and> xt_provider_reference proposed = None,
          TaskTransitionNotPermitted),
         (xt_status proposed = Task_accepted
            \<and> xt_provider_reference proposed = xt_provider_reference current,
          TaskTransitionNotPermitted)]
      else [])"

definition assert_task_transition_is_permitted ::
  "external_task \<Rightarrow> external_task \<Rightarrow> external_error + unit" where
  "assert_task_transition_is_permitted current proposed =
     guarded
      ([(\<not> same_task current proposed, TaskIdentityChanged)]
       @ before_guard (xt_updated_at proposed) (xt_updated_at current)
           ExternalDatetimeTypeError TaskTransitionNotPermitted
       @ [(xt_delivery current = Submitted \<and> xt_delivery proposed \<noteq> Submitted,
           TaskTransitionNotPermitted),
          (xt_delivery current = Submitted
             \<and> xt_delivery_evidence proposed \<noteq> xt_delivery_evidence current,
           TaskTransitionNotPermitted)])
      (if xt_status proposed = Task_prepared
       then guarded [(xt_status current \<noteq> Task_prepared, TaskTransitionNotPermitted)] (Inr ())
       else guarded
         ([(xt_status current \<in> SETTLED_TASK_STATES \<and> xt_status proposed \<noteq> xt_status current,
            TaskTransitionNotPermitted)]
          @ reconciliation_guards current proposed)
         (map_error (\<lambda>_. TaskTransitionNotPermitted)
           (assert_persisted_operation_transition (task_status_value (xt_status current))
             (task_status_value (xt_status proposed)))))"

datatype task_continuation =
    Continue_retry_permitted_by_the_failure | Continue_awaiting_reconciliation
  | Continue_awaiting_review

fun continuation_by_recovery :: "task_recovery \<Rightarrow> task_continuation \<times> bool" where
  "continuation_by_recovery Recover_retry_same_operation =
     (Continue_retry_permitted_by_the_failure, True)"
| "continuation_by_recovery Recover_reconcile_before_retry = (Continue_awaiting_reconciliation, False)"
| "continuation_by_recovery Recover_review_required = (Continue_awaiting_review, False)"

definition continuation_for_failed_task ::
  "external_task \<Rightarrow> external_error + task_continuation \<times> bool" where
  "continuation_for_failed_task t = (case xt_failure_code t of
     None \<Rightarrow> Inl TaskHasNotFailed
   | Some c \<Rightarrow> bind_result (classify_external_task_failure c (xt_delivery t)) (\<lambda>k.
       Inr (continuation_by_recovery (fc_recovery k))))"

definition same_ingestion :: "external_result \<Rightarrow> external_result \<Rightarrow> bool" where
  "same_ingestion current proposed \<longleftrightarrow>
     xr_result_id current = xr_result_id proposed \<and> xr_task_id current = xr_task_id proposed
     \<and> xr_claim_id current = xr_claim_id proposed \<and> xr_source current = xr_source proposed
     \<and> xr_summary current = xr_summary proposed \<and> xr_evidence_ids current = xr_evidence_ids proposed
     \<and> xr_received_at current = xr_received_at proposed"

definition assert_result_advance_is_permitted ::
  "external_result \<Rightarrow> external_result \<Rightarrow> external_error + unit" where
  "assert_result_advance_is_permitted current proposed =
     guarded
      [(xr_result_id current \<noteq> xr_result_id proposed, ResultAdvanceNotPermitted),
       (\<not> same_ingestion current proposed, ResultAdvanceNotPermitted)]
      (if xr_verification current = xr_verification proposed then guarded
         [(xr_verified_at current \<noteq> xr_verified_at proposed
             \<or> xr_verified_against_revision current \<noteq> xr_verified_against_revision proposed,
           ResultAdvanceNotPermitted)] (Inr ())
       else guarded
         [(xr_verification current \<noteq> Result_unverified, ResultAdvanceNotPermitted)] (Inr ()))"

end
