(* ===== verification/Recovery_Store.thy ===== *)
theory Recovery_Store
  imports Follow_Up_Execution Retention_Domain Message_Order Audit_Events External_Tasks
begin

text \<open>
  The state of the fixture repository (\<open>backend/repositories/fixture.py\<close>) that recovery and
  retention read and write, one dictionary per store, and the helpers shared by its
  operations: claimant access, audit events, idempotency records, messages, sessions and
  realtime events. Every public operation of the repository runs under one lock, so a call is
  one step from state to state; a call that raises leaves the state it found unless said
  otherwise.
\<close>

section \<open>Dictionaries with removal\<close>

definition dict_pop :: "'k \<Rightarrow> ('k \<times> 'v) list \<Rightarrow> ('k \<times> 'v) list" where
  "dict_pop k d = filter (\<lambda>p. fst p \<noteq> k) d"

lemma dict_get_pop [simp]: "dict_get (dict_pop k d) = (dict_get d)(k := None)"
  by (induction d) (auto simp: dict_pop_def fun_eq_iff)

lemma dict_pop_distinct: "distinct (map fst d) \<Longrightarrow> distinct (map fst (dict_pop k d))"
  by (induction d) (auto simp: dict_pop_def)

definition dict_find :: "('v \<Rightarrow> bool) \<Rightarrow> ('k \<times> 'v) list \<Rightarrow> ('k \<times> 'v) option" where
  "dict_find P d = find (\<lambda>p. P (snd p)) d"

section \<open>Records\<close>

datatype handoff_status =
    Handoff_requested | Handoff_queued | Handoff_accepted | Handoff_in_progress
  | Handoff_resolved | Handoff_cancelled

record handoff =
  hf_handoff_id :: string
  hf_claim_id :: string
  hf_type :: string
  hf_status :: handoff_status
  hf_priority :: string
  hf_applied_rule :: string

text \<open>
  The coordinates of an agent decision that an external request relies on; what the decision
  says carries no such logic.
\<close>

record agent_decision =
  dn_decision_id :: string
  dn_claim_id :: string
  dn_session_id :: string
  dn_resulting_revision :: int
  dn_authority_outcome :: authority_outcome
  dn_content :: string

text \<open>
  An idempotency record carries some twenty optional fields; \<open>im_fields\<close> holds those that are
  set, by name.
\<close>

record idempotency =
  im_actor_id :: string
  im_route :: string
  im_key :: string
  im_request_fingerprint :: string
  im_claim_id :: string
  im_session_id :: string
  im_fields :: "(string \<times> payload_value) list"
  im_inbound_checkpoint :: bool
  im_retired :: bool

text \<open>The coordinates of a branch evaluation; its findings carry no recovery logic.\<close>

record branch_evaluation =
  be_evaluation_id :: string
  be_claim_id :: string
  be_evaluated_against_claim_revision :: int
  be_resulting_claim_revision :: "int option"
  be_content :: string

text \<open>A realtime event; its random identity and its wall-clock time carry no logic.\<close>

record realtime_event =
  ry_sequence :: int
  ry_mutation :: string
  ry_claim_id :: string
  ry_customer_id :: string
  ry_claim_revision :: int
  ry_operation_correlation :: "string option"

record store =
  st_claims :: "(string \<times> working_claim) list"
  st_sessions :: "(string \<times> session) list"
  st_session_ids :: "((string \<times> string) \<times> string list) list"
  st_message_ids :: "(string \<times> string list) list"
  st_messages :: "(string \<times> message) list"
  st_follow_ups :: "(string \<times> follow_up) list"
  st_follow_up_operations :: "(string \<times> operation) list"
  st_runtime_turns :: "(string \<times> work_item list) list"
  st_work_items :: "(string \<times> work_item) list"
  st_handoffs :: "(string \<times> handoff) list"
  st_decisions :: "(string \<times> agent_decision) list"
  st_evidence :: "(string \<times> evidence_record) list"
  st_evidence_links :: "((string \<times> string) \<times> evidence_link) list"
  st_external_tasks :: "(string \<times> external_task) list"
  st_external_requests :: "(string \<times> external_request) list"
  st_external_attempts :: "(string \<times> external_attempt) list"
  st_external_results :: "(string \<times> external_result) list"
  st_external_links :: "((string \<times> string) \<times> external_link) list"
  st_idempotency :: "((string \<times> string \<times> string) \<times> idempotency) list"
  st_audit_events :: "(string \<times> audit_event) list"
  st_branch_evaluations :: "(string \<times> branch_evaluation) list"
  st_realtime_events :: "realtime_event list"
  st_realtime_sequence :: int
  st_retention_operations :: "(string \<times> retention_operation) list"
  st_retention_tombstones :: "(string \<times> record_tombstone) list"
  st_retention_by_claim :: "(string \<times> string) list"
  st_retention_holds :: "(string \<times> retention_hold) list"

definition empty_store :: store where
  "empty_store = \<lparr>st_claims = [], st_sessions = [], st_session_ids = [], st_message_ids = [],
     st_messages = [], st_follow_ups = [], st_follow_up_operations = [], st_runtime_turns = [],
     st_work_items = [], st_handoffs = [], st_decisions = [], st_evidence = [],
     st_evidence_links = [],
     st_external_tasks = [], st_external_requests = [], st_external_attempts = [],
     st_external_results = [], st_external_links = [], st_idempotency = [], st_audit_events = [],
     st_branch_evaluations = [],
     st_realtime_events = [], st_realtime_sequence = 0, st_retention_operations = [],
     st_retention_tombstones = [], st_retention_by_claim = [], st_retention_holds = []\<rparr>"

section \<open>Errors\<close>

datatype freeze_reason =
    OPERATION_NOT_FOUND | INVALID_FREEZE_SHAPE | ACTIVE_HOLD | FREEZE_RECOVERY_OPERATION_OPEN
  | FREEZE_EXTERNAL_OUTCOME_UNKNOWN | FREEZE_STAFF_RESPONSIBILITY_OPEN
  | INVALID_RECORD_IDENTITY | INVALID_STORAGE_REFERENCE | TARGET_LIMIT_EXCEEDED

datatype repo_error =
    Missing string
  | RevisionConflict int
  | IdempotencyConflict string
  | ResourceAccessClosed string
  | FreezeRejected freeze_reason string
  | Retention retention_error
  | DatabaseStep database_step_error
  | Execution execution_error
  | MessageRejected message_error
  | MessageSessionMissing
  | ExternalRejected external_error
  | EvidenceRejected evidence_error
  | EvidenceCursorMismatch
  | RealtimeFieldConstraint
  | ReservationNotInitial
  | FailureStatusInvalid
  | FailureNeedsRecordTarget
  | CompletedCannotAuthorize
  | OnlyObjectTargets
  | SatisfiedNotReauthorized
  | OnlyRecordTargets
  | ObjectTargetsIncomplete
  | HoldPersistedReleased
  | StopIteration
  | InvalidDiscoveryLimit
  | InvalidCursor
  | NaiveBoundary
  | DatetimeTypeError
  | RecoveryDeadlineConflict string

section \<open>Claimant access\<close>

definition claim_access_closed :: "store \<Rightarrow> string \<Rightarrow> bool" where
  "claim_access_closed s claim_id \<longleftrightarrow> dict_get (st_retention_by_claim s) claim_id \<noteq> None"

definition claimant_resource_access_open :: "store \<Rightarrow> string \<Rightarrow> string \<Rightarrow> bool" where
  "claimant_resource_access_open s claim_id customer_id \<longleftrightarrow>
     (case dict_get (st_claims s) claim_id of None \<Rightarrow> False
      | Some c \<Rightarrow> wc_customer_id c = customer_id \<and> \<not> claim_access_closed s claim_id)"

definition claimant_actor_access_closed :: "store \<Rightarrow> string \<Rightarrow> string \<Rightarrow> bool" where
  "claimant_actor_access_closed s claim_id actor \<longleftrightarrow>
     (case dict_get (st_claims s) claim_id of None \<Rightarrow> False
      | Some c \<Rightarrow> wc_customer_id c = actor \<and> claim_access_closed s claim_id)"

definition get_claim :: "store \<Rightarrow> string \<Rightarrow> string \<Rightarrow> working_claim option" where
  "get_claim s claim_id customer_id =
     (if claimant_resource_access_open s claim_id customer_id then dict_get (st_claims s) claim_id
      else None)"

definition get_session :: "store \<Rightarrow> string \<Rightarrow> string \<Rightarrow> string \<Rightarrow> session option" where
  "get_session s claim_id session_id customer_id =
     (if \<not> claimant_resource_access_open s claim_id customer_id then None
      else case dict_get (st_sessions s) session_id of
        None \<Rightarrow> None
      | Some x \<Rightarrow> if se_claim_id x \<noteq> claim_id \<or> se_customer_id x \<noteq> customer_id then None else Some x)"

definition get_active_session :: "store \<Rightarrow> string \<Rightarrow> string \<Rightarrow> session option" where
  "get_active_session s claim_id customer_id = (case get_claim s claim_id customer_id of
     None \<Rightarrow> None
   | Some c \<Rightarrow> (case wc_active_session_id c of None \<Rightarrow> None
       | Some i \<Rightarrow> get_session s claim_id i customer_id))"

definition get_follow_up :: "store \<Rightarrow> string \<Rightarrow> string \<Rightarrow> string \<Rightarrow> follow_up option" where
  "get_follow_up s claim_id follow_up_id customer_id =
     (if get_claim s claim_id customer_id = None then None
      else case dict_get (st_follow_ups s) follow_up_id of
        None \<Rightarrow> None
      | Some f \<Rightarrow> if fu_claim_id f \<noteq> claim_id then None else Some f)"

definition list_follow_ups :: "store \<Rightarrow> string \<Rightarrow> string \<Rightarrow> follow_up list" where
  "list_follow_ups s claim_id customer_id =
     (if get_claim s claim_id customer_id = None then []
      else sort_key (\<lambda>f. (instant (fu_created_at f), fu_follow_up_id f))
        (filter (\<lambda>f. fu_claim_id f = claim_id) (dict_values (st_follow_ups s))))"

section \<open>Audit events and idempotency\<close>

definition append_audit_event :: "store \<Rightarrow> audit_event \<Rightarrow> repo_error + store" where
  "append_audit_event s e = (case dict_get (st_audit_events s) (au_event_id e) of
     Some existing \<Rightarrow> if existing \<noteq> e then Inl (IdempotencyConflict (au_event_id e)) else Inr s
   | None \<Rightarrow> Inr (s\<lparr>st_audit_events := dict_put (au_event_id e) e (st_audit_events s)\<rparr>))"

fun prepare_audit_events ::
  "store \<Rightarrow> working_claim \<Rightarrow> audit_event list \<Rightarrow> (string \<times> audit_event) list
     \<Rightarrow> repo_error + (string \<times> audit_event) list" where
  "prepare_audit_events s c [] prepared = Inr prepared"
| "prepare_audit_events s c (e # es) prepared = guarded
     [(au_claim_id e \<noteq> Some (wc_claim_id c), Missing (wc_claim_id c)),
      (as_subject_type (au_subject e) = Subject_claim \<and> au_claim_revision e \<noteq> Some (wc_revision c),
       Missing (wc_claim_id c)),
      (\<not> opt_all (\<lambda>x. x = e) (dict_get prepared (au_event_id e)),
       IdempotencyConflict (au_event_id e)),
      (\<not> opt_all (\<lambda>x. x = e) (dict_get (st_audit_events s) (au_event_id e)),
       IdempotencyConflict (au_event_id e))]
     (prepare_audit_events s c es (dict_put (au_event_id e) e prepared))"

declare prepare_audit_events.simps [simp del]

definition store_audit_events :: "(string \<times> audit_event) list \<Rightarrow> store \<Rightarrow> store" where
  "store_audit_events prepared s = s\<lparr>st_audit_events :=
     foldl (\<lambda>d e. dict_put (au_event_id e) e d) (st_audit_events s) (dict_values prepared)\<rparr>"

definition idempotency_lookup :: "idempotency \<Rightarrow> string \<times> string \<times> string" where
  "idempotency_lookup r = (im_actor_id r, im_route r, im_key r)"

definition save_idempotency :: "store \<Rightarrow> idempotency \<Rightarrow> repo_error + store" where
  "save_idempotency s r = guarded
     [(im_claim_id r \<noteq> [] \<and> claimant_actor_access_closed s (im_claim_id r) (im_actor_id r),
       ResourceAccessClosed (im_claim_id r)),
      (\<not> opt_all (\<lambda>x. im_request_fingerprint x = im_request_fingerprint r \<and> \<not> im_retired x)
          (dict_get (st_idempotency s) (idempotency_lookup r)),
       IdempotencyConflict (im_key r))]
     (Inr (s\<lparr>st_idempotency := dict_put (idempotency_lookup r) r (st_idempotency s)\<rparr>))"

definition find_idempotency ::
  "store \<Rightarrow> string \<Rightarrow> string \<Rightarrow> string \<Rightarrow> repo_error + idempotency option" where
  "find_idempotency s actor route key =
     (case dict_get (st_idempotency s) (actor, route, key) of
        None \<Rightarrow> Inr None
      | Some r \<Rightarrow>
          if im_retired r then
            bind_result (map_error Retention (retention_access_closed
                (case dict_get (st_retention_by_claim s) (im_claim_id r) of
                   None \<Rightarrow> None
                 | Some i \<Rightarrow> dict_get (st_retention_operations s) i)))
              (\<lambda>closed. if closed then Inl (ResourceAccessClosed (im_claim_id r)) else Inr (Some r))
          else Inr (Some r))"

section \<open>Sessions, messages and realtime events\<close>

definition setdefault :: "'k \<Rightarrow> 'v list \<Rightarrow> ('k \<times> 'v list) list \<Rightarrow> ('k \<times> 'v list) list" where
  "setdefault k v d = (if dict_get d k = None then dict_put k v d else d)"

definition dict_list :: "('k \<times> 'v list) list \<Rightarrow> 'k \<Rightarrow> 'v list" where
  "dict_list d k = (case dict_get d k of None \<Rightarrow> [] | Some xs \<Rightarrow> xs)"

definition append_new :: "'a \<Rightarrow> 'a list \<Rightarrow> 'a list" where
  "append_new x xs = (if x \<in> set xs then xs else xs @ [x])"

text \<open>Sorted newest first, on the start of the session and its identity.\<close>

definition session_order :: "store \<Rightarrow> string list \<Rightarrow> string list" where
  "session_order s ids = rev (sort_key (\<lambda>i. (case dict_get (st_sessions s) i of
     None \<Rightarrow> 0 | Some x \<Rightarrow> instant (se_started_at x), i)) ids)"

definition store_session :: "store \<Rightarrow> session \<Rightarrow> store" where
  "store_session s x =
    (let s1 = s\<lparr>st_sessions := dict_put (se_session_id x) x (st_sessions s),
                st_message_ids := setdefault (se_session_id x) [] (st_message_ids s)\<rparr>;
         k = (se_claim_id x, se_customer_id x);
         ids = append_new (se_session_id x) (dict_list (st_session_ids s1) k)
     in s1\<lparr>st_session_ids := dict_put k (session_order s1 ids) (st_session_ids s1)\<rparr>)"

definition preflight_message :: "store \<Rightarrow> message \<Rightarrow> repo_error + unit" where
  "preflight_message s m =
     bind_result (map_error MessageRejected
         (validate_message_graph (dict_values (st_messages s) @ [m]))) (\<lambda>_.
       case dict_get (st_sessions s) (ms_session_id m) of
         None \<Rightarrow> Inl MessageSessionMissing
       | Some x \<Rightarrow>
           (let evidence = List.map_filter (dict_get (st_evidence s)) (ms_evidence_refs m);
                reply_id = (case ms_in_reply_to m of None \<Rightarrow> [] | Some i \<Rightarrow> i);
                reply = (if reply_id = ms_message_id m then Some m
                         else dict_get (st_messages s) reply_id);
                duplicate = find (\<lambda>y. ms_client_message_id m \<noteq> None \<and> ms_claim_id y = ms_claim_id m
                    \<and> ms_client_message_id y = ms_client_message_id m) (dict_values (st_messages s))
            in (case validate_message_record m x evidence reply duplicate of
                  Inr u \<Rightarrow> Inr u
                | Inl DuplicateClientMessage \<Rightarrow>
                    Inl (IdempotencyConflict (case ms_client_message_id m of
                      None \<Rightarrow> ms_message_id m
                    | Some i \<Rightarrow> if i = [] then ms_message_id m else i))
                | Inl e \<Rightarrow> Inl (MessageRejected e))))"

definition store_message :: "store \<Rightarrow> message \<Rightarrow> repo_error + store" where
  "store_message s m =
     bind_result (preflight_message s m) (\<lambda>_.
       let messages = dict_put (ms_message_id m) m (st_messages s);
           ids = append_new (ms_message_id m) (dict_list (st_message_ids s) (ms_session_id m))
       in if list_all (\<lambda>i. dict_get messages i \<noteq> None) ids
          then Inr (s\<lparr>st_messages := messages,
                 st_message_ids := dict_put (ms_session_id m)
                   (message_ids (order_messages (List.map_filter (dict_get messages) ids)))
                   (st_message_ids s)\<rparr>)
          else Inl (Missing (ms_message_id m)))"

definition prepare_realtime_mutation ::
  "store \<Rightarrow> string \<Rightarrow> working_claim \<Rightarrow> string option \<Rightarrow> repo_error + realtime_event" where
  "prepare_realtime_mutation s mutation c correlation = guarded
     [(\<not> opt_all (bounded_text 0 200) correlation \<or> wc_revision c < 1, RealtimeFieldConstraint)]
     (Inr \<lparr>ry_sequence = st_realtime_sequence s + 1, ry_mutation = mutation,
        ry_claim_id = wc_claim_id c, ry_customer_id = wc_customer_id c,
        ry_claim_revision = wc_revision c, ry_operation_correlation = correlation\<rparr>)"

abbreviation prepare_realtime ::
  "store \<Rightarrow> string \<Rightarrow> working_claim \<Rightarrow> string \<Rightarrow> repo_error + realtime_event" where
  "prepare_realtime s mutation c correlation \<equiv>
     prepare_realtime_mutation s mutation c (Some correlation)"

definition commit_realtime :: "realtime_event \<Rightarrow> store \<Rightarrow> store" where
  "commit_realtime e s = s\<lparr>st_realtime_events := st_realtime_events s @ [e],
     st_realtime_sequence := ry_sequence e\<rparr>"

end
