(* ===== verification/Discovery.thy ===== *)
theory Discovery
  imports Northwind_Prelude "HOL-Library.Multiset"
begin

text \<open>
  Keyset discovery, the paging that the worker sweeps of the repository share
  (\<open>backend/repositories/pagination.py\<close> and the \<open>list_*\<close> operations of the fixture
  repository). A cursor is the decoded position it encodes: the key of the last item
  returned. The opaque base64 text around it is not modelled.
\<close>

definition after_cursor :: "('a \<Rightarrow> 'k::linorder) \<Rightarrow> 'k option \<Rightarrow> 'a \<Rightarrow> bool" where
  "after_cursor key cursor x \<longleftrightarrow> (case cursor of None \<Rightarrow> True | Some k \<Rightarrow> k < key x)"

definition discovery_page ::
  "('a \<Rightarrow> 'k::linorder) \<Rightarrow> nat \<Rightarrow> 'a list \<Rightarrow> 'k option \<Rightarrow> 'a list \<times> 'k option" where
  "discovery_page key limit items cursor =
     (let remaining = sort_key key (filter (after_cursor key cursor) items);
          page = take limit remaining
      in (page, if limit < length remaining then Some (key (last page)) else None))"

text \<open>A sweep follows the cursors until none is returned.\<close>

function sweep :: "('a \<Rightarrow> 'k::linorder) \<Rightarrow> nat \<Rightarrow> 'a list \<Rightarrow> 'k option \<Rightarrow> 'a list list" where
  "sweep key limit items cursor =
     (if limit = 0 then []
      else case discovery_page key limit items cursor of
        (page, None) \<Rightarrow> [page]
      | (page, Some k) \<Rightarrow> page # sweep key limit items (Some k))"
  by pat_completeness auto

lemma page_progress:
  assumes "discovery_page key limit items cursor = (page, Some k)" "limit \<noteq> 0"
  shows "page \<noteq> []" "k = key (last page)" "set page \<subseteq> set (filter (after_cursor key cursor) items)"
    "\<forall>x\<in>set page. key x \<le> k"
proof -
  let ?xs = "sort_key key (filter (after_cursor key cursor) items)"
  have page: "page = take limit ?xs" "limit < length ?xs" "k = key (last page)"
    using assms(1) by (auto simp: discovery_page_def Let_def split: if_splits)
  show "page \<noteq> []" using page(1,2) assms(2) by (metis less_nat_zero_code list.size(3) take_eq_Nil)
  show "k = key (last page)" by (rule page(3))
  have "set page \<subseteq> set ?xs" unfolding page(1) by (rule set_take_subset)
  then show "set page \<subseteq> set (filter (after_cursor key cursor) items)" by simp
  have "sorted (map key page)" unfolding page(1) take_map [symmetric] by (rule sorted_wrt_take) simp
  then have "sorted (map key (butlast page @ [last page]))" using \<open>page \<noteq> []\<close> by simp
  then have "\<forall>x\<in>set (butlast page @ [last page]). key x \<le> key (last page)"
    unfolding map_append sorted_append by auto
  then show "\<forall>x\<in>set page. key x \<le> k" using \<open>page \<noteq> []\<close> page(3) by simp
qed

lemma after_cursor_shrinks:
  assumes "discovery_page key limit items cursor = (page, Some k)" "limit \<noteq> 0"
  shows "length (filter (after_cursor key (Some k)) items) < length (filter (after_cursor key cursor) items)"
proof -
  have last: "last page \<in> set page" using page_progress(1) [OF assms] by simp
  then have m: "last page \<in> set items" "after_cursor key cursor (last page)"
    using page_progress(3) [OF assms] by auto
  have sub: "after_cursor key (Some k) x \<Longrightarrow> after_cursor key cursor x" for x
    using m(2) page_progress(2) [OF assms] by (auto simp: after_cursor_def split: option.splits)
  then have "filter (after_cursor key (Some k)) items =
      filter (after_cursor key (Some k)) (filter (after_cursor key cursor) items)"
    by (auto intro: filter_cong)
  also have "length \<dots> < length (filter (after_cursor key cursor) items)"
  proof (rule length_filter_less)
    show "last page \<in> set (filter (after_cursor key cursor) items)" using m by simp
    show "\<not> after_cursor key (Some k) (last page)"
      using page_progress(2) [OF assms] by (simp add: after_cursor_def)
  qed
  finally show ?thesis .
qed

termination sweep
proof (relation "measure (\<lambda>(key, limit, items, cursor). length (filter (after_cursor key cursor) items))",
    goal_cases)
  case (2 key limit items cursor page nxt k)
  then show ?case using after_cursor_shrinks [of key limit items cursor page k] by auto
qed simp

declare sweep.simps [simp del]

section \<open>A sweep visits every item once\<close>

lemma page_remaining:
  assumes "inj_on key (set items)" "distinct items"
    and "discovery_page key limit items cursor = (page, Some k)" "limit \<noteq> 0"
  shows "sort_key key (filter (after_cursor key cursor) items)
    = page @ sort_key key (filter (after_cursor key (Some k)) items)"
proof -
  let ?ys = "filter (after_cursor key cursor) items"
  let ?xs = "sort_key key ?ys"
  have page: "page = take limit ?xs" "k = key (last page)"
    using assms(3) by (auto simp: discovery_page_def Let_def split: if_splits)
  have split: "?xs = page @ drop limit ?xs" unfolding page(1) by simp
  have sorted: "sorted (map key (page @ drop limit ?xs))" using split sorted_sort_key [of key ?ys] by simp
  have dist: "distinct (page @ drop limit ?xs)"
    using split assms(2) distinct_sort [of key ?ys] by (metis distinct_filter)
  have set: "set (page @ drop limit ?xs) = set ?ys" using split by (metis set_sort)
  have le: "\<forall>x\<in>set page. key x \<le> k" by (rule page_progress(4) [OF assms(3,4)])
  have last: "last page \<in> set page" using page_progress(1) [OF assms(3,4)] by simp
  have gt: "\<forall>x\<in>set (drop limit ?xs). k < key x"
  proof
    fix x assume x: "x \<in> set (drop limit ?xs)"
    have "k \<le> key x" using sorted x last page(2) by (auto simp: sorted_append)
    moreover have "x \<noteq> last page" using dist x last by auto
    then have "key x \<noteq> k" using assms(1) x last page(2) set by (auto dest: inj_onD)
    ultimately show "k < key x" by simp
  qed
  have "mset (drop limit ?xs) = mset (filter (after_cursor key (Some k)) items)"
  proof (rule set_eq_iff_mset_eq_distinct [THEN iffD1])
    show "distinct (drop limit ?xs)" "distinct (filter (after_cursor key (Some k)) items)"
      using dist assms(2) by simp_all
    have "x \<in> set (drop limit ?xs) \<longleftrightarrow> x \<in> set ?ys \<and> k < key x" for x
      using gt le set by (metis Un_iff leD set_append)
    moreover have "after_cursor key cursor x" if "k < key x" for x
      using that last page_progress(3) [OF assms(3,4)] page(2)
      by (fastforce simp: after_cursor_def split: option.splits)
    ultimately show "set (drop limit ?xs) = set (filter (after_cursor key (Some k)) items)"
      by (auto simp: after_cursor_def)
  qed
  then have "drop limit ?xs = sort_key key (filter (after_cursor key (Some k)) items)"
    using sorted assms(1) set
    by (intro sort_key_inj_key_eq [symmetric]) (auto simp: sorted_append intro: inj_on_subset)
  then show ?thesis using split by simp
qed

lemma sweep_complete:
  assumes "inj_on key (set items)" "distinct items" "0 < limit"
  shows "concat (sweep key limit items cursor) = sort_key key (filter (after_cursor key cursor) items)
    \<and> (\<forall>page\<in>set (sweep key limit items cursor). length page \<le> limit)"
  using assms
proof (induction key limit items cursor rule: sweep.induct)
  case (1 key limit items cursor)
  obtain page nxt where p: "discovery_page key limit items cursor = (page, nxt)" by fastforce
  have len: "length page \<le> limit"
    using p by (auto simp: discovery_page_def Let_def split: if_splits)
  show ?case
  proof (cases nxt)
    case None
    then have "page = sort_key key (filter (after_cursor key cursor) items)"
      using p by (auto simp: discovery_page_def Let_def not_less split: if_splits)
    then show ?thesis using p None 1(4) len by (simp add: sweep.simps [of key limit items cursor])
  next
    case (Some k)
    have "concat (sweep key limit items (Some k)) = sort_key key (filter (after_cursor key (Some k)) items)
        \<and> (\<forall>page\<in>set (sweep key limit items (Some k)). length page \<le> limit)"
      using 1(1) [OF _ p [symmetric] Some] 1(2-4) by simp
    then show ?thesis
      using page_remaining [OF 1(2,3) p [unfolded Some]] p Some 1(4) len
      by (simp add: sweep.simps [of key limit items cursor])
  qed
qed

end
