(* ===== verification/Retention_Repository.thy ===== *)
theory Retention_Repository
  imports Recovery_Store Discovery
begin

text \<open>
  The retention operations of the fixture repository: reservation with access closure,
  freezing of the cleanup inventory, delete authorizations and their results, the
  application of one record target, holds, and the discovery sweeps.
\<close>

section \<open>Blockers\<close>

definition recovery_open :: "store \<Rightarrow> string \<Rightarrow> bool" where
  "recovery_open s claim_id \<longleftrightarrow> list_ex
     (\<lambda>p. op_claim_id p = claim_id \<and> op_status p \<in> {Op_reserved, Op_committed})
     (dict_values (st_follow_up_operations s))"

definition external_unknown :: "store \<Rightarrow> string \<Rightarrow> bool" where
  "external_unknown s claim_id \<longleftrightarrow> list_ex
     (\<lambda>t. xt_claim_id t = claim_id \<and> xt_status t = Task_unknown_outcome)
     (dict_values (st_external_tasks s))"

definition runtime_items :: "store \<Rightarrow> work_item list" where
  "runtime_items s = concat (dict_values (st_runtime_turns s)) @ dict_values (st_work_items s)"

definition staff_work_open :: "store \<Rightarrow> string \<Rightarrow> bool" where
  "staff_work_open s claim_id \<longleftrightarrow> list_ex
     (\<lambda>w. wi_claim_id w = claim_id \<and> wi_status w \<in> {Item_open, Item_in_progress}
        \<and> wi_owner w \<in> {Resp_staff, Resp_system, Resp_external}) (runtime_items s)"

definition handoff_open :: "store \<Rightarrow> string \<Rightarrow> bool" where
  "handoff_open s claim_id \<longleftrightarrow> list_ex
     (\<lambda>h. hf_claim_id h = claim_id
        \<and> hf_status h \<in> {Handoff_requested, Handoff_queued, Handoff_accepted, Handoff_in_progress})
     (dict_values (st_handoffs s))"

definition active_hold_ids :: "store \<Rightarrow> string \<Rightarrow> string list" where
  "active_hold_ids s claim_id = sort (map rh_hold_id
     (filter (\<lambda>h. rh_claim_id h = claim_id \<and> hold_active h) (dict_values (st_retention_holds s))))"

section \<open>Reads\<close>

definition get_retention_operation :: "store \<Rightarrow> string \<Rightarrow> retention_operation option" where
  "get_retention_operation s operation_id = dict_get (st_retention_operations s) operation_id"

definition get_retention_operation_for_claim :: "store \<Rightarrow> string \<Rightarrow> retention_operation option" where
  "get_retention_operation_for_claim s claim_id =
     (case dict_get (st_retention_by_claim s) claim_id of None \<Rightarrow> None
      | Some i \<Rightarrow> dict_get (st_retention_operations s) i)"

definition list_retention_holds :: "store \<Rightarrow> string \<Rightarrow> retention_hold list" where
  "list_retention_holds s claim_id = sort_key (\<lambda>h. (instant (rh_applied_at h), rh_hold_id h))
     (filter (\<lambda>h. rh_claim_id h = claim_id) (dict_values (st_retention_holds s)))"

section \<open>Reservation\<close>

definition store_retention :: "retention_operation \<Rightarrow> store \<Rightarrow> store" where
  "store_retention p s = s\<lparr>st_retention_operations :=
     dict_put (rt_operation_id p) p (st_retention_operations s)\<rparr>"

definition retire_claimant_records :: "string \<Rightarrow> string \<Rightarrow> store \<Rightarrow> store" where
  "retire_claimant_records claim_id customer_id s = s\<lparr>st_idempotency :=
     map (\<lambda>(k, r). (k, if im_claim_id r = claim_id \<and> im_actor_id r = customer_id \<and> \<not> im_retired r
                       then r\<lparr>im_retired := True\<rparr> else r)) (st_idempotency s)\<rparr>"

definition close_access :: "retention_operation \<Rightarrow> store \<Rightarrow> store" where
  "close_access p s = (store_retention p s)\<lparr>st_retention_by_claim :=
     dict_put (rt_claim_id p) (rt_operation_id p) (st_retention_by_claim s)\<rparr>"

definition same_logical_operation :: "retention_operation \<Rightarrow> retention_operation \<Rightarrow> bool" where
  "same_logical_operation q p \<longleftrightarrow> rt_operation_id q = rt_operation_id p
     \<and> rt_claim_id q = rt_claim_id p \<and> rt_source_terminal_ref q = rt_source_terminal_ref p
     \<and> rt_source_claim_revision q = rt_source_claim_revision p
     \<and> rt_policy_id q = rt_policy_id p \<and> rt_policy_version q = rt_policy_version p
     \<and> rt_source_refs q = rt_source_refs p"

definition held_with :: "string list \<Rightarrow> retention_operation \<Rightarrow> retention_operation" where
  "held_with ids p = p\<lparr>rt_status := Ret_held, rt_hold_refs := sorted_union (rt_hold_refs p) ids\<rparr>"

definition reservation_candidate ::
  "store \<Rightarrow> retention_operation \<Rightarrow> repo_error + retention_operation" where
  "reservation_candidate s p = (case active_hold_ids s (rt_claim_id p) of
     [] \<Rightarrow> Inr p
   | ids \<Rightarrow> map_error (Retention \<circ> Invalid_retention) (validate_operation (held_with ids p)))"

definition reserve_eligible_retention_operation ::
  "store \<Rightarrow> retention_operation \<Rightarrow> repo_error + store \<times> retention_operation" where
  "reserve_eligible_retention_operation s p =
     (case dict_get (st_retention_by_claim s) (rt_claim_id p) of
        Some i \<Rightarrow>
          (case dict_get (st_retention_operations s) i of
             None \<Rightarrow> Inl (Missing i)
           | Some q \<Rightarrow> guarded [(\<not> same_logical_operation q p, IdempotencyConflict (rt_operation_id p))]
                        (Inr (s, q)))
      | None \<Rightarrow>
          (case dict_get (st_claims s) (rt_claim_id p) of
             None \<Rightarrow> Inl (Retention (Ineligible CLAIM_NOT_FOUND))
           | Some c \<Rightarrow>
               bind_result (map_error Retention (validate_retention_eligibility_source c p)) (\<lambda>_.
                 guarded
                   [(recovery_open s (rt_claim_id p), Retention (Ineligible RECOVERY_OPERATION_OPEN)),
                    (external_unknown s (rt_claim_id p),
                     Retention (Ineligible EXTERNAL_OUTCOME_UNKNOWN)),
                    (staff_work_open s (rt_claim_id p) \<or> handoff_open s (rt_claim_id p),
                     Retention (Ineligible STAFF_RESPONSIBILITY_OPEN))]
                   (bind_result (reservation_candidate s p) (\<lambda>q.
                      Inr (retire_claimant_records (rt_claim_id q) (wc_customer_id c)
                             (close_access q s), q))))))"

definition reserve_retention_operation ::
  "store \<Rightarrow> retention_operation \<Rightarrow> repo_error + store \<times> bool" where
  "reserve_retention_operation s p =
     guarded [(rt_revision p \<noteq> 1 \<or> rt_status p \<noteq> Ret_reserved, ReservationNotInitial)]
       (case dict_get (st_retention_by_claim s) (rt_claim_id p) of
          Some i \<Rightarrow>
            (case dict_get (st_retention_operations s) i of
               None \<Rightarrow> Inl (Missing i)
             | Some q \<Rightarrow> guarded [(q \<noteq> p, IdempotencyConflict (rt_operation_id p))] (Inr (s, False)))
        | None \<Rightarrow>
            Inr ((case dict_get (st_claims s) (rt_claim_id p) of
                    None \<Rightarrow> close_access p s
                  | Some c \<Rightarrow> retire_claimant_records (rt_claim_id p) (wc_customer_id c)
                               (close_access p s)), True))"

section \<open>Freezing the inventory\<close>

text \<open>What the freeze selects, in the order of the code.\<close>

datatype target_spec =
    Record_target string string "string list"
  | Object_target string "provenance_value"

definition records_of :: "('k \<times> 'v) list \<Rightarrow> ('v \<Rightarrow> bool) \<Rightarrow> ('v \<Rightarrow> target_spec list) \<Rightarrow> target_spec list" where
  "records_of d mine spec = concat (map spec (filter mine (dict_values d)))"

definition evidence_targets :: "evidence_record \<Rightarrow> target_spec list" where
  "evidence_targets e = Record_target ''evidence'' (ed_evidence_id e) [''evidence:'' @ ed_evidence_id e]
     # (case ed_storage_key e of None \<Rightarrow> [] | Some v \<Rightarrow> [Object_target (ed_evidence_id e) v])"

definition work_item_targets :: "store \<Rightarrow> string \<Rightarrow> target_spec list" where
  "work_item_targets s claim_id = concat (map (\<lambda>w. if wi_claim_id w = claim_id
     then [Record_target ''runtime_work_item'' (wi_work_item_id w) [''work-item:'' @ wi_work_item_id w]]
     else []) (runtime_items s))"

definition conversation_targets :: "store \<Rightarrow> string \<Rightarrow> target_spec list" where
  "conversation_targets s claim_id =
     records_of (st_sessions s) (\<lambda>x. se_claim_id x = claim_id)
       (\<lambda>x. [Record_target ''session'' (se_session_id x) [''session:'' @ se_session_id x]])
   @ records_of (st_messages s) (\<lambda>m. ms_claim_id m = claim_id)
       (\<lambda>m. [Record_target ''message'' (ms_message_id m) [''message:'' @ ms_message_id m]])
   @ records_of (st_follow_ups s) (\<lambda>f. fu_claim_id f = claim_id)
       (\<lambda>f. [Record_target ''follow_up'' (fu_follow_up_id f) [''follow-up:'' @ fu_follow_up_id f]])
   @ records_of (st_follow_up_operations s) (\<lambda>p. op_claim_id p = claim_id)
       (\<lambda>p. [Record_target ''follow_up_operation'' (op_operation_id p)
              [''follow-up-operation:'' @ op_operation_id p]])
   @ work_item_targets s claim_id
   @ records_of (st_handoffs s) (\<lambda>h. hf_claim_id h = claim_id)
       (\<lambda>h. [Record_target ''handoff'' (hf_handoff_id h) [''handoff:'' @ hf_handoff_id h]])"

definition external_link_id :: "external_link \<Rightarrow> string" where
  "external_link_id l = retention_record_identity ''external_link'' [xl_task_id l, xl_evidence_id l]"

definition external_targets :: "store \<Rightarrow> string \<Rightarrow> target_spec list" where
  "external_targets s claim_id =
     records_of (st_external_tasks s) (\<lambda>t. xt_claim_id t = claim_id)
       (\<lambda>t. [Record_target ''external_task'' (xt_task_id t) [''external-task:'' @ xt_task_id t]])
   @ records_of (st_external_requests s) (\<lambda>q. xq_claim_id q = claim_id)
       (\<lambda>q. [Record_target ''external_task_request'' (xq_request_id q)
              [''external-request:'' @ xq_request_id q]])
   @ records_of (st_external_attempts s) (\<lambda>a. xa_claim_id a = claim_id)
       (\<lambda>a. [Record_target ''external_task_attempt'' (xa_attempt_id a)
              [''external-attempt:'' @ xa_attempt_id a]])
   @ records_of (st_external_results s) (\<lambda>r. xr_claim_id r = claim_id)
       (\<lambda>r. [Record_target ''external_task_result'' (xr_result_id r)
              [''external-result:'' @ xr_result_id r]])
   @ records_of (st_external_links s) (\<lambda>l. xl_claim_id l = claim_id)
       (\<lambda>l. [Record_target ''external_task_evidence_link'' (external_link_id l)
              [''external-task:'' @ xl_task_id l, ''evidence:'' @ xl_evidence_id l]])"

definition idempotency_record_id :: "idempotency \<Rightarrow> string" where
  "idempotency_record_id r =
     retention_record_identity ''idempotency'' [im_actor_id r, im_route r, im_key r]"

definition control_targets :: "store \<Rightarrow> string \<Rightarrow> string \<Rightarrow> target_spec list" where
  "control_targets s claim_id customer_id =
     records_of (st_idempotency s) (\<lambda>r. im_claim_id r = claim_id \<and> im_actor_id r = customer_id)
       (\<lambda>r. [Record_target ''idempotency'' (idempotency_record_id r)
              [''idempotency:'' @ idempotency_record_id r]])
   @ records_of (st_audit_events s) (\<lambda>e. au_claim_id e = Some claim_id)
       (\<lambda>e. [Record_target ''audit_event'' (au_event_id e) [''audit:'' @ au_event_id e]])
   @ records_of (st_retention_holds s) (\<lambda>h. rh_claim_id h = claim_id)
       (\<lambda>h. [Record_target ''retention_hold'' (rh_hold_id h) [''retention-hold:'' @ rh_hold_id h]])"

definition cleanup_inventory :: "store \<Rightarrow> working_claim \<Rightarrow> string \<Rightarrow> target_spec list" where
  "cleanup_inventory s c claim_id =
     [Record_target ''claim'' (wc_claim_id c) [''claim:'' @ wc_claim_id c]]
   @ conversation_targets s claim_id
   @ records_of (st_evidence s) (\<lambda>e. ed_claim_id e = claim_id) evidence_targets
   @ records_of (st_evidence_links s)
       (\<lambda>l. el_source_claim_id l = claim_id \<or> el_target_claim_id l = claim_id)
       (\<lambda>l. [Record_target ''evidence_claim_link'' (el_link_id l)
              [''evidence:'' @ el_evidence_id l, ''claim:'' @ el_source_claim_id l,
               ''claim:'' @ el_target_claim_id l]])
   @ external_targets s claim_id
   @ control_targets s claim_id (wc_customer_id c)"

definition usable_storage_key :: "provenance_value \<Rightarrow> bool" where
  "usable_storage_key v = (case v of Provenance_text k \<Rightarrow> \<not> blank k
     | Provenance_other _ \<Rightarrow> False)"

definition build_target ::
  "retention_operation \<Rightarrow> target_spec \<Rightarrow> repo_error + cleanup_target" where
  "build_target p spec = (case spec of
     Record_target storage_type record_id refs \<Rightarrow>
       (case dict_get RETENTION_STORAGE_TARGETS storage_type of
          None \<Rightarrow> Inl (FreezeRejected INVALID_RECORD_IDENTITY (rt_claim_id p))
        | Some (logical, cls) \<Rightarrow> map_error Retention
            (build_retention_cleanup_target p logical record_id cls Target_mongo_record None refs))
   | Object_target evidence_id v \<Rightarrow>
       (case v of
          Provenance_text k \<Rightarrow> guarded
            [(\<not> usable_storage_key v, FreezeRejected INVALID_STORAGE_REFERENCE (rt_claim_id p))]
            (map_error Retention (build_retention_cleanup_target p ''EvidenceObjectBytes'' evidence_id
               Class_delete Target_object_bytes (Some k) [''evidence:'' @ evidence_id]))
        | Provenance_other _ \<Rightarrow> Inl (FreezeRejected INVALID_STORAGE_REFERENCE (rt_claim_id p))))"

primrec collect_targets ::
  "retention_operation \<Rightarrow> target_spec list \<Rightarrow> (string \<times> cleanup_target) list
     \<Rightarrow> repo_error + (string \<times> cleanup_target) list" where
  "collect_targets p [] d = Inr d"
| "collect_targets p (spec # specs) d =
     bind_result (build_target p spec) (\<lambda>t. collect_targets p specs (dict_put (ta_target_id t) t d))"

definition sorted_targets :: "(string \<times> cleanup_target) list \<Rightarrow> cleanup_target list" where
  "sorted_targets d = sort_key (\<lambda>t. (target_kind_text (ta_kind t), ta_record_type t, ta_record_id t,
     ta_target_id t)) (dict_values d)"

definition frozen_operation ::
  "retention_operation \<Rightarrow> cleanup_target list \<Rightarrow> datetime \<Rightarrow> retention_operation" where
  "frozen_operation p ts frozen_at = p\<lparr>rt_revision := rt_revision p + 1, rt_status := Ret_reserved,
     rt_targets_frozen_at := Some frozen_at, rt_targets := ts, rt_updated_at := frozen_at,
     rt_completed_at := None\<rparr>"

definition replace_operation ::
  "store \<Rightarrow> retention_operation \<Rightarrow> retention_operation \<Rightarrow> repo_error + store \<times> retention_operation" where
  "replace_operation s p q =
     bind_result (map_error (Retention \<circ> Invalid_retention) (validate_operation q)) (\<lambda>q.
       bind_result (map_error Retention (validate_retention_operation_transition p q)) (\<lambda>_.
         Inr (store_retention q s, q)))"

definition freeze_blockers :: "store \<Rightarrow> string \<Rightarrow> (bool \<times> repo_error) list" where
  "freeze_blockers s claim_id =
    [(recovery_open s claim_id, FreezeRejected FREEZE_RECOVERY_OPERATION_OPEN claim_id),
     (external_unknown s claim_id, FreezeRejected FREEZE_EXTERNAL_OUTCOME_UNKNOWN claim_id),
     (staff_work_open s claim_id \<or> handoff_open s claim_id,
      FreezeRejected FREEZE_STAFF_RESPONSIBILITY_OPEN claim_id)]"

definition freeze_shape :: "retention_operation \<Rightarrow> bool" where
  "freeze_shape p \<longleftrightarrow> rt_status p \<in> {Ret_reserved, Ret_held} \<and> rt_targets p = []
     \<and> rt_step_evidence p = [] \<and> rt_completed_at p = None"

definition freeze_retention_targets ::
  "store \<Rightarrow> string \<Rightarrow> int \<Rightarrow> datetime \<Rightarrow> repo_error + store \<times> retention_operation" where
  "freeze_retention_targets s operation_id expected_revision frozen_at =
     (case dict_get (st_retention_operations s) operation_id of
        None \<Rightarrow> Inl (FreezeRejected OPERATION_NOT_FOUND operation_id)
      | Some p \<Rightarrow>
          if rt_revision p \<noteq> expected_revision then Inl (RevisionConflict (rt_revision p))
          else if rt_targets_frozen_at p \<noteq> None then Inr (s, p)
          else (case dict_get (st_claims s) (rt_claim_id p) of
             None \<Rightarrow> Inl (Retention (Ineligible CLAIM_NOT_FOUND))
           | Some c \<Rightarrow>
               bind_result (map_error Retention (validate_retention_source_authority c p)) (\<lambda>_.
                 guarded
                   ([(\<not> freeze_shape p, FreezeRejected INVALID_FREEZE_SHAPE (rt_claim_id p)),
                     (active_hold_ids s (rt_claim_id p) \<noteq> [],
                      FreezeRejected ACTIVE_HOLD (rt_claim_id p))]
                    @ freeze_blockers s (rt_claim_id p))
                   (bind_result (collect_targets p (cleanup_inventory s c (rt_claim_id p)) []) (\<lambda>d.
                      guarded [(500 < length d, FreezeRejected TARGET_LIMIT_EXCEEDED (rt_claim_id p))]
                        (replace_operation s p (frozen_operation p (sorted_targets d) frozen_at)))))))"

section \<open>Steps\<close>

definition find_target :: "retention_operation \<Rightarrow> string \<Rightarrow> cleanup_target option" where
  "find_target p target_id = find (\<lambda>t. ta_target_id t = target_id) (rt_targets p)"

definition target_satisfied :: "retention_operation \<Rightarrow> string \<Rightarrow> bool" where
  "target_satisfied p target_id \<longleftrightarrow>
     dict_get (retention_target_statuses (rt_targets p) (rt_step_evidence p)) target_id
       = Some Step_satisfied"

definition step_record ::
  "retention_operation \<Rightarrow> cleanup_target \<Rightarrow> int \<Rightarrow> step_status \<Rightarrow> deletion_outcome option
     \<Rightarrow> string option \<Rightarrow> string option \<Rightarrow> datetime \<Rightarrow> step_evidence" where
  "step_record p t attempt status outcome authorization_id diagnostic now =
     \<lparr>sv_evidence_id = retention_step_evidence_id (rt_operation_id p) (ta_target_id t) attempt,
      sv_target_id = ta_target_id t, sv_attempt = attempt, sv_status = status,
      sv_object_outcome = outcome, sv_authorization_id = authorization_id,
      sv_diagnostic_code = diagnostic, sv_source_refs = ta_source_refs t, sv_recorded_at = now\<rparr>"

definition new_step_evidence :: "step_evidence \<Rightarrow> repo_error + step_evidence" where
  "new_step_evidence e = map_error (Retention \<circ> Invalid_retention) (validate_step_evidence e)"

text \<open>The step of a record target: evidence, candidate and its transition check.\<close>

definition advance_record_target ::
  "retention_operation \<Rightarrow> cleanup_target \<Rightarrow> step_status \<Rightarrow> string option \<Rightarrow> datetime
     \<Rightarrow> repo_error + retention_operation" where
  "advance_record_target p t status diagnostic now =
     bind_result (new_step_evidence (step_record p t (retention_next_attempt p (ta_target_id t))
         status None None diagnostic now)) (\<lambda>e.
       bind_result (map_error Retention (retention_candidate_after_step p e now)) (\<lambda>q.
         bind_result (map_error Retention (validate_retention_operation_transition p q)) (\<lambda>_.
           Inr q)))"

definition record_retention_step_failure ::
  "store \<Rightarrow> string \<Rightarrow> string \<Rightarrow> int \<Rightarrow> step_status \<Rightarrow> string \<Rightarrow> datetime
     \<Rightarrow> repo_error + store \<times> retention_operation" where
  "record_retention_step_failure s operation_id target_id expected_revision status diagnostic now =
     (case dict_get (st_retention_operations s) operation_id of
        None \<Rightarrow> Inl (Missing operation_id)
      | Some p \<Rightarrow> guarded
          [(rt_revision p \<noteq> expected_revision, RevisionConflict (rt_revision p)),
           (status \<notin> {Step_failed, Step_unknown}, FailureStatusInvalid)]
          (case find_target p target_id of
             None \<Rightarrow> Inl (Missing target_id)
           | Some t \<Rightarrow>
               if ta_kind t \<noteq> Target_mongo_record then Inl FailureNeedsRecordTarget
               else if target_satisfied p target_id then Inr (s, p)
               else bind_result (advance_record_target p t status (Some diagnostic) now) (\<lambda>q.
                      Inr (store_retention q s, q))))"

definition new_authorization ::
  "retention_operation \<Rightarrow> string \<Rightarrow> datetime \<Rightarrow> delete_authorization" where
  "new_authorization p target_id now =
     (let attempt = retention_next_attempt p target_id in
      \<lparr>da_authorization_id = retention_delete_authorization_id (rt_operation_id p) target_id attempt,
       da_target_id = target_id, da_attempt = attempt, da_authorized_at = now\<rparr>)"

definition authorized_operation ::
  "retention_operation \<Rightarrow> delete_authorization \<Rightarrow> datetime \<Rightarrow> retention_operation" where
  "authorized_operation p a now = p\<lparr>rt_revision := rt_revision p + 1,
     rt_delete_authorizations := rt_delete_authorizations p @ [a],
     rt_active_delete_authorization_id := Some (da_authorization_id a), rt_updated_at := now,
     rt_completed_at := None\<rparr>"

definition authorize_retention_object_target ::
  "store \<Rightarrow> string \<Rightarrow> string \<Rightarrow> int \<Rightarrow> datetime
     \<Rightarrow> repo_error + store \<times> retention_operation \<times> delete_authorization" where
  "authorize_retention_object_target s operation_id target_id expected_revision now =
     (case dict_get (st_retention_operations s) operation_id of
        None \<Rightarrow> Inl (Missing operation_id)
      | Some p \<Rightarrow>
          (case rt_active_delete_authorization_id p of
             Some i \<Rightarrow>
               (case find (\<lambda>a. da_authorization_id a = i) (rt_delete_authorizations p) of
                  None \<Rightarrow> Inl StopIteration
                | Some a \<Rightarrow> guarded [(da_target_id a \<noteq> target_id, IdempotencyConflict i)]
                             (Inr (s, p, a)))
           | None \<Rightarrow> guarded
               [(rt_revision p \<noteq> expected_revision, RevisionConflict (rt_revision p)),
                (rt_status p = Ret_completed, CompletedCannotAuthorize),
                (active_hold_ids s (rt_claim_id p) \<noteq> [], FreezeRejected ACTIVE_HOLD (rt_claim_id p))]
               (case find_target p target_id of
                  None \<Rightarrow> Inl (Missing target_id)
                | Some t \<Rightarrow> guarded
                    [(ta_kind t \<noteq> Target_object_bytes, OnlyObjectTargets),
                     (target_satisfied p target_id, SatisfiedNotReauthorized)]
                    (bind_result (map_error (Retention \<circ> Invalid_retention)
                        (validate_authorization (new_authorization p target_id now))) (\<lambda>a.
                      bind_result (replace_operation s p (authorized_operation p a now)) (\<lambda>(s', q).
                        Inr (s', q, a)))))))"

definition outcome_diagnostic :: "deletion_outcome \<Rightarrow> string option" where
  "outcome_diagnostic outcome = (case outcome_status outcome of
     Step_satisfied \<Rightarrow> None
   | Step_failed \<Rightarrow> Some ''OBJECT_DELETE_FAILED''
   | _ \<Rightarrow> Some ''OBJECT_DELETE_UNKNOWN'')"

definition settle_authorization ::
  "string list \<Rightarrow> retention_operation \<Rightarrow> retention_operation" where
  "settle_authorization holds q =
     (let r = q\<lparr>rt_active_delete_authorization_id := None\<rparr>
      in if holds = [] then r else (held_with holds r)\<lparr>rt_completed_at := None\<rparr>)"

definition record_retention_object_result ::
  "store \<Rightarrow> string \<Rightarrow> string \<Rightarrow> deletion_outcome \<Rightarrow> datetime
     \<Rightarrow> repo_error + store \<times> retention_operation" where
  "record_retention_object_result s operation_id authorization_id outcome now =
     (case dict_get (st_retention_operations s) operation_id of
        None \<Rightarrow> Inl (Missing operation_id)
      | Some p \<Rightarrow>
          if list_ex (\<lambda>e. sv_authorization_id e = Some authorization_id) (rt_step_evidence p)
          then Inr (s, p)
          else (case find (\<lambda>a. da_authorization_id a = authorization_id) (rt_delete_authorizations p) of
             None \<Rightarrow> Inl (Missing authorization_id)
           | Some a \<Rightarrow> guarded
               [(rt_active_delete_authorization_id p \<noteq> Some authorization_id,
                 IdempotencyConflict authorization_id)]
               (case find_target p (da_target_id a) of
                  None \<Rightarrow> Inl StopIteration
                | Some t \<Rightarrow>
                    bind_result (new_step_evidence (step_record p t (da_attempt a)
                        (outcome_status outcome) (Some outcome) (Some (da_authorization_id a))
                        (outcome_diagnostic outcome) now)) (\<lambda>e.
                      bind_result (map_error Retention (retention_candidate_after_step p e now)) (\<lambda>q.
                        replace_operation s p
                          (settle_authorization (active_hold_ids s (rt_claim_id p)) q))))))"

section \<open>Applying one record target\<close>

datatype source_record =
    Src_claim working_claim | Src_session session | Src_message message
  | Src_follow_up follow_up | Src_operation operation | Src_handoff handoff
  | Src_evidence evidence_record | Src_evidence_link evidence_link
  | Src_external_task external_task | Src_external_request external_request
  | Src_external_attempt external_attempt | Src_external_result external_result
  | Src_audit_event audit_event | Src_hold retention_hold | Src_work_item work_item
  | Src_external_link external_link

definition find_work_item :: "store \<Rightarrow> string \<Rightarrow> work_item option" where
  "find_work_item s i = (case dict_get (st_work_items s) i of
     Some w \<Rightarrow> Some w
   | None \<Rightarrow> find (\<lambda>w. wi_work_item_id w = i) (concat (dict_values (st_runtime_turns s))))"

definition regular_record :: "store \<Rightarrow> cleanup_target \<Rightarrow> source_record option" where
  "regular_record s t = (let i = ta_record_id t; rtype = ta_record_type t in
     if rtype = ''WorkingClaim'' then map_option Src_claim (dict_get (st_claims s) i)
     else if rtype = ''SessionRecord'' then map_option Src_session (dict_get (st_sessions s) i)
     else if rtype = ''MessageRecord'' then map_option Src_message (dict_get (st_messages s) i)
     else if rtype = ''FollowUpRecord'' then map_option Src_follow_up (dict_get (st_follow_ups s) i)
     else if rtype = ''FollowUpOperation''
       then map_option Src_operation (dict_get (st_follow_up_operations s) i)
     else if rtype = ''HandoffRecord'' then map_option Src_handoff (dict_get (st_handoffs s) i)
     else if rtype = ''EvidenceRecord'' then map_option Src_evidence (dict_get (st_evidence s) i)
     else if rtype = ''EvidenceClaimLink''
       then map_option (Src_evidence_link \<circ> snd) (dict_find (\<lambda>l. el_link_id l = i) (st_evidence_links s))
     else if rtype = ''ExternalTaskRecord''
       then map_option Src_external_task (dict_get (st_external_tasks s) i)
     else if rtype = ''ExternalTaskRequest''
       then map_option Src_external_request (dict_get (st_external_requests s) i)
     else if rtype = ''ExternalTaskAttempt''
       then map_option Src_external_attempt (dict_get (st_external_attempts s) i)
     else if rtype = ''ExternalTaskResult''
       then map_option Src_external_result (dict_get (st_external_results s) i)
     else if rtype = ''AuditEventEnvelope''
       then map_option Src_audit_event (dict_get (st_audit_events s) i)
     else if rtype = ''RetentionHoldRecord''
       then map_option Src_hold (dict_get (st_retention_holds s) i)
     else if rtype = ''RuntimeWorkItemRecord'' then map_option Src_work_item (find_work_item s i)
     else if rtype = ''ExternalTaskEvidenceLink''
       then map_option (Src_external_link \<circ> snd)
              (dict_find (\<lambda>l. external_link_id l = i) (st_external_links s))
     else None)"

text \<open>
  \<open>model_dump(mode='json')\<close> of the record, at the keys that a tombstone may keep. The reason
  code of a Follow-up is a property of the model, so the dump has no such key.
\<close>

definition optional_text :: "string option \<Rightarrow> payload_value" where
  "optional_text x = (case x of None \<Rightarrow> None_value | Some t \<Rightarrow> Text_value t)"

definition session_status_text :: "session_status \<Rightarrow> string" where
  "session_status_text x = (case x of Session_active \<Rightarrow> ''active'' | Session_paused \<Rightarrow> ''paused''
     | Session_closed \<Rightarrow> ''closed'')"

definition follow_up_status_text :: "follow_up_status \<Rightarrow> string" where
  "follow_up_status_text x = (case x of FU_pending \<Rightarrow> ''pending'' | FU_blocked \<Rightarrow> ''blocked''
     | FU_resolved \<Rightarrow> ''resolved'')"

definition handoff_status_text :: "handoff_status \<Rightarrow> string" where
  "handoff_status_text x = (case x of Handoff_requested \<Rightarrow> ''requested'' | Handoff_queued \<Rightarrow> ''queued''
     | Handoff_accepted \<Rightarrow> ''accepted'' | Handoff_in_progress \<Rightarrow> ''in_progress''
     | Handoff_resolved \<Rightarrow> ''resolved'' | Handoff_cancelled \<Rightarrow> ''cancelled'')"

fun record_payload :: "source_record \<Rightarrow> (string \<times> payload_value) list" where
  "record_payload (Src_claim c) = [(''revision'', Int_value (wc_revision c))]"
| "record_payload (Src_session x) = [(''status'', Text_value (session_status_text (se_status x))),
     (''context_revision'', Int_value (se_context_revision x))]"
| "record_payload (Src_follow_up f) = [(''policy_id'', optional_text (fu_policy_id f)),
     (''policy_version'', case fu_policy_version f of None \<Rightarrow> None_value | Some n \<Rightarrow> Int_value n),
     (''status'', Text_value (follow_up_status_text (fu_status f))),
     (''attempt_count'', Int_value (fu_attempt_count f))]"
| "record_payload (Src_handoff h) = [(''type'', Text_value (hf_type h)),
     (''status'', Text_value (handoff_status_text (hf_status h))),
     (''priority'', Text_value (hf_priority h)), (''applied_rule'', Text_value (hf_applied_rule h))]"
| "record_payload (Src_evidence e) = [(''kind'', Text_value (ed_kind e)),
     (''status'', Text_value (evidence_status_text (ed_status e))),
     (''file_status'', Text_value (file_status_text (ed_file_status e))),
     (''source'', Text_value (evidence_source_text (ed_source e))), (''material_version'', Int_value (ed_material_version e))]"
| "record_payload (Src_evidence_link l) = [(''state'', Text_value (link_state_text (el_state l)))]"
| "record_payload (Src_external_task t) = [(''service_identity'', Text_value (xt_service_identity t)),
     (''requested_action'', Text_value (xt_requested_action t)),
     (''integration_source'', Text_value (integration_source_value (xt_integration_source t))),
     (''status'', Text_value (task_status_value (xt_status t))),
     (''delivery'', Text_value (task_delivery_value (xt_delivery t))),
     (''failure_code'', optional_text (map_option failure_code_value (xt_failure_code t)))]"
| "record_payload (Src_external_request q) = [(''task_id'', Text_value (xq_task_id q)),
     (''operation_id'', optional_text (xq_operation_id q))]"
| "record_payload (Src_external_result r) = [(''task_id'', Text_value (xr_task_id r)),
     (''verification'', Text_value (verification_value (xr_verification r)))]"
| "record_payload _ = []"

definition SANITISED_FIELDS :: "string list" where
  "SANITISED_FIELDS = [''message_id'', ''agent_message_id'', ''decision_id'', ''runtime_trace_id'',
     ''runtime_result_id'', ''handoff_id'', ''follow_up_id'', ''action_registry_version'',
     ''action_code'', ''target_ref'', ''staff_agent_session_id'', ''staff_agent_message_id'',
     ''staff_agent_draft_id'', ''staff_agent_execution_id'', ''message_turn_kind'',
     ''message_turn_revision'', ''response_payload'', ''revision_before_message'',
     ''confirmation_checkpoint'', ''response_status'']"

definition sanitise_idempotency :: "idempotency \<Rightarrow> idempotency" where
  "sanitise_idempotency r = r\<lparr>im_fields := filter (\<lambda>(k, _). k \<notin> set SANITISED_FIELDS) (im_fields r),
     im_inbound_checkpoint := False, im_retired := True\<rparr>"

definition find_idempotency_target ::
  "store \<Rightarrow> retention_operation \<Rightarrow> cleanup_target \<Rightarrow> ((string \<times> string \<times> string) \<times> idempotency) option" where
  "find_idempotency_target s p t = (if ta_record_type t \<noteq> ''IdempotencyRecord'' then None
     else dict_find (\<lambda>r. im_claim_id r = rt_claim_id p \<and> idempotency_record_id r = ta_record_id t)
            (st_idempotency s))"

datatype cleanup_effect =
    Keep
  | Sanitise "string \<times> string \<times> string" idempotency
  | Erase
  | Replace_by record_tombstone
  | Unresolved string

definition new_tombstone ::
  "retention_operation \<Rightarrow> cleanup_target \<Rightarrow> source_record \<Rightarrow> datetime \<Rightarrow> repo_error + record_tombstone" where
  "new_tombstone p t r now =
     bind_result (map_error Retention (retention_tombstone_id (ta_target_id t))) (\<lambda>i.
       map_error Retention (validate_tombstone
         \<lparr>rb_tombstone_id = i, rb_operation_id = rt_operation_id p, rb_target_id = ta_target_id t,
          rb_claim_id = rt_claim_id p, rb_source_record_type = ta_record_type t,
          rb_source_record_id = ta_record_id t, rb_classification = ta_classification t,
          rb_authority = retention_tombstone_authority (ta_record_type t) (record_payload r),
          rb_source_refs = ta_source_refs t, rb_created_at = now\<rparr>))"

text \<open>What one record target asks for; \<open>Unresolved\<close> carries the diagnostic of an unknown step.\<close>

definition cleanup_decision ::
  "store \<Rightarrow> retention_operation \<Rightarrow> cleanup_target \<Rightarrow> datetime \<Rightarrow> repo_error + cleanup_effect" where
  "cleanup_decision s p t now =
     (let source = (if ta_record_type t = ''IdempotencyRecord'' then None else regular_record s t) in
      if ta_classification t = Class_retain then
        Inr (if source = None then Unresolved ''RETAINED_RECORD_MISSING'' else Keep)
      else if ta_record_type t = ''IdempotencyRecord'' then
        (case find_idempotency_target s p t of
           None \<Rightarrow> Inr (Unresolved ''IDEMPOTENCY_RECORD_MISSING'')
         | Some (k, r) \<Rightarrow> Inr (Sanitise k (sanitise_idempotency r)))
      else if ta_classification t = Class_delete then
        Inr (if source = None then Unresolved ''DELETE_SOURCE_RECORD_MISSING'' else Erase)
      else
        (case dict_get (st_retention_tombstones s) (ta_target_id t) of
           Some b \<Rightarrow> guarded
             [(rb_operation_id b \<noteq> rt_operation_id p \<or> rb_target_id b \<noteq> ta_target_id t,
               IdempotencyConflict (ta_target_id t))] (Inr Keep)
         | None \<Rightarrow>
             (case source of
                None \<Rightarrow> Inr (Unresolved ''ANONYMISE_SOURCE_RECORD_MISSING'')
              | Some r \<Rightarrow> bind_result (new_tombstone p t r now) (\<lambda>b. Inr (Replace_by b)))))"

definition erase_message :: "string \<Rightarrow> store \<Rightarrow> store" where
  "erase_message i s = (case dict_get (st_messages s) i of
     None \<Rightarrow> s
   | Some m \<Rightarrow> s\<lparr>st_messages := dict_pop i (st_messages s),
       st_message_ids := (case dict_get (st_message_ids s) (ms_session_id m) of
          None \<Rightarrow> st_message_ids s
        | Some ids \<Rightarrow> dict_put (ms_session_id m) (filter (\<lambda>j. j \<noteq> i) ids) (st_message_ids s))\<rparr>)"

definition erase_session :: "string \<Rightarrow> string \<Rightarrow> store \<Rightarrow> store" where
  "erase_session claim_id i s = (case dict_get (st_sessions s) i of
     None \<Rightarrow> s
   | Some x \<Rightarrow> s\<lparr>st_sessions := dict_pop i (st_sessions s),
       st_session_ids := (case dict_get (st_session_ids s) (claim_id, se_customer_id x) of
          None \<Rightarrow> st_session_ids s
        | Some ids \<Rightarrow> dict_put (claim_id, se_customer_id x) (filter (\<lambda>j. j \<noteq> i) ids)
                       (st_session_ids s))\<rparr>)"

definition erase_evidence_link :: "string \<Rightarrow> store \<Rightarrow> store" where
  "erase_evidence_link i s = (case dict_find (\<lambda>l. el_link_id l = i) (st_evidence_links s) of
     None \<Rightarrow> s | Some (k, _) \<Rightarrow> s\<lparr>st_evidence_links := dict_pop k (st_evidence_links s)\<rparr>)"

definition erase_source :: "retention_operation \<Rightarrow> cleanup_target \<Rightarrow> store \<Rightarrow> store" where
  "erase_source p t s = (let i = ta_record_id t; rtype = ta_record_type t in
     if rtype = ''WorkingClaim'' then s\<lparr>st_claims := dict_pop i (st_claims s)\<rparr>
     else if rtype = ''SessionRecord'' then erase_session (rt_claim_id p) i s
     else if rtype = ''FollowUpRecord'' then s\<lparr>st_follow_ups := dict_pop i (st_follow_ups s)\<rparr>
     else if rtype = ''HandoffRecord'' then s\<lparr>st_handoffs := dict_pop i (st_handoffs s)\<rparr>
     else if rtype = ''EvidenceRecord'' then s\<lparr>st_evidence := dict_pop i (st_evidence s)\<rparr>
     else if rtype = ''EvidenceClaimLink'' then erase_evidence_link i s
     else if rtype = ''ExternalTaskRecord''
       then s\<lparr>st_external_tasks := dict_pop i (st_external_tasks s)\<rparr>
     else if rtype = ''ExternalTaskRequest''
       then s\<lparr>st_external_requests := dict_pop i (st_external_requests s)\<rparr>
     else if rtype = ''ExternalTaskResult''
       then s\<lparr>st_external_results := dict_pop i (st_external_results s)\<rparr>
     else s)"

definition apply_effect :: "retention_operation \<Rightarrow> cleanup_target \<Rightarrow> cleanup_effect \<Rightarrow> store \<Rightarrow> store" where
  "apply_effect p t effect s = (case effect of
     Sanitise k r \<Rightarrow> s\<lparr>st_idempotency := dict_put k r (st_idempotency s)\<rparr>
   | Erase \<Rightarrow> if ta_record_type t = ''MessageRecord'' then erase_message (ta_record_id t) s else s
   | Replace_by b \<Rightarrow> erase_source p t
       (s\<lparr>st_retention_tombstones := dict_put (ta_target_id t) b (st_retention_tombstones s)\<rparr>)
   | Keep \<Rightarrow> s
   | Unresolved _ \<Rightarrow> s)"

definition effect_step :: "cleanup_effect \<Rightarrow> step_status \<times> string option" where
  "effect_step effect = (case effect of Unresolved d \<Rightarrow> (Step_unknown, Some d)
     | _ \<Rightarrow> (Step_satisfied, None))"

definition object_incomplete :: "retention_operation \<Rightarrow> bool" where
  "object_incomplete p \<longleftrightarrow> list_ex (\<lambda>t. ta_kind t = Target_object_bytes
     \<and> \<not> target_satisfied p (ta_target_id t)) (rt_targets p)"

definition apply_retention_record_target ::
  "store \<Rightarrow> string \<Rightarrow> string \<Rightarrow> int \<Rightarrow> datetime \<Rightarrow> repo_error + store \<times> retention_operation" where
  "apply_retention_record_target s operation_id target_id expected_revision now =
     (case dict_get (st_retention_operations s) operation_id of
        None \<Rightarrow> Inl (Missing operation_id)
      | Some p \<Rightarrow>
          if rt_revision p \<noteq> expected_revision then Inl (RevisionConflict (rt_revision p))
          else if rt_status p = Ret_completed then Inr (s, p)
          else if active_hold_ids s (rt_claim_id p) \<noteq> []
          then Inl (FreezeRejected ACTIVE_HOLD (rt_claim_id p))
          else (case find_target p target_id of
             None \<Rightarrow> Inl (Missing target_id)
           | Some t \<Rightarrow>
               if ta_kind t \<noteq> Target_mongo_record then Inl OnlyRecordTargets
               else if target_satisfied p target_id then Inr (s, p)
               else guarded ((object_incomplete p, ObjectTargetsIncomplete)
                     # freeze_blockers s (rt_claim_id p))
                   (bind_result (cleanup_decision s p t now) (\<lambda>effect.
                      bind_result (advance_record_target p t (fst (effect_step effect))
                          (snd (effect_step effect)) now) (\<lambda>q.
                        Inr (store_retention q (apply_effect p t effect s), q))))))"

definition save_retention_operation ::
  "store \<Rightarrow> retention_operation \<Rightarrow> int \<Rightarrow> repo_error + store" where
  "save_retention_operation s q expected_revision =
     (case dict_get (st_retention_operations s) (rt_operation_id q) of
        None \<Rightarrow> Inl (Missing (rt_operation_id q))
      | Some p \<Rightarrow>
          if p = q then Inr s
          else if rt_revision p \<noteq> expected_revision then Inl (RevisionConflict (rt_revision p))
          else bind_result (map_error Retention (validate_retention_operation_transition p q)) (\<lambda>_.
                 Inr (store_retention q s)))"

section \<open>Holds\<close>

definition operation_of_claim :: "store \<Rightarrow> string \<Rightarrow> retention_operation option" where
  "operation_of_claim s claim_id =
     find (\<lambda>p. rt_claim_id p = claim_id) (dict_values (st_retention_operations s))"

definition held_operation :: "retention_operation \<Rightarrow> retention_hold \<Rightarrow> retention_operation" where
  "held_operation p h = (held_with [rh_hold_id h] p)\<lparr>rt_revision := rt_revision p + 1,
     rt_updated_at := dt_max (rt_updated_at p) (rh_applied_at h), rt_completed_at := None\<rparr>"

definition apply_hold :: "store \<Rightarrow> retention_hold \<Rightarrow> repo_error + store" where
  "apply_hold s h =
     (if rh_released_at h \<noteq> None then Inl HoldPersistedReleased
      else bind_result
        (case operation_of_claim s (rh_claim_id h) of
           None \<Rightarrow> Inr s
         | Some p \<Rightarrow>
             if rt_status p = Ret_completed then Inr s
             else if incomparable (rt_updated_at p) (rh_applied_at h) then Inl DatetimeTypeError
             else bind_result (replace_operation s p (held_operation p h)) (\<lambda>(s', _). Inr s'))
        (\<lambda>s'. Inr (s'\<lparr>st_retention_holds := dict_put (rh_hold_id h) h (st_retention_holds s')\<rparr>)))"

definition resumed_operation :: "retention_operation \<Rightarrow> datetime \<Rightarrow> retention_operation" where
  "resumed_operation p released_at =
     (let statuses = retention_target_statuses (rt_targets p) (rt_step_evidence p);
          next_status =
            (if rt_targets p \<noteq> [] \<and> all_values_satisfied statuses then Ret_completed
             else if any_failed statuses then Ret_reconciliation_required
             else Ret_reserved)
      in p\<lparr>rt_revision := rt_revision p + 1, rt_status := next_status,
           rt_updated_at := dt_max (rt_updated_at p) released_at,
           rt_completed_at := (if next_status = Ret_completed then Some released_at else None)\<rparr>)"

text \<open>
  The release stores the hold before it resumes the operation: when the resumed operation is
  refused, the release stays. The result is therefore the raised error, if any, together with
  the state that the call leaves behind.
\<close>

definition resume_after_release :: "store \<Rightarrow> retention_hold \<Rightarrow> datetime \<Rightarrow> repo_error option \<times> store" where
  "resume_after_release s h released_at =
     (case operation_of_claim s (rh_claim_id h) of
        None \<Rightarrow> (None, s)
      | Some p \<Rightarrow>
          if rt_status p \<noteq> Ret_held \<or> active_hold_ids s (rh_claim_id h) \<noteq> [] then (None, s)
          else if incomparable (rt_updated_at p) released_at then (Some DatetimeTypeError, s)
          else (case replace_operation s p (resumed_operation p released_at) of
             Inl e \<Rightarrow> (Some e, s)
           | Inr (s', _) \<Rightarrow> (None, s')))"

definition save_retention_hold :: "store \<Rightarrow> retention_hold \<Rightarrow> repo_error option \<times> store" where
  "save_retention_hold s h =
     (case dict_get (st_retention_holds s) (rh_hold_id h) of
        None \<Rightarrow> (case apply_hold s h of Inl e \<Rightarrow> (Some e, s) | Inr s' \<Rightarrow> (None, s'))
      | Some current \<Rightarrow>
          if current = h then (None, s)
          else (case validate_retention_hold_transition current h of
             Inl e \<Rightarrow> (Some (Retention e), s)
           | Inr _ \<Rightarrow> resume_after_release
               (s\<lparr>st_retention_holds := dict_put (rh_hold_id h) h (st_retention_holds s)\<rparr>) h
               (the (rh_released_at h))))"

text \<open>The staff action writes the hold, its audit event and its idempotency record together.\<close>

definition commit_retention_hold_action ::
  "store \<Rightarrow> retention_hold \<Rightarrow> int \<Rightarrow> audit_event \<Rightarrow> idempotency \<Rightarrow> repo_error + store" where
  "commit_retention_hold_action s h expected_claim_revision event record =
     (case dict_get (st_claims s) (rh_claim_id h) of
        None \<Rightarrow> Inl (Missing (rh_claim_id h))
      | Some c \<Rightarrow> guarded [(wc_revision c \<noteq> expected_claim_revision, RevisionConflict (wc_revision c))]
          (case save_retention_hold s h of
             (Some e, _) \<Rightarrow> Inl e
           | (None, s') \<Rightarrow>
               bind_result (append_audit_event s' event) (\<lambda>s''. save_idempotency s'' record)))"

section \<open>Discovery\<close>

record discovery_cursor =
  dc_scope :: string
  dc_ordered_at :: datetime
  dc_record_id :: string

definition decode_retention_cursor ::
  "string \<Rightarrow> discovery_cursor option \<Rightarrow> repo_error + (int \<times> string) option" where
  "decode_retention_cursor scope cursor = (case cursor of
     None \<Rightarrow> Inr None
   | Some c \<Rightarrow> guarded [(dc_scope c \<noteq> scope \<or> is_naive (dc_ordered_at c) \<or> dc_record_id c = [],
                        InvalidCursor)]
               (Inr (Some (instant (dc_ordered_at c), dc_record_id c))))"

definition encode_retention_cursor :: "string \<Rightarrow> (int \<times> string) option \<Rightarrow> discovery_cursor option" where
  "encode_retention_cursor scope position = map_option
     (\<lambda>(t, i). \<lparr>dc_scope = scope, dc_ordered_at = Aware t, dc_record_id = i\<rparr>) position"

definition pending_operation :: "retention_operation \<Rightarrow> bool" where
  "pending_operation p \<longleftrightarrow> rt_status p \<noteq> Ret_completed
     \<and> \<not> (rt_status p = Ret_held \<and> rt_active_delete_authorization_id p = None)"

definition pending_key :: "retention_operation \<Rightarrow> int \<times> string" where
  "pending_key p = (instant (rt_updated_at p), rt_operation_id p)"

definition list_pending_retention_operations ::
  "store \<Rightarrow> int \<Rightarrow> discovery_cursor option
     \<Rightarrow> repo_error + retention_operation list \<times> discovery_cursor option" where
  "list_pending_retention_operations s limit cursor =
     guarded [(limit < 1 \<or> 100 < limit, InvalidDiscoveryLimit)]
       (bind_result (decode_retention_cursor ''pending'' cursor) (\<lambda>after.
          case discovery_page pending_key (nat limit)
              (filter pending_operation (dict_values (st_retention_operations s))) after of
            (page, position) \<Rightarrow> Inr (page, encode_retention_cursor ''pending'' position)))"

definition handoff_eligible :: "working_claim \<Rightarrow> bool" where
  "handoff_eligible c \<longleftrightarrow> (case wc_terminal_disposition c of None \<Rightarrow> False
     | Some t \<Rightarrow> td_reason_code t \<in> RETENTION_ELIGIBLE_TERMINAL_REASONS
                 \<and> td_value t \<in> RETENTION_ELIGIBLE_TERMINAL_VALUES)"

definition handoff_key :: "working_claim \<Rightarrow> int \<times> string" where
  "handoff_key c = (case wc_terminal_disposition c of None \<Rightarrow> 0 | Some t \<Rightarrow> instant (td_recorded_at t),
     wc_claim_id c)"

definition list_retention_handoff_candidates ::
  "store \<Rightarrow> int \<Rightarrow> discovery_cursor option
     \<Rightarrow> repo_error + string list \<times> discovery_cursor option" where
  "list_retention_handoff_candidates s limit cursor =
     guarded [(limit < 1 \<or> 100 < limit, InvalidDiscoveryLimit)]
       (bind_result (decode_retention_cursor ''handoff'' cursor) (\<lambda>after.
          case discovery_page handoff_key (nat limit)
              (filter handoff_eligible (dict_values (st_claims s))) after of
            (window, position) \<Rightarrow>
              Inr (filter (\<lambda>i. i \<notin> rt_claim_id ` set (dict_values (st_retention_operations s)))
                     (map wc_claim_id window),
                   encode_retention_cursor ''handoff'' position)))"

end
