(* ===== verification/Follow_Up_Repository.thy ===== *)
theory Follow_Up_Repository
  imports Recovery_Store Discovery
begin

text \<open>
  The recovery commits of the fixture repository (\<open>FixtureRepository\<close> in
  \<open>backend/repositories/fixture.py\<close>): the compare-and-swap commits of a due attempt, an
  expiry, a contact withdrawal and a staff abandonment, the operation records, the
  incomplete checkpoint, and the discovery of due and expiring Follow-ups.

  Every commit recomputes the reducer on the stored records and accepts only the transition
  it yields. No write precedes the last check, so a failing commit is one without effect;
  the one write that may still raise, the message index, cannot do so on a consistent store.
\<close>

section \<open>Shared steps\<close>

text \<open>
  The commits catch the rejection class of their reducer only; a type error, a validation
  error or a policy error passes through.
\<close>

definition is_rejection :: "execution_error \<Rightarrow> bool" where
  "is_rejection e \<longleftrightarrow> (case e of DatetimeMismatch \<Rightarrow> False | Invalid_record _ \<Rightarrow> False
     | Reduction _ \<Rightarrow> False | _ \<Rightarrow> True)"

definition rejected_as :: "string \<Rightarrow> execution_error + 'a \<Rightarrow> repo_error + 'a" where
  "rejected_as i r = (case r of Inr x \<Rightarrow> Inr x
     | Inl e \<Rightarrow> Inl (if is_rejection e then IdempotencyConflict i else Execution e))"

definition load_obligation ::
  "store \<Rightarrow> follow_up \<Rightarrow> string \<Rightarrow> repo_error + working_claim \<times> follow_up \<times> session" where
  "load_obligation s expected customer_id =
     (case dict_get (st_claims s) (fu_claim_id expected) of
        None \<Rightarrow> Inl (Missing (fu_follow_up_id expected))
      | Some c \<Rightarrow> if wc_customer_id c \<noteq> customer_id then Inl (Missing (fu_follow_up_id expected))
          else (case (dict_get (st_follow_ups s) (fu_follow_up_id expected),
                      dict_get (st_sessions s) (fu_source_session_id expected)) of
                  (Some f, Some x) \<Rightarrow> Inr (c, f, x)
                | _ \<Rightarrow> Inl (Missing (fu_follow_up_id expected))))"

definition operations_of :: "store \<Rightarrow> string \<Rightarrow> string \<Rightarrow> operation list" where
  "operations_of s claim_id follow_up_id = sort_key (\<lambda>p. (op_sequence p, op_operation_id p))
     (filter (\<lambda>p. op_claim_id p = claim_id \<and> op_follow_up_id p = follow_up_id)
        (dict_values (st_follow_up_operations s)))"

definition check_operation_step :: "store \<Rightarrow> operation option \<Rightarrow> repo_error + unit" where
  "check_operation_step s changed = (case changed of
     None \<Rightarrow> Inr ()
   | Some q \<Rightarrow>
       (case dict_get (st_follow_up_operations s) (op_operation_id q) of
          None \<Rightarrow> Inl (IdempotencyConflict (op_operation_id q))
        | Some p \<Rightarrow> (case assert_follow_up_operation_transition p q of
              Inl _ \<Rightarrow> Inl (IdempotencyConflict (op_operation_id q))
            | Inr _ \<Rightarrow> Inr ())))"

definition put_operation :: "operation option \<Rightarrow> store \<Rightarrow> store" where
  "put_operation changed s = (case changed of
     None \<Rightarrow> s
   | Some q \<Rightarrow> s\<lparr>st_follow_up_operations := dict_put (op_operation_id q) q (st_follow_up_operations s)\<rparr>)"

definition put_follow_up :: "follow_up \<Rightarrow> store \<Rightarrow> store" where
  "put_follow_up f s = s\<lparr>st_follow_ups := dict_put (fu_follow_up_id f) f (st_follow_ups s)\<rparr>"

definition put_claim :: "working_claim \<Rightarrow> store \<Rightarrow> store" where
  "put_claim c s = s\<lparr>st_claims := dict_put (wc_claim_id c) c (st_claims s)\<rparr>"

definition put_idempotency :: "idempotency \<Rightarrow> store \<Rightarrow> store" where
  "put_idempotency r s = s\<lparr>st_idempotency := dict_put (idempotency_lookup r) r (st_idempotency s)\<rparr>"

section \<open>Terminal commits\<close>

definition commit_recovery_staff_abandonment ::
  "store \<Rightarrow> int \<Rightarrow> follow_up \<Rightarrow> working_claim \<Rightarrow> follow_up \<Rightarrow> operation option \<Rightarrow> string
     \<Rightarrow> idempotency \<Rightarrow> audit_event \<Rightarrow> repo_error + store" where
  "commit_recovery_staff_abandonment s expected_revision expected updated_claim updated reconciled
     customer_id record event =
     bind_result (load_obligation s expected customer_id) (\<lambda>(c, f, x).
       guarded
         [(wc_revision c \<noteq> expected_revision, RevisionConflict (wc_revision c)),
          (f \<noteq> expected, IdempotencyConflict (fu_follow_up_id expected)),
          (dict_get (st_idempotency s) (idempotency_lookup record) \<noteq> None,
           IdempotencyConflict (im_key record))]
         (case wc_terminal_disposition updated_claim of
            None \<Rightarrow> Inl (Missing (wc_claim_id c))
          | Some terminal \<Rightarrow>
              bind_result (rejected_as (fu_follow_up_id f)
                  (reduce_follow_up_staff_abandonment c x f
                     (operations_of s (wc_claim_id c) (fu_follow_up_id f))
                     (td_recorded_at terminal) (td_recorded_by terminal))) (\<lambda>t.
                guarded
                  [(tt_claim t \<noteq> updated_claim \<or> tt_follow_up t \<noteq> updated
                      \<or> tt_reconciled t \<noteq> reconciled, IdempotencyConflict (fu_follow_up_id f))]
                  (bind_result (check_operation_step s reconciled) (\<lambda>_.
                     bind_result (prepare_audit_events s updated_claim [event] []) (\<lambda>prepared.
                       bind_result (prepare_realtime s ''claim_changed'' updated_claim
                           (im_key record)) (\<lambda>realtime.
                         Inr (commit_realtime realtime (store_audit_events prepared
                           (put_idempotency record (put_claim updated_claim
                             (put_follow_up updated (put_operation reconciled s)))))))))))))"

definition commit_recovery_expiry ::
  "store \<Rightarrow> int \<Rightarrow> follow_up \<Rightarrow> working_claim \<Rightarrow> follow_up \<Rightarrow> operation option \<Rightarrow> string
     \<Rightarrow> audit_event \<Rightarrow> repo_error + store" where
  "commit_recovery_expiry s expected_revision expected updated_claim updated reconciled
     customer_id event =
     bind_result (load_obligation s expected customer_id) (\<lambda>(c, f, x).
       guarded
         [(wc_revision c \<noteq> expected_revision, RevisionConflict (wc_revision c)),
          (f \<noteq> expected, IdempotencyConflict (fu_follow_up_id expected))]
         (case wc_terminal_disposition updated_claim of
            None \<Rightarrow> Inl (Missing (wc_claim_id c))
          | Some terminal \<Rightarrow>
              bind_result (rejected_as (fu_follow_up_id expected)
                  (reduce_expired_follow_up c x f
                     (operations_of s (wc_claim_id c) (fu_follow_up_id f))
                     (td_recorded_at terminal))) (\<lambda>t.
                guarded
                  [(tt_claim t \<noteq> updated_claim \<or> tt_follow_up t \<noteq> updated
                      \<or> tt_reconciled t \<noteq> reconciled, IdempotencyConflict (fu_follow_up_id expected))]
                  (bind_result (check_operation_step s reconciled) (\<lambda>_.
                     bind_result (prepare_audit_events s updated_claim [event] []) (\<lambda>prepared.
                       bind_result (prepare_realtime s ''claim_changed'' updated_claim
                           (''recovery-expiry:'' @ fu_follow_up_id updated)) (\<lambda>realtime.
                         Inr (commit_realtime realtime (store_audit_events prepared
                           (put_claim updated_claim
                             (put_follow_up updated (put_operation reconciled s))))))))))))"

section \<open>Withdrawal of contact\<close>

definition commit_follow_up_contact_withdrawal ::
  "store \<Rightarrow> int \<Rightarrow> follow_up \<Rightarrow> follow_up \<Rightarrow> operation option \<Rightarrow> string \<Rightarrow> audit_event
     \<Rightarrow> repo_error + store" where
  "commit_follow_up_contact_withdrawal s expected_revision expected updated reconciled
     customer_id event =
     bind_result (load_obligation s expected customer_id) (\<lambda>(c, f, x).
       guarded
         [(wc_revision c \<noteq> expected_revision, RevisionConflict (wc_revision c)),
          (f \<noteq> expected, IdempotencyConflict (fu_follow_up_id expected))]
         (bind_result (rejected_as (fu_follow_up_id f)
             (reduce_follow_up_contact_withdrawal c x f
                (operations_of s (wc_claim_id c) (fu_follow_up_id f)) (fu_updated_at updated))) (\<lambda>t.
            guarded
              [(wt_follow_up t \<noteq> updated \<or> wt_reconciled t \<noteq> reconciled,
                IdempotencyConflict (fu_follow_up_id f))]
              (bind_result (check_operation_step s reconciled) (\<lambda>_.
                 bind_result (prepare_audit_events s c [event] []) (\<lambda>prepared.
                   bind_result (prepare_realtime s ''claim_changed'' c
                       (''follow-up-contact:'' @ fu_follow_up_id updated)) (\<lambda>realtime.
                     Inr (commit_realtime realtime (store_audit_events prepared
                       (put_follow_up updated (put_operation reconciled s)))))))))))"

section \<open>The due attempt\<close>

definition sequence_taken :: "store \<Rightarrow> operation \<Rightarrow> bool" where
  "sequence_taken s p \<longleftrightarrow> list_ex (\<lambda>q. op_follow_up_id q = op_follow_up_id p
     \<and> op_sequence q = op_sequence p) (dict_values (st_follow_up_operations s))"

definition attempt_message_ok :: "working_claim \<Rightarrow> session \<Rightarrow> operation \<Rightarrow> message \<Rightarrow> bool" where
  "attempt_message_ok c x p m \<longleftrightarrow> ms_claim_id m = wc_claim_id c \<and> ms_session_id m = se_session_id x
     \<and> ms_actor m = Actor_agent \<and> ms_visibility m = Claimant_visible
     \<and> Some (ms_created_at m) = op_committed_at p"

definition replay_attempt ::
  "store \<Rightarrow> follow_up \<Rightarrow> follow_up \<Rightarrow> operation \<Rightarrow> operation \<Rightarrow> message \<Rightarrow> repo_error + store" where
  "replay_attempt s f updated existing p m =
     (if existing = p \<and> dict_get (st_messages s) (ms_message_id m) = Some m
         \<and> fu_attempt_count updated \<le> fu_attempt_count f
      then guarded
        [(incomparable (fu_updated_at f) (fu_updated_at updated), DatetimeTypeError),
         (dt_before (fu_updated_at f) (fu_updated_at updated), IdempotencyConflict (op_operation_id p))]
        (Inr s)
      else Inl (IdempotencyConflict (op_operation_id p)))"

definition commit_due_follow_up_attempt ::
  "store \<Rightarrow> follow_up \<Rightarrow> follow_up \<Rightarrow> operation \<Rightarrow> operation option \<Rightarrow> message \<Rightarrow> string
     \<Rightarrow> audit_event \<Rightarrow> repo_error + store" where
  "commit_due_follow_up_attempt s expected updated p settled m customer_id event =
     bind_result (load_obligation s expected customer_id) (\<lambda>(c, f, x).
       case dict_get (st_follow_up_operations s) (op_operation_id p) of
         Some existing \<Rightarrow> replay_attempt s f updated existing p m
       | None \<Rightarrow>
           if f \<noteq> expected then Inl (IdempotencyConflict (fu_follow_up_id expected))
           else (case op_committed_at p of
             None \<Rightarrow> Inl (IdempotencyConflict (op_operation_id p))
           | Some committed_at \<Rightarrow>
               bind_result (rejected_as (op_operation_id p)
                   (reduce_due_follow_up c x f
                      (operations_of s (fu_claim_id expected) (fu_follow_up_id expected))
                      committed_at)) (\<lambda>t.
                 guarded
                   [(dt_operation t \<noteq> p \<or> dt_follow_up t \<noteq> updated \<or> dt_settled_previous t \<noteq> settled,
                     IdempotencyConflict (op_operation_id p))]
                   (bind_result (check_operation_step s settled) (\<lambda>_.
                      guarded
                        [(sequence_taken s p, IdempotencyConflict (op_operation_id p)),
                         (\<not> attempt_message_ok c x p m, IdempotencyConflict (ms_message_id m))]
                        (bind_result (preflight_message s m) (\<lambda>_.
                           bind_result (prepare_audit_events s c [event] []) (\<lambda>prepared.
                             bind_result (store_message (put_operation (Some p) (put_operation settled s)) m)
                               (\<lambda>s'. Inr (store_audit_events prepared (put_follow_up updated s')))))))))))"

section \<open>Operation records\<close>

definition get_follow_up_operation :: "store \<Rightarrow> string \<Rightarrow> string \<Rightarrow> string \<Rightarrow> operation option" where
  "get_follow_up_operation s claim_id operation_id customer_id =
     (if get_claim s claim_id customer_id = None then None
      else case dict_get (st_follow_up_operations s) operation_id of
        None \<Rightarrow> None
      | Some p \<Rightarrow> if op_claim_id p \<noteq> claim_id then None else Some p)"

definition list_follow_up_operations :: "store \<Rightarrow> string \<Rightarrow> string \<Rightarrow> string \<Rightarrow> operation list" where
  "list_follow_up_operations s claim_id follow_up_id customer_id =
     (if get_claim s claim_id customer_id = None then []
      else case dict_get (st_follow_ups s) follow_up_id of
        None \<Rightarrow> []
      | Some f \<Rightarrow> if fu_claim_id f \<noteq> claim_id then [] else operations_of s claim_id follow_up_id)"

definition operation_bound_guards ::
  "working_claim \<Rightarrow> follow_up \<Rightarrow> operation \<Rightarrow> string \<Rightarrow> (bool \<times> repo_error) list" where
  "operation_bound_guards c f p customer_id =
    (let refused = Missing (op_operation_id p); deadline = the (fu_deadline_at f) in
    [(wc_customer_id c \<noteq> customer_id \<or> fu_claim_id f \<noteq> op_claim_id p \<or> fu_policy_id f = None
        \<or> fu_policy_version f = None \<or> fu_deadline_at f = None
        \<or> Some (op_policy_id p) \<noteq> fu_policy_id f \<or> Some (op_policy_version p) \<noteq> fu_policy_version f,
      refused),
     (incomparable (op_scheduled_at p) (fu_created_at f), DatetimeTypeError),
     (dt_before (op_scheduled_at p) (fu_created_at f), refused),
     (incomparable (op_scheduled_at p) deadline, DatetimeTypeError),
     (\<not> dt_before (op_scheduled_at p) deadline \<or> wc_revision c < op_based_on_claim_revision p, refused)])"

definition next_sequence :: "store \<Rightarrow> string \<Rightarrow> int" where
  "next_sequence s follow_up_id =
     (let sequences = map op_sequence (filter (\<lambda>q. op_follow_up_id q = follow_up_id)
            (dict_values (st_follow_up_operations s)))
      in (if sequences = [] then 0 else Max (set sequences)) + 1)"

definition save_follow_up_operation ::
  "store \<Rightarrow> operation \<Rightarrow> string \<Rightarrow> repo_error + store" where
  "save_follow_up_operation s p customer_id =
     (let conflict = IdempotencyConflict (op_operation_id p) in
      case (dict_get (st_claims s) (op_claim_id p), dict_get (st_follow_ups s) (op_follow_up_id p)) of
        (Some c, Some f) \<Rightarrow> guarded (operation_bound_guards c f p customer_id)
          (case dict_get (st_follow_up_operations s) (op_operation_id p) of
             Some existing \<Rightarrow>
               if existing = p then Inr s
               else if op_status p = Op_committed \<and> op_based_on_claim_revision p \<noteq> wc_revision c
               then Inl conflict
               else (case assert_follow_up_operation_transition existing p of
                   Inl _ \<Rightarrow> Inl conflict
                 | Inr _ \<Rightarrow> Inr (put_operation (Some p) s))
           | None \<Rightarrow> guarded
               [(op_status p \<noteq> Op_reserved, conflict),
                (op_based_on_claim_revision p \<noteq> wc_revision c, conflict),
                (sequence_taken s p, conflict),
                (op_sequence p \<noteq> next_sequence s (op_follow_up_id p), conflict)]
               (Inr (put_operation (Some p) s)))
      | _ \<Rightarrow> Inl (Missing (op_operation_id p)))"

section \<open>The incomplete checkpoint\<close>

definition validate_claim_mutation ::
  "store \<Rightarrow> working_claim \<Rightarrow> int \<Rightarrow> bool \<Rightarrow> string option \<Rightarrow> repo_error + working_claim" where
  "validate_claim_mutation s c expected_revision session_change decision_id =
     (if claim_access_closed s (wc_claim_id c) then Inl (ResourceAccessClosed (wc_claim_id c))
      else case dict_get (st_claims s) (wc_claim_id c) of
        None \<Rightarrow> Inl (Missing (wc_claim_id c))
      | Some stored \<Rightarrow> guarded
          [(wc_revision stored \<noteq> expected_revision, RevisionConflict (wc_revision stored)),
           (wc_customer_id stored \<noteq> wc_customer_id c \<or> wc_revision c \<noteq> expected_revision + 1,
            Missing (wc_claim_id c)),
           (\<not> session_change \<and> wc_active_session_id stored \<noteq> wc_active_session_id c,
            Missing (wc_claim_id c)),
           (case decision_id of
              None \<Rightarrow> wc_claim_decision_id stored \<noteq> wc_claim_decision_id c
            | Some i \<Rightarrow> wc_claim_decision_id stored \<noteq> None \<or> wc_claim_decision_id c \<noteq> Some i,
            Missing (wc_claim_id c))]
          (Inr stored))"

definition checkpoint_ok ::
  "working_claim \<Rightarrow> session option \<Rightarrow> working_claim \<Rightarrow> int \<Rightarrow> session \<Rightarrow> follow_up \<Rightarrow> idempotency \<Rightarrow> bool" where
  "checkpoint_ok stored stored_session c expected_revision x f record \<longleftrightarrow>
     wc_active_session_id stored = Some (se_session_id x) \<and> wc_active_session_id c = None
     \<and> se_claim_id x = wc_claim_id c \<and> se_customer_id x = wc_customer_id c
     \<and> (case stored_session of None \<Rightarrow> False
        | Some y \<Rightarrow> se_claim_id y = wc_claim_id c \<and> se_customer_id y = wc_customer_id c
            \<and> se_status y = Session_active)
     \<and> se_status x = Session_paused \<and> se_context_revision x = expected_revision
     \<and> se_recovery_context x \<noteq> None \<and> fu_claim_id f = wc_claim_id c
     \<and> fu_source_session_id f = se_session_id x \<and> fu_status f \<in> {FU_pending, FU_blocked}
     \<and> fu_attempt_count f = 0 \<and> im_actor_id record = wc_customer_id c
     \<and> im_claim_id record = wc_claim_id c \<and> im_session_id record = se_session_id x
     \<and> dict_get (im_fields record) ''follow_up_id'' = Some (Text_value (fu_follow_up_id f))"

definition open_follow_up_exists :: "store \<Rightarrow> string \<Rightarrow> string \<Rightarrow> bool" where
  "open_follow_up_exists s claim_id purpose \<longleftrightarrow> list_ex (\<lambda>f. fu_claim_id f = claim_id
     \<and> fu_purpose f = purpose \<and> fu_status f \<in> {FU_pending, FU_blocked}) (dict_values (st_follow_ups s))"

definition save_incomplete_checkpoint ::
  "store \<Rightarrow> working_claim \<Rightarrow> int \<Rightarrow> session \<Rightarrow> follow_up \<Rightarrow> idempotency \<Rightarrow> repo_error + store" where
  "save_incomplete_checkpoint s c expected_revision x f record =
     bind_result (validate_claim_mutation s c expected_revision True None) (\<lambda>stored.
       guarded
         [(\<not> checkpoint_ok stored (dict_get (st_sessions s) (se_session_id x)) c expected_revision x f record,
           Missing (wc_claim_id c)),
          (dict_get (st_idempotency s) (idempotency_lookup record) \<noteq> None,
           IdempotencyConflict (im_key record)),
          (dict_get (st_follow_ups s) (fu_follow_up_id f) \<noteq> None,
           IdempotencyConflict (fu_follow_up_id f)),
          (open_follow_up_exists s (wc_claim_id c) (fu_purpose f), IdempotencyConflict (fu_purpose f))]
         (bind_result (prepare_realtime s ''session_paused'' c (im_key record)) (\<lambda>realtime.
            Inr (commit_realtime realtime (put_idempotency record (put_follow_up f
              (store_session (put_claim c s) x)))))))"

section \<open>Resuming in a new session\<close>

definition active_sessions :: "store \<Rightarrow> working_claim \<Rightarrow> session list" where
  "active_sessions s c = filter (\<lambda>y. se_claim_id y = wc_claim_id c
     \<and> se_customer_id y = wc_customer_id c \<and> se_status y = Session_active) (dict_values (st_sessions s))"

definition replacement_ok :: "store \<Rightarrow> working_claim \<Rightarrow> working_claim \<Rightarrow> session option \<Rightarrow> bool" where
  "replacement_ok s stored c replaced \<longleftrightarrow> (case replaced of
     None \<Rightarrow> wc_active_session_id stored = None \<and> active_sessions s c = []
   | Some r \<Rightarrow>
       (case dict_get (st_sessions s) (se_session_id r) of
          None \<Rightarrow> False
        | Some y \<Rightarrow> wc_active_session_id stored = Some (se_session_id r)
            \<and> se_claim_id y = wc_claim_id c \<and> se_customer_id y = wc_customer_id c
            \<and> se_status y = Session_active \<and> se_status r = Session_closed \<and> se_closed_at r \<noteq> None
            \<and> list_all (\<lambda>z. se_session_id z = se_session_id r) (active_sessions s c)
            \<and> r = y\<lparr>se_status := Session_closed, se_closed_at := se_closed_at r\<rparr>))"

definition open_recovery :: "store \<Rightarrow> working_claim \<Rightarrow> follow_up list" where
  "open_recovery s c = filter (\<lambda>f. fu_claim_id f = wc_claim_id c
     \<and> fu_purpose f = ''resume_incomplete_claim'' \<and> fu_status f \<in> {FU_pending, FU_blocked})
     (dict_values (st_follow_ups s))"

definition resumed_follow_up :: "follow_up \<Rightarrow> follow_up \<Rightarrow> follow_up" where
  "resumed_follow_up f r = f\<lparr>fu_status := FU_resolved, fu_outcome := fu_outcome r,
     fu_blocked_reason := None, fu_resolution_code := fu_resolution_code r,
     fu_active_operation_id := None, fu_due_at := None, fu_updated_at := fu_updated_at r\<rparr>"

definition reconciled_ok :: "store \<Rightarrow> working_claim \<Rightarrow> follow_up \<Rightarrow> operation option \<Rightarrow> bool" where
  "reconciled_ok s c f reconciled \<longleftrightarrow>
     (let open_operations = filter (\<lambda>p. op_follow_up_id p = fu_follow_up_id f
            \<and> op_claim_id p = wc_claim_id c \<and> is_open_operation p)
            (dict_values (st_follow_up_operations s))
      in case reconciled of
           None \<Rightarrow> open_operations = []
         | Some q \<Rightarrow> (case open_operations of
             [p] \<Rightarrow> op_operation_id p = op_operation_id q
                    \<and> assert_follow_up_operation_transition p q = Inr ()
           | _ \<Rightarrow> False))"

definition resolution_guards ::
  "store \<Rightarrow> working_claim \<Rightarrow> follow_up option \<Rightarrow> operation option \<Rightarrow> (bool \<times> repo_error) list" where
  "resolution_guards s c resolved reconciled =
    (let refused = Missing (wc_claim_id c) in
     case resolved of
       None \<Rightarrow> [(open_recovery s c \<noteq> [], refused), (reconciled \<noteq> None, refused)]
     | Some r \<Rightarrow>
         (case dict_get (st_follow_ups s) (fu_follow_up_id r) of
            None \<Rightarrow> [(True, refused)]
          | Some f \<Rightarrow>
             [(f \<notin> set (open_recovery s c) \<or> fu_status r \<noteq> FU_resolved
                 \<or> fu_outcome r \<noteq> Some ''claimant_resumed''
                 \<or> fu_reason_code r \<noteq> Some CLAIMANT_RESUMED, refused),
              (incomparable (fu_updated_at r) (fu_updated_at f), DatetimeTypeError),
              (dt_before (fu_updated_at r) (fu_updated_at f), refused),
              (r \<noteq> resumed_follow_up f r, refused),
              (\<not> opt_all (\<lambda>d. \<not> incomparable (fu_updated_at r) d) (fu_deadline_at f), DatetimeTypeError),
              (\<not> opt_all (\<lambda>d. dt_before (fu_updated_at r) d) (fu_deadline_at f),
               RecoveryDeadlineConflict (fu_follow_up_id f)),
              (\<not> reconciled_ok s c f reconciled, refused)]))"

definition prepare_resume_audit ::
  "store \<Rightarrow> working_claim \<Rightarrow> follow_up option \<Rightarrow> audit_event option
     \<Rightarrow> repo_error + (string \<times> audit_event) list" where
  "prepare_resume_audit s c resolved event = (case (resolved, event) of
     (Some _, Some e) \<Rightarrow> prepare_audit_events s c [e] []
   | (None, None) \<Rightarrow> Inr []
   | _ \<Rightarrow> Inl (Missing (wc_claim_id c)))"

definition validate_branch_evaluation ::
  "store \<Rightarrow> working_claim \<Rightarrow> branch_evaluation option \<Rightarrow> repo_error + unit" where
  "validate_branch_evaluation s c branch = (case branch of
     None \<Rightarrow> Inr ()
   | Some b \<Rightarrow> guarded
       [(be_claim_id b \<noteq> wc_claim_id c \<or> be_evaluated_against_claim_revision b \<noteq> wc_revision c
           \<or> be_resulting_claim_revision b \<noteq> Some (wc_revision c), Missing (wc_claim_id c)),
        (dict_get (st_branch_evaluations s) (be_evaluation_id b) \<noteq> None,
         IdempotencyConflict (be_evaluation_id b))]
       (Inr ()))"

definition put_optional :: "('a \<Rightarrow> store \<Rightarrow> store) \<Rightarrow> 'a option \<Rightarrow> store \<Rightarrow> store" where
  "put_optional put x s = (case x of None \<Rightarrow> s | Some y \<Rightarrow> put y s)"

definition put_branch_evaluation :: "branch_evaluation \<Rightarrow> store \<Rightarrow> store" where
  "put_branch_evaluation b s = s\<lparr>st_branch_evaluations :=
     dict_put (be_evaluation_id b) b (st_branch_evaluations s)\<rparr>"

definition save_session_mutation ::
  "store \<Rightarrow> working_claim \<Rightarrow> int \<Rightarrow> session \<Rightarrow> idempotency \<Rightarrow> branch_evaluation option
     \<Rightarrow> follow_up option \<Rightarrow> operation option \<Rightarrow> session option \<Rightarrow> audit_event option
     \<Rightarrow> repo_error + store" where
  "save_session_mutation s c expected_revision x record branch resolved reconciled replaced event =
     bind_result (validate_claim_mutation s c expected_revision True None) (\<lambda>stored.
       guarded
         ([(\<not> (wc_customer_id stored = wc_customer_id c
               \<and> wc_active_session_id c = Some (se_session_id x) \<and> se_claim_id x = wc_claim_id c
               \<and> se_customer_id x = wc_customer_id c \<and> se_status x = Session_active
               \<and> se_context_revision x = expected_revision \<and> im_actor_id record = wc_customer_id c
               \<and> im_claim_id record = wc_claim_id c \<and> im_session_id record = se_session_id x),
            Missing (wc_claim_id c)),
           (dict_get (st_sessions s) (se_session_id x) \<noteq> None, IdempotencyConflict (se_session_id x)),
           (\<not> replacement_ok s stored c replaced, Missing (wc_claim_id c))]
          @ resolution_guards s c resolved reconciled)
         (bind_result (prepare_resume_audit s c resolved event) (\<lambda>prepared.
            guarded [(dict_get (st_idempotency s) (idempotency_lookup record) \<noteq> None,
                      IdempotencyConflict (im_key record))]
              (bind_result (validate_branch_evaluation s c branch) (\<lambda>_.
                 bind_result (prepare_realtime s ''session_changed'' c (im_key record)) (\<lambda>realtime.
                   Inr (commit_realtime realtime (store_audit_events prepared (put_idempotency record
                     (put_optional put_branch_evaluation branch (put_operation reconciled
                       (put_optional put_follow_up resolved (store_session
                         (put_optional (\<lambda>r t. store_session t r) replaced (put_claim c s)) x)))))))))))))"

section \<open>Discovery\<close>

record follow_up_cursor =
  fc_scope :: string
  fc_boundary :: datetime
  fc_ordered_at :: datetime
  fc_follow_up_id :: string

definition decode_follow_up_cursor ::
  "string \<Rightarrow> datetime \<Rightarrow> follow_up_cursor option \<Rightarrow> repo_error + (int \<times> string) option" where
  "decode_follow_up_cursor scope boundary cursor = (case cursor of
     None \<Rightarrow> Inr None
   | Some k \<Rightarrow> guarded
       [(is_naive boundary \<or> fc_scope k \<noteq> scope \<or> fc_boundary k \<noteq> boundary
           \<or> is_naive (fc_ordered_at k) \<or> fc_follow_up_id k = [], InvalidCursor)]
       (Inr (Some (instant (fc_ordered_at k), fc_follow_up_id k))))"

definition encode_follow_up_cursor ::
  "string \<Rightarrow> datetime \<Rightarrow> (int \<times> string) option \<Rightarrow> repo_error + follow_up_cursor option" where
  "encode_follow_up_cursor scope boundary position = (case position of
     None \<Rightarrow> Inr None
   | Some (t, i) \<Rightarrow> guarded [(i = [], InvalidCursor)]
       (Inr (Some \<lparr>fc_scope = scope, fc_boundary = boundary, fc_ordered_at = Aware t,
          fc_follow_up_id = i\<rparr>)))"

definition discovery_guards :: "datetime \<Rightarrow> int \<Rightarrow> (bool \<times> repo_error) list" where
  "discovery_guards boundary limit =
    [(is_naive boundary, NaiveBoundary), (limit < 1 \<or> 1000 < limit, InvalidDiscoveryLimit)]"

definition due_candidate :: "follow_up \<Rightarrow> bool" where
  "due_candidate f \<longleftrightarrow> fu_status f = FU_pending \<and> fu_due_at f \<noteq> None \<and> fu_deadline_at f \<noteq> None"

definition due_incomparable :: "datetime \<Rightarrow> follow_up \<Rightarrow> bool" where
  "due_incomparable now f \<longleftrightarrow> due_candidate f \<and> (incomparable (the (fu_due_at f)) now
     \<or> \<not> dt_before now (the (fu_due_at f)) \<and> incomparable (the (fu_deadline_at f)) now)"

definition due_selected :: "datetime \<Rightarrow> follow_up \<Rightarrow> bool" where
  "due_selected now f \<longleftrightarrow> due_candidate f \<and> \<not> dt_before now (the (fu_due_at f))
     \<and> dt_before now (the (fu_deadline_at f))"

definition due_key :: "follow_up \<Rightarrow> int \<times> string" where
  "due_key f = (instant (the (fu_due_at f)), fu_follow_up_id f)"

definition list_due_follow_ups ::
  "store \<Rightarrow> datetime \<Rightarrow> int \<Rightarrow> follow_up_cursor option
     \<Rightarrow> repo_error + follow_up list \<times> follow_up_cursor option" where
  "list_due_follow_ups s due_before limit cursor =
     guarded (discovery_guards due_before limit)
       (bind_result (decode_follow_up_cursor ''due'' due_before cursor) (\<lambda>after.
          guarded [(list_ex (due_incomparable due_before) (dict_values (st_follow_ups s)),
                    DatetimeTypeError)]
            (case discovery_page due_key (nat limit)
                (filter (due_selected due_before) (dict_values (st_follow_ups s))) after of
               (page, position) \<Rightarrow>
                 bind_result (encode_follow_up_cursor ''due'' due_before position) (\<lambda>k. Inr (page, k)))))"

definition expiry_candidate :: "follow_up \<Rightarrow> bool" where
  "expiry_candidate f \<longleftrightarrow> fu_status f \<in> {FU_pending, FU_blocked} \<and> fu_deadline_at f \<noteq> None"

definition expiry_selected :: "datetime \<Rightarrow> follow_up \<Rightarrow> bool" where
  "expiry_selected now f \<longleftrightarrow> expiry_candidate f \<and> \<not> dt_before now (the (fu_deadline_at f))"

definition expiry_key :: "follow_up \<Rightarrow> int \<times> string" where
  "expiry_key f = (instant (the (fu_deadline_at f)), fu_follow_up_id f)"

definition list_expiring_follow_ups ::
  "store \<Rightarrow> datetime \<Rightarrow> int \<Rightarrow> follow_up_cursor option
     \<Rightarrow> repo_error + follow_up list \<times> follow_up_cursor option" where
  "list_expiring_follow_ups s deadline_before limit cursor =
     guarded (discovery_guards deadline_before limit)
       (bind_result (decode_follow_up_cursor ''deadline'' deadline_before cursor) (\<lambda>after.
          guarded [(list_ex (\<lambda>f. expiry_candidate f \<and> incomparable (the (fu_deadline_at f)) deadline_before)
                      (dict_values (st_follow_ups s)), DatetimeTypeError)]
            (case discovery_page expiry_key (nat limit)
                (filter (expiry_selected deadline_before) (dict_values (st_follow_ups s))) after of
               (page, position) \<Rightarrow>
                 bind_result (encode_follow_up_cursor ''deadline'' deadline_before position)
                   (\<lambda>k. Inr (page, k)))))"

end
