(* ===== verification/Recovery_Services.thy ===== *)
theory Recovery_Services
  imports Retention_Repository Follow_Up_Repository
begin

text \<open>
  The services that drive recovery (\<open>backend/services/follow_up_recovery.py\<close>): each reloads the
  obligation, asks its reducer, builds the audit event and the in-app message and commits the
  transition. A service returns what the function returns or raises, together with the store
  it leaves behind.
\<close>

section \<open>Errors\<close>

text \<open>
  What a service raises itself or lets through: \<open>Repo\<close> is an exception of the repository,
  \<open>Reducer\<close> an error of a reducer that is not its rejection class.
\<close>

datatype service_error =
    Repo repo_error
  | Reducer execution_error
  | Audit audit_error
  | Invalid_operation retention_model_error
  | Access retention_error
  | MessageFieldConstraint
  | NaiveServiceTime
  | WorkerLimitOutOfRange
  | TargetsNotFrozen
  | StorageKeyLost
  | UnsupportedAuditPhase
  | AssertionFailed
  | ProjectionFieldConstraint

type_synonym ('s, 'a) service = "'s \<Rightarrow> (service_error + 'a) \<times> 's"

text \<open>\<open>ResourceAccessClosed\<close> is a subclass of \<open>KeyError\<close>.\<close>

definition is_key_error :: "repo_error \<Rightarrow> bool" where
  "is_key_error e \<longleftrightarrow> (case e of Missing _ \<Rightarrow> True | ResourceAccessClosed _ \<Rightarrow> True | _ \<Rightarrow> False)"

definition lost_race :: "repo_error \<Rightarrow> bool" where
  "lost_race e \<longleftrightarrow> (case e of IdempotencyConflict _ \<Rightarrow> True | _ \<Rightarrow> is_key_error e)"

definition lost_revision_race :: "repo_error \<Rightarrow> bool" where
  "lost_revision_race e \<longleftrightarrow> (case e of RevisionConflict _ \<Rightarrow> True | _ \<Rightarrow> lost_race e)"

section \<open>Audit events and messages\<close>

definition default_digest :: "string \<Rightarrow> string" where
  "default_digest material = (case stable_digest material 24 of Inl _ \<Rightarrow> [] | Inr d \<Rightarrow> d)"

definition recovery_audit ::
  "string \<Rightarrow> audit_event_type \<Rightarrow> string \<Rightarrow> int \<Rightarrow> string \<Rightarrow> string \<Rightarrow> string \<Rightarrow> string list
     \<Rightarrow> datetime \<Rightarrow> audit_permission option \<Rightarrow> audit_error + audit_event" where
  "recovery_audit suffix event_type claim_id claim_revision actor auth_source reason source_refs
     created_at permission = new_audit_event
    \<lparr>au_event_id = ''aud_recovery_'' @ default_digest (suffix @ '':'' @ claim_id),
     au_event_type = event_type, au_outcome = Audit_succeeded,
     au_subject = \<lparr>as_subject_type = Subject_claim, as_subject_id = claim_id, as_claim_id = Some claim_id\<rparr>,
     au_actor = \<lparr>actor_type = Actor_system, actor_id = actor, aa_auth_source = auth_source\<rparr>,
     au_reason = reason, au_source_refs = fromkeys source_refs, au_permission = permission,
     au_consent_ref = None, au_consent_state = None, au_visibility = Audit_internal_only,
     au_correlation_id = Some (take 100 suffix), au_idempotency_key = None,
     au_claim_revision = Some claim_revision, au_created_at = created_at\<rparr>"

definition recovery_text :: string where
  "recovery_text = ''Your claim is still saved. You can return to continue where you left off when you are ready.''"

definition in_app_follow_up_message ::
  "follow_up \<Rightarrow> string \<Rightarrow> string \<Rightarrow> int \<Rightarrow> datetime \<Rightarrow> service_error + message" where
  "in_app_follow_up_message f operation_id policy_id policy_version created_at =
     (let rule_id = policy_id @ ''.v'' @ decimal policy_version in
      guarded [(120 < length rule_id, MessageFieldConstraint)]
        (Inr \<lparr>ms_message_id = ''msg_recovery_'' @ default_digest operation_id,
           ms_claim_id = fu_claim_id f, ms_session_id = fu_source_session_id f,
           ms_client_message_id = None, ms_actor = Actor_agent, ms_visibility = Claimant_visible,
           ms_content = [(''type'', ''text''), (''text'', recovery_text)],
           ms_evidence_refs = [], ms_in_reply_to = None, ms_recovery_rule_id = Some rule_id,
           ms_created_at = created_at\<rparr>))"

section \<open>Processing one candidate\<close>

text \<open>The candidate is a hint: every authoritative record is read again.\<close>

definition reload_obligation ::
  "store \<Rightarrow> follow_up \<Rightarrow> (working_claim \<times> follow_up \<times> session \<times> operation list) option" where
  "reload_obligation s candidate =
     (case dict_get (st_claims s) (fu_claim_id candidate) of
        None \<Rightarrow> None
      | Some c \<Rightarrow>
          (case get_follow_up s (fu_claim_id candidate) (fu_follow_up_id candidate) (wc_customer_id c) of
             None \<Rightarrow> None
           | Some f \<Rightarrow>
               (case get_session s (wc_claim_id c) (fu_source_session_id f) (wc_customer_id c) of
                  None \<Rightarrow> None
                | Some x \<Rightarrow> Some (c, f, x, list_follow_up_operations s (wc_claim_id c)
                    (fu_follow_up_id f) (wc_customer_id c)))))"

definition reduced :: "execution_error + 'a \<Rightarrow> service_error + 'a option" where
  "reduced r = (case r of Inr t \<Rightarrow> Inr (Some t)
     | Inl e \<Rightarrow> if is_rejection e then Inr None else Inl (Reducer e))"

definition committed ::
  "(repo_error \<Rightarrow> bool) \<Rightarrow> 'a \<Rightarrow> store \<Rightarrow> repo_error + store \<Rightarrow> (service_error + 'a option) \<times> store" where
  "committed lost t s r = (case r of Inr s' \<Rightarrow> (Inr (Some t), s')
     | Inl e \<Rightarrow> (if lost e then Inr None else Inl (Repo e), s))"

definition process_due_follow_up ::
  "follow_up \<Rightarrow> datetime \<Rightarrow> (store, due_transition option) service" where
  "process_due_follow_up candidate now s =
     (case reload_obligation s candidate of
        None \<Rightarrow> (Inr None, s)
      | Some (c, f, x, ops) \<Rightarrow>
          (case reduced (reduce_due_follow_up c x f ops now) of
             Inl e \<Rightarrow> (Inl e, s)
           | Inr None \<Rightarrow> (Inr None, s)
           | Inr (Some t) \<Rightarrow>
               (let p = dt_operation t in
                case recovery_audit (''due:'' @ op_operation_id p) ACTION_COMPLETED (wc_claim_id c)
                    (wc_revision c) ''p17-recovery-worker'' ''internal:recovery-worker''
                    ''Committed one authorised incomplete-Claim in-app follow-up.''
                    (op_source_refs p @ [op_operation_id p]) now None of
                  Inl e \<Rightarrow> (Inl (Audit e), s)
                | Inr event \<Rightarrow>
                    (case in_app_follow_up_message f (op_operation_id p) (op_policy_id p)
                        (op_policy_version p) now of
                       Inl e \<Rightarrow> (Inl e, s)
                     | Inr m \<Rightarrow> committed lost_race t s
                         (commit_due_follow_up_attempt s f (dt_follow_up t) p (dt_settled_previous t)
                            m (wc_customer_id c) event)))))"

definition process_expiring_follow_up ::
  "follow_up \<Rightarrow> datetime \<Rightarrow> (store, terminal_transition option) service" where
  "process_expiring_follow_up candidate now s =
     (case reload_obligation s candidate of
        None \<Rightarrow> (Inr None, s)
      | Some (c, f, x, ops) \<Rightarrow>
          (case reduced (reduce_expired_follow_up c x f ops now) of
             Inl e \<Rightarrow> (Inl e, s)
           | Inr None \<Rightarrow> (Inr None, s)
           | Inr (Some t) \<Rightarrow>
               (case recovery_audit (''expiry:'' @ fu_follow_up_id f) ACTION_COMPLETED (wc_claim_id c)
                    (wc_revision (tt_claim t)) ''p17-recovery-expiry'' ''internal:recovery-worker''
                    ''The incomplete-Claim recovery deadline expired.''
                    (fu_source_refs f @ [''follow-up:'' @ fu_follow_up_id f]) now None of
                  Inl e \<Rightarrow> (Inl (Audit e), s)
                | Inr event \<Rightarrow> committed lost_revision_race t s
                    (commit_recovery_expiry s (wc_revision c) f (tt_claim t) (tt_follow_up t)
                       (tt_reconciled t) (wc_customer_id c) event))))"

definition process_follow_up_contact_withdrawal ::
  "follow_up \<Rightarrow> datetime \<Rightarrow> (store, withdrawal_transition option) service" where
  "process_follow_up_contact_withdrawal candidate now s =
     (case reload_obligation s candidate of
        None \<Rightarrow> (Inr None, s)
      | Some (c, f, x, ops) \<Rightarrow>
          (case reduced (reduce_follow_up_contact_withdrawal c x f ops now) of
             Inl e \<Rightarrow> (Inl e, s)
           | Inr None \<Rightarrow> (Inr None, s)
           | Inr (Some t) \<Rightarrow>
               (case recovery_audit (''contact-withdrawal:'' @ fu_follow_up_id f) PERMISSION_REJECTED
                    (wc_claim_id c) (wc_revision c) ''p17-contact-authority''
                    ''internal:contact-authority''
                    ''Automatic incomplete-Claim recovery contact authority was withdrawn.''
                    (fu_source_refs f @ [''follow-up:'' @ fu_follow_up_id f]) now
                    (Some \<lparr>ap_required_permission = ''p17.follow_up.contact'',
                       ap_outcome = Permission_rejected\<rparr>) of
                  Inl e \<Rightarrow> (Inl (Audit e), s)
                | Inr event \<Rightarrow> committed lost_revision_race t s
                    (commit_follow_up_contact_withdrawal s (wc_revision c) f (wt_follow_up t)
                       (wt_reconciled t) (wc_customer_id c) event))))"

end
