(* ===== verification/Retention_Services.thy ===== *)
theory Retention_Services
  imports Recovery_Services
begin

text \<open>
  The retention services (\<open>backend/services/retention.py\<close>): reservation from a terminal Claim,
  freezing, the execution of a frozen cleanup, its audit events and its projections. The object
  store is an interface of the code (\<open>EvidenceStorage\<close> in \<open>backend/adapters/evidence_storage.py\<close>):
  its deletion is an argument of the services, a function on the state of the provider that
  returns no outcome when the provider is unavailable. The in-memory provider is modelled here.
\<close>

section \<open>The object store\<close>

type_synonym 'w deletion = "'w \<Rightarrow> string \<Rightarrow> string \<Rightarrow> string \<Rightarrow> deletion_outcome option \<times> 'w"

record memory_storage =
  mu_available :: bool
  mu_pending :: "(string \<times> string) list"
  mu_completed :: "((string \<times> string) \<times> string) list"
  mu_content :: "(string \<times> string) list"

definition delete_upload :: "memory_storage deletion" where
  "delete_upload w claim_id evidence_id storage_key =
     (let identity = (claim_id, evidence_id) in
      if \<not> mu_available w then (None, w)
      else if \<not> opt_all (\<lambda>k. k = storage_key) (dict_get (mu_completed w) identity)
      then (Some Outcome_unknown, w)
      else if identity \<notin> set (mu_content w) \<and> dict_get (mu_completed w) identity = None
              \<and> identity \<notin> set (mu_pending w)
      then (Some Outcome_already_absent, w)
      else (Some Outcome_deleted,
            w\<lparr>mu_content := removeAll identity (mu_content w),
              mu_completed := dict_pop identity (mu_completed w),
              mu_pending := removeAll identity (mu_pending w)\<rparr>))"

section \<open>Audit of the cleanup\<close>

definition audit_phase ::
  "string \<Rightarrow> bool \<Rightarrow> service_error + audit_event_type \<times> audit_outcome \<times> string" where
  "audit_phase phase unknown =
     (if phase = ''prepared''
      then Inr (ACTION_PREPARED, Audit_succeeded,
        ''Retention cleanup target set was frozen from the authoritative terminal source.'')
      else if phase = ''completed''
      then Inr (ACTION_COMPLETED, Audit_succeeded,
        ''Retention cleanup completed with every required frozen target satisfied.'')
      else if phase = ''reconciliation''
      then Inr (if unknown
        then (ACTION_UNKNOWN_OUTCOME, Audit_unknown,
          ''Retention cleanup requires reconciliation because a database step commit result is unknown.'')
        else (ACTION_FAILED, Audit_failed,
          ''Retention cleanup requires reconciliation after a database step failure.''))
      else Inl UnsupportedAuditPhase)"

definition retention_audit ::
  "retention_operation \<Rightarrow> string \<Rightarrow> datetime \<Rightarrow> string option \<Rightarrow> bool \<Rightarrow> service_error + audit_event" where
  "retention_audit p phase event_at target_id unknown =
     bind_result (audit_phase phase unknown) (\<lambda>(event_type, outcome, reason).
       map_error Audit (new_audit_event
         \<lparr>au_event_id = stable_record_id ''aud_ret'' (join ''|''
            [rt_operation_id p, phase,
             (case target_id of None \<Rightarrow> ''-'' | Some i \<Rightarrow> if i = [] then ''-'' else i),
             (if unknown then ''unknown'' else ''known'')]),
          au_event_type = event_type, au_outcome = outcome,
          au_subject = \<lparr>as_subject_type = Subject_claim, as_subject_id = rt_claim_id p,
            as_claim_id = Some (rt_claim_id p)\<rparr>,
          au_actor = \<lparr>actor_type = Actor_system, actor_id = ''retention-engine'', aa_auth_source = ''system''\<rparr>,
          au_reason = reason,
          au_source_refs = take 100 (fromkeys ([''retention-operation:'' @ rt_operation_id p,
            rt_source_terminal_ref p] @ rt_source_refs p
            @ (case target_id of None \<Rightarrow> [] | Some i \<Rightarrow> [''retention-target:'' @ i]))),
          au_permission = None, au_consent_ref = None, au_consent_state = None,
          au_visibility = Audit_only, au_correlation_id = None, au_idempotency_key = None,
          au_claim_revision = Some (rt_source_claim_revision p), au_created_at = event_at\<rparr>))"

definition append_retention_audit ::
  "retention_operation \<Rightarrow> string \<Rightarrow> datetime \<Rightarrow> string option \<Rightarrow> bool \<Rightarrow> (store, unit) service" where
  "append_retention_audit p phase event_at target_id unknown s =
     (case retention_audit p phase event_at target_id unknown of
        Inl e \<Rightarrow> (Inl e, s)
      | Inr event \<Rightarrow> (case append_audit_event s event of
          Inl e \<Rightarrow> (Inl (Repo e), s)
        | Inr s' \<Rightarrow> (Inr (), s')))"

definition audit_reconciliation :: "retention_operation \<Rightarrow> (store, unit) service" where
  "audit_reconciliation p s =
     (if rt_step_evidence p = [] then (Inr (), s)
      else let latest = last (rt_step_evidence p) in
        if sv_status latest \<notin> {Step_failed, Step_unknown} then (Inr (), s)
        else append_retention_audit p ''reconciliation'' (sv_recorded_at latest)
          (Some (sv_target_id latest)) (sv_status latest = Step_unknown) s)"

section \<open>Reservation and freezing\<close>

definition terminal_reservation :: "working_claim \<Rightarrow> terminal_disposition \<Rightarrow> datetime \<Rightarrow> retention_operation" where
  "terminal_reservation c terminal now =
     (let source_ref = retention_terminal_source_ref (wc_claim_id c) (td_recorded_revision terminal) in
      \<lparr>rt_operation_id = stable_operation_id ''ret'' (join ''|''
         [wc_claim_id c, source_ref, INCOMPLETE_CLAIM_RETENTION_POLICY_ID,
          ''v'' @ decimal INCOMPLETE_CLAIM_RETENTION_POLICY_VERSION]),
       rt_claim_id = wc_claim_id c, rt_source_terminal_ref = source_ref,
       rt_source_claim_revision = wc_revision c,
       rt_policy_id = INCOMPLETE_CLAIM_RETENTION_POLICY_ID,
       rt_policy_version = INCOMPLETE_CLAIM_RETENTION_POLICY_VERSION, rt_revision = 1,
       rt_status = Ret_reserved, rt_access_closed_at = now, rt_targets_frozen_at = None,
       rt_targets = [], rt_delete_authorizations = [], rt_active_delete_authorization_id = None,
       rt_step_evidence = [], rt_hold_refs = [], rt_diagnostic_code = None,
       rt_source_refs = fromkeys (source_ref # td_source_refs terminal),
       rt_created_at = now, rt_updated_at = now, rt_completed_at = None\<rparr>)"

definition reserve_retention_from_terminal ::
  "string \<Rightarrow> datetime \<Rightarrow> (store, retention_operation) service" where
  "reserve_retention_from_terminal claim_id now s =
     (if is_naive now then (Inl NaiveServiceTime, s)
      else case dict_get (st_claims s) claim_id of
        None \<Rightarrow> (Inl (Repo (Retention (Ineligible CLAIM_NOT_FOUND))), s)
      | Some c \<Rightarrow>
          (case wc_terminal_disposition c of
             None \<Rightarrow> (Inl (Repo (Retention (Ineligible TERMINAL_REQUIRED))), s)
           | Some terminal \<Rightarrow>
               (case validate_operation (terminal_reservation c terminal now) of
                  Inl e \<Rightarrow> (Inl (Invalid_operation e), s)
                | Inr p \<Rightarrow> (case reserve_eligible_retention_operation s p of
                    Inl e \<Rightarrow> (Inl (Repo e), s)
                  | Inr (s', q) \<Rightarrow> (Inr q, s')))))"

definition freeze_retention_cleanup_targets ::
  "string \<Rightarrow> datetime \<Rightarrow> (store, retention_operation) service" where
  "freeze_retention_cleanup_targets operation_id now s =
     (if is_naive now then (Inl NaiveServiceTime, s)
      else case get_retention_operation s operation_id of
        None \<Rightarrow> (Inl (Repo (FreezeRejected OPERATION_NOT_FOUND operation_id)), s)
      | Some p \<Rightarrow>
          (case (if rt_targets_frozen_at p = None
                 then freeze_retention_targets s (rt_operation_id p) (rt_revision p) now
                 else Inr (s, p)) of
             Inl e \<Rightarrow> (Inl (Repo e), s)
           | Inr (s1, q) \<Rightarrow>
               (case rt_targets_frozen_at q of
                  None \<Rightarrow> (Inl AssertionFailed, s1)
                | Some frozen_at \<Rightarrow>
                    (case append_retention_audit q ''prepared'' frozen_at None False s1 of
                       (Inl e, s2) \<Rightarrow> (Inl e, s2)
                     | (Inr _, s2) \<Rightarrow> (Inr q, s2)))))"

section \<open>Holds seen by the services\<close>

definition service_hold_ids :: "store \<Rightarrow> string \<Rightarrow> string list" where
  "service_hold_ids s claim_id = sort (map rh_hold_id (filter hold_active (list_retention_holds s claim_id)))"

definition held_candidate ::
  "retention_operation \<Rightarrow> string list \<Rightarrow> datetime \<Rightarrow> service_error + retention_operation" where
  "held_candidate p hold_ids now =
     (let combined = sorted_union (rt_hold_refs p) hold_ids in
      if rt_status p = Ret_held \<and> combined = rt_hold_refs p then Inr p
      else map_error Invalid_operation (validate_operation (p\<lparr>rt_revision := rt_revision p + 1,
        rt_status := Ret_held, rt_hold_refs := combined, rt_updated_at := now,
        rt_completed_at := None\<rparr>)))"

definition hold_current_operation ::
  "string \<Rightarrow> string list \<Rightarrow> datetime \<Rightarrow> (store, retention_operation) service" where
  "hold_current_operation operation_id hold_ids now s =
     (case get_retention_operation s operation_id of
        None \<Rightarrow> (Inl (Repo (Missing operation_id)), s)
      | Some refreshed \<Rightarrow>
          if rt_status refreshed = Ret_held then (Inr refreshed, s)
          else (case held_candidate refreshed hold_ids now of
             Inl e \<Rightarrow> (Inl e, s)
           | Inr held \<Rightarrow>
               if held = refreshed then (Inr held, s)
               else (case save_retention_operation s held (rt_revision refreshed) of
                  Inl e \<Rightarrow> (Inl (Repo e), s)
                | Inr s' \<Rightarrow> (Inr held, s'))))"

definition target_status :: "retention_operation \<Rightarrow> string \<Rightarrow> step_status option" where
  "target_status p target_id =
     dict_get (retention_target_statuses (rt_targets p) (rt_step_evidence p)) target_id"

section \<open>Objects first\<close>

text \<open>
  One object target: authorization, deletion by the provider, recorded result. \<open>Stop\<close> ends the
  loop of the caller with the operation it carries.
\<close>

datatype progress = Stop retention_operation | Continue retention_operation

definition refused_authorization ::
  "repo_error \<Rightarrow> string \<Rightarrow> store \<Rightarrow> service_error + progress" where
  "refused_authorization e operation_id s =
     (case (e, get_retention_operation s operation_id) of
        (FreezeRejected _ _, Some refreshed) \<Rightarrow> Inr (Stop refreshed)
      | (RevisionConflict _, Some refreshed) \<Rightarrow>
          if rt_status refreshed = Ret_held \<and> rt_active_delete_authorization_id refreshed = None
          then Inr (Stop refreshed) else Inl (Repo e)
      | _ \<Rightarrow> Inl (Repo e))"

definition delete_object ::
  "'w deletion \<Rightarrow> cleanup_target \<Rightarrow> string \<Rightarrow> datetime \<Rightarrow> retention_operation
     \<Rightarrow> (store \<times> 'w, progress) service" where
  "delete_object storage t storage_key now p = (\<lambda>(s, w).
     case authorize_retention_object_target s (rt_operation_id p) (ta_target_id t) (rt_revision p) now of
       Inl e \<Rightarrow> (refused_authorization e (rt_operation_id p) s, s, w)
     | Inr (s1, p1, a) \<Rightarrow>
         (case storage w (rt_claim_id p1) (ta_record_id t) storage_key of
            (reported, w1) \<Rightarrow>
              (let outcome = (case reported of None \<Rightarrow> Outcome_failed | Some x \<Rightarrow> x) in
               case record_retention_object_result s1 (rt_operation_id p1) (da_authorization_id a)
                   outcome now of
                 Inl e \<Rightarrow> (Inl (Repo e), s1, w1)
               | Inr (s2, p2) \<Rightarrow>
                   (case target_status p2 (ta_target_id t) of
                      None \<Rightarrow> (Inl (Repo (Missing (ta_target_id t))), s2, w1)
                    | Some status \<Rightarrow>
                        if rt_status p2 = Ret_held \<or> status \<in> {Step_failed, Step_unknown}
                        then (Inr (Stop p2), s2, w1)
                        else (Inr (Continue p2), s2, w1)))))"

fun delete_objects ::
  "'w deletion \<Rightarrow> datetime \<Rightarrow> cleanup_target list \<Rightarrow> retention_operation
     \<Rightarrow> (store \<times> 'w, retention_operation) service" where
  "delete_objects storage now [] p sw = (Inr p, sw)"
| "delete_objects storage now (t # ts) p sw =
     (if ta_kind t \<noteq> Target_object_bytes then delete_objects storage now ts p sw
      else case target_status p (ta_target_id t) of
        None \<Rightarrow> (Inl (Repo (Missing (ta_target_id t))), sw)
      | Some Step_satisfied \<Rightarrow> delete_objects storage now ts p sw
      | Some _ \<Rightarrow>
          (case ta_storage_key t of
             None \<Rightarrow> (Inl StorageKeyLost, sw)
           | Some k \<Rightarrow>
               (case delete_object storage t k now p sw of
                  (Inl e, sw') \<Rightarrow> (Inl e, sw')
                | (Inr (Stop q), sw') \<Rightarrow> (Inr q, sw')
                | (Inr (Continue q), sw') \<Rightarrow> delete_objects storage now ts q sw')))"

definition execute_retention_object_cleanup ::
  "'w deletion \<Rightarrow> string \<Rightarrow> datetime \<Rightarrow> (store \<times> 'w, retention_operation) service" where
  "execute_retention_object_cleanup storage operation_id now = (\<lambda>(s, w).
     if is_naive now then (Inl NaiveServiceTime, s, w)
     else case get_retention_operation s operation_id of
       None \<Rightarrow> (Inl (Repo (Missing operation_id)), s, w)
     | Some p \<Rightarrow>
         if rt_status p = Ret_completed then (Inr p, s, w)
         else let hold_ids = service_hold_ids s (rt_claim_id p) in
           if hold_ids \<noteq> [] \<and> rt_active_delete_authorization_id p = None
           then (case hold_current_operation (rt_operation_id p) hold_ids now s of (r, s') \<Rightarrow> (r, s', w))
           else delete_objects storage now (sort_key ta_target_id (rt_targets p)) p (s, w))"

section \<open>Then records\<close>

definition RETENTION_DATABASE_ORDER :: "(string \<times> int) list" where
  "RETENTION_DATABASE_ORDER =
    [(''MessageRecord'', 10), (''EvidenceClaimLink'', 20), (''EvidenceRecord'', 30),
     (''SessionRecord'', 40), (''FollowUpRecord'', 50), (''HandoffRecord'', 60),
     (''ExternalTaskResult'', 70), (''ExternalTaskRequest'', 80), (''ExternalTaskRecord'', 90),
     (''ExternalTaskEvidenceLink'', 100), (''ExternalTaskAttempt'', 110), (''FollowUpOperation'', 120),
     (''RuntimeWorkItemRecord'', 130), (''AuditEventEnvelope'', 140), (''RetentionHoldRecord'', 150),
     (''IdempotencyRecord'', 800), (''WorkingClaim'', 900)]"

definition database_targets :: "retention_operation \<Rightarrow> cleanup_target list" where
  "database_targets p = sort_key
     (\<lambda>t. (case dict_get RETENTION_DATABASE_ORDER (ta_record_type t) of None \<Rightarrow> 500 | Some n \<Rightarrow> n,
           ta_record_type t, ta_record_id t, ta_target_id t))
     (filter (\<lambda>t. ta_kind t = Target_mongo_record) (rt_targets p))"

definition after_audit :: "retention_operation \<Rightarrow> (service_error + unit) \<times> store
     \<Rightarrow> (service_error + retention_operation) \<times> store" where
  "after_audit p r = (case r of (Inl e, s) \<Rightarrow> (Inl e, s) | (Inr _, s) \<Rightarrow> (Inr p, s))"

text \<open>The audit event of a completed operation.\<close>

definition audit_completed :: "retention_operation \<Rightarrow> (store, retention_operation) service" where
  "audit_completed p s = (case rt_completed_at p of
     None \<Rightarrow> (Inl AssertionFailed, s)
   | Some completed_at \<Rightarrow>
       after_audit p (append_retention_audit p ''completed'' completed_at None False s))"

definition finish_cleanup :: "retention_operation \<Rightarrow> (store, retention_operation) service" where
  "finish_cleanup p s = (if rt_status p = Ret_completed then audit_completed p s else (Inr p, s))"

text \<open>
  A step the database could not confirm: the operation is read again, so that a target that
  was committed is not repeated. Only the MongoDB repository raises this error.
\<close>

definition reconcile_step ::
  "database_step_error \<Rightarrow> cleanup_target \<Rightarrow> datetime \<Rightarrow> retention_operation \<Rightarrow> (store, progress) service" where
  "reconcile_step e t now p s =
     (case get_retention_operation s (rt_operation_id p) of
        None \<Rightarrow> (Inl (Repo (DatabaseStep e)), s)
      | Some refreshed \<Rightarrow>
          if target_status refreshed (ta_target_id t) = Some Step_satisfied
          then (if rt_status refreshed = Ret_completed
                then (case finish_cleanup refreshed s of
                    (Inl e', s') \<Rightarrow> (Inl e', s') | (Inr q, s') \<Rightarrow> (Inr (Stop q), s'))
                else (Inr (Continue refreshed), s))
          else (case record_retention_step_failure s (rt_operation_id refreshed) (ta_target_id t)
                    (rt_revision refreshed)
                    (if de_commit_unknown e then Step_unknown else Step_failed)
                    (de_diagnostic_code e) now of
              Inl e' \<Rightarrow> (Inl (Repo e'), s)
            | Inr (s1, q) \<Rightarrow> (case audit_reconciliation q s1 of
                  (Inl e', s2) \<Rightarrow> (Inl e', s2) | (Inr _, s2) \<Rightarrow> (Inr (Stop q), s2))))"

definition clean_record ::
  "cleanup_target \<Rightarrow> datetime \<Rightarrow> retention_operation \<Rightarrow> (store, progress) service" where
  "clean_record t now p s =
     (let hold_ids = service_hold_ids s (rt_claim_id p) in
      if hold_ids \<noteq> []
      then (case hold_current_operation (rt_operation_id p) hold_ids now s of
          (Inl e, s') \<Rightarrow> (Inl e, s') | (Inr q, s') \<Rightarrow> (Inr (Stop q), s'))
      else (case apply_retention_record_target s (rt_operation_id p) (ta_target_id t)
                (rt_revision p) now of
          Inl (DatabaseStep e) \<Rightarrow> reconcile_step e t now p s
        | Inl e \<Rightarrow> (Inl (Repo e), s)
        | Inr (s1, q) \<Rightarrow>
            if rt_status q = Ret_reconciliation_required
            then (case audit_reconciliation q s1 of
                (Inl e, s2) \<Rightarrow> (Inl e, s2) | (Inr _, s2) \<Rightarrow> (Inr (Stop q), s2))
            else if rt_status q = Ret_completed
            then (case finish_cleanup q s1 of
                (Inl e, s2) \<Rightarrow> (Inl e, s2) | (Inr q', s2) \<Rightarrow> (Inr (Stop q'), s2))
            else (Inr (Continue q), s1)))"

fun clean_records ::
  "datetime \<Rightarrow> cleanup_target list \<Rightarrow> retention_operation \<Rightarrow> (store, retention_operation) service" where
  "clean_records now [] p s = finish_cleanup p s"
| "clean_records now (t # ts) p s =
     (case target_status p (ta_target_id t) of
        None \<Rightarrow> (Inl (Repo (Missing (ta_target_id t))), s)
      | Some Step_satisfied \<Rightarrow> clean_records now ts p s
      | Some _ \<Rightarrow>
          (case clean_record t now p s of
             (Inl e, s') \<Rightarrow> (Inl e, s')
           | (Inr (Stop q), s') \<Rightarrow> (Inr q, s')
           | (Inr (Continue q), s') \<Rightarrow> clean_records now ts q s'))"

definition after_objects :: "datetime \<Rightarrow> retention_operation \<Rightarrow> (store, retention_operation) service" where
  "after_objects now p s =
     (if rt_status p = Ret_held then (Inr p, s)
      else if rt_status p = Ret_completed then audit_completed p s
      else if object_incomplete p
      then (if rt_status p = Ret_reconciliation_required then after_audit p (audit_reconciliation p s)
            else (Inr p, s))
      else clean_records now (database_targets p) p s)"

definition execute_retention_cleanup ::
  "'w deletion \<Rightarrow> string \<Rightarrow> datetime \<Rightarrow> (store \<times> 'w, retention_operation) service" where
  "execute_retention_cleanup storage operation_id now = (\<lambda>(s, w).
     if is_naive now then (Inl NaiveServiceTime, s, w)
     else case get_retention_operation s operation_id of
       None \<Rightarrow> (Inl (Repo (Missing operation_id)), s, w)
     | Some p \<Rightarrow>
         if rt_status p = Ret_completed
         then (case audit_completed p s of (r, s') \<Rightarrow> (r, s', w))
         else if rt_targets_frozen_at p = None then (Inl TargetsNotFrozen, s, w)
         else (case execute_retention_object_cleanup storage operation_id now (s, w) of
            (Inl e, sw) \<Rightarrow> (Inl e, sw)
          | (Inr q, s1, w1) \<Rightarrow> (case after_objects now q s1 of (r, s2) \<Rightarrow> (r, s2, w1))))"

section \<open>Projections\<close>

text \<open>The claimant only learns that the resource is closed.\<close>

definition project_claimant_retention :: "store \<Rightarrow> string \<Rightarrow> service_error + unit option" where
  "project_claimant_retention s claim_id =
     bind_result (map_error Access (retention_access_closed (get_retention_operation_for_claim s claim_id)))
       (\<lambda>closed. Inr (if closed then Some () else None))"

datatype content_state = State_unavailable | State_deleted | State_anonymised | State_retained_for_audit

definition retention_projected_content_state :: "classification \<Rightarrow> step_status \<Rightarrow> content_state" where
  "retention_projected_content_state cls status =
     (if status \<noteq> Step_satisfied then State_unavailable
      else case cls of
        Class_delete \<Rightarrow> State_deleted
      | Class_anonymise \<Rightarrow> State_anonymised
      | Class_tombstone \<Rightarrow> State_anonymised
      | Class_retain \<Rightarrow> State_retained_for_audit)"

definition content_state_text :: "content_state \<Rightarrow> string" where
  "content_state_text c = (case c of
     State_unavailable \<Rightarrow> ''unavailable'' | State_deleted \<Rightarrow> ''deleted''
   | State_anonymised \<Rightarrow> ''anonymised'' | State_retained_for_audit \<Rightarrow> ''retained_for_audit'')"

record staff_projection =
  sp_claim_id :: string
  sp_operation_status :: retention_status
  sp_access_closed_at :: datetime
  sp_completed_at :: "datetime option"
  sp_hold_active :: bool
  sp_reconciliation_required :: bool
  sp_resources :: "((string \<times> content_state) \<times> nat) list"

definition count_in :: "('k \<times> nat) list \<Rightarrow> 'k \<Rightarrow> ('k \<times> nat) list" where
  "count_in counts k = dict_put k ((case dict_get counts k of None \<Rightarrow> 0 | Some n \<Rightarrow> n) + 1) counts"

text \<open>The statuses are built from the targets, so every target has one.\<close>

definition projected_key :: "retention_operation \<Rightarrow> cleanup_target \<Rightarrow> string \<times> content_state" where
  "projected_key p t = (ta_record_type t, retention_projected_content_state (ta_classification t)
     (case target_status p (ta_target_id t) of None \<Rightarrow> Step_pending | Some status \<Rightarrow> status))"

definition projected_counts :: "retention_operation \<Rightarrow> ((string \<times> content_state) \<times> nat) list" where
  "projected_counts p = foldl count_in [] (map (projected_key p) (rt_targets p)
     @ [(''RetentionOperation'', State_retained_for_audit)])"

definition staff_projection_of ::
  "store \<Rightarrow> string \<Rightarrow> retention_operation \<Rightarrow> staff_projection" where
  "staff_projection_of s claim_id p =
     \<lparr>sp_claim_id = claim_id, sp_operation_status = rt_status p,
      sp_access_closed_at = rt_access_closed_at p, sp_completed_at = rt_completed_at p,
      sp_hold_active = list_ex hold_active (list_retention_holds s claim_id),
      sp_reconciliation_required = (rt_status p = Ret_reconciliation_required),
      sp_resources = sort_key (\<lambda>((t, c), n). (t, content_state_text c)) (projected_counts p)\<rparr>"

definition projection_fields_ok :: "staff_projection \<Rightarrow> bool" where
  "projection_fields_ok v \<longleftrightarrow> bounded_text 1 160 (sp_claim_id v) \<and> length (sp_resources v) \<le> 200
     \<and> list_all (\<lambda>((t, c), n). bounded_text 1 120 t \<and> 1 \<le> n) (sp_resources v)"

definition project_staff_retention :: "store \<Rightarrow> string \<Rightarrow> service_error + staff_projection option" where
  "project_staff_retention s claim_id = (case get_retention_operation_for_claim s claim_id of
     None \<Rightarrow> Inr None
   | Some p \<Rightarrow> guarded [(\<not> projection_fields_ok (staff_projection_of s claim_id p), ProjectionFieldConstraint)]
       (Inr (Some (staff_projection_of s claim_id p))))"

end
