(* ===== verification/Recovery_Worker.thy ===== *)
theory Recovery_Worker
  imports Retention_Services
begin

text \<open>
  One bounded cycle of the recovery worker (\<open>backend/services/recovery_worker.py\<close>): expiry,
  retention handoff, pending retention and due contact, in this order. A candidate that fails
  is counted and the cycle goes on; the text of the log is not modelled.
\<close>

record cycle_result =
  cy_expiring_candidates :: nat
  cy_expired :: nat
  cy_due_candidates :: nat
  cy_contacted :: nat
  cy_retention_progressed :: nat
  cy_retention_blocked :: nat
  cy_failed_candidates :: nat
  cy_handoff_cursor :: "discovery_cursor option"
  cy_pending_retention_cursor :: "discovery_cursor option"

section \<open>One candidate after the other\<close>

text \<open>What became of one candidate: it made progress, was skipped, blocked or failed.\<close>

datatype fate = Progressed | Skipped | Blocked | Failed

fun each_candidate :: "('c \<Rightarrow> 's \<Rightarrow> fate \<times> 's) \<Rightarrow> 'c list \<Rightarrow> 's \<Rightarrow> fate list \<times> 's" where
  "each_candidate attempt [] s = ([], s)"
| "each_candidate attempt (c # cs) s =
     (case attempt c s of (fate, s1) \<Rightarrow>
        (case each_candidate attempt cs s1 of (fates, s2) \<Rightarrow> (fate # fates, s2)))"

definition transition_fate :: "(service_error + 'a option) \<times> store \<Rightarrow> fate \<times> store" where
  "transition_fate r = (case r of
     (Inl _, s) \<Rightarrow> (Failed, s) | (Inr None, s) \<Rightarrow> (Skipped, s) | (Inr (Some _), s) \<Rightarrow> (Progressed, s))"

definition expiry_attempt :: "datetime \<Rightarrow> follow_up \<Rightarrow> store \<Rightarrow> fate \<times> store" where
  "expiry_attempt now candidate s = transition_fate (process_expiring_follow_up candidate now s)"

definition due_attempt :: "datetime \<Rightarrow> follow_up \<Rightarrow> store \<Rightarrow> fate \<times> store" where
  "due_attempt now candidate s = transition_fate (process_due_follow_up candidate now s)"

text \<open>A reservation is not counted as progress; a refused one is counted as blocked.\<close>

definition handoff_attempt :: "datetime \<Rightarrow> string \<Rightarrow> store \<Rightarrow> fate \<times> store" where
  "handoff_attempt now claim_id s = (case reserve_retention_from_terminal claim_id now s of
     (Inr _, s') \<Rightarrow> (Skipped, s')
   | (Inl (Repo (Retention (Ineligible _))), s') \<Rightarrow> (Blocked, s')
   | (Inl _, s') \<Rightarrow> (Failed, s'))"

definition service_failure :: "service_error \<Rightarrow> fate" where
  "service_failure e = (case e of Repo (FreezeRejected _ _) \<Rightarrow> Blocked | _ \<Rightarrow> Failed)"

definition retention_attempt ::
  "'w deletion \<Rightarrow> datetime \<Rightarrow> retention_operation \<Rightarrow> store \<times> 'w \<Rightarrow> fate \<times> store \<times> 'w" where
  "retention_attempt storage now p = (\<lambda>(s, w).
     case (if rt_targets_frozen_at p = None
           then freeze_retention_cleanup_targets (rt_operation_id p) now s else (Inr p, s)) of
       (Inl e, s1) \<Rightarrow> (service_failure e, s1, w)
     | (Inr q, s1) \<Rightarrow>
         (case execute_retention_cleanup storage (rt_operation_id q) now (s1, w) of
            (Inl e, sw) \<Rightarrow> (service_failure e, sw)
          | (Inr _, sw) \<Rightarrow> (Progressed, sw)))"

section \<open>Pages and the cycle\<close>

definition retention_page ::
  "(int \<Rightarrow> discovery_cursor option \<Rightarrow> repo_error + 'a \<times> discovery_cursor option) \<Rightarrow> int
     \<Rightarrow> discovery_cursor option \<Rightarrow> repo_error + 'a \<times> discovery_cursor option" where
  "retention_page discover limit cursor = (case discover limit cursor of
     Inl InvalidCursor \<Rightarrow> discover limit None
   | r \<Rightarrow> r)"

definition tally :: "fate \<Rightarrow> fate list \<Rightarrow> nat" where
  "tally fate fates = length (filter (\<lambda>f. f = fate) fates)"

definition run_recovery_cycle ::
  "'w deletion \<Rightarrow> datetime \<Rightarrow> int \<Rightarrow> discovery_cursor option \<Rightarrow> discovery_cursor option
     \<Rightarrow> (store \<times> 'w, cycle_result) service" where
  "run_recovery_cycle storage now limit handoff_cursor pending_cursor = (\<lambda>(s, w).
     if is_naive now then (Inl NaiveServiceTime, s, w)
     else if \<not> (1 \<le> limit \<and> limit \<le> 100) then (Inl WorkerLimitOutOfRange, s, w)
     else case list_expiring_follow_ups s now limit None of
       Inl e \<Rightarrow> (Inl (Repo e), s, w)
     | Inr (expiring, _) \<Rightarrow>
         (case each_candidate (expiry_attempt now) expiring s of (expired, s1) \<Rightarrow>
           (case retention_page (list_retention_handoff_candidates s1) limit handoff_cursor of
              Inl e \<Rightarrow> (Inl (Repo e), s1, w)
            | Inr (handoff_ids, next_handoff) \<Rightarrow>
                (case each_candidate (handoff_attempt now) handoff_ids s1 of (handed, s2) \<Rightarrow>
                  (case retention_page (list_pending_retention_operations s2) limit pending_cursor of
                     Inl e \<Rightarrow> (Inl (Repo e), s2, w)
                   | Inr (pending, next_pending) \<Rightarrow>
                       (case each_candidate (retention_attempt storage now) pending (s2, w) of
                          (retained, s3, w1) \<Rightarrow>
                            (case list_due_follow_ups s3 now limit None of
                               Inl e \<Rightarrow> (Inl (Repo e), s3, w1)
                             | Inr (due, _) \<Rightarrow>
                                 (case each_candidate (due_attempt now) due s3 of (contacted, s4) \<Rightarrow>
                                   (Inr \<lparr>cy_expiring_candidates = length expiring,
                                      cy_expired = tally Progressed expired,
                                      cy_due_candidates = length due,
                                      cy_contacted = tally Progressed contacted,
                                      cy_retention_progressed = tally Progressed retained,
                                      cy_retention_blocked = tally Blocked (handed @ retained),
                                      cy_failed_candidates =
                                        tally Failed (expired @ handed @ retained @ contacted),
                                      cy_handoff_cursor = next_handoff,
                                      cy_pending_retention_cursor = next_pending\<rparr>, s4, w1)))))))))"

end
