(* ===== verification/Store_Facts.thy ===== *)
theory Store_Facts
  imports Recovery_Store
begin

text \<open>
  What the safety developments of the repository share: dictionaries with unique keys, tables
  that only grow, and the frames of the audit, realtime, session and message writes.
\<close>

section \<open>Tables\<close>

definition unique_keys :: "('k \<times> 'v) list \<Rightarrow> bool" where
  "unique_keys d \<longleftrightarrow> distinct (map fst d)"

lemma unique_keys_put: "unique_keys d \<Longrightarrow> unique_keys (dict_put k v d)"
  by (simp add: unique_keys_def dict_put_distinct)

lemma unique_keys_values: "unique_keys d \<Longrightarrow> v \<in> set (dict_values d) \<longleftrightarrow> (\<exists>k. dict_get d k = Some v)"
  by (simp only: unique_keys_def dict_value_iff)

text \<open>A table whose records are stored under their own identity.\<close>

definition keyed :: "('v \<Rightarrow> 'k) \<Rightarrow> ('k \<times> 'v) list \<Rightarrow> bool" where
  "keyed key d \<longleftrightarrow> unique_keys d \<and> (\<forall>k v. dict_get d k = Some v \<longrightarrow> key v = k)"

lemma keyed_get: "keyed key d \<Longrightarrow> dict_get d k = Some v \<Longrightarrow> key v = k"
  by (simp add: keyed_def)

lemma keyed_put: "keyed key d \<Longrightarrow> key v = k \<Longrightarrow> keyed key (dict_put k v d)"
  by (auto simp: keyed_def unique_keys_put)

lemma keyed_value_iff: "keyed key d \<Longrightarrow> v \<in> set (dict_values d) \<longleftrightarrow> dict_get d (key v) = Some v"
  using unique_keys_values [of d v] by (auto simp: keyed_def)

lemma keyed_put_values:
  assumes "keyed key d" "key v = k"
  shows "set (dict_values (dict_put k v d)) = insert v {w \<in> set (dict_values d). key w \<noteq> k}"
proof (rule set_eqI)
  show "w \<in> set (dict_values (dict_put k v d)) \<longleftrightarrow> w \<in> insert v {w \<in> set (dict_values d). key w \<noteq> k}"
    for w
    unfolding keyed_value_iff [OF keyed_put [OF assms]] insert_iff mem_Collect_eq
      keyed_value_iff [OF assms(1)]
    using assms(2) by auto
qed

lemma keyed_distinct: "keyed key d \<Longrightarrow> distinct (map key (dict_values d))"
proof -
  assume k: "keyed key d"
  have "key (snd y) = fst y" if "y \<in> set d" for y
  proof (rule keyed_get [OF k])
    show "dict_get d (fst y) = Some (snd y)"
      using that k by (simp add: keyed_def unique_keys_def map_of_is_SomeI)
  qed
  then have "map fst d = map key (dict_values d)" by simp
  then show ?thesis using k by (metis keyed_def unique_keys_def)
qed

definition grows_in :: "('v \<Rightarrow> 'v \<Rightarrow> bool) \<Rightarrow> ('k \<times> 'v) list \<Rightarrow> ('k \<times> 'v) list \<Rightarrow> bool" where
  "grows_in R d d' \<longleftrightarrow> (\<forall>k v. dict_get d k = Some v \<longrightarrow> (\<exists>v'. dict_get d' k = Some v' \<and> R v v'))"

lemma grows_in_refl: "(\<And>v. R v v) \<Longrightarrow> grows_in R d d"
  by (auto simp: grows_in_def)

lemma grows_in_trans:
  assumes "grows_in R d e" "grows_in R e f" "\<And>u v w. R u v \<Longrightarrow> R v w \<Longrightarrow> R u w"
  shows "grows_in R d f"
  using assms unfolding grows_in_def by meson

lemma grows_in_put:
  "(\<And>v. R v v) \<Longrightarrow> opt_all (\<lambda>v. R v w) (dict_get d k) \<Longrightarrow> grows_in R d (dict_put k w d)"
  by (auto simp: grows_in_def)

end
