(* ===== verification/Retention_Safety.thy ===== *)
theory Retention_Safety
  imports Retention_Repository Store_Facts
begin

text \<open>
  The retention operations of the repository as a machine: every sequence of calls keeps the
  store consistent, only extends retention operations, never reopens access, never touches a
  record that must be retained, and destroys nothing while a hold is active.
\<close>

section \<open>Calls\<close>

datatype retention_call =
    Reserve_eligible retention_operation
  | Reserve retention_operation
  | Freeze string int datetime
  | Step_failure string string int step_status string datetime
  | Authorize string string int datetime
  | Object_result string string deletion_outcome datetime
  | Apply_record string string int datetime
  | Save_operation retention_operation int
  | Save_hold retention_hold
  | Hold_action retention_hold int audit_event idempotency

fun exec_retention :: "store \<Rightarrow> retention_call \<Rightarrow> repo_error + store" where
  "exec_retention s (Reserve_eligible p) =
     bind_result (reserve_eligible_retention_operation s p) (\<lambda>r. Inr (fst r))"
| "exec_retention s (Reserve p) = bind_result (reserve_retention_operation s p) (\<lambda>r. Inr (fst r))"
| "exec_retention s (Freeze i rv at) =
     bind_result (freeze_retention_targets s i rv at) (\<lambda>r. Inr (fst r))"
| "exec_retention s (Step_failure i t rv st d now) =
     bind_result (record_retention_step_failure s i t rv st d now) (\<lambda>r. Inr (fst r))"
| "exec_retention s (Authorize i t rv now) =
     bind_result (authorize_retention_object_target s i t rv now) (\<lambda>r. Inr (fst r))"
| "exec_retention s (Object_result i a outcome now) =
     bind_result (record_retention_object_result s i a outcome now) (\<lambda>r. Inr (fst r))"
| "exec_retention s (Apply_record i t rv now) =
     bind_result (apply_retention_record_target s i t rv now) (\<lambda>r. Inr (fst r))"
| "exec_retention s (Save_operation q rv) = save_retention_operation s q rv"
| "exec_retention s (Save_hold h) = Inr (snd (save_retention_hold s h))"
| "exec_retention s (Hold_action h rv event record) = commit_retention_hold_action s h rv event record"

text \<open>
  Callers pass validated models, and a reservation names an operation identity that no other
  Claim uses (the services derive it from the Claim).
\<close>

definition fresh_identity :: "store \<Rightarrow> retention_operation \<Rightarrow> bool" where
  "fresh_identity s p \<longleftrightarrow> opt_all (\<lambda>q. rt_claim_id q = rt_claim_id p)
     (dict_get (st_retention_operations s) (rt_operation_id p))"

fun retention_allowed :: "store \<Rightarrow> retention_call \<Rightarrow> bool" where
  "retention_allowed s (Reserve_eligible p) \<longleftrightarrow> retention_valid p \<and> fresh_identity s p"
| "retention_allowed s (Reserve p) \<longleftrightarrow> retention_valid p \<and> fresh_identity s p"
| "retention_allowed s (Save_operation q rv) \<longleftrightarrow> retention_valid q"
| "retention_allowed s _ \<longleftrightarrow> True"

section \<open>The shape of every result\<close>

definition retention_step :: "retention_operation \<Rightarrow> retention_operation \<Rightarrow> bool" where
  "retention_step p q \<longleftrightarrow> retention_valid q \<and> validate_retention_operation_transition p q = Inr ()"

lemma retention_step_same:
  "retention_step p q \<Longrightarrow> rt_operation_id q = rt_operation_id p \<and> rt_claim_id q = rt_claim_id p"
  by (auto simp: retention_step_def transition_Inr_iff same_coordinates_def)

lemma retention_step_extends: "retention_step p q \<Longrightarrow> retention_extends p q"
  by (auto simp: retention_step_def intro: transition_extends)

lemma validated_Inr_iff: "validate_operation q = Inr r \<longleftrightarrow> retention_valid q \<and> r = q"
  by (auto simp: validate_operation_Inr_iff retention_valid_iff)

lemma replace_operation_Inr_iff:
  "replace_operation s p q = Inr (s', q') \<longleftrightarrow>
     retention_step p q \<and> s' = store_retention q s \<and> q' = q"
  unfolding replace_operation_def
  by (auto simp: bind_result_Inr_iff validated_Inr_iff retention_step_def)

lemma candidate_valid: "retention_candidate_after_step p e now = Inr q \<Longrightarrow> retention_valid q"
  by (simp add: candidate_Inr_iff)

lemma advance_step: "advance_record_target p t st d now = Inr q \<Longrightarrow> retention_step p q"
  unfolding advance_record_target_def
  by (auto simp: bind_result_Inr_iff retention_step_def dest: candidate_valid)

lemma freeze_Inr:
  assumes "freeze_retention_targets s i rv at = Inr (s', q)"
  shows "\<exists>p. dict_get (st_retention_operations s) i = Some p \<and> rt_revision p = rv \<and>
     (rt_targets_frozen_at p \<noteq> None \<and> s' = s \<and> q = p
      \<or> rt_targets_frozen_at p = None \<and> retention_step p q \<and> s' = store_retention q s
        \<and> active_hold_ids s (rt_claim_id p) = [] \<and> passes (freeze_blockers s (rt_claim_id p))
        \<and> (\<exists>c d. dict_get (st_claims s) (rt_claim_id p) = Some c
             \<and> validate_retention_source_authority c p = Inr ()
             \<and> collect_targets p (cleanup_inventory s c (rt_claim_id p)) [] = Inr d
             \<and> q = frozen_operation p (sorted_targets d) at))"
  using assms unfolding freeze_retention_targets_def guarded_append
  by (auto simp: guarded_Inr_iff bind_result_Inr_iff replace_operation_Inr_iff
      split: option.splits if_splits)

lemma step_failure_Inr:
  assumes "record_retention_step_failure s i tid rv st d now = Inr (s', q)"
  shows "\<exists>p. dict_get (st_retention_operations s) i = Some p
     \<and> (s' = s \<and> q = p \<or> retention_step p q \<and> s' = store_retention q s)"
  using assms unfolding record_retention_step_failure_def
  by (auto simp: guarded_Inr_iff bind_result_Inr_iff split: option.splits if_splits dest: advance_step)

lemma authorize_Inr:
  assumes "authorize_retention_object_target s i tid rv now = Inr (s', q, a)"
  shows "\<exists>p. dict_get (st_retention_operations s) i = Some p
     \<and> (rt_active_delete_authorization_id p \<noteq> None \<and> s' = s \<and> q = p
        \<or> rt_active_delete_authorization_id p = None \<and> retention_step p q
          \<and> s' = store_retention q s \<and> active_hold_ids s (rt_claim_id p) = []
          \<and> a = new_authorization p tid now \<and> q = authorized_operation p a now)"
proof -
  have "validate_authorization a = Inr b \<Longrightarrow> b = a" for a b
    unfolding validate_authorization_def guarded_Inr_iff by simp
  then show ?thesis
    using assms unfolding authorize_retention_object_target_def
    by (fastforce simp: guarded_Inr_iff bind_result_Inr_iff replace_operation_Inr_iff
        split: option.splits if_splits prod.splits)
qed

lemma object_result_Inr:
  assumes "record_retention_object_result s i aid outcome now = Inr (s', q)"
  shows "\<exists>p. dict_get (st_retention_operations s) i = Some p
     \<and> (s' = s \<and> q = p \<or> retention_step p q \<and> s' = store_retention q s
          \<and> rt_active_delete_authorization_id p = Some aid)"
  using assms unfolding record_retention_object_result_def
  by (auto simp: guarded_Inr_iff bind_result_Inr_iff replace_operation_Inr_iff
      split: option.splits if_splits)

lemma apply_record_Inr:
  assumes "apply_retention_record_target s i tid rv now = Inr (s', q)"
  shows "\<exists>p. dict_get (st_retention_operations s) i = Some p \<and> rt_revision p = rv
     \<and> (s' = s \<and> q = p \<or> (\<exists>t effect. find_target p tid = Some t \<and> ta_kind t = Target_mongo_record
          \<and> rt_status p \<noteq> Ret_completed \<and> \<not> target_satisfied p tid
          \<and> active_hold_ids s (rt_claim_id p) = [] \<and> \<not> object_incomplete p
          \<and> passes (freeze_blockers s (rt_claim_id p))
          \<and> cleanup_decision s p t now = Inr effect
          \<and> advance_record_target p t (fst (effect_step effect)) (snd (effect_step effect)) now = Inr q
          \<and> s' = store_retention q (apply_effect p t effect s)))"
  using assms unfolding apply_retention_record_target_def
  by (auto simp: guarded_Inr_iff bind_result_Inr_iff split: option.splits if_splits)


section \<open>The consistent store\<close>

definition retention_store_ok :: "store \<Rightarrow> bool" where
  "retention_store_ok s \<longleftrightarrow>
     unique_keys (st_retention_operations s)
     \<and> (\<forall>i p. dict_get (st_retention_operations s) i = Some p \<longrightarrow> rt_operation_id p = i
          \<and> retention_valid p \<and> dict_get (st_retention_by_claim s) (rt_claim_id p) = Some i)
     \<and> (\<forall>c i. dict_get (st_retention_by_claim s) c = Some i \<longrightarrow>
          (\<exists>p. dict_get (st_retention_operations s) i = Some p \<and> rt_claim_id p = c))"

text \<open>Everything but the retention stores, the idempotency records and the destroyed records.\<close>

definition same_retention :: "store \<Rightarrow> store \<Rightarrow> bool" where
  "same_retention s s' \<longleftrightarrow> st_retention_operations s' = st_retention_operations s
     \<and> st_retention_by_claim s' = st_retention_by_claim s"

lemma store_ok_same: "retention_store_ok s \<Longrightarrow> same_retention s s' \<Longrightarrow> retention_store_ok s'"
  by (simp add: retention_store_ok_def same_retention_def)

lemma store_ok_get:
  assumes "retention_store_ok s" "dict_get (st_retention_operations s) i = Some p"
  shows "rt_operation_id p = i" "retention_valid p"
    "dict_get (st_retention_by_claim s) (rt_claim_id p) = Some i"
  using assms by (auto simp: retention_store_ok_def)

lemma store_ok_claim:
  "retention_store_ok s \<Longrightarrow> dict_get (st_retention_by_claim s) c = Some i \<Longrightarrow>
     \<exists>p. dict_get (st_retention_operations s) i = Some p \<and> rt_claim_id p = c"
  by (simp add: retention_store_ok_def)

lemma store_retention_sel [simp]:
  "dict_get (st_retention_operations (store_retention q s)) =
     (dict_get (st_retention_operations s))(rt_operation_id q \<mapsto> q)"
  "st_retention_by_claim (store_retention q s) = st_retention_by_claim s"
  "st_retention_holds (store_retention q s) = st_retention_holds s"
  "st_claims (store_retention q s) = st_claims s"
  "st_retention_tombstones (store_retention q s) = st_retention_tombstones s"
  "st_idempotency (store_retention q s) = st_idempotency s"
  "st_audit_events (store_retention q s) = st_audit_events s"
  by (simp_all add: store_retention_def fun_eq_iff)

lemma store_ok_step:
  assumes "retention_store_ok s" "dict_get (st_retention_operations s) i = Some p" "retention_step p q"
  shows "retention_store_ok (store_retention q s)"
proof -
  have "rt_operation_id q = i" "rt_claim_id q = rt_claim_id p" "retention_valid q"
    using store_ok_get [OF assms(1,2)] retention_step_same [OF assms(3)] assms(3)
    by (auto simp: retention_step_def)
  then show ?thesis
    using assms(1,2)
    by (fastforce simp: retention_store_ok_def store_retention_def intro: unique_keys_put)
qed

lemma store_ok_close:
  assumes "retention_store_ok s" "dict_get (st_retention_by_claim s) (rt_claim_id p) = None"
    and "retention_valid p" "fresh_identity s p"
  shows "retention_store_ok (close_access p s)"
    and "dict_get (st_retention_operations s) (rt_operation_id p) = None"
proof -
  show new: "dict_get (st_retention_operations s) (rt_operation_id p) = None"
  proof (cases "dict_get (st_retention_operations s) (rt_operation_id p)")
    case (Some q)
    then show ?thesis
      using store_ok_get(3) [OF assms(1) Some] assms(2,4) by (simp add: fresh_identity_def)
  qed
  show "retention_store_ok (close_access p s)"
    using assms new
    by (fastforce simp: retention_store_ok_def close_access_def store_retention_def
        intro: unique_keys_put)
qed

section \<open>What a run of retention calls preserves\<close>

definition hold_extends :: "retention_hold \<Rightarrow> retention_hold \<Rightarrow> bool" where
  "hold_extends h k \<longleftrightarrow> h = k \<or> rh_released_at h = None \<and> rh_released_at k \<noteq> None
     \<and> k = h\<lparr>rh_released_at := rh_released_at k\<rparr>"

definition retired_stays :: "idempotency \<Rightarrow> idempotency \<Rightarrow> bool" where
  "retired_stays r r' \<longleftrightarrow> (im_retired r \<longrightarrow> im_retired r')"

definition retention_grows :: "store \<Rightarrow> store \<Rightarrow> bool" where
  "retention_grows s s' \<longleftrightarrow>
     grows_in retention_extends (st_retention_operations s) (st_retention_operations s')
     \<and> grows_in (=) (st_retention_by_claim s) (st_retention_by_claim s')
     \<and> grows_in hold_extends (st_retention_holds s) (st_retention_holds s')
     \<and> grows_in (=) (st_retention_tombstones s) (st_retention_tombstones s')
     \<and> grows_in (=) (st_audit_events s) (st_audit_events s')
     \<and> grows_in retired_stays (st_idempotency s) (st_idempotency s')
     \<and> st_follow_up_operations s' = st_follow_up_operations s
     \<and> st_runtime_turns s' = st_runtime_turns s \<and> st_work_items s' = st_work_items s
     \<and> st_external_attempts s' = st_external_attempts s
     \<and> st_external_links s' = st_external_links s"

lemma hold_extends_trans: "hold_extends g h \<Longrightarrow> hold_extends h k \<Longrightarrow> hold_extends g k"
  by (auto simp: hold_extends_def)

lemma retention_grows_refl: "retention_grows s s"
  by (simp add: retention_grows_def grows_in_refl hold_extends_def retired_stays_def)

lemma retention_grows_trans:
  assumes "retention_grows s t" "retention_grows t u" shows "retention_grows s u"
  using assms unfolding retention_grows_def
  by (auto intro: grows_in_trans [where R = retention_extends, OF _ _ retention_extends_trans]
      grows_in_trans [where R = hold_extends, OF _ _ hold_extends_trans]
      grows_in_trans [where R = "(=)"] grows_in_trans [where R = retired_stays]
      simp: retired_stays_def)

lemma grows_store:
  assumes "retention_store_ok s" "dict_get (st_retention_operations s) i = Some p" "retention_step p q"
  shows "retention_grows s (store_retention q s)"
proof -
  have "rt_operation_id q = i"
    using store_ok_get(1) [OF assms(1,2)] retention_step_same [OF assms(3)] by simp
  then have "grows_in retention_extends (st_retention_operations s)
      (dict_put (rt_operation_id q) q (st_retention_operations s))"
    using assms(2) retention_step_extends [OF assms(3)] by (intro grows_in_put) auto
  then show ?thesis
    using retention_grows_refl [of s] by (simp add: retention_grows_def store_retention_def)
qed

lemma grows_close:
  assumes "retention_store_ok s" "dict_get (st_retention_by_claim s) (rt_claim_id p) = None"
    and "retention_valid p" "fresh_identity s p"
  shows "retention_grows s (close_access p s)"
proof -
  have "grows_in retention_extends (st_retention_operations s)
      (dict_put (rt_operation_id p) p (st_retention_operations s))"
    using store_ok_close(2) [OF assms] by (intro grows_in_put) auto
  moreover have "grows_in (=) (st_retention_by_claim s)
      (dict_put (rt_claim_id p) (rt_operation_id p) (st_retention_by_claim s))"
    using assms(2) by (intro grows_in_put) auto
  ultimately show ?thesis
    using retention_grows_refl [of s]
    by (simp add: retention_grows_def close_access_def store_retention_def)
qed

lemma retired_map_get:
  "dict_get (map (\<lambda>(k, r). (k, f r)) d) k = map_option f (dict_get d k)"
  by (induction d) auto

lemma grows_retire: "retention_grows s (retire_claimant_records c u s)"
  using retention_grows_refl [of s]
  by (auto simp: retention_grows_def retire_claimant_records_def grows_in_def retired_map_get
      retired_stays_def)

lemma same_retention_retire: "same_retention s (retire_claimant_records c u s)"
  by (simp add: same_retention_def retire_claimant_records_def)


section \<open>Holds\<close>

lemma hold_transition_extends:
  "validate_retention_hold_transition h k = Inr u \<Longrightarrow> hold_extends h k"
  by (auto simp: hold_transition_Inr_iff hold_extends_def)

lemma grows_hold:
  "opt_all (\<lambda>h. hold_extends h k) (dict_get (st_retention_holds s) (rh_hold_id k)) \<Longrightarrow>
     retention_grows s (s\<lparr>st_retention_holds := dict_put (rh_hold_id k) k (st_retention_holds s)\<rparr>)"
  using retention_grows_refl [of s] grows_in_put [of hold_extends k "st_retention_holds s" "rh_hold_id k"]
  by (simp add: retention_grows_def hold_extends_def)

lemma operation_of_claim_get:
  assumes "retention_store_ok s" "operation_of_claim s c = Some p"
  shows "dict_get (st_retention_operations s) (rt_operation_id p) = Some p" "rt_claim_id p = c"
proof -
  have p: "p \<in> set (dict_values (st_retention_operations s))" "rt_claim_id p = c"
    using assms(2) unfolding operation_of_claim_def find_Some_iff by auto
  have "unique_keys (st_retention_operations s)" using assms(1) by (simp add: retention_store_ok_def)
  from unique_keys_values [OF this, THEN iffD1, OF p(1)]
  obtain i where "dict_get (st_retention_operations s) i = Some p" ..
  then show "dict_get (st_retention_operations s) (rt_operation_id p) = Some p"
    using store_ok_get(1) [OF assms(1)] by simp
  show "rt_claim_id p = c" by (rule p(2))
qed

lemma operation_of_claim_iff:
  assumes "retention_store_ok s"
  shows "operation_of_claim s c = get_retention_operation_for_claim s c"
proof (cases "operation_of_claim s c")
  case (Some p)
  note get = operation_of_claim_get [OF assms Some]
  then show ?thesis
    using Some store_ok_get(3) [OF assms get(1)] by (simp add: get_retention_operation_for_claim_def)
next
  case None
  then have none: "\<forall>p\<in>set (dict_values (st_retention_operations s)). rt_claim_id p \<noteq> c"
    by (simp add: operation_of_claim_def find_None_iff)
  have "dict_get (st_retention_by_claim s) c = None"
  proof (rule ccontr)
    assume "dict_get (st_retention_by_claim s) c \<noteq> None"
    then obtain i p where p: "dict_get (st_retention_operations s) i = Some p" "rt_claim_id p = c"
      using store_ok_claim [OF assms] by blast
    moreover have "unique_keys (st_retention_operations s)"
      using assms by (simp add: retention_store_ok_def)
    ultimately show False using none unique_keys_values [of _ p] by blast
  qed
  then show ?thesis using None by (simp add: get_retention_operation_for_claim_def)
qed

text \<open>The two effects a hold has on the stores: the operation steps, the hold is written.\<close>

lemma store_ok_hold:
  "retention_store_ok s \<Longrightarrow>
     retention_store_ok (s\<lparr>st_retention_holds := dict_put i h (st_retention_holds s)\<rparr>)"
  by (erule store_ok_same) (simp add: same_retention_def)

lemma apply_hold_Inr:
  assumes "retention_store_ok s" "apply_hold s h = Inr s'"
    and "dict_get (st_retention_holds s) (rh_hold_id h) = None"
  shows "retention_store_ok s' \<and> retention_grows s s'"
proof -
  have "retention_store_ok t \<and> retention_grows s t \<and> st_retention_holds t = st_retention_holds s"
    if "t = s \<or> (\<exists>p q. operation_of_claim s (rh_claim_id h) = Some p \<and> retention_step p q
         \<and> t = store_retention q s)" for t
    using that assms(1) store_ok_step grows_store operation_of_claim_get
    by (fastforce simp: retention_grows_refl)
  moreover have "\<exists>t. (t = s \<or> (\<exists>p q. operation_of_claim s (rh_claim_id h) = Some p
      \<and> retention_step p q \<and> t = store_retention q s))
    \<and> s' = t\<lparr>st_retention_holds := dict_put (rh_hold_id h) h (st_retention_holds t)\<rparr>"
  proof (cases "operation_of_claim s (rh_claim_id h)")
    case None
    then show ?thesis using assms(2) by (auto simp: apply_hold_def split: if_splits)
  next
    case (Some p)
    then have "s' = s\<lparr>st_retention_holds := dict_put (rh_hold_id h) h (st_retention_holds s)\<rparr>
        \<or> retention_step p (held_operation p h) \<and> s' = (store_retention (held_operation p h) s)
            \<lparr>st_retention_holds := dict_put (rh_hold_id h) h
               (st_retention_holds (store_retention (held_operation p h) s))\<rparr>"
      using assms(2) unfolding apply_hold_def
      by (auto simp: bind_result_Inr_iff replace_operation_Inr_iff split: if_splits)
    then show ?thesis using Some by blast
  qed
  ultimately obtain t where "retention_store_ok t" "retention_grows s t"
    "st_retention_holds t = st_retention_holds s"
    "s' = t\<lparr>st_retention_holds := dict_put (rh_hold_id h) h (st_retention_holds t)\<rparr>"
    by blast
  then show ?thesis
    using assms(3) store_ok_hold [of t "rh_hold_id h" h] grows_hold [of h t]
      retention_grows_trans [of s t] by auto
qed

lemma resume_after_release_ok:
  assumes "retention_store_ok s" "resume_after_release s h at = (e, s')"
  shows "retention_store_ok s' \<and> retention_grows s s'"
proof -
  have "s' = s \<or> (\<exists>p q. operation_of_claim s (rh_claim_id h) = Some p \<and> retention_step p q
      \<and> s' = store_retention q s)"
    using assms(2) unfolding resume_after_release_def
    by (auto simp: replace_operation_Inr_iff split: option.splits if_splits sum.splits)
  then show ?thesis
    using assms(1) store_ok_step grows_store operation_of_claim_get
    by (fastforce simp: retention_grows_refl)
qed

lemma save_hold_ok:
  assumes "retention_store_ok s" "save_retention_hold s h = (e, s')"
  shows "retention_store_ok s' \<and> retention_grows s s'"
proof (cases "dict_get (st_retention_holds s) (rh_hold_id h)")
  case None
  then show ?thesis
    using assms(2) apply_hold_Inr [OF assms(1)] assms(1)
    by (auto simp: save_retention_hold_def retention_grows_refl split: sum.splits)
next
  case (Some k)
  let ?t = "s\<lparr>st_retention_holds := dict_put (rh_hold_id h) h (st_retention_holds s)\<rparr>"
  show ?thesis
  proof (cases "k = h \<or> (\<exists>e. validate_retention_hold_transition k h = Inl e)")
    case True
    then have "s' = s" using assms(2) Some by (auto simp: save_retention_hold_def split: if_splits)
    then show ?thesis using assms(1) by (simp add: retention_grows_refl)
  next
    case False
    then obtain u where u: "validate_retention_hold_transition k h = Inr u"
      by (cases "validate_retention_hold_transition k h") auto
    then have "resume_after_release ?t h (the (rh_released_at h)) = (e, s')"
      using assms(2) Some False by (simp add: save_retention_hold_def)
    then have "retention_store_ok s' \<and> retention_grows ?t s'"
      by (rule resume_after_release_ok [OF store_ok_hold [OF assms(1)]])
    moreover have "retention_grows s ?t"
      using Some hold_transition_extends [OF u] by (intro grows_hold) simp
    ultimately show ?thesis using retention_grows_trans by blast
  qed
qed

section \<open>Destruction of records\<close>

definition untouched :: "store \<Rightarrow> store \<Rightarrow> bool" where
  "untouched s s' \<longleftrightarrow> st_retention_operations s' = st_retention_operations s
     \<and> st_retention_by_claim s' = st_retention_by_claim s
     \<and> st_retention_holds s' = st_retention_holds s \<and> st_audit_events s' = st_audit_events s
     \<and> st_follow_up_operations s' = st_follow_up_operations s
     \<and> st_runtime_turns s' = st_runtime_turns s \<and> st_work_items s' = st_work_items s
     \<and> st_external_attempts s' = st_external_attempts s
     \<and> st_external_links s' = st_external_links s"

lemma erase_source_frame:
  "untouched s (erase_source p t s)"
  "st_retention_tombstones (erase_source p t s) = st_retention_tombstones s"
  "st_idempotency (erase_source p t s) = st_idempotency s"
  by (simp_all add: untouched_def erase_source_def Let_def erase_session_def erase_evidence_link_def
      split: option.splits prod.splits)

lemma erase_message_frame:
  "untouched s (erase_message i s)"
  "st_retention_tombstones (erase_message i s) = st_retention_tombstones s"
  "st_idempotency (erase_message i s) = st_idempotency s"
  by (simp_all add: untouched_def erase_message_def split: option.splits)

lemma apply_effect_frame: "untouched s (apply_effect p t effect s)"
  using erase_source_frame(1) [of _ p t] erase_message_frame(1)
  by (auto simp: apply_effect_def untouched_def split: cleanup_effect.splits)

lemma decision_Sanitise:
  "cleanup_decision s p t now = Inr (Sanitise k r) \<Longrightarrow>
     \<exists>r'. find_idempotency_target s p t = Some (k, r') \<and> r = sanitise_idempotency r'"
  by (auto simp: cleanup_decision_def Let_def bind_result_Inr_iff guarded_Inr_iff
      split: if_splits option.splits)

lemma decision_Replace:
  assumes "cleanup_decision s p t now = Inr (Replace_by b)"
  shows "dict_get (st_retention_tombstones s) (ta_target_id t) = None
     \<and> ta_classification t \<in> {Class_anonymise, Class_tombstone}
     \<and> (\<exists>r. regular_record s t = Some r \<and> new_tombstone p t r now = Inr b)"
  using assms
  by (cases "ta_classification t")
    (auto simp: cleanup_decision_def Let_def bind_result_Inr_iff split: if_splits option.splits)

lemma decision_Erase:
  "cleanup_decision s p t now = Inr Erase \<Longrightarrow> ta_classification t = Class_delete"
  by (auto simp: cleanup_decision_def Let_def bind_result_Inr_iff split: if_splits option.splits)

lemma grows_effect:
  assumes "cleanup_decision s p t now = Inr effect"
  shows "retention_grows s (apply_effect p t effect s)"
proof -
  note frame = apply_effect_frame [of s p t effect, unfolded untouched_def]
  have "grows_in (=) (st_retention_tombstones s) (st_retention_tombstones (apply_effect p t effect s))"
  proof (cases effect)
    case (Replace_by b)
    then show ?thesis
      using assms decision_Replace [of s p t now b]
      by (simp add: apply_effect_def erase_source_frame(2) grows_in_put)
  qed (simp_all add: apply_effect_def grows_in_refl erase_message_frame(2))
  moreover have "grows_in retired_stays (st_idempotency s) (st_idempotency (apply_effect p t effect s))"
  proof (cases effect)
    case (Sanitise k r)
    then have "im_retired r"
      using assms decision_Sanitise [of s p t now k r] by (auto simp: sanitise_idempotency_def)
    then show ?thesis
      using Sanitise by (auto simp: apply_effect_def grows_in_def retired_stays_def)
  qed (simp_all add: apply_effect_def grows_in_refl erase_message_frame(3) erase_source_frame(3)
      retired_stays_def)
  ultimately show ?thesis
    using frame by (simp add: retention_grows_def grows_in_refl hold_extends_def)
qed

section \<open>The machine\<close>

lemma step_result:
  assumes "retention_store_ok s" "dict_get (st_retention_operations s) i = Some p"
    and "s' = s \<or> retention_step p q \<and> s' = store_retention q s"
  shows "retention_store_ok s' \<and> retention_grows s s'"
  using assms store_ok_step grows_store by (auto simp: retention_grows_refl)

lemma reserve_eligible_Inr:
  assumes "reserve_eligible_retention_operation s p = Inr (s', q)"
  shows "s' = s \<and> get_retention_operation_for_claim s (rt_claim_id p) = Some q
         \<and> same_logical_operation q p
     \<or> dict_get (st_retention_by_claim s) (rt_claim_id p) = None
         \<and> (\<exists>c. dict_get (st_claims s) (rt_claim_id p) = Some c
              \<and> validate_retention_eligibility_source c p = Inr ()
              \<and> \<not> recovery_open s (rt_claim_id p) \<and> \<not> external_unknown s (rt_claim_id p)
              \<and> \<not> staff_work_open s (rt_claim_id p) \<and> \<not> handoff_open s (rt_claim_id p)
              \<and> reservation_candidate s p = Inr q
              \<and> s' = retire_claimant_records (rt_claim_id p) (wc_customer_id c) (close_access q s))"
proof -
  have "rt_claim_id q = rt_claim_id p" if "reservation_candidate s p = Inr q" for q
    using that
    by (auto simp: reservation_candidate_def validated_Inr_iff held_with_def split: list.splits)
  then show ?thesis
    using assms
    by (fastforce simp: reserve_eligible_retention_operation_def get_retention_operation_for_claim_def
        bind_result_Inr_iff guarded_Inr_iff split: option.splits if_splits)
qed

lemma candidate_reservation:
  assumes "reservation_candidate s p = Inr q" "retention_valid p"
  shows "retention_valid q" "rt_operation_id q = rt_operation_id p" "rt_claim_id q = rt_claim_id p"
  using assms by (auto simp: reservation_candidate_def validated_Inr_iff held_with_def split: list.splits)

lemma reserve_ok:
  assumes "retention_store_ok s" "dict_get (st_retention_by_claim s) (rt_claim_id p) = None"
    and "retention_valid p" "fresh_identity s p"
  shows "retention_store_ok (close_access p s) \<and> retention_grows s (close_access p s)"
    and "retention_store_ok (retire_claimant_records c u (close_access p s))
      \<and> retention_grows s (retire_claimant_records c u (close_access p s))"
proof -
  show a: "retention_store_ok (close_access p s) \<and> retention_grows s (close_access p s)"
    using store_ok_close(1) [OF assms] grows_close [OF assms] by blast
  then show "retention_store_ok (retire_claimant_records c u (close_access p s))
      \<and> retention_grows s (retire_claimant_records c u (close_access p s))"
    using store_ok_same same_retention_retire grows_retire retention_grows_trans by blast
qed

lemma audit_grows:
  assumes "append_audit_event s e = Inr s'"
  shows "retention_grows s s' \<and> same_retention s s'"
  using assms retention_grows_refl [of s]
  by (auto simp: append_audit_event_def retention_grows_def same_retention_def grows_in_put
      split: option.splits if_splits)

lemma idempotency_grows:
  assumes "save_idempotency s r = Inr s'"
  shows "retention_grows s s' \<and> same_retention s s'"
proof -
  have "opt_all (\<lambda>x. \<not> im_retired x) (dict_get (st_idempotency s) (idempotency_lookup r))"
    and "s' = s\<lparr>st_idempotency := dict_put (idempotency_lookup r) r (st_idempotency s)\<rparr>"
    using assms unfolding save_idempotency_def guarded_Inr_iff by (auto simp: opt_all_iff)
  then show ?thesis
    using retention_grows_refl [of s]
    by (auto simp: retention_grows_def same_retention_def opt_all_iff retired_stays_def
        intro!: grows_in_put)
qed

lemma hold_action_ok:
  assumes "retention_store_ok s" "commit_retention_hold_action s h rv event record = Inr s'"
  shows "retention_store_ok s' \<and> retention_grows s s'"
proof -
  obtain s1 s2 where "save_retention_hold s h = (None, s1)" "append_audit_event s1 event = Inr s2"
    "save_idempotency s2 record = Inr s'"
    using assms(2)
    by (auto simp: commit_retention_hold_action_def bind_result_Inr_iff
        split: option.splits if_splits prod.splits)
  then show ?thesis
    using save_hold_ok [OF assms(1)] audit_grows idempotency_grows store_ok_same retention_grows_trans
    by meson
qed

lemma exec_retention_ok:
  assumes "retention_store_ok s" "retention_allowed s call" "exec_retention s call = Inr s'"
  shows "retention_store_ok s' \<and> retention_grows s s'"
proof (cases call)
  case (Reserve_eligible p)
  then obtain q where "reserve_eligible_retention_operation s p = Inr (s', q)"
    using assms(3) by (auto simp: bind_result_Inr_iff)
  from reserve_eligible_Inr [OF this] show ?thesis
  proof (elim disjE conjE exE)
    assume "s' = s"
    then show ?thesis using assms(1) by (simp add: retention_grows_refl)
  next
    fix c
    assume none: "dict_get (st_retention_by_claim s) (rt_claim_id p) = None"
      and q: "reservation_candidate s p = Inr q"
      and s': "s' = retire_claimant_records (rt_claim_id p) (wc_customer_id c) (close_access q s)"
    have valid: "retention_valid p" "fresh_identity s p" using assms(2) Reserve_eligible by simp_all
    note cand = candidate_reservation [OF q valid(1)]
    have "fresh_identity s q" using valid(2) cand by (simp add: fresh_identity_def)
    then show ?thesis using reserve_ok(2) [OF assms(1) _ cand(1)] none cand(3) s' by simp
  qed
next
  case (Reserve p)
  then have "s' = s \<or> dict_get (st_retention_by_claim s) (rt_claim_id p) = None
      \<and> (s' = close_access p s \<or> (\<exists>u. s' = retire_claimant_records (rt_claim_id p) u (close_access p s)))"
    using assms(3)
    by (auto simp: bind_result_Inr_iff reserve_retention_operation_def guarded_Inr_iff
        split: option.splits if_splits)
  then show ?thesis
    using reserve_ok [OF assms(1), of p] assms(1,2) Reserve by (auto simp: retention_grows_refl)
next
  case (Freeze i rv at)
  then show ?thesis
    using assms(3) step_result [OF assms(1)] by (fastforce simp: bind_result_Inr_iff dest: freeze_Inr)
next
  case (Step_failure i t rv st d now)
  then show ?thesis
    using assms(3) step_result [OF assms(1)] by (fastforce simp: bind_result_Inr_iff dest: step_failure_Inr)
next
  case (Authorize i t rv now)
  then show ?thesis
    using assms(3) step_result [OF assms(1)] by (fastforce simp: bind_result_Inr_iff dest: authorize_Inr)
next
  case (Object_result i a outcome now)
  then show ?thesis
    using assms(3) step_result [OF assms(1)] by (fastforce simp: bind_result_Inr_iff dest: object_result_Inr)
next
  case (Apply_record i tid rv now)
  then obtain q where "apply_retention_record_target s i tid rv now = Inr (s', q)"
    using assms(3) by (auto simp: bind_result_Inr_iff)
  from apply_record_Inr [OF this] obtain p where p: "dict_get (st_retention_operations s) i = Some p"
    "s' = s \<or> (\<exists>t effect. cleanup_decision s p t now = Inr effect \<and> retention_step p q
       \<and> s' = store_retention q (apply_effect p t effect s))"
    using advance_step by blast
  show ?thesis
  proof (cases "s' = s")
    case False
    then obtain t effect where e: "cleanup_decision s p t now = Inr effect" "retention_step p q"
      "s' = store_retention q (apply_effect p t effect s)" using p(2) by blast
    let ?t = "apply_effect p t effect s"
    have frame: "same_retention s ?t"
      using apply_effect_frame [of s p t effect] by (simp add: untouched_def same_retention_def)
    then have "dict_get (st_retention_operations ?t) i = Some p"
      using p(1) by (simp add: same_retention_def)
    then have "retention_store_ok s' \<and> retention_grows ?t s'"
      using step_result [OF store_ok_same [OF assms(1) frame]] e by blast
    then show ?thesis using grows_effect [OF e(1)] retention_grows_trans by blast
  qed (use assms(1) in \<open>simp add: retention_grows_refl\<close>)
next
  case (Save_operation q rv)
  then have "s' = s \<or> (\<exists>p. dict_get (st_retention_operations s) (rt_operation_id q) = Some p
      \<and> retention_step p q \<and> s' = store_retention q s)"
    using assms(2,3)
    by (auto simp: save_retention_operation_def bind_result_Inr_iff retention_step_def
        split: option.splits if_splits)
  then show ?thesis using step_result [OF assms(1)] assms(1) by (auto simp: retention_grows_refl)
next
  case (Save_hold h)
  then show ?thesis using assms(3) save_hold_ok [OF assms(1), of h] by (cases "save_retention_hold s h") auto
next
  case (Hold_action h rv event stored)
  then show ?thesis using assms(3) hold_action_ok [OF assms(1)] by simp
qed

interpretation retention_machine: growing_machine exec_retention retention_allowed
  retention_store_ok retention_grows
  by unfold_locales
    (auto simp: retention_grows_refl intro: retention_grows_trans dest: exec_retention_ok)


section \<open>Holds stop destruction\<close>

lemma hold_blocks_freeze:
  assumes "dict_get (st_retention_operations s) i = Some p" "active_hold_ids s (rt_claim_id p) \<noteq> []"
    and "freeze_retention_targets s i rv now = Inr (s', q)"
  shows "s' = s"
  using freeze_Inr [OF assms(3)] assms(1,2) by auto

lemma hold_blocks_authorization:
  assumes "dict_get (st_retention_operations s) i = Some p" "active_hold_ids s (rt_claim_id p) \<noteq> []"
    and "authorize_retention_object_target s i tid rv now = Inr (s', q, a)"
  shows "s' = s"
  using authorize_Inr [OF assms(3)] assms(1,2) by auto

lemma hold_blocks_application:
  assumes "dict_get (st_retention_operations s) i = Some p" "active_hold_ids s (rt_claim_id p) \<noteq> []"
    and "apply_retention_record_target s i tid rv now = Inr (s', q)"
  shows "s' = s"
  using apply_record_Inr [OF assms(3)] assms(1,2) by auto

lemma settle_held: "holds \<noteq> [] \<Longrightarrow> rt_status (settle_authorization holds q) = Ret_held
     \<and> rt_completed_at (settle_authorization holds q) = None
     \<and> set holds \<subseteq> set (rt_hold_refs (settle_authorization holds q))"
  by (simp add: settle_authorization_def held_with_def Let_def)

lemma hold_keeps_result:
  assumes "dict_get (st_retention_operations s) i = Some p" "active_hold_ids s (rt_claim_id p) \<noteq> []"
    and "record_retention_object_result s i aid outcome now = Inr (s', q)"
  shows "s' = s \<or> rt_status q = Ret_held"
proof -
  have "s' = s \<or> (\<exists>r. q = settle_authorization (active_hold_ids s (rt_claim_id p)) r)"
    using assms(1,3) unfolding record_retention_object_result_def
    by (auto simp: guarded_Inr_iff bind_result_Inr_iff replace_operation_Inr_iff
        split: option.splits if_splits)
  then show ?thesis using settle_held [OF assms(2)] by auto
qed

lemma objects_first:
  assumes "apply_retention_record_target s i tid rv now = Inr (s', q)" "s' \<noteq> s"
    and "dict_get (st_retention_operations s) i = Some p" "t \<in> set (rt_targets p)"
    and "ta_kind t = Target_object_bytes"
  shows "snd (latest (rt_step_evidence p) (ta_target_id t)) = Step_satisfied"
proof -
  have "\<not> object_incomplete p" using apply_record_Inr [OF assms(1)] assms(2,3) by auto
  then have "target_satisfied p (ta_target_id t)"
    using assms(4,5) by (auto simp: object_incomplete_def list_ex_iff)
  then show ?thesis using assms(4) by (simp add: target_satisfied_def statuses_get split: if_splits)
qed

section \<open>Access stays closed\<close>

lemma closed_no_claim: "claim_access_closed s c \<Longrightarrow> get_claim s c u = None"
  by (auto simp: get_claim_def claimant_resource_access_open_def split: option.splits)

lemma grows_closed: "retention_grows s s' \<Longrightarrow> claim_access_closed s c \<Longrightarrow> claim_access_closed s' c"
  by (auto simp: retention_grows_def grows_in_def claim_access_closed_def)

lemma reserve_closes:
  assumes "reserve_eligible_retention_operation s p = Inr (s', q)"
  shows "claim_access_closed s' (rt_claim_id p)"
proof -
  have "rt_claim_id q = rt_claim_id p" if "reservation_candidate s p = Inr q"
    using that
    by (auto simp: reservation_candidate_def validated_Inr_iff held_with_def split: list.splits)
  then show ?thesis
    using reserve_eligible_Inr [OF assms]
    by (auto simp: claim_access_closed_def get_retention_operation_for_claim_def close_access_def
        retire_claimant_records_def split: option.splits)
qed

lemma reserve_replay:
  assumes "reserve_eligible_retention_operation s p = Inr (s', q)"
  shows "reserve_eligible_retention_operation s' p = Inr (s', q)"
proof -
  have same: "same_logical_operation q p \<and> rt_claim_id q = rt_claim_id p"
    if "reservation_candidate s p = Inr q"
    using that by (auto simp: reservation_candidate_def validated_Inr_iff held_with_def
        same_logical_operation_def split: list.splits)
  show ?thesis
    using reserve_eligible_Inr [OF assms]
  proof (elim disjE conjE exE)
    assume "s' = s"
    then show ?thesis using assms by simp
  next
    fix c
    assume q: "reservation_candidate s p = Inr q"
      and s': "s' = retire_claimant_records (rt_claim_id p) (wc_customer_id c) (close_access q s)"
    have "dict_get (st_retention_by_claim s') (rt_claim_id p) = Some (rt_operation_id q)"
      "dict_get (st_retention_operations s') (rt_operation_id q) = Some q"
      using same [OF q] s' by (simp_all add: retire_claimant_records_def close_access_def)
    then show ?thesis using same [OF q] by (simp add: reserve_eligible_retention_operation_def)
  qed
qed

lemma reserve_retires:
  assumes "reserve_eligible_retention_operation s p = Inr (s', q)" "s' \<noteq> s"
    and "dict_get (st_claims s) (rt_claim_id p) = Some c"
    and "dict_get (st_idempotency s') k = Some r" "im_claim_id r = rt_claim_id p"
      "im_actor_id r = wc_customer_id c"
  shows "im_retired r"
proof -
  have "st_idempotency s' = st_idempotency (retire_claimant_records (rt_claim_id p) (wc_customer_id c) s)"
    using reserve_eligible_Inr [OF assms(1)] assms(2,3)
    by (auto simp: retire_claimant_records_def close_access_def)
  then show ?thesis
    using assms(4-6) by (auto simp: retire_claimant_records_def retired_map_get)
qed

section \<open>The frozen inventory is complete\<close>

lemma collect_targets_Inr:
  assumes "collect_targets p specs d = Inr d'"
  shows "(\<forall>i. dict_get d i \<noteq> None \<longrightarrow> dict_get d' i \<noteq> None)
     \<and> (\<forall>spec\<in>set specs. \<exists>t. build_target p spec = Inr t \<and> dict_get d' (ta_target_id t) \<noteq> None)
     \<and> (\<forall>i t. dict_get d' i = Some t \<longrightarrow> dict_get d i = Some t
          \<or> ta_target_id t = i \<and> (\<exists>spec\<in>set specs. build_target p spec = Inr t))"
  using assms
proof (induction specs arbitrary: d)
  case (Cons spec specs)
  obtain t where t: "build_target p spec = Inr t"
    "collect_targets p specs (dict_put (ta_target_id t) t d) = Inr d'"
    using Cons.prems by (auto simp: bind_result_Inr_iff)
  note IH = Cons.IH [OF t(2)]
  have "dict_get d' (ta_target_id t) \<noteq> None"
    using conjunct1 [OF IH] by simp
  moreover have "\<forall>i. dict_get d i \<noteq> None \<longrightarrow> dict_get d' i \<noteq> None"
    using conjunct1 [OF IH] by simp
  ultimately show ?case using IH t(1) by (auto split: if_splits)
qed simp

lemma sorted_targets_set: "unique_keys d \<Longrightarrow> t \<in> set (sorted_targets d) \<longleftrightarrow> (\<exists>i. dict_get d i = Some t)"
  using unique_keys_values [of d t] by (simp only: sorted_targets_def set_sort)

lemma collect_unique: "unique_keys d \<Longrightarrow> collect_targets p specs d = Inr d' \<Longrightarrow> unique_keys d'"
  by (induction specs arbitrary: d) (auto simp: bind_result_Inr_iff intro: unique_keys_put)

lemma freeze_complete:
  assumes "freeze_retention_targets s i rv now = Inr (s', q)"
    and "dict_get (st_retention_operations s) i = Some p" "rt_targets_frozen_at p = None"
  shows "\<exists>c. dict_get (st_claims s) (rt_claim_id p) = Some c
     \<and> ta_target_id ` set (rt_targets q) =
         {ta_target_id t |t spec. spec \<in> set (cleanup_inventory s c (rt_claim_id p))
            \<and> build_target p spec = Inr t}
     \<and> (\<forall>spec\<in>set (cleanup_inventory s c (rt_claim_id p)). \<exists>t. build_target p spec = Inr t)
     \<and> (\<forall>t\<in>set (rt_targets q). \<exists>spec\<in>set (cleanup_inventory s c (rt_claim_id p)).
          build_target p spec = Inr t)"
proof -
  obtain c d where c: "dict_get (st_claims s) (rt_claim_id p) = Some c"
    and d: "collect_targets p (cleanup_inventory s c (rt_claim_id p)) [] = Inr d"
    and q: "q = frozen_operation p (sorted_targets d) now"
    using freeze_Inr [OF assms(1)] assms(2,3) by auto
  note facts = collect_targets_Inr [OF d]
  have uniq: "unique_keys d" by (rule collect_unique [OF _ d]) (simp add: unique_keys_def)
  have in_q: "t \<in> set (rt_targets q) \<longleftrightarrow> (\<exists>i. dict_get d i = Some t)" for t
    using sorted_targets_set [OF uniq] by (simp add: q frozen_operation_def)
  have "ta_target_id ` set (rt_targets q) =
      {ta_target_id t |t spec. spec \<in> set (cleanup_inventory s c (rt_claim_id p)) \<and> build_target p spec = Inr t}"
    (is "?l = ?r")
  proof
    show "?l \<subseteq> ?r" using facts in_q by fastforce
    show "?r \<subseteq> ?l"
    proof
      fix x assume "x \<in> ?r"
      then obtain t spec where x: "x = ta_target_id t" "build_target p spec = Inr t"
        "spec \<in> set (cleanup_inventory s c (rt_claim_id p))" by blast
      then obtain t' where "dict_get d x = Some t'" using facts by fastforce
      moreover from this have "ta_target_id t' = x" using facts by fastforce
      ultimately show "x \<in> ?l" using in_q by force
    qed
  qed
  then show ?thesis using c facts in_q by fastforce
qed

section \<open>A record disappears only behind a tombstone\<close>

text \<open>\<open>regular_record s x\<close> is the record that the type and identity of \<open>x\<close> name.\<close>

lemma named_record:
  "ta_record_type x = ta_record_type y \<Longrightarrow> ta_record_id x = ta_record_id y \<Longrightarrow>
     regular_record s x = regular_record s y"
  by (simp add: regular_record_def Let_def)

definition same_tables :: "store \<Rightarrow> store \<Rightarrow> bool" where
  "same_tables s s' \<longleftrightarrow> untouched s s' \<and> st_claims s' = st_claims s \<and> st_sessions s' = st_sessions s
     \<and> st_messages s' = st_messages s \<and> st_follow_ups s' = st_follow_ups s
     \<and> st_handoffs s' = st_handoffs s \<and> st_evidence s' = st_evidence s
     \<and> st_evidence_links s' = st_evidence_links s \<and> st_external_tasks s' = st_external_tasks s
     \<and> st_external_requests s' = st_external_requests s
     \<and> st_external_results s' = st_external_results s"

lemma find_work_item_cong:
  "st_work_items s' = st_work_items s \<Longrightarrow> st_runtime_turns s' = st_runtime_turns s \<Longrightarrow>
     find_work_item s' i = find_work_item s i"
  by (simp add: find_work_item_def cong: option.case_cong)

lemma find_work_item_update:
  "find_work_item (s\<lparr>st_session_ids := ids\<rparr>) i = find_work_item s i"
  "find_work_item (s\<lparr>st_message_ids := mids\<rparr>) i = find_work_item s i"
  "find_work_item (s\<lparr>st_claims := d0\<rparr>) i = find_work_item s i"
  "find_work_item (s\<lparr>st_sessions := d1\<rparr>) i = find_work_item s i"
  "find_work_item (s\<lparr>st_messages := d2\<rparr>) i = find_work_item s i"
  "find_work_item (s\<lparr>st_follow_ups := d3\<rparr>) i = find_work_item s i"
  "find_work_item (s\<lparr>st_handoffs := d4\<rparr>) i = find_work_item s i"
  "find_work_item (s\<lparr>st_evidence := d5\<rparr>) i = find_work_item s i"
  "find_work_item (s\<lparr>st_external_tasks := d6\<rparr>) i = find_work_item s i"
  "find_work_item (s\<lparr>st_external_requests := d7\<rparr>) i = find_work_item s i"
  "find_work_item (s\<lparr>st_external_results := d8\<rparr>) i = find_work_item s i"
  "find_work_item (s\<lparr>st_evidence_links := l\<rparr>) i = find_work_item s i"
  "find_work_item (s\<lparr>st_retention_operations := o'\<rparr>) i = find_work_item s i"
  by (rule find_work_item_cong; simp)+

lemma same_tables_record: "same_tables s s' \<Longrightarrow> regular_record s' x = regular_record s x"
  by (simp add: same_tables_def untouched_def regular_record_def Let_def find_work_item_cong [of s' s])

lemma dict_find_pop:
  assumes "unique_keys d" "dict_find P d = Some (k, v)" "\<And>w. Q w \<Longrightarrow> \<not> P w"
  shows "dict_find Q (dict_pop k d) = dict_find Q d"
proof -
  have v: "P v" "(k, v) \<in> set d" using assms(2) by (auto simp: dict_find_def find_Some_iff in_set_conv_nth) (metis snd_conv)
  have "fst x = k \<Longrightarrow> x \<in> set d \<Longrightarrow> snd x = v" for x
    using v(2) assms(1) unfolding unique_keys_def by (metis map_of_is_SomeI option.inject prod.collapse)
  then have "x \<in> set d \<Longrightarrow> Q (snd x) \<Longrightarrow> fst x \<noteq> k" for x using v(1) assms(3) by blast
  then show ?thesis
    unfolding dict_find_def dict_pop_def by (induction d) auto
qed

text \<open>Every table answers for one record type only.\<close>

lemma regular_record_update:
  "regular_record (s\<lparr>st_session_ids := ids\<rparr>) x = regular_record s x"
  "regular_record (s\<lparr>st_message_ids := mids\<rparr>) x = regular_record s x"
  "regular_record (s\<lparr>st_claims := d0\<rparr>) x = (if ta_record_type x = ''WorkingClaim''
     then map_option Src_claim (dict_get d0 (ta_record_id x)) else regular_record s x)"
  "regular_record (s\<lparr>st_sessions := d1\<rparr>) x = (if ta_record_type x = ''SessionRecord''
     then map_option Src_session (dict_get d1 (ta_record_id x)) else regular_record s x)"
  "regular_record (s\<lparr>st_messages := d2\<rparr>) x = (if ta_record_type x = ''MessageRecord''
     then map_option Src_message (dict_get d2 (ta_record_id x)) else regular_record s x)"
  "regular_record (s\<lparr>st_follow_ups := d3\<rparr>) x = (if ta_record_type x = ''FollowUpRecord''
     then map_option Src_follow_up (dict_get d3 (ta_record_id x)) else regular_record s x)"
  "regular_record (s\<lparr>st_handoffs := d4\<rparr>) x = (if ta_record_type x = ''HandoffRecord''
     then map_option Src_handoff (dict_get d4 (ta_record_id x)) else regular_record s x)"
  "regular_record (s\<lparr>st_evidence := d5\<rparr>) x = (if ta_record_type x = ''EvidenceRecord''
     then map_option Src_evidence (dict_get d5 (ta_record_id x)) else regular_record s x)"
  "regular_record (s\<lparr>st_external_tasks := d6\<rparr>) x = (if ta_record_type x = ''ExternalTaskRecord''
     then map_option Src_external_task (dict_get d6 (ta_record_id x)) else regular_record s x)"
  "regular_record (s\<lparr>st_external_requests := d7\<rparr>) x = (if ta_record_type x = ''ExternalTaskRequest''
     then map_option Src_external_request (dict_get d7 (ta_record_id x)) else regular_record s x)"
  "regular_record (s\<lparr>st_external_results := d8\<rparr>) x = (if ta_record_type x = ''ExternalTaskResult''
     then map_option Src_external_result (dict_get d8 (ta_record_id x)) else regular_record s x)"
  by (simp_all add: regular_record_def Let_def find_work_item_update)

lemma regular_record_lookup:
  "ta_record_type x = ''WorkingClaim'' \<Longrightarrow>
     regular_record s x = map_option Src_claim (dict_get (st_claims s) (ta_record_id x))"
  "ta_record_type x = ''SessionRecord'' \<Longrightarrow>
     regular_record s x = map_option Src_session (dict_get (st_sessions s) (ta_record_id x))"
  "ta_record_type x = ''MessageRecord'' \<Longrightarrow>
     regular_record s x = map_option Src_message (dict_get (st_messages s) (ta_record_id x))"
  "ta_record_type x = ''FollowUpRecord'' \<Longrightarrow>
     regular_record s x = map_option Src_follow_up (dict_get (st_follow_ups s) (ta_record_id x))"
  "ta_record_type x = ''HandoffRecord'' \<Longrightarrow>
     regular_record s x = map_option Src_handoff (dict_get (st_handoffs s) (ta_record_id x))"
  "ta_record_type x = ''EvidenceRecord'' \<Longrightarrow>
     regular_record s x = map_option Src_evidence (dict_get (st_evidence s) (ta_record_id x))"
  "ta_record_type x = ''ExternalTaskRecord'' \<Longrightarrow>
     regular_record s x = map_option Src_external_task (dict_get (st_external_tasks s) (ta_record_id x))"
  "ta_record_type x = ''ExternalTaskRequest'' \<Longrightarrow>
     regular_record s x = map_option Src_external_request (dict_get (st_external_requests s) (ta_record_id x))"
  "ta_record_type x = ''ExternalTaskResult'' \<Longrightarrow>
     regular_record s x = map_option Src_external_result (dict_get (st_external_results s) (ta_record_id x))"
  by (simp_all add: regular_record_def)

lemma erase_source_keeps:
  assumes "unique_keys (st_evidence_links s)"
    and "ta_record_type x \<noteq> ta_record_type t \<or> ta_record_id x \<noteq> ta_record_id t"
  shows "regular_record (erase_source p t s) x = regular_record s x"
proof (cases "ta_record_type t = ''EvidenceClaimLink''")
  case True
  then have erase: "erase_source p t s = erase_evidence_link (ta_record_id t) s"
    by (simp add: erase_source_def)
  show ?thesis
  proof (cases "dict_find (\<lambda>l. el_link_id l = ta_record_id t) (st_evidence_links s)")
    case None
    then show ?thesis by (simp add: erase erase_evidence_link_def)
  next
    case (Some kv)
    then have "ta_record_type x = ''EvidenceClaimLink'' \<Longrightarrow>
        dict_find (\<lambda>l. el_link_id l = ta_record_id x) (dict_pop (fst kv) (st_evidence_links s))
          = dict_find (\<lambda>l. el_link_id l = ta_record_id x) (st_evidence_links s)"
      using dict_find_pop [OF assms(1), of _ "fst kv" "snd kv"] assms(2) True by auto
    then show ?thesis
      by (simp add: erase erase_evidence_link_def Some regular_record_def Let_def case_prod_beta
          find_work_item_update)
  qed
next
  case False
  then show ?thesis
    using assms(2)
    by (auto simp: erase_source_def erase_session_def regular_record_update
        regular_record_lookup Let_def split: option.split)
qed

lemma erase_message_keeps:
  "ta_record_type x \<noteq> ''MessageRecord'' \<or> ta_record_id x \<noteq> i \<Longrightarrow>
     regular_record (erase_message i s) x = regular_record s x"
  by (auto simp: erase_message_def regular_record_update regular_record_lookup split: option.split)

lemma new_tombstone_Inr:
  "new_tombstone p t r now = Inr b \<Longrightarrow> rb_source_record_type b = ta_record_type t
     \<and> rb_source_record_id b = ta_record_id t \<and> rb_target_id b = ta_target_id t
     \<and> rb_operation_id b = rt_operation_id p \<and> rb_claim_id b = rt_claim_id p
     \<and> rb_authority b = retention_tombstone_authority (ta_record_type t) (record_payload r)"
  unfolding new_tombstone_def validate_tombstone_def guarded_Inr_iff bind_result_Inr_iff map_error_Inr_iff
  by auto

lemma store_retention_record: "regular_record (store_retention q s) x = regular_record s x"
  by (simp add: store_retention_def regular_record_def Let_def find_work_item_update)

lemma effect_destroys:
  assumes "cleanup_decision s p t now = Inr effect" "unique_keys (st_evidence_links s)"
    and "regular_record (apply_effect p t effect s) x \<noteq> regular_record s x"
  shows "ta_record_type x = ta_record_type t \<and> ta_record_id x = ta_record_id t
    \<and> (ta_classification t = Class_delete
       \<or> (\<exists>b r. regular_record s t = Some r \<and> new_tombstone p t r now = Inr b
            \<and> dict_get (st_retention_tombstones (apply_effect p t effect s)) (ta_target_id t) = Some b))"
proof (cases effect)
  case (Sanitise k r)
  then have "same_tables s (apply_effect p t effect s)"
    by (simp add: apply_effect_def same_tables_def untouched_def)
  then show ?thesis using assms(3) same_tables_record by metis
next
  case Erase
  then have "ta_record_type x = ta_record_type t \<and> ta_record_id x = ta_record_id t"
    using assms(3) erase_message_keeps [of x "ta_record_id t" s]
    by (auto simp: apply_effect_def split: if_splits)
  then show ?thesis using assms(1) Erase decision_Erase by blast
next
  case (Replace_by b)
  let ?s = "s\<lparr>st_retention_tombstones := dict_put (ta_target_id t) b (st_retention_tombstones s)\<rparr>"
  have "regular_record ?s x = regular_record s x"
    by (rule same_tables_record) (simp add: same_tables_def untouched_def)
  then have "ta_record_type x = ta_record_type t \<and> ta_record_id x = ta_record_id t"
    using assms(3) erase_source_keeps [of ?s x t p] assms(2) Replace_by by (auto simp: apply_effect_def)
  moreover have "dict_get (st_retention_tombstones (apply_effect p t effect s)) (ta_target_id t) = Some b"
    by (simp add: Replace_by apply_effect_def erase_source_frame(2))
  ultimately show ?thesis using decision_Replace [of s p t now b] assms(1) Replace_by by blast
qed (use assms(3) in \<open>simp_all add: apply_effect_def\<close>)

lemma apply_destroys:
  assumes "apply_retention_record_target s i tid rv now = Inr (s', q)"
    and "dict_get (st_retention_operations s) i = Some p" "unique_keys (st_evidence_links s)"
    and "regular_record s' x \<noteq> regular_record s x"
  shows "\<exists>t\<in>set (rt_targets p). ta_target_id t = tid \<and> ta_record_type t = ta_record_type x
    \<and> ta_record_id t = ta_record_id x
    \<and> (ta_classification t = Class_delete
       \<or> (\<exists>b. dict_get (st_retention_tombstones s') tid = Some b \<and> rb_operation_id b = rt_operation_id p
            \<and> rb_source_record_type b = ta_record_type x \<and> rb_source_record_id b = ta_record_id x))"
proof -
  obtain t effect where e: "find_target p tid = Some t" "cleanup_decision s p t now = Inr effect"
    "s' = store_retention q (apply_effect p t effect s)"
    using apply_record_Inr [OF assms(1)] assms(2,4) by auto
  have t: "t \<in> set (rt_targets p)" "ta_target_id t = tid"
    using e(1) by (auto simp: find_target_def find_Some_iff)
  have "regular_record (apply_effect p t effect s) x \<noteq> regular_record s x"
    using assms(4) by (simp add: e(3) store_retention_record)
  from effect_destroys [OF e(2) assms(3) this] show ?thesis
    using t new_tombstone_Inr by (auto simp: e(3) intro!: bexI [OF _ t(1)])
qed

section \<open>Discovery sweeps\<close>

inductive swept ::
  "store \<Rightarrow> int \<Rightarrow> discovery_cursor option \<Rightarrow> retention_operation list list \<Rightarrow> bool" for s limit where
  last_page: "list_pending_retention_operations s limit cursor = Inr (page, None)
     \<Longrightarrow> swept s limit cursor [page]"
| more_pages: "list_pending_retention_operations s limit cursor = Inr (page, Some c)
     \<Longrightarrow> swept s limit (Some c) pages \<Longrightarrow> swept s limit cursor (page # pages)"

lemma pending_keys:
  assumes "retention_store_ok s"
  defines "items \<equiv> filter pending_operation (dict_values (st_retention_operations s))"
  shows "distinct items" "inj_on pending_key (set items)"
    "x \<in> set items \<Longrightarrow> rt_operation_id x \<noteq> [] \<and> \<not> is_Naive (rt_updated_at x)"
proof -
  have u: "unique_keys (st_retention_operations s)" using assms(1) by (simp add: retention_store_ok_def)
  have own: "fst y = rt_operation_id (snd y)" if "y \<in> set (st_retention_operations s)" for y
    using that u store_ok_get(1) [OF assms(1), of "fst y" "snd y"]
    by (simp add: unique_keys_def map_of_is_SomeI)
  have "map fst (st_retention_operations s) = map rt_operation_id (dict_values (st_retention_operations s))"
    using own by simp
  then have d: "distinct (map rt_operation_id (dict_values (st_retention_operations s)))"
    using u by (metis unique_keys_def)
  then show "distinct items" unfolding items_def by (metis distinct_filter distinct_map)
  show "inj_on pending_key (set items)"
    using d unfolding items_def pending_key_def distinct_map
    by (auto simp: inj_on_def)
  show "rt_operation_id x \<noteq> [] \<and> \<not> is_Naive (rt_updated_at x)" if "x \<in> set items"
  proof -
    have "x \<in> set (dict_values (st_retention_operations s))" using that by (auto simp: items_def)
    then obtain k where "dict_get (st_retention_operations s) k = Some x"
      using unique_keys_values [OF u, of x] by blast
    then have "retention_valid x" using store_ok_get(2) [OF assms(1)] by blast
    then show ?thesis
      by (auto simp: retention_valid_iff retention_structure_def validity bounded_text_def
          retention_time_guards_def)
  qed
qed

lemma pending_sweep:
  assumes "retention_store_ok s" "1 \<le> limit" "limit \<le> 100"
    and "\<forall>t i. position = Some (t, i) \<longrightarrow> i \<noteq> []"
  defines "items \<equiv> filter pending_operation (dict_values (st_retention_operations s))"
  shows "swept s limit (encode_retention_cursor ''pending'' position)
    (sweep pending_key (nat limit) items position)"
  using assms(4)
proof (induction "length (filter (after_cursor pending_key position) items)" arbitrary: position
    rule: less_induct)
  case less
  have decode: "decode_retention_cursor ''pending'' (encode_retention_cursor ''pending'' position) = Inr position"
    using less.prems by (cases position) (auto simp: decode_retention_cursor_def encode_retention_cursor_def)
  obtain page nxt where page: "discovery_page pending_key (nat limit) items position = (page, nxt)"
    by fastforce
  have call: "list_pending_retention_operations s limit (encode_retention_cursor ''pending'' position)
      = Inr (page, encode_retention_cursor ''pending'' nxt)"
    using assms(2,3) page by (simp add: list_pending_retention_operations_def decode items_def)
  show ?case
  proof (cases nxt)
    case None
    then show ?thesis
      using swept.last_page [of s limit _ page] call assms(2) page
      by (simp add: sweep.simps [of _ _ _ position] encode_retention_cursor_def)
  next
    case (Some k)
    note p = page [unfolded Some]
    have "last page \<in> set items" "k = pending_key (last page)"
      using page_progress [OF p] assms(2) last_in_set by force+
    then have nonempty: "\<forall>t i. Some k = Some (t, i) \<longrightarrow> i \<noteq> []"
      using pending_keys(3) [OF assms(1)] by (auto simp: items_def pending_key_def)
    have "swept s limit (encode_retention_cursor ''pending'' (Some k))
        (sweep pending_key (nat limit) items (Some k))"
      using less.hyps [OF _ nonempty] after_cursor_shrinks [OF p] assms(2) by simp
    then show ?thesis
      using swept.more_pages [OF call [unfolded Some encode_retention_cursor_def option.map]] p assms(2)
      by (simp add: sweep.simps [of _ _ _ position] encode_retention_cursor_def)
  qed
qed

lemma pending_sweep_complete:
  assumes "retention_store_ok s" "1 \<le> limit" "limit \<le> 100"
  shows "\<exists>pages. swept s limit None pages
    \<and> concat pages = sort_key pending_key (filter pending_operation (dict_values (st_retention_operations s)))
    \<and> (\<forall>page\<in>set pages. int (length page) \<le> limit)"
proof -
  let ?items = "filter pending_operation (dict_values (st_retention_operations s))"
  have "swept s limit None (sweep pending_key (nat limit) ?items None)"
    using pending_sweep [OF assms, of None] by (simp add: encode_retention_cursor_def)
  moreover have "concat (sweep pending_key (nat limit) ?items None) = sort_key pending_key ?items
      \<and> (\<forall>page\<in>set (sweep pending_key (nat limit) ?items None). length page \<le> nat limit)"
    using sweep_complete [OF pending_keys(2,1) [OF assms(1)], of "nat limit" None] assms(2)
    by (simp add: after_cursor_def)
  ultimately show ?thesis using assms(2) by (intro exI conjI) auto
qed

end
