(* ===== verification/Follow_Up_Safety.thy ===== *)
theory Follow_Up_Safety
  imports Follow_Up_Repository Store_Facts
begin

text \<open>
  The recovery commits of the repository as a machine: a commit succeeds only with the
  transition its reducer computes on the stored records, every sequence of commits keeps the
  attempt accounting of every Follow-up, at most one open recovery obligation per Claim, and
  none while the Claim has an active session; resolved obligations are final.
\<close>

section \<open>The shape of every result\<close>

lemma rejected_as_Inr_iff [simp]: "rejected_as i r = Inr x \<longleftrightarrow> r = Inr x"
  by (cases r) (auto simp: rejected_as_def)

lemma load_obligation_Inr_iff:
  "load_obligation s e u = Inr (c, f, x) \<longleftrightarrow> dict_get (st_claims s) (fu_claim_id e) = Some c
     \<and> wc_customer_id c = u \<and> dict_get (st_follow_ups s) (fu_follow_up_id e) = Some f
     \<and> dict_get (st_sessions s) (fu_source_session_id e) = Some x"
  by (auto simp: load_obligation_def split: option.splits)

definition operation_step :: "store \<Rightarrow> operation option \<Rightarrow> bool" where
  "operation_step s changed \<longleftrightarrow> opt_all (\<lambda>q. \<exists>p. dict_get (st_follow_up_operations s) (op_operation_id q) = Some p
     \<and> assert_follow_up_operation_transition p q = Inr ()) changed"

lemma check_operation_step_Inr_iff: "check_operation_step s changed = Inr u \<longleftrightarrow> operation_step s changed"
  by (auto simp: check_operation_step_def operation_step_def split: option.splits sum.splits)

definition audited :: "store \<Rightarrow> store \<Rightarrow> bool" where
  "audited s s' \<longleftrightarrow> grows_in (=) (st_audit_events s) (st_audit_events s')"

text \<open>The tables that the audit and realtime writes leave alone.\<close>

definition same_records :: "store \<Rightarrow> store \<Rightarrow> bool" where
  "same_records s s' \<longleftrightarrow> st_claims s' = st_claims s \<and> st_sessions s' = st_sessions s
     \<and> st_messages s' = st_messages s \<and> st_message_ids s' = st_message_ids s
     \<and> st_follow_ups s' = st_follow_ups s \<and> st_follow_up_operations s' = st_follow_up_operations s
     \<and> st_idempotency s' = st_idempotency s"

lemma published_records: "same_records s (commit_realtime e (store_audit_events prepared s))"
  by (simp add: same_records_def commit_realtime_def store_audit_events_def)

lemmas committed_unfold = bind_result_Inr_iff split_paired_Ex prod.case guarded_Inr_iff
  rejected_as_Inr_iff check_operation_step_Inr_iff

lemma if_Inl_iff: "(if b then Inl e else r) = Inr x \<longleftrightarrow> \<not> b \<and> r = Inr x"
  by simp

lemma commit_expiry_Inr:
  assumes "commit_recovery_expiry s rv expected uc uf r customer event = Inr s'"
  shows "\<exists>c x now t prepared realtime. dict_get (st_claims s) (fu_claim_id expected) = Some c
    \<and> wc_customer_id c = customer \<and> wc_revision c = rv
    \<and> dict_get (st_follow_ups s) (fu_follow_up_id expected) = Some expected
    \<and> dict_get (st_sessions s) (fu_source_session_id expected) = Some x
    \<and> reduce_expired_follow_up c x expected
        (operations_of s (wc_claim_id c) (fu_follow_up_id expected)) now
        = Inr t
    \<and> tt_claim t = uc \<and> tt_follow_up t = uf \<and> tt_reconciled t = r
    \<and> operation_step s r \<and> prepare_audit_events s uc [event] [] = Inr prepared
    \<and> s' = commit_realtime realtime (store_audit_events prepared
        (put_claim uc (put_follow_up uf (put_operation r s))))"
proof (cases "wc_terminal_disposition uc")
  case None
  then show ?thesis
    using assms unfolding commit_recovery_expiry_def bind_result_Inr_iff split_paired_Ex prod.case guarded_Inr_iff by simp
next
  case (Some terminal)
  show ?thesis
    using assms unfolding commit_recovery_expiry_def Some option.case committed_unfold load_obligation_Inr_iff by auto blast
qed

lemma commit_staff_Inr:
  assumes "commit_recovery_staff_abandonment s rv expected uc uf r customer record event = Inr s'"
  shows "\<exists>c x now actor t prepared realtime. dict_get (st_claims s) (fu_claim_id expected) = Some c
    \<and> wc_customer_id c = customer \<and> wc_revision c = rv
    \<and> dict_get (st_follow_ups s) (fu_follow_up_id expected) = Some expected
    \<and> dict_get (st_sessions s) (fu_source_session_id expected) = Some x
    \<and> dict_get (st_idempotency s) (idempotency_lookup record) = None
    \<and> reduce_follow_up_staff_abandonment c x expected
        (operations_of s (wc_claim_id c) (fu_follow_up_id expected)) now actor
        = Inr t
    \<and> tt_claim t = uc \<and> tt_follow_up t = uf \<and> tt_reconciled t = r
    \<and> operation_step s r \<and> prepare_audit_events s uc [event] [] = Inr prepared
    \<and> s' = commit_realtime realtime (store_audit_events prepared (put_idempotency record
        (put_claim uc (put_follow_up uf (put_operation r s)))))"
proof (cases "wc_terminal_disposition uc")
  case None
  then show ?thesis
    using assms unfolding commit_recovery_staff_abandonment_def bind_result_Inr_iff split_paired_Ex prod.case guarded_Inr_iff by simp
next
  case (Some terminal)
  show ?thesis
    using assms unfolding commit_recovery_staff_abandonment_def Some option.case committed_unfold load_obligation_Inr_iff by auto blast
qed

lemma commit_withdrawal_Inr:
  assumes "commit_follow_up_contact_withdrawal s rv expected uf r customer event = Inr s'"
  shows "\<exists>c x now t prepared realtime. dict_get (st_claims s) (fu_claim_id expected) = Some c
    \<and> wc_customer_id c = customer \<and> wc_revision c = rv
    \<and> dict_get (st_follow_ups s) (fu_follow_up_id expected) = Some expected
    \<and> dict_get (st_sessions s) (fu_source_session_id expected) = Some x
    \<and> reduce_follow_up_contact_withdrawal c x expected
        (operations_of s (wc_claim_id c) (fu_follow_up_id expected)) now
        = Inr t
    \<and> wt_follow_up t = uf \<and> wt_reconciled t = r \<and> operation_step s r \<and> prepare_audit_events s c [event] [] = Inr prepared
    \<and> s' = commit_realtime realtime (store_audit_events prepared
        (put_follow_up uf (put_operation r s)))"
  using assms unfolding commit_follow_up_contact_withdrawal_def committed_unfold load_obligation_Inr_iff
  by auto blast

lemma store_message_Inr_iff:
  "store_message s m = Inr s' \<longleftrightarrow> preflight_message s m = Inr () \<and>
     (let messages = dict_put (ms_message_id m) m (st_messages s);
          ids = append_new (ms_message_id m) (dict_list (st_message_ids s) (ms_session_id m))
      in list_all (\<lambda>i. dict_get messages i \<noteq> None) ids
        \<and> s' = s\<lparr>st_messages := messages,
             st_message_ids := dict_put (ms_session_id m)
               (message_ids (order_messages (List.map_filter (dict_get messages) ids)))
               (st_message_ids s)\<rparr>)"
  by (auto simp: store_message_def bind_result_Inr_iff Let_def)

lemma commit_due_Inr:
  assumes "commit_due_follow_up_attempt s expected uf p q m customer event = Inr s'"
  shows "\<exists>c x f. dict_get (st_claims s) (fu_claim_id expected) = Some c
    \<and> wc_customer_id c = customer
    \<and> dict_get (st_follow_ups s) (fu_follow_up_id expected) = Some f
    \<and> dict_get (st_sessions s) (fu_source_session_id expected) = Some x
    \<and> (dict_get (st_follow_up_operations s) (op_operation_id p) = Some p
         \<and> dict_get (st_messages s) (ms_message_id m) = Some m \<and> s' = s
      \<or> f = expected \<and> dict_get (st_follow_up_operations s) (op_operation_id p) = None
         \<and> (\<exists>now t s1 prepared. op_committed_at p = Some now
         \<and> reduce_due_follow_up c x expected
             (operations_of s (fu_claim_id expected) (fu_follow_up_id expected)) now
             = Inr t
         \<and> dt_follow_up t = uf \<and> dt_operation t = p \<and> dt_settled_previous t = q
         \<and> operation_step s q \<and> \<not> sequence_taken s p \<and> attempt_message_ok c x p m
         \<and> prepare_audit_events s c [event] [] = Inr prepared
         \<and> store_message (put_operation (Some p) (put_operation q s)) m = Inr s1
         \<and> s' = store_audit_events prepared (put_follow_up uf s1)))"
proof -
  obtain c f x where l: "load_obligation s expected customer = Inr (c, f, x)"
    using assms by (auto simp: commit_due_follow_up_attempt_def bind_result_Inr_iff)
  show ?thesis
  proof (cases "dict_get (st_follow_up_operations s) (op_operation_id p)")
    case (Some existing)
    then show ?thesis
      using assms l
      by (auto simp: commit_due_follow_up_attempt_def replay_attempt_def load_obligation_Inr_iff
          split: if_splits)
  next
    case None
    then obtain now where "op_committed_at p = Some now" "f = expected"
      using assms l by (auto simp: commit_due_follow_up_attempt_def split: option.splits if_splits)
    then show ?thesis
      using assms l None
      unfolding commit_due_follow_up_attempt_def None option.case \<open>op_committed_at p = Some now\<close>
        committed_unfold load_obligation_Inr_iff if_Inl_iff
      by auto
  qed
qed

lemma validate_claim_mutation_Inr:
  "validate_claim_mutation s c rv change None = Inr stored \<Longrightarrow>
     dict_get (st_claims s) (wc_claim_id c) = Some stored \<and> wc_revision stored = rv
     \<and> wc_customer_id stored = wc_customer_id c \<and> wc_revision c = rv + 1
     \<and> \<not> claim_access_closed s (wc_claim_id c)"
  unfolding validate_claim_mutation_def by (auto split: if_splits option.splits)

lemma save_checkpoint_Inr:
  assumes "save_incomplete_checkpoint s c rv x f record = Inr s'"
  shows "\<exists>stored realtime. validate_claim_mutation s c rv True None = Inr stored
    \<and> checkpoint_ok stored (dict_get (st_sessions s) (se_session_id x)) c rv x f record
    \<and> dict_get (st_idempotency s) (idempotency_lookup record) = None
    \<and> dict_get (st_follow_ups s) (fu_follow_up_id f) = None
    \<and> \<not> open_follow_up_exists s (wc_claim_id c) (fu_purpose f)
    \<and> s' = commit_realtime realtime (put_idempotency record (put_follow_up f
        (store_session (put_claim c s) x)))"
  using assms unfolding save_incomplete_checkpoint_def bind_result_Inr_iff guarded_Inr_iff by auto

lemma save_session_Inr:
  assumes "save_session_mutation s c rv x record branch resolved reconciled replaced event = Inr s'"
  shows "\<exists>stored prepared realtime. validate_claim_mutation s c rv True None = Inr stored
    \<and> wc_active_session_id c = Some (se_session_id x)
    \<and> passes (resolution_guards s c resolved reconciled)
    \<and> prepare_resume_audit s c resolved event = Inr prepared
    \<and> dict_get (st_idempotency s) (idempotency_lookup record) = None
    \<and> s' = commit_realtime realtime (store_audit_events prepared (put_idempotency record
        (put_optional put_branch_evaluation branch (put_operation reconciled
          (put_optional put_follow_up resolved (store_session
            (put_optional (\<lambda>r t. store_session t r) replaced (put_claim c s)) x))))))"
  using assms unfolding save_session_mutation_def bind_result_Inr_iff guarded_append guarded_Inr_iff
  by auto


section \<open>The operations of one Follow-up\<close>

abbreviation stored_operations :: "store \<Rightarrow> bool" where
  "stored_operations s \<equiv> keyed op_operation_id (st_follow_up_operations s)"

lemma operations_of_cong:
  "st_follow_up_operations s' = st_follow_up_operations s \<Longrightarrow> operations_of s' c f = operations_of s c f"
  by (simp add: operations_of_def)

lemma operations_of_set:
  assumes "stored_operations s"
  shows "p \<in> set (operations_of s c f) \<longleftrightarrow>
     dict_get (st_follow_up_operations s) (op_operation_id p) = Some p
     \<and> op_claim_id p = c \<and> op_follow_up_id p = f"
  using keyed_value_iff [OF assms, of p] unfolding operations_of_def set_sort set_filter by auto

lemma distinct_sorted_filter:
  "distinct (map k xs) \<Longrightarrow> distinct (map k (sort_key g (filter P xs)))"
  by (simp add: distinct_map inj_on_def)

lemma operations_of_distinct:
  "stored_operations s \<Longrightarrow> distinct (map op_operation_id (operations_of s c f))"
  unfolding operations_of_def by (rule distinct_sorted_filter [OF keyed_distinct])

lemma stored_operations_put: "stored_operations s \<Longrightarrow> stored_operations (put_operation r s)"
  by (simp add: put_operation_def keyed_put split: option.split)

lemma operations_of_put:
  assumes "stored_operations s"
  shows "set (operations_of (put_operation (Some q) s) c f) =
     (if op_claim_id q = c \<and> op_follow_up_id q = f then {q} else {})
     \<union> {p \<in> set (operations_of s c f). op_operation_id p \<noteq> op_operation_id q}"
proof (rule set_eqI)
  show "p \<in> set (operations_of (put_operation (Some q) s) c f) \<longleftrightarrow>
      p \<in> (if op_claim_id q = c \<and> op_follow_up_id q = f then {q} else {})
        \<union> {p \<in> set (operations_of s c f). op_operation_id p \<noteq> op_operation_id q}" for p
    unfolding Un_iff mem_Collect_eq operations_of_set [OF assms]
      operations_of_set [OF stored_operations_put [OF assms]]
    by (auto simp: put_operation_def)
qed

lemma distinct_sequences_iff:
  "distinct (map op_operation_id ops) \<Longrightarrow>
     distinct (map op_sequence ops) \<longleftrightarrow> inj_on op_sequence (set ops)"
  by (simp add: distinct_map)

lemma transition_keeps:
  assumes "assert_follow_up_operation_transition p q = Inr u"
  shows "op_operation_id q = op_operation_id p" "op_sequence q = op_sequence p"
    "op_claim_id q = op_claim_id p" "op_follow_up_id q = op_follow_up_id p" "belongs c f q = belongs c f p"
    "op_status p = Op_committed \<Longrightarrow> op_status q = Op_settled"
    "op_status p \<noteq> Op_reserved \<Longrightarrow> op_status p = Op_committed"
    "op_committed_at p \<noteq> None \<Longrightarrow> op_committed_at q = op_committed_at p"
  using assms
  by (cases "op_status p"; auto simp: assert_transition_iff same_execution_identity_def belongs_def
      allowed_operation_steps_def)+

text \<open>Replacing one outstanding operation by its successor keeps the accounting.\<close>

lemma attempt_history_replace:
  assumes h: "attempt_history c f ops" and ids: "distinct (map op_operation_id ops)"
      "distinct (map op_operation_id ops')"
    and p: "p \<in> set ops" "assert_follow_up_operation_transition p q = Inr ()"
    and ops': "set ops' = insert q {r \<in> set ops. op_operation_id r \<noteq> op_operation_id q}"
  shows "attempt_history c f ops'"
proof -
  note keeps = transition_keeps [OF p(2)]
  have all: "\<forall>r\<in>set ops. belongs c f r \<and> op_status r \<noteq> Op_reserved \<and> 1 \<le> op_sequence r"
    and inj: "inj_on op_sequence (set ops)" and out: "outstanding_ok ops"
    using h distinct_sequences_iff [OF ids(1)] by (auto simp: attempt_history_def list_all_iff)
  have status: "op_status p = Op_committed" using all p(1) keeps(7) by blast
  have committed: "op_committed_at p \<noteq> None"
    using out status p(1) by (auto simp: outstanding_ok_def list_all_iff)
  have others: "{r \<in> set ops. op_operation_id r \<noteq> op_operation_id q} = set ops - {p}"
    using ids(1) p(1) keeps(1) by (auto simp: distinct_map inj_on_def)
  have seqs: "op_sequence ` set ops' = op_sequence ` set ops"
    using p(1) keeps(2) by (auto simp: ops' others)
  moreover have "ops \<noteq> []" "ops' \<noteq> []" using p(1) ops' by auto
  ultimately have max: "max_sequence ops' = max_sequence ops" by (simp add: max_sequence_def)
  have notin: "q \<notin> set ops - {p}" using keeps(1) others by auto
  let ?X = "{r \<in> set ops. op_committed_at r \<noteq> None}"
  have "{r \<in> set ops'. op_committed_at r \<noteq> None} = insert q (?X - {p})"
    using keeps(8) committed by (auto simp: ops' others)
  moreover have "card (insert q (?X - {p})) = card ?X"
    using notin p(1) committed card_Suc_Diff1 [of ?X p] by (subst card_insert_disjoint) auto
  ultimately have "card {r \<in> set ops'. op_committed_at r \<noteq> None} = card ?X" by simp
  moreover have distinct: "distinct (map op_sequence ops')"
    unfolding distinct_sequences_iff [OF ids(2)] ops' others
    using inj p(1) keeps(2) by (auto simp: inj_on_def)
  ultimately have "countable_attempts ops' = countable_attempts ops"
    using h by (simp add: countable_card attempt_history_def)
  moreover have "outstanding_ok ops'"
    using out status keeps(6) max by (auto simp: outstanding_ok_def list_all_iff ops' others)
  moreover have "belongs c f q" "op_status q \<noteq> Op_reserved" "1 \<le> op_sequence q"
    using all p(1) keeps(2,5) keeps(6) [OF status] by auto
  ultimately show ?thesis
    using h distinct all by (auto simp: attempt_history_def list_all_iff ops' others)
qed

section \<open>Consistency of the recovery tables\<close>

definition sound_history :: "store \<Rightarrow> follow_up \<Rightarrow> bool" where
  "sound_history s f \<longleftrightarrow> fu_attempt_count f \<le> 3 \<and> (\<forall>c. wc_claim_id c = fu_claim_id f \<longrightarrow>
     attempt_history c f (operations_of s (fu_claim_id f) (fu_follow_up_id f)))"

definition histories_ok :: "store \<Rightarrow> bool" where
  "histories_ok s \<longleftrightarrow> keyed fu_follow_up_id (st_follow_ups s) \<and> stored_operations s
     \<and> (\<forall>i f. dict_get (st_follow_ups s) i = Some f \<longrightarrow>
          bounded_text 1 120 i \<and> length (fu_source_refs f) \<le> 20 \<and> sound_history s f)
     \<and> (\<forall>i p. dict_get (st_follow_up_operations s) i = Some p \<longrightarrow>
          (\<exists>f. dict_get (st_follow_ups s) (op_follow_up_id p) = Some f \<and> fu_claim_id f = op_claim_id p))"

definition claims_ok :: "store \<Rightarrow> bool" where
  "claims_ok s \<longleftrightarrow> keyed wc_claim_id (st_claims s) \<and> (\<forall>i c. dict_get (st_claims s) i = Some c \<longrightarrow>
     bounded_text 1 120 i \<and> 1 \<le> wc_revision c)"

definition open_obligation_of :: "store \<Rightarrow> string \<Rightarrow> follow_up \<Rightarrow> bool" where
  "open_obligation_of s claim_id f \<longleftrightarrow> dict_get (st_follow_ups s) (fu_follow_up_id f) = Some f
     \<and> fu_claim_id f = claim_id \<and> fu_purpose f = ''resume_incomplete_claim''
     \<and> fu_status f \<noteq> FU_resolved"

definition exclusive_ok :: "store \<Rightarrow> bool" where
  "exclusive_ok s \<longleftrightarrow> (\<forall>c f. open_obligation_of s c f \<longrightarrow> (\<forall>g. open_obligation_of s c g \<longrightarrow> g = f)
     \<and> opt_all (\<lambda>w. wc_active_session_id w = None) (dict_get (st_claims s) c))"

definition indexed :: "(string \<times> message) list \<Rightarrow> string list \<Rightarrow> bool" where
  "indexed messages ids \<longleftrightarrow> distinct ids \<and> list_all (\<lambda>i. dict_get messages i \<noteq> None) ids"

definition index_ok :: "store \<Rightarrow> bool" where
  "index_ok s \<longleftrightarrow> keyed ms_message_id (st_messages s)
     \<and> (\<forall>k ids. dict_get (st_message_ids s) k = Some ids \<longrightarrow> indexed (st_messages s) ids)"

definition recovery_store_ok :: "store \<Rightarrow> bool" where
  "recovery_store_ok s \<longleftrightarrow> histories_ok s \<and> claims_ok s \<and> exclusive_ok s \<and> index_ok s"

text \<open>What every accepted change of a Follow-up keeps.\<close>

definition same_obligation :: "follow_up \<Rightarrow> follow_up \<Rightarrow> bool" where
  "same_obligation f g \<longleftrightarrow> fu_follow_up_id g = fu_follow_up_id f \<and> fu_claim_id g = fu_claim_id f
     \<and> fu_purpose g = fu_purpose f \<and> fu_policy_id g = fu_policy_id f
     \<and> fu_policy_version g = fu_policy_version f \<and> fu_source_refs g = fu_source_refs f
     \<and> fu_source_session_id g = fu_source_session_id f \<and> fu_created_at g = fu_created_at f
     \<and> fu_deadline_at g = fu_deadline_at f"

lemma attempt_history_same:
  "same_obligation f g \<Longrightarrow> fu_attempt_count g = fu_attempt_count f \<Longrightarrow>
     attempt_history c g ops \<longleftrightarrow> attempt_history c f ops"
  by (simp add: attempt_history_def list_all_iff belongs_def same_obligation_def)

lemma histories_get:
  assumes "histories_ok s" "dict_get (st_follow_ups s) i = Some f"
  shows "fu_follow_up_id f = i" "sound_history s f" "bounded_text 1 120 i" "length (fu_source_refs f) \<le> 20"
  using assms by (auto simp: histories_ok_def keyed_def)

lemma histories_operation:
  "histories_ok s \<Longrightarrow> dict_get (st_follow_up_operations s) i = Some p \<Longrightarrow>
     \<exists>f. dict_get (st_follow_ups s) (op_follow_up_id p) = Some f \<and> fu_claim_id f = op_claim_id p"
  by (simp add: histories_ok_def)

lemma histories_cong:
  assumes "st_follow_ups s' = st_follow_ups s" "st_follow_up_operations s' = st_follow_up_operations s"
  shows "histories_ok s' = histories_ok s"
  by (simp add: histories_ok_def sound_history_def assms operations_of_cong [OF assms(2)])

lemma sound_history_other:
  assumes "\<And>c. operations_of s' c (fu_follow_up_id f) = operations_of s c (fu_follow_up_id f)"
  shows "sound_history s' f = sound_history s f"
  by (simp add: sound_history_def assms)

lemma operations_of_untouched:
  assumes "stored_operations s" "f \<noteq> op_follow_up_id q" "operation_step s (Some q)
     \<or> dict_get (st_follow_up_operations s) (op_operation_id q) = None"
  shows "set (operations_of (put_operation (Some q) s) c f) = set (operations_of s c f)"
proof -
  have "op_operation_id p \<noteq> op_operation_id q" if "p \<in> set (operations_of s c f)" for p
    using that assms(2,3) transition_keeps(4) unfolding operations_of_set [OF assms(1)]
    by (fastforce simp: operation_step_def)
  then show ?thesis using assms(2) unfolding operations_of_put [OF assms(1)] by auto
qed

text \<open>The history is a property of the set of operations.\<close>

lemma attempt_history_set:
  assumes "distinct (map op_operation_id ops)" "distinct (map op_operation_id ops')" "set ops' = set ops"
  shows "attempt_history c f ops' \<longleftrightarrow> attempt_history c f ops"
proof -
  have "mset ops' = mset ops"
    using assms set_eq_iff_mset_eq_distinct [of ops' ops] by (simp add: distinct_map)
  then have "length (filter P ops') = length (filter P ops)" for P
    by (metis mset_filter size_mset)
  moreover have "max_sequence ops' = max_sequence ops"
    using assms(3) by (simp add: max_sequence_def flip: set_empty)
  ultimately show ?thesis
    using assms by (simp add: attempt_history_def outstanding_ok_def list_all_iff countable_attempts_def
        distinct_sequences_iff)
qed

lemma sound_history_put_other:
  assumes "stored_operations s" "fu_follow_up_id f \<noteq> op_follow_up_id q"
    and "operation_step s (Some q) \<or> dict_get (st_follow_up_operations s) (op_operation_id q) = None"
  shows "sound_history (put_operation (Some q) s) f = sound_history s f"
  using attempt_history_set [OF operations_of_distinct [OF assms(1)]
      operations_of_distinct [OF stored_operations_put [OF assms(1)]]
      operations_of_untouched [OF assms]]
  by (simp add: sound_history_def)

section \<open>Changes of one obligation\<close>

lemma closing_history_kept:
  assumes "histories_ok s" "dict_get (st_follow_ups s) (fu_follow_up_id f) = Some f"
    and "same_obligation f g" "fu_attempt_count g = fu_attempt_count f" "operation_step s r"
    and "opt_all (\<lambda>q. op_follow_up_id q = fu_follow_up_id f) r"
  shows "sound_history (put_operation r s) g"
proof (cases r)
  case None
  then show ?thesis
    using histories_get(2) [OF assms(1,2)] attempt_history_same [OF assms(3,4)] assms(3,4)
    by (simp add: sound_history_def put_operation_def same_obligation_def)
next
  case (Some q)
  have keyed: "stored_operations s" using assms(1) by (simp add: histories_ok_def)
  obtain p where p: "dict_get (st_follow_up_operations s) (op_operation_id q) = Some p"
    "assert_follow_up_operation_transition p q = Inr ()"
    using assms(5) Some by (auto simp: operation_step_def)
  note keeps = transition_keeps [OF p(2)]
  have fid: "op_follow_up_id p = fu_follow_up_id f" "op_claim_id p = fu_claim_id f"
    using histories_operation [OF assms(1) p(1)] assms(2,6) keeps(4) Some by auto
  let ?ops = "operations_of s (fu_claim_id f) (fu_follow_up_id f)"
    and ?ops' = "operations_of (put_operation r s) (fu_claim_id f) (fu_follow_up_id f)"
  have "p \<in> set ?ops" using fid p(1) keeps(1) unfolding operations_of_set [OF keyed] by simp
  moreover have "set ?ops' = insert q {x \<in> set ?ops. op_operation_id x \<noteq> op_operation_id q}"
    unfolding Some operations_of_put [OF keyed] using fid keeps(3,4) by simp
  ultimately have "attempt_history c f ?ops'" if "attempt_history c f ?ops" for c
    using attempt_history_replace [OF that operations_of_distinct [OF keyed]
        operations_of_distinct [OF stored_operations_put [OF keyed]] _ p(2)] by blast
  then show ?thesis
    using histories_get(2) [OF assms(1,2)] attempt_history_same [OF assms(3,4)] assms(3,4)
    by (simp add: sound_history_def same_obligation_def)
qed

lemma histories_update:
  assumes "histories_ok s" "dict_get (st_follow_ups s) (fu_follow_up_id f) = Some f" "same_obligation f g"
    and "stored_operations s'" "sound_history s' g"
    and "st_follow_ups s' = dict_put (fu_follow_up_id g) g (st_follow_ups s)"
    and "\<And>h. fu_follow_up_id h \<noteq> fu_follow_up_id f \<Longrightarrow> sound_history s' h = sound_history s h"
    and "\<And>i p. dict_get (st_follow_up_operations s') i = Some p \<Longrightarrow>
          dict_get (st_follow_up_operations s) i = Some p
          \<or> op_follow_up_id p = fu_follow_up_id f \<and> op_claim_id p = fu_claim_id f"
  shows "histories_ok s'"
  unfolding histories_ok_def
proof (intro conjI allI impI)
  have id: "fu_follow_up_id g = fu_follow_up_id f" using assms(3) by (simp add: same_obligation_def)
  show "keyed fu_follow_up_id (st_follow_ups s')"
    using assms(1) by (simp add: assms(6) histories_ok_def keyed_put)
  show "stored_operations s'" by (rule assms(4))
  fix i h assume h: "dict_get (st_follow_ups s') i = Some h"
  have "i = fu_follow_up_id f \<and> h = g \<or> i \<noteq> fu_follow_up_id f \<and> dict_get (st_follow_ups s) i = Some h"
    using h by (auto simp: assms(6) id split: if_splits)
  then have "bounded_text 1 120 i \<and> length (fu_source_refs h) \<le> 20 \<and> sound_history s' h"
  proof (elim disjE conjE)
    assume "i = fu_follow_up_id f" "h = g"
    then show ?thesis
      using histories_get(3,4) [OF assms(1,2)] assms(3,5) by (simp add: same_obligation_def)
  next
    assume "i \<noteq> fu_follow_up_id f" "dict_get (st_follow_ups s) i = Some h"
    then show ?thesis using histories_get [OF assms(1), of i h] assms(7) [of h] by simp
  qed
  then show "bounded_text 1 120 i" "length (fu_source_refs h) \<le> 20" "sound_history s' h" by auto
next
  fix i p assume "dict_get (st_follow_up_operations s') i = Some p"
  then show "\<exists>h. dict_get (st_follow_ups s') (op_follow_up_id p) = Some h \<and> fu_claim_id h = op_claim_id p"
    using assms(3,8) histories_operation [OF assms(1)] assms(2)
    by (fastforce simp: assms(6) same_obligation_def)
qed

lemma histories_closing:
  assumes "histories_ok s" "dict_get (st_follow_ups s) (fu_follow_up_id f) = Some f"
    and "same_obligation f g" "fu_attempt_count g = fu_attempt_count f" "operation_step s r"
    and "opt_all (\<lambda>q. op_follow_up_id q = fu_follow_up_id f) r"
    and "st_follow_ups s' = dict_put (fu_follow_up_id g) g (st_follow_ups s)"
    and ops: "st_follow_up_operations s' = st_follow_up_operations (put_operation r s)"
  shows "histories_ok s'"
proof (rule histories_update [OF assms(1-3) _ _ assms(7)])
  have keyed: "stored_operations s" using assms(1) by (simp add: histories_ok_def)
  have history: "sound_history s' h = sound_history (put_operation r s) h" for h
    by (simp add: sound_history_def operations_of_cong [OF ops])
  show "stored_operations s'" using stored_operations_put [OF keyed] by (simp add: ops)
  show "sound_history s' g" using closing_history_kept [OF assms(1-6)] by (simp add: history)
  show "sound_history s' h = sound_history s h" if "fu_follow_up_id h \<noteq> fu_follow_up_id f" for h
  proof (cases r)
    case (Some q)
    then show ?thesis using sound_history_put_other [OF keyed, of h q] that assms(5,6) by (simp add: history)
  qed (simp add: history put_operation_def)
  show "dict_get (st_follow_up_operations s) i = Some p
      \<or> op_follow_up_id p = fu_follow_up_id f \<and> op_claim_id p = fu_claim_id f"
    if "dict_get (st_follow_up_operations s') i = Some p" for i p
  proof (cases r)
    case None
    then show ?thesis using that by (simp add: ops put_operation_def)
  next
    case (Some q)
    obtain p0 where p0: "dict_get (st_follow_up_operations s) (op_operation_id q) = Some p0"
      "assert_follow_up_operation_transition p0 q = Inr ()"
      using assms(5) Some by (auto simp: operation_step_def)
    have "op_claim_id q = fu_claim_id f"
      using histories_operation [OF assms(1) p0(1)] transition_keeps(3,4) [OF p0(2)] assms(2,6) Some by auto
    then show ?thesis using that assms(6) Some by (auto simp: ops put_operation_def split: if_splits)
  qed
qed

section \<open>The due attempt\<close>

lemma attempt_history_claim:
  "wc_claim_id c' = wc_claim_id c \<Longrightarrow> attempt_history c' f ops = attempt_history c f ops"
  by (simp add: attempt_history_def list_all_iff belongs_def)

lemma settled_member:
  "outstanding_settled now ops = Some q \<Longrightarrow> \<exists>p\<in>set ops. q = settle_unanswered now p"
  unfolding outstanding_settled_def
  by (auto split: list.splits) (metis filter_is_subset list.set_intros(1) subsetD)

lemma due_obligation:
  "same_obligation f (dt_follow_up (due_outcome c x rc f ops now))"
  "fu_status (dt_follow_up (due_outcome c x rc f ops now)) \<noteq> FU_resolved"
  by (simp_all add: same_obligation_def due_outcome_def Let_def exhausted_follow_up_def
      rescheduled_follow_up_def)

lemma due_operations:
  assumes keyed: "stored_operations s" and h: "attempt_history c f ops" "bound_to_policy rc f"
    and claim: "wc_claim_id c = fu_claim_id f"
    and ops: "ops = operations_of s (fu_claim_id f) (fu_follow_up_id f)"
    and t: "t = due_outcome c x rc f ops now"
    and fresh: "dict_get (st_follow_up_operations s) (op_operation_id (dt_operation t)) = None"
  defines "s' \<equiv> put_operation (Some (dt_operation t)) (put_operation (dt_settled_previous t) s)"
  shows "set (operations_of s' (fu_claim_id f) (fu_follow_up_id f)) = operations_after t ops"
proof -
  let ?p = "dt_operation t" and ?s1 = "put_operation (dt_settled_previous t) s"
  have new: "op_claim_id ?p = fu_claim_id f" "op_follow_up_id ?p = fu_follow_up_id f"
    using belongs_new [OF h(2)] claim by (simp_all add: t belongs_def)
  have stored: "op_operation_id r \<noteq> op_operation_id ?p" if "r \<in> set ops" for r
    using that fresh unfolding ops operations_of_set [OF keyed] by auto
  have hist: "distinct (map op_sequence ops)" "outstanding_ok ops" using h(1) by (auto simp: attempt_history_def)
  have "set (operations_of ?s1 (fu_claim_id f) (fu_follow_up_id f)) = (case dt_settled_previous t of
      None \<Rightarrow> set ops | Some q \<Rightarrow> insert q {r \<in> set ops. op_sequence r \<noteq> op_sequence q})
      \<and> (\<forall>q. dt_settled_previous t = Some q \<longrightarrow> op_operation_id q \<in> op_operation_id ` set ops)"
    using outstanding_settled_cases [OF hist, of now]
  proof (elim disjE conjE bexE)
    assume "outstanding_settled now ops = None"
    then show ?thesis by (simp add: t due_outcome_sel put_operation_def ops)
  next
    fix q assume q: "q \<in> set ops" "outstanding_settled now ops = Some (settle_unanswered now q)"
    have "op_claim_id (settle_unanswered now q) = fu_claim_id f"
      "op_follow_up_id (settle_unanswered now q) = fu_follow_up_id f"
      using q(1) unfolding ops operations_of_set [OF keyed] by (simp_all add: settle_unanswered_def)
    moreover have "op_operation_id r = op_operation_id q \<longleftrightarrow> op_sequence r = op_sequence q" if "r \<in> set ops" for r
      using that q(1) operations_of_distinct [OF keyed] hist(1) unfolding ops
      by (metis distinct_map inj_on_def)
    ultimately show ?thesis
      using q unfolding t due_outcome_sel(5) q(2) operations_of_put [OF keyed] by (auto simp: ops)
  qed
  note both = this
  note one = conjunct1 [OF both]
  have other: "op_operation_id r \<noteq> op_operation_id ?p"
    if "r \<in> set (operations_of ?s1 (fu_claim_id f) (fu_follow_up_id f))" for r
  proof (cases "dt_settled_previous t")
    case None
    then show ?thesis using that stored one by simp
  next
    case (Some q)
    then have "r = q \<or> r \<in> set ops" using that one by auto
    then show ?thesis using both stored Some by fastforce
  qed
  have "set (operations_of s' (fu_claim_id f) (fu_follow_up_id f))
      = insert ?p (set (operations_of ?s1 (fu_claim_id f) (fu_follow_up_id f)))"
    unfolding s'_def operations_of_put [OF stored_operations_put [OF keyed]] using new other by auto
  then show ?thesis by (simp add: one operations_after_def)
qed

lemma operations_after_sequences:
  assumes "attempt_history c f ops" "t = due_outcome c x rc f ops now"
  shows "inj_on op_sequence (operations_after t ops)"
proof -
  have inj: "inj_on op_sequence (set ops)" using assms(1) by (simp add: attempt_history_def distinct_map)
  have new: "op_sequence (dt_operation t) \<notin> op_sequence ` set ops"
    using max_sequence_ge [of _ ops] by (fastforce simp: assms(2) due_outcome_sel)
  show ?thesis
  proof (cases "dt_settled_previous t")
    case None
    then show ?thesis using inj new by (auto simp: operations_after_def)
  next
    case (Some q)
    have "op_sequence q \<in> op_sequence ` set ops"
      using Some settled_member [of now ops q] by (auto simp: assms(2) due_outcome_sel)
    then have "op_sequence (dt_operation t) \<noteq> op_sequence q" using new by auto
    moreover have "inj_on op_sequence {r \<in> set ops. op_sequence r \<noteq> op_sequence q}"
      using inj by (rule inj_on_subset) auto
    ultimately show ?thesis using Some new by (auto simp: operations_after_def)
  qed
qed

lemma histories_due:
  assumes "histories_ok s" "dict_get (st_follow_ups s) (fu_follow_up_id f) = Some f"
    and "wc_claim_id c = fu_claim_id f" "bounded_text 1 120 (wc_claim_id c)" "1 \<le> wc_revision c"
    and red: "reduce_due_follow_up c x f (operations_of s (fu_claim_id f) (fu_follow_up_id f)) now = Inr t"
    and "operation_step s (dt_settled_previous t)"
      "dict_get (st_follow_up_operations s) (op_operation_id (dt_operation t)) = None"
    and "st_follow_ups s' = dict_put (fu_follow_up_id (dt_follow_up t)) (dt_follow_up t) (st_follow_ups s)"
    and ops': "st_follow_up_operations s' = st_follow_up_operations
        (put_operation (Some (dt_operation t)) (put_operation (dt_settled_previous t) s))"
  shows "histories_ok s'" "same_obligation f (dt_follow_up t)" "fu_status f = FU_pending"
    "fu_attempt_count (dt_follow_up t) = fu_attempt_count f + 1" "fu_status (dt_follow_up t) \<noteq> FU_resolved"
proof -
  let ?ops = "operations_of s (fu_claim_id f) (fu_follow_up_id f)"
    and ?s1 = "put_operation (dt_settled_previous t) s"
    and ?s2 = "put_operation (Some (dt_operation t)) (put_operation (dt_settled_previous t) s)"
  have keyed: "stored_operations s" "stored_operations ?s1" "stored_operations ?s2"
    using assms(1) stored_operations_put by (auto simp: histories_ok_def)
  have limits: "within_limits c f"
    using histories_get(3,4) [OF assms(1,2)] assms(3-5) by (simp add: within_limits_def)
  have seqs: "list_all (\<lambda>p. 1 \<le> op_sequence p) ?ops"
    using histories_get(2) [OF assms(1,2)] assms(3) by (auto simp: sound_history_def attempt_history_def)
  obtain rc where rc: "contact_scheduled rc f" "attempt_history c f ?ops" "bound_to_policy rc f"
    and t: "t = due_outcome c x rc f ?ops now"
    using red unfolding reduce_due_Inr_iff [OF limits seqs] by (auto simp: open_obligation_def)
  note set2 = due_operations [OF keyed(1) rc(2,3) assms(3) refl t assms(8)]
  have "distinct (map op_sequence (operations_of ?s2 (fu_claim_id f) (fu_follow_up_id f)))"
    using operations_after_sequences [OF rc(2) t]
    by (simp add: distinct_sequences_iff [OF operations_of_distinct [OF keyed(3)]] set2)
  then have h: "attempt_history c (dt_follow_up t) (operations_of ?s2 (fu_claim_id f) (fu_follow_up_id f))"
    using attempt_history_step [OF rc(2,3) _ t set2] rc(1) by (simp add: contact_scheduled_def)
  show same: "same_obligation f (dt_follow_up t)" and "fu_status (dt_follow_up t) \<noteq> FU_resolved"
    unfolding t by (rule due_obligation)+
  have count: "fu_attempt_count f < 3" using rc(1) by (simp add: contact_scheduled_def)
  then show "fu_attempt_count (dt_follow_up t) = fu_attempt_count f + 1" by (simp add: t due_outcome_sel)
  show "fu_status f = FU_pending" using rc(1) by (simp add: contact_scheduled_def)
  have history: "sound_history s' g = sound_history ?s2 g" for g
    by (simp add: sound_history_def operations_of_cong [OF ops'])
  have ids: "op_follow_up_id (dt_operation t) = fu_follow_up_id f" "op_claim_id (dt_operation t) = fu_claim_id f"
    using belongs_new [OF rc(3)] assms(3) by (simp_all add: t belongs_def)
  have settled: "op_follow_up_id q = fu_follow_up_id f \<and> op_claim_id q = fu_claim_id f
      \<and> dict_get (st_follow_up_operations s) (op_operation_id q) \<noteq> None"
    if q: "dt_settled_previous t = Some q" for q
  proof -
    obtain p0 where p0: "p0 \<in> set ?ops" "q = settle_unanswered now p0"
      using q settled_member [of now ?ops q] by (auto simp: t due_outcome_sel)
    then show ?thesis using p0(1) unfolding operations_of_set [OF keyed(1)]
      by (simp add: settle_unanswered_def)
  qed
  have fresh: "dict_get (st_follow_up_operations ?s1) (op_operation_id (dt_operation t)) = None"
    using assms(8) settled by (fastforce simp: put_operation_def split: option.split)
  show "histories_ok s'"
  proof (rule histories_update [OF assms(1,2) same _ _ assms(9)])
    show "stored_operations s'" using keyed(3) by (simp add: ops')
    show "sound_history s' (dt_follow_up t)"
    proof -
      have "attempt_history c' (dt_follow_up t) (operations_of ?s2 (fu_claim_id f) (fu_follow_up_id f))"
        if "wc_claim_id c' = fu_claim_id f" for c'
        using h attempt_history_claim [of c' c] that assms(3) by simp
      moreover have "fu_attempt_count (dt_follow_up t) \<le> 3" using count by (simp add: t due_outcome_sel)
      ultimately show ?thesis using same unfolding history by (simp add: sound_history_def same_obligation_def)
    qed
    show "sound_history s' g = sound_history s g" if g: "fu_follow_up_id g \<noteq> fu_follow_up_id f" for g
    proof -
      have "sound_history ?s2 g = sound_history ?s1 g"
        using sound_history_put_other [OF keyed(2)] g ids(1) fresh by simp
      also have "\<dots> = sound_history s g"
        using sound_history_put_other [OF keyed(1)] g settled assms(7)
        by (cases "dt_settled_previous t") (auto simp: put_operation_def)
      finally show ?thesis by (simp add: history)
    qed
    show "dict_get (st_follow_up_operations s) i = Some p
        \<or> op_follow_up_id p = fu_follow_up_id f \<and> op_claim_id p = fu_claim_id f"
      if "dict_get (st_follow_up_operations s') i = Some p" for i p
      using that ids settled by (auto simp: ops' put_operation_def split: option.splits if_splits)
  qed
qed

section \<open>Exclusive obligations\<close>

lemma open_update:
  assumes "same_obligation f g" "st_follow_ups s' = dict_put (fu_follow_up_id g) g (st_follow_ups s)"
  shows "open_obligation_of s' c h \<longleftrightarrow> (if fu_follow_up_id h = fu_follow_up_id f
     then h = g \<and> fu_claim_id f = c \<and> fu_purpose f = ''resume_incomplete_claim''
          \<and> fu_status g \<noteq> FU_resolved
     else open_obligation_of s c h)"
  using assms by (auto simp: open_obligation_of_def same_obligation_def)

lemma exclusive_update:
  assumes ex: "exclusive_ok s" and f: "dict_get (st_follow_ups s) (fu_follow_up_id f) = Some f"
      "fu_status f \<noteq> FU_resolved" and g: "same_obligation f g"
      "st_follow_ups s' = dict_put (fu_follow_up_id g) g (st_follow_ups s)"
    and claims: "\<And>i w. dict_get (st_claims s') i = Some w \<Longrightarrow> wc_active_session_id w = None
      \<or> (\<exists>v. dict_get (st_claims s) i = Some v \<and> wc_active_session_id v = wc_active_session_id w)
      \<or> i = fu_claim_id f \<and> fu_purpose f = ''resume_incomplete_claim'' \<and> fu_status g = FU_resolved"
  shows "exclusive_ok s'"
  unfolding exclusive_ok_def
proof (intro allI impI conjI)
  note unique = ex [unfolded exclusive_ok_def, rule_format]
  define old where "old h = (if fu_follow_up_id h = fu_follow_up_id f then f else h)" for h
  have old: "open_obligation_of s c (old h)" if "open_obligation_of s' c h" for c h
    using that f unfolding open_update [OF g] by (auto simp: old_def open_obligation_of_def split: if_splits)
  fix c h assume h: "open_obligation_of s' c h"
  show "k = h" if k: "open_obligation_of s' c k" for k
  proof -
    have "old k = old h" using unique [OF old [OF h]] old [OF k] by blast
    then show ?thesis using h k by (auto simp: old_def open_update [OF g] split: if_splits)
  qed
  show "opt_all (\<lambda>w. wc_active_session_id w = None) (dict_get (st_claims s') c)"
  proof (cases "dict_get (st_claims s') c")
    case (Some w)
    have stored: "opt_all (\<lambda>w. wc_active_session_id w = None) (dict_get (st_claims s) c)"
      using unique [OF old [OF h]] by blast
    have "\<not> (c = fu_claim_id f \<and> fu_purpose f = ''resume_incomplete_claim'' \<and> fu_status g = FU_resolved)"
    proof
      assume a: "c = fu_claim_id f \<and> fu_purpose f = ''resume_incomplete_claim'' \<and> fu_status g = FU_resolved"
      then have "open_obligation_of s c f" using f by (simp add: open_obligation_of_def)
      then have "old h = f" using unique [OF old [OF h]] by blast
      then show False using h a by (auto simp: old_def open_update [OF g] split: if_splits)
    qed
    then show ?thesis using claims [OF Some] stored Some by auto
  qed simp
qed

lemma open_recovery_iff:
  assumes "keyed fu_follow_up_id (st_follow_ups s)"
  shows "f \<in> set (open_recovery s c) \<longleftrightarrow> open_obligation_of s (wc_claim_id c) f"
proof -
  have "fu_status f \<in> {FU_pending, FU_blocked} \<longleftrightarrow> fu_status f \<noteq> FU_resolved"
    by (cases "fu_status f") auto
  then show ?thesis
    using keyed_value_iff [OF assms, of f] unfolding open_recovery_def open_obligation_of_def set_filter
    by auto
qed

lemma open_exists_iff:
  assumes "keyed fu_follow_up_id (st_follow_ups s)"
  shows "open_follow_up_exists s claim_id ''resume_incomplete_claim'' \<longleftrightarrow>
     (\<exists>f. open_obligation_of s claim_id f)"
proof -
  have st: "fu_status f \<in> {FU_pending, FU_blocked} \<longleftrightarrow> fu_status f \<noteq> FU_resolved" for f
    by (cases "fu_status f") auto
  show ?thesis
    unfolding open_follow_up_exists_def list_ex_iff open_obligation_of_def st Bex_def
      keyed_value_iff [OF assms] by auto
qed

section \<open>Claims and the message index\<close>

lemma claims_get:
  assumes "claims_ok s" "dict_get (st_claims s) i = Some c"
  shows "wc_claim_id c = i" "bounded_text 1 120 i" "1 \<le> wc_revision c"
  using assms by (auto simp: claims_ok_def keyed_def)

lemma claims_put:
  assumes "claims_ok s" "dict_get (st_claims s) (wc_claim_id c) = Some c0" "wc_revision c0 \<le> wc_revision c"
    and "st_claims s' = dict_put (wc_claim_id c) c (st_claims s)"
  shows "claims_ok s'"
  using assms claims_get(2,3) [OF assms(1,2)]
  by (auto simp: claims_ok_def keyed_put intro: order_trans split: if_splits)

lemma index_cong:
  "st_messages s' = st_messages s \<Longrightarrow> st_message_ids s' = st_message_ids s \<Longrightarrow> index_ok s' = index_ok s"
  by (simp add: index_ok_def)

lemma store_session_sel [simp]:
  "st_claims (store_session s x) = st_claims s"
  "st_follow_ups (store_session s x) = st_follow_ups s"
  "st_follow_up_operations (store_session s x) = st_follow_up_operations s"
  "st_messages (store_session s x) = st_messages s"
  "st_audit_events (store_session s x) = st_audit_events s"
  "st_idempotency (store_session s x) = st_idempotency s"
  "st_message_ids (store_session s x) = setdefault (se_session_id x) [] (st_message_ids s)"
  by (simp_all add: store_session_def Let_def)

lemma index_store_session: "index_ok s \<Longrightarrow> index_ok (store_session s x)"
  by (simp add: index_ok_def setdefault_def indexed_def [of _ "[]"])

lemma map_filter_get:
  assumes "keyed key d" "list_all (\<lambda>i. dict_get d i \<noteq> None) ids"
  shows "map key (List.map_filter (dict_get d) ids) = ids"
  using assms(2)
proof (induction ids)
  case (Cons i ids)
  then obtain v where "dict_get d i = Some v" by auto
  then show ?case using Cons keyed_get [OF assms(1)] by (simp add: List.map_filter_simps)
qed (simp add: List.map_filter_simps)

lemma index_store_message:
  assumes "index_ok s" "store_message s m = Inr s'"
  shows "index_ok s'"
proof -
  let ?d = "dict_put (ms_message_id m) m (st_messages s)"
  let ?ids = "append_new (ms_message_id m) (dict_list (st_message_ids s) (ms_session_id m))"
  let ?ms = "List.map_filter (dict_get ?d) ?ids"
  have s': "st_messages s' = ?d" "list_all (\<lambda>i. dict_get ?d i \<noteq> None) ?ids"
    "st_message_ids s' = dict_put (ms_session_id m) (message_ids (order_messages ?ms)) (st_message_ids s)"
    using assms(2) unfolding store_message_Inr_iff by (simp_all add: Let_def fun_upd_def)
  have keyed: "keyed ms_message_id ?d" using assms(1) by (simp add: index_ok_def keyed_put)
  have ids: "message_ids ?ms = ?ids" unfolding message_ids_def by (rule map_filter_get [OF keyed s'(2)])
  have "indexed (st_messages s) (dict_list (st_message_ids s) (ms_session_id m))"
    using assms(1) by (simp add: index_ok_def dict_list_def indexed_def [of _ "[]"] split: option.split)
  then have "distinct (dict_list (st_message_ids s) (ms_session_id m))" by (simp add: indexed_def)
  then have dist: "distinct (message_ids ?ms)" unfolding ids by (simp add: append_new_def)
  then have "mset (message_ids (order_messages ?ms)) = mset (message_ids ?ms)"
    using order_messages_permutation [OF dist] by (simp add: message_ids_def)
  then have "distinct (message_ids (order_messages ?ms))" "set (message_ids (order_messages ?ms)) = set ?ids"
    using dist ids by (metis mset_eq_imp_distinct_iff, metis mset_eq_setD)
  then have "indexed ?d (message_ids (order_messages ?ms))"
    using s'(2) by (simp add: indexed_def list_all_iff)
  moreover have "indexed ?d xs" if "indexed (st_messages s) xs" for xs
    using that by (auto simp: indexed_def list_all_iff)
  ultimately show ?thesis using assms(1) keyed unfolding index_ok_def s'(1,3)
    by (simp add: fun_upd_def)
qed

section \<open>What a run of commits preserves\<close>

definition claim_extends :: "working_claim \<Rightarrow> working_claim \<Rightarrow> bool" where
  "claim_extends c d \<longleftrightarrow> wc_claim_id d = wc_claim_id c \<and> wc_customer_id d = wc_customer_id c
     \<and> wc_revision c \<le> wc_revision d
     \<and> (wc_terminal_disposition c \<noteq> None \<longrightarrow> wc_terminal_disposition d = wc_terminal_disposition c)"

definition follow_up_extends :: "follow_up \<Rightarrow> follow_up \<Rightarrow> bool" where
  "follow_up_extends f g \<longleftrightarrow> f = g \<or> fu_status f \<noteq> FU_resolved \<and> same_obligation f g
     \<and> fu_attempt_count f \<le> fu_attempt_count g"

definition operation_extends :: "operation \<Rightarrow> operation \<Rightarrow> bool" where
  "operation_extends p q \<longleftrightarrow> p = q \<or> is_open_operation p \<and> same_execution_identity p q
     \<and> (op_committed_at p \<noteq> None \<longrightarrow> op_committed_at q = op_committed_at p)"

definition recovery_grows :: "store \<Rightarrow> store \<Rightarrow> bool" where
  "recovery_grows s s' \<longleftrightarrow> grows_in claim_extends (st_claims s) (st_claims s')
     \<and> grows_in follow_up_extends (st_follow_ups s) (st_follow_ups s')
     \<and> grows_in operation_extends (st_follow_up_operations s) (st_follow_up_operations s')
     \<and> grows_in (=) (st_messages s) (st_messages s')
     \<and> grows_in (=) (st_audit_events s) (st_audit_events s')
     \<and> grows_in (=) (st_idempotency s) (st_idempotency s')"

lemma extends_refl [simp]: "claim_extends c c" "follow_up_extends f f" "operation_extends p p"
  by (simp_all add: claim_extends_def follow_up_extends_def operation_extends_def)

lemma claim_extends_trans: "claim_extends c d \<Longrightarrow> claim_extends d e \<Longrightarrow> claim_extends c e"
  by (auto simp: claim_extends_def)

lemma follow_up_extends_trans: "follow_up_extends f g \<Longrightarrow> follow_up_extends g h \<Longrightarrow> follow_up_extends f h"
  by (auto simp: follow_up_extends_def same_obligation_def)

lemma operation_extends_trans: "operation_extends p q \<Longrightarrow> operation_extends q r \<Longrightarrow> operation_extends p r"
  by (auto simp: operation_extends_def same_execution_identity_def)

lemma recovery_grows_refl: "recovery_grows s s"
  by (simp add: recovery_grows_def grows_in_refl)

lemma recovery_grows_trans:
  assumes "recovery_grows s t" "recovery_grows t u" shows "recovery_grows s u"
  using assms unfolding recovery_grows_def
  by (auto intro: grows_in_trans [where R = claim_extends, OF _ _ claim_extends_trans]
      grows_in_trans [where R = follow_up_extends, OF _ _ follow_up_extends_trans]
      grows_in_trans [where R = operation_extends, OF _ _ operation_extends_trans]
      grows_in_trans [where R = "(=)"])

lemma grows_operation:
  assumes "operation_step s r"
  shows "grows_in operation_extends (st_follow_up_operations s) (st_follow_up_operations (put_operation r s))"
proof (cases r)
  case (Some q)
  then obtain p where p: "dict_get (st_follow_up_operations s) (op_operation_id q) = Some p"
    "assert_follow_up_operation_transition p q = Inr ()"
    using assms by (auto simp: operation_step_def)
  then have "operation_extends p q"
    by (cases "op_status p") (auto simp: operation_extends_def assert_transition_iff
        is_open_operation_def allowed_operation_steps_def)
  then show ?thesis using p(1) Some by (auto simp: put_operation_def intro!: grows_in_put)
qed (simp add: put_operation_def grows_in_refl)

lemma prepared_audit:
  assumes "prepare_audit_events s c [e] [] = Inr prepared"
  shows "prepared = [(au_event_id e, e)]" "opt_all (\<lambda>x. x = e) (dict_get (st_audit_events s) (au_event_id e))"
  using assms unfolding prepare_audit_events.simps guarded_Inr_iff by auto

lemma grows_audit:
  assumes "prepare_audit_events s c [e] [] = Inr prepared" "st_audit_events t = st_audit_events s"
  shows "grows_in (=) (st_audit_events s) (st_audit_events (store_audit_events prepared t))"
  using prepared_audit [OF assms(1)] assms(2)
  by (simp add: store_audit_events_def grows_in_put)

text \<open>The records beside the obligation: the message index, the audit events, the replay records.\<close>

definition beside_ok :: "store \<Rightarrow> store \<Rightarrow> bool" where
  "beside_ok s s' \<longleftrightarrow> index_ok s' \<and> grows_in (=) (st_messages s) (st_messages s')
     \<and> grows_in (=) (st_audit_events s) (st_audit_events s')
     \<and> grows_in (=) (st_idempotency s) (st_idempotency s')"

lemma obligation_step:
  assumes ok: "recovery_store_ok s" and f: "dict_get (st_follow_ups s) (fu_follow_up_id f) = Some f"
      "fu_status f \<noteq> FU_resolved" and g: "same_obligation f g" "fu_attempt_count f \<le> fu_attempt_count g"
      "st_follow_ups s' = dict_put (fu_follow_up_id g) g (st_follow_ups s)"
    and histories: "histories_ok s'"
    and ops: "grows_in operation_extends (st_follow_up_operations s) (st_follow_up_operations s')"
    and claims: "st_claims s' = st_claims s \<or> (\<exists>c c0. dict_get (st_claims s) (wc_claim_id c) = Some c0
      \<and> claim_extends c0 c \<and> st_claims s' = dict_put (wc_claim_id c) c (st_claims s)
      \<and> (wc_active_session_id c = wc_active_session_id c0
         \<or> wc_claim_id c = fu_claim_id f \<and> fu_purpose f = ''resume_incomplete_claim'' \<and> fu_status g = FU_resolved))"
    and beside: "beside_ok s s'"
  shows "recovery_store_ok s' \<and> recovery_grows s s'"
proof -
  have "claims_ok s' \<and> grows_in claim_extends (st_claims s) (st_claims s')"
  proof (cases "st_claims s' = st_claims s")
    case True
    then show ?thesis using ok by (simp add: recovery_store_ok_def claims_ok_def grows_in_refl)
  next
    case False
    then obtain c c0 where "dict_get (st_claims s) (wc_claim_id c) = Some c0" "claim_extends c0 c"
      "st_claims s' = dict_put (wc_claim_id c) c (st_claims s)" using claims by blast
    then show ?thesis
      using ok claims_put [of s c c0 s']
      by (auto simp: recovery_store_ok_def claim_extends_def intro!: grows_in_put)
  qed
  moreover have "exclusive_ok s'"
  proof (rule exclusive_update [OF _ f g(1,3)])
    show "exclusive_ok s" using ok by (simp add: recovery_store_ok_def)
    show "wc_active_session_id w = None
      \<or> (\<exists>v. dict_get (st_claims s) i = Some v \<and> wc_active_session_id v = wc_active_session_id w)
      \<or> i = fu_claim_id f \<and> fu_purpose f = ''resume_incomplete_claim'' \<and> fu_status g = FU_resolved"
      if "dict_get (st_claims s') i = Some w" for i w
      using claims that by (auto split: if_splits)
  qed
  moreover have "grows_in follow_up_extends (st_follow_ups s) (st_follow_ups s')"
  proof -
    have "follow_up_extends f g" using f(2) g(1,2) by (simp add: follow_up_extends_def)
    then show ?thesis
      using f(1) g(1) unfolding g(3) by (intro grows_in_put) (auto simp: same_obligation_def)
  qed
  ultimately show ?thesis
    using histories ops beside by (simp add: recovery_store_ok_def recovery_grows_def beside_ok_def)
qed

section \<open>Every call\<close>

lemmas recovery_writes = commit_realtime_def store_audit_events_def put_claim_def put_follow_up_def
  put_idempotency_def put_branch_evaluation_def

lemma put_operation_sel [simp]:
  "st_claims (put_operation r s) = st_claims s" "st_follow_ups (put_operation r s) = st_follow_ups s"
  "st_messages (put_operation r s) = st_messages s" "st_message_ids (put_operation r s) = st_message_ids s"
  "st_audit_events (put_operation r s) = st_audit_events s"
  "st_idempotency (put_operation r s) = st_idempotency s" "st_sessions (put_operation r s) = st_sessions s"
  by (simp_all add: put_operation_def split: option.split)

lemma stored_limits:
  assumes "recovery_store_ok s" "dict_get (st_claims s) i = Some c" "dict_get (st_follow_ups s) j = Some f"
  shows "within_limits c f"
  using claims_get [of s i c] histories_get [of s j f] assms by (simp add: within_limits_def recovery_store_ok_def)

lemma closed_operation:
  assumes "closed_open a b now (operations_of s c f) = Some q" "stored_operations s"
  shows "op_follow_up_id q = f"
proof -
  obtain p ps where p: "filter is_open_operation (operations_of s c f) = p # ps"
    "q = close_operation a b now p"
    using assms(1) by (auto simp: closed_open_def split: list.splits)
  then have "p \<in> set (operations_of s c f)" by (metis filter_is_subset list.set_intros(1) subsetD)
  then show ?thesis using p(2) assms(2) by (simp add: operations_of_set close_operation_def)
qed

lemma beside_plain:
  assumes "index_ok s" "st_messages s' = st_messages s" "st_message_ids s' = st_message_ids s"
    and "grows_in (=) (st_audit_events s) (st_audit_events s')"
    and "grows_in (=) (st_idempotency s) (st_idempotency s')"
  shows "beside_ok s s'"
  using assms index_cong [OF assms(2,3)] by (simp add: beside_ok_def grows_in_refl)

lemma resolved_obligation: "same_obligation f (resolved_follow_up reason outcome f now)"
  "fu_status (resolved_follow_up reason outcome f now) = FU_resolved"
  "fu_attempt_count (resolved_follow_up reason outcome f now) = fu_attempt_count f"
  by (simp_all add: same_obligation_def resolved_follow_up_def)

lemma terminal_commit_ok:
  assumes ok: "recovery_store_ok s"
    and c: "dict_get (st_claims s) (fu_claim_id f) = Some c" "wc_claim_id uc = wc_claim_id c" "claim_extends c uc"
      "wc_active_session_id uc = wc_active_session_id c"
    and f: "dict_get (st_follow_ups s) (fu_follow_up_id f) = Some f" "fu_status f \<noteq> FU_resolved"
      "g = resolved_follow_up reason outcome f now"
    and r: "r = closed_open a b now (operations_of s (wc_claim_id c) (fu_follow_up_id f))" "operation_step s r"
    and s': "st_claims s' = dict_put (wc_claim_id uc) uc (st_claims s)"
      "st_follow_ups s' = dict_put (fu_follow_up_id g) g (st_follow_ups s)"
      "st_follow_up_operations s' = st_follow_up_operations (put_operation r s)"
    and beside: "beside_ok s s'"
  shows "recovery_store_ok s' \<and> recovery_grows s s'"
proof (rule obligation_step [OF ok f(1,2) _ _ s'(2) _ _ _ beside])
  note same = resolved_obligation [where f = f and reason = reason and outcome = outcome and now = now, folded f(3)]
  have h: "histories_ok s" and keyed: "stored_operations s"
    using ok by (simp_all add: recovery_store_ok_def histories_ok_def)
  show "same_obligation f g" "fu_attempt_count f \<le> fu_attempt_count g" using same by simp_all
  have "opt_all (\<lambda>q. op_follow_up_id q = fu_follow_up_id f) r"
    using closed_operation [OF _ keyed] r(1) by (auto simp: opt_all_iff)
  then show "histories_ok s'" by (rule histories_closing [OF h f(1) same(1,3) r(2) _ s'(2,3)])
  show "grows_in operation_extends (st_follow_up_operations s) (st_follow_up_operations s')"
    using grows_operation [OF r(2)] by (simp add: s'(3))
  have "wc_claim_id c = fu_claim_id f" using claims_get(1) [OF _ c(1)] ok by (simp add: recovery_store_ok_def)
  then show "st_claims s' = st_claims s \<or> (\<exists>d d0. dict_get (st_claims s) (wc_claim_id d) = Some d0
      \<and> claim_extends d0 d \<and> st_claims s' = dict_put (wc_claim_id d) d (st_claims s)
      \<and> (wc_active_session_id d = wc_active_session_id d0 \<or> wc_claim_id d = fu_claim_id f
         \<and> fu_purpose f = ''resume_incomplete_claim'' \<and> fu_status g = FU_resolved))"
    using c s'(1) by (intro disjI2 exI [of _ uc] exI [of _ c]) simp
qed

lemma expiry_ok:
  assumes ok: "recovery_store_ok s"
    and "commit_recovery_expiry s rv f uc uf r customer event = Inr s'"
  shows "recovery_store_ok s' \<and> recovery_grows s s'"
proof -
  obtain c x now t prepared realtime where c: "dict_get (st_claims s) (fu_claim_id f) = Some c"
    and f: "dict_get (st_follow_ups s) (fu_follow_up_id f) = Some f"
    and t: "reduce_expired_follow_up c x f (operations_of s (wc_claim_id c) (fu_follow_up_id f)) now = Inr t"
      "tt_claim t = uc" "tt_follow_up t = uf" "tt_reconciled t = r"
    and r: "operation_step s r" and audit: "prepare_audit_events s uc [event] [] = Inr prepared"
    and s': "s' = commit_realtime realtime (store_audit_events prepared
        (put_claim uc (put_follow_up uf (put_operation r s))))"
    using commit_expiry_Inr [OF assms(2)] by blast
  have red: "fu_status f \<noteq> FU_resolved" "wc_terminal_disposition c = None"
    "uc = expired_claim c (abandoned_disposition Reason_recovery_expired expiry_actor c f now) now"
    "uf = resolved_follow_up RECOVERY_EXPIRED ''recovery_expired'' f now"
    "r = closed_open DEADLINE_REACHED NO_RESPONSE now (operations_of s (wc_claim_id c) (fu_follow_up_id f))"
    using t unfolding reduce_expired_Inr_iff [OF stored_limits [OF ok c f]]
    by (auto simp: open_obligation_def)
  show ?thesis
  proof (rule terminal_commit_ok [OF ok c _ _ _ f red(1,4,5) r])
    show "wc_claim_id uc = wc_claim_id c" "claim_extends c uc"
      "wc_active_session_id uc = wc_active_session_id c"
      using red(2) by (simp_all add: red(3) expired_claim_def claim_extends_def)
    show "beside_ok s s'"
      using ok grows_audit [OF audit, of "put_claim uc (put_follow_up uf (put_operation r s))"]
      by (intro beside_plain) (simp_all add: s' recovery_writes recovery_store_ok_def grows_in_refl)
  qed (simp_all add: s' recovery_writes)
qed

lemma staff_ok:
  assumes ok: "recovery_store_ok s"
    and "commit_recovery_staff_abandonment s rv f uc uf r customer record event = Inr s'"
  shows "recovery_store_ok s' \<and> recovery_grows s s'"
proof -
  obtain c x now actor t prepared realtime where c: "dict_get (st_claims s) (fu_claim_id f) = Some c"
    and f: "dict_get (st_follow_ups s) (fu_follow_up_id f) = Some f"
    and t: "reduce_follow_up_staff_abandonment c x f (operations_of s (wc_claim_id c) (fu_follow_up_id f))
        now actor = Inr t" "tt_claim t = uc" "tt_follow_up t = uf" "tt_reconciled t = r"
    and new: "dict_get (st_idempotency s) (idempotency_lookup record) = None"
    and r: "operation_step s r" and audit: "prepare_audit_events s uc [event] [] = Inr prepared"
    and s': "s' = commit_realtime realtime (store_audit_events prepared (put_idempotency record
        (put_claim uc (put_follow_up uf (put_operation r s)))))"
    using commit_staff_Inr [OF assms(2)] by blast
  have red: "fu_status f \<noteq> FU_resolved" "wc_terminal_disposition c = None"
    "uc = abandoned_claim c (abandoned_disposition Reason_authorised_staff_abandonment actor c f now) now"
    "uf = resolved_follow_up STAFF_ABANDONED ''staff_abandoned'' f now"
    "r = closed_open AUTHORITY_LOST AUTHORITY_LOST now (operations_of s (wc_claim_id c) (fu_follow_up_id f))"
    using t unfolding reduce_staff_Inr_iff [OF stored_limits [OF ok c f]]
    by (auto simp: open_obligation_def)
  show ?thesis
  proof (rule terminal_commit_ok [OF ok c _ _ _ f red(1,4,5) r])
    show "wc_claim_id uc = wc_claim_id c" "claim_extends c uc"
      "wc_active_session_id uc = wc_active_session_id c"
      using red(2) by (simp_all add: red(3) abandoned_claim_def claim_extends_def)
    show "beside_ok s s'"
      using ok new grows_audit [OF audit, of "put_idempotency record (put_claim uc (put_follow_up uf
          (put_operation r s)))"]
      by (intro beside_plain) (simp_all add: s' recovery_writes recovery_store_ok_def grows_in_put)
  qed (simp_all add: s' recovery_writes)
qed

lemma withdrawal_ok:
  assumes ok: "recovery_store_ok s"
    and "commit_follow_up_contact_withdrawal s rv f uf r customer event = Inr s'"
  shows "recovery_store_ok s' \<and> recovery_grows s s'"
proof -
  obtain c x now t prepared realtime where c: "dict_get (st_claims s) (fu_claim_id f) = Some c"
    and f: "dict_get (st_follow_ups s) (fu_follow_up_id f) = Some f"
    and t: "reduce_follow_up_contact_withdrawal c x f (operations_of s (wc_claim_id c) (fu_follow_up_id f))
        now = Inr t" "wt_follow_up t = uf" "wt_reconciled t = r"
    and r: "operation_step s r" and audit: "prepare_audit_events s c [event] [] = Inr prepared"
    and s': "s' = commit_realtime realtime (store_audit_events prepared (put_follow_up uf (put_operation r s)))"
    using commit_withdrawal_Inr [OF assms(2)] by blast
  have red: "fu_status f \<noteq> FU_resolved" "uf = withdrawn_follow_up f now"
    "r = closed_open AUTHORITY_LOST AUTHORITY_LOST now (operations_of s (wc_claim_id c) (fu_follow_up_id f))"
    using t unfolding reduce_withdrawal_Inr_iff [OF stored_limits [OF ok c f]] by auto
  have h: "histories_ok s" "stored_operations s" "index_ok s"
    using ok by (simp_all add: recovery_store_ok_def histories_ok_def)
  have same: "same_obligation f uf" "fu_attempt_count uf = fu_attempt_count f"
    by (simp_all add: red(2) withdrawn_follow_up_def same_obligation_def)
  have fu': "st_follow_ups s' = dict_put (fu_follow_up_id uf) uf (st_follow_ups s)"
    and ops': "st_follow_up_operations s' = st_follow_up_operations (put_operation r s)"
    by (simp_all add: s' recovery_writes)
  have "opt_all (\<lambda>q. op_follow_up_id q = fu_follow_up_id f) r"
    using closed_operation [OF _ h(2)] red(3) by (auto simp: opt_all_iff)
  note histories = histories_closing [OF h(1) f same r this fu' ops']
  show ?thesis
  proof (rule obligation_step [OF ok f red(1) same(1) _ fu' histories])
    show "grows_in operation_extends (st_follow_up_operations s) (st_follow_up_operations s')"
      using grows_operation [OF r] by (simp add: ops')
    show "beside_ok s s'"
      using h(3) grows_audit [OF audit, of "put_follow_up uf (put_operation r s)"]
      by (intro beside_plain) (simp_all add: s' recovery_writes grows_in_refl)
  qed (simp_all add: same(2) s' recovery_writes)
qed

lemma store_message_frame:
  assumes "store_message s m = Inr s'"
  shows "st_claims s' = st_claims s" "st_follow_ups s' = st_follow_ups s"
    "st_follow_up_operations s' = st_follow_up_operations s" "st_audit_events s' = st_audit_events s"
    "st_idempotency s' = st_idempotency s" "st_messages s' = dict_put (ms_message_id m) m (st_messages s)"
  using assms unfolding store_message_Inr_iff by (simp_all add: Let_def)

lemma due_ok:
  assumes ok: "recovery_store_ok s"
    and "commit_due_follow_up_attempt s expected uf p q m customer event = Inr s'"
    and fresh: "opt_all (\<lambda>x. x = m) (dict_get (st_messages s) (ms_message_id m))"
  shows "recovery_store_ok s' \<and> recovery_grows s s'"
proof (cases "s' = s")
  case True
  then show ?thesis using ok by (simp add: recovery_grows_refl)
next
  case False
  obtain c x now t s1 prepared where c: "dict_get (st_claims s) (fu_claim_id expected) = Some c"
    and f: "dict_get (st_follow_ups s) (fu_follow_up_id expected) = Some expected"
    and new: "dict_get (st_follow_up_operations s) (op_operation_id p) = None"
    and t: "reduce_due_follow_up c x expected
        (operations_of s (fu_claim_id expected) (fu_follow_up_id expected)) now = Inr t"
      "dt_follow_up t = uf" "dt_operation t = p" "dt_settled_previous t = q"
    and q: "operation_step s q" and audit: "prepare_audit_events s c [event] [] = Inr prepared"
    and s1: "store_message (put_operation (Some p) (put_operation q s)) m = Inr s1"
    and s': "s' = store_audit_events prepared (put_follow_up uf s1)"
    using commit_due_Inr [OF assms(2)] False by blast
  note frame = store_message_frame [OF s1]
  have h: "histories_ok s" "claims_ok s" "index_ok s" using ok by (simp_all add: recovery_store_ok_def)
  have fu': "st_follow_ups s' = dict_put (fu_follow_up_id uf) uf (st_follow_ups s)"
    and ops': "st_follow_up_operations s'
        = st_follow_up_operations (put_operation (Some p) (put_operation q s))"
    using frame by (simp_all add: s' recovery_writes)
  note due = histories_due [OF h(1) f _ _ _ t(1), of s', unfolded t(2-4), OF _ _ _ q new fu' ops']
  have cid: "wc_claim_id c = fu_claim_id expected" "bounded_text 1 120 (wc_claim_id c)" "1 \<le> wc_revision c"
    using claims_get [OF h(2) c] by simp_all
  have "dict_get (st_follow_up_operations (put_operation q s)) (op_operation_id p) = None"
    using new q by (cases q) (auto simp: put_operation_def operation_step_def)
  then have "grows_in operation_extends (st_follow_up_operations (put_operation q s)) (st_follow_up_operations s')"
    unfolding ops' by (simp add: put_operation_def [of "Some p"] grows_in_put)
  then have grows: "grows_in operation_extends (st_follow_up_operations s) (st_follow_up_operations s')"
    by (rule grows_in_trans [OF grows_operation [OF q] _ operation_extends_trans])
  show ?thesis
  proof (rule obligation_step [OF ok f _ due(2) _ fu' due(1) grows])
    show "fu_status expected \<noteq> FU_resolved" "fu_attempt_count expected \<le> fu_attempt_count uf"
      using due(3,4) cid by simp_all
    have "index_ok (put_operation (Some p) (put_operation q s))"
      using h(3) index_cong [of "put_operation (Some p) (put_operation q s)" s] by simp
    then have "index_ok s1" by (rule index_store_message [OF _ s1])
    then have "index_ok s'" using index_cong [of s' s1] by (simp add: s' recovery_writes)
    moreover have "grows_in (=) (st_messages s) (st_messages s')"
      using frame(6) fresh by (auto simp: s' recovery_writes intro!: grows_in_put)
    ultimately show "beside_ok s s'"
      using grows_audit [OF audit, of "put_follow_up uf s1"] frame
      by (simp add: beside_ok_def s' recovery_writes grows_in_refl)
  qed (use frame cid in \<open>simp_all add: s' recovery_writes\<close>)
qed

lemma unused_identity:
  "histories_ok s \<Longrightarrow> dict_get (st_follow_ups s) i = None \<Longrightarrow>
     dict_get (st_follow_up_operations s) j = Some p \<Longrightarrow> op_follow_up_id p \<noteq> i"
  using histories_operation [of s j p] by auto

lemma new_history:
  assumes "histories_ok s" "dict_get (st_follow_ups s) (fu_follow_up_id f) = None" "fu_attempt_count f = 0"
  shows "sound_history s f"
proof -
  have "operations_of s (fu_claim_id f) (fu_follow_up_id f) = []"
  proof -
    have keyed: "stored_operations s" using assms(1) by (simp add: histories_ok_def)
    have "p \<notin> set (operations_of s (fu_claim_id f) (fu_follow_up_id f))" for p
      unfolding operations_of_set [OF keyed] using unused_identity [OF assms(1,2)] by blast
    then show ?thesis by (metis list.set_intros(1) neq_Nil_conv)
  qed
  then show ?thesis
    using assms(3) by (simp add: sound_history_def attempt_history_def outstanding_ok_def countable_attempts_def)
qed

lemma checkpoint_safe:
  assumes ok: "recovery_store_ok s" and "save_incomplete_checkpoint s c rv x f record = Inr s'"
    and new: "fu_purpose f = ''resume_incomplete_claim''" "bounded_text 1 120 (fu_follow_up_id f)"
      "length (fu_source_refs f) \<le> 20"
    and kept: "opt_all (\<lambda>d. wc_terminal_disposition d \<noteq> None \<longrightarrow>
        wc_terminal_disposition c = wc_terminal_disposition d) (dict_get (st_claims s) (wc_claim_id c))"
  shows "recovery_store_ok s' \<and> recovery_grows s s'"
proof -
  obtain stored realtime where v: "validate_claim_mutation s c rv True None = Inr stored"
    and cp: "checkpoint_ok stored (dict_get (st_sessions s) (se_session_id x)) c rv x f record"
    and idem: "dict_get (st_idempotency s) (idempotency_lookup record) = None"
    and fresh: "dict_get (st_follow_ups s) (fu_follow_up_id f) = None"
    and none: "\<not> open_follow_up_exists s (wc_claim_id c) (fu_purpose f)"
    and s': "s' = commit_realtime realtime (put_idempotency record (put_follow_up f
        (store_session (put_claim c s) x)))"
    using save_checkpoint_Inr [OF assms(2)] by blast
  note claim = validate_claim_mutation_Inr [OF v]
  have h: "histories_ok s" "claims_ok s" "exclusive_ok s" "index_ok s"
    and keyed: "keyed fu_follow_up_id (st_follow_ups s)"
    using ok by (simp_all add: recovery_store_ok_def histories_ok_def)
  have tables: "st_claims s' = dict_put (wc_claim_id c) c (st_claims s)"
    "st_follow_ups s' = dict_put (fu_follow_up_id f) f (st_follow_ups s)"
    "st_follow_up_operations s' = st_follow_up_operations s" "st_messages s' = st_messages s"
    "st_audit_events s' = st_audit_events s"
    "st_idempotency s' = dict_put (idempotency_lookup record) record (st_idempotency s)"
    by (simp_all add: s' recovery_writes)
  have history: "sound_history s' g = sound_history s g" for g
    by (simp add: sound_history_def operations_of_cong [OF tables(3)])
  have "sound_history s f" by (rule new_history [OF h(1) fresh]) (use cp in \<open>simp add: checkpoint_ok_def\<close>)
  then have "histories_ok s'"
    using h(1) fresh new(2,3) unused_identity [OF h(1) fresh]
    unfolding histories_ok_def tables(2,3) history by (auto simp: keyed_put)
  moreover have "claims_ok s'" using claims_put [OF h(2) _ _ tables(1)] claim by simp
  moreover have "exclusive_ok s'"
  proof -
    have mine: "fu_claim_id f = wc_claim_id c" "wc_active_session_id c = None"
      using cp by (simp_all add: checkpoint_ok_def)
    have no: "\<not> open_obligation_of s (wc_claim_id c) g" for g
      using none unfolding new(1) open_exists_iff [OF keyed] by blast
    have "open_obligation_of s' d g \<Longrightarrow> g = f \<and> d = wc_claim_id c \<or> open_obligation_of s d g \<and> d \<noteq> wc_claim_id c" for d g
      using no mine by (auto simp: open_obligation_of_def tables(2) split: if_splits)
    then show ?thesis
      using h(3) mine(2) unfolding exclusive_ok_def tables(1) by (simp add: opt_all_iff) blast
  qed
  moreover have "index_ok s'"
  proof -
    have "index_ok (store_session (put_claim c s) x)"
      using h(4) index_cong [of "put_claim c s" s] by (intro index_store_session) (simp add: put_claim_def)
    then show ?thesis using index_cong [of s' "store_session (put_claim c s) x"] by (simp add: s' recovery_writes)
  qed
  moreover have "wc_claim_id stored = wc_claim_id c" using claims_get(1) [OF h(2)] claim by simp
  ultimately have "recovery_store_ok s'" "claim_extends stored c"
    using claim kept by (auto simp: recovery_store_ok_def claim_extends_def)
  moreover from this have "recovery_grows s s'"
    unfolding recovery_grows_def tables
    using claim fresh idem
    by (auto simp: grows_in_refl claim_extends_def intro!: grows_in_put)
  ultimately show ?thesis by simp
qed

lemma resumed_obligation:
  assumes "r = resumed_follow_up f r"
  shows "same_obligation f r" "fu_attempt_count r = fu_attempt_count f" "fu_status r = FU_resolved"
  by (subst assms, simp add: resumed_follow_up_def same_obligation_def)+

lemma reconciled_step:
  assumes "reconciled_ok s c f q" "stored_operations s"
  shows "operation_step s q" "opt_all (\<lambda>r. op_follow_up_id r = fu_follow_up_id f) q"
proof -
  have "\<exists>p. dict_get (st_follow_up_operations s) (op_operation_id r) = Some p
      \<and> assert_follow_up_operation_transition p r = Inr () \<and> op_follow_up_id p = fu_follow_up_id f"
    if q: "q = Some r" for r
  proof -
    obtain p where p: "filter (\<lambda>p. op_follow_up_id p = fu_follow_up_id f \<and> op_claim_id p = wc_claim_id c
        \<and> is_open_operation p) (dict_values (st_follow_up_operations s)) = [p]"
      "op_operation_id p = op_operation_id r" "assert_follow_up_operation_transition p r = Inr ()"
      using assms(1) q by (auto simp: reconciled_ok_def Let_def split: list.splits)
    have "p \<in> set (dict_values (st_follow_up_operations s)) \<and> op_follow_up_id p = fu_follow_up_id f"
      using filter_single_in [OF p(1)] by blast
    then show ?thesis using p(2,3) unfolding keyed_value_iff [OF assms(2)] by auto
  qed
  then show "operation_step s q" "opt_all (\<lambda>r. op_follow_up_id r = fu_follow_up_id f) q"
    using transition_keeps(4) by (cases q; force simp: operation_step_def)+
qed

lemma resume_audit:
  assumes "prepare_resume_audit s c resolved event = Inr prepared" "st_audit_events t = st_audit_events s"
  shows "grows_in (=) (st_audit_events s) (st_audit_events (store_audit_events prepared t))"
  using assms grows_audit
  by (auto simp: prepare_resume_audit_def store_audit_events_def grows_in_refl split: option.splits)

lemma commit_frame:
  "st_claims (commit_realtime e (store_audit_events d t)) = st_claims t"
  "st_follow_ups (commit_realtime e (store_audit_events d t)) = st_follow_ups t"
  "st_follow_up_operations (commit_realtime e (store_audit_events d t)) = st_follow_up_operations t"
  "st_messages (commit_realtime e (store_audit_events d t)) = st_messages t"
  "st_message_ids (commit_realtime e (store_audit_events d t)) = st_message_ids t"
  "st_idempotency (commit_realtime e (store_audit_events d t)) = st_idempotency t"
  "st_audit_events (commit_realtime e (store_audit_events d t)) = st_audit_events (store_audit_events d t)"
  by (simp_all add: recovery_writes)

lemma resume_safe:
  assumes ok: "recovery_store_ok s"
    and "save_session_mutation s c rv x record branch resolved reconciled replaced event = Inr s'"
    and kept: "opt_all (\<lambda>d. wc_terminal_disposition d \<noteq> None \<longrightarrow>
        wc_terminal_disposition c = wc_terminal_disposition d) (dict_get (st_claims s) (wc_claim_id c))"
  shows "recovery_store_ok s' \<and> recovery_grows s s'"
proof -
  obtain stored prepared realtime where v: "validate_claim_mutation s c rv True None = Inr stored"
    and guards: "passes (resolution_guards s c resolved reconciled)"
    and audit: "prepare_resume_audit s c resolved event = Inr prepared"
    and idem: "dict_get (st_idempotency s) (idempotency_lookup record) = None"
    and s': "s' = commit_realtime realtime (store_audit_events prepared (put_idempotency record
        (put_optional put_branch_evaluation branch (put_operation reconciled
          (put_optional put_follow_up resolved (store_session
            (put_optional (\<lambda>r t. store_session t r) replaced (put_claim c s)) x))))))"
    using save_session_Inr [OF assms(2)] by blast
  note claim = validate_claim_mutation_Inr [OF v]
  let ?t = "store_session (put_optional (\<lambda>r t. store_session t r) replaced (put_claim c s)) x"
  let ?u = "put_idempotency record (put_optional put_branch_evaluation branch (put_operation reconciled
      (put_optional put_follow_up resolved ?t)))"
  have h: "histories_ok s" "claims_ok s" "exclusive_ok s" "index_ok s"
    and keyed: "keyed fu_follow_up_id (st_follow_ups s)" "stored_operations s"
    using ok by (simp_all add: recovery_store_ok_def histories_ok_def)
  have u: "st_claims ?u = dict_put (wc_claim_id c) c (st_claims s)" "st_messages ?u = st_messages ?t"
    "st_message_ids ?u = st_message_ids ?t" "st_messages ?t = st_messages s"
    "st_audit_events ?u = st_audit_events s"
    "st_idempotency ?u = dict_put (idempotency_lookup record) record (st_idempotency s)"
    "st_follow_up_operations ?u = st_follow_up_operations (put_operation reconciled s)"
    "st_follow_ups ?u = st_follow_ups (put_optional put_follow_up resolved s)"
    by (simp_all add: recovery_writes put_optional_def put_operation_def split: option.split)
  have claims': "st_claims s' = dict_put (wc_claim_id c) c (st_claims s)"
    and ops': "st_follow_up_operations s' = st_follow_up_operations (put_operation reconciled s)"
    and fu': "st_follow_ups s' = st_follow_ups (put_optional put_follow_up resolved s)"
    by (simp_all only: s' commit_frame u)
  have "wc_claim_id stored = wc_claim_id c" using claims_get(1) [OF h(2)] claim by simp
  then have extends: "claim_extends stored c" using claim kept by (auto simp: claim_extends_def)
  have beside: "beside_ok s s'"
  proof -
    have "index_ok (put_claim c s)" using h(4) index_cong [of "put_claim c s" s] by (simp add: put_claim_def)
    then have "index_ok (put_optional (\<lambda>r t. store_session t r) replaced (put_claim c s))"
      by (simp add: put_optional_def index_store_session split: option.split)
    then have "index_ok s'" using index_store_session index_cong [of s' ?t] u by (simp add: s' recovery_writes)
    then show ?thesis
      using resume_audit [OF audit u(5)] idem u
      by (simp add: beside_ok_def s' recovery_writes grows_in_refl grows_in_put)
  qed
  show ?thesis
  proof (cases resolved)
    case (Some r)
    then obtain f where f: "dict_get (st_follow_ups s) (fu_follow_up_id r) = Some f"
      "f \<in> set (open_recovery s c)" "r = resumed_follow_up f r" "reconciled_ok s c f reconciled"
      using guards by (auto simp: resolution_guards_def Let_def split: option.splits)
    note same = resumed_obligation [OF f(3)] and step = reconciled_step [OF f(4) keyed(2)]
    have id: "fu_follow_up_id r = fu_follow_up_id f" using same(1) by (simp add: same_obligation_def)
    have stored_f: "dict_get (st_follow_ups s) (fu_follow_up_id f) = Some f" using f(1) id by simp
    have opened: "open_obligation_of s (wc_claim_id c) f" using f(2) open_recovery_iff [OF keyed(1)] by blast
    have fu'': "st_follow_ups s' = dict_put (fu_follow_up_id r) r (st_follow_ups s)"
      by (simp add: fu' Some put_optional_def put_follow_up_def)
    show ?thesis
    proof (rule obligation_step [OF ok stored_f _ same(1) _ fu''
          histories_closing [OF h(1) stored_f same(1,2) step fu'' ops'] _ _ beside])
      show "fu_status f \<noteq> FU_resolved" using opened by (simp add: open_obligation_of_def)
      show "grows_in operation_extends (st_follow_up_operations s) (st_follow_up_operations s')"
        using grows_operation [OF step(1)] by (simp add: ops')
      show "st_claims s' = st_claims s \<or> (\<exists>d d0. dict_get (st_claims s) (wc_claim_id d) = Some d0
          \<and> claim_extends d0 d \<and> st_claims s' = dict_put (wc_claim_id d) d (st_claims s)
          \<and> (wc_active_session_id d = wc_active_session_id d0 \<or> wc_claim_id d = fu_claim_id f
             \<and> fu_purpose f = ''resume_incomplete_claim'' \<and> fu_status r = FU_resolved))"
        using claim extends claims' opened same(3)
        by (intro disjI2 exI [of _ c] exI [of _ stored]) (simp add: open_obligation_of_def)
    qed (simp add: same(2))
  next
    case None
    have none: "\<not> open_obligation_of s (wc_claim_id c) f" for f
      using guards open_recovery_iff [OF keyed(1), of f c] by (simp add: resolution_guards_def Let_def None)
    have r: "reconciled = None" using guards by (simp add: resolution_guards_def Let_def None)
    have same: "st_follow_ups s' = st_follow_ups s" "st_follow_up_operations s' = st_follow_up_operations s"
      by (simp_all add: fu' ops' None r put_optional_def put_operation_def)
    have "histories_ok s'" using h(1) histories_cong [OF same] by simp
    moreover have "claims_ok s'" using claims_put [OF h(2) _ _ claims'] claim by simp
    moreover have "exclusive_ok s'"
    proof -
      have "open_obligation_of s' d g = open_obligation_of s d g" for d g
        by (simp add: open_obligation_of_def same(1))
      then show ?thesis
        using h(3) none unfolding exclusive_ok_def claims' by (simp add: opt_all_iff) blast
    qed
    moreover have "recovery_grows s s'"
      using beside claim extends
      by (auto simp: recovery_grows_def beside_ok_def same claims' grows_in_refl intro!: grows_in_put)
    ultimately show ?thesis using beside by (simp add: recovery_store_ok_def beside_ok_def)
  qed
qed

section \<open>The machine\<close>

datatype recovery_call =
    Due_attempt follow_up follow_up operation "operation option" message string audit_event
  | Expiry int follow_up working_claim follow_up "operation option" string audit_event
  | Withdrawal int follow_up follow_up "operation option" string audit_event
  | Staff_abandonment int follow_up working_claim follow_up "operation option" string idempotency audit_event
  | Checkpoint working_claim int session follow_up idempotency
  | Resume working_claim int session idempotency "branch_evaluation option" "follow_up option"
      "operation option" "session option" "audit_event option"

fun exec_recovery :: "store \<Rightarrow> recovery_call \<Rightarrow> repo_error + store" where
  "exec_recovery s (Due_attempt f g p q m u e) = commit_due_follow_up_attempt s f g p q m u e"
| "exec_recovery s (Expiry rv f c g r u e) = commit_recovery_expiry s rv f c g r u e"
| "exec_recovery s (Withdrawal rv f g r u e) = commit_follow_up_contact_withdrawal s rv f g r u e"
| "exec_recovery s (Staff_abandonment rv f c g r u i e) =
     commit_recovery_staff_abandonment s rv f c g r u i e"
| "exec_recovery s (Checkpoint c rv x f i) = save_incomplete_checkpoint s c rv x f i"
| "exec_recovery s (Resume c rv x i b f r y e) = save_session_mutation s c rv x i b f r y e"

text \<open>
  What the services pass: message identities are derived from the operation, checkpoints
  carry a valid recovery Follow-up, and the Claim of a session change keeps a terminal
  disposition that is already recorded.
\<close>

definition keeps_terminal :: "store \<Rightarrow> working_claim \<Rightarrow> bool" where
  "keeps_terminal s c \<longleftrightarrow> opt_all (\<lambda>d. wc_terminal_disposition d \<noteq> None \<longrightarrow>
     wc_terminal_disposition c = wc_terminal_disposition d) (dict_get (st_claims s) (wc_claim_id c))"

fun recovery_allowed :: "store \<Rightarrow> recovery_call \<Rightarrow> bool" where
  "recovery_allowed s (Due_attempt f g p q m u e) \<longleftrightarrow>
     opt_all (\<lambda>x. x = m) (dict_get (st_messages s) (ms_message_id m))"
| "recovery_allowed s (Checkpoint c rv x f i) \<longleftrightarrow> fu_purpose f = ''resume_incomplete_claim''
     \<and> bounded_text 1 120 (fu_follow_up_id f) \<and> length (fu_source_refs f) \<le> 20 \<and> keeps_terminal s c"
| "recovery_allowed s (Resume c rv x i b f r y e) \<longleftrightarrow> keeps_terminal s c"
| "recovery_allowed s _ \<longleftrightarrow> True"

lemma exec_recovery_ok:
  assumes "recovery_store_ok s" "recovery_allowed s call" "exec_recovery s call = Inr s'"
  shows "recovery_store_ok s' \<and> recovery_grows s s'"
  using assms(2,3) due_ok [OF assms(1)] expiry_ok [OF assms(1)] withdrawal_ok [OF assms(1)]
    staff_ok [OF assms(1)] checkpoint_safe [OF assms(1)] resume_safe [OF assms(1)]
  by (cases call) (simp_all add: keeps_terminal_def)

interpretation recovery_machine: growing_machine exec_recovery recovery_allowed
  recovery_store_ok recovery_grows
  by unfold_locales
    (auto simp: recovery_grows_refl intro: recovery_grows_trans dest: exec_recovery_ok)

section \<open>Commits apply once\<close>

text \<open>
  A worker that lost the response of its commit may send it again, and two workers may send
  the same commit: the second due attempt is a replay without effect, and the second terminal
  commit is refused by the revision it was computed for.
\<close>

lemma due_reduced:
  assumes ok: "recovery_store_ok s" and c: "dict_get (st_claims s) (fu_claim_id f) = Some c"
    and f: "dict_get (st_follow_ups s) (fu_follow_up_id f) = Some f"
    and "reduce_due_follow_up c x f (operations_of s (fu_claim_id f) (fu_follow_up_id f)) now = Inr t"
  shows "same_obligation f (dt_follow_up t)"
proof -
  have h: "histories_ok s" "claims_ok s" using ok by (simp_all add: recovery_store_ok_def)
  have "attempt_history c f (operations_of s (fu_claim_id f) (fu_follow_up_id f))"
    using histories_get [OF h(1) f] claims_get(1) [OF h(2) c] by (simp add: sound_history_def)
  then have seq: "list_all (\<lambda>p. 1 \<le> op_sequence p) (operations_of s (fu_claim_id f) (fu_follow_up_id f))"
    by (simp add: attempt_history_def)
  from assms(4) show ?thesis
    unfolding reduce_due_Inr_iff [OF stored_limits [OF ok c f] seq] using due_obligation(1) by blast
qed

lemma due_commit_replays:
  assumes ok: "recovery_store_ok s" and "commit_due_follow_up_attempt s f uf p q m customer event = Inr s'"
  shows "commit_due_follow_up_attempt s' f uf p q m customer event = Inr s'"
proof (cases "s' = s")
  case True
  then show ?thesis using assms(2) by simp
next
  case False
  obtain c x now t s1 prepared where l: "dict_get (st_claims s) (fu_claim_id f) = Some c"
      "wc_customer_id c = customer" "dict_get (st_sessions s) (fu_source_session_id f) = Some x"
    and f: "dict_get (st_follow_ups s) (fu_follow_up_id f) = Some f"
    and t: "reduce_due_follow_up c x f (operations_of s (fu_claim_id f) (fu_follow_up_id f)) now = Inr t"
      "dt_follow_up t = uf"
    and s1: "store_message (put_operation (Some p) (put_operation q s)) m = Inr s1"
    and s': "s' = store_audit_events prepared (put_follow_up uf s1)"
    using commit_due_Inr [OF assms(2)] False by blast
  have "fu_follow_up_id uf = fu_follow_up_id f"
    using due_reduced [OF ok l(1) f t(1)] t(2) by (simp add: same_obligation_def)
  moreover have "st_sessions s1 = st_sessions s"
    using s1 unfolding store_message_Inr_iff by (simp add: Let_def)
  ultimately show ?thesis
    using store_message_frame [OF s1] l
    by (simp add: commit_due_follow_up_attempt_def load_obligation_def replay_attempt_def s'
        recovery_writes put_operation_def [of "Some p"])
qed

lemma expiry_refused_again:
  assumes ok: "recovery_store_ok s" and "commit_recovery_expiry s rv f uc uf r customer event = Inr s'"
  shows "commit_recovery_expiry s' rv f uc uf r customer event = Inl (RevisionConflict (rv + 1))"
proof -
  obtain c x now t prepared realtime where c: "dict_get (st_claims s) (fu_claim_id f) = Some c"
      "wc_customer_id c = customer" "wc_revision c = rv"
      "dict_get (st_sessions s) (fu_source_session_id f) = Some x"
    and f: "dict_get (st_follow_ups s) (fu_follow_up_id f) = Some f"
    and t: "reduce_expired_follow_up c x f (operations_of s (wc_claim_id c) (fu_follow_up_id f)) now = Inr t"
      "tt_claim t = uc" "tt_follow_up t = uf"
    and s': "s' = commit_realtime realtime (store_audit_events prepared
        (put_claim uc (put_follow_up uf (put_operation r s))))"
    using commit_expiry_Inr [OF assms(2)] by blast
  have "uc = expired_claim c (abandoned_disposition Reason_recovery_expired expiry_actor c f now) now"
    "uf = resolved_follow_up RECOVERY_EXPIRED ''recovery_expired'' f now"
    using t unfolding reduce_expired_Inr_iff [OF stored_limits [OF ok c(1) f]] by auto
  then have "wc_claim_id uc = wc_claim_id c" "wc_customer_id uc = customer" "wc_revision uc = rv + 1"
    "fu_follow_up_id uf = fu_follow_up_id f"
    using c by (simp_all add: expired_claim_def resolved_follow_up_def)
  moreover have "wc_claim_id c = fu_claim_id f"
    using claims_get(1) [OF _ c(1)] ok by (simp add: recovery_store_ok_def)
  ultimately show ?thesis
    using c(4) by (simp add: commit_recovery_expiry_def load_obligation_def s' recovery_writes)
qed

section \<open>Discovery of due and expiring obligations\<close>

text \<open>No obligation is due and expired at the same time, and what discovery lists is stored.\<close>

lemma due_not_expired: "due_selected now f \<Longrightarrow> \<not> expiry_selected now f"
  by (auto simp: due_selected_def expiry_selected_def)

end
