(* ===== verification/Service_Safety.thy ===== *)
theory Service_Safety
  imports Recovery_Worker Retention_Safety Follow_Up_Safety
begin

text \<open>
  What the services make of the repository. A service is a client of the repository: whatever
  relation between stores every repository call respects, the service respects too. The
  relation is the parameter of a locale; it is instantiated with the consistency of the
  retention stores and with what a whole worker cycle never undoes.
\<close>

section \<open>Clients of the repository\<close>

lemma relay_snd:
  "snd (case r of (Inl e, s) \<Rightarrow> (Inl (f e), s) | (Inr x, s) \<Rightarrow> (Inr (g x), s)) = snd r"
  by (simp split: prod.split sum.split)

lemma with_world: "fst (snd (case r of (x, s) \<Rightarrow> (x, s, w))) = snd r"
  by (simp split: prod.split)

locale repository_client =
  fixes R :: "store \<Rightarrow> store \<Rightarrow> bool"
  assumes same: "R s s"
    and later: "R s t \<Longrightarrow> R t u \<Longrightarrow> R s u"
    and audit: "append_audit_event s e = Inr s' \<Longrightarrow> R s s'"
    and freeze: "freeze_retention_targets s i rv now = Inr (s', q) \<Longrightarrow> R s s'"
    and authorize: "authorize_retention_object_target s i tid rv now = Inr (s', q, a) \<Longrightarrow> R s s'"
    and object_result: "record_retention_object_result s i j outcome now = Inr (s', q) \<Longrightarrow> R s s'"
    and apply_record: "apply_retention_record_target s i tid rv now = Inr (s', q) \<Longrightarrow> R s s'"
    and step_failure: "record_retention_step_failure s i tid rv st d now = Inr (s', q) \<Longrightarrow> R s s'"
    and save_held: "save_retention_operation s q rv = Inr s' \<Longrightarrow> retention_valid q \<Longrightarrow> R s s'"
begin

lemma audit_service: "R s (snd (append_retention_audit p phase at tid unknown s))"
  using same audit by (auto simp: append_retention_audit_def split: sum.splits)

lemma reconciliation_service: "R s (snd (audit_reconciliation p s))"
  using same audit_service by (simp add: audit_reconciliation_def Let_def)

lemma after_audit_snd [simp]: "snd (after_audit p r) = snd r"
  by (simp add: after_audit_def split: prod.splits sum.splits)

lemma completed_service: "R s (snd (audit_completed p s))"
  using same audit_service by (simp add: audit_completed_def split: option.split)

lemma finish_service: "R s (snd (finish_cleanup p s))"
  using same completed_service by (simp add: finish_cleanup_def)

lemma hold_service: "R s (snd (hold_current_operation i ids now s))"
proof -
  have "retention_valid h" if "held_candidate q ids now = Inr h" "h \<noteq> q" for q h
    using that by (auto simp: held_candidate_def Let_def validated_Inr_iff split: if_splits)
  then show ?thesis
    using same save_held by (fastforce simp: hold_current_operation_def split: option.splits sum.splits)
qed

lemma freeze_service: "R s (snd (freeze_retention_cleanup_targets i now s))"
proof (cases "get_retention_operation s i")
  case (Some p)
  define r where "r = (if rt_targets_frozen_at p = None
    then freeze_retention_targets s (rt_operation_id p) (rt_revision p) now else Inr (s, p))"
  have frozen: "R s s1" if "r = Inr (s1, q)" for s1 q
    using that same freeze unfolding r_def by (auto split: if_splits)
  show ?thesis
  proof (cases r)
    case (Inr a)
    then obtain s1 q where a: "r = Inr (s1, q)" by (cases a) simp
    then show ?thesis
      using later [OF frozen [OF a] audit_service] frozen [OF a] same
      by (simp add: freeze_retention_cleanup_targets_def Some r_def [symmetric] a relay_snd
          split: option.split)
  qed (simp add: freeze_retention_cleanup_targets_def Some r_def [symmetric] same)
qed (simp add: freeze_retention_cleanup_targets_def same)

lemma delete_object_service: "R (fst sw) (fst (snd (delete_object storage t k now p sw)))"
  using same authorize later [OF authorize object_result]
  by (cases sw) (fastforce simp: delete_object_def Let_def split: sum.splits prod.splits option.splits)

lemma delete_objects_service: "R (fst sw) (fst (snd (delete_objects storage now ts p sw)))"
proof (induction ts arbitrary: p sw)
  case (Cons t ts)
  note one = delete_object_service [where sw = sw and storage = storage and t = t and now = now and p = p]
  show ?case
    using Cons.IH [of sw p] later [OF one Cons.IH] one same
    by (auto split: option.splits step_status.splits sum.splits prod.splits progress.splits)
      (metis fst_conv snd_conv)+
qed (simp add: same)

lemma object_cleanup_service:
  "R (fst sw) (fst (snd (execute_retention_object_cleanup storage i now sw)))"
proof (cases sw)
  case (Pair s w)
  then show ?thesis
    using same delete_objects_service [where sw = "(s, w)" and storage = storage and now = now]
      hold_service [of s]
    by (simp add: execute_retention_object_cleanup_def Let_def with_world split: option.split)
qed

lemma stop_service:
  "snd (case r of (Inl e, s') \<Rightarrow> (Inl e, s') | (Inr x, s') \<Rightarrow> (Inr (Stop (f x)), s')) = snd r"
  by (rule relay_snd)

lemma reconcile_service: "R s (snd (reconcile_step e t now p s))"
proof -
  have "R s (snd (audit_reconciliation q s1))"
    if "record_retention_step_failure s i tid rv st d now = Inr (s1, q)" for i tid rv st d s1 q
    using later [OF step_failure [OF that] reconciliation_service] .
  then show ?thesis
    using same finish_service
    by (auto simp: reconcile_step_def relay_snd split: option.splits sum.split)
qed

lemma clean_record_service: "R s (snd (clean_record t now p s))"
proof (cases "service_hold_ids s (rt_claim_id p) = []")
  case True
  show ?thesis
  proof (cases "apply_retention_record_target s (rt_operation_id p) (ta_target_id t) (rt_revision p) now")
    case (Inl e)
    then show ?thesis
      using True same reconcile_service by (cases e) (simp_all add: clean_record_def)
  next
    case (Inr a)
    then obtain s1 q where a: "a = (s1, q)" by (cases a)
    have "R s s1" using apply_record Inr a by simp
    then show ?thesis
      using True Inr later [OF \<open>R s s1\<close> reconciliation_service] later [OF \<open>R s s1\<close> finish_service]
      by (simp add: clean_record_def a relay_snd)
  qed
qed (use hold_service in \<open>simp add: clean_record_def Let_def relay_snd\<close>)

lemma clean_records_service: "R s (snd (clean_records now ts p s))"
proof (induction ts arbitrary: p s)
  case (Cons t ts)
  note one = clean_record_service [where s = s and t = t and now = now and p = p]
  show ?case
  proof (cases "clean_record t now p s")
    case (Pair r s1)
    then have "R s s1" using one by simp
    then show ?thesis
      using Cons.IH [of s p] later [OF \<open>R s s1\<close> Cons.IH [of s1]] same
      by (simp add: Pair split: option.split step_status.split sum.split progress.split)
  qed
qed (simp add: finish_service)

lemma after_objects_service: "R s (snd (after_objects now p s))"
  using same completed_service reconciliation_service clean_records_service
  by (simp add: after_objects_def)

lemma cleanup_service: "R (fst sw) (fst (snd (execute_retention_cleanup storage i now sw)))"
proof (cases sw)
  case (Pair s w)
  obtain r s1 w1 where o: "execute_retention_object_cleanup storage i now (s, w) = (r, s1, w1)"
    by (cases "execute_retention_object_cleanup storage i now (s, w)") auto
  then have one: "R s s1" using object_cleanup_service [of "(s, w)" storage i now] by simp
  have two: "R s (snd (after_objects now q s1))" for q by (rule later [OF one after_objects_service])
  show ?thesis
    using same [of s] completed_service [of s] one two
    by (simp add: Pair execute_retention_cleanup_def o with_world split: option.split sum.split)
qed

end

section \<open>Clients that run whole cycles\<close>

lemma each_candidate_Cons:
  "snd (each_candidate attempt (c # cs) s) = snd (each_candidate attempt cs (snd (attempt c s)))"
  by (simp split: prod.split)

locale worker_client = repository_client +
  assumes reserve: "reserve_eligible_retention_operation s p = Inr (s', q) \<Longrightarrow> retention_valid p \<Longrightarrow> R s s'"
    and expiry: "commit_recovery_expiry s rv f c g r u e = Inr s' \<Longrightarrow> R s s'"
    and due: "commit_due_follow_up_attempt s f g p' r' m u e = Inr s' \<Longrightarrow> R s s'"
    and withdrawal: "commit_follow_up_contact_withdrawal s rv f g r u e = Inr s' \<Longrightarrow> R s s'"
begin

lemma committed_service: "(\<And>s'. r = Inr s' \<Longrightarrow> R s s') \<Longrightarrow> R s (snd (committed lost t s r))"
  using same by (simp add: committed_def split: sum.split)

lemma committed_due: "R s (snd (committed lost t s (commit_due_follow_up_attempt s f g p r m u e)))"
  and committed_expiry: "R s (snd (committed lost t' s (commit_recovery_expiry s rv f c g r u e)))"
  and committed_withdrawal:
    "R s (snd (committed lost t'' s (commit_follow_up_contact_withdrawal s rv f g r u e)))"
  by (rule committed_service, erule due expiry withdrawal)+

lemma due_service: "R s (snd (process_due_follow_up f now s))"
  by (simp add: same committed_due process_due_follow_up_def Let_def split: option.split sum.split prod.split)

lemma expiry_service: "R s (snd (process_expiring_follow_up f now s))"
  by (simp add: same committed_expiry process_expiring_follow_up_def split: option.split sum.split prod.split)

lemma withdrawal_service: "R s (snd (process_follow_up_contact_withdrawal f now s))"
  by (simp add: same committed_withdrawal process_follow_up_contact_withdrawal_def split: option.split sum.split prod.split)

lemma reservation_service: "R s (snd (reserve_retention_from_terminal i now s))"
  using same reserve
  by (auto simp: reserve_retention_from_terminal_def validated_Inr_iff split: option.split sum.split)

lemma transition_fate_snd [simp]: "snd (transition_fate r) = snd r"
  by (simp add: transition_fate_def split: prod.split sum.split option.split)

lemma handoff_service: "R s (snd (handoff_attempt now i s))"
  using reservation_service [of s i now]
  by (auto simp: handoff_attempt_def
      split: prod.split sum.split service_error.split repo_error.split retention_error.split)

lemma retention_service:
  "R (fst sw) (fst (snd (retention_attempt storage now p sw)))"
proof (cases sw)
  case (Pair s w)
  obtain r s1 where f: "(if rt_targets_frozen_at p = None
      then freeze_retention_cleanup_targets (rt_operation_id p) now s else (Inr p, s)) = (r, s1)"
    by (cases "if rt_targets_frozen_at p = None
      then freeze_retention_cleanup_targets (rt_operation_id p) now s else (Inr p, s)")
  have one: "R s s1"
    using f same [of s] freeze_service [of s "rt_operation_id p" now] by (auto split: if_splits)
  have "R s (fst (snd (execute_retention_cleanup storage j now (s1, w))))" for j
    using later [OF one] cleanup_service [of "(s1, w)"] by simp
  then show ?thesis
    using one by (simp add: Pair retention_attempt_def f split: sum.split prod.split) (metis fst_conv snd_conv)
qed

lemma each_service:
  assumes "\<And>c s. R (proj s) (proj (snd (attempt c s)))"
  shows "R (proj s) (proj (snd (each_candidate attempt cs s)))"
proof (induction cs arbitrary: s)
  case (Cons c cs)
  show ?case
    unfolding each_candidate_Cons by (rule later [OF assms Cons.IH])
qed (simp add: same)

lemma phases:
  "each_candidate (expiry_attempt now) xs s = (a, t) \<Longrightarrow> R s t"
  "each_candidate (handoff_attempt now) ids s = (a, t) \<Longrightarrow> R s t"
  "each_candidate (retention_attempt storage now) ps (s, w) = (a, t, w') \<Longrightarrow> R s t"
  "each_candidate (due_attempt now) xs s = (a, t) \<Longrightarrow> R s t"
  using each_service [of id "expiry_attempt now" s xs] each_service [of id "handoff_attempt now" s ids]
    each_service [of fst "retention_attempt storage now" "(s, w)" ps]
    each_service [of id "due_attempt now" s xs]
  by (simp_all add: expiry_attempt_def due_attempt_def expiry_service due_service handoff_service
      retention_service)

lemma cycle_service:
  "R (fst sw) (fst (snd (run_recovery_cycle storage now limit hc pc sw)))"
proof (cases sw)
  case (Pair s w)
  show ?thesis
    unfolding Pair run_recovery_cycle_def
    by (auto split: sum.splits prod.splits simp: same dest!: phases) (meson later)+
qed

end

section \<open>Cleanup keeps the retention stores consistent\<close>

definition retention_safe :: "store \<Rightarrow> store \<Rightarrow> bool" where
  "retention_safe s s' \<longleftrightarrow> (retention_store_ok s \<longrightarrow> retention_store_ok s' \<and> retention_grows s s')"

lemma retention_safe_call:
  assumes "exec_retention s call = Inr s'" "retention_allowed s call"
  shows "retention_safe s s'"
  using exec_retention_ok [OF _ assms(2,1)] by (simp add: retention_safe_def)

interpretation cleanup: repository_client retention_safe
proof unfold_locales
  show "retention_safe s s" for s by (simp add: retention_safe_def retention_grows_refl)
  show "retention_safe s t \<Longrightarrow> retention_safe t u \<Longrightarrow> retention_safe s u" for s t u
    using retention_grows_trans by (auto simp: retention_safe_def)
  show "append_audit_event s e = Inr s' \<Longrightarrow> retention_safe s s'" for s e s'
    using audit_grows store_ok_same by (auto simp: retention_safe_def)
  show "freeze_retention_targets s i rv now = Inr (s', q) \<Longrightarrow> retention_safe s s'" for s i rv now s' q
    by (rule retention_safe_call [of _ "Freeze i rv now"]) simp_all
  show "authorize_retention_object_target s i tid rv now = Inr (s', q, a) \<Longrightarrow> retention_safe s s'"
    for s i tid rv now s' q a
    by (rule retention_safe_call [of _ "Authorize i tid rv now"]) simp_all
  show "record_retention_object_result s i j outcome now = Inr (s', q) \<Longrightarrow> retention_safe s s'"
    for s i j outcome now s' q
    by (rule retention_safe_call [of _ "Object_result i j outcome now"]) simp_all
  show "apply_retention_record_target s i tid rv now = Inr (s', q) \<Longrightarrow> retention_safe s s'"
    for s i tid rv now s' q
    by (rule retention_safe_call [of _ "Apply_record i tid rv now"]) simp_all
  show "record_retention_step_failure s i tid rv st d now = Inr (s', q) \<Longrightarrow> retention_safe s s'"
    for s i tid rv st d now s' q
    by (rule retention_safe_call [of _ "Step_failure i tid rv st d now"]) simp_all
  show "save_retention_operation s q rv = Inr s' \<Longrightarrow> retention_valid q \<Longrightarrow> retention_safe s s'" for s q rv s'
    by (rule retention_safe_call [of _ "Save_operation q rv"]) simp_all
qed

section \<open>What a cycle never undoes\<close>

text \<open>
  Whatever the store and whatever the provider answers: a cycle leaves the holds alone, never
  reopens a closed Claim, keeps every tombstone and every audit event, and never revives a
  retired idempotency record.
\<close>

definition cycle_grows :: "store \<Rightarrow> store \<Rightarrow> bool" where
  "cycle_grows s s' \<longleftrightarrow> st_retention_holds s' = st_retention_holds s
     \<and> grows_in (=) (st_retention_by_claim s) (st_retention_by_claim s')
     \<and> grows_in (=) (st_retention_tombstones s) (st_retention_tombstones s')
     \<and> grows_in (=) (st_audit_events s) (st_audit_events s')
     \<and> grows_in retired_stays (st_idempotency s) (st_idempotency s')
     \<and> st_work_items s' = st_work_items s \<and> st_runtime_turns s' = st_runtime_turns s"

lemma cycle_grows_refl: "cycle_grows s s"
  by (simp add: cycle_grows_def grows_in_refl retired_stays_def)

lemma cycle_grows_trans: "cycle_grows s t \<Longrightarrow> cycle_grows t u \<Longrightarrow> cycle_grows s u"
  unfolding cycle_grows_def
  by (auto intro: grows_in_trans [where R = "(=)"] grows_in_trans [where R = retired_stays]
      simp: retired_stays_def)

lemma cycle_store: "cycle_grows s (store_retention q s)"
  using cycle_grows_refl [of s] by (simp add: cycle_grows_def store_retention_def)

lemma cycle_close:
  assumes "dict_get (st_retention_by_claim s) (rt_claim_id p) = None"
  shows "cycle_grows s (retire_claimant_records c u (close_access p s))"
proof -
  have "cycle_grows s (close_access p s)"
    using cycle_grows_refl [of s] assms
    by (simp add: cycle_grows_def close_access_def store_retention_def grows_in_put)
  moreover have "cycle_grows t (retire_claimant_records c u t)" for t
    using grows_retire [of t c u] by (simp add: cycle_grows_def retention_grows_def retire_claimant_records_def)
  ultimately show ?thesis by (rule cycle_grows_trans)
qed

lemma cycle_effect:
  assumes "cleanup_decision s p t now = Inr effect"
  shows "cycle_grows s (apply_effect p t effect s)"
  using grows_effect [OF assms] apply_effect_frame [of s p t effect]
  by (simp add: cycle_grows_def retention_grows_def untouched_def)

lemma message_frame:
  assumes "store_message s m = Inr s'"
  shows "st_retention_holds s' = st_retention_holds s" "st_retention_by_claim s' = st_retention_by_claim s"
    "st_retention_tombstones s' = st_retention_tombstones s" "st_work_items s' = st_work_items s"
    "st_runtime_turns s' = st_runtime_turns s"
  using assms unfolding store_message_Inr_iff by (simp_all add: Let_def)

lemma put_operation_frame [simp]:
  "st_retention_holds (put_operation r s) = st_retention_holds s"
  "st_retention_by_claim (put_operation r s) = st_retention_by_claim s"
  "st_retention_tombstones (put_operation r s) = st_retention_tombstones s"
  "st_work_items (put_operation r s) = st_work_items s"
  "st_runtime_turns (put_operation r s) = st_runtime_turns s"
  by (simp_all add: put_operation_def split: option.split)

lemma cycle_audited:
  assumes "prepare_audit_events s c [e] [] = Inr prepared" "st_audit_events t = st_audit_events s"
    "st_retention_holds t = st_retention_holds s" "st_retention_by_claim t = st_retention_by_claim s"
    "st_retention_tombstones t = st_retention_tombstones s" "st_work_items t = st_work_items s"
    "st_runtime_turns t = st_runtime_turns s" "st_idempotency t = st_idempotency s"
  shows "cycle_grows s (store_audit_events prepared t)"
    "cycle_grows s (commit_realtime r (store_audit_events prepared t))"
  using assms(2-) grows_audit [OF assms(1,2)]
  by (simp_all add: cycle_grows_def grows_in_refl retired_stays_def recovery_writes)

lemma cycle_due:
  assumes "commit_due_follow_up_attempt s f g p q m u e = Inr s'"
  shows "cycle_grows s s'"
proof (cases "s' = s")
  case False
  then obtain c s1 prepared where audit: "prepare_audit_events s c [e] [] = Inr prepared"
    and s1: "store_message (put_operation (Some p) (put_operation q s)) m = Inr s1"
    and s': "s' = store_audit_events prepared (put_follow_up g s1)"
    using commit_due_Inr [OF assms] by blast
  show ?thesis
    unfolding s' using store_message_frame [OF s1] message_frame [OF s1]
    by (intro cycle_audited(1) [OF audit]) (simp_all add: put_follow_up_def)
qed (simp add: cycle_grows_refl)

interpretation cycle: worker_client cycle_grows
proof unfold_locales
  show "append_audit_event s e = Inr s' \<Longrightarrow> cycle_grows s s'" for s e s'
    using audit_grows [of s e s']
    by (auto simp: append_audit_event_def cycle_grows_def retention_grows_def split: option.splits if_splits)
  show "freeze_retention_targets s i rv now = Inr (s', q) \<Longrightarrow> cycle_grows s s'" for s i rv now s' q
    by (drule freeze_Inr) (auto simp: cycle_grows_refl cycle_store)
  show "authorize_retention_object_target s i tid rv now = Inr (s', q, a) \<Longrightarrow> cycle_grows s s'"
    for s i tid rv now s' q a
    by (drule authorize_Inr) (auto simp: cycle_grows_refl cycle_store)
  show "record_retention_object_result s i j outcome now = Inr (s', q) \<Longrightarrow> cycle_grows s s'"
    for s i j outcome now s' q
    by (drule object_result_Inr) (auto simp: cycle_grows_refl cycle_store)
  show "apply_retention_record_target s i tid rv now = Inr (s', q) \<Longrightarrow> cycle_grows s s'"
    for s i tid rv now s' q
    by (drule apply_record_Inr)
      (auto simp: cycle_grows_refl intro: cycle_grows_trans [OF cycle_effect cycle_store])
  show "record_retention_step_failure s i tid rv st d now = Inr (s', q) \<Longrightarrow> cycle_grows s s'"
    for s i tid rv st d now s' q
    by (drule step_failure_Inr) (auto simp: cycle_grows_refl cycle_store)
  show "save_retention_operation s q rv = Inr s' \<Longrightarrow> retention_valid q \<Longrightarrow> cycle_grows s s'" for s q rv s'
    by (auto simp: save_retention_operation_def cycle_grows_refl cycle_store bind_result_Inr_iff
        split: option.splits if_splits)
  show "reserve_eligible_retention_operation s p = Inr (s', q) \<Longrightarrow> retention_valid p \<Longrightarrow> cycle_grows s s'"
    for s p s' q
    using candidate_reservation cycle_close
    by (drule_tac reserve_eligible_Inr) (fastforce simp: cycle_grows_refl)
  show "commit_recovery_expiry s rv f c g r u e = Inr s' \<Longrightarrow> cycle_grows s s'" for s rv f c g r u e s'
    by (drule commit_expiry_Inr)
      (auto intro!: cycle_audited(2) simp: put_claim_def put_follow_up_def)
  show "commit_follow_up_contact_withdrawal s rv f g r u e = Inr s' \<Longrightarrow> cycle_grows s s'"
    for s rv f g r u e s'
    by (drule commit_withdrawal_Inr) (auto intro!: cycle_audited(2) simp: put_follow_up_def)
qed (auto intro: cycle_grows_refl cycle_grows_trans cycle_due)

section \<open>What the provider is asked to delete\<close>

text \<open>A provider that also records what it is asked for.\<close>

type_synonym object_call = "string \<times> string \<times> string"

definition recording :: "'w deletion \<Rightarrow> ('w \<times> object_call list) deletion" where
  "recording storage = (\<lambda>(w, l) claim_id evidence_id storage_key.
     case storage w claim_id evidence_id storage_key of
       (r, w') \<Rightarrow> (r, (w', l @ [(claim_id, evidence_id, storage_key)])))"

text \<open>
  A request is covered by the store when it names a frozen object target of the operation for
  which a deletion authorization is recorded.
\<close>

fun covered :: "string \<Rightarrow> store \<Rightarrow> object_call \<Rightarrow> bool" where
  "covered i s (claim_id, evidence_id, storage_key) \<longleftrightarrow>
     (\<exists>q t a. dict_get (st_retention_operations s) i = Some q \<and> rt_targets_frozen_at q \<noteq> None
        \<and> rt_claim_id q = claim_id \<and> t \<in> set (rt_targets q) \<and> ta_kind t = Target_object_bytes
        \<and> ta_record_id t = evidence_id \<and> ta_storage_key t = Some storage_key
        \<and> a \<in> set (rt_delete_authorizations q) \<and> da_target_id a = ta_target_id t)"

definition running :: "string \<Rightarrow> cleanup_target list \<Rightarrow> retention_operation \<Rightarrow> store \<Rightarrow> bool" where
  "running i ts p s \<longleftrightarrow> retention_store_ok s \<and> dict_get (st_retention_operations s) i = Some p
     \<and> rt_targets_frozen_at p \<noteq> None \<and> set ts \<subseteq> set (rt_targets p)"

lemma running_grows:
  assumes "running i ts p s" "retention_safe s s'"
  shows "\<exists>q. running i ts q s' \<and> rt_operation_id q = i \<and> rt_claim_id q = rt_claim_id p
    \<and> rt_targets q = rt_targets p \<and> set (rt_delete_authorizations p) \<subseteq> set (rt_delete_authorizations q)"
proof -
  have p: "retention_store_ok s'" "grows_in retention_extends (st_retention_operations s) (st_retention_operations s')"
    using assms by (auto simp: running_def retention_safe_def retention_grows_def)
  then obtain q where q: "dict_get (st_retention_operations s') i = Some q" "retention_extends p q"
    using assms(1) unfolding running_def grows_in_def by blast
  then show ?thesis
    using assms(1) p(1) store_ok_get(1) [OF p(1) q(1)]
    by (auto simp: running_def retention_extends_def same_coordinates_def extends_list_iff)
qed

lemma covered_grows:
  assumes "retention_store_ok s" "retention_safe s s'" "covered i s x"
  shows "covered i s' x"
proof (cases x)
  case (fields c e k)
  then obtain q t a where q: "running i [t] q s" "rt_claim_id q = c" "ta_kind t = Target_object_bytes"
    "ta_record_id t = e" "ta_storage_key t = Some k" "a \<in> set (rt_delete_authorizations q)"
    "da_target_id a = ta_target_id t"
    using assms(1,3) by (auto simp: running_def)
  then show ?thesis
    using running_grows [OF q(1) assms(2)] by (auto simp: fields running_def)
qed

lemma covered_all:
  "list_all (covered i s) l \<Longrightarrow> retention_store_ok s \<Longrightarrow> retention_safe s s' \<Longrightarrow> list_all (covered i s') l"
  by (erule list.pred_mono_strong) (rule covered_grows)

lemma authorize_covers:
  assumes "running i (t # ts) p s" "ta_kind t = Target_object_bytes" "ta_storage_key t = Some k"
    and "authorize_retention_object_target s i (ta_target_id t) rv now = Inr (s1, p1, a)"
  shows "running i (t # ts) p1 s1" "covered i s1 (rt_claim_id p1, ta_record_id t, k)"
proof -
  have p: "dict_get (st_retention_operations s) i = Some p" using assms(1) by (simp add: running_def)
  have a: "a \<in> set (rt_delete_authorizations p1) \<and> da_target_id a = ta_target_id t
      \<and> dict_get (st_retention_operations s1) i = Some p1"
  proof (cases "rt_active_delete_authorization_id p")
    case (Some j)
    then show ?thesis
      using assms(4) p
      by (auto simp: authorize_retention_object_target_def guarded_Inr_iff find_Some_iff in_set_conv_nth
          split: option.splits if_splits)
  next
    case None
    then have "retention_step p p1" "s1 = store_retention p1 s" "a = new_authorization p (ta_target_id t) now"
      "p1 = authorized_operation p a now"
      using authorize_Inr [OF assms(4)] p by auto
    then show ?thesis
      using retention_step_same [of p p1] store_ok_get(1) [OF _ p] assms(1)
      by (simp add: authorized_operation_def new_authorization_def Let_def running_def)
  qed
  obtain q where q: "running i (t # ts) q s1"
    using running_grows [OF assms(1) cleanup.authorize [OF assms(4)]] by blast
  then show run: "running i (t # ts) p1 s1" using a by (simp add: running_def)
  then show "covered i s1 (rt_claim_id p1, ta_record_id t, k)"
    using a assms(2,3) by (auto simp: running_def)
qed

lemma delete_object_covered:
  assumes "running i (t # ts) p s" "ta_kind t = Target_object_bytes" "ta_storage_key t = Some k"
    and "list_all (covered i s) l"
    and "delete_object (recording storage) t k now p (s, w, l) = (r, s', w', l')"
  shows "list_all (covered i s') l'" "r = Inr (Continue q) \<Longrightarrow> running i ts q s'"
proof -
  have ok: "retention_store_ok s" and id: "rt_operation_id p = i"
    using assms(1) store_ok_get(1) by (auto simp: running_def)
  have "list_all (covered i s') l' \<and> (r = Inr (Continue q) \<longrightarrow> running i ts q s')"
  proof (cases "authorize_retention_object_target s i (ta_target_id t) (rt_revision p) now")
    case (Inl e)
    then have "s' = s" "l' = l" "r = refused_authorization e i s"
      using assms(5) id by (auto simp: delete_object_def)
    then show ?thesis
      using assms(4)
      by (auto simp: refused_authorization_def split: repo_error.splits option.splits if_splits)
  next
    case (Inr a)
    then obtain s1 p1 b where a: "authorize_retention_object_target s i (ta_target_id t) (rt_revision p) now
        = Inr (s1, p1, b)" by (cases a) auto
    note c = authorize_covers [OF assms(1-3) a]
    have ok1: "retention_store_ok s1" and id1: "rt_operation_id p1 = i"
      using c(1) store_ok_get(1) by (auto simp: running_def)
    have l1: "list_all (covered i s1) (l @ [(rt_claim_id p1, ta_record_id t, k)])"
      using covered_all [OF assms(4) ok cleanup.authorize [OF a]] c(2) by simp
    obtain out w1 where o: "storage w (rt_claim_id p1) (ta_record_id t) k = (out, w1)" by fastforce
    let ?r = "record_retention_object_result s1 i (da_authorization_id b)
        (case out of None \<Rightarrow> Outcome_failed | Some x \<Rightarrow> x) now"
    show ?thesis
    proof (cases ?r)
      case (Inl e)
      then show ?thesis
        using assms(5) l1 by (simp add: delete_object_def id a o id1 recording_def) blast
    next
      case (Inr d)
      then obtain s2 p2 where d: "?r = Inr (s2, p2)" by (cases d) auto
      have safe: "retention_safe s1 s2" by (rule cleanup.object_result [OF d])
      have s': "s' = s2" "l' = l @ [(rt_claim_id p1, ta_record_id t, k)]" "r = Inr (Continue q) \<longrightarrow> q = p2"
        using assms(5) by (auto simp: delete_object_def id a o id1 recording_def d Let_def split: option.splits if_splits)
      have "dict_get (st_retention_operations s2) i = Some p2"
        using object_result_Inr [OF d] retention_step_same id1 c(1) by (fastforce simp: running_def)
      moreover obtain q' where "running i (t # ts) q' s2" using running_grows [OF c(1) safe] by blast
      ultimately have "running i ts p2 s2" by (simp add: running_def)
      then show ?thesis
        using covered_all [OF l1 ok1 safe] s' by blast
    qed
  qed
  then show "list_all (covered i s') l'" "r = Inr (Continue q) \<Longrightarrow> running i ts q s'" by blast+
qed

lemma delete_objects_covered:
  assumes "running i ts p s" "list_all (covered i s) l"
    and "delete_objects (recording storage) now ts p (s, w, l) = (r, s', w', l')"
  shows "list_all (covered i s') l'"
  using assms
proof (induction ts arbitrary: p s w l)
  case (Cons t ts)
  have skip: "running i ts p s" using Cons.prems(1) by (simp add: running_def)
  show ?case
  proof (cases "ta_kind t = Target_object_bytes \<and> target_status p (ta_target_id t) \<notin> {None, Some Step_satisfied}
      \<and> ta_storage_key t \<noteq> None")
    case False
    then show ?thesis
      using Cons.prems(2,3) Cons.IH [OF skip]
      by (auto split: if_splits option.splits step_status.splits)
  next
    case True
    then obtain k where k: "ta_storage_key t = Some k" by auto
    obtain x s1 w1 l1 where one: "delete_object (recording storage) t k now p (s, w, l) = (x, s1, w1, l1)"
      by (metis surj_pair)
    note c = delete_object_covered [OF Cons.prems(1) _ k Cons.prems(2) one]
    have step: "delete_objects (recording storage) now (t # ts) p (s, w, l) =
        (case x of Inl e \<Rightarrow> (Inl e, s1, w1, l1) | Inr (Stop q) \<Rightarrow> (Inr q, s1, w1, l1)
         | Inr (Continue q) \<Rightarrow> delete_objects (recording storage) now ts q (s1, w1, l1))"
      using True by (auto simp: k one split: option.splits step_status.splits sum.splits progress.splits)
    show ?thesis
      using Cons.prems(3) Cons.IH [OF c(2)] c(1) True unfolding step
      by (auto split: sum.splits progress.splits)
  qed
qed simp

lemma service_hold_ids_eq: "service_hold_ids s c = active_hold_ids s c"
proof -
  have "mset (map rh_hold_id (filter hold_active (list_retention_holds s c))) = mset (map rh_hold_id
      (filter (\<lambda>h. rh_claim_id h = c \<and> hold_active h) (dict_values (st_retention_holds s))))"
    by (simp add: list_retention_holds_def filter_filter_mset conj_commute)
  then show ?thesis
    unfolding service_hold_ids_def active_hold_ids_def
    by (intro properties_for_sort) (simp_all only: mset_sort sorted_sort)
qed

text \<open>A request for the object whose deletion is authorized and not yet answered.\<close>

fun in_flight :: "retention_operation \<Rightarrow> object_call \<Rightarrow> bool" where
  "in_flight p (claim_id, evidence_id, storage_key) \<longleftrightarrow> claim_id = rt_claim_id p
     \<and> (\<exists>t a. t \<in> set (rt_targets p) \<and> ta_record_id t = evidence_id \<and> ta_storage_key t = Some storage_key
        \<and> a \<in> set (rt_delete_authorizations p) \<and> da_target_id a = ta_target_id t
        \<and> rt_active_delete_authorization_id p = Some (da_authorization_id a))"

lemma hold_authorizes_in_flight:
  assumes "dict_get (st_retention_operations s) i = Some p" "active_hold_ids s (rt_claim_id p) \<noteq> []"
    and "authorize_retention_object_target s i (ta_target_id t) rv now = Inr (s1, p1, a)"
    and "t \<in> set (rt_targets p)" "ta_storage_key t = Some k"
  shows "s1 = s" "p1 = p" "in_flight p (rt_claim_id p, ta_record_id t, k)"
proof -
  show same: "s1 = s" "p1 = p" using authorize_Inr [OF assms(3)] assms(1,2) by auto
  obtain j where j: "rt_active_delete_authorization_id p = Some j"
    using authorize_Inr [OF assms(3)] assms(1,2) by auto
  then have "find (\<lambda>a. da_authorization_id a = j) (rt_delete_authorizations p) = Some a" "da_target_id a = ta_target_id t"
    using assms(1,3) by (auto simp: authorize_retention_object_target_def guarded_Inr_iff split: option.splits if_splits)
  then show "in_flight p (rt_claim_id p, ta_record_id t, k)"
    using j assms(4,5) by (auto simp: find_Some_iff in_set_conv_nth)
qed

lemma held_delete_object:
  assumes "retention_store_ok s" "dict_get (st_retention_operations s) i = Some p"
    and "active_hold_ids s (rt_claim_id p) \<noteq> []" "t \<in> set (rt_targets p)" "ta_storage_key t = Some k"
    and "list_all (in_flight p) l"
    and "delete_object (recording storage) t k now p (s, w, l) = (r, s', w', l')"
  shows "list_all (in_flight p) l'" "r = Inr (Continue q) \<Longrightarrow> q = p \<and> s' = s"
proof -
  have id: "rt_operation_id p = i" by (rule store_ok_get(1) [OF assms(1,2)])
  have "list_all (in_flight p) l' \<and> (r = Inr (Continue q) \<longrightarrow> q = p \<and> s' = s)"
  proof (cases "authorize_retention_object_target s i (ta_target_id t) (rt_revision p) now")
    case (Inl e)
    then show ?thesis
      using assms(6,7) id
      by (auto simp: delete_object_def refused_authorization_def split: repo_error.splits option.splits if_splits)
  next
    case (Inr x)
    then obtain s1 p1 a where a: "authorize_retention_object_target s i (ta_target_id t) (rt_revision p) now = Inr (s1, p1, a)"
      by (cases x) auto
    note same = hold_authorizes_in_flight [OF assms(2,3) a assms(4,5)]
    obtain out w1 where o: "storage w (rt_claim_id p) (ta_record_id t) k = (out, w1)" by fastforce
    let ?r = "record_retention_object_result s i (da_authorization_id a)
        (case out of None \<Rightarrow> Outcome_failed | Some x \<Rightarrow> x) now"
    have l': "l' = l @ [(rt_claim_id p, ta_record_id t, k)]"
      using assms(7) by (auto simp: delete_object_def id a same(1,2) o recording_def Let_def
          split: sum.splits option.splits if_splits)
    have "q = p \<and> s' = s" if continued: "r = Inr (Continue q)"
    proof -
      have d: "?r = Inr (s', q)" "rt_status q \<noteq> Ret_held"
        using assms(7) continued by (auto simp: delete_object_def id a same(1,2) o recording_def Let_def
            split: sum.splits option.splits if_splits)
      then have "s' = s" using hold_keeps_result [OF assms(2,3)] by blast
      moreover have "dict_get (st_retention_operations s') i = Some q"
        using object_result_Inr [OF d(1)] retention_step_same id assms(2) by (auto simp: store_retention_def)
      ultimately show ?thesis using assms(2) by simp
    qed
    then show ?thesis using l' assms(6) same(3) by simp
  qed
  then show "list_all (in_flight p) l'" "r = Inr (Continue q) \<Longrightarrow> q = p \<and> s' = s" by blast+
qed

lemma held_delete_objects:
  assumes "retention_store_ok s" "dict_get (st_retention_operations s) i = Some p"
    and "active_hold_ids s (rt_claim_id p) \<noteq> []" "set ts \<subseteq> set (rt_targets p)" "list_all (in_flight p) l"
    and "delete_objects (recording storage) now ts p (s, w, l) = (r, s', w', l')"
  shows "list_all (in_flight p) l'"
  using assms(4-)
proof (induction ts arbitrary: w l)
  case (Cons t ts)
  show ?case
  proof (cases "ta_kind t = Target_object_bytes \<and> target_status p (ta_target_id t) \<notin> {None, Some Step_satisfied}
      \<and> ta_storage_key t \<noteq> None")
    case False
    then show ?thesis
      using Cons.prems Cons.IH by (auto split: if_splits option.splits step_status.splits)
  next
    case True
    then obtain k where k: "ta_storage_key t = Some k" by auto
    obtain x s1 w1 l1 where one: "delete_object (recording storage) t k now p (s, w, l) = (x, s1, w1, l1)"
      by (metis surj_pair)
    have "t \<in> set (rt_targets p)" using Cons.prems(1) by simp
    note c = held_delete_object [OF assms(1-3) this k Cons.prems(2) one]
    have step: "delete_objects (recording storage) now (t # ts) p (s, w, l) =
        (case x of Inl e \<Rightarrow> (Inl e, s1, w1, l1) | Inr (Stop q) \<Rightarrow> (Inr q, s1, w1, l1)
         | Inr (Continue q) \<Rightarrow> delete_objects (recording storage) now ts q (s1, w1, l1))"
      using True by (auto simp: k one split: option.splits step_status.splits sum.splits progress.splits)
    show ?thesis
      using Cons.prems(1,3) Cons.IH [of l1 w1] c unfolding step
      by (auto split: sum.splits progress.splits)
  qed
qed simp

lemma object_cleanup_covered:
  assumes "retention_store_ok s" "dict_get (st_retention_operations s) i = Some p" "rt_targets_frozen_at p \<noteq> None"
    and "execute_retention_object_cleanup (recording storage) i now (s, w, []) = (r, s', w', l)"
  shows "list_all (covered i s') l"
    and "active_hold_ids s (rt_claim_id p) \<noteq> [] \<Longrightarrow> list_all (in_flight p) l"
proof -
  have run: "running i (sort_key ta_target_id (rt_targets p)) p s"
    using assms(1-3) by (simp add: running_def)
  show "list_all (covered i s') l"
    using assms(2,4) delete_objects_covered [OF run, of "[]"]
    by (auto simp: execute_retention_object_cleanup_def get_retention_operation_def Let_def
        split: if_splits prod.splits)
  show "active_hold_ids s (rt_claim_id p) \<noteq> [] \<Longrightarrow> list_all (in_flight p) l"
    using assms(2,4) held_delete_objects [OF assms(1,2), where ts = "sort_key ta_target_id (rt_targets p)" and l = "[]"]
    by (auto simp: execute_retention_object_cleanup_def get_retention_operation_def Let_def
        split: if_splits prod.splits)
qed

lemma cleanup_covered:
  assumes ok: "retention_store_ok s" and p: "dict_get (st_retention_operations s) i = Some p"
    and run: "execute_retention_cleanup (recording storage) i now (s, w, []) = (r, s', w', l)"
  shows "list_all (covered i s') l"
    and "active_hold_ids s (rt_claim_id p) \<noteq> [] \<Longrightarrow> list_all (in_flight p) l"
proof -
  obtain x s1 w1 l1 where o: "execute_retention_object_cleanup (recording storage) i now (s, w, []) = (x, s1, w1, l1)"
    by (metis surj_pair)
  have ok1: "retention_store_ok s1"
    using cleanup.object_cleanup_service [of "(s, w, [])" "recording storage" i now] ok o
    by (simp add: retention_safe_def)
  have c: "l = [] \<or> rt_targets_frozen_at p \<noteq> None \<and> l = l1 \<and> retention_safe s1 s'"
    using run p cleanup.after_objects_service [of s1 now] cleanup.same [of s1]
    by (auto simp: execute_retention_cleanup_def get_retention_operation_def o
        split: if_splits prod.splits sum.splits) (metis snd_conv)+
  then show "list_all (covered i s') l"
    using covered_all [OF object_cleanup_covered(1) [OF ok p _ o] ok1] by auto
  show "active_hold_ids s (rt_claim_id p) \<noteq> [] \<Longrightarrow> list_all (in_flight p) l"
    using c object_cleanup_covered(2) [OF ok p _ o] by auto
qed

end
