(* ===== verification/Service_Liveness.thy ===== *)
theory Service_Liveness
  imports Service_Safety
begin

text \<open>
  The services succeed where the contract of their reducer allows it: on a consistent store, a
  due obligation is contacted and an expired one is closed by one call of the worker's service,
  provided the derived identities are new.
\<close>

section \<open>A message without a reply is always accepted\<close>

lemma acyclic_sink:
  assumes "acyclic R" "R' \<subseteq> R \<union> UNIV \<times> {m}" "m \<notin> Domain R'"
  shows "acyclic R'"
proof (rule acyclicI, intro allI notI)
  have inside: "(a, b) \<in> R'\<^sup>+ \<Longrightarrow> b \<noteq> m \<Longrightarrow> (a, b) \<in> R\<^sup>+" for a b
  proof (induction rule: trancl_induct)
    case (base b)
    then show ?case using assms(2) by blast
  next
    case (step b c)
    then have "b \<noteq> m" "(b, c) \<in> R" using assms(2,3) by blast+
    then show ?case using step.IH by (meson trancl.trancl_into_trancl)
  qed
  fix a assume cycle: "(a, a) \<in> R'\<^sup>+"
  then have "a \<in> Domain R'" by (meson DomainI tranclD)
  then have "a \<noteq> m" using assms(3) by blast
  then show False using inside [OF cycle] assms(1) by (auto simp: acyclic_def)
qed

lemma message_graph_extended:
  assumes "validate_message_graph ms = Inr ()" "distinct (message_ids (ms @ [m]))" "ms_in_reply_to m = None"
  shows "validate_message_graph (ms @ [m]) = Inr ()"
proof -
  have d: "distinct (message_ids ms)" and new: "ms_message_id m \<notin> set (message_ids ms)"
    using assms(2) by (auto simp: message_ids_def)
  have "acyclic (reply_edges ms)"
    using assms(1) by (simp only: message_graph_valid_iff next_edges_distinct [OF d])
  then have "acyclic (reply_edges (ms @ [m]))"
  proof (rule acyclic_sink [where m = "ms_message_id m"])
    show "reply_edges (ms @ [m]) \<subseteq> reply_edges ms \<union> UNIV \<times> {ms_message_id m}"
      using assms(3) by (auto simp: reply_edges_def message_ids_def)
    show "ms_message_id m \<notin> Domain (reply_edges (ms @ [m]))"
      using assms(3) new by (auto simp: reply_edges_def message_ids_def)
  qed
  then show ?thesis by (simp only: message_graph_valid_iff next_edges_distinct [OF assms(2)])
qed

section \<open>Events and messages of the services\<close>

lemma default_digest_eq: "default_digest m = take 24 (sha256_hexdigest m)"
  by (simp add: default_digest_def stable_digest_Inr)

lemma recovery_audit_Inr:
  assumes "bounded_text 1 100 claim_id" "1 \<le> rv" "bounded_text 1 100 auth" "bounded_text 1 1000 reason"
    and "length (fromkeys refs) \<le> 100" "suffix \<noteq> []" "event_type \<notin> {CONSENT_GRANTED, CONSENT_DECLINED, CONSENT_WITHDRAWN}"
    and "opt_all (\<lambda>p. bounded_text 1 150 (ap_required_permission p)) permission"
    and "event_type \<notin> {PERMISSION_AUTHORISED, PERMISSION_REJECTED} \<or> permission \<noteq> None"
  shows "\<exists>e. recovery_audit suffix event_type claim_id rv actor auth reason refs at permission = Inr e
    \<and> au_claim_id e = Some claim_id \<and> au_claim_revision e = Some rv
    \<and> au_event_id e = ''aud_recovery_'' @ default_digest (suffix @ '':'' @ claim_id)"
proof -
  have "list_all event_id_char ''recovery_''" by (simp add: event_id_char_def)
  then have "event_id_pattern (''aud_'' @ ''recovery_'' @ take 24 (sha256_hexdigest m))" for m
    by (rule derived_event_id) simp_all
  then have id: "event_id_pattern (''aud_recovery_'' @ default_digest m)" for m
    by (simp add: default_digest_eq)
  have "bounded_text 1 100 (take 100 suffix)" using assms(6) by (cases suffix) (simp_all add: bounded_text_def)
  then show ?thesis
    using assms id [of "suffix @ '':'' @ claim_id"] unfolding recovery_audit_def new_audit_event_def
    by (simp add: guarded_append audit_subject_guards_def audit_requirement_guards_def audit_field_ok_def
        bounded_text_def)
qed

lemma in_app_message_Inr:
  assumes "length policy_id \<le> 100"
  shows "\<exists>m. in_app_follow_up_message f i policy_id 1 at = Inr m \<and> ms_claim_id m = fu_claim_id f
    \<and> ms_message_id m = ''msg_recovery_'' @ default_digest i
    \<and> ms_session_id m = fu_source_session_id f \<and> ms_actor m = Actor_agent
    \<and> ms_visibility m = Claimant_visible \<and> ms_created_at m = at \<and> ms_content m \<noteq> []
    \<and> ms_client_message_id m = None \<and> ms_evidence_refs m = [] \<and> ms_in_reply_to m = None"
proof -
  have "decimal 1 = ''1''" by code_simp
  then show ?thesis using assms by (simp add: in_app_follow_up_message_def Let_def)
qed

lemma prepared_event:
  assumes "au_claim_id e = Some (wc_claim_id c)" "au_claim_revision e = Some (wc_revision c)"
    and "dict_get (st_audit_events s) (au_event_id e) = None"
  shows "prepare_audit_events s c [e] [] = Inr [(au_event_id e, e)]"
  using assms by (simp add: prepare_audit_events.simps)

section \<open>Storing the message of an attempt\<close>

definition plain_message :: "session \<Rightarrow> message \<Rightarrow> bool" where
  "plain_message x m \<longleftrightarrow> se_session_id x = ms_session_id m \<and> se_claim_id x = ms_claim_id m
     \<and> ms_actor m = Actor_agent \<and> ms_visibility m = Claimant_visible \<and> ms_content m \<noteq> []
     \<and> ms_client_message_id m = None \<and> ms_evidence_refs m = [] \<and> ms_in_reply_to m = None"

lemma preflight_plain:
  assumes "plain_message x m" "dict_get (st_sessions s) (ms_session_id m) = Some x"
    and "keyed ms_message_id (st_messages s)" "dict_get (st_messages s) (ms_message_id m) = None"
    and "validate_message_graph (dict_values (st_messages s)) = Inr ()"
  shows "preflight_message s m = Inr ()"
proof -
  have "dict_get (st_messages s) (ms_message_id v) = Some v" if "v \<in> set (dict_values (st_messages s))" for v
    using that unfolding keyed_value_iff [OF assms(3)] .
  then have "ms_message_id m \<notin> ms_message_id ` set (dict_values (st_messages s))"
    using assms(4) by (metis imageE option.distinct(1))
  then have "distinct (message_ids (dict_values (st_messages s) @ [m]))"
    using keyed_distinct [OF assms(3)] by (simp add: message_ids_def image_image)
  then have "validate_message_graph (dict_values (st_messages s) @ [m]) = Inr ()"
    using message_graph_extended [OF assms(5)] assms(1) by (simp add: plain_message_def)
  moreover have "find (\<lambda>y. False) xs = None" for xs :: "message list" by (induction xs) simp_all
  ultimately show ?thesis
    using assms(1,2)
    by (simp add: preflight_message_def validate_message_record_def plain_message_def ACTOR_VISIBILITY_def
        map_filter_simps)
qed

lemma store_plain:
  assumes "preflight_message s m = Inr ()" "index_ok s"
  shows "\<exists>s'. store_message s m = Inr s'"
proof -
  let ?ids = "dict_list (st_message_ids s) (ms_session_id m)"
  have "indexed (st_messages s) ?ids"
  proof (cases "dict_get (st_message_ids s) (ms_session_id m)")
    case (Some ids)
    then show ?thesis using assms(2) unfolding index_ok_def dict_list_def by simp
  qed (simp add: dict_list_def indexed_def)
  then have "list_all (\<lambda>i. dict_get (dict_put (ms_message_id m) m (st_messages s)) i \<noteq> None)
      (append_new (ms_message_id m) ?ids)"
    by (simp add: indexed_def append_new_def list_all_iff)
  then show ?thesis using assms(1) by (simp add: store_message_def Let_def)
qed

section \<open>The obligation that is reloaded\<close>

lemma reload_open:
  assumes "recovery_store_ok s" "dict_get (st_claims s) (fu_claim_id f) = Some c"
    and "dict_get (st_follow_ups s) (fu_follow_up_id f) = Some f"
    and "dict_get (st_sessions s) (fu_source_session_id f) = Some x" "is_checkpoint c x f"
    and "\<not> claim_access_closed s (fu_claim_id f)"
    and "fu_claim_id candidate = fu_claim_id f" "fu_follow_up_id candidate = fu_follow_up_id f"
  shows "reload_obligation s candidate
    = Some (c, f, x, operations_of s (fu_claim_id f) (fu_follow_up_id f))"
proof -
  have "wc_claim_id c = fu_claim_id f"
    using claims_get(1) [OF _ assms(2)] assms(1) by (simp add: recovery_store_ok_def)
  then show ?thesis
    using assms(2-)
    by (simp add: reload_obligation_def get_follow_up_def get_session_def get_claim_def
        claimant_resource_access_open_def is_checkpoint_def list_follow_up_operations_def)
qed

lemma reload_closed:
  "claim_access_closed s (fu_claim_id candidate) \<Longrightarrow> reload_obligation s candidate = None"
  by (simp add: reload_obligation_def get_follow_up_def closed_no_claim split: option.split)

lemma closed_untouched:
  assumes "claim_access_closed s (fu_claim_id candidate)"
  shows "process_due_follow_up candidate now s = (Inr None, s)"
    "process_expiring_follow_up candidate now s = (Inr None, s)"
    "process_follow_up_contact_withdrawal candidate now s = (Inr None, s)"
  by (simp_all add: process_due_follow_up_def process_expiring_follow_up_def
      process_follow_up_contact_withdrawal_def reload_closed [OF assms])

section \<open>A due obligation is contacted\<close>

definition due_ready ::
  "store \<Rightarrow> working_claim \<Rightarrow> session \<Rightarrow> recovery_context \<Rightarrow> follow_up \<Rightarrow> datetime \<Rightarrow> bool" where
  "due_ready s c x rc f now \<longleftrightarrow> recovery_store_ok s \<and> \<not> claim_access_closed s (fu_claim_id f)
     \<and> dict_get (st_claims s) (fu_claim_id f) = Some c
     \<and> dict_get (st_follow_ups s) (fu_follow_up_id f) = Some f
     \<and> dict_get (st_sessions s) (fu_source_session_id f) = Some x
     \<and> validate_message_graph (dict_values (st_messages s)) = Inr ()
     \<and> open_obligation c x rc f \<and> contact_scheduled rc f \<and> \<not> is_naive now
     \<and> \<not> is_naive (rc_interrupted_at rc) \<and> \<not> dt_before now (attempt_due_at rc (fu_attempt_count f))
     \<and> dt_before now (recovery_deadline_of rc) \<and> length (wc_claim_id c) \<le> 100"

lemma due_ready_history:
  assumes "due_ready s c x rc f now"
  shows "attempt_history c f (operations_of s (fu_claim_id f) (fu_follow_up_id f))"
    "within_limits c f" "wc_claim_id c = fu_claim_id f"
proof -
  have ok: "recovery_store_ok s" "histories_ok s" "claims_ok s"
    and c: "dict_get (st_claims s) (fu_claim_id f) = Some c"
    and f: "dict_get (st_follow_ups s) (fu_follow_up_id f) = Some f"
    using assms by (simp_all add: due_ready_def recovery_store_ok_def)
  show "wc_claim_id c = fu_claim_id f" by (rule claims_get(1) [OF ok(3) c])
  then show "attempt_history c f (operations_of s (fu_claim_id f) (fu_follow_up_id f))"
    using histories_get [OF ok(2) f] by (simp add: sound_history_def)
  show "within_limits c f" by (rule stored_limits [OF ok(1) c f])
qed

lemma due_ready_reduces:
  assumes "due_ready s c x rc f now"
  shows "reduce_due_follow_up c x f (operations_of s (fu_claim_id f) (fu_follow_up_id f)) now
    = Inr (due_outcome c x rc f (operations_of s (fu_claim_id f) (fu_follow_up_id f)) now)"
proof -
  note h = due_ready_history [OF assms]
  have seq: "list_all (\<lambda>p. 1 \<le> op_sequence p) (operations_of s (fu_claim_id f) (fu_follow_up_id f))"
    using h(1) by (simp add: attempt_history_def)
  show ?thesis
    using assms h unfolding reduce_due_Inr_iff [OF h(2) seq] due_ready_def by blast
qed

lemma due_step_allowed:
  assumes "due_ready s c x rc f now" "t = due_outcome c x rc f (operations_of s (fu_claim_id f) (fu_follow_up_id f)) now"
  shows "operation_step s (dt_settled_previous t)" "\<not> sequence_taken s (dt_operation t)"
proof -
  let ?ops = "operations_of s (fu_claim_id f) (fu_follow_up_id f)"
  note h = due_ready_history(1) [OF assms(1)]
  have ok: "histories_ok s" and keyed: "stored_operations s"
    using assms(1) by (simp_all add: due_ready_def recovery_store_ok_def histories_ok_def)
  have stored: "dict_get (st_follow_up_operations s) (op_operation_id p) = Some p" if "p \<in> set ?ops" for p
    using that unfolding operations_of_set [OF keyed] by blast
  show "operation_step s (dt_settled_previous t)"
    using outstanding_settled_cases [of ?ops now] h stored settle_unanswered_ok
    by (auto simp: attempt_history_def operation_step_def assms(2) due_outcome_sel)
  have ids: "op_follow_up_id (dt_operation t) = fu_follow_up_id f"
    using belongs_new [of rc f] assms by (simp add: due_ready_def open_obligation_def belongs_def)
  have seq: "op_sequence (dt_operation t) = max_sequence ?ops + 1" by (simp add: assms(2) due_outcome_sel)
  show "\<not> sequence_taken s (dt_operation t)"
  proof
    assume "sequence_taken s (dt_operation t)"
    then obtain q where q: "q \<in> set (dict_values (st_follow_up_operations s))"
      "op_follow_up_id q = fu_follow_up_id f" "op_sequence q = max_sequence ?ops + 1"
      unfolding sequence_taken_def list_ex_iff ids seq by blast
    have "dict_get (st_follow_up_operations s) (op_operation_id q) = Some q"
      using q(1) unfolding keyed_value_iff [OF keyed] .
    then have "q \<in> set ?ops"
      using histories_operation [OF ok, of "op_operation_id q" q] q(2) assms(1)
      unfolding operations_of_set [OF keyed] by (auto simp: due_ready_def)
    then show False using max_sequence_ge [of q ?ops] q(3) by simp
  qed
qed

lemma put_operation_preflight: "preflight_message (put_operation r s) m = preflight_message s m"
  by (simp add: preflight_message_def put_operation_def split: option.split)

lemma due_committed:
  assumes ready: "due_ready s c x rc f now"
    and t: "t = due_outcome c x rc f (operations_of s (fu_claim_id f) (fu_follow_up_id f)) now"
    and m: "plain_message x m" "ms_created_at m = now" "dict_get (st_messages s) (ms_message_id m) = None"
    and e: "prepare_audit_events s c [e] [] = Inr prepared"
    and fresh: "dict_get (st_follow_up_operations s) (op_operation_id (dt_operation t)) = None"
  shows "\<exists>s'. commit_due_follow_up_attempt s f (dt_follow_up t) (dt_operation t) (dt_settled_previous t)
      m (wc_customer_id c) e = Inr s'
    \<and> dict_get (st_follow_ups s') (fu_follow_up_id f) = Some (dt_follow_up t)
    \<and> dict_get (st_follow_up_operations s') (op_operation_id (dt_operation t)) = Some (dt_operation t)
    \<and> dict_get (st_messages s') (ms_message_id m) = Some m"
proof -
  let ?s1 = "put_operation (Some (dt_operation t)) (put_operation (dt_settled_previous t) s)"
  note step = due_step_allowed [OF ready t] and claim = due_ready_history(3) [OF ready]
    and red = due_ready_reduces [OF ready, folded t]
  have l: "load_obligation s f (wc_customer_id c) = Inr (c, f, x)" and index: "index_ok s"
    and x: "dict_get (st_sessions s) (fu_source_session_id f) = Some x" "is_checkpoint c x f"
    and graph: "validate_message_graph (dict_values (st_messages s)) = Inr ()"
    using ready unfolding load_obligation_Inr_iff
    by (simp_all add: due_ready_def open_obligation_def recovery_store_ok_def)
  have pre: "preflight_message s m = Inr ()"
    using preflight_plain [OF m(1) _ _ m(3) graph] x index m(1)
    by (simp add: index_ok_def is_checkpoint_def plain_message_def)
  have "index_ok ?s1" using index index_cong [of ?s1 s] by simp
  then obtain s2 where s2: "store_message ?s1 m = Inr s2"
    using store_plain [of ?s1 m] pre by (auto simp: put_operation_preflight)
  have ok: "attempt_message_ok c x (dt_operation t) m"
    using m(1,2) x(2) by (simp add: attempt_message_ok_def plain_message_def is_checkpoint_def t due_outcome_sel)
  have at: "op_committed_at (dt_operation t) = Some now" by (simp add: t due_outcome_sel)
  have "commit_due_follow_up_attempt s f (dt_follow_up t) (dt_operation t) (dt_settled_previous t)
      m (wc_customer_id c) e = Inr (store_audit_events prepared (put_follow_up (dt_follow_up t) s2))"
    using step check_operation_step_Inr_iff [of s "dt_settled_previous t" "()"]
    by (simp add: commit_due_follow_up_attempt_def l fresh at red ok pre e s2 rejected_as_def)
  moreover have "fu_follow_up_id (dt_follow_up t) = fu_follow_up_id f" by (simp add: t due_outcome_sel)
  ultimately show ?thesis
    using store_message_frame [OF s2] by (auto simp: recovery_writes put_operation_def)
qed

lemma due_contacted:
  assumes ready: "due_ready s c x rc f now"
    and t: "t = due_outcome c x rc f (operations_of s (fu_claim_id f) (fu_follow_up_id f)) now"
    and fresh: "dict_get (st_follow_up_operations s) (op_operation_id (dt_operation t)) = None"
      "dict_get (st_messages s) (''msg_recovery_'' @ default_digest (op_operation_id (dt_operation t))) = None"
      "dict_get (st_audit_events s) (''aud_recovery_'' @ default_digest (''due:'' @
          op_operation_id (dt_operation t) @ '':'' @ wc_claim_id c)) = None"
    and candidate: "fu_claim_id candidate = fu_claim_id f" "fu_follow_up_id candidate = fu_follow_up_id f"
  shows "\<exists>s' m. process_due_follow_up candidate now s = (Inr (Some t), s')
    \<and> dict_get (st_follow_ups s') (fu_follow_up_id f) = Some (dt_follow_up t)
    \<and> dict_get (st_follow_up_operations s') (op_operation_id (dt_operation t)) = Some (dt_operation t)
    \<and> dict_get (st_messages s') (ms_message_id m) = Some m \<and> ms_session_id m = fu_source_session_id f
    \<and> ms_actor m = Actor_agent \<and> ms_visibility m = Claimant_visible"
proof -
  let ?p = "dt_operation t"
  note h = due_ready_history [OF ready]
  have x: "is_checkpoint c x f" and bound: "bound_to_policy rc f"
    using ready by (simp_all add: due_ready_def open_obligation_def)
  have reload: "reload_obligation s candidate = Some (c, f, x, operations_of s (fu_claim_id f) (fu_follow_up_id f))"
    using ready candidate by (intro reload_open) (simp_all add: due_ready_def open_obligation_def)
  have p: "length (op_source_refs ?p) = 3" "op_policy_id ?p = INCOMPLETE_CLAIM_FOLLOW_UP_POLICY_ID"
    "op_policy_version ?p = 1"
    using bound by (simp_all add: t due_outcome_def Let_def committed_operation_def scheduled_operation_def
        bound_to_policy_def INCOMPLETE_CLAIM_FOLLOW_UP_POLICY_VERSION_def)
  have "length (fromkeys (op_source_refs ?p @ [op_operation_id ?p])) \<le> 100"
    using length_fromkeys [of "op_source_refs ?p @ [op_operation_id ?p]"] p(1) by simp
  then obtain e where e: "recovery_audit (''due:'' @ op_operation_id ?p) ACTION_COMPLETED (wc_claim_id c)
      (wc_revision c) ''p17-recovery-worker'' ''internal:recovery-worker''
      ''Committed one authorised incomplete-Claim in-app follow-up.''
      (op_source_refs ?p @ [op_operation_id ?p]) now None = Inr e"
    "au_claim_id e = Some (wc_claim_id c)" "au_claim_revision e = Some (wc_revision c)"
    "au_event_id e = ''aud_recovery_'' @ default_digest ((''due:'' @ op_operation_id ?p) @ '':'' @ wc_claim_id c)"
    using recovery_audit_Inr [of "wc_claim_id c" "wc_revision c" "''internal:recovery-worker''"
        "''Committed one authorised incomplete-Claim in-app follow-up.''"
        "op_source_refs ?p @ [op_operation_id ?p]" "''due:'' @ op_operation_id ?p" ACTION_COMPLETED None
        "''p17-recovery-worker''" now] h(2) ready
    by (auto simp: within_limits_def bounded_text_def due_ready_def)
  have "length INCOMPLETE_CLAIM_FOLLOW_UP_POLICY_ID \<le> 100" by (simp add: INCOMPLETE_CLAIM_FOLLOW_UP_POLICY_ID_def)
  then obtain m where m: "in_app_follow_up_message f (op_operation_id ?p) (op_policy_id ?p)
      (op_policy_version ?p) now = Inr m"
    "plain_message x m" "ms_message_id m = ''msg_recovery_'' @ default_digest (op_operation_id ?p)"
    "ms_created_at m = now" "ms_session_id m = fu_source_session_id f" "ms_actor m = Actor_agent"
    "ms_visibility m = Claimant_visible"
    using in_app_message_Inr [of INCOMPLETE_CLAIM_FOLLOW_UP_POLICY_ID f "op_operation_id ?p" now] x h(3)
    by (auto simp: p plain_message_def is_checkpoint_def)
  have "dict_get (st_audit_events s) (au_event_id e) = None" using fresh(3) by (simp add: e(4))
  note audit = prepared_event [OF e(2,3) this]
  obtain s' where "commit_due_follow_up_attempt s f (dt_follow_up t) ?p (dt_settled_previous t) m
      (wc_customer_id c) e = Inr s'"
    "dict_get (st_follow_ups s') (fu_follow_up_id f) = Some (dt_follow_up t)"
    "dict_get (st_follow_up_operations s') (op_operation_id ?p) = Some ?p"
    "dict_get (st_messages s') (ms_message_id m) = Some m"
    using due_committed [OF ready t m(2,4) _ audit fresh(1)] fresh(2) m(3) by auto
  then show ?thesis
    using due_ready_reduces [OF ready, folded t] m
    by (intro exI [of _ s'] exI [of _ m])
      (simp add: process_due_follow_up_def reload reduced_def Let_def e(1) [simplified] committed_def)
qed

section \<open>An expired obligation is closed\<close>

definition expiry_ready ::
  "store \<Rightarrow> working_claim \<Rightarrow> session \<Rightarrow> recovery_context \<Rightarrow> follow_up \<Rightarrow> datetime \<Rightarrow> bool" where
  "expiry_ready s c x rc f now \<longleftrightarrow> recovery_store_ok s \<and> \<not> claim_access_closed s (fu_claim_id f)
     \<and> dict_get (st_claims s) (fu_claim_id f) = Some c
     \<and> dict_get (st_follow_ups s) (fu_follow_up_id f) = Some f
     \<and> dict_get (st_sessions s) (fu_source_session_id f) = Some x
     \<and> open_obligation c x rc f \<and> fu_status f \<noteq> FU_resolved \<and> \<not> is_naive now
     \<and> \<not> is_naive (rc_interrupted_at rc) \<and> \<not> dt_before now (recovery_deadline_of rc)
     \<and> length (wc_claim_id c) \<le> 100 \<and> length (terminal_source_refs f) \<le> 20"

definition expiry_outcome :: "store \<Rightarrow> working_claim \<Rightarrow> follow_up \<Rightarrow> datetime \<Rightarrow> terminal_transition" where
  "expiry_outcome s c f now =
     \<lparr>tt_claim = expired_claim c (abandoned_disposition Reason_recovery_expired expiry_actor c f now) now,
      tt_follow_up = resolved_follow_up RECOVERY_EXPIRED ''recovery_expired'' f now,
      tt_reconciled = closed_open DEADLINE_REACHED NO_RESPONSE now
        (operations_of s (fu_claim_id f) (fu_follow_up_id f))\<rparr>"

lemma expiry_ready_reduces:
  assumes "expiry_ready s c x rc f now"
  shows "reduce_expired_follow_up c x f (operations_of s (fu_claim_id f) (fu_follow_up_id f)) now
    = Inr (expiry_outcome s c f now)" and "wc_claim_id c = fu_claim_id f" and "within_limits c f"
proof -
  have ok: "recovery_store_ok s" "histories_ok s" "claims_ok s"
    and c: "dict_get (st_claims s) (fu_claim_id f) = Some c"
    and f: "dict_get (st_follow_ups s) (fu_follow_up_id f) = Some f"
    using assms by (simp_all add: expiry_ready_def recovery_store_ok_def)
  show claim: "wc_claim_id c = fu_claim_id f" by (rule claims_get(1) [OF ok(3) c])
  have "attempt_history c f (operations_of s (fu_claim_id f) (fu_follow_up_id f))"
    using histories_get [OF ok(2) f] claim by (simp add: sound_history_def)
  note closing = attempt_closing_history [OF this]
  show limits: "within_limits c f" by (rule stored_limits [OF ok(1) c f])
  show "reduce_expired_follow_up c x f (operations_of s (fu_claim_id f) (fu_follow_up_id f)) now
      = Inr (expiry_outcome s c f now)"
    using assms closing
    unfolding reduce_expired_Inr_iff [OF limits] expiry_ready_def expiry_outcome_def by blast
qed

lemma closing_step:
  assumes "stored_operations s"
  shows "operation_step s (closed_open a b now (operations_of s c f))"
proof (cases "filter is_open_operation (operations_of s c f)")
  case (Cons p ps)
  then have "p \<in> set (operations_of s c f)" "is_open_operation p"
    by (metis filter_is_subset list.set_intros(1) subsetD, metis Cons filter_eq_ConsD)
  moreover have "op_operation_id (close_operation a b now p) = op_operation_id p"
    by (simp add: close_operation_def)
  ultimately show ?thesis
    using close_operation_ok [of p a b now] unfolding operations_of_set [OF assms]
    by (simp add: operation_step_def closed_open_def Cons)
qed (simp add: operation_step_def closed_open_def)

text \<open>The tables that a terminal commit leaves alone and a reservation reads.\<close>

definition same_blockers :: "store \<Rightarrow> store \<Rightarrow> bool" where
  "same_blockers s s' \<longleftrightarrow> st_retention_by_claim s' = st_retention_by_claim s
     \<and> st_external_tasks s' = st_external_tasks s \<and> st_runtime_turns s' = st_runtime_turns s
     \<and> st_work_items s' = st_work_items s \<and> st_handoffs s' = st_handoffs s
     \<and> st_retention_holds s' = st_retention_holds s"

lemma expiry_closed:
  assumes ready: "expiry_ready s c x rc f now"
    and fresh: "dict_get (st_audit_events s) (''aud_recovery_'' @ default_digest (''expiry:'' @
          fu_follow_up_id f @ '':'' @ wc_claim_id c)) = None"
    and candidate: "fu_claim_id candidate = fu_claim_id f" "fu_follow_up_id candidate = fu_follow_up_id f"
  shows "\<exists>s'. process_expiring_follow_up candidate now s = (Inr (Some (expiry_outcome s c f now)), s')
    \<and> dict_get (st_claims s') (fu_claim_id f) = Some (tt_claim (expiry_outcome s c f now))
    \<and> dict_get (st_follow_ups s') (fu_follow_up_id f) = Some (tt_follow_up (expiry_outcome s c f now))
    \<and> st_follow_up_operations s' = st_follow_up_operations (put_operation (tt_reconciled (expiry_outcome s c f now)) s)
    \<and> same_blockers s s'"
proof -
  let ?t = "expiry_outcome s c f now"
  note red = expiry_ready_reduces [OF ready]
  have x: "is_checkpoint c x f" and keyed: "stored_operations s"
    using ready by (simp_all add: expiry_ready_def open_obligation_def recovery_store_ok_def histories_ok_def)
  have reload: "reload_obligation s candidate = Some (c, f, x, operations_of s (fu_claim_id f) (fu_follow_up_id f))"
    using ready candidate by (intro reload_open) (simp_all add: expiry_ready_def open_obligation_def)
  have uc: "wc_revision (tt_claim ?t) = wc_revision c + 1" "wc_claim_id (tt_claim ?t) = wc_claim_id c"
    "fu_follow_up_id (tt_follow_up ?t) = fu_follow_up_id f"
    "\<exists>d. wc_terminal_disposition (tt_claim ?t) = Some d \<and> td_recorded_at d = now"
    by (simp_all add: expiry_outcome_def expired_claim_def resolved_follow_up_def abandoned_disposition_def)
  have refs: "length (fromkeys (fu_source_refs f @ [''follow-up:'' @ fu_follow_up_id f])) \<le> 100"
    using ready by (simp add: expiry_ready_def terminal_source_refs_def)
  then obtain e where e: "recovery_audit (''expiry:'' @ fu_follow_up_id f) ACTION_COMPLETED (wc_claim_id c)
      (wc_revision (tt_claim ?t)) ''p17-recovery-expiry'' ''internal:recovery-worker''
      ''The incomplete-Claim recovery deadline expired.''
      (fu_source_refs f @ [''follow-up:'' @ fu_follow_up_id f]) now None = Inr e"
    "au_claim_id e = Some (wc_claim_id (tt_claim ?t))" "au_claim_revision e = Some (wc_revision (tt_claim ?t))"
    "au_event_id e = ''aud_recovery_'' @ default_digest ((''expiry:'' @ fu_follow_up_id f) @ '':'' @ wc_claim_id c)"
    using recovery_audit_Inr [of "wc_claim_id c" "wc_revision c + 1" "''internal:recovery-worker''"
        "''The incomplete-Claim recovery deadline expired.''"
        "fu_source_refs f @ [''follow-up:'' @ fu_follow_up_id f]" "''expiry:'' @ fu_follow_up_id f"
        ACTION_COMPLETED None "''p17-recovery-expiry''" now] red(3) ready
    by (auto simp: within_limits_def bounded_text_def expiry_ready_def uc)
  have "dict_get (st_audit_events s) (au_event_id e) = None" using fresh by (simp add: e(4))
  note audit = prepared_event [OF e(2,3) this]
  have realtime: "\<exists>v. prepare_realtime s ''claim_changed'' (tt_claim ?t)
      (''recovery-expiry:'' @ fu_follow_up_id (tt_follow_up ?t)) = Inr v"
    using red(3) by (simp add: prepare_realtime_mutation_def uc within_limits_def bounded_text_def)
  have l: "load_obligation s f (wc_customer_id c) = Inr (c, f, x)"
    using ready unfolding load_obligation_Inr_iff by (simp add: expiry_ready_def)
  have step: "check_operation_step s (tt_reconciled ?t) = Inr ()"
    unfolding check_operation_step_Inr_iff using closing_step [OF keyed] by (simp add: expiry_outcome_def)
  obtain d where d: "wc_terminal_disposition (tt_claim ?t) = Some d" "td_recorded_at d = now"
    using uc(4) by blast
  obtain v where v: "prepare_realtime s ''claim_changed'' (tt_claim ?t)
      (''recovery-expiry:'' @ fu_follow_up_id (tt_follow_up ?t)) = Inr v" using realtime by blast
  define s' where "s' = commit_realtime v (store_audit_events [(au_event_id e, e)]
    (put_claim (tt_claim ?t) (put_follow_up (tt_follow_up ?t) (put_operation (tt_reconciled ?t) s))))"
  have "commit_recovery_expiry s (wc_revision c) f (tt_claim ?t) (tt_follow_up ?t) (tt_reconciled ?t)
      (wc_customer_id c) e = Inr s'"
    by (simp add: commit_recovery_expiry_def l d red rejected_as_def step audit v [simplified] s'_def)
  then have "process_expiring_follow_up candidate now s = (Inr (Some ?t), s')"
    by (simp add: process_expiring_follow_up_def reload reduced_def red(1) e(1) [simplified] committed_def)
  moreover have "dict_get (st_claims s') (fu_claim_id f) = Some (tt_claim ?t)
      \<and> dict_get (st_follow_ups s') (fu_follow_up_id f) = Some (tt_follow_up ?t)
      \<and> st_follow_up_operations s' = st_follow_up_operations (put_operation (tt_reconciled ?t) s)
      \<and> same_blockers s s'"
    by (simp add: s'_def recovery_writes uc red(2) same_blockers_def put_operation_def split: option.split)
  ultimately show ?thesis by blast
qed

section \<open>A terminal Claim is reserved\<close>

definition unblocked :: "store \<Rightarrow> string \<Rightarrow> bool" where
  "unblocked s i \<longleftrightarrow> \<not> recovery_open s i \<and> \<not> external_unknown s i \<and> \<not> staff_work_open s i
     \<and> \<not> handoff_open s i \<and> active_hold_ids s i = [] \<and> \<not> claim_access_closed s i"

lemma terminal_reservation_valid:
  assumes "\<not> is_naive now" "bounded_text 1 120 (wc_claim_id c)" "1 \<le> wc_revision c"
    and "length (td_source_refs t) \<le> 40"
    and "length (retention_terminal_source_ref (wc_claim_id c) (td_recorded_revision t)) \<le> 240"
  shows "retention_valid (terminal_reservation c t now)"
proof -
  have refs: "length (fromkeys (r # td_source_refs t)) \<le> 41" "fromkeys (r # td_source_refs t) \<noteq> []" for r
    using length_fromkeys [of "r # td_source_refs t"] assms(4) by simp_all
  show ?thesis
    using assms refs [of "retention_terminal_source_ref (wc_claim_id c) (td_recorded_revision t)"]
    by (simp add: retention_valid_def validate_operation_def terminal_reservation_def Let_def validity
        bounded_text_def retention_time_guards_def retention_status_guards_def all_satisfied_def
        needs_reconciliation_def any_failed_def retention_target_statuses_def initial_statuses_def
        length_stable_operation_id retention_terminal_source_ref_def INCOMPLETE_CLAIM_RETENTION_POLICY_ID_def
        INCOMPLETE_CLAIM_RETENTION_POLICY_VERSION_def Suc_le_eq)
qed

lemma terminal_reserved:
  assumes "dict_get (st_claims s) i = Some c" "wc_claim_id c = i" "wc_terminal_disposition c = Some t"
    and "td_reason_code t \<in> RETENTION_ELIGIBLE_TERMINAL_REASONS" "td_value t \<in> RETENTION_ELIGIBLE_TERMINAL_VALUES"
    and "td_recorded_revision t = wc_revision c"
    and limits: "\<not> is_naive now" "bounded_text 1 120 (wc_claim_id c)" "1 \<le> wc_revision c"
      "length (td_source_refs t) \<le> 40"
      "length (retention_terminal_source_ref (wc_claim_id c) (td_recorded_revision t)) \<le> 240"
    and free: "unblocked s i"
  shows "\<exists>s'. reserve_retention_from_terminal i now s = (Inr (terminal_reservation c t now), s')
    \<and> claim_access_closed s' i"
proof -
  let ?p = "terminal_reservation c t now"
  note valid = terminal_reservation_valid [OF limits]
  have p: "rt_claim_id ?p = i" "initial_retention_shape ?p" "rt_source_claim_revision ?p = wc_revision c"
    "rt_updated_at ?p = now" "length (rt_operation_id ?p) = 28"
    using assms(2)
    by (simp_all add: terminal_reservation_def Let_def initial_retention_shape_def length_stable_operation_id)
  have "retention_coordinates ?p"
    unfolding retention_valid_coordinates [OF valid] using limits(2) p assms(2) by (simp add: bounded_text_def)
  then have coords: "owned_coordinates i (wc_revision c) (rt_operation_id ?p) now (rt_source_refs ?p)
      (Some (rt_operation_id ?p))"
    by (simp add: retention_coordinates_def p)
  have decided: "decide_as reduce_owned_recovery Policy (plain_trigger Source_retention ''eligible'')
      i (wc_revision c) (rt_operation_id ?p) now (rt_source_refs ?p) (Some (rt_operation_id ?p))
      (\<lambda>plan. tr_decision_code plan = Code_retention_eligible) e (Inr ()) = Inr ()" for e
    by (intro owned.decide_as_ok [OF owned_promised(5) _ coords]) simp_all
  have "passes (source_authority_guards c t ?p)"
    using assms(4-6) by (simp add: source_authority_guards_def Let_def terminal_reservation_def subset_insertI)
  then have "validate_retention_eligibility_source c ?p = Inr ()"
    using decided assms(2,3) p
    by (simp add: validate_retention_eligibility_source_def validate_retention_source_authority_def
        guarded_passes)
  moreover have "reservation_candidate s ?p = Inr ?p"
    using free p(1) by (simp add: reservation_candidate_def unblocked_def)
  ultimately have "reserve_eligible_retention_operation s ?p
      = Inr (retire_claimant_records i (wc_customer_id c) (close_access ?p s), ?p)"
    using free assms(1) p(1)
    by (simp add: reserve_eligible_retention_operation_def unblocked_def claim_access_closed_def)
  moreover have "claim_access_closed (retire_claimant_records i (wc_customer_id c) (close_access ?p s)) i"
    by (simp add: claim_access_closed_def retire_claimant_records_def close_access_def store_retention_def p)
  ultimately show ?thesis
    using assms(1,3) limits(1) valid
    by (simp add: reserve_retention_from_terminal_def validated_Inr_iff [THEN iffD2])
qed

lemma closing_leaves_none_open:
  assumes "stored_operations s" "closing_history c f (operations_of s i (fu_follow_up_id f))"
    and "st_follow_up_operations s' = st_follow_up_operations
      (put_operation (closed_open a b now (operations_of s i (fu_follow_up_id f))) s)"
    and others: "\<And>p. p \<in> set (dict_values (st_follow_up_operations s)) \<Longrightarrow> op_claim_id p = i \<Longrightarrow>
      is_open_operation p \<Longrightarrow> op_follow_up_id p = fu_follow_up_id f"
  shows "\<not> recovery_open s' i"
proof
  let ?ops = "operations_of s i (fu_follow_up_id f)"
  assume "recovery_open s' i"
  then obtain p where p: "p \<in> set (dict_values (st_follow_up_operations s'))" "op_claim_id p = i" "is_open_operation p"
    unfolding recovery_open_def list_ex_iff is_open_operation_def by blast
  have keyed: "stored_operations s'" unfolding assms(3) by (rule stored_operations_put [OF assms(1)])
  have stored: "dict_get (st_follow_up_operations s') (op_operation_id p) = Some p"
    using p(1) unfolding keyed_value_iff [OF keyed] .
  have closed: "\<not> is_open_operation (close_operation a b now q)" for q
    by (simp add: close_operation_def is_open_operation_def no_update_def copy_operation_def)
  have one: "length (filter is_open_operation ?ops) \<le> 1" using assms(2) by (simp add: closing_history_def)
  have mine: "p \<in> set (filter is_open_operation ?ops)"
    if "dict_get (st_follow_up_operations s) (op_operation_id p) = Some p"
    using that others [of p] p(2,3) unfolding keyed_value_iff [OF assms(1)]
    by (simp add: operations_of_set [OF assms(1)])
  show False
  proof (cases "filter is_open_operation ?ops")
    case Nil
    then show False using stored mine by (simp add: assms(3) closed_open_def put_operation_def)
  next
    case (Cons q qs)
    then have q: "filter is_open_operation ?ops = [q]" using one by simp
    have id: "op_operation_id (close_operation a b now q) = op_operation_id q" by (simp add: close_operation_def)
    have "p = close_operation a b now q \<or> op_operation_id p \<noteq> op_operation_id q
        \<and> dict_get (st_follow_up_operations s) (op_operation_id p) = Some p"
      using stored by (auto simp: assms(3) closed_open_def q put_operation_def id split: if_splits)
    then show False using mine p(3) closed by (auto simp: q)
  qed
qed

lemma expired_then_reserved:
  assumes ready: "expiry_ready s c x rc f now"
    and fresh: "dict_get (st_audit_events s) (''aud_recovery_'' @ default_digest (''expiry:'' @
          fu_follow_up_id f @ '':'' @ wc_claim_id c)) = None"
    and candidate: "fu_claim_id candidate = fu_claim_id f" "fu_follow_up_id candidate = fu_follow_up_id f"
    and free: "\<not> external_unknown s (fu_claim_id f)" "\<not> staff_work_open s (fu_claim_id f)"
      "\<not> handoff_open s (fu_claim_id f)" "active_hold_ids s (fu_claim_id f) = []"
    and others: "\<And>p. p \<in> set (dict_values (st_follow_up_operations s)) \<Longrightarrow> op_claim_id p = fu_claim_id f \<Longrightarrow>
      is_open_operation p \<Longrightarrow> op_follow_up_id p = fu_follow_up_id f"
    and ref: "length (retention_terminal_source_ref (wc_claim_id c) (wc_revision c + 1)) \<le> 240"
  shows "\<exists>s' p s''. process_expiring_follow_up candidate now s = (Inr (Some (expiry_outcome s c f now)), s')
    \<and> reserve_retention_from_terminal (fu_claim_id f) now s' = (Inr p, s'')
    \<and> claim_access_closed s'' (fu_claim_id f)"
proof -
  let ?t = "expiry_outcome s c f now"
  note red = expiry_ready_reduces [OF ready]
  obtain s' where s': "process_expiring_follow_up candidate now s = (Inr (Some ?t), s')"
    "dict_get (st_claims s') (fu_claim_id f) = Some (tt_claim ?t)"
    "st_follow_up_operations s' = st_follow_up_operations (put_operation (tt_reconciled ?t) s)"
    "same_blockers s s'"
    using expiry_closed [OF ready fresh candidate] by blast
  have keyed: "stored_operations s" and f: "dict_get (st_follow_ups s) (fu_follow_up_id f) = Some f"
    and h: "histories_ok s" and access: "\<not> claim_access_closed s (fu_claim_id f)"
    and x: "\<not> is_naive now" "length (terminal_source_refs f) \<le> 20"
    using ready by (simp_all add: expiry_ready_def recovery_store_ok_def histories_ok_def)
  have "attempt_history c f (operations_of s (fu_claim_id f) (fu_follow_up_id f))"
    using histories_get [OF h f] red(2) by (simp add: sound_history_def)
  then have "\<not> recovery_open s' (fu_claim_id f)"
    using s'(3) others
    by (intro closing_leaves_none_open [OF keyed attempt_closing_history]) (simp_all add: expiry_outcome_def)
  then have "unblocked s' (fu_claim_id f)"
    using free access s'(4)
    by (simp add: unblocked_def same_blockers_def external_unknown_def staff_work_open_def runtime_items_def
        handoff_open_def active_hold_ids_def claim_access_closed_def)
  moreover have "wc_claim_id (tt_claim ?t) = fu_claim_id f"
    "wc_terminal_disposition (tt_claim ?t) = Some (abandoned_disposition Reason_recovery_expired expiry_actor c f now)"
    "wc_revision (tt_claim ?t) = wc_revision c + 1"
    using red(2) by (simp_all add: expiry_outcome_def expired_claim_def)
  ultimately show ?thesis
    using terminal_reserved [OF s'(2), of "abandoned_disposition Reason_recovery_expired expiry_actor c f now" now]
      s'(1) red(2,3) x ref
    by (auto simp: abandoned_disposition_def RETENTION_ELIGIBLE_TERMINAL_REASONS_def
        RETENTION_ELIGIBLE_TERMINAL_VALUES_def within_limits_def)
qed

end
