(* ===== verification/Incomplete_Claims.thy ===== *)
theory Incomplete_Claims
  imports Follow_Up_Safety
begin

text \<open>
  The search for the recovery checkpoint of an incomplete Claim
  (\<open>backend/services/incomplete_claims.py\<close>), which the resumption of a Claim and its
  abandonment by staff start from: it finds the checkpoint that was saved, and on a consistent
  store no other one.
\<close>

section \<open>Operations\<close>

text \<open>The first item with the greatest key, as \<open>max\<close> and the selection loop pick it.\<close>

definition newest :: "('a \<Rightarrow> 'k::linorder) \<Rightarrow> 'a list \<Rightarrow> 'a option" where
  "newest key xs = fold (\<lambda>x best. case best of
     None \<Rightarrow> Some x | Some y \<Rightarrow> if key y < key x then Some x else best) xs None"

definition recovery_checkpoint_allowed :: "working_claim \<Rightarrow> bool" where
  "recovery_checkpoint_allowed c \<longleftrightarrow>
     wc_workflow_state c \<noteq> Workflow_created \<and> ns_can_resume (wc_customer_next_step c)"

definition list_sessions_for_claim :: "store \<Rightarrow> string \<Rightarrow> string \<Rightarrow> session list" where
  "list_sessions_for_claim s claim_id customer_id =
     (if get_claim s claim_id customer_id = None then []
      else sort_key (\<lambda>x. instant (se_started_at x))
        (filter (\<lambda>x. se_claim_id x = claim_id \<and> se_customer_id x = customer_id)
          (dict_values (st_sessions s))))"

definition resumable_for :: "session \<Rightarrow> follow_up \<Rightarrow> bool" where
  "resumable_for x f \<longleftrightarrow> fu_source_session_id f = se_session_id x
     \<and> fu_purpose f = ''resume_incomplete_claim'' \<and> fu_status f \<in> {FU_pending, FU_blocked}"

definition session_checkpoint ::
  "follow_up list \<Rightarrow> session \<Rightarrow> (session \<times> recovery_context \<times> follow_up) option" where
  "session_checkpoint follow_ups x = (case se_recovery_context x of
     None \<Rightarrow> None
   | Some recovery \<Rightarrow>
       if se_status x \<noteq> Session_paused then None
       else map_option (\<lambda>f. (x, recovery, f))
         (newest (\<lambda>f. (instant (fu_created_at f), fu_follow_up_id f))
           (filter (resumable_for x) follow_ups)))"

definition checkpoint_key ::
  "session \<times> recovery_context \<times> follow_up \<Rightarrow> int \<times> string \<times> int \<times> string" where
  "checkpoint_key = (\<lambda>(x, recovery, f). (instant (rc_interrupted_at recovery), se_session_id x,
     instant (fu_created_at f), fu_follow_up_id f))"

definition find_incomplete_recovery ::
  "store \<Rightarrow> working_claim \<Rightarrow> session list option \<Rightarrow> (session \<times> follow_up) option" where
  "find_incomplete_recovery s c sessions =
     (if wc_active_session_id c \<noteq> None \<or> \<not> recovery_checkpoint_allowed c then None
      else
        (let available = (case sessions of
               None \<Rightarrow> list_sessions_for_claim s (wc_claim_id c) (wc_customer_id c) | Some xs \<Rightarrow> xs);
             follow_ups = list_follow_ups s (wc_claim_id c) (wc_customer_id c)
         in map_option (\<lambda>(x, recovery, f). (x, f))
              (newest checkpoint_key (List.map_filter (session_checkpoint follow_ups) available))))"

section \<open>The newest item\<close>

lemma newest_Some_in: "newest key xs = Some x \<Longrightarrow> x \<in> set xs"
proof -
  have "fold (\<lambda>x best. case best of None \<Rightarrow> Some x | Some y \<Rightarrow> if key y < key x then Some x else best) xs b
      = Some x \<Longrightarrow> x \<in> set xs \<or> b = Some x" for b
    by (induction xs arbitrary: b) (force split: option.splits if_splits)+
  then show "newest key xs = Some x \<Longrightarrow> x \<in> set xs" by (auto simp: newest_def)
qed

lemma newest_None_iff [simp]: "newest key xs = None \<longleftrightarrow> xs = []"
proof -
  have "fold (\<lambda>x best. case best of None \<Rightarrow> Some x | Some y \<Rightarrow> if key y < key x then Some x else best) xs b
      = None \<longleftrightarrow> xs = [] \<and> b = None" for b
    by (induction xs arbitrary: b) (auto split: option.splits if_splits)
  then show ?thesis by (simp add: newest_def)
qed

lemma newest_only: "x \<in> set xs \<Longrightarrow> (\<And>y. y \<in> set xs \<Longrightarrow> y = x) \<Longrightarrow> newest key xs = Some x"
  by (metis newest_None_iff newest_Some_in list.set(1) empty_iff option.exhaust)

section \<open>What the search finds\<close>

lemma session_checkpoint_Some:
  "session_checkpoint fs x = Some (y, rc, f) \<Longrightarrow>
     y = x \<and> se_recovery_context x = Some rc \<and> se_status x = Session_paused \<and> f \<in> set fs \<and> resumable_for x f"
  by (auto simp: session_checkpoint_def split: option.splits if_splits dest: newest_Some_in)

lemma listed_follow_up_iff:
  assumes "keyed fu_follow_up_id (st_follow_ups s)" "get_claim s i u \<noteq> None"
  shows "f \<in> set (list_follow_ups s i u) \<longleftrightarrow>
    dict_get (st_follow_ups s) (fu_follow_up_id f) = Some f \<and> fu_claim_id f = i"
  using assms(2) unfolding list_follow_ups_def
  by (simp only: if_False set_sort set_filter mem_Collect_eq keyed_value_iff [OF assms(1)])

lemma listed_session_iff:
  assumes "keyed se_session_id (st_sessions s)" "get_claim s i u \<noteq> None"
  shows "x \<in> set (list_sessions_for_claim s i u) \<longleftrightarrow>
    dict_get (st_sessions s) (se_session_id x) = Some x \<and> se_claim_id x = i \<and> se_customer_id x = u"
  using assms(2) unfolding list_sessions_for_claim_def
  by (simp only: if_False set_sort set_filter mem_Collect_eq keyed_value_iff [OF assms(1)])

lemma listed_obligation:
  assumes "keyed fu_follow_up_id (st_follow_ups s)" "f \<in> set (list_follow_ups s i u)"
    and "resumable_for x f"
  shows "open_obligation_of s i f"
proof -
  have "get_claim s i u \<noteq> None" using assms(2) by (auto simp: list_follow_ups_def split: if_splits)
  then show ?thesis
    using assms by (auto simp: listed_follow_up_iff open_obligation_of_def resumable_for_def)
qed

text \<open>
  On a consistent store the open obligation of a Claim and the paused session it names are the
  only candidate of the search.
\<close>

lemma open_obligation_found:
  assumes ok: "recovery_store_ok s" and keyed: "keyed se_session_id (st_sessions s)"
    and access: "get_claim s (wc_claim_id c) (wc_customer_id c) \<noteq> None"
    and c: "wc_active_session_id c = None" "recovery_checkpoint_allowed c"
    and f: "open_obligation_of s (wc_claim_id c) f"
    and x: "dict_get (st_sessions s) (fu_source_session_id f) = Some x" "se_status x = Session_paused"
      "se_recovery_context x = Some rc" "se_claim_id x = wc_claim_id c" "se_customer_id x = wc_customer_id c"
  shows "find_incomplete_recovery s c None = Some (x, f)"
proof -
  let ?fs = "list_follow_ups s (wc_claim_id c) (wc_customer_id c)"
  let ?xs = "list_sessions_for_claim s (wc_claim_id c) (wc_customer_id c)"
  have kf: "keyed fu_follow_up_id (st_follow_ups s)" and only: "open_obligation_of s (wc_claim_id c) g \<Longrightarrow> g = f" for g
    using ok f by (auto simp: recovery_store_ok_def histories_ok_def exclusive_ok_def)
  have source: "fu_source_session_id f = se_session_id x" using keyed_get [OF keyed x(1)] by simp
  have mine: "f \<in> set ?fs" "resumable_for x f"
    using f source by (auto simp: listed_follow_up_iff [OF kf access] open_obligation_of_def
        resumable_for_def intro: follow_up_status.exhaust [of "fu_status f"])
  have "x \<in> set ?xs"
    using x source by (simp add: listed_session_iff [OF keyed access])
  moreover have "newest key (filter (resumable_for x) ?fs) = Some f" for key :: "follow_up \<Rightarrow> int \<times> string"
    by (rule newest_only) (use mine in \<open>auto intro: only listed_obligation [OF kf]\<close>)
  then have "session_checkpoint ?fs x = Some (x, rc, f)" using x by (simp add: session_checkpoint_def)
  ultimately have "(x, rc, f) \<in> set (List.map_filter (session_checkpoint ?fs) ?xs)"
    by (force simp: map_filter_def)
  moreover have "p = (x, rc, f)" if "p \<in> set (List.map_filter (session_checkpoint ?fs) ?xs)" for p
  proof -
    obtain y rc' g where p: "p = (y, rc', g)" by (cases p)
    with that obtain z where z: "z \<in> set ?xs" "session_checkpoint ?fs z = Some (y, rc', g)"
      by (auto simp: map_filter_def)
    then have y: "y \<in> set ?xs" "session_checkpoint ?fs y = Some (y, rc', g)"
      using session_checkpoint_Some [OF z(2)] by simp_all
    note found = session_checkpoint_Some [OF y(2)]
    then have "g = f" using only listed_obligation [OF kf] by blast
    moreover from this have "dict_get (st_sessions s) (fu_source_session_id f) = Some y"
      using found y(1) by (simp add: resumable_for_def listed_session_iff [OF keyed access])
    ultimately show ?thesis using x(1,3) found p by auto
  qed
  ultimately have "newest checkpoint_key (List.map_filter (session_checkpoint ?fs) ?xs) = Some (x, rc, f)"
    by (rule newest_only)
  then show ?thesis using c by (simp add: find_incomplete_recovery_def)
qed

section \<open>A checkpoint is found again\<close>

lemma checkpoint_found:
  assumes ok: "recovery_store_ok s" and keyed: "keyed se_session_id (st_sessions s)"
    and saved: "save_incomplete_checkpoint s c rv x f record = Inr s'"
    and allowed: "recovery_allowed s (Checkpoint c rv x f record)" "recovery_checkpoint_allowed c"
  shows "find_incomplete_recovery s' c None = Some (x, f)"
proof -
  obtain stored realtime where v: "validate_claim_mutation s c rv True None = Inr stored"
    and cp: "checkpoint_ok stored (dict_get (st_sessions s) (se_session_id x)) c rv x f record"
    and s': "s' = commit_realtime realtime (put_idempotency record (put_follow_up f
        (store_session (put_claim c s) x)))"
    using save_checkpoint_Inr [OF saved] by blast
  have "recovery_store_ok s'"
    using checkpoint_safe [OF ok saved] allowed(1) by (simp add: keeps_terminal_def)
  moreover have sessions: "st_sessions s' = dict_put (se_session_id x) x (st_sessions s)"
    by (simp add: s' recovery_writes store_session_def Let_def)
  then have "keyed se_session_id (st_sessions s')" using keyed by (simp add: keyed_put)
  moreover have tables: "st_claims s' = dict_put (wc_claim_id c) c (st_claims s)"
    "st_follow_ups s' = dict_put (fu_follow_up_id f) f (st_follow_ups s)"
    "st_retention_by_claim s' = st_retention_by_claim s"
    by (simp_all add: s' recovery_writes store_session_def Let_def)
  have "get_claim s' (wc_claim_id c) (wc_customer_id c) \<noteq> None"
    using v by (simp add: get_claim_def claimant_resource_access_open_def claim_access_closed_def tables
        validate_claim_mutation_def split: if_splits)
  moreover have "open_obligation_of s' (wc_claim_id c) f" "wc_active_session_id c = None"
    "fu_source_session_id f = se_session_id x" "se_status x = Session_paused"
    "se_claim_id x = wc_claim_id c" "se_customer_id x = wc_customer_id c"
    and "\<exists>rc. se_recovery_context x = Some rc"
    using cp allowed(1) by (auto simp: checkpoint_ok_def open_obligation_of_def tables(2))
  ultimately show ?thesis
    using open_obligation_found [of s' c f x] allowed(2) sessions by auto
qed

text \<open>Without an open obligation, or on a Claim that cannot be resumed, nothing is found.\<close>

lemma found_is_open:
  assumes "recovery_store_ok s" "find_incomplete_recovery s c sessions = Some (x, f)"
  shows "open_obligation_of s (wc_claim_id c) f" "se_status x = Session_paused"
    "fu_source_session_id f = se_session_id x" "recovery_checkpoint_allowed c" "wc_active_session_id c = None"
proof -
  have kf: "keyed fu_follow_up_id (st_follow_ups s)"
    using assms(1) by (simp add: recovery_store_ok_def histories_ok_def)
  obtain y rc where "session_checkpoint (list_follow_ups s (wc_claim_id c) (wc_customer_id c)) y = Some (x, rc, f)"
    and c: "recovery_checkpoint_allowed c" "wc_active_session_id c = None"
    using assms(2) by (fastforce simp: find_incomplete_recovery_def Let_def map_filter_def
        split: if_splits dest!: newest_Some_in)
  note found = session_checkpoint_Some [OF this(1)]
  show "open_obligation_of s (wc_claim_id c) f" using found listed_obligation [OF kf] by blast
  show "se_status x = Session_paused" "fu_source_session_id f = se_session_id x"
    using found by (auto simp: resumable_for_def)
  show "recovery_checkpoint_allowed c" "wc_active_session_id c = None" using c by simp_all
qed

end
