(* ===== verification/Example_Records.thy ===== *)
theory Example_Records
  imports Service_Liveness Incomplete_Claims
begin

text \<open>
  Concrete records on which the witnesses of the properties evaluate: an incomplete Claim with
  its Session and Follow-up, and a retention operation with its store.
\<close>

section \<open>Example records\<close>

text \<open>
  A concrete incomplete Claim, its paused Session and its Follow-up, interrupted at instant
  0; the witnesses of the properties below evaluate on them.
\<close>

definition sample_step :: customer_next_step where
  "sample_step = \<lparr>ns_status = ''resume'', ns_summary = ''Resume your claim.'',
     ns_responsible_party = Party_claimant, ns_expected_by = None, ns_can_resume = True,
     ns_required_items = []\<rparr>"

definition sample_claim :: working_claim where
  "sample_claim = \<lparr>wc_claim_id = ''clm_1'', wc_customer_id = ''cus_1'', wc_revision = 4,
     wc_active_session_id = None, wc_claim_decision_id = None, wc_workflow_state = Workflow_collecting,
     wc_content = ''intake'', wc_external_claim = None, wc_external_service_consents = [],
     wc_terminal_disposition = None,
     wc_customer_next_step = sample_step, wc_created_at = Aware 0, wc_updated_at = Aware 0\<rparr>"

definition sample_context :: recovery_context where
  "sample_context = \<lparr>rc_interrupted_at = Aware 0, rc_last_meaningful_activity_at = Aware 0,
     rc_last_meaningful_activity_source_ref = ''msg_1'', rc_resume_point = ''incident''\<rparr>"

definition sample_session :: session where
  "sample_session = \<lparr>se_session_id = ''ses_1'', se_claim_id = ''clm_1'', se_customer_id = ''cus_1'',
     se_status = Session_paused, se_recovery_context = Some sample_context,
     se_context_revision = 3, se_post_session_follow_up_required = True, se_content = ''chat'',
     se_started_at = Aware 0, se_last_active_at = Aware 0, se_closed_at = None\<rparr>"

definition sample_follow_up :: follow_up where
  "sample_follow_up = \<lparr>fu_follow_up_id = ''fup_1'', fu_claim_id = ''clm_1'',
     fu_source_session_id = ''ses_1'', fu_purpose = ''resume_incomplete_claim'',
     fu_policy_id = Some ''incomplete_claim_follow_up'', fu_policy_version = Some 1,
     fu_deadline_at = Some (Aware 604800000000), fu_responsible_party = Party_claimant,
     fu_source_refs = [''session:ses_1''], fu_contact_permission = AUTHORISED,
     fu_attempt_count = 0, fu_active_operation_id = None, fu_channel = Some Channel_in_app,
     fu_outcome = None, fu_blocked_reason = None, fu_resolution_code = None,
     fu_status = FU_pending, fu_due_at = Some (Aware 0), fu_created_at = Aware 0,
     fu_updated_at = Aware 0\<rparr>"

definition sample_operation :: operation where
  "sample_operation = scheduled_operation sample_claim sample_session sample_follow_up (Aware 0) 1 (Aware 0)"

lemma sample_obligation:
  "within_limits sample_claim sample_follow_up"
  "open_obligation sample_claim sample_session sample_context sample_follow_up"
  "contact_scheduled sample_context sample_follow_up"
  "attempt_history sample_claim sample_follow_up []"
  "attempt_due_at sample_context (fu_attempt_count sample_follow_up) = Aware 0"
  "recovery_deadline_of sample_context = Aware 604800000000"
  "rc_interrupted_at sample_context = Aware 0"
  "bound_to_policy sample_context sample_follow_up"
  by (simp_all add: within_limits_def open_obligation_def contact_scheduled_def
      attempt_history_def outstanding_ok_def countable_attempts_def attempt_due_at_def
      recovery_deadline_of_def is_checkpoint_def bound_to_policy_def sample_claim_def
      sample_session_def sample_follow_up_def sample_context_def bounded_text_def
      policy_constants INCOMPLETE_CLAIM_FOLLOW_UP_POLICY_ID_def)

lemma sample_follow_up_valid: "follow_up_valid sample_follow_up"
  by (simp add: follow_up_valid_iff validity follow_up_guards_def pending_guards_def
      sample_follow_up_def bounded_text_def fu_reason_code_def partial_binding_def)

lemma sample_operation_valid: "operation_valid sample_operation"
  using scheduled_valid_iff [OF sample_obligation(8)] sample_obligation(1)
  by (simp add: sample_operation_def within_limits_def)

lemma sample_due:
  "reduce_due_follow_up sample_claim sample_session sample_follow_up [] (Aware 60)
     = Inr (due_outcome sample_claim sample_session sample_context sample_follow_up [] (Aware 60))"
  using reduce_due_Inr_iff [of sample_claim sample_follow_up "[]"] sample_obligation
  by (simp add: exI [of _ sample_context])

lemma sample_expirable:
  "length (terminal_source_refs sample_follow_up) \<le> 20" "fu_status sample_follow_up \<noteq> FU_resolved"
  "closing_history sample_claim sample_follow_up []"
  using terminal_refs_facts(3) [of sample_follow_up] attempt_closing_history [OF sample_obligation(4)]
  by (simp_all add: sample_follow_up_def)

lemma sample_expired:
  "\<exists>u. reduce_expired_follow_up sample_claim sample_session sample_follow_up [] (Aware 604800000000)
     = Inr u"
  unfolding reduce_expired_Inr_iff [OF sample_obligation(1)]
  using sample_expirable sample_obligation by (auto intro!: exI [of _ sample_context])

section \<open>A retention operation\<close>

text \<open>A retention operation that has frozen one message target and not yet run it.\<close>

definition sample_target :: cleanup_target where
  "sample_target = \<lparr>ta_target_id = ''rtg_1'', ta_kind = Target_mongo_record,
     ta_record_type = ''MessageRecord'', ta_record_id = ''msg_1'', ta_classification = Class_delete,
     ta_storage_key = None, ta_source_refs = [''message:msg_1'']\<rparr>"

definition sample_retention :: retention_operation where
  "sample_retention = \<lparr>rt_operation_id = ''ret_1'', rt_claim_id = ''clm_1'',
     rt_source_terminal_ref = ''claim-terminal:clm_1:revision:5'', rt_source_claim_revision = 5,
     rt_policy_id = ''incomplete_claim_retention'', rt_policy_version = 1, rt_revision = 2,
     rt_status = Ret_reserved, rt_access_closed_at = Aware 0, rt_targets_frozen_at = Some (Aware 10),
     rt_targets = [sample_target], rt_delete_authorizations = [],
     rt_active_delete_authorization_id = None, rt_step_evidence = [], rt_hold_refs = [],
     rt_diagnostic_code = None, rt_source_refs = [''claim-terminal:clm_1:revision:5''],
     rt_created_at = Aware 0, rt_updated_at = Aware 10, rt_completed_at = None\<rparr>"

definition sample_evidence :: step_evidence where
  "sample_evidence = \<lparr>sv_evidence_id = ''rse_1'', sv_target_id = ''rtg_1'', sv_attempt = 1,
     sv_status = Step_satisfied, sv_object_outcome = None, sv_authorization_id = None,
     sv_diagnostic_code = None, sv_source_refs = [''message:msg_1''], sv_recorded_at = Aware 20\<rparr>"

lemmas sample_retention_defs = sample_retention_def sample_target_def sample_evidence_def

lemma sample_retention_valid: "retention_valid sample_retention"
  by (simp add: retention_valid_def validate_operation_def sample_retention_defs validity
      bounded_text_def retention_time_guards_def retention_status_guards_def all_satisfied_def
      needs_reconciliation_def any_failed_def retention_target_statuses_def initial_statuses_def)

lemma sample_step_accepted:
  "validate_step_evidence sample_evidence = Inr sample_evidence"
  "sv_target_id sample_evidence \<in> ta_target_id ` set (rt_targets sample_retention)"
  "sv_attempt sample_evidence = retention_next_attempt sample_retention (sv_target_id sample_evidence)"
  "sv_evidence_id sample_evidence \<notin> sv_evidence_id ` set (rt_step_evidence sample_retention)"
  "evidence_authorized (rt_delete_authorizations sample_retention) sample_evidence"
  "length (rt_step_evidence sample_retention) < 2000"
  by (simp_all add: sample_retention_defs validate_step_evidence_def bounded_text_def
      retention_next_attempt_def evidence_authorized_def evidence_authorization_guards_def)


text \<open>The Claim it belongs to, its reservation, and the same operation after an object was deleted.\<close>

definition sample_terminal_claim :: working_claim where
  "sample_terminal_claim = sample_claim\<lparr>wc_revision := 5, wc_terminal_disposition := Some
     \<lparr>td_value = Terminal_abandoned, td_reason_code = Reason_recovery_expired,
      td_source_refs = [''follow-up:fup_1''], td_recorded_by = \<lparr>actor_type = Actor_system, actor_id = ''sys''\<rparr>,
      td_recorded_at = Aware 0, td_recorded_revision = 5\<rparr>\<rparr>"

definition sample_reservation :: retention_operation where
  "sample_reservation = sample_retention\<lparr>rt_revision := 1, rt_targets_frozen_at := None,
     rt_targets := [], rt_source_refs := [''claim-terminal:clm_1:revision:5'', ''follow-up:fup_1'']\<rparr>"

definition sample_object :: cleanup_target where
  "sample_object = \<lparr>ta_target_id = ''rtg_0'', ta_kind = Target_object_bytes,
     ta_record_type = ''EvidenceObjectBytes'', ta_record_id = ''evd_1'',
     ta_classification = Class_delete, ta_storage_key = Some ''uploads/1'', ta_source_refs = []\<rparr>"

definition sample_cleanup :: retention_operation where
  "sample_cleanup = sample_retention\<lparr>rt_targets := [sample_object, sample_target],
     rt_delete_authorizations := [\<lparr>da_authorization_id = ''rda_1'', da_target_id = ''rtg_0'',
       da_attempt = 1, da_authorized_at = Aware 15\<rparr>],
     rt_step_evidence := [sample_evidence\<lparr>sv_evidence_id := ''rse_0'', sv_target_id := ''rtg_0'',
       sv_object_outcome := Some Outcome_deleted, sv_authorization_id := Some ''rda_1''\<rparr>]\<rparr>"

lemmas sample_cleanup_defs = sample_cleanup_def sample_object_def sample_retention_defs

lemma sample_cleanup_valid: "retention_valid sample_cleanup"
  by (simp add: retention_valid_def validate_operation_def sample_cleanup_defs validity
      bounded_text_def retention_time_guards_def retention_status_guards_def all_satisfied_def
      needs_reconciliation_def any_failed_def retention_target_statuses_def initial_statuses_def
      evidence_authorization_guards_def)

lemma sample_reservation_valid: "retention_valid sample_reservation"
  by (simp add: retention_valid_def validate_operation_def sample_reservation_def sample_retention_defs
      validity bounded_text_def retention_time_guards_def retention_status_guards_def all_satisfied_def
      needs_reconciliation_def any_failed_def retention_target_statuses_def initial_statuses_def)

text \<open>The store before the reservation, during the cleanup, and during the cleanup under a hold.\<close>

definition sample_message :: message where
  "sample_message = \<lparr>ms_message_id = ''msg_1'', ms_claim_id = ''clm_1'', ms_session_id = ''ses_1'',
     ms_client_message_id = None, ms_actor = Actor_claimant, ms_visibility = Claimant_visible,
     ms_content = [(''text'', ''hello'')], ms_evidence_refs = [], ms_in_reply_to = None,
     ms_recovery_rule_id = None, ms_created_at = Aware 0\<rparr>"

definition sample_reply :: message where
  "sample_reply = sample_message\<lparr>ms_message_id := ''msg_0'', ms_in_reply_to := Some ''msg_1''\<rparr>"

definition sample_hold :: retention_hold where
  "sample_hold = \<lparr>rh_hold_id = ''rhd_1'', rh_claim_id = ''clm_1'', rh_reason = Hold_legal,
     rh_authority_ref = ''case:1'', rh_source_refs = [''case:1''], rh_applied_at = Aware 12,
     rh_released_at = None\<rparr>"

definition sample_terminal_store :: store where
  "sample_terminal_store = empty_store\<lparr>st_claims := [(''clm_1'', sample_terminal_claim)]\<rparr>"

definition sample_store :: store where
  "sample_store = sample_terminal_store\<lparr>st_messages := [(''msg_1'', sample_message)],
     st_retention_operations := [(''ret_1'', sample_cleanup)],
     st_retention_by_claim := [(''clm_1'', ''ret_1'')]\<rparr>"

definition sample_held_store :: store where
  "sample_held_store = sample_store\<lparr>st_retention_holds := [(''rhd_1'', sample_hold)]\<rparr>"

lemmas sample_store_defs = sample_terminal_store_def sample_store_def sample_held_store_def
  empty_store_def

lemma sample_store_get:
  "dict_get (st_retention_operations sample_store) ''ret_1'' = Some sample_cleanup"
  "dict_get (st_retention_operations sample_held_store) ''ret_1'' = Some sample_cleanup"
  "rt_claim_id sample_cleanup = ''clm_1''" "active_hold_ids sample_held_store ''clm_1'' = [''rhd_1'']"
  by (simp_all add: sample_store_defs sample_cleanup_defs active_hold_ids_def hold_active_def sample_hold_def)

lemma sample_store_ok: "retention_store_ok sample_store" "retention_store_ok sample_terminal_store"
  using sample_cleanup_valid
  by (auto simp: retention_store_ok_def sample_store_defs unique_keys_def sample_cleanup_def
      sample_retention_def)

text \<open>The same store with the deletion of the object authorized and not answered, and a hold on it.\<close>

definition sample_flight :: retention_operation where
  "sample_flight = sample_cleanup\<lparr>rt_step_evidence := [], rt_active_delete_authorization_id := Some ''rda_1''\<rparr>"

definition sample_flight_store :: store where
  "sample_flight_store = sample_held_store\<lparr>st_retention_operations := [(''ret_1'', sample_flight)]\<rparr>"

lemma sample_flight_valid: "retention_valid sample_flight"
  by (simp add: retention_valid_def validate_operation_def sample_flight_def sample_cleanup_defs validity
      bounded_text_def retention_time_guards_def retention_status_guards_def all_satisfied_def
      needs_reconciliation_def any_failed_def retention_target_statuses_def initial_statuses_def)

lemma sample_flight_get:
  "dict_get (st_retention_operations sample_flight_store) ''ret_1'' = Some sample_flight"
  "rt_active_delete_authorization_id sample_flight = Some ''rda_1''" "rt_step_evidence sample_flight = []"
  "active_hold_ids sample_flight_store (rt_claim_id sample_flight) = [''rhd_1'']"
  using sample_store_get(4)
  by (simp_all add: sample_flight_store_def sample_flight_def active_hold_ids_def sample_cleanup_def sample_retention_def)

lemma sample_flight_ok: "retention_store_ok sample_flight_store"
  using sample_flight_valid
  by (auto simp: retention_store_ok_def sample_flight_store_def sample_store_defs unique_keys_def sample_flight_def
      sample_cleanup_def sample_retention_def)

lemma sample_authority: "validate_retention_source_authority sample_terminal_claim sample_reservation = Inr ()"
proof -
  have ref: "decimal 5 = ''5''" by code_simp
  have "owned_coordinates ''clm_1'' 5 ''ret_1'' (Aware 10)
      [''claim-terminal:clm_1:revision:5'', ''follow-up:fup_1''] (Some ''ret_1'')"
    by (simp add: owned_coordinates_def bounded_text_def)
  then have "decide_as reduce_owned_recovery Policy (plain_trigger Source_retention ''eligible'')
      ''clm_1'' 5 ''ret_1'' (Aware 10) [''claim-terminal:clm_1:revision:5'', ''follow-up:fup_1'']
      (Some ''ret_1'') (\<lambda>plan. tr_decision_code plan = Code_retention_eligible) e (Inr ()) = Inr ()" for e
    by (intro owned.decide_as_ok [OF owned_promised(5)]) simp_all
  then show ?thesis
    by (simp add: validate_retention_source_authority_def source_authority_guards_def
        sample_terminal_claim_def sample_claim_def sample_reservation_def sample_retention_def
        retention_terminal_source_ref_def ref RETENTION_ELIGIBLE_TERMINAL_REASONS_def
        RETENTION_ELIGIBLE_TERMINAL_VALUES_def INCOMPLETE_CLAIM_RETENTION_POLICY_ID_def
        INCOMPLETE_CLAIM_RETENTION_POLICY_VERSION_def)
qed

section \<open>A store with one open obligation\<close>

definition sample_recovery_store :: store where
  "sample_recovery_store = empty_store\<lparr>st_claims := [(''clm_1'', sample_claim)],
     st_sessions := [(''ses_1'', sample_session)], st_message_ids := [(''ses_1'', [])],
     st_follow_ups := [(''fup_1'', sample_follow_up)]\<rparr>"

lemma sample_recovery_get:
  "dict_get (st_claims sample_recovery_store) ''clm_1'' = Some sample_claim"
  "dict_get (st_sessions sample_recovery_store) ''ses_1'' = Some sample_session"
  "dict_get (st_follow_ups sample_recovery_store) ''fup_1'' = Some sample_follow_up"
  "operations_of sample_recovery_store i j = []"
  by (simp_all add: sample_recovery_store_def empty_store_def operations_of_def)

lemma sample_recovery_store_ok: "recovery_store_ok sample_recovery_store"
proof -
  have "histories_ok sample_recovery_store"
    by (auto simp: histories_ok_def sound_history_def attempt_history_def outstanding_ok_def
        countable_attempts_def keyed_def unique_keys_def sample_recovery_get(4))
      (auto simp: sample_recovery_store_def empty_store_def sample_follow_up_def bounded_text_def
        split: if_splits)
  moreover have "exclusive_ok sample_recovery_store"
    by (auto simp: exclusive_ok_def open_obligation_of_def sample_recovery_store_def empty_store_def
        sample_claim_def split: if_splits)
  ultimately show ?thesis
    by (auto simp: recovery_store_ok_def claims_ok_def index_ok_def indexed_def keyed_def unique_keys_def
        sample_recovery_store_def empty_store_def sample_claim_def bounded_text_def split: if_splits)
qed

text \<open>The store before the checkpoint that leads to the one above.\<close>

definition sample_active_store :: store where
  "sample_active_store = empty_store\<lparr>
     st_claims := [(''clm_1'', sample_claim\<lparr>wc_revision := 3, wc_active_session_id := Some ''ses_1''\<rparr>)],
     st_sessions := [(''ses_1'', sample_session\<lparr>se_status := Session_active, se_recovery_context := None\<rparr>)],
     st_message_ids := [(''ses_1'', [])]\<rparr>"

definition sample_checkpoint_key :: idempotency where
  "sample_checkpoint_key = \<lparr>im_actor_id = ''cus_1'', im_route = ''pause'', im_key = ''key_1'',
     im_request_fingerprint = ''print_1'', im_claim_id = ''clm_1'', im_session_id = ''ses_1'',
     im_fields = [(''follow_up_id'', Text_value ''fup_1'')], im_inbound_checkpoint = False,
     im_retired = False\<rparr>"

lemma sample_active_ok:
  "recovery_store_ok sample_active_store" "keyed se_session_id (st_sessions sample_active_store)"
  "recovery_allowed sample_active_store (Checkpoint sample_claim 3 sample_session sample_follow_up
     sample_checkpoint_key)"
  "recovery_checkpoint_allowed sample_claim"
  by (auto simp: recovery_store_ok_def histories_ok_def claims_ok_def exclusive_ok_def open_obligation_of_def
      index_ok_def indexed_def keyed_def unique_keys_def sample_active_store_def empty_store_def
      sample_claim_def sample_session_def sample_follow_up_def sample_step_def bounded_text_def keeps_terminal_def
      recovery_checkpoint_allowed_def split: if_splits)

lemma sample_checkpoint_saved:
  "\<exists>s'. save_incomplete_checkpoint sample_active_store sample_claim 3 sample_session sample_follow_up
     sample_checkpoint_key = Inr s'"
  by (simp add: save_incomplete_checkpoint_def validate_claim_mutation_def claim_access_closed_def checkpoint_ok_def
      bounded_text_def open_follow_up_exists_def prepare_realtime_mutation_def idempotency_lookup_def sample_active_store_def
      empty_store_def sample_claim_def sample_session_def sample_follow_up_def sample_checkpoint_key_def)

definition sample_attempt :: due_transition where
  "sample_attempt = due_outcome sample_claim sample_session sample_context sample_follow_up [] (Aware 60)"

definition sample_reminder :: message where
  "sample_reminder = sample_message\<lparr>ms_message_id := ''msg_2'', ms_actor := Actor_agent,
     ms_created_at := Aware 60\<rparr>"

definition sample_event :: audit_event where
  "sample_event = \<lparr>au_event_id = ''aud_1'', au_event_type = ACTION_COMPLETED,
     au_outcome = Audit_succeeded,
     au_subject = \<lparr>as_subject_type = Subject_claim, as_subject_id = ''clm_1'', as_claim_id = Some ''clm_1''\<rparr>,
     au_actor = \<lparr>actor_type = Actor_system, actor_id = ''worker'', aa_auth_source = ''internal''\<rparr>,
     au_reason = ''Committed.'', au_source_refs = [], au_permission = None, au_consent_ref = None,
     au_consent_state = None, au_visibility = Audit_internal_only, au_correlation_id = None,
     au_idempotency_key = None, au_claim_revision = Some 4, au_created_at = Aware 60\<rparr>"

lemma sample_due_ready:
  "due_ready sample_recovery_store sample_claim sample_session sample_context sample_follow_up (Aware 60)"
proof -
  have "validate_message_graph [] = Inr ()" by code_simp
  then show ?thesis
    using sample_recovery_store_ok sample_obligation
    by (simp add: due_ready_def sample_recovery_store_def empty_store_def claim_access_closed_def)
      (simp add: sample_claim_def sample_follow_up_def sample_context_def)
qed

lemma sample_expiry_ready:
  "expiry_ready sample_recovery_store sample_claim sample_session sample_context sample_follow_up
     (Aware 604800000000)"
  using sample_recovery_store_ok sample_obligation sample_expirable
  by (simp add: expiry_ready_def sample_recovery_store_def empty_store_def claim_access_closed_def)
    (simp add: sample_claim_def sample_follow_up_def sample_context_def)

lemma sample_reminder_plain: "plain_message sample_session sample_reminder"
  by (simp add: plain_message_def sample_session_def sample_reminder_def sample_message_def)

lemma sample_event_prepared:
  "prepare_audit_events sample_recovery_store sample_claim [sample_event] [] = Inr [(''aud_1'', sample_event)]"
  using prepared_event [of sample_event sample_claim sample_recovery_store]
  by (simp add: sample_event_def sample_claim_def sample_recovery_store_def empty_store_def)

definition sample_storage :: memory_storage where
  "sample_storage = \<lparr>mu_available = True, mu_pending = [], mu_completed = [((''clm_1'', ''evd_1''), ''uploads/1'')],
     mu_content = [(''clm_1'', ''evd_1'')]\<rparr>"

end
