(* ===== verification/Evidence_Repository.thy ===== *)
theory Evidence_Repository
  imports Follow_Up_Repository
begin

text \<open>
  The evidence operations of the fixture repository (\<open>backend/repositories/fixture.py\<close>): the
  three ways a record is written (\<open>save_evidence\<close>, \<open>save_evidence_mutation\<close> with the claim,
  \<open>save_evidence_action_mutation\<close> with a reuse link), and the claimant-scoped reads.
\<close>

section \<open>Reads\<close>

definition get_evidence :: "store \<Rightarrow> string \<Rightarrow> string \<Rightarrow> string \<Rightarrow> evidence_record option" where
  "get_evidence s claim_id evidence_id customer_id =
     (if get_claim s claim_id customer_id = None then None
      else case dict_get (st_evidence s) evidence_id of
        None \<Rightarrow> None
      | Some e \<Rightarrow> if ed_claim_id e \<noteq> claim_id then None else Some e)"

definition list_evidence :: "store \<Rightarrow> string \<Rightarrow> string \<Rightarrow> evidence_record list" where
  "list_evidence s claim_id customer_id =
     (if get_claim s claim_id customer_id = None then []
      else sort_key (\<lambda>e. instant (ed_created_at e))
        (filter (\<lambda>e. ed_claim_id e = claim_id) (dict_values (st_evidence s))))"

definition list_evidence_for_customer :: "store \<Rightarrow> string \<Rightarrow> evidence_record list" where
  "list_evidence_for_customer s customer_id =
     (let claims = map wc_claim_id (filter (\<lambda>c. wc_customer_id c = customer_id
            \<and> \<not> claim_access_closed s (wc_claim_id c)) (dict_values (st_claims s)))
      in sort_key (\<lambda>e. (instant (ed_created_at e), ed_evidence_id e))
           (filter (\<lambda>e. ed_claim_id e \<in> set claims \<and> ed_source e = Origin_claimant)
             (dict_values (st_evidence s))))"

definition list_evidence_recovery_page ::
  "store \<Rightarrow> string option \<Rightarrow> int \<Rightarrow> repo_error + evidence_record list" where
  "list_evidence_recovery_page s after_evidence_id limit =
     (let identifiers = take (nat (max 1 (min limit 50)))
            (sort (filter (\<lambda>i. opt_all (\<lambda>a. a < i) after_evidence_id) (map fst (st_evidence s))));
          records = List.map_filter (dict_get (st_evidence s)) identifiers
      in guarded [(map ed_evidence_id records \<noteq> identifiers, EvidenceCursorMismatch)] (Inr records))"

definition get_evidence_claim_link :: "store \<Rightarrow> string \<Rightarrow> string \<Rightarrow> string \<Rightarrow> evidence_link option" where
  "get_evidence_claim_link s target_claim_id evidence_id customer_id =
     (if \<not> claimant_resource_access_open s target_claim_id customer_id then None
      else case dict_get (st_evidence_links s) (target_claim_id, evidence_id) of
        None \<Rightarrow> None
      | Some l \<Rightarrow> if el_customer_id l \<noteq> customer_id
            \<or> \<not> claimant_resource_access_open s (el_source_claim_id l) customer_id
          then None else Some l)"

definition list_evidence_claim_links :: "store \<Rightarrow> string \<Rightarrow> string option \<Rightarrow> evidence_link list" where
  "list_evidence_claim_links s customer_id target_claim_id =
     (if \<not> opt_all (\<lambda>t. claimant_resource_access_open s t customer_id) target_claim_id then []
      else sort_key (\<lambda>l. (instant (el_created_at l), el_link_id l))
        (filter (\<lambda>l. el_customer_id l = customer_id
             \<and> opt_all (\<lambda>t. el_target_claim_id l = t) target_claim_id
             \<and> claimant_resource_access_open s (el_source_claim_id l) customer_id
             \<and> claimant_resource_access_open s (el_target_claim_id l) customer_id)
          (dict_values (st_evidence_links s))))"

section \<open>Writes\<close>

text \<open>Equality of two records, whose dictionaries are compared item by item.\<close>

definition same_evidence :: "evidence_record \<Rightarrow> evidence_record \<Rightarrow> bool" where
  "same_evidence a b \<longleftrightarrow> same_items (ed_provenance a) (ed_provenance b)
     \<and> list_all2 same_generation (ed_material_history a) (ed_material_history b)
     \<and> a\<lparr>ed_provenance := [], ed_material_history := []\<rparr>
         = b\<lparr>ed_provenance := [], ed_material_history := []\<rparr>"

definition put_evidence :: "evidence_record \<Rightarrow> store \<Rightarrow> store" where
  "put_evidence e s = s\<lparr>st_evidence := dict_put (ed_evidence_id e) e (st_evidence s)\<rparr>"

definition store_evidence :: "store \<Rightarrow> evidence_record \<Rightarrow> repo_error + store" where
  "store_evidence s e =
     bind_result (map_error EvidenceRejected (validate_evidence_record e)) (\<lambda>_. Inr (put_evidence e s))"

definition history_accepts :: "store \<Rightarrow> evidence_record \<Rightarrow> repo_error + unit" where
  "history_accepts s e = map_error (\<lambda>_. IdempotencyConflict (ed_evidence_id e))
     (assert_material_history_is_append_only (dict_get (st_evidence s) (ed_evidence_id e)) e)"

definition save_evidence :: "store \<Rightarrow> evidence_record \<Rightarrow> string \<Rightarrow> repo_error + store" where
  "save_evidence s e customer_id =
     (case dict_get (st_claims s) (ed_claim_id e) of
        None \<Rightarrow> Inl (Missing (ed_claim_id e))
      | Some c \<Rightarrow>
          guarded [(wc_customer_id c \<noteq> customer_id, Missing (ed_claim_id e))]
          (bind_result (map_error EvidenceRejected (validate_evidence_record e)) (\<lambda>_.
           bind_result (history_accepts s e) (\<lambda>_.
           bind_result (prepare_realtime_mutation s ''evidence_changed'' c None) (\<lambda>realtime.
             if dict_get (st_evidence s) (ed_evidence_id e) \<noteq> None
               \<and> opt_all (\<lambda>x. same_evidence x e) (dict_get (st_evidence s) (ed_evidence_id e))
             then Inr s
             else bind_result (store_evidence s e) (\<lambda>s1. Inr (commit_realtime realtime s1)))))))"

definition evidence_action_guards ::
  "store \<Rightarrow> working_claim \<Rightarrow> evidence_record option \<Rightarrow> evidence_link option \<Rightarrow> idempotency
     \<Rightarrow> (bool \<times> repo_error) list" where
  "evidence_action_guards s c evidence link record =
     (let owned = (\<lambda>i. case dict_get (st_claims s) i of None \<Rightarrow> False
                      | Some x \<Rightarrow> wc_customer_id x = wc_customer_id c)
      in [(im_actor_id record \<noteq> wc_customer_id c \<or> im_claim_id record \<noteq> wc_claim_id c
             \<or> im_session_id record \<noteq> (case wc_active_session_id c of None \<Rightarrow> [] | Some i \<Rightarrow> i),
           Missing (wc_claim_id c))]
         @ (case evidence of None \<Rightarrow> []
            | Some e \<Rightarrow> [(\<not> owned (ed_claim_id e), Missing (ed_evidence_id e))])
         @ (case link of None \<Rightarrow> []
            | Some l \<Rightarrow>
                [(el_target_claim_id l \<noteq> wc_claim_id c \<or> el_customer_id l \<noteq> wc_customer_id c,
                  Missing (el_link_id l)),
                 (\<not> (case dict_get (st_evidence s) (el_evidence_id l) of None \<Rightarrow> False
                     | Some e \<Rightarrow> ed_claim_id e = el_source_claim_id l)
                    \<or> \<not> owned (el_source_claim_id l),
                  Missing (el_evidence_id l))])
         @ [(dict_get (st_idempotency s) (idempotency_lookup record) \<noteq> None,
             IdempotencyConflict (im_key record))])"

definition save_evidence_action_mutation ::
  "store \<Rightarrow> working_claim \<Rightarrow> int \<Rightarrow> evidence_record option \<Rightarrow> evidence_link option \<Rightarrow> idempotency
     \<Rightarrow> audit_event \<Rightarrow> branch_evaluation \<Rightarrow> repo_error + store" where
  "save_evidence_action_mutation s c expected_revision evidence link record event branch =
     bind_result (case evidence of None \<Rightarrow> Inr ()
       | Some e \<Rightarrow> map_error EvidenceRejected (validate_evidence_record e)) (\<lambda>_.
     bind_result (validate_claim_mutation s c expected_revision False None) (\<lambda>_.
     bind_result (validate_branch_evaluation s c (Some branch)) (\<lambda>_.
     bind_result (prepare_audit_events s c [event] []) (\<lambda>prepared.
     guarded (evidence_action_guards s c evidence link record)
     (bind_result (prepare_realtime s ''evidence_claim_changed'' c (im_key record)) (\<lambda>realtime.
      bind_result (case evidence of None \<Rightarrow> Inr (put_claim c s)
        | Some e \<Rightarrow> store_evidence (put_claim c s) e) (\<lambda>s1.
      let s2 = (case link of None \<Rightarrow> s1
            | Some l \<Rightarrow> s1\<lparr>st_evidence_links :=
                dict_put (el_target_claim_id l, el_evidence_id l) l (st_evidence_links s1)\<rparr>)
      in Inr (commit_realtime realtime (store_audit_events prepared
           (put_idempotency record (put_branch_evaluation branch s2)))))))))))"

definition save_evidence_mutation ::
  "store \<Rightarrow> working_claim \<Rightarrow> int \<Rightarrow> evidence_record \<Rightarrow> idempotency \<Rightarrow> branch_evaluation option
     \<Rightarrow> repo_error + store" where
  "save_evidence_mutation s c expected_revision e record branch =
     bind_result (validate_claim_mutation s c expected_revision False None) (\<lambda>_.
     bind_result (map_error EvidenceRejected (validate_evidence_record e)) (\<lambda>_.
     bind_result (validate_branch_evaluation s c branch) (\<lambda>_.
     guarded
      [(ed_claim_id e \<noteq> wc_claim_id c
          \<or> \<not> opt_all (\<lambda>x. ed_claim_id x = wc_claim_id c) (dict_get (st_evidence s) (ed_evidence_id e))
          \<or> im_claim_id record \<noteq> wc_claim_id c \<or> im_actor_id record \<noteq> wc_customer_id c
          \<or> im_session_id record \<noteq> (case wc_active_session_id c of None \<Rightarrow> [] | Some i \<Rightarrow> i),
        Missing (wc_claim_id c))]
      (bind_result (history_accepts s e) (\<lambda>_.
       guarded
        [(\<not> opt_all (\<lambda>x. im_request_fingerprint x = im_request_fingerprint record)
            (dict_get (st_idempotency s) (idempotency_lookup record)),
          IdempotencyConflict (im_key record))]
        (bind_result (prepare_realtime s ''evidence_claim_changed'' c (im_key record)) (\<lambda>realtime.
         bind_result (store_evidence (put_claim c s) e) (\<lambda>s1.
           Inr (commit_realtime realtime
             (put_idempotency record (put_optional put_branch_evaluation branch s1)))))))))))"

end
