(* ===== verification/External_Task_Facts.thy ===== *)
theory External_Task_Facts
  imports External_Tasks
begin

text \<open>
  Properties of the rules of external tasks: every failure has one classification that agrees with
  the recovery registry; a permitted move keeps the identity of a task, never lowers its delivery
  and never leaves a settled status; a retry is permitted exactly after a retryable latest attempt;
  the origin of a piece of evidence does not depend on the order of the links; a verification
  produces a valid result that is never \<open>consistent\<close> and that may replace the stored one.
\<close>

section \<open>The classification agrees with the recovery registry\<close>

definition failure_rule :: "failure_code \<Rightarrow> task_delivery \<Rightarrow> recovery_rule" where
  "failure_rule c d =
     (if c \<in> REVIEW_REQUIRED_CODES then EXTERNAL_TERMINAL_FAILURE_RULE
      else if c = Failure_partial \<or> d = Submitted \<and> c \<in> UNKNOWN_AFTER_SUBMISSION_CODES
      then EXTERNAL_SUBMITTED_UNKNOWN_RULE
      else EXTERNAL_NOT_SUBMITTED_RETRYABLE_RULE)"

lemmas external_rule_defs = EXTERNAL_TERMINAL_FAILURE_RULE_def EXTERNAL_SUBMITTED_UNKNOWN_RULE_def
  EXTERNAL_NOT_SUBMITTED_RETRYABLE_RULE_def

lemma failure_rule_published: "failure_rule c d \<in> set RECOVERY_RULES"
  by (simp add: failure_rule_def RECOVERY_RULES_def PUBLISHED_RULES_def)

lemma failure_rule_matches: "rule_matches (failure_rule c d) (snd (failure_handling c d))"
  by (cases d)
    (auto simp: failure_rule_def failure_handling_def rule_matches_def external_rule_defs
      normalise_rule_def rule_defaults_def plain_trigger_def resolved_delivery_state_def)

lemma failure_handling_valid:
  "validate_recovery_contract (fst (failure_handling c d)) = Inr (fst (failure_handling c d))"
  "validate_delivery_coordinates (snd (failure_handling c d)) = Inr (snd (failure_handling c d))"
  by (auto simp: failure_handling_def validate_recovery_contract_def plain_classification_def
      validate_delivery_coordinates_def plain_trigger_def bounded_text_def)

lemma classify_external_task_failure_eq:
  "classify_external_task_failure c d = Inr ((fst (failure_handling c d))
     \<lparr>fc_recovery_policy_id := Some (rr_policy_id (failure_rule c d)),
      fc_recovery_policy_version := Some (rr_version (failure_rule c d))\<rparr>)"
proof -
  have "classify_recovery (snd (failure_handling c d)) = Inr (failure_rule c d)"
    using failure_rule_published failure_rule_matches by (simp add: classify_Inr_iff)
  then show ?thesis
    using failure_handling_valid [of c d]
    by (simp add: classify_external_task_failure_def split_beta)
qed

text \<open>The status a failure has, which is all the validators read of its classification.\<close>

definition failure_status :: "failure_code \<Rightarrow> task_delivery \<Rightarrow> task_status" where
  "failure_status c d = fc_operation_status (fst (failure_handling c d))"

lemma failure_status_iff:
  "failure_status c d = Task_terminal_failure \<longleftrightarrow> c \<in> REVIEW_REQUIRED_CODES"
  "failure_status c d = Task_unknown_outcome
     \<longleftrightarrow> c = Failure_partial \<or> c = Failure_timeout \<and> d = Submitted"
  "failure_status c d = Task_retryable_failure
     \<longleftrightarrow> c = Failure_unavailable \<or> c = Failure_timeout \<and> d = Not_submitted"
  "failure_status c d \<noteq> Task_prepared" "failure_status c d \<noteq> Task_accepted"
  by (cases c; cases d; simp add: failure_status_def failure_handling_def plain_classification_def
      REVIEW_REQUIRED_CODES_def UNKNOWN_AFTER_SUBMISSION_CODES_def)+

lemma failure_recovery_iff:
  "fc_recovery (fst (failure_handling c d)) = Recover_retry_same_operation
     \<longleftrightarrow> failure_status c d = Task_retryable_failure"
  by (simp add: failure_status_def failure_handling_def plain_classification_def)

lemma classified_agrees_with_rule:
  "fc_retryable (fst (failure_handling c d))
     \<longleftrightarrow> rr_retry_mode (failure_rule c d) = Retry_same_operation"
  "rr_requires_reconciliation (failure_rule c d) \<longleftrightarrow> failure_status c d = Task_unknown_outcome"
  "rr_requires_operation_identity (failure_rule c d)"
  "rr_max_auto_retry (failure_rule c d) = 0"
  by (auto simp: failure_rule_def failure_handling_def failure_status_def plain_classification_def
      external_rule_defs normalise_rule_def rule_defaults_def)

lemma failure_matches_iff:
  "failure_matches code d s = Inr () \<longleftrightarrow> (\<exists>c. code = Some c \<and> failure_status c d = s)"
  by (auto simp: failure_matches_def classify_external_task_failure_eq failure_status_def
      split: option.splits)

section \<open>Valid records\<close>

lemma task_lifecycle_operation [simp]: "task_lifecycle s \<in> OPERATION_STATUS_IDS"
  by (cases s) (simp_all add: OPERATION_STATUS_IDS_def)

lemma task_lifecycle_inject [simp]: "task_lifecycle s = task_lifecycle t \<longleftrightarrow> s = t"
  by (cases s; cases t) simp_all

lemma validate_task_state_iff:
  "validate_task_state t = Inr () \<longleftrightarrow> task_fields_ok t
     \<and> \<not> incomparable (xt_updated_at t) (xt_created_at t)
     \<and> \<not> dt_before (xt_updated_at t) (xt_created_at t)
     \<and> (xt_delivery t = Submitted \<longleftrightarrow> xt_delivery_evidence t \<noteq> None)
     \<and> (xt_provider_reference t \<noteq> None \<longrightarrow> xt_delivery t = Submitted)
     \<and> (case xt_failure_code t of
          None \<Rightarrow> xt_status t = (if xt_delivery t = Submitted then Task_accepted else Task_prepared)
        | Some c \<Rightarrow> xt_status t = failure_status c (xt_delivery t))"
  using failure_status_iff(4,5) [symmetric]
  by (cases "xt_delivery t"; cases "xt_failure_code t")
    (auto simp: validate_task_state_def before_guard_def task_status_value_def
      assert_operation_status_registered_value failure_matches_iff failure_status_iff)

lemma validate_attempt_state_iff:
  "validate_attempt_state a = Inr () \<longleftrightarrow> attempt_fields_ok a
     \<and> (xa_delivery a = Submitted \<longleftrightarrow> xa_delivery_evidence a \<noteq> None)
     \<and> (case xa_failure_code a of
          None \<Rightarrow> xa_outcome a = Task_accepted \<and> xa_delivery a = Submitted
        | Some c \<Rightarrow> xa_outcome a = failure_status c (xa_delivery a))"
  using failure_status_iff(4,5) [symmetric]
  by (cases "xa_delivery a"; cases "xa_failure_code a")
    (auto simp: validate_attempt_state_def failure_matches_iff failure_status_iff)

lemma registry_compatible_iff:
  "assert_external_task_registry_compatible t = Inr () \<longleftrightarrow>
     (\<exists>e. find_service (xt_service_identity t) = Some e \<and> svc_uses_external_task e)
       \<and> xt_integration_source t = Integration_fixture"
  by (cases "xt_integration_source t"; cases "xt_delivery t")
    (simp_all add: assert_external_task_registry_compatible_def task_status_value_def
      assert_registry_compatible_iff request_provenance_def)

section \<open>Moves of a task\<close>

definition task_move :: "external_task \<Rightarrow> external_task \<Rightarrow> bool" where
  "task_move c p \<longleftrightarrow> assert_task_transition_is_permitted c p = Inr ()"

lemma task_move_iff:
  "task_move c p \<longleftrightarrow> same_task c p \<and> \<not> incomparable (xt_updated_at p) (xt_updated_at c)
     \<and> \<not> dt_before (xt_updated_at p) (xt_updated_at c)
     \<and> (xt_delivery c = Submitted \<longrightarrow> xt_delivery p = Submitted
          \<and> xt_delivery_evidence p = xt_delivery_evidence c)
     \<and> persisted_move (task_lifecycle (xt_status c)) (task_lifecycle (xt_status p))
     \<and> (xt_status c = Task_unknown_outcome \<and> xt_status p = Task_accepted \<longrightarrow>
          xt_provider_reference p \<noteq> None \<and> xt_provider_reference p \<noteq> xt_provider_reference c)"
proof -
  have moves: "persisted_move (task_lifecycle a) (task_lifecycle b) \<longleftrightarrow>
      a = b \<or> a = Task_prepared \<or> (a = Task_retryable_failure \<and> b \<in> {Task_accepted, Task_unknown_outcome})
      \<or> (a = Task_unknown_outcome \<and> b \<in> {Task_accepted, Task_terminal_failure})" for a b
    by (cases a; cases b) (simp_all add: persisted_move_def OPERATION_STATUS_IDS_def)
  have step: "map_error (\<lambda>_. TaskTransitionNotPermitted)
      (assert_persisted_operation_transition (lifecycle_value (task_lifecycle (xt_status c)))
        (lifecycle_value (task_lifecycle (xt_status p)))) = Inr () \<longleftrightarrow>
      xt_status c = xt_status p \<or> xt_status c = Task_prepared
      \<or> xt_status c = Task_retryable_failure \<and> xt_status p \<in> {Task_accepted, Task_unknown_outcome}
      \<or> xt_status c = Task_unknown_outcome \<and> xt_status p \<in> {Task_accepted, Task_terminal_failure}"
    by (simp only: map_error_Inr_iff assert_persisted_operation_transition_value moves)
  show ?thesis
  proof (cases "xt_status p = Task_prepared")
    case True
    then show ?thesis
      unfolding task_move_def assert_task_transition_is_permitted_def before_guard_def moves
        guarded_Inr_iff
      by auto
  next
    case False
    show ?thesis
      unfolding task_move_def assert_task_transition_is_permitted_def before_guard_def moves
        reconciliation_guards_def task_status_value_def guarded_Inr_iff if_not_P [OF False] step
      using False by (cases "xt_status c"; cases "xt_status p") (simp_all add: SETTLED_TASK_STATES_def, blast+)
  qed
qed

text \<open>What a sequence of permitted moves keeps.\<close>

definition task_kept :: "external_task \<Rightarrow> external_task \<Rightarrow> bool" where
  "task_kept t u \<longleftrightarrow> same_task t u
     \<and> (xt_delivery t = Submitted \<longrightarrow> xt_delivery u = Submitted
          \<and> xt_delivery_evidence u = xt_delivery_evidence t)
     \<and> (xt_status t \<in> SETTLED_TASK_STATES \<longrightarrow> xt_status u = xt_status t)
     \<and> (xt_status u = Task_prepared \<longrightarrow> xt_status t = Task_prepared)
     \<and> (xt_status t = Task_unknown_outcome
          \<longrightarrow> xt_status u \<in> {Task_unknown_outcome, Task_accepted, Task_terminal_failure})"

lemma task_move_kept: "task_move c p \<Longrightarrow> task_kept c p"
  by (cases "xt_status c"; cases "xt_status p")
    (auto simp: task_move_iff task_kept_def SETTLED_TASK_STATES_def persisted_move_def
      OPERATION_STATUS_IDS_def)

lemma task_kept_refl [simp]: "task_kept t t"
  by (simp add: task_kept_def same_task_def)

lemma task_kept_trans:
  assumes "task_kept t u" "task_kept u v"
  shows "task_kept t v"
proof -
  have "same_task t v" using assms by (simp add: task_kept_def same_task_def)
  moreover have "xt_status t = Task_unknown_outcome
      \<longrightarrow> xt_status v \<in> {Task_unknown_outcome, Task_accepted, Task_terminal_failure}"
    using assms unfolding task_kept_def SETTLED_TASK_STATES_def
    by (cases "xt_status u") simp_all
  ultimately show ?thesis using assms unfolding task_kept_def by metis
qed

lemma task_moves_kept: "successively task_move (t # ts) \<Longrightarrow> u \<in> set (t # ts) \<Longrightarrow> task_kept t u"
proof (induction ts arbitrary: t)
  case (Cons v ts)
  have step: "task_move t v" and rest: "successively task_move (v # ts)"
    using Cons.prems(1) by simp_all
  show ?case
    using Cons.IH [OF rest] Cons.prems(2) task_kept_trans [OF task_move_kept [OF step]]
    by (cases "u = t") auto
qed simp

lemma task_moves_statuses:
  "successively task_move ts \<Longrightarrow> successively persisted_move (map (\<lambda>t. task_lifecycle (xt_status t)) ts)"
  by (induction ts rule: induct_list012) (auto simp: task_move_iff)

section \<open>Retries\<close>

lemma latest_attempt_max:
  "latest_attempt a as \<in> set (a # as) \<and>
   (\<forall>b \<in> set (a # as). xa_attempt_number b \<le> xa_attempt_number (latest_attempt a as))"
proof (induction as arbitrary: a)
  case (Cons b as)
  then show ?case
    using Cons.IH [of b] Cons.IH [of a] by (auto split: if_splits) fastforce+
qed simp

lemma passes_concat: "passes (concat gss) \<longleftrightarrow> list_all passes gss"
  by (induction gss) auto

definition attempt_of :: "external_request \<Rightarrow> external_attempt \<Rightarrow> bool" where
  "attempt_of q a \<longleftrightarrow> xa_task_id a = xq_task_id q \<and> xa_claim_id a = xq_claim_id q
     \<and> xq_operation_id q = Some (xa_operation_id a)"

lemma attempt_guards_pass: "passes (attempt_guards q a) \<longleftrightarrow> attempt_of q a"
  by (auto simp: attempt_guards_def attempt_of_def)

lemma retry_permitted_iff:
  assumes "\<forall>a \<in> set as. validate_attempt_state a = Inr ()"
  shows "assert_retry_is_permitted q as = Inr () \<longleftrightarrow>
    (\<forall>a \<in> set as. attempt_of q a) \<and> distinct (map xa_attempt_number as) \<and>
    (\<exists>a \<in> set as. (\<forall>b \<in> set as. xa_attempt_number b \<le> xa_attempt_number a)
       \<and> xa_outcome a = Task_retryable_failure)"
proof (cases as)
  case Nil
  then show ?thesis by (simp add: assert_retry_is_permitted_def)
next
  case (Cons x xs)
  define l where "l = latest_attempt x xs"
  have l: "l \<in> set as" "\<forall>b \<in> set as. xa_attempt_number b \<le> xa_attempt_number l"
    using latest_attempt_max [of x xs] by (simp_all add: l_def Cons)
  have valid: "validate_attempt_state l = Inr ()" using assms l(1) by blast
  have outcome: "(if xa_outcome l = Task_accepted then Inl RetryNotPermitted
      else case xa_failure_code l of
        None \<Rightarrow> Inl RetryNotPermitted
      | Some c \<Rightarrow> bind_result (classify_external_task_failure c (xa_delivery l)) (\<lambda>k.
          guarded [(fc_recovery k \<noteq> Recover_retry_same_operation, RetryNotPermitted)] (Inr ())))
      = Inr () \<longleftrightarrow> xa_outcome l = Task_retryable_failure"
    using valid failure_status_iff(5)
    by (auto simp: validate_attempt_state_iff classify_external_task_failure_eq failure_recovery_iff
        split: option.splits)
  have top: "b = l" if "distinct (map xa_attempt_number as)" "b \<in> set as"
    "\<forall>a \<in> set as. xa_attempt_number a \<le> xa_attempt_number b" for b
    using that l by (auto simp: distinct_map dest: inj_onD intro: antisym)
  have operation: "xq_operation_id q \<noteq> None" if "\<forall>a \<in> set as. attempt_of q a"
    using that l(1) by (auto simp: attempt_of_def)
  have "assert_retry_is_permitted q as = Inr () \<longleftrightarrow>
      xq_operation_id q \<noteq> None \<and> (\<forall>a \<in> set as. attempt_of q a)
      \<and> distinct (map xa_attempt_number as) \<and> xa_outcome l = Task_retryable_failure"
    unfolding assert_retry_is_permitted_def guarded_Inr_iff passes_simps passes_concat
    using outcome by (auto simp: Cons l_def [symmetric] list_all_iff attempt_guards_pass)
  then show ?thesis using operation top l by metis
qed

section \<open>The origin of evidence\<close>

definition origin_tasks :: "evidence_record \<Rightarrow> external_link list \<Rightarrow> string set" where
  "origin_tasks e links = {xl_task_id l |l. l \<in> set links \<and> xl_evidence_id l = ed_evidence_id e
     \<and> xl_claim_id l = ed_claim_id e}"

lemma external_task_for_evidence_iff:
  "external_task_for_evidence e links = Inr (Some i) \<longleftrightarrow>
     ed_source e = Origin_external_system \<and> origin_tasks e links = {i}"
proof -
  define os where "os = fromkeys (map xl_task_id (filter (\<lambda>l. xl_evidence_id l = ed_evidence_id e
     \<and> xl_claim_id l = ed_claim_id e) links))"
  have os: "set os = origin_tasks e links" "distinct os"
    by (auto simp: os_def origin_tasks_def)
  have single: "os = [i] \<longleftrightarrow> set os = {i}"
    using os(2) distinct_singleton by fastforce
  have "external_task_for_evidence e links = Inr (Some i) \<longleftrightarrow>
      ed_source e = Origin_external_system \<and> os = [i]"
    by (cases os rule: list.exhaust; cases "tl os")
      (auto simp: external_task_for_evidence_def os_def [symmetric] Let_def split: option.splits)
  then show ?thesis using single os(1) by simp
qed

lemma external_task_for_evidence_None:
  "external_task_for_evidence e links = Inr None \<longleftrightarrow> ed_source e \<noteq> Origin_external_system"
  by (auto simp: external_task_for_evidence_def Let_def split: list.splits option.splits)

lemma origin_order:
  assumes "set links = set links'"
  shows "external_task_for_evidence e links = Inr x \<longleftrightarrow> external_task_for_evidence e links' = Inr x"
  using assms
  by (cases x) (simp_all add: external_task_for_evidence_None external_task_for_evidence_iff origin_tasks_def)

text \<open>The projection of tasks with their evidence never shows one material under two tasks of a claim.\<close>

definition grouped_by ::
  "(string \<times> string) list \<Rightarrow> (string \<times> string list) list \<Rightarrow> ((string \<times> string) \<times> string) list \<Rightarrow> bool"
  where
  "grouped_by claims grouped origins \<longleftrightarrow>
     (\<forall>t ids. dict_get grouped t = Some ids \<longrightarrow> distinct ids \<and>
        (\<forall>e. e \<in> set ids \<longleftrightarrow> (\<exists>c. dict_get claims t = Some c \<and> dict_get origins (c, e) = Some t)))"

lemma grouped_byD:
  "grouped_by claims grouped origins \<Longrightarrow> dict_get grouped t = Some ids \<Longrightarrow> distinct ids"
  "grouped_by claims grouped origins \<Longrightarrow> dict_get grouped t = Some ids \<Longrightarrow>
     e \<in> set ids \<longleftrightarrow> (\<exists>c. dict_get claims t = Some c \<and> dict_get origins (c, e) = Some t)"
  unfolding grouped_by_def by blast+

lemma grouped_by_add:
  assumes "grouped_by claims grouped origins" "dict_get grouped t = Some ids"
    "dict_get claims t = Some c" "dict_get origins (c, e) = None"
  shows "grouped_by claims (dict_put t (ids @ [e]) grouped) (dict_put (c, e) t origins)"
  unfolding grouped_by_def
proof (intro allI impI)
  fix t' ids'
  assume ids': "dict_get (dict_put t (ids @ [e]) grouped) t' = Some ids'"
  show "distinct ids' \<and> (\<forall>e'. e' \<in> set ids' \<longleftrightarrow> (\<exists>c'. dict_get claims t' = Some c'
      \<and> dict_get (dict_put (c, e) t origins) (c', e') = Some t'))"
  proof (cases "t' = t")
    case True
    have old: "distinct ids" "\<And>e'. e' \<in> set ids \<longleftrightarrow> dict_get origins (c, e') = Some t"
      using grouped_byD [OF assms(1,2)] assms(3) by simp_all
    have new: "ids' = ids @ [e]" "e \<notin> set ids" using ids' True old(2) assms(4) by simp_all
    have "dict_get (dict_put (c, e) t origins) (c, e') = Some t \<longleftrightarrow> e' = e \<or> e' \<in> set ids" for e'
      using old(2) by simp
    then show ?thesis using new old(1) True assms(3) by (simp del: dict_get_put)
  next
    case False
    then have held: "dict_get grouped t' = Some ids'" using ids' by simp
    have old: "distinct ids'" "\<And>e'. e' \<in> set ids' \<longleftrightarrow>
        (\<exists>c'. dict_get claims t' = Some c' \<and> dict_get origins (c', e') = Some t')"
      by (rule grouped_byD [OF assms(1) held])+
    have same: "dict_get (dict_put (c, e) t origins) k = Some t' \<longleftrightarrow> dict_get origins k = Some t'"
      for k
      using False assms(4) by (cases "k = (c, e)") simp_all
    show ?thesis unfolding same using old by blast
  qed
qed

lemma group_links_grouped:
  assumes "group_links claims links grouped origins = Inr g" "grouped_by claims grouped origins"
    "\<forall>t. dict_get grouped t \<noteq> None \<longleftrightarrow> dict_get claims t \<noteq> None"
  shows "\<exists>os. grouped_by claims g os
    \<and> (\<forall>t. dict_get g t \<noteq> None \<longleftrightarrow> dict_get claims t \<noteq> None)
    \<and> (\<forall>k v. dict_get origins k = Some v \<longrightarrow> dict_get os k = Some v)
    \<and> (\<forall>l \<in> set links. dict_get claims (xl_task_id l) \<noteq> None \<longrightarrow>
         dict_get claims (xl_task_id l) = Some (xl_claim_id l)
         \<and> dict_get os (xl_claim_id l, xl_evidence_id l) = Some (xl_task_id l))"
  using assms
proof (induction links arbitrary: grouped origins)
  case (Cons l links)
  show ?case
  proof (cases "dict_get claims (xl_task_id l)")
    case None
    then have "dict_get grouped (xl_task_id l) = None" using Cons.prems(3) by blast
    then show ?thesis using Cons.IH [of grouped origins] Cons.prems None by auto
  next
    case (Some c)
    then obtain ids where ids: "dict_get grouped (xl_task_id l) = Some ids"
      using Cons.prems(3) by (metis not_None_eq)
    have c: "c = xl_claim_id l" using Cons.prems(1) Some ids by (auto split: if_splits)
    show ?thesis
    proof (cases "dict_get origins (xl_claim_id l, xl_evidence_id l)")
      case None
      let ?g = "dict_put (xl_task_id l) (ids @ [xl_evidence_id l]) grouped"
      let ?o = "dict_put (xl_claim_id l, xl_evidence_id l) (xl_task_id l) origins"
      have "grouped_by claims ?g ?o"
        using grouped_by_add [OF Cons.prems(2) ids] Some c None by simp
      moreover have keys: "\<forall>t. dict_get ?g t \<noteq> None \<longleftrightarrow> dict_get claims t \<noteq> None"
        using Cons.prems(3) Some by simp
      moreover have "group_links claims links ?g ?o = Inr g"
        using Cons.prems(1) Some ids None c by (auto split: if_splits)
      ultimately obtain os where os: "grouped_by claims g os"
        "\<forall>t. dict_get g t \<noteq> None \<longleftrightarrow> dict_get claims t \<noteq> None"
        "\<forall>k v. dict_get ?o k = Some v \<longrightarrow> dict_get os k = Some v"
        "\<forall>l \<in> set links. dict_get claims (xl_task_id l) \<noteq> None \<longrightarrow>
          dict_get claims (xl_task_id l) = Some (xl_claim_id l)
          \<and> dict_get os (xl_claim_id l, xl_evidence_id l) = Some (xl_task_id l)"
        using Cons.IH [of ?g ?o] keys by blast
      have first: "dict_get ?o (xl_claim_id l, xl_evidence_id l) = Some (xl_task_id l)" by simp
      have "dict_get ?o k = Some v" if "dict_get origins k = Some v" for k v
        using that None by auto
      then show ?thesis using os first Some c by (intro exI [of _ os]) (simp del: dict_get_put)
    next
      case (Some held)
      have "held = xl_task_id l" and "group_links claims links grouped origins = Inr g"
        using Cons.prems(1) ids Some \<open>dict_get claims (xl_task_id l) = Some c\<close> c
        by (auto split: if_splits)
      then show ?thesis
        using Cons.IH [of grouped origins] Cons.prems(2,3) Some
          \<open>dict_get claims (xl_task_id l) = Some c\<close> c
        by auto
    qed
  qed
qed auto

lemma group_links_from:
  assumes "group_links claims links grouped origins = Inr g" "dict_get g t = Some ids" "e \<in> set ids"
  shows "(\<exists>old. dict_get grouped t = Some old \<and> e \<in> set old)
    \<or> (\<exists>l \<in> set links. xl_task_id l = t \<and> xl_evidence_id l = e)"
  using assms
proof (induction links arbitrary: grouped origins)
  case (Cons l links)
  show ?case
  proof (cases "group_links claims links grouped origins = Inr g")
    case True
    then show ?thesis using Cons.IH [OF True Cons.prems(2,3)] by auto
  next
    case False
    then obtain old where old: "dict_get grouped (xl_task_id l) = Some old"
      "group_links claims links (dict_put (xl_task_id l) (old @ [xl_evidence_id l]) grouped)
        (dict_put (xl_claim_id l, xl_evidence_id l) (xl_task_id l) origins) = Inr g"
      using Cons.prems(1) by (auto split: option.splits if_splits)
    show ?thesis
      using Cons.IH [OF old(2) Cons.prems(2,3)] old(1) by (cases "t = xl_task_id l") auto
  qed
qed auto

lemma foldl_put_get:
  "dict_get (foldl (\<lambda>d t. dict_put (k t) (v t) d) d ts) i =
     (case find (\<lambda>t. k t = i) (rev ts) of None \<Rightarrow> dict_get d i | Some t \<Rightarrow> Some (v t))"
  by (induction ts rule: rev_induct) auto

lemma task_evidence_views:
  assumes "map_external_task_evidence tasks links = Inr views" "distinct (map xt_task_id tasks)"
  shows "map vw_task views = tasks
    \<and> (\<forall>v \<in> set views. distinct (vw_evidence_ids v) \<and> set (vw_evidence_ids v) =
         {xl_evidence_id l |l. l \<in> set links \<and> xl_task_id l = xt_task_id (vw_task v)})
    \<and> (\<forall>v \<in> set views. \<forall>w \<in> set views. xt_claim_id (vw_task v) = xt_claim_id (vw_task w)
         \<and> set (vw_evidence_ids v) \<inter> set (vw_evidence_ids w) \<noteq> {} \<longrightarrow> vw_task v = vw_task w)"
proof -
  define grouped where "grouped = foldl (\<lambda>d t. dict_put (xt_task_id t) ([] :: string list) d) [] tasks"
  define claims where "claims = foldl (\<lambda>d t. dict_put (xt_task_id t) (xt_claim_id t) d) [] tasks"
  obtain g where g: "group_links claims links grouped [] = Inr g"
    and views: "views = map (\<lambda>t. \<lparr>vw_task = t,
      vw_evidence_ids = (case dict_get g (xt_task_id t) of None \<Rightarrow> [] | Some ids \<Rightarrow> ids)\<rparr>) tasks"
    using assms(1)
    by (auto simp: map_external_task_evidence_def grouped_def claims_def Let_def bind_result_Inr_iff)
  have claim_of: "dict_get claims (xt_task_id t) = Some (xt_claim_id t)" if "t \<in> set tasks" for t
  proof -
    have "find (\<lambda>u. xt_task_id u = xt_task_id t) (rev tasks) \<noteq> None"
      using that by (auto simp: find_None_iff)
    then obtain u where u: "find (\<lambda>u. xt_task_id u = xt_task_id t) (rev tasks) = Some u" by blast
    then obtain i where "i < length (rev tasks)" "u = rev tasks ! i" "xt_task_id u = xt_task_id t"
      by (auto simp: find_Some_iff)
    then have "u \<in> set tasks" "xt_task_id u = xt_task_id t" by (metis nth_mem set_rev, blast)
    then have "u = t" using assms(2) that by (auto simp: distinct_map dest: inj_onD)
    then show ?thesis using u by (simp add: claims_def foldl_put_get)
  qed
  have start: "grouped_by claims grouped []" "\<forall>t. dict_get grouped t \<noteq> None \<longleftrightarrow> dict_get claims t \<noteq> None"
    by (auto simp: grouped_by_def grouped_def claims_def foldl_put_get split: option.splits)
  have empty: "\<not> (\<exists>old. dict_get grouped t = Some old \<and> e \<in> set old)" for t e
    by (auto simp: grouped_def foldl_put_get split: option.splits)
  obtain os where os: "grouped_by claims g os"
    "\<forall>t. dict_get g t \<noteq> None \<longleftrightarrow> dict_get claims t \<noteq> None"
    and reached: "\<forall>l \<in> set links. dict_get claims (xl_task_id l) \<noteq> None \<longrightarrow>
         dict_get claims (xl_task_id l) = Some (xl_claim_id l)
         \<and> dict_get os (xl_claim_id l, xl_evidence_id l) = Some (xl_task_id l)"
    using group_links_grouped [OF g start] by blast
  have held: "\<exists>ids. dict_get g (xt_task_id t) = Some ids" if "t \<in> set tasks" for t
    using os(2) claim_of [OF that] by blast
  have members: "set ids = {xl_evidence_id l |l. l \<in> set links \<and> xl_task_id l = xt_task_id t}"
    if "t \<in> set tasks" "dict_get g (xt_task_id t) = Some ids" for t ids
  proof -
    have "e \<in> set ids" if "l \<in> set links" "xl_task_id l = xt_task_id t" "e = xl_evidence_id l" for l e
      using that reached claim_of [OF \<open>t \<in> set tasks\<close>]
        grouped_byD(2) [OF os(1) \<open>dict_get g (xt_task_id t) = Some ids\<close>]
      by auto
    moreover have "\<exists>l \<in> set links. xl_task_id l = xt_task_id t \<and> xl_evidence_id l = e"
      if "e \<in> set ids" for e
      using group_links_from [OF g \<open>dict_get g (xt_task_id t) = Some ids\<close> that] empty by blast
    ultimately show ?thesis by blast
  qed
  have view_of: "vw_task v \<in> set tasks \<and> dict_get g (xt_task_id (vw_task v)) = Some (vw_evidence_ids v)"
    if "v \<in> set views" for v
    using that by (auto simp: views split: option.splits dest: held)
  show ?thesis
  proof (intro conjI ballI impI)
    show "map vw_task views = tasks" by (simp add: views comp_def)
  next
    fix v
    assume "v \<in> set views"
    then have t: "vw_task v \<in> set tasks" "dict_get g (xt_task_id (vw_task v)) = Some (vw_evidence_ids v)"
      using view_of by blast+
    show "distinct (vw_evidence_ids v)" by (rule grouped_byD(1) [OF os(1) t(2)])
    show "set (vw_evidence_ids v) =
         {xl_evidence_id l |l. l \<in> set links \<and> xl_task_id l = xt_task_id (vw_task v)}"
      by (rule members [OF t])
  next
    fix v w
    assume vw: "v \<in> set views" "w \<in> set views" "xt_claim_id (vw_task v) = xt_claim_id (vw_task w)
         \<and> set (vw_evidence_ids v) \<inter> set (vw_evidence_ids w) \<noteq> {}"
    define t u where "t = vw_task v" and "u = vw_task w"
    have tu: "t \<in> set tasks" "u \<in> set tasks"
      "dict_get g (xt_task_id t) = Some (vw_evidence_ids v)"
      "dict_get g (xt_task_id u) = Some (vw_evidence_ids w)"
      unfolding t_def u_def using vw(1,2) view_of by blast+
    obtain e where "e \<in> set (vw_evidence_ids v)" "e \<in> set (vw_evidence_ids w)" using vw(3) by blast
    then have "dict_get os (xt_claim_id t, e) = Some (xt_task_id t)"
      "dict_get os (xt_claim_id u, e) = Some (xt_task_id u)"
      using grouped_byD(2) [OF os(1) tu(3)] grouped_byD(2) [OF os(1) tu(4)] claim_of [OF tu(1)]
        claim_of [OF tu(2)]
      by simp_all
    then have "xt_task_id t = xt_task_id u" using vw(3) by (simp add: t_def u_def)
    then have "t = u" using assms(2) tu(1,2) by (auto simp: distinct_map dest: inj_onD)
    then show "vw_task v = vw_task w" by (simp add: t_def u_def)
  qed
qed

section \<open>Results\<close>

lemma set_map_singleton: "set (map f xs) = {y} \<longleftrightarrow> xs \<noteq> [] \<and> (\<forall>x \<in> set xs. f x = y)"
  by (cases xs) auto

lemma result_link_guards_pass:
  "passes (result_link_guards r links i) \<longleftrightarrow>
     (\<exists>l \<in> set links. xl_evidence_id l = i) \<and>
     (\<forall>l \<in> set links. xl_evidence_id l = i \<longrightarrow> xl_claim_id l = xr_claim_id r \<and> xl_task_id l = xr_task_id r)"
proof -
  define ls where "ls = filter (\<lambda>l. xl_evidence_id l = i) links"
  have "\<not> 1 < card (set (map xl_task_id ls))" if "set (map xl_task_id ls) = {xr_task_id r}"
    unfolding that by simp
  then have "passes (result_link_guards r links i) \<longleftrightarrow> ls \<noteq> []
      \<and> set (map xl_claim_id ls) = {xr_claim_id r} \<and> set (map xl_task_id ls) = {xr_task_id r}"
    unfolding result_link_guards_def ls_def [symmetric] Let_def by (auto simp only: passes_simps)
  also have "\<dots> \<longleftrightarrow> ls \<noteq> [] \<and> (\<forall>l \<in> set ls. xl_claim_id l = xr_claim_id r \<and> xl_task_id l = xr_task_id r)"
    unfolding set_map_singleton by blast
  finally show ?thesis unfolding ls_def filter_empty_conv set_filter by blast
qed

lemma result_evidence_linked_iff:
  "assert_result_evidence_is_linked r links = Inr () \<longleftrightarrow> (\<forall>i \<in> set (xr_evidence_ids r).
     (\<exists>l \<in> set links. xl_evidence_id l = i) \<and>
     (\<forall>l \<in> set links. xl_evidence_id l = i \<longrightarrow> xl_claim_id l = xr_claim_id r \<and> xl_task_id l = xr_task_id r))"
  by (simp add: assert_result_evidence_is_linked_def guarded_Inr_iff passes_concat list_all_iff
      result_link_guards_pass)

lemma latest_of_bounds:
  "latest_of d ds = Inr l \<Longrightarrow> \<forall>x \<in> set (d # ds). \<not> dt_before l x \<and> \<not> incomparable l x"
proof (induction ds arbitrary: d)
  case (Cons x ds)
  have ok: "\<not> incomparable x d" "latest_of (if dt_before d x then x else d) ds = Inr l"
    using Cons.prems by (auto split: if_splits)
  show ?case
    using Cons.IH [OF ok(2)] ok(1) by (auto simp: dt_before_def incomparable_def split: if_splits)
qed simp

lemma decided_not_consistent:
  "decide_result_verification r t evidence \<in> {Result_inconsistent, Result_review_required}"
  by (simp add: decide_result_verification_def)

lemma verify_external_task_result_Inr:
  assumes "verify_external_task_result r t links c evidence checked_at = Inr r'"
  shows "r' = r\<lparr>xr_verification := decide_result_verification r t evidence,
                xr_verified_at := Some checked_at,
                xr_verified_against_revision := Some (wc_revision c)\<rparr>"
    "xr_verification r = Result_unverified" "validate_result_state r' = Inr ()"
    "assert_result_matches_task r t = Inr ()" "assert_result_evidence_is_linked r links = Inr ()"
    "xr_claim_id r = wc_claim_id c"
    "\<forall>e \<in> set evidence. ed_claim_id e = wc_claim_id c \<and> \<not> dt_before (wc_updated_at c) (ed_updated_at e)"
    "\<forall>d \<in> {xr_received_at r, xt_updated_at t, wc_updated_at c}
       \<union> xl_linked_at ` {l \<in> set links. xl_evidence_id l \<in> set (xr_evidence_ids r)}.
       \<not> dt_before checked_at d"
proof -
  obtain latest where checks: "xr_verification r = Result_unverified" "xr_claim_id r = wc_claim_id c"
      "assert_result_matches_task r t = Inr ()" "assert_result_evidence_is_linked r links = Inr ()"
      "assert_evidence_belongs_to_snapshot c evidence = Inr ()"
    and latest: "latest_state_read r t links c = Inr latest" "\<not> dt_before checked_at latest"
    and r': "r' = r\<lparr>xr_verification := decide_result_verification r t evidence,
                xr_verified_at := Some checked_at,
                xr_verified_against_revision := Some (wc_revision c)\<rparr>"
      "validate_result_state r' = Inr ()"
    using assms
    by (auto simp: verify_external_task_result_def guarded_Inr_iff bind_result_Inr_iff Let_def
        before_guard_def simp del: guarded.simps)
  show "r' = r\<lparr>xr_verification := decide_result_verification r t evidence,
                xr_verified_at := Some checked_at,
                xr_verified_against_revision := Some (wc_revision c)\<rparr>"
    "xr_verification r = Result_unverified" "validate_result_state r' = Inr ()"
    "assert_result_matches_task r t = Inr ()" "assert_result_evidence_is_linked r links = Inr ()"
    "xr_claim_id r = wc_claim_id c"
    using checks r' by simp_all
  show "\<forall>e \<in> set evidence. ed_claim_id e = wc_claim_id c \<and> \<not> dt_before (wc_updated_at c) (ed_updated_at e)"
    using checks(5)
    by (simp add: assert_evidence_belongs_to_snapshot_def guarded_Inr_iff passes_concat list_all_iff
        snapshot_guards_def before_guard_def)
  show "\<forall>d \<in> {xr_received_at r, xt_updated_at t, wc_updated_at c}
       \<union> xl_linked_at ` {l \<in> set links. xl_evidence_id l \<in> set (xr_evidence_ids r)}.
       \<not> dt_before checked_at d"
    using latest_of_bounds [OF latest(1) [unfolded latest_state_read_def]] latest(2)
    by (auto simp: dt_before_def)
qed

definition result_advance :: "external_result \<Rightarrow> external_result \<Rightarrow> bool" where
  "result_advance c p \<longleftrightarrow> assert_result_advance_is_permitted c p = Inr ()"

lemma result_advance_iff:
  "result_advance c p \<longleftrightarrow> p = c \<or> same_ingestion c p \<and> xr_verification c = Result_unverified
     \<and> xr_verification p \<noteq> Result_unverified"
  by (cases c; cases p)
    (auto simp: result_advance_def assert_result_advance_is_permitted_def same_ingestion_def)

lemma result_advance_trans:
  "result_advance a b \<Longrightarrow> result_advance b c \<Longrightarrow> result_advance a c"
  by (auto simp: result_advance_iff same_ingestion_def)

lemma result_advances: "successively result_advance (r # rs) \<Longrightarrow> s \<in> set (r # rs) \<Longrightarrow> result_advance r s"
proof (induction rs arbitrary: r)
  case Nil
  then show ?case by (simp add: result_advance_iff)
next
  case (Cons v rs)
  have step: "result_advance r v" and rest: "successively result_advance (v # rs)"
    using Cons.prems(1) by simp_all
  show ?case
    using Cons.IH [OF rest] Cons.prems(2) result_advance_trans [OF step]
    by (cases "s = r") (auto simp: result_advance_iff)
qed

end
