(* ===== verification/External_Repository.thy ===== *)
theory External_Repository
  imports Evidence_Repository External_Task_Facts
begin

text \<open>
  The external-task operations of the fixture repository (\<open>backend/repositories/fixture.py\<close>):
  tasks, requests with the reservation of their dispatch, attempts, settlements, evidence links
  and results, and the internal reads. An operation that finds the record it would write already
  stored publishes nothing and leaves the store as it is, but still builds the publication and so
  may be refused by its field constraints.
\<close>

section \<open>Decisions\<close>

definition save_agent_decision :: "store \<Rightarrow> agent_decision \<Rightarrow> string \<Rightarrow> repo_error + store" where
  "save_agent_decision s d customer_id = guarded
     [(get_claim s (dn_claim_id d) customer_id = None
         \<or> get_session s (dn_claim_id d) (dn_session_id d) customer_id = None,
       Missing (dn_claim_id d))]
     (Inr (s\<lparr>st_decisions := dict_put (dn_decision_id d) d (st_decisions s)\<rparr>))"

definition get_agent_decision :: "store \<Rightarrow> string \<Rightarrow> string \<Rightarrow> string \<Rightarrow> agent_decision option" where
  "get_agent_decision s claim_id decision_id customer_id =
     (if get_claim s claim_id customer_id = None then None
      else case dict_get (st_decisions s) decision_id of
        None \<Rightarrow> None
      | Some d \<Rightarrow> if dn_claim_id d \<noteq> claim_id then None else Some d)"

section \<open>Tasks\<close>

definition changes_identity :: "external_task \<Rightarrow> external_task \<Rightarrow> bool" where
  "changes_identity existing t \<longleftrightarrow>
     xt_claim_id existing \<noteq> xt_claim_id t \<or> xt_service_identity existing \<noteq> xt_service_identity t
     \<or> xt_requested_action existing \<noteq> xt_requested_action t
     \<or> xt_integration_source existing \<noteq> xt_integration_source t
     \<or> xt_created_at existing \<noteq> xt_created_at t"

definition task_advance_guards ::
  "external_task option \<Rightarrow> external_task \<Rightarrow> (bool \<times> repo_error) list" where
  "task_advance_guards existing t = (case existing of None \<Rightarrow> []
     | Some x \<Rightarrow>
         [(changes_identity x t, IdempotencyConflict (xt_task_id t)),
          (incomparable (xt_updated_at t) (xt_updated_at x), DatetimeTypeError),
          (\<not> dt_before (xt_updated_at x) (xt_updated_at t), IdempotencyConflict (xt_task_id t))])"

definition put_external_task :: "external_task \<Rightarrow> store \<Rightarrow> store" where
  "put_external_task t s =
     s\<lparr>st_external_tasks := dict_put (xt_task_id t) t (st_external_tasks s)\<rparr>"

definition save_external_task :: "store \<Rightarrow> external_task \<Rightarrow> string \<Rightarrow> repo_error + store" where
  "save_external_task s t customer_id =
     (case get_claim s (xt_claim_id t) customer_id of
        None \<Rightarrow> Inl (Missing (xt_claim_id t))
      | Some c \<Rightarrow>
          (let existing = dict_get (st_external_tasks s) (xt_task_id t) in
           guarded [(\<not> opt_all (\<lambda>x. xt_claim_id x = xt_claim_id t) existing,
                     IdempotencyConflict (xt_task_id t))]
           (if existing = Some t
            then bind_result (prepare_realtime_mutation s ''external_task_changed'' c None)
                   (\<lambda>_. Inr s)
            else guarded (task_advance_guards existing t)
              (bind_result (map_error ExternalRejected (assert_external_task_registry_compatible t)) (\<lambda>_.
               bind_result (prepare_realtime_mutation s ''external_task_changed'' c None) (\<lambda>realtime.
                 Inr (commit_realtime realtime (put_external_task t s))))))))"

section \<open>Requests and the reservation of their dispatch\<close>

definition put_external_request :: "external_request \<Rightarrow> store \<Rightarrow> store" where
  "put_external_request q s =
     s\<lparr>st_external_requests := dict_put (xq_request_id q) q (st_external_requests s)\<rparr>"

definition held_request :: "store \<Rightarrow> string \<Rightarrow> string \<Rightarrow> string \<Rightarrow> repo_error + external_request" where
  "held_request s claim_id request_id customer_id =
     (if get_claim s claim_id customer_id = None then Inl (Missing claim_id)
      else case dict_get (st_external_requests s) request_id of
        None \<Rightarrow> Inl (Missing request_id)
      | Some q \<Rightarrow> if xq_claim_id q \<noteq> claim_id then Inl (Missing request_id) else Inr q)"

text \<open>The reserved request is written under the identity it was asked for by.\<close>

definition write_request :: "string \<Rightarrow> external_request \<Rightarrow> store \<Rightarrow> store" where
  "write_request request_id q s =
     s\<lparr>st_external_requests := dict_put request_id q (st_external_requests s)\<rparr>"

definition reserve_external_dispatch ::
  "store \<Rightarrow> string \<Rightarrow> string \<Rightarrow> string \<Rightarrow> datetime \<Rightarrow> string
     \<Rightarrow> repo_error + external_request option \<times> store" where
  "reserve_external_dispatch s claim_id request_id customer_id reserved_at operation_id =
     bind_result (held_request s claim_id request_id customer_id) (\<lambda>q.
       if xq_dispatch_reserved_at q \<noteq> None then Inr (None, s)
       else (let reserved = q\<lparr>xq_dispatch_reserved_at := Some reserved_at,
                              xq_operation_id := Some operation_id\<rparr>
             in Inr (Some reserved, write_request request_id reserved s)))"

definition release_external_dispatch ::
  "store \<Rightarrow> string \<Rightarrow> string \<Rightarrow> string \<Rightarrow> repo_error + store" where
  "release_external_dispatch s claim_id request_id customer_id =
     bind_result (held_request s claim_id request_id customer_id) (\<lambda>q.
       if xq_dispatch_reserved_at q = None then Inr s
       else Inr (write_request request_id (q\<lparr>xq_dispatch_reserved_at := None\<rparr>) s))"

definition request_authorised :: "store \<Rightarrow> external_request \<Rightarrow> bool" where
  "request_authorised s q \<longleftrightarrow>
     (case dict_get (st_decisions s) (az_northwind_authority_ref (xq_authorisation q)) of
        None \<Rightarrow> False
      | Some d \<Rightarrow> dn_claim_id d = xq_claim_id q
          \<and> dn_resulting_revision d = az_authorised_revision (xq_authorisation q)
          \<and> dn_authority_outcome d = Outcome_authorised)"

definition same_request_identity :: "external_request \<Rightarrow> external_request \<Rightarrow> bool" where
  "same_request_identity x q \<longleftrightarrow>
     xq_request_id x = xq_request_id q \<and> xq_task_id x = xq_task_id q \<and> xq_claim_id x = xq_claim_id q
     \<and> xq_service_identity x = xq_service_identity q \<and> xq_requested_action x = xq_requested_action q
     \<and> xq_purpose x = xq_purpose q \<and> xq_disclosed_fields x = xq_disclosed_fields q
     \<and> xq_authorisation x = xq_authorisation q \<and> xq_prepared_at x = xq_prepared_at q"

definition first_send :: "external_request \<Rightarrow> external_request \<Rightarrow> bool" where
  "first_send x q \<longleftrightarrow> xq_sent_at x = None \<and> xq_sent_at q \<noteq> None \<and> xq_operation_id q \<noteq> None
     \<and> (xq_operation_id x = None \<or> xq_operation_id x = xq_operation_id q)"

definition find_consent :: "working_claim \<Rightarrow> string \<Rightarrow> external_consent option" where
  "find_consent c consent_ref =
     find (\<lambda>k. ec_consent_ref k = consent_ref) (wc_external_service_consents c)"

definition save_external_task_request ::
  "store \<Rightarrow> external_request \<Rightarrow> string \<Rightarrow> repo_error + store" where
  "save_external_task_request s q customer_id =
     (let conflict = IdempotencyConflict (xq_request_id q) in
      case (get_claim s (xq_claim_id q) customer_id, dict_get (st_external_tasks s) (xq_task_id q)) of
        (Some c, Some t) \<Rightarrow>
          guarded [(xt_claim_id t \<noteq> xq_claim_id q, Missing (xq_claim_id q))]
          (bind_result (map_error (\<lambda>_. conflict) (assert_request_matches_task q t)) (\<lambda>_.
           case find_consent c (az_claimant_consent_ref (xq_authorisation q)) of
             None \<Rightarrow> Inl (Missing (xq_request_id q))
           | Some consent \<Rightarrow>
               guarded [(\<not> request_authorised s q, Missing (xq_request_id q))]
               (bind_result (map_error (\<lambda>_. conflict)
                   (assert_disclosure_within_consent q consent customer_id)) (\<lambda>_.
                guarded [(list_ex (\<lambda>h. xq_task_id h = xq_task_id q \<and> xq_request_id h \<noteq> xq_request_id q)
                            (dict_values (st_external_requests s)), IdempotencyConflict (xq_task_id q))]
                (let existing = dict_get (st_external_requests s) (xq_request_id q) in
                 if existing = Some q
                 then bind_result (prepare_realtime_mutation s ''external_request_changed'' c
                        (xq_operation_id q)) (\<lambda>_. Inr s)
                 else guarded [(\<not> opt_all (\<lambda>x. same_request_identity x q \<and> first_send x q) existing,
                                conflict)]
                   (bind_result (prepare_realtime_mutation s ''external_request_changed'' c
                      (xq_operation_id q)) (\<lambda>realtime.
                    Inr (commit_realtime realtime (put_external_request q s)))))))))
      | _ \<Rightarrow> Inl (Missing (xq_claim_id q)))"

section \<open>Attempts and settlements\<close>

definition attempts_of :: "store \<Rightarrow> string \<Rightarrow> external_attempt list" where
  "attempts_of s task_id =
     filter (\<lambda>a. xa_task_id a = task_id) (dict_values (st_external_attempts s))"

text \<open>\<open>max(numbers, default=0)\<close>\<close>

definition max_number :: "int list \<Rightarrow> int" where
  "max_number ns = (case ns of [] \<Rightarrow> 0 | n # rest \<Rightarrow> foldl max n rest)"

definition next_attempt_number :: "store \<Rightarrow> string \<Rightarrow> int" where
  "next_attempt_number s task_id = max_number (map xa_attempt_number (attempts_of s task_id)) + 1"

definition request_of_task :: "store \<Rightarrow> string \<Rightarrow> external_request option" where
  "request_of_task s task_id =
     find (\<lambda>q. xq_task_id q = task_id) (dict_values (st_external_requests s))"

definition put_external_attempt :: "external_attempt \<Rightarrow> store \<Rightarrow> store" where
  "put_external_attempt a s =
     s\<lparr>st_external_attempts := dict_put (xa_attempt_id a) a (st_external_attempts s)\<rparr>"

definition save_external_task_attempt ::
  "store \<Rightarrow> external_attempt \<Rightarrow> string \<Rightarrow> repo_error + store" where
  "save_external_task_attempt s a customer_id =
     (let conflict = IdempotencyConflict (xa_attempt_id a) in
      guarded
       [(get_claim s (xa_claim_id a) customer_id = None, Missing (xa_claim_id a)),
        (\<not> (case dict_get (st_external_tasks s) (xa_task_id a) of None \<Rightarrow> False
            | Some t \<Rightarrow> xt_claim_id t = xa_claim_id a), Missing (xa_task_id a)),
        (\<not> (case request_of_task s (xa_task_id a) of None \<Rightarrow> False
            | Some q \<Rightarrow> xq_operation_id q = Some (xa_operation_id a)), Missing (xa_operation_id a))]
       (case dict_get (st_external_attempts s) (xa_attempt_id a) of
          Some existing \<Rightarrow> if existing \<noteq> a then Inl conflict else Inr s
        | None \<Rightarrow> guarded
            [(list_ex (\<lambda>x. xa_attempt_number x = xa_attempt_number a) (attempts_of s (xa_task_id a)),
              conflict),
             (xa_attempt_number a \<noteq> next_attempt_number s (xa_task_id a), conflict)]
            (Inr (put_external_attempt a s))))"

text \<open>A settlement that raises restores what the task write had changed.\<close>

definition save_external_task_settlement ::
  "store \<Rightarrow> external_task \<Rightarrow> external_attempt \<Rightarrow> string \<Rightarrow> repo_error + store" where
  "save_external_task_settlement s t a customer_id =
     bind_result (save_external_task s t customer_id) (\<lambda>s1.
       save_external_task_attempt s1 a customer_id)"

section \<open>Evidence links and results\<close>

definition put_external_link :: "external_link \<Rightarrow> store \<Rightarrow> store" where
  "put_external_link l s = s\<lparr>st_external_links :=
     dict_put (xl_claim_id l, xl_evidence_id l) l (st_external_links s)\<rparr>"

definition save_external_task_evidence_link ::
  "store \<Rightarrow> external_link \<Rightarrow> string \<Rightarrow> repo_error + store" where
  "save_external_task_evidence_link s l customer_id =
     (case get_claim s (xl_claim_id l) customer_id of
        None \<Rightarrow> Inl (Missing (xl_claim_id l))
      | Some c \<Rightarrow>
          (let existing = dict_get (st_external_links s) (xl_claim_id l, xl_evidence_id l) in
           guarded
            [(\<not> (case dict_get (st_external_tasks s) (xl_task_id l) of None \<Rightarrow> False
                 | Some t \<Rightarrow> xt_claim_id t = xl_claim_id l), Missing (xl_task_id l)),
             (get_evidence s (xl_claim_id l) (xl_evidence_id l) customer_id = None,
              Missing (xl_evidence_id l)),
             (\<not> opt_all (\<lambda>x. x = l) existing, IdempotencyConflict (xl_evidence_id l))]
            (bind_result (prepare_realtime_mutation s ''external_evidence_linked'' c None) (\<lambda>realtime.
               if existing = Some l then Inr s
               else Inr (commit_realtime realtime (put_external_link l s))))))"

definition result_of_task :: "store \<Rightarrow> string \<Rightarrow> external_result option" where
  "result_of_task s task_id =
     find (\<lambda>r. xr_task_id r = task_id) (dict_values (st_external_results s))"

definition put_external_result :: "external_result \<Rightarrow> store \<Rightarrow> store" where
  "put_external_result r s =
     s\<lparr>st_external_results := dict_put (xr_result_id r) r (st_external_results s)\<rparr>"

definition result_evidence_guards ::
  "store \<Rightarrow> external_result \<Rightarrow> string \<Rightarrow> (bool \<times> repo_error) list" where
  "result_evidence_guards s r customer_id =
     map (\<lambda>i. (get_evidence s (xr_claim_id r) i customer_id = None, Missing i)) (xr_evidence_ids r)"

definition save_external_task_result ::
  "store \<Rightarrow> external_result \<Rightarrow> string \<Rightarrow> repo_error + store" where
  "save_external_task_result s r customer_id =
     (let conflict = IdempotencyConflict (xr_result_id r);
          links = filter (\<lambda>l. xl_evidence_id l \<in> set (xr_evidence_ids r))
            (dict_values (st_external_links s))
      in case get_claim s (xr_claim_id r) customer_id of
        None \<Rightarrow> Inl (Missing (xr_claim_id r))
      | Some c \<Rightarrow> (case dict_get (st_external_tasks s) (xr_task_id r) of
          None \<Rightarrow> Inl (Missing (xr_task_id r))
        | Some t \<Rightarrow>
            bind_result (map_error (\<lambda>_. Missing (xr_task_id r)) (assert_result_matches_task r t)) (\<lambda>_.
            bind_result (map_error (\<lambda>_. Missing (xr_task_id r))
                (assert_result_evidence_is_linked r links)) (\<lambda>_.
            guarded (result_evidence_guards s r customer_id
              @ [(\<not> opt_all (\<lambda>x. xr_task_id x = xr_task_id r)
                   (dict_get (st_external_results s) (xr_result_id r)), conflict)])
            (case result_of_task s (xr_task_id r) of
               None \<Rightarrow>
                 guarded [(xr_verification r \<noteq> Result_unverified, conflict)]
                 (bind_result (prepare_realtime_mutation s ''external_result_changed'' c None)
                    (\<lambda>realtime. Inr (commit_realtime realtime (put_external_result r s))))
             | Some held \<Rightarrow>
                 if held = r then
                   bind_result (prepare_realtime_mutation s ''external_result_changed'' c None)
                     (\<lambda>_. Inr s)
                 else bind_result
                   (map_error (\<lambda>_. conflict) (assert_result_advance_is_permitted held r)) (\<lambda>_.
                   bind_result (prepare_realtime_mutation s ''external_result_changed'' c None)
                     (\<lambda>realtime. Inr (commit_realtime realtime (put_external_result r s)))))))))"

section \<open>Internal reads\<close>

definition list_external_tasks_internal :: "store \<Rightarrow> string \<Rightarrow> external_task list" where
  "list_external_tasks_internal s claim_id =
     sort_key (\<lambda>t. (instant (xt_created_at t), xt_task_id t))
       (filter (\<lambda>t. xt_claim_id t = claim_id) (dict_values (st_external_tasks s)))"

definition list_external_task_requests_internal :: "store \<Rightarrow> string \<Rightarrow> external_request list" where
  "list_external_task_requests_internal s claim_id =
     sort_key (\<lambda>q. (instant (xq_prepared_at q), xq_request_id q))
       (filter (\<lambda>q. xq_claim_id q = claim_id) (dict_values (st_external_requests s)))"

definition list_external_task_attempts_internal :: "store \<Rightarrow> string \<Rightarrow> external_attempt list" where
  "list_external_task_attempts_internal s claim_id =
     sort_key (\<lambda>a. (xa_task_id a, xa_attempt_number a, xa_attempt_id a))
       (filter (\<lambda>a. xa_claim_id a = claim_id) (dict_values (st_external_attempts s)))"

definition list_external_task_results_internal :: "store \<Rightarrow> string \<Rightarrow> external_result list" where
  "list_external_task_results_internal s claim_id =
     sort_key (\<lambda>r. (instant (xr_received_at r), xr_result_id r))
       (filter (\<lambda>r. xr_claim_id r = claim_id) (dict_values (st_external_results s)))"

definition list_external_task_evidence_links_internal :: "store \<Rightarrow> string \<Rightarrow> external_link list" where
  "list_external_task_evidence_links_internal s claim_id =
     sort_key (\<lambda>l. (instant (xl_linked_at l), xl_evidence_id l, xl_task_id l))
       (filter (\<lambda>l. xl_claim_id l = claim_id) (dict_values (st_external_links s)))"

end
