(* ===== verification/External_Safety.thy ===== *)
theory External_Safety
  imports External_Repository Store_Facts
begin

text \<open>
  The external-task operations of the repository as a machine that keeps an invariant and only
  grows: one request and one result per task, attempts numbered without gaps in the order they were
  stored, every attempt under the operation identity of its request, every result's material linked
  to its task, only registered simulated services; tasks and requests keep their identity, a sent
  request stays sent at the same time and under the same operation, attempts and links are never
  changed and results are verified at most once. A caller may reserve a dispatch only under the
  operation identity the request already carries, if it carries one (\<open>external_allowed\<close>).
\<close>

section \<open>Calls\<close>

datatype external_call =
    Save_task external_task string
  | Save_decision agent_decision string
  | Save_request external_request string
  | Reserve string string string datetime string
  | Release string string string
  | Save_attempt external_attempt string
  | Settle external_task external_attempt string
  | Save_link external_link string
  | Save_result external_result string
  | Save_evidence evidence_record string

fun external_exec :: "store \<Rightarrow> external_call \<Rightarrow> repo_error + store" where
  "external_exec s (Save_task t customer) = save_external_task s t customer"
| "external_exec s (Save_decision d customer) = save_agent_decision s d customer"
| "external_exec s (Save_request q customer) = save_external_task_request s q customer"
| "external_exec s (Reserve claim_id request_id customer at operation_id) =
     bind_result (reserve_external_dispatch s claim_id request_id customer at operation_id)
       (\<lambda>(_, s'). Inr s')"
| "external_exec s (Release claim_id request_id customer) =
     release_external_dispatch s claim_id request_id customer"
| "external_exec s (Save_attempt a customer) = save_external_task_attempt s a customer"
| "external_exec s (Settle t a customer) = save_external_task_settlement s t a customer"
| "external_exec s (Save_link l customer) = save_external_task_evidence_link s l customer"
| "external_exec s (Save_result r customer) = save_external_task_result s r customer"
| "external_exec s (Save_evidence e customer) = save_evidence s e customer"

definition external_allowed :: "store \<Rightarrow> external_call \<Rightarrow> bool" where
  "external_allowed s c = (case c of
     Reserve _ request_id _ _ operation_id \<Rightarrow>
       opt_all (\<lambda>q. opt_all (\<lambda>i. i = operation_id) (xq_operation_id q))
         (dict_get (st_external_requests s) request_id)
   | _ \<Rightarrow> True)"

section \<open>The external part of the store\<close>

text \<open>The five tables the operations write, as one value.\<close>

definition external_tables where
  "external_tables s = (st_external_tasks s, st_external_requests s, st_external_attempts s,
     st_external_links s, st_external_results s)"

lemma external_tables_eq:
  "external_tables s' = external_tables s \<longleftrightarrow>
     st_external_tasks s' = st_external_tasks s \<and> st_external_requests s' = st_external_requests s
     \<and> st_external_attempts s' = st_external_attempts s
     \<and> st_external_links s' = st_external_links s \<and> st_external_results s' = st_external_results s"
  by (simp add: external_tables_def)

lemmas external_writes = commit_realtime_def put_external_task_def put_external_request_def
  write_request_def put_external_attempt_def put_external_link_def put_external_result_def

lemma get_claim_stored: "get_claim s i c = Some x \<Longrightarrow> dict_get (st_claims s) i = Some x \<and> wc_customer_id x = c"
  by (auto simp: get_claim_def claimant_resource_access_open_def split: if_splits option.splits)

lemma save_external_task_Inr:
  assumes "save_external_task s t customer = Inr s'"
  shows "external_tables s' = external_tables s \<or>
    external_tables s' = external_tables (put_external_task t s)
    \<and> assert_external_task_registry_compatible t = Inr ()
    \<and> opt_all (\<lambda>x. \<not> changes_identity x t \<and> dt_before (xt_updated_at x) (xt_updated_at t))
        (dict_get (st_external_tasks s) (xt_task_id t))"
proof (cases "dict_get (st_external_tasks s) (xt_task_id t) = Some t")
  case True
  then show ?thesis
    using assms by (auto simp: save_external_task_def Let_def bind_result_Inr_iff split: option.splits if_splits)
next
  case False
  obtain c e where
    "passes (task_advance_guards (dict_get (st_external_tasks s) (xt_task_id t)) t)"
    "assert_external_task_registry_compatible t = Inr ()"
    "s' = commit_realtime e (put_external_task t s)"
    using assms False
    by (auto simp: save_external_task_def Let_def bind_result_Inr_iff guarded_Inr_iff
        simp del: guarded.simps split: option.splits)
  then show ?thesis
    by (auto simp: external_tables_def external_writes task_advance_guards_def split: option.splits)
qed

lemma save_external_task_request_Inr:
  assumes "save_external_task_request s q customer = Inr s'"
  shows "external_tables s' = external_tables s \<or>
    external_tables s' = external_tables (put_external_request q s)
    \<and> opt_all (\<lambda>x. same_request_identity x q \<and> first_send x q)
        (dict_get (st_external_requests s) (xq_request_id q))
    \<and> (\<forall>h \<in> set (dict_values (st_external_requests s)).
         xq_task_id h = xq_task_id q \<longrightarrow> xq_request_id h = xq_request_id q)
    \<and> (\<exists>t. dict_get (st_external_tasks s) (xq_task_id q) = Some t
         \<and> assert_request_matches_task q t = Inr ())"
proof -
  obtain c t consent where found: "get_claim s (xq_claim_id q) customer = Some c"
      "dict_get (st_external_tasks s) (xq_task_id q) = Some t"
      "find_consent c (az_claimant_consent_ref (xq_authorisation q)) = Some consent"
      "assert_request_matches_task q t = Inr ()"
    using assms
    by (auto simp: save_external_task_request_def Let_def bind_result_Inr_iff
        split: option.splits if_splits)
  show ?thesis
  proof (cases "dict_get (st_external_requests s) (xq_request_id q) = Some q")
    case True
    then show ?thesis
      using assms found
      by (auto simp: save_external_task_request_def Let_def bind_result_Inr_iff split: if_splits)
  next
    case False
    obtain e where
      "\<not> list_ex (\<lambda>h. xq_task_id h = xq_task_id q \<and> xq_request_id h \<noteq> xq_request_id q)
          (dict_values (st_external_requests s))"
      "opt_all (\<lambda>x. same_request_identity x q \<and> first_send x q)
         (dict_get (st_external_requests s) (xq_request_id q))"
      "s' = commit_realtime e (put_external_request q s)"
      using assms found False
      by (auto simp: save_external_task_request_def Let_def bind_result_Inr_iff guarded_Inr_iff
          simp del: guarded.simps)
    then show ?thesis
      using found by (auto simp: external_tables_def external_writes list_ex_iff)
  qed
qed

lemma held_request_Inr:
  "held_request s claim_id request_id customer = Inr q \<longleftrightarrow>
     (\<exists>c. get_claim s claim_id customer = Some c)
     \<and> dict_get (st_external_requests s) request_id = Some q \<and> xq_claim_id q = claim_id"
  by (auto simp: held_request_def split: option.splits)

lemma reserve_Inr:
  "reserve_external_dispatch s claim_id request_id customer at op = Inr (x, s') \<longleftrightarrow>
     (\<exists>q. held_request s claim_id request_id customer = Inr q \<and>
       (if xq_dispatch_reserved_at q \<noteq> None then x = None \<and> s' = s
        else x = Some (q\<lparr>xq_dispatch_reserved_at := Some at, xq_operation_id := Some op\<rparr>)
          \<and> s' = write_request request_id
              (q\<lparr>xq_dispatch_reserved_at := Some at, xq_operation_id := Some op\<rparr>) s))"
  by (auto simp: reserve_external_dispatch_def bind_result_Inr_iff Let_def)

lemma release_Inr:
  "release_external_dispatch s claim_id request_id customer = Inr s' \<longleftrightarrow>
     (\<exists>q. held_request s claim_id request_id customer = Inr q \<and>
       s' = (if xq_dispatch_reserved_at q = None then s
             else write_request request_id (q\<lparr>xq_dispatch_reserved_at := None\<rparr>) s))"
  by (auto simp: release_external_dispatch_def bind_result_Inr_iff)

lemma save_external_task_attempt_Inr:
  assumes "save_external_task_attempt s a customer = Inr s'"
  shows "(\<exists>t. dict_get (st_external_tasks s) (xa_task_id a) = Some t \<and> xt_claim_id t = xa_claim_id a)
    \<and> (\<exists>q. request_of_task s (xa_task_id a) = Some q \<and> xq_operation_id q = Some (xa_operation_id a))
    \<and> (dict_get (st_external_attempts s) (xa_attempt_id a) = Some a \<and> s' = s
       \<or> dict_get (st_external_attempts s) (xa_attempt_id a) = None
         \<and> xa_attempt_number a = next_attempt_number s (xa_task_id a)
         \<and> s' = put_external_attempt a s)"
  using assms
  by (auto simp: save_external_task_attempt_def Let_def guarded_Inr_iff simp del: guarded.simps
      split: option.splits if_splits)

lemma save_external_task_evidence_link_Inr:
  assumes "save_external_task_evidence_link s l customer = Inr s'"
  shows "external_tables s' = external_tables s \<or>
    external_tables s' = external_tables (put_external_link l s)
    \<and> dict_get (st_external_links s) (xl_claim_id l, xl_evidence_id l) = None
    \<and> (\<exists>t. dict_get (st_external_tasks s) (xl_task_id l) = Some t \<and> xt_claim_id t = xl_claim_id l)"
proof -
  obtain c where c: "get_claim s (xl_claim_id l) customer = Some c"
    using assms by (auto simp: save_external_task_evidence_link_def split: option.splits)
  show ?thesis
  proof (cases "dict_get (st_external_links s) (xl_claim_id l, xl_evidence_id l)")
    case None
    then show ?thesis
      using assms c
      by (auto simp: save_external_task_evidence_link_def Let_def bind_result_Inr_iff guarded_Inr_iff
          external_tables_def external_writes simp del: guarded.simps split: option.splits)
  next
    case (Some x)
    then show ?thesis
      using assms c
      by (auto simp: save_external_task_evidence_link_def Let_def bind_result_Inr_iff guarded_Inr_iff
          simp del: guarded.simps)
  qed
qed

lemma result_of_task_held:
  "result_of_task s i = Some r \<Longrightarrow> r \<in> set (dict_values (st_external_results s)) \<and> xr_task_id r = i"
  by (auto simp: result_of_task_def find_Some_iff dest: nth_mem)

lemma unit_ex: "(\<exists>x :: unit. P x) \<longleftrightarrow> P ()"
  by (metis old.unit.exhaust)

lemma save_external_task_result_Inr:
  assumes "save_external_task_result s r customer = Inr s'"
  shows "external_tables s' = external_tables s \<or>
    external_tables s' = external_tables (put_external_result r s)
    \<and> (\<exists>t. dict_get (st_external_tasks s) (xr_task_id r) = Some t \<and> assert_result_matches_task r t = Inr ())
    \<and> assert_result_evidence_is_linked r (filter (\<lambda>l. xl_evidence_id l \<in> set (xr_evidence_ids r))
         (dict_values (st_external_links s))) = Inr ()
    \<and> opt_all (\<lambda>x. xr_task_id x = xr_task_id r) (dict_get (st_external_results s) (xr_result_id r))
    \<and> (case result_of_task s (xr_task_id r) of
         None \<Rightarrow> xr_verification r = Result_unverified | Some held \<Rightarrow> result_advance held r)"
proof -
  obtain c t where t: "get_claim s (xr_claim_id r) customer = Some c"
      "dict_get (st_external_tasks s) (xr_task_id r) = Some t"
    using assms by (auto simp: save_external_task_result_def Let_def split: option.splits)
  let ?outcome = "case result_of_task s (xr_task_id r) of
       None \<Rightarrow>
         guarded [(xr_verification r \<noteq> Result_unverified, IdempotencyConflict (xr_result_id r))]
         (bind_result (prepare_realtime_mutation s ''external_result_changed'' c None)
            (\<lambda>realtime. Inr (commit_realtime realtime (put_external_result r s))))
     | Some held \<Rightarrow>
         if held = r then
           bind_result (prepare_realtime_mutation s ''external_result_changed'' c None)
             (\<lambda>_. Inr s)
         else bind_result
           (map_error (\<lambda>_. IdempotencyConflict (xr_result_id r))
             (assert_result_advance_is_permitted held r)) (\<lambda>_.
           bind_result (prepare_realtime_mutation s ''external_result_changed'' c None)
             (\<lambda>realtime. Inr (commit_realtime realtime (put_external_result r s))))"
  have checks: "assert_result_matches_task r t = Inr ()"
    "assert_result_evidence_is_linked r (filter (\<lambda>l. xl_evidence_id l \<in> set (xr_evidence_ids r))
         (dict_values (st_external_links s))) = Inr ()"
    "opt_all (\<lambda>x. xr_task_id x = xr_task_id r) (dict_get (st_external_results s) (xr_result_id r))"
    and written: "?outcome = Inr s'"
    using assms t unfolding save_external_task_result_def Let_def
    by (simp_all only: option.case bind_result_Inr_iff guarded_Inr_iff passes_simps map_error_Inr_iff
        unit_ex simp_thms)
  show ?thesis
  proof (cases "result_of_task s (xr_task_id r)")
    case None
    then have "external_tables s' = external_tables (put_external_result r s)
        \<and> xr_verification r = Result_unverified"
      using written by (auto simp: bind_result_Inr_iff external_tables_def external_writes split: if_splits)
    then show ?thesis using checks t None by simp
  next
    case (Some held)
    then have "s' = s \<or> external_tables s' = external_tables (put_external_result r s) \<and> result_advance held r"
      using written
      by (auto simp: bind_result_Inr_iff external_tables_def external_writes result_advance_def split: if_splits)
    then show ?thesis using checks t Some by auto
  qed
qed

lemma save_evidence_Inr:
  assumes "save_evidence s e customer = Inr s'"
  shows "s' = s \<or> history_accepts s e = Inr () \<and> validate_evidence_record e = Inr ()
    \<and> (\<exists>v. s' = commit_realtime v (put_evidence e s))"
proof -
  obtain c where c: "dict_get (st_claims s) (ed_claim_id e) = Some c"
    using assms by (auto simp: save_evidence_def split: option.splits)
  show ?thesis
  proof (cases "dict_get (st_evidence s) (ed_evidence_id e) \<noteq> None
      \<and> opt_all (\<lambda>x. same_evidence x e) (dict_get (st_evidence s) (ed_evidence_id e))")
    case True
    show ?thesis
      using assms c
      unfolding save_evidence_def if_P [OF True]
      by (simp only: option.case bind_result_Inr_iff guarded_Inr_iff) blast
  next
    case False
    show ?thesis
      using assms c
      unfolding save_evidence_def store_evidence_def if_not_P [OF False]
      by (simp only: option.case bind_result_Inr_iff guarded_Inr_iff map_error_Inr_iff unit_ex) blast
  qed
qed

lemma save_evidence_tables:
  "save_evidence s e customer = Inr s' \<Longrightarrow> external_tables s' = external_tables s"
  using save_evidence_Inr [of s e customer s']
  by (auto simp: external_tables_def commit_realtime_def put_evidence_def)

lemma save_agent_decision_tables:
  assumes "save_agent_decision s d customer = Inr s'"
  shows "external_tables s' = external_tables s"
  using assms by (auto simp: save_agent_decision_def external_tables_def split: if_splits)

section \<open>The invariant\<close>

definition tables_keyed :: "store \<Rightarrow> bool" where
  "tables_keyed s \<longleftrightarrow> keyed xt_task_id (st_external_tasks s) \<and> keyed xq_request_id (st_external_requests s)
     \<and> keyed xa_attempt_id (st_external_attempts s)
     \<and> keyed (\<lambda>l. (xl_claim_id l, xl_evidence_id l)) (st_external_links s)
     \<and> keyed xr_result_id (st_external_results s)"

definition tasks_registered :: "store \<Rightarrow> bool" where
  "tasks_registered s \<longleftrightarrow> (\<forall>k t. dict_get (st_external_tasks s) k = Some t
     \<longrightarrow> assert_external_task_registry_compatible t = Inr ())"

definition requests_match :: "store \<Rightarrow> bool" where
  "requests_match s \<longleftrightarrow> (\<forall>k q. dict_get (st_external_requests s) k = Some q
     \<longrightarrow> (\<exists>t. dict_get (st_external_tasks s) (xq_task_id q) = Some t
            \<and> assert_request_matches_task q t = Inr ()))"

definition one_request :: "store \<Rightarrow> bool" where
  "one_request s \<longleftrightarrow> (\<forall>k k' q q'. dict_get (st_external_requests s) k = Some q
     \<and> dict_get (st_external_requests s) k' = Some q' \<and> xq_task_id q = xq_task_id q' \<longrightarrow> k = k')"

definition attempts_ordered :: "store \<Rightarrow> bool" where
  "attempts_ordered s \<longleftrightarrow> (\<forall>i. map xa_attempt_number (attempts_of s i) = [1..int (length (attempts_of s i))])"

definition attempts_bound :: "store \<Rightarrow> bool" where
  "attempts_bound s \<longleftrightarrow> (\<forall>k a. dict_get (st_external_attempts s) k = Some a
     \<longrightarrow> (\<exists>k' q. dict_get (st_external_requests s) k' = Some q \<and> xq_task_id q = xa_task_id a
            \<and> xq_claim_id q = xa_claim_id a \<and> xq_operation_id q = Some (xa_operation_id a)))"

definition one_result :: "store \<Rightarrow> bool" where
  "one_result s \<longleftrightarrow> (\<forall>k k' r r'. dict_get (st_external_results s) k = Some r
     \<and> dict_get (st_external_results s) k' = Some r' \<and> xr_task_id r = xr_task_id r' \<longrightarrow> k = k')"

definition results_linked :: "store \<Rightarrow> bool" where
  "results_linked s \<longleftrightarrow> (\<forall>k r. dict_get (st_external_results s) k = Some r
     \<longrightarrow> (\<exists>t. dict_get (st_external_tasks s) (xr_task_id r) = Some t \<and> xt_claim_id t = xr_claim_id r)
       \<and> (\<forall>i \<in> set (xr_evidence_ids r). \<exists>l. dict_get (st_external_links s) (xr_claim_id r, i) = Some l
            \<and> xl_task_id l = xr_task_id r))"

definition external_inv :: "store \<Rightarrow> bool" where
  "external_inv s \<longleftrightarrow> tables_keyed s \<and> tasks_registered s \<and> requests_match s \<and> one_request s
     \<and> attempts_ordered s \<and> attempts_bound s \<and> one_result s \<and> results_linked s"

lemmas external_inv_defs = tables_keyed_def tasks_registered_def requests_match_def one_request_def
  attempts_ordered_def attempts_bound_def one_result_def results_linked_def attempts_of_def

lemma external_inv_parts:
  assumes "external_inv s"
  shows "tables_keyed s" "tasks_registered s" "requests_match s" "one_request s"
    "attempts_ordered s" "attempts_bound s" "one_result s" "results_linked s"
  using assms by (simp_all add: external_inv_def)

lemma requests_matchD:
  "requests_match s \<Longrightarrow> dict_get (st_external_requests s) k = Some q \<Longrightarrow>
     \<exists>t. dict_get (st_external_tasks s) (xq_task_id q) = Some t \<and> assert_request_matches_task q t = Inr ()"
  by (simp add: requests_match_def)

lemma attempts_boundD:
  "attempts_bound s \<Longrightarrow> dict_get (st_external_attempts s) k = Some a \<Longrightarrow>
     \<exists>k' q. dict_get (st_external_requests s) k' = Some q \<and> xq_task_id q = xa_task_id a
       \<and> xq_claim_id q = xa_claim_id a \<and> xq_operation_id q = Some (xa_operation_id a)"
  unfolding attempts_bound_def by blast

lemma results_linkedD:
  "results_linked s \<Longrightarrow> dict_get (st_external_results s) k = Some r \<Longrightarrow>
     \<exists>t. dict_get (st_external_tasks s) (xr_task_id r) = Some t \<and> xt_claim_id t = xr_claim_id r"
  "results_linked s \<Longrightarrow> dict_get (st_external_results s) k = Some r \<Longrightarrow> i \<in> set (xr_evidence_ids r) \<Longrightarrow>
     \<exists>l. dict_get (st_external_links s) (xr_claim_id r, i) = Some l \<and> xl_task_id l = xr_task_id r"
  unfolding results_linked_def by blast+

lemma external_inv_cong:
  "external_tables s' = external_tables s \<Longrightarrow> external_inv s' \<longleftrightarrow> external_inv s"
  unfolding external_tables_eq external_inv_def external_inv_defs by (elim conjE) (simp only:)

lemma external_frames [simp]:
  "tasks_registered (s\<lparr>st_external_requests := r\<rparr>) \<longleftrightarrow> tasks_registered s"
  "tasks_registered (s\<lparr>st_external_attempts := a\<rparr>) \<longleftrightarrow> tasks_registered s"
  "tasks_registered (s\<lparr>st_external_links := l\<rparr>) \<longleftrightarrow> tasks_registered s"
  "tasks_registered (s\<lparr>st_external_results := x\<rparr>) \<longleftrightarrow> tasks_registered s"
  "requests_match (s\<lparr>st_external_attempts := a\<rparr>) \<longleftrightarrow> requests_match s"
  "requests_match (s\<lparr>st_external_links := l\<rparr>) \<longleftrightarrow> requests_match s"
  "requests_match (s\<lparr>st_external_results := x\<rparr>) \<longleftrightarrow> requests_match s"
  "one_request (s\<lparr>st_external_tasks := t\<rparr>) \<longleftrightarrow> one_request s"
  "one_request (s\<lparr>st_external_attempts := a\<rparr>) \<longleftrightarrow> one_request s"
  "one_request (s\<lparr>st_external_links := l\<rparr>) \<longleftrightarrow> one_request s"
  "one_request (s\<lparr>st_external_results := x\<rparr>) \<longleftrightarrow> one_request s"
  "attempts_ordered (s\<lparr>st_external_tasks := t\<rparr>) \<longleftrightarrow> attempts_ordered s"
  "attempts_ordered (s\<lparr>st_external_requests := r\<rparr>) \<longleftrightarrow> attempts_ordered s"
  "attempts_ordered (s\<lparr>st_external_links := l\<rparr>) \<longleftrightarrow> attempts_ordered s"
  "attempts_ordered (s\<lparr>st_external_results := x\<rparr>) \<longleftrightarrow> attempts_ordered s"
  "attempts_bound (s\<lparr>st_external_tasks := t\<rparr>) \<longleftrightarrow> attempts_bound s"
  "attempts_bound (s\<lparr>st_external_links := l\<rparr>) \<longleftrightarrow> attempts_bound s"
  "attempts_bound (s\<lparr>st_external_results := x\<rparr>) \<longleftrightarrow> attempts_bound s"
  "one_result (s\<lparr>st_external_tasks := t\<rparr>) \<longleftrightarrow> one_result s"
  "one_result (s\<lparr>st_external_requests := r\<rparr>) \<longleftrightarrow> one_result s"
  "one_result (s\<lparr>st_external_attempts := a\<rparr>) \<longleftrightarrow> one_result s"
  "one_result (s\<lparr>st_external_links := l\<rparr>) \<longleftrightarrow> one_result s"
  "results_linked (s\<lparr>st_external_requests := r\<rparr>) \<longleftrightarrow> results_linked s"
  "results_linked (s\<lparr>st_external_attempts := a\<rparr>) \<longleftrightarrow> results_linked s"
  by (simp_all add: tasks_registered_def requests_match_def one_request_def attempts_ordered_def
      attempts_bound_def one_result_def results_linked_def attempts_of_def)

lemma external_inv_empty: "external_inv empty_store"
  by (simp add: external_inv_def external_inv_defs empty_store_def keyed_def unique_keys_def)

subsection \<open>Writes keep it\<close>

lemma request_match_identity:
  "\<not> changes_identity x t \<Longrightarrow> xt_task_id x = xt_task_id t \<Longrightarrow>
     assert_request_matches_task q x = Inr () \<Longrightarrow> assert_request_matches_task q t = Inr ()"
  by (auto simp: assert_request_matches_task_def changes_identity_def split: if_splits)

lemma inv_put_task:
  assumes inv: "external_inv s" and "assert_external_task_registry_compatible t = Inr ()"
    and same: "opt_all (\<lambda>x. \<not> changes_identity x t) (dict_get (st_external_tasks s) (xt_task_id t))"
  shows "external_inv (put_external_task t s)"
proof -
  let ?s = "put_external_task t s"
  have keyed: "keyed xt_task_id (st_external_tasks s)"
    using inv by (simp add: external_inv_def tables_keyed_def)
  have kept: "\<exists>u. dict_get (st_external_tasks ?s) i = Some u \<and> xt_claim_id u = xt_claim_id x
      \<and> (assert_request_matches_task q x = Inr () \<longrightarrow> assert_request_matches_task q u = Inr ())"
    if "dict_get (st_external_tasks s) i = Some x" for i x q
  proof (cases "i = xt_task_id t")
    case True
    then have "\<not> changes_identity x t" using same that by simp
    moreover have "xt_task_id x = xt_task_id t" using keyed_get [OF keyed that] True by simp
    ultimately show ?thesis
      using True request_match_identity by (auto simp: put_external_task_def changes_identity_def)
  qed (use that in \<open>simp add: put_external_task_def\<close>)
  have "tables_keyed ?s"
    using inv by (simp add: external_inv_def tables_keyed_def put_external_task_def keyed_put)
  moreover have "tasks_registered ?s"
    using inv assms(2) by (simp add: external_inv_def tasks_registered_def put_external_task_def)
  moreover have "requests_match ?s"
    unfolding requests_match_def
  proof (intro allI impI)
    fix k q
    assume "dict_get (st_external_requests ?s) k = Some q"
    then have q: "dict_get (st_external_requests s) k = Some q" by (simp add: put_external_task_def)
    show "\<exists>t'. dict_get (st_external_tasks ?s) (xq_task_id q) = Some t'
        \<and> assert_request_matches_task q t' = Inr ()"
      using requests_matchD [OF external_inv_parts(3) [OF inv] q] kept by blast
  qed
  moreover have "results_linked ?s"
    unfolding results_linked_def
  proof (intro allI impI conjI ballI)
    fix k r
    assume "dict_get (st_external_results ?s) k = Some r"
    then have r: "dict_get (st_external_results s) k = Some r" by (simp add: put_external_task_def)
    note linked = results_linkedD [OF external_inv_parts(8) [OF inv] r]
    show "\<exists>t'. dict_get (st_external_tasks ?s) (xr_task_id r) = Some t' \<and> xt_claim_id t' = xr_claim_id r"
      using linked(1) kept by metis
    show "\<exists>l. dict_get (st_external_links ?s) (xr_claim_id r, i) = Some l \<and> xl_task_id l = xr_task_id r"
      if "i \<in> set (xr_evidence_ids r)" for i
      using linked(2) [OF that] by (simp add: put_external_task_def)
  qed
  ultimately show ?thesis
    using external_inv_parts [OF inv] by (simp add: external_inv_def put_external_task_def)
qed

definition same_or_first_operation :: "external_request \<Rightarrow> external_request \<Rightarrow> bool" where
  "same_or_first_operation x q \<longleftrightarrow>
     same_request_identity x q \<and> (xq_operation_id x = None \<or> xq_operation_id x = xq_operation_id q)"

lemma inv_write_request:
  assumes inv: "external_inv s" and id: "xq_request_id q = k"
    and same: "opt_all (\<lambda>x. same_or_first_operation x q) (dict_get (st_external_requests s) k)"
    and only: "\<forall>k' q'. dict_get (st_external_requests s) k' = Some q' \<and> xq_task_id q' = xq_task_id q \<longrightarrow> k' = k"
    and task: "\<exists>t. dict_get (st_external_tasks s) (xq_task_id q) = Some t \<and> assert_request_matches_task q t = Inr ()"
  shows "external_inv (write_request k q s)"
proof -
  let ?s = "write_request k q s"
  have "tables_keyed ?s"
    using inv id by (simp add: external_inv_def tables_keyed_def write_request_def keyed_put)
  moreover have "requests_match ?s"
    using inv task by (simp add: external_inv_def requests_match_def write_request_def)
  moreover have "one_request ?s"
    using inv only unfolding external_inv_def one_request_def
    by (simp add: write_request_def) metis
  moreover have "attempts_bound ?s"
    unfolding attempts_bound_def
  proof (intro allI impI)
    fix j a
    assume "dict_get (st_external_attempts ?s) j = Some a"
    then have "dict_get (st_external_attempts s) j = Some a" by (simp add: write_request_def)
    then obtain k' q' where q': "dict_get (st_external_requests s) k' = Some q'"
      "xq_task_id q' = xa_task_id a" "xq_claim_id q' = xa_claim_id a"
      "xq_operation_id q' = Some (xa_operation_id a)"
      using attempts_boundD [OF external_inv_parts(6) [OF inv]] by blast
    show "\<exists>k' q. dict_get (st_external_requests ?s) k' = Some q \<and> xq_task_id q = xa_task_id a
            \<and> xq_claim_id q = xa_claim_id a \<and> xq_operation_id q = Some (xa_operation_id a)"
    proof (cases "k' = k")
      case True
      then have "same_or_first_operation q' q" using same q'(1) by simp
      then show ?thesis
        using q' by (intro exI [of _ k] exI [of _ q])
          (simp add: write_request_def same_or_first_operation_def same_request_identity_def)
    next
      case False
      then show ?thesis using q' by (intro exI [of _ k'] exI [of _ q']) (simp add: write_request_def)
    qed
  qed
  ultimately show ?thesis
    using external_inv_parts [OF inv] by (simp add: external_inv_def write_request_def)
qed

lemma dict_put_fresh: "dict_get d k = None \<Longrightarrow> dict_put k v d = d @ [(k, v)]"
  by (induction d) (auto split: if_splits)

lemma max_number_snoc: "max_number (xs @ [x]) = (if xs = [] then x else max (max_number xs) x)"
  by (cases xs) (simp_all add: max_number_def)

lemma max_number_upto: "max_number [1..int n] = int n"
proof (induction n)
  case (Suc n)
  have "[1..int (Suc n)] = [1..int n] @ [int (Suc n)]" by (simp add: upto_rec2)
  then show ?case using Suc by (simp add: max_number_snoc)
qed (simp add: max_number_def)

lemma next_attempt_number_eq:
  "attempts_ordered s \<Longrightarrow> next_attempt_number s i = int (length (attempts_of s i)) + 1"
  by (simp add: next_attempt_number_def attempts_ordered_def max_number_upto)

lemma inv_put_attempt:
  assumes inv: "external_inv s" and fresh: "dict_get (st_external_attempts s) (xa_attempt_id a) = None"
    and number: "xa_attempt_number a = next_attempt_number s (xa_task_id a)"
    and bound: "\<exists>k q. dict_get (st_external_requests s) k = Some q \<and> xq_task_id q = xa_task_id a
            \<and> xq_claim_id q = xa_claim_id a \<and> xq_operation_id q = Some (xa_operation_id a)"
  shows "external_inv (put_external_attempt a s)"
proof -
  let ?s = "put_external_attempt a s"
  have ordered: "attempts_ordered s" using inv by (simp add: external_inv_def)
  have of: "attempts_of ?s i = attempts_of s i @ (if xa_task_id a = i then [a] else [])" for i
    by (simp add: attempts_of_def put_external_attempt_def dict_put_fresh [OF fresh])
  have "attempts_ordered ?s"
    using ordered number next_attempt_number_eq [OF ordered, of "xa_task_id a"]
    by (simp add: attempts_ordered_def of upto_rec2)
  moreover have "tables_keyed ?s"
    using inv by (simp add: external_inv_def tables_keyed_def put_external_attempt_def keyed_put)
  moreover have "attempts_bound ?s"
    using inv bound unfolding external_inv_def attempts_bound_def
    by (simp add: put_external_attempt_def)
  ultimately show ?thesis
    using external_inv_parts [OF inv] by (simp add: external_inv_def put_external_attempt_def)
qed

lemma inv_put_link:
  assumes inv: "external_inv s"
    and fresh: "dict_get (st_external_links s) (xl_claim_id l, xl_evidence_id l) = None"
  shows "external_inv (put_external_link l s)"
proof -
  let ?s = "put_external_link l s"
  have "tables_keyed ?s"
    using inv by (simp add: external_inv_def tables_keyed_def put_external_link_def keyed_put)
  moreover have "results_linked ?s"
    unfolding results_linked_def
  proof (intro allI impI)
    fix k r
    assume "dict_get (st_external_results ?s) k = Some r"
    then have r: "dict_get (st_external_results s) k = Some r" by (simp add: put_external_link_def)
    have "\<exists>m. dict_get (st_external_links ?s) (xr_claim_id r, i) = Some m \<and> xl_task_id m = xr_task_id r"
      if i: "i \<in> set (xr_evidence_ids r)" for i
    proof -
      obtain m where m: "dict_get (st_external_links s) (xr_claim_id r, i) = Some m" "xl_task_id m = xr_task_id r"
        using results_linkedD(2) [OF external_inv_parts(8) [OF inv] r i] by blast
      then have "(xr_claim_id r, i) \<noteq> (xl_claim_id l, xl_evidence_id l)" using fresh by auto
      then show ?thesis using m by (auto simp: put_external_link_def)
    qed
    moreover have "\<exists>t. dict_get (st_external_tasks ?s) (xr_task_id r) = Some t \<and> xt_claim_id t = xr_claim_id r"
      using results_linkedD(1) [OF external_inv_parts(8) [OF inv] r] by (simp add: put_external_link_def)
    ultimately show "(\<exists>t. dict_get (st_external_tasks ?s) (xr_task_id r) = Some t \<and> xt_claim_id t = xr_claim_id r)
       \<and> (\<forall>i \<in> set (xr_evidence_ids r). \<exists>m. dict_get (st_external_links ?s) (xr_claim_id r, i) = Some m
            \<and> xl_task_id m = xr_task_id r)" by blast
  qed
  ultimately show ?thesis
    using external_inv_parts [OF inv] by (simp add: external_inv_def put_external_link_def)
qed

lemma inv_put_result:
  assumes inv: "external_inv s"
    and only: "\<forall>k r'. dict_get (st_external_results s) k = Some r' \<and> xr_task_id r' = xr_task_id r
      \<longrightarrow> k = xr_result_id r"
    and task: "\<exists>t. dict_get (st_external_tasks s) (xr_task_id r) = Some t \<and> xt_claim_id t = xr_claim_id r"
    and linked: "\<forall>i \<in> set (xr_evidence_ids r). \<exists>l. dict_get (st_external_links s) (xr_claim_id r, i) = Some l
      \<and> xl_task_id l = xr_task_id r"
  shows "external_inv (put_external_result r s)"
proof -
  let ?s = "put_external_result r s"
  have "tables_keyed ?s"
    using inv by (simp add: external_inv_def tables_keyed_def put_external_result_def keyed_put)
  moreover have "one_result ?s"
    using inv only unfolding external_inv_def one_result_def
    by (simp add: put_external_result_def) metis
  moreover have "results_linked ?s"
    using inv task linked unfolding external_inv_def results_linked_def
    by (simp add: put_external_result_def)
  ultimately show ?thesis
    using external_inv_parts [OF inv] by (simp add: external_inv_def put_external_result_def)
qed

section \<open>Growth\<close>

definition task_later :: "external_task \<Rightarrow> external_task \<Rightarrow> bool" where
  "task_later t u \<longleftrightarrow> same_task t u \<and> (u = t \<or> dt_before (xt_updated_at t) (xt_updated_at u))"

definition request_kept :: "external_request \<Rightarrow> external_request \<Rightarrow> bool" where
  "request_kept q p \<longleftrightarrow> same_request_identity q p
     \<and> (xq_sent_at q \<noteq> None \<longrightarrow> xq_sent_at p = xq_sent_at q)
     \<and> (xq_operation_id q \<noteq> None \<longrightarrow> xq_operation_id p = xq_operation_id q)"

definition external_grows :: "store \<Rightarrow> store \<Rightarrow> bool" where
  "external_grows s s' \<longleftrightarrow>
     grows_in task_later (st_external_tasks s) (st_external_tasks s')
     \<and> grows_in request_kept (st_external_requests s) (st_external_requests s')
     \<and> grows_in (=) (st_external_attempts s) (st_external_attempts s')
     \<and> grows_in (=) (st_external_links s) (st_external_links s')
     \<and> grows_in result_advance (st_external_results s) (st_external_results s')"

lemma task_later_refl [simp]: "task_later t t"
  by (simp add: task_later_def same_task_def)

lemma task_later_trans: "task_later t u \<Longrightarrow> task_later u v \<Longrightarrow> task_later t v"
  by (auto simp: task_later_def same_task_def dt_before_def)

lemma request_kept_refl [simp]: "request_kept q q"
  by (simp add: request_kept_def same_request_identity_def)

lemma request_kept_trans: "request_kept q p \<Longrightarrow> request_kept p o' \<Longrightarrow> request_kept q o'"
  by (auto simp: request_kept_def same_request_identity_def)

lemma result_advance_refl [simp]: "result_advance r r"
  by (simp add: result_advance_iff)

lemma external_grows_refl [simp]: "external_grows s s"
  by (simp add: external_grows_def grows_in_refl)

lemma external_grows_trans: "external_grows s t \<Longrightarrow> external_grows t u \<Longrightarrow> external_grows s u"
  unfolding external_grows_def
  by (elim conjE, intro conjI; erule (1) grows_in_trans)
    (auto intro: task_later_trans request_kept_trans result_advance_trans)

lemma external_grows_cong:
  "external_tables s' = external_tables s \<Longrightarrow> external_grows r s' \<longleftrightarrow> external_grows r s"
  unfolding external_tables_eq external_grows_def by (elim conjE) (simp only:)

lemma grows_put_task:
  "opt_all (\<lambda>x. task_later x t) (dict_get (st_external_tasks s) (xt_task_id t))
     \<Longrightarrow> external_grows s (put_external_task t s)"
  by (simp add: external_grows_def put_external_task_def grows_in_put grows_in_refl)

lemma grows_write_request:
  "opt_all (\<lambda>x. request_kept x q) (dict_get (st_external_requests s) k)
     \<Longrightarrow> external_grows s (write_request k q s)"
  by (simp add: external_grows_def write_request_def grows_in_put grows_in_refl)

lemma grows_put_attempt:
  "dict_get (st_external_attempts s) (xa_attempt_id a) = None \<Longrightarrow> external_grows s (put_external_attempt a s)"
  by (simp add: external_grows_def put_external_attempt_def grows_in_put grows_in_refl)

lemma grows_put_link:
  "dict_get (st_external_links s) (xl_claim_id l, xl_evidence_id l) = None
     \<Longrightarrow> external_grows s (put_external_link l s)"
  by (simp add: external_grows_def put_external_link_def grows_in_put grows_in_refl)

lemma grows_put_result:
  "opt_all (\<lambda>x. result_advance x r) (dict_get (st_external_results s) (xr_result_id r))
     \<Longrightarrow> external_grows s (put_external_result r s)"
  by (simp add: external_grows_def put_external_result_def grows_in_put grows_in_refl)

section \<open>Every call keeps the invariant and grows the store\<close>

definition step_ok :: "store \<Rightarrow> store \<Rightarrow> bool" where
  "step_ok s s' \<longleftrightarrow> external_inv s' \<and> external_grows s s'"

lemma step_ok_same: "external_inv s \<Longrightarrow> external_tables s' = external_tables s \<Longrightarrow> step_ok s s'"
  using external_inv_cong [of s' s] external_grows_cong [of s' s s] by (simp add: step_ok_def)

lemma step_ok_cong: "step_ok s u \<Longrightarrow> external_tables s' = external_tables u \<Longrightarrow> step_ok s s'"
  using external_inv_cong [of s' u] external_grows_cong [of s' u s] by (simp add: step_ok_def)

lemma step_task:
  assumes inv: "external_inv s" and run: "save_external_task s t customer = Inr s'"
  shows "step_ok s s'"
proof -
  have keyed: "keyed xt_task_id (st_external_tasks s)"
    using external_inv_parts(1) [OF inv] by (simp add: tables_keyed_def)
  consider "external_tables s' = external_tables s"
    | "external_tables s' = external_tables (put_external_task t s)"
      "assert_external_task_registry_compatible t = Inr ()"
      "opt_all (\<lambda>x. \<not> changes_identity x t \<and> dt_before (xt_updated_at x) (xt_updated_at t))
        (dict_get (st_external_tasks s) (xt_task_id t))"
    using save_external_task_Inr [OF run] by blast
  then show ?thesis
  proof cases
    case 1
    then show ?thesis by (rule step_ok_same [OF inv])
  next
    case 2
    have "opt_all (\<lambda>x. \<not> changes_identity x t) (dict_get (st_external_tasks s) (xt_task_id t))"
      using 2(3) by (cases "dict_get (st_external_tasks s) (xt_task_id t)") simp_all
    moreover have "opt_all (\<lambda>x. task_later x t) (dict_get (st_external_tasks s) (xt_task_id t))"
    proof (cases "dict_get (st_external_tasks s) (xt_task_id t)")
      case (Some x)
      have "xt_task_id x = xt_task_id t" by (rule keyed_get [OF keyed Some])
      then show ?thesis
        using 2(3) Some by (simp add: task_later_def same_task_def changes_identity_def)
    qed simp
    ultimately have "step_ok s (put_external_task t s)"
      using inv_put_task [OF inv 2(2)] grows_put_task by (simp add: step_ok_def)
    then show ?thesis by (rule step_ok_cong) (rule 2(1))
  qed
qed

lemma other_request:
  assumes "external_inv s" "dict_get (st_external_requests s) k = Some q"
  shows "\<forall>k' q'. dict_get (st_external_requests s) k' = Some q' \<and> xq_task_id q' = xq_task_id q \<longrightarrow> k' = k"
  using external_inv_parts(4) [OF assms(1)] assms(2) unfolding one_request_def by blast

lemma same_identity_match:
  "same_request_identity q p \<Longrightarrow> assert_request_matches_task p t = assert_request_matches_task q t"
  by (simp add: same_request_identity_def assert_request_matches_task_def)

lemma step_write_request:
  assumes inv: "external_inv s" and q: "dict_get (st_external_requests s) k = Some q"
    and p: "same_request_identity q p" "xq_sent_at p = xq_sent_at q"
      "xq_operation_id q = None \<or> xq_operation_id p = xq_operation_id q"
  shows "step_ok s (write_request k p s)"
proof -
  have id: "xq_request_id q = k"
    using external_inv_parts(1) [OF inv] q keyed_get unfolding tables_keyed_def by fast
  have "external_inv (write_request k p s)"
  proof (rule inv_write_request [OF inv])
    show "xq_request_id p = k" using p(1) id by (simp add: same_request_identity_def)
    show "opt_all (\<lambda>x. same_or_first_operation x p) (dict_get (st_external_requests s) k)"
      using p q by (auto simp: same_or_first_operation_def)
    show "\<forall>k' q'. dict_get (st_external_requests s) k' = Some q' \<and> xq_task_id q' = xq_task_id p \<longrightarrow> k' = k"
      using other_request [OF inv q] p(1) by (simp add: same_request_identity_def)
    show "\<exists>t. dict_get (st_external_tasks s) (xq_task_id p) = Some t \<and> assert_request_matches_task p t = Inr ()"
      using requests_matchD [OF external_inv_parts(3) [OF inv] q] p(1)
        same_identity_match [OF p(1)]
      by (simp add: same_request_identity_def)
  qed
  moreover have "external_grows s (write_request k p s)"
    using p q by (intro grows_write_request) (auto simp: request_kept_def)
  ultimately show ?thesis by (simp add: step_ok_def)
qed

lemma step_request:
  assumes inv: "external_inv s" and run: "save_external_task_request s q customer = Inr s'"
  shows "step_ok s s'"
proof -
  have keyed: "keyed xq_request_id (st_external_requests s)"
    using external_inv_parts(1) [OF inv] by (simp add: tables_keyed_def)
  have rewrite: "put_external_request q s = write_request (xq_request_id q) q s"
    by (simp add: put_external_request_def write_request_def)
  consider "external_tables s' = external_tables s"
    | "external_tables s' = external_tables (put_external_request q s)"
      "opt_all (\<lambda>x. same_request_identity x q \<and> first_send x q)
        (dict_get (st_external_requests s) (xq_request_id q))"
      "\<forall>h \<in> set (dict_values (st_external_requests s)).
         xq_task_id h = xq_task_id q \<longrightarrow> xq_request_id h = xq_request_id q"
      "\<exists>t. dict_get (st_external_tasks s) (xq_task_id q) = Some t \<and> assert_request_matches_task q t = Inr ()"
    using save_external_task_request_Inr [OF run] by blast
  then show ?thesis
  proof cases
    case 1
    then show ?thesis by (rule step_ok_same [OF inv])
  next
    case 2
    have only: "k' = xq_request_id q"
      if "dict_get (st_external_requests s) k' = Some q'" "xq_task_id q' = xq_task_id q" for k' q'
    proof -
      have "xq_request_id q' = k'" by (rule keyed_get [OF keyed that(1)])
      moreover have "q' \<in> set (dict_values (st_external_requests s))"
        using that(1) calculation by (simp only: keyed_value_iff [OF keyed])
      ultimately show ?thesis using 2(3) that(2) by blast
    qed
    have "external_inv (write_request (xq_request_id q) q s)"
      using 2(2,4) only
      by (intro inv_write_request [OF inv])
        (auto simp: same_or_first_operation_def first_send_def opt_all_iff)
    moreover have "external_grows s (write_request (xq_request_id q) q s)"
      using 2(2) by (intro grows_write_request) (auto simp: opt_all_iff request_kept_def first_send_def)
    ultimately have "step_ok s (put_external_request q s)" by (simp add: step_ok_def rewrite)
    then show ?thesis by (rule step_ok_cong) (rule 2(1))
  qed
qed

lemma step_reserve:
  assumes inv: "external_inv s"
    and run: "reserve_external_dispatch s claim_id request_id customer at op = Inr (x, s')"
    and allowed: "external_allowed s (Reserve claim_id request_id customer at op)"
  shows "step_ok s s'"
proof -
  obtain q where q: "dict_get (st_external_requests s) request_id = Some q"
    and s': "s' = s \<or> s' = write_request request_id
      (q\<lparr>xq_dispatch_reserved_at := Some at, xq_operation_id := Some op\<rparr>) s"
    using run by (auto simp: reserve_Inr held_request_Inr split: if_splits)
  have "xq_operation_id q = None \<or> xq_operation_id q = Some op"
    using allowed q by (cases "xq_operation_id q") (auto simp: external_allowed_def)
  then have "step_ok s (write_request request_id
      (q\<lparr>xq_dispatch_reserved_at := Some at, xq_operation_id := Some op\<rparr>) s)"
    using step_write_request [OF inv q] by (auto simp: same_request_identity_def)
  then show ?thesis using s' step_ok_same [OF inv] by auto
qed

lemma step_release:
  assumes inv: "external_inv s" and run: "release_external_dispatch s claim_id request_id customer = Inr s'"
  shows "step_ok s s'"
proof -
  obtain q where q: "dict_get (st_external_requests s) request_id = Some q"
    and s': "s' = s \<or> s' = write_request request_id (q\<lparr>xq_dispatch_reserved_at := None\<rparr>) s"
    using run by (auto simp: release_Inr held_request_Inr split: if_splits)
  have "step_ok s (write_request request_id (q\<lparr>xq_dispatch_reserved_at := None\<rparr>) s)"
    by (rule step_write_request [OF inv q]) (simp_all add: same_request_identity_def)
  then show ?thesis using s' step_ok_same [OF inv] by auto
qed

lemma step_attempt:
  assumes inv: "external_inv s" and run: "save_external_task_attempt s a customer = Inr s'"
  shows "step_ok s s'"
proof -
  have keyed: "keyed xq_request_id (st_external_requests s)"
    using external_inv_parts(1) [OF inv] by (simp add: tables_keyed_def)
  obtain t q where t: "dict_get (st_external_tasks s) (xa_task_id a) = Some t" "xt_claim_id t = xa_claim_id a"
    and q: "request_of_task s (xa_task_id a) = Some q" "xq_operation_id q = Some (xa_operation_id a)"
    and s': "s' = s \<or> dict_get (st_external_attempts s) (xa_attempt_id a) = None
         \<and> xa_attempt_number a = next_attempt_number s (xa_task_id a) \<and> s' = put_external_attempt a s"
    using save_external_task_attempt_Inr [OF run] by blast
  have "q \<in> set (dict_values (st_external_requests s))" "xq_task_id q = xa_task_id a"
    using q(1) by (auto simp: request_of_task_def find_Some_iff dest: nth_mem)
  then have held: "dict_get (st_external_requests s) (xq_request_id q) = Some q" "xq_task_id q = xa_task_id a"
    by (simp_all only: keyed_value_iff [OF keyed])
  have "xq_claim_id q = xa_claim_id a"
    using requests_matchD [OF external_inv_parts(3) [OF inv] held(1)] held(2) t
    by (auto simp: assert_request_matches_task_def split: if_splits)
  then have "step_ok s (put_external_attempt a s)"
    if "dict_get (st_external_attempts s) (xa_attempt_id a) = None"
      "xa_attempt_number a = next_attempt_number s (xa_task_id a)"
    using inv_put_attempt [OF inv that] grows_put_attempt [OF that(1)] held q(2)
    by (auto simp: step_ok_def)
  then show ?thesis using s' step_ok_same [OF inv] by auto
qed

lemma step_link:
  assumes inv: "external_inv s" and run: "save_external_task_evidence_link s l customer = Inr s'"
  shows "step_ok s s'"
  using save_external_task_evidence_link_Inr [OF run]
proof (elim disjE conjE)
  show "step_ok s s'" if "external_tables s' = external_tables s"
    by (rule step_ok_same [OF inv that])
  show "step_ok s s'" if put: "external_tables s' = external_tables (put_external_link l s)"
    and fresh: "dict_get (st_external_links s) (xl_claim_id l, xl_evidence_id l) = None"
  proof (rule step_ok_cong [OF _ put])
    show "step_ok s (put_external_link l s)"
      using inv_put_link [OF inv fresh] grows_put_link [OF fresh] by (simp add: step_ok_def)
  qed
qed

lemma step_external_result:
  assumes inv: "external_inv s" and run: "save_external_task_result s r customer = Inr s'"
  shows "step_ok s s'"
proof -
  have keyed: "keyed xr_result_id (st_external_results s)"
    "keyed (\<lambda>l. (xl_claim_id l, xl_evidence_id l)) (st_external_links s)"
    using external_inv_parts(1) [OF inv] by (simp_all add: tables_keyed_def)
  consider "external_tables s' = external_tables s"
    | t where "external_tables s' = external_tables (put_external_result r s)"
      "dict_get (st_external_tasks s) (xr_task_id r) = Some t" "assert_result_matches_task r t = Inr ()"
      "assert_result_evidence_is_linked r (filter (\<lambda>l. xl_evidence_id l \<in> set (xr_evidence_ids r))
         (dict_values (st_external_links s))) = Inr ()"
      "opt_all (\<lambda>x. xr_task_id x = xr_task_id r) (dict_get (st_external_results s) (xr_result_id r))"
      "case result_of_task s (xr_task_id r) of
         None \<Rightarrow> xr_verification r = Result_unverified | Some held \<Rightarrow> result_advance held r"
    using save_external_task_result_Inr [OF run] by blast
  then show ?thesis
  proof cases
    case 1
    then show ?thesis by (rule step_ok_same [OF inv])
  next
    case 2
    have advance: "k = xr_result_id r \<and> result_advance x r"
      if x: "dict_get (st_external_results s) k = Some x" "xr_task_id x = xr_task_id r" for k x
    proof -
      have key: "xr_result_id x = k" by (rule keyed_get [OF keyed(1) x(1)])
      have "x \<in> set (dict_values (st_external_results s))"
        using x(1) key by (simp only: keyed_value_iff [OF keyed(1)])
      then obtain held where held: "result_of_task s (xr_task_id r) = Some held"
        using x(2) by (cases "result_of_task s (xr_task_id r)") (auto simp: result_of_task_def find_None_iff)
      have "dict_get (st_external_results s) (xr_result_id held) = Some held" "xr_task_id held = xr_task_id r"
        using result_of_task_held [OF held] by (simp_all only: keyed_value_iff [OF keyed(1)])
      then have "xr_result_id held = k"
        using external_inv_parts(7) [OF inv] x unfolding one_result_def by metis
      then have "held = x"
        using x(1) \<open>dict_get (st_external_results s) (xr_result_id held) = Some held\<close> by simp
      then have "result_advance x r" using 2(6) held by simp
      then show ?thesis using key by (auto simp: result_advance_iff same_ingestion_def)
    qed
    have linked: "\<exists>l. dict_get (st_external_links s) (xr_claim_id r, i) = Some l \<and> xl_task_id l = xr_task_id r"
      if i: "i \<in> set (xr_evidence_ids r)" for i
    proof -
      obtain l where l: "l \<in> set (dict_values (st_external_links s))" "xl_evidence_id l = i"
        "xl_claim_id l = xr_claim_id r" "xl_task_id l = xr_task_id r"
        using 2(4) i unfolding result_evidence_linked_iff by (fastforce simp del: set_map)
      then have "dict_get (st_external_links s) (xl_claim_id l, xl_evidence_id l) = Some l"
        by (simp only: keyed_value_iff [OF keyed(2)])
      then show ?thesis using l by auto
    qed
    have "opt_all (\<lambda>x. result_advance x r) (dict_get (st_external_results s) (xr_result_id r))"
    proof (cases "dict_get (st_external_results s) (xr_result_id r)")
      case (Some x)
      then show ?thesis using advance [OF Some] 2(5) by simp
    qed simp
    moreover have "external_inv (put_external_result r s)"
    proof (rule inv_put_result [OF inv])
      show "\<exists>t. dict_get (st_external_tasks s) (xr_task_id r) = Some t \<and> xt_claim_id t = xr_claim_id r"
        using 2(2,3) by (auto simp: assert_result_matches_task_def split: if_splits)
    qed (use advance linked in blast)+
    ultimately have "step_ok s (put_external_result r s)" using grows_put_result by (simp add: step_ok_def)
    then show ?thesis by (rule step_ok_cong) (rule 2(1))
  qed
qed

lemma step_settlement:
  assumes inv: "external_inv s" and run: "save_external_task_settlement s t a customer = Inr s'"
  shows "step_ok s s'"
proof -
  obtain s1 where s1: "save_external_task s t customer = Inr s1" "save_external_task_attempt s1 a customer = Inr s'"
    using run by (auto simp: save_external_task_settlement_def bind_result_Inr_iff)
  have first: "external_inv s1" "external_grows s s1"
    using step_task [OF inv s1(1)] by (simp_all add: step_ok_def)
  show ?thesis
    using step_attempt [OF first(1) s1(2)] external_grows_trans [OF first(2)] by (simp add: step_ok_def)
qed

lemma external_step:
  assumes inv: "external_inv s" and allowed: "external_allowed s c" and run: "external_exec s c = Inr s'"
  shows "step_ok s s'"
proof (cases c)
  case (Reserve claim_id request_id customer at op)
  then show ?thesis using run allowed step_reserve [OF inv] by (auto simp: bind_result_Inr_iff)
qed (use run in \<open>simp_all add: step_task [OF inv] step_request [OF inv] step_release [OF inv]
      step_attempt [OF inv] step_settlement [OF inv] step_link [OF inv] step_external_result [OF inv]
      step_ok_same [OF inv save_evidence_tables] step_ok_same [OF inv save_agent_decision_tables]\<close>)

interpretation ext: growing_machine external_exec external_allowed external_inv external_grows
  by unfold_locales (use external_step external_grows_trans in \<open>auto simp: step_ok_def\<close>)

end
