(* ===== verification/External_Reservation.thy ===== *)
theory External_Reservation
  imports External_Safety
begin

text \<open>
  The reservation of a dispatch as a mutual exclusion: while no call gives it up, a second
  reservation of the same request is refused, whatever else runs in between.
\<close>

section \<open>The reservation excludes a second dispatch\<close>

definition reserved :: "store \<Rightarrow> string \<Rightarrow> bool" where
  "reserved s i \<longleftrightarrow> (case dict_get (st_external_requests s) i of None \<Rightarrow> False
     | Some q \<Rightarrow> xq_dispatch_reserved_at q \<noteq> None)"

text \<open>The calls that may give a reservation up are its release and a rewrite without it.\<close>

definition keeps_reservation :: "string \<Rightarrow> external_call \<Rightarrow> bool" where
  "keeps_reservation i c = (case c of
     Release _ request_id _ \<Rightarrow> request_id \<noteq> i
   | Save_request q _ \<Rightarrow> xq_request_id q = i \<longrightarrow> xq_dispatch_reserved_at q \<noteq> None
   | _ \<Rightarrow> True)"

lemma reserved_cong: "external_tables s' = external_tables s \<Longrightarrow> reserved s' i \<longleftrightarrow> reserved s i"
  by (simp add: external_tables_eq reserved_def)

lemma reserved_put [simp]:
  "reserved (put_external_task t s) i \<longleftrightarrow> reserved s i"
  "reserved (put_external_attempt a s) i \<longleftrightarrow> reserved s i"
  "reserved (put_external_link l s) i \<longleftrightarrow> reserved s i"
  "reserved (put_external_result r s) i \<longleftrightarrow> reserved s i"
  "reserved (write_request k q s) i \<longleftrightarrow>
     (if i = k then xq_dispatch_reserved_at q \<noteq> None else reserved s i)"
  "reserved (put_external_request q s) i \<longleftrightarrow>
     (if i = xq_request_id q then xq_dispatch_reserved_at q \<noteq> None else reserved s i)"
  by (simp_all add: reserved_def external_writes)

lemma reserved_written:
  "external_tables s' = external_tables s \<or> external_tables s' = external_tables u \<and> P \<Longrightarrow>
     (P \<Longrightarrow> reserved s i \<Longrightarrow> reserved u i) \<Longrightarrow> reserved s i \<Longrightarrow> reserved s' i"
  using reserved_cong [of s' s i] reserved_cong [of s' u i] by blast

lemma reserved_task: "save_external_task s t customer = Inr s' \<Longrightarrow> reserved s i \<Longrightarrow> reserved s' i"
  by (drule save_external_task_Inr, erule reserved_written) simp_all

lemma reserved_attempt: "save_external_task_attempt s a customer = Inr s' \<Longrightarrow> reserved s i \<Longrightarrow> reserved s' i"
  by (drule save_external_task_attempt_Inr) auto

lemma reserved_step:
  assumes kept: "keeps_reservation i c" and r: "reserved s i" and run: "external_exec s c = Inr s'"
  shows "reserved s' i"
proof (cases c)
  case (Save_task t customer)
  then show ?thesis using run r reserved_task by auto
next
  case (Save_decision d customer)
  then show ?thesis using run r reserved_cong [OF save_agent_decision_tables] by auto
next
  case (Save_request q customer)
  then have "save_external_task_request s q customer = Inr s'" using run by simp
  from save_external_task_request_Inr [OF this] show ?thesis
    by (rule reserved_written) (use r kept Save_request in \<open>simp_all add: keeps_reservation_def\<close>)
next
  case (Reserve claim_id request_id customer at op)
  then show ?thesis
    using run r by (auto simp: bind_result_Inr_iff reserve_Inr split: if_splits)
next
  case (Release claim_id request_id customer)
  then show ?thesis
    using run r kept by (auto simp: release_Inr keeps_reservation_def split: if_splits)
next
  case (Save_attempt a customer)
  then show ?thesis using run r reserved_attempt by auto
next
  case (Settle t a customer)
  then obtain s1 where s1: "save_external_task s t customer = Inr s1"
    "save_external_task_attempt s1 a customer = Inr s'"
    using run by (auto simp: save_external_task_settlement_def bind_result_Inr_iff)
  then show ?thesis using r reserved_attempt [OF s1(2) reserved_task [OF s1(1)]] by simp
next
  case (Save_link l customer)
  then have "save_external_task_evidence_link s l customer = Inr s'" using run by simp
  from save_external_task_evidence_link_Inr [OF this] show ?thesis
    by (rule reserved_written) (use r in simp_all)
next
  case (Save_result x customer)
  then have "save_external_task_result s x customer = Inr s'" using run by simp
  from save_external_task_result_Inr [OF this] show ?thesis
    by (rule reserved_written) (use r in simp_all)
next
  case (Save_evidence e customer)
  then show ?thesis using run r reserved_cong [OF save_evidence_tables] by auto
qed

lemma reserved_run:
  "list_all (keeps_reservation i) cs \<Longrightarrow> reserved s i \<Longrightarrow> reserved (run external_exec s cs) i"
proof (induction cs arbitrary: s)
  case (Cons c cs)
  have "reserved (commit external_exec s c) i"
    by (rule commit_cases [of external_exec s c]) (use Cons.prems reserved_step in auto)
  then show ?case using Cons by simp
qed simp

lemma reserve_excluded:
  "reserved s i \<Longrightarrow> reserve_external_dispatch s claim_id i customer at op = Inr (x, s') \<Longrightarrow> x = None \<and> s' = s"
  by (auto simp: reserve_Inr held_request_Inr reserved_def split: if_splits)

lemma reserve_reserves:
  "reserve_external_dispatch s claim_id i customer at op = Inr (x, s') \<Longrightarrow> reserved s' i"
  by (auto simp: reserve_Inr held_request_Inr reserved_def write_request_def split: if_splits)

text \<open>
  Releasing the reservation of a request that was never sent keeps its operation identity: what is
  then stored is refused by the request's own constructor.
\<close>

lemma release_breaks_request:
  assumes q: "held_request s claim_id i customer = Inr q"
    and ok: "validate_request_state q = Inr ()"
    and unsent: "xq_dispatch_reserved_at q \<noteq> None" "xq_sent_at q = None"
  shows "\<exists>s' p. release_external_dispatch s claim_id i customer = Inr s'
    \<and> dict_get (st_external_requests s') i = Some p
    \<and> validate_request_state p = Inl OperationBeforeReservation"
proof -
  let ?p = "q\<lparr>xq_dispatch_reserved_at := None\<rparr>"
  have fields: "request_fields_ok ?p" if "request_fields_ok q"
    using that by (simp add: request_fields_ok_def)
  have "validate_request_state ?p = Inl OperationBeforeReservation"
    using ok unsent fields
    by (auto simp: validate_request_state_def validate_separate_authorities_def split: if_splits)
  then show ?thesis
    using q unsent by (auto simp: release_external_dispatch_def write_request_def)
qed

end
