(* ===== verification/External_Dispatch.thy ===== *)
theory External_Dispatch
  imports External_Reservation
begin

text \<open>
  The dispatch of a consented service offer: the dispatcher that turns a registered capability
  into an adapter call (\<open>backend/services/external_capability_dispatcher.py\<close>) and the service
  that persists decision, task and request, reserves the dispatch, calls the provider and settles
  the outcome (\<open>_dispatch_generic_offer\<close> of \<open>backend/services/external_service_offers.py\<close>). The
  adapters are an argument; they act on a world of their own type, so that a changed world shows
  that one was called. The confirmed values of the claim form, its incident type and the three
  clock readings are arguments too. How an offer is made (\<open>build_offer_metadata\<close>) comes last. Of a refusal
  whose delivery evidence is not a text, the model stores what \<open>str\<close> gives for it on the task.
\<close>

section \<open>The capability dispatcher\<close>

text \<open>
  The values of a payload: \<open>Item_empty\<close> is an empty list or dictionary, \<open>Item_other\<close> any further
  value with its truth value; both carry what \<open>str\<close> gives for them.
\<close>

datatype item =
    Item_none
  | Item_text string
  | Item_int int
  | Item_empty string
  | Item_other bool string

fun item_str :: "item \<Rightarrow> string" where
  "item_str Item_none = ''None''"
| "item_str (Item_text s) = s"
| "item_str (Item_int n) = decimal n"
| "item_str (Item_empty r) = r"
| "item_str (Item_other _ r) = r"

fun item_true :: "item \<Rightarrow> bool" where
  "item_true Item_none = False"
| "item_true (Item_text s) = (s \<noteq> [])"
| "item_true (Item_int n) = (n \<noteq> 0)"
| "item_true (Item_empty _) = False"
| "item_true (Item_other b _) = b"

text \<open>\<open>value in (None, '', [], {})\<close>\<close>

fun item_missing :: "item \<Rightarrow> bool" where
  "item_missing Item_none = True"
| "item_missing (Item_text s) = (s = [])"
| "item_missing (Item_empty _) = True"
| "item_missing _ = False"

type_synonym item_dict = "(string \<times> item) list"

datatype capability_payload =
    No_payload
  | Capability_scope service_entry
  | Capability_details service_entry
  | Provider_payload item_dict

fun result_payload_get :: "capability_payload \<Rightarrow> string \<Rightarrow> item option" where
  "result_payload_get (Provider_payload d) k = dict_get d k"
| "result_payload_get _ k = None"

datatype next_action =
    Says string
  | Fields_outside_scope "string list"
  | Fields_missing "string list"

record capability_result =
  cr_status :: string
  cr_service_identity :: string
  cr_access_form :: string
  cr_uses_external_task :: bool
  cr_payload :: capability_payload
  cr_next_action :: next_action

datatype execute_error = Execute_unregistered service_registry_error | Adapter_raised

type_synonym 'w adapter = "service_entry \<Rightarrow> item_dict \<Rightarrow> 'w \<Rightarrow> (execute_error + item_dict) \<times> 'w"

definition removeprefix :: "string \<Rightarrow> string \<Rightarrow> string" where
  "removeprefix p s = (if take (length p) s = p then drop (length p) s else s)"

definition controlled_task_adapter :: "'w adapter" where
  "controlled_task_adapter entry payload w = (case dict_get payload ''operation_id'' of
     None \<Rightarrow> (Inl Adapter_raised, w)
   | Some v \<Rightarrow>
       (let prefix = (case svc_catalogue_reference entry of
              None \<Rightarrow> svc_service_identity entry
            | Some r \<Rightarrow> if r = [] then svc_service_identity entry else r)
        in (Inr [(''status'', Item_text ''accepted''),
             (''provider_reference'',
              Item_text (prefix @ ''-'' @ take 8 (removeprefix ''op_'' (item_str v)))),
             (''next_action'',
              Item_text (svc_service_name entry @ '' accepted the request for processing.''))], w)))"

definition controlled_external_capability_dispatcher :: "(string \<times> 'w adapter) list" where
  "controlled_external_capability_dispatcher = map (\<lambda>i. (i, controlled_task_adapter))
     [''vehicle_recovery_request'', ''vehicle_repairer_booking'', ''home_emergency_repair_request'',
      ''contents_specialist_assessment'']"

definition REGISTERED_OPERATIONS :: "string list" where
  "REGISTERED_OPERATIONS = [''discover_capability'', ''load_requirements'', ''prepare_request'',
     ''classify_request'', ''check_authority'', ''submit_request'', ''track_request'',
     ''verify_response'', ''reconcile_response'', ''retry_request'', ''cancel_request'',
     ''escalate_failure'']"

definition REQUEST_OPERATIONS :: "string list" where
  "REQUEST_OPERATIONS = [''prepare_request'', ''submit_request'']"

definition RUNTIME_VALIDATION_OPERATIONS :: "string list" where
  "RUNTIME_VALIDATION_OPERATIONS = [''load_requirements'', ''classify_request'', ''check_authority'']"

definition CONTROL_FIELDS :: "string list" where
  "CONTROL_FIELDS = [''claim_id'', ''claim_revision'', ''operation_id'', ''idempotency_key'',
     ''provider_reference'', ''consent_ref'', ''northwind_authority_ref'', ''result_reference'']"

definition new_capability_result ::
  "service_entry \<Rightarrow> string \<Rightarrow> capability_payload \<Rightarrow> next_action \<Rightarrow> capability_result" where
  "new_capability_result entry status payload next_action = \<lparr>cr_status = status,
     cr_service_identity = svc_service_identity entry, cr_access_form = svc_access_form entry,
     cr_uses_external_task = svc_uses_external_task entry, cr_payload = payload,
     cr_next_action = next_action\<rparr>"

definition in_family :: "string \<Rightarrow> service_entry \<Rightarrow> bool" where
  "in_family product_family entry \<longleftrightarrow>
     py_lower (py_strip product_family) \<in> set (svc_product_families entry)"

definition discover_capability ::
  "string \<Rightarrow> string \<Rightarrow> service_registry_error + capability_result" where
  "discover_capability service_identity product_family =
     bind_result (service_registry_entry service_identity) (\<lambda>entry. Inr (
       if \<not> in_family product_family entry
       then new_capability_result entry ''unavailable'' No_payload
              (Says ''Select a capability registered for this Claim product family.'')
       else new_capability_result entry ''available'' (Capability_details entry)
              (Says ''Collect the registered fields and verify authority before requesting.'')))"

definition rejected :: "service_entry \<Rightarrow> next_action \<Rightarrow> capability_result" where
  "rejected entry next_action = new_capability_result entry ''rejected'' No_payload next_action"

definition validate_payload :: "service_entry \<Rightarrow> string \<Rightarrow> item_dict \<Rightarrow> next_action option" where
  "validate_payload entry operation payload =
     (let allowed = svc_required_fields entry @ svc_disclosure_fields entry @ CONTROL_FIELDS;
          unknown = sort (remdups (filter (\<lambda>k. k \<notin> set allowed) (map fst payload)));
          missing = filter (\<lambda>f. case dict_get payload f of None \<Rightarrow> True | Some v \<Rightarrow> item_missing v)
            (svc_required_fields entry)
      in if unknown \<noteq> [] then Some (Fields_outside_scope unknown)
         else if operation \<notin> set REQUEST_OPERATIONS then None
         else if missing \<noteq> [] then Some (Fields_missing missing)
         else None)"

definition text_or :: "item_dict \<Rightarrow> string \<Rightarrow> string \<Rightarrow> string" where
  "text_or d k fallback = (case dict_get d k of None \<Rightarrow> fallback | Some v \<Rightarrow> item_str v)"

definition call_adapter ::
  "'w adapter \<Rightarrow> service_entry \<Rightarrow> item_dict \<Rightarrow> 'w \<Rightarrow> (execute_error + capability_result) \<times> 'w" where
  "call_adapter adapter entry payload w = (case adapter entry payload w of
     (Inl e, w') \<Rightarrow> (Inl e, w')
   | (Inr result, w') \<Rightarrow> (Inr (new_capability_result entry (text_or result ''status'' ''unknown_outcome'')
       (Provider_payload result)
       (Says (text_or result ''next_action'' ''Use the canonical lifecycle projection.''))), w'))"

definition execute_capability ::
  "(string \<times> 'w adapter) list \<Rightarrow> string \<Rightarrow> string \<Rightarrow> item_dict \<Rightarrow> string \<Rightarrow> 'w
     \<Rightarrow> (execute_error + capability_result) \<times> 'w" where
  "execute_capability adapters service_identity operation payload product_family w =
     (case service_registry_entry service_identity of
        Inl e \<Rightarrow> (Inl (Execute_unregistered e), w)
      | Inr entry \<Rightarrow>
          if operation \<notin> set REGISTERED_OPERATIONS then
            (Inr (rejected entry
              (Says ''The requested external operation is not registered and was not executed.'')), w)
          else if operation = ''discover_capability'' then
            (map_error Execute_unregistered (discover_capability service_identity product_family), w)
          else if \<not> in_family product_family entry then
            (Inr (rejected entry
              (Says ''This capability is not registered for the current Claim product family.'')), w)
          else if operation \<in> {''submit_request'', ''retry_request'', ''cancel_request''}
            \<and> \<not> svc_uses_external_task entry then
            (Inr (rejected entry
              (Says ''Use the official link or phone path; manual capabilities do not create tasks.'')), w)
          else (case validate_payload entry operation payload of
            Some problem \<Rightarrow> (Inr (rejected entry problem), w)
          | None \<Rightarrow> (case dict_get adapters service_identity of
              Some adapter \<Rightarrow> call_adapter adapter entry payload w
            | None \<Rightarrow>
                if operation \<in> set RUNTIME_VALIDATION_OPERATIONS then
                  (Inr (new_capability_result entry ''validated'' (Capability_scope entry)
                    (Says ''Use Runtime authority and the exact registered disclosure scope.'')), w)
                else
                  (Inr (new_capability_result entry ''unavailable'' No_payload
                    (Says ''No configured adapter is available for this capability.'')), w))))"

section \<open>What an offer is dispatched as\<close>

record service_offer =
  so_offer_id :: string
  so_agent_message_id :: string
  so_trigger_message_id :: string
  so_service_identity :: string
  so_registry_version :: string
  so_requested_action :: string
  so_disclosure_fields :: "string list"
  so_evidence_ids :: "string list"
  so_disclosure_manifest :: "string list"
  so_disclosure_fingerprint :: string

definition offer_has_request :: "store \<Rightarrow> working_claim \<Rightarrow> string \<Rightarrow> bool" where
  "offer_has_request s c consent_ref \<longleftrightarrow>
     list_ex (\<lambda>q. az_claimant_consent_ref (xq_authorisation q) = consent_ref)
       (list_external_task_requests_internal s (wc_claim_id c))"

definition offer_identity :: "working_claim \<Rightarrow> service_offer \<Rightarrow> string" where
  "offer_identity c offer = take 20 (sha256_hexdigest (wc_claim_id c @ '':'' @ so_offer_id offer))"

abbreviation offer_task_id where "offer_task_id c offer \<equiv> ''tsk_'' @ offer_identity c offer"
abbreviation offer_request_id where "offer_request_id c offer \<equiv> ''erq_'' @ offer_identity c offer"
abbreviation offer_operation_id where "offer_operation_id c offer \<equiv> ''op_'' @ offer_identity c offer"
abbreviation offer_authority_ref where "offer_authority_ref c offer \<equiv> ''dec_'' @ offer_identity c offer"

definition offer_decision :: "working_claim \<Rightarrow> string \<Rightarrow> service_offer \<Rightarrow> service_entry \<Rightarrow> agent_decision" where
  "offer_decision c session_id offer entry = \<lparr>dn_decision_id = offer_authority_ref c offer,
     dn_claim_id = wc_claim_id c, dn_session_id = session_id, dn_resulting_revision = wc_revision c,
     dn_authority_outcome = Outcome_authorised,
     dn_content = ''Northwind is sending the '' @ py_lower (svc_service_name entry) @ '' request.''\<rparr>"

definition offer_task :: "working_claim \<Rightarrow> service_offer \<Rightarrow> datetime \<Rightarrow> external_task" where
  "offer_task c offer at = \<lparr>xt_task_id = offer_task_id c offer, xt_claim_id = wc_claim_id c,
     xt_service_identity = so_service_identity offer, xt_requested_action = so_requested_action offer,
     xt_integration_source = Integration_fixture, xt_status = Task_prepared,
     xt_delivery = Not_submitted, xt_delivery_evidence = None, xt_failure_code = None,
     xt_provider_reference = None, xt_created_at = at, xt_updated_at = at\<rparr>"

definition offer_request ::
  "working_claim \<Rightarrow> external_consent \<Rightarrow> service_offer \<Rightarrow> service_entry \<Rightarrow> datetime \<Rightarrow> external_request" where
  "offer_request c consent offer entry at = \<lparr>xq_request_id = offer_request_id c offer,
     xq_task_id = offer_task_id c offer, xq_claim_id = wc_claim_id c,
     xq_service_identity = so_service_identity offer, xq_requested_action = so_requested_action offer,
     xq_purpose = svc_purpose entry, xq_disclosed_fields = so_disclosure_fields offer,
     xq_authorisation = \<lparr>az_northwind_authority_ref = offer_authority_ref c offer,
       az_claimant_consent_ref = ec_consent_ref consent, az_authorised_revision = wc_revision c\<rparr>,
     xq_prepared_at = at, xq_sent_at = None, xq_operation_id = None, xq_dispatch_reserved_at = None\<rparr>"

text \<open>The payload: the registered disclosure fields, over which the control fields are written.\<close>

definition offer_payload ::
  "working_claim \<Rightarrow> external_consent \<Rightarrow> service_offer \<Rightarrow> service_entry \<Rightarrow> (string \<Rightarrow> item) \<Rightarrow> item_dict"
  where
  "offer_payload c consent offer entry source_value = foldl (\<lambda>d (k, v). dict_put k v d)
     (foldl (\<lambda>d f. dict_put f (source_value f) d) [] (svc_disclosure_fields entry))
     [(''claim_id'', Item_text (wc_claim_id c)), (''claim_revision'', Item_int (wc_revision c)),
      (''operation_id'', Item_text (offer_operation_id c offer)),
      (''idempotency_key'', Item_text (so_offer_id offer)),
      (''consent_ref'', Item_text (ec_consent_ref consent)),
      (''northwind_authority_ref'', Item_text (offer_authority_ref c offer))]"

section \<open>Sequences of writes\<close>

text \<open>A sequence that raises keeps what it had written before.\<close>

datatype dispatch_error =
    Dispatch_unregistered service_registry_error
  | Dispatch_store repo_error
  | Dispatch_invalid external_error
  | Decision_field_constraint
  | Operation_missing
  | Provider_reference_missing

type_synonym 'a steps = "store \<Rightarrow> (dispatch_error + 'a) \<times> store"

definition and_then :: "'a steps \<Rightarrow> ('a \<Rightarrow> 'b steps) \<Rightarrow> 'b steps" where
  "and_then m k s = (case m s of (Inl e, s') \<Rightarrow> (Inl e, s') | (Inr x, s') \<Rightarrow> k x s')"

definition check_that :: "dispatch_error + 'a \<Rightarrow> 'a steps" where
  "check_that r s = (r, s)"

definition save_by :: "(store \<Rightarrow> repo_error + store) \<Rightarrow> unit steps" where
  "save_by f s = (case f s of Inl e \<Rightarrow> (Inl (Dispatch_store e), s) | Inr s' \<Rightarrow> (Inr (), s'))"

definition save_with :: "(store \<Rightarrow> repo_error + 'a \<times> store) \<Rightarrow> 'a steps" where
  "save_with f s = (case f s of Inl e \<Rightarrow> (Inl (Dispatch_store e), s) | Inr (x, s') \<Rightarrow> (Inr x, s'))"

abbreviation checked :: "external_error + unit \<Rightarrow> unit steps" where
  "checked r \<equiv> check_that (map_error Dispatch_invalid r)"

section \<open>The dispatch\<close>

definition decision_fields_ok :: "agent_decision \<Rightarrow> bool" where
  "decision_fields_ok d \<longleftrightarrow> 1 \<le> dn_resulting_revision d \<and> bounded_text 1 5000 (dn_content d)"

definition prepare_offer ::
  "working_claim \<Rightarrow> string \<Rightarrow> external_consent \<Rightarrow> service_offer \<Rightarrow> service_entry \<Rightarrow> datetime
     \<Rightarrow> external_request option steps" where
  "prepare_offer c session_id consent offer entry at =
     (let decision = offer_decision c session_id offer entry; task = offer_task c offer at;
          request = offer_request c consent offer entry at; customer = wc_customer_id c
      in and_then (check_that (guarded [(\<not> decision_fields_ok decision, Decision_field_constraint)]
                                 (Inr ()))) (\<lambda>_.
         and_then (save_by (\<lambda>s. save_agent_decision s decision customer)) (\<lambda>_.
         and_then (checked (validate_task_state task)) (\<lambda>_.
         and_then (save_by (\<lambda>s. save_external_task s task customer)) (\<lambda>_.
         and_then (checked (validate_request_state request)) (\<lambda>_.
         and_then (save_by (\<lambda>s. save_external_task_request s request customer)) (\<lambda>_.
         save_with (\<lambda>s. reserve_external_dispatch s (wc_claim_id c) (offer_request_id c offer)
           customer at (offer_operation_id c offer)))))))))"

text \<open>\<open>now_utc()\<close>, moved one microsecond past the task's last update when it is not later.\<close>

definition later_than :: "datetime \<Rightarrow> datetime \<Rightarrow> datetime" where
  "later_than reading updated_at =
     (if dt_before updated_at reading then reading else dt_add updated_at 1)"

definition json_text :: "string \<Rightarrow> string" where
  "json_text s = CHR 0x22 # s @ [CHR 0x22]"

text \<open>
  The fingerprint is over the canonical JSON of the number and the task identity, whose letters,
  digits and underscores JSON writes as they are.
\<close>

definition attempt_identity :: "string \<Rightarrow> int \<Rightarrow> string" where
  "attempt_identity task_id number = ''att_'' @ take 24 (sha256_hexdigest
     (''{'' @ json_text ''number'' @ '':'' @ decimal number @ '','' @ json_text ''task_id'' @ '':''
      @ json_text task_id @ ''}''))"

definition build_external_attempt ::
  "external_task \<Rightarrow> external_request \<Rightarrow> int \<Rightarrow> task_status \<Rightarrow> failure_code option \<Rightarrow> task_delivery
     \<Rightarrow> string option \<Rightarrow> datetime \<Rightarrow> external_attempt steps" where
  "build_external_attempt task request claim_revision outcome code delivery evidence reading s =
     (case xq_operation_id request of
        None \<Rightarrow> (Inl Operation_missing, s)
      | Some operation_id \<Rightarrow>
          (let numbers = map xa_attempt_number (filter (\<lambda>a. xa_task_id a = xt_task_id task)
                 (list_external_task_attempts_internal s (xt_claim_id task)));
               number = max_number numbers + 1;
               attempt = \<lparr>xa_attempt_id = attempt_identity (xt_task_id task) number,
                 xa_task_id = xt_task_id task, xa_claim_id = xt_claim_id task,
                 xa_operation_id = operation_id, xa_attempt_number = number,
                 xa_claim_revision = claim_revision,
                 xa_started_at = (case xq_sent_at request of None \<Rightarrow> reading | Some t \<Rightarrow> t),
                 xa_outcome = outcome, xa_failure_code = code, xa_delivery = delivery,
                 xa_delivery_evidence = evidence\<rparr>
           in and_then (checked (validate_attempt_state attempt))
                (\<lambda>_. check_that (Inr attempt)) s))"

definition settle_raised ::
  "working_claim \<Rightarrow> external_task \<Rightarrow> string \<Rightarrow> external_request \<Rightarrow> datetime \<Rightarrow> datetime
     \<Rightarrow> unit steps" where
  "settle_raised c task request_id reserved_request t1 t2 =
     (let failed = task\<lparr>xt_status := Task_retryable_failure,
            xt_failure_code := Some Failure_unavailable,
            xt_updated_at := later_than t1 (xt_updated_at task)\<rparr>
      in and_then (build_external_attempt task reserved_request (wc_revision c) Task_retryable_failure
             (Some Failure_unavailable) (xt_delivery failed) (xt_delivery_evidence failed) t2)
           (\<lambda>attempt.
         and_then (save_by (\<lambda>s. save_external_task_settlement s failed attempt (wc_customer_id c)))
           (\<lambda>_.
         save_by (\<lambda>s. release_external_dispatch s (wc_claim_id c) request_id
           (wc_customer_id c)))))"

definition failure_code_named :: "string \<Rightarrow> failure_code option" where
  "failure_code_named s = find (\<lambda>f. failure_code_value f = s)
     [Failure_timeout, Failure_unavailable, Failure_access_denied, Failure_malformed,
      Failure_partial, Failure_conflicting]"

definition refused_delivery :: "item option \<Rightarrow> task_delivery" where
  "refused_delivery evidence = (case evidence of
     Some (Item_text s) \<Rightarrow> if py_strip s \<noteq> [] then Submitted else Not_submitted
   | _ \<Rightarrow> Not_submitted)"

definition refused_failure_code :: "capability_result \<Rightarrow> task_delivery \<Rightarrow> failure_code" where
  "refused_failure_code result delivery =
     (case failure_code_named (case result_payload_get (cr_payload result) ''failure_code'' of
         None \<Rightarrow> ''None'' | Some v \<Rightarrow> item_str v) of
        Some f \<Rightarrow> f
      | None \<Rightarrow>
          if cr_status result = ''rejected'' then Failure_access_denied
          else if cr_status result = ''unknown_outcome'' \<and> delivery = Submitted then Failure_timeout
          else Failure_unavailable)"

definition settle_refused ::
  "working_claim \<Rightarrow> external_task \<Rightarrow> string \<Rightarrow> external_request \<Rightarrow> capability_result \<Rightarrow> datetime
     \<Rightarrow> datetime \<Rightarrow> unit steps" where
  "settle_refused c task request_id reserved_request result t1 t2 =
     (let evidence = (case result_payload_get (cr_payload result) ''delivery_evidence'' of
            Some Item_none \<Rightarrow> None | v \<Rightarrow> v);
          delivery = refused_delivery evidence;
          code = refused_failure_code result delivery;
          failed_at = later_than t1 (xt_updated_at task)
      in and_then (check_that (map_error Dispatch_invalid (classify_external_task_failure code delivery)))
           (\<lambda>classified.
         and_then (if delivery = Submitted
             then save_by (\<lambda>s. save_external_task_request s
                    (reserved_request\<lparr>xq_sent_at := Some failed_at\<rparr>) (wc_customer_id c))
             else check_that (Inr ())) (\<lambda>_.
         and_then (build_external_attempt task reserved_request (wc_revision c)
             (fc_operation_status classified) (Some code) delivery (map_option item_str evidence) t2)
           (\<lambda>attempt.
         and_then (save_by (\<lambda>s. save_external_task_settlement s
             (task\<lparr>xt_status := fc_operation_status classified, xt_delivery := delivery,
                xt_delivery_evidence := (case evidence of None \<Rightarrow> None
                  | Some v \<Rightarrow> if item_true v then Some (item_str v) else None),
                xt_failure_code := Some code, xt_updated_at := failed_at\<rparr>)
             attempt (wc_customer_id c))) (\<lambda>_.
         if fc_operation_status classified \<noteq> Task_unknown_outcome
         then save_by (\<lambda>s. release_external_dispatch s (wc_claim_id c)
                request_id (wc_customer_id c))
         else check_that (Inr ()))))))"

definition settle_accepted ::
  "working_claim \<Rightarrow> external_task \<Rightarrow> external_request \<Rightarrow> string \<Rightarrow> capability_result \<Rightarrow> datetime
     \<Rightarrow> datetime \<Rightarrow> unit steps" where
  "settle_accepted c task reserved_request operation_id result t1 t2 =
     (let sent_at = later_than t1 (xt_updated_at task);
          evidence = Some (''operation:'' @ operation_id)
      in and_then (save_by (\<lambda>s. save_external_task_request s
             (reserved_request\<lparr>xq_sent_at := Some sent_at\<rparr>) (wc_customer_id c))) (\<lambda>_.
         and_then (check_that (case result_payload_get (cr_payload result) ''provider_reference'' of
             None \<Rightarrow> Inl Provider_reference_missing | Some v \<Rightarrow> Inr (item_str v))) (\<lambda>reference.
         and_then (build_external_attempt task reserved_request (wc_revision c) Task_accepted None
             Submitted evidence t2) (\<lambda>attempt.
         save_by (\<lambda>s. save_external_task_settlement s
           (task\<lparr>xt_status := Task_accepted, xt_delivery := Submitted,
              xt_delivery_evidence := evidence, xt_provider_reference := Some reference,
              xt_updated_at := sent_at\<rparr>) attempt (wc_customer_id c))))))"

definition settle_offer ::
  "working_claim \<Rightarrow> service_offer \<Rightarrow> external_request \<Rightarrow> execute_error + capability_result \<Rightarrow> datetime
     \<Rightarrow> datetime \<Rightarrow> datetime \<Rightarrow> unit steps" where
  "settle_offer c offer reserved_request outcome t0 t1 t2 =
     (let task = offer_task c offer t0 in case outcome of
        Inl _ \<Rightarrow> settle_raised c task (offer_request_id c offer) reserved_request t1 t2
      | Inr result \<Rightarrow>
          if cr_status result \<noteq> ''accepted''
          then settle_refused c task (offer_request_id c offer) reserved_request result t1 t2
          else settle_accepted c task reserved_request (offer_operation_id c offer) result t1 t2)"

definition dispatch_family :: "string option \<Rightarrow> service_entry \<Rightarrow> string" where
  "dispatch_family incident_type entry = (case incident_type of
     None \<Rightarrow> hd (svc_product_families entry)
   | Some f \<Rightarrow> if f = [] then hd (svc_product_families entry) else f)"

text \<open>
  \<open>t0\<close>, \<open>t1\<close> and \<open>t2\<close> are the readings of the clock at the start, after the provider answered and
  when the attempt is built.
\<close>

definition dispatch_generic_offer ::
  "(string \<times> 'w adapter) list \<Rightarrow> working_claim \<Rightarrow> external_consent \<Rightarrow> service_offer
     \<Rightarrow> (string \<Rightarrow> item) \<Rightarrow> string option \<Rightarrow> datetime \<Rightarrow> datetime \<Rightarrow> datetime
     \<Rightarrow> store \<Rightarrow> 'w \<Rightarrow> (dispatch_error + unit) \<times> store \<times> 'w" where
  "dispatch_generic_offer adapters c consent offer source_value incident_type t0 t1 t2 s w =
     (case (service_registry_entry (so_service_identity offer), wc_active_session_id c) of
        (Inl e, _) \<Rightarrow> (Inl (Dispatch_unregistered e), s, w)
      | (Inr entry, None) \<Rightarrow> (Inr (), s, w)
      | (Inr entry, Some session_id) \<Rightarrow>
          (case prepare_offer c session_id consent offer entry t0 s of
             (Inl e, s1) \<Rightarrow> (Inl e, s1, w)
           | (Inr None, s1) \<Rightarrow> (Inr (), s1, w)
           | (Inr (Some reserved_request), s1) \<Rightarrow>
               (let (outcome, w1) = execute_capability adapters (so_service_identity offer)
                      ''submit_request'' (offer_payload c consent offer entry source_value)
                      (dispatch_family incident_type entry) w;
                    (r, s2) = settle_offer c offer reserved_request outcome t0 t1 t2 s1
                in (r, s2, w1))))"

section \<open>Making an offer\<close>

text \<open>
  \<open>build_offer_metadata\<close> of \<open>backend/services/external_service_offers.py\<close>. The fingerprint is over the
  canonical JSON of the scope, which is an argument.
\<close>

definition DISCLOSURE_LABELS :: "(string \<times> string) list" where
  "DISCLOSURE_LABELS =
    [(''claim_id'', ''Northwind claim reference''),
     (''external_claim_id'', ''Claims-system reference when one exists''),
     (''authorisation_ref'', ''Northwind authorisation reference''),
     (''claimant_consent_ref'', ''This permission reference''),
     (''requested_action'', ''Requested service action''),
     (''location.region'', ''Incident region''),
     (''incident.location'', ''Incident location''),
     (''incident.description'', ''Incident description''),
     (''vehicle.drivable'', ''Whether the vehicle is drivable''),
     (''vehicle.damage_description'', ''Vehicle damage description''),
     (''property.address'', ''Insured property address''),
     (''property.ongoing_risk'', ''Current property risk''),
     (''loss.description'', ''Loss description''),
     (''contents.items'', ''Confirmed affected contents items'')]"

definition is_letter :: "char \<Rightarrow> bool" where
  "is_letter c \<longleftrightarrow> of_char (lower_char c) \<in> {97::nat..122}"

fun py_title :: "bool \<Rightarrow> string \<Rightarrow> string" where
  "py_title inside [] = []"
| "py_title inside (c # s) = (let d = lower_char c in
     (if is_letter c \<and> \<not> inside then char_of (of_char d - 32 :: nat) else d) # py_title (is_letter c) s)"

definition claimant_disclosure_label :: "string \<Rightarrow> string" where
  "claimant_disclosure_label field = (case map_of DISCLOSURE_LABELS field of
     Some label \<Rightarrow> label
   | None \<Rightarrow> py_title False (map (\<lambda>c. if c \<in> {CHR ''.'', CHR ''_''} then CHR '' '' else c) field))"

record offer_scope =
  os_claim_id :: string
  os_agent_message_id :: string
  os_service_identity :: string
  os_registry_version :: string
  os_requested_action :: string
  os_disclosure_fields :: "string list"
  os_evidence_ids :: "string list"

datatype offer_error =
    Offer_unregistered service_registry_error
  | Capability_unavailable
  | Offer_field_constraint

definition offer_fields_ok :: "service_offer \<Rightarrow> bool" where
  "offer_fields_ok offer \<longleftrightarrow> bounded_text 1 120 (so_offer_id offer)
     \<and> bounded_text 1 120 (so_agent_message_id offer) \<and> bounded_text 1 120 (so_trigger_message_id offer)
     \<and> bounded_text 1 100 (so_service_identity offer) \<and> bounded_text 1 100 (so_registry_version offer)
     \<and> bounded_text 1 100 (so_requested_action offer) \<and> length (so_disclosure_fields offer) \<le> 50
     \<and> length (so_evidence_ids offer) \<le> 50 \<and> length (so_disclosure_manifest offer) \<le> 50
     \<and> bounded_text 1 128 (so_disclosure_fingerprint offer)"

definition build_offer_metadata ::
  "(offer_scope \<Rightarrow> string) \<Rightarrow> string \<Rightarrow> string option \<Rightarrow> string \<Rightarrow> string \<Rightarrow> string \<Rightarrow> string
     \<Rightarrow> offer_error + service_offer" where
  "build_offer_metadata dump claim_id incident_type agent_message_id trigger_message_id
       service_identity requested_action =
     bind_result (map_error Offer_unregistered (service_registry_entry service_identity)) (\<lambda>entry.
     bind_result (map_error Offer_unregistered (discover_capability (svc_service_identity entry)
         (dispatch_family incident_type entry))) (\<lambda>discovery.
       let fields = svc_disclosure_fields entry;
           fingerprint = sha256_hexdigest (dump \<lparr>os_claim_id = claim_id, os_agent_message_id = agent_message_id,
             os_service_identity = svc_service_identity entry, os_registry_version = REGISTRY_VERSION,
             os_requested_action = requested_action, os_disclosure_fields = fields, os_evidence_ids = []\<rparr>);
           offer = \<lparr>so_offer_id = ''offer_'' @ take 24 (sha256_hexdigest fingerprint),
             so_agent_message_id = agent_message_id, so_trigger_message_id = trigger_message_id,
             so_service_identity = svc_service_identity entry, so_registry_version = REGISTRY_VERSION,
             so_requested_action = requested_action, so_disclosure_fields = fields, so_evidence_ids = [],
             so_disclosure_manifest = map claimant_disclosure_label fields,
             so_disclosure_fingerprint = fingerprint\<rparr>
       in guarded [(cr_status discovery \<noteq> ''available'', Capability_unavailable),
            (\<not> offer_fields_ok offer, Offer_field_constraint)] (Inr offer)))"

lemma build_offer_metadata_Inr:
  assumes "build_offer_metadata dump claim_id incident_type m n i action = Inr offer"
  obtains entry where "service_registry_entry (so_service_identity offer) = Inr entry"
    "so_disclosure_fields offer = svc_disclosure_fields entry" "so_service_identity offer = i"
proof -
  obtain entry where entry: "service_registry_entry i = Inr entry"
    "so_service_identity offer = svc_service_identity entry" "so_disclosure_fields offer = svc_disclosure_fields entry"
    using assms by (auto simp: build_offer_metadata_def bind_result_Inr_iff map_error_Inr_iff Let_def guarded_Inr_iff
        simp del: guarded.simps)
  moreover have "svc_service_identity entry = i"
    using entry(1) by (auto simp: service_registry_entry_def find_service_Some_iff split: option.splits)
  ultimately show thesis using that by simp
qed

end
