(* ===== verification/Dispatch_Safety.thy ===== *)
theory Dispatch_Safety
  imports External_Dispatch
begin

text \<open>
  What a dispatch does to the external tables and when it calls a provider: every dispatch keeps
  the invariant of the tables and only grows them; a provider is called only for a stored,
  authorised, consented and reserved request; and at most once per claim and offer.
\<close>

section \<open>Sequences of writes\<close>

definition safe_steps :: "'a steps \<Rightarrow> bool" where
  "safe_steps m \<longleftrightarrow> (\<forall>s. external_inv s \<longrightarrow> step_ok s (snd (m s)))"

lemma step_ok_refl: "external_inv s \<Longrightarrow> step_ok s s"
  by (rule step_ok_same) simp_all

lemma step_ok_trans: "step_ok s t \<Longrightarrow> step_ok t u \<Longrightarrow> step_ok s u"
  by (auto simp: step_ok_def intro: external_grows_trans)

lemma safe_and_then: "safe_steps m \<Longrightarrow> (\<And>x. safe_steps (k x)) \<Longrightarrow> safe_steps (and_then m k)"
  unfolding safe_steps_def and_then_def
  by (auto split: prod.splits sum.splits) (metis snd_conv step_ok_def step_ok_trans)

lemma safe_check: "safe_steps (check_that r)"
  by (simp add: safe_steps_def check_that_def step_ok_refl)

lemma safe_save_by: "(\<And>s s'. external_inv s \<Longrightarrow> f s = Inr s' \<Longrightarrow> step_ok s s') \<Longrightarrow> safe_steps (save_by f)"
  by (simp add: safe_steps_def save_by_def step_ok_refl split: sum.splits)

lemma safe_build: "safe_steps (build_external_attempt task q n outcome code delivery evidence t)"
  by (auto simp: safe_steps_def build_external_attempt_def Let_def and_then_def check_that_def
      step_ok_refl split: option.splits sum.splits)

lemma safe_saves:
  "safe_steps (save_by (\<lambda>s. save_agent_decision s d customer))"
  "safe_steps (save_by (\<lambda>s. save_external_task s t customer))"
  "safe_steps (save_by (\<lambda>s. save_external_task_request s q customer))"
  "safe_steps (save_by (\<lambda>s. save_external_task_settlement s t a customer))"
  "safe_steps (save_by (\<lambda>s. release_external_dispatch s claim_id i customer))"
  by (rule safe_save_by, erule step_ok_same, erule save_agent_decision_tables)
    (rule safe_save_by, erule step_task step_request step_settlement step_release, assumption)+

lemma safe_if: "safe_steps m \<Longrightarrow> safe_steps n \<Longrightarrow> safe_steps (if b then m else n)"
  by simp

lemmas safe_rules = safe_and_then safe_check safe_build safe_saves safe_if

lemma settle_raised_safe: "safe_steps (settle_raised c task i q t1 t2)"
  unfolding settle_raised_def Let_def by (rule safe_rules)+

lemma settle_refused_safe: "safe_steps (settle_refused c task i q result t1 t2)"
  unfolding settle_refused_def Let_def by (rule safe_rules)+

lemma settle_accepted_safe: "safe_steps (settle_accepted c task q op result t1 t2)"
  unfolding settle_accepted_def Let_def by (rule safe_rules)+

lemma settle_offer_safe: "safe_steps (settle_offer c offer q outcome t0 t1 t2)"
  by (cases outcome)
    (simp_all add: settle_offer_def Let_def settle_raised_safe settle_refused_safe settle_accepted_safe)

section \<open>Preparing a request\<close>

lemma save_external_task_request_stored:
  assumes "save_external_task_request s q customer = Inr s'"
  shows "dict_get (st_external_requests s') (xq_request_id q) = Some q"
    and "\<exists>c consent. get_claim s (xq_claim_id q) customer = Some c
      \<and> find_consent c (az_claimant_consent_ref (xq_authorisation q)) = Some consent
      \<and> assert_disclosure_within_consent q consent customer = Inr ()"
    and "request_authorised s q"
    and "dict_get (st_external_requests s) (xq_request_id q) = Some q
      \<or> opt_all (\<lambda>x. first_send x q) (dict_get (st_external_requests s) (xq_request_id q))"
proof -
  obtain c t consent where found: "get_claim s (xq_claim_id q) customer = Some c"
      "dict_get (st_external_tasks s) (xq_task_id q) = Some t"
      "find_consent c (az_claimant_consent_ref (xq_authorisation q)) = Some consent"
      "assert_disclosure_within_consent q consent customer = Inr ()" "request_authorised s q"
    using assms
    by (auto simp: save_external_task_request_def Let_def bind_result_Inr_iff
        split: option.splits if_splits)
  then show "request_authorised s q" "\<exists>c consent. get_claim s (xq_claim_id q) customer = Some c
      \<and> find_consent c (az_claimant_consent_ref (xq_authorisation q)) = Some consent
      \<and> assert_disclosure_within_consent q consent customer = Inr ()"
    by blast+
  show "dict_get (st_external_requests s') (xq_request_id q) = Some q"
    using assms found
    by (auto simp: save_external_task_request_def Let_def bind_result_Inr_iff guarded_Inr_iff
        external_writes simp del: guarded.simps split: if_splits)
  show "dict_get (st_external_requests s) (xq_request_id q) = Some q
      \<or> opt_all (\<lambda>x. first_send x q) (dict_get (st_external_requests s) (xq_request_id q))"
    using assms found
    by (cases "dict_get (st_external_requests s) (xq_request_id q)")
      (auto simp: save_external_task_request_def Let_def bind_result_Inr_iff guarded_Inr_iff
        simp del: guarded.simps split: if_splits)
qed

lemma save_by_iff:
  "save_by f s = (Inr u, s') \<longleftrightarrow> f s = Inr s'"
  by (cases "f s") (auto simp: save_by_def)

lemma save_with_iff: "save_with f s = (Inr x, s') \<longleftrightarrow> f s = Inr (x, s')"
  by (cases "f s") (auto simp: save_with_def)

lemma check_that_iff: "check_that r s = (Inr x, s') \<longleftrightarrow> r = Inr x \<and> s' = s"
  by (auto simp: check_that_def)

lemma and_then_iff: "and_then m k s = (Inr y, s') \<longleftrightarrow> (\<exists>x s1. m s = (Inr x, s1) \<and> k x s1 = (Inr y, s'))"
  by (auto simp: and_then_def split: prod.splits sum.splits)

lemmas steps_iff = save_by_iff save_with_iff check_that_iff and_then_iff

lemma prepare_offer_Inr:
  assumes "prepare_offer c session_id consent offer entry at s = (Inr x, s')"
  obtains sa sb sc where
    "decision_fields_ok (offer_decision c session_id offer entry)"
    "save_agent_decision s (offer_decision c session_id offer entry) (wc_customer_id c) = Inr sa"
    "validate_task_state (offer_task c offer at) = Inr ()"
    "save_external_task sa (offer_task c offer at) (wc_customer_id c) = Inr sb"
    "validate_request_state (offer_request c consent offer entry at) = Inr ()"
    "save_external_task_request sb (offer_request c consent offer entry at) (wc_customer_id c) = Inr sc"
    "reserve_external_dispatch sc (wc_claim_id c) (offer_request_id c offer) (wc_customer_id c) at
       (offer_operation_id c offer) = Inr (x, s')"
  using assms unfolding prepare_offer_def Let_def steps_iff map_error_Inr_iff unit_ex guarded_Inr_iff
  by auto

lemma offer_request_unsent [simp]:
  "xq_request_id (offer_request c consent offer entry at) = offer_request_id c offer"
  "xq_operation_id (offer_request c consent offer entry at) = None"
  "xq_sent_at (offer_request c consent offer entry at) = None"
  "xq_dispatch_reserved_at (offer_request c consent offer entry at) = None"
  "xq_task_id (offer_request c consent offer entry at) = offer_task_id c offer"
  "xq_claim_id (offer_request c consent offer entry at) = wc_claim_id c"
  "xq_authorisation (offer_request c consent offer entry at) =
     \<lparr>az_northwind_authority_ref = offer_authority_ref c offer,
      az_claimant_consent_ref = ec_consent_ref consent, az_authorised_revision = wc_revision c\<rparr>"
  "xq_service_identity (offer_request c consent offer entry at) = so_service_identity offer"
  "xq_disclosed_fields (offer_request c consent offer entry at) = so_disclosure_fields offer"
  by (simp_all add: offer_request_def)

lemma request_then_reserve_safe:
  "safe_steps (and_then (save_by (\<lambda>s. save_external_task_request s
       (offer_request c consent offer entry at) customer))
     (\<lambda>_. save_with (\<lambda>s. reserve_external_dispatch s claim_id (offer_request_id c offer) customer at op)))"
  unfolding safe_steps_def
proof (intro allI impI)
  fix s
  let ?q = "offer_request c consent offer entry at"
  assume inv: "external_inv s"
  show "step_ok s (snd (and_then (save_by (\<lambda>s. save_external_task_request s ?q customer))
     (\<lambda>_. save_with (\<lambda>s. reserve_external_dispatch s claim_id (offer_request_id c offer) customer at op)) s))"
  proof (cases "save_external_task_request s ?q customer")
    case (Inl e)
    then show ?thesis using step_ok_refl [OF inv] by (simp add: and_then_def save_by_def)
  next
    case (Inr s')
    have ok: "step_ok s s'" by (rule step_request [OF inv Inr])
    have stored: "dict_get (st_external_requests s') (offer_request_id c offer) = Some ?q"
      using save_external_task_request_stored(1) [OF Inr] by simp
    then have "external_allowed s' (Reserve claim_id (offer_request_id c offer) customer at op)"
      by (simp add: external_allowed_def)
    then have "step_ok s' (snd (save_with (\<lambda>s. reserve_external_dispatch s claim_id
        (offer_request_id c offer) customer at op) s'))"
      using ok step_reserve [of s'] step_ok_refl [of s']
      by (auto simp: save_with_def step_ok_def split: sum.splits)
    then show ?thesis
      using Inr step_ok_trans [OF ok] by (simp add: and_then_def save_by_def)
  qed
qed

lemma prepare_offer_safe: "safe_steps (prepare_offer c session_id consent offer entry at)"
  unfolding prepare_offer_def Let_def
  by (rule request_then_reserve_safe safe_rules)+

theorem dispatch_step:
  assumes "external_inv s"
    and "dispatch_generic_offer adapters c consent offer source_value incident_type t0 t1 t2 s w = (r, s', w')"
  shows "step_ok s s'"
proof -
  have prepared: "step_ok s s1" if "prepare_offer c i consent offer entry t0 s = (x, s1)" for i entry x s1
    using prepare_offer_safe [of c i consent offer entry t0] assms(1) that
    unfolding safe_steps_def by (metis snd_conv)
  have settled: "step_ok s1 s2"
    if "settle_offer c offer q outcome t0 t1 t2 s1 = (x, s2)" "external_inv s1" for q outcome x s1 s2
    using settle_offer_safe [of c offer q outcome t0 t1 t2] that unfolding safe_steps_def by (metis snd_conv)
  show ?thesis
    using assms(2) step_ok_refl [OF assms(1)]
    by (auto simp: dispatch_generic_offer_def split: sum.splits option.splits prod.splits
        dest!: prepared settled simp: step_ok_def elim: external_grows_trans)
qed

section \<open>What the writes leave alone\<close>

text \<open>The claims, the decisions and the closed claims, which say what a request may do.\<close>

definition grounds where
  "grounds s = (st_claims s, st_decisions s, st_retention_by_claim s)"

lemma grounds_writes [simp]:
  "grounds (commit_realtime e s) = grounds s" "grounds (put_external_task t s) = grounds s"
  "grounds (put_external_request q s) = grounds s" "grounds (write_request k q s) = grounds s"
  "grounds (put_external_attempt a s) = grounds s"
  by (simp_all add: grounds_def external_writes)

lemma get_claim_grounds: "grounds s' = grounds s \<Longrightarrow> get_claim s' = get_claim s"
  by (auto simp: fun_eq_iff get_claim_def claimant_resource_access_open_def claim_access_closed_def
      grounds_def split: option.splits)

lemma grounds_task: "save_external_task s t customer = Inr s' \<Longrightarrow> grounds s' = grounds s"
  by (auto simp: save_external_task_def Let_def bind_result_Inr_iff guarded_Inr_iff
      simp del: guarded.simps split: option.splits if_splits)

lemma grounds_request: "save_external_task_request s q customer = Inr s' \<Longrightarrow> grounds s' = grounds s"
  by (auto simp: save_external_task_request_def Let_def bind_result_Inr_iff guarded_Inr_iff
      simp del: guarded.simps split: option.splits if_splits)

lemma grounds_reserve:
  "reserve_external_dispatch s claim_id i customer at op = Inr (x, s') \<Longrightarrow> grounds s' = grounds s"
  by (auto simp: reserve_Inr split: if_splits)

lemma grounds_release: "release_external_dispatch s claim_id i customer = Inr s' \<Longrightarrow> grounds s' = grounds s"
  by (auto simp: release_Inr)

lemma grounds_settlement:
  assumes "save_external_task_settlement s t a customer = Inr s'"
  shows "grounds s' = grounds s"
proof -
  obtain s1 where s1: "save_external_task s t customer = Inr s1" "save_external_task_attempt s1 a customer = Inr s'"
    using assms by (auto simp: save_external_task_settlement_def bind_result_Inr_iff)
  have "grounds s' = grounds s1" using save_external_task_attempt_Inr [OF s1(2)] by auto
  then show ?thesis using grounds_task [OF s1(1)] by simp
qed

definition keeps_grounds :: "'a steps \<Rightarrow> bool" where
  "keeps_grounds m \<longleftrightarrow> (\<forall>s. grounds (snd (m s)) = grounds s)"

lemma grounds_and_then: "keeps_grounds m \<Longrightarrow> (\<And>x. keeps_grounds (k x)) \<Longrightarrow> keeps_grounds (and_then m k)"
  unfolding keeps_grounds_def and_then_def
  by (auto split: prod.splits sum.splits) (metis snd_conv)+

lemma grounds_check: "keeps_grounds (check_that r)"
  by (simp add: keeps_grounds_def check_that_def)

lemma grounds_saves:
  "keeps_grounds (save_by (\<lambda>s. save_external_task_request s q customer))"
  "keeps_grounds (save_by (\<lambda>s. save_external_task_settlement s t a customer))"
  "keeps_grounds (save_by (\<lambda>s. release_external_dispatch s claim_id i customer))"
  using grounds_request grounds_settlement grounds_release
  by (auto simp: keeps_grounds_def save_by_def split: sum.splits)

lemma grounds_build: "keeps_grounds (build_external_attempt task q n outcome code delivery evidence t)"
  by (auto simp: keeps_grounds_def build_external_attempt_def Let_def and_then_def check_that_def
      split: option.splits sum.splits)

lemma grounds_if: "keeps_grounds m \<Longrightarrow> keeps_grounds n \<Longrightarrow> keeps_grounds (if b then m else n)"
  by simp

lemmas grounds_rules = grounds_and_then grounds_check grounds_build grounds_saves grounds_if

lemma settle_offer_grounds: "keeps_grounds (settle_offer c offer q outcome t0 t1 t2)"
proof -
  have "keeps_grounds (settle_raised c task i q t1 t2)" for task i
    unfolding settle_raised_def Let_def by (rule grounds_rules)+
  moreover have "keeps_grounds (settle_refused c task i q result t1 t2)" for task i result
    unfolding settle_refused_def Let_def by (rule grounds_rules)+
  moreover have "keeps_grounds (settle_accepted c task q op result t1 t2)" for task op result
    unfolding settle_accepted_def Let_def by (rule grounds_rules)+
  ultimately show ?thesis
    by (cases outcome) (simp_all add: settle_offer_def Let_def)
qed

section \<open>When a provider is called\<close>

lemma execute_called:
  assumes "execute_capability adapters i operation payload family w = (outcome, w')" "w' \<noteq> w"
  obtains entry adapter where "service_registry_entry i = Inr entry"
    "operation \<in> set REGISTERED_OPERATIONS" "in_family family entry"
    "operation = ''submit_request'' \<longrightarrow> svc_uses_external_task entry"
    "validate_payload entry operation payload = None" "dict_get adapters i = Some adapter"
    "call_adapter adapter entry payload w = (outcome, w')"
  using assms by (auto simp: execute_capability_def split: sum.splits if_splits option.splits)

lemma dispatch_called:
  assumes "dispatch_generic_offer adapters c consent offer source_value incident_type t0 t1 t2 s w = (r, s', w')"
    and "w' \<noteq> w"
  obtains entry session_id q s1 family outcome where
    "service_registry_entry (so_service_identity offer) = Inr entry"
    "wc_active_session_id c = Some session_id"
    "prepare_offer c session_id consent offer entry t0 s = (Inr (Some q), s1)"
    "execute_capability adapters (so_service_identity offer) ''submit_request''
       (offer_payload c consent offer entry source_value) family w = (outcome, w')"
    "settle_offer c offer q outcome t0 t1 t2 s1 = (r, s')"
  using assms
  by (auto simp: dispatch_generic_offer_def split: sum.splits option.splits prod.splits if_splits)

lemma prepared_request:
  assumes "prepare_offer c session_id consent offer entry at s = (Inr (Some q), s1)"
  shows "q = (offer_request c consent offer entry at)
      \<lparr>xq_dispatch_reserved_at := Some at, xq_operation_id := Some (offer_operation_id c offer)\<rparr>"
    and "dict_get (st_external_requests s1) (offer_request_id c offer) = Some q"
    and "request_authorised s1 q"
    and "\<exists>stored k. get_claim s1 (wc_claim_id c) (wc_customer_id c) = Some stored
      \<and> find_consent stored (ec_consent_ref consent) = Some k
      \<and> assert_disclosure_within_consent q k (wc_customer_id c) = Inr ()"
proof -
  obtain sa sb sc where
    task: "save_external_task sa (offer_task c offer at) (wc_customer_id c) = Inr sb" and
    request: "save_external_task_request sb (offer_request c consent offer entry at) (wc_customer_id c) = Inr sc" and
    reserve: "reserve_external_dispatch sc (wc_claim_id c) (offer_request_id c offer) (wc_customer_id c) at
       (offer_operation_id c offer) = Inr (Some q, s1)"
    using prepare_offer_Inr [OF assms] by metis
  note stored = save_external_task_request_stored [OF request, simplified]
  show q: "q = (offer_request c consent offer entry at)
      \<lparr>xq_dispatch_reserved_at := Some at, xq_operation_id := Some (offer_operation_id c offer)\<rparr>"
    and "dict_get (st_external_requests s1) (offer_request_id c offer) = Some q"
    using reserve stored(1) by (auto simp: reserve_Inr held_request_Inr write_request_def split: if_splits)
  have same: "grounds s1 = grounds sb"
    using grounds_reserve [OF reserve] grounds_request [OF request] by simp
  then show "request_authorised s1 q"
    using stored(3) q by (simp add: request_authorised_def grounds_def split: option.splits)
  show "\<exists>stored k. get_claim s1 (wc_claim_id c) (wc_customer_id c) = Some stored
      \<and> find_consent stored (ec_consent_ref consent) = Some k
      \<and> assert_disclosure_within_consent q k (wc_customer_id c) = Inr ()"
    using stored(2) q by (simp add: get_claim_grounds [OF same] assert_disclosure_within_consent_def)
qed

lemma request_authorised_grounds:
  "grounds s' = grounds s \<Longrightarrow> same_request_identity q p \<Longrightarrow> request_authorised s' p \<longleftrightarrow> request_authorised s q"
  by (simp add: request_authorised_def grounds_def same_request_identity_def split: option.splits)

lemma same_identity_disclosure:
  "same_request_identity q p \<Longrightarrow>
     assert_disclosure_within_consent p k customer = assert_disclosure_within_consent q k customer"
  by (simp only: assert_disclosure_within_consent_def same_request_identity_def)

text \<open>The request as the store holds it after the dispatch.\<close>

lemma dispatched_request:
  assumes inv: "external_inv s"
    and run: "dispatch_generic_offer adapters c consent offer source_value incident_type t0 t1 t2 s w = (r, s', w')"
    and called: "w' \<noteq> w"
  obtains q entry where "dict_get (st_external_requests s') (offer_request_id c offer) = Some q"
    "xq_operation_id q = Some (offer_operation_id c offer)"
    "service_registry_entry (so_service_identity offer) = Inr entry"
    "same_request_identity (offer_request c consent offer entry t0) q" "request_authorised s' q"
    "\<exists>stored k. dict_get (st_claims s') (wc_claim_id c) = Some stored
       \<and> wc_customer_id stored = wc_customer_id c
       \<and> find_consent stored (ec_consent_ref consent) = Some k
       \<and> assert_disclosure_within_consent q k (wc_customer_id c) = Inr ()"
    "\<exists>family outcome. execute_capability adapters (so_service_identity offer) ''submit_request''
       (offer_payload c consent offer entry source_value) family w = (outcome, w')"
proof -
  obtain entry session_id q s1 family outcome where
    entry: "service_registry_entry (so_service_identity offer) = Inr entry" and
    prep: "prepare_offer c session_id consent offer entry t0 s = (Inr (Some q), s1)" and
    exec: "execute_capability adapters (so_service_identity offer) ''submit_request''
       (offer_payload c consent offer entry source_value) family w = (outcome, w')" and
    settle: "settle_offer c offer q outcome t0 t1 t2 s1 = (r, s')"
    by (rule dispatch_called [OF run called])
  have inv1: "external_inv s1"
    using prepare_offer_safe [of c session_id consent offer entry t0] inv prep
    unfolding safe_steps_def step_ok_def by (metis snd_conv)
  have grown: "external_grows s1 s'"
    using settle_offer_safe [of c offer q outcome t0 t1 t2] inv1 settle
    unfolding safe_steps_def step_ok_def by (metis snd_conv)
  have same: "grounds s' = grounds s1"
    using settle_offer_grounds [of c offer q outcome t0 t1 t2] settle
    unfolding keeps_grounds_def by (metis snd_conv)
  note q = prepared_request [OF prep]
  obtain p where p: "dict_get (st_external_requests s') (offer_request_id c offer) = Some p"
    and kept: "request_kept q p"
    using grown q(2) unfolding external_grows_def grows_in_def by blast
  have identity: "same_request_identity q p" using kept by (simp add: request_kept_def)
  have operation: "xq_operation_id p = Some (offer_operation_id c offer)"
    using kept by (simp add: request_kept_def q(1))
  have prepared: "same_request_identity (offer_request c consent offer entry t0) p"
    using identity by (simp add: same_request_identity_def q(1))
  have authorised: "request_authorised s' p"
    using request_authorised_grounds [OF same identity] q(3) by simp
  obtain stored k where stored: "get_claim s1 (wc_claim_id c) (wc_customer_id c) = Some stored"
    "find_consent stored (ec_consent_ref consent) = Some k"
    "assert_disclosure_within_consent q k (wc_customer_id c) = Inr ()"
    using q(4) by blast
  have "assert_disclosure_within_consent p k (wc_customer_id c) = Inr ()"
    using stored(3) by (simp only: same_identity_disclosure [OF identity])
  then show thesis
    using that [OF p operation entry prepared authorised] get_claim_stored [OF stored(1)] stored(2) same exec
    by (auto simp: grounds_def)
qed

lemma fst_foldl_put:
  "fst ` set (foldl (\<lambda>d x. dict_put (key x) (val x) d) d xs) = fst ` set d \<union> key ` set xs"
  by (induction xs arbitrary: d) (simp_all add: dict_keys_put [simplified])

lemma offer_payload_fields:
  "fst ` set (offer_payload c consent offer entry source_value) \<subseteq>
     set (svc_disclosure_fields entry) \<union> set CONTROL_FIELDS"
proof -
  have "fst ` set (offer_payload c consent offer entry source_value) =
      set (svc_disclosure_fields entry) \<union> {''claim_id'', ''claim_revision'', ''operation_id'',
        ''idempotency_key'', ''consent_ref'', ''northwind_authority_ref''}"
    unfolding offer_payload_def case_prod_beta by (simp only: fst_foldl_put) (simp add: fst_foldl_put)
  also have "\<dots> \<subseteq> set (svc_disclosure_fields entry) \<union> set CONTROL_FIELDS"
    by (rule Un_mono [OF order_refl]) (simp add: CONTROL_FIELDS_def)
  finally show ?thesis .
qed

section \<open>At most one call\<close>

lemma requests_decision:
  "save_agent_decision s d customer = Inr s' \<Longrightarrow> st_external_requests s' = st_external_requests s"
  by (drule save_agent_decision_tables) (simp add: external_tables_def)

lemma requests_task:
  "save_external_task s t customer = Inr s' \<Longrightarrow> st_external_requests s' = st_external_requests s"
  by (drule save_external_task_Inr) (auto simp: external_tables_def external_writes)

lemma prepared_once:
  assumes "dict_get (st_external_requests s) (offer_request_id c offer) = Some x"
    and "xq_operation_id x \<noteq> None"
  shows "prepare_offer c session_id consent offer entry at s \<noteq> (Inr y, s1)"
proof
  assume "prepare_offer c session_id consent offer entry at s = (Inr y, s1)"
  then obtain sa sb sc where
    steps: "save_agent_decision s (offer_decision c session_id offer entry) (wc_customer_id c) = Inr sa"
    "save_external_task sa (offer_task c offer at) (wc_customer_id c) = Inr sb"
    and request: "save_external_task_request sb (offer_request c consent offer entry at) (wc_customer_id c) = Inr sc"
    by (rule prepare_offer_Inr)
  have "dict_get (st_external_requests sb) (offer_request_id c offer) = Some x"
    using assms(1) requests_decision [OF steps(1)] requests_task [OF steps(2)] by simp
  then show False
    using save_external_task_request_stored(4) [OF request] assms(2)
    by (auto simp: first_send_def)
qed

lemma dispatch_excluded:
  assumes "dict_get (st_external_requests s) (offer_request_id c offer) = Some x"
    and "xq_operation_id x \<noteq> None"
  shows "snd (snd (dispatch_generic_offer adapters c consent offer source_value incident_type t0 t1 t2 s w)) = w"
proof (rule ccontr)
  obtain r s' w' where run: "dispatch_generic_offer adapters c consent offer source_value incident_type
      t0 t1 t2 s w = (r, s', w')"
    by (metis prod_cases3)
  assume "\<not> ?thesis"
  then have "w' \<noteq> w" using run by simp
  then obtain entry session_id q s1 where
    "prepare_offer c session_id consent offer entry t0 s = (Inr (Some q), s1)"
    using dispatch_called [OF run] by metis
  then show False using prepared_once [OF assms] by blast
qed

end
