(* ===== verification/Dispatch_Liveness.thy ===== *)
theory Dispatch_Liveness
  imports Dispatch_Safety
begin

text \<open>
  What a dispatch ends in once its request is reserved: an accepted provider answer settles the task
  as accepted under the first attempt with the request sent; an adapter that raises leaves a
  retryable task whose retry is permitted; a blank delivery evidence and an acceptance without a
  provider reference end in an error that leaves the task prepared.
\<close>

section \<open>The store after preparation\<close>

text \<open>
  The facts a settlement relies on: \<open>ready s1 c offer q t0\<close> holds of the store a preparation leaves.
\<close>

definition ready :: "store \<Rightarrow> working_claim \<Rightarrow> service_offer \<Rightarrow> external_request \<Rightarrow> datetime \<Rightarrow> bool" where
  "ready s1 c offer q t0 \<longleftrightarrow> external_inv s1
     \<and> (\<exists>stored k. get_claim s1 (wc_claim_id c) (wc_customer_id c) = Some stored \<and> 1 \<le> wc_revision stored
          \<and> find_consent stored (az_claimant_consent_ref (xq_authorisation q)) = Some k
          \<and> assert_disclosure_within_consent q k (wc_customer_id c) = Inr ())
     \<and> request_authorised s1 q
     \<and> dict_get (st_external_tasks s1) (offer_task_id c offer) = Some (offer_task c offer t0)
     \<and> validate_task_state (offer_task c offer t0) = Inr ()
     \<and> assert_external_task_registry_compatible (offer_task c offer t0) = Inr ()
     \<and> dict_get (st_external_requests s1) (offer_request_id c offer) = Some q
     \<and> xq_request_id q = offer_request_id c offer
     \<and> xq_operation_id q = Some (offer_operation_id c offer) \<and> xq_sent_at q = None
     \<and> xq_task_id q = offer_task_id c offer \<and> xq_claim_id q = wc_claim_id c
     \<and> assert_request_matches_task q (offer_task c offer t0) = Inr ()
     \<and> attempts_of s1 (offer_task_id c offer) = [] \<and> 1 \<le> wc_revision c"

lemma save_external_task_stored:
  assumes "save_external_task s t customer = Inr s'"
  shows "dict_get (st_external_tasks s') (xt_task_id t) = Some t"
    and "\<exists>c. get_claim s (xt_claim_id t) customer = Some c \<and> 1 \<le> wc_revision c"
  using assms
  by (auto simp: save_external_task_def Let_def bind_result_Inr_iff guarded_Inr_iff external_writes
      prepare_realtime_mutation_def simp del: guarded.simps split: option.splits if_splits)

lemma no_attempt_before_operation:
  assumes inv: "external_inv s" and q: "dict_get (st_external_requests s) k = Some q" "xq_operation_id q = None"
  shows "attempts_of s (xq_task_id q) = []"
proof (rule ccontr)
  assume "attempts_of s (xq_task_id q) \<noteq> []"
  then obtain a where a: "a \<in> set (dict_values (st_external_attempts s))" "xa_task_id a = xq_task_id q"
    by (auto simp: attempts_of_def filter_empty_conv)
  have "keyed xa_attempt_id (st_external_attempts s)"
    using external_inv_parts(1) [OF inv] by (simp add: tables_keyed_def)
  then have "dict_get (st_external_attempts s) (xa_attempt_id a) = Some a"
    using a(1) by (simp only: keyed_value_iff)
  then obtain k' q' where q': "dict_get (st_external_requests s) k' = Some q'" "xq_task_id q' = xa_task_id a"
    "xq_operation_id q' = Some (xa_operation_id a)"
    using attempts_boundD [OF external_inv_parts(6) [OF inv]] by blast
  then have "k' = k" using other_request [OF inv q(1)] a(2) by simp
  then show False using q q' by simp
qed

lemma attempts_of_kept:
  "st_external_attempts s' = st_external_attempts s \<Longrightarrow> attempts_of s' i = attempts_of s i"
  by (simp add: attempts_of_def)

lemma tasks_request:
  "save_external_task_request s q customer = Inr s' \<Longrightarrow> st_external_tasks s' = st_external_tasks s"
  by (drule save_external_task_request_Inr) (auto simp: external_tables_def external_writes)

lemma reserve_writes:
  "reserve_external_dispatch s claim_id i customer at op = Inr (x, s') \<Longrightarrow>
     st_external_tasks s' = st_external_tasks s \<and> st_external_attempts s' = st_external_attempts s"
  by (auto simp: reserve_Inr write_request_def split: if_splits)

lemma prepared_ready:
  assumes inv: "external_inv s" and prep: "prepare_offer c session_id consent offer entry t0 s = (Inr (Some q), s1)"
  shows "ready s1 c offer q t0"
proof -
  let ?d = "offer_decision c session_id offer entry" and ?t = "offer_task c offer t0"
    and ?q = "offer_request c consent offer entry t0" and ?u = "wc_customer_id c"
  obtain sa sb sc where d: "decision_fields_ok ?d" "save_agent_decision s ?d ?u = Inr sa"
    and t: "validate_task_state ?t = Inr ()" "save_external_task sa ?t ?u = Inr sb"
    and request: "save_external_task_request sb ?q ?u = Inr sc"
    and reserve: "reserve_external_dispatch sc (wc_claim_id c) (offer_request_id c offer) ?u t0
       (offer_operation_id c offer) = Inr (Some q, s1)"
    by (rule prepare_offer_Inr [OF prep])
  note q = prepared_request [OF prep]
  have inv1: "external_inv s1"
    using prepare_offer_safe [of c session_id consent offer entry t0] inv prep
    unfolding safe_steps_def step_ok_def by (metis snd_conv)
  have "external_inv sa" using step_ok_same [OF inv save_agent_decision_tables [OF d(2)]] by (simp add: step_ok_def)
  then have "external_inv sb" using step_task [OF _ t(2)] by (simp add: step_ok_def)
  then have invc: "external_inv sc" using step_request [OF _ request] by (simp add: step_ok_def)
  have stored: "dict_get (st_external_requests sc) (offer_request_id c offer) = Some ?q"
    using save_external_task_request_stored(1) [OF request] by simp
  have task: "dict_get (st_external_tasks s1) (offer_task_id c offer) = Some ?t"
    using save_external_task_stored(1) [OF t(2)] tasks_request [OF request] reserve_writes [OF reserve]
    by (simp add: offer_task_def)
  have same: "grounds s1 = grounds sb" "grounds sb = grounds sa"
    using grounds_reserve [OF reserve] grounds_request [OF request] grounds_task [OF t(2)] by simp_all
  have "\<exists>c'. get_claim sa (wc_claim_id c) ?u = Some c' \<and> 1 \<le> wc_revision c'"
    using save_external_task_stored(2) [OF t(2)] by (simp add: offer_task_def)
  then have claim: "\<exists>c'. get_claim s1 (wc_claim_id c) ?u = Some c' \<and> 1 \<le> wc_revision c'"
    using same by (simp add: get_claim_grounds [of s1 sa])
  have "attempts_of sc (offer_task_id c offer) = []"
    using no_attempt_before_operation [OF invc stored] by simp
  then have attempts: "attempts_of s1 (offer_task_id c offer) = []"
    using attempts_of_kept [of s1 sc] reserve_writes [OF reserve] by simp
  have compatible: "assert_external_task_registry_compatible ?t = Inr ()"
    using external_inv_parts(2) [OF inv1] task unfolding tasks_registered_def by blast
  have "assert_request_matches_task q ?t = Inr ()"
    using requests_matchD [OF external_inv_parts(3) [OF inv1] q(2)] task q(1) by simp
  then show ?thesis
    unfolding ready_def
    using inv1 q(2-4) claim task t(1) compatible attempts d(1)
    by (auto simp: q(1) decision_fields_ok_def offer_decision_def)
qed

lemma attempts_request:
  "save_external_task_request s q customer = Inr s' \<Longrightarrow> st_external_attempts s' = st_external_attempts s"
  by (drule save_external_task_request_Inr) (auto simp: external_tables_def external_writes)

lemma attempts_task:
  "save_external_task s t customer = Inr s' \<Longrightarrow> st_external_attempts s' = st_external_attempts s"
  by (drule save_external_task_Inr) (auto simp: external_tables_def external_writes)

lemma prepare_attempts:
  assumes "prepare_offer c session_id consent offer entry t0 s = (Inr x, s1)"
  shows "st_external_attempts s1 = st_external_attempts s"
proof (rule prepare_offer_Inr [OF assms])
  fix sa sb sc
  assume d: "save_agent_decision s (offer_decision c session_id offer entry) (wc_customer_id c) = Inr sa"
    and t: "save_external_task sa (offer_task c offer t0) (wc_customer_id c) = Inr sb"
    and q: "save_external_task_request sb (offer_request c consent offer entry t0) (wc_customer_id c) = Inr sc"
    and r: "reserve_external_dispatch sc (wc_claim_id c) (offer_request_id c offer) (wc_customer_id c) t0
       (offer_operation_id c offer) = Inr (x, s1)"
  have "st_external_attempts sa = st_external_attempts s"
    using save_agent_decision_tables [OF d] by (simp add: external_tables_def)
  then show ?thesis using attempts_task [OF t] attempts_request [OF q] reserve_writes [OF r] by simp
qed

lemma readyE:
  assumes "ready s1 c offer q t0"
  obtains stored k where "external_inv s1" "get_claim s1 (wc_claim_id c) (wc_customer_id c) = Some stored"
    "1 \<le> wc_revision stored" "find_consent stored (az_claimant_consent_ref (xq_authorisation q)) = Some k"
    "assert_disclosure_within_consent q k (wc_customer_id c) = Inr ()" "request_authorised s1 q"
    "dict_get (st_external_tasks s1) (offer_task_id c offer) = Some (offer_task c offer t0)"
    "dict_get (st_external_requests s1) (offer_request_id c offer) = Some q"
    "xq_request_id q = offer_request_id c offer"
    "xq_operation_id q = Some (offer_operation_id c offer)" "xq_sent_at q = None"
    "xq_task_id q = offer_task_id c offer" "xq_claim_id q = wc_claim_id c"
    "assert_request_matches_task q (offer_task c offer t0) = Inr ()"
  using assms unfolding ready_def by blast

section \<open>Each write succeeds\<close>

lemma offer_identity_length: "length (offer_identity c offer) = 20"
  by (simp add: offer_identity_def length_hexdigest)

lemma offer_task_fields [simp]:
  "xt_task_id (offer_task c offer t0) = offer_task_id c offer"
  "xt_claim_id (offer_task c offer t0) = wc_claim_id c"
  "xt_service_identity (offer_task c offer t0) = so_service_identity offer"
  "xt_requested_action (offer_task c offer t0) = so_requested_action offer"
  "xt_integration_source (offer_task c offer t0) = Integration_fixture"
  "xt_status (offer_task c offer t0) = Task_prepared"
  "xt_delivery (offer_task c offer t0) = Not_submitted"
  "xt_delivery_evidence (offer_task c offer t0) = None"
  "xt_created_at (offer_task c offer t0) = t0" "xt_updated_at (offer_task c offer t0) = t0"
  by (simp_all add: offer_task_def)

lemma only_request:
  assumes "external_inv s" "dict_get (st_external_requests s) k = Some q"
    and "h \<in> set (dict_values (st_external_requests s))" "xq_task_id h = xq_task_id q"
  shows "h = q"
proof -
  have keyed: "keyed xq_request_id (st_external_requests s)"
    using external_inv_parts(1) [OF assms(1)] by (simp add: tables_keyed_def)
  have h: "dict_get (st_external_requests s) (xq_request_id h) = Some h"
    using assms(3) by (simp only: keyed_value_iff [OF keyed])
  then have "xq_request_id h = k" using other_request [OF assms(1,2)] assms(4) by blast
  then show ?thesis using h assms(2) by simp
qed

lemma ready_request_of_task: "ready s1 c offer q t0 \<Longrightarrow> request_of_task s1 (offer_task_id c offer) = Some q"
proof (erule readyE)
  assume inv: "external_inv s1" and q: "dict_get (st_external_requests s1) (offer_request_id c offer) = Some q"
    "xq_request_id q = offer_request_id c offer" "xq_task_id q = offer_task_id c offer"
  have keyed: "keyed xq_request_id (st_external_requests s1)"
    using external_inv_parts(1) [OF inv] by (simp add: tables_keyed_def)
  have "q \<in> set (dict_values (st_external_requests s1))"
    using q by (simp only: keyed_value_iff [OF keyed])
  then obtain h where h: "request_of_task s1 (offer_task_id c offer) = Some h"
    using q(3) by (cases "request_of_task s1 (offer_task_id c offer)")
      (auto simp: request_of_task_def find_None_iff)
  then have "h \<in> set (dict_values (st_external_requests s1)) \<and> xq_task_id h = xq_task_id q"
    using q(3) by (auto simp: request_of_task_def find_Some_iff dest: nth_mem)
  then show ?thesis using only_request [OF inv q(1)] h by simp
qed

lemma send_ready:
  assumes "ready s1 c offer q t0"
  obtains e where "save_external_task_request s1 (q\<lparr>xq_sent_at := Some t\<rparr>) (wc_customer_id c) =
    Inr (commit_realtime e (put_external_request (q\<lparr>xq_sent_at := Some t\<rparr>) s1))"
proof -
  let ?p = "q\<lparr>xq_sent_at := Some t\<rparr>"
  obtain stored k where inv: "external_inv s1"
    and claim: "get_claim s1 (wc_claim_id c) (wc_customer_id c) = Some stored" "1 \<le> wc_revision stored"
    and consent: "find_consent stored (az_claimant_consent_ref (xq_authorisation q)) = Some k"
      "assert_disclosure_within_consent q k (wc_customer_id c) = Inr ()" "request_authorised s1 q"
    and task: "dict_get (st_external_tasks s1) (offer_task_id c offer) = Some (offer_task c offer t0)"
    and q: "dict_get (st_external_requests s1) (offer_request_id c offer) = Some q"
      "xq_request_id q = offer_request_id c offer" "xq_operation_id q = Some (offer_operation_id c offer)"
      "xq_sent_at q = None" "xq_task_id q = offer_task_id c offer" "xq_claim_id q = wc_claim_id c"
      "assert_request_matches_task q (offer_task c offer t0) = Inr ()"
    using assms by (rule readyE)
  have identity: "same_request_identity q ?p" by (simp add: same_request_identity_def)
  have match: "assert_request_matches_task ?p (offer_task c offer t0) = Inr ()"
    using q(7) by (simp only: same_identity_match [OF identity])
  have disclosed: "assert_disclosure_within_consent ?p k (wc_customer_id c) = Inr ()"
    using consent(2) by (simp only: same_identity_disclosure [OF identity])
  have authorised: "request_authorised s1 ?p"
    using consent(3) by (simp only: request_authorised_grounds [OF refl identity])
  have single: "\<not> list_ex (\<lambda>h. xq_task_id h = offer_task_id c offer \<and> xq_request_id h \<noteq> offer_request_id c offer)
      (dict_values (st_external_requests s1))"
  proof
    assume "list_ex (\<lambda>h. xq_task_id h = offer_task_id c offer \<and> xq_request_id h \<noteq> offer_request_id c offer)
      (dict_values (st_external_requests s1))"
    then obtain h where "h \<in> set (dict_values (st_external_requests s1))" "xq_task_id h = xq_task_id q"
      "xq_request_id h \<noteq> xq_request_id q"
      unfolding list_ex_iff q(2,5) by blast
    then show False using only_request [OF inv q(1)] by blast
  qed
  have changed: "q \<noteq> ?p"
  proof
    assume "q = ?p"
    then have "xq_sent_at q = xq_sent_at ?p" by (rule arg_cong)
    then show False using q(4) by simp
  qed
  have first: "first_send q ?p" using q(3,4) by (simp add: first_send_def)
  show thesis
    by (rule that) (use claim consent(1) task q match disclosed authorised single changed first identity
      offer_identity_length [of c offer] in
      \<open>simp add: save_external_task_request_def prepare_realtime_mutation_def bounded_text_def\<close>)
qed

definition first_attempt ::
  "working_claim \<Rightarrow> service_offer \<Rightarrow> task_status \<Rightarrow> failure_code option \<Rightarrow> task_delivery
     \<Rightarrow> string option \<Rightarrow> datetime \<Rightarrow> external_attempt" where
  "first_attempt c offer outcome code delivery evidence at =
     \<lparr>xa_attempt_id = attempt_identity (offer_task_id c offer) 1, xa_task_id = offer_task_id c offer,
      xa_claim_id = wc_claim_id c, xa_operation_id = offer_operation_id c offer, xa_attempt_number = 1,
      xa_claim_revision = wc_revision c, xa_started_at = at, xa_outcome = outcome,
      xa_failure_code = code, xa_delivery = delivery, xa_delivery_evidence = evidence\<rparr>"

lemma no_listed_attempts:
  "attempts_of s i = [] \<Longrightarrow> filter (\<lambda>a. xa_task_id a = i) (list_external_task_attempts_internal s j) = []"
  by (auto simp: attempts_of_def list_external_task_attempts_internal_def filter_empty_conv)

lemma build_attempt:
  assumes "attempts_of s (offer_task_id c offer) = []" "xq_operation_id q = Some (offer_operation_id c offer)"
    "xq_sent_at q = None"
  shows "build_external_attempt (offer_task c offer t0) q (wc_revision c) outcome code delivery evidence at s =
    (let a = first_attempt c offer outcome code delivery evidence at in
     (map_error Dispatch_invalid (bind_result (validate_attempt_state a) (\<lambda>_. Inr a)), s))"
  using assms no_listed_attempts [OF assms(1)]
  by (cases "validate_attempt_state (first_attempt c offer outcome code delivery evidence at)")
    (simp_all add: build_external_attempt_def first_attempt_def max_number_def Let_def and_then_def check_that_def)

lemma first_attempt_valid:
  assumes "ready s1 c offer q t0"
    and "opt_all (bounded_text 1 200) evidence" "delivery = Submitted \<longleftrightarrow> evidence \<noteq> None"
    and "case code of None \<Rightarrow> outcome = Task_accepted \<and> delivery = Submitted
      | Some f \<Rightarrow> outcome = failure_status f delivery"
  shows "validate_attempt_state (first_attempt c offer outcome code delivery evidence at) = Inr ()"
proof -
  have "task_fields_ok (offer_task c offer t0)" "1 \<le> wc_revision c"
    using assms(1) by (auto simp: ready_def validate_task_state_def split: if_splits)
  then have "attempt_fields_ok (first_attempt c offer outcome code delivery evidence at)"
    using assms(2) offer_identity_length [of c offer]
    by (simp add: attempt_fields_ok_def first_attempt_def task_fields_ok_def bounded_text_def
        attempt_identity_def length_hexdigest)
  then show ?thesis
    using assms(3,4) by (simp add: validate_attempt_state_iff first_attempt_def split: option.splits)
qed

definition same_offer_task :: "external_task \<Rightarrow> external_task \<Rightarrow> bool" where
  "same_offer_task t u \<longleftrightarrow> xt_task_id u = xt_task_id t \<and> \<not> changes_identity t u
     \<and> \<not> incomparable (xt_updated_at u) (xt_updated_at t) \<and> dt_before (xt_updated_at t) (xt_updated_at u)"

lemma settle_ready:
  assumes ready: "ready s1 c offer q t0"
    and kept: "grounds s2 = grounds s1" "st_external_tasks s2 = st_external_tasks s1"
      "st_external_attempts s2 = st_external_attempts s1"
    and request: "request_of_task s2 (offer_task_id c offer) = Some p"
      "xq_operation_id p = Some (offer_operation_id c offer)"
    and t: "same_offer_task (offer_task c offer t0) t"
    and fresh: "dict_get (st_external_attempts s1) (attempt_identity (offer_task_id c offer) 1) = None"
  obtains e where "save_external_task_settlement s2 t (first_attempt c offer outcome code delivery evidence at)
      (wc_customer_id c)
    = Inr (put_external_attempt (first_attempt c offer outcome code delivery evidence at)
        (commit_realtime e (put_external_task t s2)))"
proof -
  let ?a = "first_attempt c offer outcome code delivery evidence at"
  obtain stored where claim: "get_claim s1 (wc_claim_id c) (wc_customer_id c) = Some stored" "1 \<le> wc_revision stored"
    and task: "dict_get (st_external_tasks s1) (offer_task_id c offer) = Some (offer_task c offer t0)"
    using ready by (rule readyE)
  have none: "attempts_of s1 (offer_task_id c offer) = []"
    and compatible: "assert_external_task_registry_compatible (offer_task c offer t0) = Inr ()"
    using ready by (simp_all add: ready_def)
  have ids: "xt_task_id t = offer_task_id c offer" "xt_claim_id t = wc_claim_id c"
    "xt_service_identity t = so_service_identity offer" "xt_integration_source t = Integration_fixture"
    using t by (auto simp: same_offer_task_def changes_identity_def)
  have moved: "offer_task c offer t0 \<noteq> t" using t by (auto simp: same_offer_task_def)
  have compat: "assert_external_task_registry_compatible t = Inr ()"
    using compatible ids by (simp add: registry_compatible_iff)
  have claim2: "get_claim s2 (wc_claim_id c) (wc_customer_id c) = Some stored"
    using claim(1) get_claim_grounds [OF kept(1)] by simp
  obtain e where saved: "save_external_task s2 t (wc_customer_id c) = Inr (commit_realtime e (put_external_task t s2))"
    using claim claim2 task kept(2) ids moved compat t
    by (auto simp: save_external_task_def task_advance_guards_def prepare_realtime_mutation_def
        same_offer_task_def)
  let ?s = "commit_realtime e (put_external_task t s2)"
  have claim3: "get_claim ?s (wc_claim_id c) (wc_customer_id c) = Some stored"
    using claim2 get_claim_grounds [of ?s s2] by simp
  have attempts: "attempts_of ?s (offer_task_id c offer) = []"
    using none kept(3) attempts_of_kept [of ?s s1] by (simp add: external_writes)
  have "save_external_task_attempt ?s ?a (wc_customer_id c) = Inr (put_external_attempt ?a ?s)"
    using claim3 attempts request fresh kept(3) ids(1,2)
    by (simp add: save_external_task_attempt_def first_attempt_def next_attempt_number_def
        max_number_def external_writes request_of_task_def)
  then show thesis using that saved by (simp add: save_external_task_settlement_def)
qed

lemma later_than_later:
  "\<not> is_naive t1 \<Longrightarrow> \<not> is_naive t0 \<Longrightarrow> dt_before t0 (later_than t1 t0) \<and> \<not> incomparable (later_than t1 t0) t0"
  by (elim aware_cases) (simp add: later_than_def)

section \<open>When a request is prepared and the provider asked\<close>

text \<open>
  The offer can be dispatched from the store: the claim is open with the session and a granted
  consent that covers the disclosure, the service is registered for tasks, and nothing is stored
  under the identities of the offer.
\<close>

definition dispatchable ::
  "store \<Rightarrow> working_claim \<Rightarrow> string \<Rightarrow> external_consent \<Rightarrow> service_offer \<Rightarrow> service_entry \<Rightarrow> datetime \<Rightarrow> bool"
  where
  "dispatchable s c session_id consent offer entry t0 \<longleftrightarrow>
     service_registry_entry (so_service_identity offer) = Inr entry \<and> svc_uses_external_task entry
     \<and> wc_active_session_id c = Some session_id
     \<and> decision_fields_ok (offer_decision c session_id offer entry)
     \<and> validate_task_state (offer_task c offer t0) = Inr ()
     \<and> validate_request_state (offer_request c consent offer entry t0) = Inr ()
     \<and> get_session s (wc_claim_id c) session_id (wc_customer_id c) \<noteq> None
     \<and> (\<exists>stored k. get_claim s (wc_claim_id c) (wc_customer_id c) = Some stored \<and> 1 \<le> wc_revision stored
          \<and> find_consent stored (ec_consent_ref consent) = Some k
          \<and> assert_disclosure_within_consent (offer_request c consent offer entry t0) k (wc_customer_id c) = Inr ())
     \<and> dict_get (st_external_tasks s) (offer_task_id c offer) = None
     \<and> dict_get (st_external_requests s) (offer_request_id c offer) = None
     \<and> dict_get (st_external_attempts s) (attempt_identity (offer_task_id c offer) 1) = None"

lemma dispatchable_prepared:
  assumes inv: "external_inv s" and ok: "dispatchable s c session_id consent offer entry t0"
  obtains q s1 where "prepare_offer c session_id consent offer entry t0 s = (Inr (Some q), s1)"
proof -
  let ?d = "offer_decision c session_id offer entry" and ?t = "offer_task c offer t0"
    and ?q = "offer_request c consent offer entry t0" and ?u = "wc_customer_id c"
  let ?sa = "s\<lparr>st_decisions := dict_put (dn_decision_id ?d) ?d (st_decisions s)\<rparr>"
  obtain stored k where claim: "get_claim s (wc_claim_id c) ?u = Some stored" "1 \<le> wc_revision stored"
    and consent: "find_consent stored (ec_consent_ref consent) = Some k"
      "assert_disclosure_within_consent ?q k ?u = Inr ()"
    using ok unfolding dispatchable_def by blast
  have fresh: "dict_get (st_external_tasks s) (offer_task_id c offer) = None"
    "dict_get (st_external_requests s) (offer_request_id c offer) = None"
    and valid: "decision_fields_ok ?d" "validate_task_state ?t = Inr ()" "validate_request_state ?q = Inr ()"
    using ok by (simp_all add: dispatchable_def)
  have claims: "get_claim (s'\<lparr>st_decisions := x\<rparr>) = get_claim s'" for s' x
    by (auto simp: fun_eq_iff get_claim_def claimant_resource_access_open_def claim_access_closed_def
        split: option.splits)
  have decision: "save_agent_decision s ?d ?u = Inr ?sa"
    using ok claim by (simp add: save_agent_decision_def dispatchable_def offer_decision_def)
  have "find_service (so_service_identity offer) = Some entry" "svc_uses_external_task entry"
    using ok by (simp_all add: dispatchable_def service_registry_entry_def split: option.splits)
  then have compatible: "assert_external_task_registry_compatible ?t = Inr ()"
    by (simp add: registry_compatible_iff)
  obtain e where task: "save_external_task ?sa ?t ?u = Inr (commit_realtime e (put_external_task ?t ?sa))"
    using claim fresh(1) compatible
    by (simp add: save_external_task_def task_advance_guards_def prepare_realtime_mutation_def claims)
  let ?sb = "commit_realtime e (put_external_task ?t ?sa)"
  have claim_b: "get_claim ?sb (wc_claim_id c) ?u = Some stored"
    using claim(1) get_claim_grounds [of ?sb ?sa] claims by simp
  have single: "\<not> list_ex (\<lambda>h. xq_task_id h = offer_task_id c offer \<and> xq_request_id h \<noteq> offer_request_id c offer)
      (dict_values (st_external_requests s))"
  proof
    assume "list_ex (\<lambda>h. xq_task_id h = offer_task_id c offer \<and> xq_request_id h \<noteq> offer_request_id c offer)
      (dict_values (st_external_requests s))"
    then obtain h where h: "h \<in> set (dict_values (st_external_requests s))" "xq_task_id h = offer_task_id c offer"
      unfolding list_ex_iff by blast
    have "keyed xq_request_id (st_external_requests s)"
      using external_inv_parts(1) [OF inv] by (simp add: tables_keyed_def)
    then have "dict_get (st_external_requests s) (xq_request_id h) = Some h"
      using h(1) by (simp only: keyed_value_iff)
    then show False
      using requests_matchD [OF external_inv_parts(3) [OF inv]] h(2) fresh(1) by fastforce
  qed
  have authorised: "request_authorised ?sb ?q"
    by (simp add: request_authorised_def external_writes offer_decision_def)
  have match: "assert_request_matches_task ?q ?t = Inr ()"
    by (simp add: assert_request_matches_task_def offer_request_def)
  have tables: "dict_get (st_external_tasks ?sb) (offer_task_id c offer) = Some ?t"
    "st_external_requests ?sb = st_external_requests s"
    by (simp_all add: external_writes)
  obtain e' where request: "save_external_task_request ?sb ?q ?u = Inr (commit_realtime e' (put_external_request ?q ?sb))"
    using claim(2) claim_b consent fresh(2) single authorised match tables
    by (simp add: save_external_task_request_def prepare_realtime_mutation_def)
  let ?sc = "commit_realtime e' (put_external_request ?q ?sb)"
  have "get_claim ?sc (wc_claim_id c) ?u = Some stored"
    using claim_b get_claim_grounds [of ?sc ?sb] by simp
  then have "held_request ?sc (wc_claim_id c) (offer_request_id c offer) ?u = Inr ?q"
    by (simp add: held_request_def external_writes)
  then obtain q s1 where "reserve_external_dispatch ?sc (wc_claim_id c) (offer_request_id c offer) ?u t0
      (offer_operation_id c offer) = Inr (Some q, s1)"
    by (simp add: reserve_external_dispatch_def Let_def)
  then have "prepare_offer c session_id consent offer entry t0 s = (Inr (Some q), s1)"
    using valid decision task request
    by (simp add: prepare_offer_def Let_def and_then_def check_that_def save_by_def save_with_def)
  then show thesis by (rule that)
qed

lemma execute_submits:
  assumes "service_registry_entry i = Inr entry" "svc_uses_external_task entry" "in_family family entry"
    "validate_payload entry ''submit_request'' payload = None" "dict_get adapters i = Some adapter"
  shows "execute_capability adapters i ''submit_request'' payload family w = call_adapter adapter entry payload w"
  using assms by (simp add: execute_capability_def REGISTERED_OPERATIONS_def)

section \<open>How a dispatch ends\<close>

lemma dispatch_settles:
  assumes "service_registry_entry (so_service_identity offer) = Inr entry"
    and "wc_active_session_id c = Some session_id"
    and "prepare_offer c session_id consent offer entry t0 s = (Inr (Some q), s1)"
    and "execute_capability adapters (so_service_identity offer) ''submit_request''
      (offer_payload c consent offer entry source_value) (dispatch_family incident_type entry) w = (outcome, w1)"
    and "settle_offer c offer q outcome t0 t1 t2 s1 = (r, s2)"
  shows "dispatch_generic_offer adapters c consent offer source_value incident_type t0 t1 t2 s w = (r, s2, w1)"
  using assms by (simp add: dispatch_generic_offer_def)

definition accepted_task :: "working_claim \<Rightarrow> service_offer \<Rightarrow> string \<Rightarrow> datetime \<Rightarrow> datetime \<Rightarrow> external_task" where
  "accepted_task c offer reference t0 t1 = (offer_task c offer t0)\<lparr>xt_status := Task_accepted,
     xt_delivery := Submitted, xt_delivery_evidence := Some (''operation:'' @ offer_operation_id c offer),
     xt_provider_reference := Some reference, xt_updated_at := later_than t1 t0\<rparr>"

lemma request_of_sent:
  assumes "ready s1 c offer q t0"
  shows "request_of_task (commit_realtime e (put_external_request (q\<lparr>xq_sent_at := Some t\<rparr>) s1)) (offer_task_id c offer)
    = Some (q\<lparr>xq_sent_at := Some t\<rparr>)"
proof -
  let ?p = "q\<lparr>xq_sent_at := Some t\<rparr>"
  obtain e' where "save_external_task_request s1 ?p (wc_customer_id c) = Inr (commit_realtime e' (put_external_request ?p s1))"
    by (rule send_ready [OF assms])
  then have "external_inv (commit_realtime e' (put_external_request ?p s1))"
    using step_request assms by (auto simp: ready_def step_ok_def)
  then have inv: "external_inv (commit_realtime e (put_external_request ?p s1))"
    using external_inv_cong [of "commit_realtime e (put_external_request ?p s1)"
      "commit_realtime e' (put_external_request ?p s1)"]
    by (simp add: external_tables_def commit_realtime_def)
  show ?thesis (is "request_of_task ?s _ = _")
  proof -
    have id: "xq_task_id q = offer_task_id c offer" using assms by (simp add: ready_def)
    have p: "dict_get (st_external_requests ?s) (xq_request_id q) = Some ?p"
      by (simp add: external_writes)
    have keyed: "keyed xq_request_id (st_external_requests ?s)"
      using external_inv_parts(1) [OF inv] by (simp add: tables_keyed_def)
    have "?p \<in> set (dict_values (st_external_requests ?s))"
      unfolding keyed_value_iff [OF keyed] using p by simp
    then obtain h where h: "request_of_task ?s (offer_task_id c offer) = Some h"
      using id by (cases "request_of_task ?s (offer_task_id c offer)")
        (auto simp: request_of_task_def find_None_iff simp del: set_map)
    then have "h \<in> set (dict_values (st_external_requests ?s)) \<and> xq_task_id h = xq_task_id ?p"
      using id by (auto simp: request_of_task_def find_Some_iff dest: nth_mem)
    then show ?thesis using only_request [OF inv p] h by simp
  qed
qed

theorem dispatch_accepted:
  assumes inv: "external_inv s" and clock: "\<not> is_naive t0" "\<not> is_naive t1"
    and entry: "service_registry_entry (so_service_identity offer) = Inr entry"
    and session: "wc_active_session_id c = Some session_id"
    and prep: "prepare_offer c session_id consent offer entry t0 s = (Inr (Some q), s1)"
    and exec: "execute_capability adapters (so_service_identity offer) ''submit_request''
      (offer_payload c consent offer entry source_value) (dispatch_family incident_type entry) w = (Inr result, w1)"
    and accepted: "cr_status result = ''accepted''"
      "result_payload_get (cr_payload result) ''provider_reference'' = Some reference"
    and unused: "dict_get (st_external_attempts s) (attempt_identity (offer_task_id c offer) 1) = None"
  shows "\<exists>s2. dispatch_generic_offer adapters c consent offer source_value incident_type t0 t1 t2 s w = (Inr (), s2, w1)
    \<and> dict_get (st_external_tasks s2) (offer_task_id c offer)
        = Some (accepted_task c offer (item_str reference) t0 t1)
    \<and> dict_get (st_external_requests s2) (offer_request_id c offer) = Some (q\<lparr>xq_sent_at := Some (later_than t1 t0)\<rparr>)
    \<and> attempts_of s2 (offer_task_id c offer) = [first_attempt c offer Task_accepted None Submitted
        (Some (''operation:'' @ offer_operation_id c offer)) t2]"
proof -
  let ?p = "q\<lparr>xq_sent_at := Some (later_than t1 t0)\<rparr>" and ?evidence = "Some (''operation:'' @ offer_operation_id c offer)"
  let ?a = "first_attempt c offer Task_accepted None Submitted ?evidence t2"
  let ?t = "accepted_task c offer (item_str reference) t0 t1"
  have ready: "ready s1 c offer q t0" by (rule prepared_ready [OF inv prep])
  have fresh: "dict_get (st_external_attempts s1) (attempt_identity (offer_task_id c offer) 1) = None"
    using unused prepare_attempts [OF prep] by simp
  have q: "xq_operation_id q = Some (offer_operation_id c offer)" "xq_sent_at q = None"
    "attempts_of s1 (offer_task_id c offer) = []" "xq_request_id q = offer_request_id c offer"
    using ready by (simp_all add: ready_def)
  obtain e where send: "save_external_task_request s1 ?p (wc_customer_id c) = Inr (commit_realtime e (put_external_request ?p s1))"
    by (rule send_ready [OF ready])
  let ?s = "commit_realtime e (put_external_request ?p s1)"
  have kept: "grounds ?s = grounds s1" "st_external_tasks ?s = st_external_tasks s1"
    "st_external_attempts ?s = st_external_attempts s1"
    by (simp_all add: external_writes grounds_def)
  have valid: "validate_attempt_state ?a = Inr ()"
    by (rule first_attempt_valid [OF ready]) (simp_all add: bounded_text_def offer_identity_length)
  have same: "same_offer_task (offer_task c offer t0) ?t"
    using later_than_later [OF clock(2,1)]
    by (simp add: accepted_task_def same_offer_task_def changes_identity_def)
  obtain e' where settle: "save_external_task_settlement ?s ?t ?a (wc_customer_id c)
      = Inr (put_external_attempt ?a (commit_realtime e' (put_external_task ?t ?s)))"
    by (rule settle_ready [OF ready kept request_of_sent [OF ready] _ same fresh]) (use q in simp_all)
  let ?s2 = "put_external_attempt ?a (commit_realtime e' (put_external_task ?t ?s))"
  have "build_external_attempt (offer_task c offer t0) q (wc_revision c) Task_accepted None Submitted ?evidence t2 ?s
      = (Inr ?a, ?s)"
    using build_attempt [of ?s c offer q] q attempts_of_kept [OF kept(3)] valid by (simp add: Let_def)
  then have "settle_offer c offer q (Inr result) t0 t1 t2 s1 = (Inr (), ?s2)"
    using accepted send settle
    by (simp add: settle_offer_def settle_accepted_def Let_def and_then_def save_by_def check_that_def
        accepted_task_def)
  then have run: "dispatch_generic_offer adapters c consent offer source_value incident_type t0 t1 t2 s w = (Inr (), ?s2, w1)"
    by (rule dispatch_settles [OF entry session prep exec])
  have "attempts_of ?s2 (offer_task_id c offer) = [?a]"
    using q(3) fresh by (simp add: attempts_of_def external_writes first_attempt_def dict_put_fresh)
  then show ?thesis
    using run q(4) by (auto simp: external_writes accepted_task_def)
qed

definition unavailable_task :: "working_claim \<Rightarrow> service_offer \<Rightarrow> datetime \<Rightarrow> datetime \<Rightarrow> external_task" where
  "unavailable_task c offer t0 t1 = (offer_task c offer t0)\<lparr>xt_status := Task_retryable_failure,
     xt_failure_code := Some Failure_unavailable, xt_updated_at := later_than t1 t0\<rparr>"

theorem dispatch_raised:
  assumes inv: "external_inv s" and clock: "\<not> is_naive t0" "\<not> is_naive t1"
    and entry: "service_registry_entry (so_service_identity offer) = Inr entry"
    and session: "wc_active_session_id c = Some session_id"
    and prep: "prepare_offer c session_id consent offer entry t0 s = (Inr (Some q), s1)"
    and exec: "execute_capability adapters (so_service_identity offer) ''submit_request''
      (offer_payload c consent offer entry source_value) (dispatch_family incident_type entry) w = (Inl err, w1)"
    and unused: "dict_get (st_external_attempts s) (attempt_identity (offer_task_id c offer) 1) = None"
  shows "\<exists>s2. dispatch_generic_offer adapters c consent offer source_value incident_type t0 t1 t2 s w = (Inr (), s2, w1)
    \<and> dict_get (st_external_tasks s2) (offer_task_id c offer) = Some (unavailable_task c offer t0 t1)
    \<and> dict_get (st_external_requests s2) (offer_request_id c offer) = Some (q\<lparr>xq_dispatch_reserved_at := None\<rparr>)
    \<and> assert_retry_is_permitted (q\<lparr>xq_dispatch_reserved_at := None\<rparr>) (attempts_of s2 (offer_task_id c offer)) = Inr ()
    \<and> validate_request_state (q\<lparr>xq_dispatch_reserved_at := None\<rparr>) = Inl OperationBeforeReservation"
proof -
  let ?a = "first_attempt c offer Task_retryable_failure (Some Failure_unavailable) Not_submitted None t2"
  let ?t = "unavailable_task c offer t0 t1" and ?p = "q\<lparr>xq_dispatch_reserved_at := None\<rparr>"
  have ready: "ready s1 c offer q t0" by (rule prepared_ready [OF inv prep])
  have fresh: "dict_get (st_external_attempts s1) (attempt_identity (offer_task_id c offer) 1) = None"
    using unused prepare_attempts [OF prep] by simp
  have q: "xq_operation_id q = Some (offer_operation_id c offer)" "xq_sent_at q = None"
    "attempts_of s1 (offer_task_id c offer) = []" "xq_request_id q = offer_request_id c offer"
    "xq_task_id q = offer_task_id c offer" "xq_claim_id q = wc_claim_id c"
    "dict_get (st_external_requests s1) (offer_request_id c offer) = Some q"
    using ready by (simp_all add: ready_def)
  obtain stored where claim: "get_claim s1 (wc_claim_id c) (wc_customer_id c) = Some stored"
    by (rule readyE [OF ready])
  have reserved_q: "xq_dispatch_reserved_at q = Some t0" by (simp add: prepared_request(1) [OF prep])
  have code: "failure_status Failure_unavailable Not_submitted = Task_retryable_failure"
    by (simp add: failure_status_iff)
  have valid: "validate_attempt_state ?a = Inr ()"
    by (rule first_attempt_valid [OF ready]) (simp_all add: code)
  have same: "same_offer_task (offer_task c offer t0) ?t"
    using later_than_later [OF clock(2,1)]
    by (simp add: unavailable_task_def same_offer_task_def changes_identity_def)
  obtain e where settle: "save_external_task_settlement s1 ?t ?a (wc_customer_id c)
      = Inr (put_external_attempt ?a (commit_realtime e (put_external_task ?t s1)))"
    by (rule settle_ready [OF ready refl refl refl ready_request_of_task [OF ready] q(1) same fresh])
  let ?s = "put_external_attempt ?a (commit_realtime e (put_external_task ?t s1))"
  have "get_claim ?s (wc_claim_id c) (wc_customer_id c) = Some stored"
    using claim get_claim_grounds [of ?s s1] by simp
  then have "held_request ?s (wc_claim_id c) (offer_request_id c offer) (wc_customer_id c) = Inr q"
    using q by (simp add: held_request_def external_writes)
  then have release: "release_external_dispatch ?s (wc_claim_id c) (offer_request_id c offer) (wc_customer_id c)
      = Inr (write_request (offer_request_id c offer) ?p ?s)"
    using reserved_q by (simp add: release_external_dispatch_def)
  let ?s2 = "write_request (offer_request_id c offer) ?p ?s"
  have "build_external_attempt (offer_task c offer t0) q (wc_revision c) Task_retryable_failure
      (Some Failure_unavailable) Not_submitted None t2 s1 = (Inr ?a, s1)"
    using build_attempt [of s1 c offer q] q valid by (simp add: Let_def)
  then have "settle_offer c offer q (Inl err) t0 t1 t2 s1 = (Inr (), ?s2)"
    using settle release
    by (simp add: settle_offer_def settle_raised_def Let_def and_then_def save_by_def unavailable_task_def)
  then have run: "dispatch_generic_offer adapters c consent offer source_value incident_type t0 t1 t2 s w = (Inr (), ?s2, w1)"
    by (rule dispatch_settles [OF entry session prep exec])
  have attempts: "attempts_of ?s2 (offer_task_id c offer) = [?a]"
    using q(3) fresh by (simp add: attempts_of_def external_writes first_attempt_def dict_put_fresh)
  have "assert_retry_is_permitted ?p [?a] = Inr ()"
    using q valid by (subst retry_permitted_iff) (simp_all add: attempt_of_def first_attempt_def)
  moreover have "validate_request_state ?p = Inl OperationBeforeReservation"
  proof -
    obtain sa sb sc where "validate_request_state (offer_request c consent offer entry t0) = Inr ()"
      by (rule prepare_offer_Inr [OF prep])
    then show ?thesis
      by (auto simp: prepared_request(1) [OF prep] validate_request_state_def request_fields_ok_def
          validate_separate_authorities_def bounded_text_def offer_identity_length split: if_splits)
  qed
  ultimately show ?thesis
    using run attempts by (auto simp: external_writes unavailable_task_def)
qed

text \<open>
  A refusal that carries a blank delivery evidence cannot be settled: the attempt it builds is
  refused, and the task stays prepared with its reservation held.
\<close>

theorem dispatch_blank_evidence:
  assumes inv: "external_inv s"
    and entry: "service_registry_entry (so_service_identity offer) = Inr entry"
    and session: "wc_active_session_id c = Some session_id"
    and prep: "prepare_offer c session_id consent offer entry t0 s = (Inr (Some q), s1)"
    and exec: "execute_capability adapters (so_service_identity offer) ''submit_request''
      (offer_payload c consent offer entry source_value) (dispatch_family incident_type entry) w = (Inr result, w1)"
    and refused: "cr_status result \<noteq> ''accepted''"
      "result_payload_get (cr_payload result) ''delivery_evidence'' = Some (Item_text evidence)" "blank evidence"
  shows "\<exists>e. dispatch_generic_offer adapters c consent offer source_value incident_type t0 t1 t2 s w
      = (Inl (Dispatch_invalid e), s1, w1)
    \<and> dict_get (st_external_tasks s1) (offer_task_id c offer) = Some (offer_task c offer t0)
    \<and> reserved s1 (offer_request_id c offer)"
proof -
  have ready: "ready s1 c offer q t0" by (rule prepared_ready [OF inv prep])
  have q: "xq_operation_id q = Some (offer_operation_id c offer)" "xq_sent_at q = None"
    "attempts_of s1 (offer_task_id c offer) = []"
    "dict_get (st_external_tasks s1) (offer_task_id c offer) = Some (offer_task c offer t0)"
    "dict_get (st_external_requests s1) (offer_request_id c offer) = Some q"
    using ready by (simp_all add: ready_def)
  have "reserved s1 (offer_request_id c offer)"
    using q(5) prepared_request(1) [OF prep] by (simp add: reserved_def)
  moreover obtain e where "settle_offer c offer q (Inr result) t0 t1 t2 s1 = (Inl (Dispatch_invalid e), s1)"
  proof -
    let ?code = "refused_failure_code result Not_submitted"
    let ?a = "first_attempt c offer (failure_status ?code Not_submitted) (Some ?code) Not_submitted (Some evidence) t2"
    have "validate_attempt_state ?a \<noteq> Inr ()"
      by (simp add: validate_attempt_state_iff first_attempt_def)
    then obtain e where invalid: "validate_attempt_state ?a = Inl e"
      by (cases "validate_attempt_state ?a") auto
    obtain k where k: "classify_external_task_failure ?code Not_submitted = Inr k"
      "fc_operation_status k = failure_status ?code Not_submitted"
      by (simp add: classify_external_task_failure_eq failure_status_def)
    have "build_external_attempt (offer_task c offer t0) q (wc_revision c) (failure_status ?code Not_submitted)
        (Some ?code) Not_submitted (Some evidence) t2 s1 = (Inl (Dispatch_invalid e), s1)"
      using build_attempt [of s1 c offer q] q invalid by (simp add: Let_def)
    then show thesis
      using that refused k
      by (simp add: settle_offer_def settle_refused_def Let_def and_then_def check_that_def
          refused_delivery_def py_strip_Nil_iff)
  qed
  ultimately show ?thesis
    using dispatch_settles [OF entry session prep exec] q(4) by blast
qed

text \<open>
  An acceptance without a provider reference marks the request as sent and raises: the task stays
  prepared without an attempt, and nothing reports that it needs reconciliation.
\<close>

theorem dispatch_without_reference:
  assumes inv: "external_inv s"
    and entry: "service_registry_entry (so_service_identity offer) = Inr entry"
    and session: "wc_active_session_id c = Some session_id"
    and prep: "prepare_offer c session_id consent offer entry t0 s = (Inr (Some q), s1)"
    and exec: "execute_capability adapters (so_service_identity offer) ''submit_request''
      (offer_payload c consent offer entry source_value) (dispatch_family incident_type entry) w = (Inr result, w1)"
    and accepted: "cr_status result = ''accepted''" "result_payload_get (cr_payload result) ''provider_reference'' = None"
  shows "\<exists>s2 p. dispatch_generic_offer adapters c consent offer source_value incident_type t0 t1 t2 s w
      = (Inl Provider_reference_missing, s2, w1)
    \<and> dict_get (st_external_requests s2) (offer_request_id c offer) = Some p \<and> xq_sent_at p \<noteq> None
    \<and> dict_get (st_external_tasks s2) (offer_task_id c offer) = Some (offer_task c offer t0)
    \<and> attempts_of s2 (offer_task_id c offer) = []
    \<and> external_task_requires_reconciliation (offer_task c offer t0) (Some p) = Inr False"
proof -
  let ?p = "q\<lparr>xq_sent_at := Some (later_than t1 t0)\<rparr>"
  have ready: "ready s1 c offer q t0" by (rule prepared_ready [OF inv prep])
  obtain e where send: "save_external_task_request s1 ?p (wc_customer_id c) = Inr (commit_realtime e (put_external_request ?p s1))"
    by (rule send_ready [OF ready])
  let ?s = "commit_realtime e (put_external_request ?p s1)"
  have "settle_offer c offer q (Inr result) t0 t1 t2 s1 = (Inl Provider_reference_missing, ?s)"
    using accepted send
    by (simp add: settle_offer_def settle_accepted_def Let_def and_then_def save_by_def check_that_def)
  then have "dispatch_generic_offer adapters c consent offer source_value incident_type t0 t1 t2 s w
      = (Inl Provider_reference_missing, ?s, w1)"
    by (rule dispatch_settles [OF entry session prep exec])
  moreover have "xq_request_id q = offer_request_id c offer" "attempts_of s1 (offer_task_id c offer) = []"
    "dict_get (st_external_tasks s1) (offer_task_id c offer) = Some (offer_task c offer t0)"
    using ready by (simp_all add: ready_def)
  ultimately show ?thesis
    by (intro exI [of _ ?s] exI [of _ ?p])
      (simp add: external_writes attempts_of_def external_task_requires_reconciliation_def)
qed

end
