(* ===== verification/External_Examples.thy ===== *)
theory External_Examples
  imports Dispatch_Liveness
begin

text \<open>
  Concrete records on which the witnesses of the external-service properties evaluate: a Claim
  whose claimant consented to a vehicle recovery request, the offer for it, adapters that count
  their calls, and tasks, attempts, results and evidence of that Claim.
\<close>

section \<open>A consented offer\<close>

definition recovery_fingerprint :: string where
  "recovery_fingerprint = sha256_hexdigest ''scope''"

definition recovery_offer_id :: string where
  "recovery_offer_id = ''offer_'' @ take 24 (sha256_hexdigest recovery_fingerprint)"

definition offer_consent :: external_consent where
  "offer_consent = \<lparr>ec_consent_ref = ''cns_1'', ec_service_identity = ''vehicle_recovery_request'',
     ec_requested_action = svc_requested_action recovery_entry,
     ec_permitted_fields = svc_disclosure_fields recovery_entry,
     ec_registry_version = REGISTRY_VERSION, ec_offer_ref = Some recovery_offer_id,
     ec_disclosure_manifest = [], ec_disclosure_fingerprint = None, ec_evidence_ids = [],
     ec_status = Consent_granted, ec_granted_by = \<lparr>actor_type = Actor_claimant, actor_id = ''cus_1''\<rparr>,
     ec_granted_at = Aware 0, ec_withdrawn_at = None\<rparr>"

definition offering_step :: customer_next_step where
  "offering_step = \<lparr>ns_status = ''wait'', ns_summary = ''Northwind is arranging recovery.'',
     ns_responsible_party = Party_claimant, ns_expected_by = None, ns_can_resume = True,
     ns_required_items = []\<rparr>"

definition offering_claim :: working_claim where
  "offering_claim = \<lparr>wc_claim_id = ''clm_1'', wc_customer_id = ''cus_1'', wc_revision = 4,
     wc_active_session_id = Some ''ses_1'', wc_claim_decision_id = None,
     wc_workflow_state = Workflow_collecting, wc_content = ''intake'', wc_external_claim = None,
     wc_external_service_consents = [offer_consent], wc_terminal_disposition = None,
     wc_customer_next_step = offering_step, wc_created_at = Aware 0, wc_updated_at = Aware 5\<rparr>"

definition offering_session :: session where
  "offering_session = \<lparr>se_session_id = ''ses_1'', se_claim_id = ''clm_1'', se_customer_id = ''cus_1'',
     se_status = Session_active, se_recovery_context = None, se_context_revision = 4,
     se_post_session_follow_up_required = False, se_content = ''chat'', se_started_at = Aware 0,
     se_last_active_at = Aware 5, se_closed_at = None\<rparr>"

definition offering_store :: store where
  "offering_store = empty_store\<lparr>st_claims := [(''clm_1'', offering_claim)],
     st_sessions := [(''ses_1'', offering_session)]\<rparr>"

definition recovery_offer :: service_offer where
  "recovery_offer = \<lparr>so_offer_id = recovery_offer_id, so_agent_message_id = ''msg_2'',
     so_trigger_message_id = ''msg_1'', so_service_identity = ''vehicle_recovery_request'',
     so_registry_version = REGISTRY_VERSION, so_requested_action = svc_requested_action recovery_entry,
     so_disclosure_fields = svc_disclosure_fields recovery_entry, so_evidence_ids = [],
     so_disclosure_manifest = map claimant_disclosure_label (svc_disclosure_fields recovery_entry),
     so_disclosure_fingerprint = recovery_fingerprint\<rparr>"

lemmas offering_defs = offer_consent_def offering_claim_def offering_session_def offering_store_def
  recovery_offer_def

lemma offering_entry: "service_registry_entry ''vehicle_recovery_request'' = Inr recovery_entry"
  by (simp add: service_registry_entry_def find_service_def registry_entries_def service_entry_defs)

lemma offering_inv: "external_inv offering_store"
  using external_inv_cong [of offering_store empty_store] external_inv_empty
  by (simp add: external_tables_def offering_store_def)

lemma offering_dispatchable:
  "dispatchable offering_store offering_claim ''ses_1'' offer_consent recovery_offer recovery_entry (Aware 10)"
proof -
  let ?t = "offer_task offering_claim recovery_offer (Aware 10)"
  let ?q = "offer_request offering_claim offer_consent recovery_offer recovery_entry (Aware 10)"
  have claim: "get_claim offering_store ''clm_1'' ''cus_1'' = Some offering_claim"
    by (simp add: get_claim_def claimant_resource_access_open_def claim_access_closed_def offering_defs
        empty_store_def)
  have session: "get_session offering_store ''clm_1'' ''ses_1'' ''cus_1'' = Some offering_session"
    by (simp add: get_session_def claimant_resource_access_open_def claim_access_closed_def offering_defs
        empty_store_def)
  have decision: "decision_fields_ok (offer_decision offering_claim ''ses_1'' recovery_offer recovery_entry)"
    by (simp add: decision_fields_ok_def offer_decision_def offering_claim_def service_entry_defs
        bounded_text_def py_lower_def)
  have task: "validate_task_state ?t = Inr ()"
    using offer_identity_length [of offering_claim recovery_offer]
    by (simp add: validate_task_state_iff task_fields_ok_def offer_task_def bounded_text_def
        recovery_offer_def service_entry_defs offering_claim_def)
  have request: "validate_request_state ?q = Inr ()"
    using offer_identity_length [of offering_claim recovery_offer]
    by (simp add: validate_request_state_def request_fields_ok_def offer_request_def bounded_text_def
        validate_separate_authorities_def optional_before_def offering_defs service_entry_defs
        blank_def is_space_def)
  have consent: "find_consent offering_claim ''cns_1'' = Some offer_consent"
    by (simp add: find_consent_def offering_claim_def offer_consent_def)
  have disclosed: "assert_disclosure_within_consent ?q offer_consent ''cus_1'' = Inr ()"
    by (simp add: assert_disclosure_within_consent_def offer_request_def offering_claim_def
        offer_consent_def recovery_offer_def)
  show ?thesis
    unfolding dispatchable_def
    using claim session decision task request consent disclosed offering_entry
    by (simp add: offering_claim_def offer_consent_def recovery_offer_def offering_store_def
        empty_store_def service_entry_defs)
qed

lemma offering_prepared:
  obtains q s1 where "prepare_offer offering_claim ''ses_1'' offer_consent recovery_offer recovery_entry
      (Aware 10) offering_store = (Inr (Some q), s1)"
  by (rule dispatchable_prepared [OF offering_inv offering_dispatchable])

section \<open>Adapters that count their calls\<close>

definition counting_adapter :: "nat adapter" where
  "counting_adapter entry payload n = (fst (controlled_task_adapter entry payload n), n + 1)"

definition failing_adapter :: "nat adapter" where
  "failing_adapter entry payload n = (Inl Adapter_raised, n + 1)"

definition form_value :: "string \<Rightarrow> item" where
  "form_value f = Item_text (''confirmed '' @ f)"

abbreviation offering_payload :: item_dict where
  "offering_payload \<equiv> offer_payload offering_claim offer_consent recovery_offer recovery_entry form_value"

lemma offering_payload_valid: "validate_payload recovery_entry ''submit_request'' offering_payload = None"
  by (simp add: validate_payload_def offer_payload_def form_value_def service_entry_defs CONTROL_FIELDS_def
      REQUEST_OPERATIONS_def Let_def)

lemma offering_family: "in_family (dispatch_family None recovery_entry) recovery_entry"
  by (simp add: in_family_def dispatch_family_def service_entry_defs py_lower_def py_strip_def is_space_def
      lower_char_def)

text \<open>The offer is the one the runtime makes for the service.\<close>

lemma recovery_offer_built:
  "build_offer_metadata (\<lambda>scope. ''scope'') ''clm_1'' None ''msg_2'' ''msg_1'' ''vehicle_recovery_request''
     (svc_requested_action recovery_entry) = Inr recovery_offer"
proof -
  have identity: "svc_service_identity recovery_entry = ''vehicle_recovery_request''" by (simp add: service_entry_defs)
  have "offer_fields_ok recovery_offer"
    by (simp add: offer_fields_ok_def recovery_offer_def bounded_text_def recovery_offer_id_def recovery_fingerprint_def
        length_hexdigest service_entry_defs REGISTRY_VERSION_def)
  then show ?thesis
    using offering_family
    by (simp add: build_offer_metadata_def offering_entry identity discover_capability_def new_capability_result_def
        recovery_offer_def recovery_offer_id_def recovery_fingerprint_def Let_def)
qed

lemma counting_answer:
  "\<exists>answer reference. counting_adapter recovery_entry offering_payload n = (Inr answer, n + 1)
     \<and> text_or answer ''status'' ''unknown_outcome'' = ''accepted''
     \<and> dict_get answer ''provider_reference'' = Some reference"
  by (simp add: counting_adapter_def controlled_task_adapter_def offer_payload_def service_entry_defs
      text_or_def Let_def)

section \<open>A task with its evidence and result\<close>

definition prepared_task :: external_task where
  "prepared_task = \<lparr>xt_task_id = ''tsk_1'', xt_claim_id = ''clm_1'',
     xt_service_identity = ''vehicle_recovery_request'', xt_requested_action = ''request_vehicle_recovery'',
     xt_integration_source = Integration_fixture, xt_status = Task_prepared, xt_delivery = Not_submitted,
     xt_delivery_evidence = None, xt_failure_code = None, xt_provider_reference = None,
     xt_created_at = Aware 10, xt_updated_at = Aware 10\<rparr>"

definition unknown_task :: external_task where
  "unknown_task = prepared_task\<lparr>xt_status := Task_unknown_outcome, xt_delivery := Submitted,
     xt_delivery_evidence := Some ''operation:op_1'', xt_failure_code := Some Failure_timeout,
     xt_updated_at := Aware 20\<rparr>"

definition reconciled_task :: external_task where
  "reconciled_task = unknown_task\<lparr>xt_status := Task_accepted, xt_failure_code := None,
     xt_provider_reference := Some ''P3-RECOVERY-1'', xt_updated_at := Aware 30\<rparr>"

lemmas sample_task_defs = prepared_task_def unknown_task_def reconciled_task_def

lemma sample_moves:
  "assert_task_transition_is_permitted prepared_task unknown_task = Inr ()"
  "assert_task_transition_is_permitted unknown_task reconciled_task = Inr ()"
  by (simp_all add: task_move_def [symmetric] task_move_iff sample_task_defs same_task_def persisted_move_def
      OPERATION_STATUS_IDS_def SETTLED_TASK_STATES_def)

definition photo :: evidence_record where
  "photo = \<lparr>ed_evidence_id = ''evd_1'', ed_claim_id = ''clm_1'', ed_kind = ''incident_photo'',
     ed_status = Evidence_received, ed_file_status = File_ready, ed_original_filename = Some ''a.jpg'',
     ed_media_type = Some ''image/jpeg'', ed_size_bytes = Some 10, ed_source = Origin_external_system,
     ed_history_state = History_available, ed_history_removed_at = None, ed_references = [],
     ed_material_version = 1, ed_material_history = [], ed_related_fields = [], ed_needed_for = [],
     ed_provenance = [], ed_claimant_note = None, ed_wait_type = None, ed_responsible_party = None,
     ed_expected_by = None, ed_expected_timing = None, ed_context_summary = None,
     ed_created_at = Aware 1, ed_updated_at = Aware 2\<rparr>"

definition first_photo :: material_version where
  "first_photo = \<lparr>mv_version = 1, mv_status = Evidence_received, mv_file_status = File_ready,
     mv_original_filename = Some ''a.jpg'', mv_media_type = Some ''image/jpeg'', mv_size_bytes = Some 10,
     mv_references = [], mv_provenance = [], mv_proposed_fields = [], mv_wait_type = None,
     mv_responsible_party = None, mv_expected_by = None, mv_expected_timing = None,
     mv_context_summary = None, mv_archived_at = Aware 3, mv_reason = ''claimant_replacement''\<rparr>"

definition second_photo :: evidence_record where
  "second_photo = photo\<lparr>ed_original_filename := Some ''b.jpg'', ed_size_bytes := Some 12,
     ed_material_version := 2, ed_material_history := [first_photo], ed_updated_at := Aware 4\<rparr>"

lemmas photo_defs = photo_def first_photo_def second_photo_def

lemma photo_replaced: "evidence_write photo second_photo"
  by (simp add: evidence_write_def validity photo_defs assert_material_history_is_append_only_def
      same_generation_def preserves_generation_def same_items_def version_numbers_def before_guard_def)

definition photo_link :: external_link where
  "photo_link = \<lparr>xl_task_id = ''tsk_1'', xl_evidence_id = ''evd_1'', xl_claim_id = ''clm_1'',
     xl_linked_at = Aware 31\<rparr>"

definition photo_result :: external_result where
  "photo_result = \<lparr>xr_result_id = ''res_1'', xr_task_id = ''tsk_1'', xr_claim_id = ''clm_1'',
     xr_source = \<lparr>rs_system = ''recovery'', rs_reference = ''P3-RECOVERY-1'', rs_retrieved_at = Aware 32\<rparr>,
     xr_summary = ''Vehicle recovered.'', xr_verification = Result_unverified, xr_verified_at = None,
     xr_verified_against_revision = None, xr_evidence_ids = [''evd_1''], xr_received_at = Aware 32\<rparr>"

lemma photo_verified:
  "\<exists>r. verify_external_task_result photo_result reconciled_task [photo_link] offering_claim [photo] (Aware 40) = Inr r"
  by (simp add: verify_external_task_result_def photo_result_def photo_link_def photo_def sample_task_defs
      assert_result_matches_task_def RESULT_BEARING_TASK_STATES_def assert_result_evidence_is_linked_def
      result_link_guards_def assert_evidence_belongs_to_snapshot_def snapshot_guards_def before_guard_def
      latest_state_read_def decide_result_verification_def names_conflicting_material_def is_in_conflict_def
      unresolved_conflicts_def validate_result_state_def result_fields_ok_def bounded_text_def blank_def
      is_space_def optional_before_def offering_claim_def Let_def)

definition refused_attempt :: external_attempt where
  "refused_attempt = \<lparr>xa_attempt_id = ''att_1'', xa_task_id = ''tsk_1'', xa_claim_id = ''clm_1'',
     xa_operation_id = ''op_1'', xa_attempt_number = 1, xa_claim_revision = 4, xa_started_at = Aware 15,
     xa_outcome = Task_retryable_failure, xa_failure_code = Some Failure_unavailable,
     xa_delivery = Not_submitted, xa_delivery_evidence = None\<rparr>"

definition reserved_example :: external_request where
  "reserved_example = \<lparr>xq_request_id = ''erq_1'', xq_task_id = ''tsk_1'', xq_claim_id = ''clm_1'',
     xq_service_identity = ''vehicle_recovery_request'', xq_requested_action = ''request_vehicle_recovery'',
     xq_purpose = ''Arrange recovery.'', xq_disclosed_fields = [''incident.location''],
     xq_authorisation = \<lparr>az_northwind_authority_ref = ''dec_1'', az_claimant_consent_ref = ''cns_1'',
       az_authorised_revision = 4\<rparr>,
     xq_prepared_at = Aware 10, xq_sent_at = None, xq_operation_id = Some ''op_1'',
     xq_dispatch_reserved_at = Some (Aware 12)\<rparr>"

definition requested_store :: store where
  "requested_store = offering_store\<lparr>st_external_tasks := [(''tsk_1'', prepared_task)],
     st_external_requests := [(''erq_1'', reserved_example
       \<lparr>xq_operation_id := None, xq_dispatch_reserved_at := None\<rparr>)]\<rparr>"

lemma refused_attempt_valid: "validate_attempt_state refused_attempt = Inr ()"
  by (simp add: validate_attempt_state_iff refused_attempt_def attempt_fields_ok_def bounded_text_def
      failure_status_def failure_handling_def plain_classification_def REVIEW_REQUIRED_CODES_def
      UNKNOWN_AFTER_SUBMISSION_CODES_def)

lemma requested_reserve:
  "\<exists>s1. reserve_external_dispatch requested_store ''clm_1'' ''erq_1'' ''cus_1'' (Aware 12) ''op_1''
     = Inr (Some reserved_example, s1)"
  by (simp add: reserve_external_dispatch_def held_request_def get_claim_def
      claimant_resource_access_open_def claim_access_closed_def requested_store_def offering_defs
      reserved_example_def empty_store_def Let_def)

section \<open>The example dispatch calls its provider\<close>

lemma offering_offer:
  "service_registry_entry (so_service_identity recovery_offer) = Inr recovery_entry"
  "so_disclosure_fields recovery_offer = svc_disclosure_fields recovery_entry"
  by (simp_all add: recovery_offer_def offering_entry)

lemma offering_called:
  assumes "prepare_offer offering_claim ''ses_1'' offer_consent recovery_offer recovery_entry (Aware 10)
      offering_store = (Inr (Some q), s1)"
  shows "\<exists>r s'. dispatch_generic_offer [(''vehicle_recovery_request'', failing_adapter)] offering_claim offer_consent
      recovery_offer form_value None (Aware 10) (Aware 11) (Aware 12) offering_store 0 = (r, s', 1)"
proof -
  have exec: "execute_capability [(''vehicle_recovery_request'', failing_adapter)] (so_service_identity recovery_offer)
      ''submit_request'' offering_payload (dispatch_family None recovery_entry) 0 = (Inl Adapter_raised, 1)"
    using execute_submits [OF offering_offer(1) _ offering_family offering_payload_valid,
        of "[(''vehicle_recovery_request'', failing_adapter)]" failing_adapter 0]
    by (simp add: recovery_offer_def service_entry_defs call_adapter_def failing_adapter_def)
  obtain r s' where settle: "settle_offer offering_claim recovery_offer q (Inl Adapter_raised)
      (Aware 10) (Aware 11) (Aware 12) s1 = (r, s')"
    by (cases "settle_offer offering_claim recovery_offer q (Inl Adapter_raised) (Aware 10) (Aware 11) (Aware 12) s1")
  have "wc_active_session_id offering_claim = Some ''ses_1''" by (simp add: offering_claim_def)
  then show ?thesis using dispatch_settles [OF offering_offer(1) _ assms exec settle] by blast
qed

section \<open>Stores with a task\<close>

lemma offering_get_claim: "get_claim offering_store ''clm_1'' ''cus_1'' = Some offering_claim"
  "get_claim requested_store ''clm_1'' ''cus_1'' = Some offering_claim"
  by (simp_all add: get_claim_def claimant_resource_access_open_def claim_access_closed_def offering_defs
      requested_store_def empty_store_def)

lemma prepared_task_compatible: "assert_external_task_registry_compatible prepared_task = Inr ()"
  by (simp add: registry_compatible_iff prepared_task_def find_service_def registry_entries_def service_entry_defs)

lemma offering_saved:
  "dict_get (st_external_tasks (run external_exec offering_store
     [Save_task prepared_task ''cus_1'', Save_task prepared_task ''cus_2''])) ''tsk_1'' = Some prepared_task"
proof -
  obtain e where saved: "save_external_task offering_store prepared_task ''cus_1''
      = Inr (commit_realtime e (put_external_task prepared_task offering_store))"
    using offering_get_claim(1) prepared_task_compatible
    by (simp add: save_external_task_def task_advance_guards_def prepare_realtime_mutation_def
        prepared_task_def offering_store_def empty_store_def offering_claim_def)
  let ?s = "commit_realtime e (put_external_task prepared_task offering_store)"
  have "get_claim ?s ''clm_1'' ''cus_2'' = get_claim offering_store ''clm_1'' ''cus_2''"
    using get_claim_grounds [of ?s offering_store] by simp
  also have "\<dots> = None"
    by (simp add: get_claim_def claimant_resource_access_open_def offering_defs)
  finally have "save_external_task ?s prepared_task ''cus_2'' = Inl (Missing ''clm_1'')"
    by (simp add: save_external_task_def prepared_task_def)
  then show ?thesis
    using saved by (simp add: commit_def external_writes) (simp add: prepared_task_def)
qed

lemma requested_inv: "external_inv requested_store"
proof -
  have keyed: "tables_keyed requested_store"
    by (simp add: tables_keyed_def requested_store_def offering_store_def empty_store_def keyed_def
        unique_keys_def prepared_task_def reserved_example_def)
  have tasks: "tasks_registered requested_store"
    using prepared_task_compatible by (simp add: tasks_registered_def requested_store_def)
  have requests: "requests_match requested_store" "one_request requested_store"
    by (simp_all add: requests_match_def one_request_def requested_store_def reserved_example_def
        prepared_task_def assert_request_matches_task_def)
  show ?thesis
    using keyed tasks requests
    by (simp add: external_inv_def attempts_ordered_def attempts_bound_def one_result_def results_linked_def
        attempts_of_def requested_store_def offering_store_def empty_store_def)
qed

lemma requested_again:
  assumes "reserve_external_dispatch requested_store ''clm_1'' ''erq_1'' ''cus_1'' (Aware 12) ''op_1''
    = Inr (Some reserved_example, s1)"
  shows "\<exists>x s2. reserve_external_dispatch s1 ''clm_1'' ''erq_1'' ''cus_1'' (Aware 13) ''op_2'' = Inr (x, s2)"
proof -
  have "dict_get (st_external_requests s1) ''erq_1'' = Some reserved_example"
    using assms by (auto simp: reserve_Inr write_request_def split: if_splits)
  moreover have "get_claim s1 ''clm_1'' ''cus_1'' = Some offering_claim"
    using get_claim_grounds [OF grounds_reserve [OF assms]] offering_get_claim(2) by simp
  ultimately show ?thesis
    by (simp add: reserve_external_dispatch_def held_request_def reserved_example_def Let_def)
qed

lemma requested_admissible:
  "admissible external_allowed external_exec requested_store
     [Reserve ''clm_1'' ''erq_1'' ''cus_1'' (Aware 12) ''op_1'', Release ''clm_1'' ''erq_1'' ''cus_1'']"
  by (simp add: external_allowed_def requested_store_def)

lemma projected_example:
  "\<exists>p. build_lifecycle_projection ''vehicle_recovery_request'' ''unknown_outcome'' None None None None None = Inr p"
proof -
  have status: "lifecycle_definition ''unknown_outcome'' = Inr (lifecycle_entry Lc_unknown_outcome)"
    using lifecycle_definition_value [of Lc_unknown_outcome] by simp
  show ?thesis
    by (simp add: build_lifecycle_projection_def offering_entry project_operation_status_def status)
      (simp add: service_entry_defs default_projectable_def projection_metadata_def
        projection_metadata_of.simps result_guards_def effective_projection_def lifecycle_entry_def)
qed

definition unknown_store :: store where
  "unknown_store = offering_store\<lparr>st_external_tasks := [(''tsk_1'', unknown_task)]\<rparr>"

lemma unknown_get_claim: "get_claim unknown_store ''clm_1'' ''cus_1'' = Some offering_claim"
  by (simp add: get_claim_def claimant_resource_access_open_def claim_access_closed_def offering_defs
      unknown_store_def empty_store_def)

definition rewound_task :: external_task where
  "rewound_task = unknown_task\<lparr>xt_status := Task_retryable_failure, xt_delivery := Not_submitted,
     xt_delivery_evidence := None, xt_updated_at := Aware 30\<rparr>"

lemma rewound_compatible: "assert_external_task_registry_compatible rewound_task = Inr ()"
  by (simp add: registry_compatible_iff rewound_task_def sample_task_defs find_service_def
      registry_entries_def service_entry_defs)

end
