(* ===== verification/External_Properties.thy ===== *)
theory External_Properties
  imports External_Examples
begin

text \<open>
  The properties of the external services: what a provider is asked and how often, what a dispatch
  ends in, what the repository keeps of tasks, requests, attempts, links and results, and the rules
  of failures, retries, verification, evidence and projections. Each property that has hypotheses
  is followed by a witness on the records of \<open>External_Examples\<close>.
\<close>

section \<open>Dispatch of an offer\<close>

text \<open>
  C3. A provider is called only with authority and consent: when the
  dispatch of an offer the runtime made changes the world of the adapters, the store holds the request of
  the offer under its operation identity, authorised by a decision for the Claim's revision, and the
  stored Claim has a consent of its claimant for that service in force; the service is one registered for
  tasks, and every field of the payload handed over is a control field or one the consent permits.
\<close>

theorem provider_called_with_consent:
  assumes "external_inv s"
    and "build_offer_metadata dump claim_id family agent_message_id trigger_message_id identity action = Inr offer"
    and "dispatch_generic_offer adapters c consent offer source_value incident_type t0 t1 t2 s w = (r, s', w')"
    and "w' \<noteq> w"
  shows "\<exists>entry q stored k. service_registry_entry (so_service_identity offer) = Inr entry
      \<and> dict_get (st_external_requests s') (offer_request_id c offer) = Some q
      \<and> xq_operation_id q = Some (offer_operation_id c offer) \<and> request_authorised s' q
      \<and> dict_get (st_claims s') (wc_claim_id c) = Some stored \<and> wc_customer_id stored = wc_customer_id c
      \<and> find_consent stored (ec_consent_ref consent) = Some k \<and> ec_status k = Consent_granted
      \<and> actor_type (ec_granted_by k) = Actor_claimant \<and> actor_id (ec_granted_by k) = wc_customer_id c
      \<and> ec_service_identity k = so_service_identity offer
      \<and> fst ` set (offer_payload c consent offer entry source_value)
          \<subseteq> set (ec_permitted_fields k) \<union> set CONTROL_FIELDS
      \<and> svc_uses_external_task entry"
proof -
  obtain entry where made: "service_registry_entry (so_service_identity offer) = Inr entry"
    "so_disclosure_fields offer = svc_disclosure_fields entry"
    by (rule build_offer_metadata_Inr [OF assms(2)])
  obtain q e where q: "dict_get (st_external_requests s') (offer_request_id c offer) = Some q"
      "xq_operation_id q = Some (offer_operation_id c offer)" "request_authorised s' q"
    and e: "service_registry_entry (so_service_identity offer) = Inr e"
      "same_request_identity (offer_request c consent offer e t0) q"
      "\<exists>family outcome. execute_capability adapters (so_service_identity offer) ''submit_request''
         (offer_payload c consent offer e source_value) family w = (outcome, w')"
    and k: "\<exists>stored k. dict_get (st_claims s') (wc_claim_id c) = Some stored
       \<and> wc_customer_id stored = wc_customer_id c
       \<and> find_consent stored (ec_consent_ref consent) = Some k
       \<and> assert_disclosure_within_consent q k (wc_customer_id c) = Inr ()"
    by (rule dispatched_request [OF assms(1,3,4)])
  have entry: "e = entry" using e(1) made(1) by simp
  obtain family outcome where "execute_capability adapters (so_service_identity offer) ''submit_request''
         (offer_payload c consent offer e source_value) family w = (outcome, w')"
    using e(3) by blast
  then have uses: "svc_uses_external_task entry"
    using assms(4) by (rule execute_called) (use made(1) in simp)
  have "xq_disclosed_fields q = svc_disclosure_fields entry" "xq_service_identity q = so_service_identity offer"
    using e(2) made(2) by (simp_all add: same_request_identity_def)
  then show ?thesis
    using q k uses made(1) offer_payload_fields [of c consent offer entry source_value]
    by (fastforce simp: assert_disclosure_within_consent_def split: if_splits)
qed

lemma provider_called_with_consent_witness:
  "\<exists>r s' w'. dispatch_generic_offer [(''vehicle_recovery_request'', failing_adapter)] offering_claim offer_consent
      recovery_offer form_value None (Aware 10) (Aware 11) (Aware 12) offering_store 0 = (r, s', w')
    \<and> w' = 1 \<and> (\<exists>q. dict_get (st_external_requests s') (offer_request_id offering_claim recovery_offer) = Some q
         \<and> request_authorised s' q)"
proof -
  obtain q s1 where prep: "prepare_offer offering_claim ''ses_1'' offer_consent recovery_offer recovery_entry
      (Aware 10) offering_store = (Inr (Some q), s1)"
    by (rule offering_prepared)
  obtain r s' where run: "dispatch_generic_offer [(''vehicle_recovery_request'', failing_adapter)] offering_claim offer_consent
      recovery_offer form_value None (Aware 10) (Aware 11) (Aware 12) offering_store 0 = (r, s', 1)"
    using offering_called(1) [OF prep] by blast
  show ?thesis
    using run provider_called_with_consent [OF offering_inv recovery_offer_built run] by auto
qed

text \<open>
  C6. An offer reaches a provider at most once: after a dispatch that called
  an adapter, and any admissible sequence of repository calls, a further dispatch for the same
  Claim and offer, with whatever adapters, consent and clock, calls none.
\<close>

theorem dispatch_at_most_once:
  assumes inv: "external_inv s"
    and first: "dispatch_generic_offer adapters c consent offer source_value incident_type t0 t1 t2 s w
      = (r, s1, w1)" "w1 \<noteq> w"
    and between: "admissible external_allowed external_exec s1 calls"
    and same: "wc_claim_id d = wc_claim_id c" "so_offer_id again = so_offer_id offer"
  shows "snd (snd (dispatch_generic_offer adapters' d consent' again source_value' incident_type' u0 u1 u2
    (run external_exec s1 calls) w2)) = w2"
proof -
  obtain q entry where q: "dict_get (st_external_requests s1) (offer_request_id c offer) = Some q"
    "xq_operation_id q = Some (offer_operation_id c offer)"
    by (rule dispatched_request [OF inv first])
  have "external_inv s1" using dispatch_step [OF inv first(1)] by (simp add: step_ok_def)
  then have "external_grows s1 (run external_exec s1 calls)" by (rule ext.run_grows [OF _ between])
  then obtain p where "dict_get (st_external_requests (run external_exec s1 calls)) (offer_request_id c offer) = Some p"
    "request_kept q p"
    using q(1) unfolding external_grows_def grows_in_def by blast
  moreover have "offer_identity d again = offer_identity c offer" using same by (simp add: offer_identity_def)
  ultimately show ?thesis
    using q(2) dispatch_excluded [of "run external_exec s1 calls" d again p] by (simp add: request_kept_def)
qed


lemma dispatch_at_most_once_witness:
  "\<exists>r s1. dispatch_generic_offer [(''vehicle_recovery_request'', failing_adapter)] offering_claim offer_consent
      recovery_offer form_value None (Aware 10) (Aware 11) (Aware 12) offering_store 0 = (r, s1, 1)
    \<and> snd (snd (dispatch_generic_offer [(''vehicle_recovery_request'', counting_adapter)] offering_claim offer_consent
        recovery_offer form_value None (Aware 20) (Aware 21) (Aware 22)
        (run external_exec s1 [Release ''clm_1'' (offer_request_id offering_claim recovery_offer) ''cus_1'']) 0)) = (0 :: nat)"
proof -
  obtain q s1 where prep: "prepare_offer offering_claim ''ses_1'' offer_consent recovery_offer recovery_entry
      (Aware 10) offering_store = (Inr (Some q), s1)"
    by (rule offering_prepared)
  obtain r s' where run: "dispatch_generic_offer [(''vehicle_recovery_request'', failing_adapter)] offering_claim offer_consent
      recovery_offer form_value None (Aware 10) (Aware 11) (Aware 12) offering_store 0 = (r, s', 1)"
    using offering_called(1) [OF prep] by blast
  show ?thesis
    using run dispatch_at_most_once [OF offering_inv run, of "[Release ''clm_1'' (offer_request_id offering_claim recovery_offer) ''cus_1'']"
        offering_claim recovery_offer]
    by (auto simp: external_allowed_def)
qed

text \<open>
  C12. A dispatch completes: from every store in which the offer can be dispatched,
  with the required fields present and an adapter that accepts with a provider reference, the
  dispatch returns, the task is accepted under that reference with delivery evidence, the request
  is sent, and exactly one attempt is stored, numbered one and accepted.
\<close>

theorem offer_accepted:
  assumes inv: "external_inv s" and clock: "\<not> is_naive t0" "\<not> is_naive t1"
    and ok: "dispatchable s c session_id consent offer entry t0"
    and adapter: "dict_get adapters (so_service_identity offer) = Some adapter"
      "in_family (dispatch_family incident_type entry) entry"
      "validate_payload entry ''submit_request'' (offer_payload c consent offer entry source_value) = None"
    and answer: "adapter entry (offer_payload c consent offer entry source_value) w = (Inr d, w1)"
      "text_or d ''status'' ''unknown_outcome'' = ''accepted''"
      "dict_get d ''provider_reference'' = Some reference"
  shows "\<exists>s2 q. dispatch_generic_offer adapters c consent offer source_value incident_type t0 t1 t2 s w = (Inr (), s2, w1)
    \<and> dict_get (st_external_tasks s2) (offer_task_id c offer)
        = Some (accepted_task c offer (item_str reference) t0 t1)
    \<and> dict_get (st_external_requests s2) (offer_request_id c offer) = Some q
    \<and> xq_sent_at q = Some (later_than t1 t0) \<and> xq_operation_id q = Some (offer_operation_id c offer)
    \<and> attempts_of s2 (offer_task_id c offer) = [first_attempt c offer Task_accepted None Submitted
        (Some (''operation:'' @ offer_operation_id c offer)) t2]"
proof -
  obtain q s1 where prep: "prepare_offer c session_id consent offer entry t0 s = (Inr (Some q), s1)"
    by (rule dispatchable_prepared [OF inv ok])
  have entry: "service_registry_entry (so_service_identity offer) = Inr entry" "svc_uses_external_task entry"
    and session: "wc_active_session_id c = Some session_id"
    and unused: "dict_get (st_external_attempts s) (attempt_identity (offer_task_id c offer) 1) = None"
    using ok by (simp_all add: dispatchable_def)
  have exec: "execute_capability adapters (so_service_identity offer) ''submit_request''
      (offer_payload c consent offer entry source_value) (dispatch_family incident_type entry) w
    = (Inr (new_capability_result entry ''accepted'' (Provider_payload d)
        (Says (text_or d ''next_action'' ''Use the canonical lifecycle projection.''))), w1)"
    using execute_submits [OF entry adapter(2,3,1)] answer by (simp add: call_adapter_def)
  show ?thesis
    using dispatch_accepted [OF inv clock entry(1) session prep exec _ _ unused, of reference t2] answer(3)
      prepared_request(1) [OF prep]
    by (auto simp: new_capability_result_def)
qed

lemma offer_accepted_witness:
  "\<exists>s2 q. dispatch_generic_offer [(''vehicle_recovery_request'', counting_adapter)] offering_claim offer_consent
      recovery_offer form_value None (Aware 10) (Aware 11) (Aware 12) offering_store 0 = (Inr (), s2, 1)
    \<and> dict_get (st_external_requests s2) (offer_request_id offering_claim recovery_offer) = Some q
    \<and> xq_sent_at q = Some (Aware 11)"
proof -
  obtain d reference where "counting_adapter recovery_entry offering_payload 0 = (Inr d, 0 + 1)"
    "text_or d ''status'' ''unknown_outcome'' = ''accepted''" "dict_get d ''provider_reference'' = Some reference"
    using counting_answer by blast
  then show ?thesis
    using offer_accepted [OF offering_inv _ _ offering_dispatchable _ offering_family offering_payload_valid,
        of "Aware 11" "[(''vehicle_recovery_request'', counting_adapter)]" counting_adapter 0 d "0 + 1" reference "Aware 12"]
    by (auto simp: recovery_offer_def later_than_def)
qed

text \<open>
  C28. A provider that cannot be reached leaves a task to retry: when the
  adapter raises, the dispatch still returns, the task is a retryable failure that was not submitted,
  the reservation is released and a retry of the same operation is permitted. The released request
  keeps its operation identity without a reservation, a shape its own constructor refuses.
\<close>

theorem offer_failed_retryable:
  assumes inv: "external_inv s" and clock: "\<not> is_naive t0" "\<not> is_naive t1"
    and ok: "dispatchable s c session_id consent offer entry t0"
    and adapter: "dict_get adapters (so_service_identity offer) = Some adapter"
      "in_family (dispatch_family incident_type entry) entry"
      "validate_payload entry ''submit_request'' (offer_payload c consent offer entry source_value) = None"
    and raised: "adapter entry (offer_payload c consent offer entry source_value) w = (Inl err, w1)"
  shows "\<exists>s2 q. dispatch_generic_offer adapters c consent offer source_value incident_type t0 t1 t2 s w = (Inr (), s2, w1)
    \<and> dict_get (st_external_tasks s2) (offer_task_id c offer) = Some (unavailable_task c offer t0 t1)
    \<and> dict_get (st_external_requests s2) (offer_request_id c offer) = Some q
    \<and> xq_dispatch_reserved_at q = None
    \<and> assert_retry_is_permitted q (attempts_of s2 (offer_task_id c offer)) = Inr ()
    \<and> validate_request_state q = Inl OperationBeforeReservation"
proof -
  obtain q s1 where prep: "prepare_offer c session_id consent offer entry t0 s = (Inr (Some q), s1)"
    by (rule dispatchable_prepared [OF inv ok])
  have entry: "service_registry_entry (so_service_identity offer) = Inr entry" "svc_uses_external_task entry"
    and session: "wc_active_session_id c = Some session_id"
    and unused: "dict_get (st_external_attempts s) (attempt_identity (offer_task_id c offer) 1) = None"
    using ok by (simp_all add: dispatchable_def)
  have exec: "execute_capability adapters (so_service_identity offer) ''submit_request''
      (offer_payload c consent offer entry source_value) (dispatch_family incident_type entry) w = (Inl err, w1)"
    using execute_submits [OF entry adapter(2,3,1)] raised by (simp add: call_adapter_def)
  show ?thesis
    using dispatch_raised [OF inv clock entry(1) session prep exec unused, of t2] by auto
qed

lemma offer_failed_retryable_witness:
  "\<exists>s2 q. dispatch_generic_offer [(''vehicle_recovery_request'', failing_adapter)] offering_claim offer_consent
      recovery_offer form_value None (Aware 10) (Aware 10) (Aware 12) offering_store 0 = (Inr (), s2, 1)
    \<and> dict_get (st_external_requests s2) (offer_request_id offering_claim recovery_offer) = Some q
    \<and> validate_request_state q \<noteq> Inr ()"
  using offer_failed_retryable [OF offering_inv _ _ offering_dispatchable _ offering_family offering_payload_valid,
      of "Aware 10" "[(''vehicle_recovery_request'', failing_adapter)]" failing_adapter 0 Adapter_raised 1 "Aware 12"]
  by (auto simp: recovery_offer_def failing_adapter_def)

section \<open>The repository of external tasks\<close>

text \<open>
  C9. Every admissible sequence of repository calls, failing ones included,
  keeps the external records consistent: every stored task is of a service registered for tasks and
  of the fixture source; requests match their task and no task has two; the attempts of a task are
  numbered from one without gaps in the order they were stored, each under the operation identity of
  its request; no task has two results, and every material a result names is linked to its task.
\<close>

theorem external_run_invariant:
  assumes "external_inv s" and "admissible external_allowed external_exec s calls"
  shows "external_inv (run external_exec s calls)
    \<and> (\<forall>i. map xa_attempt_number (attempts_of (run external_exec s calls) i)
      = [1..int (length (attempts_of (run external_exec s calls) i))])"
  using ext.run_inv [OF assms] external_inv_parts(5) by (auto simp: attempts_ordered_def)

lemma external_run_invariant_witness:
  "external_inv (run external_exec offering_store [Save_task prepared_task ''cus_1'', Save_task prepared_task ''cus_2''])
   \<and> dict_get (st_external_tasks (run external_exec offering_store
       [Save_task prepared_task ''cus_1'', Save_task prepared_task ''cus_2''])) ''tsk_1'' = Some prepared_task"
  using external_run_invariant [OF offering_inv, of "[Save_task prepared_task ''cus_1'', Save_task prepared_task ''cus_2'']"]
    offering_saved by (simp add: external_allowed_def)

text \<open>
  C30. Every admissible sequence of external repository calls only extends what is stored: a task keeps its identity and
  only moves to later updates, a request keeps its identity, its send time and its operation identity
  once it has them, attempts and links stay as they were written, and a result is verified at most
  once and keeps what was received.
\<close>

theorem external_run_grows:
  assumes "external_inv s" and "admissible external_allowed external_exec s calls"
  shows "(\<forall>k t. dict_get (st_external_tasks s) k = Some t \<longrightarrow>
      (\<exists>u. dict_get (st_external_tasks (run external_exec s calls)) k = Some u
      \<and> same_task t u \<and> (u = t \<or> dt_before (xt_updated_at t) (xt_updated_at u))))
    \<and> (\<forall>k q. dict_get (st_external_requests s) k = Some q \<longrightarrow>
      (\<exists>p. dict_get (st_external_requests (run external_exec s calls)) k = Some p
      \<and> same_request_identity q p \<and> (xq_sent_at q \<noteq> None \<longrightarrow> xq_sent_at p = xq_sent_at q)
      \<and> (xq_operation_id q \<noteq> None \<longrightarrow> xq_operation_id p = xq_operation_id q)))
    \<and> (\<forall>k a. dict_get (st_external_attempts s) k = Some a \<longrightarrow>
      dict_get (st_external_attempts (run external_exec s calls)) k = Some a)
    \<and> (\<forall>k l. dict_get (st_external_links s) k = Some l \<longrightarrow>
      dict_get (st_external_links (run external_exec s calls)) k = Some l)
    \<and> (\<forall>k r. dict_get (st_external_results s) k = Some r \<longrightarrow>
      (\<exists>p. dict_get (st_external_results (run external_exec s calls)) k = Some p
      \<and> (p = r \<or> same_ingestion r p \<and> xr_verification r = Result_unverified)))"
  using ext.run_grows [OF assms] unfolding external_grows_def grows_in_def
  by (simp add: task_later_def request_kept_def result_advance_iff) blast

lemma external_run_grows_witness:
  "\<exists>p. dict_get (st_external_requests (run external_exec requested_store
       [Reserve ''clm_1'' ''erq_1'' ''cus_1'' (Aware 12) ''op_1'', Release ''clm_1'' ''erq_1'' ''cus_1''])) ''erq_1'' = Some p
     \<and> xq_task_id p = ''tsk_1''"
proof -
  let ?q = "reserved_example\<lparr>xq_operation_id := None, xq_dispatch_reserved_at := None\<rparr>"
  have "dict_get (st_external_requests requested_store) ''erq_1'' = Some ?q"
    by (simp add: requested_store_def)
  then obtain p where "dict_get (st_external_requests (run external_exec requested_store
       [Reserve ''clm_1'' ''erq_1'' ''cus_1'' (Aware 12) ''op_1'', Release ''clm_1'' ''erq_1'' ''cus_1''])) ''erq_1'' = Some p"
    "same_request_identity ?q p"
    using external_run_grows [OF requested_inv requested_admissible] by blast
  then show ?thesis by (auto simp: same_request_identity_def reserved_example_def)
qed

text \<open>
  C18. A dispatch is reserved by at most one caller: after a reservation was
  granted, and any sequence of calls that does not release it, a further reservation of the same
  request returns nothing and changes nothing, whoever asks and under whatever operation identity.
\<close>

theorem reservation_excludes:
  assumes "reserve_external_dispatch s claim_id i customer at op = Inr (Some q, s1)"
    and "list_all (keeps_reservation i) calls"
    and "reserve_external_dispatch (run external_exec s1 calls) claim_id' i customer' at' op' = Inr (x, s2)"
  shows "x = None \<and> s2 = run external_exec s1 calls"
  using reserve_excluded [OF reserved_run [OF assms(2) reserve_reserves [OF assms(1)]] assms(3)] .

lemma reservation_excludes_witness:
  "\<exists>s1. reserve_external_dispatch requested_store ''clm_1'' ''erq_1'' ''cus_1'' (Aware 12) ''op_1''
       = Inr (Some reserved_example, s1)
     \<and> reserve_external_dispatch (run external_exec s1 []) ''clm_1'' ''erq_1'' ''cus_1'' (Aware 13) ''op_2''
       = Inr (None, s1)"
proof -
  obtain s1 where s1: "reserve_external_dispatch requested_store ''clm_1'' ''erq_1'' ''cus_1'' (Aware 12) ''op_1''
       = Inr (Some reserved_example, s1)"
    using requested_reserve by blast
  obtain x s2 where again: "reserve_external_dispatch s1 ''clm_1'' ''erq_1'' ''cus_1'' (Aware 13) ''op_2'' = Inr (x, s2)"
    using requested_again [OF s1] by blast
  then have "x = None \<and> s2 = s1"
    using reservation_excludes [OF s1, of "[]" _ _ _ _ x s2] by simp
  then show ?thesis using s1 again by simp
qed

section \<open>Failures, moves and retries of a task\<close>

text \<open>
  Every provider failure is classified, in agreement with the published
  recovery policy it falls under: access, format and conflict failures are terminal, a partial answer
  or a timeout after submission is an unknown outcome, everything else may be retried under the same
  operation; the failure is retryable exactly when the policy repeats the operation, reconciliation
  is required exactly for an unknown outcome, and no policy repeats the call by itself.
\<close>

theorem failure_classified:
  "\<exists>k rule. classify_external_task_failure c d = Inr k \<and> rule \<in> set RECOVERY_RULES
     \<and> fc_recovery_policy_id k = Some (rr_policy_id rule) \<and> fc_recovery_policy_version k = Some (rr_version rule)
     \<and> (fc_operation_status k = Task_terminal_failure \<longleftrightarrow> c \<in> {Failure_access_denied, Failure_malformed, Failure_conflicting})
     \<and> (fc_operation_status k = Task_unknown_outcome \<longleftrightarrow> c = Failure_partial \<or> c = Failure_timeout \<and> d = Submitted)
     \<and> (fc_operation_status k = Task_retryable_failure \<longleftrightarrow> fc_retryable k)
     \<and> (fc_retryable k \<longleftrightarrow> rr_retry_mode rule = Retry_same_operation)
     \<and> (rr_requires_reconciliation rule \<longleftrightarrow> fc_operation_status k = Task_unknown_outcome)
     \<and> rr_requires_operation_identity rule \<and> rr_max_auto_retry rule = 0"
proof -
  let ?k = "(fst (failure_handling c d))\<lparr>fc_recovery_policy_id := Some (rr_policy_id (failure_rule c d)),
      fc_recovery_policy_version := Some (rr_version (failure_rule c d))\<rparr>"
  have status: "fc_operation_status ?k = failure_status c d" by (simp add: failure_status_def)
  have retryable: "fc_retryable ?k \<longleftrightarrow> failure_status c d = Task_retryable_failure"
    by (simp add: failure_status_def failure_handling_def plain_classification_def)
  show ?thesis
    unfolding classify_external_task_failure_eq
    by (intro exI [of _ ?k] exI [of _ "failure_rule c d"] conjI refl failure_rule_published
        classified_agrees_with_rule)
      (use status retryable classified_agrees_with_rule [of c d] failure_status_iff [of c d] in
        \<open>simp_all add: REVIEW_REQUIRED_CODES_def\<close>)
qed

text \<open>
  The persisted status of an external operation changes at most three
  times, whatever sequence of accepted transitions it goes through; once it is accepted or terminally
  failed it never changes again.
\<close>

theorem persisted_history_bounded:
  assumes "successively (\<lambda>c p. assert_persisted_operation_transition (lifecycle_value c) (lifecycle_value p) = Inr ())
    (c # cs)"
  shows "length (remdups_adj (c # cs)) \<le> 4
    \<and> (c \<in> {Lc_accepted, Lc_terminal_failure} \<longrightarrow> remdups_adj (c # cs) = [c])"
proof -
  have moves: "successively persisted_move (c # cs)"
    using assms by (simp add: assert_persisted_operation_transition_value)
  have "length (remdups_adj (c # cs)) \<le> 4"
    using persisted_history_length [OF moves] by simp
  moreover have "remdups_adj (c # cs) = [c]" if "c \<in> {Lc_accepted, Lc_terminal_failure}"
  proof -
    have "length (remdups_adj (c # cs)) \<le> 1"
      using persisted_history_length [OF moves] that by auto
    moreover have "remdups_adj (c # cs) \<noteq> []" "hd (remdups_adj (c # cs)) = c" by simp_all
    ultimately show ?thesis by (cases "remdups_adj (c # cs)") auto
  qed
  ultimately show ?thesis by blast
qed

lemma persisted_history_bounded_witness:
  "length (remdups_adj [Lc_prepared, Lc_retryable_failure, Lc_unknown_outcome, Lc_accepted]) \<le> 4"
  by (rule persisted_history_bounded [THEN conjunct1])
    (simp add: assert_persisted_operation_transition_value persisted_move_def OPERATION_STATUS_IDS_def)

text \<open>
  A task record that goes through permitted moves keeps its identity; once
  submitted it stays submitted with the same delivery evidence; once accepted or terminally failed it
  keeps that status; an unknown outcome is only reconciled, never made retryable; no task returns to
  prepared; and its status changes at most three times.
\<close>

theorem task_moves_kept_along:
  assumes "successively (\<lambda>c p. assert_task_transition_is_permitted c p = Inr ()) (t # ts)"
  shows "(\<forall>u \<in> set (t # ts). same_task t u
      \<and> (xt_delivery t = Submitted \<longrightarrow> xt_delivery u = Submitted \<and> xt_delivery_evidence u = xt_delivery_evidence t)
      \<and> (xt_status t \<in> {Task_accepted, Task_terminal_failure} \<longrightarrow> xt_status u = xt_status t)
      \<and> (xt_status t = Task_unknown_outcome \<longrightarrow> xt_status u \<noteq> Task_retryable_failure)
      \<and> (xt_status u = Task_prepared \<longrightarrow> xt_status t = Task_prepared))
    \<and> length (remdups_adj (map xt_status (t # ts))) \<le> 4"
proof -
  have moves: "successively task_move (t # ts)" using assms by (simp add: task_move_def)
  have "\<forall>u \<in> set (t # ts). same_task t u
      \<and> (xt_delivery t = Submitted \<longrightarrow> xt_delivery u = Submitted \<and> xt_delivery_evidence u = xt_delivery_evidence t)
      \<and> (xt_status t \<in> {Task_accepted, Task_terminal_failure} \<longrightarrow> xt_status u = xt_status t)
      \<and> (xt_status t = Task_unknown_outcome \<longrightarrow> xt_status u \<noteq> Task_retryable_failure)
      \<and> (xt_status u = Task_prepared \<longrightarrow> xt_status t = Task_prepared)"
  proof
    fix u
    assume "u \<in> set (t # ts)"
    then have kept: "task_kept t u" by (rule task_moves_kept [OF moves])
    have "xt_status u \<noteq> Task_retryable_failure" if "xt_status t = Task_unknown_outcome"
    proof -
      have "xt_status u \<in> {Task_unknown_outcome, Task_accepted, Task_terminal_failure}"
        using kept that unfolding task_kept_def by blast
      then show ?thesis by auto
    qed
    then show "same_task t u
      \<and> (xt_delivery t = Submitted \<longrightarrow> xt_delivery u = Submitted \<and> xt_delivery_evidence u = xt_delivery_evidence t)
      \<and> (xt_status t \<in> {Task_accepted, Task_terminal_failure} \<longrightarrow> xt_status u = xt_status t)
      \<and> (xt_status t = Task_unknown_outcome \<longrightarrow> xt_status u \<noteq> Task_retryable_failure)
      \<and> (xt_status u = Task_prepared \<longrightarrow> xt_status t = Task_prepared)"
      using kept unfolding task_kept_def SETTLED_TASK_STATES_def by blast
  qed
  moreover have inj: "inj task_lifecycle" by (simp add: inj_def)
  have "successively persisted_move (task_lifecycle (xt_status t) # map task_lifecycle (map xt_status ts))"
    using task_moves_statuses [OF moves] unfolding list.map map_map comp_def .
  then have "length (remdups_adj (map task_lifecycle (map xt_status (t # ts)))) \<le> 4"
    unfolding list.map by (rule order_trans [OF le_add1 persisted_history_length])
  then have "length (remdups_adj (map xt_status (t # ts))) \<le> 4"
    by (simp only: remdups_adj_map_injective [OF inj] length_map)
  ultimately show ?thesis by blast
qed

lemma task_moves_kept_along_witness:
  "same_task prepared_task reconciled_task
     \<and> length (remdups_adj (map xt_status [prepared_task, unknown_task, reconciled_task])) \<le> 4"
proof -
  have moves: "successively (\<lambda>c p. assert_task_transition_is_permitted c p = Inr ())
      [prepared_task, unknown_task, reconciled_task]"
    using sample_moves by simp
  have "reconciled_task \<in> set [prepared_task, unknown_task, reconciled_task]" by simp
  then have "same_task prepared_task reconciled_task"
    using task_moves_kept_along [OF moves] by blast
  then show ?thesis using task_moves_kept_along [OF moves] by blast
qed

text \<open>
  A request may be sent again exactly when every recorded attempt is one of
  this request under its operation identity, their numbers are distinct and the attempt with the
  highest number ended as a retryable failure.
\<close>

theorem retry_permitted_exactly:
  assumes "\<forall>a \<in> set as. validate_attempt_state a = Inr ()"
  shows "assert_retry_is_permitted q as = Inr () \<longleftrightarrow>
    (\<forall>a \<in> set as. xa_task_id a = xq_task_id q \<and> xa_claim_id a = xq_claim_id q
       \<and> xq_operation_id q = Some (xa_operation_id a)) \<and> distinct (map xa_attempt_number as) \<and>
    (\<exists>a \<in> set as. (\<forall>b \<in> set as. xa_attempt_number b \<le> xa_attempt_number a)
       \<and> xa_outcome a = Task_retryable_failure)"
  unfolding retry_permitted_iff [OF assms] by (auto simp: attempt_of_def)

lemma retry_permitted_exactly_witness:
  "assert_retry_is_permitted reserved_example [refused_attempt] = Inr ()"
  using retry_permitted_exactly [of "[refused_attempt]" reserved_example] refused_attempt_valid
  by (simp add: refused_attempt_def reserved_example_def)

section \<open>Results, evidence and projections\<close>

text \<open>
  C29. Checking a result yields a valid result that the store accepts in place of
  the unverified one; it changes only the verification, its time and the revision it was made against,
  never calls the result consistent, and so never allows it to settle a claim fact.
\<close>

theorem verification_outcome:
  assumes "verify_external_task_result r t links c evidence checked_at = Inr r'"
  shows "validate_result_state r' = Inr () \<and> assert_result_advance_is_permitted r r' = Inr ()
    \<and> r' = r\<lparr>xr_verification := xr_verification r', xr_verified_at := Some checked_at,
             xr_verified_against_revision := Some (wc_revision c)\<rparr>
    \<and> xr_verification r' \<in> {Result_inconsistent, Result_review_required}
    \<and> assert_result_may_settle_fact r' n \<noteq> Inr ()"
proof -
  note v = verify_external_task_result_Inr [OF assms]
  have decided: "xr_verification r' \<in> {Result_inconsistent, Result_review_required}"
    using v(1) decided_not_consistent [of r t evidence] by simp
  have "result_advance r r'"
    using v(1,2) decided by (auto simp: result_advance_iff same_ingestion_def)
  moreover have "assert_result_may_settle_fact r' n \<noteq> Inr ()"
    using decided by (auto simp: assert_result_may_settle_fact_def)
  ultimately show ?thesis using v(1,3) decided by (simp add: result_advance_def)
qed

lemma verification_outcome_witness:
  "\<exists>r. verify_external_task_result photo_result reconciled_task [photo_link] offering_claim [photo] (Aware 40) = Inr r
     \<and> xr_verification r \<in> {Result_inconsistent, Result_review_required}"
  using photo_verified verification_outcome by blast

text \<open>
  No replaced generation of a material is lost: along any sequence of
  accepted writes of an evidence record, every generation between the first and the last is archived
  in the last record at its place, as one of the records had it.
\<close>

theorem evidence_generations_kept:
  assumes "successively evidence_write (e # es)"
    and "ed_material_version e \<le> n" "n < ed_material_version (last (e # es))"
    and "validate_material_history e = Inr ()"
  shows "\<exists>d \<in> set (e # es). ed_material_version d = n
    \<and> preserves_generation d (ed_material_history (last (e # es)) ! nat (n - 1))"
  by (rule evidence_history_complete [OF assms])

lemma evidence_generations_kept_witness: "preserves_generation photo first_photo"
  using evidence_generations_kept [of photo "[second_photo]" 1] photo_replaced
  by (simp add: evidence_write_def second_photo_def photo_def)

text \<open>
  External material has one origin: it is traced to a task exactly when it
  came from an external system and the links of its own claim name that task and no other, whatever
  the order and repetition of the links.
\<close>

theorem evidence_origin_unique:
  "external_task_for_evidence e links = Inr (Some i) \<longleftrightarrow> ed_source e = Origin_external_system
     \<and> {xl_task_id l |l. l \<in> set links \<and> xl_evidence_id l = ed_evidence_id e \<and> xl_claim_id l = ed_claim_id e} = {i}"
  by (simp add: external_task_for_evidence_iff origin_tasks_def)

text \<open>
  A lifecycle projection never says more than its operation: it is built only for
  registered task services, demands reconciliation exactly for an unknown outcome, shows a result only
  with its verification and only on an operation that may carry one, and lists every invariant of the
  states it shows exactly once.
\<close>

theorem projection_sound:
  assumes "build_lifecycle_projection i operation_status result verification provider progress
    progress_reference = Inr p"
  shows "sound_projection p \<and> lp_service_identity p = i"
  by (rule build_lifecycle_projection_sound [OF assms])

lemma projection_sound_witness:
  "\<exists>p. build_lifecycle_projection ''vehicle_recovery_request'' ''unknown_outcome'' None None None None None = Inr p
     \<and> sound_projection p"
  using projected_example projection_sound by blast

section \<open>A write the transition rules refuse\<close>

text \<open>
  The repository writes a task move that the transition rules forbid: an unknown outcome is stored as
  a retryable failure that was never submitted, which makes a repeated call look safe.
\<close>

theorem forbidden_move_stored:
  "\<exists>s'. save_external_task unknown_store rewound_task ''cus_1'' = Inr s'
     \<and> dict_get (st_external_tasks unknown_store) ''tsk_1'' = Some unknown_task
     \<and> dict_get (st_external_tasks s') ''tsk_1'' = Some rewound_task
     \<and> validate_task_state rewound_task = Inr ()
     \<and> assert_task_transition_is_permitted unknown_task rewound_task \<noteq> Inr ()"
proof -
  have ids: "xt_task_id rewound_task = ''tsk_1''" "xt_claim_id rewound_task = ''clm_1''" "rewound_task \<noteq> unknown_task"
    by (simp_all add: rewound_task_def sample_task_defs)
  have held: "dict_get (st_external_tasks unknown_store) ''tsk_1'' = Some unknown_task"
    by (simp add: unknown_store_def)
  have advance: "passes (task_advance_guards (Some unknown_task) rewound_task)" "xt_claim_id unknown_task = ''clm_1''"
    by (simp_all add: task_advance_guards_def changes_identity_def rewound_task_def sample_task_defs)
  obtain e where saved: "save_external_task unknown_store rewound_task ''cus_1''
      = Inr (commit_realtime e (put_external_task rewound_task unknown_store))"
    using unknown_get_claim held ids advance rewound_compatible
    by (auto simp: save_external_task_def guarded_passes prepare_realtime_mutation_def offering_claim_def)
  have "validate_task_state rewound_task = Inr ()"
    by (simp add: validate_task_state_iff rewound_task_def sample_task_defs task_fields_ok_def bounded_text_def
        failure_status_iff(3) eq_commute [of Task_retryable_failure])
  moreover have "\<not> task_move unknown_task rewound_task"
    by (simp add: task_move_iff rewound_task_def sample_task_defs)
  ultimately show ?thesis
    using saved held ids(1) by (simp add: task_move_def external_writes)
qed

end
