(* ===== verification/Text_Patterns.thy ===== *)
theory Text_Patterns
  imports Python_Text
begin

text \<open>
  The regular expressions the claimant-message rules use. A pattern is a datatype with the
  constructs the sources write: literals and character classes, \<open>.\<close>, \<open>\s\<close>, \<open>\d\<close>, the word boundary
  \<open>\b\<close>, sequence, alternation and repetition. A place in a text is the character before it and
  the rest of the text, which is all a word boundary looks at. \<open>ends\<close> computes every place where
  a match that starts at a given place may stop; \<open>reads\<close> is the relation a match stands for, and
  the two agree. The sources only ask whether a match exists, so the order in which Python tries
  the alternatives plays no role. \<open>re.IGNORECASE\<close> is the comparison of lower-cased ASCII text.
\<close>

datatype pattern =
    Eps
  | One_of string
  | Any_char
  | Space
  | Digit
  | Edge
  | Then pattern pattern
  | Or pattern pattern
  | Many pattern

type_synonym place = "char option \<times> string"

definition word_char :: "char \<Rightarrow> bool" where
  "word_char c \<longleftrightarrow> (let n = of_char c :: nat in
     48 \<le> n \<and> n \<le> 57 \<or> 65 \<le> n \<and> n \<le> 90 \<or> n = 95 \<or> 97 \<le> n \<and> n \<le> 122)"

definition digit_char :: "char \<Rightarrow> bool" where
  "digit_char c \<longleftrightarrow> (let n = of_char c :: nat in 48 \<le> n \<and> n \<le> 57)"

fun at_edge :: "place \<Rightarrow> bool" where
  "at_edge (p, s) \<longleftrightarrow>
     (case p of None \<Rightarrow> False | Some c \<Rightarrow> word_char c) \<noteq> (case s of [] \<Rightarrow> False | c # _ \<Rightarrow> word_char c)"

fun char_ends :: "(char \<Rightarrow> bool) \<Rightarrow> place \<Rightarrow> place list" where
  "char_ends f (p, []) = []"
| "char_ends f (p, c # s) = (if f c then [(Some c, s)] else [])"

primrec many_ends :: "(place \<Rightarrow> place list) \<Rightarrow> nat \<Rightarrow> place \<Rightarrow> place list" where
  "many_ends f 0 x = [x]"
| "many_ends f (Suc n) x =
     x # concat (map (many_ends f n) (filter (\<lambda>y. length (snd y) < length (snd x)) (f x)))"

primrec ends :: "pattern \<Rightarrow> place \<Rightarrow> place list" where
  "ends Eps x = [x]"
| "ends (One_of cs) x = char_ends (\<lambda>c. c \<in> set cs) x"
| "ends Any_char x = char_ends (\<lambda>c. c \<noteq> CHR 0x0A) x"
| "ends Space x = char_ends is_space x"
| "ends Digit x = char_ends digit_char x"
| "ends Edge x = (if at_edge x then [x] else [])"
| "ends (Then a b) x = concat (map (ends b) (ends a x))"
| "ends (Or a b) x = ends a x @ ends b x"
| "ends (Many a) x = many_ends (ends a) (length (snd x)) x"

primrec search_from :: "pattern \<Rightarrow> char option \<Rightarrow> string \<Rightarrow> bool" where
  "search_from r p [] \<longleftrightarrow> ends r (p, []) \<noteq> []"
| "search_from r p (c # s) \<longleftrightarrow> ends r (p, c # s) \<noteq> [] \<or> search_from r (Some c) s"

definition search :: "pattern \<Rightarrow> string \<Rightarrow> bool" where
  "search r s \<longleftrightarrow> search_from r None (py_lower s)"

section \<open>Writing patterns\<close>

definition lit :: "string \<Rightarrow> pattern" where
  "lit s = foldr (\<lambda>c r. Then (One_of [c]) r) s Eps"

primrec seqs :: "pattern list \<Rightarrow> pattern" where
  "seqs [] = Eps"
| "seqs (r # rs) = Then r (seqs rs)"

primrec alts :: "pattern list \<Rightarrow> pattern" where
  "alts [] = One_of []"
| "alts (r # rs) = Or r (alts rs)"

definition words :: "string list \<Rightarrow> pattern" where
  "words ws = alts (map lit ws)"

definition optional :: "pattern \<Rightarrow> pattern" where
  "optional r = Or r Eps"

definition some_of :: "pattern \<Rightarrow> pattern" where
  "some_of r = Then r (Many r)"

abbreviation gap :: pattern where "gap \<equiv> some_of Space"

definition bounded :: "pattern \<Rightarrow> pattern" where
  "bounded r = seqs [Edge, r, Edge]"

section \<open>What a pattern reads\<close>

inductive reads :: "pattern \<Rightarrow> place \<Rightarrow> place \<Rightarrow> bool" where
  reads_Eps: "reads Eps x x"
| reads_One: "c \<in> set cs \<Longrightarrow> reads (One_of cs) (p, c # s) (Some c, s)"
| reads_Any: "c \<noteq> CHR 0x0A \<Longrightarrow> reads Any_char (p, c # s) (Some c, s)"
| reads_Space: "is_space c \<Longrightarrow> reads Space (p, c # s) (Some c, s)"
| reads_Digit: "digit_char c \<Longrightarrow> reads Digit (p, c # s) (Some c, s)"
| reads_Edge: "at_edge x \<Longrightarrow> reads Edge x x"
| reads_Then: "reads a x y \<Longrightarrow> reads b y z \<Longrightarrow> reads (Then a b) x z"
| reads_Or_left: "reads a x y \<Longrightarrow> reads (Or a b) x y"
| reads_Or_right: "reads b x y \<Longrightarrow> reads (Or a b) x y"
| reads_Many_done: "reads (Many a) x x"
| reads_Many_more: "reads a x y \<Longrightarrow> reads (Many a) y z \<Longrightarrow> reads (Many a) x z"

inductive_simps reads_simps:
  "reads Eps x y" "reads (One_of cs) x y" "reads Any_char x y" "reads Space x y" "reads Digit x y"
  "reads Edge x y" "reads (Then a b) x y" "reads (Or a b) x y"

text \<open>A match moves forward along the text, and stays where it is when it consumes nothing.\<close>

lemma reads_forward: "reads r x y \<Longrightarrow> length (snd y) < length (snd x) \<or> y = x"
  by (induction rule: reads.induct) auto

lemma char_ends_reads:
  "y \<in> set (char_ends f x) \<longleftrightarrow> (\<exists>p c s. x = (p, c # s) \<and> f c \<and> y = (Some c, s))"
  by (induction f x rule: char_ends.induct) auto

lemma many_ends_sound:
  assumes "\<And>x y. y \<in> set (f x) \<Longrightarrow> reads a x y" "y \<in> set (many_ends f n x)"
  shows "reads (Many a) x y"
  using assms(2)
proof (induction n arbitrary: x)
  case (Suc n)
  then consider "y = x" | z where "z \<in> set (f x)" "y \<in> set (many_ends f n z)" by auto
  then show ?case
    by cases (auto intro: reads_Many_done reads_Many_more [OF assms(1) Suc.IH])
qed (auto intro: reads_Many_done)

lemma many_ends_complete:
  assumes "\<And>x y. reads a x y \<Longrightarrow> y \<in> set (f x)"
  shows "reads r x y \<Longrightarrow> r = Many a \<Longrightarrow> length (snd x) \<le> n \<Longrightarrow> y \<in> set (many_ends f n x)"
proof (induction arbitrary: n rule: reads.induct)
  case (reads_Many_done b x)
  then show ?case by (cases n) auto
next
  case (reads_Many_more b x y z)
  show ?case
  proof (cases "y = x")
    case True
    then show ?thesis using reads_Many_more by blast
  next
    case False
    then have less: "length (snd y) < length (snd x)"
      using reads_forward [OF reads_Many_more.hyps(1)] by blast
    then obtain m where n: "n = Suc m" "length (snd y) \<le> m"
      using reads_Many_more.prems(2) by (cases n) auto
    then have "z \<in> set (many_ends f m y)" using reads_Many_more by blast
    moreover have "y \<in> set (f x)" using assms [of x y] reads_Many_more by blast
    ultimately have "\<exists>w\<in>set (filter (\<lambda>w. length (snd w) < length (snd x)) (f x)).
        z \<in> set (many_ends f m w)" using less by (intro bexI [of _ y]) auto
    then show ?thesis using n(1) by simp
  qed
qed auto

theorem ends_reads: "y \<in> set (ends r x) \<longleftrightarrow> reads r x y"
proof (induction r arbitrary: x y)
  case (Many a)
  then show ?case
    using many_ends_sound [of "ends a" a y] many_ends_complete [of a "ends a" "Many a" x y]
    by (metis ends.simps(9) order_refl)
next
  case (Then a b)
  have "y \<in> set (ends (Then a b) x) \<longleftrightarrow> (\<exists>z. z \<in> set (ends a x) \<and> y \<in> set (ends b z))"
    by (simp add: Bex_def del: split_paired_Ex)
  then show ?case by (simp only: Then.IH reads_simps(7) split_paired_Ex)
qed (auto simp: reads_simps char_ends_reads)

definition occurs :: "pattern \<Rightarrow> string \<Rightarrow> bool" where
  "occurs r s \<longleftrightarrow> (\<exists>u v y. s = u @ v \<and> reads r (if u = [] then None else Some (last u), v) y)"

lemma search_from_reads:
  "search_from r p s \<longleftrightarrow> (\<exists>u v y. s = u @ v \<and> reads r (if u = [] then p else Some (last u), v) y)"
proof (induction s arbitrary: p)
  case Nil
  have "ends r (p, []) \<noteq> [] \<longleftrightarrow> (\<exists>y. reads r (p, []) y)"
    by (auto simp: ends_reads [symmetric] ex_in_conv simp del: split_paired_Ex)
  then show ?case by auto
next
  case (Cons c s)
  have here: "ends r (p, c # s) \<noteq> [] \<longleftrightarrow> (\<exists>y. reads r (p, c # s) y)"
    by (auto simp: ends_reads [symmetric] ex_in_conv simp del: split_paired_Ex)
  have later: "(\<exists>u v y. c # s = u @ v \<and> reads r (if u = [] then p else Some (last u), v) y) \<longleftrightarrow>
    (\<exists>y. reads r (p, c # s) y)
    \<or> (\<exists>u v y. s = u @ v \<and> reads r (if u = [] then Some c else Some (last u), v) y)"
    (is "?all \<longleftrightarrow> ?now \<or> ?rest")
  proof
    assume ?all
    then obtain u v y where u: "c # s = u @ v" "reads r (if u = [] then p else Some (last u), v) y"
      by blast
    show "?now \<or> ?rest"
    proof (cases u)
      case (Cons d w)
      then have "s = w @ v" "reads r (if w = [] then Some c else Some (last w), v) y"
        using u by (auto split: if_splits)
      then show ?thesis by blast
    next
      case Nil
      then have "reads r (p, c # s) y" using u by simp
      then show ?thesis by blast
    qed
  next
    assume "?now \<or> ?rest"
    then show ?all
    proof
      assume ?now
      then show ?all by (metis append_Nil)
    next
      assume ?rest
      then obtain u v y where "s = u @ v" "reads r (if u = [] then Some c else Some (last u), v) y"
        by blast
      then have "c # s = (c # u) @ v \<and> reads r (if c # u = [] then p else Some (last (c # u)), v) y"
        by auto
      then show ?all by blast
    qed
  qed
  show ?case by (simp only: search_from.simps here later Cons.IH)
qed

theorem search_occurs: "search r s \<longleftrightarrow> occurs r (py_lower s)"
  by (simp add: search_def occurs_def search_from_reads)

end
