(* ===== verification/Python_Float.thy ===== *)
theory Python_Float
  imports Northwind_Prelude Complex_Main
begin

text \<open>
  Python's \<open>float\<close> as the source uses it for amounts: an IEEE 754 double is a rational number (or,
  for amounts, which are never negative, positive infinity), and every literal, conversion and
  operation rounds its exact result to the nearest double, ties to the even one. \<open>sum\<close> over floats is
  the compensated summation CPython has used since 3.12, the version the repository names.
\<close>

section \<open>Rounding\<close>

definition round_half_even :: "rat \<Rightarrow> int" where
  "round_half_even x = (let n = \<lfloor>x\<rfloor>; rest = x - of_int n in
     if rest < 1 / 2 then n else if 1 / 2 < rest then n + 1 else if even n then n else n + 1)"

function bit_length :: "int \<Rightarrow> nat" where
  "bit_length n = (if n \<le> 0 then 0 else Suc (bit_length (n div 2)))"
  by pat_completeness auto

termination by (relation "measure nat") auto

declare bit_length.simps [simp del]

text \<open>The exponent of the leading binary digit of a positive number.\<close>

definition binary_exponent :: "rat \<Rightarrow> int" where
  "binary_exponent x = (case quotient_of x of (p, q) \<Rightarrow>
     let d = int (bit_length p) - int (bit_length q) in if 2 powi d \<le> x then d else d - 1)"

text \<open>The distance of neighbouring doubles at a number: 53 binary digits, down to the subnormal range.\<close>

definition double_ulp :: "rat \<Rightarrow> rat" where
  "double_ulp x = 2 powi (max (binary_exponent \<bar>x\<bar>) (- 1022) - 52)"

definition nearest_double :: "rat \<Rightarrow> rat" where
  "nearest_double x = (if x = 0 then 0 else of_int (round_half_even (x / double_ulp x)) * double_ulp x)"

section \<open>Amounts\<close>

datatype double = Finite rat | Infinite

instantiation double :: linorder
begin

fun less_eq_double :: "double \<Rightarrow> double \<Rightarrow> bool" where
  "less_eq_double _ Infinite = True"
| "less_eq_double Infinite (Finite _) = False"
| "less_eq_double (Finite a) (Finite b) = (a \<le> b)"

definition less_double :: "double \<Rightarrow> double \<Rightarrow> bool" where
  "less_double x y \<longleftrightarrow> x \<le> y \<and> \<not> y \<le> (x :: double)"

instance
proof
  fix x y z :: double
  show "x < y \<longleftrightarrow> x \<le> y \<and> \<not> y \<le> x" by (rule less_double_def)
  show "x \<le> x" by (cases x) simp_all
  show "x \<le> y \<Longrightarrow> y \<le> z \<Longrightarrow> x \<le> z" by (cases x; cases y; cases z) simp_all
  show "x \<le> y \<Longrightarrow> y \<le> x \<Longrightarrow> x = y" by (cases x; cases y) simp_all
  show "x \<le> y \<or> y \<le> x" by (cases x; cases y) auto
qed

end

lemma less_double_simps [simp]:
  "Finite a < Finite b \<longleftrightarrow> a < b" "Finite a < Infinite" "\<not> Infinite < x"
  by (cases x) (auto simp: less_double_def)

definition rounded :: "rat \<Rightarrow> double" where
  "rounded x = (if 1024 \<le> binary_exponent (nearest_double x) then Infinite else Finite (nearest_double x))"

text \<open>
  One step of \<open>sum\<close>: the running acc and its compensation, or nothing once the acc overflowed.
\<close>

fun sum_step :: "double \<Rightarrow> (rat \<times> rat) option \<Rightarrow> (rat \<times> rat) option" where
  "sum_step (Finite x) (Some (acc, c)) = (case rounded (acc + x) of
     Infinite \<Rightarrow> None
   | Finite t \<Rightarrow> Some (t, nearest_double (c + nearest_double
       (if \<bar>x\<bar> \<le> \<bar>acc\<bar> then nearest_double (acc - t) + x else nearest_double (x - t) + acc))))"
| "sum_step _ _ = None"

fun sum_doubles :: "double list \<Rightarrow> double" where
  "sum_doubles [] = Finite 0"
| "sum_doubles (Infinite # xs) = Infinite"
| "sum_doubles (Finite x # xs) = (case fold sum_step xs (Some (x, 0)) of
     None \<Rightarrow> Infinite
   | Some (acc, c) \<Rightarrow> if c = 0 then Finite acc else rounded (acc + c))"

section \<open>Facts about rounding\<close>

lemma round_half_even_of_int [simp]: "round_half_even (of_int n) = n"
  by (simp add: round_half_even_def)

lemma round_half_even_near: "\<bar>of_int (round_half_even x) - x\<bar> \<le> 1 / 2"
  using floor_correct [of x] by (auto simp: round_half_even_def Let_def)

lemma round_half_even_eq:
  assumes "\<bar>x - of_int n\<bar> < 1 / 2"
  shows "round_half_even x = n"
proof -
  have "\<bar>of_int (round_half_even x) - of_int n :: rat\<bar> < 1" using round_half_even_near [of x] assms by linarith
  then have "\<bar>round_half_even x - n\<bar> < 1" by (metis of_int_1_less_iff of_int_abs of_int_diff of_int_less_1_iff)
  then show ?thesis by simp
qed

lemma round_half_even_nonneg: "0 \<le> x \<Longrightarrow> 0 \<le> round_half_even x"
  by (simp add: round_half_even_def Let_def)

lemma bit_length_bounds: "0 < n \<Longrightarrow> 2 ^ (bit_length n - 1) \<le> n \<and> n < 2 ^ bit_length n \<and> 0 < bit_length n"
proof (induction n rule: bit_length.induct)
  case (1 n)
  show ?case
  proof (cases "n div 2 = 0")
    case True
    then have "n = 1" using 1(2) by linarith
    then show ?thesis by (simp add: bit_length.simps)
  next
    case False
    then have "0 < n div 2" using 1(2) by linarith
    then have "2 ^ (bit_length (n div 2) - 1) \<le> n div 2" "n div 2 < 2 ^ bit_length (n div 2)" "0 < bit_length (n div 2)"
      using 1 by auto
    moreover have "bit_length n = Suc (bit_length (n div 2))" using 1(2) by (subst bit_length.simps) simp
    moreover have "(2 :: int) ^ bit_length (n div 2) = 2 * 2 ^ (bit_length (n div 2) - 1)"
      using calculation(3) by (cases "bit_length (n div 2)") simp_all
    ultimately show ?thesis by (simp, linarith)
  qed
qed

lemma binary_exponent_bounds:
  assumes "0 < x"
  shows "2 powi binary_exponent x \<le> x" "x < 2 powi (binary_exponent x + 1)"
proof -
  obtain p q where pq: "quotient_of x = (p, q)" by fastforce
  then have x: "x = of_int p / of_int q" "0 < q" by (rule quotient_of_div, rule quotient_of_denom_pos)
  then have p: "0 < p" using assms by (simp add: zero_less_divide_iff)
  define a b where "a = bit_length p" and "b = bit_length q"
  have ints: "2 ^ (a - 1) \<le> p" "p < 2 ^ a" "0 < a" "2 ^ (b - 1) \<le> q" "q < 2 ^ b" "0 < b"
    using bit_length_bounds [OF p] bit_length_bounds [OF x(2)] by (simp_all add: a_def b_def)
  have rats: "(2 :: rat) ^ (a - 1) \<le> of_int p" "of_int p < (2 :: rat) ^ a" "(2 :: rat) ^ (b - 1) \<le> of_int q" "of_int q < (2 :: rat) ^ b"
    using ints(1,2,4,5) by (metis of_int_le_iff of_int_less_iff of_int_numeral of_int_power)+
  define d where "d = int a - int b"
  have low: "2 powi (d - 1) < x"
  proof -
    have "2 powi (d - 1) = (2 :: rat) ^ (a - 1) / 2 ^ b"
      using ints(3) by (cases a) (simp_all add: d_def power_int_diff power_int_add)
    also have "\<dots> < x" unfolding x(1) using rats x(2) by (intro frac_less2) auto
    finally show ?thesis .
  qed
  have high: "x < 2 powi (d + 1)"
  proof -
    have "x < 2 ^ a / 2 ^ (b - 1)" unfolding x(1) using rats x(2) p by (intro frac_less) auto
    also have "\<dots> = 2 powi (d + 1)"
      using ints(6) by (cases b) (simp_all add: d_def power_int_diff power_int_add)
    finally show ?thesis .
  qed
  have e: "binary_exponent x = (if 2 powi d \<le> x then d else d - 1)"
    by (simp add: binary_exponent_def pq Let_def a_def b_def d_def)
  show "2 powi binary_exponent x \<le> x" "x < 2 powi (binary_exponent x + 1)"
    using low high by (auto simp: e)
qed

lemma double_ulp_pos: "0 < double_ulp x"
  by (simp add: double_ulp_def)

lemma nearest_double_near: "\<bar>nearest_double x - x\<bar> \<le> double_ulp x / 2"
proof (cases "x = 0")
  case False
  have "nearest_double x - x = (of_int (round_half_even (x / double_ulp x)) - x / double_ulp x) * double_ulp x"
    using False double_ulp_pos [of x] by (simp add: nearest_double_def field_simps)
  then have "\<bar>nearest_double x - x\<bar> = \<bar>of_int (round_half_even (x / double_ulp x)) - x / double_ulp x\<bar> * double_ulp x"
    using double_ulp_pos [of x] by (simp add: abs_mult)
  also have "\<dots> \<le> 1 / 2 * double_ulp x"
    using round_half_even_near double_ulp_pos [of x] by (intro mult_right_mono) auto
  finally show ?thesis by simp
qed (use double_ulp_pos [of x] in \<open>simp add: nearest_double_def\<close>)

lemma nearest_double_nonneg: "0 \<le> x \<Longrightarrow> 0 \<le> nearest_double x"
  using double_ulp_pos [of x] by (simp add: nearest_double_def round_half_even_nonneg)

text \<open>How a number between one and \<open>2 ^ 53\<close> is rounded; whole numbers of that size are doubles.\<close>

lemma binary_exponent_eq:
  assumes "2 ^ k \<le> x" "x < 2 ^ Suc k"
  shows "binary_exponent x = int k"
proof -
  have "0 < x" using assms(1) by (rule less_le_trans [rotated]) simp
  note b = binary_exponent_bounds [OF this]
  have "(2 :: rat) powi int k < 2 powi (binary_exponent x + 1)" "(2 :: rat) powi binary_exponent x < 2 powi (int k + 1)"
    using assms b by (simp_all add: power_int_add)
  then show ?thesis
    using power_int_increasing [of "binary_exponent x + 1" "int k" "2 :: rat"]
      power_int_increasing [of "int k + 1" "binary_exponent x" "2 :: rat"] by force
qed

lemma nearest_double_eq:
  assumes "2 ^ k \<le> x" "x < 2 ^ Suc k" "k \<le> 52"
  shows "nearest_double x = of_int (round_half_even (x * 2 ^ (52 - k))) / 2 ^ (52 - k)"
proof -
  have pos: "0 < x" using assms(1) by (rule less_le_trans [rotated]) simp
  then have "double_ulp x = 2 powi (int k - 52)"
    using binary_exponent_eq [OF assms(1,2)] by (simp add: double_ulp_def)
  also have "int k - 52 = - int (52 - k)" using assms(3) by simp
  finally have "double_ulp x = 1 / 2 ^ (52 - k)" by (simp only: power_int_minus power_int_of_nat inverse_eq_divide)
  then show ?thesis using pos by (simp add: nearest_double_def)
qed

lemma nearest_double_of_int:
  assumes "0 \<le> n" "n < 2 ^ 53"
  shows "nearest_double (of_int n) = of_int n"
proof (cases "n = 0")
  case False
  then have n: "0 < n" using assms(1) by simp
  define k where "k = bit_length n - 1"
  have bits: "2 ^ k \<le> n" "n < 2 ^ Suc k" using bit_length_bounds [OF n] by (auto simp: k_def)
  then have "(2 :: int) ^ k < 2 ^ 53" using assms(2) by linarith
  then have "k < 53" by (rule power_less_imp_less_exp [rotated]) simp
  then have "k \<le> 52" by simp
  moreover have "(2 :: rat) ^ k \<le> of_int n" "of_int n < (2 :: rat) ^ Suc k"
    using bits by (metis of_int_le_iff of_int_less_iff of_int_numeral of_int_power)+
  ultimately have "nearest_double (of_int n) = of_int (round_half_even (of_int n * 2 ^ (52 - k))) / 2 ^ (52 - k)"
    by (intro nearest_double_eq)
  also have "(of_int n * 2 ^ (52 - k) :: rat) = of_int (n * 2 ^ (52 - k))" by simp
  finally show ?thesis by (simp only: round_half_even_of_int) simp
qed (simp add: nearest_double_def)

lemma rounded_of_int:
  assumes "0 \<le> n" "n < 2 ^ 53"
  shows "rounded (of_int n) = Finite (of_int n)"
proof -
  have "binary_exponent (of_int n) < 1024"
  proof (cases "n = 0")
    case False
    then have "0 < (of_int n :: rat)" using assms(1) by simp
    then have "2 powi binary_exponent (of_int n) \<le> (of_int n :: rat)" by (rule binary_exponent_bounds)
    also have "(of_int n :: rat) < 2 ^ 53" using assms(2) by (metis of_int_less_iff of_int_numeral of_int_power)
    finally have "(2 :: rat) powi binary_exponent (of_int n) < 2 powi 53" by (simp add: power_int_def)
    then show ?thesis using power_int_increasing [of 53 "binary_exponent (of_int n)" "2 :: rat"] by force
  qed (simp add: binary_exponent_def Let_def bit_length.simps)
  then show ?thesis by (simp add: rounded_def nearest_double_of_int [OF assms])
qed

lemma rounded_nonneg: "rounded x = Finite r \<Longrightarrow> 0 \<le> x \<Longrightarrow> 0 \<le> r"
  by (auto simp: rounded_def nearest_double_nonneg split: if_splits)

end
