(* ===== verification/Claim_Form.thy ===== *)
theory Claim_Form
  imports Evidence_Model Text_Patterns Python_Float
begin

text \<open>
  The structured facts of a Claim (\<open>backend/domain/models.py\<close> and
  \<open>backend/domain/field_registry.py\<close>): values as Python has them, source-linked assertions, form
  fields, contents items and the intake part of a Claim, with the validators of these models and
  the helpers the form rules share. \<open>intake_claim\<close> extends the Claim of the recovery model by
  the fields the form rules read.

  A \<open>float\<close> is the rational number it stands for or not finite; what the code converts to a \<open>float\<close>
  is rounded as in \<open>Python_Float\<close>.
\<close>

section \<open>Values\<close>

datatype fact_value =
    V_null
  | V_bool bool
  | V_int int
  | V_float rat
  | V_nan
  | V_infinity bool
  | V_text string
  | V_list "fact_value list"
  | V_dict "(string \<times> fact_value) list"

fun is_V_text :: "fact_value \<Rightarrow> bool" where
  "is_V_text (V_text s) = True"
| "is_V_text _ = False"

text \<open>\<open>bool(value)\<close> and \<open>value == True\<close>, which holds for the numbers equal to one as well.\<close>

fun py_truth :: "fact_value \<Rightarrow> bool" where
  "py_truth V_null = False"
| "py_truth (V_bool b) = b"
| "py_truth (V_int i) = (i \<noteq> 0)"
| "py_truth (V_float r) = (r \<noteq> 0)"
| "py_truth V_nan = True"
| "py_truth (V_infinity negative) = True"
| "py_truth (V_text s) = (s \<noteq> [])"
| "py_truth (V_list xs) = (xs \<noteq> [])"
| "py_truth (V_dict d) = (d \<noteq> [])"

fun equals_true :: "fact_value \<Rightarrow> bool" where
  "equals_true (V_bool b) = b"
| "equals_true (V_int i) = (i = 1)"
| "equals_true (V_float r) = (r = 1)"
| "equals_true _ = False"

text \<open>A list or a dictionary cannot be hashed, so a set membership test on one raises.\<close>

fun hashable :: "fact_value \<Rightarrow> bool" where
  "hashable (V_list xs) = False"
| "hashable (V_dict d) = False"
| "hashable _ = True"

definition normal_text :: "string \<Rightarrow> string" where
  "normal_text s = py_lower (py_strip s)"

section \<open>Facts\<close>

datatype form_source =
    Src_claimant | Src_image | Src_document | Src_policy | Src_claim_history | Src_inference
  | Src_staff

datatype form_status =
    Proposed | Confirmed | Disputed | Missing | Pending_generation | Unavailable | Superseded

datatype fact_resolution_state =
    Res_resolved | Res_needs_confirmation | Res_clarification_required | Res_unavailable
  | Res_superseded

datatype fact_precision = Exact | Approximate | Range | Partial | Unknown

datatype assertion_relation =
    Rel_initial | Rel_equivalent | Rel_refinement | Rel_correction | Rel_material_conflict
  | Rel_irrelevant

datatype needed_for = Need_current_action | Need_awaiting_reconciliation

record fact_assertion =
  as_assertion_id :: string
  as_reported_text :: "string option"
  as_normalized_value :: fact_value
  as_source_refs :: "string list"
  as_relation :: assertion_relation
  as_status :: form_status
  as_precision :: fact_precision
  as_reason_code :: "string option"
  as_created_at :: datetime

record form_field =
  ff_value :: fact_value
  ff_source :: form_source
  ff_source_refs :: "string list"
  ff_status :: form_status
  ff_needed_for :: needed_for
  ff_confidence :: "rat option"
  ff_resolution_state :: "fact_resolution_state option"
  ff_precision :: fact_precision
  ff_normalised :: bool
  ff_current_assertion_id :: "string option"
  ff_assertions :: "fact_assertion list"
  ff_updated_at :: datetime
  ff_updated_by :: actor_reference

definition resolution_of :: "form_status \<Rightarrow> fact_resolution_state" where
  "resolution_of st = (case st of
     Confirmed \<Rightarrow> Res_resolved
   | Disputed \<Rightarrow> Res_clarification_required
   | Unavailable \<Rightarrow> Res_unavailable
   | Superseded \<Rightarrow> Res_superseded
   | _ \<Rightarrow> Res_needs_confirmation)"

definition derive_resolution_state :: "form_field \<Rightarrow> form_field" where
  "derive_resolution_state f = (if ff_resolution_state f = None
     then f\<lparr>ff_resolution_state := Some (resolution_of (ff_status f))\<rparr> else f)"

section \<open>Contents items\<close>

datatype contents_loss_type = Loss_damaged | Loss_lost | Loss_stolen | Loss_destroyed

datatype contents_ownership = Own_owned | Own_leased | Own_borrowed | Own_gifted | Own_other

record money_amount =
  ma_amount :: rat
  ma_currency :: string

text \<open>The description of an item that its proposals, its assertions and the item itself carry.\<close>

record item_details =
  it_description :: string
  it_category :: "string option"
  it_quantity :: int
  it_brand :: "string option"
  it_model :: "string option"
  it_loss_type :: "contents_loss_type option"
  it_ownership :: "contents_ownership option"
  it_estimated_value :: "money_amount option"

record item_assertion =
  ia_assertion_id :: string
  ia_details :: item_details
  ia_reported_text :: "string option"
  ia_source_refs :: "string list"
  ia_relation :: assertion_relation
  ia_status :: form_status
  ia_created_at :: datetime

record contents_item =
  ci_item_id :: string
  ci_details :: item_details
  ci_source :: form_source
  ci_source_refs :: "string list"
  ci_status :: form_status
  ci_needed_for :: needed_for
  ci_confidence :: "rat option"
  ci_resolution_state :: "fact_resolution_state option"
  ci_current_assertion_id :: "string option"
  ci_assertions :: "item_assertion list"
  ci_updated_at :: datetime
  ci_updated_by :: actor_reference

datatype item_error = ConfirmedItemIncomplete

definition item_complete :: "item_details \<Rightarrow> bool" where
  "item_complete d \<longleftrightarrow> it_category d \<noteq> None \<and> it_loss_type d \<noteq> None \<and> it_ownership d \<noteq> None"

definition derive_legacy_resolution_state :: "contents_item \<Rightarrow> item_error + contents_item" where
  "derive_legacy_resolution_state i =
     guarded [(ci_status i = Confirmed \<and> \<not> item_complete (ci_details i), ConfirmedItemIncomplete)]
       (Inr (if ci_resolution_state i = None
         then i\<lparr>ci_resolution_state := Some (resolution_of (ci_status i))\<rparr> else i))"

section \<open>Temporal facts\<close>

record temporal_value =
  tv_date :: "string option"
  tv_time :: "string option"
  tv_timezone :: "string option"
  tv_precision :: fact_precision
  tv_start :: "string option"
  tv_end :: "string option"
  tv_reported_text :: "string option"

datatype temporal_error = TemporalField | TemporalContent | RangeEndpoints

definition present :: "string option \<Rightarrow> bool" where
  "present t \<longleftrightarrow> t \<noteq> None \<and> t \<noteq> Some []"

definition require_temporal_content :: "temporal_value \<Rightarrow> temporal_error + temporal_value" where
  "require_temporal_content t =
     guarded
       [(\<not> (present (tv_date t) \<or> present (tv_time t) \<or> present (tv_start t) \<or> present (tv_end t)
           \<or> present (tv_reported_text t)), TemporalContent),
        (tv_precision t = Range \<and> \<not> (present (tv_start t) \<or> present (tv_end t)), RangeEndpoints)]
       (Inr t)"

definition precision_of :: "string \<Rightarrow> fact_precision option" where
  "precision_of s = map_of [(''exact'', Exact), (''approximate'', Approximate), (''range'', Range),
     (''partial'', Partial), (''unknown'', Unknown)] s"

text \<open>\<open>TemporalFactValue.model_validate\<close> on a dictionary; unknown keys are refused.\<close>

definition text_entry ::
  "(string \<times> fact_value) list \<Rightarrow> string \<Rightarrow> temporal_error + string option" where
  "text_entry d k = (case dict_get d k of
     None \<Rightarrow> Inr None
   | Some V_null \<Rightarrow> Inr None
   | Some (V_text s) \<Rightarrow> Inr (Some s)
   | Some _ \<Rightarrow> Inl TemporalField)"

definition precision_entry :: "(string \<times> fact_value) list \<Rightarrow> temporal_error + fact_precision" where
  "precision_entry d = (case dict_get d ''precision'' of
     None \<Rightarrow> Inr Unknown
   | Some (V_text s) \<Rightarrow> (case precision_of s of None \<Rightarrow> Inl TemporalField | Some p \<Rightarrow> Inr p)
   | Some _ \<Rightarrow> Inl TemporalField)"

definition TEMPORAL_KEYS :: "string list" where
  "TEMPORAL_KEYS = [''date'', ''time'', ''timezone'', ''precision'', ''start'', ''end'',
     ''reported_text'']"

definition temporal_of :: "(string \<times> fact_value) list \<Rightarrow> temporal_error + temporal_value" where
  "temporal_of d =
     guarded [(\<not> set (map fst d) \<subseteq> set TEMPORAL_KEYS, TemporalField)]
       (bind_result (text_entry d ''date'') (\<lambda>date.
        bind_result (text_entry d ''time'') (\<lambda>time.
        bind_result (text_entry d ''timezone'') (\<lambda>zone.
        bind_result (precision_entry d) (\<lambda>prec.
        bind_result (text_entry d ''start'') (\<lambda>from.
        bind_result (text_entry d ''end'') (\<lambda>to.
        bind_result (text_entry d ''reported_text'') (\<lambda>reported.
          require_temporal_content
            \<lparr>tv_date = date, tv_time = time, tv_timezone = zone, tv_precision = prec,
             tv_start = from, tv_end = to, tv_reported_text = reported\<rparr>))))))))"

section \<open>The intake part of a Claim\<close>

datatype coverage = Cov_not_assessed | Cov_clear | Cov_ambiguous | Cov_review_required

datatype fraud_signal = Fraud_none | Fraud_review_required

datatype customer_support =
    Support_self_service | Support_guided | Support_human_requested | Support_accessibility_required

datatype urgency = Urgency_normal | Urgency_urgent | Urgency_immediate_safety_risk

datatype agent_action =
    ASK | CLARIFY | CONFIRM | PROCEED | UPDATE | HANDOFF | URGENT_HANDOFF | CREATE_CLAIM

datatype support_need = Need_human_requested | Need_accessibility_required | Need_distress | Need_urgent

datatype severity = Sev_unassessed | Sev_fast_track | Sev_standard | Sev_complex

datatype routing_status = Routing_assigned | Routing_queued | Routing_not_required | Routing_failed

record intake_claim = working_claim +
  ic_incident_type :: "string option"
  ic_coverage :: coverage
  ic_fraud_signal :: fraud_signal
  ic_customer_support :: customer_support
  ic_urgency :: urgency
  ic_next_action :: agent_action
  ic_form :: "(string \<times> form_field) list"
  ic_contents_items :: "contents_item list"
  ic_evidence_summary :: evidence_summary
  ic_assessor_routing :: "routing_status option"

abbreviation form_get :: "intake_claim \<Rightarrow> string \<Rightarrow> form_field option" where
  "form_get c code \<equiv> dict_get (ic_form c) code"

section \<open>Registered amounts and trusted origins\<close>

text \<open>Where \<open>float(x)\<close> overflows, an integer raises and a text gives infinity.\<close>

datatype number_error = NumberOverflow

definition amount_prefix :: pattern where
  "amount_prefix = seqs [optional (lit ''nz''), optional (lit ''$''), Many Space]"

definition amount_digits :: pattern where
  "amount_digits = seqs [some_of Digit,
     optional (seqs [lit ''.'', Digit, optional Digit])]"

definition decimal_amount :: "string \<Rightarrow> rat" where
  "decimal_amount s = (let fraction = drop 1 (dropWhile (\<lambda>c. c \<noteq> CHR ''.'') s) in
     of_nat (decimal_value (without_char (CHR ''.'') s)) / 10 ^ length fraction)"

definition amount_text :: "string \<Rightarrow> string option" where
  "amount_text s = (case filter (\<lambda>y. \<exists>z\<in>set (ends amount_digits y). snd z = [])
       (ends amount_prefix (None, py_lower (without_char (CHR '','') (py_strip s)))) of
     [] \<Rightarrow> None
   | y # _ \<Rightarrow> Some (snd y))"

fun parse_registered_number :: "fact_value \<Rightarrow> number_error + rat option" where
  "parse_registered_number (V_int i) = (case rounded (of_int \<bar>i\<bar>) of
     Infinite \<Rightarrow> Inl NumberOverflow
   | Finite r \<Rightarrow> Inr (if 0 \<le> i then Some r else None))"
| "parse_registered_number (V_float r) = Inr (if 0 \<le> r then Some r else None)"
| "parse_registered_number (V_text s) = Inr (case amount_text s of
     None \<Rightarrow> None
   | Some t \<Rightarrow> (case rounded (decimal_amount t) of Infinite \<Rightarrow> None | Finite r \<Rightarrow> Some r))"
| "parse_registered_number _ = Inr None"

definition trusted_origin ::
  "('a \<Rightarrow> string) \<Rightarrow> ('a \<Rightarrow> string list) \<Rightarrow> string option \<Rightarrow> 'a list \<Rightarrow> 'a option" where
  "trusted_origin name refs current xs = (case find (\<lambda>a. Some (name a) = current) xs of
     None \<Rightarrow> None
   | Some a \<Rightarrow> if refs a = [] then None else Some a)"

abbreviation field_origin :: "form_field \<Rightarrow> fact_assertion option" where
  "field_origin f \<equiv> trusted_origin as_assertion_id as_source_refs (ff_current_assertion_id f)
     (ff_assertions f)"

abbreviation item_origin :: "contents_item \<Rightarrow> item_assertion option" where
  "item_origin i \<equiv> trusted_origin ia_assertion_id ia_source_refs (ci_current_assertion_id i)
     (ci_assertions i)"

definition AUTHORITY_SENSITIVE :: "string list" where
  "AUTHORITY_SENSITIVE = [''claim.product_family'', ''incident.injury_or_danger'',
     ''parties.other_parties'', ''incident.type'']"

definition needs_confirmation :: "form_field \<Rightarrow> string \<Rightarrow> bool" where
  "needs_confirmation f code \<longleftrightarrow> ff_source f = Src_inference \<or> ff_status f = Disputed
     \<or> code \<in> set AUTHORITY_SENSITIVE \<and> ff_source f \<noteq> Src_claimant"

section \<open>Facts about the shared helpers\<close>

lemma derive_resolution_state_Some: "ff_resolution_state (derive_resolution_state f) \<noteq> None"
  by (simp add: derive_resolution_state_def)

lemma trusted_origin_Some:
  "trusted_origin name refs current xs = Some a \<Longrightarrow>
     a \<in> set xs \<and> current = Some (name a) \<and> refs a \<noteq> []"
  by (auto simp: trusted_origin_def find_Some_iff split: option.splits if_splits)

lemma parse_registered_number_bounds:
  "parse_registered_number v = Inr (Some r) \<Longrightarrow> 0 \<le> r"
  by (cases v) (auto simp: decimal_amount_def Let_def split: if_splits option.splits double.splits dest!: rounded_nonneg)

end
