(* ===== verification/Turn_Signals.thy ===== *)
theory Turn_Signals
  imports Claim_Form
begin

text \<open>
  What a claimant message signals without a model: the support a claimant asks for
  (\<open>backend/domain/support_intent.py\<close>), the shared safety vocabulary
  (\<open>backend/domain/safety_vocabulary.py\<close>) and the product family of a turn
  (\<open>backend/services/turn_family_resolution.py\<close>). The lemmas say when each support signal is
  returned, that a family resolution is always one its model accepts, and on what a selected
  family rests.
\<close>

section \<open>Support intent\<close>

datatype support_intent =
    Intent_none | Intent_explicit_human_request | Intent_accessibility_need | Intent_distress

definition human_words :: pattern where
  "human_words = alts [lit ''person'', lit ''human'', lit ''representative'',
     seqs [lit ''staff'', gap, lit ''member''],
     seqs [lit ''claim'', optional (lit ''s''), gap, lit ''professional'']]"

definition article :: pattern where
  "article = optional (seqs [lit ''a'', gap])"

definition an_article :: pattern where
  "an_article = optional (seqs [lit ''a'', optional (lit ''n''), gap])"

definition human_help :: pattern where
  "human_help = seqs [lit ''human'', gap, words [''help'', ''support'']]"

definition do_not :: pattern where
  "do_not = alts [seqs [lit ''do'', gap, lit ''not''], seqs [lit ''don'', optional (lit [CHR 0x27]), lit ''t''],
     lit ''dont'']"

definition no_longer :: pattern where
  "no_longer = seqs [lit ''no'', gap, lit ''longer'']"

definition accessibility_words :: pattern where
  "accessibility_words = alts [lit ''interpreter'', lit ''translator'',
     seqs [lit ''accessibility'', gap, lit ''support''],
     seqs [lit ''communication'', gap, lit ''assistance'']]"

definition i_am :: pattern where
  "i_am = alts [seqs [lit ''i'', gap, lit ''am''], seqs [lit ''i'', optional (lit [CHR 0x27]), lit ''m'']]"

definition EXPLICIT_HUMAN_PATTERNS :: "pattern list" where
  "EXPLICIT_HUMAN_PATTERNS =
     [seqs [Edge, words [''speak'', ''talk''], gap, words [''to'', ''with''], gap, article,
        human_words, Edge],
      seqs [Edge, words [''want'', ''need'', ''request''], gap, article, human_words, Edge],
      bounded human_help]"

definition NEGATED_HUMAN_PATTERNS :: "pattern list" where
  "NEGATED_HUMAN_PATTERNS =
     [seqs [Edge, Or do_not no_longer, gap, words [''need'', ''want'', ''request''], gap,
        optional (seqs [lit ''to'', gap]), optional (words [''speak'', ''talk'']), Many Space,
        optional (words [''to'', ''with'']), Many Space, article, Or human_words human_help, Edge],
      seqs [Edge, do_not, gap, lit ''need'', gap, human_help, Edge]]"

definition ACCESSIBILITY_PATTERNS :: "pattern list" where
  "ACCESSIBILITY_PATTERNS =
     [seqs [Edge, words [''need'', ''require'', ''request''], gap, an_article, accessibility_words,
        Edge],
      seqs [Edge, i_am, gap, alts [lit ''deaf'', lit ''blind'',
        seqs [lit ''hard'', gap, lit ''of'', gap, lit ''hearing'']], Edge]]"

definition NEGATED_ACCESSIBILITY_PATTERNS :: "pattern list" where
  "NEGATED_ACCESSIBILITY_PATTERNS =
     [seqs [Edge, Or do_not no_longer, gap, words [''need'', ''require'', ''request''], gap,
        an_article, accessibility_words, Edge]]"

definition DISTRESS_PATTERNS :: "pattern list" where
  "DISTRESS_PATTERNS =
     [seqs [Edge, alts [i_am, seqs [lit ''i'', gap, lit ''feel''],
          seqs [lit ''i'', optional (lit [CHR 0x27]), lit ''m'', gap, lit ''feeling'']], gap,
        alts [lit ''overwhelmed'', lit ''distressed'', lit ''panicking'',
          seqs [lit ''unable'', gap, lit ''to'', gap, lit ''cope'']], Edge],
      seqs [Edge, lit ''i'', gap,
        alts [lit ''cannot'', seqs [lit ''can'', optional (lit [CHR 0x27]), lit ''t''], lit ''cant''],
        gap, lit ''cope'', Edge]]"

definition NEGATED_DISTRESS_PATTERNS :: "pattern list" where
  "NEGATED_DISTRESS_PATTERNS =
     [seqs [Edge, i_am, gap, lit ''not'', gap, words [''overwhelmed'', ''distressed'', ''panicking''],
        Edge]]"

definition has_unnegated_signal :: "string \<Rightarrow> pattern list \<Rightarrow> pattern list \<Rightarrow> bool" where
  "has_unnegated_signal text patterns negations \<longleftrightarrow>
     list_ex (\<lambda>r. search r text) patterns \<and> \<not> list_ex (\<lambda>r. search r text) negations"

definition detect_support_intent :: "string \<Rightarrow> support_intent" where
  "detect_support_intent text =
     (if has_unnegated_signal text ACCESSIBILITY_PATTERNS NEGATED_ACCESSIBILITY_PATTERNS
        then Intent_accessibility_need
      else if has_unnegated_signal text DISTRESS_PATTERNS NEGATED_DISTRESS_PATTERNS
        then Intent_distress
      else if has_unnegated_signal text EXPLICIT_HUMAN_PATTERNS NEGATED_HUMAN_PATTERNS
        then Intent_explicit_human_request
      else Intent_none)"

fun support_need_for_intent :: "support_intent \<Rightarrow> support_need option" where
  "support_need_for_intent Intent_none = None"
| "support_need_for_intent Intent_explicit_human_request = Some Need_human_requested"
| "support_need_for_intent Intent_accessibility_need = Some Need_accessibility_required"
| "support_need_for_intent Intent_distress = Some Need_distress"

section \<open>Safety vocabulary\<close>

definition PAIN_SYMPTOM_PATTERN :: pattern where
  "PAIN_SYMPTOM_PATTERN = alts
     [seqs [lit ''sore'', gap, words [''neck'', ''back'', ''head'', ''arm'', ''leg'']],
      seqs [words [''neck'', ''back'', ''chest''], gap, lit ''pain'']]"

definition WEAK_SAFETY_PATTERN :: pattern where
  "WEAK_SAFETY_PATTERN = alts
     [seqs [lit ''injur'', words [''y'', ''ed'']], lit ''hurt'', PAIN_SYMPTOM_PATTERN, lit ''danger'',
      lit ''unsafe'', lit ''emergency'']"

definition WEAK_SAFETY_NEGATION_PATTERN :: pattern where
  "WEAK_SAFETY_NEGATION_PATTERN = alts [lit ''injured'', lit ''hurt'', lit ''in danger'']"

section \<open>The product family of a turn\<close>

definition MOTOR_TERMS :: pattern where
  "MOTOR_TERMS = bounded (alts [lit ''car'', lit ''vehicle'', lit ''motor'',
     seqs [lit ''driv'', words [''e'', ''ing'', ''able'']], lit ''road'', lit ''traffic'', lit ''collision'',
     lit ''crash'',
     seqs [lit ''rear'', optional (One_of ''- ''), lit ''end'', optional (words [''ed'', ''ing'', ''s''])],
     lit ''windscreen''])"

definition HOME_TERMS :: pattern where
  "HOME_TERMS = bounded (words [''home'', ''house'', ''property'', ''building'', ''roof'', ''wall'',
     ''floor'', ''room'', ''pipe'', ''plumb'', ''flood''])"

definition CONTENTS_TERMS :: pattern where
  "CONTENTS_TERMS = bounded (alts [seqs [lit ''content'', optional (lit ''s'')],
     seqs [lit ''belonging'', optional (lit ''s'')], lit ''laptop'', lit ''phone'', lit ''jewellery'',
     lit ''furniture'', lit ''stolen item'', lit ''theft''])"

definition FAMILY_TERMS :: "(string \<times> pattern) list" where
  "FAMILY_TERMS = [(''motor'', MOTOR_TERMS), (''home'', HOME_TERMS), (''contents'', CONTENTS_TERMS)]"

definition FAMILY_NAMES :: "string list" where
  "FAMILY_NAMES = [''motor'', ''home'', ''contents'']"

datatype family_status =
    Fam_authoritative | Fam_inferred | Fam_unresolved | Fam_ambiguous | Fam_conflicting

record turn_family =
  tf_product_family :: "string option"
  tf_status :: family_status
  tf_candidate_families :: "string list"

datatype family_error = ResolvedNeedsFamily | UnresolvedSelectsFamily | UnknownFamily

definition validate_resolution :: "turn_family \<Rightarrow> family_error + turn_family" where
  "validate_resolution r =
     guarded
       [(\<not> opt_all (\<lambda>f. f \<in> set FAMILY_NAMES) (tf_product_family r)
           \<or> \<not> set (tf_candidate_families r) \<subseteq> set FAMILY_NAMES, UnknownFamily),
        (tf_status r \<in> {Fam_authoritative, Fam_inferred} \<and> tf_product_family r = None,
           ResolvedNeedsFamily),
        (tf_status r \<in> {Fam_unresolved, Fam_ambiguous, Fam_conflicting} \<and> tf_product_family r \<noteq> None,
           UnresolvedSelectsFamily)]
       (Inr r)"

definition normalise_family :: "string \<Rightarrow> string option" where
  "normalise_family s = (if normal_text s \<in> set FAMILY_NAMES then Some (normal_text s) else None)"

fun value_family :: "fact_value \<Rightarrow> string option" where
  "value_family (V_text s) = normalise_family s"
| "value_family _ = None"

definition message_candidates :: "string \<Rightarrow> string list" where
  "message_candidates text = map fst (filter (\<lambda>(f, r). search r text) FAMILY_TERMS)"

definition optional_list :: "'a option \<Rightarrow> 'a list" where
  "optional_list x = (case x of None \<Rightarrow> [] | Some y \<Rightarrow> [y])"

definition family_of_field :: "form_status set \<Rightarrow> intake_claim \<Rightarrow> string option" where
  "family_of_field sts c = (case form_get c ''claim.product_family'' of
     None \<Rightarrow> None
   | Some f \<Rightarrow> if ff_status f \<in> sts then value_family (ff_value f) else None)"

definition persisted_families :: "intake_claim \<Rightarrow> string list" where
  "persisted_families c = fromkeys
     (optional_list (Option.bind (ic_incident_type c) normalise_family)
      @ optional_list (family_of_field {Confirmed} c))"

definition stored_candidate :: "intake_claim \<Rightarrow> string option" where
  "stored_candidate c = family_of_field {Proposed, Disputed} c"

definition family_disputed :: "intake_claim \<Rightarrow> bool" where
  "family_disputed c \<longleftrightarrow> (case form_get c ''claim.product_family'' of
     None \<Rightarrow> False
   | Some f \<Rightarrow> ff_status f = Disputed)"

definition turn_candidates :: "intake_claim \<Rightarrow> string \<Rightarrow> string list" where
  "turn_candidates c text = fromkeys (message_candidates text @ optional_list (stored_candidate c))"

text \<open>
  \<open>previous\<close> is the selected family of the branch evaluation the caller passes, if it passes one.
\<close>

definition resolve_turn_family ::
  "intake_claim \<Rightarrow> string option \<Rightarrow> string \<Rightarrow> bool \<Rightarrow> turn_family" where
  "resolve_turn_family c previous text model_family_judgment =
     (let authoritative = persisted_families c;
          candidates = turn_candidates c text;
          result = (\<lambda>family status cands.
            \<lparr>tf_product_family = family, tf_status = status, tf_candidate_families = cands\<rparr>) in
      case authoritative of
        _ # _ # _ \<Rightarrow> result None Fam_conflicting authoritative
      | [selected] \<Rightarrow> result (Some selected) Fam_authoritative (fromkeys (authoritative @ candidates))
      | [] \<Rightarrow>
         if model_family_judgment then
           (case stored_candidate c of
              Some f \<Rightarrow>
                (if family_disputed c then result None Fam_ambiguous candidates
                 else result (Some f) Fam_inferred candidates)
            | None \<Rightarrow> result None Fam_unresolved (message_candidates text))
         else if 1 < length candidates \<or> family_disputed c \<and> stored_candidate c \<noteq> None
           then result None Fam_ambiguous candidates
         else (case candidates of
             f # _ \<Rightarrow> result (Some f) Fam_inferred candidates
           | [] \<Rightarrow> (case Option.bind previous normalise_family of
               Some f \<Rightarrow> result (Some f) Fam_inferred [f]
             | None \<Rightarrow> result None Fam_unresolved [])))"

section \<open>What the signals mean\<close>

definition signalled :: "string \<Rightarrow> pattern list \<Rightarrow> pattern list \<Rightarrow> bool" where
  "signalled text patterns negations \<longleftrightarrow>
     (\<exists>r\<in>set patterns. occurs r (py_lower text)) \<and> (\<forall>r\<in>set negations. \<not> occurs r (py_lower text))"

lemma has_unnegated_signal_iff: "has_unnegated_signal text ps ns \<longleftrightarrow> signalled text ps ns"
  by (auto simp: has_unnegated_signal_def signalled_def search_occurs list_ex_iff)

lemma normalise_family_Some: "normalise_family s = Some f \<Longrightarrow> f \<in> set FAMILY_NAMES"
  by (auto simp: normalise_family_def split: if_splits)

lemma value_family_Some: "value_family v = Some f \<Longrightarrow> f \<in> set FAMILY_NAMES"
  by (cases v) (auto dest: normalise_family_Some)

lemma family_of_field_Some: "family_of_field sts c = Some f \<Longrightarrow> f \<in> set FAMILY_NAMES"
  by (auto simp: family_of_field_def dest: value_family_Some split: option.splits if_splits)

lemma optional_list_set [simp]: "set (optional_list x) = set_option x"
  by (cases x) (simp_all add: optional_list_def)

lemma message_candidates_known: "set (message_candidates text) \<subseteq> set FAMILY_NAMES"
  by (auto simp: message_candidates_def FAMILY_TERMS_def FAMILY_NAMES_def)

lemma persisted_families_known: "set (persisted_families c) \<subseteq> set FAMILY_NAMES"
  by (auto simp: persisted_families_def elem_set bind_eq_Some_conv
      dest: normalise_family_Some family_of_field_Some)

lemma turn_candidates_known: "set (turn_candidates c text) \<subseteq> set FAMILY_NAMES"
  using message_candidates_known [of "text"]
  by (auto simp: turn_candidates_def stored_candidate_def elem_set dest: family_of_field_Some)

lemma resolve_turn_family_cases:
  obtains (conflicting) "1 < length (persisted_families c)"
      "resolve_turn_family c previous text m = \<lparr>tf_product_family = None,
         tf_status = Fam_conflicting, tf_candidate_families = persisted_families c\<rparr>"
    | (authoritative) f where "persisted_families c = [f]"
      "resolve_turn_family c previous text m = \<lparr>tf_product_family = Some f,
         tf_status = Fam_authoritative,
         tf_candidate_families = fromkeys (f # turn_candidates c text)\<rparr>"
    | (proposed) f where "persisted_families c = []" "m" "stored_candidate c = Some f"
      "\<not> family_disputed c"
      "resolve_turn_family c previous text m = \<lparr>tf_product_family = Some f,
         tf_status = Fam_inferred, tf_candidate_families = turn_candidates c text\<rparr>"
    | (inferred) f where "persisted_families c = []" "\<not> m" "turn_candidates c text = [f]"
      "\<not> (family_disputed c \<and> stored_candidate c \<noteq> None)"
      "resolve_turn_family c previous text m = \<lparr>tf_product_family = Some f,
         tf_status = Fam_inferred, tf_candidate_families = [f]\<rparr>"
    | (carried) f where "persisted_families c = []" "\<not> m" "turn_candidates c text = []"
      "Option.bind previous normalise_family = Some f"
      "resolve_turn_family c previous text m = \<lparr>tf_product_family = Some f,
         tf_status = Fam_inferred, tf_candidate_families = [f]\<rparr>"
    | (ambiguous) "persisted_families c = []"
      "resolve_turn_family c previous text m = \<lparr>tf_product_family = None,
         tf_status = Fam_ambiguous, tf_candidate_families = turn_candidates c text\<rparr>"
    | (unresolved) cs where "persisted_families c = []" "set cs \<subseteq> set (message_candidates text)"
      "resolve_turn_family c previous text m = \<lparr>tf_product_family = None,
         tf_status = Fam_unresolved, tf_candidate_families = cs\<rparr>"
proof (cases "persisted_families c")
  case Nil
  show ?thesis
  proof (cases m)
    case True
    then show ?thesis
      using Nil proposed ambiguous unresolved [of "message_candidates text"]
      by (cases "stored_candidate c"; cases "family_disputed c")
        (simp_all add: resolve_turn_family_def Let_def)
  next
    case False
    show ?thesis
    proof (cases "1 < length (turn_candidates c text) \<or> family_disputed c \<and> stored_candidate c \<noteq> None")
      case True
      then show ?thesis using Nil False ambiguous
        by (auto simp: resolve_turn_family_def Let_def)
    next
      case few: False
      then consider f where "turn_candidates c text = [f]" | "turn_candidates c text = []"
        by (cases "turn_candidates c text"; cases "tl (turn_candidates c text)") auto
      then show ?thesis
      proof cases
        case 1
        then show ?thesis using Nil False few inferred [of f]
          by (auto simp: resolve_turn_family_def Let_def)
      next
        case 2
        then show ?thesis using Nil False few carried unresolved [of "[]"]
          by (cases "Option.bind previous normalise_family")
            (auto simp: resolve_turn_family_def Let_def)
      qed
    qed
  qed
next
  case (Cons f fs)
  then show ?thesis
    using conflicting authoritative by (cases fs) (simp_all add: resolve_turn_family_def Let_def)
qed

lemma resolve_turn_family_valid:
  "validate_resolution (resolve_turn_family c previous text m) = Inr (resolve_turn_family c previous text m)"
proof -
  note known = persisted_families_known [of c] turn_candidates_known [of c "text"]
    message_candidates_known [of "text"]
  show ?thesis
    by (rule resolve_turn_family_cases [of c previous "text" m])
      (use known in \<open>auto simp: validate_resolution_def bind_eq_Some_conv stored_candidate_def
         dest: normalise_family_Some family_of_field_Some\<close>)
qed

end
