(* ===== verification/Branch_Registry.thy ===== *)
theory Branch_Registry
  imports Turn_Signals
begin

text \<open>
  The registry of the dynamic form (\<open>backend/domain/branch_registry.py\<close>, its data and its
  read-only functions): registered fields with their value contracts, content branches with their
  collection policies, and the check of a form value against its contract. A frozen set is a
  list without repetitions in source order. The published overlay of controlled rules
  (\<open>backend/domain/agent_runtime_configuration.py\<close>,
  \<open>backend/services/runtime_agent_policy.py\<close>) is modelled with the rules it may not touch.
\<close>

section \<open>Vocabulary and tables\<close>

datatype branch_status = Br_active | Br_candidate | Br_suspended | Br_exited

datatype branch_kind = Kind_fact | Kind_workflow | Kind_record | Kind_projection

datatype collection_deadline =
    Due_required_now | Due_before_creation | Due_before_dispatch | Due_optional | Due_staff_only

datatype value_type = T_text | T_enum | T_boolean | T_temporal | T_location | T_number | T_text_list

definition FIELD_REGISTRY_VERSION :: string where
  "FIELD_REGISTRY_VERSION = ''8''"

definition BRANCH_RULES_VERSION :: string where
  "BRANCH_RULES_VERSION = ''vp-dynamic-form-branch-rules-v2''"

definition FAMILY_RULE_IDS :: "(string \<times> string) list" where
  "FAMILY_RULE_IDS = [(''motor'', ''BR-FAMILY-MOTOR-001''), (''home'', ''BR-FAMILY-HOME-001''),
    (''contents'', ''BR-FAMILY-CONTENTS-001'')]"

definition CONDITIONAL_TRANSITION_STATUS :: "(string \<times> branch_status) list" where
  "CONDITIONAL_TRANSITION_STATUS = [(''incident.collision'', Br_suspended),
    (''participant.another_party'', Br_exited), (''participant.witness'', Br_exited),
    (''authority.police'', Br_suspended), (''evidence.pending'', Br_exited),
    (''accommodation.temporary'', Br_exited), (''contents.theft'', Br_suspended),
    (''safety.injury_or_danger'', Br_suspended), (''injury.details'', Br_suspended),
    (''mitigation.emergency'', Br_exited), (''professional_review'', Br_exited), (''human_support'',
    Br_exited)]"

definition COMMON_FIELDS :: "string list" where
  "COMMON_FIELDS = [''policy.policy_number'', ''claimant.client_number'', ''claimant.role'',
    ''claimant.contact_preference'', ''claimant.relationship_to_policyholder'',
    ''policyholder.identity_ref'', ''policyholder.name'', ''claim.product_family'',
    ''incident.type'', ''incident.occurred_at'', ''incident.location'', ''incident.description'',
    ''incident.injury_or_danger'', ''incident.cause'', ''loss.description'',
    ''parties.other_parties'', ''incident.liability_position'', ''loss.estimated_amount'',
    ''claim.cover_disagreement'', ''authorities.emergency_services_notified'', ''police.status'']"

definition FAMILY_FIELDS :: "(string \<times> string list) list" where
  "FAMILY_FIELDS = [(''motor'', [''authorities.police_report_reference'', ''vehicle.registration'',
    ''vehicle.damage_description'', ''vehicle.drivable'', ''vehicle.use'',
    ''vehicle.towing_required'', ''vehicle.towing_location'', ''driver.identity_ref'',
    ''driver.name'', ''driver.phone'', ''driver.email'', ''driver.relationship_to_policyholder'',
    ''driver.owner_permission'', ''driver.licence_number'', ''driver.licence_status'',
    ''other_party.insurer_name'', ''other_party.policy_number'', ''other_party.claim_reference'',
    ''witness.present'', ''witness.name'', ''witness.phone'', ''witness.email'']), (''home'',
    [''property.address'', ''property.affected_areas'', ''property.ongoing_risk'',
    ''property.habitable'', ''property.occupancy_relationship'', ''property.occupancy'']),
    (''contents'', [])]"

definition FAMILY_DOCUMENTS :: "(string \<times> string list) list" where
  "FAMILY_DOCUMENTS = [(''motor'', [''incident_photo'', ''repair_quote'']), (''home'',
    [''incident_photo'', ''repair_quote'']), (''contents'', [''incident_photo'',
    ''proof_of_ownership''])]"

definition FAMILY_REQUIRED :: "(string \<times> string list) list" where
  "FAMILY_REQUIRED = [(''motor'', [''vehicle.damage_description'', ''vehicle.drivable'']),
    (''home'', [''property.address'', ''property.affected_areas'', ''property.ongoing_risk'',
    ''property.habitable'', ''loss.description'']), (''contents'', [''contents.items''])]"

definition REQUIREMENT_PRIORITY :: "string list" where
  "REQUIREMENT_PRIORITY = [''claim.product_family'', ''incident.description'',
    ''incident.injury_or_danger'', ''injury.persons_affected'', ''injury.severity_reported'',
    ''injury.medical_attention'', ''incident.occurred_at'', ''incident.location'',
    ''loss.description'', ''parties.other_parties'', ''incident.liability_position'',
    ''vehicle.damage_description'', ''vehicle.drivable'', ''property.address'',
    ''property.affected_areas'', ''property.ongoing_risk'', ''property.habitable'',
    ''contents.items'', ''theft.entry_context'', ''incident.discovered_at'']"

definition COMMON_REQUIRED :: "string list" where
  "COMMON_REQUIRED = [''claim.product_family'', ''incident.description'',
    ''incident.injury_or_danger'', ''incident.occurred_at'', ''incident.location'']"

definition SYSTEM_OWNED_FIELDS :: "string list" where
  "SYSTEM_OWNED_FIELDS = [''claimant.client_number'']"

definition CLAIMANT_HIDDEN_FIELDS :: "string list" where
  "CLAIMANT_HIDDEN_FIELDS = [''claimant.client_number'', ''driver.licence_number'',
    ''other_party.policy_number'']"

definition FIELD_VALUE_CONTRACTS :: "(string \<times> value_type \<times> string list) list" where
  "FIELD_VALUE_CONTRACTS = [(''policy.policy_number'', T_text, []), (''claimant.client_number'',
    T_text, []), (''claimant.role'', T_text, []), (''claimant.contact_preference'', T_enum,
    [''in_app'', ''email'', ''phone'', ''sms'']), (''claimant.relationship_to_policyholder'',
    T_enum, [''policyholder'', ''spouse'', ''partner'', ''family'', ''employee'', ''other'',
    ''unknown'']), (''policyholder.identity_ref'', T_text, []), (''policyholder.name'', T_text, []),
    (''claim.product_family'', T_enum, [''motor'', ''home'', ''contents'']), (''incident.type'',
    T_enum, [''collision'', ''fire'', ''water'', ''theft'', ''weather'', ''other'']),
    (''incident.occurred_at'', T_temporal, []), (''incident.location'', T_location, []),
    (''incident.description'', T_text, []), (''incident.injury_or_danger'', T_boolean, []),
    (''incident.cause'', T_text, []), (''loss.description'', T_text, []),
    (''parties.other_parties'', T_boolean, []), (''incident.liability_position'', T_enum,
    [''other_party_accepts'', ''claimant_accepts'', ''shared'', ''disputed'', ''unknown'']),
    (''loss.estimated_amount'', T_number, []), (''claim.cover_disagreement'', T_enum, [''none'',
    ''excess'', ''cover'']), (''authorities.police_report_reference'', T_text, []),
    (''authorities.emergency_services_notified'', T_boolean, []), (''vehicle.registration'', T_text,
    []), (''vehicle.damage_description'', T_text, []), (''vehicle.drivable'', T_boolean, []),
    (''vehicle.use'', T_enum, [''private'', ''commuting'', ''business'', ''rideshare_delivery'',
    ''other'', ''unknown'']), (''vehicle.towing_required'', T_enum, [''required'', ''not_required'',
    ''already_towed'', ''unknown'']), (''vehicle.towing_location'', T_location, []),
    (''driver.identity_ref'', T_text, []), (''driver.name'', T_text, []), (''driver.phone'', T_text,
    []), (''driver.email'', T_text, []), (''driver.relationship_to_policyholder'', T_enum,
    [''policyholder'', ''spouse'', ''partner'', ''family'', ''employee'', ''other'', ''unknown'']),
    (''driver.owner_permission'', T_enum, [''confirmed'', ''not_confirmed'', ''unknown'',
    ''not_applicable'']), (''driver.licence_number'', T_text, []), (''driver.licence_status'',
    T_enum, [''valid'', ''expired'', ''suspended'', ''learner'', ''restricted'', ''unknown'']),
    (''other_party.insurer_name'', T_text, []), (''other_party.policy_number'', T_text, []),
    (''other_party.claim_reference'', T_text, []), (''witness.present'', T_enum, [''yes'', ''no'',
    ''unknown'']), (''witness.name'', T_text, []), (''witness.phone'', T_text, []),
    (''witness.email'', T_text, []), (''police.status'', T_enum, [''not_reported'', ''reported'',
    ''reference_pending'', ''reference_available'', ''not_required'', ''unknown'']),
    (''property.address'', T_location, []), (''property.affected_areas'', T_text_list, []),
    (''property.ongoing_risk'', T_enum, [''none'', ''active_leak'', ''fire'', ''collapse'',
    ''exposure'', ''other'']), (''property.habitable'', T_boolean, []),
    (''property.occupancy_relationship'', T_enum, [''owner'', ''tenant'', ''landlord'',
    ''authorised_representative'', ''other'']), (''property.occupancy'', T_enum, [''occupied'',
    ''vacant'', ''partially_occupied'', ''unknown'']), (''injury.persons_affected'', T_text_list,
    []), (''injury.severity_reported'', T_enum, [''minor'', ''needs_medical_attention'',
    ''serious'', ''unknown'']), (''injury.medical_attention'', T_enum, [''none'', ''self_treated'',
    ''gp_or_clinic'', ''ambulance_called'', ''hospitalised'', ''unknown'']),
    (''incident.discovered_at'', T_temporal, []), (''theft.entry_context'', T_enum,
    [''forced_entry'', ''unlocked'', ''unknown'', ''not_applicable'']),
    (''contents.police_reference'', T_text, [])]"

section \<open>Fields, branches and the registry\<close>

record field_definition =
  fd_code :: string
  fd_value_type :: value_type
  fd_allowed_values :: "string list"
  fd_families :: "string list"
  fd_system_owned :: bool
  fd_claimant_visible :: bool

record content_branch =
  cb_branch_id :: string
  cb_rule_id :: string
  cb_family :: "string option"
  cb_fields :: "string list"
  cb_kind :: branch_kind
  cb_collection_policy :: "(string \<times> collection_deadline) list"
  cb_record_intents :: "string list"
  cb_document_requirements :: "string list"

record branch_registry =
  rg_field_registry_version :: string
  rg_branch_rules_version :: string
  rg_fields :: "field_definition list"
  rg_branches :: "content_branch list"

definition field_codes :: "branch_registry \<Rightarrow> string list" where
  "field_codes reg = map fd_code (rg_fields reg)"

text \<open>A dictionary built from a sequence keeps the last entry of a key.\<close>

definition branch_by_id :: "branch_registry \<Rightarrow> string \<Rightarrow> content_branch option" where
  "branch_by_id reg = map_of (rev (map (\<lambda>b. (cb_branch_id b, b)) (rg_branches reg)))"

definition field_by_code :: "branch_registry \<Rightarrow> string \<Rightarrow> field_definition option" where
  "field_by_code reg = map_of (rev (map (\<lambda>f. (fd_code f, f)) (rg_fields reg)))"

definition entries :: "(string \<times> 'a list) list \<Rightarrow> string \<Rightarrow> 'a list" where
  "entries t k = (case map_of t k of None \<Rightarrow> [] | Some xs \<Rightarrow> xs)"

definition field_definition_of :: "string \<Rightarrow> value_type \<times> string list \<Rightarrow> field_definition" where
  "field_definition_of code contract =
     \<lparr>fd_code = code, fd_value_type = fst contract, fd_allowed_values = snd contract,
      fd_families = map fst (filter (\<lambda>(f, codes). code \<in> set codes) FAMILY_FIELDS),
      fd_system_owned = code \<in> set SYSTEM_OWNED_FIELDS,
      fd_claimant_visible = code \<notin> set CLAIMANT_HIDDEN_FIELDS\<rparr>"

definition registered_fields_of :: "string set \<Rightarrow> field_definition list" where
  "registered_fields_of codes = concat (map (\<lambda>code. case map_of FIELD_VALUE_CONTRACTS code of
     None \<Rightarrow> [] | Some contract \<Rightarrow> [field_definition_of code contract]) (sorted_list_of_set codes))"

definition executable :: "string set \<Rightarrow> string list \<Rightarrow> string list" where
  "executable codes xs = filter (\<lambda>c. c \<in> codes) xs"

definition family_branch :: "string set \<Rightarrow> string \<Rightarrow> content_branch" where
  "family_branch codes family =
     \<lparr>cb_branch_id = ''family.'' @ family,
      cb_rule_id = (case map_of FAMILY_RULE_IDS family of None \<Rightarrow> [] | Some r \<Rightarrow> r),
      cb_family = Some family,
      cb_fields = executable codes (COMMON_FIELDS @ entries FAMILY_FIELDS family),
      cb_kind = Kind_fact,
      cb_collection_policy = map (\<lambda>c. (c, Due_required_now)) (entries FAMILY_REQUIRED family),
      cb_record_intents = [],
      cb_document_requirements = entries FAMILY_DOCUMENTS family\<rparr>"

definition new_branch :: "string \<Rightarrow> string \<Rightarrow> string list \<Rightarrow> branch_kind \<Rightarrow> content_branch" where
  "new_branch branch rule codes kind =
     \<lparr>cb_branch_id = branch, cb_rule_id = rule, cb_family = None, cb_fields = codes,
      cb_kind = kind, cb_collection_policy = [], cb_record_intents = [],
      cb_document_requirements = []\<rparr>"

definition conditional_content :: "string set \<Rightarrow> content_branch list" where
  "conditional_content codes =
     [(new_branch ''incident.collision'' ''BR-COLLISION-001''
         (executable codes [''parties.other_parties'']) Kind_fact)
        \<lparr>cb_collection_policy := [(''parties.other_parties'', Due_required_now)],
         cb_record_intents := [''motor_other_driver'']\<rparr>,
      (new_branch ''participant.another_party'' ''BR-PARTICIPANT-OTHER-001''
         (executable codes [''parties.other_parties'']) Kind_record)
        \<lparr>cb_record_intents := [''motor_other_driver'']\<rparr>,
      new_branch ''participant.witness'' ''BR-PARTICIPANT-WITNESS-001'' [] Kind_projection,
      (new_branch ''authority.police'' ''BR-AUTHORITY-POLICE-001''
         (executable codes [''authorities.police_report_reference'',
            ''authorities.emergency_services_notified'']) Kind_record)
        \<lparr>cb_collection_policy := [(''authorities.police_report_reference'', Due_optional)],
         cb_record_intents := [''evidence_pending_police_report''],
         cb_document_requirements := [''police_report'']\<rparr>,
      new_branch ''evidence.pending'' ''BR-EVIDENCE-PENDING-001''
         (executable codes [''authorities.police_report_reference'']) Kind_record,
      (new_branch ''accommodation.temporary'' ''BR-ACCOMMODATION-001'' [] Kind_record)
        \<lparr>cb_family := Some ''home'', cb_record_intents := [''accommodation_work_item'']\<rparr>,
      (new_branch ''contents.theft'' ''BR-THEFT-001''
         [''theft.entry_context'', ''incident.discovered_at'', ''contents.police_reference''] Kind_fact)
        \<lparr>cb_collection_policy := [(''theft.entry_context'', Due_required_now),
           (''incident.discovered_at'', Due_before_creation),
           (''contents.police_reference'', Due_optional)],
         cb_document_requirements := [''police_report'', ''proof_of_ownership'']\<rparr>,
      new_branch ''safety.injury_or_danger'' ''BR-SAFETY-001''
         (executable codes [''incident.injury_or_danger'']) Kind_workflow,
      (new_branch ''injury.details'' ''BR-INJURY-DETAILS-001''
         (executable codes [''injury.persons_affected'', ''injury.severity_reported'',
            ''injury.medical_attention'']) Kind_fact)
        \<lparr>cb_collection_policy := [(''injury.persons_affected'', Due_required_now),
           (''injury.severity_reported'', Due_required_now),
           (''injury.medical_attention'', Due_before_creation)],
         cb_document_requirements := [''other_document'']\<rparr>,
      (new_branch ''mitigation.emergency'' ''BR-MITIGATION-001'' [] Kind_record)
        \<lparr>cb_record_intents := [''mitigation_work_item'']\<rparr>,
      new_branch ''professional_review'' ''BR-REVIEW-001'' [] Kind_workflow,
      new_branch ''human_support'' ''BR-HUMAN-SUPPORT-001'' [] Kind_workflow]"

datatype form_registry_error = ContractsMismatch

definition build_registry :: "string set \<Rightarrow> form_registry_error + branch_registry" where
  "build_registry codes =
     guarded [(codes \<noteq> set (map fst FIELD_VALUE_CONTRACTS), ContractsMismatch)]
       (Inr \<lparr>rg_field_registry_version = FIELD_REGISTRY_VERSION,
             rg_branch_rules_version = BRANCH_RULES_VERSION,
             rg_fields = registered_fields_of codes,
             rg_branches = map (family_branch codes) FAMILY_NAMES @ conditional_content codes\<rparr>)"

definition build_default_registry :: "form_registry_error + branch_registry" where
  "build_default_registry = build_registry REGISTERED_FIELD_CODES"

definition default_registry :: branch_registry where
  "default_registry =
     \<lparr>rg_field_registry_version = FIELD_REGISTRY_VERSION,
      rg_branch_rules_version = BRANCH_RULES_VERSION,
      rg_fields = registered_fields_of REGISTERED_FIELD_CODES,
      rg_branches = map (family_branch REGISTERED_FIELD_CODES) FAMILY_NAMES
        @ conditional_content REGISTERED_FIELD_CODES\<rparr>"

section \<open>Form values\<close>

datatype value_error = UnknownRegisteredField string | ValueContract string value_type | ValueOverflow

definition filled_text :: "fact_value \<Rightarrow> bool" where
  "filled_text v = (case v of V_text s \<Rightarrow> \<not> blank s | _ \<Rightarrow> False)"

definition value_matches :: "field_definition \<Rightarrow> fact_value \<Rightarrow> value_error + bool" where
  "value_matches d v = (case fd_value_type d of
     T_text \<Rightarrow> Inr (filled_text v)
   | T_boolean \<Rightarrow> Inr (case v of V_bool b \<Rightarrow> True | _ \<Rightarrow> False)
   | T_enum \<Rightarrow> Inr (case v of V_text s \<Rightarrow> normal_text s \<in> set (fd_allowed_values d) | _ \<Rightarrow> False)
   | T_location \<Rightarrow> Inr (filled_text v \<or> (case v of V_dict m \<Rightarrow> m \<noteq> [] | _ \<Rightarrow> False))
   | T_number \<Rightarrow> (case parse_registered_number v of
        Inl _ \<Rightarrow> Inl ValueOverflow
      | Inr r \<Rightarrow> Inr (r \<noteq> None))
   | T_text_list \<Rightarrow> Inr (case v of V_list xs \<Rightarrow> xs \<noteq> [] \<and> list_all filled_text xs | _ \<Rightarrow> False)
   | T_temporal \<Rightarrow> Inr (case v of
        V_dict m \<Rightarrow> (case temporal_of m of Inl _ \<Rightarrow> False | Inr _ \<Rightarrow> True)
      | _ \<Rightarrow> filled_text v))"

definition validate_registered_field_value ::
  "branch_registry \<Rightarrow> string \<Rightarrow> fact_value \<Rightarrow> form_status \<Rightarrow> value_error + unit" where
  "validate_registered_field_value reg code v st = (case field_by_code reg code of
     None \<Rightarrow> Inl (UnknownRegisteredField code)
   | Some d \<Rightarrow>
       if v = V_null \<and> st \<in> {Missing, Pending_generation, Unavailable, Superseded} then Inr ()
       else bind_result (value_matches d v) (\<lambda>valid.
         if valid then Inr () else Inl (ValueContract code (fd_value_type d))))"

section \<open>Controlled rules\<close>

record controlled_rules =
  cr_rules_version :: string
  cr_disabled_rule_ids :: "string list"
  cr_observation_rule_ids :: "string list"

datatype rules_error =
    RulesField | DuplicateDisabled | DuplicateObserved | DisabledAndObserved | UnknownRules
  | ProtectedRules

definition PROTECTED_RULE_IDS :: "string list" where
  "PROTECTED_RULE_IDS = [''BR-FAMILY-MOTOR-001'', ''BR-FAMILY-HOME-001'', ''BR-FAMILY-CONTENTS-001'',
     ''BR-SAFETY-001'', ''BR-REVIEW-001'', ''BR-HUMAN-SUPPORT-001'']"

definition require_disjoint_unique_rules :: "controlled_rules \<Rightarrow> rules_error + controlled_rules" where
  "require_disjoint_unique_rules r =
     guarded
       [(\<not> bounded_text 1 100 (cr_rules_version r) \<or> 100 < length (cr_disabled_rule_ids r)
           \<or> 100 < length (cr_observation_rule_ids r), RulesField),
        (\<not> distinct (cr_disabled_rule_ids r), DuplicateDisabled),
        (\<not> distinct (cr_observation_rule_ids r), DuplicateObserved),
        (set (cr_disabled_rule_ids r) \<inter> set (cr_observation_rule_ids r) \<noteq> {}, DisabledAndObserved)]
       (Inr r)"

definition registered_rule_ids :: "string list" where
  "registered_rule_ids = map cb_rule_id (rg_branches default_registry)"

definition validate_controlled_rules :: "controlled_rules \<Rightarrow> rules_error + controlled_rules" where
  "validate_controlled_rules r =
     bind_result (require_disjoint_unique_rules r) (\<lambda>r.
       (let configured = cr_disabled_rule_ids r @ cr_observation_rule_ids r in
        guarded
          [(\<not> set configured \<subseteq> set registered_rule_ids, UnknownRules),
           (set configured \<inter> set PROTECTED_RULE_IDS \<noteq> {}, ProtectedRules)]
          (Inr r)))"

section \<open>The tables agree\<close>

lemma contracts_registered: "set (map fst FIELD_VALUE_CONTRACTS) = REGISTERED_FIELD_CODES"
  by code_simp

lemma default_registry_built: "build_default_registry = Inr default_registry"
  by (simp add: build_default_registry_def build_registry_def default_registry_def
      contracts_registered del: guarded.simps)
    (simp add: contracts_registered [symmetric])

end
