(* ===== verification/Branch_Rules.thy ===== *)
theory Branch_Rules
  imports Branch_Registry
begin

text \<open>
  The branch rules of the dynamic form (\<open>BranchRuleEvaluator\<close> of
  \<open>backend/domain/branch_registry.py\<close>): the records of an evaluation, and which content branches
  the facts of a Claim, the latest message, the previous evaluation and the published overlay
  activate. A lookup of an unregistered branch raises \<open>KeyError\<close>, here \<open>UnknownBranch\<close>; sets are
  lists read through membership, and where the code sorts a set the result is sorted.
\<close>

section \<open>Results\<close>

record branch_result =
  br_branch_id :: string
  br_rule_id :: string
  br_source_refs :: "string list"
  br_status :: branch_status
  br_reason :: string
  br_registered_fields :: "string list"

datatype selection_state =
    Sel_required_now | Sel_candidate_now | Sel_pending_later | Sel_inactive | Sel_system_owned

record field_selection =
  fs_field_code :: string
  fs_selection_state :: selection_state
  fs_value_state :: form_status
  fs_source :: "form_source option"
  fs_reason :: string

datatype requirement_state =
    Req_missing | Req_proposed | Req_confirmed_exact | Req_confirmed_approx | Req_disputed
  | Req_unavailable | Req_pending_generation

record requirement_resolution =
  rr_satisfied :: "string list"
  rr_recorded :: "string list"
  rr_missing_required_now :: "string list"
  rr_missing_by_branch :: "(string \<times> string list) list"
  rr_pending_later :: "string list"
  rr_by_state :: "(requirement_state \<times> string list) list"
  rr_unresolved :: "string list"
  rr_next_required_item :: "string option"
  rr_ready :: bool
  rr_ready_pending_confirmation :: bool
  rr_current_action_total :: nat

datatype work_item_intent =
    Field_intent string selection_state
  | Record_intent string string

datatype handoff_intent =
    Urgent_support
  | Human_support string "string list option"
  | Professional_review

datatype interruption =
    Interrupt_urgent_safety
  | Handoff_because string
  | Continue

record form_evaluation =
  fe_claim_id :: string
  fe_evaluated_against_claim_revision :: int
  fe_field_registry_version :: string
  fe_branch_rules_version :: string
  fe_selected_family :: "string option"
  fe_unresolved_family_conflict :: "string list"
  fe_active_branches :: "string list"
  fe_candidate_branches :: "string list"
  fe_suspended_branches :: "string list"
  fe_exited_branches :: "string list"
  fe_branch_results :: "branch_result list"
  fe_field_selection :: "field_selection list"
  fe_work_item_intents :: "work_item_intent list"
  fe_handoff_intents :: "handoff_intent list"
  fe_evidence_pending :: "int option"
  fe_interruption_result :: interruption
  fe_permitted_actions :: "agent_action list"
  fe_permitted_tools :: "string list"
  fe_requirements :: requirement_resolution
  fe_recomputation_reason :: string

text \<open>The part of a previous evaluation, result or stored record, that an evaluation reads.\<close>

record prior_evaluation =
  pe_branch_rules_version :: string
  pe_selected_family :: "string option"
  pe_branch_results :: "branch_result list"

definition prior_of :: "form_evaluation \<Rightarrow> prior_evaluation" where
  "prior_of e = \<lparr>pe_branch_rules_version = fe_branch_rules_version e,
     pe_selected_family = fe_selected_family e, pe_branch_results = fe_branch_results e\<rparr>"

record evaluator =
  ev_registry :: branch_registry
  ev_disabled_rule_ids :: "string list"
  ev_observation_rule_ids :: "string list"
  ev_model_family_judgment :: bool

record evaluation_input =
  in_latest_message :: string
  in_trigger_source_refs :: "string list"
  in_current_action :: "agent_action option"
  in_recomputation_reason :: string
  in_previous :: "prior_evaluation option"
  in_family_resolution :: "turn_family option"

datatype branch_error = UnknownBranch string

definition sorted_set :: "string list \<Rightarrow> string list" where
  "sorted_set xs = sort (remdups xs)"

section \<open>Facts of the Claim\<close>

definition source_refs_of :: "intake_claim \<Rightarrow> string list \<Rightarrow> string list" where
  "source_refs_of c codes = sorted_set (concat (map (\<lambda>code. case form_get c code of
     None \<Rightarrow> [] | Some f \<Rightarrow> ff_source_refs f) codes))"

definition truthy_value :: "fact_value \<Rightarrow> bool" where
  "truthy_value v = (case v of
     V_bool b \<Rightarrow> b
   | V_text s \<Rightarrow> normal_text s \<notin> set ['''', ''false'', ''no'', ''none'', ''not_applicable'']
   | _ \<Rightarrow> py_truth v)"

definition confirmed_truthy :: "intake_claim \<Rightarrow> string \<Rightarrow> bool" where
  "confirmed_truthy c code = (case form_get c code of
     None \<Rightarrow> False
   | Some f \<Rightarrow> ff_status f = Confirmed \<and> truthy_value (ff_value f))"

definition police_pending :: "intake_claim \<Rightarrow> bool" where
  "police_pending c \<longleftrightarrow> 0 < sm_pending (ic_evidence_summary c)
     \<or> (case form_get c ''authorities.police_report_reference'' of
          None \<Rightarrow> False
        | Some f \<Rightarrow> ff_status f = Pending_generation)"

section \<open>Branch results\<close>

definition new_branch_result ::
  "content_branch \<Rightarrow> branch_status \<Rightarrow> string \<Rightarrow> string list \<Rightarrow> branch_result" where
  "new_branch_result b st reason refs =
     \<lparr>br_branch_id = cb_branch_id b, br_rule_id = cb_rule_id b, br_source_refs = sorted_set refs,
      br_status = st, br_reason = reason,
      br_registered_fields = (if st \<in> {Br_active, Br_candidate} then sort (cb_fields b) else [])\<rparr>"

text \<open>A branch a rule has found, before its registry entry is looked up.\<close>

record branch_finding =
  bf_branch_id :: string
  bf_status :: branch_status
  bf_reason :: string
  bf_refs :: "string list"

definition found ::
  "evaluation_input \<Rightarrow> intake_claim \<Rightarrow> string \<Rightarrow> branch_status \<Rightarrow> string \<Rightarrow> string list \<Rightarrow> string list
     \<Rightarrow> branch_finding list" where
  "found i c branch st reason codes refs =
     [\<lparr>bf_branch_id = branch, bf_status = st, bf_reason = reason,
       bf_refs = refs @ (if st = Br_candidate then in_trigger_source_refs i
         else source_refs_of c codes)\<rparr>]"

fun collect :: "('e + 'a) list \<Rightarrow> 'e + 'a list" where
  "collect [] = Inr []"
| "collect (r # rs) = bind_result r (\<lambda>x. bind_result (collect rs) (\<lambda>xs. Inr (x # xs)))"

definition finding_result :: "branch_registry \<Rightarrow> branch_finding \<Rightarrow> branch_error + branch_result" where
  "finding_result reg f = (case branch_by_id reg (bf_branch_id f) of
     None \<Rightarrow> Inl (UnknownBranch (bf_branch_id f))
   | Some b \<Rightarrow> Inr (new_branch_result b (bf_status f) (bf_reason f) (bf_refs f)))"

section \<open>Message patterns\<close>

definition collision_text :: pattern where
  "collision_text = bounded (alts [lit ''collision'', lit ''crash'', lit ''other driver'',
     lit ''another car'', seqs [lit ''rear'', optional (One_of ''- ''), lit ''ended''], lit ''hit me''])"

definition another_party_text :: pattern where
  "another_party_text = bounded (words [''another person'', ''another party'', ''other party'',
     ''other driver'', ''another car''])"

definition police_text :: pattern where
  "police_text = bounded (words [''police'', ''police report'', ''constable'', ''incident number''])"

definition pending_text :: pattern where
  "pending_text = seqs [Edge, words [''later'', ''pending'', ''not yet'', ''will provide'', ''waiting''],
     Edge, Many Any_char, Edge, words [''report'', ''police''], Edge]"

definition witness_text :: pattern where
  "witness_text = bounded (lit ''witness'')"

definition accommodation_text :: pattern where
  "accommodation_text = bounded (words [''not habitable'', ''temporary accommodation'', ''hotel''])"

definition theft_text :: pattern where
  "theft_text = bounded (alts [lit ''stolen'', lit ''theft'', lit ''burglary'',
     seqs [lit ''break'', optional (One_of ''- ''), lit ''in'']])"

definition mitigation_text :: pattern where
  "mitigation_text = bounded (alts [lit ''active leak'', lit ''fire'', lit ''flood'',
     lit ''water damage'', lit ''unsafe property'', lit ''emergency repair'',
     seqs [lit ''tow'', optional (lit ''ing'')]])"

definition safety_text :: pattern where
  "safety_text = bounded WEAK_SAFETY_PATTERN"

definition safety_negated :: pattern where
  "safety_negated = seqs [Edge, words [''no one'', ''nobody'', ''not''], gap,
     optional (seqs [lit ''was'', gap]), WEAK_SAFETY_NEGATION_PATTERN, Edge]"

section \<open>Conditional branches\<close>

definition incident_subtype :: "intake_claim \<Rightarrow> string option" where
  "incident_subtype c = (case form_get c ''incident.type'' of
     None \<Rightarrow> None
   | Some f \<Rightarrow> (case ff_value f of V_text s \<Rightarrow> Some (normal_text s) | _ \<Rightarrow> None))"

definition subtype_status :: "intake_claim \<Rightarrow> form_status set \<Rightarrow> bool" where
  "subtype_status c sts = (case form_get c ''incident.type'' of
     None \<Rightarrow> False | Some f \<Rightarrow> ff_status f \<in> sts)"

definition subtype_refs :: "intake_claim \<Rightarrow> string list" where
  "subtype_refs c = (case form_get c ''incident.type'' of None \<Rightarrow> [] | Some f \<Rightarrow> ff_source_refs f)"

text \<open>The rules keyed by the incident subtype share one shape.\<close>

definition subtype_rule ::
  "evaluation_input \<Rightarrow> intake_claim \<Rightarrow> string list \<Rightarrow> pattern \<Rightarrow> string \<Rightarrow> string \<Rightarrow> string
     \<Rightarrow> branch_finding list" where
  "subtype_rule i c subtypes text branch active candidate =
     (let matched = (case incident_subtype c of None \<Rightarrow> False | Some s \<Rightarrow> s \<in> set subtypes) in
      if matched \<and> subtype_status c {Confirmed}
        then found i c branch Br_active active [''incident.type''] []
      else if matched \<and> subtype_status c {Proposed, Disputed} \<or> search text (in_latest_message i)
        then found i c branch Br_candidate candidate [] (subtype_refs c)
      else [])"

definition another_party_rule :: "evaluation_input \<Rightarrow> intake_claim \<Rightarrow> branch_finding list" where
  "another_party_rule i c =
     (if confirmed_truthy c ''parties.other_parties''
        then found i c ''participant.another_party'' Br_active
          ''A confirmed fact records another participant.'' [''parties.other_parties''] []
      else if search another_party_text (in_latest_message i)
        then found i c ''participant.another_party'' Br_candidate
          ''The claimant message may identify another participant.'' [] []
      else [])"

definition police_codes :: "string list" where
  "police_codes = [''authorities.police_report_reference'',
     ''authorities.emergency_services_notified'']"

definition police_rule :: "evaluation_input \<Rightarrow> intake_claim \<Rightarrow> branch_finding list" where
  "police_rule i c =
     (if list_ex (confirmed_truthy c) police_codes
        then found i c ''authority.police'' Br_active
          ''Confirmed Claim State records Police involvement.'' police_codes []
      else if search police_text (in_latest_message i)
        then found i c ''authority.police'' Br_candidate
          ''The claimant message mentions Police involvement.'' [] []
      else [])"

definition pending_rule :: "evaluation_input \<Rightarrow> intake_claim \<Rightarrow> branch_finding list" where
  "pending_rule i c =
     (if police_pending c
        then found i c ''evidence.pending'' Br_active
          ''Claim State records Police material as pending generation.''
          [''authorities.police_report_reference''] (in_trigger_source_refs i)
      else if search pending_text (in_latest_message i)
        then found i c ''evidence.pending'' Br_candidate
          ''The claimant message describes pending material.'' [] []
      else [])"

definition witness_rule :: "evaluation_input \<Rightarrow> intake_claim \<Rightarrow> branch_finding list" where
  "witness_rule i c =
     (if (case form_get c ''witness.present'' of None \<Rightarrow> False
          | Some f \<Rightarrow> ff_status f = Confirmed \<and> ff_value f = V_text ''yes'')
        then found i c ''participant.witness'' Br_active ''A confirmed fact records a witness.''
          [''witness.present''] []
      else if search witness_text (in_latest_message i)
        then found i c ''participant.witness'' Br_candidate
          ''The claimant message mentions a witness.'' [] []
      else [])"

definition accommodation_rule ::
  "evaluation_input \<Rightarrow> intake_claim \<Rightarrow> string option \<Rightarrow> branch_finding list" where
  "accommodation_rule i c selected =
     (if selected = Some ''home'' \<and> search accommodation_text (in_latest_message i)
        then found i c ''accommodation.temporary'' Br_candidate
          ''The claimant message describes a possible accommodation need.'' [] []
      else [])"

definition urgent :: "intake_claim \<Rightarrow> bool" where
  "urgent c \<longleftrightarrow> ic_urgency c \<in> {Urgency_urgent, Urgency_immediate_safety_risk}"

definition claim_ref :: "intake_claim \<Rightarrow> string \<Rightarrow> string" where
  "claim_ref c path = ''claim:'' @ wc_claim_id c @ '':'' @ path"

definition message_unsafe :: "string \<Rightarrow> bool" where
  "message_unsafe text \<longleftrightarrow> search safety_text text \<and> \<not> search safety_negated text"

definition safety_rule :: "evaluation_input \<Rightarrow> intake_claim \<Rightarrow> branch_finding list" where
  "safety_rule i c =
     (if urgent c \<or> confirmed_truthy c ''incident.injury_or_danger''
        then found i c ''safety.injury_or_danger'' Br_active
          ''Authoritative Claim State records an urgent safety condition.'' []
          (source_refs_of c [''incident.injury_or_danger'']
           @ (if urgent c then [claim_ref c ''claim_state.urgency''] else []))
      else if message_unsafe (in_latest_message i)
        then found i c ''safety.injury_or_danger'' Br_candidate
          ''The claimant message may describe an injury or continuing danger.'' [] []
      else [])"

definition injury_rule :: "evaluation_input \<Rightarrow> intake_claim \<Rightarrow> branch_finding list" where
  "injury_rule i c =
     (if confirmed_truthy c ''incident.injury_or_danger''
        then found i c ''injury.details'' Br_active
          ''An authoritative injury or danger fact requires the injury detail branch.''
          [''incident.injury_or_danger''] []
      else if message_unsafe (in_latest_message i)
        then found i c ''injury.details'' Br_candidate
          ''The claimant message may require injury details.'' [] []
      else [])"

definition support_required :: "intake_claim \<Rightarrow> bool" where
  "support_required c \<longleftrightarrow>
     ic_customer_support c \<in> {Support_human_requested, Support_accessibility_required}"

definition support_rule ::
  "evaluation_input \<Rightarrow> intake_claim \<Rightarrow> support_intent \<Rightarrow> branch_finding list" where
  "support_rule i c intent =
     (if support_required c
        then found i c ''human_support'' Br_active
          ''Authoritative Claim State requires human support.'' []
          ([claim_ref c ''claim_state.customer_support'']
           @ (if intent \<noteq> Intent_none then in_trigger_source_refs i else []))
      else if intent \<noteq> Intent_none
        then found i c ''human_support'' Br_candidate
          ''The current claimant message explicitly requires human support.'' [] []
      else [])"

definition review_sources :: "intake_claim \<Rightarrow> string list" where
  "review_sources c =
     (if wc_workflow_state c = Workflow_professional_review
        then [claim_ref c ''claim_state.workflow_state''] else [])
     @ (if ic_coverage c \<in> {Cov_ambiguous, Cov_review_required}
        then [claim_ref c ''claim_state.coverage''] else [])
     @ (if ic_fraud_signal c = Fraud_review_required
        then [claim_ref c ''claim_state.fraud_signal''] else [])"

definition review_rule :: "evaluation_input \<Rightarrow> intake_claim \<Rightarrow> branch_finding list" where
  "review_rule i c = (if review_sources c = [] then []
     else found i c ''professional_review'' Br_active
       ''Authoritative Claim State requires professional review.'' [] (review_sources c))"

definition conditional_rules ::
  "evaluation_input \<Rightarrow> intake_claim \<Rightarrow> string option \<Rightarrow> support_intent \<Rightarrow> branch_finding list list" where
  "conditional_rules i c selected intent =
     [subtype_rule i c [''collision''] collision_text ''incident.collision''
        ''A confirmed incident subtype records a collision.''
        ''The incident subtype or claimant message describes a collision.'',
      another_party_rule i c,
      police_rule i c,
      pending_rule i c,
      witness_rule i c,
      accommodation_rule i c selected,
      subtype_rule i c [''theft''] theft_text ''contents.theft''
        ''A confirmed incident subtype records theft or burglary.''
        ''The incident subtype or claimant message describes possible theft.'',
      subtype_rule i c [''fire'', ''water''] mitigation_text ''mitigation.emergency''
        ''A confirmed fire or water subtype requires mitigation evaluation.''
        ''The incident subtype or claimant message may require mitigation.'',
      safety_rule i c,
      injury_rule i c,
      support_rule i c intent,
      review_rule i c]"

definition conditional_branches ::
  "evaluation_input \<Rightarrow> intake_claim \<Rightarrow> string option \<Rightarrow> support_intent \<Rightarrow> branch_finding list" where
  "conditional_branches i c selected intent = concat (conditional_rules i c selected intent)"

section \<open>Family branches\<close>

definition family_sources ::
  "intake_claim \<Rightarrow> string list \<Rightarrow> string list \<Rightarrow> string \<Rightarrow> string list" where
  "family_sources c candidates refs family = sorted_set
     ((case form_get c ''claim.product_family'' of
         None \<Rightarrow> []
       | Some f \<Rightarrow> if value_family (ff_value f) = Some family then ff_source_refs f else [])
      @ (if ic_incident_type c = Some family then [claim_ref c ''incident_type''] else [])
      @ (if family \<in> set candidates then refs else []))"

definition family_finding ::
  "string option \<Rightarrow> bool \<Rightarrow> string list \<Rightarrow> (string \<Rightarrow> string list) \<Rightarrow> string \<Rightarrow> branch_finding" where
  "family_finding selected open_candidates candidates sources family =
     (let finding = (\<lambda>st reason. \<lparr>bf_branch_id = ''family.'' @ family, bf_status = st,
            bf_reason = reason, bf_refs = sources family\<rparr>) in
      if selected = Some family then finding Br_active
        ''One resolved family activates this collection branch without changing fact authority.''
      else if open_candidates \<or> family \<in> set candidates then finding Br_candidate
        (if open_candidates
         then ''The model may propose this family; keyword matches do not grant authority.''
         else ''Proposed or message evidence identifies a family candidate.'')
      else finding Br_exited ''No current evidence supports this family.'')"

section \<open>Reconciliation with the previous evaluation\<close>

text \<open>A source-backed correction of the fact that triggered a branch overrides its retained values.\<close>

definition trigger_corrected :: "intake_claim \<Rightarrow> string \<Rightarrow> bool" where
  "trigger_corrected c branch =
     (let confirmed = (\<lambda>code ok. case form_get c code of None \<Rightarrow> False
            | Some f \<Rightarrow> ff_status f = Confirmed \<and> \<not> ok (ff_value f)) in
      if branch = ''injury.details'' then confirmed ''incident.injury_or_danger'' equals_true
      else if branch = ''contents.theft'' then confirmed ''incident.type'' (\<lambda>v. v = V_text ''theft'')
      else if branch = ''incident.collision''
        then confirmed ''incident.type'' (\<lambda>v. v = V_text ''collision'')
      else confirmed '''' (\<lambda>v. v = V_null))"

definition retains_facts :: "intake_claim \<Rightarrow> content_branch \<Rightarrow> bool" where
  "retains_facts c b \<longleftrightarrow> list_ex (\<lambda>(code, _). case form_get c code of
     None \<Rightarrow> False | Some f \<Rightarrow> ff_status f \<in> {Proposed, Confirmed}) (cb_collection_policy b)"

definition lost_support ::
  "branch_result \<Rightarrow> branch_status \<Rightarrow> string list \<Rightarrow> branch_result" where
  "lost_support previous st refs = previous\<lparr>br_status := st,
     br_reason := ''The previously supported branch lost support after a source-backed Claim correction or recalculation.'',
     br_source_refs := sorted_set (br_source_refs previous @ refs),
     br_registered_fields := []\<rparr>"

definition reconcile_one ::
  "branch_registry \<Rightarrow> evaluation_input \<Rightarrow> intake_claim \<Rightarrow> branch_result list \<Rightarrow> branch_result
     \<Rightarrow> branch_result list \<Rightarrow> branch_result list" where
  "reconcile_one reg i c current previous reconciled =
     (case map_of CONDITIONAL_TRANSITION_STATUS (br_branch_id previous) of
        None \<Rightarrow> reconciled
      | Some st \<Rightarrow>
          if br_status previous \<notin> {Br_active, Br_candidate} then reconciled
          else
            (let now = map_of (rev (map (\<lambda>r. (br_branch_id r, r)) current)) (br_branch_id previous);
                 branch = branch_by_id reg (br_branch_id previous);
                 keep = (case branch of None \<Rightarrow> False
                   | Some b \<Rightarrow> br_status previous = Br_active \<and> retains_facts c b
                       \<and> \<not> trigger_corrected c (br_branch_id previous)) in
             if (case now of None \<Rightarrow> False | Some r \<Rightarrow> br_status r \<noteq> Br_candidate) then reconciled
             else if keep
               then filter (\<lambda>r. br_branch_id r \<noteq> br_branch_id previous) reconciled
                 @ [new_branch_result (the branch) Br_active
                     ''Previously active branch retains recorded facts across turns.''
                     (br_source_refs previous)]
             else if now \<noteq> None then reconciled
             else reconciled @ [lost_support previous st (in_trigger_source_refs i)]))"

definition reconcile_previous_conditional_branches ::
  "branch_registry \<Rightarrow> evaluation_input \<Rightarrow> intake_claim \<Rightarrow> branch_result list \<Rightarrow> branch_result list" where
  "reconcile_previous_conditional_branches reg i c current = (case in_previous i of
     None \<Rightarrow> current
   | Some p \<Rightarrow>
       if pe_branch_rules_version p \<noteq> rg_branch_rules_version reg then current
       else fold (reconcile_one reg i c current) (pe_branch_results p) current)"

definition apply_controlled_rule_policy :: "evaluator \<Rightarrow> branch_result \<Rightarrow> branch_result" where
  "apply_controlled_rule_policy ev r =
     (if br_rule_id r \<in> set (ev_disabled_rule_ids ev) \<and> br_status r \<noteq> Br_exited
        then r\<lparr>br_status := Br_exited, br_registered_fields := [],
          br_reason := ''The published controlled-rule configuration disables this rule.''\<rparr>
      else if br_rule_id r \<in> set (ev_observation_rule_ids ev) \<and> br_status r \<in> {Br_active, Br_candidate}
        then r\<lparr>br_status := Br_candidate, br_registered_fields := [],
          br_reason := ''The published controlled-rule configuration keeps this rule in observation mode without activating its effects.''\<rparr>
      else r)"

end
