(* ===== verification/Branch_Evaluation.thy ===== *)
theory Branch_Evaluation
  imports Branch_Rules
begin

text \<open>
  The evaluator of the dynamic form (\<open>BranchRuleEvaluator.evaluate\<close> of
  \<open>backend/domain/branch_registry.py\<close>): which fields the branches permit, which of them are
  required for the current action and what is still missing; the claimant projection of an
  evaluation, and the stored evaluation of a Claim revision (\<open>backend/services/branching.py\<close>).
\<close>

section \<open>Field selection\<close>

definition admits :: "bool \<Rightarrow> branch_result \<Rightarrow> content_branch \<Rightarrow> bool" where
  "admits open_candidates r b \<longleftrightarrow> br_status r = Br_active \<or> br_status r = Br_candidate \<and> cb_kind b = Kind_fact
     \<and> (open_candidates \<or> \<not> starts_with ''family.'' (cb_branch_id b))"

definition staff_only :: "content_branch \<Rightarrow> string set" where
  "staff_only b = fst ` set (filter (\<lambda>p. snd p = Due_staff_only) (cb_collection_policy b))"

primrec permit :: "bool \<Rightarrow> (branch_result \<times> content_branch) list \<Rightarrow> string list \<Rightarrow> string list" where
  "permit oc [] permitted = permitted"
| "permit oc (p # ps) permitted = permit oc ps (if admits oc (fst p) (snd p)
     then filter (\<lambda>code. code \<notin> staff_only (snd p)) (permitted @ br_registered_fields (fst p))
     else permitted)"

definition permitted_fields ::
  "evaluator \<Rightarrow> bool \<Rightarrow> string option \<Rightarrow> string list \<Rightarrow> (branch_result \<times> content_branch) list
     \<Rightarrow> string list" where
  "permitted_fields ev open_candidates selected candidates results =
     (let codes = field_codes (ev_registry ev) in
      permit open_candidates results (filter (\<lambda>code. code \<in> set codes) COMMON_FIELDS)
      @ (if \<not> ev_model_family_judgment ev \<and> selected = None \<and> length candidates = 1
         then filter (\<lambda>code. code \<in> set codes) (entries FAMILY_FIELDS (hd candidates)) else []))"

definition select_field ::
  "string list \<Rightarrow> intake_claim \<Rightarrow> string option \<Rightarrow> string list \<Rightarrow> string list \<Rightarrow> bool
     \<Rightarrow> field_definition \<Rightarrow> field_selection" where
  "select_field permitted c selected candidates required open_candidates d =
     (let stored = form_get c (fd_code d);
          value_state = (case stored of None \<Rightarrow> Missing | Some f \<Rightarrow> ff_status f);
          result = (\<lambda>st reason. \<lparr>fs_field_code = fd_code d, fs_selection_state = st,
            fs_value_state = value_state, fs_source = map_option ff_source stored,
            fs_reason = reason\<rparr>) in
      if fd_system_owned d \<and> (case stored of None \<Rightarrow> False | Some f \<Rightarrow> ff_value f \<noteq> V_null)
        then result Sel_system_owned ''The field is owned by an identity or workflow authority.''
      else if fd_system_owned d
        then result Sel_inactive
          ''The field remains inactive until its system authority supplies a value.''
      else if fd_code d \<notin> set permitted
          \<or> fd_families d \<noteq> [] \<and> (case selected of None \<Rightarrow> True | Some f \<Rightarrow> f \<notin> set (fd_families d))
             \<and> set (fd_families d) \<inter> set candidates = {} \<and> \<not> open_candidates
        then result Sel_inactive ''The field is outside the selected or single candidate family.''
      else if ends_with ''police_report_reference'' (fd_code d) \<and> police_pending c
        then result Sel_pending_later
          ''The required material is recorded as pending for a later action.''
      else if fd_code d = ''claim.product_family''
          \<and> (case ic_incident_type c of None \<Rightarrow> False | Some t \<Rightarrow> t \<in> set FAMILY_NAMES)
        then result Sel_candidate_now
          ''The persisted Claim already supplies the authoritative family.''
      else if value_state \<in> {Confirmed, Proposed, Disputed, Unavailable, Pending_generation}
        then result Sel_candidate_now
          ''The current requirement already has a recorded Claim fact or disposition.''
      else if fd_code d \<in> set required
        then result Sel_required_now
          ''The field is missing, disputed, or awaiting confirmation for the current safe action.''
      else result Sel_candidate_now
        ''The field is relevant but does not block the current safe action.'')"

section \<open>Requirements\<close>

definition loss_described_elsewhere :: "intake_claim \<Rightarrow> string \<Rightarrow> bool" where
  "loss_described_elsewhere c family =
     (if family = ''motor'' then
        (case form_get c ''vehicle.damage_description'' of
           None \<Rightarrow> False
         | Some f \<Rightarrow> ff_status f = Confirmed \<and> field_origin f \<noteq> None)
      else if family = ''contents'' then
        list_ex (\<lambda>i. ci_status i = Confirmed \<and> item_origin i \<noteq> None) (ic_contents_items c)
      else True)"

definition required_set ::
  "branch_registry \<Rightarrow> intake_claim \<Rightarrow> string option \<Rightarrow> string list \<Rightarrow> collection_deadline
     \<Rightarrow> string list" where
  "required_set reg c selected active deadline =
     (let common = (if deadline = Due_required_now then COMMON_REQUIRED else []);
          family = (case selected of
              None \<Rightarrow> []
            | Some f \<Rightarrow> if deadline = Due_required_now
                then entries FAMILY_REQUIRED f
                  @ (if loss_described_elsewhere c f then [] else [''loss.description''])
                else []);
          liability = (if deadline = Due_required_now \<and> confirmed_truthy c ''parties.other_parties''
            then [''incident.liability_position''] else []);
          branches = concat (map (\<lambda>branch. case branch_by_id reg branch of
              None \<Rightarrow> []
            | Some b \<Rightarrow> if cb_kind b = Kind_fact
                then map fst (filter (\<lambda>p. snd p = deadline) (cb_collection_policy b)) else []) active) in
      filter (\<lambda>code. code = ''contents.items'' \<or> code \<in> set (field_codes reg))
        (common @ family @ liability @ branches))"

datatype requirement_position = At_state requirement_state | At_pending_later

definition status_place :: "intake_claim \<Rightarrow> string \<Rightarrow> form_status \<Rightarrow> requirement_state" where
  "status_place c code st = (case st of
     Confirmed \<Rightarrow> (case form_get c code of
         None \<Rightarrow> Req_confirmed_exact
       | Some f \<Rightarrow> if ff_precision f = Exact then Req_confirmed_exact else Req_confirmed_approx)
   | Proposed \<Rightarrow> Req_proposed
   | Disputed \<Rightarrow> Req_disputed
   | Unavailable \<Rightarrow> Req_unavailable
   | Pending_generation \<Rightarrow> Req_pending_generation
   | _ \<Rightarrow> Req_missing)"

definition items_place :: "intake_claim \<Rightarrow> requirement_state" where
  "items_place c =
     (if list_ex (\<lambda>i. ci_status i = Confirmed) (ic_contents_items c) then Req_confirmed_exact
      else if list_ex (\<lambda>i. ci_status i = Proposed) (ic_contents_items c) then Req_proposed
      else Req_missing)"

definition requirement_place ::
  "intake_claim \<Rightarrow> field_selection list \<Rightarrow> string \<Rightarrow> requirement_position" where
  "requirement_place c selections code =
     (if code = ''claim.product_family'' \<and> form_get c code = None
          \<and> (case ic_incident_type c of None \<Rightarrow> False | Some t \<Rightarrow> t \<in> set FAMILY_NAMES)
        then At_state Req_confirmed_exact
      else if code = ''contents.items'' then At_state (items_place c)
      else case map_of (rev (map (\<lambda>s. (fs_field_code s, s)) selections)) code of
          None \<Rightarrow> At_state Req_missing
        | Some s \<Rightarrow>
            if fs_selection_state s = Sel_pending_later then At_pending_later
            else At_state (status_place c code (fs_value_state s)))"

definition branch_rank :: "string list \<Rightarrow> content_branch \<Rightarrow> nat \<times> string" where
  "branch_rank newly_active b =
     (if cb_branch_id b = ''injury.details'' then 0
      else if \<not> starts_with ''family.'' (cb_branch_id b) \<and> cb_branch_id b \<in> set newly_active then 1
      else if starts_with ''family.'' (cb_branch_id b) then 2
      else 3, cb_branch_id b)"

primrec group_missing ::
  "content_branch list \<Rightarrow> string list \<Rightarrow> (string \<times> string list) list \<times> string list" where
  "group_missing [] ungrouped = ([], ungrouped)"
| "group_missing (b # bs) ungrouped =
     (let own = filter (\<lambda>code. code \<in> set ungrouped \<and> code \<in> fst ` set (cb_collection_policy b))
            REQUIREMENT_PRIORITY;
          (groups, rest) = group_missing bs (filter (\<lambda>code. code \<notin> set own) ungrouped) in
      ((if own = [] then [] else [(cb_branch_id b, own)]) @ groups, rest))"

definition missing_by_branch ::
  "branch_registry \<Rightarrow> string list \<Rightarrow> string list \<Rightarrow> string list \<Rightarrow> (string \<times> string list) list" where
  "missing_by_branch reg active newly_active missing =
     (let fact_branches = filter (\<lambda>b. cb_kind b = Kind_fact)
            (map (\<lambda>branch. the (branch_by_id reg branch)) active);
          (groups, rest) = group_missing (sort_key (branch_rank newly_active) fact_branches) missing;
          common = filter (\<lambda>code. code \<in> set rest) missing in
      groups @ (if common = [] then [] else [(''common'', common)]))"

definition REQUIREMENT_STATES :: "requirement_state list" where
  "REQUIREMENT_STATES = [Req_missing, Req_proposed, Req_confirmed_exact, Req_confirmed_approx,
     Req_disputed, Req_unavailable, Req_pending_generation]"

definition requirements_at ::
  "intake_claim \<Rightarrow> field_selection list \<Rightarrow> string list \<Rightarrow> requirement_state set \<Rightarrow> string list" where
  "requirements_at c selections required sts = filter (\<lambda>code. code \<in> set required
     \<and> requirement_place c selections code \<in> At_state ` sts) REQUIREMENT_PRIORITY"

definition resolve_requirements ::
  "branch_registry \<Rightarrow> intake_claim \<Rightarrow> string option \<Rightarrow> string list \<Rightarrow> field_selection list
     \<Rightarrow> string list \<Rightarrow> string list \<Rightarrow> string list \<Rightarrow> requirement_resolution" where
  "resolve_requirements reg c selected conflict selections active required newly_active =
     (let placed = requirements_at c selections required;
          by_state = map (\<lambda>st. (st, placed {st})) REQUIREMENT_STATES;
          missing = placed {Req_missing} in
      \<lparr>rr_satisfied = placed {Req_confirmed_exact, Req_confirmed_approx},
       rr_recorded = placed {Req_proposed, Req_disputed},
       rr_missing_required_now = missing,
       rr_missing_by_branch = missing_by_branch reg active newly_active missing,
       rr_pending_later = filter (\<lambda>code. code \<in> set required
         \<and> requirement_place c selections code = At_pending_later) REQUIREMENT_PRIORITY,
       rr_by_state = by_state,
       rr_unresolved = missing,
       rr_next_required_item = (case missing of [] \<Rightarrow> None | code # _ \<Rightarrow> Some code),
       rr_ready = (missing = [] \<and> conflict = [] \<and> selected \<noteq> None),
       rr_ready_pending_confirmation = False,
       rr_current_action_total = sum_list (map (\<lambda>p. length (snd p)) by_state)\<rparr>)"

section \<open>Intents\<close>

definition field_intents :: "field_selection list \<Rightarrow> work_item_intent list" where
  "field_intents selections = map (\<lambda>s. Field_intent (fs_field_code s) (fs_selection_state s))
     (filter (\<lambda>s. fs_selection_state s \<in> {Sel_required_now, Sel_pending_later}) selections)"

definition record_intents :: "branch_registry \<Rightarrow> string list \<Rightarrow> work_item_intent list" where
  "record_intents reg active = concat (map (\<lambda>branch.
     map (\<lambda>intent. Record_intent intent branch) (cb_record_intents (the (branch_by_id reg branch))))
     active)"

fun support_need_value :: "support_need \<Rightarrow> string" where
  "support_need_value Need_human_requested = ''human_requested''"
| "support_need_value Need_accessibility_required = ''accessibility_required''"
| "support_need_value Need_distress = ''distress''"
| "support_need_value Need_urgent = ''urgent''"

fun customer_support_value :: "customer_support \<Rightarrow> string" where
  "customer_support_value Support_self_service = ''self_service''"
| "customer_support_value Support_guided = ''guided''"
| "customer_support_value Support_human_requested = ''human_requested''"
| "customer_support_value Support_accessibility_required = ''accessibility_required''"

fun intent_value :: "support_intent \<Rightarrow> string" where
  "intent_value Intent_none = ''none''"
| "intent_value Intent_explicit_human_request = ''explicit_human_request''"
| "intent_value Intent_accessibility_need = ''accessibility_need''"
| "intent_value Intent_distress = ''distress''"

definition handoff_intents :: "intake_claim \<Rightarrow> support_intent \<Rightarrow> string list \<Rightarrow> handoff_intent list" where
  "handoff_intents c intent refs =
     (if urgent c then [Urgent_support] else [])
     @ (case support_need_for_intent intent of
          Some need \<Rightarrow> [Human_support (support_need_value need) (Some (sorted_set refs))]
        | None \<Rightarrow> if support_required c
            then [Human_support (customer_support_value (ic_customer_support c)) None] else [])
     @ (if wc_workflow_state c = Workflow_professional_review then [Professional_review] else [])"

definition interruption_of :: "intake_claim \<Rightarrow> support_intent \<Rightarrow> interruption" where
  "interruption_of c intent =
     (if urgent c then Interrupt_urgent_safety
      else if intent \<noteq> Intent_none then Handoff_because (intent_value intent)
      else if support_required c then Handoff_because ''human_support''
      else Continue)"

section \<open>Evaluation\<close>

definition AGENT_ACTIONS :: "agent_action list" where
  "AGENT_ACTIONS = [ASK, CLARIFY, CONFIRM, PROCEED, UPDATE, HANDOFF, URGENT_HANDOFF, CREATE_CLAIM]"

definition PERMITTED_TOOLS :: "string list" where
  "PERMITTED_TOOLS = [''knowledge_search'', ''policy_history'', ''claim_history'',
     ''evidence.history'', ''professional_review'', ''evidence_registry'']"

definition family_resolution :: "evaluator \<Rightarrow> evaluation_input \<Rightarrow> intake_claim \<Rightarrow> turn_family" where
  "family_resolution ev i c = (case in_family_resolution i of
     Some r \<Rightarrow> r
   | None \<Rightarrow> resolve_turn_family c (Option.bind (in_previous i) pe_selected_family)
       (in_latest_message i) (ev_model_family_judgment ev))"

definition other_candidates :: "turn_family \<Rightarrow> string list" where
  "other_candidates r = filter (\<lambda>f. Some f \<noteq> tf_product_family r) (remdups (tf_candidate_families r))"

definition open_family_candidates :: "evaluator \<Rightarrow> evaluation_input \<Rightarrow> intake_claim \<Rightarrow> bool" where
  "open_family_candidates ev i c \<longleftrightarrow>
     ev_model_family_judgment ev \<and> tf_status (family_resolution ev i c) \<noteq> Fam_authoritative"

definition branch_findings :: "evaluator \<Rightarrow> evaluation_input \<Rightarrow> intake_claim \<Rightarrow> branch_finding list" where
  "branch_findings ev i c =
     (let r = family_resolution ev i c in
      map (family_finding (tf_product_family r) (open_family_candidates ev i c) (other_candidates r)
           (family_sources c (tf_candidate_families r) (in_trigger_source_refs i))) FAMILY_NAMES
      @ conditional_branches i c (tf_product_family r) (detect_support_intent (in_latest_message i)))"

definition branch_results ::
  "evaluator \<Rightarrow> evaluation_input \<Rightarrow> intake_claim \<Rightarrow> branch_error + branch_result list" where
  "branch_results ev i c =
     bind_result (collect (map (finding_result (ev_registry ev)) (branch_findings ev i c))) (\<lambda>rs.
       Inr (map (apply_controlled_rule_policy ev)
         (reconcile_previous_conditional_branches (ev_registry ev) i c rs)))"

definition with_branch ::
  "branch_registry \<Rightarrow> branch_result \<Rightarrow> branch_error + (branch_result \<times> content_branch)" where
  "with_branch reg r = (case branch_by_id reg (br_branch_id r) of
     None \<Rightarrow> Inl (UnknownBranch (br_branch_id r))
   | Some b \<Rightarrow> Inr (r, b))"

definition ids_with :: "branch_status \<Rightarrow> branch_result list \<Rightarrow> string list" where
  "ids_with st rs = map br_branch_id (filter (\<lambda>r. br_status r = st) rs)"

definition unresolved_conflict :: "turn_family \<Rightarrow> string list" where
  "unresolved_conflict r =
     (if tf_product_family r = None \<and> 1 < length (other_candidates r)
        \<and> tf_status r \<in> {Fam_ambiguous, Fam_conflicting} then sort (other_candidates r) else [])"

definition previously_active :: "evaluator \<Rightarrow> evaluation_input \<Rightarrow> string list" where
  "previously_active ev i = (case in_previous i of
     None \<Rightarrow> []
   | Some p \<Rightarrow> if pe_branch_rules_version p = rg_branch_rules_version (ev_registry ev)
       then ids_with Br_active (pe_branch_results p) else [])"

definition project_requirements ::
  "evaluator \<Rightarrow> evaluation_input \<Rightarrow> intake_claim \<Rightarrow> (branch_result \<times> content_branch) list
     \<Rightarrow> string list \<Rightarrow> field_selection list \<times> requirement_resolution" where
  "project_requirements ev i c known required =
     (let reg = ev_registry ev;
          r = family_resolution ev i c;
          selected = tf_product_family r;
          candidates = other_candidates r;
          oc = open_family_candidates ev i c;
          active = ids_with Br_active (map fst known);
          newly_active = filter (\<lambda>b. b \<notin> set (previously_active ev i)) active;
          permitted = permitted_fields ev oc selected candidates known;
          selections = map (select_field permitted c selected candidates required oc) (rg_fields reg) in
      (selections, resolve_requirements reg c selected (unresolved_conflict r) selections active required
         newly_active))"

definition required_codes ::
  "evaluator \<Rightarrow> evaluation_input \<Rightarrow> intake_claim \<Rightarrow> (branch_result \<times> content_branch) list
     \<Rightarrow> string list" where
  "required_codes ev i c known =
     (let selected = tf_product_family (family_resolution ev i c);
          active = ids_with Br_active (map fst known);
          required_now = required_set (ev_registry ev) c selected active Due_required_now;
          before_creation = required_set (ev_registry ev) c selected active Due_before_creation in
      if before_creation \<noteq> [] \<and> (in_current_action i = Some CREATE_CLAIM
          \<or> rr_missing_required_now (snd (project_requirements ev i c known required_now)) = [])
      then required_now @ before_creation else required_now)"

definition evaluated ::
  "evaluator \<Rightarrow> evaluation_input \<Rightarrow> intake_claim \<Rightarrow> (branch_result \<times> content_branch) list
     \<Rightarrow> form_evaluation" where
  "evaluated ev i c known =
     (let reg = ev_registry ev;
          r = family_resolution ev i c;
          intent = detect_support_intent (in_latest_message i);
          results = map fst known;
          active = ids_with Br_active results;
          (selections, requirements) =
            project_requirements ev i c known (required_codes ev i c known) in
      \<lparr>fe_claim_id = wc_claim_id c, fe_evaluated_against_claim_revision = wc_revision c,
       fe_field_registry_version = rg_field_registry_version reg,
       fe_branch_rules_version = rg_branch_rules_version reg,
       fe_selected_family = tf_product_family r,
       fe_unresolved_family_conflict = unresolved_conflict r,
       fe_active_branches = active,
       fe_candidate_branches = ids_with Br_candidate results,
       fe_suspended_branches = ids_with Br_suspended results,
       fe_exited_branches = ids_with Br_exited results,
       fe_branch_results = results, fe_field_selection = selections,
       fe_work_item_intents = field_intents selections @ record_intents reg active,
       fe_handoff_intents = handoff_intents c intent (in_trigger_source_refs i),
       fe_evidence_pending = (if sm_pending (ic_evidence_summary c) = 0 then None
         else Some (sm_pending (ic_evidence_summary c))),
       fe_interruption_result = interruption_of c intent,
       fe_permitted_actions = AGENT_ACTIONS, fe_permitted_tools = PERMITTED_TOOLS,
       fe_requirements = requirements,
       fe_recomputation_reason = in_recomputation_reason i\<rparr>)"

definition evaluate ::
  "evaluator \<Rightarrow> evaluation_input \<Rightarrow> intake_claim \<Rightarrow> branch_error + form_evaluation" where
  "evaluate ev i c =
     bind_result (branch_results ev i c) (\<lambda>rs.
     bind_result (collect (map (with_branch (ev_registry ev)) rs)) (\<lambda>known.
       Inr (evaluated ev i c known)))"

section \<open>Claimant projection\<close>

definition claimant_projection_fields ::
  "branch_registry \<Rightarrow> field_selection list \<Rightarrow> field_selection list" where
  "claimant_projection_fields reg selections = filter (\<lambda>s. case field_by_code reg (fs_field_code s) of
     None \<Rightarrow> False
   | Some d \<Rightarrow> fd_claimant_visible d
       \<and> fs_selection_state s \<notin> {Sel_inactive, Sel_system_owned}) selections"

record field_input =
  fi_value_type :: value_type
  fi_allowed_values :: "string list"

definition claimant_field_inputs ::
  "branch_registry \<Rightarrow> string list \<Rightarrow> (string \<times> field_input) list" where
  "claimant_field_inputs reg codes = concat (map (\<lambda>code. case field_by_code reg code of
     None \<Rightarrow> []
   | Some d \<Rightarrow> if \<not> fd_claimant_visible d \<or> fd_system_owned d then []
       else [(code, \<lparr>fi_value_type = fd_value_type d,
         fi_allowed_values = sort (fd_allowed_values d)\<rparr>)]) (sorted_set codes))"

section \<open>Stored evaluations\<close>

datatype evaluation_status = Eval_evaluated | Eval_applied | Eval_stale | Eval_superseded

record evaluation_record =
  fr_evaluation_id :: string
  fr_claim_id :: string
  fr_session_id :: "string option"
  fr_turn_id :: "string option"
  fr_resulting_claim_revision :: "int option"
  fr_evaluation :: form_evaluation
  fr_status :: evaluation_status
  fr_created_at :: datetime

datatype record_error = AppliedRevision | UnappliedRevision

definition require_revision_coordinates :: "evaluation_record \<Rightarrow> record_error + evaluation_record" where
  "require_revision_coordinates r =
     guarded
       [(fr_status r = Eval_applied \<and> fr_resulting_claim_revision r
           \<noteq> Some (fe_evaluated_against_claim_revision (fr_evaluation r)), AppliedRevision),
        (fr_status r \<noteq> Eval_applied \<and> fr_resulting_claim_revision r \<noteq> None, UnappliedRevision)]
       (Inr r)"

text \<open>
  \<open>history\<close> is what \<open>list_branch_evaluations\<close> returns for the Claim; its records have aware
  creation times, which Python compares.
\<close>

definition eligible_evaluations ::
  "intake_claim \<Rightarrow> evaluation_record list \<Rightarrow> evaluation_record list" where
  "eligible_evaluations c history = filter (\<lambda>r. fr_status r = Eval_applied
     \<and> (case fr_resulting_claim_revision r of None \<Rightarrow> False | Some v \<Rightarrow> v \<le> wc_revision c)) history"

definition evaluation_key :: "evaluation_record \<Rightarrow> int \<times> int \<times> string" where
  "evaluation_key r = (case fr_resulting_claim_revision r of None \<Rightarrow> 0 | Some v \<Rightarrow> v,
     instant (fr_created_at r), fr_evaluation_id r)"

text \<open>\<open>max\<close> keeps the first of the records with the greatest key.\<close>

definition latest_applied_branch_evaluation ::
  "intake_claim \<Rightarrow> evaluation_record list \<Rightarrow> evaluation_record option" where
  "latest_applied_branch_evaluation c history = (case eligible_evaluations c history of
     [] \<Rightarrow> None
   | r # rs \<Rightarrow> Some (fold (\<lambda>s best. if evaluation_key best < evaluation_key s then s else best) rs r))"

record form_projection =
  dp_claim_id :: string
  dp_claim_revision :: int
  dp_field_registry_version :: string
  dp_branch_rules_version :: string
  dp_selected_family :: "string option"
  dp_active_branches :: "string list"
  dp_fields :: "field_selection list"
  dp_requirements :: requirement_resolution
  dp_field_inputs :: "(string \<times> field_input) list"

definition claimant_dynamic_form_projection ::
  "intake_claim \<Rightarrow> evaluation_record list \<Rightarrow> form_projection option" where
  "claimant_dynamic_form_projection c history =
     map_option (\<lambda>r. let e = fr_evaluation r;
         shown = claimant_projection_fields default_registry (fe_field_selection e) in
       \<lparr>dp_claim_id = wc_claim_id c, dp_claim_revision = wc_revision c,
        dp_field_registry_version = fe_field_registry_version e,
        dp_branch_rules_version = fe_branch_rules_version e,
        dp_selected_family = fe_selected_family e,
        dp_active_branches = ids_with Br_active (fe_branch_results e),
        dp_fields = shown, dp_requirements = fe_requirements e,
        dp_field_inputs = claimant_field_inputs default_registry
          (map fs_field_code shown @ map fst (ic_form c))\<rparr>)
       (latest_applied_branch_evaluation c history)"

definition default_evaluator :: evaluator where
  "default_evaluator = \<lparr>ev_registry = default_registry, ev_disabled_rule_ids = [],
     ev_observation_rule_ids = [], ev_model_family_judgment = False\<rparr>"

text \<open>The evaluator a published controlled-rule configuration builds.\<close>

definition branch_evaluator :: "controlled_rules \<Rightarrow> bool \<Rightarrow> evaluator" where
  "branch_evaluator rules m =
     \<lparr>ev_registry = default_registry\<lparr>rg_branch_rules_version := cr_rules_version rules\<rparr>,
      ev_disabled_rule_ids = cr_disabled_rule_ids rules,
      ev_observation_rule_ids = cr_observation_rule_ids rules,
      ev_model_family_judgment = m\<rparr>"

definition build_applied_branch_evaluation ::
  "intake_claim \<Rightarrow> evaluation_record list \<Rightarrow> string \<Rightarrow> string option \<Rightarrow> string option
     \<Rightarrow> agent_action option \<Rightarrow> string list \<Rightarrow> datetime \<Rightarrow> string \<Rightarrow> string
     \<Rightarrow> branch_error + evaluation_record" where
  "build_applied_branch_evaluation c history reason session turn action refs now text new_id =
     bind_result (evaluate default_evaluator
       \<lparr>in_latest_message = text, in_trigger_source_refs = refs,
        in_current_action = Some (case action of None \<Rightarrow> ic_next_action c | Some a \<Rightarrow> a),
        in_recomputation_reason = reason,
        in_previous = map_option (\<lambda>r. prior_of (fr_evaluation r))
          (latest_applied_branch_evaluation c history),
        in_family_resolution = None\<rparr> c) (\<lambda>e.
       Inr \<lparr>fr_evaluation_id = new_id, fr_claim_id = wc_claim_id c,
         fr_session_id = (if present session then session else wc_active_session_id c),
         fr_turn_id = turn, fr_resulting_claim_revision = Some (wc_revision c), fr_evaluation = e,
         fr_status = Eval_applied, fr_created_at = now\<rparr>)"

end
