(* ===== verification/Branch_Facts.thy ===== *)
theory Branch_Facts
  imports Branch_Evaluation
begin

text \<open>
  What an evaluation of the dynamic form guarantees: it never fails on a registry that differs
  from the published one in its rules version only, it reports each branch once and with its
  registered rule, it keeps every conditional branch that was reported before, and the branches
  the overlay may not touch follow the facts of the Claim.
\<close>

section \<open>Results of lookups\<close>

lemma collect_Inr_iff: "collect rs = Inr xs \<longleftrightarrow> rs = map Inr xs"
  by (induction rs arbitrary: xs) (auto simp: bind_result_Inr_iff Cons_eq_map_conv)

lemma collect_map_total:
  assumes "\<And>x. x \<in> set xs \<Longrightarrow> f x = Inr (g x)"
  shows "collect (map f xs) = Inr (map g xs)"
  using assms by (simp add: collect_Inr_iff)

section \<open>The published branches\<close>

definition standard_evaluator :: "evaluator \<Rightarrow> bool" where
  "standard_evaluator ev \<longleftrightarrow>
     ev_registry ev = default_registry\<lparr>rg_branch_rules_version := rg_branch_rules_version (ev_registry ev)\<rparr>"

abbreviation default_branches :: "content_branch list" where
  "default_branches \<equiv> rg_branches default_registry"

definition CONDITIONAL_IDS :: "string list" where
  "CONDITIONAL_IDS = [''incident.collision'', ''participant.another_party'', ''authority.police'',
     ''evidence.pending'', ''participant.witness'', ''accommodation.temporary'', ''contents.theft'',
     ''mitigation.emergency'', ''safety.injury_or_danger'', ''injury.details'', ''human_support'',
     ''professional_review'']"

definition FAMILY_IDS :: "string list" where
  "FAMILY_IDS = map (\<lambda>f. ''family.'' @ f) FAMILY_NAMES"

lemma default_branch_ids:
  "map cb_branch_id default_branches = [''family.motor'', ''family.home'', ''family.contents'',
     ''incident.collision'', ''participant.another_party'', ''participant.witness'', ''authority.police'',
     ''evidence.pending'', ''accommodation.temporary'', ''contents.theft'', ''safety.injury_or_danger'',
     ''injury.details'', ''mitigation.emergency'', ''professional_review'', ''human_support'']"
  by (simp add: default_registry_def conditional_content_def family_branch_def new_branch_def
      FAMILY_NAMES_def)

lemma distinct_default_branch_ids: "distinct (map cb_branch_id default_branches)"
  by (simp add: default_branch_ids)

lemma standard_branches: "standard_evaluator ev \<Longrightarrow> rg_branches (ev_registry ev) = default_branches"
  by (metis branch_registry.select_convs(4) branch_registry.surjective branch_registry.update_convs(2)
      standard_evaluator_def)

lemma standard_fields: "standard_evaluator ev \<Longrightarrow> rg_fields (ev_registry ev) = rg_fields default_registry"
  by (metis branch_registry.select_convs(3) branch_registry.surjective branch_registry.update_convs(2)
      standard_evaluator_def)

lemma standard_branch_by_id:
  "standard_evaluator ev \<Longrightarrow> branch_by_id (ev_registry ev) = branch_by_id default_registry"
  by (simp add: branch_by_id_def standard_branches)

lemma branch_by_id_Some:
  "branch_by_id default_registry k = Some b \<longleftrightarrow> b \<in> set default_branches \<and> cb_branch_id b = k"
  using distinct_default_branch_ids
  by (auto simp: branch_by_id_def map_of_eq_Some_iff rev_map [symmetric] comp_def distinct_rev
      simp del: rev_map)

lemma branch_by_id_None:
  "branch_by_id default_registry k = None \<longleftrightarrow> k \<notin> set (map cb_branch_id default_branches)"
proof (cases "branch_by_id default_registry k")
  case None
  then show ?thesis using branch_by_id_Some [of k] by auto
next
  case (Some b)
  then show ?thesis using branch_by_id_Some [of k b] by auto
qed

lemma registered_ids:
  "set (FAMILY_IDS @ CONDITIONAL_IDS) = set (map cb_branch_id default_branches)"
  unfolding default_branch_ids by code_simp

lemma transition_ids: "dom (map_of CONDITIONAL_TRANSITION_STATUS) = set CONDITIONAL_IDS"
  unfolding dom_map_of_conv_image_fst by code_simp

lemma distinct_all_ids: "distinct (FAMILY_IDS @ CONDITIONAL_IDS)"
  by (simp add: FAMILY_IDS_def CONDITIONAL_IDS_def FAMILY_NAMES_def)

section \<open>Each rule reports its branch at most once\<close>

definition reports :: "string \<Rightarrow> branch_finding list \<Rightarrow> bool" where
  "reports k fs \<longleftrightarrow> (\<forall>f\<in>set fs. bf_branch_id f = k \<and> bf_status f \<in> {Br_active, Br_candidate})
     \<and> length fs \<le> 1"

lemma reports_Nil [simp]: "reports k []"
  by (simp add: reports_def)

lemma reports_found:
  "st \<in> {Br_active, Br_candidate} \<Longrightarrow> reports k (found i c k st reason codes refs)"
  by (auto simp: reports_def found_def)

lemmas rule_defs = subtype_rule_def another_party_rule_def police_rule_def pending_rule_def
  witness_rule_def accommodation_rule_def safety_rule_def injury_rule_def support_rule_def
  review_rule_def

lemma rules_report:
  "reports k (subtype_rule i c ss p k a d)" "reports ''participant.another_party'' (another_party_rule i c)"
  "reports ''authority.police'' (police_rule i c)" "reports ''evidence.pending'' (pending_rule i c)"
  "reports ''participant.witness'' (witness_rule i c)"
  "reports ''accommodation.temporary'' (accommodation_rule i c selected)"
  "reports ''safety.injury_or_danger'' (safety_rule i c)" "reports ''injury.details'' (injury_rule i c)"
  "reports ''human_support'' (support_rule i c intent)" "reports ''professional_review'' (review_rule i c)"
  unfolding rule_defs Let_def by (simp_all add: reports_found)

lemma reports_append:
  assumes "reports k fs" "distinct (map bf_branch_id gs)" "k \<notin> bf_branch_id ` set gs"
  shows "distinct (map bf_branch_id (fs @ gs))"
    and "bf_branch_id ` set (fs @ gs) \<subseteq> insert k (bf_branch_id ` set gs)"
  using assms by (cases fs; cases "tl fs"; auto simp: reports_def)+

lemma reports_concat:
  "list_all2 reports ks ps \<Longrightarrow> distinct ks \<Longrightarrow>
     distinct (map bf_branch_id (concat ps)) \<and> bf_branch_id ` set (concat ps) \<subseteq> set ks
     \<and> (\<forall>f\<in>set (concat ps). bf_status f \<in> {Br_active, Br_candidate})"
proof (induction ks ps rule: list_all2_induct)
  case (Cons k ks p ps)
  then have IH: "distinct (map bf_branch_id (concat ps))" "bf_branch_id ` set (concat ps) \<subseteq> set ks"
    "\<forall>f\<in>set (concat ps). bf_status f \<in> {Br_active, Br_candidate}"
    by auto
  have "k \<notin> bf_branch_id ` set (concat ps)" using IH(2) Cons.prems by auto
  note parts = reports_append [OF Cons.hyps(1) IH(1) this]
  have "\<forall>f\<in>set (concat (p # ps)). bf_status f \<in> {Br_active, Br_candidate}"
    using IH(3) Cons.hyps(1) by (auto simp: reports_def)
  moreover have "bf_branch_id ` set (concat (p # ps)) \<subseteq> set (k # ks)"
    using parts(2) IH(2) by (simp only: concat.simps list.set) blast
  ultimately show ?case using parts(1) by (simp only: concat.simps)
qed simp

lemma conditional_rules_report: "list_all2 reports CONDITIONAL_IDS (conditional_rules i c selected intent)"
  unfolding conditional_rules_def CONDITIONAL_IDS_def
  by (intro list.rel_intros rules_report)

lemma distinct_CONDITIONAL_IDS: "distinct CONDITIONAL_IDS"
  using distinct_all_ids by simp

lemmas conditional_concat = reports_concat [OF conditional_rules_report distinct_CONDITIONAL_IDS,
    folded conditional_branches_def]

lemma conditional_findings:
  "distinct (map bf_branch_id (conditional_branches i c selected intent))"
  "bf_branch_id ` set (conditional_branches i c selected intent) \<subseteq> set CONDITIONAL_IDS"
  "f \<in> set (conditional_branches i c selected intent) \<Longrightarrow> bf_status f \<in> {Br_active, Br_candidate}"
  using conditional_concat [of i c selected intent] by blast+

lemma family_finding_id [simp]: "bf_branch_id (family_finding s oc cs src f) = ''family.'' @ f"
  by (simp add: family_finding_def Let_def)

lemma branch_findings_ids:
  "distinct (map bf_branch_id (branch_findings ev i c))"
  "set FAMILY_IDS \<subseteq> bf_branch_id ` set (branch_findings ev i c)"
  "bf_branch_id ` set (branch_findings ev i c) \<subseteq> set (FAMILY_IDS @ CONDITIONAL_IDS)"
proof -
  let ?fs = "map (family_finding (tf_product_family (family_resolution ev i c))
      (open_family_candidates ev i c) (other_candidates (family_resolution ev i c))
      (family_sources c (tf_candidate_families (family_resolution ev i c)) (in_trigger_source_refs i)))
      FAMILY_NAMES"
  let ?cs = "conditional_branches i c (tf_product_family (family_resolution ev i c))
      (detect_support_intent (in_latest_message i))"
  have split: "branch_findings ev i c = ?fs @ ?cs" by (simp add: branch_findings_def Let_def)
  have fam: "map bf_branch_id ?fs = FAMILY_IDS" by (simp add: FAMILY_IDS_def)
  then have fam_set: "bf_branch_id ` set ?fs = set FAMILY_IDS" by (metis list.set_map)
  note cond = conditional_findings(1,2) [of i c "tf_product_family (family_resolution ev i c)"
      "detect_support_intent (in_latest_message i)"]
  show "distinct (map bf_branch_id (branch_findings ev i c))"
    unfolding split map_append fam using distinct_all_ids cond
    by (simp only: distinct_append set_map) blast
  show "set FAMILY_IDS \<subseteq> bf_branch_id ` set (branch_findings ev i c)"
    unfolding split set_append image_Un fam_set by blast
  show "bf_branch_id ` set (branch_findings ev i c) \<subseteq> set (FAMILY_IDS @ CONDITIONAL_IDS)"
    unfolding split set_append image_Un fam_set using cond(2) by blast
qed

section \<open>Reconciliation keeps what was reported\<close>

abbreviation ids :: "branch_result list \<Rightarrow> string list" where
  "ids rs \<equiv> map br_branch_id rs"

definition well_reported :: "branch_result \<Rightarrow> bool" where
  "well_reported r \<longleftrightarrow> (\<exists>b. branch_by_id default_registry (br_branch_id r) = Some b
     \<and> br_rule_id r = cb_rule_id b \<and> set (br_registered_fields r) \<subseteq> set (cb_fields b)
     \<and> (br_status r \<in> {Br_active, Br_candidate} \<or> br_registered_fields r = []))"

definition supported :: "branch_result \<Rightarrow> bool" where
  "supported r \<longleftrightarrow> br_branch_id r \<in> set CONDITIONAL_IDS \<and> br_status r \<in> {Br_active, Br_candidate}"

definition accounted :: "branch_result \<Rightarrow> bool" where
  "accounted r \<longleftrightarrow> (br_branch_id r \<in> set CONDITIONAL_IDS \<longrightarrow> br_status r \<in> {Br_active, Br_candidate}
     \<or> map_of CONDITIONAL_TRANSITION_STATUS (br_branch_id r) = Some (br_status r))"

lemma new_branch_result_simps [simp]:
  "br_branch_id (new_branch_result b st reason refs) = cb_branch_id b"
  "br_rule_id (new_branch_result b st reason refs) = cb_rule_id b"
  "br_status (new_branch_result b st reason refs) = st"
  by (simp_all add: new_branch_result_def)

lemma new_branch_result_well:
  "branch_by_id default_registry k = Some b \<Longrightarrow> well_reported (new_branch_result b st reason refs)"
  using branch_by_id_Some [of k b] branch_by_id_Some [of "cb_branch_id b" b]
  by (auto simp: well_reported_def) (auto simp: new_branch_result_def split: if_splits)

lemma lost_support_simps [simp]:
  "br_branch_id (lost_support p st refs) = br_branch_id p"
  "br_rule_id (lost_support p st refs) = br_rule_id p"
  "br_status (lost_support p st refs) = st"
  "br_registered_fields (lost_support p st refs) = []"
  by (simp_all add: lost_support_def)

lemma lost_support_well: "well_reported p \<Longrightarrow> well_reported (lost_support p st refs)"
  by (auto simp: well_reported_def)

lemma transition_Some:
  "map_of CONDITIONAL_TRANSITION_STATUS k = Some st \<Longrightarrow> k \<in> set CONDITIONAL_IDS"
  using transition_ids by blast

lemma transition_None:
  "map_of CONDITIONAL_TRANSITION_STATUS k = None \<Longrightarrow> k \<notin> set CONDITIONAL_IDS"
  using transition_ids by blast

lemma lookup_current:
  "map_of (rev (map (\<lambda>r. (br_branch_id r, r)) cur)) k = None \<longleftrightarrow> k \<notin> set (ids cur)"
  by (simp add: map_of_eq_None_iff image_image)

lemma reconcile_one_cases:
  obtains (same) "reconcile_one reg i c cur p acc = acc" "supported p \<Longrightarrow> br_branch_id p \<in> set (ids cur)"
  | (kept) b reason refs where "branch_by_id reg (br_branch_id p) = Some b"
      "br_branch_id p \<in> set CONDITIONAL_IDS"
      "reconcile_one reg i c cur p acc =
         filter (\<lambda>r. br_branch_id r \<noteq> br_branch_id p) acc @ [new_branch_result b Br_active reason refs]"
  | (lost) st refs where "map_of CONDITIONAL_TRANSITION_STATUS (br_branch_id p) = Some st"
      "br_branch_id p \<notin> set (ids cur)"
      "reconcile_one reg i c cur p acc = acc @ [lost_support p st refs]"
proof (cases "map_of CONDITIONAL_TRANSITION_STATUS (br_branch_id p)")
  case None
  then show ?thesis using same transition_None [OF None] by (simp add: reconcile_one_def supported_def)
next
  case (Some st)
  let ?now = "map_of (rev (map (\<lambda>r. (br_branch_id r, r)) cur)) (br_branch_id p)"
  let ?keep = "case branch_by_id reg (br_branch_id p) of None \<Rightarrow> False
    | Some b \<Rightarrow> br_status p = Br_active \<and> retains_facts c b \<and> \<not> trigger_corrected c (br_branch_id p)"
  note unfold = reconcile_one_def Some option.case Let_def
  show ?thesis
  proof (cases "br_status p \<in> {Br_active, Br_candidate}")
    case False
    then show ?thesis using same by (simp add: unfold supported_def)
  next
    case live: True
    show ?thesis
    proof (cases "\<exists>r. ?now = Some r \<and> br_status r \<noteq> Br_candidate")
      case True
      then have "reconcile_one reg i c cur p acc = acc" using live by (auto simp: unfold)
      moreover have "br_branch_id p \<in> set (ids cur)" using True lookup_current [of cur "br_branch_id p"]
        by (metis option.distinct(1))
      ultimately show ?thesis using same by blast
    next
      case open_now: False
      then have skip: "\<not> (case ?now of None \<Rightarrow> False | Some r \<Rightarrow> br_status r \<noteq> Br_candidate)"
        by (auto split: option.splits)
      show ?thesis
      proof (cases ?keep)
        case True
        then obtain b where b: "branch_by_id reg (br_branch_id p) = Some b" by (auto split: option.splits)
        show ?thesis
          by (rule kept [OF b transition_Some [OF Some]])
            (use live skip True b in \<open>simp add: unfold\<close>)
      next
        case keep: False
        show ?thesis
        proof (cases "?now = None")
          case True
          then have "br_branch_id p \<notin> set (ids cur)"
            using lookup_current [of cur "br_branch_id p"] by blast
          then show ?thesis
            by (rule lost [OF Some]) (use live skip keep True in \<open>simp add: unfold\<close>)
        next
          case False
          then have "br_branch_id p \<in> set (ids cur)"
            using lookup_current [of cur "br_branch_id p"] by metis
          moreover have "reconcile_one reg i c cur p acc = acc"
            using live skip keep False by (simp add: unfold)
          ultimately show ?thesis using same by blast
        qed
      qed
    qed
  qed
qed

lemma fold_reconcile_ids:
  assumes "\<And>k b. branch_by_id reg k = Some b \<Longrightarrow> cb_branch_id b = k"
  shows "distinct (ids prev) \<Longrightarrow> distinct (ids acc) \<Longrightarrow> set (ids acc) \<inter> set (ids prev) \<subseteq> set (ids cur) \<Longrightarrow>
    set (ids cur) \<subseteq> set (ids acc) \<Longrightarrow>
    distinct (ids (fold (reconcile_one reg i c cur) prev acc))
    \<and> set (ids acc) \<subseteq> set (ids (fold (reconcile_one reg i c cur) prev acc))
    \<and> set (ids (fold (reconcile_one reg i c cur) prev acc)) \<subseteq> set (ids acc) \<union> set CONDITIONAL_IDS
    \<and> (\<forall>p\<in>set prev. supported p \<longrightarrow> br_branch_id p \<in> set (ids (fold (reconcile_one reg i c cur) prev acc)))"
proof (induction prev arbitrary: acc)
  case (Cons p prev)
  let ?acc = "reconcile_one reg i c cur p acc"
  have step: "distinct (ids ?acc) \<and> set (ids acc) \<subseteq> set (ids ?acc)
    \<and> set (ids ?acc) \<subseteq> set (ids acc) \<union> ({br_branch_id p} \<inter> set CONDITIONAL_IDS)
    \<and> (supported p \<longrightarrow> br_branch_id p \<in> set (ids ?acc))"
  proof (rule reconcile_one_cases [of reg i c cur p acc])
    assume "?acc = acc" "supported p \<Longrightarrow> br_branch_id p \<in> set (ids cur)"
    then show ?thesis using Cons.prems by auto
  next
    fix b reason refs
    assume "branch_by_id reg (br_branch_id p) = Some b" "br_branch_id p \<in> set CONDITIONAL_IDS"
      "?acc = filter (\<lambda>r. br_branch_id r \<noteq> br_branch_id p) acc @ [new_branch_result b Br_active reason refs]"
    then show ?thesis using Cons.prems(2) assms by (auto simp: distinct_map_filter)
  next
    fix st refs
    assume "map_of CONDITIONAL_TRANSITION_STATUS (br_branch_id p) = Some st"
      "br_branch_id p \<notin> set (ids cur)" "?acc = acc @ [lost_support p st refs]"
    then show ?thesis using Cons.prems transition_Some by auto
  qed
  have "set (ids ?acc) \<inter> set (ids prev) \<subseteq> set (ids cur)"
    using step Cons.prems(1,3) by (simp only: list.map list.set distinct.simps) blast
  moreover have "distinct (ids prev)" "set (ids cur) \<subseteq> set (ids ?acc)" "distinct (ids ?acc)"
    using Cons.prems(1,4) step by (simp, blast, blast)
  ultimately have "distinct (ids (fold (reconcile_one reg i c cur) prev ?acc))
    \<and> set (ids ?acc) \<subseteq> set (ids (fold (reconcile_one reg i c cur) prev ?acc))
    \<and> set (ids (fold (reconcile_one reg i c cur) prev ?acc)) \<subseteq> set (ids ?acc) \<union> set CONDITIONAL_IDS
    \<and> (\<forall>p\<in>set prev. supported p \<longrightarrow>
         br_branch_id p \<in> set (ids (fold (reconcile_one reg i c cur) prev ?acc)))"
    by (intro Cons.IH)
  then show ?case using step by (simp only: fold.simps comp_apply list.set ball_simps) blast
qed auto

lemma fold_reconcile_results:
  assumes "\<And>p. p \<in> set prev \<Longrightarrow> well_reported p" "\<And>r. r \<in> set acc \<Longrightarrow> well_reported r \<and> accounted r"
    "branch_by_id reg = branch_by_id default_registry"
  shows "r \<in> set (fold (reconcile_one reg i c cur) prev acc) \<Longrightarrow> well_reported r \<and> accounted r"
  using assms
proof (induction prev arbitrary: acc)
  case (Cons p prev)
  have "well_reported r \<and> accounted r" if "r \<in> set (reconcile_one reg i c cur p acc)" for r
  proof (rule reconcile_one_cases [of reg i c cur p acc])
    fix b reason refs
    assume b: "branch_by_id reg (br_branch_id p) = Some b" "br_branch_id p \<in> set CONDITIONAL_IDS"
      "reconcile_one reg i c cur p acc = filter (\<lambda>r. br_branch_id r \<noteq> br_branch_id p) acc
         @ [new_branch_result b Br_active reason refs]"
    then show ?thesis
      using that Cons.prems(3,4) new_branch_result_well [of "br_branch_id p" b]
      by (auto simp: accounted_def)
  next
    fix st refs
    assume "map_of CONDITIONAL_TRANSITION_STATUS (br_branch_id p) = Some st"
      "reconcile_one reg i c cur p acc = acc @ [lost_support p st refs]"
    then show ?thesis
      using that Cons.prems(2) [of p] Cons.prems(3) lost_support_well by (auto simp: accounted_def)
  qed (use that Cons.prems(3) in auto)
  then show ?case using Cons.IH [of "reconcile_one reg i c cur p acc"] Cons.prems by simp
qed auto

lemma fold_reconcile_subset:
  assumes "\<And>k b. branch_by_id reg k = Some b \<Longrightarrow> cb_branch_id b = k"
  shows "set (ids (fold (reconcile_one reg i c cur) prev acc)) \<subseteq> set (ids acc) \<union> set CONDITIONAL_IDS"
proof (induction prev arbitrary: acc)
  case (Cons p prev)
  have "set (ids (reconcile_one reg i c cur p acc)) \<subseteq> set (ids acc) \<union> set CONDITIONAL_IDS"
    by (rule reconcile_one_cases [of reg i c cur p acc]) (auto dest: transition_Some assms)
  then show ?case using Cons.IH [of "reconcile_one reg i c cur p acc"] by (simp only: fold.simps comp_apply) blast
qed simp

section \<open>The overlay of controlled rules\<close>

lemma policy_simps [simp]:
  "br_branch_id (apply_controlled_rule_policy ev r) = br_branch_id r"
  "br_rule_id (apply_controlled_rule_policy ev r) = br_rule_id r"
  by (simp_all add: apply_controlled_rule_policy_def)

lemma policy_ids [simp]: "ids (map (apply_controlled_rule_policy ev) rs) = ids rs"
  by (simp add: comp_def)

lemma policy_well: "well_reported r \<Longrightarrow> well_reported (apply_controlled_rule_policy ev r)"
  by (auto simp: well_reported_def apply_controlled_rule_policy_def)

lemma policy_uncontrolled:
  "br_rule_id r \<notin> set (ev_disabled_rule_ids ev) \<union> set (ev_observation_rule_ids ev) \<Longrightarrow>
     apply_controlled_rule_policy ev r = r"
  by (simp add: apply_controlled_rule_policy_def)

section \<open>Evaluation is total\<close>

definition initial_results :: "evaluator \<Rightarrow> evaluation_input \<Rightarrow> intake_claim \<Rightarrow> branch_result list" where
  "initial_results ev i c = map (\<lambda>f. new_branch_result
     (the (branch_by_id default_registry (bf_branch_id f))) (bf_status f) (bf_reason f) (bf_refs f))
     (branch_findings ev i c)"

definition settled_results :: "evaluator \<Rightarrow> evaluation_input \<Rightarrow> intake_claim \<Rightarrow> branch_result list" where
  "settled_results ev i c = map (apply_controlled_rule_policy ev)
     (reconcile_previous_conditional_branches (ev_registry ev) i c (initial_results ev i c))"

definition registered_branch :: "string \<Rightarrow> content_branch" where
  "registered_branch k = the (branch_by_id default_registry k)"

lemma registered_branch_Some:
  "k \<in> set (FAMILY_IDS @ CONDITIONAL_IDS) \<Longrightarrow>
     branch_by_id default_registry k = Some (registered_branch k) \<and> cb_branch_id (registered_branch k) = k"
  using branch_by_id_None [of k] branch_by_id_Some [of k] registered_ids
  by (cases "branch_by_id default_registry k") (auto simp: registered_branch_def)

lemma finding_registered:
  assumes "f \<in> set (branch_findings ev i c)"
  shows "branch_by_id default_registry (bf_branch_id f) = Some (registered_branch (bf_branch_id f))"
    "cb_branch_id (registered_branch (bf_branch_id f)) = bf_branch_id f"
  using registered_branch_Some [of "bf_branch_id f"] branch_findings_ids(3) [of ev i c] assms by blast+

lemma initial_results_ids: "ids (initial_results ev i c) = map bf_branch_id (branch_findings ev i c)"
  using finding_registered by (auto simp: initial_results_def registered_branch_def [symmetric])

lemma initial_results_facts:
  assumes "r \<in> set (initial_results ev i c)"
  shows "well_reported r" "accounted r"
proof -
  obtain f where f: "f \<in> set (branch_findings ev i c)" "r = new_branch_result
      (registered_branch (bf_branch_id f)) (bf_status f) (bf_reason f) (bf_refs f)"
    using assms by (auto simp: initial_results_def registered_branch_def)
  show "well_reported r" using new_branch_result_well [OF finding_registered(1) [OF f(1)]] f(2) by simp
  show "accounted r"
  proof (cases "bf_branch_id f \<in> set CONDITIONAL_IDS")
    case True
    have "bf_branch_id g \<in> set FAMILY_IDS"
      if "g \<in> set (map (family_finding s oc cs src) FAMILY_NAMES)" for g s oc cs src
      using that by (auto simp: FAMILY_IDS_def)
    moreover have "set FAMILY_IDS \<inter> set CONDITIONAL_IDS = {}" using distinct_all_ids by simp
    ultimately have "f \<in> set (conditional_branches i c (tf_product_family (family_resolution ev i c))
        (detect_support_intent (in_latest_message i)))"
      using f(1) True unfolding branch_findings_def Let_def set_append by blast
    then show ?thesis using conditional_findings(3) f by (auto simp: accounted_def)
  next
    case False
    then show ?thesis using finding_registered(2) [OF f(1)] f(2) by (simp add: accounted_def)
  qed
qed

lemma standard_lookup: "standard_evaluator ev \<Longrightarrow> branch_by_id (ev_registry ev) k = Some b \<Longrightarrow> cb_branch_id b = k"
  by (simp add: standard_branch_by_id branch_by_id_Some)

lemma settled_results_ids:
  assumes "standard_evaluator ev"
  shows "set (ids (settled_results ev i c)) \<subseteq> set (FAMILY_IDS @ CONDITIONAL_IDS)"
proof -
  have "set (ids (initial_results ev i c)) \<subseteq> set (FAMILY_IDS @ CONDITIONAL_IDS)"
    using branch_findings_ids(3) [of ev i c] by (simp add: initial_results_ids)
  then show ?thesis
    using fold_reconcile_subset [OF standard_lookup [OF assms], where i = i and c = c
        and cur = "initial_results ev i c" and acc = "initial_results ev i c"]
    unfolding settled_results_def policy_ids reconcile_previous_conditional_branches_def
    by (cases "in_previous i") (simp_all only: option.case set_append split: if_split, blast+)
qed

definition known_results ::
  "evaluator \<Rightarrow> evaluation_input \<Rightarrow> intake_claim \<Rightarrow> (branch_result \<times> content_branch) list" where
  "known_results ev i c = map (\<lambda>r. (r, registered_branch (br_branch_id r))) (settled_results ev i c)"

theorem evaluate_standard:
  assumes "standard_evaluator ev"
  shows "evaluate ev i c = Inr (evaluated ev i c (known_results ev i c))"
proof -
  note lookup = standard_branch_by_id [OF assms]
  have "collect (map (finding_result (ev_registry ev)) (branch_findings ev i c)) = Inr (initial_results ev i c)"
    unfolding initial_results_def
    by (rule collect_map_total) (simp add: finding_result_def lookup finding_registered)
  then have results: "branch_results ev i c = Inr (settled_results ev i c)"
    by (simp add: branch_results_def settled_results_def)
  have "branch_by_id default_registry (br_branch_id r) = Some (registered_branch (br_branch_id r))"
    if "r \<in> set (settled_results ev i c)" for r
    using registered_branch_Some [of "br_branch_id r"] settled_results_ids [OF assms, of i c] that
    by auto
  then have "collect (map (with_branch (ev_registry ev)) (settled_results ev i c)) = Inr (known_results ev i c)"
    unfolding known_results_def by (intro collect_map_total) (simp add: with_branch_def lookup)
  then show ?thesis by (simp add: evaluate_def results)
qed

end
