(* ===== verification/Branch_Safety.thy ===== *)
theory Branch_Safety
  imports Branch_Facts
begin

text \<open>
  The guarantees of a sequence of evaluations and of the requirements they state: each branch is
  reported once, a conditional branch is never dropped silently, protected branches follow the
  Claim whatever overlay is published, a field is offered only through a branch that admits it,
  and every required item stands in exactly one place.
\<close>

section \<open>Sequences of evaluations\<close>

inductive reachable_evaluation :: "form_evaluation \<Rightarrow> bool" where
  first_evaluation: "standard_evaluator ev \<Longrightarrow> in_previous i = None \<Longrightarrow> evaluate ev i c = Inr e \<Longrightarrow>
    reachable_evaluation e"
| next_evaluation: "reachable_evaluation p \<Longrightarrow> standard_evaluator ev \<Longrightarrow> in_previous i = Some (prior_of p) \<Longrightarrow>
    evaluate ev i c = Inr e \<Longrightarrow> reachable_evaluation e"

definition well_formed_results :: "branch_result list \<Rightarrow> bool" where
  "well_formed_results rs \<longleftrightarrow> distinct (ids rs) \<and> set FAMILY_IDS \<subseteq> set (ids rs)
     \<and> (\<forall>r\<in>set rs. well_reported r)"

lemma evaluated_results [simp]:
  "fe_branch_results (evaluated ev i c known) = map fst known"
  "fe_active_branches (evaluated ev i c known) = ids_with Br_active (map fst known)"
  "fe_candidate_branches (evaluated ev i c known) = ids_with Br_candidate (map fst known)"
  "fe_suspended_branches (evaluated ev i c known) = ids_with Br_suspended (map fst known)"
  "fe_exited_branches (evaluated ev i c known) = ids_with Br_exited (map fst known)"
  "fe_branch_rules_version (evaluated ev i c known) = rg_branch_rules_version (ev_registry ev)"
  "fe_selected_family (evaluated ev i c known) = tf_product_family (family_resolution ev i c)"
  "fe_unresolved_family_conflict (evaluated ev i c known) =
     unresolved_conflict (family_resolution ev i c)"
  "fe_interruption_result (evaluated ev i c known) =
     interruption_of c (detect_support_intent (in_latest_message i))"
  "fe_handoff_intents (evaluated ev i c known) =
     handoff_intents c (detect_support_intent (in_latest_message i)) (in_trigger_source_refs i)"
  "fe_evaluated_against_claim_revision (evaluated ev i c known) = wc_revision c"
  "fe_claim_id (evaluated ev i c known) = wc_claim_id c"
  by (simp_all add: evaluated_def Let_def split_beta)

lemma known_results_fst [simp]: "map fst (known_results ev i c) = settled_results ev i c"
  by (simp add: known_results_def comp_def)

lemma evaluate_results:
  assumes "standard_evaluator ev" "evaluate ev i c = Inr e"
  shows "fe_branch_results e = settled_results ev i c"
  using assms evaluate_standard [OF assms(1), of i c] by auto

definition reconciled_results :: "evaluator \<Rightarrow> evaluation_input \<Rightarrow> intake_claim \<Rightarrow> branch_result list" where
  "reconciled_results ev i c =
     reconcile_previous_conditional_branches (ev_registry ev) i c (initial_results ev i c)"

lemma settled_reconciled:
  "settled_results ev i c = map (apply_controlled_rule_policy ev) (reconciled_results ev i c)"
  by (simp add: settled_results_def reconciled_results_def)

lemma reconciled_facts:
  assumes ev: "standard_evaluator ev"
    and prior: "\<And>p. in_previous i = Some p \<Longrightarrow>
      distinct (ids (pe_branch_results p)) \<and> (\<forall>r\<in>set (pe_branch_results p). well_reported r)"
  shows "distinct (ids (reconciled_results ev i c))"
    and "set FAMILY_IDS \<subseteq> set (ids (reconciled_results ev i c))"
    and "\<forall>r\<in>set (reconciled_results ev i c). well_reported r \<and> accounted r"
    and "\<And>p r. in_previous i = Some p \<Longrightarrow>
      pe_branch_rules_version p = rg_branch_rules_version (ev_registry ev) \<Longrightarrow>
      r \<in> set (pe_branch_results p) \<Longrightarrow> supported r \<Longrightarrow>
      br_branch_id r \<in> set (ids (reconciled_results ev i c))"
proof -
  let ?init = "initial_results ev i c"
  have init: "distinct (ids ?init)" "set FAMILY_IDS \<subseteq> set (ids ?init)"
    "\<forall>r\<in>set ?init. well_reported r \<and> accounted r"
    using branch_findings_ids [of ev i c] initial_results_facts by (auto simp: initial_results_ids)
  have goal: "distinct (ids (reconciled_results ev i c))
    \<and> set FAMILY_IDS \<subseteq> set (ids (reconciled_results ev i c))
    \<and> (\<forall>r\<in>set (reconciled_results ev i c). well_reported r \<and> accounted r)
    \<and> (\<forall>p r. in_previous i = Some p \<longrightarrow> pe_branch_rules_version p = rg_branch_rules_version (ev_registry ev) \<longrightarrow>
        r \<in> set (pe_branch_results p) \<longrightarrow> supported r \<longrightarrow>
        br_branch_id r \<in> set (ids (reconciled_results ev i c)))"
  proof (cases "\<exists>p. in_previous i = Some p \<and> pe_branch_rules_version p = rg_branch_rules_version (ev_registry ev)")
    case True
    then obtain p where p: "in_previous i = Some p"
      "pe_branch_rules_version p = rg_branch_rules_version (ev_registry ev)" by blast
    then have eq: "reconciled_results ev i c =
      fold (reconcile_one (ev_registry ev) i c ?init) (pe_branch_results p) ?init"
      by (simp add: reconciled_results_def reconcile_previous_conditional_branches_def)
    note prior = prior [OF p(1)]
    have "well_reported r \<and> accounted r" if "r \<in> set (reconciled_results ev i c)" for r
      using fold_reconcile_results [where prev = "pe_branch_results p" and acc = ?init and r = r
            and i = i and c = c and cur = ?init, OF _ _ standard_branch_by_id [OF ev]]
        that prior init(3) unfolding eq by blast
    moreover have "distinct (ids (reconciled_results ev i c)) \<and> set (ids ?init) \<subseteq> set (ids (reconciled_results ev i c))
      \<and> (\<forall>r\<in>set (pe_branch_results p). supported r \<longrightarrow> br_branch_id r \<in> set (ids (reconciled_results ev i c)))"
      using fold_reconcile_ids [of "ev_registry ev" "pe_branch_results p" ?init ?init i c]
        standard_lookup [OF ev] prior init(1) unfolding eq by blast
    ultimately show ?thesis using init(2) p(1) by (metis (no_types, lifting) option.inject order_trans)
  next
    case False
    then have "reconciled_results ev i c = ?init"
      by (auto simp: reconciled_results_def reconcile_previous_conditional_branches_def
          split: option.splits)
    then show ?thesis using init False by auto
  qed
  show "distinct (ids (reconciled_results ev i c))"
    "set FAMILY_IDS \<subseteq> set (ids (reconciled_results ev i c))"
    "\<forall>r\<in>set (reconciled_results ev i c). well_reported r \<and> accounted r"
    "\<And>p r. in_previous i = Some p \<Longrightarrow>
      pe_branch_rules_version p = rg_branch_rules_version (ev_registry ev) \<Longrightarrow>
      r \<in> set (pe_branch_results p) \<Longrightarrow> supported r \<Longrightarrow>
      br_branch_id r \<in> set (ids (reconciled_results ev i c))"
    using goal by blast+
qed

lemma settled_well_formed:
  assumes "standard_evaluator ev" "\<And>p. in_previous i = Some p \<Longrightarrow>
      distinct (ids (pe_branch_results p)) \<and> (\<forall>r\<in>set (pe_branch_results p). well_reported r)"
  shows "well_formed_results (settled_results ev i c)"
  using reconciled_facts(1-3) [OF assms] policy_well
  unfolding well_formed_results_def settled_reconciled policy_ids by auto

lemma reachable_well_formed: "reachable_evaluation e \<Longrightarrow> well_formed_results (fe_branch_results e)"
proof (induction rule: reachable_evaluation.induct)
  case (first_evaluation ev i c e)
  then show ?case using settled_well_formed [of ev i c] evaluate_results [of ev i c e] by simp
next
  case (next_evaluation p ev i c e)
  then show ?case using settled_well_formed [of ev i c] evaluate_results [of ev i c e]
    by (simp add: prior_of_def well_formed_results_def)
qed

lemma status_partition:
  "set (ids rs) = set (ids_with Br_active rs) \<union> set (ids_with Br_candidate rs)
     \<union> set (ids_with Br_suspended rs) \<union> set (ids_with Br_exited rs)"
  by (induction rs) (auto simp: ids_with_def, metis branch_status.exhaust)

lemma ids_with_disjoint:
  "distinct (ids rs) \<Longrightarrow> st \<noteq> st' \<Longrightarrow> set (ids_with st rs) \<inter> set (ids_with st' rs) = {}"
  by (auto simp: ids_with_def distinct_map inj_on_def)

lemma ids_with_distinct: "distinct (ids rs) \<Longrightarrow> distinct (ids_with st rs)"
  by (simp add: ids_with_def distinct_map_filter)

section \<open>Protected branches\<close>

lemma published_standard: "standard_evaluator (branch_evaluator rules m)"
  by (simp add: standard_evaluator_def branch_evaluator_def)

lemma default_standard: "standard_evaluator default_evaluator"
  by (simp add: standard_evaluator_def default_evaluator_def)

definition active_finding :: "string \<Rightarrow> branch_finding list \<Rightarrow> bool" where
  "active_finding k fs \<longleftrightarrow> (\<exists>f\<in>set fs. bf_branch_id f = k \<and> bf_status f = Br_active)"

lemma reconcile_keeps_active:
  assumes "r \<in> set acc" "br_status r = Br_active" "r \<in> set cur" "distinct (ids cur)"
  shows "r \<in> set (fold (reconcile_one reg i c cur) prev acc)"
  using assms
proof (induction prev arbitrary: acc)
  case (Cons p prev)
  have "r \<in> set (reconcile_one reg i c cur p acc)"
  proof (cases "br_branch_id p = br_branch_id r")
    case True
    have "map_of (rev (map (\<lambda>r. (br_branch_id r, r)) cur)) (br_branch_id p) = Some r"
      using True Cons.prems(3,4) by (subst map_of_eq_Some_iff) (auto simp: rev_map [symmetric] comp_def)
    then have "reconcile_one reg i c cur p acc = acc"
      using Cons.prems(2) by (auto simp: reconcile_one_def Let_def split: option.splits)
    then show ?thesis using Cons.prems(1) by simp
  next
    case False
    then show ?thesis
      by (cases rule: reconcile_one_cases [of reg i c cur p acc]) (use Cons.prems(1) in auto)
  qed
  then show ?case using Cons.IH Cons.prems by simp
qed simp

lemma active_finding_settled:
  assumes ev: "standard_evaluator ev" and k: "active_finding k (branch_findings ev i c)"
    and free: "cb_rule_id (registered_branch k) \<notin> set (ev_disabled_rule_ids ev) \<union> set (ev_observation_rule_ids ev)"
  shows "k \<in> set (ids_with Br_active (settled_results ev i c))"
proof -
  obtain f where f: "f \<in> set (branch_findings ev i c)" "bf_branch_id f = k" "bf_status f = Br_active"
    using k by (auto simp: active_finding_def)
  let ?r = "new_branch_result (registered_branch k) Br_active (bf_reason f) (bf_refs f)"
  have r: "?r \<in> set (initial_results ev i c)" "br_branch_id ?r = k"
    using f finding_registered(2) [OF f(1)]
    by (force simp: initial_results_def registered_branch_def, simp)
  have "?r \<in> set (reconciled_results ev i c)"
    using r(1) reconcile_keeps_active [of ?r "initial_results ev i c" "initial_results ev i c"]
      branch_findings_ids(1) [of ev i c]
    by (auto simp: reconciled_results_def reconcile_previous_conditional_branches_def initial_results_ids
        split: option.splits)
  moreover have "apply_controlled_rule_policy ev ?r = ?r" using free by (intro policy_uncontrolled) simp
  ultimately have "?r \<in> set (settled_results ev i c)" unfolding settled_reconciled by force
  then show ?thesis using r(2) by (force simp: ids_with_def)
qed

lemma protected_untouched:
  "validate_controlled_rules rules = Inr rules' \<Longrightarrow>
     set PROTECTED_RULE_IDS \<inter> (set (cr_disabled_rule_ids rules) \<union> set (cr_observation_rule_ids rules)) = {}"
  by (auto simp: validate_controlled_rules_def require_disjoint_unique_rules_def bind_result_Inr_iff
      guarded_Inr_iff Let_def simp del: guarded.simps)

lemma protected_rule_ids:
  "cb_rule_id (registered_branch ''safety.injury_or_danger'') = ''BR-SAFETY-001''"
  "cb_rule_id (registered_branch ''human_support'') = ''BR-HUMAN-SUPPORT-001''"
  "cb_rule_id (registered_branch ''professional_review'') = ''BR-REVIEW-001''"
  "cb_rule_id (registered_branch ''family.motor'') = ''BR-FAMILY-MOTOR-001''"
  "cb_rule_id (registered_branch ''family.home'') = ''BR-FAMILY-HOME-001''"
  "cb_rule_id (registered_branch ''family.contents'') = ''BR-FAMILY-CONTENTS-001''"
  by (simp_all add: registered_branch_def branch_by_id_def default_registry_def conditional_content_def
      new_branch_def family_branch_def FAMILY_NAMES_def FAMILY_RULE_IDS_def)

lemma family_rule_protected:
  "f \<in> set FAMILY_NAMES \<Longrightarrow> cb_rule_id (registered_branch (''family.'' @ f)) \<in> set PROTECTED_RULE_IDS"
  using protected_rule_ids by (auto simp: FAMILY_NAMES_def PROTECTED_RULE_IDS_def)

lemma protected_active:
  assumes "validate_controlled_rules rules = Inr rules'"
    "cb_rule_id (registered_branch k) \<in> set PROTECTED_RULE_IDS"
    "active_finding k (branch_findings (branch_evaluator rules m) i c)"
  shows "k \<in> set (ids_with Br_active (settled_results (branch_evaluator rules m) i c))"
  using active_finding_settled [OF published_standard assms(3)] protected_untouched [OF assms(1)] assms(2)
  by (auto simp: branch_evaluator_def)

lemma rule_in_findings:
  "x \<in> set (safety_rule i c) \<Longrightarrow> x \<in> set (branch_findings ev i c)"
  "x \<in> set (support_rule i c (detect_support_intent (in_latest_message i))) \<Longrightarrow> x \<in> set (branch_findings ev i c)"
  "x \<in> set (review_rule i c) \<Longrightarrow> x \<in> set (branch_findings ev i c)"
  unfolding branch_findings_def Let_def conditional_branches_def conditional_rules_def
  by (simp_all only: concat.simps set_append Un_iff simp_thms)

lemma found_in: "\<exists>f\<in>set (found i c k st reason codes refs). bf_branch_id f = k \<and> bf_status f = st"
  by (simp add: found_def)

lemma protected_findings:
  "urgent c \<or> confirmed_truthy c ''incident.injury_or_danger'' \<Longrightarrow>
     active_finding ''safety.injury_or_danger'' (branch_findings ev i c)"
  "support_required c \<Longrightarrow> active_finding ''human_support'' (branch_findings ev i c)"
  "review_sources c \<noteq> [] \<Longrightarrow> active_finding ''professional_review'' (branch_findings ev i c)"
proof -
  show "active_finding ''safety.injury_or_danger'' (branch_findings ev i c)"
    if "urgent c \<or> confirmed_truthy c ''incident.injury_or_danger''"
  proof -
    have "\<exists>f\<in>set (safety_rule i c). bf_branch_id f = ''safety.injury_or_danger'' \<and> bf_status f = Br_active"
      unfolding safety_rule_def if_P [OF that] by (rule found_in)
    then show ?thesis unfolding active_finding_def using rule_in_findings(1) by blast
  qed
  show "active_finding ''human_support'' (branch_findings ev i c)" if "support_required c"
  proof -
    have "\<exists>f\<in>set (support_rule i c intent). bf_branch_id f = ''human_support'' \<and> bf_status f = Br_active" for intent
      unfolding support_rule_def if_P [OF that] by (rule found_in)
    then show ?thesis unfolding active_finding_def using rule_in_findings(2) by blast
  qed
  show "active_finding ''professional_review'' (branch_findings ev i c)" if "review_sources c \<noteq> []"
  proof -
    have "\<exists>f\<in>set (review_rule i c). bf_branch_id f = ''professional_review'' \<and> bf_status f = Br_active"
      unfolding review_rule_def if_not_P [OF that] by (rule found_in)
    then show ?thesis unfolding active_finding_def using rule_in_findings(3) by blast
  qed
qed

definition input_ok :: "evaluation_input \<Rightarrow> bool" where
  "input_ok i \<longleftrightarrow> opt_all (\<lambda>r. validate_resolution r = Inr r) (in_family_resolution i)"

lemma resolution_valid:
  "input_ok i \<Longrightarrow> validate_resolution (family_resolution ev i c) = Inr (family_resolution ev i c)"
  by (cases "in_family_resolution i") (simp_all add: input_ok_def family_resolution_def resolve_turn_family_valid)

lemma valid_resolution_family:
  "validate_resolution r = Inr r \<Longrightarrow> tf_product_family r = Some f \<Longrightarrow> f \<in> set FAMILY_NAMES"
  by (auto simp: validate_resolution_def split: if_splits)

lemma selected_family_finding:
  assumes "input_ok i" "tf_product_family (family_resolution ev i c) = Some f"
  shows "active_finding (''family.'' @ f) (branch_findings ev i c)" "f \<in> set FAMILY_NAMES"
proof -
  show f: "f \<in> set FAMILY_NAMES"
    using valid_resolution_family [OF resolution_valid [OF assms(1)]] assms(2) by blast
  show "active_finding (''family.'' @ f) (branch_findings ev i c)"
    unfolding active_finding_def branch_findings_def Let_def assms(2)
    using f by (intro bexI [of _ "family_finding (Some f) (open_family_candidates ev i c)
        (other_candidates (family_resolution ev i c)) (family_sources c
          (tf_candidate_families (family_resolution ev i c)) (in_trigger_source_refs i)) f"])
      (simp_all add: family_finding_def)
qed

section \<open>Fields are offered through a branch that admits them\<close>

lemma permit_source:
  "code \<in> set (permit oc known acc) \<Longrightarrow>
     code \<in> set acc \<or> (\<exists>(r, b)\<in>set known. admits oc r b \<and> code \<in> set (br_registered_fields r))"
  by (induction known arbitrary: acc) (fastforce split: if_splits)+

lemma permitted_source:
  assumes "code \<in> set (permitted_fields ev oc selected candidates known)"
  shows "code \<in> set COMMON_FIELDS
    \<or> (\<exists>(r, b)\<in>set known. admits oc r b \<and> code \<in> set (br_registered_fields r))
    \<or> (\<exists>f. \<not> ev_model_family_judgment ev \<and> selected = None \<and> candidates = [f]
         \<and> code \<in> set (entries FAMILY_FIELDS f))"
  using assms permit_source [of code oc known]
  by (fastforce simp: permitted_fields_def Let_def length_Suc_conv split: if_splits)

lemma select_field_offered:
  assumes "fs_selection_state (select_field permitted c selected candidates required oc d)
    \<in> {Sel_required_now, Sel_candidate_now, Sel_pending_later}"
  shows "fd_code d \<in> set permitted" "\<not> fd_system_owned d"
    "fd_families d = [] \<or> (\<exists>f. selected = Some f \<and> f \<in> set (fd_families d))
       \<or> set (fd_families d) \<inter> set candidates \<noteq> {} \<or> oc"
  using assms by (auto simp: select_field_def Let_def split: if_splits option.splits)

lemma select_field_code [simp]: "fs_field_code (select_field p c s cs r oc d) = fd_code d"
  by (simp add: select_field_def Let_def)

end
