(* ===== verification/Branch_Requirements.thy ===== *)
theory Branch_Requirements
  imports Branch_Safety
begin

text \<open>
  What the requirements of an evaluation say of the Claim: every required item stands in exactly
  one state, an evaluation is ready exactly when a family is selected and every required item has
  a disposition on the Claim, and the missing items are grouped without loss or repetition.
\<close>

section \<open>Tables\<close>

lemma distinct_priority: "distinct REQUIREMENT_PRIORITY"
  by (simp add: REQUIREMENT_PRIORITY_def)

lemma required_tables:
  "list_all (\<lambda>code. code \<in> set REQUIREMENT_PRIORITY) COMMON_REQUIRED"
  "list_all (\<lambda>(f, codes). list_all (\<lambda>code. code \<in> set REQUIREMENT_PRIORITY) codes) FAMILY_REQUIRED"
  "list_all (\<lambda>code. code \<in> set REQUIREMENT_PRIORITY) [''loss.description'', ''incident.liability_position'']"
  by (simp_all add: REQUIREMENT_PRIORITY_def COMMON_REQUIRED_def FAMILY_REQUIRED_def)

lemma policy_tables:
  "list_all (\<lambda>b. cb_kind b = Kind_fact \<longrightarrow> list_all (\<lambda>p. snd p \<in> {Due_required_now, Due_before_creation}
     \<longrightarrow> fst p \<in> set REQUIREMENT_PRIORITY) (cb_collection_policy b)) default_branches"
  by (simp add: default_registry_def conditional_content_def new_branch_def family_branch_def
      FAMILY_NAMES_def FAMILY_REQUIRED_def REQUIREMENT_PRIORITY_def entries_def)

lemma priority_not_police:
  "list_all (\<lambda>code. \<not> ends_with ''police_report_reference'' code) REQUIREMENT_PRIORITY"
  by (simp add: REQUIREMENT_PRIORITY_def ends_with_def)

lemma entries_in: "x \<in> set (entries t k) \<Longrightarrow> \<exists>xs. (k, xs) \<in> set t \<and> x \<in> set xs"
  by (cases "map_of t k") (auto simp: entries_def dest: map_of_SomeD)

lemma required_set_priority:
  assumes "standard_evaluator ev" "deadline \<in> {Due_required_now, Due_before_creation}"
  shows "set (required_set (ev_registry ev) c selected active deadline) \<subseteq> set REQUIREMENT_PRIORITY"
proof
  fix code
  assume "code \<in> set (required_set (ev_registry ev) c selected active deadline)"
  then consider "code \<in> set COMMON_REQUIRED" | f where "code \<in> set (entries FAMILY_REQUIRED f)"
    | "code \<in> {''loss.description'', ''incident.liability_position''}"
    | k b where "branch_by_id default_registry k = Some b" "cb_kind b = Kind_fact"
        "(code, deadline) \<in> set (cb_collection_policy b)"
    by (auto simp: required_set_def Let_def standard_branch_by_id [OF assms(1)]
        split: if_splits option.splits dest!: sym [of "Some _"])
  then show "code \<in> set REQUIREMENT_PRIORITY"
  proof cases
    case 1
    then show ?thesis using required_tables(1) by (auto simp: list_all_iff)
  next
    case 2
    then show ?thesis using required_tables(2) entries_in by (fastforce simp: list_all_iff)
  next
    case 3
    then show ?thesis using required_tables(3) by auto
  next
    case 4
    then show ?thesis using policy_tables assms(2) branch_by_id_Some [of k b]
      by (fastforce simp: list_all_iff)
  qed
qed

lemma required_codes_priority:
  assumes "standard_evaluator ev"
  shows "set (required_codes ev i c known) \<subseteq> set REQUIREMENT_PRIORITY"
  using required_set_priority [OF assms] by (auto simp: required_codes_def Let_def)

section \<open>Where a requirement stands\<close>

text \<open>The disposition of a required item, read from the Claim alone.\<close>

definition item_state :: "intake_claim \<Rightarrow> string \<Rightarrow> requirement_state" where
  "item_state c code =
     (if code = ''contents.items'' then items_place c
      else case form_get c code of
          None \<Rightarrow> if code = ''claim.product_family''
              \<and> (case ic_incident_type c of None \<Rightarrow> False | Some t \<Rightarrow> t \<in> set FAMILY_NAMES)
            then Req_confirmed_exact else Req_missing
        | Some f \<Rightarrow> status_place c code (ff_status f))"

definition disposed :: "intake_claim \<Rightarrow> string \<Rightarrow> bool" where
  "disposed c code \<longleftrightarrow> item_state c code \<noteq> Req_missing"

lemma select_field_value_state:
  "fs_value_state (select_field p c s cs r oc d) =
     (case form_get c (fd_code d) of None \<Rightarrow> Missing | Some f \<Rightarrow> ff_status f)"
  by (simp add: select_field_def Let_def)

lemma select_field_not_pending:
  "\<not> ends_with ''police_report_reference'' (fd_code d) \<Longrightarrow>
     fs_selection_state (select_field p c s cs r oc d) \<noteq> Sel_pending_later"
  by (auto simp: select_field_def Let_def)

lemma selection_lookup:
  assumes "map_of (rev (map (\<lambda>s. (fs_field_code s, s)) (map (select_field p c s cs r oc) ds))) code = Some x"
  shows "\<exists>d\<in>set ds. fd_code d = code \<and> x = select_field p c s cs r oc d"
  using map_of_SomeD [OF assms] by auto

lemma selection_lookup_None:
  "map_of (rev (map (\<lambda>s. (fs_field_code s, s)) (map (select_field p c s cs r oc) ds))) code = None
     \<longleftrightarrow> code \<notin> fd_code ` set ds"
  by (simp add: map_of_eq_None_iff image_image)

lemma requirement_place_state:
  assumes "code \<in> set REQUIREMENT_PRIORITY" "code = ''contents.items'' \<or> code \<in> fd_code ` set ds"
  shows "requirement_place c (map (select_field p c s cs r oc) ds) code = At_state (item_state c code)"
proof (cases "code = ''contents.items''")
  case True
  then show ?thesis by (simp add: requirement_place_def item_state_def)
next
  case False
  then obtain x where x: "map_of (rev (map (\<lambda>s. (fs_field_code s, s))
      (map (select_field p c s cs r oc) ds))) code = Some x"
    using assms(2) selection_lookup_None [of p c s cs r oc ds code] by blast
  then obtain d where d: "fd_code d = code" "x = select_field p c s cs r oc d"
    using selection_lookup by blast
  have "fs_selection_state x \<noteq> Sel_pending_later"
    using select_field_not_pending [of d] priority_not_police assms(1) d by (auto simp: list_all_iff)
  moreover have "fs_value_state x = (case form_get c code of None \<Rightarrow> Missing | Some f \<Rightarrow> ff_status f)"
    using d by (simp add: select_field_value_state)
  ultimately show ?thesis
    using x False by (cases "form_get c code")
      (simp_all add: requirement_place_def item_state_def status_place_def)
qed

lemma registered_fields_codes:
  assumes "finite codes"
  shows "fd_code ` set (registered_fields_of codes) = {code \<in> codes. map_of FIELD_VALUE_CONTRACTS code \<noteq> None}"
proof -
  have "fd_code ` set (case x of None \<Rightarrow> [] | Some t \<Rightarrow> [field_definition_of code t]) = (if x = None then {} else {code})"
    for x code by (cases x) (simp_all add: field_definition_of_def)
  then show ?thesis
    unfolding registered_fields_of_def set_concat set_map image_UN using assms by auto
qed

lemma default_field_codes: "fd_code ` set (rg_fields default_registry) = REGISTERED_FIELD_CODES"
proof -
  have "finite REGISTERED_FIELD_CODES" unfolding contracts_registered [symmetric] by simp
  moreover have "map_of FIELD_VALUE_CONTRACTS code \<noteq> None" if "code \<in> REGISTERED_FIELD_CODES" for code
    using that unfolding contracts_registered [symmetric] map_of_eq_None_iff by simp
  ultimately show ?thesis by (auto simp: default_registry_def registered_fields_codes)
qed

lemma required_code_registered:
  assumes "standard_evaluator ev" "code \<in> set (required_codes ev i c known)"
  shows "code = ''contents.items'' \<or> code \<in> fd_code ` set (rg_fields (ev_registry ev))"
proof -
  have "code = ''contents.items'' \<or> code \<in> set (field_codes reg)"
    if "code \<in> set (required_set reg c s a d)" for reg s a d
    using that unfolding required_set_def Let_def set_filter by blast
  then show ?thesis
    using assms(2) by (auto simp: required_codes_def Let_def field_codes_def split: if_splits)
qed

definition evaluation_selections ::
  "evaluator \<Rightarrow> evaluation_input \<Rightarrow> intake_claim \<Rightarrow> (branch_result \<times> content_branch) list \<Rightarrow> field_selection list" where
  "evaluation_selections ev i c known =
     fst (project_requirements ev i c known (required_codes ev i c known))"

lemma evaluated_requirements:
  "fe_field_selection (evaluated ev i c known) = evaluation_selections ev i c known"
  "fe_requirements (evaluated ev i c known) = snd (project_requirements ev i c known (required_codes ev i c known))"
  by (simp_all add: evaluated_def evaluation_selections_def Let_def split_beta)

lemma place_of_required:
  assumes "standard_evaluator ev" "code \<in> set (required_codes ev i c known)"
  shows "requirement_place c (evaluation_selections ev i c known) code = At_state (item_state c code)"
  unfolding evaluation_selections_def project_requirements_def Let_def fst_conv
  using requirement_place_state required_codes_priority [OF assms(1)] required_code_registered [OF assms]
    assms(2) by blast

lemma requirements_at_required:
  assumes "standard_evaluator ev"
  shows "requirements_at c (evaluation_selections ev i c known) (required_codes ev i c known) sts =
    filter (\<lambda>code. code \<in> set (required_codes ev i c known) \<and> item_state c code \<in> sts) REQUIREMENT_PRIORITY"
  unfolding requirements_at_def
  by (rule filter_cong [OF refl]) (use place_of_required [OF assms] in \<open>auto\<close>)

section \<open>Counting\<close>

lemma sum_filter_partition:
  assumes "distinct ys"
  shows "(\<And>x. x \<in> set xs \<Longrightarrow> P x \<Longrightarrow> g x \<in> set ys) \<Longrightarrow>
    sum_list (map (\<lambda>y. length (filter (\<lambda>x. P x \<and> g x = y) xs)) ys) = length (filter P xs)"
proof (induction xs)
  case (Cons x xs)
  have one: "sum_list (map (\<lambda>y. if P x \<and> g x = y then 1 else 0 :: nat) ys) = (if P x then 1 else 0)"
  proof (cases "P x")
    case True
    have "sum_list (map (\<lambda>y. if g x = y then 1 else 0 :: nat) ys) = (if g x \<in> set ys then 1 else 0)"
      using assms by (induction ys) auto
    then show ?thesis using True Cons.prems [of x] by simp
  qed simp
  have "sum_list (map (\<lambda>y. length (filter (\<lambda>x. P x \<and> g x = y) (x # xs))) ys) =
      sum_list (map (\<lambda>y. (if P x \<and> g x = y then 1 else 0) + length (filter (\<lambda>x. P x \<and> g x = y) xs)) ys)"
    by (rule arg_cong [where f = sum_list]) auto
  also have "\<dots> = (if P x then 1 else 0) + length (filter P xs)"
    using Cons by (simp add: sum_list_addf one)
  finally show ?case by simp
qed simp

lemma length_filter_priority:
  assumes "set R \<subseteq> set REQUIREMENT_PRIORITY"
  shows "length (filter (\<lambda>code. code \<in> set R) REQUIREMENT_PRIORITY) = card (set R)"
proof -
  have "set (filter (\<lambda>code. code \<in> set R) REQUIREMENT_PRIORITY) = set R" using assms by auto
  then show ?thesis using distinct_card [OF distinct_filter [OF distinct_priority]] by metis
qed

section \<open>Grouping\<close>

lemma group_missing_parts:
  "group_missing bs ungrouped = (groups, rest) \<Longrightarrow> set ungrouped \<subseteq> set REQUIREMENT_PRIORITY \<Longrightarrow>
     distinct (concat (map snd groups)) \<and> set (concat (map snd groups)) \<inter> set rest = {}
     \<and> set (concat (map snd groups)) \<union> set rest = set ungrouped"
proof (induction bs arbitrary: ungrouped groups rest)
  case (Cons b bs)
  let ?own = "filter (\<lambda>code. code \<in> set ungrouped \<and> code \<in> fst ` set (cb_collection_policy b))
            REQUIREMENT_PRIORITY"
  obtain gs r where gs: "group_missing bs (filter (\<lambda>code. code \<notin> set ?own) ungrouped) = (gs, r)"
    by (cases "group_missing bs (filter (\<lambda>code. code \<notin> set ?own) ungrouped)")
  have groups: "groups = (if ?own = [] then [] else [(cb_branch_id b, ?own)]) @ gs" "rest = r"
    using Cons.prems(1) gs by (auto simp: Let_def)
  have parts: "concat (map snd groups) = ?own @ concat (map snd gs)" by (simp add: groups(1))
  have IH: "distinct (concat (map snd gs))" "set (concat (map snd gs)) \<inter> set r = {}"
    "set (concat (map snd gs)) \<union> set r = set (filter (\<lambda>code. code \<notin> set ?own) ungrouped)"
    using Cons.IH [OF gs] Cons.prems(2) by auto
  have "distinct ?own" using distinct_priority by simp
  moreover have "set ?own \<subseteq> set ungrouped" by auto
  ultimately show ?case unfolding parts groups(2) distinct_append set_append
    using IH by (simp only: set_filter) blast
qed auto

lemma missing_by_branch_parts:
  assumes "distinct missing" "set missing \<subseteq> set REQUIREMENT_PRIORITY"
  shows "distinct (concat (map snd (missing_by_branch reg active newly missing)))
    \<and> set (concat (map snd (missing_by_branch reg active newly missing))) = set missing"
proof -
  obtain groups rest where g: "group_missing (sort_key (branch_rank newly)
      (filter (\<lambda>b. cb_kind b = Kind_fact) (map (\<lambda>branch. the (branch_by_id reg branch)) active))) missing
      = (groups, rest)" by (metis surj_pair)
  note parts = group_missing_parts [OF g assms(2)]
  have eq: "missing_by_branch reg active newly missing = groups
      @ (if filter (\<lambda>code. code \<in> set rest) missing = [] then [] else [(''common'', filter (\<lambda>code. code \<in> set rest) missing)])"
    by (simp add: missing_by_branch_def g Let_def)
  have "concat (map snd (missing_by_branch reg active newly missing)) =
      concat (map snd groups) @ filter (\<lambda>code. code \<in> set rest) missing"
    unfolding eq by simp
  moreover have "distinct (filter (\<lambda>code. code \<in> set rest) missing)" using assms(1) by simp
  moreover have "set rest \<subseteq> set missing" using parts by blast
  ultimately show ?thesis using parts by (simp only: distinct_append set_append set_filter) blast
qed

section \<open>What is always required\<close>

lemma required_registered:
  "list_all (\<lambda>code. code \<in> REGISTERED_FIELD_CODES) COMMON_REQUIRED"
  "list_all (\<lambda>(f, codes). list_all (\<lambda>code. code = ''contents.items'' \<or> code \<in> REGISTERED_FIELD_CODES) codes)
     FAMILY_REQUIRED"
  unfolding contracts_registered [symmetric]
  by (simp_all add: COMMON_REQUIRED_def FAMILY_REQUIRED_def FIELD_VALUE_CONTRACTS_def)

lemma always_required:
  assumes ev: "standard_evaluator ev"
    and code: "code \<in> set COMMON_REQUIRED
      \<or> (\<exists>f. tf_product_family (family_resolution ev i c) = Some f \<and> code \<in> set (entries FAMILY_REQUIRED f))"
  shows "code \<in> set (required_codes ev i c known)"
proof -
  have "code = ''contents.items'' \<or> code \<in> REGISTERED_FIELD_CODES"
    using code required_registered entries_in by (fastforce simp: list_all_iff)
  then have known: "code = ''contents.items'' \<or> code \<in> set (field_codes (ev_registry ev))"
    using default_field_codes by (auto simp: field_codes_def standard_fields [OF ev])
  have "code \<in> set (required_set (ev_registry ev) c (tf_product_family (family_resolution ev i c)) active
      Due_required_now)" for active
    unfolding required_set_def Let_def set_filter using known code by auto
  then show ?thesis by (simp add: required_codes_def Let_def)
qed

section \<open>Registered fields\<close>

lemma default_field_contract:
  assumes "d \<in> set (rg_fields default_registry)"
  shows "fd_system_owned d \<longleftrightarrow> fd_code d \<in> set SYSTEM_OWNED_FIELDS"
    and "fd_claimant_visible d \<longleftrightarrow> fd_code d \<notin> set CLAIMANT_HIDDEN_FIELDS"
    and "fd_families d = map fst (filter (\<lambda>(f, codes). fd_code d \<in> set codes) FAMILY_FIELDS)"
  using assms by (auto simp: default_registry_def registered_fields_of_def field_definition_of_def split: option.splits)

lemma hidden_not_visible:
  assumes "k \<in> set CLAIMANT_HIDDEN_FIELDS" "field_by_code default_registry k = Some d"
  shows "\<not> fd_claimant_visible d"
proof -
  have "d \<in> set (rg_fields default_registry)" "fd_code d = k"
    using map_of_SomeD [of _ k d] assms(2) by (fastforce simp: field_by_code_def)+
  then show ?thesis using default_field_contract(2) assms(1) by blast
qed

lemma no_staff_only: "k \<in> set (FAMILY_IDS @ CONDITIONAL_IDS) \<Longrightarrow> staff_only (registered_branch k) = {}"
proof -
  assume "k \<in> set (FAMILY_IDS @ CONDITIONAL_IDS)"
  then have "registered_branch k \<in> set default_branches"
    using registered_branch_Some branch_by_id_Some by blast
  moreover have "list_all (\<lambda>b. filter (\<lambda>p. snd p = Due_staff_only) (cb_collection_policy b) = []) default_branches"
    by (simp add: default_registry_def conditional_content_def new_branch_def family_branch_def FAMILY_NAMES_def
        entries_def FAMILY_REQUIRED_def)
  ultimately show ?thesis by (simp add: list_all_iff staff_only_def)
qed

lemma permit_keeps:
  "(\<And>p. p \<in> set known \<Longrightarrow> staff_only (snd p) = {}) \<Longrightarrow> set acc \<subseteq> set (permit oc known acc)"
proof (induction known arbitrary: acc)
  case (Cons p known)
  have "staff_only (snd p) = {}" using Cons.prems by simp
  then have "set acc \<subseteq> set (if admits oc (fst p) (snd p)
     then filter (\<lambda>code. code \<notin> staff_only (snd p)) (acc @ br_registered_fields (fst p)) else acc)" by auto
  then show ?case using Cons.IH Cons.prems by (simp only: permit.simps list.set_intros) blast
qed simp

end
