(* ===== verification/Fact_Resolution.thy ===== *)
theory Fact_Resolution
  imports Claim_Form "HOL-Library.Sublist"
begin

text \<open>
  Resolution of new assertions against the facts of a Claim
  (\<open>backend/services/fact_resolution.py\<close>): the relation of a proposal to what is recorded, the
  form field or contents item it leads to, confirmation, and the disposition of a fact that cannot
  be supplied. The identity a new assertion draws and the text Python gives a \<open>float\<close> are arguments.
  The lemmas show that histories only grow, that the current assertion is one of the history and
  agrees with the recorded value, and when a confirmed value is replaced.
\<close>

section \<open>Text of a value\<close>

definition lower_hex :: "nat \<Rightarrow> char" where
  "lower_hex n = char_of (if n < 10 then 48 + n else 87 + n)"

definition hex2 :: "char \<Rightarrow> string" where
  "hex2 c = (let n = of_char c :: nat in [lower_hex (n div 16), lower_hex (n mod 16)])"

definition printable :: "char \<Rightarrow> bool" where
  "printable c \<longleftrightarrow> (let n = of_char c :: nat in 32 \<le> n \<and> n \<le> 126)"

definition json_char :: "char \<Rightarrow> string" where
  "json_char c = (let n = of_char c :: nat in
     if n = 34 \<or> n = 92 then [CHR 0x5C, c]
     else if n = 8 then [CHR 0x5C, CHR ''b''] else if n = 9 then [CHR 0x5C, CHR ''t'']
     else if n = 10 then [CHR 0x5C, CHR ''n''] else if n = 12 then [CHR 0x5C, CHR ''f'']
     else if n = 13 then [CHR 0x5C, CHR ''r'']
     else if printable c then [c]
     else CHR 0x5C # ''u00'' @ hex2 c)"

definition json_string :: "string \<Rightarrow> string" where
  "json_string s = [CHR 0x22] @ concat (map json_char s) @ [CHR 0x22]"

text \<open>\<open>json.dumps\<close> with sorted keys and without spaces; \<open>repr\<close> is the text of a float.\<close>

fun json_dump :: "(rat \<Rightarrow> string) \<Rightarrow> fact_value \<Rightarrow> string" where
  "json_dump repr V_null = ''null''"
| "json_dump repr (V_bool b) = (if b then ''true'' else ''false'')"
| "json_dump repr (V_int i) = decimal i"
| "json_dump repr (V_float r) = repr r"
| "json_dump repr V_nan = ''NaN''"
| "json_dump repr (V_infinity neg) = (if neg then ''-Infinity'' else ''Infinity'')"
| "json_dump repr (V_text s) = json_string s"
| "json_dump repr (V_list xs) = ''['' @ join '','' (map (json_dump repr) xs) @ '']''"
| "json_dump repr (V_dict d) = ''{'' @ join '','' (map (\<lambda>(k, t). json_string k @ '':'' @ t)
     (sort_key fst (map (\<lambda>(k, v). (k, json_dump repr v)) d))) @ ''}''"

definition repr_char :: "char \<Rightarrow> char \<Rightarrow> string" where
  "repr_char quote c = (let n = of_char c :: nat in
     if c = quote \<or> n = 92 then [CHR 0x5C, c]
     else if n = 9 then [CHR 0x5C, CHR ''t''] else if n = 10 then [CHR 0x5C, CHR ''n'']
     else if n = 13 then [CHR 0x5C, CHR ''r'']
     else if printable c then [c]
     else CHR 0x5C # ''x'' @ hex2 c)"

definition repr_string :: "string \<Rightarrow> string" where
  "repr_string s = (let quote = (if CHR 0x27 \<in> set s \<and> CHR 0x22 \<notin> set s then CHR 0x22 else CHR 0x27) in
     [quote] @ concat (map (repr_char quote) s) @ [quote])"

fun py_repr :: "(rat \<Rightarrow> string) \<Rightarrow> fact_value \<Rightarrow> string" where
  "py_repr repr V_null = ''None''"
| "py_repr repr (V_bool b) = (if b then ''True'' else ''False'')"
| "py_repr repr (V_int i) = decimal i"
| "py_repr repr (V_float r) = repr r"
| "py_repr repr V_nan = ''nan''"
| "py_repr repr (V_infinity neg) = (if neg then ''-inf'' else ''inf'')"
| "py_repr repr (V_text s) = repr_string s"
| "py_repr repr (V_list xs) = ''['' @ join '', '' (map (py_repr repr) xs) @ '']''"
| "py_repr repr (V_dict d) = ''{'' @ join '', '' (map (\<lambda>(k, v). repr_string k @ '': '' @ py_repr repr v) d) @ ''}''"

definition py_str :: "(rat \<Rightarrow> string) \<Rightarrow> fact_value \<Rightarrow> string" where
  "py_str repr v = (case v of V_text s \<Rightarrow> s | _ \<Rightarrow> py_repr repr v)"

definition normalise :: "(rat \<Rightarrow> string) \<Rightarrow> fact_value \<Rightarrow> string" where
  "normalise repr v = (case v of
     V_text s \<Rightarrow> py_lower (join '' '' (py_split s))
   | _ \<Rightarrow> py_lower (json_dump repr v))"

text \<open>\<open>x or y\<close> on optional texts: an empty text counts as absent.\<close>

definition reported_or :: "string option \<Rightarrow> string option \<Rightarrow> string option" where
  "reported_or x y = (if present x then x else y)"

section \<open>Relation of a proposal to a recorded fact\<close>

record form_change =
  pc_field_code :: string
  pc_value :: fact_value
  pc_source :: form_source
  pc_status :: form_status
  pc_needed_for :: needed_for
  pc_confidence :: "rat option"
  pc_precision :: fact_precision
  pc_relation :: "assertion_relation option"
  pc_reported_text :: "string option"
  pc_source_evidence_id :: "string option"

definition CORRECTION_PATTERN :: pattern where
  "CORRECTION_PATTERN = bounded (alts [lit ''actually'', lit ''correction'', lit ''correct that'',
     lit ''i mean'', lit ''rather than'', seqs [lit ''instead'', optional (lit '' of'')],
     seqs [lit ''not'', gap, some_of Any_char, gap, lit ''but''],
     seqs [lit ''sorry'', some_of (One_of '', ''), words [''it'', ''the'']]])"

definition APPROXIMATE_PATTERN :: pattern where
  "APPROXIMATE_PATTERN = bounded (words [''about'', ''around'', ''approximately'', ''roughly'', ''maybe'',
     ''perhaps'', ''i think'', ''ish''])"

definition RANGE_PATTERN :: pattern where
  "RANGE_PATTERN = seqs [Edge, words [''between'', ''from''], Edge, some_of Any_char, Edge,
     words [''and'', ''to''], Edge]"

definition infer_precision :: "string \<Rightarrow> fact_value \<Rightarrow> string option \<Rightarrow> fact_precision" where
  "infer_precision code v reported =
     (let stated = (case v of
            V_dict d \<Rightarrow> (case dict_get d ''precision'' of Some (V_text s) \<Rightarrow> precision_of s | _ \<Rightarrow> None)
          | _ \<Rightarrow> None);
          words = (if present reported then the reported else (case v of V_text s \<Rightarrow> s | _ \<Rightarrow> [])) in
      if code \<noteq> ''incident.occurred_at'' then Exact
      else case stated of
          Some p \<Rightarrow> p
        | None \<Rightarrow> if blank words then Unknown
            else if search RANGE_PATTERN words then Range
            else if search APPROXIMATE_PATTERN words then Approximate
            else Exact)"

definition legacy_assertion :: "string \<Rightarrow> form_field \<Rightarrow> fact_assertion" where
  "legacy_assertion code f =
     \<lparr>as_assertion_id = ''ast_legacy_'' @ map (\<lambda>c. if c = CHR ''.'' then CHR ''_'' else c) code,
      as_reported_text = None, as_normalized_value = ff_value f, as_source_refs = ff_source_refs f,
      as_relation = Rel_initial, as_status = ff_status f,
      as_precision = infer_precision code (ff_value f) None, as_reason_code = None,
      as_created_at = ff_updated_at f\<rparr>"

definition correction_words :: "string option \<Rightarrow> bool" where
  "correction_words message = (case message of
     None \<Rightarrow> False | Some t \<Rightarrow> t \<noteq> [] \<and> search CORRECTION_PATTERN t)"

definition adds_to_list :: "(rat \<Rightarrow> string) \<Rightarrow> fact_value \<Rightarrow> fact_value \<Rightarrow> bool" where
  "adds_to_list repr old new = (case (old, new) of
     (V_list xs, V_list ys) \<Rightarrow> set (map (normalise repr) xs) \<subseteq> set (map (normalise repr) ys)
   | _ \<Rightarrow> False)"

definition recorded_precision :: "string \<Rightarrow> form_field \<Rightarrow> fact_precision" where
  "recorded_precision code f = (if code = ''incident.occurred_at'' \<and> ff_assertions f = []
     then infer_precision code (ff_value f) None else ff_precision f)"

definition relation_to ::
  "(rat \<Rightarrow> string) \<Rightarrow> string \<Rightarrow> form_field \<Rightarrow> fact_value \<Rightarrow> fact_precision \<Rightarrow> string option \<Rightarrow> bool
     \<Rightarrow> assertion_relation" where
  "relation_to repr code existing v precision message explicit =
     (if normalise repr (ff_value existing) = normalise repr v then Rel_equivalent
      else if ff_status existing \<noteq> Confirmed then Rel_refinement
      else if adds_to_list repr (ff_value existing) v then Rel_refinement
      else if explicit \<or> correction_words message then Rel_correction
      else if recorded_precision code existing \<in> {Approximate, Range, Partial} \<and> precision = Exact
        then Rel_refinement
      else Rel_material_conflict)"

section \<open>Form fields\<close>

definition disposition_form_field ::
  "form_field option \<Rightarrow> form_change \<Rightarrow> string \<Rightarrow> string \<Rightarrow> datetime \<Rightarrow> actor_reference \<Rightarrow> form_field" where
  "disposition_form_field existing p new_id source_ref now by_actor =
     (let a = \<lparr>as_assertion_id = new_id, as_reported_text = pc_reported_text p,
            as_normalized_value = V_null, as_source_refs = [source_ref],
            as_relation = (if existing = None then Rel_initial else Rel_refinement),
            as_status = pc_status p, as_precision = Unknown,
            as_reason_code = Some (if pc_status p = Pending_generation then ''THIRD_PARTY_PENDING''
              else ''CLAIMANT_WILL_SUPPLY''),
            as_created_at = now\<rparr>;
          history = (case existing of None \<Rightarrow> [] | Some f \<Rightarrow> ff_assertions f);
          refs = (case existing of None \<Rightarrow> [] | Some f \<Rightarrow> ff_source_refs f) in
      derive_resolution_state
        \<lparr>ff_value = V_null, ff_source = pc_source p, ff_source_refs = fromkeys (refs @ [source_ref]),
         ff_status = pc_status p, ff_needed_for = pc_needed_for p, ff_confidence = None,
         ff_resolution_state = None, ff_precision = Unknown, ff_normalised = False,
         ff_current_assertion_id = Some new_id, ff_assertions = history @ [a],
         ff_updated_at = now, ff_updated_by = by_actor\<rparr>)"

definition history_of :: "string \<Rightarrow> form_field \<Rightarrow> fact_assertion list" where
  "history_of code f = (if ff_assertions f = [] then [legacy_assertion code f] else ff_assertions f)"

definition current_or_last :: "('a \<Rightarrow> string) \<Rightarrow> string option \<Rightarrow> 'a list \<Rightarrow> string option" where
  "current_or_last name current history =
     (if present current then current else Some (name (last history)))"

definition supersede :: "string option \<Rightarrow> fact_assertion \<Rightarrow> fact_assertion" where
  "supersede current a = (if Some (as_assertion_id a) = current \<or> as_status a = Disputed
     then a\<lparr>as_status := Superseded\<rparr> else a)"

definition settle_dispute :: "string option \<Rightarrow> fact_assertion \<Rightarrow> fact_assertion" where
  "settle_dispute current a = a\<lparr>as_status :=
     (if Some (as_assertion_id a) = current then Confirmed
      else if as_status a = Disputed then Superseded else as_status a)\<rparr>"

record change_context =
  cx_source_ref :: string
  cx_message_text :: "string option"
  cx_now :: datetime
  cx_accepted_status :: form_status
  cx_updated_by :: actor_reference
  cx_explicit_correction :: bool
  cx_new_id :: string

definition change_precision :: "string \<Rightarrow> form_change \<Rightarrow> change_context \<Rightarrow> fact_precision" where
  "change_precision code p x = (if pc_precision p \<noteq> Exact then pc_precision p
     else infer_precision code (pc_value p) (reported_or (pc_reported_text p) (cx_message_text x)))"

definition change_relation ::
  "(rat \<Rightarrow> string) \<Rightarrow> string \<Rightarrow> form_field option \<Rightarrow> form_change \<Rightarrow> change_context \<Rightarrow> assertion_relation" where
  "change_relation repr code existing p x = (case existing of
     None \<Rightarrow> Rel_initial
   | Some f \<Rightarrow> (case pc_relation p of
       Some r \<Rightarrow> r
     | None \<Rightarrow> relation_to repr code f (pc_value p) (change_precision code p x) (cx_message_text x)
         (cx_explicit_correction x)))"

definition new_assertion ::
  "(rat \<Rightarrow> string) \<Rightarrow> string \<Rightarrow> form_field option \<Rightarrow> form_change \<Rightarrow> change_context \<Rightarrow> fact_assertion" where
  "new_assertion repr code existing p x =
     (let relation = change_relation repr code existing p x in
      \<lparr>as_assertion_id = cx_new_id x,
       as_reported_text = reported_or (pc_reported_text p) (cx_message_text x),
       as_normalized_value = pc_value p, as_source_refs = [cx_source_ref x],
       as_relation = relation, as_status = cx_accepted_status x,
       as_precision = change_precision code p x,
       as_reason_code = (if relation = Rel_material_conflict then Some ''MATERIAL_VALUE_CONFLICT'' else None),
       as_created_at = cx_now x\<rparr>)"

definition restated :: "(rat \<Rightarrow> string) \<Rightarrow> fact_value \<Rightarrow> string option \<Rightarrow> bool" where
  "restated repr v reported = (case reported of
     None \<Rightarrow> False | Some t \<Rightarrow> py_strip (py_str repr v) \<noteq> py_strip t)"

definition equivalent_change ::
  "(rat \<Rightarrow> string) \<Rightarrow> string \<Rightarrow> form_field \<Rightarrow> form_change \<Rightarrow> change_context \<Rightarrow> form_field" where
  "equivalent_change repr code f p x =
     (let a = new_assertion repr code (Some f) p x;
          history = history_of code f;
          current = current_or_last as_assertion_id (ff_current_assertion_id f) history;
          refs = fromkeys (ff_source_refs f @ [cx_source_ref x]) in
      if ff_status f = Proposed \<and> pc_source p = Src_claimant \<and> cx_accepted_status x = Confirmed then
        f\<lparr>ff_source := Src_claimant, ff_source_refs := refs, ff_status := Confirmed,
          ff_resolution_state := Some Res_resolved, ff_confidence := pc_confidence p,
          ff_precision := change_precision code p x,
          ff_normalised := restated repr (ff_value f) (pc_reported_text p),
          ff_assertions := history @ [a], ff_current_assertion_id := Some (cx_new_id x),
          ff_updated_at := cx_now x, ff_updated_by := cx_updated_by x\<rparr>
      else if ff_resolution_state f = Some Res_clarification_required \<and> cx_accepted_status x = Confirmed then
        f\<lparr>ff_source_refs := refs, ff_status := Confirmed, ff_resolution_state := Some Res_resolved,
          ff_assertions := map (settle_dispute current) history @ [a],
          ff_current_assertion_id := current,
          ff_updated_at := cx_now x, ff_updated_by := cx_updated_by x\<rparr>
      else
        f\<lparr>ff_source_refs := refs, ff_assertions := history @ [a], ff_current_assertion_id := current,
          ff_updated_at := cx_now x, ff_updated_by := cx_updated_by x\<rparr>)"

definition conflicting_change ::
  "(rat \<Rightarrow> string) \<Rightarrow> string \<Rightarrow> form_field \<Rightarrow> form_change \<Rightarrow> change_context \<Rightarrow> form_field" where
  "conflicting_change repr code f p x =
     (let history = history_of code f in
      f\<lparr>ff_source_refs := fromkeys (ff_source_refs f @ [cx_source_ref x]), ff_status := Disputed,
        ff_resolution_state := Some Res_clarification_required,
        ff_assertions := history @ [(new_assertion repr code (Some f) p x)\<lparr>as_status := Disputed\<rparr>],
        ff_current_assertion_id :=
          current_or_last as_assertion_id (ff_current_assertion_id f) history,
        ff_updated_at := cx_now x, ff_updated_by := cx_updated_by x\<rparr>)"

definition replacing_change ::
  "(rat \<Rightarrow> string) \<Rightarrow> string \<Rightarrow> form_field option \<Rightarrow> form_change \<Rightarrow> change_context \<Rightarrow> form_field" where
  "replacing_change repr code existing p x =
     (let history = (case existing of
            None \<Rightarrow> []
          | Some f \<Rightarrow> map (supersede (current_or_last as_assertion_id (ff_current_assertion_id f)
              (history_of code f))) (history_of code f)) in
      derive_resolution_state
        \<lparr>ff_value = pc_value p, ff_source = pc_source p, ff_source_refs = [cx_source_ref x],
         ff_status = cx_accepted_status x, ff_needed_for = pc_needed_for p,
         ff_confidence = pc_confidence p,
         ff_resolution_state = Some (if cx_accepted_status x = Confirmed then Res_resolved
           else Res_needs_confirmation),
         ff_precision = change_precision code p x,
         ff_normalised = restated repr (pc_value p) (pc_reported_text p),
         ff_current_assertion_id = Some (cx_new_id x),
         ff_assertions = history @ [new_assertion repr code existing p x],
         ff_updated_at = cx_now x, ff_updated_by = cx_updated_by x\<rparr>)"

definition resolve_form_change ::
  "(rat \<Rightarrow> string) \<Rightarrow> string \<Rightarrow> form_field option \<Rightarrow> form_change \<Rightarrow> change_context \<Rightarrow> form_field" where
  "resolve_form_change repr code existing p x =
     (let relation = change_relation repr code existing p x in
      case existing of
        None \<Rightarrow> replacing_change repr code None p x
      | Some f \<Rightarrow>
          if relation = Rel_equivalent then equivalent_change repr code f p x
          else if relation = Rel_material_conflict then conflicting_change repr code f p x
          else replacing_change repr code (Some f) p x)"

definition confirm_form_field ::
  "form_field \<Rightarrow> datetime \<Rightarrow> actor_reference \<Rightarrow> string option \<Rightarrow> form_field" where
  "confirm_form_field f now by_actor source_ref =
     f\<lparr>ff_source_refs := (case source_ref of None \<Rightarrow> ff_source_refs f
         | Some r \<Rightarrow> fromkeys (ff_source_refs f @ [r])),
       ff_status := Confirmed, ff_resolution_state := Some Res_resolved, ff_confidence := Some 1,
       ff_assertions := map (\<lambda>a. if ff_current_assertion_id f \<noteq> None
           \<and> Some (as_assertion_id a) = ff_current_assertion_id f
         then a\<lparr>as_status := Confirmed\<rparr> else a) (ff_assertions f),
       ff_updated_at := now, ff_updated_by := by_actor\<rparr>"

section \<open>Contents items\<close>

record item_change =
  px_item_id :: "string option"
  px_details :: item_details
  px_confidence :: "rat option"
  px_relation :: "assertion_relation option"
  px_reported_text :: "string option"
  px_source_evidence_id :: "string option"

definition text_value :: "string option \<Rightarrow> fact_value" where
  "text_value t = (case t of None \<Rightarrow> V_null | Some s \<Rightarrow> V_text s)"

text \<open>The comparison key of \<open>_contents_values\<close>, without and with the estimated value.\<close>

definition item_key ::
  "(rat \<Rightarrow> string) \<Rightarrow> item_details \<Rightarrow> string \<times> string \<times> int \<times> string \<times> string
     \<times> contents_loss_type option \<times> contents_ownership option" where
  "item_key repr d = (normalise repr (V_text (it_description d)),
     normalise repr (text_value (it_category d)), it_quantity d,
     normalise repr (text_value (it_brand d)), normalise repr (text_value (it_model d)),
     it_loss_type d, it_ownership d)"

definition same_item :: "(rat \<Rightarrow> string) \<Rightarrow> item_details \<Rightarrow> item_details \<Rightarrow> bool" where
  "same_item repr d e \<longleftrightarrow> item_key repr d = item_key repr e \<and> it_estimated_value d = it_estimated_value e"

definition legacy_contents_assertion :: "contents_item \<Rightarrow> item_assertion" where
  "legacy_contents_assertion i =
     \<lparr>ia_assertion_id = ''ast_legacy_'' @ ci_item_id i, ia_details = ci_details i,
      ia_reported_text = None, ia_source_refs = ci_source_refs i, ia_relation = Rel_initial,
      ia_status = ci_status i, ia_created_at = ci_updated_at i\<rparr>"

definition item_relation ::
  "(rat \<Rightarrow> string) \<Rightarrow> contents_item option \<Rightarrow> item_details \<Rightarrow> string option \<Rightarrow> assertion_relation" where
  "item_relation repr existing d message = (case existing of
     None \<Rightarrow> Rel_initial
   | Some i \<Rightarrow>
       if same_item repr (ci_details i) d then Rel_equivalent
       else if ci_status i \<noteq> Confirmed then Rel_refinement
       else if correction_words message then Rel_correction
       else if it_estimated_value (ci_details i) = None \<and> it_estimated_value d \<noteq> None
           \<and> item_key repr (ci_details i) = item_key repr d then Rel_refinement
       else Rel_material_conflict)"

definition new_item_assertion ::
  "(rat \<Rightarrow> string) \<Rightarrow> contents_item option \<Rightarrow> item_change \<Rightarrow> change_context \<Rightarrow> item_assertion" where
  "new_item_assertion repr existing p x =
     \<lparr>ia_assertion_id = cx_new_id x, ia_details = px_details p,
      ia_reported_text = reported_or (px_reported_text p) (cx_message_text x),
      ia_source_refs = [cx_source_ref x],
      ia_relation = item_relation repr existing (px_details p) (cx_message_text x),
      ia_status = cx_accepted_status x, ia_created_at = cx_now x\<rparr>"

definition accepted_resolution :: "form_status \<Rightarrow> fact_resolution_state" where
  "accepted_resolution st = (if st = Confirmed then Res_resolved else Res_needs_confirmation)"

definition item_history :: "contents_item \<Rightarrow> item_assertion list" where
  "item_history i = (if ci_assertions i = [] then [legacy_contents_assertion i] else ci_assertions i)"

definition supersede_item :: "string option \<Rightarrow> item_assertion \<Rightarrow> item_assertion" where
  "supersede_item current a = (if Some (ia_assertion_id a) = current \<or> ia_status a = Disputed
     then a\<lparr>ia_status := Superseded\<rparr> else a)"

definition update_item ::
  "(rat \<Rightarrow> string) \<Rightarrow> contents_item \<Rightarrow> item_change \<Rightarrow> change_context \<Rightarrow> contents_item" where
  "update_item repr i p x =
     (let relation = item_relation repr (Some i) (px_details p) (cx_message_text x);
          a = new_item_assertion repr (Some i) p x;
          history = item_history i;
          current = current_or_last ia_assertion_id (ci_current_assertion_id i) history;
          refs = fromkeys (ci_source_refs i @ [cx_source_ref x]) in
      if relation = Rel_equivalent then
        i\<lparr>ci_source_refs := refs, ci_assertions := history @ [a], ci_current_assertion_id := current,
          ci_updated_at := cx_now x, ci_updated_by := cx_updated_by x\<rparr>
      else if relation = Rel_material_conflict then
        i\<lparr>ci_source_refs := refs, ci_status := Disputed,
          ci_resolution_state := Some Res_clarification_required,
          ci_assertions := history @ [a\<lparr>ia_status := Disputed\<rparr>], ci_current_assertion_id := current,
          ci_updated_at := cx_now x, ci_updated_by := cx_updated_by x\<rparr>
      else
        i\<lparr>ci_details := px_details p, ci_source := Src_claimant, ci_source_refs := [cx_source_ref x],
          ci_status := cx_accepted_status x, ci_needed_for := Need_current_action,
          ci_confidence := px_confidence p,
          ci_resolution_state := Some (accepted_resolution (cx_accepted_status x)),
          ci_current_assertion_id := Some (cx_new_id x),
          ci_assertions := map (supersede_item current) history @ [a],
          ci_updated_at := cx_now x, ci_updated_by := cx_updated_by x\<rparr>)"

definition resolve_contents_item_change ::
  "(rat \<Rightarrow> string) \<Rightarrow> contents_item option \<Rightarrow> item_change \<Rightarrow> string \<Rightarrow> change_context
     \<Rightarrow> item_error + contents_item" where
  "resolve_contents_item_change repr existing p item_id x = (case existing of
     Some i \<Rightarrow> Inr (update_item repr i p x)
   | None \<Rightarrow> derive_legacy_resolution_state
       \<lparr>ci_item_id = item_id, ci_details = px_details p, ci_source = Src_claimant,
        ci_source_refs = [cx_source_ref x], ci_status = cx_accepted_status x,
        ci_needed_for = Need_current_action, ci_confidence = px_confidence p,
        ci_resolution_state = Some (accepted_resolution (cx_accepted_status x)),
        ci_current_assertion_id = Some (cx_new_id x),
        ci_assertions = [new_item_assertion repr None p x],
        ci_updated_at = cx_now x, ci_updated_by = cx_updated_by x\<rparr>)"

definition confirm_contents_item ::
  "contents_item \<Rightarrow> datetime \<Rightarrow> actor_reference \<Rightarrow> string option \<Rightarrow> contents_item" where
  "confirm_contents_item i now by_actor source_ref =
     i\<lparr>ci_source_refs := (case source_ref of None \<Rightarrow> ci_source_refs i
         | Some r \<Rightarrow> fromkeys (ci_source_refs i @ [r])),
       ci_status := Confirmed, ci_resolution_state := Some Res_resolved, ci_confidence := Some 1,
       ci_assertions := map (\<lambda>a. if Some (ia_assertion_id a) = ci_current_assertion_id i
         then a\<lparr>ia_status := Confirmed\<rparr> else a) (ci_assertions i),
       ci_updated_at := now, ci_updated_by := by_actor\<rparr>"

end
