(* ===== verification/Fact_Ledger.thy ===== *)
theory Fact_Ledger
  imports Fact_Resolution
begin

text \<open>
  The histories of form fields and contents items as ledgers. Both are machines in the sense of
  the prelude: every operation keeps the history sound (distinct identities, a current assertion
  that is part of the history and agrees with the recorded value) and only adds to it.
\<close>

lemma current_or_last_simps:
  "current = Some k \<Longrightarrow> k \<noteq> [] \<Longrightarrow> current_or_last name current xs = Some k"
  "current_or_last name None xs = Some (name (last xs))"
  by (simp_all add: current_or_last_def present_def)

section \<open>Form fields\<close>

datatype field_op =
    Resolve form_change change_context
  | Confirm_field datetime actor_reference "string option"
  | Dispose form_change string string datetime actor_reference

fun field_step :: "(rat \<Rightarrow> string) \<Rightarrow> string \<Rightarrow> form_field \<Rightarrow> field_op \<Rightarrow> unit + form_field" where
  "field_step repr code f (Resolve p x) = Inr (resolve_form_change repr code (Some f) p x)"
| "field_step repr code f (Confirm_field now by_actor ref) = Inr (confirm_form_field f now by_actor ref)"
| "field_step repr code f (Dispose p k ref now by_actor) =
     Inr (disposition_form_field (Some f) p k ref now by_actor)"

definition agreeing :: "(rat \<Rightarrow> string) \<Rightarrow> fact_value \<Rightarrow> string option \<Rightarrow> fact_assertion list \<Rightarrow> bool" where
  "agreeing repr v current xs \<longleftrightarrow> (\<exists>a\<in>set xs. current = Some (as_assertion_id a)
     \<and> normalise repr (as_normalized_value a) = normalise repr v)"

definition field_sound :: "(rat \<Rightarrow> string) \<Rightarrow> form_field \<Rightarrow> bool" where
  "field_sound repr f \<longleftrightarrow> distinct (map as_assertion_id (ff_assertions f))
     \<and> [] \<notin> as_assertion_id ` set (ff_assertions f)
     \<and> (if ff_assertions f = [] then ff_current_assertion_id f = None
        else agreeing repr (ff_value f) (ff_current_assertion_id f) (ff_assertions f))"

definition fresh_id :: "string \<Rightarrow> fact_assertion list \<Rightarrow> bool" where
  "fresh_id k xs \<longleftrightarrow> k \<noteq> [] \<and> k \<notin> as_assertion_id ` set xs"

text \<open>
  A proposal may state its relation itself; one that states equivalence carries an equal value.
\<close>

fun field_allowed :: "(rat \<Rightarrow> string) \<Rightarrow> string \<Rightarrow> form_field \<Rightarrow> field_op \<Rightarrow> bool" where
  "field_allowed repr code f (Resolve p x) \<longleftrightarrow> fresh_id (cx_new_id x) (history_of code f)
     \<and> (pc_relation p = Some Rel_equivalent \<longrightarrow>
          normalise repr (ff_value f) = normalise repr (pc_value p))"
| "field_allowed repr code f (Confirm_field now by_actor ref) \<longleftrightarrow> True"
| "field_allowed repr code f (Dispose p k ref now by_actor) \<longleftrightarrow> fresh_id k (ff_assertions f)"

definition stated :: "fact_assertion \<Rightarrow> fact_assertion" where
  "stated a = a\<lparr>as_status := Proposed\<rparr>"

definition field_grows :: "form_field \<Rightarrow> form_field \<Rightarrow> bool" where
  "field_grows f g \<longleftrightarrow> prefix (map stated (ff_assertions f)) (map stated (ff_assertions g))"

lemma status_changes_simps [simp]:
  "as_assertion_id (supersede k a) = as_assertion_id a" "as_assertion_id (settle_dispute k a) = as_assertion_id a"
  "as_normalized_value (supersede k a) = as_normalized_value a"
  "as_normalized_value (settle_dispute k a) = as_normalized_value a"
  "stated (supersede k a) = stated a" "stated (settle_dispute k a) = stated a"
  "stated (a\<lparr>as_status := st\<rparr>) = stated a"
  by (simp_all add: supersede_def settle_dispute_def stated_def)

lemma new_assertion_simps [simp]:
  "as_assertion_id (new_assertion repr code e p x) = cx_new_id x"
  "as_normalized_value (new_assertion repr code e p x) = pc_value p"
  by (simp_all add: new_assertion_def Let_def)

lemma legacy_simps [simp]:
  "as_normalized_value (legacy_assertion code f) = ff_value f"
  "as_assertion_id (legacy_assertion code f) \<noteq> []" "[] \<noteq> as_assertion_id (legacy_assertion code f)"
  by (simp_all add: legacy_assertion_def)

lemma history_of_facts:
  assumes "field_sound repr f"
  shows "history_of code f \<noteq> []" "distinct (map as_assertion_id (history_of code f))"
    "[] \<notin> as_assertion_id ` set (history_of code f)"
    "agreeing repr (ff_value f) (current_or_last as_assertion_id (ff_current_assertion_id f) (history_of code f))
       (history_of code f)"
    "prefix (map stated (ff_assertions f)) (map stated (history_of code f))"
proof -
  show "history_of code f \<noteq> []" "distinct (map as_assertion_id (history_of code f))"
    "[] \<notin> as_assertion_id ` set (history_of code f)"
    "prefix (map stated (ff_assertions f)) (map stated (history_of code f))"
    using assms by (auto simp: field_sound_def history_of_def)
  show "agreeing repr (ff_value f) (current_or_last as_assertion_id (ff_current_assertion_id f) (history_of code f))
       (history_of code f)"
  proof (cases "ff_assertions f = []")
    case True
    then show ?thesis using assms
      by (simp add: field_sound_def history_of_def agreeing_def current_or_last_simps)
  next
    case False
    then obtain a where "a \<in> set (ff_assertions f)" "ff_current_assertion_id f = Some (as_assertion_id a)"
      "normalise repr (as_normalized_value a) = normalise repr (ff_value f)"
      using assms by (auto simp: field_sound_def agreeing_def)
    moreover have "as_assertion_id a \<noteq> []" using assms calculation(1) by (force simp: field_sound_def)
    ultimately show ?thesis using False
      by (auto simp: history_of_def agreeing_def current_or_last_simps)
  qed
qed

lemma agreeing_map:
  assumes "agreeing repr v k xs" "\<And>a. as_assertion_id (g a) = as_assertion_id a"
    "\<And>a. as_normalized_value (g a) = as_normalized_value a"
  shows "agreeing repr v k (map g xs @ ys)"
  using assms unfolding agreeing_def by (metis (no_types, lifting) UnCI image_eqI list.set_map set_append)

lemma agreeing_new:
  "normalise repr (as_normalized_value a) = normalise repr v \<Longrightarrow> k = Some (as_assertion_id a) \<Longrightarrow>
     agreeing repr v k (xs @ [a])"
  by (auto simp: agreeing_def)

lemma derive_resolution_simps [simp]:
  "ff_assertions (derive_resolution_state f) = ff_assertions f"
  "ff_value (derive_resolution_state f) = ff_value f"
  "ff_status (derive_resolution_state f) = ff_status f"
  "ff_current_assertion_id (derive_resolution_state f) = ff_current_assertion_id f"
  by (simp_all add: derive_resolution_state_def)

lemma change_relation_equivalent:
  "change_relation repr code (Some f) p x = Rel_equivalent \<Longrightarrow>
   (pc_relation p = Some Rel_equivalent \<longrightarrow> normalise repr (ff_value f) = normalise repr (pc_value p)) \<Longrightarrow>
     normalise repr (ff_value f) = normalise repr (pc_value p)"
  by (auto simp: change_relation_def relation_to_def split: option.splits if_splits)

lemma field_soundI:
  assumes "distinct (map as_assertion_id xs)" "[] \<notin> as_assertion_id ` set xs" "fresh_id (as_assertion_id a) xs"
    "ff_assertions g = ys @ [b]" "map as_assertion_id ys = map as_assertion_id xs"
    "as_assertion_id b = as_assertion_id a"
    "agreeing repr (ff_value g) (ff_current_assertion_id g) (ff_assertions g)"
  shows "field_sound repr g"
proof -
  have "as_assertion_id ` set ys = as_assertion_id ` set xs" using assms(5) by (metis set_map)
  then show ?thesis using assms by (auto simp: field_sound_def fresh_id_def)
qed

lemma resolve_step:
  assumes sound: "field_sound repr f" and ok: "field_allowed repr code f (Resolve p x)"
  shows "field_sound repr (resolve_form_change repr code (Some f) p x)"
    and "field_grows f (resolve_form_change repr code (Some f) p x)"
proof -
  let ?h = "history_of code f"
  let ?k = "current_or_last as_assertion_id (ff_current_assertion_id f) ?h"
  note h = history_of_facts [OF sound, of code]
  have fresh: "fresh_id (as_assertion_id (new_assertion repr code (Some f) p x)) ?h" using ok by simp
  have grow: "field_grows f g" if "ff_assertions g = map t ?h @ [b]" "\<And>a. stated (t a) = stated a" for g t b
  proof -
    have "map stated (ff_assertions g) = map stated ?h @ [stated b]" using that by (simp add: comp_def)
    then show ?thesis unfolding field_grows_def using h(5) by (simp add: prefix_order.trans)
  qed
  have step: "field_sound repr g \<and> field_grows f g"
    if "ff_assertions g = map t ?h @ [b]" "\<And>a. stated (t a) = stated a"
      "\<And>a. as_assertion_id (t a) = as_assertion_id a" "as_assertion_id b = cx_new_id x"
      "agreeing repr (ff_value g) (ff_current_assertion_id g) (ff_assertions g)" for g t b
  proof
    have "map as_assertion_id (map t ?h) = map as_assertion_id ?h" using that(3) by simp
    then show "field_sound repr g"
      using field_soundI [OF h(2,3) fresh that(1)] that(4,5) by simp
    show "field_grows f g" by (rule grow [OF that(1,2)])
  qed
  have old: "agreeing repr (ff_value f) ?k (map t ?h @ ys)"
    if "\<And>a. as_assertion_id (t a) = as_assertion_id a" "\<And>a. as_normalized_value (t a) = as_normalized_value a"
    for t ys by (rule agreeing_map [OF h(4) that])
  have "field_sound repr (resolve_form_change repr code (Some f) p x)
      \<and> field_grows f (resolve_form_change repr code (Some f) p x)"
  proof (cases "change_relation repr code (Some f) p x = Rel_equivalent")
    case True
    then have same: "normalise repr (ff_value f) = normalise repr (pc_value p)"
      using change_relation_equivalent ok by simp
    let ?g = "equivalent_change repr code f p x"
    consider (claimant) "ff_status f = Proposed \<and> pc_source p = Src_claimant \<and> cx_accepted_status x = Confirmed"
      | (settled) "\<not> (ff_status f = Proposed \<and> pc_source p = Src_claimant \<and> cx_accepted_status x = Confirmed)"
          "ff_resolution_state f = Some Res_clarification_required \<and> cx_accepted_status x = Confirmed"
      | (noted) "\<not> (ff_status f = Proposed \<and> pc_source p = Src_claimant \<and> cx_accepted_status x = Confirmed)"
          "\<not> (ff_resolution_state f = Some Res_clarification_required \<and> cx_accepted_status x = Confirmed)"
      by blast
    then have "field_sound repr ?g \<and> field_grows f ?g"
    proof cases
      case claimant
      then show ?thesis unfolding equivalent_change_def Let_def if_P [OF claimant]
        by (intro step [where t = id and b = "new_assertion repr code (Some f) p x"]) (simp_all add: agreeing_new same)
    next
      case settled
      then show ?thesis unfolding equivalent_change_def Let_def if_not_P [OF settled(1)] if_P [OF settled(2)]
        by (intro step [where t = "settle_dispute ?k" and b = "new_assertion repr code (Some f) p x"]) (simp_all add: old)
    next
      case noted
      then show ?thesis unfolding equivalent_change_def Let_def if_not_P [OF noted(1)] if_not_P [OF noted(2)]
        using old [where t = id, simplified] by (intro step [where t = id and b = "new_assertion repr code (Some f) p x"]) simp_all
    qed
    then show ?thesis using True by (simp add: resolve_form_change_def)
  next
    case diff: False
    show ?thesis
    proof (cases "change_relation repr code (Some f) p x = Rel_material_conflict")
      case True
      have "field_sound repr (conflicting_change repr code f p x)
          \<and> field_grows f (conflicting_change repr code f p x)"
        unfolding conflicting_change_def Let_def
        by (rule step [where t = id and b = "(new_assertion repr code (Some f) p x)\<lparr>as_status := Disputed\<rparr>"]) (use old [where t = id, simplified] in simp_all)
      then show ?thesis using True by (simp add: resolve_form_change_def)
    next
      case False
      have "field_sound repr (replacing_change repr code (Some f) p x)
          \<and> field_grows f (replacing_change repr code (Some f) p x)"
        unfolding replacing_change_def Let_def option.case
        by (rule step [where t = "supersede ?k" and b = "new_assertion repr code (Some f) p x"]) (simp_all add: agreeing_new)
      then show ?thesis using diff False by (simp add: resolve_form_change_def)
    qed
  qed
  then show "field_sound repr (resolve_form_change repr code (Some f) p x)"
    "field_grows f (resolve_form_change repr code (Some f) p x)" by blast+
qed

lemma confirm_step:
  assumes "field_sound repr f"
  shows "field_sound repr (confirm_form_field f now by_actor ref)"
    and "field_grows f (confirm_form_field f now by_actor ref)"
proof -
  define t :: "fact_assertion \<Rightarrow> fact_assertion" where
    "t = (\<lambda>a. if ff_current_assertion_id f \<noteq> None \<and> Some (as_assertion_id a) = ff_current_assertion_id f
         then a\<lparr>as_status := Confirmed\<rparr> else a)"
  have t: "as_assertion_id (t a) = as_assertion_id a" "as_normalized_value (t a) = as_normalized_value a"
    "stated (t a) = stated a" for a by (simp_all add: t_def)
  have fields: "ff_assertions (confirm_form_field f now by_actor ref) = map t (ff_assertions f)"
    "ff_value (confirm_form_field f now by_actor ref) = ff_value f"
    "ff_current_assertion_id (confirm_form_field f now by_actor ref) = ff_current_assertion_id f"
    by (simp_all add: confirm_form_field_def t_def)
  show "field_grows f (confirm_form_field f now by_actor ref)"
    by (simp add: field_grows_def fields t comp_def)
  show "field_sound repr (confirm_form_field f now by_actor ref)"
    using assms agreeing_map [of repr "ff_value f" "ff_current_assertion_id f" "ff_assertions f" t "[]", OF _ t(1,2)]
    by (auto simp: field_sound_def fields t comp_def)
qed

lemma dispose_step:
  assumes "field_sound repr f" "fresh_id k (ff_assertions f)"
  shows "field_sound repr (disposition_form_field (Some f) p k ref now by_actor)"
    and "field_grows f (disposition_form_field (Some f) p k ref now by_actor)"
proof -
  let ?g = "disposition_form_field (Some f) p k ref now by_actor"
  obtain a where a: "ff_assertions ?g = ff_assertions f @ [a]" "as_assertion_id a = k"
    "as_normalized_value a = V_null"
    by (simp add: disposition_form_field_def Let_def)
  have g: "ff_value ?g = V_null" "ff_current_assertion_id ?g = Some k"
    by (simp_all add: disposition_form_field_def Let_def)
  show "field_grows f ?g" by (simp add: field_grows_def a(1))
  show "field_sound repr ?g"
    by (rule field_soundI [where xs = "ff_assertions f" and a = a, OF _ _ _ a(1)])
      (use assms a g in \<open>auto simp: field_sound_def agreeing_new\<close>)
qed

interpretation field_ledger: growing_machine "field_step repr code" "field_allowed repr code"
  "field_sound repr" field_grows for repr code
proof unfold_locales
  fix f g h :: form_field and op
  show "field_sound repr g" "field_grows f g"
    if "field_sound repr f" "field_allowed repr code f op" "field_step repr code f op = Inr g"
    using that resolve_step confirm_step dispose_step by (cases op; auto)+
  show "field_grows f f" by (simp add: field_grows_def)
  show "field_grows f g \<Longrightarrow> field_grows g h \<Longrightarrow> field_grows f h"
    unfolding field_grows_def by (rule prefix_order.trans)
qed

section \<open>Contents items\<close>

datatype item_op =
    Update_item item_change change_context
  | Confirm_item datetime actor_reference "string option"

fun item_step :: "(rat \<Rightarrow> string) \<Rightarrow> contents_item \<Rightarrow> item_op \<Rightarrow> item_error + contents_item" where
  "item_step repr i (Update_item p x) = resolve_contents_item_change repr (Some i) p (ci_item_id i) x"
| "item_step repr i (Confirm_item now by_actor ref) = Inr (confirm_contents_item i now by_actor ref)"

definition item_agreeing :: "(rat \<Rightarrow> string) \<Rightarrow> item_details \<Rightarrow> string option \<Rightarrow> item_assertion list \<Rightarrow> bool" where
  "item_agreeing repr d current xs \<longleftrightarrow> (\<exists>a\<in>set xs. current = Some (ia_assertion_id a)
     \<and> same_item repr (ia_details a) d)"

definition item_sound :: "(rat \<Rightarrow> string) \<Rightarrow> contents_item \<Rightarrow> bool" where
  "item_sound repr i \<longleftrightarrow> distinct (map ia_assertion_id (ci_assertions i))
     \<and> [] \<notin> ia_assertion_id ` set (ci_assertions i)
     \<and> (if ci_assertions i = [] then ci_current_assertion_id i = None
        else item_agreeing repr (ci_details i) (ci_current_assertion_id i) (ci_assertions i))"

fun item_allowed :: "contents_item \<Rightarrow> item_op \<Rightarrow> bool" where
  "item_allowed i (Update_item p x) \<longleftrightarrow>
     cx_new_id x \<noteq> [] \<and> cx_new_id x \<notin> ia_assertion_id ` set (item_history i)"
| "item_allowed i (Confirm_item now by_actor ref) \<longleftrightarrow> True"

definition item_stated :: "item_assertion \<Rightarrow> item_assertion" where
  "item_stated a = a\<lparr>ia_status := Proposed\<rparr>"

definition item_grows :: "contents_item \<Rightarrow> contents_item \<Rightarrow> bool" where
  "item_grows i j \<longleftrightarrow> ci_item_id j = ci_item_id i
     \<and> prefix (map item_stated (ci_assertions i)) (map item_stated (ci_assertions j))"

lemma item_status_simps [simp]:
  "ia_assertion_id (supersede_item k a) = ia_assertion_id a" "ia_details (supersede_item k a) = ia_details a"
  "item_stated (supersede_item k a) = item_stated a" "item_stated (a\<lparr>ia_status := st\<rparr>) = item_stated a"
  "ia_assertion_id (new_item_assertion repr e p x) = cx_new_id x"
  "ia_details (new_item_assertion repr e p x) = px_details p"
  by (simp_all add: supersede_item_def item_stated_def new_item_assertion_def)

lemma same_item_refl [simp]: "same_item repr d d"
  by (simp add: same_item_def)

lemma item_agreeing_map:
  assumes "item_agreeing repr d k xs" "\<And>a. ia_assertion_id (g a) = ia_assertion_id a"
    "\<And>a. ia_details (g a) = ia_details a"
  shows "item_agreeing repr d k (map g xs @ ys)"
  using assms unfolding item_agreeing_def by (metis (no_types, lifting) UnCI image_eqI list.set_map set_append)

lemma item_history_facts:
  assumes "item_sound repr i"
  shows "item_history i \<noteq> []" "distinct (map ia_assertion_id (item_history i))"
    "[] \<notin> ia_assertion_id ` set (item_history i)"
    "item_agreeing repr (ci_details i)
       (current_or_last ia_assertion_id (ci_current_assertion_id i) (item_history i)) (item_history i)"
    "prefix (map item_stated (ci_assertions i)) (map item_stated (item_history i))"
proof -
  show "item_history i \<noteq> []" "distinct (map ia_assertion_id (item_history i))"
    "[] \<notin> ia_assertion_id ` set (item_history i)"
    "prefix (map item_stated (ci_assertions i)) (map item_stated (item_history i))"
    using assms by (auto simp: item_sound_def item_history_def legacy_contents_assertion_def)
  show "item_agreeing repr (ci_details i)
       (current_or_last ia_assertion_id (ci_current_assertion_id i) (item_history i)) (item_history i)"
  proof (cases "ci_assertions i = []")
    case True
    then show ?thesis using assms
      by (simp add: item_sound_def item_history_def item_agreeing_def current_or_last_simps
          legacy_contents_assertion_def)
  next
    case False
    then obtain a where "a \<in> set (ci_assertions i)" "ci_current_assertion_id i = Some (ia_assertion_id a)"
      "same_item repr (ia_details a) (ci_details i)"
      using assms by (auto simp: item_sound_def item_agreeing_def)
    moreover have "ia_assertion_id a \<noteq> []" using assms calculation(1) by (force simp: item_sound_def)
    ultimately show ?thesis using False
      by (auto simp: item_history_def item_agreeing_def current_or_last_simps)
  qed
qed

lemma item_step_shape:
  assumes sound: "item_sound repr i" and ok: "item_allowed i (Update_item p x)"
    and j: "ci_assertions j = map t (item_history i) @ [b]" "ci_item_id j = ci_item_id i"
      "ia_assertion_id b = cx_new_id x"
      "item_agreeing repr (ci_details j) (ci_current_assertion_id j) (ci_assertions j)"
    and t: "\<And>a. ia_assertion_id (t a) = ia_assertion_id a" "\<And>a. item_stated (t a) = item_stated a"
  shows "item_sound repr j \<and> item_grows i j"
proof
  note h = item_history_facts [OF sound]
  have ids: "map ia_assertion_id (ci_assertions j) = map ia_assertion_id (item_history i) @ [cx_new_id x]"
    using j(1,3) t(1) by simp
  moreover have "ia_assertion_id ` set (ci_assertions j) = insert (cx_new_id x) (ia_assertion_id ` set (item_history i))"
    using arg_cong [OF ids, of set] by auto
  moreover have "distinct (map ia_assertion_id (ci_assertions j))" unfolding ids using h(2) ok by auto
  ultimately show "item_sound repr j" using h(3) ok j(1,4) unfolding item_sound_def by simp
  have "map item_stated (ci_assertions j) = map item_stated (item_history i) @ [item_stated b]"
    using j(1) t(2) by (simp add: comp_def)
  then show "item_grows i j" using h(5) j(2) by (simp add: item_grows_def prefix_order.trans)
qed

lemma update_item_step:
  assumes sound: "item_sound repr i" and ok: "item_allowed i (Update_item p x)"
  shows "item_sound repr (update_item repr i p x) \<and> item_grows i (update_item repr i p x)"
proof -
  let ?k = "current_or_last ia_assertion_id (ci_current_assertion_id i) (item_history i)"
  let ?rel = "item_relation repr (Some i) (px_details p) (cx_message_text x)"
  let ?a = "new_item_assertion repr (Some i) p x"
  note shape = item_step_shape [OF sound ok]
  have old: "item_agreeing repr (ci_details i) ?k (item_history i @ ys)" for ys
    using item_agreeing_map [OF item_history_facts(4) [OF sound], of id] by simp
  consider (same) "?rel = Rel_equivalent" | (conflict) "?rel \<noteq> Rel_equivalent" "?rel = Rel_material_conflict"
    | (replace) "?rel \<noteq> Rel_equivalent" "?rel \<noteq> Rel_material_conflict" by blast
  then show ?thesis
  proof cases
    case same
    show ?thesis unfolding update_item_def Let_def if_P [OF same]
      by (rule shape [where t = id and b = ?a]) (simp_all add: old)
  next
    case conflict
    show ?thesis unfolding update_item_def Let_def if_not_P [OF conflict(1)] if_P [OF conflict(2)]
      by (rule shape [where t = id and b = "?a\<lparr>ia_status := Disputed\<rparr>"]) (simp_all add: old)
  next
    case replace
    show ?thesis unfolding update_item_def Let_def if_not_P [OF replace(1)] if_not_P [OF replace(2)]
      by (rule shape [where t = "supersede_item ?k" and b = ?a]) (simp_all add: item_agreeing_def)
  qed
qed

lemma confirm_item_step:
  assumes "item_sound repr i"
  shows "item_sound repr (confirm_contents_item i now by_actor ref)
    \<and> item_grows i (confirm_contents_item i now by_actor ref)"
proof -
  define t :: "item_assertion \<Rightarrow> item_assertion" where
    "t = (\<lambda>a. if Some (ia_assertion_id a) = ci_current_assertion_id i
         then a\<lparr>ia_status := Confirmed\<rparr> else a)"
  have t: "ia_assertion_id (t a) = ia_assertion_id a" "ia_details (t a) = ia_details a"
    "item_stated (t a) = item_stated a" for a by (simp_all add: t_def)
  let ?j = "confirm_contents_item i now by_actor ref"
  have fields: "ci_assertions ?j = map t (ci_assertions i)" "ci_details ?j = ci_details i"
    "ci_current_assertion_id ?j = ci_current_assertion_id i" "ci_item_id ?j = ci_item_id i"
    by (simp_all add: confirm_contents_item_def t_def)
  show ?thesis
    using assms item_agreeing_map [of repr "ci_details i" "ci_current_assertion_id i" "ci_assertions i" t "[]",
        OF _ t(1,2)]
    by (auto simp: item_sound_def item_grows_def fields t comp_def)
qed

interpretation item_ledger: growing_machine "item_step repr" item_allowed "item_sound repr" item_grows for repr
proof unfold_locales
  fix i j k :: contents_item and op
  show "item_sound repr j" "item_grows i j"
    if "item_sound repr i" "item_allowed i op" "item_step repr i op = Inr j"
    using that update_item_step confirm_item_step
    by (cases op; auto simp: resolve_contents_item_change_def)+
  show "item_grows i i" by (simp add: item_grows_def)
  show "item_grows i j \<Longrightarrow> item_grows j k \<Longrightarrow> item_grows i k"
    unfolding item_grows_def by (auto intro: prefix_order.trans)
qed

section \<open>When a confirmed value is replaced\<close>

lemma resolve_value:
  "ff_value (resolve_form_change repr code (Some f) p x) =
     (if change_relation repr code (Some f) p x \<in> {Rel_equivalent, Rel_material_conflict}
      then ff_value f else pc_value p)"
  by (simp add: resolve_form_change_def equivalent_change_def conflicting_change_def
      replacing_change_def Let_def)

lemma relation_to_replaces:
  "relation_to repr code f v precision message explicit \<notin> {Rel_equivalent, Rel_material_conflict} \<Longrightarrow>
   ff_status f = Confirmed \<Longrightarrow>
     adds_to_list repr (ff_value f) v \<or> explicit \<or> correction_words message
     \<or> recorded_precision code f \<in> {Approximate, Range, Partial} \<and> precision = Exact"
  by (auto simp: relation_to_def split: if_splits)

end
