(* ===== verification/Turn_Changes.thy ===== *)
theory Turn_Changes
  imports Branch_Requirements Fact_Ledger
begin

text \<open>
  How the proposals of one agent turn become changes of the Claim: the gate for form changes and
  contents items (\<open>_build_form_changes\<close>, \<open>_build_contents_item_changes\<close> and
  \<open>_apply_contents_item_changes\<close> of \<open>backend/services/messages.py\<close>) and the loss description the
  runtime derives (\<open>backend/services/turn_reducer.py\<close>). The text and the identity of the claimant
  message, the media types of the Evidence of the turn and the identities drawn for new assertions
  and items, one per proposal, are arguments.
\<close>

datatype turn_error =
    ProtectedRoute | UnregisteredField string | InvalidEvidenceSource | MissingEvidenceSource
  | InvalidFieldValue string | FieldValueOverflow | InvalidFieldBranch string
  | InvalidContentsReference | InvalidContentsItem

record turn_context =
  tc_message_id :: string
  tc_message_text :: string
  tc_now :: datetime
  tc_authority :: authority_outcome
  tc_proposal_source :: string
  tc_grounding_refs :: "string list"
  tc_media_types :: "(string \<times> string) list"
  tc_new_ids :: "nat \<Rightarrow> string"
  tc_new_item_ids :: "nat \<Rightarrow> string"
  tc_float_text :: "rat \<Rightarrow> string"

section \<open>Equality of values\<close>

text \<open>\<open>==\<close> of Python values: numbers and booleans by their numeric value, containers by content.\<close>

fun numeric :: "fact_value \<Rightarrow> rat option" where
  "numeric (V_bool b) = Some (if b then 1 else 0)"
| "numeric (V_int i) = Some (of_int i)"
| "numeric (V_float r) = Some r"
| "numeric _ = None"

function (sequential) py_equal :: "fact_value \<Rightarrow> fact_value \<Rightarrow> bool"
  and py_equal_list :: "fact_value list \<Rightarrow> fact_value list \<Rightarrow> bool"
  and py_equal_dict :: "(string \<times> fact_value) list \<Rightarrow> (string \<times> fact_value) list \<Rightarrow> bool" where
  "py_equal V_null w \<longleftrightarrow> w = V_null"
| "py_equal V_nan w \<longleftrightarrow> False"
| "py_equal (V_infinity n) w \<longleftrightarrow> w = V_infinity n"
| "py_equal (V_text s) w \<longleftrightarrow> w = V_text s"
| "py_equal (V_list xs) (V_list ys) \<longleftrightarrow> py_equal_list xs ys"
| "py_equal (V_list xs) w \<longleftrightarrow> False"
| "py_equal (V_dict d) (V_dict e) \<longleftrightarrow> length d = length e \<and> py_equal_dict d e"
| "py_equal (V_dict d) w \<longleftrightarrow> False"
| "py_equal v w \<longleftrightarrow> numeric w \<noteq> None \<and> numeric v = numeric w"
| "py_equal_list [] ys \<longleftrightarrow> ys = []"
| "py_equal_list (x # xs) [] \<longleftrightarrow> False"
| "py_equal_list (x # xs) (y # ys) \<longleftrightarrow> py_equal x y \<and> py_equal_list xs ys"
| "py_equal_dict [] e \<longleftrightarrow> True"
| "py_equal_dict ((k, v) # d) e \<longleftrightarrow>
     (case map_of e k of None \<Rightarrow> False | Some w \<Rightarrow> py_equal v w) \<and> py_equal_dict d e"
  by pat_completeness auto
termination
  by (relation "measure (\<lambda>z. case z of Inl (v, _) \<Rightarrow> size v
      | Inr (Inl (xs, _)) \<Rightarrow> size_list size xs
      | Inr (Inr (d, _)) \<Rightarrow> size_list (size_prod (\<lambda>_. 0) size) d)") auto

section \<open>Form changes\<close>

definition PROTECTED_PARTICIPANT_FIELDS :: "string list" where
  "PROTECTED_PARTICIPANT_FIELDS = [''driver.licence_number'', ''other_party.policy_number'']"

definition reject_unprotected_participant_fields :: "string list \<Rightarrow> turn_error + unit" where
  "reject_unprotected_participant_fields codes =
     guarded [(set PROTECTED_PARTICIPANT_FIELDS \<inter> set codes \<noteq> {}, ProtectedRoute)] (Inr ())"

definition media_source :: "turn_context \<Rightarrow> string \<Rightarrow> form_source option" where
  "media_source t evidence = (case map_of (tc_media_types t) evidence of
     None \<Rightarrow> None
   | Some m \<Rightarrow> if starts_with ''image/'' m then Some Src_image
       else if m = ''application/pdf'' then Some Src_document else None)"

definition evidence_guards :: "turn_context \<Rightarrow> form_change \<Rightarrow> (bool \<times> turn_error) list" where
  "evidence_guards t p = (case pc_source_evidence_id p of
     Some evidence \<Rightarrow> [(media_source t evidence \<noteq> Some (pc_source p), InvalidEvidenceSource)]
   | None \<Rightarrow> [(pc_source p \<in> {Src_image, Src_document}, MissingEvidenceSource)])"

definition value_check :: "form_change \<Rightarrow> turn_error + unit" where
  "value_check p = (case validate_registered_field_value default_registry (pc_field_code p) (pc_value p)
       (pc_status p) of
     Inr u \<Rightarrow> Inr u
   | Inl ValueOverflow \<Rightarrow> Inl FieldValueOverflow
   | Inl _ \<Rightarrow> Inl (InvalidFieldValue (pc_field_code p)))"

definition selection_of :: "form_evaluation \<Rightarrow> string \<Rightarrow> field_selection option" where
  "selection_of e code = find (\<lambda>s. fs_field_code s = code) (fe_field_selection e)"

definition branch_guards :: "form_evaluation option \<Rightarrow> string \<Rightarrow> (bool \<times> turn_error) list" where
  "branch_guards evaluation code = (case evaluation of
     None \<Rightarrow> []
   | Some e \<Rightarrow> [((case selection_of e code of None \<Rightarrow> True
       | Some s \<Rightarrow> fs_selection_state s \<in> {Sel_inactive, Sel_system_owned}), InvalidFieldBranch code)])"

definition with_grounding :: "turn_context \<Rightarrow> form_change \<Rightarrow> form_field \<Rightarrow> form_field" where
  "with_grounding t p f =
     (if pc_source p \<noteq> Src_claimant \<and> tc_grounding_refs t \<noteq> [] then
        (let refs = sorted_set (tc_grounding_refs t) in
         f\<lparr>ff_source_refs := fromkeys (ff_source_refs f @ refs),
           ff_assertions := (if ff_assertions f = [] then [] else butlast (ff_assertions f)
             @ [(last (ff_assertions f))\<lparr>as_source_refs :=
                 fromkeys (as_source_refs (last (ff_assertions f)) @ refs)\<rparr>])\<rparr>)
      else f)"

definition agent_actor :: "turn_context \<Rightarrow> actor_reference" where
  "agent_actor t = \<lparr>actor_type = Actor_agent, actor_id = tc_proposal_source t\<rparr>"

definition evidence_or_message :: "turn_context \<Rightarrow> string option \<Rightarrow> string" where
  "evidence_or_message t evidence = (if present evidence then the evidence else tc_message_id t)"

definition message_text_or_none :: "turn_context \<Rightarrow> string option" where
  "message_text_or_none t = (if tc_message_text t = [] then None else Some (tc_message_text t))"

definition accepted_status_of :: "turn_context \<Rightarrow> form_change \<Rightarrow> form_status" where
  "accepted_status_of t p = (if tc_authority t = Outcome_authorised \<and> pc_source p = Src_claimant
     then pc_status p else Proposed)"

definition proposal_context :: "turn_context \<Rightarrow> nat \<Rightarrow> form_change \<Rightarrow> change_context" where
  "proposal_context t n p = \<lparr>cx_source_ref = evidence_or_message t (pc_source_evidence_id p),
     cx_message_text = message_text_or_none t, cx_now = tc_now t,
     cx_accepted_status = accepted_status_of t p, cx_updated_by = agent_actor t,
     cx_explicit_correction = False, cx_new_id = tc_new_ids t n\<rparr>"

text \<open>One proposal: \<open>None\<close> when it is skipped, otherwise the field it leads to.\<close>

definition propose_field ::
  "turn_context \<Rightarrow> form_evaluation option \<Rightarrow> (string \<times> form_field) list \<Rightarrow> nat \<Rightarrow> form_change
     \<Rightarrow> turn_error + form_field option" where
  "propose_field t evaluation form n p =
     (let code = pc_field_code p; existing = dict_get form code in
      if pc_relation p = Some Rel_irrelevant then Inr None
      else guarded ((code \<notin> REGISTERED_FIELD_CODES, UnregisteredField code) # evidence_guards t p)
        (bind_result (value_check p) (\<lambda>_.
         guarded (branch_guards evaluation code)
          (if (case existing of None \<Rightarrow> False | Some f \<Rightarrow> ff_status f = Confirmed
                 \<and> pc_source p \<noteq> Src_claimant \<and> py_equal (pc_value p) (ff_value f)) then Inr None
           else if pc_status p \<in> {Unavailable, Pending_generation} then
             (if (case existing of None \<Rightarrow> False | Some f \<Rightarrow> ff_status f = Confirmed)
                 \<or> tc_authority t \<noteq> Outcome_authorised then Inr None
              else Inr (Some (disposition_form_field existing p (tc_new_ids t n)
                (evidence_or_message t (pc_source_evidence_id p)) (tc_now t) (agent_actor t))))
           else Inr (Some (with_grounding t p
             (resolve_form_change (tc_float_text t) code existing p (proposal_context t n p))))))))"

fun propose_fields ::
  "turn_context \<Rightarrow> form_evaluation option \<Rightarrow> (string \<times> form_field) list \<Rightarrow> nat \<Rightarrow> form_change list
     \<Rightarrow> (string \<times> form_field) list \<Rightarrow> turn_error + (string \<times> form_field) list" where
  "propose_fields t evaluation form n [] changes = Inr changes"
| "propose_fields t evaluation form n (p # ps) changes =
     bind_result (propose_field t evaluation form n p) (\<lambda>r.
       propose_fields t evaluation form (Suc n) ps (case r of None \<Rightarrow> changes
         | Some f \<Rightarrow> dict_put (pc_field_code p) f changes))"

definition build_form_changes ::
  "turn_context \<Rightarrow> form_evaluation option \<Rightarrow> (string \<times> form_field) list \<Rightarrow> form_change list
     \<Rightarrow> turn_error + (string \<times> form_field) list" where
  "build_form_changes t evaluation form ps =
     bind_result (reject_unprotected_participant_fields (map pc_field_code ps)) (\<lambda>_.
       propose_fields t evaluation form 0 ps [])"

section \<open>Contents items\<close>

definition contents_available :: "form_evaluation \<Rightarrow> string option \<Rightarrow> bool" where
  "contents_available e turn_family \<longleftrightarrow> turn_family = Some ''contents''
     \<or> fe_selected_family e = Some ''contents'' \<or> ''family.contents'' \<in> set (fe_candidate_branches e)"

definition subtext :: "string \<Rightarrow> string \<Rightarrow> bool" where
  "subtext p s \<longleftrightarrow> list_ex (starts_with p) (suffixes s)"

definition claimant_supplied :: "turn_context \<Rightarrow> item_change \<Rightarrow> bool" where
  "claimant_supplied t p = (case px_reported_text p of
     None \<Rightarrow> False | Some r \<Rightarrow> r \<noteq> [] \<and> subtext (py_lower r) (py_lower (tc_message_text t)))"

definition matching_item :: "contents_item list \<Rightarrow> item_change \<Rightarrow> contents_item option" where
  "matching_item items p = (case map_of (rev (map (\<lambda>i. (ci_item_id i, i)) items))
       (case px_item_id p of None \<Rightarrow> [] | Some k \<Rightarrow> k) of
     Some i \<Rightarrow> Some i
   | None \<Rightarrow> map_of (rev (map (\<lambda>i. (normal_text (it_description (ci_details i)), i)) items))
       (normal_text (it_description (px_details p))))"

definition propose_item ::
  "turn_context \<Rightarrow> contents_item list \<Rightarrow> nat \<Rightarrow> item_change \<Rightarrow> turn_error + contents_item" where
  "propose_item t items n p =
     (let source = Option.bind (px_source_evidence_id p) (media_source t);
          existing = matching_item items p;
          supplied = claimant_supplied t p;
          ctx = \<lparr>cx_source_ref = evidence_or_message t (px_source_evidence_id p),
            cx_message_text = (if px_source_evidence_id p \<noteq> None then None else message_text_or_none t),
            cx_now = tc_now t,
            cx_accepted_status = (if supplied \<and> source = None then Confirmed else Proposed),
            cx_updated_by = agent_actor t, cx_explicit_correction = False,
            cx_new_id = tc_new_ids t n\<rparr> in
      guarded
        [(px_source_evidence_id p \<noteq> None \<and> source = None, InvalidEvidenceSource),
         (px_item_id p \<noteq> None \<and> map_of (rev (map (\<lambda>i. (ci_item_id i, i)) items)) (the (px_item_id p)) = None,
            InvalidContentsReference)]
        (case resolve_contents_item_change (tc_float_text t) existing p
            (case existing of None \<Rightarrow> tc_new_item_ids t n | Some i \<Rightarrow> ci_item_id i) ctx of
           Inl _ \<Rightarrow> Inl InvalidContentsItem
         | Inr i \<Rightarrow> Inr (case source of
             Some s \<Rightarrow> i\<lparr>ci_source := s, ci_status := Proposed\<rparr>
           | None \<Rightarrow> if supplied then i else i\<lparr>ci_source := Src_inference\<rparr>)))"

fun propose_items ::
  "turn_context \<Rightarrow> contents_item list \<Rightarrow> nat \<Rightarrow> item_change list \<Rightarrow> turn_error + contents_item list" where
  "propose_items t items n [] = Inr []"
| "propose_items t items n (p # ps) =
     bind_result (propose_item t items n p) (\<lambda>i.
     bind_result (propose_items t items (Suc n) ps) (\<lambda>is. Inr (i # is)))"

definition build_contents_item_changes ::
  "turn_context \<Rightarrow> form_evaluation \<Rightarrow> contents_item list \<Rightarrow> string option \<Rightarrow> item_change list
     \<Rightarrow> turn_error + contents_item list" where
  "build_contents_item_changes t e items turn_family ps =
     (if ps = [] \<or> tc_authority t \<noteq> Outcome_authorised \<or> \<not> contents_available e turn_family then Inr []
      else propose_items t items 0 ps)"

primrec replace_items ::
  "contents_item list \<Rightarrow> (string \<times> contents_item) list \<Rightarrow> contents_item list" where
  "replace_items [] changes = map snd changes"
| "replace_items (i # is) changes = (case map_of changes (ci_item_id i) of
     None \<Rightarrow> i # replace_items is changes
   | Some j \<Rightarrow> j # replace_items is (filter (\<lambda>p. fst p \<noteq> ci_item_id i) changes))"

definition apply_contents_item_changes ::
  "contents_item list \<Rightarrow> contents_item list \<Rightarrow> contents_item list" where
  "apply_contents_item_changes existing changes =
     replace_items existing (fold (\<lambda>i. dict_put (ci_item_id i) i) changes [])"

section \<open>The derived loss description\<close>

definition loss_origin ::
  "(rat \<Rightarrow> string) \<Rightarrow> (string \<times> form_field) list \<Rightarrow> contents_item list \<Rightarrow> string option
     \<Rightarrow> (string \<times> string list \<times> string option) option" where
  "loss_origin repr form items family =
     (if family = Some ''motor'' then
        (case dict_get form ''vehicle.damage_description'' of
           None \<Rightarrow> None
         | Some f \<Rightarrow> if ff_status f = Confirmed
             then map_option (\<lambda>a. (py_str repr (ff_value f), as_source_refs a, as_reported_text a)) (field_origin f)
             else None)
      else if family = Some ''contents'' then
        (case find (\<lambda>i. ci_status i = Confirmed \<and> item_origin i \<noteq> None) items of
           None \<Rightarrow> None
         | Some i \<Rightarrow> map_option (\<lambda>a. (it_description (ci_details i), ia_source_refs a, ia_reported_text a))
             (item_origin i))
      else None)"

definition derive_loss_description ::
  "(rat \<Rightarrow> string) \<Rightarrow> (string \<times> form_field) list \<Rightarrow> contents_item list \<Rightarrow> string option \<Rightarrow> datetime \<Rightarrow> string
     \<Rightarrow> form_field option" where
  "derive_loss_description repr form items family now new_id =
     (if dict_get form ''loss.description'' \<noteq> None then None
      else map_option (\<lambda>(description, refs, reported).
        (let p = \<lparr>pc_field_code = ''loss.description'', pc_value = V_text description,
               pc_source = Src_inference, pc_status = Proposed, pc_needed_for = Need_current_action,
               pc_confidence = None, pc_precision = Exact, pc_relation = None,
               pc_reported_text = reported, pc_source_evidence_id = None\<rparr>;
             x = \<lparr>cx_source_ref = hd refs, cx_message_text = None, cx_now = now,
               cx_accepted_status = Proposed,
               cx_updated_by = \<lparr>actor_type = Actor_agent, actor_id = ''runtime''\<rparr>,
               cx_explicit_correction = False, cx_new_id = new_id\<rparr>;
             f = resolve_form_change repr ''loss.description'' None p x in
         f\<lparr>ff_source_refs := refs,
           ff_assertions := map (\<lambda>a. a\<lparr>as_source_refs := refs\<rparr>) (ff_assertions f)\<rparr>))
        (loss_origin repr form items family))"

section \<open>What passes the gate\<close>

lemma propose_field_Some:
  assumes "propose_field t (Some e) form n p = Inr (Some f)"
  obtains s where "pc_field_code p \<in> REGISTERED_FIELD_CODES" "value_check p = Inr ()"
    "passes (evidence_guards t p)" "selection_of e (pc_field_code p) = Some s"
    "fs_selection_state s \<notin> {Sel_inactive, Sel_system_owned}"
    "f = disposition_form_field (dict_get form (pc_field_code p)) p (tc_new_ids t n)
         (evidence_or_message t (pc_source_evidence_id p)) (tc_now t) (agent_actor t)
       \<and> pc_status p \<in> {Unavailable, Pending_generation} \<and> tc_authority t = Outcome_authorised
       \<and> (\<forall>g. dict_get form (pc_field_code p) = Some g \<longrightarrow> ff_status g \<noteq> Confirmed)
     \<or> f = with_grounding t p (resolve_form_change (tc_float_text t) (pc_field_code p)
         (dict_get form (pc_field_code p)) p (proposal_context t n p))
       \<and> pc_status p \<notin> {Unavailable, Pending_generation}"
proof -
  have "pc_field_code p \<in> REGISTERED_FIELD_CODES \<and> value_check p = Inr ()
    \<and> passes (evidence_guards t p) \<and> passes (branch_guards (Some e) (pc_field_code p))"
    using assms unfolding propose_field_def Let_def
    by (auto simp: guarded_Inr_iff bind_result_Inr_iff simp del: guarded.simps split: if_splits)
  moreover have "f = disposition_form_field (dict_get form (pc_field_code p)) p (tc_new_ids t n)
         (evidence_or_message t (pc_source_evidence_id p)) (tc_now t) (agent_actor t)
       \<and> pc_status p \<in> {Unavailable, Pending_generation} \<and> tc_authority t = Outcome_authorised
       \<and> (\<forall>g. dict_get form (pc_field_code p) = Some g \<longrightarrow> ff_status g \<noteq> Confirmed)
     \<or> f = with_grounding t p (resolve_form_change (tc_float_text t) (pc_field_code p)
         (dict_get form (pc_field_code p)) p (proposal_context t n p))
       \<and> pc_status p \<notin> {Unavailable, Pending_generation}"
    using assms unfolding propose_field_def Let_def
    by (auto simp: guarded_Inr_iff bind_result_Inr_iff simp del: guarded.simps split: if_splits option.splits)
  ultimately show thesis using that by (auto simp: branch_guards_def split: option.splits)
qed

lemma propose_fields_in:
  "propose_fields t e form n ps acc = Inr changes \<Longrightarrow> (code, f) \<in> set changes \<Longrightarrow>
     (code, f) \<in> set acc \<or> (\<exists>m p. p \<in> set ps \<and> pc_field_code p = code \<and> propose_field t e form m p = Inr (Some f))"
proof (induction ps arbitrary: n acc)
  case (Cons p ps)
  from Cons.prems(1) obtain r where r: "propose_field t e form n p = Inr r"
    "propose_fields t e form (Suc n) ps (case r of None \<Rightarrow> acc | Some f \<Rightarrow> dict_put (pc_field_code p) f acc) = Inr changes"
    by (auto simp: bind_result_Inr_iff)
  have put: "(code, f) \<in> set (dict_put k g d) \<Longrightarrow> (code, f) \<in> set d \<or> (code = k \<and> f = g)" for k g d
    by (induction d) (auto split: if_splits)
  show ?case using Cons.IH [OF r(2) Cons.prems(2)] r(1) put by (cases r) fastforce+
qed simp

lemma build_form_changes_in:
  assumes "build_form_changes t e form ps = Inr changes" "(code, f) \<in> set changes"
  obtains n p where "p \<in> set ps" "pc_field_code p = code" "propose_field t e form n p = Inr (Some f)"
    "code \<notin> set PROTECTED_PARTICIPANT_FIELDS"
proof -
  have parts: "set PROTECTED_PARTICIPANT_FIELDS \<inter> set (map pc_field_code ps) = {}"
    "propose_fields t e form 0 ps [] = Inr changes"
    using assms(1) by (auto simp: build_form_changes_def reject_unprotected_participant_fields_def
        bind_result_Inr_iff split: if_splits)
  show thesis using propose_fields_in [OF parts(2) assms(2)] parts(1) that by auto
qed

lemma with_grounding_simps [simp]:
  "ff_status (with_grounding t p f) = ff_status f" "ff_value (with_grounding t p f) = ff_value f"
  by (simp_all add: with_grounding_def Let_def)

lemma resolve_status:
  "ff_status (resolve_form_change repr code existing p x) = Confirmed \<Longrightarrow>
     cx_accepted_status x = Confirmed \<or> (\<exists>f. existing = Some f \<and> ff_status f = Confirmed)"
  by (auto simp: resolve_form_change_def equivalent_change_def conflicting_change_def
      replacing_change_def Let_def split: option.splits if_splits)

lemma accepted_confirmed:
  "accepted_status_of t p = Confirmed \<Longrightarrow>
     tc_authority t = Outcome_authorised \<and> pc_source p = Src_claimant \<and> pc_status p = Confirmed"
  by (auto simp: accepted_status_of_def split: if_splits)

lemma disposition_status [simp]: "ff_status (disposition_form_field e p k r now a) = pc_status p"
  by (simp add: disposition_form_field_def Let_def)

lemma gated_confirmation:
  assumes "propose_field t (Some e) form n p = Inr (Some f)" "ff_status f = Confirmed"
  shows "(tc_authority t = Outcome_authorised \<and> pc_source p = Src_claimant \<and> pc_status p = Confirmed)
    \<or> (\<exists>g. dict_get form (pc_field_code p) = Some g \<and> ff_status g = Confirmed)"
proof (rule propose_field_Some [OF assms(1)], elim disjE conjE)
  assume "f = with_grounding t p (resolve_form_change (tc_float_text t) (pc_field_code p)
         (dict_get form (pc_field_code p)) p (proposal_context t n p))"
  then show ?thesis
    using assms(2) resolve_status [of "tc_float_text t" "pc_field_code p" "dict_get form (pc_field_code p)" p
        "proposal_context t n p"] accepted_confirmed [of t p]
    by (auto simp: proposal_context_def)
qed (use assms(2) in auto)

lemma gated_replacement:
  assumes "propose_field t (Some e) form n p = Inr (Some f)"
    "dict_get form (pc_field_code p) = Some g" "ff_status g = Confirmed" "ff_value f \<noteq> ff_value g"
  shows "case pc_relation p of
      None \<Rightarrow> adds_to_list (tc_float_text t) (ff_value g) (pc_value p)
        \<or> correction_words (message_text_or_none t)
        \<or> recorded_precision (pc_field_code p) g \<in> {Approximate, Range, Partial}
    | Some r \<Rightarrow> r \<notin> {Rel_equivalent, Rel_material_conflict}"
proof (rule propose_field_Some [OF assms(1)], elim disjE conjE)
  assume f: "f = with_grounding t p (resolve_form_change (tc_float_text t) (pc_field_code p)
         (dict_get form (pc_field_code p)) p (proposal_context t n p))"
  let ?x = "proposal_context t n p"
  have rel: "change_relation (tc_float_text t) (pc_field_code p) (Some g) p ?x \<notin> {Rel_equivalent, Rel_material_conflict}"
    using assms(2,4) by (auto simp: f resolve_value)
  show ?thesis
  proof (cases "pc_relation p")
    case None
    then have "relation_to (tc_float_text t) (pc_field_code p) g (pc_value p) (change_precision (pc_field_code p) p ?x)
        (cx_message_text ?x) (cx_explicit_correction ?x) \<notin> {Rel_equivalent, Rel_material_conflict}"
      using rel by (simp add: change_relation_def)
    then show ?thesis
      using None relation_to_replaces [OF _ assms(3), of "tc_float_text t" "pc_field_code p" "pc_value p"]
      by (auto simp: proposal_context_def)
  qed (use rel in \<open>simp add: change_relation_def\<close>)
qed (use assms(2,3) in auto)

section \<open>Items keep their identities\<close>

lemma changes_by_id:
  "(\<forall>(k, j)\<in>set acc. ci_item_id j = k) \<Longrightarrow> distinct (map fst acc) \<Longrightarrow>
     (\<forall>(k, j)\<in>set (fold (\<lambda>i. dict_put (ci_item_id i) i) changes acc). ci_item_id j = k)
     \<and> distinct (map fst (fold (\<lambda>i. dict_put (ci_item_id i) i) changes acc))
     \<and> fst ` set (fold (\<lambda>i. dict_put (ci_item_id i) i) changes acc) = fst ` set acc \<union> ci_item_id ` set changes"
proof (induction changes arbitrary: acc)
  case (Cons i changes)
  have put: "\<forall>(k, j)\<in>set (dict_put (ci_item_id i) i acc). ci_item_id j = k"
    using Cons.prems(1) by (induction acc) (auto split: if_splits)
  have keys: "fst ` set (dict_put (ci_item_id i) i acc) = insert (ci_item_id i) (fst ` set acc)"
    using dict_keys_put [of "ci_item_id i" i acc] by simp
  show ?case using Cons.IH [OF put dict_put_distinct [OF Cons.prems(2)]] keys by auto
qed auto

lemma replace_items_ids:
  "(\<forall>(k, j)\<in>set changes. ci_item_id j = k) \<Longrightarrow> distinct (map ci_item_id xs) \<Longrightarrow>
     map ci_item_id (replace_items xs changes) =
       map ci_item_id xs @ filter (\<lambda>k. k \<notin> ci_item_id ` set xs) (map fst changes)"
proof (induction xs arbitrary: changes)
  case Nil
  then show ?case by auto
next
  case (Cons i xs)
  show ?case
  proof (cases "map_of changes (ci_item_id i)")
    case None
    then have "ci_item_id i \<notin> fst ` set changes" by (simp add: map_of_eq_None_iff)
    then have "filter (\<lambda>k. k \<notin> ci_item_id ` set xs) (map fst changes) =
        filter (\<lambda>k. k \<notin> ci_item_id ` set (i # xs)) (map fst changes)"
      by (intro filter_cong) (auto simp: image_iff)
    then show ?thesis using None Cons by simp
  next
    case (Some j)
    then have j: "ci_item_id j = ci_item_id i" using Cons.prems(1) by (auto dest: map_of_SomeD)
    let ?rest = "filter (\<lambda>p. fst p \<noteq> ci_item_id i) changes"
    have "map ci_item_id (replace_items xs ?rest) =
        map ci_item_id xs @ filter (\<lambda>k. k \<notin> ci_item_id ` set xs) (map fst ?rest)"
      by (rule Cons.IH) (use Cons.prems in auto)
    also have "filter (\<lambda>k. k \<notin> ci_item_id ` set xs) (map fst ?rest) =
        filter (\<lambda>k. k \<notin> ci_item_id ` set (i # xs)) (map fst changes)"
      by (induction changes) auto
    finally show ?thesis using Some j by simp
  qed
qed

lemma apply_items_ids:
  assumes "distinct (map ci_item_id existing)"
  shows "distinct (map ci_item_id (apply_contents_item_changes existing changes))"
    and "prefix (map ci_item_id existing) (map ci_item_id (apply_contents_item_changes existing changes))"
    and "ci_item_id ` set (apply_contents_item_changes existing changes) =
      ci_item_id ` set existing \<union> ci_item_id ` set changes"
proof -
  note by_id = changes_by_id [of "[]" changes, simplified]
  have eq: "map ci_item_id (apply_contents_item_changes existing changes) = map ci_item_id existing
      @ filter (\<lambda>k. k \<notin> ci_item_id ` set existing) (map fst (fold (\<lambda>i. dict_put (ci_item_id i) i) changes []))"
    unfolding apply_contents_item_changes_def by (rule replace_items_ids) (use by_id assms in auto)
  show "distinct (map ci_item_id (apply_contents_item_changes existing changes))"
    unfolding eq using assms by_id by auto
  show "prefix (map ci_item_id existing) (map ci_item_id (apply_contents_item_changes existing changes))"
    unfolding eq by simp
  have "ci_item_id ` set (apply_contents_item_changes existing changes) =
      set (map ci_item_id (apply_contents_item_changes existing changes))" by simp
  also have "\<dots> = ci_item_id ` set existing \<union> ci_item_id ` set changes"
    unfolding eq using by_id by auto
  finally show "ci_item_id ` set (apply_contents_item_changes existing changes) =
      ci_item_id ` set existing \<union> ci_item_id ` set changes" .
qed

section \<open>The loss is asked for or derived\<close>

lemma loss_origin_iff:
  assumes "family \<in> {''motor'', ''contents''}"
  shows "loss_origin repr (ic_form c) (ic_contents_items c) (Some family) \<noteq> None \<longleftrightarrow>
    loss_described_elsewhere c family"
proof -
  have found: "find P xs \<noteq> None \<longleftrightarrow> list_ex P xs" for P :: "contents_item \<Rightarrow> bool" and xs
    by (auto simp: list_ex_iff find_None_iff)
  have origin: "find (\<lambda>i. ci_status i = Confirmed \<and> item_origin i \<noteq> None) xs = Some i \<Longrightarrow> item_origin i \<noteq> None"
    for xs i by (auto simp: find_Some_iff)
  show ?thesis
  proof (cases "family = ''motor''")
    case True
    then show ?thesis
      by (auto simp: loss_origin_def loss_described_elsewhere_def split: option.splits)
  next
    case False
    then have f: "family = ''contents''" using assms by simp
    then show ?thesis
      using found [of "\<lambda>i. ci_status i = Confirmed \<and> item_origin i \<noteq> None" "ic_contents_items c"]
        origin [of "ic_contents_items c"]
      by (cases "find (\<lambda>i. ci_status i = Confirmed \<and> item_origin i \<noteq> None) (ic_contents_items c)")
        (auto simp: loss_origin_def loss_described_elsewhere_def)
  qed
qed

end
