(* ===== verification/Claim_Creation.thy ===== *)
theory Claim_Creation
  imports Branch_Evaluation Recovery_Store
begin

text \<open>
  The durable operation that creates a formal Claim in the claims service
  (\<open>backend/domain/claim_creation.py\<close>): its lifecycle, the failure matrix and its validators, and
  the part of the fixture repository that reserves, advances and settles it
  (\<open>reserve_claim_creation_operation\<close>, \<open>save_claim_creation_operation\<close> and
  \<open>save_claim_creation_outcome\<close> of \<open>backend/repositories/fixture.py\<close>).

  \<open>lodged_claim\<close> is a Claim with the result of its creation in full; \<open>creation_store\<close> holds the
  dictionaries of the repository these operations read and write.
\<close>

section \<open>The operation\<close>

datatype creation_op_status =
    Cop_prepared | Cop_settlement_pending | Cop_accepted | Cop_retryable_failure
  | Cop_terminal_failure | Cop_unknown_outcome

datatype creation_failure =
    Creation_timeout | Creation_unavailable | Creation_access_denied | Creation_malformed
  | Creation_conflicting | Creation_partial

datatype creation_delivery = Creation_not_submitted | Creation_submitted

datatype creation_recovery =
    Retry_same_operation | Reconcile_before_retry | Settle_recorded_result | Review_required

fun classify_claim_creation_failure ::
  "creation_failure \<Rightarrow> creation_delivery \<Rightarrow> creation_op_status \<times> creation_recovery" where
  "classify_claim_creation_failure Creation_timeout Creation_not_submitted =
     (Cop_retryable_failure, Retry_same_operation)"
| "classify_claim_creation_failure Creation_timeout Creation_submitted =
     (Cop_unknown_outcome, Reconcile_before_retry)"
| "classify_claim_creation_failure Creation_unavailable Creation_not_submitted =
     (Cop_retryable_failure, Retry_same_operation)"
| "classify_claim_creation_failure Creation_unavailable Creation_submitted =
     (Cop_unknown_outcome, Reconcile_before_retry)"
| "classify_claim_creation_failure Creation_partial _ = (Cop_unknown_outcome, Reconcile_before_retry)"
| "classify_claim_creation_failure Creation_access_denied _ = (Cop_terminal_failure, Review_required)"
| "classify_claim_creation_failure Creation_malformed _ = (Cop_terminal_failure, Review_required)"
| "classify_claim_creation_failure Creation_conflicting _ = (Cop_terminal_failure, Review_required)"

datatype result_status = Result_created | Result_pending | Result_failed

record external_claim_result =
  xc_external_claim_id :: "string option"
  xc_claim_number :: "string option"
  xc_creation_status :: result_status
  xc_route :: string
  xc_next_step :: string
  xc_source :: integration_source
  xc_expected_by :: "datetime option"
  xc_created_at :: datetime

datatype history_check = Check_hit | Check_clear | Check_not_checked

record history_checks =
  hc_checked_at :: datetime
  hc_count_past_12_months :: "int option"
  hc_prior_claims_12m :: history_check
  hc_possible_duplicate :: history_check
  hc_duplicate_claim_ids :: "string list"
  hc_limitations :: "string list"

record creation_operation =
  co_operation_id :: string
  co_claim_id :: string
  co_customer_id :: string
  co_authorised_decision_id :: string
  co_authorised_revision :: int
  co_request_fingerprint :: string
  co_evidence_snapshot_fingerprint :: string
  co_route :: string
  co_integration_source :: integration_source
  co_status :: creation_op_status
  co_delivery :: creation_delivery
  co_failure_code :: "creation_failure option"
  co_recovery :: "creation_recovery option"
  co_result :: "external_claim_result option"
  co_history_checks :: "history_checks option"
  co_created_at :: datetime
  co_updated_at :: datetime

datatype creation_error =
    CreationFieldConstraint | CreationDatetimeTypeError | OperationTimeBackwards
  | PreparedHasOutcome | RecordedResultMismatch | FailureUnclassified | FailureConflict
  | OperationIdentityImmutable | CreationTransitionNotPermitted

definition history_checks_ok :: "history_checks \<Rightarrow> bool" where
  "history_checks_ok h \<longleftrightarrow> opt_all (\<lambda>n. 0 \<le> n) (hc_count_past_12_months h)
     \<and> length (hc_duplicate_claim_ids h) \<le> 50"

definition creation_fields_ok :: "creation_operation \<Rightarrow> bool" where
  "creation_fields_ok p \<longleftrightarrow> bounded_text 1 100 (co_operation_id p) \<and> bounded_text 1 100 (co_claim_id p)
     \<and> bounded_text 1 100 (co_customer_id p) \<and> bounded_text 1 100 (co_authorised_decision_id p)
     \<and> 1 \<le> co_authorised_revision p \<and> bounded_text 64 64 (co_request_fingerprint p)
     \<and> bounded_text 64 64 (co_evidence_snapshot_fingerprint p) \<and> bounded_text 1 100 (co_route p)
     \<and> opt_all history_checks_ok (co_history_checks p)"

definition recorded_recovery :: "creation_operation \<Rightarrow> creation_recovery option" where
  "recorded_recovery p =
     (if co_status p = Cop_settlement_pending then Some Settle_recorded_result else None)"

definition result_matches :: "creation_operation \<Rightarrow> external_claim_result \<Rightarrow> bool" where
  "result_matches p r \<longleftrightarrow> xc_source r = co_integration_source p \<and> xc_route r = co_route p"

definition outcome_guards :: "creation_operation \<Rightarrow> (bool \<times> creation_error) list" where
  "outcome_guards p =
     (if co_status p = Cop_prepared then
        [(co_result p \<noteq> None \<or> co_failure_code p \<noteq> None \<or> co_recovery p \<noteq> None, PreparedHasOutcome)]
      else if co_status p \<in> {Cop_settlement_pending, Cop_accepted} then
        [(\<not> (\<exists>r. co_result p = Some r \<and> result_matches p r) \<or> co_failure_code p \<noteq> None
            \<or> co_recovery p \<noteq> recorded_recovery p \<or> co_delivery p \<noteq> Creation_submitted,
          RecordedResultMismatch)]
      else
        [(co_result p \<noteq> None \<or> co_failure_code p = None \<or> co_recovery p = None, FailureUnclassified),
         (classify_claim_creation_failure (the (co_failure_code p)) (co_delivery p)
            \<noteq> (co_status p, the (co_recovery p)), FailureConflict)])"

definition validate_creation_state :: "creation_operation \<Rightarrow> creation_error + unit" where
  "validate_creation_state p = guarded
     ((\<not> creation_fields_ok p, CreationFieldConstraint)
      # before_guard (co_updated_at p) (co_created_at p) CreationDatetimeTypeError OperationTimeBackwards
      @ outcome_guards p)
     (Inr ())"

definition same_creation_identity :: "creation_operation \<Rightarrow> creation_operation \<Rightarrow> bool" where
  "same_creation_identity p q \<longleftrightarrow> co_operation_id p = co_operation_id q \<and> co_claim_id p = co_claim_id q
     \<and> co_customer_id p = co_customer_id q
     \<and> co_authorised_decision_id p = co_authorised_decision_id q
     \<and> co_authorised_revision p = co_authorised_revision q
     \<and> co_request_fingerprint p = co_request_fingerprint q
     \<and> co_evidence_snapshot_fingerprint p = co_evidence_snapshot_fingerprint q
     \<and> co_route p = co_route q \<and> co_integration_source p = co_integration_source q
     \<and> co_history_checks p = co_history_checks q \<and> co_created_at p = co_created_at q"

definition allowed_creation_steps :: "creation_op_status \<Rightarrow> creation_op_status set" where
  "allowed_creation_steps st = (case st of
     Cop_prepared \<Rightarrow> {Cop_settlement_pending, Cop_retryable_failure, Cop_terminal_failure, Cop_unknown_outcome}
   | Cop_retryable_failure \<Rightarrow> {Cop_prepared}
   | Cop_unknown_outcome \<Rightarrow> {Cop_settlement_pending, Cop_unknown_outcome}
   | Cop_settlement_pending \<Rightarrow> {Cop_accepted}
   | Cop_accepted \<Rightarrow> {}
   | Cop_terminal_failure \<Rightarrow> {})"

definition assert_claim_creation_operation_transition ::
  "creation_operation \<Rightarrow> creation_operation \<Rightarrow> creation_error + unit" where
  "assert_claim_creation_operation_transition p q =
     bind_result (validate_creation_state q) (\<lambda>_. guarded
       ((\<not> same_creation_identity p q, OperationIdentityImmutable)
        # before_guard (co_updated_at q) (co_updated_at p) CreationDatetimeTypeError OperationTimeBackwards
        @ [(p \<noteq> q \<and> co_status q \<notin> allowed_creation_steps (co_status p), CreationTransitionNotPermitted)])
       (Inr ()))"

definition claim_creation_operation_id :: "string \<Rightarrow> string \<Rightarrow> string" where
  "claim_creation_operation_id claim_id decision_id =
     ''cco_'' @ take 24 (sha256_hexdigest (claim_id @ '':'' @ decision_id))"

text \<open>\<open>dump\<close> is the canonical JSON text of the evidence records, which the model library writes.\<close>

definition evidence_snapshot_fingerprint :: "(evidence_record list \<Rightarrow> string) \<Rightarrow> evidence_record list \<Rightarrow> string" where
  "evidence_snapshot_fingerprint dump es = sha256_hexdigest (dump (sort_key ed_evidence_id es))"

section \<open>The store\<close>

record lodged_claim = intake_claim +
  lc_external_result :: "external_claim_result option"
  lc_external_claim_source_revision :: "int option"
  lc_external_claim_fingerprint :: "string option"
  lc_route :: "string option"

record creation_decision = agent_decision +
  dn_action :: agent_action
  dn_reason_codes :: "string list"

record creation_store =
  cs_claims :: "(string \<times> lodged_claim) list"
  cs_decisions :: "(string \<times> creation_decision) list"
  cs_evidence :: "(string \<times> evidence_record) list"
  cs_operations :: "(string \<times> creation_operation) list"
  cs_evaluations :: "(string \<times> evaluation_record) list"
  cs_retention_by_claim :: "(string \<times> string) list"
  cs_realtime_events :: "realtime_event list"
  cs_realtime_sequence :: int

definition creation_access_closed :: "creation_store \<Rightarrow> string \<Rightarrow> bool" where
  "creation_access_closed s claim_id \<longleftrightarrow> dict_get (cs_retention_by_claim s) claim_id \<noteq> None"

definition accessible_claim :: "creation_store \<Rightarrow> string \<Rightarrow> string \<Rightarrow> lodged_claim option" where
  "accessible_claim s claim_id customer_id = (case dict_get (cs_claims s) claim_id of
     None \<Rightarrow> None
   | Some c \<Rightarrow> if wc_customer_id c = customer_id \<and> \<not> creation_access_closed s claim_id
       then Some c else None)"

definition evidence_of :: "creation_store \<Rightarrow> string \<Rightarrow> evidence_record list" where
  "evidence_of s claim_id = filter (\<lambda>e. ed_claim_id e = claim_id) (dict_values (cs_evidence s))"

definition list_creation_evidence :: "creation_store \<Rightarrow> string \<Rightarrow> string \<Rightarrow> evidence_record list" where
  "list_creation_evidence s claim_id customer_id =
     (if accessible_claim s claim_id customer_id = None then []
      else sort_key (\<lambda>e. instant (ed_created_at e)) (evidence_of s claim_id))"

definition list_branch_evaluations :: "creation_store \<Rightarrow> string \<Rightarrow> string \<Rightarrow> evaluation_record list" where
  "list_branch_evaluations s claim_id customer_id =
     (if accessible_claim s claim_id customer_id = None then []
      else sort_key evaluation_key (filter (\<lambda>r. fr_claim_id r = claim_id) (dict_values (cs_evaluations s))))"

definition creation_decision_of :: "creation_store \<Rightarrow> string \<Rightarrow> string \<Rightarrow> creation_decision option" where
  "creation_decision_of s claim_id decision_id = (case dict_get (cs_decisions s) decision_id of
     None \<Rightarrow> None
   | Some d \<Rightarrow> if dn_claim_id d = claim_id then Some d else None)"

definition creation_of_claim :: "creation_store \<Rightarrow> string \<Rightarrow> creation_operation option" where
  "creation_of_claim s claim_id = find (\<lambda>p. co_claim_id p = claim_id) (dict_values (cs_operations s))"

definition put_creation :: "creation_operation \<Rightarrow> creation_store \<Rightarrow> creation_store" where
  "put_creation p s = s\<lparr>cs_operations := dict_put (co_operation_id p) p (cs_operations s)\<rparr>"

text \<open>A refused transition is a \<open>ValueError\<close>, incomparable times a \<open>TypeError\<close> that is not caught.\<close>

definition checked_transition ::
  "creation_operation \<Rightarrow> creation_operation \<Rightarrow> repo_error + unit" where
  "checked_transition p q = map_error (\<lambda>e. if e = CreationDatetimeTypeError then repo_error.DatetimeTypeError
       else IdempotencyConflict (co_operation_id q))
     (assert_claim_creation_operation_transition p q)"

definition reservation_authorised ::
  "(evidence_record list \<Rightarrow> string) \<Rightarrow> creation_store \<Rightarrow> creation_operation \<Rightarrow> bool" where
  "reservation_authorised dump s p \<longleftrightarrow> co_status p = Cop_prepared
     \<and> (\<exists>c. dict_get (cs_claims s) (co_claim_id p) = Some c \<and> wc_customer_id c = co_customer_id p
          \<and> wc_revision c = co_authorised_revision p \<and> lc_external_result c = None
          \<and> wc_terminal_disposition c = None)
     \<and> (\<exists>d. dict_get (cs_decisions s) (co_authorised_decision_id p) = Some d
          \<and> dn_claim_id d = co_claim_id p \<and> dn_resulting_revision d = co_authorised_revision p)
     \<and> evidence_snapshot_fingerprint dump (evidence_of s (co_claim_id p)) = co_evidence_snapshot_fingerprint p"

definition reserve_claim_creation_operation ::
  "(evidence_record list \<Rightarrow> string) \<Rightarrow> creation_store \<Rightarrow> creation_operation
     \<Rightarrow> repo_error + bool \<times> creation_store" where
  "reserve_claim_creation_operation dump s p =
     (if \<not> reservation_authorised dump s p then Inl (repo_error.Missing (co_claim_id p))
      else case creation_of_claim s (co_claim_id p) of
          None \<Rightarrow> Inr (True, put_creation p s)
        | Some q \<Rightarrow>
            if co_operation_id q \<noteq> co_operation_id p then Inl (IdempotencyConflict (co_operation_id p))
            else if co_status q = Cop_retryable_failure then
              bind_result (checked_transition q p) (\<lambda>_. Inr (True, put_creation p s))
            else if co_request_fingerprint q \<noteq> co_request_fingerprint p
                \<or> co_evidence_snapshot_fingerprint q \<noteq> co_evidence_snapshot_fingerprint p
                \<or> co_route q \<noteq> co_route p \<or> co_integration_source q \<noteq> co_integration_source p
              then Inl (IdempotencyConflict (co_operation_id p))
            else Inr (False, s))"

definition save_claim_creation_operation ::
  "creation_store \<Rightarrow> creation_operation \<Rightarrow> repo_error + creation_store" where
  "save_claim_creation_operation s p = (case dict_get (cs_operations s) (co_operation_id p) of
     None \<Rightarrow> Inl (repo_error.Missing (co_operation_id p))
   | Some q \<Rightarrow> bind_result (checked_transition q p) (\<lambda>_. Inr (put_creation p s)))"

definition validate_lodging_mutation :: "creation_store \<Rightarrow> lodged_claim \<Rightarrow> int \<Rightarrow> repo_error + unit" where
  "validate_lodging_mutation s c expected_revision =
     (if creation_access_closed s (wc_claim_id c) then Inl (ResourceAccessClosed (wc_claim_id c))
      else case dict_get (cs_claims s) (wc_claim_id c) of
        None \<Rightarrow> Inl (repo_error.Missing (wc_claim_id c))
      | Some stored \<Rightarrow> guarded
          [(wc_revision stored \<noteq> expected_revision, RevisionConflict (wc_revision stored)),
           (wc_customer_id stored \<noteq> wc_customer_id c \<or> wc_revision c \<noteq> expected_revision + 1,
            repo_error.Missing (wc_claim_id c)),
           (wc_active_session_id stored \<noteq> wc_active_session_id c, repo_error.Missing (wc_claim_id c)),
           (wc_claim_decision_id stored \<noteq> wc_claim_decision_id c, repo_error.Missing (wc_claim_id c))]
          (Inr ()))"

definition validate_stored_evaluation ::
  "creation_store \<Rightarrow> lodged_claim \<Rightarrow> evaluation_record \<Rightarrow> repo_error + unit" where
  "validate_stored_evaluation s c r = guarded
     [(fr_claim_id r \<noteq> wc_claim_id c
         \<or> fe_evaluated_against_claim_revision (fr_evaluation r) \<noteq> wc_revision c
         \<or> fr_resulting_claim_revision r \<noteq> Some (wc_revision c), repo_error.Missing (wc_claim_id c)),
      (dict_get (cs_evaluations s) (fr_evaluation_id r) \<noteq> None,
       IdempotencyConflict (fr_evaluation_id r))]
     (Inr ())"

definition outcome_recorded ::
  "(evidence_record list \<Rightarrow> string) \<Rightarrow> creation_store \<Rightarrow> lodged_claim \<Rightarrow> creation_operation \<Rightarrow> bool" where
  "outcome_recorded dump s c p \<longleftrightarrow> dict_get (cs_operations s) (co_operation_id p) \<noteq> None
     \<and> co_status p = Cop_accepted \<and> co_result p \<noteq> None \<and> lc_external_result c = co_result p
     \<and> lc_external_claim_source_revision c = Some (co_authorised_revision p)
     \<and> lc_external_claim_fingerprint c = Some (co_request_fingerprint p)
     \<and> evidence_snapshot_fingerprint dump (evidence_of s (wc_claim_id c)) = co_evidence_snapshot_fingerprint p"

definition put_lodged_claim :: "lodged_claim \<Rightarrow> evaluation_record option \<Rightarrow> creation_store \<Rightarrow> creation_store" where
  "put_lodged_claim c branch s = s\<lparr>cs_claims := dict_put (wc_claim_id c) c (cs_claims s),
     cs_evaluations := (case branch of None \<Rightarrow> cs_evaluations s
       | Some r \<Rightarrow> dict_put (fr_evaluation_id r) r (cs_evaluations s))\<rparr>"

definition publish_claim_changed ::
  "lodged_claim \<Rightarrow> string option \<Rightarrow> creation_store \<Rightarrow> repo_error + creation_store" where
  "publish_claim_changed c correlation s = guarded
     [(\<not> opt_all (bounded_text 0 200) correlation \<or> wc_revision c < 1, RealtimeFieldConstraint)]
     (Inr (s\<lparr>cs_realtime_events := cs_realtime_events s @
          [\<lparr>ry_sequence = cs_realtime_sequence s + 1, ry_mutation = ''claim_changed'',
            ry_claim_id = wc_claim_id c, ry_customer_id = wc_customer_id c,
            ry_claim_revision = wc_revision c, ry_operation_correlation = correlation\<rparr>],
        cs_realtime_sequence := cs_realtime_sequence s + 1\<rparr>))"

definition save_claim_creation_outcome ::
  "(evidence_record list \<Rightarrow> string) \<Rightarrow> creation_store \<Rightarrow> lodged_claim \<Rightarrow> int \<Rightarrow> creation_operation
     \<Rightarrow> evaluation_record \<Rightarrow> repo_error + creation_store" where
  "save_claim_creation_outcome dump s c expected_revision p r =
     bind_result (validate_lodging_mutation s c expected_revision) (\<lambda>_.
     bind_result (validate_stored_evaluation s c r) (\<lambda>_.
       if \<not> outcome_recorded dump s c p then Inl (repo_error.Missing (wc_claim_id c))
       else bind_result (checked_transition (the (dict_get (cs_operations s) (co_operation_id p))) p) (\<lambda>_.
         publish_claim_changed c (Some (co_operation_id p))
           (put_creation p (put_lodged_claim c (Some r) s)))))"

definition save_claim ::
  "creation_store \<Rightarrow> lodged_claim \<Rightarrow> int \<Rightarrow> evaluation_record option \<Rightarrow> repo_error + creation_store" where
  "save_claim s c expected_revision branch =
     bind_result (validate_lodging_mutation s c expected_revision) (\<lambda>_.
     bind_result (case branch of None \<Rightarrow> Inr () | Some r \<Rightarrow> validate_stored_evaluation s c r) (\<lambda>_.
       publish_claim_changed c None (put_lodged_claim c branch s)))"

end
