(* ===== verification/Creation_Service.thy ===== *)
theory Creation_Service
  imports Claim_Creation
begin

text \<open>
  The service that creates a formal Claim through the claims adapter (\<open>create_external_claim\<close> and
  its helpers, \<open>backend/services/integrations.py\<close>): the checks on an authorised request, the
  reservation of its operation, the one call of the provider, recovery by reconciliation, and the
  settlement of a recorded result on the Claim; and the deterministic in-memory adapter
  (\<open>MockClaimsServiceAdapter\<close>, \<open>backend/adapters/claims_service.py\<close>).

  An adapter is a pair of functions on a world of their own. The canonical JSON texts the model
  library writes and the history observations of \<open>claim_history_checks.py\<close> are parameters; the
  clock readings and the new identity of a call are arguments, in the order the call takes them.
\<close>

section \<open>Requests and adapters\<close>

record pending_reference =
  pr_evidence_id :: string
  pr_kind :: string
  pr_needed_for :: "string list"

record creation_request =
  cq_working_claim_id :: string
  cq_claim_revision :: int
  cq_authorised_decision_id :: string
  cq_evidence_snapshot_fingerprint :: string
  cq_confirmed_form :: "(string \<times> form_field) list"
  cq_evidence_refs :: "string list"
  cq_pending_evidence :: "pending_reference list"
  cq_route :: string

record creation_outcome =
  oc_result :: external_claim_result
  oc_replayed :: bool

text \<open>What an adapter raises; \<open>Adapter_crash\<close> is any exception the service does not handle.\<close>

datatype adapter_failure = Adapter_conflict | Creation_failed creation_failure creation_delivery | Adapter_crash

record 'w claims_adapter =
  ca_integration_source :: integration_source
  ca_create_claim :: "creation_request \<Rightarrow> string \<Rightarrow> 'w \<Rightarrow> (adapter_failure + creation_outcome) \<times> 'w"
  ca_reconcile_claim :: "creation_request \<Rightarrow> string \<Rightarrow> 'w \<Rightarrow> (adapter_failure + creation_outcome option) \<times> 'w"

record creation_env =
  ce_dump_request :: "creation_request \<Rightarrow> string"
  ce_dump_evidence :: "evidence_record list \<Rightarrow> string"
  ce_lodging_history :: "creation_store \<Rightarrow> lodged_claim \<Rightarrow> datetime \<Rightarrow> history_checks"

record creation_clock =
  ck_reserved_at :: datetime
  ck_recorded_at :: datetime
  ck_settled_at :: datetime
  ck_evaluated_at :: datetime
  ck_evaluation_id :: string

datatype evidence_problem =
    Invalid_evidence | Duplicate_references | Incomplete_snapshot | Pending_mismatch | Snapshot_changed

datatype creation_api_error =
    Api_claim_not_found | Api_idempotency_conflict | Api_terminal_claim | Api_settles_terminal_claim
  | Api_revision_conflict int | Api_not_authorised | Api_route string | Api_confirmed_form
  | Api_evidence "evidence_problem list" | Api_unavailable "creation_failure option"
  | Api_failed creation_failure | Api_result_source | Api_result_route | Api_no_reference
  | Api_not_restored | Raised_repository repo_error | Raised_operation creation_error
  | Raised_disposition model_error | Raised_evidence evidence_error | Raised_adapter

definition creation_fingerprint :: "creation_env \<Rightarrow> creation_request \<Rightarrow> string" where
  "creation_fingerprint env q = sha256_hexdigest (ce_dump_request env q)"

section \<open>Recording a provider result\<close>

text \<open>\<open>x or y\<close> of two optional texts.\<close>

definition external_claim_ref :: "external_claim_result \<Rightarrow> string option" where
  "external_claim_ref r = (if present (xc_external_claim_id r) then xc_external_claim_id r
     else xc_claim_number r)"

definition validate_claim_creation_result ::
  "integration_source \<Rightarrow> creation_operation \<Rightarrow> external_claim_result \<Rightarrow> creation_api_error + string option" where
  "validate_claim_creation_result source p r = guarded
     [(xc_source r \<noteq> source, Api_result_source),
      (xc_route r \<noteq> co_route p, Api_result_route),
      (xc_creation_status r = Result_created \<and> external_claim_ref r = None, Api_no_reference)]
     (Inr (external_claim_ref r))"

text \<open>\<open>except (IdempotencyConflict, KeyError)\<close>; a closed resource is a \<open>KeyError\<close>.\<close>

fun conflict_error :: "repo_error \<Rightarrow> creation_api_error" where
  "conflict_error (IdempotencyConflict k) = Api_idempotency_conflict"
| "conflict_error (repo_error.Missing k) = Api_idempotency_conflict"
| "conflict_error (ResourceAccessClosed k) = Api_idempotency_conflict"
| "conflict_error e = Raised_repository e"

fun revision_or_conflict_error :: "repo_error \<Rightarrow> creation_api_error" where
  "revision_or_conflict_error (RevisionConflict v) = Api_revision_conflict v"
| "revision_or_conflict_error e = conflict_error e"

definition recorded_operation :: "creation_operation \<Rightarrow> external_claim_result \<Rightarrow> datetime \<Rightarrow> creation_operation" where
  "recorded_operation p r now = p\<lparr>co_status := Cop_settlement_pending, co_delivery := Creation_submitted,
     co_failure_code := None, co_recovery := Some Settle_recorded_result, co_result := Some r,
     co_updated_at := now\<rparr>"

definition record_claim_creation_result ::
  "integration_source \<Rightarrow> creation_operation \<Rightarrow> external_claim_result \<Rightarrow> datetime \<Rightarrow> creation_store
     \<Rightarrow> creation_api_error + creation_operation \<times> creation_store" where
  "record_claim_creation_result source p r now s =
     bind_result (validate_claim_creation_result source p r) (\<lambda>_.
     bind_result (map_error conflict_error (save_claim_creation_operation s (recorded_operation p r now))) (\<lambda>s1.
       Inr (recorded_operation p r now, s1)))"

section \<open>Settling a recorded result\<close>

definition completed_disposition ::
  "creation_decision \<Rightarrow> string \<Rightarrow> datetime \<Rightarrow> int \<Rightarrow> terminal_disposition" where
  "completed_disposition d ref now revision =
     \<lparr>td_value = Terminal_completed, td_reason_code = Reason_claim_created,
      td_source_refs = [dn_decision_id d, ref],
      td_recorded_by = \<lparr>actor_type = Actor_system, actor_id = ''claims_service_integration''\<rparr>,
      td_recorded_at = now, td_recorded_revision = revision\<rparr>"

definition creation_disposition ::
  "creation_decision \<Rightarrow> external_claim_result \<Rightarrow> datetime \<Rightarrow> int
     \<Rightarrow> creation_api_error + terminal_disposition option" where
  "creation_disposition d r now revision =
     (case (xc_creation_status r, external_claim_ref r) of
        (Result_created, Some ref) \<Rightarrow>
          bind_result (map_error Raised_disposition
              (validate_terminal_reason (completed_disposition d ref now revision))) (\<lambda>t. Inr (Some t))
      | _ \<Rightarrow> Inr None)"

definition settled_claim ::
  "lodged_claim \<Rightarrow> creation_operation \<Rightarrow> external_claim_result \<Rightarrow> terminal_disposition option \<Rightarrow> datetime
     \<Rightarrow> lodged_claim" where
  "settled_claim c p r disposition now =
     (let created = xc_creation_status r = Result_created in
      c\<lparr>lc_external_result := Some r,
        wc_external_claim := Some (if created then Creation_created else Creation_other),
        lc_external_claim_source_revision := Some (co_authorised_revision p),
        lc_external_claim_fingerprint := Some (co_request_fingerprint p),
        wc_terminal_disposition := disposition, lc_route := Some (xc_route r),
        wc_workflow_state := (if created then Workflow_created else wc_workflow_state c),
        ic_next_action := PROCEED,
        wc_customer_next_step :=
          \<lparr>ns_status = (if created then ''claim_created'' else ''claim_creation_pending''),
           ns_summary = xc_next_step r, ns_responsible_party = Party_system,
           ns_expected_by = xc_expected_by r, ns_can_resume = \<not> created, ns_required_items = []\<rparr>,
        wc_revision := wc_revision c + 1, wc_updated_at := now\<rparr>)"

definition accepted_operation :: "creation_operation \<Rightarrow> datetime \<Rightarrow> creation_operation" where
  "accepted_operation p now = p\<lparr>co_status := Cop_accepted, co_recovery := None, co_updated_at := now\<rparr>"

definition creation_evaluation ::
  "creation_store \<Rightarrow> lodged_claim \<Rightarrow> creation_clock \<Rightarrow> branch_error + evaluation_record" where
  "creation_evaluation s c clock = build_applied_branch_evaluation (intake_claim.truncate c)
     (list_branch_evaluations s (wc_claim_id c) (wc_customer_id c)) ''integration_result_changed''
     None None None [] (ck_evaluated_at clock) [] (ck_evaluation_id clock)"

definition settle_recorded_claim_creation ::
  "creation_env \<Rightarrow> lodged_claim \<Rightarrow> creation_decision \<Rightarrow> creation_operation \<Rightarrow> bool \<Rightarrow> creation_clock
     \<Rightarrow> creation_store \<Rightarrow> creation_api_error + (external_claim_result \<times> bool) \<times> creation_store" where
  "settle_recorded_claim_creation env c d p replayed clock s = (case co_result p of
     None \<Rightarrow> Inl Api_idempotency_conflict
   | Some r \<Rightarrow> guarded
       [(co_status p \<noteq> Cop_settlement_pending, Api_idempotency_conflict),
        (lc_external_result c \<noteq> None \<or> wc_terminal_disposition c \<noteq> None, Api_settles_terminal_claim)]
       (bind_result (creation_disposition d r (ck_settled_at clock) (wc_revision c + 1)) (\<lambda>disposition.
        let c' = settled_claim c p r disposition (ck_settled_at clock) in
        case creation_evaluation s c' clock of
          Inl _ \<Rightarrow> Inl Api_idempotency_conflict
        | Inr e \<Rightarrow> bind_result (map_error revision_or_conflict_error
            (save_claim_creation_outcome (ce_dump_evidence env) s c' (wc_revision c)
              (accepted_operation p (ck_settled_at clock)) e)) (\<lambda>s1. Inr ((r, replayed), s1)))))"

section \<open>Recovery\<close>

definition unknown_claim_creation_operation :: "creation_operation \<Rightarrow> datetime \<Rightarrow> creation_operation" where
  "unknown_claim_creation_operation p now =
     (if co_status p = Cop_unknown_outcome then p\<lparr>co_updated_at := now\<rparr>
      else let (status, recovery) = classify_claim_creation_failure Creation_partial Creation_submitted in
        p\<lparr>co_status := status, co_delivery := Creation_submitted, co_failure_code := Some Creation_partial,
          co_recovery := Some recovery, co_updated_at := now\<rparr>)"

text \<open>Every answer comes with the store and the world the call leaves.\<close>

type_synonym 'w creation_answer =
  "(creation_api_error + external_claim_result \<times> bool) \<times> creation_store \<times> 'w"

definition left_unknown ::
  "creation_operation \<Rightarrow> creation_failure option \<Rightarrow> datetime \<Rightarrow> creation_store \<Rightarrow> 'w \<Rightarrow> 'w creation_answer" where
  "left_unknown p failure now s w =
     (case save_claim_creation_operation s (unknown_claim_creation_operation p now) of
        Inl e \<Rightarrow> (Inl (Raised_repository e), s, w)
      | Inr s1 \<Rightarrow> (Inl (Api_unavailable failure), s1, w))"

definition record_and_settle ::
  "creation_env \<Rightarrow> integration_source \<Rightarrow> lodged_claim option \<Rightarrow> string \<Rightarrow> creation_decision \<Rightarrow> creation_operation
     \<Rightarrow> external_claim_result \<Rightarrow> bool \<Rightarrow> creation_clock \<Rightarrow> creation_store \<Rightarrow> 'w \<Rightarrow> 'w creation_answer" where
  "record_and_settle env source claim claim_id d p r replayed clock s w =
     (case record_claim_creation_result source p r (ck_recorded_at clock) s of
        Inl e \<Rightarrow> (Inl e, s, w)
      | Inr (recorded, s1) \<Rightarrow>
          (case (case claim of None \<Rightarrow> dict_get (cs_claims s1) claim_id | Some c \<Rightarrow> Some c) of
             None \<Rightarrow> (Inl Api_claim_not_found, s1, w)
           | Some c \<Rightarrow> (case settle_recorded_claim_creation env c d recorded replayed clock s1 of
               Inl e \<Rightarrow> (Inl e, s1, w)
             | Inr (answer, s2) \<Rightarrow> (Inr answer, s2, w))))"

text \<open>\<open>None\<close> when the recorded failure permits a new attempt under the same operation.\<close>

definition recover_claim_creation_operation ::
  "creation_env \<Rightarrow> 'w claims_adapter \<Rightarrow> creation_request \<Rightarrow> lodged_claim \<Rightarrow> creation_decision
     \<Rightarrow> creation_operation \<Rightarrow> creation_clock \<Rightarrow> creation_store \<Rightarrow> 'w \<Rightarrow> 'w creation_answer option" where
  "recover_claim_creation_operation env adapter q c d p clock s w =
     (if co_request_fingerprint p \<noteq> creation_fingerprint env q
         \<or> co_integration_source p \<noteq> ca_integration_source adapter
      then Some (Inl Api_idempotency_conflict, s, w)
      else case co_status p of
        Cop_settlement_pending \<Rightarrow>
          Some (case settle_recorded_claim_creation env c d p True clock s of
              Inl e \<Rightarrow> (Inl e, s, w)
            | Inr (answer, s1) \<Rightarrow> (Inr answer, s1, w))
      | Cop_retryable_failure \<Rightarrow> None
      | Cop_accepted \<Rightarrow> Some (Inl Api_idempotency_conflict, s, w)
      | Cop_terminal_failure \<Rightarrow> Some (Inl Api_idempotency_conflict, s, w)
      | _ \<Rightarrow>
          Some (case ca_reconcile_claim adapter q (creation_fingerprint env q) w of
              (Inl Adapter_conflict, w1) \<Rightarrow> (Inl Api_idempotency_conflict, s, w1)
            | (Inl Adapter_crash, w1) \<Rightarrow> (Inl Raised_adapter, s, w1)
            | (Inl (Creation_failed code delivery), w1) \<Rightarrow>
                left_unknown p (Some code) (ck_recorded_at clock) s w1
            | (Inr None, w1) \<Rightarrow> left_unknown p None (ck_recorded_at clock) s w1
            | (Inr (Some answer), w1) \<Rightarrow> record_and_settle env (ca_integration_source adapter) None
                (wc_claim_id c) d p (oc_result answer) True clock s w1))"

section \<open>Checks before a reservation\<close>

definition decision_authorises :: "creation_request \<Rightarrow> creation_decision \<Rightarrow> bool" where
  "decision_authorises q d \<longleftrightarrow> dn_action d = CREATE_CLAIM
     \<and> dn_authority_outcome d = Outcome_authorised
     \<and> ''CLAIM_CREATION_AUTHORISED'' \<in> set (dn_reason_codes d)
     \<and> dn_resulting_revision d = cq_claim_revision q"

definition expected_route :: "lodged_claim \<Rightarrow> string" where
  "expected_route c = ''standard_'' @ (case ic_incident_type c of None \<Rightarrow> ''None'' | Some t \<Rightarrow> t) @ ''_intake''"

definition confirmed_form :: "lodged_claim \<Rightarrow> (string \<times> form_field) list" where
  "confirmed_form c = filter (\<lambda>p. ff_status (snd p) = Confirmed) (ic_form c)"

definition pending_of :: "evidence_record list \<Rightarrow> (string \<times> string \<times> string list) set" where
  "pending_of es = (\<lambda>e. (ed_evidence_id e, ed_kind e, ed_needed_for e))
     ` set (filter (\<lambda>e. ed_status e = Evidence_pending) es)"

definition supplied_pending :: "creation_request \<Rightarrow> (string \<times> string \<times> string list) list" where
  "supplied_pending q = map (\<lambda>r. (pr_evidence_id r, pr_kind r, pr_needed_for r)) (cq_pending_evidence q)"

text \<open>The records are checked in order; the first failure ends the loop, a \<open>TypeError\<close> the call.\<close>

primrec first_invalid :: "evidence_record list \<Rightarrow> evidence_error option" where
  "first_invalid [] = None"
| "first_invalid (e # es) = (case validate_evidence_record e of Inl x \<Rightarrow> Some x | Inr _ \<Rightarrow> first_invalid es)"

definition evidence_problems ::
  "(evidence_record list \<Rightarrow> string) \<Rightarrow> creation_request \<Rightarrow> evidence_record list \<Rightarrow> evidence_problem list" where
  "evidence_problems dump q es = map snd (filter fst
     [(first_invalid es \<noteq> None, Invalid_evidence),
      (\<not> distinct (cq_evidence_refs q), Duplicate_references),
      (set (cq_evidence_refs q) \<noteq> ed_evidence_id ` set es, Incomplete_snapshot),
      (\<not> distinct (supplied_pending q) \<or> set (supplied_pending q) \<noteq> pending_of es, Pending_mismatch),
      (cq_evidence_snapshot_fingerprint q \<noteq> evidence_snapshot_fingerprint dump es, Snapshot_changed)])"

definition fresh_start_guards :: "creation_request \<Rightarrow> lodged_claim \<Rightarrow> (bool \<times> creation_api_error) list" where
  "fresh_start_guards q c =
     [(wc_terminal_disposition c \<noteq> None, Api_terminal_claim),
      (wc_revision c \<noteq> cq_claim_revision q, Api_revision_conflict (wc_revision c))]"

definition lodging_guards ::
  "creation_env \<Rightarrow> creation_request \<Rightarrow> lodged_claim \<Rightarrow> evidence_record list \<Rightarrow> (bool \<times> creation_api_error) list" where
  "lodging_guards env q c es =
     [(cq_route q \<noteq> expected_route c, Api_route (expected_route c)),
      (\<not> same_items (cq_confirmed_form q) (confirmed_form c), Api_confirmed_form),
      (first_invalid es = Some EvidenceDatetimeTypeError, Raised_evidence EvidenceDatetimeTypeError),
      (evidence_problems (ce_dump_evidence env) q es \<noteq> [], Api_evidence (evidence_problems (ce_dump_evidence env) q es))]"

definition prepared_operation ::
  "creation_env \<Rightarrow> integration_source \<Rightarrow> creation_request \<Rightarrow> lodged_claim \<Rightarrow> creation_decision
     \<Rightarrow> evidence_record list \<Rightarrow> creation_operation option \<Rightarrow> datetime \<Rightarrow> creation_store \<Rightarrow> creation_operation" where
  "prepared_operation env source q c d es existing now s =
     \<lparr>co_operation_id = claim_creation_operation_id (wc_claim_id c) (cq_authorised_decision_id q),
      co_claim_id = wc_claim_id c, co_customer_id = wc_customer_id c,
      co_authorised_decision_id = dn_decision_id d, co_authorised_revision = cq_claim_revision q,
      co_request_fingerprint = creation_fingerprint env q,
      co_evidence_snapshot_fingerprint = evidence_snapshot_fingerprint (ce_dump_evidence env) es,
      co_route = expected_route c, co_integration_source = source, co_status = Cop_prepared,
      co_delivery = Creation_not_submitted, co_failure_code = None, co_recovery = None, co_result = None,
      co_history_checks = (case existing of Some p \<Rightarrow> co_history_checks p
        | None \<Rightarrow> Some (ce_lodging_history env s c now)),
      co_created_at = (case existing of Some p \<Rightarrow> co_created_at p | None \<Rightarrow> now),
      co_updated_at = now\<rparr>"

section \<open>Contacting the provider\<close>

definition failed_operation ::
  "creation_operation \<Rightarrow> creation_failure \<Rightarrow> creation_delivery \<Rightarrow> datetime \<Rightarrow> creation_operation" where
  "failed_operation p code delivery now =
     (let (status, recovery) = classify_claim_creation_failure code delivery in
      p\<lparr>co_status := status, co_delivery := delivery, co_failure_code := Some code,
        co_recovery := Some recovery, co_updated_at := now\<rparr>)"

definition retryable_status :: "creation_op_status \<Rightarrow> bool" where
  "retryable_status st \<longleftrightarrow> st \<in> {Cop_retryable_failure, Cop_unknown_outcome}"

definition contact_provider ::
  "creation_env \<Rightarrow> 'w claims_adapter \<Rightarrow> creation_request \<Rightarrow> lodged_claim \<Rightarrow> creation_decision
     \<Rightarrow> creation_operation \<Rightarrow> creation_clock \<Rightarrow> creation_store \<Rightarrow> 'w \<Rightarrow> 'w creation_answer" where
  "contact_provider env adapter q c d p clock s w =
     (case ca_create_claim adapter q (creation_fingerprint env q) w of
        (Inl Adapter_conflict, w1) \<Rightarrow> (Inl Api_idempotency_conflict, s, w1)
      | (Inl Adapter_crash, w1) \<Rightarrow> (Inl Raised_adapter, s, w1)
      | (Inl (Creation_failed code delivery), w1) \<Rightarrow>
          (case save_claim_creation_operation s (failed_operation p code delivery (ck_recorded_at clock)) of
             Inl e \<Rightarrow> (Inl (Raised_repository e), s, w1)
           | Inr s1 \<Rightarrow>
               (Inl (if retryable_status (fst (classify_claim_creation_failure code delivery))
                  then Api_unavailable (Some code) else Api_failed code), s1, w1))
      | (Inr answer, w1) \<Rightarrow>
          (case dict_get (cs_operations s) (co_operation_id p) of
             None \<Rightarrow> (Inl Api_not_restored, s, w1)
           | Some persisted \<Rightarrow> record_and_settle env (ca_integration_source adapter) (Some c)
               (wc_claim_id c) d persisted (oc_result answer) (oc_replayed answer) clock s w1))"

text \<open>
  The handlers around the reservation also catch what the recovery inside the same \<open>try\<close> leaves
  unhandled.
\<close>

fun caught :: "creation_api_error \<Rightarrow> creation_api_error" where
  "caught (Raised_repository e) = revision_or_conflict_error e"
| "caught e = e"

definition recover_reserved ::
  "creation_env \<Rightarrow> 'w claims_adapter \<Rightarrow> creation_request \<Rightarrow> lodged_claim \<Rightarrow> creation_decision
     \<Rightarrow> string \<Rightarrow> creation_clock \<Rightarrow> creation_store \<Rightarrow> 'w \<Rightarrow> 'w creation_answer" where
  "recover_reserved env adapter q c d operation_id clock s w =
     (case (dict_get (cs_operations s) operation_id, dict_get (cs_claims s) (wc_claim_id c)) of
        (Some persisted, Some stored) \<Rightarrow>
          (case recover_claim_creation_operation env adapter q stored d persisted clock s w of
             None \<Rightarrow> (Inl Api_idempotency_conflict, s, w)
           | Some (answer, rest) \<Rightarrow> (map_error caught answer, rest))
      | _ \<Rightarrow> (Inl Api_idempotency_conflict, s, w))"

definition start_claim_creation ::
  "creation_env \<Rightarrow> 'w claims_adapter \<Rightarrow> creation_request \<Rightarrow> lodged_claim \<Rightarrow> creation_decision
     \<Rightarrow> creation_operation option \<Rightarrow> creation_clock \<Rightarrow> creation_store \<Rightarrow> 'w \<Rightarrow> 'w creation_answer" where
  "start_claim_creation env adapter q c d existing clock s w =
     (let es = list_creation_evidence s (cq_working_claim_id q) (wc_customer_id c);
          p = prepared_operation env (ca_integration_source adapter) q c d es existing (ck_reserved_at clock) s in
      case guarded (fresh_start_guards q c @ lodging_guards env q c es)
          (map_error Raised_operation (validate_creation_state p)) of
        Inl e \<Rightarrow> (Inl e, s, w)
      | Inr _ \<Rightarrow> (case reserve_claim_creation_operation (ce_dump_evidence env) s p of
          Inl e \<Rightarrow> (Inl (revision_or_conflict_error e), s, w)
        | Inr (False, s1) \<Rightarrow> recover_reserved env adapter q c d (co_operation_id p) clock s1 w
        | Inr (True, s1) \<Rightarrow> contact_provider env adapter q c d p clock s1 w))"

definition create_external_claim ::
  "creation_env \<Rightarrow> 'w claims_adapter \<Rightarrow> creation_request \<Rightarrow> creation_clock \<Rightarrow> creation_store \<Rightarrow> 'w
     \<Rightarrow> 'w creation_answer" where
  "create_external_claim env adapter q clock s w =
     (case dict_get (cs_claims s) (cq_working_claim_id q) of
        None \<Rightarrow> (Inl Api_claim_not_found, s, w)
      | Some c \<Rightarrow> (case lc_external_result c of
          Some r \<Rightarrow>
            if lc_external_claim_fingerprint c \<noteq> Some (creation_fingerprint env q)
            then (Inl Api_idempotency_conflict, s, w) else (Inr (r, True), s, w)
        | None \<Rightarrow>
            (let existing = dict_get (cs_operations s)
                   (claim_creation_operation_id (wc_claim_id c) (cq_authorised_decision_id q)) in
             case guarded (if existing = None then fresh_start_guards q c else []) (Inr ()) of
               Inl e \<Rightarrow> (Inl e, s, w)
             | Inr _ \<Rightarrow>
                 (case creation_decision_of s (cq_working_claim_id q) (cq_authorised_decision_id q) of
                    None \<Rightarrow> (Inl Api_not_authorised, s, w)
                  | Some d \<Rightarrow>
                      if \<not> decision_authorises q d then (Inl Api_not_authorised, s, w)
                      else (case Option.bind existing (\<lambda>p.
                          recover_claim_creation_operation env adapter q c d p clock s w) of
                        Some answer \<Rightarrow> answer
                      | None \<Rightarrow> start_claim_creation env adapter q c d existing clock s w)))))"

section \<open>The in-memory adapter\<close>

type_synonym mock_world = "(string \<times> string \<times> external_claim_result) list"

definition mock_lookup ::
  "creation_request \<Rightarrow> string \<Rightarrow> mock_world \<Rightarrow> adapter_failure + creation_outcome option" where
  "mock_lookup q fingerprint w = (case dict_get w (cq_working_claim_id q) of
     None \<Rightarrow> Inr None
   | Some (held, r) \<Rightarrow> if held \<noteq> fingerprint then Inl Adapter_conflict
       else Inr (Some \<lparr>oc_result = r, oc_replayed = True\<rparr>))"

text \<open>\<open>now\<close> and \<open>year\<close> are the reading of the clock and its calendar year, written out.\<close>

definition upper_hex :: "string \<Rightarrow> string" where
  "upper_hex s = map (\<lambda>c. if CHR ''a'' \<le> c \<and> c \<le> CHR ''f'' then char_of (of_char c - 32 :: nat) else c) s"

definition mock_result :: "datetime \<Rightarrow> string \<Rightarrow> creation_request \<Rightarrow> external_claim_result" where
  "mock_result now year q =
     (let digest = take 10 (sha256_hexdigest (cq_working_claim_id q)) in
      \<lparr>xc_external_claim_id = Some (''ext_fixture_'' @ digest),
       xc_claim_number = Some (''NWF-'' @ year @ ''-'' @ take 6 (upper_hex digest)),
       xc_creation_status = Result_created, xc_route = cq_route q,
       xc_next_step = ''Claims intake review'', xc_source = Integration_fixture,
       xc_expected_by = Some (dt_add now (24 * 3600 * 1000000)), xc_created_at = now\<rparr>)"

definition mock_claims_adapter :: "datetime \<Rightarrow> string \<Rightarrow> mock_world claims_adapter" where
  "mock_claims_adapter now year =
     \<lparr>ca_integration_source = Integration_fixture,
      ca_create_claim = (\<lambda>q fingerprint w. case mock_lookup q fingerprint w of
          Inl e \<Rightarrow> (Inl e, w)
        | Inr (Some answer) \<Rightarrow> (Inr answer, w)
        | Inr None \<Rightarrow> (Inr \<lparr>oc_result = mock_result now year q, oc_replayed = False\<rparr>,
            dict_put (cq_working_claim_id q) (fingerprint, mock_result now year q) w)),
      ca_reconcile_claim = (\<lambda>q fingerprint w. (mock_lookup q fingerprint w, w))\<rparr>"

end
