(* ===== verification/Creation_Safety.thy ===== *)
theory Creation_Safety
  imports Creation_Service
begin

text \<open>
  What the creation of formal Claims guarantees: sequences of repository calls keep one operation per
  Claim and every recorded result, a service call is such a sequence, and the provider is asked to
  create only when no operation of the Claim may already have had an effect.
\<close>

section \<open>Transitions\<close>

definition creation_progress :: "creation_operation \<Rightarrow> creation_operation \<Rightarrow> bool" where
  "creation_progress p q \<longleftrightarrow> same_creation_identity p q
     \<and> (co_status p \<in> {Cop_accepted, Cop_terminal_failure} \<longrightarrow> q = p)
     \<and> (co_status p = Cop_settlement_pending \<longrightarrow> q = p \<or> co_status q = Cop_accepted)
     \<and> (co_status p = Cop_unknown_outcome \<longrightarrow>
          co_status q \<in> {Cop_unknown_outcome, Cop_settlement_pending, Cop_accepted})"

lemma progress_refl: "creation_progress p p"
  by (simp add: creation_progress_def same_creation_identity_def)

lemma progress_trans: "creation_progress p q \<Longrightarrow> creation_progress q r \<Longrightarrow> creation_progress p r"
  unfolding creation_progress_def same_creation_identity_def by auto

lemma transition_facts:
  assumes "checked_transition p q = Inr ()"
  shows "validate_creation_state q = Inr ()" "same_creation_identity p q"
    "q = p \<or> co_status q \<in> allowed_creation_steps (co_status p)" "creation_progress p q"
proof -
  show valid: "validate_creation_state q = Inr ()" and same: "same_creation_identity p q"
    and step: "q = p \<or> co_status q \<in> allowed_creation_steps (co_status p)"
    using assms by (auto simp: checked_transition_def assert_claim_creation_operation_transition_def
        bind_result_Inr_iff guarded_Inr_iff before_guard_def simp del: guarded.simps)
  show "creation_progress p q"
    using same step by (cases "co_status p") (auto simp: creation_progress_def allowed_creation_steps_def)
qed

text \<open>A retryable failure is one the adapter saw before anything was submitted.\<close>

lemma retryable_not_submitted:
  assumes "validate_creation_state p = Inr ()" "co_status p = Cop_retryable_failure"
  shows "co_delivery p = Creation_not_submitted"
    and "co_failure_code p \<in> {Some Creation_timeout, Some Creation_unavailable}"
proof -
  obtain code recovery where c: "co_failure_code p = Some code" "co_recovery p = Some recovery"
    "classify_claim_creation_failure code (co_delivery p) = (Cop_retryable_failure, recovery)"
    using assms by (auto simp: validate_creation_state_def guarded_Inr_iff outcome_guards_def
        simp del: guarded.simps)
  then show "co_delivery p = Creation_not_submitted"
    "co_failure_code p \<in> {Some Creation_timeout, Some Creation_unavailable}"
    by (cases code; cases "co_delivery p"; simp)+
qed

section \<open>The invariant of the store\<close>

definition settled_by :: "lodged_claim \<Rightarrow> creation_operation \<Rightarrow> bool" where
  "settled_by c p \<longleftrightarrow> co_claim_id p = wc_claim_id c \<and> co_status p = Cop_accepted
     \<and> co_result p = lc_external_result c
     \<and> lc_external_claim_fingerprint c = Some (co_request_fingerprint p)
     \<and> lc_external_claim_source_revision c = Some (co_authorised_revision p)"

definition creation_inv :: "creation_store \<Rightarrow> bool" where
  "creation_inv s \<longleftrightarrow> distinct (map fst (cs_operations s))
     \<and> (\<forall>k p. dict_get (cs_operations s) k = Some p \<longrightarrow> co_operation_id p = k \<and> validate_creation_state p = Inr ())
     \<and> (\<forall>k l p q. dict_get (cs_operations s) k = Some p \<longrightarrow> dict_get (cs_operations s) l = Some q \<longrightarrow>
          co_claim_id p = co_claim_id q \<longrightarrow> k = l)
     \<and> (\<forall>k c. dict_get (cs_claims s) k = Some c \<longrightarrow> wc_claim_id c = k
          \<and> (lc_external_result c \<noteq> None \<longrightarrow>
               (\<exists>l p. dict_get (cs_operations s) l = Some p \<and> settled_by c p)))"

definition creation_grows :: "creation_store \<Rightarrow> creation_store \<Rightarrow> bool" where
  "creation_grows s t \<longleftrightarrow>
     (\<forall>k p. dict_get (cs_operations s) k = Some p \<longrightarrow>
        (\<exists>q. dict_get (cs_operations t) k = Some q \<and> creation_progress p q))
     \<and> (\<forall>k c. dict_get (cs_claims s) k = Some c \<longrightarrow>
        (\<exists>d. dict_get (cs_claims t) k = Some d \<and> wc_revision c \<le> wc_revision d
           \<and> wc_customer_id d = wc_customer_id c
           \<and> (lc_external_result c \<noteq> None \<longrightarrow> lc_external_result d = lc_external_result c
                \<and> lc_external_claim_fingerprint d = lc_external_claim_fingerprint c)))"

lemma inv_operation:
  "creation_inv s \<Longrightarrow> dict_get (cs_operations s) k = Some p \<Longrightarrow> co_operation_id p = k"
  "creation_inv s \<Longrightarrow> dict_get (cs_operations s) k = Some p \<Longrightarrow> validate_creation_state p = Inr ()"
  unfolding creation_inv_def by blast+

lemma inv_one_operation:
  "creation_inv s \<Longrightarrow> dict_get (cs_operations s) k = Some p \<Longrightarrow> dict_get (cs_operations s) l = Some q \<Longrightarrow>
     co_claim_id p = co_claim_id q \<Longrightarrow> k = l"
  unfolding creation_inv_def by blast

lemma inv_claim: "creation_inv s \<Longrightarrow> dict_get (cs_claims s) k = Some c \<Longrightarrow> wc_claim_id c = k"
  unfolding creation_inv_def by blast

lemma inv_settled:
  assumes "creation_inv s" "dict_get (cs_claims s) k = Some c" "lc_external_result c \<noteq> None"
  obtains l p where "dict_get (cs_operations s) l = Some p" "settled_by c p"
  using assms unfolding creation_inv_def by blast

lemma creation_of_claim_iff:
  assumes "creation_inv s"
  shows "creation_of_claim s claim_id = Some p \<longleftrightarrow>
    dict_get (cs_operations s) (co_operation_id p) = Some p \<and> co_claim_id p = claim_id"
proof -
  have keyed: "dict_get (cs_operations s) k = Some q \<Longrightarrow> co_operation_id q = k" for k q
    using inv_operation(1) [OF assms] .
  have listed: "q \<in> set (dict_values (cs_operations s)) \<longleftrightarrow> dict_get (cs_operations s) (co_operation_id q) = Some q" for q
    using dict_value_iff [of "cs_operations s" q] assms keyed by (auto simp: creation_inv_def)
  show ?thesis
  proof
    assume "creation_of_claim s claim_id = Some p"
    then have "p \<in> set (dict_values (cs_operations s)) \<and> co_claim_id p = claim_id"
      unfolding creation_of_claim_def find_Some_iff by (metis nth_mem)
    then show "dict_get (cs_operations s) (co_operation_id p) = Some p \<and> co_claim_id p = claim_id"
      using listed by blast
  next
    assume p: "dict_get (cs_operations s) (co_operation_id p) = Some p \<and> co_claim_id p = claim_id"
    then have "creation_of_claim s claim_id \<noteq> None"
      using listed [of p] by (auto simp: creation_of_claim_def find_None_iff)
    then obtain q where q: "creation_of_claim s claim_id = Some q" by blast
    then have "q \<in> set (dict_values (cs_operations s)) \<and> co_claim_id q = claim_id"
      unfolding creation_of_claim_def find_Some_iff by (metis nth_mem)
    then have q': "dict_get (cs_operations s) (co_operation_id q) = Some q" "co_claim_id q = co_claim_id p"
      using listed [of q] conjunct2 [OF p] by auto
    have "co_operation_id q = co_operation_id p" using inv_one_operation [OF assms q'(1) conjunct1 [OF p] q'(2)] .
    then have "q = p" using q'(1) p by (metis option.inject)
    then show "creation_of_claim s claim_id = Some p" using q by simp
  qed
qed

lemma operation_of_claim_None:
  assumes "creation_inv s" "creation_of_claim s claim_id = None" "dict_get (cs_operations s) k = Some p"
  shows "co_claim_id p \<noteq> claim_id"
  using creation_of_claim_iff [OF assms(1), of claim_id p] inv_operation(1) [OF assms(1,3)] assms(2,3) by auto

section \<open>Repository calls\<close>

datatype creation_call =
    Reserve_creation creation_operation
  | Advance_creation creation_operation
  | Settle_creation lodged_claim int creation_operation evaluation_record
  | Save_lodged_claim lodged_claim int "evaluation_record option"

fun creation_exec ::
  "(evidence_record list \<Rightarrow> string) \<Rightarrow> creation_store \<Rightarrow> creation_call \<Rightarrow> repo_error + creation_store" where
  "creation_exec dump s (Reserve_creation p) = bind_result (reserve_claim_creation_operation dump s p) (\<lambda>r. Inr (snd r))"
| "creation_exec dump s (Advance_creation p) = save_claim_creation_operation s p"
| "creation_exec dump s (Settle_creation c v p r) = save_claim_creation_outcome dump s c v p r"
| "creation_exec dump s (Save_lodged_claim c v r) = save_claim s c v r"

text \<open>
  What the callers guarantee: an operation passed its constructor, a result is settled on the Claim of
  its operation, and other changes of a Claim copy its creation result.
\<close>

fun creation_allowed :: "creation_store \<Rightarrow> creation_call \<Rightarrow> bool" where
  "creation_allowed s (Reserve_creation p) \<longleftrightarrow> validate_creation_state p = Inr ()
     \<and> opt_all (\<lambda>q. co_claim_id q = co_claim_id p) (dict_get (cs_operations s) (co_operation_id p))"
| "creation_allowed s (Advance_creation p) \<longleftrightarrow> True"
| "creation_allowed s (Settle_creation c v p r) \<longleftrightarrow> co_claim_id p = wc_claim_id c"
| "creation_allowed s (Save_lodged_claim c v r) \<longleftrightarrow> opt_all (\<lambda>b.
     lc_external_result c = lc_external_result b
     \<and> lc_external_claim_fingerprint c = lc_external_claim_fingerprint b
     \<and> lc_external_claim_source_revision c = lc_external_claim_source_revision b)
     (dict_get (cs_claims s) (wc_claim_id c))"

lemma publish_facts:
  assumes "publish_claim_changed c k s = Inr t"
  shows "cs_operations t = cs_operations s" "cs_claims t = cs_claims s"
  using assms by (auto simp: publish_claim_changed_def guarded_Inr_iff simp del: guarded.simps)

lemma put_simps [simp]:
  "cs_operations (put_creation p s) = dict_put (co_operation_id p) p (cs_operations s)"
  "cs_claims (put_creation p s) = cs_claims s" "cs_evidence (put_creation p s) = cs_evidence s"
  "cs_operations (put_lodged_claim c r s) = cs_operations s"
  "cs_claims (put_lodged_claim c r s) = dict_put (wc_claim_id c) c (cs_claims s)"
  "cs_evidence (put_lodged_claim c r s) = cs_evidence s"
  by (simp_all add: put_creation_def put_lodged_claim_def)

lemma mutation_facts:
  assumes "validate_lodging_mutation s c v = Inr ()"
  obtains b where "dict_get (cs_claims s) (wc_claim_id c) = Some b" "wc_revision b = v"
    "wc_revision c = v + 1" "wc_customer_id c = wc_customer_id b"
  using assms by (auto simp: validate_lodging_mutation_def guarded_Inr_iff simp del: guarded.simps
      split: if_splits option.splits)

lemma put_operation_step:
  assumes inv: "creation_inv s" and valid: "validate_creation_state p = Inr ()"
    and old: "\<And>q. dict_get (cs_operations s) (co_operation_id p) = Some q \<Longrightarrow> creation_progress q p"
    and new: "dict_get (cs_operations s) (co_operation_id p) = None \<Longrightarrow> creation_of_claim s (co_claim_id p) = None"
  shows "creation_inv (put_creation p s) \<and> creation_grows s (put_creation p s)"
proof
  have same_claim: "co_claim_id q = co_claim_id p"
    if "dict_get (cs_operations s) (co_operation_id p) = Some q" for q
    using old [OF that] by (simp add: creation_progress_def same_creation_identity_def)
  have other: "co_claim_id q \<noteq> co_claim_id p"
    if "dict_get (cs_operations s) k = Some q" "k \<noteq> co_operation_id p" for k q
  proof (cases "dict_get (cs_operations s) (co_operation_id p)")
    case None
    then show ?thesis using operation_of_claim_None [OF inv new that(1)] by simp
  next
    case (Some r)
    then show ?thesis using same_claim [OF Some] inv_one_operation [OF inv that(1) Some] that(2) by auto
  qed
  have kept: "settled_by c q \<Longrightarrow> dict_get (cs_operations s) (co_operation_id p) = Some q \<Longrightarrow> q = p" for c q
    using old [of q] by (auto simp: settled_by_def creation_progress_def)
  show "creation_inv (put_creation p s)"
    unfolding creation_inv_def
  proof (intro conjI allI impI)
    show "distinct (map fst (cs_operations (put_creation p s)))"
      using inv by (simp add: creation_inv_def dict_put_distinct)
    show "co_operation_id q = k" "validate_creation_state q = Inr ()"
      if "dict_get (cs_operations (put_creation p s)) k = Some q" for k q
      using that inv_operation [OF inv] valid by (auto split: if_splits)
    show "k = l" if "dict_get (cs_operations (put_creation p s)) k = Some q"
      "dict_get (cs_operations (put_creation p s)) l = Some r" "co_claim_id q = co_claim_id r" for k l q r
      using that inv_one_operation [OF inv] other by (auto split: if_splits) metis+
    fix k c
    assume c: "dict_get (cs_claims (put_creation p s)) k = Some c"
    then have k: "dict_get (cs_claims s) k = Some c" by simp
    show "wc_claim_id c = k" using inv_claim [OF inv k] .
    assume "lc_external_result c \<noteq> None"
    then obtain l q where "dict_get (cs_operations s) l = Some q" "settled_by c q"
      using inv_settled [OF inv k] by blast
    then show "\<exists>l q. dict_get (cs_operations (put_creation p s)) l = Some q \<and> settled_by c q"
      using kept by (intro exI [of _ l] exI [of _ q]) auto
  qed
  show "creation_grows s (put_creation p s)"
    using old by (auto simp: creation_grows_def progress_refl)
qed

lemma creation_advance_step:
  assumes "creation_inv s" "save_claim_creation_operation s p = Inr t"
  shows "creation_inv t \<and> creation_grows s t"
  using assms put_operation_step [OF assms(1), of p] transition_facts [of _ p]
  by (auto simp: save_claim_creation_operation_def bind_result_Inr_iff split: option.splits)

lemma reserve_step:
  assumes inv: "creation_inv s" and ok: "creation_allowed s (Reserve_creation p)"
    and res: "reserve_claim_creation_operation dump s p = Inr (b, t)"
  shows "creation_inv t \<and> creation_grows s t"
proof (cases "creation_of_claim s (co_claim_id p)")
  case None
  then have "t = put_creation p s" using res by (auto simp: reserve_claim_creation_operation_def split: if_splits)
  moreover have "dict_get (cs_operations s) (co_operation_id p) = None"
    using operation_of_claim_None [OF inv None] ok by (cases "dict_get (cs_operations s) (co_operation_id p)") auto
  ultimately show ?thesis using put_operation_step [OF inv, of p] ok None by simp
next
  case (Some q)
  note q = Some [unfolded creation_of_claim_iff [OF inv]]
  show ?thesis
  proof (cases "co_status q = Cop_retryable_failure")
    case True
    then have "checked_transition q p = Inr ()" "t = put_creation p s" "co_operation_id q = co_operation_id p"
      using res Some by (auto simp: reserve_claim_creation_operation_def bind_result_Inr_iff split: if_splits)
    then show ?thesis using put_operation_step [OF inv, of p] transition_facts [of q p] q by auto
  next
    case False
    then have "t = s" using res Some by (auto simp: reserve_claim_creation_operation_def split: if_splits)
    then show ?thesis using inv by (auto simp: creation_grows_def progress_refl)
  qed
qed

lemma same_tables:
  assumes "cs_operations t = cs_operations s" "cs_claims t = cs_claims s"
  shows "creation_inv t \<longleftrightarrow> creation_inv s" "creation_grows r t \<longleftrightarrow> creation_grows r s"
  unfolding creation_inv_def creation_grows_def assms by blast+

lemma grows_refl: "creation_grows s s"
  by (auto simp: creation_grows_def progress_refl)

lemma grows_trans:
  assumes "creation_grows s t" "creation_grows t u"
  shows "creation_grows s u"
  unfolding creation_grows_def
proof (intro conjI allI impI)
  fix k p
  assume "dict_get (cs_operations s) k = Some p"
  then obtain q where "dict_get (cs_operations t) k = Some q" "creation_progress p q"
    using assms(1) unfolding creation_grows_def by blast
  moreover from this obtain r where "dict_get (cs_operations u) k = Some r" "creation_progress q r"
    using assms(2) unfolding creation_grows_def by blast
  ultimately show "\<exists>r. dict_get (cs_operations u) k = Some r \<and> creation_progress p r"
    using progress_trans by blast
next
  fix k c
  assume "dict_get (cs_claims s) k = Some c"
  then obtain d where d: "dict_get (cs_claims t) k = Some d" "wc_revision c \<le> wc_revision d"
    "wc_customer_id d = wc_customer_id c" "lc_external_result c \<noteq> None \<longrightarrow>
      lc_external_result d = lc_external_result c \<and> lc_external_claim_fingerprint d = lc_external_claim_fingerprint c"
    using assms(1) unfolding creation_grows_def by blast
  moreover obtain e where "dict_get (cs_claims u) k = Some e" "wc_revision d \<le> wc_revision e"
    "wc_customer_id e = wc_customer_id d" "lc_external_result d \<noteq> None \<longrightarrow>
      lc_external_result e = lc_external_result d \<and> lc_external_claim_fingerprint e = lc_external_claim_fingerprint d"
    using assms(2) d(1) unfolding creation_grows_def by blast
  ultimately show "\<exists>e. dict_get (cs_claims u) k = Some e \<and> wc_revision c \<le> wc_revision e
      \<and> wc_customer_id e = wc_customer_id c \<and> (lc_external_result c \<noteq> None \<longrightarrow>
        lc_external_result e = lc_external_result c \<and> lc_external_claim_fingerprint e = lc_external_claim_fingerprint c)"
    by (intro exI [of _ e]) auto
qed

lemma put_claim_step:
  assumes inv: "creation_inv s" and b: "dict_get (cs_claims s) (wc_claim_id c) = Some b"
    and c: "wc_revision b \<le> wc_revision c" "wc_customer_id c = wc_customer_id b"
      "lc_external_result b \<noteq> None \<Longrightarrow> lc_external_result c = lc_external_result b
         \<and> lc_external_claim_fingerprint c = lc_external_claim_fingerprint b"
    and settled: "lc_external_result c \<noteq> None \<Longrightarrow> \<exists>l p. dict_get (cs_operations s) l = Some p \<and> settled_by c p"
  shows "creation_inv (put_lodged_claim c r s) \<and> creation_grows s (put_lodged_claim c r s)"
proof
  show "creation_inv (put_lodged_claim c r s)"
    using inv settled unfolding creation_inv_def put_simps dict_get_put by auto
  show "creation_grows s (put_lodged_claim c r s)"
    using b c unfolding creation_grows_def put_simps dict_get_put by (auto simp: progress_refl)
qed

lemma save_claim_step:
  assumes inv: "creation_inv s" and ok: "creation_allowed s (Save_lodged_claim c v r)"
    and save: "save_claim s c v r = Inr t"
  shows "creation_inv t \<and> creation_grows s t"
proof -
  have valid: "validate_lodging_mutation s c v = Inr ()"
    and t: "publish_claim_changed c None (put_lodged_claim c r s) = Inr t"
    using save by (auto simp: save_claim_def bind_result_Inr_iff)
  obtain b where b: "dict_get (cs_claims s) (wc_claim_id c) = Some b" "wc_revision b = v"
    "wc_revision c = v + 1" "wc_customer_id c = wc_customer_id b"
    using mutation_facts [OF valid] .
  have same: "lc_external_result c = lc_external_result b"
    "lc_external_claim_fingerprint c = lc_external_claim_fingerprint b"
    "lc_external_claim_source_revision c = lc_external_claim_source_revision b"
    using ok b(1) by auto
  have ids: "wc_claim_id b = wc_claim_id c" using inv_claim [OF inv b(1)] .
  have "\<exists>l p. dict_get (cs_operations s) l = Some p \<and> settled_by c p" if ext: "lc_external_result c \<noteq> None"
  proof -
    obtain l p where "dict_get (cs_operations s) l = Some p" "settled_by b p"
      using inv_settled [OF inv b(1)] ext same(1) by metis
    then show ?thesis using same ids by (auto simp: settled_by_def)
  qed
  then have "creation_inv (put_lodged_claim c r s) \<and> creation_grows s (put_lodged_claim c r s)"
    by (intro put_claim_step [OF inv b(1)]) (use b same in auto)
  then show ?thesis using same_tables [OF publish_facts [OF t]] by blast
qed

lemma settle_step:
  assumes inv: "creation_inv s" and ok: "co_claim_id p = wc_claim_id c"
    and save: "save_claim_creation_outcome dump s c v p r = Inr t"
  shows "creation_inv t \<and> creation_grows s t"
proof -
  have valid: "validate_lodging_mutation s c v = Inr ()" and out: "outcome_recorded dump s c p"
    and step: "checked_transition (the (dict_get (cs_operations s) (co_operation_id p))) p = Inr ()"
    and t: "publish_claim_changed c (Some (co_operation_id p)) (put_creation p (put_lodged_claim c (Some r) s)) = Inr t"
    using save by (auto simp: save_claim_creation_outcome_def bind_result_Inr_iff split: if_splits)
  have swap: "put_creation p (put_lodged_claim c (Some r) s) = put_lodged_claim c (Some r) (put_creation p s)"
    by (simp add: put_creation_def put_lodged_claim_def)
  obtain q where q: "dict_get (cs_operations s) (co_operation_id p) = Some q"
    using out by (auto simp: outcome_recorded_def)
  have one: "creation_inv (put_creation p s)" "creation_grows s (put_creation p s)"
    using put_operation_step [OF inv, of p] transition_facts [of q p] step q by auto
  obtain b where b: "dict_get (cs_claims s) (wc_claim_id c) = Some b" "wc_revision b = v"
    "wc_revision c = v + 1" "wc_customer_id c = wc_customer_id b"
    using mutation_facts [OF valid] .
  have p: "settled_by c p" using out ok by (auto simp: outcome_recorded_def settled_by_def)
  have in_store: "dict_get (cs_operations (put_creation p s)) (co_operation_id p) = Some p" by simp
  have "lc_external_result c = lc_external_result b \<and> lc_external_claim_fingerprint c = lc_external_claim_fingerprint b"
    if ext: "lc_external_result b \<noteq> None"
  proof -
    have "dict_get (cs_claims (put_creation p s)) (wc_claim_id c) = Some b" using b(1) by simp
    then obtain l p' where p': "dict_get (cs_operations (put_creation p s)) l = Some p'" "settled_by b p'"
      using inv_settled [OF one(1) _ ext] by metis
    then have "co_claim_id p' = co_claim_id p" using ok inv_claim [OF inv b(1)] by (simp add: settled_by_def)
    then have "l = co_operation_id p" using inv_one_operation [OF one(1) p'(1) in_store] by blast
    then show ?thesis using p' p in_store by (auto simp: settled_by_def)
  qed
  then have "creation_inv (put_lodged_claim c (Some r) (put_creation p s))
      \<and> creation_grows (put_creation p s) (put_lodged_claim c (Some r) (put_creation p s))"
    by (intro put_claim_step [OF one(1), of c b]) (use b p in_store in \<open>auto simp del: put_simps(1)\<close>)
  then show ?thesis
    using one(2) grows_trans same_tables [OF publish_facts [OF t]] unfolding swap by blast
qed

interpretation creation_machine: growing_machine "creation_exec dump" creation_allowed creation_inv creation_grows
  for dump
proof unfold_locales
  fix s t u and call :: creation_call
  show "creation_inv t" "creation_grows s t"
    if "creation_inv s" "creation_allowed s call" "creation_exec dump s call = Inr t"
    using that creation_advance_step [of s _ t] settle_step [of s _ _ dump _ _ t] save_claim_step [of s _ _ _ t]
      reserve_step [of s _ dump _ t]
    by (cases call; auto simp: bind_result_Inr_iff simp del: creation_allowed.simps(1,4))+
  show "creation_grows s s" by (rule grows_refl)
  show "creation_grows s t \<Longrightarrow> creation_grows t u \<Longrightarrow> creation_grows s u" by (rule grows_trans)
qed

section \<open>A service call is a sequence of repository calls\<close>

abbreviation creation_step :: "creation_store \<Rightarrow> creation_store \<Rightarrow> bool" where
  "creation_step s t \<equiv> creation_inv t \<and> creation_grows s t"

lemma step_trans: "creation_step s t \<Longrightarrow> creation_step t u \<Longrightarrow> creation_step s u"
  using grows_trans by blast

lemma step_refl: "creation_inv s \<Longrightarrow> creation_step s s"
  using grows_refl by blast

text \<open>The claim a call is about holds the result it returned, under the fingerprint of its request.\<close>

definition holds_result :: "creation_store \<Rightarrow> string \<Rightarrow> string \<Rightarrow> external_claim_result \<Rightarrow> bool" where
  "holds_result s claim_id fingerprint r \<longleftrightarrow> (\<exists>c. dict_get (cs_claims s) claim_id = Some c
     \<and> lc_external_result c = Some r \<and> lc_external_claim_fingerprint c = Some fingerprint)"

definition sound_answer :: "creation_store \<Rightarrow> string \<Rightarrow> string \<Rightarrow> 'w creation_answer \<Rightarrow> bool" where
  "sound_answer s claim_id fingerprint a \<longleftrightarrow> creation_step s (fst (snd a))
     \<and> (\<forall>r b. fst a = Inr (r, b) \<longrightarrow> holds_result (fst (snd a)) claim_id fingerprint r)"

lemma sound_error: "creation_step s t \<Longrightarrow> sound_answer s k f (Inl e, t, w)"
  by (simp add: sound_answer_def)

lemma sound_map_error:
  "sound_answer s k f (a, t, w) \<Longrightarrow> sound_answer s k f (map_error h a, t, w)"
  by (simp add: sound_answer_def)

lemma sound_after:
  assumes "creation_step s t" "sound_answer t k f a"
  shows "sound_answer s k f a"
  using assms step_trans unfolding sound_answer_def by blast

lemma settled_claim_simps [simp]:
  "wc_claim_id (settled_claim c p r d now) = wc_claim_id c"
  "wc_customer_id (settled_claim c p r d now) = wc_customer_id c"
  "wc_revision (settled_claim c p r d now) = wc_revision c + 1"
  "lc_external_result (settled_claim c p r d now) = Some r"
  "lc_external_claim_fingerprint (settled_claim c p r d now) = Some (co_request_fingerprint p)"
  "lc_external_claim_source_revision (settled_claim c p r d now) = Some (co_authorised_revision p)"
  "wc_terminal_disposition (settled_claim c p r d now) = d"
  by (simp_all add: settled_claim_def Let_def)

lemma operation_update_simps [simp]:
  "co_claim_id (accepted_operation p now) = co_claim_id p"
  "co_operation_id (accepted_operation p now) = co_operation_id p"
  "co_claim_id (recorded_operation p r now) = co_claim_id p"
  "co_operation_id (recorded_operation p r now) = co_operation_id p"
  "co_request_fingerprint (recorded_operation p r now) = co_request_fingerprint p"
  by (simp_all add: accepted_operation_def recorded_operation_def)

lemma outcome_saved:
  assumes "save_claim_creation_outcome dump s c v p e = Inr t"
  shows "dict_get (cs_claims t) (wc_claim_id c) = Some c"
    "dict_get (cs_operations t) (co_operation_id p) = Some p"
  using assms publish_facts by (force simp: save_claim_creation_outcome_def bind_result_Inr_iff split: if_splits)+

lemma settle_saved:
  assumes settle: "settle_recorded_claim_creation env c d p replayed clock s = Inr ((r, b), t)"
  obtains disposition e where "save_claim_creation_outcome (ce_dump_evidence env) s
      (settled_claim c p r disposition (ck_settled_at clock)) (wc_revision c)
      (accepted_operation p (ck_settled_at clock)) e = Inr t"
proof -
  obtain r' where r': "co_result p = Some r'"
    using settle by (cases "co_result p") (simp_all add: settle_recorded_claim_creation_def)
  obtain disposition where "(case creation_evaluation s (settled_claim c p r' disposition (ck_settled_at clock)) clock of
      Inl _ \<Rightarrow> Inl Api_idempotency_conflict
    | Inr e \<Rightarrow> bind_result (map_error revision_or_conflict_error (save_claim_creation_outcome (ce_dump_evidence env) s
        (settled_claim c p r' disposition (ck_settled_at clock)) (wc_revision c)
        (accepted_operation p (ck_settled_at clock)) e)) (\<lambda>t. Inr ((r', replayed), t))) = Inr ((r, b), t)"
    using settle r' by (auto simp: settle_recorded_claim_creation_def guarded_Inr_iff bind_result_Inr_iff Let_def
        simp del: guarded.simps)
  then show thesis
    using that by (cases "creation_evaluation s (settled_claim c p r' disposition (ck_settled_at clock)) clock")
      (auto simp: bind_result_Inr_iff)
qed

lemma settle_sound:
  assumes inv: "creation_inv s" and ids: "co_claim_id p = wc_claim_id c"
    and settle: "settle_recorded_claim_creation env c d p replayed clock s = Inr ((r, b), t)"
  shows "creation_step s t \<and> holds_result t (wc_claim_id c) (co_request_fingerprint p) r"
proof -
  obtain disposition e where save: "save_claim_creation_outcome (ce_dump_evidence env) s
      (settled_claim c p r disposition (ck_settled_at clock)) (wc_revision c)
      (accepted_operation p (ck_settled_at clock)) e = Inr t"
    by (rule settle_saved [OF settle])
  show ?thesis
    using settle_step [OF inv _ save] outcome_saved(1) [OF save] ids by (auto simp: holds_result_def)
qed

lemma record_and_settle_sound:
  assumes inv: "creation_inv s" and p: "co_claim_id p = claim_id" "opt_all (\<lambda>c. wc_claim_id c = claim_id) claim"
  shows "sound_answer s claim_id (co_request_fingerprint p)
    (record_and_settle env source claim claim_id d p r replayed clock s w)"
proof (cases "record_claim_creation_result source p r (ck_recorded_at clock) s")
  case (Inl e)
  then show ?thesis using sound_error [OF step_refl [OF inv]] by (simp add: record_and_settle_def)
next
  case (Inr x)
  then obtain t where x: "x = (recorded_operation p r (ck_recorded_at clock), t)"
    and save: "save_claim_creation_operation s (recorded_operation p r (ck_recorded_at clock)) = Inr t"
    by (auto simp: record_claim_creation_result_def bind_result_Inr_iff)
  note st = creation_advance_step [OF inv save]
  let ?claim = "case claim of None \<Rightarrow> dict_get (cs_claims t) claim_id | Some c \<Rightarrow> Some c"
  show ?thesis
  proof (cases ?claim)
    case None
    then show ?thesis using sound_error [OF st] Inr x by (simp add: record_and_settle_def)
  next
    case (Some c)
    have c: "wc_claim_id c = claim_id"
      using Some p(2) inv_claim [OF conjunct1 [OF st]] by (auto split: option.splits)
    show ?thesis
    proof (cases "settle_recorded_claim_creation env c d (recorded_operation p r (ck_recorded_at clock)) replayed clock t")
      case (Inl e)
      then show ?thesis using sound_error [OF st] Inr x Some by (simp add: record_and_settle_def)
    next
      case settled: (Inr y)
      obtain r' b u where y: "y = ((r', b), u)" by (metis surj_pair)
      have "creation_step t u \<and> holds_result u (wc_claim_id c) (co_request_fingerprint p) r'"
        using settle_sound [OF conjunct1 [OF st] _ settled [unfolded y]] p(1) c by simp
      then show ?thesis
        using Inr x Some settled y c step_trans [OF st, of u] by (simp add: record_and_settle_def sound_answer_def)
    qed
  qed
qed

lemma left_unknown_sound: "creation_inv s \<Longrightarrow> sound_answer s k f (left_unknown p e now s w)"
  using creation_advance_step [of s] step_refl [of s]
  by (auto simp: left_unknown_def intro!: sound_error split: sum.splits)

lemma recover_sound:
  assumes inv: "creation_inv s" and ids: "co_claim_id p = wc_claim_id c"
    and rec: "recover_claim_creation_operation env adapter q c d p clock s w = Some a"
  shows "sound_answer s (wc_claim_id c) (creation_fingerprint env q) a"
proof (cases "co_request_fingerprint p \<noteq> creation_fingerprint env q
    \<or> co_integration_source p \<noteq> ca_integration_source adapter")
  case True
  then show ?thesis using rec sound_error [OF step_refl [OF inv]]
    by (auto simp: recover_claim_creation_operation_def)
next
  case False
  then have f: "co_request_fingerprint p = creation_fingerprint env q" by simp
  let ?settle = "settle_recorded_claim_creation env c d p True clock s"
  have settled: "sound_answer s (wc_claim_id c) (creation_fingerprint env q) (case ?settle of
      Inl e \<Rightarrow> (Inl e, s, w) | Inr (answer, t) \<Rightarrow> (Inr answer, t, w))"
  proof (cases ?settle)
    case (Inl e)
    then show ?thesis using sound_error [OF step_refl [OF inv]] by simp
  next
    case (Inr y)
    obtain r b t where "y = ((r, b), t)" by (metis surj_pair)
    then show ?thesis using settle_sound [OF inv ids] Inr f by (auto simp: sound_answer_def)
  qed
  obtain x w1 where answer: "ca_reconcile_claim adapter q (creation_fingerprint env q) w = (x, w1)" by (metis surj_pair)
  show ?thesis
    using rec False settled answer sound_error [OF step_refl [OF inv]] left_unknown_sound [OF inv]
      record_and_settle_sound [OF inv ids, of None env "ca_integration_source adapter" d] f
    by (auto simp: recover_claim_creation_operation_def split: creation_op_status.splits sum.splits
        adapter_failure.splits option.splits)
qed

lemma contact_sound:
  assumes inv: "creation_inv s" and p: "dict_get (cs_operations s) (co_operation_id p) = Some p"
    "co_claim_id p = wc_claim_id c" "co_request_fingerprint p = creation_fingerprint env q"
  shows "sound_answer s (wc_claim_id c) (creation_fingerprint env q)
    (contact_provider env adapter q c d p clock s w)"
proof -
  obtain x w1 where answer: "ca_create_claim adapter q (creation_fingerprint env q) w = (x, w1)" by (metis surj_pair)
  have failed: "sound_answer s (wc_claim_id c) (creation_fingerprint env q)
      (case save_claim_creation_operation s (failed_operation p code delivery now) of
         Inl e \<Rightarrow> (Inl (Raised_repository e), s, w1) | Inr t \<Rightarrow> (Inl (err t), t, w1))" for code delivery now err
    using creation_advance_step [OF inv] step_refl [OF inv] by (auto intro!: sound_error split: sum.splits)
  have settled: "sound_answer s (wc_claim_id c) (creation_fingerprint env q)
      (record_and_settle env (ca_integration_source adapter) (Some c) (wc_claim_id c) d p r b clock s w1)" for r b
    using record_and_settle_sound [OF inv p(2), of "Some c"] p(3) by simp
  show ?thesis
    using answer p(1) settled sound_error [OF step_refl [OF inv]] failed
    by (auto simp: contact_provider_def split: sum.splits adapter_failure.splits)
qed

lemma recover_reserved_sound:
  assumes inv: "creation_inv s" and free: "opt_all (\<lambda>p. co_claim_id p = wc_claim_id c) (dict_get (cs_operations s) k)"
  shows "sound_answer s (wc_claim_id c) (creation_fingerprint env q)
    (recover_reserved env adapter q c d k clock s w)"
proof (cases "dict_get (cs_operations s) k")
  case None
  then show ?thesis using sound_error [OF step_refl [OF inv]] by (simp add: recover_reserved_def)
next
  case op: (Some p)
  show ?thesis
  proof (cases "dict_get (cs_claims s) (wc_claim_id c)")
    case None
    then show ?thesis using op sound_error [OF step_refl [OF inv]] by (simp add: recover_reserved_def)
  next
    case (Some b)
    have ids: "wc_claim_id b = wc_claim_id c" "co_claim_id p = wc_claim_id b"
      using inv_claim [OF inv Some] free op by simp_all
    show ?thesis
    proof (cases "recover_claim_creation_operation env adapter q b d p clock s w")
      case None
      then show ?thesis using op Some sound_error [OF step_refl [OF inv]] by (simp add: recover_reserved_def)
    next
      case rec: (Some a)
      obtain x t u where a: "a = (x, t, u)" by (metis surj_pair)
      show ?thesis
        using recover_sound [OF inv ids(2) rec] rec op Some ids(1) sound_map_error
        by (simp add: recover_reserved_def a)
    qed
  qed
qed

lemma prepared_simps [simp]:
  "co_operation_id (prepared_operation env src q c d es e now s) =
     claim_creation_operation_id (wc_claim_id c) (cq_authorised_decision_id q)"
  "co_claim_id (prepared_operation env src q c d es e now s) = wc_claim_id c"
  "co_request_fingerprint (prepared_operation env src q c d es e now s) = creation_fingerprint env q"
  "co_status (prepared_operation env src q c d es e now s) = Cop_prepared"
  by (simp_all add: prepared_operation_def)

lemma reserved_operation:
  assumes "reserve_claim_creation_operation dump s p = Inr (b, t)"
  shows "if b then t = put_creation p s else t = s"
  using assms by (auto simp: reserve_claim_creation_operation_def bind_result_Inr_iff
      split: if_splits option.splits)

text \<open>The digest that names an operation has not been given to an operation of another Claim.\<close>

definition identity_free :: "creation_store \<Rightarrow> creation_request \<Rightarrow> bool" where
  "identity_free s q \<longleftrightarrow> opt_all (\<lambda>p. co_claim_id p = cq_working_claim_id q)
     (dict_get (cs_operations s)
       (claim_creation_operation_id (cq_working_claim_id q) (cq_authorised_decision_id q)))"

lemma start_sound:
  assumes inv: "creation_inv s" and free: "identity_free s q" and c: "wc_claim_id c = cq_working_claim_id q"
  shows "sound_answer s (wc_claim_id c) (creation_fingerprint env q)
    (start_claim_creation env adapter q c d existing clock s w)"
proof -
  let ?es = "list_creation_evidence s (cq_working_claim_id q) (wc_customer_id c)"
  let ?p = "prepared_operation env (ca_integration_source adapter) q c d ?es existing (ck_reserved_at clock) s"
  let ?ok = "guarded (fresh_start_guards q c @ lodging_guards env q c ?es)
      (map_error Raised_operation (validate_creation_state ?p))"
  note refused = sound_error [OF step_refl [OF inv]]
  show ?thesis
  proof (cases ?ok)
    case (Inl e)
    then show ?thesis using refused unfolding start_claim_creation_def Let_def by simp
  next
    case ok: (Inr u)
    then have valid: "validate_creation_state ?p = Inr ()" by (simp add: guarded_Inr_iff del: guarded.simps)
    show ?thesis
    proof (cases "reserve_claim_creation_operation (ce_dump_evidence env) s ?p")
      case (Inl e)
      then show ?thesis using ok refused unfolding start_claim_creation_def Let_def by simp
    next
      case (Inr y)
      then obtain b t where y: "reserve_claim_creation_operation (ce_dump_evidence env) s ?p = Inr (b, t)"
        "y = (b, t)" by (metis surj_pair)
      have allowed: "creation_allowed s (Reserve_creation ?p)"
        using valid free c by (simp add: identity_free_def)
      note st = reserve_step [OF inv allowed y(1)]
      show ?thesis
      proof (cases b)
        case True
        then have t: "t = put_creation ?p s" using reserved_operation [OF y(1)] by simp
        have "sound_answer t (wc_claim_id c) (creation_fingerprint env q)
            (contact_provider env adapter q c d ?p clock t w)"
          by (rule contact_sound) (use st t in simp_all)
        then show ?thesis
          using sound_after [OF st] ok y True unfolding start_claim_creation_def Let_def by simp
      next
        case False
        then have t: "t = s" using reserved_operation [OF y(1)] by simp
        show ?thesis
          using recover_reserved_sound [OF inv, of c] free c ok y False t
          unfolding start_claim_creation_def Let_def identity_free_def by simp
      qed
    qed
  qed
qed

theorem create_sound:
  assumes inv: "creation_inv s" and free: "identity_free s q"
  shows "sound_answer s (cq_working_claim_id q) (creation_fingerprint env q)
    (create_external_claim env adapter q clock s w)"
proof (cases "dict_get (cs_claims s) (cq_working_claim_id q)")
  case None
  then show ?thesis using sound_error [OF step_refl [OF inv]] by (simp add: create_external_claim_def)
next
  case (Some c)
  note c = inv_claim [OF inv Some]
  note refused = sound_error [OF step_refl [OF inv]]
  have held: "sound_answer s (cq_working_claim_id q) (creation_fingerprint env q) (Inr (r, True), s, w)"
    if "lc_external_result c = Some r" "lc_external_claim_fingerprint c = Some (creation_fingerprint env q)" for r
    using that Some step_refl [OF inv] by (simp add: sound_answer_def holds_result_def)
  have recovered: "sound_answer s (cq_working_claim_id q) (creation_fingerprint env q) a"
    if "dict_get (cs_operations s) (claim_creation_operation_id (wc_claim_id c) (cq_authorised_decision_id q)) = Some p"
      "recover_claim_creation_operation env adapter q c d p clock s w = Some a" for p d a
    using recover_sound [OF inv _ that(2)] that(1) free c by (simp add: identity_free_def)
  show ?thesis
    using Some held recovered refused start_sound [OF inv free c] c
    unfolding create_external_claim_def
    by (auto simp: Let_def split: option.splits sum.splits if_splits bind_splits)
qed

section \<open>When the provider is asked to create\<close>

text \<open>A call asks the provider to create when its outcome depends on the adapter's answer.\<close>

definition asks_to_create ::
  "creation_env \<Rightarrow> 'w claims_adapter \<Rightarrow> creation_request \<Rightarrow> creation_clock \<Rightarrow> creation_store \<Rightarrow> 'w \<Rightarrow> bool" where
  "asks_to_create env adapter q clock s w \<longleftrightarrow> (\<exists>f. create_external_claim env (adapter\<lparr>ca_create_claim := f\<rparr>) q clock s w
     \<noteq> create_external_claim env adapter q clock s w)"

lemma recovery_never_creates [simp]:
  "recover_claim_creation_operation env (adapter\<lparr>ca_create_claim := f\<rparr>) = recover_claim_creation_operation env adapter"
  "recover_reserved env (adapter\<lparr>ca_create_claim := f\<rparr>) = recover_reserved env adapter"
proof -
  have same: "ca_reconcile_claim (adapter\<lparr>ca_create_claim := f\<rparr>) = ca_reconcile_claim adapter"
    "ca_integration_source (adapter\<lparr>ca_create_claim := f\<rparr>) = ca_integration_source adapter" by simp_all
  show recover: "recover_claim_creation_operation env (adapter\<lparr>ca_create_claim := f\<rparr>)
      = recover_claim_creation_operation env adapter"
    by (intro ext) (simp only: recover_claim_creation_operation_def same)
  show "recover_reserved env (adapter\<lparr>ca_create_claim := f\<rparr>) = recover_reserved env adapter"
    by (intro ext) (simp only: recover_reserved_def recover)
qed

lemma start_asks:
  assumes "start_claim_creation env (adapter\<lparr>ca_create_claim := f\<rparr>) q c d e clock s w
    \<noteq> start_claim_creation env adapter q c d e clock s w"
  obtains p where "reserve_claim_creation_operation (ce_dump_evidence env) s p = Inr (True, put_creation p s)"
    "co_claim_id p = wc_claim_id c" "co_request_fingerprint p = creation_fingerprint env q"
    "co_status p = Cop_prepared" "validate_creation_state p = Inr ()"
    "co_operation_id p = claim_creation_operation_id (wc_claim_id c) (cq_authorised_decision_id q)"
    "start_claim_creation env adapter q c d e clock s w = contact_provider env adapter q c d p clock (put_creation p s) w"
proof -
  let ?es = "list_creation_evidence s (cq_working_claim_id q) (wc_customer_id c)"
  let ?p = "prepared_operation env (ca_integration_source adapter) q c d ?es e (ck_reserved_at clock) s"
  let ?ok = "guarded (fresh_start_guards q c @ lodging_guards env q c ?es)
      (map_error Raised_operation (validate_creation_state ?p))"
  obtain u where ok: "?ok = Inr u" using assms unfolding start_claim_creation_def Let_def by (cases ?ok) simp_all
  obtain b t where res: "reserve_claim_creation_operation (ce_dump_evidence env) s ?p = Inr (b, t)"
    using assms ok unfolding start_claim_creation_def Let_def
    by (cases "reserve_claim_creation_operation (ce_dump_evidence env) s ?p") auto
  have b: b using assms ok res unfolding start_claim_creation_def Let_def by (cases b) simp_all
  then have t: "t = put_creation ?p s" using reserved_operation [OF res] by simp
  have "start_claim_creation env adapter q c d e clock s w = contact_provider env adapter q c d ?p clock (put_creation ?p s) w"
    unfolding start_claim_creation_def Let_def ok res using b t by simp
  moreover have "validate_creation_state ?p = Inr ()" using ok by (simp add: guarded_Inr_iff del: guarded.simps)
  ultimately show thesis using that [of ?p] res b t by simp
qed

lemma create_asks:
  assumes inv: "creation_inv s"
    and asks: "create_external_claim env (adapter\<lparr>ca_create_claim := f\<rparr>) q clock s w
      \<noteq> create_external_claim env adapter q clock s w"
  obtains c d p where "dict_get (cs_claims s) (cq_working_claim_id q) = Some c" "wc_claim_id c = cq_working_claim_id q"
    "reserve_claim_creation_operation (ce_dump_evidence env) s p = Inr (True, put_creation p s)"
    "co_claim_id p = wc_claim_id c" "co_request_fingerprint p = creation_fingerprint env q"
    "co_status p = Cop_prepared" "validate_creation_state p = Inr ()"
    "co_operation_id p = claim_creation_operation_id (wc_claim_id c) (cq_authorised_decision_id q)"
    "create_external_claim env adapter q clock s w = contact_provider env adapter q c d p clock (put_creation p s) w"
proof -
  obtain c where c: "dict_get (cs_claims s) (cq_working_claim_id q) = Some c"
    using asks by (cases "dict_get (cs_claims s) (cq_working_claim_id q)") (simp_all add: create_external_claim_def)
  let ?e = "dict_get (cs_operations s) (claim_creation_operation_id (wc_claim_id c) (cq_authorised_decision_id q))"
  obtain d where d: "create_external_claim env adapter q clock s w = start_claim_creation env adapter q c d ?e clock s w"
    "start_claim_creation env (adapter\<lparr>ca_create_claim := f\<rparr>) q c d ?e clock s w
      \<noteq> start_claim_creation env adapter q c d ?e clock s w"
    using asks c unfolding create_external_claim_def
    by (auto simp: Let_def split: option.splits sum.splits if_splits bind_splits)
  show thesis
    by (rule start_asks [OF d(2)]) (rule that, use c d(1) inv_claim [OF inv c] in auto)
qed

lemma asked_only_when_safe:
  assumes "creation_inv s" "asks_to_create env adapter q clock s w"
    "creation_of_claim s (cq_working_claim_id q) = Some p"
  shows "co_status p = Cop_retryable_failure"
proof -
  obtain f where "create_external_claim env (adapter\<lparr>ca_create_claim := f\<rparr>) q clock s w
      \<noteq> create_external_claim env adapter q clock s w"
    using assms(2) by (auto simp: asks_to_create_def)
  then obtain p' where "reserve_claim_creation_operation (ce_dump_evidence env) s p' = Inr (True, put_creation p' s)"
    "co_claim_id p' = cq_working_claim_id q"
    by (rule create_asks [OF assms(1)]) auto
  then show ?thesis
    using assms(3) by (auto simp: reserve_claim_creation_operation_def bind_result_Inr_iff split: if_splits)
qed

section \<open>What a request to the provider leaves behind\<close>

lemma saved_operation:
  "save_claim_creation_operation s p = Inr t \<Longrightarrow> t = put_creation p s \<and> validate_creation_state p = Inr ()"
  using transition_facts(1) by (auto simp: save_claim_creation_operation_def bind_result_Inr_iff split: option.splits)

lemma settle_statuses:
  assumes "settle_recorded_claim_creation env c d p replayed clock s = Inr (a, t)"
    "dict_get (cs_operations t) (co_operation_id p) = Some x"
  shows "co_status x = Cop_accepted"
proof -
  obtain r b where "a = (r, b)" by (metis surj_pair)
  then obtain c' e v where "save_claim_creation_outcome (ce_dump_evidence env) s c' v
      (accepted_operation p (ck_settled_at clock)) e = Inr t"
    using settle_saved assms(1) by metis
  then show ?thesis using outcome_saved(2) assms(2) by (force simp: accepted_operation_def)
qed

lemma record_and_settle_statuses:
  assumes "dict_get (cs_operations s) (co_operation_id p) = Some p"
    "record_and_settle env source claim k d p r replayed clock s w = (a, t, w')"
    "dict_get (cs_operations t) (co_operation_id p) = Some x"
  shows "x = p \<or> co_status x \<in> {Cop_settlement_pending, Cop_accepted}"
proof (cases "record_claim_creation_result source p r (ck_recorded_at clock) s")
  case (Inl e)
  then show ?thesis using assms by (simp add: record_and_settle_def)
next
  case (Inr y)
  let ?r = "recorded_operation p r (ck_recorded_at clock)"
  obtain t1 where y: "y = (?r, t1)" "save_claim_creation_operation s ?r = Inr t1"
    using Inr by (auto simp: record_claim_creation_result_def bind_result_Inr_iff)
  then have t1: "dict_get (cs_operations t1) (co_operation_id p) = Some ?r" using saved_operation by fastforce
  have status: "co_status ?r = Cop_settlement_pending" by (simp add: recorded_operation_def)
  consider "t = t1" | c b where "settle_recorded_claim_creation env c d ?r replayed clock t1 = Inr (b, t)"
    using assms(2) Inr y(1) by (auto simp: record_and_settle_def split: option.splits sum.splits prod.splits)
  then show ?thesis
  proof cases
    case 1
    then show ?thesis using t1 assms(3) status by simp
  next
    case 2
    then show ?thesis using settle_statuses [OF 2, of x] assms(3) by simp
  qed
qed

lemma contact_statuses:
  assumes "dict_get (cs_operations s) (co_operation_id p) = Some p" "co_status p = Cop_prepared"
    "contact_provider env adapter q c d p clock s w = (a, t, w')"
    "dict_get (cs_operations t) (co_operation_id p) = Some x" "co_status x = Cop_retryable_failure"
  shows "\<exists>code w1. ca_create_claim adapter q (creation_fingerprint env q) w
    = (Inl (Creation_failed code Creation_not_submitted), w1)"
proof -
  obtain y w1 where y: "ca_create_claim adapter q (creation_fingerprint env q) w = (y, w1)" by (metis surj_pair)
  show ?thesis
  proof (cases y)
    case (Inr answer)
    then have "record_and_settle env (ca_integration_source adapter) (Some c) (wc_claim_id c) d p
        (oc_result answer) (oc_replayed answer) clock s w1 = (a, t, w')"
      using assms(1,3) y by (simp add: contact_provider_def)
    then show ?thesis using record_and_settle_statuses [OF assms(1) _ assms(4)] assms(2,5) by fastforce
  next
    case (Inl e)
    show ?thesis
    proof (cases e)
      case (Creation_failed code delivery)
      let ?p = "failed_operation p code delivery (ck_recorded_at clock)"
      have ids: "co_operation_id ?p = co_operation_id p" "co_delivery ?p = delivery"
        by (simp_all add: failed_operation_def split: prod.splits)
      have "x = ?p \<and> validate_creation_state ?p = Inr ()"
        using assms y Inl Creation_failed saved_operation [of s ?p] ids(1)
        by (auto simp: contact_provider_def split: sum.splits)
      then show ?thesis using retryable_not_submitted(1) assms(5) ids(2) y Inl Creation_failed by auto
    qed (use assms y Inl in \<open>auto simp: contact_provider_def\<close>)
  qed
qed

section \<open>Later calls\<close>

definition reports_unsent :: "creation_call \<Rightarrow> bool" where
  "reports_unsent call \<longleftrightarrow> (case call of Advance_creation p \<Rightarrow>
       co_failure_code p \<noteq> None \<and> co_delivery p = Creation_not_submitted | _ \<Rightarrow> False)"

lemma exec_writes:
  assumes "creation_exec dump s call = Inr t" "dict_get (cs_operations t) i = Some x"
    "co_status x = Cop_retryable_failure"
  shows "dict_get (cs_operations s) i = Some x \<or> reports_unsent call"
proof (cases call)
  case (Reserve_creation p)
  then show ?thesis
    using assms reserved_operation [of dump s p]
    by (auto simp: bind_result_Inr_iff reserve_claim_creation_operation_def reservation_authorised_def split: if_splits)
next
  case (Advance_creation p)
  then have t: "t = put_creation p s" "validate_creation_state p = Inr ()" using assms(1) saved_operation by auto
  then show ?thesis
    using assms(2,3) retryable_not_submitted [of p] Advance_creation by (auto simp: reports_unsent_def split: if_splits)
next
  case (Settle_creation c v p r)
  then have "outcome_recorded dump s c p" "cs_operations t = dict_put (co_operation_id p) p (cs_operations s)"
    using assms(1) publish_facts(1) by (fastforce simp: save_claim_creation_outcome_def bind_result_Inr_iff split: if_splits)+
  then show ?thesis using assms(2,3) by (auto simp: outcome_recorded_def split: if_splits)
next
  case (Save_lodged_claim c v r)
  then show ?thesis using assms publish_facts(1) by (fastforce simp: save_claim_def bind_result_Inr_iff)
qed

lemma grows_creation_of_claim:
  assumes "creation_inv s" "creation_inv t" "creation_grows s t" "creation_of_claim s k = Some p"
  obtains x where "creation_of_claim t k = Some x" "co_operation_id x = co_operation_id p" "creation_progress p x"
proof -
  have p: "dict_get (cs_operations s) (co_operation_id p) = Some p" "co_claim_id p = k"
    using assms(4) creation_of_claim_iff [OF assms(1)] by blast+
  then obtain x where x: "dict_get (cs_operations t) (co_operation_id p) = Some x" "creation_progress p x"
    using assms(3) unfolding creation_grows_def by blast
  have "co_operation_id x = co_operation_id p" using inv_operation(1) [OF assms(2) x(1)] .
  moreover have "co_claim_id x = k" using x(2) p(2) by (simp add: creation_progress_def same_creation_identity_def)
  ultimately show thesis using that x creation_of_claim_iff [OF assms(2), of k x] by simp
qed

lemma not_retryable_kept:
  assumes "creation_inv s" "admissible creation_allowed (creation_exec dump) s calls"
    "list_all (\<lambda>call. \<not> reports_unsent call) calls"
    "creation_of_claim s k = Some p" "co_status p \<noteq> Cop_retryable_failure"
  shows "\<exists>x. creation_of_claim (run (creation_exec dump) s calls) k = Some x \<and> co_status x \<noteq> Cop_retryable_failure"
  using assms
proof (induction calls arbitrary: s p)
  case (Cons call calls)
  let ?t = "commit (creation_exec dump) s call"
  have inv: "creation_inv ?t" and grows: "creation_grows s ?t"
    using creation_machine.commit_inv [OF Cons.prems(1)] creation_machine.commit_grows [OF Cons.prems(1)]
      Cons.prems(2) by auto
  obtain x where x: "creation_of_claim ?t k = Some x" "co_operation_id x = co_operation_id p"
    using grows_creation_of_claim [OF Cons.prems(1) inv grows Cons.prems(4)] by blast
  have stored: "dict_get (cs_operations ?t) (co_operation_id p) = Some x"
    "dict_get (cs_operations s) (co_operation_id p) = Some p"
    using x creation_of_claim_iff [OF inv] Cons.prems(4) creation_of_claim_iff [OF Cons.prems(1)] by metis+
  have "co_status x \<noteq> Cop_retryable_failure"
  proof (rule commit_cases [of "creation_exec dump" s call])
    assume "creation_exec dump s call = Inr ?t"
    then show ?thesis using exec_writes [of dump s call ?t "co_operation_id p" x] stored Cons.prems(3,5) by auto
  next
    assume "?t = s"
    then show ?thesis using stored Cons.prems(5) by simp
  qed
  then show ?case using Cons.IH [OF inv _ _ x(1)] Cons.prems(2,3) by simp
qed simp

end
