(* ===== verification/Creation_Liveness.thy ===== *)
theory Creation_Liveness
  imports Creation_Safety Branch_Safety
begin

text \<open>
  When Claim creation succeeds: an authorised, current request with an answering provider settles the
  Claim in one call; a request whose answer was lost is settled by reconciliation, on the Claim as it is
  by then; and a recorded result whose evidence snapshot has changed since can no longer be settled.
\<close>

section \<open>Times and evaluations\<close>

abbreviation not_before :: "datetime \<Rightarrow> datetime \<Rightarrow> bool" where
  "not_before b a \<equiv> \<not> incomparable b a \<and> \<not> dt_before b a"

lemma not_before_trans: "not_before c b \<Longrightarrow> not_before b a \<Longrightarrow> not_before c a"
  by (cases a; cases b; cases c) (auto simp: incomparable_def dt_before_def)

lemma creation_evaluation_total:
  obtains e where "creation_evaluation s c clock = Inr e" "fr_claim_id e = wc_claim_id c"
    "fe_evaluated_against_claim_revision (fr_evaluation e) = wc_revision c"
    "fr_resulting_claim_revision e = Some (wc_revision c)" "fr_evaluation_id e = ck_evaluation_id clock"
proof -
  have "\<exists>e. creation_evaluation s c clock = Inr e \<and> fr_claim_id e = wc_claim_id c
    \<and> fe_evaluated_against_claim_revision (fr_evaluation e) = wc_revision c
    \<and> fr_resulting_claim_revision e = Some (wc_revision c) \<and> fr_evaluation_id e = ck_evaluation_id clock"
    unfolding creation_evaluation_def build_applied_branch_evaluation_def
    by (simp add: evaluate_standard [OF default_standard] intake_claim.truncate_def)
  then show thesis using that by blast
qed

section \<open>Transitions\<close>

lemma validate_creation_iff:
  "validate_creation_state p = Inr () \<longleftrightarrow> creation_fields_ok p
     \<and> not_before (co_updated_at p) (co_created_at p) \<and> passes (outcome_guards p)"
  by (auto simp: validate_creation_state_def guarded_Inr_iff before_guard_def simp del: guarded.simps)

lemma recorded_transition:
  assumes "validate_creation_state p = Inr ()" "co_status p \<in> {Cop_prepared, Cop_unknown_outcome}"
    "result_matches p r" "not_before now (co_updated_at p)"
  shows "checked_transition p (recorded_operation p r now) = Inr ()"
proof -
  have "not_before now (co_created_at p)"
    using assms(1,4) not_before_trans unfolding validate_creation_iff by blast
  then have "validate_creation_state (recorded_operation p r now) = Inr ()"
    using assms(1,3) unfolding validate_creation_iff
    by (simp add: recorded_operation_def creation_fields_ok_def outcome_guards_def recorded_recovery_def
        result_matches_def)
  then show ?thesis
    using assms(2,4)
    by (auto simp: checked_transition_def assert_claim_creation_operation_transition_def guarded_Inr_iff
        before_guard_def recorded_operation_def same_creation_identity_def allowed_creation_steps_def
        simp del: guarded.simps)
qed

lemma accepted_transition:
  assumes "validate_creation_state p = Inr ()" "co_status p = Cop_settlement_pending"
    "not_before now (co_updated_at p)"
  shows "checked_transition p (accepted_operation p now) = Inr ()"
proof -
  have "not_before now (co_created_at p)"
    using assms(1,3) not_before_trans unfolding validate_creation_iff by blast
  then have "validate_creation_state (accepted_operation p now) = Inr ()"
    using assms(1,2) unfolding validate_creation_iff
    by (simp add: accepted_operation_def creation_fields_ok_def outcome_guards_def recorded_recovery_def
        result_matches_def)
  then show ?thesis
    using assms(2,3)
    by (auto simp: checked_transition_def assert_claim_creation_operation_transition_def guarded_Inr_iff
        before_guard_def accepted_operation_def same_creation_identity_def allowed_creation_steps_def
        simp del: guarded.simps)
qed

section \<open>Settlement\<close>

text \<open>What the Claim looks like once a result has settled on it.\<close>

definition lodged_as ::
  "lodged_claim \<Rightarrow> creation_decision \<Rightarrow> external_claim_result \<Rightarrow> lodged_claim \<Rightarrow> bool" where
  "lodged_as c d r c' \<longleftrightarrow> wc_claim_id c' = wc_claim_id c \<and> wc_customer_id c' = wc_customer_id c
     \<and> wc_revision c' = wc_revision c + 1 \<and> lc_external_result c' = Some r
     \<and> (if xc_creation_status r = Result_created
        then wc_workflow_state c' = Workflow_created
          \<and> (\<exists>t. wc_terminal_disposition c' = Some t \<and> td_value t = Terminal_completed
               \<and> td_reason_code t = Reason_claim_created \<and> td_recorded_revision t = wc_revision c'
               \<and> (\<exists>ref. external_claim_ref r = Some ref \<and> td_source_refs t = [dn_decision_id d, ref]))
        else wc_workflow_state c' = wc_workflow_state c \<and> wc_terminal_disposition c' = None)"

definition referenced :: "external_claim_result \<Rightarrow> creation_decision \<Rightarrow> bool" where
  "referenced r d \<longleftrightarrow> (xc_creation_status r = Result_created \<longrightarrow>
     external_claim_ref r \<noteq> None \<and> external_claim_ref r \<noteq> Some (dn_decision_id d))"

definition settleable :: "creation_env \<Rightarrow> creation_store \<Rightarrow> lodged_claim \<Rightarrow> creation_operation \<Rightarrow> creation_clock \<Rightarrow> bool" where
  "settleable env s c p clock \<longleftrightarrow> dict_get (cs_claims s) (wc_claim_id c) = Some c
     \<and> lc_external_result c = None \<and> wc_terminal_disposition c = None \<and> 0 \<le> wc_revision c
     \<and> \<not> creation_access_closed s (wc_claim_id c)
     \<and> dict_get (cs_evaluations s) (ck_evaluation_id clock) = None
     \<and> evidence_snapshot_fingerprint (ce_dump_evidence env) (evidence_of s (wc_claim_id c))
         = co_evidence_snapshot_fingerprint p
     \<and> \<not> is_naive (ck_settled_at clock) \<and> not_before (ck_settled_at clock) (ck_recorded_at clock)"

lemma disposition_of:
  assumes "referenced r d" "\<not> is_naive now" "1 \<le> v"
  obtains t where "creation_disposition d r now v = Inr t"
    "if xc_creation_status r = Result_created then \<exists>x. t = Some x \<and> td_value x = Terminal_completed
       \<and> td_reason_code x = Reason_claim_created \<and> td_recorded_revision x = v
       \<and> (\<exists>ref. external_claim_ref r = Some ref \<and> td_source_refs x = [dn_decision_id d, ref]) else t = None"
proof (cases "xc_creation_status r = Result_created")
  case True
  then obtain ref where ref: "external_claim_ref r = Some ref" "ref \<noteq> dn_decision_id d"
    using assms(1) by (auto simp: referenced_def)
  then have "validate_terminal_reason (completed_disposition d ref now v) = Inr (completed_disposition d ref now v)"
    using assms(2,3) by (auto simp: validate_terminal_reason_def completed_disposition_def allowed_terminal_reasons_def)
  then show ?thesis using that True ref by (simp add: creation_disposition_def completed_disposition_def)
next
  case False
  then show ?thesis using that by (cases "xc_creation_status r") (simp_all add: creation_disposition_def)
qed

lemma settle_completes:
  assumes ready: "settleable env s c p clock" and p: "dict_get (cs_operations s) (co_operation_id p) = Some p"
      "validate_creation_state p = Inr ()" "co_status p = Cop_settlement_pending" "co_result p = Some r"
      "co_updated_at p = ck_recorded_at clock"
    and d: "referenced r d"
  shows "\<exists>t c'. settle_recorded_claim_creation env c d p replayed clock s = Inr ((r, replayed), t)
    \<and> dict_get (cs_claims t) (wc_claim_id c) = Some c' \<and> lodged_as c d r c'
    \<and> dict_get (cs_operations t) (co_operation_id p) = Some (accepted_operation p (ck_settled_at clock))"
proof -
  note ready = ready [unfolded settleable_def]
  let ?now = "ck_settled_at clock"
  obtain t where t: "creation_disposition d r ?now (wc_revision c + 1) = Inr t"
    "if xc_creation_status r = Result_created then \<exists>x. t = Some x \<and> td_value x = Terminal_completed
       \<and> td_reason_code x = Reason_claim_created \<and> td_recorded_revision x = wc_revision c + 1
       \<and> (\<exists>ref. external_claim_ref r = Some ref \<and> td_source_refs x = [dn_decision_id d, ref]) else t = None"
    using disposition_of [OF d, of ?now "wc_revision c + 1"] ready by auto
  let ?c = "settled_claim c p r t ?now" and ?p = "accepted_operation p ?now"
  obtain e where e: "creation_evaluation s ?c clock = Inr e" "fr_claim_id e = wc_claim_id ?c"
    "fe_evaluated_against_claim_revision (fr_evaluation e) = wc_revision ?c"
    "fr_resulting_claim_revision e = Some (wc_revision ?c)" "fr_evaluation_id e = ck_evaluation_id clock"
    by (rule creation_evaluation_total)
  have same: "wc_active_session_id ?c = wc_active_session_id c" "wc_claim_decision_id ?c = wc_claim_decision_id c"
    "wc_workflow_state ?c = (if xc_creation_status r = Result_created then Workflow_created else wc_workflow_state c)"
    by (simp_all add: settled_claim_def Let_def)
  have valid: "validate_lodging_mutation s ?c (wc_revision c) = Inr ()"
    using ready same by (simp add: validate_lodging_mutation_def)
  have evaluation: "validate_stored_evaluation s ?c e = Inr ()"
    using ready e(2-5) by (simp add: validate_stored_evaluation_def)
  have recorded: "outcome_recorded (ce_dump_evidence env) s ?c ?p"
    using ready p(1,4) by (simp add: outcome_recorded_def) (simp add: accepted_operation_def)
  have step: "checked_transition p ?p = Inr ()"
    using accepted_transition [OF p(2,3), of ?now] ready p(5) by simp
  have "publish_claim_changed ?c (Some (co_operation_id p)) u = Inr (u\<lparr>cs_realtime_events := cs_realtime_events u @
          [\<lparr>ry_sequence = cs_realtime_sequence u + 1, ry_mutation = ''claim_changed'',
            ry_claim_id = wc_claim_id ?c, ry_customer_id = wc_customer_id ?c,
            ry_claim_revision = wc_revision ?c, ry_operation_correlation = Some (co_operation_id p)\<rparr>],
        cs_realtime_sequence := cs_realtime_sequence u + 1\<rparr>)" for u
    using p(2) ready by (auto simp: publish_claim_changed_def validate_creation_iff creation_fields_ok_def bounded_text_def)
  then obtain u where u: "save_claim_creation_outcome (ce_dump_evidence env) s ?c (wc_revision c) ?p e = Inr u"
    using valid evaluation recorded step p(1) by (simp add: save_claim_creation_outcome_def)
  have "settle_recorded_claim_creation env c d p replayed clock s = Inr ((r, replayed), u)"
    using p(3,4) ready t(1) e(1) u by (simp add: settle_recorded_claim_creation_def Let_def)
  moreover have "lodged_as c d r ?c" using t(2) same(3) by (auto simp: lodged_as_def split: if_splits)
  ultimately show ?thesis using outcome_saved [OF u] by auto
qed

lemma record_and_settle_completes:
  assumes ready: "settleable env s c p clock" and p: "dict_get (cs_operations s) (co_operation_id p) = Some p"
      "validate_creation_state p = Inr ()" "co_status p \<in> {Cop_prepared, Cop_unknown_outcome}"
      "result_matches p r" "not_before (ck_recorded_at clock) (co_updated_at p)"
    and d: "referenced r d" and claim: "claim \<in> {None, Some c}"
  shows "\<exists>t c' x. record_and_settle env (co_integration_source p) claim (wc_claim_id c) d p r replayed clock s w
      = (Inr (r, replayed), t, w)
    \<and> dict_get (cs_claims t) (wc_claim_id c) = Some c' \<and> lodged_as c d r c'
    \<and> dict_get (cs_operations t) (co_operation_id p) = Some x \<and> co_status x = Cop_accepted \<and> co_result x = Some r
    \<and> co_history_checks x = co_history_checks p"
proof -
  let ?p = "recorded_operation p r (ck_recorded_at clock)"
  let ?s = "put_creation ?p s"
  have step: "checked_transition p ?p = Inr ()" by (rule recorded_transition [OF p(2,3,4,5)])
  have saved: "save_claim_creation_operation s ?p = Inr ?s"
    using step p(1) by (simp add: save_claim_creation_operation_def)
  have "validate_claim_creation_result (co_integration_source p) p r = Inr (external_claim_ref r)"
    using p(4) d by (simp add: validate_claim_creation_result_def result_matches_def referenced_def)
  then have recorded: "record_claim_creation_result (co_integration_source p) p r (ck_recorded_at clock) s = Inr (?p, ?s)"
    using saved by (simp add: record_claim_creation_result_def)
  have fields: "co_status ?p = Cop_settlement_pending" "co_result ?p = Some r" "co_updated_at ?p = ck_recorded_at clock"
    "co_evidence_snapshot_fingerprint ?p = co_evidence_snapshot_fingerprint p"
    by (simp_all add: recorded_operation_def)
  have same: "cs_retention_by_claim ?s = cs_retention_by_claim s" "cs_evaluations ?s = cs_evaluations s"
    by (simp_all add: put_creation_def)
  have ready': "settleable env ?s c ?p clock"
    using ready fields(4) unfolding settleable_def creation_access_closed_def evidence_of_def put_simps same by simp
  have "\<exists>t c'. settle_recorded_claim_creation env c d ?p replayed clock ?s = Inr ((r, replayed), t)
    \<and> dict_get (cs_claims t) (wc_claim_id c) = Some c' \<and> lodged_as c d r c'
    \<and> dict_get (cs_operations t) (co_operation_id ?p) = Some (accepted_operation ?p (ck_settled_at clock))"
    by (rule settle_completes [OF ready' _ transition_facts(1) [OF step] fields(1-3) d]) simp
  then obtain t c' where t: "settle_recorded_claim_creation env c d ?p replayed clock ?s = Inr ((r, replayed), t)"
    "dict_get (cs_claims t) (wc_claim_id c) = Some c'" "lodged_as c d r c'"
    "dict_get (cs_operations t) (co_operation_id p) = Some (accepted_operation ?p (ck_settled_at clock))"
    by auto
  have found: "(case claim of None \<Rightarrow> dict_get (cs_claims ?s) (wc_claim_id c) | Some b \<Rightarrow> Some b) = Some c"
    using claim ready by (auto simp: settleable_def)
  have "record_and_settle env (co_integration_source p) claim (wc_claim_id c) d p r replayed clock s w
      = (Inr (r, replayed), t, w)"
    unfolding record_and_settle_def recorded sum.case prod.case found option.case t(1) ..
  moreover have "co_status (accepted_operation ?p (ck_settled_at clock)) = Cop_accepted"
    "co_result (accepted_operation ?p (ck_settled_at clock)) = Some r"
    "co_history_checks (accepted_operation ?p (ck_settled_at clock)) = co_history_checks p"
    by (simp_all add: accepted_operation_def fields(2)) (simp add: recorded_operation_def)
  ultimately show ?thesis using t by blast
qed

section \<open>A request that is answered\<close>

lemma snapshot_order:
  assumes "distinct (map ed_evidence_id (evidence_of s k))" "accessible_claim s k customer \<noteq> None"
  shows "evidence_snapshot_fingerprint dump (list_creation_evidence s k customer)
    = evidence_snapshot_fingerprint dump (evidence_of s k)"
proof -
  have "sort_key ed_evidence_id (list_creation_evidence s k customer) = sort_key ed_evidence_id (evidence_of s k)"
    using assms by (intro sort_key_inj_key_eq) (auto simp: list_creation_evidence_def distinct_map)
  then show ?thesis by (simp add: evidence_snapshot_fingerprint_def)
qed

definition creation_ready ::
  "creation_env \<Rightarrow> integration_source \<Rightarrow> creation_request \<Rightarrow> creation_clock \<Rightarrow> creation_store \<Rightarrow> lodged_claim
     \<Rightarrow> creation_decision \<Rightarrow> bool" where
  "creation_ready env source q clock s c d \<longleftrightarrow>
     dict_get (cs_claims s) (cq_working_claim_id q) = Some c \<and> wc_claim_id c = cq_working_claim_id q
     \<and> lc_external_result c = None \<and> wc_terminal_disposition c = None \<and> wc_revision c = cq_claim_revision q
     \<and> \<not> creation_access_closed s (cq_working_claim_id q)
     \<and> creation_of_claim s (cq_working_claim_id q) = None
     \<and> dict_get (cs_operations s) (claim_creation_operation_id (cq_working_claim_id q) (cq_authorised_decision_id q)) = None
     \<and> dict_get (cs_decisions s) (cq_authorised_decision_id q) = Some d
     \<and> dn_claim_id d = cq_working_claim_id q \<and> dn_decision_id d = cq_authorised_decision_id q \<and> decision_authorises q d
     \<and> distinct (map ed_evidence_id (evidence_of s (cq_working_claim_id q)))
     \<and> passes (lodging_guards env q c (list_creation_evidence s (cq_working_claim_id q) (wc_customer_id c)))
     \<and> validate_creation_state (prepared_operation env source q c d
          (list_creation_evidence s (cq_working_claim_id q) (wc_customer_id c)) None (ck_reserved_at clock) s) = Inr ()"

definition clock_ready :: "creation_clock \<Rightarrow> creation_store \<Rightarrow> bool" where
  "clock_ready clock s \<longleftrightarrow> \<not> is_naive (ck_settled_at clock)
     \<and> not_before (ck_recorded_at clock) (ck_reserved_at clock)
     \<and> not_before (ck_settled_at clock) (ck_recorded_at clock)
     \<and> dict_get (cs_evaluations s) (ck_evaluation_id clock) = None"

lemma ready_reserved:
  assumes ready: "creation_ready env (ca_integration_source adapter) q clock s c d"
  defines "p \<equiv> prepared_operation env (ca_integration_source adapter) q c d
      (list_creation_evidence s (wc_claim_id c) (wc_customer_id c)) None (ck_reserved_at clock) s"
  shows "create_external_claim env adapter q clock s w
      = contact_provider env adapter q c d p clock (put_creation p s) w"
    and "co_evidence_snapshot_fingerprint p
      = evidence_snapshot_fingerprint (ce_dump_evidence env) (evidence_of s (wc_claim_id c))"
proof -
  note r = ready [unfolded creation_ready_def]
  have "accessible_claim s (wc_claim_id c) (wc_customer_id c) \<noteq> None" using r by (simp add: accessible_claim_def)
  then show finger: "co_evidence_snapshot_fingerprint p
      = evidence_snapshot_fingerprint (ce_dump_evidence env) (evidence_of s (wc_claim_id c))"
    using snapshot_order [of s "wc_claim_id c"] r by (simp add: p_def prepared_operation_def)
  have reserve: "reserve_claim_creation_operation (ce_dump_evidence env) s p = Inr (True, put_creation p s)"
    using r finger by (simp add: reserve_claim_creation_operation_def reservation_authorised_def)
      (simp add: p_def prepared_operation_def decision_authorises_def)
  have "passes (fresh_start_guards q c)" using r by (simp add: fresh_start_guards_def)
  then have ok: "guarded (fresh_start_guards q c @ lodging_guards env q c
      (list_creation_evidence s (wc_claim_id c) (wc_customer_id c)))
      (map_error Raised_operation (validate_creation_state p)) = Inr ()"
    using r by (simp add: guarded_Inr_iff p_def passes_def del: guarded.simps)
  have "start_claim_creation env adapter q c d None clock s w
      = contact_provider env adapter q c d p clock (put_creation p s) w"
    using ok reserve r unfolding start_claim_creation_def Let_def p_def by simp
  moreover have "guarded (fresh_start_guards q c) (Inr ()) = Inr ()"
    using \<open>passes (fresh_start_guards q c)\<close> by (simp add: guarded_Inr_iff del: guarded.simps)
  ultimately show "create_external_claim env adapter q clock s w
      = contact_provider env adapter q c d p clock (put_creation p s) w"
    using r by (simp add: create_external_claim_def creation_decision_of_def del: guarded.simps)
qed

theorem answered_request_settles:
  assumes ready: "creation_ready env (ca_integration_source adapter) q clock s c d" and clock: "clock_ready clock s"
    and answer: "ca_create_claim adapter q (creation_fingerprint env q) w = (Inr \<lparr>oc_result = r, oc_replayed = b\<rparr>, w1)"
      "xc_source r = ca_integration_source adapter" "xc_route r = cq_route q" "referenced r d"
  shows "\<exists>t c' x. create_external_claim env adapter q clock s w = (Inr (r, b), t, w1)
    \<and> dict_get (cs_claims t) (cq_working_claim_id q) = Some c' \<and> lodged_as c d r c'
    \<and> dict_get (cs_operations t) (claim_creation_operation_id (cq_working_claim_id q) (cq_authorised_decision_id q)) = Some x
    \<and> co_status x = Cop_accepted \<and> co_result x = Some r
    \<and> co_history_checks x = Some (ce_lodging_history env s c (ck_reserved_at clock))"
proof -
  note r = ready [unfolded creation_ready_def]
  define p where "p = prepared_operation env (ca_integration_source adapter) q c d
      (list_creation_evidence s (wc_claim_id c) (wc_customer_id c)) None (ck_reserved_at clock) s"
  note reserved = ready_reserved [OF ready, folded p_def]
  let ?s = "put_creation p s"
  have source: "co_integration_source p = ca_integration_source adapter" "co_route p = expected_route c"
    "co_updated_at p = ck_reserved_at clock" "co_status p = Cop_prepared" "co_claim_id p = wc_claim_id c"
    "co_operation_id p = claim_creation_operation_id (wc_claim_id c) (cq_authorised_decision_id q)"
    "co_history_checks p = Some (ce_lodging_history env s c (ck_reserved_at clock))"
    by (simp_all add: p_def prepared_operation_def)
  have "1 \<le> cq_claim_revision q"
    using r by (simp add: validate_creation_iff creation_fields_ok_def prepared_operation_def)
  then have settle: "settleable env ?s c p clock"
    using r clock reserved(2) unfolding settleable_def clock_ready_def creation_access_closed_def evidence_of_def
    by (simp add: put_creation_def)
  have matches: "result_matches p r" using answer(2,3) source r by (simp add: result_matches_def lodging_guards_def)
  have "\<exists>t c' x. record_and_settle env (co_integration_source p) (Some c) (wc_claim_id c) d p r b clock ?s w1
      = (Inr (r, b), t, w1)
    \<and> dict_get (cs_claims t) (wc_claim_id c) = Some c' \<and> lodged_as c d r c'
    \<and> dict_get (cs_operations t) (co_operation_id p) = Some x \<and> co_status x = Cop_accepted \<and> co_result x = Some r
    \<and> co_history_checks x = co_history_checks p"
    by (rule record_and_settle_completes [OF settle _ _ _ matches])
      (use r clock source answer(4) in \<open>simp_all add: clock_ready_def p_def\<close>)
  then show ?thesis
    using reserved(1) answer(1) source r by (simp add: contact_provider_def)
qed

section \<open>A request whose answer was lost\<close>

theorem lost_answer_recovered:
  assumes claim: "dict_get (cs_claims s) (cq_working_claim_id q) = Some c" "wc_claim_id c = cq_working_claim_id q"
    and p: "dict_get (cs_operations s) (claim_creation_operation_id (wc_claim_id c) (cq_authorised_decision_id q)) = Some p"
      "co_operation_id p = claim_creation_operation_id (wc_claim_id c) (cq_authorised_decision_id q)"
      "validate_creation_state p = Inr ()" "co_status p \<in> {Cop_prepared, Cop_unknown_outcome}"
      "co_request_fingerprint p = creation_fingerprint env q" "co_integration_source p = ca_integration_source adapter"
      "not_before (ck_recorded_at clock) (co_updated_at p)"
    and d: "creation_decision_of s (wc_claim_id c) (cq_authorised_decision_id q) = Some d" "decision_authorises q d"
    and ready: "settleable env s c p clock"
    and answer: "ca_reconcile_claim adapter q (creation_fingerprint env q) w = (Inr (Some \<lparr>oc_result = r, oc_replayed = b\<rparr>), w1)"
      "result_matches p r" "referenced r d"
  shows "\<not> asks_to_create env adapter q clock s w"
    and "\<exists>t c' x. create_external_claim env adapter q clock s w = (Inr (r, True), t, w1)
      \<and> dict_get (cs_claims t) (cq_working_claim_id q) = Some c' \<and> lodged_as c d r c'
      \<and> dict_get (cs_operations t) (co_operation_id p) = Some x \<and> co_status x = Cop_accepted \<and> co_result x = Some r"
proof -
  have same: "ca_reconcile_claim (adapter\<lparr>ca_create_claim := f\<rparr>) = ca_reconcile_claim adapter"
    "ca_integration_source (adapter\<lparr>ca_create_claim := f\<rparr>) = ca_integration_source adapter" for f by simp_all
  have recover: "recover_claim_creation_operation env adapter q c d p clock s w
      = Some (record_and_settle env (co_integration_source p) None (wc_claim_id c) d p r True clock s w1)"
    using p(4-6) answer(1) by (auto simp: recover_claim_creation_operation_def split: creation_op_status.splits)
  have open_claim: "lc_external_result c = None" using ready by (simp add: settleable_def)
  have create: "create_external_claim env (adapter\<lparr>ca_create_claim := f\<rparr>) q clock s w
      = record_and_settle env (co_integration_source p) None (wc_claim_id c) d p r True clock s w1" for f
    using claim p(1) d open_claim recover by (simp add: create_external_claim_def)
  have plain: "create_external_claim env adapter q clock s w
      = record_and_settle env (co_integration_source p) None (wc_claim_id c) d p r True clock s w1"
    using claim p(1) d open_claim recover by (simp add: create_external_claim_def)
  show "\<not> asks_to_create env adapter q clock s w" by (simp add: asks_to_create_def create plain)
  have "\<exists>t c' x. record_and_settle env (co_integration_source p) None (wc_claim_id c) d p r True clock s w1
      = (Inr (r, True), t, w1)
    \<and> dict_get (cs_claims t) (wc_claim_id c) = Some c' \<and> lodged_as c d r c'
    \<and> dict_get (cs_operations t) (co_operation_id p) = Some x \<and> co_status x = Cop_accepted \<and> co_result x = Some r
    \<and> co_history_checks x = co_history_checks p"
    by (rule record_and_settle_completes [OF ready]) (use p answer in simp_all)
  then show "\<exists>t c' x. create_external_claim env adapter q clock s w = (Inr (r, True), t, w1)
      \<and> dict_get (cs_claims t) (cq_working_claim_id q) = Some c' \<and> lodged_as c d r c'
      \<and> dict_get (cs_operations t) (co_operation_id p) = Some x \<and> co_status x = Cop_accepted \<and> co_result x = Some r"
    unfolding plain claim(2) by blast
qed

section \<open>A recorded result that cannot settle\<close>

text \<open>
  Settlement demands the evidence snapshot of the reservation. Once evidence has been added or changed
  after the provider answered, no retry of the request settles the recorded result.
\<close>

theorem changed_evidence_blocks_settlement:
  assumes claim: "dict_get (cs_claims s) (cq_working_claim_id q) = Some c" "wc_claim_id c = cq_working_claim_id q"
      "lc_external_result c = None"
    and p: "dict_get (cs_operations s) (claim_creation_operation_id (wc_claim_id c) (cq_authorised_decision_id q)) = Some p"
      "co_status p = Cop_settlement_pending"
    and changed: "evidence_snapshot_fingerprint (ce_dump_evidence env) (evidence_of s (wc_claim_id c))
      \<noteq> co_evidence_snapshot_fingerprint p"
  shows "\<exists>e. create_external_claim env adapter q clock s w = (Inl e, s, w)"
proof -
  have blocked: "\<exists>e. settle_recorded_claim_creation env c d p replayed clock s = Inl e" for d replayed
  proof (cases "settle_recorded_claim_creation env c d p replayed clock s")
    case (Inr x)
    obtain r b t where "x = ((r, b), t)" by (metis surj_pair)
    then obtain disposition e where "save_claim_creation_outcome (ce_dump_evidence env) s
      (settled_claim c p r disposition (ck_settled_at clock)) (wc_revision c)
      (accepted_operation p (ck_settled_at clock)) e = Inr t"
      using settle_saved Inr by metis
    then have "outcome_recorded (ce_dump_evidence env) s (settled_claim c p r disposition (ck_settled_at clock))
        (accepted_operation p (ck_settled_at clock))"
      by (auto simp: save_claim_creation_outcome_def bind_result_Inr_iff split: if_splits)
    then show ?thesis using changed by (simp add: outcome_recorded_def accepted_operation_def)
  qed simp
  have recover: "\<exists>e. recover_claim_creation_operation env adapter q c d p clock s w = Some (Inl e, s, w)" for d
    using blocked [of d True] p(2) by (auto simp: recover_claim_creation_operation_def)
  show ?thesis
  proof (cases "creation_decision_of s (cq_working_claim_id q) (cq_authorised_decision_id q)")
    case None
    then show ?thesis using claim p(1) by (simp add: create_external_claim_def)
  next
    case (Some d)
    obtain e where "recover_claim_creation_operation env adapter q c d p clock s w = Some (Inl e, s, w)"
      using recover by blast
    then show ?thesis using claim p(1) Some by (simp add: create_external_claim_def Let_def)
  qed
qed

end
