(* ===== verification/Triage.thy ===== *)
theory Triage
  imports Creation_Service
begin

text \<open>
  Staff triage of a created Claim (\<open>backend/domain/triage.py\<close> with the reference rates of
  \<open>backend/domain/currency.py\<close>), and how the workbench computes it from the stored records
  (\<open>_lodging_history_checks\<close> and \<open>_claim_triage\<close> of \<open>backend/services/workbench.py\<close>). The lemmas say
  exactly when a Claim is placed on the fast track and how evidence moves it there.

  Python's membership test on a set raises for a list or a dictionary, which cannot be hashed; the
  branches that reach such a test are errors of the model.
\<close>

section \<open>Amounts\<close>

definition UNITS_PER_NZD :: "(string \<times> rat) list" where
  "UNITS_PER_NZD = map (\<lambda>(k, units). (k, nearest_double units)) [(''AUD'', 0.81019), (''BRL'', 2.937), (''CAD'', 0.80065), (''CHF'', 0.47119),
     (''CNY'', 3.7847), (''CZK'', 12.1501), (''DKK'', 3.7164), (''EUR'', 0.49714), (''GBP'', 0.42487),
     (''HKD'', 4.4293), (''HUF'', 182.05), (''IDR'', 10099), (''ILS'', 1.7351), (''INR'', 54.099),
     (''ISK'', 68.108), (''JPY'', 88.63), (''KRW'', 765.13), (''MXN'', 10.2322), (''MYR'', 2.3021),
     (''NOK'', 5.4196), (''PHP'', 35.398), (''PLN'', 2.172), (''RON'', 2.6243), (''SEK'', 5.6331),
     (''SGD'', 0.721), (''THB'', 18.9476), (''TRY'', 27.671), (''USD'', 0.5645), (''ZAR'', 9.2529)]"

text \<open>An amount is the value of a finite float; the quotient is rounded and may overflow.\<close>

definition to_nzd :: "money_amount \<Rightarrow> double option" where
  "to_nzd v = (if ma_currency v = ''NZD'' then Some (Finite (ma_amount v))
     else map_option (\<lambda>rate. rounded (ma_amount v / rate)) (map_of UNITS_PER_NZD (ma_currency v)))"

section \<open>Reasons\<close>

datatype triage_reason =
    INJURY_OR_DANGER | LIABILITY_UNRESOLVED | COVERAGE_UNCERTAIN | COVER_DISAGREEMENT
  | HOME_UNINHABITABLE_OR_ONGOING | FRAUD_REVIEW_REQUIRED | DOCUMENT_OUTSTANDING | FACT_UNRESOLVED
  | POLICY_NOT_VERIFIED | VEHICLE_NOT_DRIVABLE | AMOUNT_OVER_THRESHOLD | AMOUNT_UNKNOWN
  | THIRD_PARTY_RECOVERY | REVIEW_HINT | POSSIBLE_DUPLICATE | HISTORY_NOT_CHECKED

definition REASON_SEVERITY :: "triage_reason \<Rightarrow> severity" where
  "REASON_SEVERITY r = (if r \<in> {INJURY_OR_DANGER, LIABILITY_UNRESOLVED, COVERAGE_UNCERTAIN,
       COVER_DISAGREEMENT, HOME_UNINHABITABLE_OR_ONGOING, FRAUD_REVIEW_REQUIRED}
     then Sev_complex else Sev_standard)"

fun severity_rank :: "severity \<Rightarrow> nat" where
  "severity_rank Sev_fast_track = 0"
| "severity_rank Sev_standard = 1"
| "severity_rank Sev_complex = 2"
| "severity_rank Sev_unassessed = 0"

datatype triage_error = UnhashableValue | TriageNumberOverflow | NegativeThreshold

record policy_record =
  po_policy_reference :: string
  po_uncertainty :: "string list"

record triage_handoff = handoff +
  th_support_need :: "support_need option"

record triage_input =
  tr_evidence :: "evidence_record list"
  tr_handoffs :: "triage_handoff list"
  tr_policy_records :: "policy_record list"
  tr_active_branches :: "string list"
  tr_requirements :: requirement_resolution
  tr_registry :: branch_registry
  tr_amount_threshold :: rat
  tr_interpreted_kinds :: "(string \<times> string) list option"
  tr_history_checks :: "history_checks option"

record claim_triage =
  ct_severity :: severity
  ct_reasons :: "triage_reason list"
  ct_rules_version :: string
  ct_amount_threshold :: rat

section \<open>Reading the Claim\<close>

fun normal_value :: "fact_value \<Rightarrow> fact_value" where
  "normal_value (V_text s) = V_text (normal_text s)"
| "normal_value v = v"

text \<open>\<open>V_null\<close> is Python's \<open>None\<close>.\<close>

definition confirmed_value :: "lodged_claim \<Rightarrow> string \<Rightarrow> fact_value" where
  "confirmed_value c code = (case dict_get (ic_form c) code of
     None \<Rightarrow> V_null
   | Some f \<Rightarrow> if ff_status f = Confirmed then normal_value (ff_value f) else V_null)"

definition recorded_value :: "lodged_claim \<Rightarrow> string \<Rightarrow> fact_value" where
  "recorded_value c code = (case dict_get (ic_form c) code of
     None \<Rightarrow> V_null | Some f \<Rightarrow> normal_value (ff_value f))"

definition member_of :: "fact_value \<Rightarrow> fact_value list \<Rightarrow> triage_error + bool" where
  "member_of v options = guarded [(\<not> hashable v, UnhashableValue)] (Inr (v \<in> set options))"

definition ACCEPTED_LIABILITY :: "fact_value list" where
  "ACCEPTED_LIABILITY = [V_text ''other_party_accepts'', V_text ''claimant_accepts'', V_text ''shared'']"

definition claim_is_created :: "lodged_claim \<Rightarrow> bool" where
  "claim_is_created c = (case lc_external_result c of None \<Rightarrow> False
     | Some r \<Rightarrow> xc_creation_status r = Result_created)"

definition other_party :: "lodged_claim \<Rightarrow> bool" where
  "other_party c \<longleftrightarrow> confirmed_value c ''parties.other_parties'' = V_bool True"

definition liability_accepted :: "lodged_claim \<Rightarrow> triage_error + bool" where
  "liability_accepted c = member_of (confirmed_value c ''incident.liability_position'') ACCEPTED_LIABILITY"

definition injury_or_danger :: "lodged_claim \<Rightarrow> triage_handoff list \<Rightarrow> bool" where
  "injury_or_danger c handoffs \<longleftrightarrow> confirmed_value c ''incident.injury_or_danger'' = V_bool True
     \<or> ic_urgency c \<in> {Urgency_urgent, Urgency_immediate_safety_risk}
     \<or> list_ex (\<lambda>h. hf_status h \<noteq> Handoff_cancelled
          \<and> (hf_type h = ''urgent_support'' \<or> th_support_need h = Some Need_urgent)) handoffs"

definition stated_policy :: "lodged_claim \<Rightarrow> string option" where
  "stated_policy c = (let stated = confirmed_value c ''policy.policy_number'' in
     case (if py_truth stated then stated else recorded_value c ''policy.policy_number'') of
       V_text s \<Rightarrow> if s = [] then None else Some s
     | _ \<Rightarrow> None)"

definition current_policy_record :: "lodged_claim \<Rightarrow> policy_record list \<Rightarrow> policy_record option" where
  "current_policy_record c records = (case stated_policy c of
     None \<Rightarrow> None
   | Some reference \<Rightarrow>
       (case filter (\<lambda>r. normal_text (po_policy_reference r) = reference) records of
          [] \<Rightarrow> None | r # rs \<Rightarrow> Some (last (r # rs))))"

definition satisfying_kinds :: "string \<Rightarrow> string list" where
  "satisfying_kinds kind = (if kind = ''proof_of_ownership''
     then [''proof_of_ownership'', ''receipt'', ''invoice''] else [kind])"

definition wanted_documents :: "branch_registry \<Rightarrow> string list \<Rightarrow> string list" where
  "wanted_documents reg active = concat (map (\<lambda>branch. case branch_by_id reg branch of
     None \<Rightarrow> [] | Some b \<Rightarrow> cb_document_requirements b) active)"

definition received_kinds :: "evidence_record list \<Rightarrow> (string \<times> string) list option \<Rightarrow> string set" where
  "received_kinds es interpreted =
     (\<lambda>e. evidence_kind e interpreted) ` set (filter (\<lambda>e. ed_status e = Evidence_received) es)"

definition outstanding_documents :: "triage_input \<Rightarrow> string list" where
  "outstanding_documents x = filter (\<lambda>kind. set (satisfying_kinds kind)
       \<inter> received_kinds (tr_evidence x) (tr_interpreted_kinds x) = {})
     (wanted_documents (tr_registry x) (tr_active_branches x))"

definition home_needs_handling :: "lodged_claim \<Rightarrow> triage_error + bool" where
  "home_needs_handling c = (if confirmed_value c ''property.habitable'' = V_bool False then Inr True
     else bind_result (member_of (confirmed_value c ''property.ongoing_risk'') [V_null, V_text ''none''])
       (\<lambda>fine. Inr (\<not> fine)))"

definition vehicle_needs_handling :: "lodged_claim \<Rightarrow> triage_error + bool" where
  "vehicle_needs_handling c = (if confirmed_value c ''vehicle.drivable'' = V_bool False then Inr True
     else bind_result (member_of (confirmed_value c ''vehicle.towing_required'')
         [V_text ''required'', V_text ''already_towed'']) (\<lambda>towing.
       Inr (towing \<or> ic_assessor_routing c \<in> {Some Routing_assigned, Some Routing_queued})))"

definition item_amounts :: "lodged_claim \<Rightarrow> double option list" where
  "item_amounts c = map to_nzd (List.map_filter (\<lambda>i. if ci_status i = Confirmed
     then it_estimated_value (ci_details i) else None) (ic_contents_items c))"

definition highest_amount :: "lodged_claim \<Rightarrow> triage_error + double option" where
  "highest_amount c =
     bind_result (map_error (\<lambda>_. TriageNumberOverflow)
         (parse_registered_number (confirmed_value c ''loss.estimated_amount''))) (\<lambda>stated.
       Inr (if None \<in> set (item_amounts c) then None
         else case (map_option Finite stated,
             if item_amounts c = [] then None else Some (sum_doubles (map the (item_amounts c)))) of
             (None, t) \<Rightarrow> t
           | (Some a, None) \<Rightarrow> Some a
           | (Some a, Some t) \<Rightarrow> Some (max a t)))"

definition unresolved_facts :: "requirement_resolution \<Rightarrow> bool" where
  "unresolved_facts r \<longleftrightarrow> list_ex (\<lambda>st. case map_of (rr_by_state r) st of None \<Rightarrow> False | Some xs \<Rightarrow> xs \<noteq> [])
     [Req_missing, Req_disputed, Req_unavailable, Req_pending_generation, Req_proposed]"

section \<open>Triage\<close>

definition matched :: "(triage_reason \<times> bool) list \<Rightarrow> triage_reason list" where
  "matched checks = map fst (filter snd checks)"

text \<open>The checks in the order the code lists them; the membership tests run in that order too.\<close>

definition matched_reasons :: "lodged_claim \<Rightarrow> triage_input \<Rightarrow> triage_error + triage_reason list" where
  "matched_reasons c x =
     (let policy = current_policy_record c (tr_policy_records x) in
      bind_result (highest_amount c) (\<lambda>amount.
      bind_result (if other_party c then liability_accepted c else Inr False) (\<lambda>accepted.
      bind_result (member_of (confirmed_value c ''claim.cover_disagreement'')
          [V_text ''excess'', V_text ''cover'']) (\<lambda>disagreement.
      bind_result (home_needs_handling c) (\<lambda>home.
      bind_result (vehicle_needs_handling c) (\<lambda>vehicle.
        Inr (matched
          [(INJURY_OR_DANGER, injury_or_danger c (tr_handoffs x)),
           (LIABILITY_UNRESOLVED, other_party c \<and> \<not> accepted),
           (COVERAGE_UNCERTAIN, ic_coverage c = Cov_ambiguous
              \<or> (case policy of None \<Rightarrow> False | Some r \<Rightarrow> po_uncertainty r \<noteq> [])),
           (COVER_DISAGREEMENT, disagreement),
           (HOME_UNINHABITABLE_OR_ONGOING, home),
           (FRAUD_REVIEW_REQUIRED, ic_fraud_signal c = Fraud_review_required),
           (DOCUMENT_OUTSTANDING, outstanding_documents x \<noteq> []),
           (FACT_UNRESOLVED, unresolved_facts (tr_requirements x)),
           (POLICY_NOT_VERIFIED, policy = None),
           (VEHICLE_NOT_DRIVABLE, vehicle),
           (AMOUNT_OVER_THRESHOLD, case amount of None \<Rightarrow> False | Some a \<Rightarrow> Finite (tr_amount_threshold x) < a),
           (AMOUNT_UNKNOWN, amount = None),
           (THIRD_PARTY_RECOVERY, other_party c \<and> accepted)])))))))"

definition history_reasons :: "history_checks option \<Rightarrow> triage_reason list" where
  "history_reasons checks = (case checks of None \<Rightarrow> []
     | Some h \<Rightarrow> matched
         [(REVIEW_HINT, hc_prior_claims_12m h = Check_hit),
          (POSSIBLE_DUPLICATE, hc_possible_duplicate h = Check_hit),
          (HISTORY_NOT_CHECKED, Check_not_checked \<in> {hc_prior_claims_12m h, hc_possible_duplicate h})])"

text \<open>\<open>max\<close> keeps the first of the severities with the greatest rank.\<close>

definition worst_severity :: "triage_reason list \<Rightarrow> severity" where
  "worst_severity reasons = fold (\<lambda>r best. if severity_rank best < severity_rank (REASON_SEVERITY r)
     then REASON_SEVERITY r else best) reasons Sev_fast_track"

definition triage_claim :: "lodged_claim \<Rightarrow> triage_input \<Rightarrow> triage_error + claim_triage option" where
  "triage_claim c x = (if \<not> claim_is_created c then Inr None
     else bind_result (matched_reasons c x) (\<lambda>matched.
       let reasons = matched @ history_reasons (tr_history_checks x) in
       guarded [(tr_amount_threshold x < 0, NegativeThreshold)]
         (Inr (Some \<lparr>ct_severity = worst_severity reasons, ct_reasons = reasons,
           ct_rules_version = ''triage-rules-v2'', ct_amount_threshold = tr_amount_threshold x\<rparr>))))"

section \<open>The workbench\<close>

definition lodging_history_checks :: "creation_store \<Rightarrow> lodged_claim \<Rightarrow> history_checks option" where
  "lodging_history_checks s c = (case wc_terminal_disposition c of
     None \<Rightarrow> None
   | Some t \<Rightarrow> (case List.map_filter (\<lambda>reference. if starts_with ''dec_'' reference
          then (case dict_get (cs_operations s) (claim_creation_operation_id (wc_claim_id c) reference) of
              None \<Rightarrow> None
            | Some p \<Rightarrow> if co_status p = Cop_accepted then Some (co_history_checks p) else None)
          else None) (td_source_refs t) of
       [] \<Rightarrow> None
     | h # _ \<Rightarrow> h))"

definition workbench_triage ::
  "creation_store \<Rightarrow> lodged_claim \<Rightarrow> evidence_record list \<Rightarrow> triage_handoff list \<Rightarrow> policy_record list
     \<Rightarrow> rat \<Rightarrow> (string \<times> string) list option \<Rightarrow> branch_error + (triage_error + claim_triage option)" where
  "workbench_triage s c evidence handoffs policies threshold interpreted =
     (if \<not> claim_is_created c then Inr (Inr None)
      else bind_result (evaluate default_evaluator
          \<lparr>in_latest_message = [], in_trigger_source_refs = [], in_current_action = None,
           in_recomputation_reason = ''workbench_triage'', in_previous = None, in_family_resolution = None\<rparr>
          (intake_claim.truncate c)) (\<lambda>e.
        Inr (triage_claim c \<lparr>tr_evidence = evidence, tr_handoffs = handoffs, tr_policy_records = policies,
          tr_active_branches = fe_active_branches e, tr_requirements = fe_requirements e,
          tr_registry = default_registry, tr_amount_threshold = threshold,
          tr_interpreted_kinds = interpreted, tr_history_checks = lodging_history_checks s c\<rparr>)))"

section \<open>What a triage says\<close>

text \<open>
  The rounding of the rate and of the quotient shows: HKD 22146.50 are exactly NZD 5000 at the published
  rate, but more than 5000 in floats, so an amount at the default threshold counts as over it.
\<close>

lemma nearest_rate: "nearest_double 4.4293 = 2493474228689017 / 562949953421312"
proof -
  have "round_half_even (4.4293 * 2 ^ (52 - 2)) = 4986948457378034" by (rule round_half_even_eq) simp
  then show ?thesis by (subst nearest_double_eq [of 2]) simp_all
qed

lemma conversion_crosses_threshold:
  "(22146.5 :: rat) / 4.4293 = 5000 \<and> (\<exists>a. to_nzd \<lparr>ma_amount = 22146.5, ma_currency = ''HKD''\<rparr> = Some (Finite a) \<and> 5000 < a)"
proof -
  let ?x = "22146.5 / (2493474228689017 / 562949953421312) :: rat"
  have "round_half_even (?x * 2 ^ (52 - 12)) = 5497558138880001" by (rule round_half_even_eq) simp
  then have x: "nearest_double ?x = 5497558138880001 / 1099511627776" by (subst nearest_double_eq [of 12]) simp_all
  have "binary_exponent (5497558138880001 / 1099511627776) = int 12" by (rule binary_exponent_eq) simp_all
  then have "rounded (22146.5 / nearest_double 4.4293) = Finite (5497558138880001 / 1099511627776)"
    unfolding rounded_def nearest_rate x by simp
  moreover have "map_of UNITS_PER_NZD ''HKD'' = Some (nearest_double 4.4293)" by (simp add: UNITS_PER_NZD_def)
  ultimately have "to_nzd \<lparr>ma_amount = 22146.5, ma_currency = ''HKD''\<rparr> = Some (Finite (5497558138880001 / 1099511627776))"
    by (simp add: to_nzd_def)
  moreover have "(5000 :: rat) < 5497558138880001 / 1099511627776" "(22146.5 :: rat) / 4.4293 = 5000" by simp_all
  ultimately show ?thesis by blast
qed

lemma worst_severity_fold:
  "severity_rank (fold (\<lambda>r best. if severity_rank best < severity_rank (REASON_SEVERITY r)
       then REASON_SEVERITY r else best) rs b) =
   fold (\<lambda>r n. max n (severity_rank (REASON_SEVERITY r))) rs (severity_rank b)"
  by (induction rs arbitrary: b) (auto simp: max_def)

lemma worst_severity_cases:
  "worst_severity rs = (if \<exists>r\<in>set rs. REASON_SEVERITY r = Sev_complex then Sev_complex
     else if rs = [] then Sev_fast_track else Sev_standard)"
proof -
  let ?pick = "\<lambda>r best. if severity_rank best < severity_rank (REASON_SEVERITY r) then REASON_SEVERITY r else best"
  have sev: "REASON_SEVERITY r \<in> {Sev_complex, Sev_standard}" for r by (simp add: REASON_SEVERITY_def)
  have "b \<noteq> Sev_unassessed \<Longrightarrow> fold ?pick rs b = (if b = Sev_complex \<or> (\<exists>r\<in>set rs. REASON_SEVERITY r = Sev_complex)
      then Sev_complex else if rs = [] then b else Sev_standard)" for b
  proof (induction rs arbitrary: b)
    case (Cons r rs)
    then show ?case using sev [of r] by (cases b) (auto split: if_splits)
  qed simp
  then show ?thesis unfolding worst_severity_def by simp
qed

lemma matched_Nil: "matched checks = [] \<longleftrightarrow> (\<forall>p\<in>set checks. \<not> snd p)"
  by (auto simp: matched_def filter_empty_conv)

text \<open>Nothing about the Claim calls for a person to look at it next.\<close>

definition nothing_outstanding :: "lodged_claim \<Rightarrow> triage_input \<Rightarrow> bool" where
  "nothing_outstanding c x \<longleftrightarrow> \<not> injury_or_danger c (tr_handoffs x) \<and> \<not> other_party c
     \<and> ic_coverage c \<noteq> Cov_ambiguous
     \<and> (\<exists>r. current_policy_record c (tr_policy_records x) = Some r \<and> po_uncertainty r = [])
     \<and> confirmed_value c ''claim.cover_disagreement'' \<notin> {V_text ''excess'', V_text ''cover''}
     \<and> confirmed_value c ''property.habitable'' \<noteq> V_bool False
     \<and> confirmed_value c ''property.ongoing_risk'' \<in> {V_null, V_text ''none''}
     \<and> ic_fraud_signal c = Fraud_none \<and> outstanding_documents x = []
     \<and> \<not> unresolved_facts (tr_requirements x)
     \<and> confirmed_value c ''vehicle.drivable'' \<noteq> V_bool False
     \<and> confirmed_value c ''vehicle.towing_required'' \<notin> {V_text ''required'', V_text ''already_towed''}
     \<and> ic_assessor_routing c \<notin> {Some Routing_assigned, Some Routing_queued}
     \<and> (\<exists>a. highest_amount c = Inr (Some a) \<and> a \<le> Finite (tr_amount_threshold x))
     \<and> opt_all (\<lambda>h. hc_prior_claims_12m h = Check_clear \<and> hc_possible_duplicate h = Check_clear)
         (tr_history_checks x)"

lemma history_reasons_Nil:
  "history_reasons checks = [] \<longleftrightarrow>
     opt_all (\<lambda>h. hc_prior_claims_12m h = Check_clear \<and> hc_possible_duplicate h = Check_clear) checks"
proof (cases checks)
  case (Some h)
  then show ?thesis
    by (cases "hc_prior_claims_12m h"; cases "hc_possible_duplicate h") (auto simp: history_reasons_def matched_def)
qed (simp add: history_reasons_def)

lemma not_review: "f \<noteq> Fraud_review_required \<longleftrightarrow> f = Fraud_none"
  by (cases f) auto

lemma matched_reasons_Nil:
  assumes "matched_reasons c x = Inr rs"
  shows "rs @ history_reasons (tr_history_checks x) = [] \<longleftrightarrow> nothing_outstanding c x"
proof -
  obtain amount accepted disagreement home vehicle where parts: "highest_amount c = Inr amount"
    "(if other_party c then liability_accepted c else Inr False) = Inr accepted"
    "member_of (confirmed_value c ''claim.cover_disagreement'') [V_text ''excess'', V_text ''cover''] = Inr disagreement"
    "home_needs_handling c = Inr home" "vehicle_needs_handling c = Inr vehicle"
    and rs: "rs = matched
          [(INJURY_OR_DANGER, injury_or_danger c (tr_handoffs x)),
           (LIABILITY_UNRESOLVED, other_party c \<and> \<not> accepted),
           (COVERAGE_UNCERTAIN, ic_coverage c = Cov_ambiguous
              \<or> (case current_policy_record c (tr_policy_records x) of None \<Rightarrow> False | Some r \<Rightarrow> po_uncertainty r \<noteq> [])),
           (COVER_DISAGREEMENT, disagreement),
           (HOME_UNINHABITABLE_OR_ONGOING, home),
           (FRAUD_REVIEW_REQUIRED, ic_fraud_signal c = Fraud_review_required),
           (DOCUMENT_OUTSTANDING, outstanding_documents x \<noteq> []),
           (FACT_UNRESOLVED, unresolved_facts (tr_requirements x)),
           (POLICY_NOT_VERIFIED, current_policy_record c (tr_policy_records x) = None),
           (VEHICLE_NOT_DRIVABLE, vehicle),
           (AMOUNT_OVER_THRESHOLD, case amount of None \<Rightarrow> False | Some a \<Rightarrow> Finite (tr_amount_threshold x) < a),
           (AMOUNT_UNKNOWN, amount = None),
           (THIRD_PARTY_RECOVERY, other_party c \<and> accepted)]"
    using assms by (auto simp: matched_reasons_def bind_result_Inr_iff Let_def)
  have flags: "disagreement \<longleftrightarrow> confirmed_value c ''claim.cover_disagreement'' \<in> {V_text ''excess'', V_text ''cover''}"
    "home \<longleftrightarrow> confirmed_value c ''property.habitable'' = V_bool False
       \<or> confirmed_value c ''property.ongoing_risk'' \<notin> {V_null, V_text ''none''}"
    "vehicle \<longleftrightarrow> confirmed_value c ''vehicle.drivable'' = V_bool False
       \<or> confirmed_value c ''vehicle.towing_required'' \<in> {V_text ''required'', V_text ''already_towed''}
       \<or> ic_assessor_routing c \<in> {Some Routing_assigned, Some Routing_queued}"
    using parts(3-5) by (auto simp: member_of_def home_needs_handling_def vehicle_needs_handling_def guarded_Inr_iff
        bind_result_Inr_iff simp del: guarded.simps split: if_splits)
  have policy: "\<not> (case p of None \<Rightarrow> False | Some r \<Rightarrow> po_uncertainty r \<noteq> []) \<and> p \<noteq> None
      \<longleftrightarrow> (\<exists>r. p = Some r \<and> po_uncertainty r = [])" for p by (cases p) auto
  have money: "\<not> (case amount of None \<Rightarrow> False | Some a \<Rightarrow> Finite (tr_amount_threshold x) < a) \<and> amount \<noteq> None
      \<longleftrightarrow> (\<exists>a. highest_amount c = Inr (Some a) \<and> a \<le> Finite (tr_amount_threshold x))"
    using parts(1) by (cases amount) auto
  show ?thesis
    unfolding append_is_Nil_conv history_reasons_Nil rs matched_Nil nothing_outstanding_def flags policy [symmetric]
      money [symmetric] not_review [symmetric]
    by (simp only: list.set ball_simps snd_conv) blast
qed

theorem fast_track_exactly:
  assumes "triage_claim c x = Inr (Some t)"
  shows "ct_severity t = Sev_fast_track \<longleftrightarrow> nothing_outstanding c x"
    and "ct_severity t = Sev_complex \<longleftrightarrow> (\<exists>r\<in>set (ct_reasons t). REASON_SEVERITY r = Sev_complex)"
    and "ct_severity t = Sev_fast_track \<longleftrightarrow> ct_reasons t = []"
proof -
  obtain rs where rs: "matched_reasons c x = Inr rs"
    "ct_reasons t = rs @ history_reasons (tr_history_checks x)" "ct_severity t = worst_severity (ct_reasons t)"
    using assms by (auto simp: triage_claim_def bind_result_Inr_iff Let_def guarded_Inr_iff
        simp del: guarded.simps split: if_splits)
  show nil: "ct_severity t = Sev_fast_track \<longleftrightarrow> ct_reasons t = []"
    unfolding rs(3) worst_severity_cases by auto
  show "ct_severity t = Sev_fast_track \<longleftrightarrow> nothing_outstanding c x"
    unfolding nil rs(2) using matched_reasons_Nil [OF rs(1)] .
  show "ct_severity t = Sev_complex \<longleftrightarrow> (\<exists>r\<in>set (ct_reasons t). REASON_SEVERITY r = Sev_complex)"
    unfolding rs(3) worst_severity_cases by auto
qed

text \<open>Evidence that comes in never raises a severity.\<close>

lemma severity_rank_mono:
  assumes "set rs \<subseteq> set rs'"
  shows "severity_rank (worst_severity rs) \<le> severity_rank (worst_severity rs')"
proof (cases "\<exists>r\<in>set rs. REASON_SEVERITY r = Sev_complex")
  case True
  then have "\<exists>r\<in>set rs'. REASON_SEVERITY r = Sev_complex" using assms by blast
  then show ?thesis unfolding worst_severity_cases by simp
next
  case False
  have "rs \<noteq> [] \<Longrightarrow> rs' \<noteq> []" using assms by auto
  then show ?thesis unfolding worst_severity_cases if_not_P [OF False] by auto
qed

lemma matched_split: "matched (xs @ (r, b) # ys) = matched xs @ (if b then [r] else []) @ matched ys"
  by (simp add: matched_def)

lemma reasons_by_documents:
  assumes "matched_reasons c x = Inr rs"
  obtains others later where
    "rs = others @ (if outstanding_documents x \<noteq> [] then [DOCUMENT_OUTSTANDING] else []) @ later"
    "\<And>es. matched_reasons c (x\<lparr>tr_evidence := es\<rparr>) = Inr (others
       @ (if outstanding_documents (x\<lparr>tr_evidence := es\<rparr>) \<noteq> [] then [DOCUMENT_OUTSTANDING] else []) @ later)"
proof -
  obtain amount accepted disagreement home vehicle where parts: "highest_amount c = Inr amount"
    "(if other_party c then liability_accepted c else Inr False) = Inr accepted"
    "member_of (confirmed_value c ''claim.cover_disagreement'') [V_text ''excess'', V_text ''cover''] = Inr disagreement"
    "home_needs_handling c = Inr home" "vehicle_needs_handling c = Inr vehicle"
    using assms by (auto simp: matched_reasons_def bind_result_Inr_iff Let_def)
  let ?others = "[(INJURY_OR_DANGER, injury_or_danger c (tr_handoffs x)),
           (LIABILITY_UNRESOLVED, other_party c \<and> \<not> accepted),
           (COVERAGE_UNCERTAIN, ic_coverage c = Cov_ambiguous
              \<or> (case current_policy_record c (tr_policy_records x) of None \<Rightarrow> False | Some r \<Rightarrow> po_uncertainty r \<noteq> [])),
           (COVER_DISAGREEMENT, disagreement),
           (HOME_UNINHABITABLE_OR_ONGOING, home),
           (FRAUD_REVIEW_REQUIRED, ic_fraud_signal c = Fraud_review_required)]"
  let ?later = "[(FACT_UNRESOLVED, unresolved_facts (tr_requirements x)),
           (POLICY_NOT_VERIFIED, current_policy_record c (tr_policy_records x) = None),
           (VEHICLE_NOT_DRIVABLE, vehicle),
           (AMOUNT_OVER_THRESHOLD, case amount of None \<Rightarrow> False | Some a \<Rightarrow> Finite (tr_amount_threshold x) < a),
           (AMOUNT_UNKNOWN, amount = None),
           (THIRD_PARTY_RECOVERY, other_party c \<and> accepted)]"
  have same: "tr_handoffs (x\<lparr>tr_evidence := es\<rparr>) = tr_handoffs x"
    "tr_policy_records (x\<lparr>tr_evidence := es\<rparr>) = tr_policy_records x"
    "tr_requirements (x\<lparr>tr_evidence := es\<rparr>) = tr_requirements x"
    "tr_amount_threshold (x\<lparr>tr_evidence := es\<rparr>) = tr_amount_threshold x" for es by simp_all
  have all: "matched_reasons c (x\<lparr>tr_evidence := es\<rparr>)
      = Inr (matched (?others @ (DOCUMENT_OUTSTANDING, outstanding_documents (x\<lparr>tr_evidence := es\<rparr>) \<noteq> []) # ?later))" for es
    unfolding matched_reasons_def Let_def parts same by (simp only: bind_result_simps append.simps)
  have "x\<lparr>tr_evidence := tr_evidence x\<rparr> = x" by simp
  then have "rs = matched (?others @ (DOCUMENT_OUTSTANDING, outstanding_documents x \<noteq> []) # ?later)"
    using all [of "tr_evidence x"] assms by (metis sum.inject(2))
  then show thesis using that [of "matched ?others" "matched ?later"] all unfolding matched_split by blast
qed

theorem more_evidence_never_worse:
  assumes "triage_claim c x = Inr (Some t)" "set (tr_evidence x) \<subseteq> set es"
  obtains t' where "triage_claim c (x\<lparr>tr_evidence := es\<rparr>) = Inr (Some t')"
    "set (ct_reasons t) - {DOCUMENT_OUTSTANDING} \<subseteq> set (ct_reasons t')" "set (ct_reasons t') \<subseteq> set (ct_reasons t)"
    "severity_rank (ct_severity t') \<le> severity_rank (ct_severity t)"
proof -
  let ?x = "x\<lparr>tr_evidence := es\<rparr>"
  have "received_kinds (tr_evidence x) k \<subseteq> received_kinds es k" for k
    using assms(2) by (auto simp: received_kinds_def)
  then have docs: "outstanding_documents ?x \<noteq> [] \<Longrightarrow> outstanding_documents x \<noteq> []"
    unfolding outstanding_documents_def by (auto simp: filter_empty_conv)
  obtain rs where rs: "matched_reasons c x = Inr rs" "ct_reasons t = rs @ history_reasons (tr_history_checks x)"
    "ct_severity t = worst_severity (ct_reasons t)" "claim_is_created c" "0 \<le> tr_amount_threshold x"
    using assms(1) by (auto simp: triage_claim_def bind_result_Inr_iff Let_def guarded_Inr_iff
        simp del: guarded.simps split: if_splits)
  obtain others later where parts:
    "rs = others @ (if outstanding_documents x \<noteq> [] then [DOCUMENT_OUTSTANDING] else []) @ later"
    "matched_reasons c ?x = Inr (others @ (if outstanding_documents ?x \<noteq> [] then [DOCUMENT_OUTSTANDING] else []) @ later)"
    using reasons_by_documents [OF rs(1)] by metis
  define rs' where "rs' = others @ (if outstanding_documents ?x \<noteq> [] then [DOCUMENT_OUTSTANDING] else []) @ later"
  have rs': "matched_reasons c ?x = Inr rs'" "set rs' \<subseteq> set rs" "set rs - {DOCUMENT_OUTSTANDING} \<subseteq> set rs'"
    using parts docs by (auto simp: rs'_def split: if_splits)
  let ?t = "\<lparr>ct_severity = worst_severity (rs' @ history_reasons (tr_history_checks x)),
      ct_reasons = rs' @ history_reasons (tr_history_checks x),
      ct_rules_version = ''triage-rules-v2'', ct_amount_threshold = tr_amount_threshold x\<rparr>"
  have "triage_claim c ?x = Inr (Some ?t)" using rs(4,5) rs'(1) by (simp add: triage_claim_def Let_def)
  moreover have "severity_rank (ct_severity ?t) \<le> severity_rank (ct_severity t)"
    unfolding rs(3) rs(2) using rs'(2) by (auto intro!: severity_rank_mono)
  ultimately show thesis using that [of ?t] rs(2) rs'(2,3) by auto
qed

end
