(* ===== verification/Intake_Examples.thy ===== *)
theory Intake_Examples
  imports Turn_Changes Creation_Liveness Triage
begin

text \<open>
  Concrete Claims, evaluations, requests and stores on which the properties of the intake apply, with
  the facts their witnesses share.
\<close>

section \<open>A Claim and its evaluations\<close>

definition claimant_one :: actor_reference where
  "claimant_one = \<lparr>actor_type = Actor_claimant, actor_id = ''cus_1''\<rparr>"

definition stated_field :: "fact_value \<Rightarrow> form_status \<Rightarrow> form_field" where
  "stated_field v st = \<lparr>ff_value = v, ff_source = Src_claimant, ff_source_refs = [''msg_1''], ff_status = st,
     ff_needed_for = Need_current_action, ff_confidence = None, ff_resolution_state = Some (resolution_of st),
     ff_precision = Exact, ff_normalised = False, ff_current_assertion_id = None, ff_assertions = [],
     ff_updated_at = Aware 0, ff_updated_by = claimant_one\<rparr>"

definition waiting_step :: customer_next_step where
  "waiting_step = \<lparr>ns_status = ''collecting'', ns_summary = ''Tell us what happened.'',
     ns_responsible_party = Party_claimant, ns_expected_by = None, ns_can_resume = True, ns_required_items = []\<rparr>"

definition reported_claim :: lodged_claim where
  "reported_claim = \<lparr>wc_claim_id = ''clm_1'', wc_customer_id = ''cus_1'', wc_revision = 3,
     wc_active_session_id = Some ''ses_1'', wc_claim_decision_id = None,
     wc_workflow_state = Workflow_ready_for_next, wc_content = '''', wc_external_claim = None,
     wc_external_service_consents = [], wc_terminal_disposition = None, wc_customer_next_step = waiting_step,
     wc_created_at = Aware 0, wc_updated_at = Aware 0, ic_incident_type = Some ''motor'',
     ic_coverage = Cov_clear, ic_fraud_signal = Fraud_none, ic_customer_support = Support_self_service,
     ic_urgency = Urgency_normal, ic_next_action = CREATE_CLAIM, ic_form = [], ic_contents_items = [],
     ic_evidence_summary = \<lparr>sm_received = 0, sm_pending = 0, sm_needs_attention = 0\<rparr>,
     ic_assessor_routing = None, lc_external_result = None, lc_external_claim_source_revision = None,
     lc_external_claim_fingerprint = None, lc_route = None\<rparr>"

definition urgent_claim :: intake_claim where
  "urgent_claim = (intake_claim.truncate reported_claim)
     \<lparr>ic_urgency := Urgency_urgent, ic_customer_support := Support_human_requested,
      ic_coverage := Cov_ambiguous, ic_form := [(''witness.present'', stated_field (V_text ''yes'') Confirmed)]\<rparr>"

definition quiet_input :: evaluation_input where
  "quiet_input = \<lparr>in_latest_message = '''', in_trigger_source_refs = [], in_current_action = None,
     in_recomputation_reason = ''example'', in_previous = None, in_family_resolution = None\<rparr>"

definition witness_rule_off :: controlled_rules where
  "witness_rule_off = \<lparr>cr_rules_version = ''rules-2'', cr_disabled_rule_ids = [''BR-PARTICIPANT-WITNESS-001''],
     cr_observation_rule_ids = []\<rparr>"

section \<open>A request to create\<close>

definition create_decision :: creation_decision where
  "create_decision = \<lparr>dn_decision_id = ''dec_1'', dn_claim_id = ''clm_1'', dn_session_id = ''ses_1'',
     dn_resulting_revision = 3, dn_authority_outcome = Outcome_authorised, dn_content = '''',
     dn_action = CREATE_CLAIM, dn_reason_codes = [''CLAIM_CREATION_AUTHORISED'']\<rparr>"

definition clear_history :: "datetime \<Rightarrow> history_checks" where
  "clear_history now = \<lparr>hc_checked_at = now, hc_count_past_12_months = Some 0, hc_prior_claims_12m = Check_clear,
     hc_possible_duplicate = Check_clear, hc_duplicate_claim_ids = [], hc_limitations = []\<rparr>"

definition sample_env :: creation_env where
  "sample_env = \<lparr>ce_dump_request = cq_working_claim_id, ce_dump_evidence = (\<lambda>es. ''[]''),
     ce_lodging_history = (\<lambda>s c now. clear_history now)\<rparr>"

definition sample_request :: creation_request where
  "sample_request = \<lparr>cq_working_claim_id = ''clm_1'', cq_claim_revision = 3, cq_authorised_decision_id = ''dec_1'',
     cq_evidence_snapshot_fingerprint = evidence_snapshot_fingerprint (\<lambda>es. ''[]'') [],
     cq_confirmed_form = [], cq_evidence_refs = [], cq_pending_evidence = [], cq_route = ''standard_motor_intake''\<rparr>"

definition intake_store :: creation_store where
  "intake_store = \<lparr>cs_claims = [(''clm_1'', reported_claim)], cs_decisions = [(''dec_1'', create_decision)],
     cs_evidence = [], cs_operations = [], cs_evaluations = [], cs_retention_by_claim = [],
     cs_realtime_events = [], cs_realtime_sequence = 0\<rparr>"

definition first_clock :: creation_clock where
  "first_clock = \<lparr>ck_reserved_at = Aware 10, ck_recorded_at = Aware 11, ck_settled_at = Aware 12,
     ck_evaluated_at = Aware 12, ck_evaluation_id = ''brn_1''\<rparr>"

definition second_clock :: creation_clock where
  "second_clock = \<lparr>ck_reserved_at = Aware 20, ck_recorded_at = Aware 21, ck_settled_at = Aware 22,
     ck_evaluated_at = Aware 22, ck_evaluation_id = ''brn_2''\<rparr>"

definition sample_adapter :: "mock_world claims_adapter" where
  "sample_adapter = mock_claims_adapter (Aware 11) ''2026''"

text \<open>The provider creates the Claim and the connection breaks before its answer arrives.\<close>

definition broken_adapter :: "mock_world claims_adapter" where
  "broken_adapter = sample_adapter\<lparr>ca_create_claim :=
     (\<lambda>q fingerprint w. (Inl Adapter_crash, snd (ca_create_claim sample_adapter q fingerprint w)))\<rparr>"

definition sample_result :: external_claim_result where
  "sample_result = mock_result (Aware 11) ''2026'' sample_request"

lemmas sample_defs = reported_claim_def create_decision_def sample_env_def sample_request_def intake_store_def

lemma sample_inv: "creation_inv intake_store"
  by (simp add: creation_inv_def intake_store_def reported_claim_def)

lemma sample_free: "identity_free intake_store q"
  by (simp add: identity_free_def intake_store_def)

lemma sample_evidence: "evidence_of intake_store k = []" "list_creation_evidence intake_store k u = []"
  by (simp_all add: evidence_of_def list_creation_evidence_def intake_store_def)

lemma sample_source: "ca_integration_source sample_adapter = Integration_fixture"
  "ca_integration_source broken_adapter = Integration_fixture"
  by (simp_all add: sample_adapter_def broken_adapter_def mock_claims_adapter_def)

lemma sample_ready: "creation_ready sample_env Integration_fixture sample_request first_clock intake_store reported_claim create_decision"
proof -
  have "validate_creation_state (prepared_operation sample_env Integration_fixture sample_request reported_claim
      create_decision [] None (ck_reserved_at first_clock) intake_store) = Inr ()"
    by (simp add: validate_creation_iff creation_fields_ok_def prepared_operation_def outcome_guards_def
        bounded_text_def length_hexdigest claim_creation_operation_id_def creation_fingerprint_def
        evidence_snapshot_fingerprint_def expected_route_def history_checks_ok_def clear_history_def first_clock_def
        incomparable_def dt_before_def sample_defs)
  moreover have "passes (lodging_guards sample_env sample_request reported_claim [])"
    by (simp add: lodging_guards_def expected_route_def confirmed_form_def same_items_def evidence_problems_def
        supplied_pending_def pending_of_def sample_defs)
  moreover have "decision_authorises sample_request create_decision"
    by (simp add: decision_authorises_def sample_defs)
  ultimately show ?thesis
    unfolding creation_ready_def sample_evidence
    by (simp add: intake_store_def creation_access_closed_def creation_of_claim_def)
      (simp add: sample_defs)
qed

lemma sample_clock: "clock_ready first_clock intake_store" "clock_ready second_clock intake_store"
  by (simp_all add: clock_ready_def first_clock_def second_clock_def intake_store_def incomparable_def dt_before_def)

lemma sample_answer:
  "ca_create_claim sample_adapter sample_request (creation_fingerprint sample_env sample_request) []
     = (Inr \<lparr>oc_result = sample_result, oc_replayed = False\<rparr>,
        [(''clm_1'', creation_fingerprint sample_env sample_request, sample_result)])"
  "xc_source sample_result = Integration_fixture" "xc_route sample_result = cq_route sample_request"
  "xc_creation_status sample_result = Result_created" "referenced sample_result create_decision"
  by (simp_all add: sample_adapter_def mock_claims_adapter_def mock_lookup_def sample_result_def mock_result_def Let_def
      sample_request_def referenced_def external_claim_ref_def present_def create_decision_def)

lemma broken_answer:
  "ca_create_claim broken_adapter sample_request (creation_fingerprint sample_env sample_request) []
     = (Inl Adapter_crash, [(''clm_1'', creation_fingerprint sample_env sample_request, sample_result)])"
  using sample_answer(1) by (simp add: broken_adapter_def)

lemma sample_reconciled:
  "ca_reconcile_claim sample_adapter sample_request (creation_fingerprint sample_env sample_request)
     [(''clm_1'', creation_fingerprint sample_env sample_request, sample_result)]
     = (Inr (Some \<lparr>oc_result = sample_result, oc_replayed = True\<rparr>),
        [(''clm_1'', creation_fingerprint sample_env sample_request, sample_result)])"
  by (simp add: sample_adapter_def mock_claims_adapter_def mock_lookup_def sample_request_def)

section \<open>Evaluations and a triage\<close>

lemma witness_rule_off_valid: "validate_controlled_rules witness_rule_off = Inr witness_rule_off"
proof -
  have "''BR-PARTICIPANT-WITNESS-001'' \<in> set registered_rule_ids"
    by (simp add: registered_rule_ids_def default_registry_def conditional_content_def new_branch_def)
  then show ?thesis
    by (simp add: validate_controlled_rules_def require_disjoint_unique_rules_def witness_rule_off_def
        bounded_text_def PROTECTED_RULE_IDS_def)
qed

definition created_claim :: lodged_claim where
  "created_claim = reported_claim\<lparr>lc_external_result := Some sample_result,
     ic_form := [(''policy.policy_number'', stated_field (V_text ''POL-1'') Confirmed),
       (''loss.estimated_amount'', stated_field (V_int 900) Confirmed)]\<rparr>"

definition no_requirements :: requirement_resolution where
  "no_requirements = \<lparr>rr_satisfied = [], rr_recorded = [], rr_missing_required_now = [],
     rr_missing_by_branch = [], rr_pending_later = [], rr_by_state = [], rr_unresolved = [],
     rr_next_required_item = None, rr_ready = True, rr_ready_pending_confirmation = False,
     rr_current_action_total = 0\<rparr>"

definition quiet_triage :: triage_input where
  "quiet_triage = \<lparr>tr_evidence = [], tr_handoffs = [],
     tr_policy_records = [\<lparr>po_policy_reference = ''POL-1'', po_uncertainty = []\<rparr>],
     tr_active_branches = [], tr_requirements = no_requirements, tr_registry = default_registry,
     tr_amount_threshold = 1000, tr_interpreted_kinds = None,
     tr_history_checks = Some (clear_history (Aware 10))\<rparr>"

definition fast_triage :: claim_triage where
  "fast_triage = \<lparr>ct_severity = Sev_fast_track, ct_reasons = [], ct_rules_version = ''triage-rules-v2'',
     ct_amount_threshold = 1000\<rparr>"

lemma created_claim_values:
  "confirmed_value created_claim ''policy.policy_number'' = V_text ''pol-1''"
  "confirmed_value created_claim ''loss.estimated_amount'' = V_int 900"
  "k \<notin> {''policy.policy_number'', ''loss.estimated_amount''} \<Longrightarrow> confirmed_value created_claim k = V_null"
  "normal_text ''POL-1'' = ''pol-1''"
proof -
  show pol: "normal_text ''POL-1'' = ''pol-1''" by code_simp
  then show "confirmed_value created_claim ''policy.policy_number'' = V_text ''pol-1''"
    "confirmed_value created_claim ''loss.estimated_amount'' = V_int 900"
    "k \<notin> {''policy.policy_number'', ''loss.estimated_amount''} \<Longrightarrow> confirmed_value created_claim k = V_null"
    by (auto simp: confirmed_value_def created_claim_def stated_field_def)
qed

lemma quiet_triage_result: "triage_claim created_claim quiet_triage = Inr (Some fast_triage)"
proof -
  have created: "claim_is_created created_claim"
    using sample_answer(4) by (simp add: claim_is_created_def created_claim_def)
  have amount: "highest_amount created_claim = Inr (Some (Finite 900))"
    using rounded_of_int [of 900]
    by (simp add: highest_amount_def created_claim_values item_amounts_def map_filter_simps)
      (simp add: created_claim_def reported_claim_def map_filter_simps)
  have policy: "current_policy_record created_claim (tr_policy_records quiet_triage)
      = Some \<lparr>po_policy_reference = ''POL-1'', po_uncertainty = []\<rparr>"
    by (simp add: current_policy_record_def stated_policy_def created_claim_values quiet_triage_def)
  have claim: "ic_coverage created_claim = Cov_clear" "ic_fraud_signal created_claim = Fraud_none"
    "ic_urgency created_claim = Urgency_normal" "ic_assessor_routing created_claim = None"
    by (simp_all add: created_claim_def reported_claim_def)
  have checks: "\<not> injury_or_danger created_claim []" "\<not> other_party created_claim"
    "home_needs_handling created_claim = Inr False" "vehicle_needs_handling created_claim = Inr False"
    by (simp_all add: injury_or_danger_def other_party_def home_needs_handling_def vehicle_needs_handling_def
        member_of_def created_claim_values claim)
  have input: "tr_handoffs quiet_triage = []" "outstanding_documents quiet_triage = []"
    "\<not> unresolved_facts (tr_requirements quiet_triage)" "tr_amount_threshold quiet_triage = 1000"
    "history_reasons (tr_history_checks quiet_triage) = []"
    by (simp_all add: quiet_triage_def outstanding_documents_def wanted_documents_def unresolved_facts_def
        no_requirements_def history_reasons_def clear_history_def matched_def)
  have "matched_reasons created_claim quiet_triage = Inr []"
    unfolding matched_reasons_def Let_def amount policy
    by (simp add: checks input claim member_of_def created_claim_values matched_def)
  then show ?thesis using created input by (simp add: triage_claim_def worst_severity_def fast_triage_def)
qed

section \<open>A proposal\<close>

definition location_proposal :: form_change where
  "location_proposal = \<lparr>pc_field_code = ''incident.location'', pc_value = V_text ''Auckland'',
     pc_source = Src_claimant, pc_status = Confirmed, pc_needed_for = Need_current_action,
     pc_confidence = None, pc_precision = Exact, pc_relation = None, pc_reported_text = None,
     pc_source_evidence_id = None\<rparr>"

definition sample_turn :: turn_context where
  "sample_turn = \<lparr>tc_message_id = ''msg_1'', tc_message_text = ''It happened in Auckland'', tc_now = Aware 4,
     tc_authority = Outcome_authorised, tc_proposal_source = ''agent'', tc_grounding_refs = [],
     tc_media_types = [], tc_new_ids = (\<lambda>n. ''ast_1''), tc_new_item_ids = (\<lambda>n. ''itm_1''),
     tc_float_text = (\<lambda>r. [])\<rparr>"

definition location_evaluation :: form_evaluation where
  "location_evaluation = evaluated default_evaluator quiet_input urgent_claim
     (known_results default_evaluator quiet_input urgent_claim)"

lemma location_offered:
  obtains s where "selection_of location_evaluation ''incident.location'' = Some s"
    "s \<in> set (fe_field_selection location_evaluation)" "fs_field_code s = ''incident.location''"
    "fs_selection_state s \<in> {Sel_required_now, Sel_candidate_now}"
proof -
  let ?ev = default_evaluator
  let ?known = "known_results ?ev quiet_input urgent_claim"
  let ?r = "family_resolution ?ev quiet_input urgent_claim"
  let ?oc = "open_family_candidates ?ev quiet_input urgent_claim"
  let ?permitted = "permitted_fields ?ev ?oc (tf_product_family ?r) (other_candidates ?r) ?known"
  let ?select = "select_field ?permitted urgent_claim (tf_product_family ?r) (other_candidates ?r)
      (required_codes ?ev quiet_input urgent_claim ?known) ?oc"
  have selections: "fe_field_selection location_evaluation = map ?select (rg_fields default_registry)"
    by (simp add: location_evaluation_def evaluated_requirements evaluation_selections_def project_requirements_def
        Let_def standard_fields [OF default_standard])
  have "''incident.location'' \<in> REGISTERED_FIELD_CODES"
    unfolding contracts_registered [symmetric] by (simp add: FIELD_VALUE_CONTRACTS_def)
  then have registered: "''incident.location'' \<in> fd_code ` set (rg_fields default_registry)"
    unfolding default_field_codes .
  have "staff_only (snd p) = {}" if "p \<in> set ?known" for p
    using that settled_results_ids [OF default_standard, of quiet_input urgent_claim] no_staff_only
    by (fastforce simp: known_results_def)
  then have "set xs \<subseteq> set (permit oc ?known xs)" for xs oc by (rule permit_keeps)
  moreover have "''incident.location'' \<in> set (filter (\<lambda>code. code \<in> set (field_codes default_registry)) COMMON_FIELDS)"
    using registered by (simp add: COMMON_FIELDS_def field_codes_def)
  ultimately have permitted: "''incident.location'' \<in> set ?permitted"
    unfolding permitted_fields_def Let_def default_evaluator_def evaluator.simps set_append by blast
  have missing: "dict_get (ic_form urgent_claim) ''incident.location'' = None" by (simp add: urgent_claim_def)
  have state: "fs_selection_state (?select d) \<in> {Sel_required_now, Sel_candidate_now}"
    if "d \<in> set (rg_fields default_registry)" "fd_code d = ''incident.location''" for d
  proof -
    have "fd_families d = []" "\<not> fd_system_owned d"
      using default_field_contract(1,3) [OF that(1)] that(2) by (simp_all add: FAMILY_FIELDS_def SYSTEM_OWNED_FIELDS_def)
    then show ?thesis using permitted missing that(2) by (simp add: select_field_def Let_def ends_with_def)
  qed
  obtain s where s: "selection_of location_evaluation ''incident.location'' = Some s"
    using registered unfolding selection_of_def selections by (fastforce simp: find_None_iff)
  then have "s \<in> set (fe_field_selection location_evaluation)" "fs_field_code s = ''incident.location''"
    by (auto simp: selection_of_def find_Some_iff)
  then show thesis using that s state unfolding selections by auto
qed

lemma default_value_type:
  assumes "field_by_code default_registry code = Some d"
  shows "map_of FIELD_VALUE_CONTRACTS code = Some (fd_value_type d, fd_allowed_values d)"
proof -
  have "d \<in> set (rg_fields default_registry)" "fd_code d = code"
    using map_of_SomeD [of _ code d] assms by (fastforce simp: field_by_code_def)+
  then show ?thesis
    by (auto simp: default_registry_def registered_fields_of_def field_definition_of_def split: option.splits)
qed

lemma location_proposed:
  "\<exists>f. build_form_changes sample_turn (Some location_evaluation) [] [location_proposal] = Inr [(''incident.location'', f)]
     \<and> ff_status f = Confirmed"
proof -
  obtain s where s: "selection_of location_evaluation ''incident.location'' = Some s"
    "fs_selection_state s \<in> {Sel_required_now, Sel_candidate_now}" by (rule location_offered)
  have registered: "''incident.location'' \<in> REGISTERED_FIELD_CODES"
    unfolding contracts_registered [symmetric] by (simp add: FIELD_VALUE_CONTRACTS_def)
  have "field_by_code default_registry ''incident.location'' \<noteq> None"
    using registered unfolding default_field_codes [symmetric] field_by_code_def map_of_eq_None_iff by force
  then obtain d where d: "field_by_code default_registry ''incident.location'' = Some d" by blast
  have "map_of FIELD_VALUE_CONTRACTS ''incident.location'' = Some (T_location, [])"
    by (simp add: FIELD_VALUE_CONTRACTS_def)
  then have "fd_value_type d = T_location" using default_value_type [OF d] by simp
  moreover have "filled_text (V_text ''Auckland'')" by code_simp
  ultimately have "value_check location_proposal = Inr ()"
    using d by (simp add: value_check_def location_proposal_def validate_registered_field_value_def value_matches_def)
  then show ?thesis
    using s registered
    by (auto simp: build_form_changes_def reject_unprotected_participant_fields_def propose_field_def
        location_proposal_def sample_turn_def evidence_guards_def branch_guards_def PROTECTED_PARTICIPANT_FIELDS_def
        resolve_form_change_def replacing_change_def with_grounding_def proposal_context_def accepted_status_of_def Let_def)
qed

definition sample_item :: contents_item where
  "sample_item = \<lparr>ci_item_id = ''itm_1'', ci_details = \<lparr>it_description = ''laptop'', it_category = None, it_quantity = 1,
     it_brand = None, it_model = None, it_loss_type = None, it_ownership = None, it_estimated_value = None\<rparr>,
     ci_source = Src_claimant, ci_source_refs = [''msg_1''], ci_status = Proposed, ci_needed_for = Need_current_action,
     ci_confidence = None, ci_resolution_state = None, ci_current_assertion_id = None, ci_assertions = [],
     ci_updated_at = Aware 0, ci_updated_by = claimant_one\<rparr>"

lemma sample_item_sound: "item_sound repr sample_item"
  by (simp add: item_sound_def sample_item_def)

end
