(* ===== verification/Intake_Properties.thy ===== *)
theory Intake_Properties
  imports Intake_Examples
begin

text \<open>
  The properties of the intake: the creation of the formal Claim and its triage, the evaluation of the
  dynamic form, the gate for what an agent proposes, the history of facts, and the signals read from a
  message. Each property that has hypotheses is followed by a witness on the records of
  \<open>Intake_Examples\<close>.
\<close>

section \<open>Creating the formal Claim\<close>

text \<open>
  C2. The claims service is asked to create a Claim at most once: after a
  request that reached it, unless the adapter itself reported that nothing was submitted, and after any
  admissible sequence of repository calls none of which records such a report, no request for the same
  Claim, whatever its decision, adapter and clock, asks the service to create again.
\<close>

theorem create_asked_at_most_once:
  assumes inv: "creation_inv s" and free: "identity_free s q"
    and asked: "asks_to_create env adapter q clock s w"
    and call: "create_external_claim env adapter q clock s w = (a, s1, w1)"
    and sent: "\<nexists>code w2. ca_create_claim adapter q (creation_fingerprint env q) w
      = (Inl (Creation_failed code Creation_not_submitted), w2)"
    and between: "admissible creation_allowed (creation_exec dump) s1 calls"
      "list_all (\<lambda>call. \<not> reports_unsent call) calls"
    and same: "cq_working_claim_id q' = cq_working_claim_id q"
  shows "\<not> asks_to_create env' adapter' q' clock' (run (creation_exec dump) s1 calls) w'"
proof -
  let ?k = "cq_working_claim_id q"
  obtain f where f: "create_external_claim env (adapter\<lparr>ca_create_claim := f\<rparr>) q clock s w
      \<noteq> create_external_claim env adapter q clock s w"
    using asked by (auto simp: asks_to_create_def)
  obtain c d p where c: "wc_claim_id c = ?k"
    and p: "reserve_claim_creation_operation (ce_dump_evidence env) s p = Inr (True, put_creation p s)"
      "co_claim_id p = wc_claim_id c" "co_request_fingerprint p = creation_fingerprint env q"
      "co_status p = Cop_prepared" "validate_creation_state p = Inr ()"
      "co_operation_id p = claim_creation_operation_id (wc_claim_id c) (cq_authorised_decision_id q)"
    and contact: "create_external_claim env adapter q clock s w
      = contact_provider env adapter q c d p clock (put_creation p s) w"
    by (rule create_asks [OF inv f])
  let ?t = "put_creation p s"
  have "creation_allowed s (Reserve_creation p)" using p(2,5,6) free c by (simp add: identity_free_def)
  then have t: "creation_inv ?t" using reserve_step [OF inv _ p(1)] by blast
  have stored: "dict_get (cs_operations ?t) (co_operation_id p) = Some p" by simp
  then have op: "creation_of_claim ?t ?k = Some p" using creation_of_claim_iff [OF t] p(2) c by simp
  have answer: "contact_provider env adapter q c d p clock ?t w = (a, s1, w1)" using contact call by simp
  have step: "creation_step ?t s1"
    using contact_sound [OF t stored p(2,3), of adapter d clock w] answer by (simp add: sound_answer_def)
  obtain x where x: "creation_of_claim s1 ?k = Some x" "co_operation_id x = co_operation_id p"
    by (rule grows_creation_of_claim [OF t conjunct1 [OF step] conjunct2 [OF step] op])
  have "dict_get (cs_operations s1) (co_operation_id p) = Some x"
    using x creation_of_claim_iff [OF conjunct1 [OF step]] by metis
  then have "co_status x \<noteq> Cop_retryable_failure"
    using contact_statuses [OF stored p(4) answer] sent by metis
  then obtain y where "creation_of_claim (run (creation_exec dump) s1 calls) ?k = Some y"
    "co_status y \<noteq> Cop_retryable_failure"
    using not_retryable_kept [OF conjunct1 [OF step] between x(1)] by blast
  then show ?thesis
    using asked_only_when_safe [OF creation_machine.run_inv [OF conjunct1 [OF step] between(1)]] same by metis
qed

lemma create_asked_at_most_once_witness:
  "asks_to_create sample_env broken_adapter sample_request first_clock intake_store []
   \<and> (\<exists>a s1 w1. create_external_claim sample_env broken_adapter sample_request first_clock intake_store [] = (a, s1, w1)
        \<and> \<not> asks_to_create sample_env sample_adapter sample_request second_clock s1 w1)"
proof -
  have ready: "creation_ready sample_env (ca_integration_source broken_adapter) sample_request first_clock intake_store
      reported_claim create_decision" using sample_ready by (simp add: sample_source)
  obtain p where broken: "create_external_claim sample_env broken_adapter sample_request first_clock intake_store []
      = (Inl Raised_adapter, put_creation p intake_store,
         [(''clm_1'', creation_fingerprint sample_env sample_request, sample_result)])"
    using ready_reserved(1) [OF ready, of "[]"] broken_answer by (auto simp: contact_provider_def)
  have "sample_adapter = broken_adapter\<lparr>ca_create_claim := ca_create_claim sample_adapter\<rparr>"
    by (simp add: broken_adapter_def)
  moreover have "\<exists>a t w1. create_external_claim sample_env sample_adapter sample_request first_clock intake_store []
      = (Inr a, t, w1)"
    using answered_request_settles [OF _ sample_clock(1) sample_answer(1)] sample_ready sample_answer(2-5)
    by (metis sample_source(1))
  ultimately have asks: "asks_to_create sample_env broken_adapter sample_request first_clock intake_store []"
    using broken unfolding asks_to_create_def by (metis Inl_Inr_False Pair_inject)
  have "\<not> asks_to_create sample_env sample_adapter sample_request second_clock
      (run (creation_exec (\<lambda>es. ''[]'')) (put_creation p intake_store) [])
      [(''clm_1'', creation_fingerprint sample_env sample_request, sample_result)]"
    by (rule create_asked_at_most_once [OF sample_inv sample_free asks broken]) (simp_all add: broken_answer)
  then show ?thesis using asks broken by auto
qed

text \<open>
  C13. An authorised request is lodged in one call: when the request matches the stored
  Claim, its decision and its evidence, no operation exists yet and the provider answers with a result
  for the route, the call returns that result; the Claim then carries it at the next revision, completed
  if the result says created, the operation is accepted with the history checks of its reservation, and
  the workbench reads exactly those checks back.
\<close>

theorem request_lodged:
  assumes "creation_ready env (ca_integration_source adapter) q clock s c d" "clock_ready clock s"
    and "ca_create_claim adapter q (creation_fingerprint env q) w = (Inr \<lparr>oc_result = r, oc_replayed = b\<rparr>, w1)"
    and "xc_source r = ca_integration_source adapter" "xc_route r = cq_route q" "referenced r d"
    and "starts_with ''dec_'' (dn_decision_id d)"
  shows "\<exists>t c' x. create_external_claim env adapter q clock s w = (Inr (r, b), t, w1)
    \<and> dict_get (cs_claims t) (cq_working_claim_id q) = Some c' \<and> lodged_as c d r c'
    \<and> dict_get (cs_operations t) (claim_creation_operation_id (cq_working_claim_id q) (cq_authorised_decision_id q)) = Some x
    \<and> co_status x = Cop_accepted \<and> co_result x = Some r
    \<and> (claim_is_created c' \<longrightarrow> lodging_history_checks t c' = Some (ce_lodging_history env s c (ck_reserved_at clock)))"
proof -
  obtain t c' x where t: "create_external_claim env adapter q clock s w = (Inr (r, b), t, w1)"
    "dict_get (cs_claims t) (cq_working_claim_id q) = Some c'" "lodged_as c d r c'"
    "dict_get (cs_operations t) (claim_creation_operation_id (cq_working_claim_id q) (cq_authorised_decision_id q)) = Some x"
    "co_status x = Cop_accepted" "co_result x = Some r"
    "co_history_checks x = Some (ce_lodging_history env s c (ck_reserved_at clock))"
    using answered_request_settles [OF assms(1-6)] by blast
  have ids: "wc_claim_id c' = cq_working_claim_id q" "dn_decision_id d = cq_authorised_decision_id q"
    using t(3) assms(1) by (simp_all add: lodged_as_def creation_ready_def)
  have "lodging_history_checks t c' = Some (ce_lodging_history env s c (ck_reserved_at clock))" if "claim_is_created c'"
  proof -
    have "xc_creation_status r = Result_created" using that t(3) by (simp add: claim_is_created_def lodged_as_def)
    then obtain u ref where "wc_terminal_disposition c' = Some u" "td_source_refs u = [dn_decision_id d, ref]"
      using t(3) by (auto simp: lodged_as_def)
    then show ?thesis
      using t(4,5,7) ids assms(7) by (simp add: lodging_history_checks_def map_filter_simps)
  qed
  then show ?thesis using t by blast
qed

lemma request_lodged_witness:
  "\<exists>t c'. create_external_claim sample_env sample_adapter sample_request first_clock intake_store []
      = (Inr (sample_result, False), t, [(''clm_1'', creation_fingerprint sample_env sample_request, sample_result)])
    \<and> dict_get (cs_claims t) ''clm_1'' = Some c' \<and> lodged_as reported_claim create_decision sample_result c'
    \<and> lodging_history_checks t c' = Some (clear_history (Aware 10))"
proof -
  have "starts_with ''dec_'' (dn_decision_id create_decision)" by (simp add: create_decision_def starts_with_def)
  note lodged = request_lodged [OF _ sample_clock(1) sample_answer(1) _ sample_answer(3,5) this, unfolded sample_source,
      OF sample_ready sample_answer(2)]
  have "cq_working_claim_id sample_request = ''clm_1''"
    "ce_lodging_history sample_env intake_store reported_claim (ck_reserved_at first_clock) = clear_history (Aware 10)"
    by (simp_all add: sample_defs first_clock_def)
  then show ?thesis using lodged sample_answer(4) by (auto simp: lodged_as_def claim_is_created_def)
qed

text \<open>
  C14. A lost answer is recovered without creating again: when the provider created the
  Claim but its answer never arrived, the call raises and leaves the operation prepared; the next call
  asks no creation, finds the result by reconciliation and settles it on the Claim.
\<close>

theorem lost_answer_settled:
  assumes ready: "creation_ready env (ca_integration_source adapter) q clock s c d"
    and lost: "ca_create_claim adapter q (creation_fingerprint env q) w = (Inl Adapter_crash, w1)"
    and later: "clock_ready clock' s" "not_before (ck_recorded_at clock') (ck_reserved_at clock)"
    and found: "ca_reconcile_claim adapter' q (creation_fingerprint env q) w1
        = (Inr (Some \<lparr>oc_result = r, oc_replayed = b\<rparr>), w2)"
      "ca_integration_source adapter' = ca_integration_source adapter"
      "xc_source r = ca_integration_source adapter" "xc_route r = cq_route q" "referenced r d"
  shows "\<exists>s1. create_external_claim env adapter q clock s w = (Inl Raised_adapter, s1, w1)
    \<and> \<not> asks_to_create env adapter' q clock' s1 w1
    \<and> (\<exists>t c'. create_external_claim env adapter' q clock' s1 w1 = (Inr (r, True), t, w2)
         \<and> dict_get (cs_claims t) (cq_working_claim_id q) = Some c' \<and> lodged_as c d r c')"
proof -
  note r = ready [unfolded creation_ready_def]
  define p where "p = prepared_operation env (ca_integration_source adapter) q c d
      (list_creation_evidence s (wc_claim_id c) (wc_customer_id c)) None (ck_reserved_at clock) s"
  note reserved = ready_reserved [OF ready, folded p_def]
  let ?s = "put_creation p s"
  have first: "create_external_claim env adapter q clock s w = (Inl Raised_adapter, ?s, w1)"
    using reserved(1) lost by (simp add: contact_provider_def)
  have fields: "co_integration_source p = ca_integration_source adapter" "co_route p = expected_route c"
    "co_updated_at p = ck_reserved_at clock"
    "co_operation_id p = claim_creation_operation_id (wc_claim_id c) (cq_authorised_decision_id q)"
    by (simp_all add: p_def prepared_operation_def)
  have valid: "validate_creation_state p = Inr ()" using r by (simp add: p_def)
  have "1 \<le> cq_claim_revision q"
    using r by (simp add: validate_creation_iff creation_fields_ok_def prepared_operation_def)
  then have settle: "settleable env ?s c p clock'"
    using r later(1) reserved(2) unfolding settleable_def clock_ready_def creation_access_closed_def evidence_of_def
    by (simp add: put_creation_def)
  have matches: "result_matches p r" using found(3,4) fields r by (simp add: result_matches_def lodging_guards_def)
  have decided: "creation_decision_of ?s (wc_claim_id c) (cq_authorised_decision_id q) = Some d"
    using r by (simp add: creation_decision_of_def put_creation_def)
  have claim: "dict_get (cs_claims ?s) (cq_working_claim_id q) = Some c" "wc_claim_id c = cq_working_claim_id q"
    using r by simp_all
  have stored: "dict_get (cs_operations ?s) (claim_creation_operation_id (wc_claim_id c) (cq_authorised_decision_id q)) = Some p"
    using fields(4) by simp
  have ok: "co_status p \<in> {Cop_prepared, Cop_unknown_outcome}" "co_request_fingerprint p = creation_fingerprint env q"
    "co_integration_source p = ca_integration_source adapter'" "not_before (ck_recorded_at clock') (co_updated_at p)"
    "decision_authorises q d"
    using fields found(2) later(2) r by (simp_all add: p_def)
  note recovered = lost_answer_recovered [OF claim stored fields(4) valid ok(1-4) decided ok(5) settle found(1) matches found(5)]
  show ?thesis using first recovered by blast
qed

lemma lost_answer_settled_witness:
  "\<exists>s1 w1 t. create_external_claim sample_env broken_adapter sample_request first_clock intake_store []
      = (Inl Raised_adapter, s1, w1)
    \<and> create_external_claim sample_env sample_adapter sample_request second_clock s1 w1 = (Inr (sample_result, True), t, w1)"
proof -
  have "creation_ready sample_env (ca_integration_source broken_adapter) sample_request first_clock intake_store
      reported_claim create_decision" using sample_ready by (simp add: sample_source)
  note settled = lost_answer_settled [OF this broken_answer sample_clock(2) _ sample_reconciled]
  have "not_before (ck_recorded_at second_clock) (ck_reserved_at first_clock)"
    by (simp add: first_clock_def second_clock_def incomparable_def dt_before_def)
  then show ?thesis using settled sample_answer(2,3,5) by (simp add: sample_source) blast
qed

text \<open>
  C21. A lodged result is final: after a call that returned a result, and any
  admissible sequence of repository calls, the same request returns that result again, changes nothing
  and does not consult the provider.
\<close>

theorem lodged_result_final:
  assumes inv: "creation_inv s" "identity_free s q"
    and call: "create_external_claim env adapter q clock s w = (Inr (r, b), s1, w1)"
    and between: "admissible creation_allowed (creation_exec dump) s1 calls"
    and same: "cq_working_claim_id q' = cq_working_claim_id q"
      "creation_fingerprint env' q' = creation_fingerprint env q"
  shows "create_external_claim env' adapter' q' clock' (run (creation_exec dump) s1 calls) w'
    = (Inr (r, True), run (creation_exec dump) s1 calls, w')"
proof -
  have step: "creation_inv s1" "holds_result s1 (cq_working_claim_id q) (creation_fingerprint env q) r"
    using create_sound [OF inv, of env adapter clock w] call by (auto simp: sound_answer_def)
  then obtain c where c: "dict_get (cs_claims s1) (cq_working_claim_id q) = Some c" "lc_external_result c = Some r"
    "lc_external_claim_fingerprint c = Some (creation_fingerprint env q)"
    by (auto simp: holds_result_def)
  have "creation_grows s1 (run (creation_exec dump) s1 calls)"
    by (rule creation_machine.run_grows [OF step(1) between])
  then obtain e where "dict_get (cs_claims (run (creation_exec dump) s1 calls)) (cq_working_claim_id q) = Some e"
    "lc_external_result e = Some r" "lc_external_claim_fingerprint e = Some (creation_fingerprint env q)"
    using c unfolding creation_grows_def by fastforce
  then show ?thesis using same by (simp add: create_external_claim_def)
qed

lemma lodged_result_final_witness:
  "\<exists>t w1. create_external_claim sample_env sample_adapter sample_request first_clock intake_store []
      = (Inr (sample_result, False), t, w1)
    \<and> create_external_claim sample_env broken_adapter sample_request second_clock t w1 = (Inr (sample_result, True), t, w1)"
proof -
  obtain t w1 where t: "create_external_claim sample_env sample_adapter sample_request first_clock intake_store []
      = (Inr (sample_result, False), t, w1)"
    using answered_request_settles [OF _ sample_clock(1) sample_answer(1)] sample_ready sample_answer(2-5)
    by (metis sample_source(1))
  have "create_external_claim sample_env broken_adapter sample_request second_clock
      (run (creation_exec (\<lambda>es. ''[]'')) t []) w1 = (Inr (sample_result, True), run (creation_exec (\<lambda>es. ''[]'')) t [], w1)"
    by (rule lodged_result_final [OF sample_inv sample_free t]) simp_all
  then show ?thesis using t by auto
qed

text \<open>
  C10. Every admissible sequence of reservations, advances, settlements and other
  changes of Claims keeps at most one creation operation per Claim, each one valid; keeps the identity of
  every operation; leaves accepted and failed operations as they are and never makes an operation of
  unknown outcome or with a recorded result retryable; and never changes the result a Claim carries,
  which is always the result of its accepted operation.
\<close>

theorem creation_run_invariant:
  assumes "creation_inv s" "admissible creation_allowed (creation_exec dump) s calls"
  defines "t \<equiv> run (creation_exec dump) s calls"
  shows "(\<forall>k p. dict_get (cs_operations t) k = Some p \<longrightarrow> validate_creation_state p = Inr ()
        \<and> (\<forall>l p'. dict_get (cs_operations t) l = Some p' \<longrightarrow> co_claim_id p' = co_claim_id p \<longrightarrow> p' = p))
    \<and> (\<forall>k p. dict_get (cs_operations s) k = Some p \<longrightarrow> (\<exists>p'. dict_get (cs_operations t) k = Some p'
        \<and> same_creation_identity p p'
        \<and> (co_status p \<in> {Cop_accepted, Cop_terminal_failure} \<longrightarrow> p' = p)
        \<and> (co_status p \<in> {Cop_unknown_outcome, Cop_settlement_pending} \<longrightarrow>
             co_status p' \<in> {Cop_unknown_outcome, Cop_settlement_pending, Cop_accepted})))
    \<and> (\<forall>k c r. dict_get (cs_claims s) k = Some c \<longrightarrow> lc_external_result c = Some r \<longrightarrow>
        (\<exists>c'. dict_get (cs_claims t) k = Some c' \<and> lc_external_result c' = Some r))
    \<and> (\<forall>k c r. dict_get (cs_claims t) k = Some c \<longrightarrow> lc_external_result c = Some r \<longrightarrow>
        (\<exists>l p. dict_get (cs_operations t) l = Some p \<and> co_claim_id p = k \<and> co_status p = Cop_accepted
           \<and> co_result p = Some r))"
proof -
  have inv: "creation_inv t" and grows: "creation_grows s t"
    unfolding t_def using creation_machine.run_inv creation_machine.run_grows assms(1,2) by blast+
  have one: "p' = p" if "dict_get (cs_operations t) k = Some p" "dict_get (cs_operations t) l = Some p'"
    "co_claim_id p' = co_claim_id p" for k l p p'
    using inv_one_operation [OF inv that(2,1,3)] that by simp
  have kept: "\<exists>p'. dict_get (cs_operations t) k = Some p' \<and> same_creation_identity p p'
      \<and> (co_status p \<in> {Cop_accepted, Cop_terminal_failure} \<longrightarrow> p' = p)
      \<and> (co_status p \<in> {Cop_unknown_outcome, Cop_settlement_pending} \<longrightarrow>
           co_status p' \<in> {Cop_unknown_outcome, Cop_settlement_pending, Cop_accepted})"
    if p: "dict_get (cs_operations s) k = Some p" for k p
  proof -
    obtain p' where "dict_get (cs_operations t) k = Some p'" "creation_progress p p'"
      using grows p unfolding creation_grows_def by blast
    then show ?thesis by (intro exI [of _ p']) (auto simp: creation_progress_def)
  qed
  have result: "\<exists>c'. dict_get (cs_claims t) k = Some c' \<and> lc_external_result c' = Some r"
    if "dict_get (cs_claims s) k = Some c" "lc_external_result c = Some r" for k c r
    using grows that unfolding creation_grows_def by (metis option.distinct(1))
  have settled: "\<exists>l p. dict_get (cs_operations t) l = Some p \<and> co_claim_id p = k \<and> co_status p = Cop_accepted
      \<and> co_result p = Some r"
    if c: "dict_get (cs_claims t) k = Some c" and r: "lc_external_result c = Some r" for k c r
  proof -
    obtain l p where "dict_get (cs_operations t) l = Some p" "settled_by c p"
      using inv_settled [OF inv c] r by (metis option.distinct(1))
    then show ?thesis using inv_claim [OF inv c] r by (auto simp: settled_by_def)
  qed
  show ?thesis using inv_operation(2) [OF inv] one kept result settled by blast
qed

definition sample_creation :: creation_operation where
  "sample_creation = prepared_operation sample_env Integration_fixture sample_request reported_claim create_decision []
     None (ck_reserved_at first_clock) intake_store"

lemma reserved_inv: "creation_inv (put_creation sample_creation intake_store)"
proof -
  have "validate_creation_state sample_creation = Inr ()"
    using sample_ready unfolding creation_ready_def sample_evidence sample_creation_def by blast
  moreover have "reserve_claim_creation_operation (\<lambda>es. ''[]'') intake_store sample_creation
      = Inr (True, put_creation sample_creation intake_store)"
    by (simp add: reserve_claim_creation_operation_def reservation_authorised_def sample_creation_def
        prepared_operation_def creation_of_claim_def sample_evidence evidence_of_def sample_defs)
  ultimately show ?thesis
    using reserve_step [OF sample_inv, of sample_creation] by (simp add: intake_store_def)
qed

text \<open>A reserved operation survives a later change of its Claim, valid and with its identity.\<close>

lemma creation_run_invariant_witness:
  "\<exists>p. dict_get (cs_operations (run (creation_exec (\<lambda>es. ''[]'')) (put_creation sample_creation intake_store)
       [Save_lodged_claim (reported_claim\<lparr>wc_revision := 4\<rparr>) 3 None])) (co_operation_id sample_creation) = Some p
     \<and> same_creation_identity sample_creation p \<and> validate_creation_state p = Inr ()"
proof -
  have "admissible creation_allowed (creation_exec (\<lambda>es. ''[]'')) (put_creation sample_creation intake_store)
      [Save_lodged_claim (reported_claim\<lparr>wc_revision := 4\<rparr>) 3 None]"
    by (simp add: intake_store_def reported_claim_def)
  note all = creation_run_invariant [OF reserved_inv this]
  have "dict_get (cs_operations (put_creation sample_creation intake_store)) (co_operation_id sample_creation)
      = Some sample_creation" by simp
  then show ?thesis using all by blast
qed

section \<open>Triage\<close>



section \<open>The dynamic form\<close>

text \<open>
  C5. Whatever overlay of controlled rules is published, the protected
  branches follow the Claim: an evaluation reports the safety branch as active when the Claim is urgent or
  confirms injury or danger, the human support branch when the Claim requires support, the review branch
  when its coverage, fraud signal or workflow asks for it, and the branch of the selected family; and an
  urgent Claim interrupts the turn and asks for urgent support.
\<close>

theorem protected_branches_follow_claim:
  assumes rules: "validate_controlled_rules rules = Inr rules'" and i: "input_ok i"
    and e: "evaluate (branch_evaluator rules m) i c = Inr e"
  shows "(urgent c \<or> confirmed_truthy c ''incident.injury_or_danger'' \<longrightarrow>
        ''safety.injury_or_danger'' \<in> set (fe_active_branches e))
    \<and> (support_required c \<longrightarrow> ''human_support'' \<in> set (fe_active_branches e))
    \<and> (review_sources c \<noteq> [] \<longrightarrow> ''professional_review'' \<in> set (fe_active_branches e))
    \<and> (\<forall>f. fe_selected_family e = Some f \<longrightarrow> f \<in> set FAMILY_NAMES \<and> ''family.'' @ f \<in> set (fe_active_branches e))
    \<and> (urgent c \<longrightarrow> fe_interruption_result e = Interrupt_urgent_safety \<and> Urgent_support \<in> set (fe_handoff_intents e))"
proof -
  let ?ev = "branch_evaluator rules m"
  have e': "e = evaluated ?ev i c (known_results ?ev i c)"
    using e evaluate_standard [OF published_standard, of rules m i c] by simp
  have active: "fe_active_branches e = ids_with Br_active (settled_results ?ev i c)" by (simp add: e')
  have known: "k \<in> set (fe_active_branches e)"
    if "cb_rule_id (registered_branch k) \<in> set PROTECTED_RULE_IDS" "active_finding k (branch_findings ?ev i c)" for k
    unfolding active by (rule protected_active [OF rules that])
  have ids: "cb_rule_id (registered_branch k) \<in> set PROTECTED_RULE_IDS"
    if "k \<in> {''safety.injury_or_danger'', ''human_support'', ''professional_review''}" for k
    using that protected_rule_ids(1-3) by (auto simp: PROTECTED_RULE_IDS_def)
  have family: "f \<in> set FAMILY_NAMES \<and> ''family.'' @ f \<in> set (fe_active_branches e)"
    if "fe_selected_family e = Some f" for f
    using that selected_family_finding [OF i, of ?ev c f] known family_rule_protected by (auto simp: e')
  have "fe_interruption_result e = Interrupt_urgent_safety \<and> Urgent_support \<in> set (fe_handoff_intents e)"
    if "urgent c" using that by (simp add: e' interruption_of_def handoff_intents_def)
  then show ?thesis using known ids protected_findings [of c ?ev i] family by blast
qed

lemma protected_branches_follow_claim_witness:
  "validate_controlled_rules witness_rule_off = Inr witness_rule_off
   \<and> (\<exists>e. evaluate (branch_evaluator witness_rule_off False) quiet_input urgent_claim = Inr e
        \<and> ''safety.injury_or_danger'' \<in> set (fe_active_branches e) \<and> ''human_support'' \<in> set (fe_active_branches e)
        \<and> ''professional_review'' \<in> set (fe_active_branches e) \<and> fe_interruption_result e = Interrupt_urgent_safety)"
proof -
  have rules: "validate_controlled_rules witness_rule_off = Inr witness_rule_off" by (rule witness_rule_off_valid)
  have claim: "urgent urgent_claim" "support_required urgent_claim" "review_sources urgent_claim \<noteq> []"
    by (simp_all add: urgent_claim_def urgent_def support_required_def review_sources_def intake_claim.defs)
  have "input_ok quiet_input" by (simp add: input_ok_def quiet_input_def)
  then show ?thesis
    using protected_branches_follow_claim [OF rules, of quiet_input False urgent_claim] claim rules
      evaluate_standard [OF published_standard, of witness_rule_off False quiet_input urgent_claim] by blast
qed

text \<open>
  C11. Along every sequence of evaluations each content branch is reported once and with
  its registered rule, the active, candidate, suspended and exited branches share out the reported
  branches without overlap, and a conditional branch that was active or a candidate is never dropped: as
  long as the rules version is the same, the next evaluation reports it again.
\<close>

theorem branches_accounted:
  assumes p: "reachable_evaluation p" and ev: "standard_evaluator ev" and i: "in_previous i = Some (prior_of p)"
    and e: "evaluate ev i c = Inr e"
  shows "well_formed_results (fe_branch_results e)
    \<and> set (map br_branch_id (fe_branch_results e)) = set (fe_active_branches e) \<union> set (fe_candidate_branches e)
        \<union> set (fe_suspended_branches e) \<union> set (fe_exited_branches e)
    \<and> distinct (fe_active_branches e @ fe_candidate_branches e @ fe_suspended_branches e @ fe_exited_branches e)
    \<and> (fe_branch_rules_version p = fe_branch_rules_version e \<longrightarrow>
        (set (fe_active_branches p) \<union> set (fe_candidate_branches p)) \<inter> set CONDITIONAL_IDS
          \<subseteq> set (map br_branch_id (fe_branch_results e)))"
proof -
  have lists: "fe_active_branches e = ids_with Br_active (fe_branch_results e)"
    "fe_candidate_branches e = ids_with Br_candidate (fe_branch_results e)"
    "fe_suspended_branches e = ids_with Br_suspended (fe_branch_results e)"
    "fe_exited_branches e = ids_with Br_exited (fe_branch_results e)" if "reachable_evaluation e" for e
    using that evaluate_standard by (cases rule: reachable_evaluation.cases; fastforce)+
  have reach: "reachable_evaluation e" by (rule next_evaluation [OF p ev i e])
  note well = reachable_well_formed [OF reach]
  have ids: "distinct (map br_branch_id (fe_branch_results e))" using well by (simp add: well_formed_results_def)
  have prior: "distinct (ids (pe_branch_results q)) \<and> (\<forall>r\<in>set (pe_branch_results q). well_reported r)"
    if "in_previous i = Some q" for q
    using that i reachable_well_formed [OF p] by (auto simp: prior_of_def well_formed_results_def)
  have version: "fe_branch_rules_version e = rg_branch_rules_version (ev_registry ev)"
    using e evaluate_standard [OF ev, of i c] by auto
  have kept: "br_branch_id r \<in> set (ids (fe_branch_results e))"
    if "fe_branch_rules_version p = fe_branch_rules_version e" "r \<in> set (fe_branch_results p)" "supported r" for r
  proof -
    have "br_branch_id r \<in> set (ids (reconciled_results ev i c))"
      using reconciled_facts(4) [OF ev prior i] that version by (simp add: prior_of_def)
    then show ?thesis by (simp only: evaluate_results [OF ev e] settled_reconciled policy_ids)
  qed
  have "(set (fe_active_branches p) \<union> set (fe_candidate_branches p)) \<inter> set CONDITIONAL_IDS
      \<subseteq> set (ids (fe_branch_results e))" if same: "fe_branch_rules_version p = fe_branch_rules_version e"
    using kept [OF same] unfolding lists(1,2) [OF p] by (force simp: ids_with_def supported_def)
  moreover have "distinct (fe_active_branches e @ fe_candidate_branches e @ fe_suspended_branches e @ fe_exited_branches e)"
    unfolding lists [OF reach] distinct_append set_append using ids_with_distinct [OF ids] ids_with_disjoint [OF ids]
    by blast
  ultimately show ?thesis using well status_partition [of "fe_branch_results e"] unfolding lists [OF reach] by blast
qed

lemma branches_accounted_witness:
  "\<exists>p e. evaluate default_evaluator quiet_input urgent_claim = Inr p
     \<and> evaluate default_evaluator (quiet_input\<lparr>in_previous := Some (prior_of p)\<rparr>) (intake_claim.truncate reported_claim) = Inr e
     \<and> ''human_support'' \<in> set (fe_active_branches p) \<and> ''human_support'' \<in> set (map br_branch_id (fe_branch_results e))"
proof -
  let ?p = "evaluated default_evaluator quiet_input urgent_claim (known_results default_evaluator quiet_input urgent_claim)"
  let ?i = "quiet_input\<lparr>in_previous := Some (prior_of ?p)\<rparr>"
  let ?c = "intake_claim.truncate reported_claim"
  let ?e = "evaluated default_evaluator ?i ?c (known_results default_evaluator ?i ?c)"
  have p: "evaluate default_evaluator quiet_input urgent_claim = Inr ?p"
    and e: "evaluate default_evaluator ?i ?c = Inr ?e" using evaluate_standard [OF default_standard] by blast+
  have reach: "reachable_evaluation ?p"
    by (rule first_evaluation [OF default_standard _ p]) (simp add: quiet_input_def)
  have "support_required urgent_claim" by (simp add: urgent_claim_def support_required_def intake_claim.defs)
  then have active: "''human_support'' \<in> set (fe_active_branches ?p)"
    using active_finding_settled [OF default_standard protected_findings(2)]
    by (simp add: default_evaluator_def)
  moreover have "''human_support'' \<in> set CONDITIONAL_IDS" by (simp add: CONDITIONAL_IDS_def)
  ultimately have "''human_support'' \<in> set (map br_branch_id (fe_branch_results ?e))"
    using branches_accounted [OF reach default_standard _ e] by auto
  then show ?thesis using p e active by blast
qed

text \<open>
  The requirements of an evaluation are those of the Claim: with \<open>R\<close> the items the
  evaluation requires, which include the common items and those of the selected family, each list of the
  resolution holds, in priority order, exactly the items of \<open>R\<close> that stand in its states on the Claim, the
  states count every item of \<open>R\<close> once, the missing items are shared out among the branches without loss or
  repetition, and the evaluation is ready exactly when a family is selected and no item of \<open>R\<close> is missing.
\<close>

theorem requirements_exact:
  assumes ev: "standard_evaluator ev" and e: "evaluate ev i c = Inr e"
  defines "R \<equiv> set (required_codes ev i c (known_results ev i c))" and "r \<equiv> fe_requirements e"
  defines "standing \<equiv> \<lambda>sts. filter (\<lambda>code. code \<in> R \<and> item_state c code \<in> sts) REQUIREMENT_PRIORITY"
  shows "set COMMON_REQUIRED \<subseteq> R \<and> R \<subseteq> set REQUIREMENT_PRIORITY
    \<and> (\<forall>f. fe_selected_family e = Some f \<longrightarrow> set (entries FAMILY_REQUIRED f) \<subseteq> R)
    \<and> rr_satisfied r = standing {Req_confirmed_exact, Req_confirmed_approx}
    \<and> rr_recorded r = standing {Req_proposed, Req_disputed}
    \<and> rr_missing_required_now r = standing {Req_missing}
    \<and> rr_by_state r = map (\<lambda>st. (st, standing {st})) REQUIREMENT_STATES
    \<and> rr_current_action_total r = card R \<and> rr_pending_later r = []
    \<and> distinct (concat (map snd (rr_missing_by_branch r)))
    \<and> set (concat (map snd (rr_missing_by_branch r))) = set (rr_missing_required_now r)
    \<and> (rr_ready r \<longleftrightarrow> fe_selected_family e \<noteq> None \<and> (\<forall>code\<in>R. disposed c code))"
proof -
  let ?known = "known_results ev i c"
  let ?codes = "required_codes ev i c ?known"
  let ?sel = "evaluation_selections ev i c ?known"
  have e': "e = evaluated ev i c ?known" using e evaluate_standard [OF ev, of i c] by simp
  have places: "requirements_at c ?sel ?codes sts = standing sts" for sts
    by (simp add: requirements_at_required [OF ev] standing_def R_def)
  obtain active newly where r: "r = resolve_requirements (ev_registry ev) c (fe_selected_family e)
      (unresolved_conflict (family_resolution ev i c)) ?sel active ?codes newly"
    by (simp add: r_def e' evaluated_requirements project_requirements_def evaluation_selections_def Let_def)
  have R: "R \<subseteq> set REQUIREMENT_PRIORITY" unfolding R_def by (rule required_codes_priority [OF ev])
  have states: "rr_by_state r = map (\<lambda>st. (st, standing {st})) REQUIREMENT_STATES"
    "rr_missing_required_now r = standing {Req_missing}" "rr_satisfied r = standing {Req_confirmed_exact, Req_confirmed_approx}"
    "rr_recorded r = standing {Req_proposed, Req_disputed}"
    by (simp_all add: r resolve_requirements_def Let_def places)
  have "sum_list (map (\<lambda>st. length (filter (\<lambda>code. code \<in> R \<and> item_state c code = st) REQUIREMENT_PRIORITY)) REQUIREMENT_STATES)
      = length (filter (\<lambda>code. code \<in> R) REQUIREMENT_PRIORITY)"
    by (rule sum_filter_partition) (simp_all add: REQUIREMENT_STATES_def, metis requirement_state.exhaust)
  then have total: "rr_current_action_total r = card R"
    using length_filter_priority [of ?codes] R
    by (simp add: r resolve_requirements_def Let_def places standing_def R_def comp_def)
  have later: "rr_pending_later r = []"
    using place_of_required [OF ev] by (auto simp: r resolve_requirements_def Let_def filter_empty_conv)
  have grouped: "distinct (concat (map snd (rr_missing_by_branch r)))
      \<and> set (concat (map snd (rr_missing_by_branch r))) = set (rr_missing_required_now r)"
    using missing_by_branch_parts [of "standing {Req_missing}" "ev_registry ev" active newly] distinct_priority
    by (simp add: r resolve_requirements_def Let_def places standing_def)
  have "rr_ready r \<longleftrightarrow> standing {Req_missing} = [] \<and> fe_selected_family e \<noteq> None"
    by (auto simp: r resolve_requirements_def Let_def places e' unresolved_conflict_def)
  moreover have "standing {Req_missing} = [] \<longleftrightarrow> (\<forall>code\<in>R. disposed c code)"
    using R by (auto simp: standing_def filter_empty_conv disposed_def)
  ultimately have ready: "rr_ready r \<longleftrightarrow> fe_selected_family e \<noteq> None \<and> (\<forall>code\<in>R. disposed c code)" by blast
  have "set COMMON_REQUIRED \<subseteq> R \<and> (\<forall>f. fe_selected_family e = Some f \<longrightarrow> set (entries FAMILY_REQUIRED f) \<subseteq> R)"
    unfolding R_def using always_required [OF ev, of _ i c ?known] by (auto simp: e')
  then show ?thesis using R states total later grouped ready by blast
qed

lemma grouped_member:
  assumes "st \<in> set sts"
  shows "(\<exists>codes. (st, codes) \<in> set (map (\<lambda>st. (st, f st)) sts) \<and> code \<in> set codes) \<longleftrightarrow> code \<in> set (f st)"
  using assms by auto

lemma resolve_next_item:
  "rr_next_required_item (resolve_requirements reg c f conflict sel active codes newly)
     = (case rr_missing_required_now (resolve_requirements reg c f conflict sel active codes newly)
        of [] \<Rightarrow> None | code # _ \<Rightarrow> Some code)"
  by (simp add: resolve_requirements_def Let_def)

text \<open>
  C23. Every requirement is accounted for: the seven states share out the required
  items, which include the common items and those of the selected family, each item standing exactly in
  the state the Claim gives it, and the total counts all of them. What is satisfied is what is
  confirmed; a proposed item is recorded and not asked for again; every missing item is asked for, under
  exactly one branch, and the next item asked for is the first of them. An evaluation is ready only if a
  family is selected and nothing required is missing.
\<close>

theorem requirements_accounted:
  assumes ev: "standard_evaluator ev" and e: "evaluate ev i c = Inr e"
  defines "R \<equiv> set (required_codes ev i c (known_results ev i c))" and "r \<equiv> fe_requirements e"
  shows "set COMMON_REQUIRED \<subseteq> R \<and> (\<forall>f. fe_selected_family e = Some f \<longrightarrow> set (entries FAMILY_REQUIRED f) \<subseteq> R)
    \<and> map fst (rr_by_state r) = REQUIREMENT_STATES
    \<and> (\<forall>code st. (\<exists>codes. (st, codes) \<in> set (rr_by_state r) \<and> code \<in> set codes) \<longleftrightarrow> code \<in> R \<and> item_state c code = st)
    \<and> rr_current_action_total r = card R
    \<and> set (rr_satisfied r) = {code \<in> R. item_state c code \<in> {Req_confirmed_exact, Req_confirmed_approx}}
    \<and> (\<forall>code\<in>R. item_state c code = Req_proposed \<longrightarrow> code \<in> set (rr_recorded r) \<and> code \<notin> set (rr_missing_required_now r))
    \<and> (\<forall>code\<in>R. item_state c code = Req_missing \<longrightarrow> code \<in> set (rr_missing_required_now r))
    \<and> distinct (concat (map snd (rr_missing_by_branch r)))
    \<and> set (concat (map snd (rr_missing_by_branch r))) = set (rr_missing_required_now r)
    \<and> rr_next_required_item r = (case rr_missing_required_now r of [] \<Rightarrow> None | code # _ \<Rightarrow> Some code)
    \<and> (rr_ready r \<longrightarrow> fe_selected_family e \<noteq> None \<and> (\<forall>code\<in>R. item_state c code \<noteq> Req_missing))"
proof -
  note exact = requirements_exact [OF ev e, folded R_def r_def]
  obtain P where R: "R \<subseteq> set P"
    and by_state: "rr_by_state r = map (\<lambda>st. (st, filter (\<lambda>code. code \<in> R \<and> item_state c code \<in> {st}) P)) REQUIREMENT_STATES"
    and lists: "rr_satisfied r = filter (\<lambda>code. code \<in> R \<and> item_state c code \<in> {Req_confirmed_exact, Req_confirmed_approx}) P"
      "rr_recorded r = filter (\<lambda>code. code \<in> R \<and> item_state c code \<in> {Req_proposed, Req_disputed}) P"
      "rr_missing_required_now r = filter (\<lambda>code. code \<in> R \<and> item_state c code \<in> {Req_missing}) P"
    using exact by blast
  have states: "st \<in> set REQUIREMENT_STATES" for st by (cases st) (simp_all add: REQUIREMENT_STATES_def)
  have placed: "(\<exists>codes. (st, codes) \<in> set (rr_by_state r) \<and> code \<in> set codes) \<longleftrightarrow> code \<in> R \<and> item_state c code = st"
    for code st
    unfolding by_state grouped_member [OF states] using R by auto
  have e': "e = evaluated ev i c (known_results ev i c)" using e evaluate_standard [OF ev, of i c] by simp
  have head: "rr_next_required_item r = (case rr_missing_required_now r of [] \<Rightarrow> None | code # _ \<Rightarrow> Some code)"
    by (simp add: r_def e' evaluated_requirements project_requirements_def Let_def resolve_next_item)
  have keys: "map fst (rr_by_state r) = REQUIREMENT_STATES" by (simp add: by_state comp_def)
  have ready: "rr_ready r \<longrightarrow> fe_selected_family e \<noteq> None \<and> (\<forall>code\<in>R. item_state c code \<noteq> Req_missing)"
    using exact unfolding disposed_def by blast
  have sets: "set (rr_satisfied r) = {code \<in> R. item_state c code \<in> {Req_confirmed_exact, Req_confirmed_approx}}"
    "\<forall>code\<in>R. item_state c code = Req_proposed \<longrightarrow> code \<in> set (rr_recorded r) \<and> code \<notin> set (rr_missing_required_now r)"
    "\<forall>code\<in>R. item_state c code = Req_missing \<longrightarrow> code \<in> set (rr_missing_required_now r)"
    unfolding lists using R by auto
  show ?thesis using exact placed head keys ready sets by blast
qed

lemma requirements_accounted_witness:
  "\<exists>e. evaluate default_evaluator quiet_input urgent_claim = Inr e \<and> \<not> rr_ready (fe_requirements e)
     \<and> ''incident.location'' \<in> set (rr_missing_required_now (fe_requirements e))"
proof -
  let ?e = "evaluated default_evaluator quiet_input urgent_claim (known_results default_evaluator quiet_input urgent_claim)"
  have e: "evaluate default_evaluator quiet_input urgent_claim = Inr ?e"
    by (rule evaluate_standard [OF default_standard])
  have "''incident.location'' \<in> set COMMON_REQUIRED" by (simp add: COMMON_REQUIRED_def)
  moreover have "item_state urgent_claim ''incident.location'' = Req_missing"
    by (simp add: item_state_def urgent_claim_def intake_claim.defs)
  ultimately show ?thesis using requirements_accounted [OF default_standard e] e by blast
qed

text \<open>
  C19. A field is offered only through a branch that admits it: a field an
  evaluation selects as required, candidate or pending is a registered field that no system authority
  owns, and it is common to all families, or registered by a reported branch that is active or an
  admissible candidate, or a field of the single candidate family. The claimant's view of an evaluation
  never shows a field hidden from claimants, and never offers an input for one.
\<close>

theorem offered_fields_admitted:
  assumes ev: "standard_evaluator ev" and e: "evaluate ev i c = Inr e" and s: "s \<in> set (fe_field_selection e)"
    and offered: "fs_selection_state s \<in> {Sel_required_now, Sel_candidate_now, Sel_pending_later}"
  shows "fs_field_code s \<in> REGISTERED_FIELD_CODES \<and> fs_field_code s \<notin> set SYSTEM_OWNED_FIELDS
    \<and> (fs_field_code s \<in> set COMMON_FIELDS
       \<or> (\<exists>b\<in>set (fe_branch_results e). fs_field_code s \<in> set (br_registered_fields b)
            \<and> admits (open_family_candidates ev i c) b (registered_branch (br_branch_id b)))
       \<or> (\<exists>f. fe_selected_family e = None \<and> other_candidates (family_resolution ev i c) = [f]
            \<and> fs_field_code s \<in> set (entries FAMILY_FIELDS f)))
    \<and> (\<forall>k\<in>set CLAIMANT_HIDDEN_FIELDS.
         k \<notin> fs_field_code ` set (claimant_projection_fields default_registry (fe_field_selection e))
         \<and> k \<notin> fst ` set (claimant_field_inputs default_registry (map fs_field_code (fe_field_selection e) @ map fst (ic_form c))))"
proof -
  have e': "e = evaluated ev i c (known_results ev i c)" using e evaluate_standard [OF ev, of i c] by simp
  obtain permitted required d where d: "d \<in> set (rg_fields default_registry)"
    "s = select_field permitted c (fe_selected_family e) (other_candidates (family_resolution ev i c)) required
       (open_family_candidates ev i c) d"
    "permitted = permitted_fields ev (open_family_candidates ev i c) (fe_selected_family e)
       (other_candidates (family_resolution ev i c)) (known_results ev i c)"
    using s by (auto simp: e' evaluated_requirements evaluation_selections_def project_requirements_def Let_def
        standard_fields [OF ev])
  note field = select_field_offered [OF offered [unfolded d(2)]]
  have "fs_field_code s \<in> REGISTERED_FIELD_CODES \<and> fs_field_code s \<notin> set SYSTEM_OWNED_FIELDS"
    using default_field_codes d(1,2) field(2) default_field_contract(1) [OF d(1)] by auto
  moreover have "fs_field_code s \<in> set COMMON_FIELDS
       \<or> (\<exists>b\<in>set (fe_branch_results e). fs_field_code s \<in> set (br_registered_fields b)
            \<and> admits (open_family_candidates ev i c) b (registered_branch (br_branch_id b)))
       \<or> (\<exists>f. fe_selected_family e = None \<and> other_candidates (family_resolution ev i c) = [f]
            \<and> fs_field_code s \<in> set (entries FAMILY_FIELDS f))"
    using permitted_source [OF field(1) [unfolded d(3)]] unfolding d(2) select_field_code
    by (force simp: e' known_results_def)
  moreover have "k \<notin> fs_field_code ` set (claimant_projection_fields default_registry xs)
      \<and> k \<notin> fst ` set (claimant_field_inputs default_registry codes)" if "k \<in> set CLAIMANT_HIDDEN_FIELDS" for k xs codes
    using hidden_not_visible [OF that] by (auto simp: claimant_projection_fields_def claimant_field_inputs_def
        split: option.splits if_splits)
  ultimately show ?thesis by blast
qed

lemma offered_fields_admitted_witness:
  "\<exists>e s. evaluate default_evaluator quiet_input urgent_claim = Inr e \<and> s \<in> set (fe_field_selection e)
     \<and> fs_field_code s = ''incident.location'' \<and> fs_field_code s \<notin> set SYSTEM_OWNED_FIELDS
     \<and> ''driver.licence_number'' \<notin> fs_field_code ` set (claimant_projection_fields default_registry (fe_field_selection e))"
proof -
  have e: "evaluate default_evaluator quiet_input urgent_claim = Inr location_evaluation"
    unfolding location_evaluation_def by (rule evaluate_standard [OF default_standard])
  obtain s where s: "s \<in> set (fe_field_selection location_evaluation)" "fs_field_code s = ''incident.location''"
    "fs_selection_state s \<in> {Sel_required_now, Sel_candidate_now}"
    by (rule location_offered)
  have "''driver.licence_number'' \<in> set CLAIMANT_HIDDEN_FIELDS" by (simp add: CLAIMANT_HIDDEN_FIELDS_def)
  then show ?thesis using offered_fields_admitted [OF default_standard e s(1)] s e by blast
qed

section \<open>Facts and proposals\<close>



text \<open>
  C20. The history of a fact is never lost: every admissible sequence of proposals,
  confirmations and dispositions of a form field, and of updates and confirmations of a contents item,
  keeps the identities of its assertions distinct and its current assertion in the history, agreeing with
  the recorded value, and keeps every earlier assertion in place with all it states but its status.
\<close>

theorem fact_history_kept:
  assumes field: "field_sound repr f" "admissible (field_allowed repr code) (field_step repr code) f ops"
    and item: "item_sound repr i" "admissible item_allowed (item_step repr) i item_ops"
  defines "g \<equiv> run (field_step repr code) f ops" and "j \<equiv> run (item_step repr) i item_ops"
  shows "distinct (map as_assertion_id (ff_assertions g))
    \<and> (ff_assertions g \<noteq> [] \<longrightarrow> agreeing repr (ff_value g) (ff_current_assertion_id g) (ff_assertions g))
    \<and> prefix (map stated (ff_assertions f)) (map stated (ff_assertions g))
    \<and> ci_item_id j = ci_item_id i \<and> distinct (map ia_assertion_id (ci_assertions j))
    \<and> (ci_assertions j \<noteq> [] \<longrightarrow> item_agreeing repr (ci_details j) (ci_current_assertion_id j) (ci_assertions j))
    \<and> prefix (map item_stated (ci_assertions i)) (map item_stated (ci_assertions j))"
proof -
  have "field_sound repr g" "field_grows f g"
    unfolding g_def using field_ledger.run_inv [OF field] field_ledger.run_grows [OF field] by blast+
  moreover have "item_sound repr j" "item_grows i j"
    unfolding j_def using item_ledger.run_inv [OF item] item_ledger.run_grows [OF item] by blast+
  ultimately show ?thesis by (simp add: field_sound_def field_grows_def item_sound_def item_grows_def)
qed

lemma fact_history_kept_witness:
  "\<exists>g. run (field_step (\<lambda>r. []) ''incident.location'') (stated_field (V_text ''Auckland'') Proposed)
       [Confirm_field (Aware 5) claimant_one None, Dispose location_proposal ''ast_2'' ''msg_2'' (Aware 6) claimant_one] = g
     \<and> distinct (map as_assertion_id (ff_assertions g))"
proof -
  let ?f = "stated_field (V_text ''Auckland'') Proposed"
  let ?ops = "[Confirm_field (Aware 5) claimant_one None, Dispose location_proposal ''ast_2'' ''msg_2'' (Aware 6) claimant_one]"
  have f: "field_sound (\<lambda>r. []) ?f" by (simp add: field_sound_def stated_field_def)
  have "admissible (field_allowed (\<lambda>r. []) ''incident.location'') (field_step (\<lambda>r. []) ''incident.location'') ?f ?ops"
    by (simp add: fresh_id_def confirm_form_field_def stated_field_def commit_def)
  then show ?thesis
    using fact_history_kept [OF f _ sample_item_sound, of "''incident.location''" ?ops "[]"] by simp
qed

section \<open>Signals of a message\<close>

text \<open>
  The support a message asks for is read exactly from its text: an accessibility
  need first, then distress, then a request for a person, each when one of its expressions occurs in the
  lower-cased message, in the declarative sense of regular expressions, and none of its negations does.
\<close>

theorem support_intent_exact:
  "detect_support_intent message =
     (if signalled message ACCESSIBILITY_PATTERNS NEGATED_ACCESSIBILITY_PATTERNS then Intent_accessibility_need
      else if signalled message DISTRESS_PATTERNS NEGATED_DISTRESS_PATTERNS then Intent_distress
      else if signalled message EXPLICIT_HUMAN_PATTERNS NEGATED_HUMAN_PATTERNS then Intent_explicit_human_request
      else Intent_none)"
  by (simp add: detect_support_intent_def has_unnegated_signal_iff)

text \<open>
  C26. The product family of a turn follows the authority of its sources: the Claim
  decides alone when it records one family and is in conflict when it records two; only when it records
  none may a stored proposal, the message or the previous evaluation suggest one, and the family is then
  marked as inferred. A family is selected exactly in the authoritative and the inferred state, and every
  resolution satisfies its own model.
\<close>

theorem family_authority:
  fixes c :: intake_claim and previous :: "string option" and message :: string and m :: bool
  defines "r \<equiv> resolve_turn_family c previous message m"
  shows "validate_resolution r = Inr r
    \<and> (tf_status r = Fam_authoritative \<longleftrightarrow> (\<exists>f. persisted_families c = [f] \<and> tf_product_family r = Some f))
    \<and> (tf_status r = Fam_conflicting \<longleftrightarrow> 1 < length (persisted_families c))
    \<and> (tf_status r = Fam_inferred \<longleftrightarrow> persisted_families c = [] \<and> (\<exists>f. tf_product_family r = Some f
         \<and> (if m then stored_candidate c = Some f \<and> \<not> family_disputed c
            else turn_candidates c message = [f]
              \<or> turn_candidates c message = [] \<and> Option.bind previous normalise_family = Some f)))
    \<and> (tf_product_family r \<noteq> None \<longleftrightarrow> tf_status r \<in> {Fam_authoritative, Fam_inferred})"
  unfolding r_def using resolve_turn_family_valid [of c previous message m]
  by (cases rule: resolve_turn_family_cases [of c previous message m]) auto

end
