(* ===== verification/Spec2Isabelle.thy ===== *)
theory Spec2Isabelle
  imports Example_Records External_Properties Intake_Properties
begin

text \<open>
  Verification of the intake, the recovery core and the external services of the Northwind FNOL agent.

  \<^bold>\<open>The program.\<close> The agent takes first notices of loss in conversation. Each message of the
  claimant is read for signals (support, safety, product family); a registry of content branches
  evaluates the Claim and says which fields are offered and required; the proposals of the agent
  pass a gate and are resolved into facts that keep their history. When nothing required is
  missing and the claimant agrees, the formal Claim is created through the claims service, once,
  and staff see its triage. A Claim that is left incomplete gets one Follow-up, a recovery obligation with a schedule and a deadline. The
  recovery worker contacts the claimant while the obligation is due (at most three attempts),
  abandons the Claim when the deadline has passed, hands the terminal Claim to retention, and
  executes the retention operation: it freezes the inventory of stored records, deletes the
  evidence objects from an object store, then erases or redacts the records behind tombstones.
  Staff may place holds, which stop the destruction. Every decision goes through an immutable
  registry of recovery policies; every write is a compare-and-swap commit of the repository and
  leaves an audit event. While a Claim is open, the agent may offer registered third-party
  services; a consented offer becomes a task with one request, whose dispatch is reserved, sent
  to a provider, recorded as an attempt and settled, and whose result and evidence are linked to
  the task and verified before they may be used.

  \<^bold>\<open>Theories, in the order of the code's layers\<close> (paths below \<open>src/backend/\<close>).

    \<^item> \<open>Northwind_Prelude\<close>: results with errors as values, ordered guards (a sequence of
      statements \<open>if c: raise e\<close>), Python datetimes, insertion-ordered dictionaries, and the
      locales \<open>invariant_machine\<close> and \<open>growing_machine\<close> of call sequences that keep an invariant
      and extend the state along a preorder.
    \<^item> \<open>Stable_Ids\<close> (\<open>domain/ids.py\<close>): SHA-256 on 32-bit words and the derived identities.
    \<^item> \<open>Recovery_Registry\<close> (\<open>domain/recovery_policy_registry.py\<close>): triggers, rules, the
      validation of the registry, the 24 published rules, \<open>classify_recovery\<close>.
    \<^item> \<open>Recovery_Reducer\<close> (\<open>domain/recovery.py\<close>, \<open>services/recovery_decisions.py\<close>): the event
      and lifecycle reducers, the boundary \<open>reduce_owned_recovery\<close> for owned facts and the
      adapters. The locale \<open>policy_boundary\<close> states what the owners of a fact rely on; it is
      interpreted on \<open>reduce_owned_recovery\<close>, and the follow-up and retention reducers are
      proved against its lemmas.
    \<^item> \<open>Follow_Up_Model\<close>, \<open>Retention_Model\<close> (\<open>domain/models.py\<close>): records, validators and
      transition checks of Follow-ups, their operations, Claims, sessions, holds, targets,
      step evidence, tombstones and retention operations.
    \<^item> \<open>Follow_Up_Execution\<close> (\<open>domain/follow_up_execution.py\<close>): due attempt, withdrawal,
      expiry and staff abandonment, every guard in the order of the code.
    \<^item> \<open>Retention_Domain\<close> (\<open>domain/retention.py\<close>): status derivation, access closure,
      append-only transition checks, eligibility, target identities, tombstones, steps.
    \<^item> \<open>Message_Order\<close> (\<open>domain/message.py\<close>): the causal order of a history, the reply check.
    \<^item> \<open>Discovery\<close> (\<open>repositories/pagination.py\<close>): keyset pages and sweeps over them.
    \<^item> \<open>Audit_Events\<close> (\<open>domain/audit.py\<close>): vocabularies, envelope and validation.
    \<^item> \<open>Recovery_Store\<close>, \<open>Retention_Repository\<close>, \<open>Follow_Up_Repository\<close>
      (\<open>repositories/fixture.py\<close>): the state of the fixture repository as a record with one
      dictionary per store; the helpers for access, audit, idempotency, sessions, messages
      and realtime events; every retention and hold operation; the recovery commits, the
      incomplete checkpoint, resumption and discovery. The repository holds one lock during
      a call, so a call is one step from state to state, and an interleaving of clients is a
      sequence of calls.
    \<^item> \<open>Recovery_Services\<close> (\<open>services/follow_up_recovery.py\<close>), \<open>Retention_Services\<close>
      (\<open>services/retention.py\<close>, \<open>adapters/evidence_storage.py\<close>), \<open>Recovery_Worker\<close>
      (\<open>services/recovery_worker.py\<close>): the services on the repository and one worker cycle.
      The object store is an interface of the code and an argument of the services, a
      function on the state of the provider; the in-memory provider is an instance.
    \<^item> \<open>Incomplete_Claims\<close> (\<open>services/incomplete_claims.py\<close>): the search for the saved checkpoint
      of an incomplete Claim, with the proof that it finds the open obligation.
    \<^item> \<open>External_Registry\<close> (\<open>domain/external_service_registry.py\<close>): the lifecycle of external
      operations and results, the eight registered services, transition and provenance checks,
      the catalogue and the lifecycle projection.
    \<^item> \<open>Evidence_Model\<close> (\<open>domain/evidence.py\<close>, the evidence records of \<open>domain/models.py\<close>):
      vocabulary, shapes, conflicts, the append-only history of a material, roll-ups.
    \<^item> \<open>External_Tasks\<close>, \<open>External_Task_Facts\<close> (\<open>domain/external_services.py\<close>): failure
      classification through the recovery registry, records and validators of tasks, requests,
      attempts, links and results, consent, retries, verification and moves, and their lemmas.
    \<^item> \<open>Evidence_Repository\<close>, \<open>External_Repository\<close> (\<open>repositories/fixture.py\<close>): the evidence
      and external-task operations of the repository, the dispatch reservation included.
    \<^item> \<open>External_Dispatch\<close> (\<open>services/external_capability_dispatcher.py\<close>,
      \<open>services/external_service_offers.py\<close>, the attempt of \<open>services/integrations.py\<close>): the
      making of an offer and the dispatch of a consented one. The adapters are an argument, functions on a world of
      their own; the values of the claim form, the incident type and the clock readings are
      arguments too.
    \<^item> \<open>External_Safety\<close>, \<open>External_Reservation\<close>, \<open>Dispatch_Safety\<close>, \<open>Dispatch_Liveness\<close>: the
      proofs on them; \<open>External_Examples\<close>: the records of their witnesses;
      \<open>External_Properties\<close>: their properties.
    \<^item> \<open>Python_Text\<close>, \<open>Text_Patterns\<close>: what the code uses of Python's string methods and of
      \<open>re\<close>: patterns, their matcher, and their declarative meaning \<open>reads\<close> as an inductive relation.
    \<^item> \<open>Python_Float\<close>: the doubles of amounts, their rounding and Python's compensated \<open>sum\<close>.
    \<^item> \<open>Claim_Form\<close> (\<open>domain/models.py\<close>, \<open>domain/field_registry.py\<close>): form fields and contents items
      with their assertions, the state of a Claim the intake reads, amounts and temporal values.
    \<^item> \<open>Turn_Signals\<close> (\<open>domain/support_intent.py\<close>, \<open>domain/safety_vocabulary.py\<close>,
      \<open>services/turn_family_resolution.py\<close>): the signals of a message.
    \<^item> \<open>Branch_Registry\<close>, \<open>Branch_Rules\<close>, \<open>Branch_Evaluation\<close> (\<open>domain/branch_registry.py\<close>,
      \<open>services/branching.py\<close>, the controlled rules of \<open>services/runtime_agent_policy.py\<close>): the
      registered fields and branches, the branch rules, reconciliation with the previous evaluation,
      the published overlay, field selection, requirements, projections and stored evaluations.
      \<open>Branch_Facts\<close>, \<open>Branch_Safety\<close> and \<open>Branch_Requirements\<close> hold the proofs.
    \<^item> \<open>Fact_Resolution\<close>, \<open>Fact_Ledger\<close> (\<open>services/fact_resolution.py\<close>): how a proposal, a
      confirmation or a disposition changes a fact, and the histories as two more interpretations
      of \<open>growing_machine\<close> (\<open>field_ledger\<close>, \<open>item_ledger\<close>).
    \<^item> \<open>Turn_Changes\<close> (the change gate of \<open>services/messages.py\<close>, the derived loss description of
      \<open>services/turn_reducer.py\<close>): what one agent turn may change.
    \<^item> \<open>Claim_Creation\<close> (\<open>domain/claim_creation.py\<close> and the operations of the fixture repository
      under it), \<open>Creation_Service\<close> (\<open>create_external_claim\<close> of \<open>services/integrations.py\<close>, the mock
      adapter): the operation of a creation, its reservation, the one call of the provider,
      recovery and settlement. \<open>Creation_Safety\<close> (with \<open>creation_machine\<close>) and
      \<open>Creation_Liveness\<close> hold the proofs.
    \<^item> \<open>Triage\<close> (\<open>domain/triage.py\<close>, \<open>domain/currency.py\<close>, the workbench functions on them).
      \<open>Intake_Examples\<close>: the records of the witnesses; \<open>Intake_Properties\<close>: the properties.
    \<^item> \<open>Store_Facts\<close>, \<open>Retention_Safety\<close>, \<open>Follow_Up_Safety\<close>, \<open>Service_Safety\<close>,
      \<open>Service_Liveness\<close>: the proofs on the layers above; \<open>Example_Records\<close>: the concrete
      records of the witnesses. This theory states the other properties.

  \<^bold>\<open>What is proved.\<close>

    \<^item> Each follow-up reducer is refined exactly: it succeeds if and only if an abstract
      specification admits the snapshot, and then returns the specified successor; records
      made by unvalidated copies satisfy the validators; at every time from the due time on
      an obligation can either be attempted or, unless it carries too many references, expired,
      and never both.
    \<^item> The registry classifies deterministically, never repeats an external call that may
      have happened, and decides every owned fact with the code its owner expects.
    \<^item> The recovery commits and the retention calls are two interpretations of
      \<open>growing_machine\<close> (\<open>recovery_machine\<close>, \<open>retention_machine\<close>): every sequence of
      admissible calls, failing ones included, keeps the stores consistent and only extends
      them. Calls are admissible when they pass values that the services can build: records
      accepted by their validators, and new identifiers where the code draws them.
    \<^item> Retention: frozen targets are exactly the inventory, a hold stops destruction, objects
      precede records, records are destroyed only behind tombstones, access stays closed, a
      deletion authorization stays in force until its evidence is recorded, a completed operation
      has cleaned every target.
    \<^item> Services: \<open>repository_client\<close> and \<open>worker_client\<close> are locales over an arbitrary
      relation that every repository call respects; the services and the cycle are proved to
      respect it once, and the interpretations \<open>cleanup\<close> and \<open>cycle\<close> instantiate it. The
      object store is asked to delete only what a recorded authorization covers, and under a hold
      only what was authorized before. On a
      consistent store one call contacts a due claimant, and expiry with its handoff closes
      the access of an expired one.
    \<^item> Messages and discovery: the history is the canonical causal permutation, the
      depth-first reply check accepts exactly the acyclic relations, sweeps terminate and
      list every pending operation once.
    \<^item> Intake: an evaluation never fails on the published registry, reports each branch once, keeps
      every live conditional branch in account from one evaluation to the next, and activates the
      protected branches whatever overlay is published; it accounts for every required item by its
      state on the Claim. Fields are offered through an admitting branch only, proposals change the form only
      through the gate, and no assertion of a fact is lost. The support intent is exactly the one the
      patterns denote.
    \<^item> Creation: the creation calls are an interpretation of \<open>growing_machine\<close> (\<open>creation_machine\<close>). The
      claims service is asked at most once per Claim unless the adapter reports that nothing was
      submitted, an answered request is lodged in one call, a lost answer is recovered by
      reconciliation, a lodged result is final, and triage reads back the history checks of the
      reservation. A changed evidence snapshot blocks the settlement of a recorded result.
    \<^item> External services: the external calls of the repository are a third interpretation of
      \<open>growing_machine\<close> (\<open>ext\<close>): one request and one result per task, attempts without gaps
      under the operation of their request, identities, sends, attempts and links for good.
      Calls are admissible when a reservation does not rename an operation. A reservation
      excludes a second one until it is released. A provider is called only with authority
      and consent, is handed only consented and control fields for an offer the runtime made, and
      is called at most once per offer;
      an accepting provider leads to an accepted task, an unreachable one to a task that may
      be retried. Failures agree with the published policies; retries, moves, verification,
      evidence histories, origins and projections are characterised.

  \<^bold>\<open>Bounds and termination.\<close> No definition uses fuel but \<open>many_ends\<close>, the repetition of a
  pattern, whose fuel is the length of the text left; \<open>ends_reads\<close> proves it enough. The loops that
  are not structural have measures: \<open>drain\<close> the messages not yet emitted, \<open>visit\<close> the messages not yet visited,
  \<open>sweep\<close> the items after the cursor, \<open>bit_length\<close> the number, \<open>py_split\<close> the text left, \<open>py_equal\<close> the size of a value. Lengths, patterns and numeric limits of the pydantic
  fields are written out; Python integers are \<open>int\<close>, unbounded as in the source.

  \<^bold>\<open>Conventions.\<close> A string is the list of its UTF-8 bytes; case folding is that of
  ASCII, the alphabet of the words the code looks for. A float is the rational it denotes or not
  finite; conversions, sums and quotients of amounts are rounded to doubles as Python does. The amount
  of a contents item is finite. A datetime is an instant with its
  awareness; comparing a naive with an aware one is an error where the code can reach it, and
  message times are assumed to be of one kind. A cursor is the position it decodes to. The parts
  of Claims, sessions and assistant records that recovery carries along unread are opaque
  fields.

  \<^bold>\<open>Not modelled.\<close> The MongoDB repository (the same contract over a driver that is not part of
  the sources), the agent runtime with its language model and the turn pipeline around the change
  gate, evidence upload and configuration services and the repository operations only they use,
  the history observations taken when a Claim is lodged (an argument of the creation service),
  handoffs, the detection of offers and the assessor route, the HTTP interface, the
  staff actions on holds and terminal Claims (they go through the workbench registry; the
  repository operations they end in are modelled), the MinIO client, the JSON manifest of the
  registry, log text, and the random identifiers of \<open>new_id\<close>.
\<close>


section \<open>Published recovery policy\<close>

text \<open>Every published recovery rule satisfies the rule contract it is validated with,
  unchanged, rule identifiers are unique, and the coordinate \<open>(policy_id, version)\<close> of a
  published rule looks up that very rule.\<close>

theorem registry_sound:
  "rule_ids_unique \<and> list_all (\<lambda>r. validate_policy_contract r = Inr r
     \<and> recovery_policy (rr_policy_id r) (rr_version r) = Inr r) RECOVERY_RULES"
  using published_ids_distinct published_valid recovery_policy_published
  by (auto simp: rule_ids_unique_def list_all_iff)

text \<open>C25. The classifier returns a rule exactly when a published rule matches the
  trigger; that rule is the only one, so the ambiguous outcome never occurs and every other
  trigger fails closed as unknown.\<close>

theorem classifier_deterministic:
  "(classify_recovery t = Inr r \<longleftrightarrow> r \<in> set RECOVERY_RULES \<and> rule_matches r t)
   \<and> (classify_recovery t = Inl e \<longleftrightarrow>
        e = UnknownRecoveryTrigger \<and> filter (\<lambda>r. rule_matches r t) RECOVERY_RULES = [])"
  using classify_Inr_iff [of t r] classify_Inl_iff [of t e] by (auto simp: filter_empty_conv)

text \<open>When an external side effect may have happened, whatever else the trigger
  says, the classified policy never repeats the call: it reconciles first or needs staff
  authority, requires the operation identity, allows no automatic attempt and blocks the
  retry action.\<close>

theorem no_blind_external_retry:
  assumes "tg_source t = Source_external" "tg_side_effect_may_have_happened t"
    and "classify_recovery t = Inr r"
  shows "rr_retry_mode r \<in> {Retry_reconcile_before_retry, Retry_staff_authorised}
    \<and> rr_requires_operation_identity r \<and> rr_max_auto_retry r = 0
    \<and> Act_external_retry_same_operation \<notin> set (rr_required_actions r)
    \<and> rr_blocks_action r = Some ''external.retry''"
proof -
  have "r \<in> set PUBLISHED_RULES" "rr_trigger_source r = Source_external"
    "Delivery_unknown \<in> rr_delivery_states r"
    using assms by (auto simp: classify_Inr_iff RECOVERY_RULES_def rule_matches_def
        resolved_delivery_state_def)
  then show ?thesis using external_side_effect_rules by (auto simp: list_all_iff)
qed

definition sample_unknown_trigger :: recovery_trigger where
  "sample_unknown_trigger = (plain_trigger Source_external ''unknown_outcome'')
     \<lparr>tg_delivery_state := Some Delivery_submitted, tg_side_effect_may_have_happened := True\<rparr>"

lemma sample_unknown_classified:
  "tg_source sample_unknown_trigger = Source_external"
  "tg_side_effect_may_have_happened sample_unknown_trigger"
  "classify_recovery sample_unknown_trigger = Inr EXTERNAL_SUBMITTED_UNKNOWN_RULE"
proof -
  have "rule_matches EXTERNAL_SUBMITTED_UNKNOWN_RULE sample_unknown_trigger" by code_simp
  then show "classify_recovery sample_unknown_trigger = Inr EXTERNAL_SUBMITTED_UNKNOWN_RULE"
    by (rule published_classified [OF published_members(2)])
qed (simp_all add: sample_unknown_trigger_def plain_trigger_def)

theorem no_blind_external_retry_witness:
  "classify_recovery sample_unknown_trigger = Inr EXTERNAL_SUBMITTED_UNKNOWN_RULE
   \<and> rr_max_auto_retry EXTERNAL_SUBMITTED_UNKNOWN_RULE = 0
   \<and> rr_requires_operation_identity EXTERNAL_SUBMITTED_UNKNOWN_RULE"
  using no_blind_external_retry [OF sample_unknown_classified] sample_unknown_classified(3) by simp

text \<open>The only published policy with automatic attempts is the due incomplete-claim
  follow-up, with three.\<close>

theorem only_follow_up_automatic:
  "list_all (\<lambda>r. rr_max_auto_retry r = (if r = P17_FOLLOW_UP_DUE_RULE then 3 else 0)) RECOVERY_RULES"
proof -
  have "rr_rule_id P17_FOLLOW_UP_DUE_RULE = ''incomplete_claim_follow_up.due''" by code_simp
  then have "rr_max_auto_retry r = 0" if "r \<in> set RECOVERY_RULES" "r \<noteq> P17_FOLLOW_UP_DUE_RULE" for r
    using that automatic_contact_rules published_ids_distinct published_members(9)
    by (auto simp: list_all_iff RECOVERY_RULES_def distinct_map inj_on_def)
  then show ?thesis by (simp add: list_all_iff due_rule_limit)
qed

section \<open>The policy boundary\<close>

text \<open>Every fact a recovery owner sends through the shared boundary with valid
  coordinates is decided, with the code its owner acts on: a due follow-up is executed with
  limit three, an exhausted or withdrawn one is blocked, a passed deadline expires, and the
  retention facts are decided as eligible, held, to reconcile or denied.\<close>

theorem owned_facts_decided:
  assumes "owned_coordinates claim_id revision event_id now refs (Some operation_id)"
    and "(t, d, limit) \<in> set
      [(plain_trigger Source_timer ''follow_up_due'', Code_execute_follow_up, 3),
       (plain_trigger Source_timer ''attempt_limit_reached'', Code_block_follow_up, 0),
       (plain_trigger Source_human ''contact_authority_withdrawn'', Code_block_follow_up, 0),
       (plain_trigger Source_timer ''recovery_expired'', Code_expire_recovery, 0),
       (plain_trigger Source_retention ''eligible'', Code_retention_eligible, 0),
       (plain_trigger Source_retention ''hold'', Code_retention_hold, 0),
       (plain_trigger Source_retention ''unknown'', Code_retention_reconcile, 0),
       (plain_trigger Source_retention ''old_session_denied'', Code_deny_access, 0)]"
  shows "\<exists>plan. reduce_owned_recovery t claim_id revision event_id now refs (Some operation_id)
      = Inr plan \<and> tr_decision_code plan = d \<and> tr_max_auto_retry plan = limit"
proof -
  have "owned_promises t d limit" using assms(2) owned_promised by auto
  then show ?thesis using owned.decided [OF _ _ assms(1)] by blast
qed

theorem owned_facts_decided_witness:
  "\<exists>plan. reduce_owned_recovery (plain_trigger Source_retention ''unknown'') ''clm_1'' 4 ''ret_1''
     (Aware 5) [] (Some ''ret_1'') = Inr plan \<and> tr_decision_code plan = Code_retention_reconcile
     \<and> tr_max_auto_retry plan = 0"
  by (rule owned_facts_decided) (simp_all add: owned_coordinates_def bounded_text_def)

text \<open>An external call with an unknown outcome is always reconciled under its own
  operation identity and never retried automatically.\<close>

theorem unknown_outcome_reconciled:
  assumes "d \<in> {Delivery_submitted, Delivery_unknown}"
    and "bounded_text 1 120 claim_id" "1 \<le> revision" "bounded_text 1 160 operation_id"
    and "bounded_text 1 160 event_id" "length refs \<le> 100" "\<not> is_Naive now"
  shows "\<exists>plan. reduce_external_unknown_recovery claim_id revision operation_id d event_id refs now
      = Inr plan
    \<and> tr_decision_code plan = Code_reconcile_existing_operation
    \<and> tr_retry_mode plan = Retry_reconcile_before_retry
    \<and> tr_max_auto_retry plan = 0
    \<and> tr_operation_id plan = Some operation_id"
  by (rule external_unknown_reconciles [OF assms])

theorem unknown_outcome_reconciled_witness:
  "\<exists>plan. reduce_external_unknown_recovery ''clm_1'' 4 ''ext_1'' Delivery_submitted ''evt_1'' []
     (Aware 5) = Inr plan
    \<and> tr_decision_code plan = Code_reconcile_existing_operation
    \<and> tr_retry_mode plan = Retry_reconcile_before_retry
    \<and> tr_max_auto_retry plan = 0
    \<and> tr_operation_id plan = Some ''ext_1''"
  by (rule unknown_outcome_reconciled) (simp_all add: bounded_text_def)

text \<open>Revision-conflict recovery reloads the authoritative state when the event
  names a stale revision, and refuses an event that names the current one.\<close>

theorem conflict_needs_stale_revision:
  assumes "bounded_text 1 120 claim_id" "1 \<le> current" "1 \<le> expected"
    and "bounded_text 1 160 event_id" "length refs \<le> 100" "\<not> is_Naive now"
  shows "if expected = current
     then reduce_revision_conflict_recovery claim_id expected current event_id refs now
        = Inl ConflictNotStale
     else \<exists>plan. reduce_revision_conflict_recovery claim_id expected current event_id refs now
        = Inr plan \<and> tr_decision_code plan = Code_reload_authoritative_state
        \<and> tr_expected_claim_revision plan = current"
  using revision_conflict_reloads [OF assms] by simp

text \<open>The lifecycle reducer plans an automatic contact only for a pending follow-up
  that is due and not yet at its deadline, with contact not withdrawn, fewer than three
  attempts made, an unchanged Claim revision and open access.\<close>

theorem lifecycle_contact_guarded:
  assumes "reduce_lifecycle_recovery p state e s now = Inr t"
    and "lt_decision t = Decide_execute_follow_up"
  shows "\<exists>due deadline. rs_due_at s = Some due \<and> rs_deadline_at s = Some deadline
    \<and> \<not> dt_before now due \<and> dt_before now deadline
    \<and> rs_follow_up_status s = Some Snap_pending \<and> rs_contact_authorised s \<noteq> Some False
    \<and> rs_follow_up_attempt_count s < 3 \<and> \<not> rs_access_closed s
    \<and> rs_claim_revision state = rs_claim_revision s"
  by (rule lifecycle_contact_conditions [OF assms])

definition sample_snapshot :: recovery_snapshot where
  "sample_snapshot = \<lparr>rs_claim_revision = 4, rs_follow_up_status = Some Snap_pending,
     rs_follow_up_attempt_count = 1, rs_contact_authorised = Some True,
     rs_due_at = Some (Aware 5), rs_deadline_at = Some (Aware 90), rs_terminal = False,
     rs_external_operation_state = None, rs_retention_hold = False, rs_access_closed = False,
     rs_source_refs = []\<rparr>"

definition sample_due_event :: recovery_event where
  "sample_due_event = \<lparr>re_code = ''follow_up_due'', re_expected_claim_revision = Some 4,
     re_source_refs = [''session:ses_1'']\<rparr>"

definition sample_plan :: lifecycle_transition where
  "sample_plan = (base_payload P17_FOLLOW_UP_DUE_RULE sample_snapshot Decide_execute_follow_up
     [''session:ses_1''])\<lparr>lt_next_follow_up_status := Some Snap_pending,
       lt_operation_action := Op_reserve_and_commit\<rparr>"

lemma sample_lifecycle:
  "reduce_lifecycle_recovery P17_FOLLOW_UP_DUE_RULE sample_snapshot sample_due_event
     sample_snapshot (Aware 7) = Inr sample_plan"
  by (simp add: reduce_lifecycle_recovery_def lifecycle_guards_def due_rule_published
      due_rule_fields sample_due_event_def sample_snapshot_def reduce_incomplete_claim_def
      due_rule_limit reduce_follow_up_due_event_def base_transition_def validity
      fromkeys_def sample_plan_def)

theorem lifecycle_contact_guarded_witness:
  "\<exists>due deadline. rs_due_at sample_snapshot = Some due \<and> rs_deadline_at sample_snapshot = Some deadline
    \<and> \<not> dt_before (Aware 7) due \<and> dt_before (Aware 7) deadline"
  using lifecycle_contact_guarded [OF sample_lifecycle] by (auto simp: sample_plan_def)

text \<open>No lifecycle plan lets the attempt count exceed three.\<close>

theorem lifecycle_attempts_limited:
  assumes "reduce_lifecycle_recovery p state e s now = Inr t" "rs_follow_up_attempt_count s \<le> 3"
  shows "rs_follow_up_attempt_count s + lt_attempt_count_delta t \<le> 3"
  by (rule lifecycle_attempts_bounded [OF assms])

theorem lifecycle_attempts_limited_witness:
  "rs_follow_up_attempt_count sample_snapshot + lt_attempt_count_delta sample_plan \<le> 3"
  by (rule lifecycle_attempts_limited [OF sample_lifecycle]) (simp add: sample_snapshot_def)

text \<open>A lifecycle plan denies access exactly when the authoritative snapshot says
  that access is closed.\<close>

theorem lifecycle_deny_iff_closed:
  assumes "reduce_lifecycle_recovery p state e s now = Inr t"
  shows "lt_decision t = Decide_deny \<longleftrightarrow> rs_access_closed s"
  by (rule lifecycle_denies [OF assms])

text \<open>A work item built for a reduced recovery plan never lacks its kind, keeps the
  Claim and the owner the policy names, blocks the action only while it is unfinished, and
  is completed exactly when its status says so.\<close>

theorem recovery_work_item_ok:
  assumes "reduce_recovery p e s now = Inr plan"
  shows "build_recovery_work_item plan claim_id subject_ref created_at status \<noteq> Inl WorkItemKindMissing
    \<and> (build_recovery_work_item plan claim_id subject_ref created_at status = Inr (Some w) \<longrightarrow>
         work_item_ok w \<and> wi_claim_id w = claim_id \<and> wi_owner w = tr_responsibility plan
         \<and> wi_blocks_action w = (if status \<in> {Item_completed, Item_cancelled} then None
              else tr_blocks_action plan)
         \<and> (wi_completed_at w \<noteq> None \<longleftrightarrow> status \<in> {Item_completed, Item_cancelled}))"
proof (intro conjI impI)
  show "build_recovery_work_item plan claim_id subject_ref created_at status \<noteq> Inl WorkItemKindMissing"
    by (rule work_item_kind_present [OF assms])
qed (simp_all only: work_item_shape)

definition sample_recovery_plan :: recovery_plan where
  "sample_recovery_plan = recovery_transition EXTERNAL_SUBMITTED_UNKNOWN_RULE
     (adapter_event ''evt_1'' sample_unknown_trigger 4 (Some ''ext_1'') [])
     (adapter_snapshot ''clm_1'' 4 (Some ''ext_1'')) (Aware 5)"

lemma sample_reduction:
  "reduce_recovery EXTERNAL_SUBMITTED_UNKNOWN_RULE
     (adapter_event ''evt_1'' sample_unknown_trigger 4 (Some ''ext_1'') [])
     (adapter_snapshot ''clm_1'' 4 (Some ''ext_1'')) (Aware 5) = Inr sample_recovery_plan"
  by (simp add: reduce_recovery_Inr_iff sample_unknown_classified(3) adapter_event_def
      adapter_snapshot_def reduction_guards_def adapter_rules coalesce_def sample_recovery_plan_def)

section \<open>Records\<close>

text \<open>A Follow-up accepted in any spelling, current or legacy, is valid and reads back
  from its stored form unchanged.\<close>

theorem follow_up_reread:
  assumes "new_follow_up r = Inr f"
  shows "follow_up_valid f \<and> new_follow_up (dump_follow_up f) = Inr f"
  using new_follow_up_valid [OF assms] new_follow_up_round_trip [OF assms] by blast

definition sample_legacy_follow_up :: raw_follow_up where
  "sample_legacy_follow_up = \<lparr>raw_record = sample_follow_up, raw_status = None,
     raw_policy_version = None, raw_reason_code = None\<rparr>"

definition sample_closed_follow_up :: follow_up where
  "sample_closed_follow_up = sample_follow_up\<lparr>fu_policy_version := None, fu_status := FU_blocked,
     fu_blocked_reason := Some POLICY_BINDING_INVALID\<rparr>"

lemma sample_legacy_accepted: "new_follow_up sample_legacy_follow_up = Inr sample_closed_follow_up"
  by (simp add: new_follow_up_def normalise_legacy_coordinates_def sample_legacy_follow_up_def
      sample_closed_follow_up_def route_reason_def infer_resolution_def close_partial_binding_def
      partial_binding_def sample_follow_up_def numeric_version_def validate_recovery_follow_up_def
      validity bounded_text_def follow_up_guards_def blocked_guards_def fu_reason_code_def
      blocked_reasons_def default_source_refs_def)

theorem follow_up_reread_witness:
  "follow_up_valid sample_closed_follow_up
   \<and> new_follow_up (dump_follow_up sample_closed_follow_up) = Inr sample_closed_follow_up"
  by (rule follow_up_reread [OF sample_legacy_accepted])

text \<open>A valid operation reads back from its stored form unchanged.\<close>

theorem operation_reread:
  assumes "operation_valid p"
  shows "new_operation (dump_operation p) = Inr p"
  by (rule operation_round_trip [OF assms])

text \<open>An operation takes at most two accepted steps; they keep its execution
  identity and its commit evidence, and a settled or cancelled operation takes none.\<close>

theorem operation_lifecycle:
  assumes "operation_steps n p q"
  shows "n \<le> 2 \<and> same_execution_identity p q
    \<and> (op_committed_at p \<noteq> None \<longrightarrow> op_committed_at q = op_committed_at p)
    \<and> (op_status p \<in> {Op_settled, Op_cancelled} \<longrightarrow> n = 0 \<and> q = p)"
  using operation_steps_bounded [OF assms] operation_steps_evidence [OF assms] by blast

theorem operation_lifecycle_witness:
  "(1::nat) \<le> 2 \<and> same_execution_identity sample_operation
     (committed_operation (Aware 3) sample_operation)"
proof -
  have "op_status sample_operation = Op_reserved" "op_committed_at sample_operation = None"
    by (simp_all add: sample_operation_def scheduled_operation_def)
  then have "operation_steps (Suc 0) sample_operation (committed_operation (Aware 3) sample_operation)"
    by (rule operation_steps.step [OF operation_steps.stay committed_operation_ok])
  then show ?thesis using operation_lifecycle [of "Suc 0"] by simp
qed

text \<open>Every operation identity the due attempt derives matches the pattern the
  Follow-up record demands of its active operation.\<close>

theorem operation_id_accepted:
  "operation_id_pattern (follow_up_operation_id f n)"
  by (simp add: follow_up_operation_id_def operation_id_pattern_stable)

section \<open>Execution of the recovery obligation\<close>

text \<open>C1. Within the field limits, the due attempt succeeds exactly on an open obligation
  bound to the published policy, scheduled on the immutable cadence, with a consistent
  history, from its due time until strictly before its deadline, and its result is the
  specified outcome.\<close>

theorem due_attempt_contract:
  assumes "within_limits c f" "list_all (\<lambda>p. 1 \<le> op_sequence p) ops"
  shows "reduce_due_follow_up c s f ops now = Inr t \<longleftrightarrow>
    \<not> is_Naive now \<and> (\<exists>rc. open_obligation c s rc f \<and> contact_scheduled rc f
       \<and> attempt_history c f ops \<and> \<not> is_Naive (rc_interrupted_at rc)
       \<and> \<not> dt_before now (attempt_due_at rc (fu_attempt_count f))
       \<and> dt_before now (recovery_deadline_of rc) \<and> t = due_outcome c s rc f ops now)"
  by (rule reduce_due_Inr_iff [OF assms])

theorem due_attempt_contract_witness:
  "reduce_due_follow_up sample_claim sample_session sample_follow_up [] (Aware 60)
     = Inr (due_outcome sample_claim sample_session sample_context sample_follow_up [] (Aware 60))"
  using due_attempt_contract [of sample_claim sample_follow_up "[]"] sample_obligation
  by (simp add: exI [of _ sample_context])

text \<open>The attempt history is an invariant of execution: when the settled operation is
  replaced and the new one added, the recorded attempt count again equals the committed
  operations, sequences stay distinct and positive, nothing is left reserved, and the only
  outstanding operation is the last.\<close>

theorem due_attempt_invariant:
  assumes "within_limits c f" "attempt_history c f ops"
    and "reduce_due_follow_up c s f ops now = Inr t"
    and "set ops' = operations_after t ops" "distinct (map op_sequence ops')"
  shows "attempt_history c (dt_follow_up t) ops'
    \<and> fu_attempt_count (dt_follow_up t) = fu_attempt_count f + 1
    \<and> fu_attempt_count (dt_follow_up t) \<le> 3"
proof -
  have seq: "list_all (\<lambda>p. 1 \<le> op_sequence p) ops" using assms(2) by (simp add: attempt_history_def)
  obtain rc where rc: "open_obligation c s rc f" "contact_scheduled rc f"
    "t = due_outcome c s rc f ops now"
    using assms(3) unfolding reduce_due_Inr_iff [OF assms(1) seq] by blast
  then have "bound_to_policy rc f" "fu_attempt_count f < 3"
    by (simp_all add: open_obligation_def contact_scheduled_def)
  then show ?thesis
    using attempt_history_step [OF assms(2) _ _ rc(3) assms(4,5)] rc(3)
    by (auto simp: due_outcome_sel)
qed

theorem due_attempt_invariant_witness:
  "attempt_history sample_claim
     (dt_follow_up (due_outcome sample_claim sample_session sample_context sample_follow_up [] (Aware 60)))
     [dt_operation (due_outcome sample_claim sample_session sample_context sample_follow_up [] (Aware 60))]"
proof -
  let ?t = "due_outcome sample_claim sample_session sample_context sample_follow_up [] (Aware 60)"
  have "set [dt_operation ?t] = operations_after ?t []"
    by (simp add: operations_after_def due_outcome_sel outstanding_settled_def)
  then show ?thesis
    using due_attempt_invariant [OF sample_obligation(1,4) sample_due, of "[dt_operation ?t]"] by simp
qed

text \<open>The records a due attempt produces by unvalidated copies satisfy the
  validators of their models.\<close>

theorem due_attempt_valid_records:
  assumes "within_limits c f" "list_all operation_valid ops"
    and "reduce_due_follow_up c s f ops now = Inr t"
    and "follow_up_valid f" "not_after (fu_created_at f) now"
  shows "follow_up_valid (dt_follow_up t) \<and> operation_valid (dt_operation t)"
  using due_outcome_valid [OF assms] by blast

theorem due_attempt_valid_records_witness:
  "follow_up_valid (dt_follow_up (due_outcome sample_claim sample_session sample_context
      sample_follow_up [] (Aware 60)))"
proof -
  have "not_after (fu_created_at sample_follow_up) (Aware 60)"
    by (simp add: not_after_def sample_follow_up_def)
  then show ?thesis
    using due_attempt_valid_records [OF sample_obligation(1) _ sample_due sample_follow_up_valid]
    by simp
qed

text \<open>C22. Within the field limits, expiry succeeds exactly at or after the deadline of an
  open obligation with a consistent history, when its references and its own fit the twenty of a
  terminal disposition. The Claim is then abandoned at the next revision, which the disposition
  records with the reason, the references and the system as actor; its next step says that it cannot
  be resumed, and nothing else of it changes. The Follow-up is resolved as expired with no due time
  and no active operation, and the open operation, if there is one, is closed.\<close>

theorem expiry_contract:
  assumes "within_limits c f"
  shows "reduce_expired_follow_up c s f ops now = Inr t \<longleftrightarrow>
    \<not> is_Naive now \<and> (\<exists>rc. open_obligation c s rc f \<and> fu_status f \<noteq> FU_resolved
      \<and> \<not> is_Naive (rc_interrupted_at rc) \<and> \<not> dt_before now (recovery_deadline_of rc)
      \<and> closing_history c f ops
      \<and> length (fromkeys (fu_source_refs f @ [''follow-up:'' @ fu_follow_up_id f])) \<le> 20
      \<and> tt_claim t = c\<lparr>wc_revision := wc_revision c + 1, wc_updated_at := now,
          wc_terminal_disposition := Some \<lparr>td_value = Terminal_abandoned, td_reason_code = Reason_recovery_expired,
            td_source_refs = fromkeys (fu_source_refs f @ [''follow-up:'' @ fu_follow_up_id f]),
            td_recorded_by = \<lparr>actor_type = Actor_system, actor_id = ''p17-recovery-expiry''\<rparr>,
            td_recorded_at = now, td_recorded_revision = wc_revision c + 1\<rparr>,
          wc_customer_next_step := \<lparr>ns_status = ''abandoned'',
            ns_summary = ''The recovery window for this incomplete Claim has expired.'',
            ns_responsible_party = Party_system, ns_expected_by = None, ns_can_resume = False,
            ns_required_items = []\<rparr>\<rparr>
      \<and> tt_follow_up t = f\<lparr>fu_status := FU_resolved, fu_blocked_reason := None,
          fu_resolution_code := reason_resolution RECOVERY_EXPIRED, fu_active_operation_id := None,
          fu_outcome := Some ''recovery_expired'', fu_due_at := None, fu_updated_at := now\<rparr>
      \<and> tt_reconciled t = (case filter is_open_operation ops of [] \<Rightarrow> None
          | p # _ \<Rightarrow> Some (close_operation DEADLINE_REACHED NO_RESPONSE now p)))"
  unfolding reduce_expired_Inr_iff [OF assms]
  by (cases t) (auto simp: expired_claim_def abandoned_disposition_def terminal_source_refs_def expiry_actor_def
      expired_next_step_def resolved_follow_up_def copy_with_reason_def closed_open_def)

theorem expiry_contract_witness:
  "\<exists>t. reduce_expired_follow_up sample_claim sample_session sample_follow_up [] (Aware 604800000000)
     = Inr t \<and> wc_revision (tt_claim t) = wc_revision sample_claim + 1"
proof -
  obtain t where "reduce_expired_follow_up sample_claim sample_session sample_follow_up [] (Aware 604800000000) = Inr t"
    using sample_expired by blast
  then show ?thesis using expiry_contract [OF sample_obligation(1)] by auto
qed

text \<open>Within the field limits, contact is withdrawn exactly on an open obligation of a
  live Claim with contact authorised before the deadline; the Claim is not touched and the
  Follow-up stays open, blocked without channel or schedule.\<close>

theorem withdrawal_contract:
  assumes "within_limits c f"
  shows "reduce_follow_up_contact_withdrawal c s f ops now = Inr t \<longleftrightarrow>
    \<not> is_Naive now \<and> (\<exists>rc. wc_claim_id c = fu_claim_id f \<and> wc_terminal_disposition c = None
      \<and> fu_status f \<noteq> FU_resolved \<and> is_checkpoint c s f \<and> se_recovery_context s = Some rc
      \<and> bound_to_policy rc f \<and> \<not> is_Naive (rc_interrupted_at rc)
      \<and> dt_before now (recovery_deadline_of rc) \<and> fu_contact_permission f = AUTHORISED
      \<and> closing_history c f ops
      \<and> t = \<lparr>wt_follow_up = withdrawn_follow_up f now,
             wt_reconciled = closed_open AUTHORITY_LOST AUTHORITY_LOST now ops\<rparr>)"
  by (rule reduce_withdrawal_Inr_iff [OF assms])

theorem withdrawal_contract_witness:
  "\<exists>t. reduce_follow_up_contact_withdrawal sample_claim sample_session sample_follow_up [] (Aware 60)
     = Inr t"
  unfolding withdrawal_contract [OF sample_obligation(1)]
  using sample_obligation attempt_closing_history [OF sample_obligation(4)]
  by (auto simp: open_obligation_def contact_scheduled_def)

text \<open>Within the field limits, staff abandonment succeeds exactly for a staff actor on
  an open obligation strictly before its deadline; it ends the Claim at the next revision
  with the staff reason.\<close>

theorem staff_abandonment_contract:
  assumes "within_limits c f"
  shows "reduce_follow_up_staff_abandonment c s f ops now actor = Inr t \<longleftrightarrow>
    \<not> is_Naive now \<and> actor_type actor = Actor_staff
    \<and> (\<exists>rc. open_obligation c s rc f \<and> fu_status f \<noteq> FU_resolved
      \<and> \<not> is_Naive (rc_interrupted_at rc) \<and> dt_before now (recovery_deadline_of rc)
      \<and> closing_history c f ops \<and> length (terminal_source_refs f) \<le> 20
      \<and> t = \<lparr>tt_claim = abandoned_claim c
               (abandoned_disposition Reason_authorised_staff_abandonment actor c f now) now,
             tt_follow_up = resolved_follow_up STAFF_ABANDONED ''staff_abandoned'' f now,
             tt_reconciled = closed_open AUTHORITY_LOST AUTHORITY_LOST now ops\<rparr>)"
  by (rule reduce_staff_Inr_iff [OF assms])

theorem staff_abandonment_contract_witness:
  "\<exists>t. reduce_follow_up_staff_abandonment sample_claim sample_session sample_follow_up [] (Aware 60)
     \<lparr>actor_type = Actor_staff, actor_id = ''stf_1''\<rparr> = Inr t"
  unfolding staff_abandonment_contract [OF sample_obligation(1)]
  using sample_expirable sample_obligation by (auto intro!: exI [of _ sample_context])

text \<open>The deadline wins every tie: an attempt and an expiry that both succeed on the same
  obligation are separated in time, the attempt strictly first.\<close>

theorem deadline_wins:
  assumes "within_limits c f" "list_all (\<lambda>p. 1 \<le> op_sequence p) ops"
    and "reduce_due_follow_up c s f ops now = Inr t"
    and "reduce_expired_follow_up c s f ops' later = Inr u"
  shows "dt_before now later"
  by (rule due_and_expiry_apart [OF assms])

theorem deadline_wins_witness: "dt_before (Aware 60) (Aware 604800000000)"
  using deadline_wins [OF sample_obligation(1) _ sample_due] sample_expired by auto

text \<open>C15. A scheduled obligation that is due is executed at every time before its
  deadline; from its deadline on it expires at every time, exactly if its references together with its
  own reference are at most the twenty a terminal disposition holds.\<close>

theorem recovery_never_stuck:
  assumes "within_limits c f" "list_all (\<lambda>p. 1 \<le> op_sequence p) ops"
    and "open_obligation c s rc f" "contact_scheduled rc f" "attempt_history c f ops"
    and "\<not> is_Naive now" "\<not> is_Naive (rc_interrupted_at rc)"
    and "\<not> dt_before now (attempt_due_at rc (fu_attempt_count f))"
  shows "if dt_before now (recovery_deadline_of rc)
     then reduce_due_follow_up c s f ops now = Inr (due_outcome c s rc f ops now)
     else (\<exists>t. reduce_expired_follow_up c s f ops now = Inr t) \<longleftrightarrow>
       length (fromkeys (fu_source_refs f @ [''follow-up:'' @ fu_follow_up_id f])) \<le> 20"
  using obligation_progress [OF assms] by (simp add: terminal_source_refs_def)

theorem recovery_never_stuck_witness:
  "\<exists>t. reduce_expired_follow_up sample_claim sample_session sample_follow_up [] (Aware 604800000001)
     = Inr t"
  using recovery_never_stuck [OF sample_obligation(1) _ sample_obligation(2-4), of "Aware 604800000001"]
    sample_obligation(5-7) sample_expirable(1)
  by (simp add: terminal_source_refs_def)

text \<open>A Follow-up that already carries the 20 references its model allows, none of
  them its own, can neither expire nor be abandoned by staff: the terminal disposition would
  need 21 references and is refused.\<close>

theorem full_references_never_expire:
  assumes "within_limits c f" "length (fu_source_refs f) = 20" "distinct (fu_source_refs f)"
    and "''follow-up:'' @ fu_follow_up_id f \<notin> set (fu_source_refs f)"
  shows "(\<exists>e. reduce_expired_follow_up c s f ops now = Inl e)
    \<and> (\<exists>e. reduce_follow_up_staff_abandonment c s f ops now actor = Inl e)"
  using unexpirable_follow_up [OF assms] by blast

definition sample_full_follow_up :: follow_up where
  "sample_full_follow_up = sample_follow_up\<lparr>fu_source_refs :=
     map (\<lambda>n. ''message:'' @ decimal_nat n) [0..<20]\<rparr>"

theorem full_references_never_expire_witness:
  "\<exists>e. reduce_expired_follow_up sample_claim sample_session sample_full_follow_up []
     (Aware 604800000000) = Inl e"
proof -
  have "inj decimal_nat" using decimal_nat_inject by (auto intro: injI)
  then have "distinct (fu_source_refs sample_full_follow_up)"
    by (auto simp: sample_full_follow_up_def distinct_map inj_on_def)
  moreover have "within_limits sample_claim sample_full_follow_up"
    using sample_obligation(1) by (simp add: within_limits_def sample_full_follow_up_def)
  moreover have "length (fu_source_refs sample_full_follow_up) = 20"
    by (simp add: sample_full_follow_up_def)
  moreover have "''follow-up:'' @ fu_follow_up_id sample_full_follow_up
      \<notin> set (fu_source_refs sample_full_follow_up)"
    by (auto simp: sample_full_follow_up_def)
  ultimately show ?thesis using full_references_never_expire by blast
qed

section \<open>Retention of a terminal Claim\<close>

text \<open>A cleanup step with a fresh attempt on a frozen target always yields a valid
  operation that the append-only transition check accepts, and it completes the operation
  exactly when the step did not fail and every target's latest attempt is satisfied.\<close>

theorem cleanup_step_accepted:
  assumes "retention_valid p" "rt_status p \<noteq> Ret_completed" "rt_targets_frozen_at p \<noteq> None"
    and "validate_step_evidence e = Inr e"
    and "sv_target_id e \<in> ta_target_id ` set (rt_targets p)"
    and "sv_attempt e = retention_next_attempt p (sv_target_id e)"
    and "sv_evidence_id e \<notin> sv_evidence_id ` set (rt_step_evidence p)"
    and "evidence_authorized (rt_delete_authorizations p) e"
    and "length (rt_step_evidence p) < 2000" "\<not> is_Naive now" "\<not> dt_before now (rt_created_at p)"
  shows "\<exists>q. retention_candidate_after_step p e now = Inr q \<and> retention_valid q
    \<and> validate_retention_operation_transition p q = Inr ()
    \<and> (rt_status q = Ret_completed \<longleftrightarrow> sv_status e \<notin> {Step_failed, Step_unknown} \<and> all_satisfied q)"
proof -
  have step: "retention_candidate_after_step p e now = Inr (after_step p e now)"
    by (rule after_step_valid [OF assms(1,4-11)])
  then show ?thesis
    using candidate_transition [OF step assms(2,3)] candidate_completed [OF step]
    by (auto simp: candidate_Inr_iff)
qed

theorem cleanup_step_accepted_witness:
  "\<exists>q. retention_candidate_after_step sample_retention sample_evidence (Aware 20) = Inr q
     \<and> retention_valid q"
proof -
  have "rt_status sample_retention \<noteq> Ret_completed" "rt_targets_frozen_at sample_retention \<noteq> None"
    "\<not> dt_before (Aware 20) (rt_created_at sample_retention)"
    by (simp_all add: sample_retention_def)
  then show ?thesis
    using cleanup_step_accepted [OF sample_retention_valid _ _ sample_step_accepted, of "Aware 20"]
    by auto
qed

text \<open>A valid operation is completed only when each of its targets has a satisfied
  attempt that no later attempt of the same target follows.\<close>

theorem completed_means_cleaned:
  assumes "retention_valid p" "rt_status p = Ret_completed" "t \<in> set (rt_targets p)"
  shows "\<exists>e\<in>set (rt_step_evidence p). sv_target_id e = ta_target_id t
     \<and> sv_status e = Step_satisfied
     \<and> (\<forall>e'\<in>set (rt_step_evidence p). sv_target_id e' = ta_target_id t
          \<longrightarrow> sv_attempt e' \<le> sv_attempt e)"
  by (rule completed_evidence [OF assms])

definition sample_completed :: retention_operation where
  "sample_completed = after_step sample_retention sample_evidence (Aware 20)"

lemma sample_completed_valid:
  "retention_valid sample_completed" "rt_status sample_completed = Ret_completed"
proof -
  have "\<not> is_Naive (Aware 20)" "\<not> dt_before (Aware 20) (rt_created_at sample_retention)"
    by (simp_all add: sample_retention_def)
  from after_step_valid [OF sample_retention_valid sample_step_accepted this]
  show "retention_valid sample_completed" by (simp add: candidate_Inr_iff sample_completed_def)
  show "rt_status sample_completed = Ret_completed"
    by (simp add: sample_completed_def status_after_step_def sample_retention_defs
        retention_target_statuses_def initial_statuses_def all_values_satisfied_def)
qed

theorem completed_means_cleaned_witness:
  "\<exists>e\<in>set (rt_step_evidence sample_completed). sv_target_id e = ''rtg_1''
     \<and> sv_status e = Step_satisfied"
proof -
  have "sample_target \<in> set (rt_targets sample_completed)"
    by (simp add: sample_completed_def sample_retention_def)
  then show ?thesis using completed_means_cleaned [OF sample_completed_valid]
    by (fastforce simp: sample_target_def)
qed

text \<open>C32. An irreversible deletion is fenced along every sequence of retention and hold
  calls: the authorization in force stays in force until step evidence that names it is recorded, the
  frozen targets it was given for stay, and as long as it is in force every request to authorize a
  deletion returns this authorization and changes nothing.\<close>

theorem deletion_fence:
  assumes "retention_store_ok s" "admissible retention_allowed exec_retention s calls"
    and "dict_get (st_retention_operations s) i = Some p"
    and "rt_active_delete_authorization_id p = Some j" "rt_targets_frozen_at p \<noteq> None"
  shows "\<exists>q. dict_get (st_retention_operations (run exec_retention s calls)) i = Some q
    \<and> rt_targets q = rt_targets p
    \<and> (rt_active_delete_authorization_id q = Some j
       \<or> (\<exists>e\<in>set (drop (length (rt_step_evidence p)) (rt_step_evidence q)). sv_authorization_id e = Some j))
    \<and> (rt_active_delete_authorization_id q = Some j \<longrightarrow>
         (\<forall>target_id revision now t q' a. authorize_retention_object_target (run exec_retention s calls) i target_id
             revision now = Inr (t, q', a) \<longrightarrow>
           t = run exec_retention s calls \<and> q' = q \<and> da_authorization_id a = j \<and> da_target_id a = target_id))"
proof -
  have "grows_in retention_extends (st_retention_operations s) (st_retention_operations (run exec_retention s calls))"
    using retention_machine.run_grows [OF assms(1,2)] by (simp add: retention_grows_def)
  then obtain q where q: "dict_get (st_retention_operations (run exec_retention s calls)) i = Some q" "retention_extends p q"
    using assms(3) unfolding grows_in_def by blast
  then have "rt_targets q = rt_targets p \<and> (rt_active_delete_authorization_id q = Some j
      \<or> (\<exists>e\<in>set (drop (length (rt_step_evidence p)) (rt_step_evidence q)). sv_authorization_id e = Some j))"
    using assms(4,5) by (auto simp: retention_extends_def fence_kept_def list_ex_iff)
  then show ?thesis
    using q(1) by (auto simp: authorize_retention_object_target_def guarded_Inr_iff find_Some_iff split: option.splits)
qed

theorem deletion_fence_witness:
  "\<exists>q. dict_get (st_retention_operations (run exec_retention sample_flight_store
       [Authorize ''ret_1'' ''rtg_0'' 2 (Aware 20), Apply_record ''ret_1'' ''rtg_1'' 2 (Aware 20)])) ''ret_1'' = Some q
     \<and> (rt_active_delete_authorization_id q = Some ''rda_1''
       \<or> list_ex (\<lambda>e. sv_authorization_id e = Some ''rda_1'') (rt_step_evidence q))"
proof -
  have "rt_targets_frozen_at sample_flight \<noteq> None" by (simp add: sample_flight_def sample_cleanup_def sample_retention_def)
  then show ?thesis
    using deletion_fence [OF sample_flight_ok _ sample_flight_get(1,2),
        of "[Authorize ''ret_1'' ''rtg_0'' 2 (Aware 20), Apply_record ''ret_1'' ''rtg_1'' 2 (Aware 20)]"]
    by (auto simp: sample_flight_get(3) list_ex_iff)
qed

text \<open>Once a valid operation exists, claimant access is reported closed exactly
  when its identifiers fit the recovery event; a longer Claim or operation identifier, which
  the operation model admits, makes the question itself fail.\<close>

theorem access_denied_within_limits:
  assumes "retention_valid p"
  shows "if length (rt_claim_id p) \<le> 120 \<and> length (rt_operation_id p) \<le> 160
     then retention_access_closed (Some p) = Inr True
     else \<exists>e. retention_access_closed (Some p) = Inl e"
  by (rule access_closed_limits [OF assms])

theorem access_denied_within_limits_witness:
  "retention_access_closed (Some sample_retention) = Inr True"
  using access_denied_within_limits [OF sample_retention_valid] by (simp add: sample_retention_def)

text \<open>The two derivations of the status disagree: a satisfied step leaves the
  operation reserved while another target's latest attempt failed, although the status
  derived from the same evidence demands reconciliation.\<close>

theorem satisfied_step_hides_failure:
  assumes "retention_candidate_after_step p e now = Inr q" "retention_coordinates q"
    and "sv_status e = Step_satisfied"
    and "t \<in> set (rt_targets p)" "ta_target_id t \<noteq> sv_target_id e"
    and "snd (latest (rt_step_evidence p) (ta_target_id t)) \<in> {Step_failed, Step_unknown}"
  shows "rt_status q = Ret_reserved
    \<and> retention_next_status q False = Inr Ret_reconciliation_required"
  using step_status_divergence [OF assms(3-6)] assms(1,2) by (auto simp: candidate_Inr_iff)

definition sample_second_target :: cleanup_target where
  "sample_second_target = sample_target\<lparr>ta_target_id := ''rtg_2'', ta_record_id := ''msg_2''\<rparr>"

definition sample_failed :: retention_operation where
  "sample_failed = sample_retention\<lparr>rt_targets := [sample_target, sample_second_target],
     rt_status := Ret_reconciliation_required,
     rt_step_evidence := [sample_evidence\<lparr>sv_evidence_id := ''rse_2'', sv_target_id := ''rtg_2'',
       sv_status := Step_failed, sv_diagnostic_code := Some ''DATABASE_WRITE_FAILED''\<rparr>]\<rparr>"

theorem satisfied_step_hides_failure_witness:
  "\<exists>q. retention_candidate_after_step sample_failed sample_evidence (Aware 20) = Inr q
     \<and> rt_status q = Ret_reserved \<and> retention_next_status q False = Inr Ret_reconciliation_required"
proof -
  let ?q = "after_step sample_failed sample_evidence (Aware 20)"
  have valid: "retention_valid ?q"
    by (simp add: retention_valid_def validate_operation_def sample_failed_def
        sample_second_target_def sample_retention_defs validity bounded_text_def
        retention_time_guards_def retention_status_guards_def all_satisfied_def after_step_def
        status_after_step_def all_values_satisfied_def needs_reconciliation_def any_failed_def
        retention_target_statuses_def initial_statuses_def evidence_authorization_guards_def)
  then have "retention_candidate_after_step sample_failed sample_evidence (Aware 20) = Inr ?q"
    by (simp add: candidate_Inr_iff)
  moreover have "retention_coordinates ?q"
    using retention_valid_coordinates [OF valid] by (simp add: sample_failed_def sample_retention_def)
  moreover have "sample_second_target \<in> set (rt_targets sample_failed)"
    "ta_target_id sample_second_target \<noteq> sv_target_id sample_evidence"
    "sv_status sample_evidence = Step_satisfied"
    "snd (latest (rt_step_evidence sample_failed) (ta_target_id sample_second_target))
       \<in> {Step_failed, Step_unknown}"
    by (simp_all add: sample_failed_def sample_second_target_def sample_retention_defs latest_def
        latest_step_def)
  ultimately show ?thesis using satisfied_step_hides_failure by blast
qed

text \<open>A tombstone keeps only scalar values of fields that are approved for the type
  of the destroyed record, and nothing of a record type that is not listed.\<close>

theorem tombstone_minimal:
  assumes "(k, v) \<in> set (retention_tombstone_authority record_type payload)"
  shows "v \<noteq> Structured_value
    \<and> (\<exists>ks. dict_get RETENTION_TOMBSTONE_AUTHORITY_FIELDS record_type = Some ks \<and> k \<in> set ks)"
  by (rule tombstone_authority_facts [OF assms])

theorem tombstone_minimal_witness:
  "\<exists>ks. dict_get RETENTION_TOMBSTONE_AUTHORITY_FIELDS ''SessionRecord'' = Some ks
     \<and> ''status'' \<in> set ks"
proof -
  have "(''status'', Text_value ''paused'') \<in> set (retention_tombstone_authority ''SessionRecord''
      [(''session_id'', Text_value ''ses_1''), (''status'', Text_value ''paused'')])"
    by code_simp
  then show ?thesis using tombstone_minimal by blast
qed

section \<open>The repository of retention operations\<close>

text \<open>C34. Every sequence of retention and hold calls, failing calls included,
  keeps the store consistent: operations are stored under their identity, satisfy the model
  validators, and correspond one to one to the closed Claims.\<close>

theorem retention_run_invariant:
  assumes "retention_store_ok s" "admissible retention_allowed exec_retention s calls"
  shows "retention_store_ok (run exec_retention s calls)"
  by (rule retention_machine.run_inv [OF assms])

theorem retention_run_invariant_witness:
  "retention_store_ok (run exec_retention sample_store
     [Apply_record ''ret_1'' ''rtg_1'' 2 (Aware 20), Save_hold sample_hold])"
  by (rule retention_run_invariant [OF sample_store_ok(1)]) simp

text \<open>Every sequence of retention and hold calls only extends what the store
  records: operations keep their coordinates, frozen targets, authorizations and evidence,
  holds change only by release, tombstones and audit events stay, retired idempotency records
  stay retired, and the records that must be retained are untouched.\<close>

theorem retention_run_extends:
  assumes "retention_store_ok s" "admissible retention_allowed exec_retention s calls"
  shows "retention_grows s (run exec_retention s calls)"
  by (rule retention_machine.run_grows [OF assms])

theorem retention_run_extends_witness:
  "retention_grows sample_store (run exec_retention sample_store
     [Apply_record ''ret_1'' ''rtg_1'' 2 (Aware 20), Step_failure ''ret_1'' ''rtg_1'' 3 Step_failed ''X'' (Aware 30)])"
  by (rule retention_run_extends [OF sample_store_ok(1)]) simp

text \<open>C35. While a hold on the Claim is active, freezing, authorizing an object deletion and
  applying a record target change nothing, and the result of a deletion already in flight is
  recorded with the operation held.\<close>

theorem hold_stops_cleanup:
  assumes "dict_get (st_retention_operations s) i = Some p" "active_hold_ids s (rt_claim_id p) \<noteq> []"
  shows "(freeze_retention_targets s i rv now = Inr (s1, q1) \<longrightarrow> s1 = s)
    \<and> (authorize_retention_object_target s i tid rv now = Inr (s2, q2, a) \<longrightarrow> s2 = s)
    \<and> (apply_retention_record_target s i tid rv now = Inr (s3, q3) \<longrightarrow> s3 = s)
    \<and> (record_retention_object_result s i aid outcome now = Inr (s4, q4)
         \<longrightarrow> s4 = s \<or> rt_status q4 = Ret_held)"
  using hold_blocks_freeze [OF assms] hold_blocks_authorization [OF assms]
    hold_blocks_application [OF assms] hold_keeps_result [OF assms] by blast

theorem hold_stops_cleanup_witness:
  "\<not> (\<exists>s' q. apply_retention_record_target sample_held_store ''ret_1'' ''rtg_1'' 2 (Aware 20) = Inr (s', q)
       \<and> s' \<noteq> sample_held_store)"
proof -
  have "active_hold_ids sample_held_store (rt_claim_id sample_cleanup) \<noteq> []"
    using sample_store_get by simp
  from hold_stops_cleanup [OF sample_store_get(2) this] show ?thesis by blast
qed

text \<open>A record target is applied only after the latest attempt on every object of the
  operation is satisfied.\<close>

theorem objects_before_records:
  assumes "apply_retention_record_target s i tid rv now = Inr (s', q)" "s' \<noteq> s"
    and "dict_get (st_retention_operations s) i = Some p" "t \<in> set (rt_targets p)"
    and "ta_kind t = Target_object_bytes"
  shows "snd (latest (rt_step_evidence p) (ta_target_id t)) = Step_satisfied"
  by (rule objects_first [OF assms])

text \<open>The message target of the example is applied: the message is erased.\<close>

lemma sample_advanced:
  "\<exists>q. advance_record_target sample_cleanup sample_target Step_satisfied None (Aware 30) = Inr q
     \<and> rt_operation_id q = ''ret_1''"
proof -
  let ?e = "step_record sample_cleanup sample_target (retention_next_attempt sample_cleanup ''rtg_1'')
    Step_satisfied None None None (Aware 30)"
  have attempt: "retention_next_attempt sample_cleanup ''rtg_1'' = 1"
    by (simp add: retention_next_attempt_def sample_cleanup_defs)
  have len: "length (sv_evidence_id ?e) = 36"
    by (simp add: step_record_def retention_step_evidence_id_def length_stable_record_id)
  have "validate_step_evidence ?e = Inr ?e"
    using len
    by (simp add: validate_step_evidence_def bounded_text_def attempt)
      (simp add: step_record_def sample_cleanup_defs bounded_text_def)
  moreover have "sv_evidence_id ?e \<notin> sv_evidence_id ` set (rt_step_evidence sample_cleanup)"
    using len by (auto simp: sample_cleanup_defs)
  ultimately have step: "retention_candidate_after_step sample_cleanup ?e (Aware 30)
      = Inr (after_step sample_cleanup ?e (Aware 30))"
    using sample_cleanup_valid
    by (intro after_step_valid)
      (auto simp: step_record_def sample_cleanup_defs evidence_authorized_def
        evidence_authorization_guards_def)
  have "validate_retention_operation_transition sample_cleanup (after_step sample_cleanup ?e (Aware 30)) = Inr ()"
    by (rule candidate_transition [OF step]) (simp_all add: sample_cleanup_def sample_retention_def)
  then show ?thesis
    using \<open>validate_step_evidence ?e = Inr ?e\<close> step attempt
    by (simp add: advance_record_target_def new_step_evidence_def sample_target_def after_step_def
        sample_cleanup_def sample_retention_def)
qed

lemma sample_applied:
  "\<exists>s' q. apply_retention_record_target sample_store ''ret_1'' ''rtg_1'' 2 (Aware 30) = Inr (s', q)
     \<and> st_messages s' = []"
proof -
  obtain q where "advance_record_target sample_cleanup sample_target Step_satisfied None (Aware 30) = Inr q"
    using sample_advanced by blast
  moreover have "cleanup_decision sample_store sample_cleanup sample_target (Aware 30) = Inr Erase"
    by (simp add: cleanup_decision_def regular_record_def sample_target_def sample_store_defs)
  moreover have "find_target sample_cleanup ''rtg_1'' = Some sample_target"
    "\<not> target_satisfied sample_cleanup ''rtg_1''" "\<not> object_incomplete sample_cleanup"
    "passes (freeze_blockers sample_store ''clm_1'')" "active_hold_ids sample_store ''clm_1'' = []"
    by (simp_all add: find_target_def target_satisfied_def object_incomplete_def sample_cleanup_defs
        retention_target_statuses_def initial_statuses_def freeze_blockers_def recovery_open_def
        external_unknown_def staff_work_open_def handoff_open_def runtime_items_def sample_store_defs
        active_hold_ids_def)
  ultimately have "apply_retention_record_target sample_store ''ret_1'' ''rtg_1'' 2 (Aware 30)
      = Inr (store_retention q (apply_effect sample_cleanup sample_target Erase sample_store), q)"
    using sample_store_get
    by (simp add: apply_retention_record_target_def guarded_append effect_step_def sample_cleanup_def
        sample_retention_def sample_target_def freeze_blockers_def)
  then show ?thesis
    by (simp add: apply_effect_def sample_target_def erase_message_def sample_store_defs
        store_retention_def dict_pop_def)
qed

theorem objects_before_records_witness:
  "snd (latest (rt_step_evidence sample_cleanup) ''rtg_0'') = Step_satisfied"
proof -
  obtain s' q where applied: "apply_retention_record_target sample_store ''ret_1'' ''rtg_1'' 2 (Aware 30) = Inr (s', q)"
    and "s' \<noteq> sample_store"
    using sample_applied by (force simp: sample_store_def)
  then show ?thesis
    using objects_before_records [OF applied _ sample_store_get(1), of sample_object]
    by (simp add: sample_cleanup_def sample_object_def)
qed

text \<open>C36. When applying a target changes a stored record, the record is the one a frozen
  target names, and either its type is erased outright or a tombstone of the operation that
  names the record is left behind.\<close>

theorem destroyed_behind_tombstone:
  assumes "apply_retention_record_target s i tid rv now = Inr (s', q)"
    and "dict_get (st_retention_operations s) i = Some p" "unique_keys (st_evidence_links s)"
    and "regular_record s' x \<noteq> regular_record s x"
  shows "\<exists>t\<in>set (rt_targets p). ta_target_id t = tid \<and> ta_record_type t = ta_record_type x
    \<and> ta_record_id t = ta_record_id x
    \<and> (ta_classification t = Class_delete
       \<or> (\<exists>b. dict_get (st_retention_tombstones s') tid = Some b \<and> rb_operation_id b = rt_operation_id p
            \<and> rb_source_record_type b = ta_record_type x \<and> rb_source_record_id b = ta_record_id x))"
  by (rule apply_destroys [OF assms])

theorem destroyed_behind_tombstone_witness:
  "\<exists>t\<in>set (rt_targets sample_cleanup). ta_target_id t = ''rtg_1'' \<and> ta_record_id t = ''msg_1''"
proof -
  obtain s' q where applied: "apply_retention_record_target sample_store ''ret_1'' ''rtg_1'' 2 (Aware 30) = Inr (s', q)"
    and "st_messages s' = []" using sample_applied by blast
  then have "regular_record s' sample_target \<noteq> regular_record sample_store sample_target"
    by (simp add: regular_record_def sample_target_def sample_store_def)
  moreover have "unique_keys (st_evidence_links sample_store)"
    by (simp add: unique_keys_def sample_store_defs)
  ultimately show ?thesis
    using destroyed_behind_tombstone [OF applied sample_store_get(1)] by (fastforce simp: sample_target_def)
qed

text \<open>C37. Once an eligible Claim is reserved for retention, the claimant's idempotency
  records are retired, and after any further retention and hold calls no customer can read
  the Claim.\<close>

theorem access_closed_forever:
  assumes "retention_store_ok s" "retention_valid p" "fresh_identity s p"
    and "reserve_eligible_retention_operation s p = Inr (s', q)"
    and "admissible retention_allowed exec_retention s' calls"
  shows "get_claim (run exec_retention s' calls) (rt_claim_id p) customer = None
    \<and> (\<forall>c k r. s' \<noteq> s \<and> dict_get (st_claims s) (rt_claim_id p) = Some c
         \<and> dict_get (st_idempotency s') k = Some r \<and> im_claim_id r = rt_claim_id p
         \<and> im_actor_id r = wc_customer_id c \<longrightarrow> im_retired r)"
proof -
  have "exec_retention s (Reserve_eligible p) = Inr s'" using assms(4) by simp
  then have "retention_store_ok s'" using exec_retention_ok [OF assms(1), of "Reserve_eligible p"] assms(2,3) by simp
  then have "claim_access_closed (run exec_retention s' calls) (rt_claim_id p)"
    using retention_machine.run_grows assms(5) grows_closed reserve_closes [OF assms(4)] by blast
  then show ?thesis using closed_no_claim reserve_retires [OF assms(4)] by blast
qed

lemma sample_reserved:
  "reserve_eligible_retention_operation sample_terminal_store sample_reservation
     = Inr (close_access sample_reservation sample_terminal_store, sample_reservation)"
  using sample_authority
  by (simp add: reserve_eligible_retention_operation_def validate_retention_eligibility_source_def
      recovery_open_def external_unknown_def staff_work_open_def handoff_open_def runtime_items_def
      active_hold_ids_def reservation_candidate_def initial_retention_shape_def
      retire_claimant_records_def close_access_def store_retention_def
      sample_store_defs sample_reservation_def sample_retention_def)

theorem access_closed_forever_witness:
  "get_claim (run exec_retention (close_access sample_reservation sample_terminal_store)
     [Save_hold sample_hold]) ''clm_1'' ''cus_1'' = None"
proof -
  have "fresh_identity sample_terminal_store sample_reservation"
    by (simp add: fresh_identity_def sample_store_defs)
  then show ?thesis
    using access_closed_forever [OF sample_store_ok(2) sample_reservation_valid _ sample_reserved,
        of "[Save_hold sample_hold]" "''cus_1''"]
    by (simp add: sample_reservation_def sample_retention_def)
qed

text \<open>Freezing succeeds only when a target can be built for every record the
  Claim owns, and the frozen targets are exactly those: nothing of the inventory is left out
  and nothing else is added.\<close>

theorem inventory_frozen_completely:
  assumes "freeze_retention_targets s i rv now = Inr (s', q)"
    and "dict_get (st_retention_operations s) i = Some p" "rt_targets_frozen_at p = None"
  shows "\<exists>c. dict_get (st_claims s) (rt_claim_id p) = Some c
     \<and> ta_target_id ` set (rt_targets q) =
         {ta_target_id t |t spec. spec \<in> set (cleanup_inventory s c (rt_claim_id p))
            \<and> build_target p spec = Inr t}
     \<and> (\<forall>spec\<in>set (cleanup_inventory s c (rt_claim_id p)). \<exists>t. build_target p spec = Inr t)
     \<and> (\<forall>t\<in>set (rt_targets q). \<exists>spec\<in>set (cleanup_inventory s c (rt_claim_id p)).
          build_target p spec = Inr t)"
  by (rule freeze_complete [OF assms])

definition sample_reserved_store :: store where
  "sample_reserved_store = close_access sample_reservation sample_terminal_store"

lemma sample_frozen:
  "\<exists>s' q. freeze_retention_targets sample_reserved_store ''ret_1'' 1 (Aware 20) = Inr (s', q)"
proof -
  obtain t where t: "t = \<lparr>ta_target_id = stable_record_id ''rtg''
      (join ''|'' [''ret_1'', ''mongo_record'', ''WorkingClaim'', ''clm_1'', ''anonymise'']),
      ta_kind = Target_mongo_record, ta_record_type = ''WorkingClaim'', ta_record_id = ''clm_1'',
      ta_classification = Class_anonymise, ta_storage_key = None,
      ta_source_refs = [''claim-terminal:clm_1:revision:5'', ''claim:clm_1'']\<rparr>" by blast
  have len: "length (ta_target_id t) = 36" by (simp add: t length_stable_record_id)
  have "dict_get RETENTION_STORAGE_TARGETS ''claim'' = Some (''WorkingClaim'', Class_anonymise)"
    "fromkeys [''claim-terminal:clm_1:revision:5'', ''claim:clm_1'']
       = [''claim-terminal:clm_1:revision:5'', ''claim:clm_1'']"
    by code_simp+
  then have "build_target sample_reservation (Record_target ''claim'' ''clm_1'' [''claim:clm_1'']) = Inr t"
    using len
    by (simp add: build_target_def build_retention_cleanup_target_def target_kind_text_def
        classification_text_def sample_reservation_def sample_retention_def t validate_target_def
        bounded_text_def)
  moreover have "cleanup_inventory sample_reserved_store sample_terminal_claim ''clm_1''
      = [Record_target ''claim'' ''clm_1'' [''claim:clm_1'']]"
    by (simp add: cleanup_inventory_def conversation_targets_def external_targets_def
        control_targets_def work_item_targets_def runtime_items_def records_of_def
        sample_reserved_store_def close_access_def store_retention_def sample_store_defs
        sample_terminal_claim_def sample_claim_def)
  moreover have "replace_operation s sample_reservation (frozen_operation sample_reservation [t] (Aware 20))
      = Inr (store_retention (frozen_operation sample_reservation [t] (Aware 20)) s,
             frozen_operation sample_reservation [t] (Aware 20))" for s
    unfolding replace_operation_Inr_iff retention_step_def retention_valid_def transition_Inr_iff
    using len
    by (simp add: validate_operation_def frozen_operation_def sample_reservation_def
        sample_retention_def validity bounded_text_def retention_time_guards_def
        retention_status_guards_def all_satisfied_def needs_reconciliation_def any_failed_def
        retention_target_statuses_def initial_statuses_def same_coordinates_def
        active_authorization_guards_def)
  ultimately show ?thesis
    using sample_authority
    by (simp add: freeze_retention_targets_def sample_reserved_store_def close_access_def
        store_retention_def sample_store_defs sample_reservation_def sample_retention_def
        freeze_shape_def active_hold_ids_def freeze_blockers_def recovery_open_def
        external_unknown_def staff_work_open_def handoff_open_def runtime_items_def sorted_targets_def)
qed

theorem inventory_frozen_completely_witness:
  "\<exists>q s'. freeze_retention_targets sample_reserved_store ''ret_1'' 1 (Aware 20) = Inr (s', q)
     \<and> (\<exists>c. dict_get (st_claims sample_reserved_store) ''clm_1'' = Some c
          \<and> \<not> (\<exists>spec\<in>set (cleanup_inventory sample_reserved_store c ''clm_1'').
               \<not> (\<exists>t. build_target sample_reservation spec = Inr t)))"
proof -
  obtain s' q where "freeze_retention_targets sample_reserved_store ''ret_1'' 1 (Aware 20) = Inr (s', q)"
    using sample_frozen by blast
  moreover have "dict_get (st_retention_operations sample_reserved_store) ''ret_1'' = Some sample_reservation"
    "rt_targets_frozen_at sample_reservation = None" "rt_claim_id sample_reservation = ''clm_1''"
    by (simp_all add: sample_reserved_store_def close_access_def sample_reservation_def sample_retention_def)
  ultimately show ?thesis
    using inventory_frozen_completely [of sample_reserved_store "''ret_1''" 1 "Aware 20" s' q sample_reservation]
    by auto
qed

text \<open>On a consistent store the linear scan that the hold operations use to find the
  operation of a Claim returns what the index from Claims to operations returns.\<close>

theorem claim_scan_is_index:
  assumes "retention_store_ok s"
  shows "operation_of_claim s c = get_retention_operation_for_claim s c"
  by (rule operation_of_claim_iff [OF assms])

theorem claim_scan_is_index_witness:
  "operation_of_claim sample_store ''clm_1'' = get_retention_operation_for_claim sample_store ''clm_1''"
  by (rule claim_scan_is_index [OF sample_store_ok(1)])

text \<open>C38. Following the cursors of the discovery of pending operations always ends,
  and the pages together list every pending operation exactly once, in order, no page longer
  than the limit.\<close>

theorem pending_sweep_terminates:
  assumes "retention_store_ok s" "1 \<le> limit" "limit \<le> 100"
  shows "\<exists>pages. swept s limit None pages
    \<and> concat pages = sort_key pending_key (filter pending_operation (dict_values (st_retention_operations s)))
    \<and> (\<forall>page\<in>set pages. int (length page) \<le> limit)"
  by (rule pending_sweep_complete [OF assms])

theorem pending_sweep_terminates_witness:
  "\<exists>pages. swept sample_store 10 None pages \<and> concat pages = [sample_cleanup]"
proof -
  have "sort_key pending_key (filter pending_operation (dict_values (st_retention_operations sample_store)))
      = [sample_cleanup]"
    by (simp add: sample_store_defs pending_operation_def sample_cleanup_def sample_retention_def)
  then show ?thesis using pending_sweep_terminates [OF sample_store_ok(1), of 10] by auto
qed

section \<open>Message histories\<close>

text \<open>C39. The history of a session is a permutation of its messages in which every
  message follows the message it replies to, and it does not depend on the order in which
  the messages are given.\<close>

theorem message_history_order:
  assumes "distinct (message_ids messages)" "validate_message_graph messages = Inr ()"
  shows "mset (order_messages messages) = mset messages
    \<and> causal messages (order_messages messages)
    \<and> (\<forall>messages'. mset messages' = mset messages \<longrightarrow> order_messages messages' = order_messages messages)"
  using order_messages_permutation [OF assms(1)] validated_order_causal [OF assms]
    order_messages_canonical [OF assms(1)] by metis

lemma sample_history:
  "distinct (message_ids [sample_reply, sample_message])"
  "validate_message_graph [sample_reply, sample_message] = Inr ()"
  by (simp add: message_ids_def sample_reply_def sample_message_def) code_simp

theorem message_history_order_witness:
  "causal [sample_reply, sample_message] (order_messages [sample_reply, sample_message])"
  using message_history_order [OF sample_history] by blast

text \<open>C40. The depth-first check of the reply graph accepts a set of messages exactly when
  the reply relation among them has no cycle.\<close>

theorem reply_check_exact:
  assumes "distinct (message_ids messages)"
  shows "validate_message_graph messages = Inr () \<longleftrightarrow> acyclic (reply_edges messages)"
  by (simp only: message_graph_valid_iff next_edges_distinct [OF assms])

theorem reply_check_exact_witness:
  "acyclic (reply_edges [sample_reply, sample_message])"
  using reply_check_exact [OF sample_history(1)] sample_history(2) by blast

section \<open>The repository of recovery obligations\<close>

text \<open>C4. Every sequence of recovery commits, checkpoints and resumptions,
  failing calls included, keeps the store consistent: the attempt count of every Follow-up is
  the number of its committed attempts and at most three, sequences are unique, a Claim has at
  most one open recovery obligation and none while it has an active session, and the message
  index names stored messages only.\<close>

theorem recovery_run_invariant:
  assumes "recovery_store_ok s" "admissible recovery_allowed exec_recovery s calls"
  shows "recovery_store_ok (run exec_recovery s calls)"
  by (rule recovery_machine.run_inv [OF assms])

theorem recovery_run_invariant_witness:
  "recovery_store_ok (run exec_recovery sample_recovery_store
     [Due_attempt sample_follow_up (dt_follow_up sample_attempt) (dt_operation sample_attempt) None
        sample_reminder ''cus_1'' sample_event,
      Withdrawal 4 (dt_follow_up sample_attempt) sample_follow_up None ''cus_1'' sample_event])"
  by (rule recovery_run_invariant [OF sample_recovery_store_ok])
    (simp add: sample_recovery_store_def empty_store_def)

text \<open>C31. Every sequence of recovery commits only extends what the store records:
  a resolved Follow-up is final, attempt counts never fall, a terminal disposition stays, an
  operation keeps its identity and its commit time and changes only while it is open, and
  messages, audit events and idempotency records are only added.\<close>

theorem recovery_run_extends:
  assumes "recovery_store_ok s" "admissible recovery_allowed exec_recovery s calls"
  shows "recovery_grows s (run exec_recovery s calls)"
  by (rule recovery_machine.run_grows [OF assms])

theorem recovery_run_extends_witness:
  "recovery_grows sample_recovery_store (run exec_recovery sample_recovery_store
     [Due_attempt sample_follow_up (dt_follow_up sample_attempt) (dt_operation sample_attempt) None
        sample_reminder ''cus_1'' sample_event])"
  by (rule recovery_run_extends [OF sample_recovery_store_ok])
    (simp add: sample_recovery_store_def empty_store_def)

text \<open>C27. A commit takes effect once. A due attempt that is sent again, by the same or
  by another worker, is answered as done and changes nothing; an expiry that is sent again is
  refused with the revision that the first one wrote.\<close>

theorem commits_apply_once:
  assumes "recovery_store_ok s"
  shows "(commit_due_follow_up_attempt s f g p q m customer e = Inr s' \<longrightarrow>
      commit_due_follow_up_attempt s' f g p q m customer e = Inr s')
    \<and> (commit_recovery_expiry s revision f c g r customer e = Inr s' \<longrightarrow>
      commit_recovery_expiry s' revision f c g r customer e = Inl (RevisionConflict (revision + 1)))"
  using due_commit_replays [OF assms] expiry_refused_again [OF assms] by blast

theorem commits_apply_once_witness:
  "\<exists>s'. commit_due_follow_up_attempt sample_recovery_store sample_follow_up (dt_follow_up sample_attempt)
      (dt_operation sample_attempt) (dt_settled_previous sample_attempt) sample_reminder ''cus_1''
      sample_event = Inr s'
    \<and> commit_due_follow_up_attempt s' sample_follow_up (dt_follow_up sample_attempt)
      (dt_operation sample_attempt) (dt_settled_previous sample_attempt) sample_reminder ''cus_1''
      sample_event = Inr s'"
proof -
  have "wc_customer_id sample_claim = ''cus_1''" "ms_created_at sample_reminder = Aware 60"
    by (simp_all add: sample_claim_def sample_reminder_def)
  moreover have "dict_get (st_messages sample_recovery_store) i = None"
    "dict_get (st_follow_up_operations sample_recovery_store) j = None" for i j
    by (simp_all add: sample_recovery_store_def empty_store_def)
  ultimately obtain s' where "commit_due_follow_up_attempt sample_recovery_store sample_follow_up
      (dt_follow_up sample_attempt) (dt_operation sample_attempt) (dt_settled_previous sample_attempt)
      sample_reminder ''cus_1'' sample_event = Inr s'"
    using due_committed [OF sample_due_ready _ sample_reminder_plain _ _ sample_event_prepared, of sample_attempt]
    by (auto simp: sample_attempt_def sample_recovery_get(4))
  then show ?thesis using commits_apply_once [OF sample_recovery_store_ok] by blast
qed

section \<open>The services and the worker\<close>

text \<open>C16. The worker contacts every due obligation: on a consistent store, one
  call of the due service on a scheduled obligation of an open Claim, at any time from its due
  time to its deadline, commits exactly the attempt the contract prescribes and stores the
  claimant-visible message, provided that the derived identities are new.\<close>

theorem due_obligation_contacted:
  assumes "due_ready s c x rc f now"
    and "t = due_outcome c x rc f (operations_of s (fu_claim_id f) (fu_follow_up_id f)) now"
    and "dict_get (st_follow_up_operations s) (op_operation_id (dt_operation t)) = None"
    and "dict_get (st_messages s) (''msg_recovery_'' @ default_digest (op_operation_id (dt_operation t))) = None"
    and "dict_get (st_audit_events s) (''aud_recovery_'' @ default_digest (''due:'' @
          op_operation_id (dt_operation t) @ '':'' @ wc_claim_id c)) = None"
    and "fu_claim_id candidate = fu_claim_id f" "fu_follow_up_id candidate = fu_follow_up_id f"
  shows "\<exists>s' m. process_due_follow_up candidate now s = (Inr (Some t), s')
    \<and> dict_get (st_follow_ups s') (fu_follow_up_id f) = Some (dt_follow_up t)
    \<and> dict_get (st_follow_up_operations s') (op_operation_id (dt_operation t)) = Some (dt_operation t)
    \<and> dict_get (st_messages s') (ms_message_id m) = Some m \<and> ms_session_id m = fu_source_session_id f
    \<and> ms_actor m = Actor_agent \<and> ms_visibility m = Claimant_visible"
  by (rule due_contacted [OF assms])

theorem due_obligation_contacted_witness:
  "\<exists>s'. process_due_follow_up sample_follow_up (Aware 60) sample_recovery_store
      = (Inr (Some sample_attempt), s')
    \<and> dict_get (st_follow_ups s') ''fup_1'' = Some (dt_follow_up sample_attempt)"
proof -
  have "dict_get (st_messages sample_recovery_store) i = None"
    "dict_get (st_follow_up_operations sample_recovery_store) i = None"
    "dict_get (st_audit_events sample_recovery_store) i = None" for i
    by (simp_all add: sample_recovery_store_def empty_store_def)
  moreover have "sample_attempt = due_outcome sample_claim sample_session sample_context sample_follow_up
      (operations_of sample_recovery_store (fu_claim_id sample_follow_up) (fu_follow_up_id sample_follow_up))
      (Aware 60)"
    by (simp add: sample_attempt_def sample_recovery_get(4))
  moreover have "fu_follow_up_id sample_follow_up = ''fup_1''" by (simp add: sample_follow_up_def)
  ultimately show ?thesis using due_obligation_contacted [OF sample_due_ready] by metis
qed

text \<open>C17. Expiry ends in closed access: at or after the deadline of an open
  obligation the expiry service closes it and makes the Claim terminal, and the handoff that
  follows in the same cycle reserves its retention, after which the Claim is closed, unless
  other work on the Claim blocks the reservation.\<close>

theorem expired_claim_loses_access:
  assumes "expiry_ready s c x rc f now"
    and "dict_get (st_audit_events s) (''aud_recovery_'' @ default_digest (''expiry:'' @
          fu_follow_up_id f @ '':'' @ wc_claim_id c)) = None"
    and "fu_claim_id candidate = fu_claim_id f" "fu_follow_up_id candidate = fu_follow_up_id f"
    and "\<not> external_unknown s (fu_claim_id f)" "\<not> staff_work_open s (fu_claim_id f)"
      "\<not> handoff_open s (fu_claim_id f)" "active_hold_ids s (fu_claim_id f) = []"
    and "\<And>p. p \<in> set (dict_values (st_follow_up_operations s)) \<Longrightarrow> op_claim_id p = fu_claim_id f \<Longrightarrow>
      is_open_operation p \<Longrightarrow> op_follow_up_id p = fu_follow_up_id f"
    and "length (retention_terminal_source_ref (wc_claim_id c) (wc_revision c + 1)) \<le> 240"
  shows "\<exists>s' p s''. process_expiring_follow_up candidate now s = (Inr (Some (expiry_outcome s c f now)), s')
    \<and> reserve_retention_from_terminal (fu_claim_id f) now s' = (Inr p, s'')
    \<and> (\<forall>customer. get_claim s'' (fu_claim_id f) customer = None)"
  using expired_then_reserved [OF assms] closed_no_claim by blast

theorem expired_claim_loses_access_witness:
  "\<exists>s' p s''. process_expiring_follow_up sample_follow_up (Aware 604800000000) sample_recovery_store
      = (Inr (Some (expiry_outcome sample_recovery_store sample_claim sample_follow_up (Aware 604800000000))), s')
    \<and> reserve_retention_from_terminal ''clm_1'' (Aware 604800000000) s' = (Inr p, s'')
    \<and> get_claim s'' ''clm_1'' ''cus_1'' = None"
proof -
  have "decimal 5 = ''5''" by code_simp
  then have "length (retention_terminal_source_ref (wc_claim_id sample_claim) (wc_revision sample_claim + 1)) \<le> 240"
    by (simp add: retention_terminal_source_ref_def sample_claim_def)
  moreover have "fu_claim_id sample_follow_up = ''clm_1''" by (simp add: sample_follow_up_def)
  ultimately show ?thesis
    using expired_claim_loses_access [OF sample_expiry_ready, of sample_follow_up]
    by (simp add: sample_recovery_store_def empty_store_def external_unknown_def staff_work_open_def
        handoff_open_def runtime_items_def active_hold_ids_def) blast
qed

text \<open>Whatever the object store answers, the execution of a cleanup leaves a
  consistent store in which the operations are only extended, tombstones and audit events stay
  and the records that must be retained are untouched, also when it ends with an error.\<close>

theorem cleanup_keeps_store:
  assumes "retention_store_ok s"
  shows "retention_store_ok (fst (snd (execute_retention_cleanup storage operation_id now (s, w))))
    \<and> retention_grows s (fst (snd (execute_retention_cleanup storage operation_id now (s, w))))"
  using cleanup.cleanup_service [of "(s, w)" storage operation_id now] assms by (simp add: retention_safe_def)

theorem cleanup_keeps_store_witness:
  "retention_store_ok (fst (snd (execute_retention_cleanup delete_upload ''ret_1'' (Aware 30)
     (sample_store, sample_storage))))"
  by (rule conjunct1 [OF cleanup_keeps_store [OF sample_store_ok(1)]])

text \<open>C8. The object store is asked to delete only what the durable record
  covers: every deletion the cleanup asks for names a frozen object target of the operation, by
  its Claim, record and storage key, for which an authorization is recorded. While a hold is active
  the only object asked for is the one whose deletion was authorized before and is still unanswered,
  so nothing is asked for if no authorization is in force.\<close>

theorem provider_calls_authorized:
  assumes "retention_store_ok s" "dict_get (st_retention_operations s) i = Some p"
    and "execute_retention_cleanup (recording storage) i now (s, w, []) = (r, s', w', calls)"
  shows "list_all (covered i s') calls
    \<and> (active_hold_ids s (rt_claim_id p) \<noteq> [] \<longrightarrow> list_all (in_flight p) calls
        \<and> (rt_active_delete_authorization_id p = None \<longrightarrow> calls = []))"
proof -
  have "calls = []" if "list_all (in_flight p) calls" "rt_active_delete_authorization_id p = None"
    using that by (cases calls) auto
  then show ?thesis using cleanup_covered [OF assms] by blast
qed

theorem provider_calls_authorized_witness:
  "\<exists>r s' w' calls. execute_retention_cleanup (recording delete_upload) ''ret_1'' (Aware 30)
       (sample_flight_store, sample_storage, []) = (r, s', w', calls)
     \<and> list_all (covered ''ret_1'' s') calls \<and> list_all (in_flight sample_flight) calls"
proof -
  obtain r s' w' calls where run: "execute_retention_cleanup (recording delete_upload) ''ret_1'' (Aware 30)
       (sample_flight_store, sample_storage, []) = (r, s', w', calls)" by (metis surj_pair)
  then show ?thesis
    using provider_calls_authorized [OF sample_flight_ok sample_flight_get(1) run] sample_flight_get(4) by auto
qed

text \<open>C33. A saved checkpoint is found again: after an incomplete checkpoint on a
  consistent store, the search that resumption and staff abandonment start from returns exactly
  the session and the Follow-up that were saved, whatever else the store holds, as long as the
  Claim is not created and may be resumed.\<close>

theorem checkpoint_found_again:
  assumes "recovery_store_ok s" "keyed se_session_id (st_sessions s)"
    and "save_incomplete_checkpoint s c revision x f record = Inr s'"
    and "recovery_allowed s (Checkpoint c revision x f record)" "recovery_checkpoint_allowed c"
  shows "find_incomplete_recovery s' c None = Some (x, f)"
  by (rule checkpoint_found [OF assms])

theorem checkpoint_found_again_witness:
  "\<exists>s'. save_incomplete_checkpoint sample_active_store sample_claim 3 sample_session sample_follow_up
        sample_checkpoint_key = Inr s'
    \<and> find_incomplete_recovery s' sample_claim None = Some (sample_session, sample_follow_up)"
proof -
  obtain s' where "save_incomplete_checkpoint sample_active_store sample_claim 3 sample_session
      sample_follow_up sample_checkpoint_key = Inr s'"
    using sample_checkpoint_saved by blast
  then show ?thesis
    using checkpoint_found_again [OF sample_active_ok(1,2) _ sample_active_ok(3,4)] by blast
qed

text \<open>Whatever the store and whatever the object store answers, a worker cycle leaves
  the holds alone, never reopens a closed Claim, keeps every tombstone and every audit event,
  never revives a retired idempotency record and leaves staff work alone.\<close>

theorem cycle_never_undoes:
  "cycle_grows s (fst (snd (run_recovery_cycle storage now limit handoff_cursor pending_cursor (s, w))))"
  using cycle.cycle_service [of "(s, w)"] by simp


end
